(* ===== verification/FI_Prelude.thy ===== *)
theory FI_Prelude
  imports Main "HOL-Library.Word" "HOL-Library.Char_ord" "HOL-Library.List_Lexorder"
begin

text \<open>
  The prelude of the File Intelligence (FI) development: the Go values every component
  uses and the generic lemmas the component theories share.

  \<^item> A Go \<^verbatim>\<open>byte\<close> is an Isabelle \<^typ>\<open>char\<close> (both are exactly eight bits), so a Go
    \<^verbatim>\<open>[]byte\<close> and a Go \<^verbatim>\<open>string\<close> (an immutable byte sequence) are both \<^typ>\<open>string\<close>
    and \<^verbatim>\<open>string(b)\<close>, \<^verbatim>\<open>[]byte(s)\<close> are the identity. \<^verbatim>\<open>uint32\<close>, \<^verbatim>\<open>uint64\<close> are words.
  \<^item> A Go \<^verbatim>\<open>error\<close> result is an \<open>'e option\<close> (\<open>None\<close> is \<^verbatim>\<open>nil\<close>); a pair
    \<^verbatim>\<open>(T, error)\<close> is a sum \<open>'e + 't\<close>. Each package has its own error datatype, one
    constructor per error return; formatted arguments of a message are left out.
  \<^item> An \<^verbatim>\<open>io.Reader\<close> is the list of bytes it still delivers before \<^verbatim>\<open>io.EOF\<close>.
  \<^item> \<^verbatim>\<open>encoding/binary\<close>, \<^verbatim>\<open>encoding/hex\<close>, \<^verbatim>\<open>unicode/utf8\<close>, \<^verbatim>\<open>io.ReadFull\<close> and the few
    functions of \<^verbatim>\<open>strings\<close> the sources call are defined here as Go documents them.
\<close>

named_theorems fi_len \<open>lengths of the encoders\<close>
named_theorems fi_inv \<open>inversion of successful checks and reads\<close>

type_synonym byte = char
type_synonym bytes = "char list"
type_synonym uint8 = "8 word"
type_synonym uint16 = "16 word"
type_synonym uint32 = "32 word"
type_synonym uint64 = "64 word"

section \<open>Errors and sequencing\<close>

definition fail_if :: "bool \<Rightarrow> 'e \<Rightarrow> 'e option" where
  "fail_if c e = (if c then Some e else None)"

text \<open>A run of statements \<^verbatim>\<open>if err := f(); err != nil { return err }\<close>: the first error.\<close>

fun first_err :: "'e option list \<Rightarrow> 'e option" where
  "first_err [] = None"
| "first_err (x # xs) = (case x of None \<Rightarrow> first_err xs | Some e \<Rightarrow> Some e)"

fun bindE :: "'e + 'a \<Rightarrow> ('a \<Rightarrow> 'e + 'b) \<Rightarrow> 'e + 'b" where
  "bindE (Inl e) f = Inl e"
| "bindE (Inr x) f = f x"

definition check :: "'e option \<Rightarrow> 'e + unit" where
  "check r = (case r of None \<Rightarrow> Inr () | Some e \<Rightarrow> Inl e)"

definition map_err :: "('e \<Rightarrow> 'f) \<Rightarrow> 'e + 'a \<Rightarrow> 'f + 'a" where
  "map_err f r = (case r of Inl e \<Rightarrow> Inl (f e) | Inr x \<Rightarrow> Inr x)"

lemma fail_if_None [simp]: "fail_if c e = None \<longleftrightarrow> \<not> c"
  by (simp add: fail_if_def)

lemma fail_if_simps [simp]: "fail_if True e = Some e" "fail_if False e = None"
  by (simp_all add: fail_if_def)

lemma fail_if_Some [simp]: "fail_if c e = Some e' \<longleftrightarrow> c \<and> e' = e"
  by (auto simp: fail_if_def)

declare first_err.simps(2) [simp del]

lemma first_err_Cons [simp]:
  "first_err (None # xs) = first_err xs" "first_err (Some e # xs) = Some e"
  by (simp_all add: first_err.simps)

lemma first_err_Cons_None [simp]:
  "first_err (x # xs) = None \<longleftrightarrow> x = None \<and> first_err xs = None"
  by (cases x) simp_all

lemma first_err_None_iff: "first_err xs = None \<longleftrightarrow> (\<forall>x\<in>set xs. x = None)"
  by (induction xs) auto

lemma bindE_Inr_iff [simp]: "bindE r f = Inr y \<longleftrightarrow> (\<exists>x. r = Inr x \<and> f x = Inr y)"
  by (cases r) auto

lemma bindE_Inl_iff: "bindE r f = Inl e \<longleftrightarrow> r = Inl e \<or> (\<exists>x. r = Inr x \<and> f x = Inl e)"
  by (cases r) auto

lemma check_Inr [simp]: "check r = Inr u \<longleftrightarrow> r = None"
  by (cases r) (auto simp: check_def)

lemma check_None [simp]: "check None = Inr ()"
  by (simp add: check_def)

lemma check_Some [simp]: "check (Some e) = Inl e"
  by (simp add: check_def)

lemma map_err_simps [simp]:
  "map_err f (Inl e) = Inl (f e)" "map_err f (Inr x) = Inr x"
  by (simp_all add: map_err_def)

lemma map_err_Inr [simp]: "map_err f r = Inr x \<longleftrightarrow> r = Inr x"
  by (cases r) auto

section \<open>encoding/binary\<close>

lemma of_char_lt_256: "of_char c < (256::nat)"
  by (cases c) (simp add: of_char_def split: if_splits)

text \<open>
  The big-endian digits of a number in \<open>n\<close> bytes, and back. \<^verbatim>\<open>binary.BigEndian.PutUint32\<close>,
  \<^verbatim>\<open>AppendUint64\<close>, \<^verbatim>\<open>Uint32\<close> and the others are these at a fixed width; the little-endian
  ones read and write the same digits in reverse.
\<close>

fun put_be :: "nat \<Rightarrow> nat \<Rightarrow> bytes" where
  "put_be 0 k = []"
| "put_be (Suc n) k = put_be n (k div 256) @ [char_of (k mod 256)]"

definition get_be :: "bytes \<Rightarrow> nat" where
  "get_be bs = foldl (\<lambda>acc b. acc * 256 + of_char b) 0 bs"

lemma length_put_be [simp]: "length (put_be n k) = n"
  by (induction n arbitrary: k) simp_all

lemma get_be_Nil [simp]: "get_be [] = 0"
  by (simp add: get_be_def)

lemma get_be_snoc [simp]: "get_be (bs @ [b]) = get_be bs * 256 + of_char b"
  by (simp add: get_be_def)

lemma get_be_put_be [simp]: "get_be (put_be n k) = k mod 256 ^ n"
proof (induction n arbitrary: k)
  case 0
  then show ?case by simp
next
  case (Suc n)
  have "k mod 256 ^ Suc n = 256 * (k div 256 mod 256 ^ n) + k mod 256"
    by (simp add: mod_mult2_eq)
  then show ?case using Suc.IH by simp
qed

lemma put_be_get_be [simp]: "length bs = n \<Longrightarrow> put_be n (get_be bs) = bs"
proof (induction bs arbitrary: n rule: rev_induct)
  case Nil
  then show ?case by simp
next
  case (snoc b bs)
  have lt: "of_char b < (256::nat)" by (rule of_char_lt_256)
  have "(get_be bs * 256 + of_char b) div 256 = get_be bs"
    and "(get_be bs * 256 + of_char b) mod 256 = of_char b"
    using lt by simp_all
  with snoc show ?case by auto
qed

lemma get_be_bound: "get_be bs < 256 ^ length bs"
proof (induction bs rule: rev_induct)
  case (snoc b bs)
  have "of_char b < (256::nat)" by (rule of_char_lt_256)
  with snoc have "get_be bs * 256 + of_char b < 256 ^ length bs * 256"
    by linarith
  then show ?case by simp
qed simp

definition be_PutUint32 :: "uint32 \<Rightarrow> bytes" where
  "be_PutUint32 w = put_be 4 (unat w)"

definition be_PutUint64 :: "uint64 \<Rightarrow> bytes" where
  "be_PutUint64 w = put_be 8 (unat w)"

definition be_Uint32 :: "bytes \<Rightarrow> uint32" where
  "be_Uint32 bs = of_nat (get_be bs)"

definition be_Uint64 :: "bytes \<Rightarrow> uint64" where
  "be_Uint64 bs = of_nat (get_be bs)"

definition le_PutUint16 :: "uint16 \<Rightarrow> bytes" where
  "le_PutUint16 w = rev (put_be 2 (unat w))"

definition le_PutUint32 :: "uint32 \<Rightarrow> bytes" where
  "le_PutUint32 w = rev (put_be 4 (unat w))"

definition le_PutUint64 :: "uint64 \<Rightarrow> bytes" where
  "le_PutUint64 w = rev (put_be 8 (unat w))"

definition le_Uint16 :: "bytes \<Rightarrow> uint16" where
  "le_Uint16 bs = of_nat (get_be (rev bs))"

definition le_Uint32 :: "bytes \<Rightarrow> uint32" where
  "le_Uint32 bs = of_nat (get_be (rev bs))"

definition le_Uint64 :: "bytes \<Rightarrow> uint64" where
  "le_Uint64 bs = of_nat (get_be (rev bs))"

lemma length_puts [simp, fi_len]:
  "length (be_PutUint32 w) = 4" "length (be_PutUint64 v) = 8"
  "length (le_PutUint16 u) = 2" "length (le_PutUint32 w) = 4" "length (le_PutUint64 v) = 8"
  by (simp_all add: be_PutUint32_def be_PutUint64_def le_PutUint16_def le_PutUint32_def
      le_PutUint64_def)

lemma unat_lt_2p: "unat (w :: 'a::len word) < 2 ^ LENGTH('a)"
  by (rule unsigned_less)

lemma unat_mod_range:
  "unat (w::uint16) mod 65536 = unat w" "unat (x::uint32) mod 4294967296 = unat x"
  "unat (y::uint64) mod 18446744073709551616 = unat y"
  using unat_lt_2p [of w] unat_lt_2p [of x] unat_lt_2p [of y] by simp_all

lemma uint_put_get [simp]:
  "be_Uint32 (be_PutUint32 w) = w" "be_Uint64 (be_PutUint64 v) = v"
  "le_Uint16 (le_PutUint16 u) = u" "le_Uint32 (le_PutUint32 w) = w"
  "le_Uint64 (le_PutUint64 v) = v"
  by (simp_all add: be_Uint32_def be_PutUint32_def be_Uint64_def be_PutUint64_def
      le_Uint16_def le_PutUint16_def le_Uint32_def le_PutUint32_def le_Uint64_def
      le_PutUint64_def unat_mod_range)

lemma unat_of_nat_small:
  "k < 2 ^ LENGTH('a) \<Longrightarrow> unat (of_nat k :: 'a::len word) = k"
  by (simp add: unat_of_nat take_bit_nat_eq_self)

lemma unat_get_be:
  assumes "2 ^ LENGTH('a::len) = (256::nat) ^ length bs"
  shows "unat (of_nat (get_be bs) :: 'a word) = get_be bs"
  using get_be_bound [of bs] assms by (intro unat_of_nat_small) simp

lemma uint_get_put [simp]:
  "length b4 = 4 \<Longrightarrow> be_PutUint32 (be_Uint32 b4) = b4"
  "length b8 = 8 \<Longrightarrow> be_PutUint64 (be_Uint64 b8) = b8"
  "length b2 = 2 \<Longrightarrow> le_PutUint16 (le_Uint16 b2) = b2"
  "length b4 = 4 \<Longrightarrow> le_PutUint32 (le_Uint32 b4) = b4"
  "length b8 = 8 \<Longrightarrow> le_PutUint64 (le_Uint64 b8) = b8"
  by (simp_all add: be_PutUint32_def be_Uint32_def be_PutUint64_def be_Uint64_def
      le_PutUint16_def le_Uint16_def le_PutUint32_def le_Uint32_def le_PutUint64_def
      le_Uint64_def unat_get_be)

lemma put_inj [simp]:
  "be_PutUint32 w = be_PutUint32 w' \<longleftrightarrow> w = w'"
  "be_PutUint64 v = be_PutUint64 v' \<longleftrightarrow> v = v'"
  "le_PutUint16 u = le_PutUint16 u' \<longleftrightarrow> u = u'"
  "le_PutUint32 w = le_PutUint32 w' \<longleftrightarrow> w = w'"
  "le_PutUint64 v = le_PutUint64 v' \<longleftrightarrow> v = v'"
  by (metis uint_put_get)+

section \<open>Guarded additions\<close>

text \<open>
  The test \<^verbatim>\<open>b > ^uint64(0) - a\<close> that the sources make before \<^verbatim>\<open>a + b\<close>: it holds exactly when
  the sum wraps around.
\<close>

lemma uint_all_ones_minus: "uint ((- 1 :: 'a::len word) - a) = 2 ^ LENGTH('a) - 1 - uint a"
proof -
  have "uint (- 1 - a) = (uint (- 1 :: 'a word) - uint a) mod 2 ^ LENGTH('a)"
    by (simp add: uint_word_ariths)
  also have "uint (- 1 :: 'a word) = 2 ^ LENGTH('a) - 1"
    by (simp add: unsigned_minus_1_eq_mask mask_eq_exp_minus_1)
  also have "(2 ^ LENGTH('a) - 1 - uint a) mod 2 ^ LENGTH('a) = 2 ^ LENGTH('a) - 1 - uint a"
    using uint_bounded [of a] unsigned_greater_eq [of a, where 'a = int]
    by (intro mod_pos_pos_trivial) linarith+
  finally show ?thesis .
qed

lemma add_guard:
  "(b :: 'a::len word) > (- 1) - a \<longleftrightarrow> unat a + unat b \<ge> 2 ^ LENGTH('a)"
proof -
  have "b > (- 1) - a \<longleftrightarrow> 2 ^ LENGTH('a) - 1 - uint a < uint b"
    by (simp add: word_less_def uint_all_ones_minus)
  also have "\<dots> \<longleftrightarrow> int (2 ^ LENGTH('a)) \<le> int (unat a + unat b)" by auto
  finally show ?thesis by (simp only: of_nat_le_iff)
qed

lemma unat_add_guarded:
  assumes "\<not> (b :: 'a::len word) > (- 1) - a"
  shows "unat (a + b) = unat a + unat b"
  using assms by (simp add: add_guard unat_word_ariths)

lemma unat_ucast_32_64 [simp]: "unat (ucast (w :: uint32) :: uint64) = unat w"
  by (simp add: unsigned_ucast_eq take_bit_nat_eq_self order_less_trans [OF unat_lt_2p])

end
