(* ===== verification/FI_IO.thy ===== *)
theory FI_IO
  imports FI_Prelude
begin

text \<open>
  Byte streams and fixed headers: \<^verbatim>\<open>io.ReadFull\<close>, slices of a byte array, the fixed-size
  header buffers that every FI wire format fills with \<^verbatim>\<open>copy\<close> and \<^verbatim>\<open>PutUint..\<close>, and the
  \<^verbatim>\<open>io.Writer\<close> contract with the write loop that the packages share.
\<close>

section \<open>Readers\<close>

datatype io_error = EOF | ErrUnexpectedEOF | ErrShortWrite | ErrWrite

text \<open>
  \<^verbatim>\<open>io.ReadFull(reader, buf)\<close> with \<^verbatim>\<open>len(buf) = n\<close>: the bytes read and the rest of the
  stream, \<^verbatim>\<open>io.EOF\<close> when the stream had ended, \<^verbatim>\<open>io.ErrUnexpectedEOF\<close> when it ended inside.
\<close>

definition ReadFull :: "nat \<Rightarrow> bytes \<Rightarrow> io_error + bytes \<times> bytes" where
  "ReadFull n s =
     (if n \<le> length s then Inr (take n s, drop n s)
      else if s = [] then Inl EOF else Inl ErrUnexpectedEOF)"

lemma ReadFull_append [simp]: "length xs = n \<Longrightarrow> ReadFull n (xs @ s) = Inr (xs, s)"
  by (simp add: ReadFull_def)

lemma ReadFull_Inr: "ReadFull n s = Inr (xs, s') \<longleftrightarrow> length xs = n \<and> s = xs @ s'"
  by (auto simp: ReadFull_def)

lemma ReadFull_short: "length s < n \<Longrightarrow> \<exists>e. ReadFull n s = Inl e"
  by (simp add: ReadFull_def)

section \<open>Slices and fixed headers\<close>

text \<open>\<^verbatim>\<open>b[lo:hi]\<close>; every use below is within the array, where Go does not panic.\<close>

definition slice :: "nat \<Rightarrow> nat \<Rightarrow> 'a list \<Rightarrow> 'a list" where
  "slice lo hi xs = take (hi - lo) (drop lo xs)"

text \<open>\<^verbatim>\<open>copy(b[lo:hi], src)\<close>: at most \<open>hi - lo\<close> bytes of \<open>src\<close> replace those at \<open>lo\<close>.\<close>

definition copy_at :: "nat \<Rightarrow> nat \<Rightarrow> bytes \<Rightarrow> bytes \<Rightarrow> bytes" where
  "copy_at lo hi src b =
     (let v = take (hi - lo) src in take lo b @ v @ drop (lo + length v) b)"

text \<open>\<^verbatim>\<open>fixed := make([]byte, n)\<close> followed by one \<^verbatim>\<open>copy\<close> or \<^verbatim>\<open>PutUint..\<close> per field.\<close>

definition fixed_header :: "nat \<Rightarrow> (nat \<times> nat \<times> bytes) list \<Rightarrow> bytes" where
  "fixed_header n fields =
     fold (\<lambda>(lo, hi, src). copy_at lo hi src) fields (replicate n (CHR 0x00))"

text \<open>The fields are laid out one after the other from \<open>off\<close>, each of exactly its width.\<close>

fun contiguous :: "nat \<Rightarrow> (nat \<times> nat \<times> bytes) list \<Rightarrow> bool" where
  "contiguous off [] = True"
| "contiguous off ((lo, hi, src) # fs) =
     (lo = off \<and> hi = lo + length src \<and> contiguous hi fs)"

fun fields_end :: "nat \<Rightarrow> (nat \<times> nat \<times> bytes) list \<Rightarrow> nat" where
  "fields_end off [] = off"
| "fields_end off ((lo, hi, src) # fs) = fields_end hi fs"

fun fields_bytes :: "(nat \<times> nat \<times> bytes) list \<Rightarrow> bytes" where
  "fields_bytes [] = []"
| "fields_bytes ((lo, hi, src) # fs) = src @ fields_bytes fs"

lemma fields_end_ge: "contiguous off fs \<Longrightarrow> off \<le> fields_end off fs"
  by (induction fs arbitrary: off) (force)+

lemma fields_end_length: "contiguous off fs \<Longrightarrow> fields_end off fs = off + length (fields_bytes fs)"
proof (induction fs arbitrary: off)
  case (Cons f fs)
  obtain lo hi src where f: "f = (lo, hi, src)" by (cases f)
  with Cons.prems have "contiguous hi fs" and "lo = off" and "hi = lo + length src" by auto
  with Cons.IH [of hi] f show ?case by simp
qed simp

lemma fold_copy_at:
  assumes "contiguous (length p) fs" and "fields_end (length p) fs \<le> length p + m"
  shows "fold (\<lambda>(lo, hi, src). copy_at lo hi src) fs (p @ replicate m z)
           = p @ fields_bytes fs @ replicate (m - length (fields_bytes fs)) z"
  using assms
proof (induction fs arbitrary: p m)
  case Nil
  then show ?case by simp
next
  case (Cons f fs)
  obtain lo hi src where f: "f = (lo, hi, src)" by (cases f)
  from Cons.prems f have lo: "lo = length p" and hi: "hi = length (p @ src)"
    and c: "contiguous (length (p @ src)) fs"
    and e: "fields_end (length (p @ src)) fs \<le> length p + m" by auto
  from fields_end_ge [OF c] e have le: "length src \<le> m" by simp
  have step: "copy_at lo hi src (p @ replicate m z) = (p @ src) @ replicate (m - length src) z"
    using le by (simp add: copy_at_def lo hi Let_def)
  have "fields_end (length (p @ src)) fs \<le> length (p @ src) + (m - length src)"
    using e le by simp
  from Cons.IH [OF c this] show ?case
    by (simp add: f step)
qed

text \<open>A header whose fields are contiguous and fill it is their concatenation.\<close>

lemma fixed_header_contiguous:
  assumes "contiguous 0 fs" and "fields_end 0 fs = n"
  shows "fixed_header n fs = fields_bytes fs"
proof -
  have "length (fields_bytes fs) = n"
    using assms fields_end_length [of 0 fs] by simp
  with fold_copy_at [of "[]" fs n "CHR 0x00"] assms show ?thesis
    by (simp add: fixed_header_def)
qed

lemma slice_append_left: "length xs = hi \<Longrightarrow> slice 0 hi (xs @ ys) = xs"
  by (simp add: slice_def)

lemma slice_append_skip:
  "length xs \<le> lo \<Longrightarrow> slice lo hi (xs @ ys) = slice (lo - length xs) (hi - length xs) ys"
  by (simp add: slice_def)

lemma slice_all: "hi = length xs \<Longrightarrow> slice 0 hi xs = xs"
  by (simp add: slice_def)

lemma length_slice: "hi \<le> length xs \<Longrightarrow> length (slice lo hi xs) = hi - lo"
  by (simp add: slice_def)

lemma slice_split: "lo \<le> mid \<Longrightarrow> mid \<le> hi \<Longrightarrow> slice lo hi xs = slice lo mid xs @ slice mid hi xs"
proof -
  assume "lo \<le> mid" and "mid \<le> hi"
  then have "take (hi - lo) (drop lo xs) =
      take (mid - lo) (drop lo xs) @ take (hi - lo - (mid - lo)) (drop (mid - lo) (drop lo xs))"
    by (metis diff_le_mono le_add_diff_inverse take_add)
  with \<open>lo \<le> mid\<close> \<open>mid \<le> hi\<close> show ?thesis by (simp add: slice_def)
qed

lemmas slice_simps = slice_append_left slice_append_skip slice_all

section \<open>Writers\<close>

text \<open>
  \<^verbatim>\<open>Write(p) (n int, err error)\<close> on a writer state. The loop is the one that
  \<^verbatim>\<open>usnbroker.writeAll\<close>, \<^verbatim>\<open>objbroker.writeAll\<close>, \<^verbatim>\<open>transportack.writeFull\<close> and
  \<^verbatim>\<open>transportgeneration.writeAllProtocol\<close> repeat word for word: it ends because every turn
  that goes on has written at least one byte.
\<close>

type_synonym 's write_fn = "'s \<Rightarrow> bytes \<Rightarrow> int \<times> io_error option \<times> 's"

function writeAll :: "'s write_fn \<Rightarrow> 's \<Rightarrow> bytes \<Rightarrow> io_error option \<times> 's" where
  "writeAll wr s buf =
     (if buf = [] then (None, s)
      else case wr s buf of (written, err, s') \<Rightarrow>
        (case err of Some e \<Rightarrow> (Some e, s')
         | None \<Rightarrow>
             if written \<le> 0 \<or> written > int (length buf) then (Some ErrShortWrite, s')
             else writeAll wr s' (drop (nat written) buf)))"
  by pat_completeness auto
termination
  by (relation "measure (\<lambda>(wr, s, buf). length buf)") auto

declare writeAll.simps [simp del]

lemma writeAll_Nil [simp]: "writeAll wr s [] = (None, s)"
  by (simp add: writeAll.simps)

text \<open>One \<^verbatim>\<open>writeAll\<close> after the other, stopping at the first error.\<close>

fun writeParts :: "'s write_fn \<Rightarrow> 's \<Rightarrow> bytes list \<Rightarrow> io_error option \<times> 's" where
  "writeParts wr s [] = (None, s)"
| "writeParts wr s (p # ps) =
     (case writeAll wr s p of (Some e, s') \<Rightarrow> (Some e, s') | (None, s') \<Rightarrow> writeParts wr s' ps)"

text \<open>
  What \<^verbatim>\<open>io.Writer\<close> documents: the count is between 0 and \<^verbatim>\<open>len(p)\<close>, and the first \<open>n\<close>
  bytes of \<open>p\<close> are what the writer took.
\<close>

locale io_writer =
  fixes wr :: "'s \<Rightarrow> bytes \<Rightarrow> int \<times> io_error option \<times> 's"
    and contents :: "'s \<Rightarrow> bytes"
  assumes count: "wr s p = (n, err, s') \<Longrightarrow> 0 \<le> n \<and> n \<le> int (length p)"
    and taken: "wr s p = (n, err, s') \<Longrightarrow> contents s' = contents s @ take (nat n) p"
begin

lemma writeAll_prefix:
  "writeAll wr s buf = (r, s') \<Longrightarrow>
     \<exists>k \<le> length buf. contents s' = contents s @ take k buf \<and> (r = None \<longrightarrow> k = length buf)"
proof (induction buf arbitrary: s rule: length_induct)
  case (1 buf)
  show ?case
  proof (cases "buf = []")
    case True
    with "1.prems" show ?thesis by auto
  next
    case False
    obtain n err t where w: "wr s buf = (n, err, t)" by (cases "wr s buf")
    note cnt = count [OF w] and tk = taken [OF w]
    show ?thesis
    proof (cases "err = None \<and> 0 < n")
      case True
      with "1.prems" False w cnt have rest: "writeAll wr t (drop (nat n) buf) = (r, s')"
        by (auto simp: writeAll.simps [of wr s buf])
      have "length (drop (nat n) buf) < length buf" using True False by simp
      with "1.IH" rest obtain k where k: "k \<le> length (drop (nat n) buf)"
        "contents s' = contents t @ take k (drop (nat n) buf)"
        "r = None \<longrightarrow> k = length (drop (nat n) buf)" by blast
      with tk have "contents s' = contents s @ take (nat n + k) buf"
        by (simp add: take_add)
      with k cnt True show ?thesis
        by (intro exI [of _ "nat n + k"]) auto
    next
      case False
      with "1.prems" \<open>buf \<noteq> []\<close> w have "r \<noteq> None" and "s' = t"
        by (auto simp: writeAll.simps [of wr s buf] split: option.splits if_splits)
      with tk cnt show ?thesis by (intro exI [of _ "nat n"]) auto
    qed
  qed
qed

lemma writeAll_ok: "writeAll wr s buf = (None, s') \<Longrightarrow> contents s' = contents s @ buf"
  using writeAll_prefix [of s buf None s'] by auto

lemma writeParts_ok: "writeParts wr s ps = (None, s') \<Longrightarrow> contents s' = contents s @ concat ps"
proof (induction ps arbitrary: s)
  case (Cons p ps)
  obtain r t where p: "writeAll wr s p = (r, t)" by (cases "writeAll wr s p")
  with Cons.prems have "r = None" and rest: "writeParts wr t ps = (None, s')"
    by (auto split: option.splits)
  with p Cons.IH [OF rest] writeAll_ok [of s p t] show ?case by simp
qed simp

end

text \<open>\<^verbatim>\<open>bytes.Buffer\<close>: the whole slice is appended, and no error is returned.\<close>

definition buffer_Write :: "bytes \<Rightarrow> bytes \<Rightarrow> int \<times> io_error option \<times> bytes" where
  "buffer_Write s p = (int (length p), None, s @ p)"

interpretation buffer: io_writer buffer_Write "\<lambda>s. s"
  by unfold_locales (auto simp: buffer_Write_def)

lemma buffer_writeAll [simp]: "writeAll buffer_Write s buf = (None, s @ buf)"
  by (simp add: writeAll.simps [of _ s buf] buffer_Write_def)

lemma buffer_writeParts [simp]: "writeParts buffer_Write s ps = (None, s @ concat ps)"
  by (induction ps arbitrary: s) simp_all

end
