(* ===== verification/FI_Text.thy ===== *)
theory FI_Text
  imports FI_Prelude
begin

text \<open>
  Text helpers of the Go standard library as the sources use them: hexadecimal digests,
  UTF-8 validity, the blank test behind \<^verbatim>\<open>strings.TrimSpace(s) == ""\<close>, \<^verbatim>\<open>strings.ContainsAny\<close>
  with ASCII characters, prefixes and suffixes, and unsigned decimal numerals
  (\<^verbatim>\<open>strconv.FormatUint\<close>, \<^verbatim>\<open>strconv.ParseUint\<close>).
\<close>

section \<open>encoding/hex\<close>

definition hex_digit :: "nat \<Rightarrow> char" where
  "hex_digit k = char_of (if k < 10 then 48 + k else 87 + k)"

definition hex_value :: "char \<Rightarrow> nat option" where
  "hex_value c =
     (let x = of_char c :: nat in
      if 48 \<le> x \<and> x \<le> 57 then Some (x - 48)
      else if 97 \<le> x \<and> x \<le> 102 then Some (x - 87)
      else if 65 \<le> x \<and> x \<le> 70 then Some (x - 55)
      else None)"

fun hex_EncodeToString :: "bytes \<Rightarrow> string" where
  "hex_EncodeToString [] = []"
| "hex_EncodeToString (b # bs) =
     hex_digit (of_char b div 16) # hex_digit (of_char b mod 16) # hex_EncodeToString bs"

text \<open>\<^verbatim>\<open>hex.DecodeString\<close>: \<open>None\<close> for an odd length or a character that is no digit.\<close>

fun hex_DecodeString :: "string \<Rightarrow> bytes option" where
  "hex_DecodeString [] = Some []"
| "hex_DecodeString [c] = None"
| "hex_DecodeString (c # d # cs) =
     (case (hex_value c, hex_value d, hex_DecodeString cs) of
        (Some h, Some l, Some bs) \<Rightarrow> Some (char_of (16 * h + l) # bs)
      | _ \<Rightarrow> None)"

definition is_lower_hex :: "char \<Rightarrow> bool" where
  "is_lower_hex c \<longleftrightarrow>
     (let x = of_char c :: nat in (48 \<le> x \<and> x \<le> 57) \<or> (97 \<le> x \<and> x \<le> 102))"

lemma length_hex_Encode [simp, fi_len]: "length (hex_EncodeToString bs) = 2 * length bs"
  by (induction bs) simp_all

lemma hex_value_digit [simp]: "k < 16 \<Longrightarrow> hex_value (hex_digit k) = Some k"
  by (simp add: hex_value_def hex_digit_def)

lemma lower_hex_digit [simp]: "k < 16 \<Longrightarrow> is_lower_hex (hex_digit k)"
  by (simp add: is_lower_hex_def hex_digit_def)

lemma hex_digit_value:
  assumes "is_lower_hex c"
  shows "\<exists>k<16. hex_value c = Some k \<and> hex_digit k = c"
proof -
  let ?x = "of_char c :: nat"
  from assms consider "48 \<le> ?x" "?x \<le> 57" | "97 \<le> ?x" "?x \<le> 102"
    by (auto simp: is_lower_hex_def Let_def)
  then show ?thesis
  proof cases
    case 1
    then show ?thesis
      by (intro exI [of _ "?x - 48"]) (auto simp: hex_value_def hex_digit_def Let_def)
  next
    case 2
    then show ?thesis
      by (intro exI [of _ "?x - 87"]) (auto simp: hex_value_def hex_digit_def Let_def)
  qed
qed

lemma lower_hex_Encode [simp]: "list_all is_lower_hex (hex_EncodeToString bs)"
proof (induction bs)
  case (Cons b bs)
  have "of_char b div 16 < (16::nat)" using of_char_lt_256 [of b] by linarith
  then show ?case using Cons by simp
qed simp

lemma hex_Decode_Encode [simp]: "hex_DecodeString (hex_EncodeToString bs) = Some bs"
proof (induction bs)
  case (Cons b bs)
  have "of_char b div 16 < (16::nat)" using of_char_lt_256 [of b] by linarith
  moreover have "16 * (of_char b div 16) + of_char b mod 16 = (of_char b :: nat)" by simp
  ultimately show ?case using Cons by simp
qed simp

lemma hex_Encode_inj [simp]: "hex_EncodeToString a = hex_EncodeToString b \<longleftrightarrow> a = b"
  by (metis hex_Decode_Encode option.inject)

lemma hex_Decode_length: "hex_DecodeString s = Some bs \<Longrightarrow> length s = 2 * length bs"
  by (induction s arbitrary: bs rule: hex_DecodeString.induct) (auto split: option.splits)

text \<open>A lower-case hexadecimal string decodes, and encoding the result gives it back.\<close>

lemma hex_Decode_lower:
  "list_all is_lower_hex s \<Longrightarrow> even (length s) \<Longrightarrow>
     \<exists>bs. hex_DecodeString s = Some bs \<and> hex_EncodeToString bs = s \<and> length s = 2 * length bs"
proof (induction s rule: hex_DecodeString.induct)
  case (3 c d cs)
  then obtain bs where bs: "hex_DecodeString cs = Some bs" "hex_EncodeToString bs = cs"
    "length cs = 2 * length bs"
    by auto
  from 3 obtain h where h: "h < 16" "hex_value c = Some h" "hex_digit h = c"
    using hex_digit_value [of c] by auto
  from 3 obtain l where l: "l < 16" "hex_value d = Some l" "hex_digit l = d"
    using hex_digit_value [of d] by auto
  have "(16 * h + l) mod 256 = 16 * h + l" using h l by simp
  moreover have "(16 * h + l) div 16 = h" and "(16 * h + l) mod 16 = l" using l by simp_all
  ultimately show ?case using bs h l by (auto simp: of_char_of)
qed auto

section \<open>SHA-256 digests as text\<close>

text \<open>
  The digest check that every package has: 64 lower-case hexadecimal characters. One package
  tests the characters one by one, the others compare with \<^verbatim>\<open>strings.ToLower\<close> and decode;
  \<open>sha256_text_lower\<close> shows that the second form is the same set. \<^verbatim>\<open>ToLower\<close> is given on
  ASCII letters; a string with any other byte fails to decode, so what \<^verbatim>\<open>ToLower\<close> does to it
  does not matter.
\<close>

definition ascii_lower :: "char \<Rightarrow> char" where
  "ascii_lower c = (let x = of_char c :: nat in if 65 \<le> x \<and> x \<le> 90 then char_of (x + 32) else c)"

definition sha256_text :: "string \<Rightarrow> bool" where
  "sha256_text s \<longleftrightarrow> length s = 64 \<and> list_all is_lower_hex s"

definition sha256_text_decoded :: "string \<Rightarrow> bool" where
  "sha256_text_decoded s \<longleftrightarrow>
     length s = 64 \<and> s = map ascii_lower s \<and>
     (case hex_DecodeString s of None \<Rightarrow> False | Some raw \<Rightarrow> length raw = 32)"

lemma ascii_lower_fix: "is_lower_hex c \<Longrightarrow> ascii_lower c = c"
  by (auto simp: is_lower_hex_def ascii_lower_def Let_def)

lemma hex_value_lower:
  assumes "hex_value c = Some k" and "ascii_lower c = c"
  shows "is_lower_hex c"
proof (rule ccontr)
  assume n: "\<not> is_lower_hex c"
  with assms(1) have r: "65 \<le> (of_char c :: nat)" "(of_char c :: nat) \<le> 70"
    by (auto simp: hex_value_def is_lower_hex_def Let_def split: if_splits)
  with assms(2) have "c = char_of (of_char c + 32 :: nat)" by (simp add: ascii_lower_def Let_def)
  then have "of_char c = (of_char c + 32 :: nat) mod 256"
    by (metis of_char_of)
  with r show False by simp
qed

lemma hex_Decode_digits:
  "hex_DecodeString s = Some bs \<Longrightarrow> c \<in> set s \<Longrightarrow> hex_value c \<noteq> None"
  by (induction s arbitrary: bs rule: hex_DecodeString.induct) (auto split: option.splits)

lemma sha256_text_lower: "sha256_text_decoded s \<longleftrightarrow> sha256_text s"
proof
  assume d: "sha256_text_decoded s"
  then obtain raw where r: "hex_DecodeString s = Some raw" and f: "s = map ascii_lower s"
    and l: "length s = 64"
    by (auto simp: sha256_text_decoded_def split: option.splits)
  have "is_lower_hex c" if "c \<in> set s" for c
  proof -
    from hex_Decode_digits [OF r that] obtain k where "hex_value c = Some k" by auto
    moreover from f that have "ascii_lower c = c" by (metis map_eq_conv list.map_ident)
    ultimately show ?thesis by (rule hex_value_lower)
  qed
  with l show "sha256_text s" by (simp add: sha256_text_def list_all_iff)
next
  assume s: "sha256_text s"
  then have low: "list_all is_lower_hex s" and l: "length s = 64" by (auto simp: sha256_text_def)
  from hex_Decode_lower [OF low] l obtain bs where "hex_DecodeString s = Some bs"
    "length s = 2 * length bs" by auto
  moreover have "s = map ascii_lower s"
    using low by (intro map_idI [symmetric]) (auto simp: list_all_iff ascii_lower_fix)
  ultimately show "sha256_text_decoded s" using l by (simp add: sha256_text_decoded_def)
qed

lemma sha256_text_Encode [simp]: "length d = 32 \<Longrightarrow> sha256_text (hex_EncodeToString d)"
  by (simp add: sha256_text_def)

lemma sha256_textE:
  assumes "sha256_text s"
  obtains d where "length d = 32" and "s = hex_EncodeToString d" and "hex_DecodeString s = Some d"
  using assms hex_Decode_lower [of s] by (auto simp: sha256_text_def)

definition digest_of :: "string \<Rightarrow> bytes" where
  "digest_of s = (case hex_DecodeString s of None \<Rightarrow> [] | Some d \<Rightarrow> d)"

lemma digest_of_Encode [simp]: "digest_of (hex_EncodeToString d) = d"
  by (simp add: digest_of_def)

lemma sha256_text_digest:
  assumes "sha256_text s"
  shows "length (digest_of s) = 32" and "hex_DecodeString s = Some (digest_of s)"
    and "hex_EncodeToString (digest_of s) = s"
  using assms by (auto elim!: sha256_textE)

section \<open>unicode/utf8 and strings\<close>

text \<open>\<^verbatim>\<open>utf8.Valid\<close>: the well-formed byte sequences of RFC 3629.\<close>

abbreviation ord :: "char \<Rightarrow> nat" where
  "ord c \<equiv> of_char c"

definition cont_byte :: "char \<Rightarrow> bool" where
  "cont_byte b \<longleftrightarrow> 0x80 \<le> ord b \<and> ord b \<le> 0xBF"

definition rune2 :: "char \<Rightarrow> char \<Rightarrow> bool" where
  "rune2 a b \<longleftrightarrow> 0xC2 \<le> ord a \<and> ord a \<le> 0xDF \<and> cont_byte b"

definition rune3 :: "char \<Rightarrow> char \<Rightarrow> char \<Rightarrow> bool" where
  "rune3 a b c \<longleftrightarrow>
     0xE0 \<le> ord a \<and> ord a \<le> 0xEF \<and> cont_byte b \<and> cont_byte c \<and>
     (ord a = 0xE0 \<longrightarrow> 0xA0 \<le> ord b) \<and> (ord a = 0xED \<longrightarrow> ord b \<le> 0x9F)"

definition rune4 :: "char \<Rightarrow> char \<Rightarrow> char \<Rightarrow> char \<Rightarrow> bool" where
  "rune4 a b c d \<longleftrightarrow>
     0xF0 \<le> ord a \<and> ord a \<le> 0xF4 \<and> cont_byte b \<and> cont_byte c \<and> cont_byte d \<and>
     (ord a = 0xF0 \<longrightarrow> 0x90 \<le> ord b) \<and> (ord a = 0xF4 \<longrightarrow> ord b \<le> 0x8F)"

fun utf8_Valid :: "bytes \<Rightarrow> bool" where
  "utf8_Valid [] = True"
| "utf8_Valid (a # s) =
     (if ord a < 0x80 then utf8_Valid s
      else case s of [] \<Rightarrow> False
      | b # t \<Rightarrow>
          if rune2 a b then utf8_Valid t
          else (case t of [] \<Rightarrow> False
          | c # u \<Rightarrow>
              if rune3 a b c then utf8_Valid u
              else (case u of [] \<Rightarrow> False
              | d # v \<Rightarrow> rune4 a b c d \<and> utf8_Valid v)))"

lemma utf8_Valid_ascii: "list_all (\<lambda>c. ord c < 0x80) s \<Longrightarrow> utf8_Valid s"
  by (induction s) auto

text \<open>
  \<^verbatim>\<open>strings.TrimSpace(s) == ""\<close> holds when every rune of \<open>s\<close> is white space: the ASCII
  ones, U+0085, U+00A0, U+1680, U+2000 to U+200A, U+2028, U+2029, U+202F, U+205F, U+3000.
\<close>

definition ascii_space :: "char \<Rightarrow> bool" where
  "ascii_space c \<longleftrightarrow> ord c = 32 \<or> (9 \<le> ord c \<and> ord c \<le> 13)"

definition space2 :: "char \<Rightarrow> char \<Rightarrow> bool" where
  "space2 a b \<longleftrightarrow> ord a = 0xC2 \<and> (ord b = 0x85 \<or> ord b = 0xA0)"

definition space3 :: "char \<Rightarrow> char \<Rightarrow> char \<Rightarrow> bool" where
  "space3 a b c \<longleftrightarrow>
     (ord a = 0xE1 \<and> ord b = 0x9A \<and> ord c = 0x80) \<or>
     (ord a = 0xE2 \<and> ord b = 0x80 \<and>
        ((0x80 \<le> ord c \<and> ord c \<le> 0x8A) \<or> ord c = 0xA8 \<or> ord c = 0xA9 \<or> ord c = 0xAF)) \<or>
     (ord a = 0xE2 \<and> ord b = 0x81 \<and> ord c = 0x9F) \<or>
     (ord a = 0xE3 \<and> ord b = 0x80 \<and> ord c = 0x80)"

fun blank :: "string \<Rightarrow> bool" where
  "blank [] = True"
| "blank (a # s) =
     (if ascii_space a then blank s
      else case s of [] \<Rightarrow> False
      | b # t \<Rightarrow>
          if space2 a b then blank t
          else (case t of [] \<Rightarrow> False
          | c # u \<Rightarrow> space3 a b c \<and> blank u))"

text \<open>
  \<^verbatim>\<open>strings.TrimSpace\<close>: leading white-space runes are dropped one by one; the trailing ones are
  the longest suffix made of white space only.
\<close>

fun trim_left :: "string \<Rightarrow> string" where
  "trim_left [] = []"
| "trim_left (a # s) =
     (if ascii_space a then trim_left s
      else case s of [] \<Rightarrow> [a]
      | b # t \<Rightarrow>
          if space2 a b then trim_left t
          else (case t of [] \<Rightarrow> [a, b]
          | c # u \<Rightarrow> if space3 a b c then trim_left u else a # b # c # u))"

fun trim_right :: "string \<Rightarrow> string" where
  "trim_right [] = []"
| "trim_right (a # s) = (if blank (a # s) then [] else a # trim_right s)"

definition TrimSpace :: "string \<Rightarrow> string" where
  "TrimSpace s = trim_right (trim_left s)"

lemma trim_right_Nil: "trim_right s = [] \<longleftrightarrow> blank s"
  by (cases s) auto

lemma blank_trim_left: "blank (trim_left s) \<longleftrightarrow> blank s"
  by (induction s rule: trim_left.induct) (auto split: list.splits)

lemma TrimSpace_Nil: "TrimSpace s = [] \<longleftrightarrow> blank s"
  by (simp add: TrimSpace_def trim_right_Nil blank_trim_left)

text \<open>Text without white space and without multi-byte runes is not changed.\<close>

definition plain_char :: "char \<Rightarrow> bool" where
  "plain_char c \<longleftrightarrow> \<not> ascii_space c \<and> ord c < 0x80"

lemma plain_not_space [simp]:
  "plain_char a \<Longrightarrow> \<not> ascii_space a" "plain_char a \<Longrightarrow> \<not> space2 a b" "plain_char a \<Longrightarrow> \<not> space3 a b c"
  by (auto simp: plain_char_def space2_def space3_def)

lemma trim_left_plain: "list_all plain_char s \<Longrightarrow> trim_left s = s"
  by (cases s) (auto split: list.splits)

lemma blank_plain: "plain_char a \<Longrightarrow> \<not> blank (a # s)"
  by (auto split: list.splits)

lemma trim_right_plain: "list_all plain_char s \<Longrightarrow> trim_right s = s"
  by (induction s) (simp_all add: blank_plain del: blank.simps)

lemma TrimSpace_plain: "list_all plain_char s \<Longrightarrow> TrimSpace s = s"
  by (simp add: TrimSpace_def trim_left_plain trim_right_plain)

lemma lower_hex_plain: "is_lower_hex c \<Longrightarrow> plain_char c"
  by (auto simp: is_lower_hex_def plain_char_def ascii_space_def Let_def)

definition ContainsAny :: "string \<Rightarrow> string \<Rightarrow> bool" where
  "ContainsAny s chars = list_ex (\<lambda>c. c \<in> set chars) s"

definition HasPrefix :: "string \<Rightarrow> string \<Rightarrow> bool" where
  "HasPrefix s p \<longleftrightarrow> take (length p) s = p"

definition HasSuffix :: "string \<Rightarrow> string \<Rightarrow> bool" where
  "HasSuffix s p \<longleftrightarrow> length p \<le> length s \<and> drop (length s - length p) s = p"

definition TrimPrefix :: "string \<Rightarrow> string \<Rightarrow> string" where
  "TrimPrefix s p = (if HasPrefix s p then drop (length p) s else s)"

definition TrimSuffix :: "string \<Rightarrow> string \<Rightarrow> string" where
  "TrimSuffix s p = (if HasSuffix s p then take (length s - length p) s else s)"

lemma HasPrefix_iff: "HasPrefix s p \<longleftrightarrow> (\<exists>t. s = p @ t)"
  by (auto simp: HasPrefix_def) (metis append_take_drop_id)

lemma HasSuffix_iff: "HasSuffix s p \<longleftrightarrow> (\<exists>t. s = t @ p)"
  by (auto simp: HasSuffix_def) (metis append_take_drop_id)

lemma TrimPrefix_append [simp]: "TrimPrefix (p @ s) p = s"
  by (simp add: TrimPrefix_def HasPrefix_def)

lemma TrimSuffix_append [simp]: "TrimSuffix (s @ p) p = s"
  by (simp add: TrimSuffix_def HasSuffix_def)

section \<open>strconv\<close>

text \<open>\<^verbatim>\<open>strconv.FormatUint(n, 10)\<close>: the decimal digits, without leading zeros.\<close>

fun FormatUint :: "nat \<Rightarrow> string" where
  "FormatUint n =
     (if n < 10 then [char_of (48 + n)] else FormatUint (n div 10) @ [char_of (48 + n mod 10)])"

declare FormatUint.simps [simp del]

definition is_digit :: "char \<Rightarrow> bool" where
  "is_digit c \<longleftrightarrow> 48 \<le> ord c \<and> ord c \<le> 57"

definition digits_value :: "string \<Rightarrow> nat" where
  "digits_value s = foldl (\<lambda>acc c. acc * 10 + (ord c - 48)) 0 s"

text \<open>
  \<^verbatim>\<open>strconv.ParseUint(s, 10, bits)\<close>: a syntax error for an empty string or a character that
  is no digit (base 10 admits no underscore), a range error above \<open>2 ^ bits - 1\<close>.
\<close>

datatype parse_error = ErrSyntax | ErrRange

definition ParseUint :: "nat \<Rightarrow> string \<Rightarrow> parse_error + nat" where
  "ParseUint bits s =
     (if s = [] \<or> \<not> list_all is_digit s then Inl ErrSyntax
      else if digits_value s \<ge> 2 ^ bits then Inl ErrRange
      else Inr (digits_value s))"

lemma digits_value_snoc [simp]:
  "digits_value (s @ [c]) = digits_value s * 10 + (ord c - 48)"
  by (simp add: digits_value_def)

lemma digits_value_Nil [simp]: "digits_value [] = 0"
  by (simp add: digits_value_def)

lemma is_digit_char_of [simp]: "(k::nat) < 10 \<Longrightarrow> is_digit (char_of (48 + k))"
  by (simp add: is_digit_def)

lemma char_of_48: "char_of (48::nat) = CHR ''0''"
  by (rule of_char_eqI [where 'a = nat]) simp

lemma FormatUint_digits [simp]: "list_all is_digit (FormatUint n)"
proof (induction n rule: FormatUint.induct)
  case (1 n)
  then show ?case by (subst FormatUint.simps) auto
qed

lemma FormatUint_not_Nil [simp]: "FormatUint n \<noteq> []"
  by (subst FormatUint.simps) simp

lemma digits_value_Format [simp]: "digits_value (FormatUint n) = n"
proof (induction n rule: FormatUint.induct)
  case (1 n)
  show ?case
  proof (cases "n < 10")
    case True
    then show ?thesis
      using digits_value_snoc [of "[]"] by (subst FormatUint.simps) simp
  next
    case False
    with 1 show ?thesis by (subst FormatUint.simps) (simp add: of_char_of)
  qed
qed

lemma ParseUint_Format: "n < 2 ^ bits \<Longrightarrow> ParseUint bits (FormatUint n) = Inr n"
  by (simp add: ParseUint_def)

lemma FormatUint_hd: "hd (FormatUint n) = CHR ''0'' \<Longrightarrow> n = 0"
proof (induction n rule: FormatUint.induct)
  case (1 n)
  show ?case
  proof (cases "n < 10")
    case True
    with "1.prems" have "char_of (48 + n) = CHR ''0''" by (simp add: FormatUint.simps [of n])
    then have "ord (char_of (48 + n)) = 48" by simp
    with True show ?thesis by simp
  next
    case False
    with "1.prems" have "hd (FormatUint (n div 10)) = CHR ''0''"
      by (simp add: FormatUint.simps [of n])
    with "1.IH" False show ?thesis by simp
  qed
qed

text \<open>A canonical decimal (no leading zero) is the numeral of its value.\<close>

lemma FormatUint_value:
  assumes "s \<noteq> []" and "list_all is_digit s" and "length s > 1 \<longrightarrow> hd s \<noteq> CHR ''0''"
  shows "FormatUint (digits_value s) = s"
  using assms
proof (induction s rule: rev_induct)
  case Nil
  then show ?case by simp
next
  case (snoc c s)
  have d: "48 \<le> ord c" "ord c \<le> 57" using snoc.prems by (auto simp: is_digit_def)
  show ?case
  proof (cases "s = []")
    case True
    with d digits_value_snoc [of "[]" c] show ?thesis by (simp add: FormatUint.simps)
  next
    case False
    with snoc.prems have IH: "FormatUint (digits_value s) = s"
      by (intro snoc.IH) auto
    have nz: "digits_value s \<noteq> 0"
    proof
      assume "digits_value s = 0"
      with IH have "s = ''0''" by (simp add: FormatUint.simps [of 0] char_of_48)
      with snoc.prems show False by simp
    qed
    obtain k where k: "ord c = 48 + k" "k < 10"
      using d le_Suc_ex [of 48 "ord c"] by auto
    then have "char_of (48 + k) = c" by (metis char_of_char)
    with IH nz k show ?thesis by (subst FormatUint.simps) auto
  qed
qed

end
