(* ===== verification/FI_Hash.thy ===== *)
theory FI_Hash
  imports FI_Prelude
begin

text \<open>
  \<^verbatim>\<open>crypto/sha256\<close> as FIPS 180-4 defines it, on 32-bit words. The sources take digests of
  manifests, payloads, transfers and identity strings; the development uses that a digest is
  32 bytes long and that it is a function of the bytes, and claims no more about it.
\<close>

unbundle bit_operations_syntax

text \<open>The 64 round constants of FIPS 180-4, section 4.2.2, in decimal.\<close>

definition sha256_K :: "uint32 list" where
  "sha256_K =
    [1116352408, 1899447441, 3049323471, 3921009573, 961987163, 1508970993,
     2453635748, 2870763221, 3624381080, 310598401, 607225278, 1426881987,
     1925078388, 2162078206, 2614888103, 3248222580, 3835390401, 4022224774,
     264347078, 604807628, 770255983, 1249150122, 1555081692, 1996064986,
     2554220882, 2821834349, 2952996808, 3210313671, 3336571891, 3584528711,
     113926993, 338241895, 666307205, 773529912, 1294757372, 1396182291,
     1695183700, 1986661051, 2177026350, 2456956037, 2730485921, 2820302411,
     3259730800, 3345764771, 3516065817, 3600352804, 4094571909, 275423344,
     430227734, 506948616, 659060556, 883997877, 958139571, 1322822218,
     1537002063, 1747873779, 1955562222, 2024104815, 2227730452, 2361852424,
     2428436474, 2756734187, 3204031479, 3329325298]"

record sha256_state =
  h0 :: uint32
  h1 :: uint32
  h2 :: uint32
  h3 :: uint32
  h4 :: uint32
  h5 :: uint32
  h6 :: uint32
  h7 :: uint32

definition sha256_init :: sha256_state where
  "sha256_init =
    \<lparr>h0 = 1779033703, h1 = 3144134277, h2 = 1013904242, h3 = 2773480762,
     h4 = 1359893119, h5 = 2600822924, h6 = 528734635, h7 = 1541459225\<rparr>"

definition rotr32 :: "nat \<Rightarrow> uint32 \<Rightarrow> uint32" where
  "rotr32 n x = drop_bit n x OR push_bit (32 - n) x"

definition small_sigma0 :: "uint32 \<Rightarrow> uint32" where
  "small_sigma0 x = rotr32 7 x XOR rotr32 18 x XOR drop_bit 3 x"

definition small_sigma1 :: "uint32 \<Rightarrow> uint32" where
  "small_sigma1 x = rotr32 17 x XOR rotr32 19 x XOR drop_bit 10 x"

definition big_sigma0 :: "uint32 \<Rightarrow> uint32" where
  "big_sigma0 x = rotr32 2 x XOR rotr32 13 x XOR rotr32 22 x"

definition big_sigma1 :: "uint32 \<Rightarrow> uint32" where
  "big_sigma1 x = rotr32 6 x XOR rotr32 11 x XOR rotr32 25 x"

definition sha_ch :: "uint32 \<Rightarrow> uint32 \<Rightarrow> uint32 \<Rightarrow> uint32" where
  "sha_ch x y z = (x AND y) XOR (NOT x AND z)"

definition sha_maj :: "uint32 \<Rightarrow> uint32 \<Rightarrow> uint32 \<Rightarrow> uint32" where
  "sha_maj x y z = (x AND y) XOR (x AND z) XOR (y AND z)"

text \<open>The message schedule, newest word first: 16 words of the block, then 48 more.\<close>

fun sha256_schedule :: "nat \<Rightarrow> uint32 list \<Rightarrow> uint32 list" where
  "sha256_schedule 0 ws = ws"
| "sha256_schedule (Suc n) ws =
     sha256_schedule n
       ((small_sigma1 (ws ! 1) + ws ! 6 + small_sigma0 (ws ! 14) + ws ! 15) # ws)"

definition sha256_round :: "uint32 \<times> uint32 \<Rightarrow> sha256_state \<Rightarrow> sha256_state" where
  "sha256_round kw s =
     (let t1 = h7 s + big_sigma1 (h4 s) + sha_ch (h4 s) (h5 s) (h6 s) + fst kw + snd kw;
          t2 = big_sigma0 (h0 s) + sha_maj (h0 s) (h1 s) (h2 s)
      in \<lparr>h0 = t1 + t2, h1 = h0 s, h2 = h1 s, h3 = h2 s,
          h4 = h3 s + t1, h5 = h4 s, h6 = h5 s, h7 = h6 s\<rparr>)"

fun words_of :: "bytes \<Rightarrow> uint32 list" where
  "words_of (a # b # c # d # bs) = be_Uint32 [a, b, c, d] # words_of bs"
| "words_of _ = []"

definition sha256_block :: "sha256_state \<Rightarrow> bytes \<Rightarrow> sha256_state" where
  "sha256_block s blk =
     (let w = rev (sha256_schedule 48 (rev (words_of blk)));
          r = fold sha256_round (zip sha256_K w) s
      in \<lparr>h0 = h0 s + h0 r, h1 = h1 s + h1 r, h2 = h2 s + h2 r, h3 = h3 s + h3 r,
          h4 = h4 s + h4 r, h5 = h5 s + h5 r, h6 = h6 s + h6 r, h7 = h7 s + h7 r\<rparr>)"

function sha256_blocks :: "sha256_state \<Rightarrow> bytes \<Rightarrow> sha256_state" where
  "sha256_blocks s bs =
     (if bs = [] then s else sha256_blocks (sha256_block s (take 64 bs)) (drop 64 bs))"
  by pat_completeness auto
termination
  by (relation "measure (\<lambda>(s, bs). length bs)") auto

declare sha256_blocks.simps [simp del]

definition sha256_pad :: "bytes \<Rightarrow> bytes" where
  "sha256_pad m =
     m @ [CHR 0x80] @ replicate ((119 - length m mod 64) mod 64) (CHR 0x00)
       @ put_be 8 (8 * length m)"

definition Sum256 :: "bytes \<Rightarrow> bytes" where
  "Sum256 m =
     (let s = sha256_blocks sha256_init (sha256_pad m)
      in be_PutUint32 (h0 s) @ be_PutUint32 (h1 s) @ be_PutUint32 (h2 s) @ be_PutUint32 (h3 s)
       @ be_PutUint32 (h4 s) @ be_PutUint32 (h5 s) @ be_PutUint32 (h6 s) @ be_PutUint32 (h7 s))"

lemma length_Sum256 [simp, fi_len]: "length (Sum256 m) = 32"
  by (simp add: Sum256_def Let_def)

end
