(* ===== verification/Batch_Descriptor.thy ===== *)
theory Batch_Descriptor
  imports FI_IO FI_Text FI_Hash
begin

text \<open>
  Package \<^verbatim>\<open>transportbatch\<close> (\<^verbatim>\<open>go/internal/transportbatch/descriptor.go\<close>): the descriptor of
  one published source batch, its validation, and the byte sequence that the batch-signing
  key signs. The main fact is that the signed bytes determine the descriptor.
\<close>

section \<open>Descriptor and validation\<close>

definition DescriptorVersion :: string where
  "DescriptorVersion = ''fi-transport-batch/0.1''"

definition DescriptorVersionV2 :: string where
  "DescriptorVersionV2 = ''fi-transport-batch/0.2''"

definition signatureDomainV1 :: string where
  "signatureDomainV1 = ''FI-BATCH-SIGNATURE-V1''"

definition signatureDomainV2 :: string where
  "signatureDomainV2 = ''FI-BATCH-SIGNATURE-V2''"

definition DataEncodingZstd :: string where
  "DataEncodingZstd = ''zstd''"

record batch_descriptor =
  tb_Version :: string
  tb_SourceID :: string
  tb_BatchID :: string
  tb_RecordCount :: uint64
  tb_DataBytes :: uint64
  tb_DataSHA256 :: string
  tb_DataEncoding :: string
  tb_EncodedDataBytes :: uint64
  tb_EncodedDataSHA256 :: string
  tb_ManifestSHA256 :: string

datatype batch_error =
    BadDescriptorVersion
  | TextRequired string
  | TextNotUTF8 string
  | ZeroRecordCount
  | ZeroDataBytes
  | BadSHA256 string
  | V1HasEncodedFields
  | BadDataEncoding
  | ZeroEncodedDataBytes
  | BadHexDigest string
  | UnsupportedVersion

definition validateText :: "string \<Rightarrow> string \<Rightarrow> batch_error option" where
  "validateText name v =
     first_err [fail_if (v = []) (TextRequired name),
                fail_if (\<not> utf8_Valid v) (TextNotUTF8 name)]"

definition validateSHA256 :: "string \<Rightarrow> string \<Rightarrow> batch_error option" where
  "validateSHA256 name v =
     first_err [fail_if (length v \<noteq> 64) (BadSHA256 name),
                fail_if (\<not> list_all is_lower_hex v) (BadSHA256 name)]"

definition descriptor_Validate :: "batch_descriptor \<Rightarrow> batch_error option" where
  "descriptor_Validate d =
     first_err
       [fail_if (tb_Version d \<noteq> DescriptorVersion \<and> tb_Version d \<noteq> DescriptorVersionV2)
          BadDescriptorVersion,
        validateText ''source ID'' (tb_SourceID d),
        validateText ''batch ID'' (tb_BatchID d),
        fail_if (tb_RecordCount d = 0) ZeroRecordCount,
        fail_if (tb_DataBytes d = 0) ZeroDataBytes,
        validateSHA256 ''data SHA-256'' (tb_DataSHA256 d),
        validateSHA256 ''manifest SHA-256'' (tb_ManifestSHA256 d),
        (if tb_Version d = DescriptorVersion then
           fail_if (tb_DataEncoding d \<noteq> [] \<or> tb_EncodedDataBytes d \<noteq> 0 \<or>
                    tb_EncodedDataSHA256 d \<noteq> [])
             V1HasEncodedFields
         else
           first_err
             [fail_if (tb_DataEncoding d \<noteq> DataEncodingZstd) BadDataEncoding,
              fail_if (tb_EncodedDataBytes d = 0) ZeroEncodedDataBytes,
              validateSHA256 ''encoded data SHA-256'' (tb_EncodedDataSHA256 d)])]"

definition appendLengthPrefixed :: "bytes \<Rightarrow> string \<Rightarrow> bytes" where
  "appendLengthPrefixed v field = v @ be_PutUint32 (of_nat (length field)) @ field"

definition decode_digest :: "string \<Rightarrow> string \<Rightarrow> batch_error + bytes" where
  "decode_digest name v =
     (case hex_DecodeString v of None \<Rightarrow> Inl (BadHexDigest name) | Some d \<Rightarrow> Inr d)"

definition descriptor_SignatureInput :: "batch_descriptor \<Rightarrow> batch_error + bytes" where
  "descriptor_SignatureInput d =
     bindE (check (descriptor_Validate d)) (\<lambda>_.
     bindE (decode_digest ''data SHA-256'' (tb_DataSHA256 d)) (\<lambda>dataDigest.
     bindE (decode_digest ''manifest SHA-256'' (tb_ManifestSHA256 d)) (\<lambda>manifestDigest.
     if tb_Version d = DescriptorVersion then
       Inr (let v = signatureDomainV1 @ [CHR 0x00];
                v = appendLengthPrefixed v (tb_Version d);
                v = appendLengthPrefixed v (tb_SourceID d);
                v = appendLengthPrefixed v (tb_BatchID d);
                v = v @ be_PutUint64 (tb_RecordCount d);
                v = v @ be_PutUint64 (tb_DataBytes d)
            in v @ dataDigest @ manifestDigest)
     else if tb_Version d = DescriptorVersionV2 then
       bindE (decode_digest ''encoded data SHA-256'' (tb_EncodedDataSHA256 d)) (\<lambda>encodedDigest.
       Inr (let v = signatureDomainV2 @ [CHR 0x00];
                v = appendLengthPrefixed v (tb_Version d);
                v = appendLengthPrefixed v (tb_SourceID d);
                v = appendLengthPrefixed v (tb_BatchID d);
                v = appendLengthPrefixed v (tb_DataEncoding d);
                v = v @ be_PutUint64 (tb_RecordCount d);
                v = v @ be_PutUint64 (tb_DataBytes d);
                v = v @ be_PutUint64 (tb_EncodedDataBytes d)
            in v @ dataDigest @ encodedDigest @ manifestDigest))
     else Inl UnsupportedVersion)))"

section \<open>Valid descriptors\<close>

lemma validateText_None [simp]: "validateText n v = None \<longleftrightarrow> v \<noteq> [] \<and> utf8_Valid v"
  by (simp add: validateText_def)

lemma validateSHA256_None [simp]: "validateSHA256 n v = None \<longleftrightarrow> sha256_text v"
  by (simp add: validateSHA256_def sha256_text_def)

lemma versions_distinct [simp]: "DescriptorVersion \<noteq> DescriptorVersionV2"
  "DescriptorVersionV2 \<noteq> DescriptorVersion"
  by (simp_all add: DescriptorVersion_def DescriptorVersionV2_def)

lemma descriptor_Validate_V1:
  assumes "tb_Version d = DescriptorVersion"
  shows "descriptor_Validate d = None \<longleftrightarrow>
    tb_SourceID d \<noteq> [] \<and> utf8_Valid (tb_SourceID d) \<and> tb_BatchID d \<noteq> [] \<and>
    utf8_Valid (tb_BatchID d) \<and> tb_RecordCount d \<noteq> 0 \<and> tb_DataBytes d \<noteq> 0 \<and>
    sha256_text (tb_DataSHA256 d) \<and> sha256_text (tb_ManifestSHA256 d) \<and>
    tb_DataEncoding d = [] \<and> tb_EncodedDataBytes d = 0 \<and> tb_EncodedDataSHA256 d = []"
  using assms by (auto simp: descriptor_Validate_def)

lemma descriptor_Validate_V2:
  assumes "tb_Version d = DescriptorVersionV2"
  shows "descriptor_Validate d = None \<longleftrightarrow>
    tb_SourceID d \<noteq> [] \<and> utf8_Valid (tb_SourceID d) \<and> tb_BatchID d \<noteq> [] \<and>
    utf8_Valid (tb_BatchID d) \<and> tb_RecordCount d \<noteq> 0 \<and> tb_DataBytes d \<noteq> 0 \<and>
    sha256_text (tb_DataSHA256 d) \<and> sha256_text (tb_ManifestSHA256 d) \<and>
    tb_DataEncoding d = DataEncodingZstd \<and> tb_EncodedDataBytes d \<noteq> 0 \<and>
    sha256_text (tb_EncodedDataSHA256 d)"
  using assms by (auto simp: descriptor_Validate_def)

lemma descriptor_Validate_version:
  "descriptor_Validate d = None \<Longrightarrow>
     tb_Version d = DescriptorVersion \<or> tb_Version d = DescriptorVersionV2"
  by (auto simp: descriptor_Validate_def)

lemma descriptor_Validate_text:
  assumes "descriptor_Validate d = None"
  shows "tb_SourceID d \<noteq> []" and "tb_BatchID d \<noteq> []"
    and "sha256_text (tb_DataSHA256 d)" and "sha256_text (tb_ManifestSHA256 d)"
    and "tb_RecordCount d \<noteq> 0" and "tb_DataBytes d \<noteq> 0"
  using assms by (auto simp: descriptor_Validate_def)

section \<open>The signed bytes\<close>

definition prefixed :: "string \<Rightarrow> bytes" where
  "prefixed f = be_PutUint32 (of_nat (length f)) @ f"

lemma appendLengthPrefixed_eq: "appendLengthPrefixed v f = v @ prefixed f"
  by (simp add: appendLengthPrefixed_def prefixed_def)

text \<open>Two length-prefixed fields that start the same bytes are the same field.\<close>

lemma prefixed_inj:
  assumes "prefixed f @ s = prefixed g @ t" and "length f < 2 ^ 32" and "length g < 2 ^ 32"
  shows "f = g \<and> s = t"
proof -
  from assms(1) have "be_PutUint32 (of_nat (length f)) = be_PutUint32 (of_nat (length g))"
    and rest: "f @ s = g @ t"
    by (simp_all add: prefixed_def append_eq_append_conv)
  then have "(of_nat (length f) :: uint32) = of_nat (length g)" by simp
  then have "unat (of_nat (length f) :: uint32) = unat (of_nat (length g) :: uint32)" by simp
  then have "length f = length g"
    using assms(2,3) by (simp add: unat_of_nat_small)
  with rest show ?thesis by simp
qed

definition signed_bytes_V1 :: "batch_descriptor \<Rightarrow> bytes \<Rightarrow> bytes \<Rightarrow> bytes" where
  "signed_bytes_V1 d dd md =
     signatureDomainV1 @ [CHR 0x00] @ prefixed (tb_Version d) @ prefixed (tb_SourceID d) @
     prefixed (tb_BatchID d) @ be_PutUint64 (tb_RecordCount d) @ be_PutUint64 (tb_DataBytes d) @
     dd @ md"

definition signed_bytes_V2 :: "batch_descriptor \<Rightarrow> bytes \<Rightarrow> bytes \<Rightarrow> bytes \<Rightarrow> bytes" where
  "signed_bytes_V2 d dd ed md =
     signatureDomainV2 @ [CHR 0x00] @ prefixed (tb_Version d) @ prefixed (tb_SourceID d) @
     prefixed (tb_BatchID d) @ prefixed (tb_DataEncoding d) @ be_PutUint64 (tb_RecordCount d) @
     be_PutUint64 (tb_DataBytes d) @ be_PutUint64 (tb_EncodedDataBytes d) @ dd @ ed @ md"

lemma SignatureInput_V1:
  assumes "descriptor_Validate d = None" and "tb_Version d = DescriptorVersion"
  obtains dd md where "length dd = 32" and "length md = 32"
    and "tb_DataSHA256 d = hex_EncodeToString dd" and "tb_ManifestSHA256 d = hex_EncodeToString md"
    and "descriptor_SignatureInput d = Inr (signed_bytes_V1 d dd md)"
proof -
  from descriptor_Validate_text [OF assms(1)] obtain dd md where
      "length dd = 32" "tb_DataSHA256 d = hex_EncodeToString dd"
      "hex_DecodeString (tb_DataSHA256 d) = Some dd"
      "length md = 32" "tb_ManifestSHA256 d = hex_EncodeToString md"
      "hex_DecodeString (tb_ManifestSHA256 d) = Some md"
    by (metis sha256_textE)
  then show thesis
    using assms
    by (intro that [of dd md]) (simp_all add: descriptor_SignatureInput_def decode_digest_def
        signed_bytes_V1_def appendLengthPrefixed_eq Let_def)
qed

lemma SignatureInput_V2:
  assumes "descriptor_Validate d = None" and "tb_Version d = DescriptorVersionV2"
  obtains dd ed md where "length dd = 32" and "length ed = 32" and "length md = 32"
    and "tb_DataSHA256 d = hex_EncodeToString dd"
    and "tb_EncodedDataSHA256 d = hex_EncodeToString ed"
    and "tb_ManifestSHA256 d = hex_EncodeToString md"
    and "descriptor_SignatureInput d = Inr (signed_bytes_V2 d dd ed md)"
proof -
  from assms descriptor_Validate_V2 [OF assms(2)]
  have "sha256_text (tb_DataSHA256 d)" "sha256_text (tb_EncodedDataSHA256 d)"
    "sha256_text (tb_ManifestSHA256 d)" by auto
  then obtain dd ed md where
      "length dd = 32" "tb_DataSHA256 d = hex_EncodeToString dd"
      "hex_DecodeString (tb_DataSHA256 d) = Some dd"
      "length ed = 32" "tb_EncodedDataSHA256 d = hex_EncodeToString ed"
      "hex_DecodeString (tb_EncodedDataSHA256 d) = Some ed"
      "length md = 32" "tb_ManifestSHA256 d = hex_EncodeToString md"
      "hex_DecodeString (tb_ManifestSHA256 d) = Some md"
    by (metis sha256_textE)
  then show thesis
    using assms
    by (intro that [of dd ed md]) (simp_all add: descriptor_SignatureInput_def decode_digest_def
        signed_bytes_V2_def appendLengthPrefixed_eq Let_def)
qed

lemma append_same_length: "length a = length b \<Longrightarrow> a @ s = b @ t \<longleftrightarrow> a = b \<and> s = t"
  by simp

lemma signed_bytes_V1_inj:
  assumes "signed_bytes_V1 d dd md = signed_bytes_V1 e dd' md'"
    and "length dd = 32" "length dd' = 32"
    and "tb_Version d = tb_Version e" "length (tb_Version d) < 2 ^ 32"
    and "length (tb_SourceID d) < 2 ^ 32" "length (tb_SourceID e) < 2 ^ 32"
    and "length (tb_BatchID d) < 2 ^ 32" "length (tb_BatchID e) < 2 ^ 32"
  shows "tb_SourceID d = tb_SourceID e \<and> tb_BatchID d = tb_BatchID e \<and>
    tb_RecordCount d = tb_RecordCount e \<and> tb_DataBytes d = tb_DataBytes e \<and> dd = dd' \<and> md = md'"
proof -
  from assms(1,4) have
    "prefixed (tb_SourceID d) @ prefixed (tb_BatchID d) @ be_PutUint64 (tb_RecordCount d) @
       be_PutUint64 (tb_DataBytes d) @ dd @ md =
     prefixed (tb_SourceID e) @ prefixed (tb_BatchID e) @ be_PutUint64 (tb_RecordCount e) @
       be_PutUint64 (tb_DataBytes e) @ dd' @ md'"
    by (simp add: signed_bytes_V1_def)
  from prefixed_inj [OF this assms(6,7)] have s: "tb_SourceID d = tb_SourceID e" and
    "prefixed (tb_BatchID d) @ be_PutUint64 (tb_RecordCount d) @ be_PutUint64 (tb_DataBytes d) @
       dd @ md =
     prefixed (tb_BatchID e) @ be_PutUint64 (tb_RecordCount e) @ be_PutUint64 (tb_DataBytes e) @
       dd' @ md'" by auto
  from prefixed_inj [OF this(2) assms(8,9)] s assms(2,3) show ?thesis by simp
qed

lemma signed_bytes_V2_inj:
  assumes "signed_bytes_V2 d dd ed md = signed_bytes_V2 e dd' ed' md'"
    and "length dd = 32" "length dd' = 32" "length ed = 32" "length ed' = 32"
    and "tb_Version d = tb_Version e" and "tb_DataEncoding d = tb_DataEncoding e"
    and "length (tb_SourceID d) < 2 ^ 32" "length (tb_SourceID e) < 2 ^ 32"
    and "length (tb_BatchID d) < 2 ^ 32" "length (tb_BatchID e) < 2 ^ 32"
  shows "tb_SourceID d = tb_SourceID e \<and> tb_BatchID d = tb_BatchID e \<and>
    tb_RecordCount d = tb_RecordCount e \<and> tb_DataBytes d = tb_DataBytes e \<and>
    tb_EncodedDataBytes d = tb_EncodedDataBytes e \<and> dd = dd' \<and> ed = ed' \<and> md = md'"
proof -
  let ?tail = "\<lambda>d dd ed md. prefixed (tb_DataEncoding d) @ be_PutUint64 (tb_RecordCount d) @
       be_PutUint64 (tb_DataBytes d) @ be_PutUint64 (tb_EncodedDataBytes d) @ dd @ ed @ md"
  from assms(1,6) have
    "prefixed (tb_SourceID d) @ prefixed (tb_BatchID d) @ ?tail d dd ed md =
     prefixed (tb_SourceID e) @ prefixed (tb_BatchID e) @ ?tail e dd' ed' md'"
    by (simp add: signed_bytes_V2_def)
  from prefixed_inj [OF this assms(8,9)] have s: "tb_SourceID d = tb_SourceID e" and
    "prefixed (tb_BatchID d) @ ?tail d dd ed md = prefixed (tb_BatchID e) @ ?tail e dd' ed' md'"
    by auto
  from prefixed_inj [OF this(2) assms(10,11)] have b: "tb_BatchID d = tb_BatchID e" and
    "?tail d dd ed md = ?tail e dd' ed' md'" by auto
  with s b assms(2-5,7) show ?thesis by simp
qed

lemma batch_domains_separate: "signed_bytes_V1 d dd md \<noteq> signed_bytes_V2 e dd' ed' md'"
  by (simp add: signed_bytes_V1_def signed_bytes_V2_def signatureDomainV1_def signatureDomainV2_def)

lemma SignatureInput_valid: "descriptor_SignatureInput d = Inr x \<Longrightarrow> descriptor_Validate d = None"
  by (auto simp: descriptor_SignatureInput_def)

text \<open>
  C29: The bytes a batch signature covers determine the descriptor. Two descriptors, of either
  version, whose signature inputs are equal are the same descriptor in every field, so one
  signature never vouches for two batches. The identifiers are shorter than 4 GiB: the length
  prefix is 32 bits wide and the descriptor validation puts no bound on them.
\<close>

theorem batch_signature_input_injective:
  assumes "descriptor_SignatureInput d = Inr x" and "descriptor_SignatureInput e = Inr x"
    and "length (tb_SourceID d) < 2 ^ 32" and "length (tb_SourceID e) < 2 ^ 32"
    and "length (tb_BatchID d) < 2 ^ 32" and "length (tb_BatchID e) < 2 ^ 32"
  shows "d = e"
proof -
  note vd = SignatureInput_valid [OF assms(1)] and ve = SignatureInput_valid [OF assms(2)]
  from descriptor_Validate_version [OF vd] descriptor_Validate_version [OF ve]
  consider (v1) "tb_Version d = DescriptorVersion" "tb_Version e = DescriptorVersion"
    | (v2) "tb_Version d = DescriptorVersionV2" "tb_Version e = DescriptorVersionV2"
    | (v12) "tb_Version d = DescriptorVersion" "tb_Version e = DescriptorVersionV2"
    | (v21) "tb_Version d = DescriptorVersionV2" "tb_Version e = DescriptorVersion" by blast
  then show ?thesis
  proof cases
    case v1
    obtain dd md where d: "length dd = 32" "tb_DataSHA256 d = hex_EncodeToString dd"
      "tb_ManifestSHA256 d = hex_EncodeToString md" "x = signed_bytes_V1 d dd md"
      by (rule SignatureInput_V1 [OF vd v1(1)]) (use assms(1) in auto)
    obtain dd' md' where e: "length dd' = 32" "tb_DataSHA256 e = hex_EncodeToString dd'"
      "tb_ManifestSHA256 e = hex_EncodeToString md'" "x = signed_bytes_V1 e dd' md'"
      by (rule SignatureInput_V1 [OF ve v1(2)]) (use assms(2) in auto)
    from d e signed_bytes_V1_inj [of d dd md e dd' md'] v1 assms(3-6) vd ve show ?thesis
      by (auto simp: descriptor_Validate_V1 DescriptorVersion_def
          intro!: batch_descriptor.equality)
  next
    case v2
    obtain dd ed md where d: "length dd = 32" "length ed = 32"
      "tb_DataSHA256 d = hex_EncodeToString dd" "tb_EncodedDataSHA256 d = hex_EncodeToString ed"
      "tb_ManifestSHA256 d = hex_EncodeToString md" "x = signed_bytes_V2 d dd ed md"
      by (rule SignatureInput_V2 [OF vd v2(1)]) (use assms(1) in auto)
    obtain dd' ed' md' where e: "length dd' = 32" "length ed' = 32"
      "tb_DataSHA256 e = hex_EncodeToString dd'" "tb_EncodedDataSHA256 e = hex_EncodeToString ed'"
      "tb_ManifestSHA256 e = hex_EncodeToString md'" "x = signed_bytes_V2 e dd' ed' md'"
      by (rule SignatureInput_V2 [OF ve v2(2)]) (use assms(2) in auto)
    from d e signed_bytes_V2_inj [of d dd ed md e dd' ed' md'] v2 assms(3-6) vd ve
    show ?thesis by (auto simp: descriptor_Validate_V2 intro!: batch_descriptor.equality)
  next
    case v12
    with SignatureInput_V1 [OF vd] SignatureInput_V2 [OF ve] assms(1,2) batch_domains_separate
    show ?thesis by (metis sum.inject(2))
  next
    case v21
    with SignatureInput_V2 [OF vd] SignatureInput_V1 [OF ve] assms(1,2) batch_domains_separate
    show ?thesis by (metis sum.inject(2))
  qed
qed

section \<open>A sample descriptor\<close>

definition sample_digest :: bytes where
  "sample_digest = replicate 32 (CHR 0xAB)"

definition sample_batch :: batch_descriptor where
  "sample_batch =
     \<lparr>tb_Version = DescriptorVersion, tb_SourceID = ''fs-01'', tb_BatchID = ''b1'',
      tb_RecordCount = 3, tb_DataBytes = 120,
      tb_DataSHA256 = hex_EncodeToString sample_digest, tb_DataEncoding = [],
      tb_EncodedDataBytes = 0, tb_EncodedDataSHA256 = [],
      tb_ManifestSHA256 = hex_EncodeToString sample_digest\<rparr>"

lemma length_sample_digest [simp]: "length sample_digest = 32"
  by (simp add: sample_digest_def)

lemma sample_batch_valid: "descriptor_Validate sample_batch = None"
  by (subst descriptor_Validate_V1) (simp_all add: sample_batch_def)

theorem batch_signature_input_injective_witness:
  "\<exists>x. descriptor_SignatureInput sample_batch = Inr x \<and>
       (descriptor_SignatureInput (sample_batch\<lparr>tb_RecordCount := 4\<rparr>) \<noteq> Inr x)"
proof -
  have v: "tb_Version sample_batch = DescriptorVersion" by (simp add: sample_batch_def)
  obtain x where x: "descriptor_SignatureInput sample_batch = Inr x"
    using SignatureInput_V1 [OF sample_batch_valid v] by auto
  have "sample_batch \<noteq> sample_batch\<lparr>tb_RecordCount := 4\<rparr>" by (simp add: sample_batch_def)
  with batch_signature_input_injective [OF x, of "sample_batch\<lparr>tb_RecordCount := 4\<rparr>"] x
  show ?thesis by (auto simp: sample_batch_def)
qed

end
