(* ===== verification/FI_Trust.thy ===== *)
theory FI_Trust
  imports Batch_Descriptor
begin

text \<open>
  Package \<^verbatim>\<open>transporttrust\<close>: certificates as the sources read them, the authorization of an
  enrolled source (\<^verbatim>\<open>authorization.go\<close>, \<^verbatim>\<open>x509.go\<close>), the verification of batch-signing and
  transport certificates (\<^verbatim>\<open>batch.go\<close>, \<^verbatim>\<open>transport.go\<close>), source configuration checks
  (\<^verbatim>\<open>config.go\<close>), and signing and verifying a batch descriptor (\<^verbatim>\<open>sign.go\<close>, \<^verbatim>\<open>batch.go\<close>).

  X.509 parsing, certificate signatures, chain building, RSA-PSS and Unicode case folding are
  parameters, collected in a record of functions; the theorems hold for every choice of them.
\<close>

unbundle bit_operations_syntax

section \<open>Certificates and the library functions they come from\<close>

type_synonym gotime = int  \<comment> \<open>nanoseconds from the zero time, which is 0\<close>

record rsa_public_key =
  rsa_N :: nat
  rsa_E :: int

record certificate =
  cert_Raw :: bytes
  cert_IsCA :: bool
  cert_SerialNumber :: int
  cert_OrganizationalUnit :: "string list"
  cert_CommonName :: string
  cert_KeyUsage :: uint32
  cert_PublicKey :: "rsa_public_key option"

record revocation_list =
  crl_ThisUpdate :: gotime
  crl_NextUpdate :: gotime
  crl_RevokedCertificateEntries :: "int option list"
  crl_RevokedCertificates :: "int option list"

datatype ext_key_usage = ExtKeyUsageAny | ExtKeyUsageClientAuth

record x509_lib =
  ParseCertificate :: "bytes \<Rightarrow> certificate option"
  EqualFold :: "string \<Rightarrow> string \<Rightarrow> bool"
  CheckSignatureFrom :: "certificate \<Rightarrow> certificate \<Rightarrow> bool"
  CRLCheckSignatureFrom :: "revocation_list \<Rightarrow> certificate \<Rightarrow> bool"
  VerifyChain :: "certificate \<Rightarrow> certificate list \<Rightarrow> certificate list \<Rightarrow> gotime \<Rightarrow> ext_key_usage \<Rightarrow> bool"
  VerifyPSS :: "rsa_public_key \<Rightarrow> bytes \<Rightarrow> bytes \<Rightarrow> bool"

record signer =
  sg_Public :: "rsa_public_key option"
  sg_Sign :: "bytes \<Rightarrow> bytes option"

definition KeyUsageDigitalSignature :: uint32 where
  "KeyUsageDigitalSignature = 1"

definition BatchSigningOrganizationalUnit :: string where
  "BatchSigningOrganizationalUnit = ''FI Batch Signing''"

definition TransportOrganizationalUnit :: string where
  "TransportOrganizationalUnit = ''FI Shipper Transport''"

section \<open>Authorization of an enrolled source\<close>

datatype authorization_outcome =
  AuthorizationAuthorized | AuthorizationCertificateMismatch | AuthorizationDisabled
  | AuthorizationIdentityMismatch

record certificate_identity =
  ci_CertificateSHA256 :: string
  ci_CommonName :: string
  ci_IssuingCASHA256 :: string
  ci_OrganizationalUnit :: string

datatype certificate_use = CertificateUseBatchSigning | CertificateUseTransport

record source_authorization =
  sa_BatchSigning :: certificate_identity
  sa_Enabled :: bool
  sa_SourceID :: string
  sa_Transport :: certificate_identity

datatype trust_error =
    LeafRequired
  | RootRequired
  | IssuerRequired
  | CRLRequired
  | CurrentTimeRequired
  | LeafIsCA
  | OneOrganizationalUnit
  | WrongOrganizationalUnit authorization_outcome
  | NotSignedByIssuer
  | NoDigitalSignatureUsage
  | CRLSignatureInvalid
  | CRLNotYetValid
  | CRLNextUpdateRequired
  | CRLExpired
  | Revoked
  | ChainInvalid
  | CertificateDEREmpty
  | IssuerDEREmpty
  | CommonNameRequired
  | SourceIDRequired
  | ConfiguredCADigest
  | PresentedCADigest
  | ConfiguredCertificateDigest
  | PresentedCertificateDigest
  | Rejected authorization_outcome
  | SignatureInputError batch_error
  | SourceMismatch authorization_outcome
  | SignatureRequired
  | KeyNotRSA
  | SignatureInvalid
  | SignerRequired
  | SignFailed
  | SignerEmptySignature

definition is_hex :: "char \<Rightarrow> bool" where
  "is_hex c \<longleftrightarrow> hex_value c \<noteq> None"

definition normalizeSHA256 :: "string \<Rightarrow> string option" where
  "normalizeSHA256 v =
     (let v = filter (\<lambda>c. c \<noteq> CHR '':'') (TrimSpace v) in
      if length v \<noteq> 64 then None
      else if \<not> list_all is_hex v then None
      else Some (map ascii_lower v))"

fun expectedIdentity :: "source_authorization \<Rightarrow> certificate_use \<Rightarrow> certificate_identity" where
  "expectedIdentity source CertificateUseBatchSigning = sa_BatchSigning source"
| "expectedIdentity source CertificateUseTransport = sa_Transport source"

definition AuthorizeSource ::
  "x509_lib \<Rightarrow> source_authorization \<Rightarrow> certificate_use \<Rightarrow> certificate_identity
     \<Rightarrow> trust_error + authorization_outcome" where
  "AuthorizeSource L source use presented =
     (if sa_SourceID source = [] then Inl SourceIDRequired
      else if \<not> sa_Enabled source then Inr AuthorizationDisabled
      else let expected = expectedIdentity source use in
      if \<not> EqualFold L (ci_CommonName presented) (ci_CommonName expected)
      then Inr AuthorizationIdentityMismatch
      else if ci_OrganizationalUnit presented \<noteq> ci_OrganizationalUnit expected
      then Inr AuthorizationIdentityMismatch
      else case normalizeSHA256 (ci_IssuingCASHA256 expected) of None \<Rightarrow> Inl ConfiguredCADigest
      | Some expectedCA \<Rightarrow>
      (case normalizeSHA256 (ci_IssuingCASHA256 presented) of None \<Rightarrow> Inl PresentedCADigest
      | Some presentedCA \<Rightarrow>
      if presentedCA \<noteq> expectedCA then Inr AuthorizationCertificateMismatch
      else (case normalizeSHA256 (ci_CertificateSHA256 expected) of
        None \<Rightarrow> Inl ConfiguredCertificateDigest
      | Some expectedCertificate \<Rightarrow>
      (case normalizeSHA256 (ci_CertificateSHA256 presented) of
        None \<Rightarrow> Inl PresentedCertificateDigest
      | Some presentedCertificate \<Rightarrow>
      if presentedCertificate \<noteq> expectedCertificate then Inr AuthorizationCertificateMismatch
      else Inr AuthorizationAuthorized))))"

definition IdentityFromCertificate ::
  "certificate option \<Rightarrow> certificate option \<Rightarrow> trust_error + certificate_identity" where
  "IdentityFromCertificate c i =
     (case c of None \<Rightarrow> Inl LeafRequired | Some c \<Rightarrow>
     (case i of None \<Rightarrow> Inl IssuerRequired | Some i \<Rightarrow>
      if cert_Raw c = [] then Inl CertificateDEREmpty
      else if cert_Raw i = [] then Inl IssuerDEREmpty
      else if cert_CommonName c = [] then Inl CommonNameRequired
      else if length (cert_OrganizationalUnit c) \<noteq> 1 then Inl OneOrganizationalUnit
      else Inr \<lparr>ci_CertificateSHA256 = hex_EncodeToString (Sum256 (cert_Raw c)),
                ci_CommonName = cert_CommonName c,
                ci_IssuingCASHA256 = hex_EncodeToString (Sum256 (cert_Raw i)),
                ci_OrganizationalUnit = hd (cert_OrganizationalUnit c)\<rparr>))"

definition certificateIsRevoked :: "certificate \<Rightarrow> revocation_list \<Rightarrow> bool" where
  "certificateIsRevoked c crl =
     (list_ex (\<lambda>e. e = Some (cert_SerialNumber c)) (crl_RevokedCertificateEntries crl) \<or>
      list_ex (\<lambda>e. e = Some (cert_SerialNumber c)) (crl_RevokedCertificates crl))"

section \<open>Verification of presented certificates\<close>

text \<open>The CRL checks that the two verifiers share, in order.\<close>

definition crl_checks ::
  "x509_lib \<Rightarrow> certificate \<Rightarrow> certificate \<Rightarrow> revocation_list \<Rightarrow> gotime \<Rightarrow> trust_error option" where
  "crl_checks L leaf issuer crl now =
     first_err
       [fail_if (\<not> CheckSignatureFrom L leaf issuer) NotSignedByIssuer,
        fail_if (cert_KeyUsage leaf AND KeyUsageDigitalSignature = 0) NoDigitalSignatureUsage,
        fail_if (\<not> CRLCheckSignatureFrom L crl issuer) CRLSignatureInvalid,
        fail_if (now < crl_ThisUpdate crl) CRLNotYetValid,
        fail_if (crl_NextUpdate crl = 0) CRLNextUpdateRequired,
        fail_if (\<not> now < crl_NextUpdate crl) CRLExpired,
        fail_if (certificateIsRevoked leaf crl) Revoked]"

definition authorize_leaf ::
  "x509_lib \<Rightarrow> source_authorization \<Rightarrow> certificate_use \<Rightarrow> certificate \<Rightarrow> certificate
     \<Rightarrow> trust_error + authorization_outcome" where
  "authorize_leaf L source use leaf issuer =
     bindE (IdentityFromCertificate (Some leaf) (Some issuer)) (\<lambda>identity.
     bindE (AuthorizeSource L source use identity) (\<lambda>outcome.
     if outcome \<noteq> AuthorizationAuthorized then Inl (Rejected outcome) else Inr outcome))"

definition VerifyBatchSigningCertificate ::
  "x509_lib \<Rightarrow> certificate option \<Rightarrow> certificate option \<Rightarrow> certificate option
     \<Rightarrow> revocation_list option \<Rightarrow> source_authorization \<Rightarrow> gotime
     \<Rightarrow> trust_error + authorization_outcome" where
  "VerifyBatchSigningCertificate L leaf root issuer crl source now =
     (case leaf of None \<Rightarrow> Inl LeafRequired | Some leaf \<Rightarrow>
     (case root of None \<Rightarrow> Inl RootRequired | Some root \<Rightarrow>
     (case issuer of None \<Rightarrow> Inl IssuerRequired | Some issuer \<Rightarrow>
     (case crl of None \<Rightarrow> Inl CRLRequired | Some crl \<Rightarrow>
      bindE (check (first_err
        [fail_if (now = 0) CurrentTimeRequired,
         fail_if (cert_IsCA leaf) LeafIsCA,
         fail_if (length (cert_OrganizationalUnit leaf) \<noteq> 1) OneOrganizationalUnit,
         fail_if (hd (cert_OrganizationalUnit leaf) \<noteq> BatchSigningOrganizationalUnit)
           (WrongOrganizationalUnit AuthorizationIdentityMismatch),
         crl_checks L leaf issuer crl now,
         fail_if (\<not> VerifyChain L leaf [root] [issuer] now ExtKeyUsageAny) ChainInvalid])) (\<lambda>_.
      authorize_leaf L source CertificateUseBatchSigning leaf issuer)))))"

definition VerifyTransportCertificate ::
  "x509_lib \<Rightarrow> certificate option \<Rightarrow> certificate option list \<Rightarrow> certificate option
     \<Rightarrow> certificate option \<Rightarrow> revocation_list option \<Rightarrow> source_authorization \<Rightarrow> gotime
     \<Rightarrow> trust_error + authorization_outcome" where
  "VerifyTransportCertificate L leaf peers root issuer crl source now =
     (case leaf of None \<Rightarrow> Inl LeafRequired | Some leaf \<Rightarrow>
     (case root of None \<Rightarrow> Inl RootRequired | Some root \<Rightarrow>
     (case issuer of None \<Rightarrow> Inl IssuerRequired | Some issuer \<Rightarrow>
     (case crl of None \<Rightarrow> Inl CRLRequired | Some crl \<Rightarrow>
      (let same = (\<lambda>c d. cert_Raw c = cert_Raw d);
           extra = filter (\<lambda>c. \<not> same c root \<and> \<not> same c issuer \<and> \<not> same c leaf)
                     (List.map_filter id peers)
       in
      bindE (check (first_err
        [fail_if (now = 0) CurrentTimeRequired,
         crl_checks L leaf issuer crl now,
         fail_if (\<not> VerifyChain L leaf [root] (issuer # extra) now ExtKeyUsageClientAuth)
           ChainInvalid])) (\<lambda>_.
      authorize_leaf L source CertificateUseTransport leaf issuer))))))"

section \<open>Signed descriptors\<close>

definition SignBatchDescriptor ::
  "x509_lib \<Rightarrow> batch_descriptor \<Rightarrow> signer option \<Rightarrow> trust_error + bytes" where
  "SignBatchDescriptor L d sg =
     (case sg of None \<Rightarrow> Inl SignerRequired | Some sg \<Rightarrow>
      bindE (map_err SignatureInputError (descriptor_SignatureInput d)) (\<lambda>input.
      case sg_Public sg of None \<Rightarrow> Inl KeyNotRSA | Some key \<Rightarrow>
      (case sg_Sign sg (Sum256 input) of None \<Rightarrow> Inl SignFailed | Some signature \<Rightarrow>
       if signature = [] then Inl SignerEmptySignature
       else if \<not> VerifyPSS L key (Sum256 input) signature then Inl SignatureInvalid
       else Inr signature)))"

definition VerifySignedBatch ::
  "x509_lib \<Rightarrow> batch_descriptor \<Rightarrow> bytes \<Rightarrow> certificate option \<Rightarrow> certificate option
     \<Rightarrow> certificate option \<Rightarrow> revocation_list option \<Rightarrow> source_authorization \<Rightarrow> gotime
     \<Rightarrow> trust_error + authorization_outcome" where
  "VerifySignedBatch L d signature leaf root issuer crl source now =
     bindE (map_err SignatureInputError (descriptor_SignatureInput d)) (\<lambda>input.
     if tb_SourceID d \<noteq> sa_SourceID source
     then Inl (SourceMismatch AuthorizationIdentityMismatch)
     else if signature = [] then Inl SignatureRequired
     else bindE (VerifyBatchSigningCertificate L leaf root issuer crl source now) (\<lambda>outcome.
     case Option.bind leaf cert_PublicKey of None \<Rightarrow> Inl KeyNotRSA | Some key \<Rightarrow>
       if \<not> VerifyPSS L key (Sum256 input) signature then Inl SignatureInvalid
       else Inr outcome))"

section \<open>What authorization means\<close>

lemma normalizeSHA256_digest [simp]:
  assumes "length d = 32"
  shows "normalizeSHA256 (hex_EncodeToString d) = Some (hex_EncodeToString d)"
proof -
  let ?h = "hex_EncodeToString d"
  have lh: "\<And>c. c \<in> set ?h \<Longrightarrow> is_lower_hex c"
    using lower_hex_Encode [of d] by (simp add: list_all_iff)
  have trim: "TrimSpace ?h = ?h"
    by (rule TrimSpace_plain) (auto simp: list_all_iff lh lower_hex_plain)
  have colon: "filter (\<lambda>c. c \<noteq> CHR '':'') ?h = ?h"
    using lh [of "CHR '':''"] by (auto intro!: filter_True simp: is_lower_hex_def)
  have "list_all is_hex ?h"
    using lh hex_digit_value by (fastforce simp: list_all_iff is_hex_def)
  moreover have "map ascii_lower ?h = ?h"
    by (rule map_idI) (simp add: lh ascii_lower_fix)
  ultimately show ?thesis using assms by (simp add: normalizeSHA256_def trim colon)
qed

text \<open>The enrolled identity is this certificate under this issuer, by name and by digest.\<close>

definition enrolled ::
  "x509_lib \<Rightarrow> source_authorization \<Rightarrow> certificate_identity \<Rightarrow> certificate \<Rightarrow> certificate \<Rightarrow> bool" where
  "enrolled L source expected leaf issuer \<longleftrightarrow>
     sa_SourceID source \<noteq> [] \<and> sa_Enabled source \<and>
     cert_Raw leaf \<noteq> [] \<and> cert_Raw issuer \<noteq> [] \<and> cert_CommonName leaf \<noteq> [] \<and>
     EqualFold L (cert_CommonName leaf) (ci_CommonName expected) \<and>
     cert_OrganizationalUnit leaf = [ci_OrganizationalUnit expected] \<and>
     normalizeSHA256 (ci_IssuingCASHA256 expected) =
       Some (hex_EncodeToString (Sum256 (cert_Raw issuer))) \<and>
     normalizeSHA256 (ci_CertificateSHA256 expected) =
       Some (hex_EncodeToString (Sum256 (cert_Raw leaf)))"

lemma length_1_hd: "length xs = 1 \<and> hd xs = x \<longleftrightarrow> xs = [x]"
  by (cases xs) auto

lemma authorize_leaf_iff:
  "authorize_leaf L source use leaf issuer = Inr out \<longleftrightarrow>
     out = AuthorizationAuthorized \<and> enrolled L source (expectedIdentity source use) leaf issuer"
proof -
  have "authorize_leaf L source use leaf issuer = Inr out \<longleftrightarrow>
     out = AuthorizationAuthorized \<and> cert_Raw leaf \<noteq> [] \<and> cert_Raw issuer \<noteq> [] \<and>
     cert_CommonName leaf \<noteq> [] \<and> length (cert_OrganizationalUnit leaf) = 1 \<and>
     sa_SourceID source \<noteq> [] \<and> sa_Enabled source \<and>
     EqualFold L (cert_CommonName leaf) (ci_CommonName (expectedIdentity source use)) \<and>
     hd (cert_OrganizationalUnit leaf) = ci_OrganizationalUnit (expectedIdentity source use) \<and>
     normalizeSHA256 (ci_IssuingCASHA256 (expectedIdentity source use)) =
       Some (hex_EncodeToString (Sum256 (cert_Raw issuer))) \<and>
     normalizeSHA256 (ci_CertificateSHA256 (expectedIdentity source use)) =
       Some (hex_EncodeToString (Sum256 (cert_Raw leaf)))"
    by (auto simp: authorize_leaf_def IdentityFromCertificate_def AuthorizeSource_def Let_def
        split: if_splits option.splits)
  also have "\<dots> \<longleftrightarrow> out = AuthorizationAuthorized \<and>
      enrolled L source (expectedIdentity source use) leaf issuer"
    unfolding enrolled_def length_1_hd [symmetric] by blast
  finally show ?thesis .
qed

definition crl_current ::
  "x509_lib \<Rightarrow> certificate \<Rightarrow> certificate \<Rightarrow> revocation_list \<Rightarrow> gotime \<Rightarrow> bool" where
  "crl_current L leaf issuer crl now \<longleftrightarrow>
     CheckSignatureFrom L leaf issuer \<and> cert_KeyUsage leaf AND KeyUsageDigitalSignature \<noteq> 0 \<and>
     CRLCheckSignatureFrom L crl issuer \<and> crl_ThisUpdate crl \<le> now \<and> crl_NextUpdate crl \<noteq> 0 \<and>
     now < crl_NextUpdate crl \<and>
     Some (cert_SerialNumber leaf) \<notin> set (crl_RevokedCertificateEntries crl) \<and>
     Some (cert_SerialNumber leaf) \<notin> set (crl_RevokedCertificates crl)"

lemma crl_checks_None: "crl_checks L leaf issuer crl now = None \<longleftrightarrow> crl_current L leaf issuer crl now"
  by (auto simp: crl_checks_def crl_current_def certificateIsRevoked_def list_ex_iff)

text \<open>
  C30: A batch-signing certificate is accepted exactly when it is a non-CA certificate of the
  FI Batch Signing unit, signed by the expected issuer, fit for digital signatures, absent
  from a correctly signed and current CRL, chained to the root, and the very certificate
  (name, unit, SHA-256 of its DER, SHA-256 of its issuer) that is enrolled for an enabled
  source. Every other input is an error, and success reports Authorized and nothing else.
\<close>

theorem batch_signing_certificate_authorized_iff:
  "VerifyBatchSigningCertificate L leaf root issuer crl source now = Inr out \<longleftrightarrow>
     out = AuthorizationAuthorized \<and> now \<noteq> 0 \<and>
     (\<exists>l r i c. leaf = Some l \<and> root = Some r \<and> issuer = Some i \<and> crl = Some c \<and>
        \<not> cert_IsCA l \<and> cert_OrganizationalUnit l = [BatchSigningOrganizationalUnit] \<and>
        crl_current L l i c now \<and> VerifyChain L l [r] [i] now ExtKeyUsageAny \<and>
        enrolled L source (sa_BatchSigning source) l i)"
  unfolding length_1_hd [symmetric]
  by (auto simp: VerifyBatchSigningCertificate_def authorize_leaf_iff crl_checks_None
      split: option.splits)

lemma VerifySignedBatch_Inr:
  assumes "VerifySignedBatch L d signature leaf root issuer crl source now = Inr out"
  obtains input l key where "descriptor_SignatureInput d = Inr input" and "leaf = Some l"
    and "cert_PublicKey l = Some key" and "VerifyPSS L key (Sum256 input) signature"
    and "tb_SourceID d = sa_SourceID source"
    and "VerifyBatchSigningCertificate L leaf root issuer crl source now = Inr out"
  using assms
  by (auto simp: VerifySignedBatch_def bind_eq_Some_conv split: option.splits if_splits)

section \<open>A sample enrolment\<close>

text \<open>
  A concrete choice of the parameters, for the witnesses: the DER of the certificate is the
  text \<^verbatim>\<open>DER\<close>, a signature is the digest itself, and names are compared exactly.
\<close>

definition sample_certificate :: certificate where
  "sample_certificate =
     \<lparr>cert_Raw = ''DER'', cert_IsCA = False, cert_SerialNumber = 7,
      cert_OrganizationalUnit = [BatchSigningOrganizationalUnit], cert_CommonName = ''fs-01'',
      cert_KeyUsage = 1, cert_PublicKey = Some \<lparr>rsa_N = 15, rsa_E = 3\<rparr>\<rparr>"

definition sample_issuer :: certificate where
  "sample_issuer = sample_certificate\<lparr>cert_Raw := ''CA'', cert_IsCA := True\<rparr>"

definition sample_crl :: revocation_list where
  "sample_crl =
     \<lparr>crl_ThisUpdate = 1, crl_NextUpdate = 9, crl_RevokedCertificateEntries = [Some 3],
      crl_RevokedCertificates = []\<rparr>"

definition sample_lib :: x509_lib where
  "sample_lib =
     \<lparr>ParseCertificate = (\<lambda>der. if der = ''DER'' then Some sample_certificate else None),
      EqualFold = (=), CheckSignatureFrom = (\<lambda>_ _. True), CRLCheckSignatureFrom = (\<lambda>_ _. True),
      VerifyChain = (\<lambda>_ _ _ _ _. True), VerifyPSS = (\<lambda>_ dg sig. sig = dg)\<rparr>"

definition sample_signer :: signer where
  "sample_signer = \<lparr>sg_Public = Some \<lparr>rsa_N = 15, rsa_E = 3\<rparr>, sg_Sign = (\<lambda>dg. Some dg)\<rparr>"

definition sample_source :: source_authorization where
  "sample_source =
     (let i = \<lparr>ci_CertificateSHA256 = hex_EncodeToString (Sum256 ''DER''), ci_CommonName = ''fs-01'',
               ci_IssuingCASHA256 = hex_EncodeToString (Sum256 ''CA''),
               ci_OrganizationalUnit = BatchSigningOrganizationalUnit\<rparr>
      in \<lparr>sa_BatchSigning = i, sa_Enabled = True, sa_SourceID = ''fs-01'', sa_Transport = i\<rparr>)"

lemma sample_certificate_authorized:
  "VerifyBatchSigningCertificate sample_lib (Some sample_certificate) (Some sample_issuer)
     (Some sample_issuer) (Some sample_crl) sample_source 5 = Inr AuthorizationAuthorized"
proof -
  have "crl_current sample_lib sample_certificate sample_issuer sample_crl 5"
    by (simp add: crl_current_def sample_lib_def sample_certificate_def sample_crl_def
        KeyUsageDigitalSignature_def)
  moreover have "enrolled sample_lib sample_source (sa_BatchSigning sample_source)
      sample_certificate sample_issuer"
    by (simp add: enrolled_def sample_lib_def sample_source_def sample_certificate_def
        sample_issuer_def Let_def)
  moreover have "authorize_leaf sample_lib sample_source CertificateUseBatchSigning
      sample_certificate sample_issuer = Inr AuthorizationAuthorized"
    using calculation by (simp add: authorize_leaf_iff)
  ultimately show ?thesis
    by (simp add: VerifyBatchSigningCertificate_def crl_checks_None)
      (simp add: sample_lib_def sample_certificate_def)
qed

end
