(* ===== verification/Batch_Package.thy ===== *)
theory Batch_Package
  imports FI_Trust
begin

text \<open>
  Package \<^verbatim>\<open>transportpackage\<close> (\<^verbatim>\<open>signed.go\<close>): a descriptor with the signature and the DER of the
  batch-signing certificate, its construction by the source and its structural validation.
\<close>

unbundle bit_operations_syntax

section \<open>Signed batches\<close>

definition MaxBatchSignatureBytes :: nat where
  "MaxBatchSignatureBytes = 16 * 1024"

definition MaxBatchSigningCertificateDERBytes :: nat where
  "MaxBatchSigningCertificateDERBytes = 128 * 1024"

definition SignedBatchVersion :: string where
  "SignedBatchVersion = ''fi-signed-batch/0.1''"

record signed_batch =
  sb_Version :: string
  sb_Descriptor :: batch_descriptor
  sb_Signature :: bytes
  sb_BatchSigningCertificateDER :: bytes

datatype package_error =
    PkgBadVersion
  | PkgDescriptor batch_error
  | PkgSignatureRequired
  | PkgSignatureTooLong
  | PkgCertificateNil
  | PkgCertificateDERRequired
  | PkgCertificateDERTooLong
  | PkgCertificateParse
  | RoleIsCA
  | RoleOneOrganizationalUnit
  | RoleWrongOrganizationalUnit
  | RoleCommonName
  | RoleNoDigitalSignature
  | RoleKeyNotRSA
  | PkgSignerNil
  | PkgCertificateKeyNotRSA
  | PkgSignerKeyNotRSA
  | PkgSignerKeyMismatch
  | PkgSign trust_error

definition validateBatchSigningCertificateRole ::
  "x509_lib \<Rightarrow> batch_descriptor \<Rightarrow> certificate \<Rightarrow> package_error option" where
  "validateBatchSigningCertificateRole L d c =
     first_err
       [fail_if (cert_IsCA c) RoleIsCA,
        fail_if (length (cert_OrganizationalUnit c) \<noteq> 1) RoleOneOrganizationalUnit,
        fail_if (hd (cert_OrganizationalUnit c) \<noteq> BatchSigningOrganizationalUnit)
          RoleWrongOrganizationalUnit,
        fail_if (\<not> EqualFold L (cert_CommonName c) (tb_SourceID d)) RoleCommonName,
        fail_if (cert_KeyUsage c AND KeyUsageDigitalSignature = 0) RoleNoDigitalSignature,
        fail_if (cert_PublicKey c = None) RoleKeyNotRSA]"

definition BatchSigningCertificate :: "x509_lib \<Rightarrow> signed_batch \<Rightarrow> package_error + certificate" where
  "BatchSigningCertificate L v =
     (if sb_BatchSigningCertificateDER v = [] then Inl PkgCertificateDERRequired
      else if length (sb_BatchSigningCertificateDER v) > MaxBatchSigningCertificateDERBytes
      then Inl PkgCertificateDERTooLong
      else case ParseCertificate L (sb_BatchSigningCertificateDER v) of
        None \<Rightarrow> Inl PkgCertificateParse
      | Some c \<Rightarrow>
          bindE (check (validateBatchSigningCertificateRole L (sb_Descriptor v) c)) (\<lambda>_. Inr c))"

definition signed_Validate :: "x509_lib \<Rightarrow> signed_batch \<Rightarrow> package_error option" where
  "signed_Validate L v =
     first_err
       [fail_if (sb_Version v \<noteq> SignedBatchVersion) PkgBadVersion,
        map_option PkgDescriptor (descriptor_Validate (sb_Descriptor v)),
        fail_if (sb_Signature v = []) PkgSignatureRequired,
        fail_if (length (sb_Signature v) > MaxBatchSignatureBytes) PkgSignatureTooLong,
        (case BatchSigningCertificate L v of Inl e \<Rightarrow> Some e | Inr _ \<Rightarrow> None)]"

definition validateSignerMatchesCertificate ::
  "signer \<Rightarrow> certificate \<Rightarrow> package_error option" where
  "validateSignerMatchesCertificate sg c =
     (case cert_PublicKey c of None \<Rightarrow> Some PkgCertificateKeyNotRSA | Some ck \<Rightarrow>
     (case sg_Public sg of None \<Rightarrow> Some PkgSignerKeyNotRSA | Some sk \<Rightarrow>
      fail_if (rsa_E ck \<noteq> rsa_E sk \<or> rsa_N ck \<noteq> rsa_N sk) PkgSignerKeyMismatch))"

definition NewSignedBatch ::
  "x509_lib \<Rightarrow> batch_descriptor \<Rightarrow> certificate option \<Rightarrow> signer option
     \<Rightarrow> package_error + signed_batch" where
  "NewSignedBatch L d cert sg =
     bindE (check (map_option PkgDescriptor (descriptor_Validate d))) (\<lambda>_.
     case cert of None \<Rightarrow> Inl PkgCertificateNil | Some cert \<Rightarrow>
     if cert_Raw cert = [] then Inl PkgCertificateDERRequired
     else if length (cert_Raw cert) > MaxBatchSigningCertificateDERBytes
     then Inl PkgCertificateDERTooLong
     else (case sg of None \<Rightarrow> Inl PkgSignerNil | Some sgr \<Rightarrow>
     (case ParseCertificate L (cert_Raw cert) of None \<Rightarrow> Inl PkgCertificateParse | Some parsed \<Rightarrow>
      bindE (check (validateBatchSigningCertificateRole L d parsed)) (\<lambda>_.
      bindE (check (validateSignerMatchesCertificate sgr parsed)) (\<lambda>_.
      bindE (map_err PkgSign (SignBatchDescriptor L d (Some sgr))) (\<lambda>signature.
      if length signature > MaxBatchSignatureBytes then Inl PkgSignatureTooLong
      else let v = \<lparr>sb_Version = SignedBatchVersion, sb_Descriptor = d, sb_Signature = signature,
                    sb_BatchSigningCertificateDER = cert_Raw parsed\<rparr>
      in bindE (check (signed_Validate L v)) (\<lambda>_. Inr v)))))))"

section \<open>Valid signed batches\<close>

lemma BatchSigningCertificate_Inr:
  "BatchSigningCertificate L v = Inr c \<longleftrightarrow>
     sb_BatchSigningCertificateDER v \<noteq> [] \<and>
     length (sb_BatchSigningCertificateDER v) \<le> MaxBatchSigningCertificateDERBytes \<and>
     ParseCertificate L (sb_BatchSigningCertificateDER v) = Some c \<and>
     validateBatchSigningCertificateRole L (sb_Descriptor v) c = None"
  by (auto simp: BatchSigningCertificate_def split: option.splits)

lemma signed_Validate_None:
  "signed_Validate L v = None \<longleftrightarrow>
     sb_Version v = SignedBatchVersion \<and> descriptor_Validate (sb_Descriptor v) = None \<and>
     sb_Signature v \<noteq> [] \<and> length (sb_Signature v) \<le> MaxBatchSignatureBytes \<and>
     (\<exists>c. BatchSigningCertificate L v = Inr c)"
  by (auto simp: signed_Validate_def split: sum.splits)

lemma signed_Validate_bounds:
  assumes "signed_Validate L v = None"
  shows "descriptor_Validate (sb_Descriptor v) = None" and "sb_Version v = SignedBatchVersion"
    and "sb_Signature v \<noteq> []" and "length (sb_Signature v) \<le> 16384"
    and "sb_BatchSigningCertificateDER v \<noteq> []"
    and "length (sb_BatchSigningCertificateDER v) \<le> 131072"
  using assms
  by (auto simp: signed_Validate_None BatchSigningCertificate_Inr MaxBatchSignatureBytes_def
      MaxBatchSigningCertificateDERBytes_def)

text \<open>
  A signed batch that the source constructs is one the receiver verifies. If
  \<^verbatim>\<open>NewSignedBatch\<close> succeeds, the package is valid and carries the given descriptor; and where
  the certificate in it is the one parsed back from its own DER and is authorized for the
  source of the descriptor, \<^verbatim>\<open>VerifySignedBatch\<close> accepts the descriptor with that signature.
\<close>

theorem NewSignedBatch_verifies:
  assumes new: "NewSignedBatch L d cert sg = Inr v"
    and parse: "\<And>der c. ParseCertificate L der = Some c \<Longrightarrow> cert_Raw c = der"
    and auth: "\<And>c. ParseCertificate L (sb_BatchSigningCertificateDER v) = Some c \<Longrightarrow>
       VerifyBatchSigningCertificate L (Some c) root issuer crl source now = Inr out"
    and src: "sa_SourceID source = tb_SourceID d"
  shows "signed_Validate L v = None \<and> sb_Descriptor v = d \<and>
    (\<exists>c. BatchSigningCertificate L v = Inr c \<and>
       VerifySignedBatch L d (sb_Signature v) (Some c) root issuer crl source now = Inr out)"
proof -
  from new obtain ce :: certificate and sgr parsed signature where
      parsed: "ParseCertificate L (cert_Raw ce) = Some parsed"
      and role: "validateBatchSigningCertificateRole L d parsed = None"
      and keys: "validateSignerMatchesCertificate sgr parsed = None"
      and sig: "SignBatchDescriptor L d (Some sgr) = Inr signature"
      and v: "v = \<lparr>sb_Version = SignedBatchVersion, sb_Descriptor = d, sb_Signature = signature,
                    sb_BatchSigningCertificateDER = cert_Raw parsed\<rparr>"
      and val: "signed_Validate L v = None"
    by (auto simp: NewSignedBatch_def Let_def split: option.splits if_splits)
  from parse [OF parsed] have raw: "cert_Raw parsed = cert_Raw ce" .
  from val have cert: "BatchSigningCertificate L v = Inr parsed"
    using parsed role raw by (auto simp: signed_Validate_None BatchSigningCertificate_Inr v)
  from sig obtain input key where
      input: "descriptor_SignatureInput d = Inr input" and key: "sg_Public sgr = Some key"
      and pss: "VerifyPSS L key (Sum256 input) signature" and ne: "signature \<noteq> []"
    by (auto simp: SignBatchDescriptor_def split: option.splits if_splits)
  from keys key have "cert_PublicKey parsed = Some key"
    by (auto simp: validateSignerMatchesCertificate_def split: option.splits)
  moreover from auth [of parsed] cert
  have "VerifyBatchSigningCertificate L (Some parsed) root issuer crl source now = Inr out"
    by (simp add: BatchSigningCertificate_Inr)
  ultimately have "VerifySignedBatch L d signature (Some parsed) root issuer crl source now = Inr out"
    using input pss ne src by (simp add: VerifySignedBatch_def)
  with val cert v show ?thesis by auto
qed

section \<open>A sample signed batch\<close>

definition sample_signed :: signed_batch where
  "sample_signed =
     \<lparr>sb_Version = SignedBatchVersion, sb_Descriptor = sample_batch,
      sb_Signature = Sum256 (case descriptor_SignatureInput sample_batch of Inr x \<Rightarrow> x | _ \<Rightarrow> []),
      sb_BatchSigningCertificateDER = ''DER''\<rparr>"

lemma Sum256_not_Nil [simp]: "Sum256 m \<noteq> []"
  using length_Sum256 [of m] by force

lemma sample_signed_valid: "signed_Validate sample_lib sample_signed = None"
proof -
  have "validateBatchSigningCertificateRole sample_lib sample_batch sample_certificate = None"
    by (simp add: validateBatchSigningCertificateRole_def sample_lib_def sample_certificate_def
        sample_batch_def KeyUsageDigitalSignature_def)
  moreover have "ParseCertificate sample_lib ''DER'' = Some sample_certificate"
    by (simp add: sample_lib_def)
  ultimately show ?thesis
    by (simp add: signed_Validate_None BatchSigningCertificate_Inr sample_signed_def
        sample_batch_valid MaxBatchSignatureBytes_def MaxBatchSigningCertificateDERBytes_def)
qed

lemma NewSignedBatch_sample:
  "NewSignedBatch sample_lib sample_batch (Some sample_certificate) (Some sample_signer)
     = Inr sample_signed"
proof -
  have v: "tb_Version sample_batch = DescriptorVersion" by (simp add: sample_batch_def)
  obtain x where x: "descriptor_SignatureInput sample_batch = Inr x"
    by (rule SignatureInput_V1 [OF sample_batch_valid v])
  have role: "validateBatchSigningCertificateRole sample_lib sample_batch sample_certificate = None"
    by (simp add: validateBatchSigningCertificateRole_def sample_lib_def sample_certificate_def
        sample_batch_def KeyUsageDigitalSignature_def)
  have signed: "sample_signed = \<lparr>sb_Version = SignedBatchVersion, sb_Descriptor = sample_batch,
      sb_Signature = Sum256 x, sb_BatchSigningCertificateDER = ''DER''\<rparr>"
    by (simp add: sample_signed_def x)
  from sample_signed_valid x role show ?thesis
    by (simp add: NewSignedBatch_def sample_batch_valid SignBatchDescriptor_def signed
        validateSignerMatchesCertificate_def sample_signer_def sample_certificate_def
        sample_lib_def MaxBatchSignatureBytes_def MaxBatchSigningCertificateDERBytes_def Let_def)
qed

theorem NewSignedBatch_verifies_witness:
  "\<exists>c. BatchSigningCertificate sample_lib sample_signed = Inr c \<and>
     VerifySignedBatch sample_lib sample_batch (sb_Signature sample_signed) (Some c)
       (Some sample_issuer) (Some sample_issuer) (Some sample_crl) sample_source 5
       = Inr AuthorizationAuthorized"
proof -
  have parse: "cert_Raw c = der" if "ParseCertificate sample_lib der = Some c" for der c
    using that by (auto simp: sample_lib_def sample_certificate_def split: if_splits)
  have auth: "VerifyBatchSigningCertificate sample_lib (Some c) (Some sample_issuer)
       (Some sample_issuer) (Some sample_crl) sample_source 5 = Inr AuthorizationAuthorized"
    if "ParseCertificate sample_lib (sb_BatchSigningCertificateDER sample_signed) = Some c" for c
    using that sample_certificate_authorized
    by (auto simp: sample_lib_def split: if_splits)
  have src: "sa_SourceID sample_source = tb_SourceID sample_batch"
    by (simp add: sample_source_def sample_batch_def Let_def)
  from NewSignedBatch_verifies [OF NewSignedBatch_sample parse auth src] show ?thesis by blast
qed

end
