(* ===== verification/FI_Codec.thy ===== *)
theory FI_Codec
  imports FI_IO FI_Text
begin

text \<open>
  The interface of an FI wire format. Every format of the program (batch frames, durable
  acknowledgements, broker requests and responses, the generation protocol messages) is an
  encoder and a reader that takes one frame off a byte stream. The two laws say that the
  reader undoes the encoder and that the reader accepts nothing but encodings; what a peer
  relies on (one reading, no accepted truncation, frames in sequence) follows once, here.
\<close>

section \<open>Cutting a fixed header into its fields\<close>

fun pieces :: "nat list \<Rightarrow> 'a list \<Rightarrow> 'a list list" where
  "pieces (a # b # cs) f = slice a b f # pieces (b # cs) f"
| "pieces _ f = []"

lemma concat_pieces: "sorted (a # bs) \<Longrightarrow> concat (pieces (a # bs) f) = slice a (last (a # bs)) f"
proof (induction bs arbitrary: a)
  case Nil
  then show ?case by (simp add: slice_def)
next
  case (Cons b bs)
  then have "concat (pieces (b # bs) f) = slice b (last (b # bs)) f" by simp
  moreover have "a \<le> b" and "b \<le> last (b # bs)"
    using Cons.prems by (auto simp: last_in_set)
  ultimately show ?case using slice_split [of a b "last (b # bs)" f] by simp
qed

lemma cut_header:
  assumes "sorted (0 # bs)" and "last (0 # bs) = length f"
  shows "f = concat (pieces (0 # bs) f)"
  using concat_pieces [OF assms(1), of f] assms(2) by (simp add: slice_def)

section \<open>Length prefixes\<close>

definition len32 :: "bytes \<Rightarrow> bytes" where
  "len32 f = be_PutUint32 (of_nat (length f))"

lemma length_len32 [simp, fi_len]: "length (len32 f) = 4"
  by (simp add: len32_def)

lemma unat_len32 [simp]: "length f < 2 ^ 32 \<Longrightarrow> unat (be_Uint32 (len32 f)) = length f"
  by (simp add: len32_def unat_of_nat_small)

lemma len32_read: "length b = 4 \<Longrightarrow> length f = unat (be_Uint32 b) \<Longrightarrow> len32 f = b"
  by (simp add: len32_def)

text \<open>
  The bytes between two contents of a stream are one message: they are read as \<open>v\<close> whatever
  follows, and no proper prefix of them is read as a message.
\<close>

definition delivered ::
  "(bytes \<Rightarrow> 'e + 'a \<times> bytes) \<Rightarrow> bytes \<Rightarrow> bytes \<Rightarrow> 'a \<Rightarrow> bool" where
  "delivered rd before after v \<longleftrightarrow>
     (\<exists>bs. after = before @ bs \<and> (\<forall>rest. rd (bs @ rest) = Inr (v, rest)) \<and>
           (\<forall>k < length bs. \<exists>e. rd (take k bs) = Inl e))"

section \<open>The frame interface\<close>

text \<open>
  A reader of a stream of frames: it undoes the encoder, and what it takes off the stream
  decides what it returns. From these two laws it follows that frames do not run into each
  other and that a proper prefix of a frame is never accepted.
\<close>

locale stream_frame =
  fixes valid :: "'a \<Rightarrow> bool"
    and enc :: "'a \<Rightarrow> bytes"
    and dec :: "bytes \<Rightarrow> 'e + 'a \<times> bytes"
  assumes dec_enc: "valid x \<Longrightarrow> dec (enc x @ rest) = Inr (x, rest)"
    and dec_local: "dec s = Inr (x, rest) \<Longrightarrow> \<exists>p. s = p @ rest \<and> (\<forall>r. dec (p @ r) = Inr (x, r))"
begin

lemma prefix_free:
  assumes "valid x" and "valid y" and "enc x @ s = enc y @ t"
  shows "x = y \<and> s = t"
proof -
  have "Inr (x, s) = dec (enc x @ s)" by (rule dec_enc [OF assms(1), symmetric])
  also have "\<dots> = dec (enc y @ t)" by (simp only: assms(3))
  also have "\<dots> = Inr (y, t)" by (rule dec_enc [OF assms(2)])
  finally show ?thesis by simp
qed

lemma truncated_rejected:
  assumes "valid x" and "k < length (enc x)"
  shows "\<exists>e. dec (take k (enc x)) = Inl e"
proof (rule ccontr)
  assume "\<not> ?thesis"
  then obtain y r where "dec (take k (enc x)) = Inr (y, r)"
    by (cases "dec (take k (enc x))") auto
  from dec_local [OF this] obtain p where t: "take k (enc x) = p @ r"
    and p: "\<And>r. dec (p @ r) = Inr (y, r)" by blast
  have "p @ (r @ drop k (enc x)) = enc x"
    using t by (metis append.assoc append_take_drop_id)
  with p [of "r @ drop k (enc x)"] dec_enc [OF assms(1), of "[]"]
  have "r @ drop k (enc x) = []" by simp
  with assms(2) show False by simp
qed

lemma delivered_enc: "valid x \<Longrightarrow> delivered dec before (before @ enc x) x"
  using dec_enc truncated_rejected by (auto simp: delivered_def)

text \<open>Reading one frame after the other, \<open>n\<close> times.\<close>

fun dec_many :: "nat \<Rightarrow> bytes \<Rightarrow> 'e + 'a list \<times> bytes" where
  "dec_many 0 s = Inr ([], s)"
| "dec_many (Suc n) s =
     (case dec s of Inl e \<Rightarrow> Inl e
      | Inr (x, t) \<Rightarrow> (case dec_many n t of Inl e \<Rightarrow> Inl e | Inr (xs, u) \<Rightarrow> Inr (x # xs, u)))"

lemma dec_many_enc:
  "list_all valid xs \<Longrightarrow> dec_many (length xs) (concat (map enc xs) @ rest) = Inr (xs, rest)"
  by (induction xs) (simp_all add: dec_enc)

end

text \<open>
  A format is canonical when the reader accepts nothing but encodings; the law of a stream
  reader is then a consequence.
\<close>

locale frame_codec =
  fixes valid :: "'a \<Rightarrow> bool"
    and enc :: "'a \<Rightarrow> bytes"
    and dec :: "bytes \<Rightarrow> 'e + 'a \<times> bytes"
  assumes read_enc: "valid x \<Longrightarrow> dec (enc x @ rest) = Inr (x, rest)"
    and enc_dec: "dec s = Inr (x, rest) \<Longrightarrow> valid x \<and> s = enc x @ rest"
begin

lemma dec_iff: "dec s = Inr (x, rest) \<longleftrightarrow> valid x \<and> s = enc x @ rest"
  using read_enc enc_dec by blast

end

sublocale frame_codec \<subseteq> stream_frame valid enc dec
  by unfold_locales (use read_enc enc_dec in blast)+

end
