(* ===== verification/Batch_Wire.thy ===== *)
theory Batch_Wire
  imports Batch_Package FI_Codec
begin

text \<open>
  Package \<^verbatim>\<open>transportwire\<close> (\<^verbatim>\<open>frame.go\<close>,
      \<^verbatim>\<open>frame_v2.go\<close>): the bounded wire header of one signed
  batch, in its 0.1 and 0.2 layouts. A writer is the list of bytes it hands to the stream.
\<close>

section \<open>Headers\<close>

definition fixedHeaderBytes :: nat where "fixedHeaderBytes = 120"
definition frameMagic :: string where "frameMagic = ''FIWB0001''"
definition fixedHeaderBytesV2 :: nat where "fixedHeaderBytesV2 = 164"
definition frameMagicV2 :: string where "frameMagicV2 = ''FIWB0002''"
definition MaxManifestBytes :: nat where "MaxManifestBytes = 1024 * 1024"
definition MaxTextBytes :: nat where "MaxTextBytes = 4 * 1024"
definition MaxVersionBytes :: nat where "MaxVersionBytes = 64"
definition MaxDataEncodingBytes :: nat where "MaxDataEncodingBytes = 32"

lemmas wire_limits = fixedHeaderBytes_def fixedHeaderBytesV2_def MaxManifestBytes_def
  MaxTextBytes_def MaxVersionBytes_def MaxDataEncodingBytes_def
  MaxBatchSignatureBytes_def MaxBatchSigningCertificateDERBytes_def

record wire_header =
  wh_SignedBatch :: signed_batch
  wh_ManifestBytes :: uint64

datatype wire_error =
    WireSignedBatch package_error
  | WireManifestRequired
  | WireManifestTooLarge
  | WireManifestMismatch
  | WireRead string io_error
  | WireBadMagic
  | WireBadLength string
  | WireTooLong string
  | WireDigest string
  | WireNotV2

definition header_Validate :: "x509_lib \<Rightarrow> wire_header \<Rightarrow> wire_error option"
    where
  "header_Validate L h =
     (let sb = wh_SignedBatch h; d = sb_Descriptor sb in
      first_err
       [map_option WireSignedBatch (signed_Validate L sb),
        fail_if (wh_ManifestBytes h = 0) WireManifestRequired,
        fail_if (unat (wh_ManifestBytes h) > MaxManifestBytes) WireManifestTooLarge,
        fail_if (length (sb_Version sb) > MaxVersionBytes) (WireTooLong ''signed batch version''),
        fail_if (length (tb_Version d) > MaxVersionBytes) (WireTooLong ''descriptor version''),
        fail_if (length (tb_SourceID d) > MaxTextBytes) (WireTooLong ''source ID''),
        fail_if (length (tb_BatchID d) > MaxTextBytes) (WireTooLong ''batch ID'')])"

definition headerFromManifest ::
  "x509_lib \<Rightarrow> signed_batch \<Rightarrow> bytes \<Rightarrow> wire_error + wire_header"
      where
  "headerFromManifest L sb manifest =
     bindE (check (first_err
       [map_option WireSignedBatch (signed_Validate L sb),
        fail_if (manifest = []) WireManifestRequired,
        fail_if (length manifest > MaxManifestBytes) WireManifestTooLarge,
        fail_if (hex_EncodeToString (Sum256 manifest) \<noteq> tb_ManifestSHA256 (sb_Descriptor sb))
          WireManifestMismatch])) (\<lambda>_.
     let h = \<lparr>wh_SignedBatch = sb, wh_ManifestBytes = of_nat (length manifest)\<rparr>
     in bindE (check (header_Validate L h)) (\<lambda>_. Inr h))"

definition readBytes :: "bytes \<Rightarrow> uint32 \<Rightarrow> string \<Rightarrow> wire_error
    + bytes \<times> bytes" where
  "readBytes s n name = map_err (WireRead name) (ReadFull (unat n) s)"

definition wire_digest :: "string \<Rightarrow> string \<Rightarrow> wire_error + bytes" where
  "wire_digest name v = (case hex_DecodeString v of None \<Rightarrow> Inl (WireDigest name) |
      Some d \<Rightarrow> Inr d)"

definition bad_len :: "uint32 \<Rightarrow> nat \<Rightarrow> bool" where
  "bad_len n limit \<longleftrightarrow> n = 0 \<or> unat n > limit"

section \<open>Version 0.1\<close>

definition validateLengths ::
  "uint32 \<Rightarrow> uint32 \<Rightarrow> uint32 \<Rightarrow> uint32 \<Rightarrow> uint32
      \<Rightarrow> uint32 \<Rightarrow> uint64 \<Rightarrow> wire_error option" where
  "validateLengths signedVersion descriptorVersion sourceID batchID signature certificate manifest =
     first_err
       [fail_if (bad_len signedVersion MaxVersionBytes) (WireBadLength ''signed batch version''),
        fail_if (bad_len descriptorVersion MaxVersionBytes) (WireBadLength ''descriptor version''),
        fail_if (bad_len sourceID MaxTextBytes) (WireBadLength ''source ID''),
        fail_if (bad_len batchID MaxTextBytes) (WireBadLength ''batch ID''),
        fail_if (bad_len signature MaxBatchSignatureBytes) (WireBadLength ''batch signature''),
        fail_if (bad_len certificate MaxBatchSigningCertificateDERBytes)
          (WireBadLength ''certificate DER''),
        fail_if (manifest = 0 \<or> unat manifest > MaxManifestBytes) (WireBadLength ''manifest'')]"

definition ReadHeader_fields ::
  "x509_lib \<Rightarrow> uint32 \<Rightarrow> uint32 \<Rightarrow> uint32 \<Rightarrow> uint32
      \<Rightarrow> uint64 \<Rightarrow> uint64 \<Rightarrow> uint64 \<Rightarrow> string
      \<Rightarrow> string \<Rightarrow> uint32 \<Rightarrow> uint32
     \<Rightarrow> bytes \<Rightarrow> wire_error + wire_header \<times> bytes" where
  "ReadHeader_fields L signedVersionBytes descriptorVersionBytes sourceIDBytes batchIDBytes
      recordCount dataBytes manifestBytes dataSHA256 manifestSHA256 signatureBytes
      certificateBytes s =
     bindE (check (validateLengths signedVersionBytes descriptorVersionBytes sourceIDBytes
                     batchIDBytes signatureBytes certificateBytes manifestBytes)) (\<lambda>_.
     bindE (readBytes s signedVersionBytes ''signed batch version'') (\<lambda>(signedVersion, s).
     bindE (readBytes s descriptorVersionBytes ''descriptor version'')
         (\<lambda>(descriptorVersion, s).
     bindE (readBytes s sourceIDBytes ''source ID'') (\<lambda>(sourceID, s).
     bindE (readBytes s batchIDBytes ''batch ID'') (\<lambda>(batchID, s).
     bindE (readBytes s signatureBytes ''batch signature'') (\<lambda>(signature, s).
     bindE (readBytes s certificateBytes ''batch-signing certificate DER'')
         (\<lambda>(certificateDER, s).
     let h = \<lparr>wh_SignedBatch =
                \<lparr>sb_Version = signedVersion,
                 sb_Descriptor =
                   \<lparr>tb_Version = descriptorVersion, tb_SourceID = sourceID, tb_BatchID =
                       batchID,
                    tb_RecordCount = recordCount, tb_DataBytes = dataBytes,
                    tb_DataSHA256 = dataSHA256, tb_DataEncoding = [], tb_EncodedDataBytes = 0,
                    tb_EncodedDataSHA256 = [], tb_ManifestSHA256 = manifestSHA256\<rparr>,
                 sb_Signature = signature, sb_BatchSigningCertificateDER = certificateDER\<rparr>,
              wh_ManifestBytes = manifestBytes\<rparr>
     in bindE (check (header_Validate L h)) (\<lambda>_. Inr (h, s)))))))))"

definition ReadHeader :: "x509_lib \<Rightarrow> bytes \<Rightarrow> wire_error + wire_header
    \<times> bytes" where
  "ReadHeader L s =
     bindE (map_err (WireRead ''fixed header'') (ReadFull fixedHeaderBytes s)) (\<lambda>(fixed, s).
     if slice 0 8 fixed \<noteq> frameMagic then Inl WireBadMagic
     else let signedVersionBytes = be_Uint32 (slice 8 12 fixed);
              descriptorVersionBytes = be_Uint32 (slice 12 16 fixed);
              sourceIDBytes = be_Uint32 (slice 16 20 fixed);
              batchIDBytes = be_Uint32 (slice 20 24 fixed);
              recordCount = be_Uint64 (slice 24 32 fixed);
              dataBytes = be_Uint64 (slice 32 40 fixed);
              manifestBytes = be_Uint64 (slice 40 48 fixed);
              dataSHA256 = hex_EncodeToString (slice 48 80 fixed);
              manifestSHA256 = hex_EncodeToString (slice 80 112 fixed);
              signatureBytes = be_Uint32 (slice 112 116 fixed);
              certificateBytes = be_Uint32 (slice 116 120 fixed)
     in ReadHeader_fields L signedVersionBytes descriptorVersionBytes sourceIDBytes batchIDBytes
         recordCount dataBytes manifestBytes dataSHA256 manifestSHA256 signatureBytes
         certificateBytes s)"

definition header_fields :: "wire_header \<Rightarrow> bytes \<Rightarrow> bytes \<Rightarrow>
    (nat \<times> nat \<times> bytes) list" where
  "header_fields h dataDigest manifestDigest =
     (let sb = wh_SignedBatch h; d = sb_Descriptor sb in
      [(0, 8, frameMagic),
       (8, 12, be_PutUint32 (of_nat (length (sb_Version sb)))),
       (12, 16, be_PutUint32 (of_nat (length (tb_Version d)))),
       (16, 20, be_PutUint32 (of_nat (length (tb_SourceID d)))),
       (20, 24, be_PutUint32 (of_nat (length (tb_BatchID d)))),
       (24, 32, be_PutUint64 (tb_RecordCount d)),
       (32, 40, be_PutUint64 (tb_DataBytes d)),
       (40, 48, be_PutUint64 (wh_ManifestBytes h)),
       (48, 80, dataDigest),
       (80, 112, manifestDigest),
       (112, 116, be_PutUint32 (of_nat (length (sb_Signature sb)))),
       (116, 120, be_PutUint32 (of_nat (length (sb_BatchSigningCertificateDER sb))))])"

definition WriteHeader :: "x509_lib \<Rightarrow> signed_batch \<Rightarrow> bytes \<Rightarrow>
    wire_error + bytes" where
  "WriteHeader L sb manifest =
     bindE (headerFromManifest L sb manifest) (\<lambda>h.
     let sb = wh_SignedBatch h; d = sb_Descriptor sb in
     bindE (wire_digest ''data SHA-256'' (tb_DataSHA256 d)) (\<lambda>dataDigest.
     bindE (wire_digest ''manifest SHA-256'' (tb_ManifestSHA256 d)) (\<lambda>manifestDigest.
     Inr (fixed_header fixedHeaderBytes (header_fields h dataDigest manifestDigest)
          @ sb_Version sb @ tb_Version d @ tb_SourceID d @ tb_BatchID d
          @ sb_Signature sb @ sb_BatchSigningCertificateDER sb))))"

section \<open>Version 0.2\<close>

definition validateLengthsV2 ::
  "uint32 \<Rightarrow> uint32 \<Rightarrow> uint32 \<Rightarrow> uint32 \<Rightarrow> uint32
      \<Rightarrow> uint32 \<Rightarrow> uint32 \<Rightarrow> uint64
     \<Rightarrow> wire_error option" where
  "validateLengthsV2 signedVersion descriptorVersion sourceID batchID dataEncoding signature
     certificate manifest =
     first_err
       [fail_if (bad_len signedVersion MaxVersionBytes) (WireBadLength ''signed batch version''),
        fail_if (bad_len descriptorVersion MaxVersionBytes) (WireBadLength ''descriptor version''),
        fail_if (bad_len sourceID MaxTextBytes) (WireBadLength ''source ID''),
        fail_if (bad_len batchID MaxTextBytes) (WireBadLength ''batch ID''),
        fail_if (bad_len dataEncoding MaxDataEncodingBytes) (WireBadLength ''data encoding''),
        fail_if (bad_len signature MaxBatchSignatureBytes) (WireBadLength ''batch signature''),
        fail_if (bad_len certificate MaxBatchSigningCertificateDERBytes)
          (WireBadLength ''certificate DER''),
        fail_if (manifest = 0 \<or> unat manifest > MaxManifestBytes) (WireBadLength ''manifest'')]"

definition ReadHeaderV2_fields ::
  "x509_lib \<Rightarrow> uint32 \<Rightarrow> uint32 \<Rightarrow> uint32 \<Rightarrow> uint32
      \<Rightarrow> uint32 \<Rightarrow> uint64 \<Rightarrow> uint64 \<Rightarrow> uint64
      \<Rightarrow> uint64 \<Rightarrow> string \<Rightarrow> string \<Rightarrow> string
      \<Rightarrow> uint32 \<Rightarrow> uint32
     \<Rightarrow> bytes \<Rightarrow> wire_error + wire_header \<times> bytes" where
  "ReadHeaderV2_fields L signedVersionBytes descriptorVersionBytes sourceIDBytes batchIDBytes
      dataEncodingBytes recordCount dataBytes encodedDataBytes manifestBytes dataSHA256
      encodedDataSHA256 manifestSHA256 signatureBytes certificateBytes s =
     bindE (check (validateLengthsV2 signedVersionBytes descriptorVersionBytes sourceIDBytes
                     batchIDBytes dataEncodingBytes signatureBytes certificateBytes
                     manifestBytes)) (\<lambda>_.
     bindE (readBytes s signedVersionBytes ''signed batch version'') (\<lambda>(signedVersion, s).
     bindE (readBytes s descriptorVersionBytes ''descriptor version'')
         (\<lambda>(descriptorVersion, s).
     if descriptorVersion \<noteq> DescriptorVersionV2 then Inl WireNotV2
     else
     bindE (readBytes s sourceIDBytes ''source ID'') (\<lambda>(sourceID, s).
     bindE (readBytes s batchIDBytes ''batch ID'') (\<lambda>(batchID, s).
     bindE (readBytes s dataEncodingBytes ''data encoding'') (\<lambda>(dataEncoding, s).
     bindE (readBytes s signatureBytes ''batch signature'') (\<lambda>(signature, s).
     bindE (readBytes s certificateBytes ''batch-signing certificate DER'')
         (\<lambda>(certificateDER, s).
     let h = \<lparr>wh_SignedBatch =
                \<lparr>sb_Version = signedVersion,
                 sb_Descriptor =
                   \<lparr>tb_Version = descriptorVersion, tb_SourceID = sourceID, tb_BatchID =
                       batchID,
                    tb_RecordCount = recordCount, tb_DataBytes = dataBytes,
                    tb_DataSHA256 = dataSHA256, tb_DataEncoding = dataEncoding,
                    tb_EncodedDataBytes = encodedDataBytes,
                    tb_EncodedDataSHA256 = encodedDataSHA256,
                    tb_ManifestSHA256 = manifestSHA256\<rparr>,
                 sb_Signature = signature, sb_BatchSigningCertificateDER = certificateDER\<rparr>,
              wh_ManifestBytes = manifestBytes\<rparr>
     in bindE (check (header_Validate L h)) (\<lambda>_. Inr (h, s))))))))))"

definition ReadHeaderV2 :: "x509_lib \<Rightarrow> bytes \<Rightarrow> wire_error + wire_header
    \<times> bytes" where
  "ReadHeaderV2 L s =
     bindE (map_err (WireRead ''fixed header'') (ReadFull fixedHeaderBytesV2 s)) (\<lambda>(fixed,
         s).
     if slice 0 8 fixed \<noteq> frameMagicV2 then Inl WireBadMagic
     else let signedVersionBytes = be_Uint32 (slice 8 12 fixed);
              descriptorVersionBytes = be_Uint32 (slice 12 16 fixed);
              sourceIDBytes = be_Uint32 (slice 16 20 fixed);
              batchIDBytes = be_Uint32 (slice 20 24 fixed);
              dataEncodingBytes = be_Uint32 (slice 24 28 fixed);
              recordCount = be_Uint64 (slice 28 36 fixed);
              dataBytes = be_Uint64 (slice 36 44 fixed);
              encodedDataBytes = be_Uint64 (slice 44 52 fixed);
              manifestBytes = be_Uint64 (slice 52 60 fixed);
              dataSHA256 = hex_EncodeToString (slice 60 92 fixed);
              encodedDataSHA256 = hex_EncodeToString (slice 92 124 fixed);
              manifestSHA256 = hex_EncodeToString (slice 124 156 fixed);
              signatureBytes = be_Uint32 (slice 156 160 fixed);
              certificateBytes = be_Uint32 (slice 160 164 fixed)
     in ReadHeaderV2_fields L signedVersionBytes descriptorVersionBytes sourceIDBytes batchIDBytes
         dataEncodingBytes recordCount dataBytes encodedDataBytes manifestBytes dataSHA256
         encodedDataSHA256 manifestSHA256 signatureBytes certificateBytes s)"

definition header_fieldsV2 ::
  "wire_header \<Rightarrow> bytes \<Rightarrow> bytes \<Rightarrow> bytes \<Rightarrow> (nat
      \<times> nat \<times> bytes) list" where
  "header_fieldsV2 h dataDigest encodedDataDigest manifestDigest =
     (let sb = wh_SignedBatch h; d = sb_Descriptor sb in
      [(0, 8, frameMagicV2),
       (8, 12, be_PutUint32 (of_nat (length (sb_Version sb)))),
       (12, 16, be_PutUint32 (of_nat (length (tb_Version d)))),
       (16, 20, be_PutUint32 (of_nat (length (tb_SourceID d)))),
       (20, 24, be_PutUint32 (of_nat (length (tb_BatchID d)))),
       (24, 28, be_PutUint32 (of_nat (length (tb_DataEncoding d)))),
       (28, 36, be_PutUint64 (tb_RecordCount d)),
       (36, 44, be_PutUint64 (tb_DataBytes d)),
       (44, 52, be_PutUint64 (tb_EncodedDataBytes d)),
       (52, 60, be_PutUint64 (wh_ManifestBytes h)),
       (60, 92, dataDigest),
       (92, 124, encodedDataDigest),
       (124, 156, manifestDigest),
       (156, 160, be_PutUint32 (of_nat (length (sb_Signature sb)))),
       (160, 164, be_PutUint32 (of_nat (length (sb_BatchSigningCertificateDER sb))))])"

definition WriteHeaderV2 :: "x509_lib \<Rightarrow> signed_batch \<Rightarrow> bytes \<Rightarrow>
    wire_error + bytes" where
  "WriteHeaderV2 L sb manifest =
     (if tb_Version (sb_Descriptor sb) \<noteq> DescriptorVersionV2 then Inl WireNotV2
      else
     bindE (headerFromManifest L sb manifest) (\<lambda>h.
     let sb = wh_SignedBatch h; d = sb_Descriptor sb in
     bindE (wire_digest ''data SHA-256'' (tb_DataSHA256 d)) (\<lambda>dataDigest.
     bindE (wire_digest ''encoded data SHA-256'' (tb_EncodedDataSHA256 d))
         (\<lambda>encodedDataDigest.
     bindE (wire_digest ''manifest SHA-256'' (tb_ManifestSHA256 d)) (\<lambda>manifestDigest.
     Inr (fixed_header fixedHeaderBytesV2
            (header_fieldsV2 h dataDigest encodedDataDigest manifestDigest)
          @ sb_Version sb @ tb_Version d @ tb_SourceID d @ tb_BatchID d @ tb_DataEncoding d
          @ sb_Signature sb @ sb_BatchSigningCertificateDER sb))))))"


section \<open>Valid headers\<close>

lemma length_magic [simp]: "length frameMagic = 8" "length frameMagicV2 = 8"
  by (simp_all add: frameMagic_def frameMagicV2_def)

lemma bad_len_len32:
  "length f < 2 ^ 32 \<Longrightarrow> bad_len (be_Uint32 (len32 f)) m \<longleftrightarrow> f = [] \<or> length f > m"
  by (auto simp: bad_len_def unat_eq_zero [symmetric])

lemma header_Validate_None:
  "header_Validate L h = None \<longleftrightarrow>
     signed_Validate L (wh_SignedBatch h) = None \<and>
     wh_ManifestBytes h \<noteq> 0 \<and> unat (wh_ManifestBytes h) \<le> 1048576 \<and>
     length (sb_Version (wh_SignedBatch h)) \<le> 64 \<and>
     length (tb_Version (sb_Descriptor (wh_SignedBatch h))) \<le> 64 \<and>
     length (tb_SourceID (sb_Descriptor (wh_SignedBatch h))) \<le> 4096 \<and>
     length (tb_BatchID (sb_Descriptor (wh_SignedBatch h))) \<le> 4096"
  by (auto simp: header_Validate_def Let_def wire_limits)

lemma header_Validate_facts:
  assumes "header_Validate L h = None"
  defines "sb \<equiv> wh_SignedBatch h" and "d \<equiv> sb_Descriptor (wh_SignedBatch h)"
  shows "descriptor_Validate d = None"
    and "sb_Version sb \<noteq> [] \<and> length (sb_Version sb) \<le> 64"
    and "tb_Version d \<noteq> [] \<and> length (tb_Version d) \<le> 64"
    and "tb_SourceID d \<noteq> [] \<and> length (tb_SourceID d) \<le> 4096"
    and "tb_BatchID d \<noteq> [] \<and> length (tb_BatchID d) \<le> 4096"
    and "sb_Signature sb \<noteq> [] \<and> length (sb_Signature sb) \<le> 16384"
    and "sb_BatchSigningCertificateDER sb \<noteq> [] \<and> length (sb_BatchSigningCertificateDER sb) \<le> 131072"
    and "sha256_text (tb_DataSHA256 d)" and "sha256_text (tb_ManifestSHA256 d)"
    and "wh_ManifestBytes h \<noteq> 0 \<and> unat (wh_ManifestBytes h) \<le> 1048576"
proof -
  from assms(1) have v: "signed_Validate L sb = None" by (simp add: header_Validate_None sb_def)
  note b = signed_Validate_bounds [OF v]
  show "descriptor_Validate d = None" using b d_def sb_def by simp
  note t = descriptor_Validate_text [OF this] and ver = descriptor_Validate_version [OF this]
  show "sha256_text (tb_DataSHA256 d)" "sha256_text (tb_ManifestSHA256 d)" by (fact t)+
  show "tb_Version d \<noteq> [] \<and> length (tb_Version d) \<le> 64"
    using ver by (auto simp: DescriptorVersion_def DescriptorVersionV2_def)
  show "sb_Version sb \<noteq> [] \<and> length (sb_Version sb) \<le> 64"
    using b by (auto simp: SignedBatchVersion_def)
qed (use assms in \<open>auto simp: header_Validate_None dest: signed_Validate_bounds descriptor_Validate_text\<close>)

lemma record_eta [simp]:
  "\<lparr>sb_Version = sb_Version sb, sb_Descriptor = sb_Descriptor sb, sb_Signature = sb_Signature sb,
    sb_BatchSigningCertificateDER = sb_BatchSigningCertificateDER sb\<rparr> = sb"
  "\<lparr>wh_SignedBatch = wh_SignedBatch h, wh_ManifestBytes = wh_ManifestBytes h\<rparr> = h"
  by simp_all

section \<open>The 0.1 frame\<close>

text \<open>The bytes of a 0.1 frame, field by field in wire order.\<close>

definition frame_bytes :: "wire_header \<Rightarrow> bytes" where
  "frame_bytes h =
     (let sb = wh_SignedBatch h; d = sb_Descriptor sb in
      frameMagic @ len32 (sb_Version sb) @ len32 (tb_Version d) @ len32 (tb_SourceID d) @
       len32 (tb_BatchID d) @ be_PutUint64 (tb_RecordCount d) @ be_PutUint64 (tb_DataBytes d) @
       be_PutUint64 (wh_ManifestBytes h) @ digest_of (tb_DataSHA256 d) @
       digest_of (tb_ManifestSHA256 d) @ len32 (sb_Signature sb) @
       len32 (sb_BatchSigningCertificateDER sb) @
      sb_Version sb @ tb_Version d @ tb_SourceID d @ tb_BatchID d @ sb_Signature sb @
      sb_BatchSigningCertificateDER sb)"

lemma WriteHeader_frame:
  assumes "headerFromManifest L sb manifest = Inr h"
  shows "WriteHeader L sb manifest = Inr (frame_bytes h)"
proof -
  from assms have v: "header_Validate L h = None"
    by (auto simp: headerFromManifest_def Let_def)
  note f = header_Validate_facts [OF v]
  have "fixed_header 120 (header_fields h (digest_of (tb_DataSHA256 (sb_Descriptor (wh_SignedBatch h))))
      (digest_of (tb_ManifestSHA256 (sb_Descriptor (wh_SignedBatch h)))))
    = fields_bytes (header_fields h (digest_of (tb_DataSHA256 (sb_Descriptor (wh_SignedBatch h))))
      (digest_of (tb_ManifestSHA256 (sb_Descriptor (wh_SignedBatch h)))))"
    using f(8,9) by (intro fixed_header_contiguous)
      (simp_all add: header_fields_def Let_def sha256_text_digest)
  with assms f(8,9) show ?thesis
    by (simp add: WriteHeader_def wire_digest_def sha256_text_digest Let_def fixedHeaderBytes_def
        frame_bytes_def header_fields_def len32_def)
qed

lemma ReadHeader_parts:
  assumes "length sv = 4" "length dv = 4" "length si = 4" "length bi = 4" "length rc = 8"
    "length db = 8" "length mb = 8" "length dd = 32" "length md = 32" "length sg = 4" "length ce = 4"
  shows "ReadHeader L (frameMagic @ sv @ dv @ si @ bi @ rc @ db @ mb @ dd @ md @ sg @ ce @ s) =
     ReadHeader_fields L (be_Uint32 sv) (be_Uint32 dv) (be_Uint32 si) (be_Uint32 bi)
       (be_Uint64 rc) (be_Uint64 db) (be_Uint64 mb) (hex_EncodeToString dd)
       (hex_EncodeToString md) (be_Uint32 sg) (be_Uint32 ce) s"
proof -
  let ?f = "frameMagic @ sv @ dv @ si @ bi @ rc @ db @ mb @ dd @ md @ sg @ ce"
  have "ReadFull 120 (?f @ s) = Inr (?f, s)"
    using assms by (intro ReadFull_append) simp
  then show ?thesis
    using assms by (simp add: ReadHeader_def fixedHeaderBytes_def slice_simps)
qed

text \<open>What a 0.1 frame can carry of a header: everything but the encoded-data fields.\<close>

definition without_encoding :: "wire_header \<Rightarrow> wire_header" where
  "without_encoding h =
     (let sb = wh_SignedBatch h in
      h\<lparr>wh_SignedBatch := sb\<lparr>sb_Descriptor := (sb_Descriptor sb)
          \<lparr>tb_DataEncoding := [], tb_EncodedDataBytes := 0, tb_EncodedDataSHA256 := []\<rparr>\<rparr>\<rparr>)"

lemma without_encoding_V1:
  assumes "header_Validate L h = None"
    and "tb_Version (sb_Descriptor (wh_SignedBatch h)) = DescriptorVersion"
  shows "without_encoding h = h"
  using header_Validate_facts(1) [OF assms(1)] assms(2)
  by (auto simp: descriptor_Validate_V1 without_encoding_def Let_def
      intro!: wire_header.equality signed_batch.equality batch_descriptor.equality)

lemma without_encoding_eta:
  "\<lparr>wh_SignedBatch = \<lparr>sb_Version = sb_Version (wh_SignedBatch h),
     sb_Descriptor = \<lparr>tb_Version = tb_Version (sb_Descriptor (wh_SignedBatch h)),
       tb_SourceID = tb_SourceID (sb_Descriptor (wh_SignedBatch h)),
       tb_BatchID = tb_BatchID (sb_Descriptor (wh_SignedBatch h)),
       tb_RecordCount = tb_RecordCount (sb_Descriptor (wh_SignedBatch h)),
       tb_DataBytes = tb_DataBytes (sb_Descriptor (wh_SignedBatch h)),
       tb_DataSHA256 = tb_DataSHA256 (sb_Descriptor (wh_SignedBatch h)),
       tb_DataEncoding = [], tb_EncodedDataBytes = 0, tb_EncodedDataSHA256 = [],
       tb_ManifestSHA256 = tb_ManifestSHA256 (sb_Descriptor (wh_SignedBatch h))\<rparr>,
     sb_Signature = sb_Signature (wh_SignedBatch h),
     sb_BatchSigningCertificateDER = sb_BatchSigningCertificateDER (wh_SignedBatch h)\<rparr>,
    wh_ManifestBytes = wh_ManifestBytes h\<rparr> = without_encoding h"
  by (auto simp: without_encoding_def Let_def
      intro!: wire_header.equality signed_batch.equality batch_descriptor.equality)

lemma ReadHeader_frame:
  assumes v: "header_Validate L h = None"
  shows "ReadHeader L (frame_bytes h @ rest) =
    bindE (check (header_Validate L (without_encoding h))) (\<lambda>_. Inr (without_encoding h, rest))"
proof -
  note f = header_Validate_facts [OF v]
  from f show ?thesis
    by (simp add: frame_bytes_def Let_def ReadHeader_parts ReadHeader_fields_def sha256_text_digest
        validateLengths_def bad_len_len32 wire_limits readBytes_def without_encoding_eta)
qed

lemma unencoded_is_V1:
  "descriptor_Validate d = None \<Longrightarrow> tb_DataEncoding d = [] \<Longrightarrow> tb_Version d = DescriptorVersion"
  using descriptor_Validate_version [of d]
  by (auto simp: descriptor_Validate_V2 DataEncodingZstd_def)

lemma ReadHeader_sound:
  assumes r: "ReadHeader L s = Inr (h, rest)"
  shows "header_Validate L h = None \<and>
    tb_Version (sb_Descriptor (wh_SignedBatch h)) = DescriptorVersion \<and> s = frame_bytes h @ rest"
proof -
  from r obtain f t where f: "length f = 120" "s = f @ t" and magic: "slice 0 8 f = frameMagic"
    by (auto simp: ReadHeader_def ReadFull_Inr fixedHeaderBytes_def Let_def split: if_splits)
  have cut: "f = frameMagic @ slice 8 12 f @ slice 12 16 f @ slice 16 20 f @ slice 20 24 f @
      slice 24 32 f @ slice 32 40 f @ slice 40 48 f @ slice 48 80 f @ slice 80 112 f @
      slice 112 116 f @ slice 116 120 f"
    using cut_header [of "[8,12,16,20,24,32,40,48,80,112,116,120]" f] f magic by simp
  from r have "ReadHeader L (frameMagic @ slice 8 12 f @ slice 12 16 f @ slice 16 20 f @
      slice 20 24 f @ slice 24 32 f @ slice 32 40 f @ slice 40 48 f @ slice 48 80 f @
      slice 80 112 f @ slice 112 116 f @ slice 116 120 f @ t) = Inr (h, rest)"
    using cut f(2) by (metis append.assoc)
  then have val: "header_Validate L h = None" and
    enc: "tb_DataEncoding (sb_Descriptor (wh_SignedBatch h)) = []" and
    eq: "frame_bytes h @ rest = frameMagic @ slice 8 12 f @ slice 12 16 f @ slice 16 20 f @
      slice 20 24 f @ slice 24 32 f @ slice 32 40 f @ slice 40 48 f @ slice 48 80 f @
      slice 80 112 f @ slice 112 116 f @ slice 116 120 f @ t"
    using f(1)
    by (auto simp: ReadHeader_parts ReadHeader_fields_def length_slice readBytes_def ReadFull_Inr Let_def frame_bytes_def
        len32_read) 
  from eq cut f(2) have "s = frame_bytes h @ rest" by (metis append.assoc)
  with val unencoded_is_V1 [OF header_Validate_facts(1) [OF val] enc] show ?thesis by simp
qed

section \<open>The 0.2 frame\<close>

definition frame_bytesV2 :: "wire_header \<Rightarrow> bytes" where
  "frame_bytesV2 h =
     (let sb = wh_SignedBatch h; d = sb_Descriptor sb in
      frameMagicV2 @ len32 (sb_Version sb) @ len32 (tb_Version d) @ len32 (tb_SourceID d) @
      len32 (tb_BatchID d) @ len32 (tb_DataEncoding d) @ be_PutUint64 (tb_RecordCount d) @
      be_PutUint64 (tb_DataBytes d) @ be_PutUint64 (tb_EncodedDataBytes d) @
      be_PutUint64 (wh_ManifestBytes h) @ digest_of (tb_DataSHA256 d) @
      digest_of (tb_EncodedDataSHA256 d) @ digest_of (tb_ManifestSHA256 d) @
      len32 (sb_Signature sb) @ len32 (sb_BatchSigningCertificateDER sb) @
      sb_Version sb @ tb_Version d @ tb_SourceID d @ tb_BatchID d @ tb_DataEncoding d @
      sb_Signature sb @ sb_BatchSigningCertificateDER sb)"

lemma encoded_facts:
  assumes "descriptor_Validate d = None" and "tb_Version d = DescriptorVersionV2"
  shows "tb_DataEncoding d = DataEncodingZstd" and "sha256_text (tb_EncodedDataSHA256 d)"
    and "tb_DataEncoding d \<noteq> []" and "length (tb_DataEncoding d) \<le> 32"
  using assms by (auto simp: descriptor_Validate_V2 DataEncodingZstd_def)

lemma WriteHeaderV2_frame:
  assumes h: "headerFromManifest L sb manifest = Inr h"
    and ver: "tb_Version (sb_Descriptor sb) = DescriptorVersionV2"
  shows "WriteHeaderV2 L sb manifest = Inr (frame_bytesV2 h)"
proof -
  from h have v: "header_Validate L h = None" and sb: "wh_SignedBatch h = sb"
    by (auto simp: headerFromManifest_def Let_def)
  note f = header_Validate_facts [OF v, unfolded sb] and e = encoded_facts [OF _ ver]
  let ?fs = "header_fieldsV2 h (digest_of (tb_DataSHA256 (sb_Descriptor sb)))
      (digest_of (tb_EncodedDataSHA256 (sb_Descriptor sb)))
      (digest_of (tb_ManifestSHA256 (sb_Descriptor sb)))"
  have "fixed_header 164 ?fs = fields_bytes ?fs"
    using f(1,8,9) e sb by (intro fixed_header_contiguous)
      (simp_all add: header_fieldsV2_def Let_def sha256_text_digest)
  with h f(1,8,9) e ver sb show ?thesis
    by (simp add: WriteHeaderV2_def wire_digest_def sha256_text_digest Let_def
        fixedHeaderBytesV2_def frame_bytesV2_def header_fieldsV2_def len32_def)
qed

lemma ReadHeaderV2_parts:
  assumes "length sv = 4" "length dv = 4" "length si = 4" "length bi = 4" "length en = 4"
    "length rc = 8" "length db = 8" "length eb = 8" "length mb = 8" "length dd = 32"
    "length ed = 32" "length md = 32" "length sg = 4" "length ce = 4"
  shows "ReadHeaderV2 L (frameMagicV2 @ sv @ dv @ si @ bi @ en @ rc @ db @ eb @ mb @ dd @ ed @ md @
       sg @ ce @ s) =
     ReadHeaderV2_fields L (be_Uint32 sv) (be_Uint32 dv) (be_Uint32 si) (be_Uint32 bi)
       (be_Uint32 en) (be_Uint64 rc) (be_Uint64 db) (be_Uint64 eb) (be_Uint64 mb)
       (hex_EncodeToString dd) (hex_EncodeToString ed) (hex_EncodeToString md)
       (be_Uint32 sg) (be_Uint32 ce) s"
proof -
  let ?f = "frameMagicV2 @ sv @ dv @ si @ bi @ en @ rc @ db @ eb @ mb @ dd @ ed @ md @ sg @ ce"
  have "ReadFull 164 (?f @ s) = Inr (?f, s)"
    using assms by (intro ReadFull_append) simp
  then show ?thesis
    using assms by (simp add: ReadHeaderV2_def fixedHeaderBytesV2_def slice_simps)
qed

lemma descriptor_eta_V2:
  assumes "tb_Version d = DescriptorVersionV2"
  shows "\<lparr>tb_Version = DescriptorVersionV2, tb_SourceID = tb_SourceID d, tb_BatchID = tb_BatchID d,
    tb_RecordCount = tb_RecordCount d, tb_DataBytes = tb_DataBytes d,
    tb_DataSHA256 = tb_DataSHA256 d, tb_DataEncoding = tb_DataEncoding d,
    tb_EncodedDataBytes = tb_EncodedDataBytes d, tb_EncodedDataSHA256 = tb_EncodedDataSHA256 d,
    tb_ManifestSHA256 = tb_ManifestSHA256 d\<rparr> = d"
  using assms by (cases d) simp

lemma ReadHeaderV2_frame:
  assumes v: "header_Validate L h = None"
    and ver: "tb_Version (sb_Descriptor (wh_SignedBatch h)) = DescriptorVersionV2"
  shows "ReadHeaderV2 L (frame_bytesV2 h @ rest) = Inr (h, rest)"
proof -
  note f = header_Validate_facts [OF v]
  note e = encoded_facts(2-4) [OF f(1) ver]
  from f e v ver show ?thesis
    by (simp add: frame_bytesV2_def Let_def ReadHeaderV2_parts ReadHeaderV2_fields_def
        sha256_text_digest validateLengthsV2_def bad_len_len32 wire_limits readBytes_def
        descriptor_eta_V2)
qed

lemma ReadHeaderV2_sound:
  assumes r: "ReadHeaderV2 L s = Inr (h, rest)"
  shows "header_Validate L h = None \<and>
    tb_Version (sb_Descriptor (wh_SignedBatch h)) = DescriptorVersionV2 \<and>
    s = frame_bytesV2 h @ rest"
proof -
  from r obtain f t where f: "length f = 164" "s = f @ t" and magic: "slice 0 8 f = frameMagicV2"
    by (auto simp: ReadHeaderV2_def ReadFull_Inr fixedHeaderBytesV2_def Let_def split: if_splits)
  have cut: "f = frameMagicV2 @ slice 8 12 f @ slice 12 16 f @ slice 16 20 f @ slice 20 24 f @
      slice 24 28 f @ slice 28 36 f @ slice 36 44 f @ slice 44 52 f @ slice 52 60 f @
      slice 60 92 f @ slice 92 124 f @ slice 124 156 f @ slice 156 160 f @ slice 160 164 f"
    using cut_header [of "[8,12,16,20,24,28,36,44,52,60,92,124,156,160,164]" f] f magic by simp
  from r have "ReadHeaderV2 L (frameMagicV2 @ slice 8 12 f @ slice 12 16 f @ slice 16 20 f @
      slice 20 24 f @ slice 24 28 f @ slice 28 36 f @ slice 36 44 f @ slice 44 52 f @
      slice 52 60 f @ slice 60 92 f @ slice 92 124 f @ slice 124 156 f @ slice 156 160 f @
      slice 160 164 f @ t) = Inr (h, rest)"
    using cut f(2) by (metis append.assoc)
  then have val: "header_Validate L h = None" and
    ver: "tb_Version (sb_Descriptor (wh_SignedBatch h)) = DescriptorVersionV2" and
    eq: "frame_bytesV2 h @ rest = frameMagicV2 @ slice 8 12 f @ slice 12 16 f @ slice 16 20 f @
      slice 20 24 f @ slice 24 28 f @ slice 28 36 f @ slice 36 44 f @ slice 44 52 f @
      slice 52 60 f @ slice 60 92 f @ slice 92 124 f @ slice 124 156 f @ slice 156 160 f @
      slice 160 164 f @ t"
    using f(1)
    by (auto simp: ReadHeaderV2_parts ReadHeaderV2_fields_def length_slice readBytes_def
        ReadFull_Inr Let_def frame_bytesV2_def len32_read split: if_splits)
  from eq cut f(2) have "s = frame_bytesV2 h @ rest" by (metis append.assoc)
  with val ver show ?thesis by simp
qed

section \<open>Both layouts are frame codecs\<close>

definition frame_valid :: "x509_lib \<Rightarrow> string \<Rightarrow> wire_header \<Rightarrow> bool" where
  "frame_valid L ver h \<longleftrightarrow>
     header_Validate L h = None \<and> tb_Version (sb_Descriptor (wh_SignedBatch h)) = ver"

interpretation wire1: frame_codec "frame_valid L DescriptorVersion" frame_bytes "ReadHeader L" for L
  by unfold_locales
    (auto simp: frame_valid_def ReadHeader_frame without_encoding_V1 dest: ReadHeader_sound)

interpretation wire2:
  frame_codec "frame_valid L DescriptorVersionV2" frame_bytesV2 "ReadHeaderV2 L" for L
  by unfold_locales (auto simp: frame_valid_def ReadHeaderV2_frame dest: ReadHeaderV2_sound)

lemma headerFromManifest_Inr:
  assumes "headerFromManifest L sb manifest = Inr h"
  shows "h = \<lparr>wh_SignedBatch = sb, wh_ManifestBytes = of_nat (length manifest)\<rparr>"
    and "header_Validate L h = None"
    and "hex_EncodeToString (Sum256 manifest) = tb_ManifestSHA256 (sb_Descriptor sb)"
    and "manifest \<noteq> [] \<and> length manifest \<le> MaxManifestBytes"
  using assms by (auto simp: headerFromManifest_def Let_def)

lemma written_V1:
  assumes w: "WriteHeader L sb manifest = Inr bs"
    and ver: "tb_Version (sb_Descriptor sb) = DescriptorVersion"
  defines "h \<equiv> \<lparr>wh_SignedBatch = sb, wh_ManifestBytes = of_nat (length manifest)\<rparr>"
  shows "frame_valid L DescriptorVersion h \<and> bs = frame_bytes h"
proof -
  from w obtain g where g: "headerFromManifest L sb manifest = Inr g"
    by (cases "headerFromManifest L sb manifest") (auto simp: WriteHeader_def)
  then have "g = h" "header_Validate L h = None"
    using headerFromManifest_Inr(1,2) [OF g] by (simp_all add: h_def)
  with WriteHeader_frame [OF g] w ver show ?thesis by (simp add: frame_valid_def h_def)
qed

lemma written_V2:
  assumes w: "WriteHeaderV2 L sb manifest = Inr bs"
  defines "h \<equiv> \<lparr>wh_SignedBatch = sb, wh_ManifestBytes = of_nat (length manifest)\<rparr>"
  shows "frame_valid L DescriptorVersionV2 h \<and> bs = frame_bytesV2 h"
proof -
  from w have ver: "tb_Version (sb_Descriptor sb) = DescriptorVersionV2"
    by (auto simp: WriteHeaderV2_def split: if_splits)
  with w obtain g where g: "headerFromManifest L sb manifest = Inr g"
    by (cases "headerFromManifest L sb manifest") (auto simp: WriteHeaderV2_def)
  then have "g = h" "header_Validate L h = None"
    using headerFromManifest_Inr(1,2) [OF g] by (simp_all add: h_def)
  with WriteHeaderV2_frame [OF g ver] w ver show ?thesis by (simp add: frame_valid_def h_def)
qed

text \<open>
  A wire header that the 0.1 writer accepts for a 0.1 descriptor, or that the 0.2 writer
  accepts, is read back by the reader of the same version as exactly the signed batch that was
  written with the byte count of its manifest, and the reader stops at the first byte after
  the header whatever follows.
\<close>

theorem wire_header_roundtrip:
  "(WriteHeader L sb manifest = Inr bs \<and> tb_Version (sb_Descriptor sb) = DescriptorVersion \<longrightarrow>
      ReadHeader L (bs @ rest) =
        Inr (\<lparr>wh_SignedBatch = sb, wh_ManifestBytes = of_nat (length manifest)\<rparr>, rest)) \<and>
   (WriteHeaderV2 L sb manifest = Inr bs \<longrightarrow>
      ReadHeaderV2 L (bs @ rest) =
        Inr (\<lparr>wh_SignedBatch = sb, wh_ManifestBytes = of_nat (length manifest)\<rparr>, rest))"
  by (auto dest!: written_V1 written_V2 simp: wire1.dec_enc wire2.dec_enc)

text \<open>
  C31: The wire readers accept exactly the canonical frames. \<^verbatim>\<open>ReadHeader\<close> returns a header and
  a rest if and only if the header is valid with a 0.1 descriptor and the input is its one
  encoding followed by the rest; likewise \<^verbatim>\<open>ReadHeaderV2\<close> for 0.2. No header has two wire
  forms and no altered frame is read as the header it was made from.
\<close>

theorem wire_header_canonical:
  "(ReadHeader L s = Inr (h, rest) \<longleftrightarrow>
      frame_valid L DescriptorVersion h \<and> s = frame_bytes h @ rest) \<and>
   (ReadHeaderV2 L s = Inr (h, rest) \<longleftrightarrow>
      frame_valid L DescriptorVersionV2 h \<and> s = frame_bytesV2 h @ rest)"
  using wire1.dec_iff [of L s h rest] wire2.dec_iff [of L s h rest] by blast

text \<open>
  A frame cut short anywhere is rejected, by both readers: no proper prefix of a header
  that a writer produced is accepted.
\<close>

theorem wire_header_truncated:
  assumes "k < length bs"
  shows "(WriteHeader L sb manifest = Inr bs \<and> tb_Version (sb_Descriptor sb) = DescriptorVersion
      \<longrightarrow> (\<exists>e. ReadHeader L (take k bs) = Inl e)) \<and>
    (WriteHeaderV2 L sb manifest = Inr bs \<longrightarrow> (\<exists>e. ReadHeaderV2 L (take k bs) = Inl e))"
  using assms by (auto dest!: written_V1 written_V2 intro: wire1.truncated_rejected
      wire2.truncated_rejected)

text \<open>
  C32: \<^verbatim>\<open>WriteHeader\<close> has no guard on the descriptor version, unlike \<^verbatim>\<open>WriteHeaderV2\<close>: given a
  valid 0.2 batch it succeeds and puts a 0.1 frame on the wire, without the encoding, the
  encoded size and the encoded digest, and \<^verbatim>\<open>ReadHeader\<close> rejects every such frame.
\<close>

theorem WriteHeader_V2_unreadable:
  assumes "headerFromManifest L sb manifest = Inr h"
    and "tb_Version (sb_Descriptor sb) = DescriptorVersionV2"
  shows "\<exists>bs. WriteHeader L sb manifest = Inr bs \<and> (\<forall>rest. \<exists>e. ReadHeader L (bs @ rest) = Inl e)"
proof -
  note h = headerFromManifest_Inr(1,2) [OF assms(1)]
  have "header_Validate L (without_encoding h) \<noteq> None"
    using header_Validate_facts(1) [of L "without_encoding h"] assms(2)
    by (auto simp: without_encoding_def h(1) descriptor_Validate_V2 DataEncodingZstd_def)
  then have "\<exists>e. ReadHeader L (frame_bytes h @ rest) = Inl e" for rest
    by (auto simp: ReadHeader_frame [OF h(2)])
  with WriteHeader_frame [OF assms(1)] show ?thesis by blast
qed

section \<open>Sample frames\<close>

definition sample_manifest :: bytes where
  "sample_manifest = ''{}''"

definition wire_batch :: signed_batch where
  "wire_batch =
     \<lparr>sb_Version = SignedBatchVersion,
      sb_Descriptor = sample_batch\<lparr>tb_ManifestSHA256 := hex_EncodeToString (Sum256 sample_manifest)\<rparr>,
      sb_Signature = ''signature'', sb_BatchSigningCertificateDER = ''DER''\<rparr>"

definition wire_batchV2 :: signed_batch where
  "wire_batchV2 = wire_batch\<lparr>sb_Descriptor := (sb_Descriptor wire_batch)
     \<lparr>tb_Version := DescriptorVersionV2, tb_DataEncoding := DataEncodingZstd,
      tb_EncodedDataBytes := 90, tb_EncodedDataSHA256 := hex_EncodeToString sample_digest\<rparr>\<rparr>"

lemma wire_batch_certificate:
  assumes "sb \<in> {wire_batch, wire_batchV2}"
  shows "BatchSigningCertificate sample_lib sb = Inr sample_certificate"
  using assms by (auto simp: BatchSigningCertificate_Inr validateBatchSigningCertificateRole_def
      sample_lib_def sample_certificate_def sample_batch_def KeyUsageDigitalSignature_def
      wire_batch_def wire_batchV2_def MaxBatchSigningCertificateDERBytes_def)

lemma wire_batches_valid:
  "signed_Validate sample_lib wire_batch = None" "signed_Validate sample_lib wire_batchV2 = None"
proof -
  have "descriptor_Validate (sb_Descriptor wire_batch) = None"
    by (subst descriptor_Validate_V1) (simp_all add: wire_batch_def sample_batch_def)
  then show "signed_Validate sample_lib wire_batch = None"
    using wire_batch_certificate [of wire_batch]
    by (simp add: signed_Validate_None wire_batch_def MaxBatchSignatureBytes_def)
  have "descriptor_Validate (sb_Descriptor wire_batchV2) = None"
    by (subst descriptor_Validate_V2) (simp_all add: wire_batchV2_def wire_batch_def sample_batch_def)
  then show "signed_Validate sample_lib wire_batchV2 = None"
    using wire_batch_certificate [of wire_batchV2]
    by (simp add: signed_Validate_None wire_batchV2_def wire_batch_def MaxBatchSignatureBytes_def)
qed

lemma sample_headers:
  assumes "sb \<in> {wire_batch, wire_batchV2}"
  shows "headerFromManifest sample_lib sb sample_manifest =
    Inr \<lparr>wh_SignedBatch = sb, wh_ManifestBytes = 2\<rparr>"
  using assms wire_batches_valid
  by (auto simp: headerFromManifest_def header_Validate_None wire_limits sample_manifest_def
      wire_batch_def wire_batchV2_def sample_batch_def SignedBatchVersion_def DescriptorVersion_def
      DescriptorVersionV2_def Let_def)

lemma sample_frames:
  "WriteHeader sample_lib wire_batch sample_manifest =
     Inr (frame_bytes \<lparr>wh_SignedBatch = wire_batch, wh_ManifestBytes = 2\<rparr>)"
  "WriteHeaderV2 sample_lib wire_batchV2 sample_manifest =
     Inr (frame_bytesV2 \<lparr>wh_SignedBatch = wire_batchV2, wh_ManifestBytes = 2\<rparr>)"
  by (simp_all add: WriteHeader_frame WriteHeaderV2_frame sample_headers)
     (rule WriteHeaderV2_frame, simp_all add: sample_headers wire_batchV2_def)

lemma wire_versions [simp]:
  "tb_Version (sb_Descriptor wire_batch) = DescriptorVersion"
  "tb_Version (sb_Descriptor wire_batchV2) = DescriptorVersionV2"
  by (simp_all add: wire_batch_def wire_batchV2_def sample_batch_def)

theorem wire_header_roundtrip_witness:
  "(\<exists>bs. WriteHeader sample_lib wire_batch sample_manifest = Inr bs \<and>
      ReadHeader sample_lib (bs @ ''{}data'') =
        Inr (\<lparr>wh_SignedBatch = wire_batch, wh_ManifestBytes = 2\<rparr>, ''{}data'')) \<and>
   (\<exists>bs. WriteHeaderV2 sample_lib wire_batchV2 sample_manifest = Inr bs \<and>
      ReadHeaderV2 sample_lib (bs @ ''{}data'') =
        Inr (\<lparr>wh_SignedBatch = wire_batchV2, wh_ManifestBytes = 2\<rparr>, ''{}data''))"
  using wire_header_roundtrip [of sample_lib wire_batch sample_manifest _ "''{}data''"]
    wire_header_roundtrip [of sample_lib wire_batchV2 sample_manifest _ "''{}data''"]
    sample_frames
  by (simp add: sample_manifest_def)

theorem wire_header_truncated_witness:
  "\<exists>bs e. WriteHeader sample_lib wire_batch sample_manifest = Inr bs \<and>
     ReadHeader sample_lib (take 119 bs) = Inl e"
proof -
  let ?bs = "frame_bytes \<lparr>wh_SignedBatch = wire_batch, wh_ManifestBytes = 2\<rparr>"
  have "119 < length ?bs" by (simp add: frame_bytes_def wire_batch_def sample_batch_def)
  with wire_header_truncated [of 119 ?bs sample_lib wire_batch sample_manifest] sample_frames(1)
  show ?thesis by simp
qed

theorem WriteHeader_V2_unreadable_witness:
  "\<exists>bs e. WriteHeader sample_lib wire_batchV2 sample_manifest = Inr bs \<and>
     ReadHeader sample_lib bs = Inl e"
  using WriteHeader_V2_unreadable [OF sample_headers [of wire_batchV2]]
  by (metis append_Nil2 insertCI wire_versions(2))

end
