(* ===== verification/Batch_Ack.thy ===== *)
theory Batch_Ack
  imports FI_Codec
begin

text \<open>
  Package \<^verbatim>\<open>transportack\<close> (\<^verbatim>\<open>ack.go\<close>): the durable acknowledgement a receiver returns to a
  source. There is no acknowledgement value for a failure, so the validation admits two
  outcomes only. The writer goes through the \<^verbatim>\<open>writeFull\<close> loop on any \<^verbatim>\<open>io.Writer\<close>.
\<close>

section \<open>Acknowledgements\<close>

definition fixedAcknowledgementBytes :: nat where "fixedAcknowledgementBytes = 136"
definition wireMagic :: string where "wireMagic = ''FIACK001''"
definition AcknowledgementVersion :: string where "AcknowledgementVersion = ''fi-transport-ack/0.1''"
definition MaxOutcomeBytes :: nat where "MaxOutcomeBytes = 32"
definition ack_MaxTextBytes :: nat where "ack_MaxTextBytes = 4 * 1024"
definition ack_MaxVersionBytes :: nat where "ack_MaxVersionBytes = 64"

lemmas ack_limits = fixedAcknowledgementBytes_def MaxOutcomeBytes_def ack_MaxTextBytes_def
  ack_MaxVersionBytes_def

definition OutcomeDurableDuplicate :: string where "OutcomeDurableDuplicate = ''DURABLE_DUPLICATE''"
definition OutcomeDurableNew :: string where "OutcomeDurableNew = ''DURABLE_NEW''"

record acknowledgement =
  ack_Version :: string
  ack_Outcome :: string
  ack_SourceID :: string
  ack_BatchID :: string
  ack_DataBytes :: uint64
  ack_DataSHA256 :: string
  ack_ManifestSHA256 :: string
  ack_FrameBytes :: uint64
  ack_FrameSHA256 :: string

datatype ack_error =
    AckBadVersion
  | AckUnsupportedOutcome
  | AckRequired string
  | AckTooLong string
  | AckZeroDataBytes
  | AckZeroFrameBytes
  | AckBadDigest string
  | AckRead string io_error
  | AckBadMagic
  | AckBadLength string
  | AckWrite io_error

definition ack_validateSHA256 :: "string \<Rightarrow> string \<Rightarrow> ack_error option" where
  "ack_validateSHA256 v name = fail_if (\<not> sha256_text_decoded v) (AckBadDigest name)"

definition ack_Validate :: "acknowledgement \<Rightarrow> ack_error option" where
  "ack_Validate v =
     first_err
       [fail_if (ack_Version v \<noteq> AcknowledgementVersion) AckBadVersion,
        fail_if (ack_Outcome v \<noteq> OutcomeDurableDuplicate \<and> ack_Outcome v \<noteq> OutcomeDurableNew)
          AckUnsupportedOutcome,
        fail_if (ack_SourceID v = []) (AckRequired ''source ID''),
        fail_if (length (ack_SourceID v) > ack_MaxTextBytes) (AckTooLong ''source ID''),
        fail_if (ack_BatchID v = []) (AckRequired ''batch ID''),
        fail_if (length (ack_BatchID v) > ack_MaxTextBytes) (AckTooLong ''batch ID''),
        fail_if (ack_DataBytes v = 0) AckZeroDataBytes,
        fail_if (ack_FrameBytes v = 0) AckZeroFrameBytes,
        ack_validateSHA256 (ack_DataSHA256 v) ''data SHA-256'',
        ack_validateSHA256 (ack_ManifestSHA256 v) ''manifest SHA-256'',
        ack_validateSHA256 (ack_FrameSHA256 v) ''frame SHA-256'']"

definition NewDurableAcknowledgement ::
  "string \<Rightarrow> string \<Rightarrow> string \<Rightarrow> uint64 \<Rightarrow> string \<Rightarrow> string \<Rightarrow> uint64 \<Rightarrow> string
     \<Rightarrow> ack_error + acknowledgement" where
  "NewDurableAcknowledgement outcome sourceID batchID dataBytes dataSHA256 manifestSHA256
     frameBytes frameSHA256 =
     (let v = \<lparr>ack_Version = AcknowledgementVersion, ack_Outcome = outcome,
               ack_SourceID = sourceID, ack_BatchID = batchID, ack_DataBytes = dataBytes,
               ack_DataSHA256 = dataSHA256, ack_ManifestSHA256 = manifestSHA256,
               ack_FrameBytes = frameBytes, ack_FrameSHA256 = frameSHA256\<rparr>
      in bindE (check (ack_Validate v)) (\<lambda>_. Inr v))"

section \<open>The wire form\<close>

definition ack_readString :: "bytes \<Rightarrow> uint32 \<Rightarrow> string \<Rightarrow> ack_error + string \<times> bytes" where
  "ack_readString s n name = map_err (AckRead name) (ReadFull (unat n) s)"

definition ack_bad_len :: "uint32 \<Rightarrow> nat \<Rightarrow> bool" where
  "ack_bad_len n limit \<longleftrightarrow> n = 0 \<or> unat n > limit"

definition ack_validateLengths ::
  "uint32 \<Rightarrow> uint32 \<Rightarrow> uint32 \<Rightarrow> uint32 \<Rightarrow> ack_error option" where
  "ack_validateLengths version outcome sourceID batchID =
     first_err
       [fail_if (ack_bad_len version ack_MaxVersionBytes) (AckBadLength ''version''),
        fail_if (ack_bad_len outcome MaxOutcomeBytes) (AckBadLength ''outcome''),
        fail_if (ack_bad_len sourceID ack_MaxTextBytes) (AckBadLength ''source ID''),
        fail_if (ack_bad_len batchID ack_MaxTextBytes) (AckBadLength ''batch ID'')]"

definition ReadAcknowledgement_fields ::
  "uint32 \<Rightarrow> uint32 \<Rightarrow> uint32 \<Rightarrow> uint32 \<Rightarrow> uint64 \<Rightarrow> uint64 \<Rightarrow> string \<Rightarrow> string \<Rightarrow> string
     \<Rightarrow> bytes \<Rightarrow> ack_error + acknowledgement \<times> bytes" where
  "ReadAcknowledgement_fields versionBytes outcomeBytes sourceIDBytes batchIDBytes dataBytes
     frameBytes dataSHA256 manifestSHA256 frameSHA256 s =
     bindE (check (ack_validateLengths versionBytes outcomeBytes sourceIDBytes batchIDBytes)) (\<lambda>_.
     bindE (ack_readString s versionBytes ''acknowledgement version'') (\<lambda>(version, s).
     bindE (ack_readString s outcomeBytes ''acknowledgement outcome'') (\<lambda>(outcome, s).
     bindE (ack_readString s sourceIDBytes ''source ID'') (\<lambda>(sourceID, s).
     bindE (ack_readString s batchIDBytes ''batch ID'') (\<lambda>(batchID, s).
     let v = \<lparr>ack_Version = version, ack_Outcome = outcome, ack_SourceID = sourceID,
              ack_BatchID = batchID, ack_DataBytes = dataBytes, ack_DataSHA256 = dataSHA256,
              ack_ManifestSHA256 = manifestSHA256, ack_FrameBytes = frameBytes,
              ack_FrameSHA256 = frameSHA256\<rparr>
     in bindE (check (ack_Validate v)) (\<lambda>_. Inr (v, s)))))))"

definition ReadAcknowledgement :: "bytes \<Rightarrow> ack_error + acknowledgement \<times> bytes" where
  "ReadAcknowledgement s =
     bindE (map_err (AckRead ''fixed header'') (ReadFull fixedAcknowledgementBytes s)) (\<lambda>(fixed, s).
     if slice 0 8 fixed \<noteq> wireMagic then Inl AckBadMagic
     else ReadAcknowledgement_fields
       (be_Uint32 (slice 8 12 fixed)) (be_Uint32 (slice 12 16 fixed))
       (be_Uint32 (slice 16 20 fixed)) (be_Uint32 (slice 20 24 fixed))
       (be_Uint64 (slice 24 32 fixed)) (be_Uint64 (slice 32 40 fixed))
       (hex_EncodeToString (slice 40 72 fixed)) (hex_EncodeToString (slice 72 104 fixed))
       (hex_EncodeToString (slice 104 136 fixed)) s)"

definition decodeSHA256 :: "string \<Rightarrow> string \<Rightarrow> ack_error + bytes" where
  "decodeSHA256 v name =
     (case hex_DecodeString v of None \<Rightarrow> Inl (AckBadDigest name)
      | Some decoded \<Rightarrow> if length decoded \<noteq> 32 then Inl (AckBadDigest name) else Inr decoded)"

definition ack_fields :: "acknowledgement \<Rightarrow> bytes \<Rightarrow> bytes \<Rightarrow> bytes \<Rightarrow> (nat \<times> nat \<times> bytes) list" where
  "ack_fields v dataDigest manifestDigest frameDigest =
     [(0, 8, wireMagic),
      (8, 12, be_PutUint32 (of_nat (length (ack_Version v)))),
      (12, 16, be_PutUint32 (of_nat (length (ack_Outcome v)))),
      (16, 20, be_PutUint32 (of_nat (length (ack_SourceID v)))),
      (20, 24, be_PutUint32 (of_nat (length (ack_BatchID v)))),
      (24, 32, be_PutUint64 (ack_DataBytes v)),
      (32, 40, be_PutUint64 (ack_FrameBytes v)),
      (40, 72, dataDigest),
      (72, 104, manifestDigest),
      (104, 136, frameDigest)]"

definition ack_parts :: "acknowledgement \<Rightarrow> ack_error + bytes list" where
  "ack_parts v =
     bindE (check (ack_Validate v)) (\<lambda>_.
     bindE (decodeSHA256 (ack_DataSHA256 v) ''data SHA-256'') (\<lambda>dataDigest.
     bindE (decodeSHA256 (ack_ManifestSHA256 v) ''manifest SHA-256'') (\<lambda>manifestDigest.
     bindE (decodeSHA256 (ack_FrameSHA256 v) ''frame SHA-256'') (\<lambda>frameDigest.
     Inr [fixed_header fixedAcknowledgementBytes (ack_fields v dataDigest manifestDigest frameDigest),
          ack_Version v, ack_Outcome v, ack_SourceID v, ack_BatchID v]))))"

definition WriteAcknowledgement ::
  "'s write_fn \<Rightarrow> 's \<Rightarrow> acknowledgement \<Rightarrow> ack_error option \<times> 's" where
  "WriteAcknowledgement wr s v =
     (case ack_parts v of Inl e \<Rightarrow> (Some e, s)
      | Inr parts \<Rightarrow> (case writeParts wr s parts of (r, s') \<Rightarrow> (map_option AckWrite r, s')))"

section \<open>One acknowledgement, one encoding\<close>

lemma length_wireMagic [simp]: "length wireMagic = 8"
  by (simp add: wireMagic_def)

lemma ack_validateSHA256_None [simp]: "ack_validateSHA256 v n = None \<longleftrightarrow> sha256_text v"
  by (simp add: ack_validateSHA256_def sha256_text_lower)

lemma ack_Validate_None:
  "ack_Validate v = None \<longleftrightarrow>
     ack_Version v = AcknowledgementVersion \<and>
     (ack_Outcome v = OutcomeDurableDuplicate \<or> ack_Outcome v = OutcomeDurableNew) \<and>
     ack_SourceID v \<noteq> [] \<and> length (ack_SourceID v) \<le> 4096 \<and>
     ack_BatchID v \<noteq> [] \<and> length (ack_BatchID v) \<le> 4096 \<and>
     ack_DataBytes v \<noteq> 0 \<and> ack_FrameBytes v \<noteq> 0 \<and> sha256_text (ack_DataSHA256 v) \<and>
     sha256_text (ack_ManifestSHA256 v) \<and> sha256_text (ack_FrameSHA256 v)"
  by (auto simp: ack_Validate_def ack_limits)

lemma ack_text_bounds:
  assumes "ack_Validate v = None"
  shows "ack_Version v \<noteq> [] \<and> length (ack_Version v) \<le> 64"
    and "ack_Outcome v \<noteq> [] \<and> length (ack_Outcome v) \<le> 32"
  using assms by (auto simp: ack_Validate_None AcknowledgementVersion_def
      OutcomeDurableDuplicate_def OutcomeDurableNew_def)

definition ack_bytes :: "acknowledgement \<Rightarrow> bytes" where
  "ack_bytes v =
     wireMagic @ len32 (ack_Version v) @ len32 (ack_Outcome v) @ len32 (ack_SourceID v) @
     len32 (ack_BatchID v) @ be_PutUint64 (ack_DataBytes v) @ be_PutUint64 (ack_FrameBytes v) @
     digest_of (ack_DataSHA256 v) @ digest_of (ack_ManifestSHA256 v) @
     digest_of (ack_FrameSHA256 v) @
     ack_Version v @ ack_Outcome v @ ack_SourceID v @ ack_BatchID v"

lemma ack_parts_valid:
  assumes "ack_Validate v = None"
  shows "\<exists>ps. ack_parts v = Inr ps \<and> concat ps = ack_bytes v"
proof -
  let ?fs = "ack_fields v (digest_of (ack_DataSHA256 v)) (digest_of (ack_ManifestSHA256 v))
      (digest_of (ack_FrameSHA256 v))"
  from assms have d: "sha256_text (ack_DataSHA256 v)" "sha256_text (ack_ManifestSHA256 v)"
    "sha256_text (ack_FrameSHA256 v)" by (simp_all add: ack_Validate_None)
  have "fixed_header 136 ?fs = fields_bytes ?fs"
    using d by (intro fixed_header_contiguous) (simp_all add: ack_fields_def sha256_text_digest)
  with assms d show ?thesis
    by (simp add: ack_parts_def decodeSHA256_def sha256_text_digest ack_bytes_def ack_fields_def
        len32_def fixedAcknowledgementBytes_def)
qed

lemma ReadAcknowledgement_parts:
  assumes "length ve = 4" "length ou = 4" "length si = 4" "length bi = 4" "length db = 8"
    "length fb = 8" "length dd = 32" "length md = 32" "length fd = 32"
  shows "ReadAcknowledgement (wireMagic @ ve @ ou @ si @ bi @ db @ fb @ dd @ md @ fd @ s) =
     ReadAcknowledgement_fields (be_Uint32 ve) (be_Uint32 ou) (be_Uint32 si) (be_Uint32 bi)
       (be_Uint64 db) (be_Uint64 fb) (hex_EncodeToString dd) (hex_EncodeToString md)
       (hex_EncodeToString fd) s"
proof -
  let ?f = "wireMagic @ ve @ ou @ si @ bi @ db @ fb @ dd @ md @ fd"
  have "ReadFull 136 (?f @ s) = Inr (?f, s)"
    using assms by (intro ReadFull_append) simp
  then show ?thesis
    using assms by (simp add: ReadAcknowledgement_def fixedAcknowledgementBytes_def slice_simps)
qed

lemma ack_bad_len_len32:
  "length f < 2 ^ 32 \<Longrightarrow> ack_bad_len (be_Uint32 (len32 f)) m \<longleftrightarrow> f = [] \<or> length f > m"
  by (auto simp: ack_bad_len_def unat_eq_zero [symmetric])

lemma ack_eta [simp]:
  "\<lparr>ack_Version = ack_Version v, ack_Outcome = ack_Outcome v, ack_SourceID = ack_SourceID v,
    ack_BatchID = ack_BatchID v, ack_DataBytes = ack_DataBytes v,
    ack_DataSHA256 = ack_DataSHA256 v, ack_ManifestSHA256 = ack_ManifestSHA256 v,
    ack_FrameBytes = ack_FrameBytes v, ack_FrameSHA256 = ack_FrameSHA256 v\<rparr> = v"
  by simp

lemma ReadAcknowledgement_bytes:
  assumes "ack_Validate v = None"
  shows "ReadAcknowledgement (ack_bytes v @ rest) = Inr (v, rest)"
proof -
  from assms have "ack_SourceID v \<noteq> [] \<and> length (ack_SourceID v) \<le> 4096"
    "ack_BatchID v \<noteq> [] \<and> length (ack_BatchID v) \<le> 4096" "sha256_text (ack_DataSHA256 v)"
    "sha256_text (ack_ManifestSHA256 v)" "sha256_text (ack_FrameSHA256 v)"
    by (simp_all add: ack_Validate_None)
  with ack_text_bounds [OF assms] assms show ?thesis
    by (simp add: ack_bytes_def ReadAcknowledgement_parts ReadAcknowledgement_fields_def
        sha256_text_digest ack_validateLengths_def ack_bad_len_len32 ack_limits
        ack_readString_def Let_def)
qed

lemma ReadAcknowledgement_sound:
  assumes r: "ReadAcknowledgement s = Inr (v, rest)"
  shows "ack_Validate v = None \<and> s = ack_bytes v @ rest"
proof -
  from r obtain f t where f: "length f = 136" "s = f @ t" and magic: "slice 0 8 f = wireMagic"
    by (auto simp: ReadAcknowledgement_def ReadFull_Inr fixedAcknowledgementBytes_def
        split: if_splits)
  have cut: "f = wireMagic @ slice 8 12 f @ slice 12 16 f @ slice 16 20 f @ slice 20 24 f @
      slice 24 32 f @ slice 32 40 f @ slice 40 72 f @ slice 72 104 f @ slice 104 136 f"
    using cut_header [of "[8,12,16,20,24,32,40,72,104,136]" f] f magic by simp
  have s: "s = wireMagic @ slice 8 12 f @ slice 12 16 f @ slice 16 20 f @ slice 20 24 f @
      slice 24 32 f @ slice 32 40 f @ slice 40 72 f @ slice 72 104 f @ slice 104 136 f @ t"
    using cut f(2) by (metis append.assoc)
  from r [unfolded s] f(1)
  have "ack_Validate v = None \<and> ack_bytes v @ rest = wireMagic @ slice 8 12 f @ slice 12 16 f @
      slice 16 20 f @ slice 20 24 f @ slice 24 32 f @ slice 32 40 f @ slice 40 72 f @
      slice 72 104 f @ slice 104 136 f @ t"
    by (auto simp: ReadAcknowledgement_parts ReadAcknowledgement_fields_def length_slice
        ack_readString_def ReadFull_Inr Let_def ack_bytes_def len32_read)
  with s show ?thesis by simp
qed

interpretation ack: frame_codec "\<lambda>v. ack_Validate v = None" ack_bytes ReadAcknowledgement
  by unfold_locales (simp_all add: ReadAcknowledgement_bytes ReadAcknowledgement_sound)

text \<open>
  C33: An acknowledgement written without error to any writer that keeps the contract of
  \<^verbatim>\<open>io.Writer\<close> (short writes included) arrives whole: the bytes added to the stream are read
  by \<^verbatim>\<open>ReadAcknowledgement\<close> as the same acknowledgement, whatever follows them, and no
  proper prefix of them is read as an acknowledgement at all.
\<close>

theorem acknowledgement_delivered:
  assumes "io_writer wr contents" and "WriteAcknowledgement wr s v = (None, s')"
  shows "\<exists>bs. contents s' = contents s @ bs \<and>
    (\<forall>rest. ReadAcknowledgement (bs @ rest) = Inr (v, rest)) \<and>
    (\<forall>k < length bs. \<exists>e. ReadAcknowledgement (take k bs) = Inl e)"
proof -
  from assms(2) have v: "ack_Validate v = None"
    by (auto simp: WriteAcknowledgement_def ack_parts_def split: sum.splits prod.splits)
  with ack_parts_valid obtain ps where ps: "ack_parts v = Inr ps" "concat ps = ack_bytes v" by blast
  with assms(2) have "writeParts wr s ps = (None, s')"
    by (auto simp: WriteAcknowledgement_def split: prod.splits)
  from io_writer.writeParts_ok [OF assms(1) this] ps(2)
  have "contents s' = contents s @ ack_bytes v" by simp
  with ack.dec_enc [OF v] ack.truncated_rejected [OF v] show ?thesis by blast
qed

text \<open>
  C34: \<^verbatim>\<open>ReadAcknowledgement\<close> accepts exactly the encodings of valid acknowledgements, and a
  valid acknowledgement always reports durable custody: one of the two durable outcomes, for
  named source and batch, with non-zero sizes and three well-formed digests. No failure of
  the receiver has a representation that a source would read as success.
\<close>

theorem acknowledgement_canonical:
  "ReadAcknowledgement s = Inr (v, rest) \<longleftrightarrow>
     s = ack_bytes v @ rest \<and> ack_Version v = AcknowledgementVersion \<and>
     ack_Outcome v \<in> {OutcomeDurableDuplicate, OutcomeDurableNew} \<and>
     ack_SourceID v \<noteq> [] \<and> length (ack_SourceID v) \<le> 4096 \<and>
     ack_BatchID v \<noteq> [] \<and> length (ack_BatchID v) \<le> 4096 \<and>
     ack_DataBytes v \<noteq> 0 \<and> ack_FrameBytes v \<noteq> 0 \<and> sha256_text (ack_DataSHA256 v) \<and>
     sha256_text (ack_ManifestSHA256 v) \<and> sha256_text (ack_FrameSHA256 v)"
  by (auto simp: ack.dec_iff ack_Validate_None)

section \<open>A sample acknowledgement\<close>

definition sample_ack :: acknowledgement where
  "sample_ack =
     \<lparr>ack_Version = AcknowledgementVersion, ack_Outcome = OutcomeDurableNew,
      ack_SourceID = ''fs-01'', ack_BatchID = ''b1'', ack_DataBytes = 120,
      ack_DataSHA256 = replicate 64 (CHR ''a''), ack_ManifestSHA256 = replicate 64 (CHR ''b''),
      ack_FrameBytes = 300, ack_FrameSHA256 = replicate 64 (CHR ''c'')\<rparr>"

lemma sample_ack_valid: "ack_Validate sample_ack = None"
  by (simp add: ack_Validate_None sample_ack_def sha256_text_def is_lower_hex_def
      list_all_iff)

theorem acknowledgement_delivered_witness:
  "\<exists>bs. WriteAcknowledgement buffer_Write [] sample_ack = (None, bs) \<and>
     ReadAcknowledgement (bs @ ''next'') = Inr (sample_ack, ''next'')"
proof -
  from ack_parts_valid [OF sample_ack_valid] obtain bs where
      w: "WriteAcknowledgement buffer_Write [] sample_ack = (None, bs)"
    by (auto simp: WriteAcknowledgement_def)
  from acknowledgement_delivered [OF buffer.io_writer_axioms this] w show ?thesis by auto
qed

end
