(* ===== verification/Gen_Descriptor.thy ===== *)
theory Gen_Descriptor
  imports Batch_Package FI_Codec
begin

text \<open>
  Package \<^verbatim>\<open>transportgeneration\<close>, file \<^verbatim>\<open>descriptor.go\<close>: the descriptor of one frozen
  generation, the bytes its signature covers, and the signed generation. X.509 parsing,
  RSA-PSS and Unicode case folding are the parameters of \<^typ>\<open>x509_lib\<close>.
\<close>

unbundle bit_operations_syntax

section \<open>Descriptors\<close>

definition CanonicalVersion :: string where
  "CanonicalVersion = ''fi-generation-canonical/0.1''"

definition gen_DescriptorVersion :: string where
  "gen_DescriptorVersion = ''fi-generation-descriptor/0.1''"

definition SignedGenerationVersion :: string where
  "SignedGenerationVersion = ''fi-signed-generation/0.1''"

definition generationSignatureDomain :: string where
  "generationSignatureDomain = ''FI-GENERATION-SIGNATURE-V1''"

definition maxGenerationCertificateDERBytes :: nat where
  "maxGenerationCertificateDERBytes = 128 * 1024"

definition maxGenerationSignatureBytes :: nat where
  "maxGenerationSignatureBytes = 16 * 1024"

definition maxGenerationStreamingBytes :: uint64 where
  "maxGenerationStreamingBytes = 2 ^ 63 - 1"

record generation_descriptor =
  gd_Version :: string
  gd_SourceID :: string
  gd_GenerationID :: string
  gd_CanonicalVersion :: string
  gd_DataEncoding :: string
  gd_ArtifactCount :: uint64
  gd_SourceBytes :: uint64
  gd_CanonicalBytes :: uint64
  gd_CanonicalSHA256 :: string
  gd_EncodedDataBytes :: uint64
  gd_EncodedDataSHA256 :: string

datatype generation_error =
    GenBadVersion
  | GenTextRequired string
  | GenTextNotUTF8 string
  | GenTextTooLong string
  | GenTextControl string
  | GenIDPathSeparator
  | GenBadCanonicalVersion
  | GenBadEncoding
  | GenNoArtifacts
  | GenSourceBytesBounds
  | GenCanonicalBytesBounds
  | GenEncodedBytesBounds
  | GenBadDigest string
  | GenCertificateRequired
  | GenCertificateTooLong
  | GenSignerRequired
  | GenCertificateParse
  | GenCertificateIsCA
  | GenCommonName
  | GenNoDigitalSignature
  | GenCertificateKeyNotRSA
  | GenSignerKeyMismatch
  | GenSignFailed
  | GenSignatureLength
  | GenSignatureVerify
  | GenSignedBadVersion
  | GenCertificateLength
  | GenKeyRequired

definition validateTextIdentity :: "string \<Rightarrow> string \<Rightarrow> generation_error option" where
  "validateTextIdentity name v =
     first_err
       [fail_if (TrimSpace v = []) (GenTextRequired name),
        fail_if (\<not> utf8_Valid v) (GenTextNotUTF8 name),
        fail_if (length v > 4096) (GenTextTooLong name),
        fail_if (ContainsAny v [CHR 0x00, CHR 0x0D, CHR 0x0A]) (GenTextControl name)]"

definition gen_validateSHA256 :: "string \<Rightarrow> string \<Rightarrow> generation_error option" where
  "gen_validateSHA256 name v = fail_if (\<not> sha256_text_decoded v) (GenBadDigest name)"

definition gen_Validate :: "generation_descriptor \<Rightarrow> generation_error option" where
  "gen_Validate d =
     first_err
       [fail_if (gd_Version d \<noteq> gen_DescriptorVersion) GenBadVersion,
        validateTextIdentity ''source ID'' (gd_SourceID d),
        validateTextIdentity ''generation ID'' (gd_GenerationID d),
        fail_if (ContainsAny (gd_GenerationID d) [CHR ''/'', CHR 0x5C]) GenIDPathSeparator,
        fail_if (gd_CanonicalVersion d \<noteq> CanonicalVersion) GenBadCanonicalVersion,
        fail_if (gd_DataEncoding d \<noteq> DataEncodingZstd) GenBadEncoding,
        fail_if (gd_ArtifactCount d = 0) GenNoArtifacts,
        fail_if (gd_SourceBytes d > maxGenerationStreamingBytes) GenSourceBytesBounds,
        fail_if (gd_CanonicalBytes d = 0 \<or> gd_CanonicalBytes d > maxGenerationStreamingBytes)
          GenCanonicalBytesBounds,
        fail_if (gd_EncodedDataBytes d = 0 \<or> gd_EncodedDataBytes d > maxGenerationStreamingBytes)
          GenEncodedBytesBounds,
        gen_validateSHA256 ''canonical SHA-256'' (gd_CanonicalSHA256 d),
        gen_validateSHA256 ''encoded SHA-256'' (gd_EncodedDataSHA256 d)]"

definition gen_appendLengthPrefixed :: "bytes \<Rightarrow> string \<Rightarrow> bytes" where
  "gen_appendLengthPrefixed v field = (v @ be_PutUint32 (of_nat (length field))) @ field"

text \<open>The two digests are decoded after the validation, so the ignored errors cannot occur.\<close>

definition gen_SignatureInput :: "generation_descriptor \<Rightarrow> generation_error + bytes" where
  "gen_SignatureInput d =
     bindE (check (gen_Validate d)) (\<lambda>_.
     let canonicalDigest = digest_of (gd_CanonicalSHA256 d);
         encodedDigest = digest_of (gd_EncodedDataSHA256 d);
         v = generationSignatureDomain @ [CHR 0x00];
         v = gen_appendLengthPrefixed v (gd_Version d);
         v = gen_appendLengthPrefixed v (gd_SourceID d);
         v = gen_appendLengthPrefixed v (gd_GenerationID d);
         v = gen_appendLengthPrefixed v (gd_CanonicalVersion d);
         v = gen_appendLengthPrefixed v (gd_DataEncoding d);
         v = v @ be_PutUint64 (gd_ArtifactCount d);
         v = v @ be_PutUint64 (gd_SourceBytes d);
         v = v @ be_PutUint64 (gd_CanonicalBytes d);
         v = v @ be_PutUint64 (gd_EncodedDataBytes d)
     in Inr (v @ canonicalDigest @ encodedDigest))"

section \<open>Signed generations\<close>

record signed_generation =
  gs_Version :: string
  gs_Descriptor :: generation_descriptor
  gs_Signature :: bytes
  gs_BatchSigningCertificateDER :: bytes

definition validateGenerationCertificateRole ::
  "x509_lib \<Rightarrow> generation_descriptor \<Rightarrow> certificate \<Rightarrow> generation_error option" where
  "validateGenerationCertificateRole L d c =
     first_err
       [fail_if (cert_IsCA c) GenCertificateIsCA,
        fail_if (\<not> EqualFold L (cert_CommonName c) (gd_SourceID d)) GenCommonName,
        fail_if (cert_KeyUsage c AND KeyUsageDigitalSignature = 0) GenNoDigitalSignature,
        fail_if (cert_PublicKey c = None) GenCertificateKeyNotRSA]"

definition signedgen_Validate :: "x509_lib \<Rightarrow> signed_generation \<Rightarrow> generation_error option" where
  "signedgen_Validate L v =
     first_err
       [fail_if (gs_Version v \<noteq> SignedGenerationVersion) GenSignedBadVersion,
        gen_Validate (gs_Descriptor v),
        fail_if (gs_Signature v = [] \<or> length (gs_Signature v) > maxGenerationSignatureBytes)
          GenSignatureLength,
        fail_if (gs_BatchSigningCertificateDER v = [] \<or>
                 length (gs_BatchSigningCertificateDER v) > maxGenerationCertificateDERBytes)
          GenCertificateLength,
        (case ParseCertificate L (gs_BatchSigningCertificateDER v) of
           None \<Rightarrow> Some GenCertificateParse
         | Some c \<Rightarrow> validateGenerationCertificateRole L (gs_Descriptor v) c)]"

definition gen_BatchSigningCertificate ::
  "x509_lib \<Rightarrow> signed_generation \<Rightarrow> generation_error + certificate" where
  "gen_BatchSigningCertificate L v =
     bindE (check (signedgen_Validate L v)) (\<lambda>_.
     case ParseCertificate L (gs_BatchSigningCertificateDER v) of
       None \<Rightarrow> Inl GenCertificateParse | Some c \<Rightarrow> Inr c)"

definition NewSignedGeneration ::
  "x509_lib \<Rightarrow> generation_descriptor \<Rightarrow> certificate option \<Rightarrow> signer option
     \<Rightarrow> generation_error + signed_generation" where
  "NewSignedGeneration L d cert sg =
     bindE (check (gen_Validate d)) (\<lambda>_.
     case cert of None \<Rightarrow> Inl GenCertificateRequired | Some cert \<Rightarrow>
     if cert_Raw cert = [] then Inl GenCertificateRequired
     else if length (cert_Raw cert) > maxGenerationCertificateDERBytes
     then Inl GenCertificateTooLong
     else (case sg of None \<Rightarrow> Inl GenSignerRequired | Some sgr \<Rightarrow>
     (case ParseCertificate L (cert_Raw cert) of None \<Rightarrow> Inl GenCertificateParse | Some parsed \<Rightarrow>
      bindE (check (validateGenerationCertificateRole L d parsed)) (\<lambda>_.
      case cert_PublicKey parsed of None \<Rightarrow> Inl GenCertificateKeyNotRSA | Some certificateKey \<Rightarrow>
      (case sg_Public sgr of None \<Rightarrow> Inl GenSignerKeyMismatch | Some signerKey \<Rightarrow>
       if rsa_E signerKey \<noteq> rsa_E certificateKey \<or> rsa_N signerKey \<noteq> rsa_N certificateKey
       then Inl GenSignerKeyMismatch
       else
       bindE (gen_SignatureInput d) (\<lambda>input.
       case sg_Sign sgr (Sum256 input) of None \<Rightarrow> Inl GenSignFailed | Some signature \<Rightarrow>
       if signature = [] \<or> length signature > maxGenerationSignatureBytes
       then Inl GenSignatureLength
       else if \<not> VerifyPSS L certificateKey (Sum256 input) signature then Inl GenSignatureVerify
       else let v = \<lparr>gs_Version = SignedGenerationVersion, gs_Descriptor = d,
                     gs_Signature = signature, gs_BatchSigningCertificateDER = cert_Raw parsed\<rparr>
       in bindE (check (signedgen_Validate L v)) (\<lambda>_. Inr v)))))))"

definition VerifySignedGenerationSignature ::
  "x509_lib \<Rightarrow> signed_generation \<Rightarrow> rsa_public_key option \<Rightarrow> generation_error option" where
  "VerifySignedGenerationSignature L v publicKey =
     (case signedgen_Validate L v of Some e \<Rightarrow> Some e | None \<Rightarrow>
     (case publicKey of None \<Rightarrow> Some GenKeyRequired | Some key \<Rightarrow>
     (case gen_SignatureInput (gs_Descriptor v) of Inl e \<Rightarrow> Some e | Inr input \<Rightarrow>
      fail_if (\<not> VerifyPSS L key (Sum256 input) (gs_Signature v)) GenSignatureVerify)))"

section \<open>Valid descriptors\<close>

lemma maxStreaming_unat [simp]: "unat maxGenerationStreamingBytes = 9223372036854775807"
  by (simp add: maxGenerationStreamingBytes_def)

lemma validateTextIdentity_None:
  "validateTextIdentity n v = None \<longleftrightarrow>
     \<not> blank v \<and> utf8_Valid v \<and> length v \<le> 4096 \<and>
     \<not> ContainsAny v [CHR 0x00, CHR 0x0D, CHR 0x0A]"
  by (auto simp: validateTextIdentity_def TrimSpace_Nil)

lemma gen_validateSHA256_None [simp]: "gen_validateSHA256 n v = None \<longleftrightarrow> sha256_text v"
  by (simp add: gen_validateSHA256_def sha256_text_lower)

lemma gen_Validate_None:
  "gen_Validate d = None \<longleftrightarrow>
     gd_Version d = gen_DescriptorVersion \<and>
     validateTextIdentity ''source ID'' (gd_SourceID d) = None \<and>
     validateTextIdentity ''generation ID'' (gd_GenerationID d) = None \<and>
     \<not> ContainsAny (gd_GenerationID d) [CHR ''/'', CHR 0x5C] \<and>
     gd_CanonicalVersion d = CanonicalVersion \<and> gd_DataEncoding d = DataEncodingZstd \<and>
     gd_ArtifactCount d \<noteq> 0 \<and> gd_SourceBytes d \<le> maxGenerationStreamingBytes \<and>
     gd_CanonicalBytes d \<noteq> 0 \<and> gd_CanonicalBytes d \<le> maxGenerationStreamingBytes \<and>
     gd_EncodedDataBytes d \<noteq> 0 \<and> gd_EncodedDataBytes d \<le> maxGenerationStreamingBytes \<and>
     sha256_text (gd_CanonicalSHA256 d) \<and> sha256_text (gd_EncodedDataSHA256 d)"
  by (auto simp: gen_Validate_def not_le)

lemma gen_text_bounds:
  assumes "gen_Validate d = None"
  shows "length (gd_SourceID d) \<le> 4096" and "length (gd_GenerationID d) \<le> 4096"
    and "gd_SourceID d \<noteq> []" and "gd_GenerationID d \<noteq> []"
  using assms by (auto simp: gen_Validate_None validateTextIdentity_None)

section \<open>The signed bytes\<close>

definition generation_signed_bytes :: "generation_descriptor \<Rightarrow> bytes" where
  "generation_signed_bytes d =
     generationSignatureDomain @ [CHR 0x00] @ prefixed (gd_Version d) @ prefixed (gd_SourceID d) @
     prefixed (gd_GenerationID d) @ prefixed (gd_CanonicalVersion d) @
     prefixed (gd_DataEncoding d) @ be_PutUint64 (gd_ArtifactCount d) @
     be_PutUint64 (gd_SourceBytes d) @ be_PutUint64 (gd_CanonicalBytes d) @
     be_PutUint64 (gd_EncodedDataBytes d) @ digest_of (gd_CanonicalSHA256 d) @
     digest_of (gd_EncodedDataSHA256 d)"

lemma gen_SignatureInput_Inr:
  "gen_SignatureInput d = Inr x \<longleftrightarrow> gen_Validate d = None \<and> x = generation_signed_bytes d"
  by (auto simp: gen_SignatureInput_def generation_signed_bytes_def Let_def
      gen_appendLengthPrefixed_def prefixed_def)

lemma digest_of_inj: "sha256_text s \<Longrightarrow> sha256_text t \<Longrightarrow> digest_of s = digest_of t \<Longrightarrow> s = t"
  by (metis sha256_text_digest(3))

text \<open>
  C35: The bytes a generation signature covers determine the generation descriptor in every
  field. Unlike for batches there is no side condition: the descriptor validation bounds
  every identifier far below the 32-bit length prefix.
\<close>

theorem generation_signature_input_injective:
  assumes "gen_SignatureInput d = Inr x" and "gen_SignatureInput e = Inr x"
  shows "d = e"
proof -
  from assms have vd: "gen_Validate d = None" and ve: "gen_Validate e = None"
    and eq: "generation_signed_bytes d = generation_signed_bytes e"
    by (auto simp: gen_SignatureInput_Inr)
  note bd = gen_text_bounds [OF vd] and be = gen_text_bounds [OF ve]
  from vd ve have dig: "sha256_text (gd_CanonicalSHA256 d)" "sha256_text (gd_CanonicalSHA256 e)"
    "sha256_text (gd_EncodedDataSHA256 d)" "sha256_text (gd_EncodedDataSHA256 e)"
    and ver: "gd_Version d = gd_Version e" "gd_CanonicalVersion d = gd_CanonicalVersion e"
    "gd_DataEncoding d = gd_DataEncoding e"
    by (simp_all add: gen_Validate_None)
  let ?t = "\<lambda>d. prefixed (gd_CanonicalVersion d) @ prefixed (gd_DataEncoding d) @
     be_PutUint64 (gd_ArtifactCount d) @ be_PutUint64 (gd_SourceBytes d) @
     be_PutUint64 (gd_CanonicalBytes d) @ be_PutUint64 (gd_EncodedDataBytes d) @
     digest_of (gd_CanonicalSHA256 d) @ digest_of (gd_EncodedDataSHA256 d)"
  from eq ver(1) have "prefixed (gd_SourceID d) @ prefixed (gd_GenerationID d) @ ?t d =
      prefixed (gd_SourceID e) @ prefixed (gd_GenerationID e) @ ?t e"
    by (simp add: generation_signed_bytes_def)
  from prefixed_inj [OF this] bd be have src: "gd_SourceID d = gd_SourceID e" and
    "prefixed (gd_GenerationID d) @ ?t d = prefixed (gd_GenerationID e) @ ?t e" by auto
  from prefixed_inj [OF this(2)] bd be have gen: "gd_GenerationID d = gd_GenerationID e" and
    "?t d = ?t e" by auto
  with src gen ver dig show ?thesis
    by (auto simp: sha256_text_digest intro!: generation_descriptor.equality digest_of_inj)
qed

text \<open>
  No generation signature is a batch signature: what a source signs for a generation is
  never what it signs for a batch of either version, although both use the same certificate
  and key.
\<close>

theorem signature_domains_separate:
  "\<not> (gen_SignatureInput d = Inr x \<and> descriptor_SignatureInput b = Inr x)"
proof
  assume both: "gen_SignatureInput d = Inr x \<and> descriptor_SignatureInput b = Inr x"
  then have x: "x = generation_signed_bytes d" by (simp add: gen_SignatureInput_Inr)
  from both have b: "descriptor_SignatureInput b = Inr x" ..
  note v = SignatureInput_valid [OF b]
  from descriptor_Validate_version [OF v] show False
  proof
    assume "tb_Version b = DescriptorVersion"
    then obtain dd md where "x = signed_bytes_V1 b dd md"
      using SignatureInput_V1 [OF v] b by (metis sum.inject(2))
    with x show False
      by (simp add: generation_signed_bytes_def signed_bytes_V1_def generationSignatureDomain_def
          signatureDomainV1_def)
  next
    assume "tb_Version b = DescriptorVersionV2"
    then obtain dd ed md where "x = signed_bytes_V2 b dd ed md"
      using SignatureInput_V2 [OF v] b by (metis sum.inject(2))
    with x show False
      by (simp add: generation_signed_bytes_def signed_bytes_V2_def generationSignatureDomain_def
          signatureDomainV2_def)
  qed
qed

section \<open>Signing and verifying\<close>

lemma signedgen_Validate_None:
  "signedgen_Validate L v = None \<longleftrightarrow>
     gs_Version v = SignedGenerationVersion \<and> gen_Validate (gs_Descriptor v) = None \<and>
     gs_Signature v \<noteq> [] \<and> length (gs_Signature v) \<le> maxGenerationSignatureBytes \<and>
     gs_BatchSigningCertificateDER v \<noteq> [] \<and>
     length (gs_BatchSigningCertificateDER v) \<le> maxGenerationCertificateDERBytes \<and>
     (\<exists>c. ParseCertificate L (gs_BatchSigningCertificateDER v) = Some c \<and>
          validateGenerationCertificateRole L (gs_Descriptor v) c = None)"
  by (auto simp: signedgen_Validate_def split: option.splits)

lemma VerifySignedGenerationSignature_None:
  "VerifySignedGenerationSignature L v (Some key) = None \<longleftrightarrow>
     signedgen_Validate L v = None \<and>
     VerifyPSS L key (Sum256 (generation_signed_bytes (gs_Descriptor v))) (gs_Signature v)"
proof (cases "signedgen_Validate L v = None")
  case True
  then have "gen_SignatureInput (gs_Descriptor v) = Inr (generation_signed_bytes (gs_Descriptor v))"
    by (simp add: gen_SignatureInput_Inr signedgen_Validate_None)
  with True show ?thesis by (simp add: VerifySignedGenerationSignature_def)
qed (auto simp: VerifySignedGenerationSignature_def split: option.splits)

lemma NewSignedGeneration_verified:
  assumes new: "NewSignedGeneration L d cert sg = Inr v"
    and parse: "\<And>der c. ParseCertificate L der = Some c \<Longrightarrow> cert_Raw c = der"
  shows "gs_Descriptor v = d \<and> signedgen_Validate L v = None \<and>
    (\<exists>c key. gen_BatchSigningCertificate L v = Inr c \<and> cert_PublicKey c = Some key \<and>
       VerifySignedGenerationSignature L v (Some key) = None)"
proof -
  from new obtain ce :: certificate and parsed key signature input where
      parsed: "ParseCertificate L (cert_Raw ce) = Some parsed"
      and key: "cert_PublicKey parsed = Some key"
      and input: "gen_SignatureInput d = Inr input"
      and pss: "VerifyPSS L key (Sum256 input) signature"
      and v: "v = \<lparr>gs_Version = SignedGenerationVersion, gs_Descriptor = d,
                   gs_Signature = signature, gs_BatchSigningCertificateDER = cert_Raw parsed\<rparr>"
      and val: "signedgen_Validate L v = None"
    by (auto simp: NewSignedGeneration_def Let_def split: option.splits if_splits)
  from parsed parse [OF parsed] have p: "ParseCertificate L (gs_BatchSigningCertificateDER v) = Some parsed"
    by (simp add: v)
  with val have "gen_BatchSigningCertificate L v = Inr parsed"
    by (simp add: gen_BatchSigningCertificate_def)
  moreover have "VerifySignedGenerationSignature L v (Some key) = None"
    using val input pss by (auto simp: VerifySignedGenerationSignature_None gen_SignatureInput_Inr v)
  ultimately show ?thesis using key val by (simp add: v)
qed

text \<open>
  A signed generation that the source constructs is valid, carries the given descriptor,
  and its signature verifies under the key of the certificate it carries; the only fact used
  of X.509 is that a parsed certificate keeps the DER it was parsed from.
\<close>

theorem NewSignedGeneration_verifies:
  assumes new: "NewSignedGeneration L d cert sg = Inr v"
    and parse: "\<And>der c. ParseCertificate L der = Some c \<Longrightarrow> cert_Raw c = der"
  shows "gs_Descriptor v = d \<and>
    (\<exists>c key. gen_BatchSigningCertificate L v = Inr c \<and> cert_PublicKey c = Some key \<and>
       VerifySignedGenerationSignature L v (Some key) = None)"
  using NewSignedGeneration_verified [OF assms] by blast

section \<open>A sample generation\<close>

definition sample_generation :: generation_descriptor where
  "sample_generation =
     \<lparr>gd_Version = gen_DescriptorVersion, gd_SourceID = ''fs-01'', gd_GenerationID = ''gen-1'',
      gd_CanonicalVersion = CanonicalVersion, gd_DataEncoding = DataEncodingZstd,
      gd_ArtifactCount = 2, gd_SourceBytes = 10, gd_CanonicalBytes = 66,
      gd_CanonicalSHA256 = hex_EncodeToString sample_digest, gd_EncodedDataBytes = 40,
      gd_EncodedDataSHA256 = hex_EncodeToString sample_digest\<rparr>"

lemma sample_generation_valid: "gen_Validate sample_generation = None"
  by (simp add: gen_Validate_None sample_generation_def validateTextIdentity_None
      utf8_Valid_ascii ContainsAny_def ascii_space_def space2_def space3_def
      maxGenerationStreamingBytes_def)

lemma sample_generation_other: "gen_Validate (sample_generation\<lparr>gd_ArtifactCount := 3\<rparr>) = None"
  using sample_generation_valid by (simp add: gen_Validate_None)

theorem generation_signature_input_injective_witness:
  "\<exists>x y. gen_SignatureInput sample_generation = Inr x \<and>
     gen_SignatureInput (sample_generation\<lparr>gd_ArtifactCount := 3\<rparr>) = Inr y \<and> x \<noteq> y"
proof -
  obtain x where x: "gen_SignatureInput sample_generation = Inr x"
    using sample_generation_valid by (simp add: gen_SignatureInput_Inr)
  obtain y where y: "gen_SignatureInput (sample_generation\<lparr>gd_ArtifactCount := 3\<rparr>) = Inr y"
    using sample_generation_other by (simp add: gen_SignatureInput_Inr)
  have "sample_generation \<noteq> sample_generation\<lparr>gd_ArtifactCount := 3\<rparr>"
    by (simp add: sample_generation_def)
  with generation_signature_input_injective [OF x, of "sample_generation\<lparr>gd_ArtifactCount := 3\<rparr>"] x y
  show ?thesis by auto
qed

lemma sample_role:
  "validateGenerationCertificateRole sample_lib sample_generation sample_certificate = None"
  by (simp add: validateGenerationCertificateRole_def sample_lib_def sample_certificate_def
      sample_generation_def KeyUsageDigitalSignature_def)

definition sample_signed_generation :: signed_generation where
  "sample_signed_generation =
     \<lparr>gs_Version = SignedGenerationVersion, gs_Descriptor = sample_generation,
      gs_Signature = Sum256 (generation_signed_bytes sample_generation),
      gs_BatchSigningCertificateDER = ''DER''\<rparr>"

lemma sample_signed_generation_valid: "signedgen_Validate sample_lib sample_signed_generation = None"
proof -
  have "ParseCertificate sample_lib ''DER'' = Some sample_certificate" by (simp add: sample_lib_def)
  with sample_role sample_generation_valid show ?thesis
    by (simp add: signedgen_Validate_None sample_signed_generation_def maxGenerationSignatureBytes_def
        maxGenerationCertificateDERBytes_def)
qed

lemma NewSignedGeneration_sample:
  "NewSignedGeneration sample_lib sample_generation (Some sample_certificate) (Some sample_signer)
     = Inr sample_signed_generation"
proof -
  have input: "gen_SignatureInput sample_generation = Inr (generation_signed_bytes sample_generation)"
    using sample_generation_valid by (simp add: gen_SignatureInput_Inr)
  have lib: "ParseCertificate sample_lib ''DER'' = Some sample_certificate"
    "VerifyPSS sample_lib k dg s \<longleftrightarrow> s = dg" for k dg s by (simp_all add: sample_lib_def)
  have cert: "cert_Raw sample_certificate = ''DER''"
    "cert_PublicKey sample_certificate = Some \<lparr>rsa_N = 15, rsa_E = 3\<rparr>"
    by (simp_all add: sample_certificate_def)
  from sample_signed_generation_valid input sample_role sample_generation_valid show ?thesis
    by (simp add: NewSignedGeneration_def lib cert sample_signer_def sample_signed_generation_def
        maxGenerationSignatureBytes_def maxGenerationCertificateDERBytes_def)
qed

theorem NewSignedGeneration_verifies_witness:
  "\<exists>c key. gen_BatchSigningCertificate sample_lib sample_signed_generation = Inr c \<and>
     cert_PublicKey c = Some key \<and>
     VerifySignedGenerationSignature sample_lib sample_signed_generation (Some key) = None"
proof -
  have parse: "cert_Raw c = der" if "ParseCertificate sample_lib der = Some c" for der c
    using that by (auto simp: sample_lib_def sample_certificate_def split: if_splits)
  from NewSignedGeneration_verifies [OF NewSignedGeneration_sample parse] show ?thesis by blast
qed

end
