(* ===== verification/Gen_Canonical.thy ===== *)
theory Gen_Canonical
  imports Gen_Descriptor
begin

text \<open>
  Package \<^verbatim>\<open>transportgeneration\<close>, file \<^verbatim>\<open>canonical.go\<close>: the reader of the canonical generation
  stream. An artifact is exposed to a handler through an \<^verbatim>\<open>io.Reader\<close> that unpacks the chunks;
  the reader and the loop around the handlers are modelled with every error return.

  The format: the magic, a 64-bit artifact count, then per artifact a 32-bit name length, the
  name, chunks of at most 1 MiB each behind a 32-bit length, a zero length and the 64-bit total
  of the file.
\<close>

section \<open>The artifact reader\<close>

definition generationCanonicalMagic :: bytes where
  "generationCanonicalMagic = ''FI-GENERATION-CANONICAL-V1'' @ [CHR 0x00]"

definition generationCanonicalChunkBytes :: uint32 where
  "generationCanonicalChunkBytes = 1024 * 1024"

definition maxReceiveArtifactCount :: uint64 where
  "maxReceiveArtifactCount = 1000000"

definition maxCanonicalArtifactNameBytes :: uint32 where
  "maxCanonicalArtifactNameBytes = 4096"

datatype artifact_error =
    ArtEOF
  | ArtReadChunkLength io_error
  | ArtReadDeclared io_error
  | ArtDeclaredMismatch
  | ArtChunkTooLong
  | ArtFileBytesOverflow
  | ArtReadChunk io_error

datatype name_error =
    NameReadLength io_error
  | NameLengthBounds
  | NameRead io_error
  | NameInvalid

datatype 'e canonical_error =
    CanDescriptor generation_error
  | CanReadMagic io_error
  | CanBadMagic
  | CanReadCount io_error
  | CanCountMismatch
  | CanCountBounds
  | CanName name_error
  | CanNotSorted
  | CanRead artifact_error
  | CanHandler 'e
  | CanHandlerReturnedEarly
  | CanSourceBytesOverflow

record artifact_reader =
  car_chunkRemaining :: uint32
  car_fileBytes :: uint64
  car_finished :: bool
  car_reader :: bytes

definition fresh_artifact :: "bytes \<Rightarrow> artifact_reader" where
  "fresh_artifact s =
     \<lparr>car_chunkRemaining = 0, car_fileBytes = 0, car_finished = False, car_reader = s\<rparr>"

text \<open>
  The loop \<^verbatim>\<open>for artifact.chunkRemaining == 0\<close>: its body returns or stores a chunk length
  that is not zero, so it runs at most once. A failed \<^verbatim>\<open>io.ReadFull\<close> has used up the stream.
\<close>

definition artifact_next_chunk ::
  "artifact_reader \<Rightarrow> artifact_error option \<times> artifact_reader" where
  "artifact_next_chunk a =
     (if car_chunkRemaining a \<noteq> 0 then (None, a)
      else case ReadFull 4 (car_reader a) of
        Inl e \<Rightarrow> (Some (ArtReadChunkLength e), a\<lparr>car_reader := []\<rparr>)
      | Inr (b, s) \<Rightarrow>
          let chunkLength = be_Uint32 b in
          if chunkLength = 0 then
            (case ReadFull 8 s of
               Inl e \<Rightarrow> (Some (ArtReadDeclared e), a\<lparr>car_reader := []\<rparr>)
             | Inr (d, s') \<Rightarrow>
                 if be_Uint64 d \<noteq> car_fileBytes a
                 then (Some ArtDeclaredMismatch, a\<lparr>car_reader := s'\<rparr>)
                 else (Some ArtEOF, a\<lparr>car_reader := s', car_finished := True\<rparr>))
          else if chunkLength > generationCanonicalChunkBytes
          then (Some ArtChunkTooLong, a\<lparr>car_reader := s\<rparr>)
          else if ucast chunkLength > (- 1) - car_fileBytes a
          then (Some ArtFileBytesOverflow, a\<lparr>car_reader := s\<rparr>)
          else (None, a\<lparr>car_reader := s, car_chunkRemaining := chunkLength\<rparr>))"

text \<open>\<^verbatim>\<open>Read(value)\<close> with \<^verbatim>\<open>len(value) = n\<close>: the bytes read, the error, the reader after it.\<close>

definition artifact_Read ::
  "nat \<Rightarrow> artifact_reader \<Rightarrow> bytes \<times> artifact_error option \<times> artifact_reader" where
  "artifact_Read n a =
     (if n = 0 then ([], None, a)
      else if car_finished a then ([], Some ArtEOF, a)
      else case artifact_next_chunk a of
        (Some e, a') \<Rightarrow> ([], Some e, a')
      | (None, a') \<Rightarrow>
          let readLength = (if of_nat n > car_chunkRemaining a' then unat (car_chunkRemaining a') else n);
              s = car_reader a';
              got = take readLength s;
              a'' = a'\<lparr>car_chunkRemaining := car_chunkRemaining a' - of_nat (length got),
                      car_fileBytes := car_fileBytes a' + of_nat (length got),
                      car_reader := drop readLength s\<rparr>
          in if readLength \<le> length s then (got, None, a'')
             else (got, Some (ArtReadChunk (if s = [] then EOF else ErrUnexpectedEOF)), a''))"

section \<open>The artifact loop\<close>

definition canonical_name_ok :: "string \<Rightarrow> bool" where
  "canonical_name_ok name \<longleftrightarrow>
     utf8_Valid name \<and> \<not> ContainsAny name [CHR ''/'', CHR 0x5C, CHR 0x00, CHR 0x0D, CHR 0x0A]"

definition readCanonicalArtifactName :: "bytes \<Rightarrow> name_error + string \<times> bytes" where
  "readCanonicalArtifactName s =
     bindE (map_err NameReadLength (ReadFull 4 s)) (\<lambda>(b, s).
     let nameLength = be_Uint32 b in
     if nameLength = 0 \<or> nameLength > maxCanonicalArtifactNameBytes then Inl NameLengthBounds
     else bindE (map_err NameRead (ReadFull (unat nameLength) s)) (\<lambda>(name, s).
     if \<not> canonical_name_ok name then Inl NameInvalid else Inr (name, s)))"

lemma next_chunk_reader:
  assumes "artifact_next_chunk a = (None, a')"
  shows "car_chunkRemaining a' \<noteq> 0 \<and> length (car_reader a') \<le> length (car_reader a)"
  using assms
  by (auto simp: artifact_next_chunk_def ReadFull_Inr Let_def split: if_splits sum.splits prod.splits)

definition read_length :: "nat \<Rightarrow> artifact_reader \<Rightarrow> nat" where
  "read_length n b = (if of_nat n > car_chunkRemaining b then unat (car_chunkRemaining b) else n)"

definition advance :: "nat \<Rightarrow> artifact_reader \<Rightarrow> artifact_reader" where
  "advance k b = b\<lparr>car_chunkRemaining := car_chunkRemaining b - of_nat k,
     car_fileBytes := car_fileBytes b + of_nat k, car_reader := drop k (car_reader b)\<rparr>"

lemma Read_None:
  assumes "artifact_Read n a = (bs, None, a')" and "n \<noteq> 0"
  obtains b where "\<not> car_finished a" and "artifact_next_chunk a = (None, b)"
    and "read_length n b \<noteq> 0" and "read_length n b \<le> length (car_reader b)"
    and "bs = take (read_length n b) (car_reader b)" and "a' = advance (read_length n b) b"
proof -
  from assms obtain b where f: "\<not> car_finished a" and b: "artifact_next_chunk a = (None, b)"
    by (cases "artifact_next_chunk a") (auto simp: artifact_Read_def split: if_splits option.splits)
  moreover have "read_length n b \<noteq> 0"
    using next_chunk_reader [OF b] assms(2) by (auto simp: read_length_def unat_eq_zero unat_gt_0)
  moreover from assms b f have "read_length n b \<le> length (car_reader b)"
    "bs = take (read_length n b) (car_reader b)" "a' = advance (read_length n b) b"
    by (auto simp: artifact_Read_def Let_def read_length_def advance_def split: if_splits)
  ultimately show thesis by (rule that)
qed

lemma Read_shrinks:
  assumes "artifact_Read n a = (bs, None, a')" and "n \<noteq> 0"
  shows "length (car_reader a') < length (car_reader a)"
proof -
  obtain b where "artifact_next_chunk a = (None, b)" "read_length n b \<noteq> 0"
    "read_length n b \<le> length (car_reader b)" "a' = advance (read_length n b) b"
    by (rule Read_None [OF assms])
  with next_chunk_reader [of a b] show ?thesis by (auto simp: advance_def)
qed

text \<open>
  \<^verbatim>\<open>io.Copy(io.Discard, artifactReader)\<close> with a buffer of \<open>Suc k\<close> bytes: reads until an error,
  \<^verbatim>\<open>io.EOF\<close> itself being the successful end. The bytes read are collected.
\<close>

function artifact_copy ::
  "nat \<Rightarrow> artifact_reader \<Rightarrow> bytes \<Rightarrow> artifact_error option \<times> bytes \<times> artifact_reader" where
  "artifact_copy k a acc =
     (case artifact_Read (Suc k) a of
        (bs, Some e, a') \<Rightarrow> (if e = ArtEOF then None else Some e, acc @ bs, a')
      | (bs, None, a') \<Rightarrow> artifact_copy k a' (acc @ bs))"
  by pat_completeness auto
termination
  by (relation "measure (\<lambda>(k, a, acc). length (car_reader a))") (auto dest!: sym [of "(_, None, _)"] intro: Read_shrinks)

declare artifact_copy.simps [simp del]

text \<open>
  A handler gets the artifact name and reader and returns its error, the reader as it left it
  and its own state. No handler is the drain above with the buffer of \<^verbatim>\<open>io.Discard\<close>.
\<close>

type_synonym ('h, 'e) artifact_handler =
  "'h \<Rightarrow> string \<Rightarrow> artifact_reader \<Rightarrow> 'e option \<times> artifact_reader \<times> 'h"

definition consume_artifact ::
  "('h, 'e) artifact_handler option \<Rightarrow> 'h \<Rightarrow> string \<Rightarrow> artifact_reader
     \<Rightarrow> 'e canonical_error + artifact_reader \<times> 'h" where
  "consume_artifact handler h name a =
     (case handler of
        None \<Rightarrow>
          (case artifact_copy 8191 a [] of
             (Some e, _, _) \<Rightarrow> Inl (CanRead e)
           | (None, _, a') \<Rightarrow> Inr (a', h))
      | Some fh \<Rightarrow>
          (case fh h name a of
             (Some e, _, _) \<Rightarrow> Inl (CanHandler e)
           | (None, a', h') \<Rightarrow>
               if \<not> car_finished a' then Inl CanHandlerReturnedEarly else Inr (a', h')))"

fun read_artifacts ::
  "('h, 'e) artifact_handler option \<Rightarrow> nat \<Rightarrow> string \<Rightarrow> uint64 \<Rightarrow> 'h \<Rightarrow> bytes
     \<Rightarrow> 'e canonical_error + uint64 \<times> bytes \<times> 'h" where
  "read_artifacts handler 0 previousName sourceBytes h s = Inr (sourceBytes, s, h)"
| "read_artifacts handler (Suc n) previousName sourceBytes h s =
     bindE (map_err CanName (readCanonicalArtifactName s)) (\<lambda>(name, s).
     if previousName \<noteq> [] \<and> name \<le> previousName then Inl CanNotSorted
     else bindE (consume_artifact handler h name (fresh_artifact s)) (\<lambda>(a, h).
     if car_fileBytes a > (- 1) - sourceBytes then Inl CanSourceBytesOverflow
     else read_artifacts handler n name (sourceBytes + car_fileBytes a) h (car_reader a)))"

definition ReadCanonicalArtifacts ::
  "('h, 'e) artifact_handler option \<Rightarrow> 'h \<Rightarrow> bytes \<Rightarrow> generation_descriptor
     \<Rightarrow> 'e canonical_error + uint64 \<times> bytes \<times> 'h" where
  "ReadCanonicalArtifacts handler h s d =
     bindE (check (map_option CanDescriptor (gen_Validate d))) (\<lambda>_.
     bindE (map_err CanReadMagic (ReadFull (length generationCanonicalMagic) s)) (\<lambda>(magic, s).
     if magic \<noteq> generationCanonicalMagic then Inl CanBadMagic
     else bindE (map_err CanReadCount (ReadFull 8 s)) (\<lambda>(countBytes, s).
     let artifactCount = be_Uint64 countBytes in
     if artifactCount \<noteq> gd_ArtifactCount d then Inl CanCountMismatch
     else if artifactCount = 0 \<or> artifactCount > maxReceiveArtifactCount then Inl CanCountBounds
     else read_artifacts handler (unat artifactCount) [] 0 h s)))"

section \<open>The format\<close>

definition chunk_bytes :: "bytes list \<Rightarrow> bytes" where
  "chunk_bytes cs = concat (map (\<lambda>c. len32 c @ c) cs)"

definition body_bytes :: "bytes list \<Rightarrow> bytes" where
  "body_bytes cs = chunk_bytes cs @ be_PutUint32 0 @ be_PutUint64 (of_nat (length (concat cs)))"

definition chunk_ok :: "bytes \<Rightarrow> bool" where
  "chunk_ok c \<longleftrightarrow> c \<noteq> [] \<and> length c \<le> 1048576"

definition wf_chunks :: "bytes list \<Rightarrow> bool" where
  "wf_chunks cs \<longleftrightarrow> list_all chunk_ok cs \<and> length (concat cs) < 2 ^ 64"

type_synonym artifact = "string \<times> bytes list"

definition artifact_bytes :: "artifact \<Rightarrow> bytes" where
  "artifact_bytes f = len32 (fst f) @ fst f @ body_bytes (snd f)"

definition wf_name :: "string \<Rightarrow> bool" where
  "wf_name name \<longleftrightarrow> name \<noteq> [] \<and> length name \<le> 4096 \<and> canonical_name_ok name"

definition artifacts_total :: "artifact list \<Rightarrow> nat" where
  "artifacts_total fs = (\<Sum>f\<leftarrow>fs. length (concat (snd f)))"

lemma length_magic_can [simp]: "length generationCanonicalMagic = 27"
  by (simp add: generationCanonicalMagic_def)

lemma limits_unat [simp]:
  "unat generationCanonicalChunkBytes = 1048576" "unat maxCanonicalArtifactNameBytes = 4096"
  "unat maxReceiveArtifactCount = 1000000"
  by (simp_all add: generationCanonicalChunkBytes_def maxCanonicalArtifactNameBytes_def
      maxReceiveArtifactCount_def)

lemma chunk_bytes_simps [simp]:
  "chunk_bytes [] = []" "chunk_bytes (c # cs) = len32 c @ c @ chunk_bytes cs"
  "chunk_bytes (cs @ ds) = chunk_bytes cs @ chunk_bytes ds"
  by (simp_all add: chunk_bytes_def)

section \<open>What a sequence of reads has seen\<close>

text \<open>
  The invariant of a reader that started on \<open>s0\<close> and has delivered \<open>content\<close>: complete
  chunks \<open>cs\<close>, then a part \<open>p\<close> of the current one.
\<close>

definition reading :: "bytes \<Rightarrow> bytes \<Rightarrow> artifact_reader \<Rightarrow> bool" where
  "reading s0 content a \<longleftrightarrow>
     car_fileBytes a = of_nat (length content) \<and>
     length content + unat (car_chunkRemaining a) < 2 ^ 64 \<and>
     (if car_finished a
      then \<exists>cs. list_all chunk_ok cs \<and> content = concat cs \<and> s0 = body_bytes cs @ car_reader a
      else if car_chunkRemaining a = 0
      then \<exists>cs. list_all chunk_ok cs \<and> content = concat cs \<and> s0 = chunk_bytes cs @ car_reader a
      else \<exists>cs p. list_all chunk_ok cs \<and> content = concat cs @ p \<and>
        length p + unat (car_chunkRemaining a) \<le> 1048576 \<and>
        s0 = chunk_bytes cs @ be_PutUint32 (of_nat (length p + unat (car_chunkRemaining a))) @ p @
          car_reader a)"

lemma reading_fresh: "reading s [] (fresh_artifact s)"
  by (auto simp: reading_def fresh_artifact_def intro!: exI [of _ "[]"])

lemma reading_next_chunk:
  assumes r: "reading s0 content a" and f: "\<not> car_finished a"
    and n: "artifact_next_chunk a = (None, b)"
  shows "reading s0 content b \<and> \<not> car_finished b"
proof (cases "car_chunkRemaining a = 0")
  case False
  with n r f show ?thesis by (auto simp: artifact_next_chunk_def)
next
  case True
  with n obtain l s where s: "length l = 4" "car_reader a = l @ s"
    and b: "b = a\<lparr>car_reader := s, car_chunkRemaining := be_Uint32 l\<rparr>"
    and lim: "be_Uint32 l \<noteq> 0" "\<not> be_Uint32 l > generationCanonicalChunkBytes"
    and guard: "\<not> (ucast (be_Uint32 l) :: uint64) > (- 1) - car_fileBytes a"
    by (auto simp: artifact_next_chunk_def ReadFull_Inr Let_def
        split: if_splits sum.splits prod.splits)
  from r f True obtain cs where cs: "list_all chunk_ok cs" "content = concat cs"
    "s0 = chunk_bytes cs @ car_reader a" and fb: "car_fileBytes a = of_nat (length content)"
    and lt: "length content < 2 ^ 64"
    by (auto simp: reading_def)
  have "unat (be_Uint32 l) \<le> 1048576"
    using lim(2) by (simp add: word_less_nat_alt)
  moreover have "length content + unat (be_Uint32 l) < 2 ^ 64"
    using guard lt by (simp add: add_guard fb unat_of_nat_small)
  ultimately show ?thesis
    using cs fb s lim f
    by (auto simp: reading_def b intro!: exI [of _ cs])
qed

lemma reading_finish:
  assumes r: "reading s0 content a" and f: "\<not> car_finished a"
    and n: "artifact_next_chunk a = (Some ArtEOF, b)"
  shows "reading s0 content b \<and> car_finished b"
proof -
  from n obtain l d s where s: "length l = 4" "length d = 8" "car_reader a = l @ d @ s"
    and z: "be_Uint32 l = 0" "be_Uint64 d = car_fileBytes a" and rem: "car_chunkRemaining a = 0"
    and b: "b = a\<lparr>car_reader := s, car_finished := True\<rparr>"
    by (auto simp: artifact_next_chunk_def ReadFull_Inr Let_def
        split: if_splits sum.splits prod.splits)
  have "l = be_PutUint32 0" using uint_get_put(1) [OF s(1)] z(1) by simp
  moreover have "d = be_PutUint64 (car_fileBytes a)" using uint_get_put(2) [OF s(2)] z(2) by simp
  ultimately show ?thesis
    using r f rem s(3) by (auto simp: reading_def b body_bytes_def)
qed

lemma reading_advance:
  assumes r: "reading s0 content b" and f: "\<not> car_finished b" and rem: "car_chunkRemaining b \<noteq> 0"
    and k: "k \<le> unat (car_chunkRemaining b)" "k \<le> length (car_reader b)"
  shows "reading s0 (content @ take k (car_reader b)) (advance k b)"
proof -
  let ?c = "content @ take k (car_reader b)" and ?r = "car_chunkRemaining b - of_nat k"
  from r f rem obtain cs p where cs: "list_all chunk_ok cs" "content = concat cs @ p"
    "length p + unat (car_chunkRemaining b) \<le> 1048576"
    "s0 = chunk_bytes cs @ be_PutUint32 (of_nat (length p + unat (car_chunkRemaining b))) @ p @
       car_reader b"
    and fb: "car_fileBytes b = of_nat (length content)"
    and lt: "length content + unat (car_chunkRemaining b) < 2 ^ 64"
    by (auto simp: reading_def)
  have ur: "unat ?r = unat (car_chunkRemaining b) - k"
    using k(1) unat_lt_2p [of "car_chunkRemaining b"]
    by (subst unat_sub) (simp_all add: word_le_nat_alt unat_of_nat_small)
  let ?p = "p @ take k (car_reader b)"
  have len: "length ?p + unat ?r = length p + unat (car_chunkRemaining b)" using k ur by simp
  have s0: "s0 = chunk_bytes cs @ be_PutUint32 (of_nat (length ?p + unat ?r)) @ ?p @
      drop k (car_reader b)"
    unfolding len by (simp only: cs(4) append_assoc append_take_drop_id)
  have base: "car_fileBytes (advance k b) = of_nat (length ?c)"
    "length ?c + unat (car_chunkRemaining (advance k b)) < 2 ^ 64"
    using fb lt k ur by (simp_all add: advance_def)
  have fin: "\<not> car_finished (advance k b)" "car_chunkRemaining (advance k b) = ?r"
    "car_reader (advance k b) = drop k (car_reader b)"
    using f by (simp_all add: advance_def)
  show ?thesis
  proof (cases "?r = 0")
    case True
    then have z: "unat ?r = 0" by simp
    have ok: "chunk_ok ?p"
      using len cs(3) rem z unat_gt_0 [of "car_chunkRemaining b"] by (auto simp: chunk_ok_def)
    have "s0 = chunk_bytes (cs @ [?p]) @ drop k (car_reader b)"
      using s0 z by (simp add: len32_def)
    moreover have "?c = concat (cs @ [?p])" and "list_all chunk_ok (cs @ [?p])"
      using cs(1,2) ok by simp_all
    ultimately have "\<exists>cs. list_all chunk_ok cs \<and> ?c = concat cs \<and>
        s0 = chunk_bytes cs @ car_reader (advance k b)"
      unfolding fin(3) by blast
    with base fin(1,2) True show ?thesis unfolding reading_def by simp
  next
    case False
    have "length ?p + unat ?r \<le> 1048576" using len cs(3) by simp
    moreover have "?c = concat cs @ ?p" using cs(2) by simp
    ultimately have "\<exists>cs p. list_all chunk_ok cs \<and> ?c = concat cs @ p \<and>
        length p + unat ?r \<le> 1048576 \<and>
        s0 = chunk_bytes cs @ be_PutUint32 (of_nat (length p + unat ?r)) @ p @
          car_reader (advance k b)"
      using s0 cs(1) unfolding fin(3) by blast
    with base fin(1,2) False show ?thesis unfolding reading_def by simp
  qed
qed

text \<open>
  A read with a buffer shorter than 4 GiB keeps the invariant; a successful one extends the
  content, the end of the artifact is reached only at a matching declared size.
\<close>

lemma reading_Read:
  assumes r: "reading s0 content a" and n: "n < 2 ^ 32"
    and rd: "artifact_Read n a = (bs, e, a')" and e: "e = None \<or> e = Some ArtEOF"
  shows "reading s0 (content @ bs) a' \<and> (e = Some ArtEOF \<longrightarrow> car_finished a')"
proof (cases "n = 0 \<or> car_finished a")
  case True
  with rd r show ?thesis by (auto simp: artifact_Read_def split: if_splits)
next
  case False
  show ?thesis
  proof (cases "artifact_next_chunk a")
    case (Pair x b)
    show ?thesis
    proof (cases x)
      case None
      with Pair have nx: "artifact_next_chunk a = (None, b)" by simp
      note b = reading_next_chunk [OF r _ nx] next_chunk_reader [OF nx]
      have k: "read_length n b \<le> unat (car_chunkRemaining b)"
        using n by (auto simp: read_length_def word_less_nat_alt unat_of_nat_small)
      from rd False nx e have "e = None" "read_length n b \<le> length (car_reader b)"
        "bs = take (read_length n b) (car_reader b)" "a' = advance (read_length n b) b"
        by (auto simp: artifact_Read_def Let_def read_length_def advance_def split: if_splits)
      with reading_advance [OF _ _ _ k, of s0 content] b False show ?thesis by auto
    next
      case (Some y)
      with rd False Pair e have "y = ArtEOF" "bs = []" "a' = b" "e = Some ArtEOF"
        by (auto simp: artifact_Read_def)
      with reading_finish [OF r _, of b] False Pair Some show ?thesis by auto
    qed
  qed
qed

inductive reads :: "artifact_reader \<Rightarrow> bytes \<Rightarrow> artifact_reader \<Rightarrow> bool" where
  reads_done: "reads a [] a"
| reads_step: "\<lbrakk>artifact_Read n a = (bs, e, b); n < 2 ^ 32; e = None \<or> e = Some ArtEOF;
     reads b cs c\<rbrakk> \<Longrightarrow> reads a (bs @ cs) c"

lemma reading_reads: "reads a cs b \<Longrightarrow> reading s0 content a \<Longrightarrow> reading s0 (content @ cs) b"
proof (induction arbitrary: content rule: reads.induct)
  case (reads_step n a bs e b cs c)
  from reading_Read [OF reads_step.prems] reads_step have "reading s0 (content @ bs) b" by blast
  from reads_step.IH [OF this] show ?case by simp
qed simp

text \<open>
  Whoever reads a whole artifact, in pieces of any size below 4 GiB, has seen the contents of
  exactly the chunks on the stream, and the reader stands behind the artifact.
\<close>

lemma reads_whole:
  assumes "reads (fresh_artifact s) content a" and "car_finished a"
  obtains cs where "wf_chunks cs" and "content = concat cs" and "s = body_bytes cs @ car_reader a"
    and "unat (car_fileBytes a) = length content"
proof -
  from reading_reads [OF assms(1) reading_fresh] have "reading s content a" by simp
  with assms(2) obtain cs where cs: "list_all chunk_ok cs" "content = concat cs"
    "s = body_bytes cs @ car_reader a" "length content < 2 ^ 64"
    and fb: "car_fileBytes a = of_nat (length content)"
    by (auto simp: reading_def)
  moreover have "unat (car_fileBytes a) = length content"
    using cs(4) by (simp add: fb unat_of_nat_small)
  ultimately show thesis using that by (auto simp: wf_chunks_def)
qed

section \<open>Handlers\<close>

lemma readCanonicalArtifactName_Inr:
  "readCanonicalArtifactName s = Inr (name, t) \<longleftrightarrow> wf_name name \<and> s = len32 name @ name @ t"
proof
  assume "readCanonicalArtifactName s = Inr (name, t)"
  then show "wf_name name \<and> s = len32 name @ name @ t"
    by (auto simp: readCanonicalArtifactName_def ReadFull_Inr Let_def wf_name_def word_less_nat_alt
        unat_eq_zero len32_read split: if_splits)
next
  assume "wf_name name \<and> s = len32 name @ name @ t"
  then show "readCanonicalArtifactName s = Inr (name, t)"
    by (auto simp: readCanonicalArtifactName_def wf_name_def word_less_nat_alt Let_def
        simp flip: unat_eq_zero)
qed

fun sees_all ::
  "('h \<Rightarrow> string \<Rightarrow> bytes \<Rightarrow> 'h \<Rightarrow> bool) \<Rightarrow> 'h \<Rightarrow> artifact list \<Rightarrow> 'h \<Rightarrow> bool" where
  "sees_all sees h [] h' \<longleftrightarrow> h' = h"
| "sees_all sees h (f # fs) h' \<longleftrightarrow>
     (\<exists>k. sees h (fst f) (concat (snd f)) k \<and> sees_all sees k fs h')"

text \<open>
  The contract of \<^verbatim>\<open>CanonicalArtifactHandler\<close>: a handler that returns no error has only read
  from the artifact reader, and stopped on no error but \<^verbatim>\<open>io.EOF\<close>. \<open>sees\<close> says what it makes
  of a whole artifact.
\<close>

locale artifact_consumer =
  fixes handler :: "'h \<Rightarrow> string \<Rightarrow> artifact_reader \<Rightarrow> 'e option \<times> artifact_reader \<times> 'h"
    and sees :: "'h \<Rightarrow> string \<Rightarrow> bytes \<Rightarrow> 'h \<Rightarrow> bool"
  assumes only_reads: "handler h name a = (None, a', h') \<Longrightarrow> car_finished a' \<Longrightarrow>
      \<exists>content. reads a content a' \<and> sees h name content h'"
begin

lemma read_artifacts_sound:
  assumes "read_artifacts (Some handler) n prev src h s = Inr (tot, rest, h')"
  shows "\<exists>fs. length fs = n \<and> list_all (\<lambda>f. wf_name (fst f) \<and> wf_chunks (snd f)) fs \<and>
     sorted_wrt (<) (map fst fs) \<and> (prev \<noteq> [] \<longrightarrow> list_all (\<lambda>f. prev < fst f) fs) \<and>
     s = concat (map artifact_bytes fs) @ rest \<and>
     unat tot = unat src + artifacts_total fs \<and> sees_all sees h fs h'"
  using assms
proof (induction n arbitrary: prev src h s)
  case 0
  then show ?case by (auto simp: artifacts_total_def)
next
  case (Suc n)
  then obtain name t a k where nm: "readCanonicalArtifactName s = Inr (name, t)"
    and ord: "\<not> (prev \<noteq> [] \<and> name \<le> prev)"
    and hd: "handler h name (fresh_artifact t) = (None, a, k)" and fin: "car_finished a"
    and guard: "\<not> car_fileBytes a > (- 1) - src"
    and rec: "read_artifacts (Some handler) n name (src + car_fileBytes a) k (car_reader a)
      = Inr (tot, rest, h')"
    by (auto simp: consume_artifact_def split: if_splits prod.splits option.splits)
  from only_reads [OF hd fin] obtain content where rd: "reads (fresh_artifact t) content a"
    and sees: "sees h name content k" by blast
  from rd fin obtain cs where cs: "wf_chunks cs" "content = concat cs"
    "t = body_bytes cs @ car_reader a" and fb: "unat (car_fileBytes a) = length content"
    by (rule reads_whole)
  from Suc.IH [OF rec] obtain fs where fs: "length fs = n"
    "list_all (\<lambda>f. wf_name (fst f) \<and> wf_chunks (snd f)) fs" "sorted_wrt (<) (map fst fs)"
    "name \<noteq> [] \<longrightarrow> list_all (\<lambda>f. name < fst f) fs"
    "car_reader a = concat (map artifact_bytes fs) @ rest"
    "unat tot = unat (src + car_fileBytes a) + artifacts_total fs" "sees_all sees k fs h'" by blast
  from nm have wf: "wf_name name" and s: "s = len32 name @ name @ t"
    by (auto simp: readCanonicalArtifactName_Inr)
  have "list_all (\<lambda>f. prev < fst f) ((name, cs) # fs)" if "prev \<noteq> []"
    using that ord wf fs(4) by (auto simp: list_all_iff wf_name_def)
  moreover have "unat tot = unat src + artifacts_total ((name, cs) # fs)"
    using fs(6) fb cs(2) unat_add_guarded [OF guard] by (simp add: artifacts_total_def)
  ultimately show ?case
    using fs wf cs s sees
    by (intro exI [of _ "(name, cs) # fs"]) (auto simp: artifact_bytes_def [of "(name, cs)"] wf_name_def list_all_iff)
qed

end

section \<open>The drain\<close>

definition discard_handler :: "unit \<Rightarrow> string \<Rightarrow> artifact_reader \<Rightarrow> artifact_error option \<times> artifact_reader \<times> unit" where
  "discard_handler h name a = (case artifact_copy 8191 a [] of (e, _, a') \<Rightarrow> (e, a', h))"

lemma Read_EOF: "artifact_Read n a = (bs, Some ArtEOF, a') \<Longrightarrow> bs = [] \<and> car_finished a'"
  by (auto simp: artifact_Read_def artifact_next_chunk_def Let_def
      split: if_splits prod.splits option.splits sum.splits)

lemma artifact_copy_reads:
  "Suc k < 2 ^ 32 \<Longrightarrow> artifact_copy k a acc = (None, acc', a') \<Longrightarrow>
     car_finished a' \<and> (\<exists>cs. acc' = acc @ cs \<and> reads a cs a')"
proof (induction k a acc rule: artifact_copy.induct)
  case (1 k a acc)
  obtain bs e b where rd: "artifact_Read (Suc k) a = (bs, e, b)"
    by (cases "artifact_Read (Suc k) a") auto
  show ?case
  proof (cases e)
    case (Some x)
    with rd "1.prems" have x: "x = ArtEOF" and eq: "acc' = acc @ bs" "a' = b"
      by (auto simp: artifact_copy.simps [of k a acc] split: if_splits)
    from Read_EOF rd Some x have fin: "bs = []" "car_finished b" by auto
    with reads.reads_step [OF rd] "1.prems"(1) Some x reads.reads_done eq show ?thesis by fastforce
  next
    case None
    with rd "1.prems" have "artifact_copy k b (acc @ bs) = (None, acc', a')"
      by (simp add: artifact_copy.simps [of k a acc])
    from "1.IH" [OF rd [symmetric] refl None "1.prems"(1) this] obtain cs
      where "car_finished a'" "acc' = (acc @ bs) @ cs" "reads b cs a'" by auto
    moreover from this(3) have "reads a (bs @ cs) a'"
      using reads.reads_step [OF rd] "1.prems"(1) None by blast
    ultimately show ?thesis by auto
  qed
qed

interpretation drain: artifact_consumer discard_handler "\<lambda>h name content h'. h' = h"
  by unfold_locales
    (auto simp: discard_handler_def dest!: artifact_copy_reads [rotated] split: prod.splits)

abbreviation no_handler :: "(unit, artifact_error) artifact_handler option" where
  "no_handler \<equiv> None"

lemma read_artifacts_drain:
  "(read_artifacts no_handler n prev src h s = Inr x) =
     (read_artifacts (Some discard_handler) n prev src h s = Inr x)"
proof (induction n arbitrary: prev src h s)
  case (Suc n)
  have c: "(consume_artifact no_handler h name a = Inr (b, k)) =
      (consume_artifact (Some discard_handler) h name a = Inr (b, k))" for h name a b k
    using artifact_copy_reads [of 8191 a "[]"]
    by (auto simp: consume_artifact_def discard_handler_def split: prod.splits option.splits)
  show ?case
    using Suc c by (auto simp: readCanonicalArtifactName_Inr split: prod.splits if_splits)
qed simp

text \<open>The drain takes any well-formed artifact, whatever the size of its buffer.\<close>

abbreviation at_chunk :: "uint32 \<Rightarrow> uint64 \<Rightarrow> bytes \<Rightarrow> artifact_reader" where
  "at_chunk r n s \<equiv>
     \<lparr>car_chunkRemaining = r, car_fileBytes = n, car_finished = False, car_reader = s\<rparr>"

lemma copy_in_chunk:
  assumes "length q \<le> 1048576" and "Suc k < 2 ^ 32"
  shows "artifact_copy k (at_chunk (of_nat (length q)) n (q @ t)) acc =
    artifact_copy k (at_chunk 0 (n + of_nat (length q)) t) (acc @ q)"
  using assms(1)
proof (induction q arbitrary: n acc rule: length_induct)
  case (1 q)
  show ?case
  proof (cases "q = []")
    case False
    let ?a = "at_chunk (of_nat (length q)) n (q @ t)" and ?k = "min (Suc k) (length q)"
    have ul: "unat (of_nat (length q) :: uint32) = length q"
      using "1.prems" by (simp add: unat_of_nat_small)
    then have nz: "(of_nat (length q) :: uint32) \<noteq> 0" using False by (metis length_0_conv unat_0)
    then have nx: "artifact_next_chunk ?a = (None, ?a)" by (simp add: artifact_next_chunk_def)
    have us: "unat (of_nat (Suc k) :: uint32) = Suc k"
      using assms(2) by (intro unat_of_nat_small) simp
    have rl: "(if of_nat (Suc k) > (of_nat (length q) :: uint32) then length q else Suc k) = ?k"
      using us ul by (auto simp: word_less_nat_alt simp del: of_nat_Suc)
    have rd: "artifact_Read (Suc k) ?a =
        (take ?k q, None, at_chunk (of_nat (length (drop ?k q))) (n + of_nat ?k) (drop ?k q @ t))"
      using nx rl ul by (simp add: artifact_Read_def Let_def of_nat_diff min_def split: if_splits)
    have "length (drop ?k q) < length q" and "length (drop ?k q) \<le> 1048576"
      using False "1.prems" by auto
    with "1.IH" have "artifact_copy k (at_chunk (of_nat (length (drop ?k q))) (n + of_nat ?k)
        (drop ?k q @ t)) (acc @ take ?k q) =
      artifact_copy k (at_chunk 0 (n + of_nat ?k + of_nat (length (drop ?k q))) t)
        ((acc @ take ?k q) @ drop ?k q)" by blast
    moreover have "(of_nat ?k :: uint64) + of_nat (length (drop ?k q)) = of_nat (length q)"
      by (simp flip: of_nat_add)
    ultimately show ?thesis
      using rd by (simp add: artifact_copy.simps [of k ?a acc] add.assoc)
  qed simp
qed

lemma copy_next_chunk:
  assumes "chunk_ok c" and "unat n + length c < 2 ^ 64"
  shows "artifact_copy k (at_chunk 0 n (len32 c @ c @ t)) acc =
    artifact_copy k (at_chunk (of_nat (length c)) n (c @ t)) acc"
proof -
  let ?w = "of_nat (length c) :: uint32"
  have ul: "unat ?w = length c"
    using assms(1) by (intro unat_of_nat_small) (simp add: chunk_ok_def)
  then have nz: "?w \<noteq> 0" using assms(1) by (metis chunk_ok_def length_0_conv unat_0)
  have lim: "\<not> ?w > generationCanonicalChunkBytes"
    using assms(1) ul by (simp add: word_less_nat_alt chunk_ok_def)
  have guard: "\<not> (ucast ?w :: uint64) > (- 1) - n"
    using assms(2) ul by (simp add: add_guard)
  have "artifact_next_chunk (at_chunk 0 n (len32 c @ c @ t)) = (None, at_chunk ?w n (c @ t))"
    using nz lim guard by (simp add: artifact_next_chunk_def len32_def Let_def)
  moreover have "artifact_next_chunk (at_chunk ?w n (c @ t)) = (None, at_chunk ?w n (c @ t))"
    using nz by (simp add: artifact_next_chunk_def)
  ultimately have "artifact_Read (Suc k) (at_chunk 0 n (len32 c @ c @ t)) =
      artifact_Read (Suc k) (at_chunk ?w n (c @ t))"
    by (simp add: artifact_Read_def)
  then show ?thesis
    by (simp add: artifact_copy.simps [of k "at_chunk 0 n (len32 c @ c @ t)" acc]
        artifact_copy.simps [of k "at_chunk ?w n (c @ t)" acc])
qed

definition done_artifact :: "uint64 \<Rightarrow> bytes \<Rightarrow> artifact_reader" where
  "done_artifact n s =
     \<lparr>car_chunkRemaining = 0, car_fileBytes = n, car_finished = True, car_reader = s\<rparr>"

lemma copy_chunks:
  assumes "list_all chunk_ok cs" and "m + length (concat cs) < 2 ^ 64" and "Suc k < 2 ^ 32"
  shows "artifact_copy k (at_chunk 0 (of_nat m) (chunk_bytes cs @ be_PutUint32 0 @
      be_PutUint64 (of_nat (m + length (concat cs))) @ rest)) acc =
    (None, acc @ concat cs, done_artifact (of_nat (m + length (concat cs))) rest)"
  using assms(1,2)
proof (induction cs arbitrary: m acc)
  case Nil
  let ?a = "at_chunk 0 (of_nat m) (be_PutUint32 0 @ be_PutUint64 (of_nat m) @ rest)"
  have "artifact_next_chunk ?a = (Some ArtEOF, done_artifact (of_nat m) rest)"
    by (simp add: artifact_next_chunk_def Let_def done_artifact_def)
  then have "artifact_Read (Suc k) ?a = ([], Some ArtEOF, done_artifact (of_nat m) rest)"
    by (simp add: artifact_Read_def)
  then show ?case by (simp add: artifact_copy.simps [of k ?a acc])
next
  case (Cons c cs)
  let ?t = "chunk_bytes cs @ be_PutUint32 0 @ be_PutUint64 (of_nat (m + length (concat (c # cs)))) @ rest"
  have c: "chunk_ok c" and l: "m + length c + length (concat cs) < 2 ^ 64"
    and m: "unat (of_nat m :: uint64) = m"
    using Cons.prems by (simp_all add: unat_of_nat_small)
  have "artifact_copy k (at_chunk 0 (of_nat m) (len32 c @ c @ ?t)) acc =
      artifact_copy k (at_chunk (of_nat (length c)) (of_nat m) (c @ ?t)) acc"
    using c l m by (intro copy_next_chunk) simp_all
  also have "\<dots> = artifact_copy k (at_chunk 0 (of_nat m + of_nat (length c)) ?t) (acc @ c)"
    using c assms(3) by (intro copy_in_chunk) (simp_all add: chunk_ok_def)
  also have "\<dots> = (None, (acc @ c) @ concat cs, done_artifact (of_nat (m + length c + length (concat cs))) rest)"
    using Cons.IH [of "m + length c" "acc @ c"] Cons.prems l by (simp add: add.assoc)
  finally show ?case by (simp add: add.assoc)
qed

lemma copy_body:
  assumes "wf_chunks cs" and "Suc k < 2 ^ 32"
  shows "artifact_copy k (fresh_artifact (body_bytes cs @ rest)) [] =
    (None, concat cs, done_artifact (of_nat (length (concat cs))) rest)"
  using copy_chunks [of cs 0 k rest "[]"] assms
  by (simp add: wf_chunks_def body_bytes_def fresh_artifact_def)

section \<open>Exactly the canonical streams\<close>

definition wf_artifacts :: "artifact list \<Rightarrow> bool" where
  "wf_artifacts fs \<longleftrightarrow>
     list_all (\<lambda>f. wf_name (fst f) \<and> wf_chunks (snd f)) fs \<and> sorted_wrt (<) (map fst fs) \<and>
     artifacts_total fs < 2 ^ 64"

definition canonical_bytes :: "artifact list \<Rightarrow> bytes" where
  "canonical_bytes fs =
     generationCanonicalMagic @ be_PutUint64 (of_nat (length fs)) @ concat (map artifact_bytes fs)"

lemma consume_drain:
  assumes "wf_chunks cs"
  shows "consume_artifact no_handler h name (fresh_artifact (body_bytes cs @ t)) =
    Inr (done_artifact (of_nat (length (concat cs))) t, h)"
  using copy_body [OF assms, of 8191 t] by (simp add: consume_artifact_def)

lemma read_artifacts_complete:
  assumes "list_all (\<lambda>f. wf_name (fst f) \<and> wf_chunks (snd f)) fs"
    and "sorted_wrt (<) (map fst fs)" and "prev \<noteq> [] \<longrightarrow> list_all (\<lambda>f. prev < fst f) fs"
    and "unat src + artifacts_total fs < 2 ^ 64"
  shows "read_artifacts no_handler (length fs) prev src h (concat (map artifact_bytes fs) @ rest) =
    Inr (src + of_nat (artifacts_total fs), rest, h)"
  using assms
proof (induction fs arbitrary: prev src)
  case Nil
  then show ?case by (simp add: artifacts_total_def)
next
  case (Cons f fs)
  obtain name cs where f: "f = (name, cs)" by (cases f)
  let ?n = "length (concat cs)" and ?t = "concat (map artifact_bytes fs) @ rest"
  have wf: "wf_name name" "wf_chunks cs" using Cons.prems f by simp_all
  have tot: "artifacts_total (f # fs) = ?n + artifacts_total fs"
    by (simp add: artifacts_total_def f)
  have n: "unat (of_nat ?n :: uint64) = ?n" using wf(2) by (simp add: wf_chunks_def unat_of_nat_small)
  have name: "readCanonicalArtifactName (concat (map artifact_bytes (f # fs)) @ rest) =
      Inr (name, body_bytes cs @ ?t)"
    using wf(1) by (simp add: readCanonicalArtifactName_Inr artifact_bytes_def f)
  have ord: "\<not> (prev \<noteq> [] \<and> name \<le> prev)" using Cons.prems(3) f by auto
  have guard: "\<not> (of_nat ?n :: uint64) > (- 1) - src"
    using Cons.prems(4) tot n by (simp add: add_guard)
  have "unat (src + of_nat ?n) = unat src + ?n" using unat_add_guarded [OF guard] n by simp
  then have "read_artifacts no_handler (length fs) name (src + of_nat ?n) h ?t =
      Inr (src + of_nat ?n + of_nat (artifacts_total fs), rest, h)"
    using Cons.prems f tot by (intro Cons.IH) (auto simp: list_all_iff)
  then show ?case
    using ord guard by (simp add: name [simplified] consume_drain [OF wf(2)] done_artifact_def tot
        add.assoc del: map_append)
qed

lemma canonical_header:
  assumes "ReadCanonicalArtifacts handler h s d = Inr x"
  obtains t where "gen_Validate d = None" and "unat (gd_ArtifactCount d) \<le> 1000000"
    and "s = generationCanonicalMagic @ be_PutUint64 (gd_ArtifactCount d) @ t"
    and "read_artifacts handler (unat (gd_ArtifactCount d)) [] 0 h t = Inr x"
proof -
  from assms obtain b t where b: "length b = 8" "be_Uint64 b = gd_ArtifactCount d"
    and r: "gen_Validate d = None" "\<not> gd_ArtifactCount d > maxReceiveArtifactCount"
      "s = generationCanonicalMagic @ b @ t"
      "read_artifacts handler (unat (gd_ArtifactCount d)) [] 0 h t = Inr x"
    by (auto simp: ReadCanonicalArtifacts_def ReadFull_Inr Let_def split: if_splits)
  from b have "b = be_PutUint64 (gd_ArtifactCount d)" using uint_get_put(2) by metis
  with r that show thesis by (simp add: word_less_nat_alt)
qed

lemma canonical_start:
  assumes "gen_Validate d = None" and "unat (gd_ArtifactCount d) \<le> 1000000"
  shows "ReadCanonicalArtifacts handler h
      (generationCanonicalMagic @ be_PutUint64 (gd_ArtifactCount d) @ t) d =
    read_artifacts handler (unat (gd_ArtifactCount d)) [] 0 h t"
proof -
  from assms(1) have "gd_ArtifactCount d \<noteq> 0" by (simp add: gen_Validate_None)
  with assms show ?thesis
    by (simp add: ReadCanonicalArtifacts_def word_less_nat_alt Let_def not_less)
qed

context artifact_consumer
begin

lemma ReadCanonicalArtifacts_sound:
  assumes "ReadCanonicalArtifacts (Some handler) h s d = Inr (tot, rest, h')"
  shows "\<exists>fs. wf_artifacts fs \<and> length fs = unat (gd_ArtifactCount d) \<and>
    s = canonical_bytes fs @ rest \<and> unat tot = artifacts_total fs \<and> sees_all sees h fs h'"
proof -
  obtain t where s: "s = generationCanonicalMagic @ be_PutUint64 (gd_ArtifactCount d) @ t"
    and r: "read_artifacts (Some handler) (unat (gd_ArtifactCount d)) [] 0 h t = Inr (tot, rest, h')"
    by (rule canonical_header [OF assms])
  from read_artifacts_sound [OF r] obtain fs where fs: "length fs = unat (gd_ArtifactCount d)"
    "list_all (\<lambda>f. wf_name (fst f) \<and> wf_chunks (snd f)) fs" "sorted_wrt (<) (map fst fs)"
    "t = concat (map artifact_bytes fs) @ rest" "unat tot = artifacts_total fs"
    "sees_all sees h fs h'" by auto
  have "(of_nat (length fs) :: uint64) = gd_ArtifactCount d" using fs(1) by simp
  moreover have "artifacts_total fs < 2 ^ 64" using fs(5) unat_lt_2p [of tot] by simp
  ultimately show ?thesis
    using fs s by (intro exI [of _ fs]) (simp add: wf_artifacts_def canonical_bytes_def)
qed

end

lemma canonical_reader_iff:
  "(ReadCanonicalArtifacts no_handler () s d = Inr (n, rest, ())) \<longleftrightarrow>
     gen_Validate d = None \<and> unat (gd_ArtifactCount d) \<le> 1000000 \<and>
     (\<exists>fs. wf_artifacts fs \<and> length fs = unat (gd_ArtifactCount d) \<and>
        s = canonical_bytes fs @ rest \<and> unat n = artifacts_total fs)"
proof
  assume r: "ReadCanonicalArtifacts no_handler () s d = Inr (n, rest, ())"
  obtain t where v: "gen_Validate d = None" "unat (gd_ArtifactCount d) \<le> 1000000"
    and s: "s = generationCanonicalMagic @ be_PutUint64 (gd_ArtifactCount d) @ t"
    and t: "read_artifacts no_handler (unat (gd_ArtifactCount d)) [] 0 () t = Inr (n, rest, ())"
    by (rule canonical_header [OF r])
  from t have "read_artifacts (Some discard_handler) (unat (gd_ArtifactCount d)) [] 0 () t
      = Inr (n, rest, ())"
    by (simp add: read_artifacts_drain)
  with v s have "ReadCanonicalArtifacts (Some discard_handler) () s d = Inr (n, rest, ())"
    by (simp add: canonical_start)
  from drain.ReadCanonicalArtifacts_sound [OF this] v show "gen_Validate d = None \<and>
     unat (gd_ArtifactCount d) \<le> 1000000 \<and>
     (\<exists>fs. wf_artifacts fs \<and> length fs = unat (gd_ArtifactCount d) \<and>
        s = canonical_bytes fs @ rest \<and> unat n = artifacts_total fs)" by blast
next
  assume a: "gen_Validate d = None \<and> unat (gd_ArtifactCount d) \<le> 1000000 \<and>
     (\<exists>fs. wf_artifacts fs \<and> length fs = unat (gd_ArtifactCount d) \<and>
        s = canonical_bytes fs @ rest \<and> unat n = artifacts_total fs)"
  then obtain fs where fs: "wf_artifacts fs" "length fs = unat (gd_ArtifactCount d)"
    "s = canonical_bytes fs @ rest" "unat n = artifacts_total fs" by blast
  have "n = of_nat (artifacts_total fs)" by (simp flip: fs(4))
  moreover have "(of_nat (length fs) :: uint64) = gd_ArtifactCount d" using fs(2) by simp
  ultimately show "ReadCanonicalArtifacts no_handler () s d = Inr (n, rest, ())"
    using a fs read_artifacts_complete [of fs "[]" 0 "()" rest]
    by (simp add: canonical_bytes_def canonical_start wf_artifacts_def)
qed

text \<open>
  C19: With no handler, \<^verbatim>\<open>ReadCanonicalArtifacts\<close> succeeds exactly on canonical streams: the
  magic, the signed artifact count, and that many artifacts with legal names in strictly
  increasing order, chunks of 1 byte to 1 MiB and true declared sizes. The count it returns
  is the sum of the artifact sizes with no wrap-around, and it stops right behind the last
  artifact.
\<close>

theorem canonical_reader_exact:
  "(ReadCanonicalArtifacts no_handler () s d = Inr (n, rest, ())) \<longleftrightarrow>
     gen_Validate d = None \<and> unat (gd_ArtifactCount d) \<le> 1000000 \<and>
     (\<exists>fs. wf_artifacts fs \<and> length fs = unat (gd_ArtifactCount d) \<and>
        s = canonical_bytes fs @ rest \<and> unat n = artifacts_total fs)"
  by (rule canonical_reader_iff)

text \<open>
  C36: A handler that keeps its contract (it only reads, and returns no error only if no read
  gave one) sees what is on the stream and nothing else: if the whole read succeeds, the
  stream is a canonical one, and the handler was given every artifact of it, in order, with
  its exact contents, whatever sizes it read in.
\<close>

theorem canonical_handler_sees_stream:
  assumes "artifact_consumer handler sees"
    and "ReadCanonicalArtifacts (Some handler) h s d = Inr (n, rest, h')"
  shows "\<exists>fs. wf_artifacts fs \<and> length fs = unat (gd_ArtifactCount d) \<and>
    s = canonical_bytes fs @ rest \<and> unat n = artifacts_total fs \<and> sees_all sees h fs h'"
  by (rule artifact_consumer.ReadCanonicalArtifacts_sound [OF assms])

section \<open>A sample stream\<close>

definition sample_files :: "artifact list" where
  "sample_files = [(''a'', [''abc'', ''de'']), (''b'', [''hello''])]"

lemma sample_files_wf: "wf_artifacts sample_files"
  by (simp add: wf_artifacts_def sample_files_def wf_name_def wf_chunks_def chunk_ok_def
      canonical_name_ok_def ContainsAny_def artifacts_total_def)

theorem canonical_handler_sees_stream_witness:
  "\<exists>fs n. ReadCanonicalArtifacts (Some discard_handler) () (canonical_bytes sample_files @ ''x'')
      sample_generation = Inr (n, ''x'', ()) \<and>
     canonical_bytes sample_files @ ''x'' = canonical_bytes fs @ ''x'' \<and> unat n = artifacts_total fs"
proof -
  have c: "unat (gd_ArtifactCount sample_generation) = 2" by (simp add: sample_generation_def)
  have "ReadCanonicalArtifacts no_handler () (canonical_bytes sample_files @ ''x'') sample_generation =
      Inr (10, ''x'', ())"
    unfolding canonical_reader_iff
    using sample_files_wf sample_generation_valid c
    by (auto intro!: exI [of _ sample_files] simp: sample_files_def artifacts_total_def)
  then have "ReadCanonicalArtifacts (Some discard_handler) () (canonical_bytes sample_files @ ''x'')
      sample_generation = Inr (10, ''x'', ())"
    using sample_generation_valid c
    by (auto elim!: canonical_header simp: canonical_start read_artifacts_drain)
  with canonical_handler_sees_stream [OF drain.artifact_consumer_axioms this] show ?thesis by blast
qed

end
