(* ===== verification/Gen_Sealer.thy ===== *)
theory Gen_Sealer
  imports Gen_Canonical
begin

text \<open>
  Package \<^verbatim>\<open>generationsealer\<close> (\<^verbatim>\<open>sealer.go\<close>) and \<^verbatim>\<open>transportgeneration/sealer.go\<close>: a frozen
  directory becomes one canonical stream, compressed into the sealed payload, and the facts
  of the seal become the generation descriptor.

  The operating system and the zstd encoder are the parameters in \<open>seal_env\<close>: \<open>se_ok\<close> says
  of each call that can fail whether it succeeded. The read limiter only delays, apart from
  the errors that \<open>se_ok (OpWait ..)\<close> stands for. A failed seal publishes nothing, so its
  result is the error alone.
\<close>

section \<open>The environment\<close>

datatype entry_kind = RegularEntry | SymlinkEntry | DirectoryEntry | OtherEntry

datatype lstat_result = LstatNotExist | LstatError | LstatKind entry_kind

datatype seal_op =
    OpCreateTemp
  | OpContext string
  | OpOpen string
  | OpRead string
  | OpWait string
  | OpCloseFile string
  | OpEncoderClose
  | OpSync
  | OpClose
  | OpRename

record frozen_entry =
  fe_Name :: string
  fe_Kind :: entry_kind
  fe_Data :: bytes

record seal_env =
  se_IsAbs :: "string \<Rightarrow> bool"
  se_Base :: "string \<Rightarrow> string"
  se_Join :: "string \<Rightarrow> string \<Rightarrow> string"
  se_Lstat :: "string \<Rightarrow> lstat_result"
  se_MkdirAll :: "string \<Rightarrow> bool"
  se_ReadDir :: "string \<Rightarrow> frozen_entry list option"
  se_ok :: "seal_op \<Rightarrow> bool"
  se_Encode :: "bytes \<Rightarrow> bytes"

record seal_config =
  sc_FrozenDir :: string
  sc_GenerationID :: string
  sc_SealedDir :: string

record seal_result =
  sr_CanonicalBytes :: uint64
  sr_CanonicalSHA256 :: string
  sr_EncodedBytes :: uint64
  sr_EncodedSHA256 :: string
  sr_FileCount :: uint64
  sr_GenerationID :: string
  sr_SealedPath :: string
  sr_SourceBytes :: uint64

datatype seal_error =
    SealBadGenerationID
  | SealFrozenNotAbsolute
  | SealSealedNotAbsolute
  | SealInspectFrozen
  | SealFrozenNotDirectory
  | SealMkdir
  | SealInspectSealed
  | SealSealedNotDirectory
  | SealReadDir
  | SealInvalidName string
  | SealSymlink string
  | SealNestedDirectory string
  | SealUnsupported string
  | SealNoArtifacts
  | SealAlreadyExists
  | SealInspectFinal
  | SealOp seal_op
  | SealNameTooLong
  | SealEmptyChunk
  | SealCounterOverflow
  | SealZeroEncoded

section \<open>Validation\<close>

definition sealer_canonicalMagic :: bytes where
  "sealer_canonicalMagic = ''FI-GENERATION-CANONICAL-V1'' @ [CHR 0x00]"

definition sealer_CanonicalVersion :: string where
  "sealer_CanonicalVersion = ''fi-generation-canonical/0.1''"

definition canonicalChunkBytes :: nat where
  "canonicalChunkBytes = 1024 * 1024"

definition sealedExtension :: string where
  "sealedExtension = ''.figz''"

definition prohibited :: string where
  "prohibited = [CHR ''/'', CHR 0x5C, CHR 0x00, CHR 0x0D, CHR 0x0A]"

definition is_real_directory :: "lstat_result \<Rightarrow> bool" where
  "is_real_directory r \<longleftrightarrow> r = LstatKind DirectoryEntry"

definition seal_validateConfig :: "seal_env \<Rightarrow> seal_config \<Rightarrow> seal_error option" where
  "seal_validateConfig E c =
     first_err
       [fail_if (TrimSpace (sc_GenerationID c) = [] \<or> \<not> utf8_Valid (sc_GenerationID c) \<or>
                 ContainsAny (sc_GenerationID c) prohibited) SealBadGenerationID,
        fail_if (sc_FrozenDir c = [] \<or> \<not> se_IsAbs E (sc_FrozenDir c)) SealFrozenNotAbsolute,
        fail_if (sc_SealedDir c = [] \<or> \<not> se_IsAbs E (sc_SealedDir c)) SealSealedNotAbsolute,
        fail_if (se_Lstat E (sc_FrozenDir c) \<in> {LstatNotExist, LstatError}) SealInspectFrozen,
        fail_if (\<not> is_real_directory (se_Lstat E (sc_FrozenDir c))) SealFrozenNotDirectory,
        fail_if (\<not> se_MkdirAll E (sc_SealedDir c)) SealMkdir,
        fail_if (se_Lstat E (sc_SealedDir c) \<in> {LstatNotExist, LstatError}) SealInspectSealed,
        fail_if (\<not> is_real_directory (se_Lstat E (sc_SealedDir c))) SealSealedNotDirectory]"

definition validEntryName :: "seal_env \<Rightarrow> string \<Rightarrow> bool" where
  "validEntryName E name \<longleftrightarrow>
     name \<noteq> [] \<and> utf8_Valid name \<and> se_Base E name = name \<and> \<not> ContainsAny name prohibited"

definition entry_check :: "seal_env \<Rightarrow> frozen_entry \<Rightarrow> seal_error option" where
  "entry_check E e =
     first_err
       [fail_if (\<not> validEntryName E (fe_Name e)) (SealInvalidName (fe_Name e)),
        fail_if (fe_Kind e = SymlinkEntry) (SealSymlink (fe_Name e)),
        fail_if (fe_Kind e = DirectoryEntry) (SealNestedDirectory (fe_Name e)),
        fail_if (fe_Kind e = OtherEntry) (SealUnsupported (fe_Name e))]"

section \<open>The canonical writer\<close>

text \<open>Each function gives the bytes it writes to the \<^verbatim>\<open>MultiWriter\<close>.\<close>

definition writeCanonicalHeader :: "uint64 \<Rightarrow> bytes" where
  "writeCanonicalHeader fileCount = sealer_canonicalMagic @ be_PutUint64 fileCount"

definition writeCanonicalFileStart :: "string \<Rightarrow> seal_error + bytes" where
  "writeCanonicalFileStart name =
     (if length name > 2 ^ 32 - 1 then Inl SealNameTooLong
      else Inr (be_PutUint32 (of_nat (length name)) @ name))"

definition writeCanonicalChunk :: "bytes \<Rightarrow> seal_error + bytes" where
  "writeCanonicalChunk v =
     (if v = [] then Inl SealEmptyChunk else Inr (be_PutUint32 (of_nat (length v)) @ v))"

definition writeCanonicalFileEnd :: "uint64 \<Rightarrow> bytes" where
  "writeCanonicalFileEnd fileBytes = be_PutUint32 0 @ be_PutUint64 fileBytes"

text \<open>
  The loop over one file: \<^verbatim>\<open>io.ReadFull\<close> into a 1 MiB buffer, a chunk for what was read, until
  the read is short. It returns the bytes written and the running counters \<^verbatim>\<open>fileBytes\<close> and
  \<^verbatim>\<open>sourceBytes\<close>.
\<close>

function seal_chunks :: "bytes \<Rightarrow> uint64 \<Rightarrow> uint64 \<Rightarrow> seal_error + bytes \<times> uint64 \<times> uint64" where
  "seal_chunks s fileBytes sourceBytes =
     (let v = take canonicalChunkBytes s; n = of_nat (length v) in
      if v = [] then Inr ([], fileBytes, sourceBytes)
      else bindE (writeCanonicalChunk v) (\<lambda>out.
        if length v < canonicalChunkBytes then Inr (out, fileBytes + n, sourceBytes + n)
        else bindE (seal_chunks (drop canonicalChunkBytes s) (fileBytes + n) (sourceBytes + n))
               (\<lambda>(rest, f, t). Inr (out @ rest, f, t))))"
  by pat_completeness auto
termination
  by (relation "measure (\<lambda>(s, _). length s)") (auto simp: canonicalChunkBytes_def)

declare seal_chunks.simps [simp del]

definition op_check :: "seal_env \<Rightarrow> seal_op \<Rightarrow> seal_error + unit" where
  "op_check E op = check (fail_if (\<not> se_ok E op) (SealOp op))"

definition seal_file ::
  "seal_env \<Rightarrow> string \<Rightarrow> bytes \<Rightarrow> uint64 \<Rightarrow> seal_error + bytes \<times> uint64" where
  "seal_file E name content sourceBytes =
     bindE (op_check E (OpContext name)) (\<lambda>_.
     bindE (writeCanonicalFileStart name) (\<lambda>start.
     bindE (op_check E (OpOpen name)) (\<lambda>_.
     bindE (op_check E (OpRead name)) (\<lambda>_.
     bindE (op_check E (OpWait name)) (\<lambda>_.
     bindE (seal_chunks content 0 sourceBytes) (\<lambda>(chunks, fileBytes, sourceBytes).
     bindE (op_check E (OpCloseFile name)) (\<lambda>_.
     Inr (start @ chunks @ writeCanonicalFileEnd fileBytes, sourceBytes))))))))"

fun seal_files ::
  "seal_env \<Rightarrow> (string \<times> bytes) list \<Rightarrow> uint64 \<Rightarrow> seal_error + bytes \<times> uint64" where
  "seal_files E [] sourceBytes = Inr ([], sourceBytes)"
| "seal_files E ((name, content) # fs) sourceBytes =
     bindE (seal_file E name content sourceBytes) (\<lambda>(out, sourceBytes).
     bindE (seal_files E fs sourceBytes) (\<lambda>(rest, sourceBytes).
     Inr (out @ rest, sourceBytes)))"

text \<open>
  \<^verbatim>\<open>names\<close> after \<^verbatim>\<open>sort.Strings\<close>, each with the contents that \<^verbatim>\<open>os.Open\<close> of it delivers.
\<close>

definition sorted_files :: "frozen_entry list \<Rightarrow> (string \<times> bytes) list" where
  "sorted_files es =
     map (\<lambda>name. (name, the (map_of (map (\<lambda>e. (fe_Name e, fe_Data e)) es) name)))
       (sort (map fe_Name es))"

text \<open>
  \<^verbatim>\<open>countWriter.Write\<close> refuses to wrap, so a stream of \<open>2 ^ 64\<close> bytes or more is an error.
\<close>

definition count_all :: "bytes \<Rightarrow> seal_error + uint64" where
  "count_all bs = (if length bs \<ge> 2 ^ 64 then Inl SealCounterOverflow else Inr (of_nat (length bs)))"

definition seal_publish ::
  "seal_env \<Rightarrow> seal_config \<Rightarrow> (string \<times> bytes) list \<Rightarrow> string
     \<Rightarrow> seal_error + seal_result \<times> bytes" where
  "seal_publish E c files finalPath =
     bindE (op_check E OpCreateTemp) (\<lambda>_.
     bindE (seal_files E files 0) (\<lambda>(body, sourceBytes).
     let canonical = writeCanonicalHeader (of_nat (length files)) @ body;
         encoded = se_Encode E canonical in
     bindE (count_all canonical) (\<lambda>canonicalBytes.
     bindE (count_all encoded) (\<lambda>encodedBytes.
     bindE (op_check E OpEncoderClose) (\<lambda>_.
     if encodedBytes = 0 then Inl SealZeroEncoded
     else bindE (op_check E OpSync) (\<lambda>_.
     bindE (op_check E OpClose) (\<lambda>_.
     bindE (op_check E OpRename) (\<lambda>_.
     Inr (\<lparr>sr_CanonicalBytes = canonicalBytes,
           sr_CanonicalSHA256 = hex_EncodeToString (Sum256 canonical),
           sr_EncodedBytes = encodedBytes,
           sr_EncodedSHA256 = hex_EncodeToString (Sum256 encoded),
           sr_FileCount = of_nat (length files), sr_GenerationID = sc_GenerationID c,
           sr_SealedPath = finalPath, sr_SourceBytes = sourceBytes\<rparr>, encoded)))))))))"

definition Seal :: "seal_env \<Rightarrow> seal_config \<Rightarrow> seal_error + seal_result \<times> bytes" where
  "Seal E c =
     bindE (check (seal_validateConfig E c)) (\<lambda>_.
     case se_ReadDir E (sc_FrozenDir c) of None \<Rightarrow> Inl SealReadDir
     | Some entries \<Rightarrow>
     bindE (check (first_err (map (entry_check E) entries))) (\<lambda>_.
     if entries = [] then Inl SealNoArtifacts
     else let finalPath = se_Join E (sc_SealedDir c)
                (''generation-'' @ sc_GenerationID c @ sealedExtension) in
     (case se_Lstat E finalPath of
        LstatKind _ \<Rightarrow> Inl SealAlreadyExists
      | LstatError \<Rightarrow> Inl SealInspectFinal
      | LstatNotExist \<Rightarrow> seal_publish E c (sorted_files entries) finalPath)))"

datatype from_seal_error = FromSealVersion | FromSealPathRequired | FromSealDescriptor generation_error

definition DescriptorFromSeal ::
  "string \<Rightarrow> seal_result \<Rightarrow> from_seal_error + generation_descriptor" where
  "DescriptorFromSeal sourceID r =
     (if sealer_CanonicalVersion \<noteq> CanonicalVersion then Inl FromSealVersion
      else if sr_SealedPath r = [] then Inl FromSealPathRequired
      else let d = \<lparr>gd_Version = gen_DescriptorVersion, gd_SourceID = sourceID,
                    gd_GenerationID = sr_GenerationID r,
                    gd_CanonicalVersion = sealer_CanonicalVersion,
                    gd_DataEncoding = DataEncodingZstd, gd_ArtifactCount = sr_FileCount r,
                    gd_SourceBytes = sr_SourceBytes r, gd_CanonicalBytes = sr_CanonicalBytes r,
                    gd_CanonicalSHA256 = sr_CanonicalSHA256 r,
                    gd_EncodedDataBytes = sr_EncodedBytes r,
                    gd_EncodedDataSHA256 = sr_EncodedSHA256 r\<rparr>
      in bindE (check (map_option FromSealDescriptor (gen_Validate d))) (\<lambda>_. Inr d))"

section \<open>The writer produces the format of the reader\<close>

fun file_chunks :: "bytes \<Rightarrow> bytes list" where
  "file_chunks s = (if s = [] then [] else take 1048576 s # file_chunks (drop 1048576 s))"

declare file_chunks.simps [simp del]

lemma file_chunks_ok: "list_all chunk_ok (file_chunks s)"
proof (induction s rule: file_chunks.induct)
  case (1 s)
  have "chunk_ok (take 1048576 s)" if "s \<noteq> []" using that by (simp add: chunk_ok_def)
  with 1 show ?case by (simp add: file_chunks.simps [of s])
qed

lemma concat_file_chunks: "concat (file_chunks s) = s"
  by (induction s rule: file_chunks.induct) (subst file_chunks.simps, simp)

lemma seal_chunks_eq:
  "seal_chunks s f t =
     Inr (chunk_bytes (file_chunks s), f + of_nat (length s), t + of_nat (length s))"
proof (induction s f t rule: seal_chunks.induct)
  case (1 s f t)
  show ?case
  proof (cases "s = []")
    case True
    then show ?thesis by (simp add: seal_chunks.simps [of "[]"] file_chunks.simps [of "[]"])
  next
    case False
    note fc = file_chunks.simps [of s]
    show ?thesis
    proof (cases "length s < 1048576")
      case True
      then show ?thesis
        using False by (simp add: seal_chunks.simps [of s] fc file_chunks.simps [of "[]"] Let_def
            canonicalChunkBytes_def writeCanonicalChunk_def len32_def)
    next
      case ge: False
      let ?v = "take 1048576 s"
      have "seal_chunks (drop 1048576 s) (f + of_nat (length ?v)) (t + of_nat (length ?v)) =
          Inr (chunk_bytes (file_chunks (drop 1048576 s)),
            f + of_nat (length ?v) + of_nat (length (drop 1048576 s)),
            t + of_nat (length ?v) + of_nat (length (drop 1048576 s)))"
        using "1.IH" [OF refl refl] False ge
        by (simp add: canonicalChunkBytes_def writeCanonicalChunk_def)
      moreover have "(of_nat (length ?v) :: uint64) + of_nat (length (drop 1048576 s)) = of_nat (length s)"
        using ge by (simp flip: of_nat_add)
      ultimately show ?thesis
        using False ge by (simp add: seal_chunks.simps [of s] fc Let_def canonicalChunkBytes_def
            writeCanonicalChunk_def len32_def add.assoc)
    qed
  qed
qed

definition sealed_artifacts :: "(string \<times> bytes) list \<Rightarrow> artifact list" where
  "sealed_artifacts fs = map (\<lambda>(name, content). (name, file_chunks content)) fs"

lemma op_check_Inr [simp]: "op_check E op = Inr u \<longleftrightarrow> se_ok E op"
  by (simp add: op_check_def)

lemma seal_file_Inr:
  assumes "seal_file E name content t = Inr (out, t')"
  shows "out = artifact_bytes (name, file_chunks content) \<and> t' = t + of_nat (length content) \<and>
    length name < 2 ^ 32"
  using assms
  by (auto simp: seal_file_def seal_chunks_eq writeCanonicalFileStart_def writeCanonicalFileEnd_def
      artifact_bytes_def body_bytes_def concat_file_chunks len32_def split: if_splits)

lemma seal_files_Inr:
  assumes "seal_files E fs t = Inr (out, t')"
  shows "out = concat (map artifact_bytes (sealed_artifacts fs)) \<and>
    t' = t + of_nat (artifacts_total (sealed_artifacts fs))"
  using assms
proof (induction fs arbitrary: t out)
  case Nil
  then show ?case by (simp add: sealed_artifacts_def artifacts_total_def)
next
  case (Cons f fs)
  obtain name content where f: "f = (name, content)" by (cases f)
  with Cons.prems obtain o1 t1 o2 where a: "seal_file E name content t = Inr (o1, t1)"
    and b: "seal_files E fs t1 = Inr (o2, t')" and out: "out = o1 @ o2" by auto
  from seal_file_Inr [OF a] Cons.IH [OF b] out f show ?case
    by (simp add: sealed_artifacts_def artifacts_total_def concat_file_chunks add.assoc)
qed

lemma length_artifact_bytes: "length (concat (snd f)) \<le> length (artifact_bytes f)"
proof -
  have "length (concat cs) \<le> length (chunk_bytes cs)" for cs :: "bytes list"
    by (induction cs) auto
  from this [of "snd f"] show ?thesis by (simp add: artifact_bytes_def body_bytes_def)
qed

lemma artifacts_total_le: "artifacts_total fs \<le> length (canonical_bytes fs)"
proof -
  have "artifacts_total fs \<le> length (concat (map artifact_bytes fs))"
    unfolding artifacts_total_def
    by (induction fs) (auto intro: add_mono length_artifact_bytes)
  then show ?thesis by (simp add: canonical_bytes_def)
qed

lemma artifact_le_total: "f \<in> set fs \<Longrightarrow> length (concat (snd f)) \<le> artifacts_total fs"
  unfolding artifacts_total_def by (intro member_le_sum_list) auto

lemma sealed_artifacts_wf:
  assumes dist: "distinct (map fe_Name es)"
    and valid: "list_all (\<lambda>e. validEntryName E (fe_Name e) \<and> length (fe_Name e) \<le> 4096) es"
    and len: "length (canonical_bytes (sealed_artifacts (sorted_files es))) < 2 ^ 64"
  shows "wf_artifacts (sealed_artifacts (sorted_files es))"
proof -
  let ?fs = "sealed_artifacts (sorted_files es)"
  have names: "map fst ?fs = sort (map fe_Name es)"
    by (simp add: sealed_artifacts_def sorted_files_def comp_def)
  have tot: "artifacts_total ?fs < 2 ^ 64" using artifacts_total_le [of ?fs] len by linarith
  have "wf_name (fst f) \<and> wf_chunks (snd f)" if f: "f \<in> set ?fs" for f
  proof -
    from f have "fst f \<in> set (map fst ?fs)" by simp
    then have "fst f \<in> fe_Name ` set es" by (simp add: names)
    with valid have "wf_name (fst f)"
      by (auto simp: list_all_iff wf_name_def validEntryName_def canonical_name_ok_def prohibited_def)
    moreover from f have "list_all chunk_ok (snd f)"
      by (auto simp: sealed_artifacts_def file_chunks_ok)
    ultimately show ?thesis
      using artifact_le_total [OF f] tot by (simp add: wf_chunks_def)
  qed
  moreover have "sorted_wrt (<) (map fst ?fs)"
    unfolding names using dist by (simp add: strict_sorted_iff)
  ultimately show ?thesis using tot by (simp add: wf_artifacts_def list_all_iff)
qed

lemma entry_lookup:
  assumes "distinct (map fe_Name es)" and "e \<in> set es"
  shows "map_of (map (\<lambda>e. (fe_Name e, fe_Data e)) es) (fe_Name e) = Some (fe_Data e)"
  using assms by (intro map_of_is_SomeI) (auto simp: comp_def)

lemma sorted_files_mem:
  assumes "distinct (map fe_Name es)"
  shows "(name, content) \<in> set (sorted_files es) \<longleftrightarrow>
    (\<exists>e\<in>set es. name = fe_Name e \<and> content = fe_Data e)"
  using entry_lookup [OF assms] by (fastforce simp: sorted_files_def image_iff)

lemma Seal_Inr:
  assumes "Seal E c = Inr (r, payload)" and "se_ReadDir E (sc_FrozenDir c) = Some es"
  defines "cs \<equiv> canonical_bytes (sealed_artifacts (sorted_files es))"
  shows "list_all (\<lambda>e. validEntryName E (fe_Name e)) es" and "payload = se_Encode E cs"
    and "length cs < 2 ^ 64" and "length payload < 2 ^ 64"
    and "sr_CanonicalBytes r = of_nat (length cs)"
    and "sr_CanonicalSHA256 r = hex_EncodeToString (Sum256 cs)"
    and "sr_EncodedBytes r = of_nat (length payload)"
    and "sr_EncodedSHA256 r = hex_EncodeToString (Sum256 payload)"
    and "sr_FileCount r = of_nat (length es)"
    and "sr_SourceBytes r = of_nat (artifacts_total (sealed_artifacts (sorted_files es)))"
    and "sr_GenerationID r = sc_GenerationID c"
proof -
  from assms(1,2) obtain fp where names: "first_err (map (entry_check E) es) = None"
    and pub: "seal_publish E c (sorted_files es) fp = Inr (r, payload)"
    by (auto simp: Seal_def Let_def split: if_splits lstat_result.splits)
  from names show "list_all (\<lambda>e. validEntryName E (fe_Name e)) es"
    by (auto simp: first_err_None_iff entry_check_def list_all_iff)
  from pub obtain body t where b: "seal_files E (sorted_files es) 0 = Inr (body, t)"
    by (auto simp: seal_publish_def)
  note f = seal_files_Inr [OF b]
  have len: "length (sorted_files es) = length es" by (simp add: sorted_files_def)
  then have cs: "writeCanonicalHeader (of_nat (length (sorted_files es))) @ body = cs"
    using f by (simp add: writeCanonicalHeader_def cs_def canonical_bytes_def
        sealer_canonicalMagic_def generationCanonicalMagic_def sealed_artifacts_def)
  let ?cs = "writeCanonicalHeader (of_nat (length (sorted_files es))) @ body"
  from pub b have P: "payload = se_Encode E ?cs" "length ?cs < 2 ^ 64" "length payload < 2 ^ 64"
    "sr_CanonicalBytes r = of_nat (length ?cs)"
    "sr_CanonicalSHA256 r = hex_EncodeToString (Sum256 ?cs)"
    "sr_EncodedBytes r = of_nat (length payload)"
    "sr_EncodedSHA256 r = hex_EncodeToString (Sum256 payload)"
    "sr_FileCount r = of_nat (length (sorted_files es))" "sr_SourceBytes r = t"
    "sr_GenerationID r = sc_GenerationID c"
    by (auto simp: seal_publish_def Let_def count_all_def split: if_splits)
  from P(1,2,4,5) [unfolded cs] show "payload = se_Encode E cs" "length cs < 2 ^ 64"
    "sr_CanonicalBytes r = of_nat (length cs)"
    "sr_CanonicalSHA256 r = hex_EncodeToString (Sum256 cs)" by simp_all
  from P(3,6-10) f len show "length payload < 2 ^ 64"
    "sr_EncodedBytes r = of_nat (length payload)"
    "sr_EncodedSHA256 r = hex_EncodeToString (Sum256 payload)"
    "sr_FileCount r = of_nat (length es)"
    "sr_SourceBytes r = of_nat (artifacts_total (sealed_artifacts (sorted_files es)))"
    "sr_GenerationID r = sc_GenerationID c" by simp_all
qed

lemma length_canonical_bytes: "length fs \<le> length (canonical_bytes fs)"
proof -
  have "length fs \<le> length (concat (map artifact_bytes fs))"
    by (induction fs) (auto simp: artifact_bytes_def)
  then show ?thesis by (simp add: canonical_bytes_def)
qed

text \<open>
  C18: What the sealer seals, the receiver reads, up to a million files. If \<^verbatim>\<open>Seal\<close> succeeds on
  a frozen directory and \<^verbatim>\<open>DescriptorFromSeal\<close> accepts its result, the payload is the encoding of
  a canonical stream that holds every file of the directory once, by name order, with its exact
  contents; the sizes and digests of the descriptor are those of the stream and of the payload;
  and \<^verbatim>\<open>ReadCanonicalArtifacts\<close> accepts the stream in full under that descriptor, with the signed
  source byte count, exactly when the directory has at most 1000000 files. The sealer does not
  check that limit: a larger directory is sealed and then refused by every receiver. Of the
  directory it is assumed that names are distinct and at most 4096 bytes long, which every file
  system ensures (255 bytes, or 255 UTF-16 units on NTFS).
\<close>

theorem sealed_generation_readable:
  assumes seal: "Seal E c = Inr (r, payload)" and desc: "DescriptorFromSeal sourceID r = Inr d"
    and dir: "se_ReadDir E (sc_FrozenDir c) = Some es" and dist: "distinct (map fe_Name es)"
    and names: "\<forall>e\<in>set es. length (fe_Name e) \<le> 4096"
  shows "\<exists>cs. payload = se_Encode E cs \<and>
    (ReadCanonicalArtifacts no_handler () cs d = Inr (gd_SourceBytes d, [], ()) \<longleftrightarrow> length es \<le> 1000000) \<and>
    cs = canonical_bytes (map (\<lambda>(name, content). (name, file_chunks content)) (sorted_files es)) \<and>
    (\<forall>name content. (name, content) \<in> set (sorted_files es) \<longleftrightarrow>
       (\<exists>e\<in>set es. name = fe_Name e \<and> content = fe_Data e)) \<and>
    unat (gd_CanonicalBytes d) = length cs \<and>
    gd_CanonicalSHA256 d = hex_EncodeToString (Sum256 cs) \<and>
    unat (gd_EncodedDataBytes d) = length payload \<and>
    gd_EncodedDataSHA256 d = hex_EncodeToString (Sum256 payload)"
proof -
  let ?fs = "sealed_artifacts (sorted_files es)"
  note S = Seal_Inr [OF seal dir]
  from desc have v: "gen_Validate d = None" and D: "gd_ArtifactCount d = sr_FileCount r"
    "gd_SourceBytes d = sr_SourceBytes r" "gd_CanonicalBytes d = sr_CanonicalBytes r"
    "gd_CanonicalSHA256 d = sr_CanonicalSHA256 r" "gd_EncodedDataBytes d = sr_EncodedBytes r"
    "gd_EncodedDataSHA256 d = sr_EncodedSHA256 r"
    by (auto simp: DescriptorFromSeal_def Let_def split: if_splits)
  have wf: "wf_artifacts ?fs"
    using dist S(1,3) names by (intro sealed_artifacts_wf [where E = E]) (auto simp: list_all_iff)
  have len: "length ?fs = length es" by (simp add: sealed_artifacts_def sorted_files_def)
  have n: "unat (gd_ArtifactCount d) = length es"
    using length_canonical_bytes [of ?fs] S(3) len by (simp add: D S(9) unat_of_nat_small)
  have "unat (gd_SourceBytes d) = artifacts_total ?fs"
    using wf by (simp add: D S(10) wf_artifacts_def unat_of_nat_small)
  with len have "ReadCanonicalArtifacts no_handler () (canonical_bytes ?fs) d = Inr (gd_SourceBytes d, [], ()) \<longleftrightarrow>
      length es \<le> 1000000"
    unfolding canonical_reader_iff using v n wf by (auto intro!: exI [of _ ?fs])
  moreover have "(name, content) \<in> set (sorted_files es) \<longleftrightarrow>
      (\<exists>e\<in>set es. name = fe_Name e \<and> content = fe_Data e)" for name content
    using sorted_files_mem [OF dist, of name content] by blast
  ultimately show ?thesis
    using S(2-8) D by (intro exI [of _ "canonical_bytes ?fs"])
      (simp add: sealed_artifacts_def unat_of_nat_small)
qed

section \<open>A sample seal\<close>

definition sample_env :: seal_env where
  "sample_env =
     \<lparr>se_IsAbs = (\<lambda>p. hd p = CHR ''/''), se_Base = (\<lambda>n. n), se_Join = (\<lambda>d n. d @ ''/'' @ n),
      se_Lstat = (\<lambda>p. if p = ''/frozen'' \<or> p = ''/sealed'' then LstatKind DirectoryEntry
                      else LstatNotExist),
      se_MkdirAll = (\<lambda>_. True),
      se_ReadDir = (\<lambda>_. Some [\<lparr>fe_Name = ''b'', fe_Kind = RegularEntry, fe_Data = ''hello''\<rparr>,
                              \<lparr>fe_Name = ''a'', fe_Kind = RegularEntry, fe_Data = []\<rparr>]),
      se_ok = (\<lambda>_. True), se_Encode = (\<lambda>cs. ''z'' @ cs)\<rparr>"

definition sample_config :: seal_config where
  "sample_config = \<lparr>sc_FrozenDir = ''/frozen'', sc_GenerationID = ''gen-1'', sc_SealedDir = ''/sealed''\<rparr>"

lemma sample_chunks [simp]: "file_chunks ''hello'' = [''hello'']" "file_chunks [] = []"
  by (simp_all add: file_chunks.simps [of "''hello''"] file_chunks.simps [of "[]"])

definition sample_stream :: bytes where
  "sample_stream = canonical_bytes [(''a'', []), (''b'', [''hello''])]"

definition sample_seal :: seal_result where
  "sample_seal =
     \<lparr>sr_CanonicalBytes = 78, sr_CanonicalSHA256 = hex_EncodeToString (Sum256 sample_stream),
      sr_EncodedBytes = 79, sr_EncodedSHA256 = hex_EncodeToString (Sum256 (''z'' @ sample_stream)),
      sr_FileCount = 2, sr_GenerationID = ''gen-1'',
      sr_SealedPath = ''/sealed/generation-gen-1.figz'', sr_SourceBytes = 5\<rparr>"

lemma sample_stream_length: "length sample_stream = 78"
  by (simp add: sample_stream_def canonical_bytes_def artifact_bytes_def body_bytes_def)

lemma sample_files_sorted:
  "sorted_files [\<lparr>fe_Name = ''b'', fe_Kind = RegularEntry, fe_Data = ''hello''\<rparr>,
     \<lparr>fe_Name = ''a'', fe_Kind = RegularEntry, fe_Data = []\<rparr>] = [(''a'', []), (''b'', ''hello'')]"
  by (simp add: sorted_files_def)

lemma sample_sealed_bytes:
  "seal_files sample_env [(''a'', []), (''b'', ''hello'')] 0 = Inr (drop 35 sample_stream, 5)"
  by (simp add: seal_file_def seal_chunks_eq op_check_def sample_env_def writeCanonicalFileStart_def
      writeCanonicalFileEnd_def sample_stream_def canonical_bytes_def artifact_bytes_def
      body_bytes_def len32_def)

lemma sample_env_simps [simp]:
  "op_check sample_env op = Inr ()" "se_Encode sample_env cs = ''z'' @ cs"
  by (simp_all add: op_check_def sample_env_def)

lemma sample_seal_ok: "Seal sample_env sample_config = Inr (sample_seal, ''z'' @ sample_stream)"
proof -
  have head: "writeCanonicalHeader 2 @ drop 35 sample_stream = sample_stream"
    by (simp add: writeCanonicalHeader_def sample_stream_def canonical_bytes_def
        sealer_canonicalMagic_def generationCanonicalMagic_def)
  have hl: "length (writeCanonicalHeader 2) = 35"
    by (simp add: writeCanonicalHeader_def sealer_canonicalMagic_def)
  have "seal_publish sample_env sample_config [(''a'', []), (''b'', ''hello'')]
      ''/sealed/generation-gen-1.figz'' = Inr (sample_seal, ''z'' @ sample_stream)"
    using head hl sample_stream_length
    by (simp add: seal_publish_def Let_def count_all_def sample_seal_def sample_sealed_bytes
        sample_config_def del: seal_files.simps)
  then show ?thesis
    by (simp add: Seal_def sample_files_sorted seal_validateConfig_def sample_env_def
        sample_config_def is_real_directory_def entry_check_def validEntryName_def prohibited_def
        ContainsAny_def sealedExtension_def TrimSpace_Nil ascii_space_def space2_def space3_def)
qed

theorem sealed_generation_readable_witness:
  "\<exists>d. DescriptorFromSeal ''fs-01'' sample_seal = Inr d \<and>
     ReadCanonicalArtifacts no_handler () sample_stream d = Inr (5, [], ())"
proof -
  obtain d where d: "DescriptorFromSeal ''fs-01'' sample_seal = Inr d" and src: "gd_SourceBytes d = 5"
    by (simp add: DescriptorFromSeal_def sealer_CanonicalVersion_def CanonicalVersion_def
        sample_seal_def gen_Validate_None validateTextIdentity_None ContainsAny_def ascii_space_def
        space2_def space3_def maxGenerationStreamingBytes_def Let_def)
  have dir: "se_ReadDir sample_env (sc_FrozenDir sample_config) =
      Some [\<lparr>fe_Name = ''b'', fe_Kind = RegularEntry, fe_Data = ''hello''\<rparr>,
            \<lparr>fe_Name = ''a'', fe_Kind = RegularEntry, fe_Data = []\<rparr>]"
    by (simp add: sample_env_def)
  from sealed_generation_readable [OF sample_seal_ok d dir] d src show ?thesis
    by (auto simp: sample_files_sorted)
qed

end
