(* ===== verification/FI_OS.thy ===== *)
theory FI_OS
  imports Gen_Sealer
begin

text \<open>
  The operating system as the file-handling code sees it: one function per system call on a
  state \<open>'w\<close> of the outside world. A call may do anything to the world and may answer
  anything, so that other processes can change files between two calls; the theorems on the
  code that uses it hold for every such system. Programs over it stop at the first error.
\<close>

section \<open>Programs with errors and state\<close>

definition retP :: "'a \<Rightarrow> 'w \<Rightarrow> ('e + 'a) \<times> 'w" where
  "retP x w = (Inr x, w)"

definition failP :: "'e \<Rightarrow> 'w \<Rightarrow> ('e + 'a) \<times> 'w" where
  "failP e w = (Inl e, w)"

definition bindP ::
  "('w \<Rightarrow> ('e + 'a) \<times> 'w) \<Rightarrow> ('a \<Rightarrow> 'w \<Rightarrow> ('e + 'b) \<times> 'w) \<Rightarrow> 'w \<Rightarrow> ('e + 'b) \<times> 'w" where
  "bindP m f w = (case m w of (Inl e, w') \<Rightarrow> (Inl e, w') | (Inr x, w') \<Rightarrow> f x w')"

text \<open>\<^verbatim>\<open>if bad { return err }\<close> and a value with its error.\<close>

definition stop_if :: "bool \<Rightarrow> 'e \<Rightarrow> 'w \<Rightarrow> ('e + unit) \<times> 'w" where
  "stop_if bad e = (if bad then failP e else retP ())"

definition liftP :: "'e + 'a \<Rightarrow> 'w \<Rightarrow> ('e + 'a) \<times> 'w" where
  "liftP r w = (r, w)"

definition callP :: "('f \<Rightarrow> 'e) \<Rightarrow> ('w \<Rightarrow> ('f + 'a) \<times> 'w) \<Rightarrow> 'w \<Rightarrow> ('e + 'a) \<times> 'w" where
  "callP h m w = (case m w of (r, w') \<Rightarrow> (map_err h r, w'))"

text \<open>A call whose error the code looks at, and one whose error it ignores (\<^verbatim>\<open>_ = file.Close()\<close>).\<close>

definition attemptP :: "('w \<Rightarrow> ('f + 'a) \<times> 'w) \<Rightarrow> 'w \<Rightarrow> ('e + ('f + 'a)) \<times> 'w" where
  "attemptP m w = (case m w of (r, w') \<Rightarrow> (Inr r, w'))"

definition ignoreP :: "('w \<Rightarrow> ('f + 'a) \<times> 'w) \<Rightarrow> 'w \<Rightarrow> ('e + unit) \<times> 'w" where
  "ignoreP m w = (Inr (), snd (m w))"

lemma retP_Inr [simp]: "retP x w = (Inr y, w') \<longleftrightarrow> y = x \<and> w' = w"
  by (auto simp: retP_def)

lemma failP_Inr [simp]: "failP e w \<noteq> (Inr y, w')"
  by (simp add: failP_def)

lemma bindP_Inr [simp]:
  "bindP m f w = (Inr y, w') \<longleftrightarrow> (\<exists>x v. m w = (Inr x, v) \<and> f x v = (Inr y, w'))"
  by (auto simp: bindP_def split: prod.splits sum.splits)

lemma stop_if_Inr [simp]: "stop_if bad e w = (Inr y, w') \<longleftrightarrow> \<not> bad \<and> w' = w"
  by (auto simp: stop_if_def)

lemma liftP_Inr [simp]: "liftP r w = (Inr y, w') \<longleftrightarrow> r = Inr y \<and> w' = w"
  by (auto simp: liftP_def)

lemma callP_Inr [simp]: "callP h m w = (Inr y, w') \<longleftrightarrow> m w = (Inr y, w')"
  by (auto simp: callP_def split: prod.splits)

lemma attemptP_Inr [simp]: "attemptP m w = (Inr r, w') \<longleftrightarrow> m w = (r, w')"
  by (auto simp: attemptP_def split: prod.splits)

lemma ignoreP_Inr [simp]: "ignoreP m w = (Inr y, w') \<longleftrightarrow> w' = snd (m w)"
  by (auto simp: ignoreP_def)

lemma bindP_ret: "m w = (Inr x, v) \<Longrightarrow> bindP m f w = f x v"
  by (simp add: bindP_def)

text \<open>Programs on one half of a pair of states.\<close>

definition onW :: "('w \<Rightarrow> ('e + 'a) \<times> 'w) \<Rightarrow> 'w \<times> 's \<Rightarrow> ('e + 'a) \<times> ('w \<times> 's)" where
  "onW m p = (case p of (w, s) \<Rightarrow> (case m w of (r, w') \<Rightarrow> (r, (w', s))))"

definition onS :: "('s \<Rightarrow> ('e + 'a) \<times> 's) \<Rightarrow> 'w \<times> 's \<Rightarrow> ('e + 'a) \<times> ('w \<times> 's)" where
  "onS m p = (case p of (w, s) \<Rightarrow> (case m s of (r, s') \<Rightarrow> (r, (w, s'))))"

lemma onW_Inr [simp]:
  "onW m p = (Inr x, q) \<longleftrightarrow> (\<exists>w'. m (fst p) = (Inr x, w') \<and> q = (w', snd p))"
  by (auto simp: onW_def split: prod.splits)

lemma onS_Inr [simp]:
  "onS m p = (Inr x, q) \<longleftrightarrow> (\<exists>s'. m (snd p) = (Inr x, s') \<and> q = (fst p, s'))"
  by (auto simp: onS_def split: prod.splits)

section \<open>System calls\<close>

datatype os_error = ErrNotExist | ErrOther

record file_info =
  fi_Kind :: entry_kind
  fi_Size :: int
  fi_ID :: nat

definition SameFile :: "file_info \<Rightarrow> file_info \<Rightarrow> bool" where
  "SameFile a b \<longleftrightarrow> fi_ID a = fi_ID b"

definition is_regular :: "file_info \<Rightarrow> bool" where
  "is_regular i \<longleftrightarrow> fi_Kind i = RegularEntry"

definition is_dir :: "file_info \<Rightarrow> bool" where
  "is_dir i \<longleftrightarrow> fi_Kind i = DirectoryEntry"

text \<open>
  \<open>os_Reads\<close> gives what the successive reads of an open file return: the buffers in order,
  then the end of the file (\<^const>\<open>None\<close>) or the error that stops them. A reader that stops
  earlier leaves the rest of the list unread.
\<close>

record 'w os =
  os_IsAbs :: "string \<Rightarrow> bool"
  os_Join :: "string \<Rightarrow> string \<Rightarrow> string"
  os_CleanBase :: "string \<Rightarrow> string"
  os_Lstat :: "string \<Rightarrow> 'w \<Rightarrow> (os_error + file_info) \<times> 'w"
  os_ReadDir :: "string \<Rightarrow> 'w \<Rightarrow> (os_error + (string \<times> entry_kind) list) \<times> 'w"
  os_Open :: "string \<Rightarrow> 'w \<Rightarrow> (os_error + nat) \<times> 'w"
  os_Stat :: "nat \<Rightarrow> 'w \<Rightarrow> (os_error + file_info) \<times> 'w"
  os_Reads :: "nat \<Rightarrow> 'w \<Rightarrow> (bytes list \<times> os_error option) \<times> 'w"
  os_Close :: "nat \<Rightarrow> 'w \<Rightarrow> (os_error + unit) \<times> 'w"

definition readsP :: "'w os \<Rightarrow> nat \<Rightarrow> 'w \<Rightarrow> ('e + bytes list \<times> os_error option) \<times> 'w" where
  "readsP S fh w = (case os_Reads S fh w of (r, w') \<Rightarrow> (Inr r, w'))"

lemma readsP_Inr [simp]: "readsP S fh w = (Inr r, w') \<longleftrightarrow> os_Reads S fh w = (r, w')"
  by (auto simp: readsP_def split: prod.splits)

definition fail_closing :: "'w os \<Rightarrow> nat \<Rightarrow> 'e \<Rightarrow> 'w \<Rightarrow> ('e + 'a) \<times> 'w" where
  "fail_closing S fh e = bindP (ignoreP (os_Close S fh)) (\<lambda>_. failP e)"

lemma fail_closing_Inr [simp]: "fail_closing S fh e w \<noteq> (Inr y, w')"
  by (simp add: fail_closing_def)

text \<open>\<^verbatim>\<open>file.Stat()\<close> with the close that its error path makes.\<close>

definition statP :: "'w os \<Rightarrow> (os_error \<Rightarrow> 'e) \<Rightarrow> nat \<Rightarrow> 'w \<Rightarrow> ('e + file_info) \<times> 'w" where
  "statP S h fh w =
     (case os_Stat S fh w of
        (Inl e, w') \<Rightarrow> fail_closing S fh (h e) w'
      | (Inr i, w') \<Rightarrow> (Inr i, w'))"

lemma statP_Inr [simp]: "statP S h fh w = (Inr i, w') \<longleftrightarrow> os_Stat S fh w = (Inr i, w')"
  by (auto simp: statP_def split: prod.splits sum.splits)

text \<open>\<^verbatim>\<open>io.ReadAll(io.LimitReader(file, n))\<close> on what the reads return.\<close>

definition read_limited :: "nat \<Rightarrow> bytes list \<times> os_error option \<Rightarrow> os_error + bytes" where
  "read_limited n r =
     (let all = concat (fst r) in
      if length all \<ge> n then Inr (take n all)
      else case snd r of Some e \<Rightarrow> Inl e | None \<Rightarrow> Inr all)"

lemma read_limited_length: "read_limited n r = Inr raw \<Longrightarrow> length raw \<le> n"
  by (auto simp: read_limited_def Let_def split: if_splits option.splits)

end
