(* ===== verification/FI_Json.thy ===== *)
theory FI_Json
  imports FI_Text
begin

text \<open>
  The part of \<^verbatim>\<open>encoding/json\<close> that the sources use. \<^verbatim>\<open>json.Marshal\<close> of a struct is
  \<open>json_print\<close> of a tree; \<^verbatim>\<open>Decoder.Decode\<close> followed by a second \<^verbatim>\<open>Decode\<close> that must give
  \<^verbatim>\<open>io.EOF\<close> is \<open>json_decode\<close>, and the assignment of an object to the fields of a struct with
  \<^verbatim>\<open>DisallowUnknownFields\<close> is a fold over its members (a \<^verbatim>\<open>null\<close> leaves a field alone, a
  later member overwrites an earlier one, names match without regard to case).

  A number is kept as its literal text. Strings are byte strings; as in Go, invalid UTF-8 is
  replaced by U+FFFD in both directions.
\<close>

section \<open>Strings\<close>

definition replacement :: bytes where
  "replacement = [CHR 0xEF, CHR 0xBF, CHR 0xBD]"

text \<open>\<^verbatim>\<open>appendString\<close> with HTML escaping, as \<^verbatim>\<open>json.Marshal\<close> uses it.\<close>

definition escape_ascii :: "char \<Rightarrow> bytes" where
  "escape_ascii c =
     (if c = CHR 0x22 \<or> c = CHR 0x5C then [CHR 0x5C, c]
      else if c = CHR 0x08 then [CHR 0x5C, CHR ''b'']
      else if c = CHR 0x0C then [CHR 0x5C, CHR ''f'']
      else if c = CHR 0x0A then [CHR 0x5C, CHR ''n'']
      else if c = CHR 0x0D then [CHR 0x5C, CHR ''r'']
      else if c = CHR 0x09 then [CHR 0x5C, CHR ''t'']
      else if ord c < 0x20 \<or> c = CHR ''<'' \<or> c = CHR ''>'' \<or> c = CHR ''&''
      then [CHR 0x5C, CHR ''u'', CHR ''0'', CHR ''0'', hex_digit (ord c div 16), hex_digit (ord c mod 16)]
      else [c])"

definition escape3 :: "char \<Rightarrow> char \<Rightarrow> char \<Rightarrow> bytes" where
  "escape3 a b c =
     (if a = CHR 0xE2 \<and> b = CHR 0x80 \<and> c = CHR 0xA8 then CHR 0x5C # ''u2028''
      else if a = CHR 0xE2 \<and> b = CHR 0x80 \<and> c = CHR 0xA9 then CHR 0x5C # ''u2029''
      else [a, b, c])"

definition escape_invalid :: bytes where
  "escape_invalid = CHR 0x5C # ''ufffd''"

fun json_escape :: "bytes \<Rightarrow> bytes" where
  "json_escape [] = []"
| "json_escape (a # s) =
     (if ord a < 0x80 then escape_ascii a @ json_escape s
      else case s of [] \<Rightarrow> escape_invalid
      | b # t \<Rightarrow>
          if rune2 a b then [a, b] @ json_escape t
          else (case t of [] \<Rightarrow> escape_invalid @ json_escape s
          | c # u \<Rightarrow>
              if rune3 a b c then escape3 a b c @ json_escape u
              else (case u of [] \<Rightarrow> escape_invalid @ json_escape s
              | d # v \<Rightarrow>
                  if rune4 a b c d then [a, b, c, d] @ json_escape v
                  else escape_invalid @ json_escape s)))"

definition json_quote :: "bytes \<Rightarrow> bytes" where
  "json_quote s = CHR 0x22 # json_escape s @ [CHR 0x22]"

text \<open>
  The scanner: the raw text up to the closing quote. A control character or an unknown escape
  is a syntax error; \<^verbatim>\<open>\u\<close> needs four hexadecimal digits.
\<close>

fun scan_string :: "bytes \<Rightarrow> (bytes \<times> bytes) option" where
  "scan_string [] = None"
| "scan_string (c # s) =
     (if c = CHR 0x22 then Some ([], s)
      else if ord c < 0x20 then None
      else if c = CHR 0x5C then
        (case s of [] \<Rightarrow> None
         | e # t \<Rightarrow>
             if e = CHR ''u'' then
               (case t of
                  h1 # h2 # h3 # h4 # u \<Rightarrow>
                    if list_all (\<lambda>h. hex_value h \<noteq> None) [h1, h2, h3, h4]
                    then map_option (\<lambda>(raw, rest). (c # e # h1 # h2 # h3 # h4 # raw, rest))
                           (scan_string u)
                    else None
                | _ \<Rightarrow> None)
             else if e \<in> set [CHR 0x22, CHR 0x5C, CHR ''/'', CHR ''b'', CHR ''f'', CHR ''n'',
                              CHR ''r'', CHR ''t'']
             then map_option (\<lambda>(raw, rest). (c # e # raw, rest)) (scan_string t)
             else None)
      else map_option (\<lambda>(raw, rest). (c # raw, rest)) (scan_string s))"

definition hex4 :: "char \<Rightarrow> char \<Rightarrow> char \<Rightarrow> char \<Rightarrow> nat" where
  "hex4 a b c d =
     ((the (hex_value a) * 16 + the (hex_value b)) * 16 + the (hex_value c)) * 16 + the (hex_value d)"

text \<open>\<^verbatim>\<open>utf8.AppendRune\<close> of a code point that is no surrogate.\<close>

definition utf8_Append :: "nat \<Rightarrow> bytes" where
  "utf8_Append r =
     (if r < 0x80 then [char_of r]
      else if r < 0x800 then [char_of (0xC0 + r div 64), char_of (0x80 + r mod 64)]
      else if r < 0x10000
      then [char_of (0xE0 + r div 4096), char_of (0x80 + r div 64 mod 64), char_of (0x80 + r mod 64)]
      else [char_of (0xF0 + r div 262144), char_of (0x80 + r div 4096 mod 64),
            char_of (0x80 + r div 64 mod 64), char_of (0x80 + r mod 64)])"

definition is_surrogate :: "nat \<Rightarrow> bool" where
  "is_surrogate r \<longleftrightarrow> 0xD800 \<le> r \<and> r < 0xE000"

text \<open>\<^verbatim>\<open>utf16.DecodeRune\<close>: \<open>None\<close> for \<^verbatim>\<open>unicode.ReplacementChar\<close>.\<close>

definition surrogate_pair :: "nat \<Rightarrow> nat \<Rightarrow> nat option" where
  "surrogate_pair hi lo =
     (if 0xD800 \<le> hi \<and> hi < 0xDC00 \<and> 0xDC00 \<le> lo \<and> lo < 0xE000
      then Some (0x10000 + (hi - 0xD800) * 1024 + (lo - 0xDC00)) else None)"

definition simple_escape :: "char \<Rightarrow> char" where
  "simple_escape e =
     (if e = CHR ''b'' then CHR 0x08 else if e = CHR ''f'' then CHR 0x0C
      else if e = CHR ''n'' then CHR 0x0A else if e = CHR ''r'' then CHR 0x0D
      else if e = CHR ''t'' then CHR 0x09 else e)"

text \<open>\<^verbatim>\<open>unquoteBytes\<close> on text that the scanner has passed.\<close>

fun json_unquote :: "bytes \<Rightarrow> bytes" where
  "json_unquote [] = []"
| "json_unquote (a # s) =
     (if a = CHR 0x5C then
        (case s of [] \<Rightarrow> []
         | e # t \<Rightarrow>
             if e = CHR ''u'' then
               (case t of
                  h1 # h2 # h3 # h4 # u \<Rightarrow>
                    let r = hex4 h1 h2 h3 h4 in
                    if is_surrogate r then
                      (case u of
                         x # y # k1 # k2 # k3 # k4 # v \<Rightarrow>
                           if x = CHR 0x5C \<and> y = CHR ''u'' then
                             (case surrogate_pair r (hex4 k1 k2 k3 k4) of
                                Some rr \<Rightarrow> utf8_Append rr @ json_unquote v
                              | None \<Rightarrow> replacement @ json_unquote u)
                           else replacement @ json_unquote u
                       | _ \<Rightarrow> replacement @ json_unquote u)
                    else utf8_Append r @ json_unquote u
                | _ \<Rightarrow> [])
             else simple_escape e # json_unquote t)
      else if ord a < 0x80 then a # json_unquote s
      else case s of [] \<Rightarrow> replacement
      | b # t \<Rightarrow>
          if rune2 a b then [a, b] @ json_unquote t
          else (case t of [] \<Rightarrow> replacement @ json_unquote s
          | c # u \<Rightarrow>
              if rune3 a b c then [a, b, c] @ json_unquote u
              else (case u of [] \<Rightarrow> replacement @ json_unquote s
              | d # v \<Rightarrow>
                  if rune4 a b c d then [a, b, c, d] @ json_unquote v
                  else replacement @ json_unquote s)))"

declare json_unquote.simps(2) [simp del] scan_string.simps(2) [simp del]
  json_escape.simps(2) [simp del]

subsection \<open>One step of the scanner and of unquoting\<close>

definition cons_raw :: "bytes \<Rightarrow> (bytes \<times> bytes) option \<Rightarrow> (bytes \<times> bytes) option" where
  "cons_raw p r = map_option (\<lambda>(raw, rest). (p @ raw, rest)) r"

lemma cons_raw_simps [simp]:
  "cons_raw p (cons_raw q r) = cons_raw (p @ q) r" "cons_raw p (Some (raw, rest)) = Some (p @ raw, rest)"
  by (cases r) (auto simp: cons_raw_def)

lemma scan_steps:
  "scan_string (CHR 0x22 # s) = Some ([], s)"
  "c \<noteq> CHR 0x22 \<Longrightarrow> c \<noteq> CHR 0x5C \<Longrightarrow> \<not> ord c < 0x20 \<Longrightarrow>
     scan_string (c # s) = cons_raw [c] (scan_string s)"
  "e \<in> set [CHR 0x22, CHR 0x5C, CHR ''/'', CHR ''b'', CHR ''f'', CHR ''n'', CHR ''r'', CHR ''t''] \<Longrightarrow>
     scan_string (CHR 0x5C # e # s) = cons_raw [CHR 0x5C, e] (scan_string s)"
  "list_all (\<lambda>h. hex_value h \<noteq> None) [h1, h2, h3, h4] \<Longrightarrow>
     scan_string (CHR 0x5C # CHR ''u'' # h1 # h2 # h3 # h4 # s) =
       cons_raw [CHR 0x5C, CHR ''u'', h1, h2, h3, h4] (scan_string s)"
  by (auto simp: cons_raw_def scan_string.simps(2) [of "CHR 0x22"] scan_string.simps(2) [of c]
      scan_string.simps(2) [of "CHR 0x5C"])

lemma unquote_steps:
  "a \<noteq> CHR 0x5C \<Longrightarrow> ord a < 0x80 \<Longrightarrow> json_unquote (a # s) = a # json_unquote s"
  "e \<noteq> CHR ''u'' \<Longrightarrow> json_unquote (CHR 0x5C # e # s) = simple_escape e # json_unquote s"
  "\<not> is_surrogate (hex4 h1 h2 h3 h4) \<Longrightarrow>
     json_unquote (CHR 0x5C # CHR ''u'' # h1 # h2 # h3 # h4 # s) =
       utf8_Append (hex4 h1 h2 h3 h4) @ json_unquote s"
  by (simp_all add: json_unquote.simps(2) [of a] json_unquote.simps(2) [of "CHR 0x5C"])

definition hex_escape :: "char \<Rightarrow> bytes" where
  "hex_escape c = [CHR 0x5C, CHR ''u'', CHR ''0'', CHR ''0'', hex_digit (ord c div 16),
     hex_digit (ord c mod 16)]"

lemma hex_value_0: "hex_value (CHR ''0'') = Some 0"
  by (simp add: hex_value_def)

lemma hex_escape_step:
  assumes "ord c < 0x80"
  shows "json_unquote (hex_escape c @ s) = c # json_unquote s"
    and "scan_string (hex_escape c @ s) = cons_raw (hex_escape c) (scan_string s)"
proof -
  have d: "ord c div 16 < 16" using assms by linarith
  have h: "hex4 (CHR ''0'') (CHR ''0'') (hex_digit (ord c div 16)) (hex_digit (ord c mod 16)) = ord c"
    using d by (simp add: hex4_def hex_value_0)
  have ns: "\<not> is_surrogate (ord c)" using assms by (simp add: is_surrogate_def)
  have "utf8_Append (ord c) = [c]" using assms by (simp add: utf8_Append_def)
  with ns h show "json_unquote (hex_escape c @ s) = c # json_unquote s"
    by (simp add: hex_escape_def unquote_steps(3))
  show "scan_string (hex_escape c @ s) = cons_raw (hex_escape c) (scan_string s)"
    using d by (simp add: hex_escape_def scan_steps(4) hex_value_0)
qed

definition short_escaped :: "char set" where
  "short_escaped = {CHR 0x22, CHR 0x5C, CHR 0x08, CHR 0x0C, CHR 0x0A, CHR 0x0D, CHR 0x09}"

lemma short_escape_step:
  assumes "c \<in> short_escaped"
  shows "json_unquote (escape_ascii c @ s) = c # json_unquote s"
    and "scan_string (escape_ascii c @ s) = cons_raw (escape_ascii c) (scan_string s)"
  using assms unfolding short_escaped_def
  by (elim insertE emptyE; simp add: escape_ascii_def unquote_steps(2) scan_steps(3) simple_escape_def)+

lemma escape_ascii_other:
  assumes "c \<notin> short_escaped"
  shows "escape_ascii c = (if ord c < 0x20 \<or> c = CHR ''<'' \<or> c = CHR ''>'' \<or> c = CHR ''&''
    then hex_escape c else [c])"
  using assms by (simp add: escape_ascii_def hex_escape_def short_escaped_def)

lemma escape_ascii_step:
  assumes "ord c < 0x80"
  shows "json_unquote (escape_ascii c @ s) = c # json_unquote s"
    and "scan_string (escape_ascii c @ s) = cons_raw (escape_ascii c) (scan_string s)"
proof -
  have "json_unquote (escape_ascii c @ s) = c # json_unquote s \<and>
      scan_string (escape_ascii c @ s) = cons_raw (escape_ascii c) (scan_string s)"
  proof (cases "c \<in> short_escaped")
    case True
    then show ?thesis by (simp add: short_escape_step)
  next
    case False
    then have "c \<noteq> CHR 0x22" "c \<noteq> CHR 0x5C" by (auto simp: short_escaped_def)
    then have "json_unquote (c # s) = c # json_unquote s"
      and "\<not> ord c < 0x20 \<Longrightarrow> scan_string (c # s) = cons_raw [c] (scan_string s)"
      using assms by (simp_all add: unquote_steps(1) scan_steps(2))
    then show ?thesis
      by (simp add: escape_ascii_other [OF False] hex_escape_step [OF assms])
  qed
  then show "json_unquote (escape_ascii c @ s) = c # json_unquote s"
    and "scan_string (escape_ascii c @ s) = cons_raw (escape_ascii c) (scan_string s)" by blast+
qed

lemma high_scan: "\<not> ord a < 0x80 \<Longrightarrow> scan_string (a # s) = cons_raw [a] (scan_string s)"
  by (rule scan_steps(2)) auto

lemma rune_high:
  "rune2 a b \<Longrightarrow> \<not> ord a < 0x80 \<and> \<not> ord b < 0x80"
  "rune3 a b c \<Longrightarrow> \<not> ord a < 0x80 \<and> \<not> ord b < 0x80 \<and> \<not> ord c < 0x80"
  "rune4 a b c d \<Longrightarrow> \<not> ord a < 0x80 \<and> \<not> ord b < 0x80 \<and> \<not> ord c < 0x80 \<and> \<not> ord d < 0x80"
  by (auto simp: rune2_def rune3_def rune4_def cont_byte_def)

lemma rune_exclusive:
  "rune3 a b c \<Longrightarrow> \<not> rune2 a b" "rune4 a b c d \<Longrightarrow> \<not> rune2 a b" "rune4 a b c d \<Longrightarrow> \<not> rune3 a b c"
  by (auto simp: rune2_def rune3_def rune4_def)

lemma rune_scan:
  "rune2 a b \<Longrightarrow> scan_string (a # b # s) = cons_raw [a, b] (scan_string s)"
  "rune3 a b c \<Longrightarrow> scan_string (a # b # c # s) = cons_raw [a, b, c] (scan_string s)"
  "rune4 a b c d \<Longrightarrow> scan_string (a # b # c # d # s) = cons_raw [a, b, c, d] (scan_string s)"
  using rune_high by (auto simp: high_scan)

lemma not_backslash: "\<not> ord a < 0x80 \<Longrightarrow> a \<noteq> CHR 0x5C"
  by auto

lemma rune_unquote:
  "rune2 a b \<Longrightarrow> json_unquote (a # b # s) = a # b # json_unquote s"
  "rune3 a b c \<Longrightarrow> json_unquote (a # b # c # s) = a # b # c # json_unquote s"
  "rune4 a b c d \<Longrightarrow> json_unquote (a # b # c # d # s) = a # b # c # d # json_unquote s"
  using rune_high rune_exclusive by (auto simp: json_unquote.simps(2) [of a] not_backslash)

lemma char_of_bytes: "char_of (226::nat) = CHR 0xE2" "char_of (128::nat) = CHR 0x80"
  "char_of (168::nat) = CHR 0xA8" "char_of (169::nat) = CHR 0xA9"
  by (rule of_char_eqI [where 'a = nat]; simp)+

lemma escape3_step:
  assumes "rune3 a b c"
  shows "json_unquote (escape3 a b c @ s) = a # b # c # json_unquote s"
    and "scan_string (escape3 a b c @ s) = cons_raw (escape3 a b c) (scan_string s)"
proof -
  have h: "hex4 (CHR ''2'') (CHR ''0'') (CHR ''2'') (CHR ''8'') = 0x2028"
    "hex4 (CHR ''2'') (CHR ''0'') (CHR ''2'') (CHR ''9'') = 0x2029"
    by (simp_all add: hex4_def hex_value_def)
  have v: "hex_value (CHR ''2'') = Some 2" "hex_value (CHR ''8'') = Some 8" "hex_value (CHR ''9'') = Some 9"
    by (simp_all add: hex_value_def)
  show "json_unquote (escape3 a b c @ s) = a # b # c # json_unquote s"
    using assms by (auto simp: escape3_def rune_unquote unquote_steps(3) h is_surrogate_def
        utf8_Append_def char_of_bytes)
  show "scan_string (escape3 a b c @ s) = cons_raw (escape3 a b c) (scan_string s)"
    using assms by (auto simp: escape3_def rune_scan scan_steps(4) v hex_value_0)
qed

lemma scan_invalid: "scan_string (escape_invalid @ s) = cons_raw escape_invalid (scan_string s)"
  by (simp add: escape_invalid_def scan_steps(4) hex_value_def)

subsection \<open>Escaping and unquoting\<close>

text \<open>The scanner takes exactly the text that \<^verbatim>\<open>appendString\<close> writes between the quotes.\<close>

lemma scan_escape: "scan_string (json_escape s @ CHR 0x22 # rest) = Some (json_escape s, rest)"
proof (induction s rule: json_escape.induct)
  case 1
  then show ?case by (simp add: scan_steps)
next
  case (2 a s)
  then show ?case
    by (auto simp: json_escape.simps(2) [of a s] escape_ascii_step scan_invalid escape3_step
        rune_scan scan_steps(1) split: list.splits)
qed

text \<open>Unquoting undoes the escaping of every valid UTF-8 string.\<close>

lemma unquote_escape: "utf8_Valid s \<Longrightarrow> json_unquote (json_escape s) = s"
proof (induction s rule: json_escape.induct)
  case (2 a s)
  then show ?case
    by (auto simp: json_escape.simps(2) [of a s] escape_ascii_step rune_unquote escape3_step
        simp del: utf8_Valid.simps(2) simp: utf8_Valid.simps(2) [of a s]
        split: list.splits if_splits)
qed simp

section \<open>Numbers\<close>

text \<open>The longest JSON number at the front; its literal text is kept.\<close>

definition scan_digits :: "bytes \<Rightarrow> (bytes \<times> bytes) option" where
  "scan_digits s =
     (if takeWhile is_digit s = [] then None else Some (takeWhile is_digit s, dropWhile is_digit s))"

definition scan_int :: "bytes \<Rightarrow> (bytes \<times> bytes) option" where
  "scan_int s =
     (case s of [] \<Rightarrow> None
      | c # t \<Rightarrow> if c = CHR ''0'' then Some ([c], t) else scan_digits s)"

definition scan_frac :: "bytes \<Rightarrow> (bytes \<times> bytes) option" where
  "scan_frac s =
     (case s of c # t \<Rightarrow> if c = CHR ''.'' then cons_raw [c] (scan_digits t) else Some ([], s)
      | [] \<Rightarrow> Some ([], []))"

definition scan_exp :: "bytes \<Rightarrow> (bytes \<times> bytes) option" where
  "scan_exp s =
     (case s of
        c # t \<Rightarrow>
          if c = CHR ''e'' \<or> c = CHR ''E'' then
            (case t of
               d # u \<Rightarrow> if d = CHR ''+'' \<or> d = CHR ''-'' then cons_raw [c, d] (scan_digits u)
                        else cons_raw [c] (scan_digits t)
             | [] \<Rightarrow> None)
          else Some ([], s)
      | [] \<Rightarrow> Some ([], []))"

definition scan_number :: "bytes \<Rightarrow> (bytes \<times> bytes) option" where
  "scan_number s =
     (let (sg, s1) = (case s of c # t \<Rightarrow> if c = CHR ''-'' then ([c], t) else ([], s) | [] \<Rightarrow> ([], [])) in
      case scan_int s1 of None \<Rightarrow> None | Some (i, s2) \<Rightarrow>
     (case scan_frac s2 of None \<Rightarrow> None | Some (f, s3) \<Rightarrow>
     (case scan_exp s3 of None \<Rightarrow> None | Some (e, s4) \<Rightarrow> Some (sg @ i @ f @ e, s4))))"

definition number_end :: "bytes \<Rightarrow> bool" where
  "number_end s \<longleftrightarrow> s = [] \<or> (\<not> is_digit (hd s) \<and> hd s \<notin> set ''.eE'')"

lemma scan_number_Format:
  assumes "number_end rest"
  shows "scan_number (FormatUint n @ rest) = Some (FormatUint n, rest)"
proof -
  obtain c t where ct: "FormatUint n = c # t" by (cases "FormatUint n") auto
  with FormatUint_digits [of n] have dig: "is_digit c" "list_all is_digit t" by auto
  then have nm: "c \<noteq> CHR ''-''" by (auto simp: is_digit_def)
  have tw: "takeWhile is_digit (c # t @ rest) = c # t" "dropWhile is_digit (c # t @ rest) = rest"
  proof -
    have "takeWhile is_digit rest = []" "dropWhile is_digit rest = rest"
      using assms by (cases rest; simp add: number_end_def)+
    then show "takeWhile is_digit (c # t @ rest) = c # t" "dropWhile is_digit (c # t @ rest) = rest"
      using dig by (auto simp: takeWhile_append dropWhile_append list_all_iff)
  qed
  have "scan_int (c # t @ rest) = Some (c # t, rest)"
  proof (cases "c = CHR ''0''")
    case True
    with FormatUint_hd [of n] ct have "n = 0" by simp
    then have "FormatUint n = [CHR ''0'']" by (simp add: FormatUint.simps char_of_48)
    with ct True show ?thesis by (simp add: scan_int_def)
  next
    case False
    with tw show ?thesis by (simp add: scan_int_def scan_digits_def)
  qed
  moreover have "scan_frac rest = Some ([], rest)" "scan_exp rest = Some ([], rest)"
    using assms by (auto simp: scan_frac_def scan_exp_def number_end_def split: list.splits)
  ultimately show ?thesis
    using ct nm by (simp add: scan_number_def)
qed

section \<open>Values\<close>

datatype json =
    JNull
  | JBool bool
  | JNum bytes
  | JStr bytes
  | JArr "json list"
  | JObj "(bytes \<times> json) list"

fun json_commas :: "bytes list \<Rightarrow> bytes" where
  "json_commas [] = []"
| "json_commas [x] = x"
| "json_commas (x # xs) = x @ CHR '','' # json_commas xs"

function json_print :: "json \<Rightarrow> bytes" where
  "json_print JNull = ''null''"
| "json_print (JBool b) = (if b then ''true'' else ''false'')"
| "json_print (JNum t) = t"
| "json_print (JStr t) = json_quote t"
| "json_print (JArr xs) = CHR ''['' # json_commas (map json_print xs) @ '']''"
| "json_print (JObj ms) =
     CHR ''{'' # json_commas (map (\<lambda>m. json_quote (fst m) @ CHR '':'' # json_print (snd m)) ms) @ ''}''"
  by pat_completeness auto
termination
proof (relation "measure size", goal_cases)
  case 1
  then show ?case by simp
next
  case (2 xs x)
  then show ?case by (simp add: size_list_estimation' le_imp_less_Suc)
next
  case (3 ms m)
  have "size (snd m) \<le> size_prod (\<lambda>_. 0) size m" by (cases m) simp
  also have "\<dots> \<le> size_list (size_prod (\<lambda>_. 0) size) ms" using 3 by (rule size_list_estimation') simp
  finally show ?case by simp
qed

definition json_space :: "char \<Rightarrow> bool" where
  "json_space c \<longleftrightarrow> c \<in> set [CHR 0x20, CHR 0x09, CHR 0x0A, CHR 0x0D]"

definition skip_ws :: "bytes \<Rightarrow> bytes" where
  "skip_ws s = dropWhile json_space s"

definition parse_literal :: "bytes \<Rightarrow> (json \<times> bytes) option" where
  "parse_literal s =
     (if HasPrefix s ''true'' then Some (JBool True, drop 4 s)
      else if HasPrefix s ''false'' then Some (JBool False, drop 5 s)
      else if HasPrefix s ''null'' then Some (JNull, drop 4 s)
      else map_option (\<lambda>(t, rest). (JNum t, rest)) (scan_number s))"

text \<open>
  The recursive descent, with fuel: every call that spends fuel has consumed a byte, so as
  much fuel as there are bytes is enough (\<open>parse_fuel\<close> below).
\<close>

fun parse_value :: "nat \<Rightarrow> bytes \<Rightarrow> (json \<times> bytes) option"
  and parse_elems :: "nat \<Rightarrow> bytes \<Rightarrow> (json list \<times> bytes) option"
  and parse_members :: "nat \<Rightarrow> bytes \<Rightarrow> ((bytes \<times> json) list \<times> bytes) option" where
  "parse_value 0 s = None"
| "parse_value (Suc n) s =
     (case skip_ws s of [] \<Rightarrow> None
      | c # t \<Rightarrow>
          if c = CHR 0x22 then
            map_option (\<lambda>(raw, rest). (JStr (json_unquote raw), rest)) (scan_string t)
          else if c = CHR ''{'' then
            (case skip_ws t of [] \<Rightarrow> None
             | d # u \<Rightarrow> if d = CHR ''}'' then Some (JObj [], u)
                        else map_option (\<lambda>(ms, rest). (JObj ms, rest)) (parse_members n t))
          else if c = CHR ''['' then
            (case skip_ws t of [] \<Rightarrow> None
             | d # u \<Rightarrow> if d = CHR '']'' then Some (JArr [], u)
                        else map_option (\<lambda>(xs, rest). (JArr xs, rest)) (parse_elems n t))
          else parse_literal (c # t))"
| "parse_elems 0 s = None"
| "parse_elems (Suc n) s =
     (case parse_value n s of None \<Rightarrow> None
      | Some (x, w) \<Rightarrow>
          (case skip_ws w of [] \<Rightarrow> None
           | d # u \<Rightarrow>
               if d = CHR '']'' then Some ([x], u)
               else if d = CHR '','' then
                 map_option (\<lambda>(xs, rest). (x # xs, rest)) (parse_elems n u)
               else None))"
| "parse_members 0 s = None"
| "parse_members (Suc n) s =
     (case skip_ws s of [] \<Rightarrow> None
      | c # t \<Rightarrow>
          if c \<noteq> CHR 0x22 then None
          else case scan_string t of None \<Rightarrow> None
          | Some (raw, u) \<Rightarrow>
              (case skip_ws u of [] \<Rightarrow> None
               | e # v \<Rightarrow>
                   if e \<noteq> CHR '':'' then None
                   else case parse_value n v of None \<Rightarrow> None
                   | Some (x, w) \<Rightarrow>
                       (case skip_ws w of [] \<Rightarrow> None
                        | d # y \<Rightarrow>
                            if d = CHR ''}'' then Some ([(json_unquote raw, x)], y)
                            else if d = CHR '','' then
                              map_option (\<lambda>(ms, rest). ((json_unquote raw, x) # ms, rest))
                                (parse_members n y)
                            else None)))"

text \<open>\<^verbatim>\<open>Decode(&value)\<close> and then \<^verbatim>\<open>Decode(&extra) == io.EOF\<close>.\<close>

definition json_decode :: "bytes \<Rightarrow> json option" where
  "json_decode s =
     (case parse_value (length s) s of None \<Rightarrow> None
      | Some (v, rest) \<Rightarrow> if skip_ws rest = [] then Some v else None)"

section \<open>Printing and parsing\<close>

text \<open>The trees that \<^verbatim>\<open>json.Marshal\<close> makes of valid structs.\<close>

inductive json_wf :: "json \<Rightarrow> bool" where
  "json_wf JNull"
| "json_wf (JBool b)"
| "json_wf (JNum (FormatUint n))"
| "utf8_Valid t \<Longrightarrow> json_wf (JStr t)"
| "(\<And>x. x \<in> set xs \<Longrightarrow> json_wf x) \<Longrightarrow> json_wf (JArr xs)"
| "(\<And>m. m \<in> set ms \<Longrightarrow> utf8_Valid (fst m) \<and> json_wf (snd m)) \<Longrightarrow> json_wf (JObj ms)"

lemma skip_ws_solid: "\<not> json_space c \<Longrightarrow> skip_ws (c # s) = c # s"
  by (simp add: skip_ws_def)

lemma not_json_space [simp]:
  "\<not> json_space (CHR 0x22)" "\<not> json_space (CHR ''{'')" "\<not> json_space (CHR ''['')"
  "\<not> json_space (CHR ''}'')" "\<not> json_space (CHR '']'')" "\<not> json_space (CHR '','')"
  "\<not> json_space (CHR '':'')" "\<not> json_space (CHR ''t'')" "\<not> json_space (CHR ''f'')"
  "\<not> json_space (CHR ''n'')"
  by (simp_all add: json_space_def)

lemma digit_chars:
  assumes "is_digit c"
  shows "\<not> json_space c" and "c \<notin> {CHR 0x22, CHR ''{'', CHR ''['', CHR ''}'', CHR '']'', CHR ''t'',
    CHR ''f'', CHR ''n''}"
  using assms by (auto simp: is_digit_def json_space_def)

lemma Format_Cons: obtains c t where "FormatUint n = c # t" and "is_digit c"
  using FormatUint_digits [of n] FormatUint_not_Nil [of n] by (cases "FormatUint n") auto

lemma print_hd:
  assumes "json_wf v"
  obtains c t where "json_print v = c # t" and "\<not> json_space c" and "c \<noteq> CHR '']''" and "c \<noteq> CHR ''}''"
  using assms
proof (cases rule: json_wf.cases)
  case (2 b)
  then show thesis using that by (cases b) auto
next
  case (3 n)
  obtain c t where "FormatUint n = c # t" "is_digit c" by (rule Format_Cons)
  with 3 digit_chars [of c] show thesis by (intro that) auto
qed (auto simp: json_quote_def intro!: that)

lemma parse_literal_number:
  assumes "number_end rest"
  shows "parse_literal (FormatUint n @ rest) = Some (JNum (FormatUint n), rest)"
proof -
  obtain c t where ct: "FormatUint n = c # t" and "is_digit c" by (rule Format_Cons)
  then have "c \<noteq> CHR ''t''" "c \<noteq> CHR ''f''" "c \<noteq> CHR ''n''" using digit_chars(2) by auto
  then have "\<not> HasPrefix (FormatUint n @ rest) ''true''" "\<not> HasPrefix (FormatUint n @ rest) ''false''"
    "\<not> HasPrefix (FormatUint n @ rest) ''null''"
    by (simp_all add: ct HasPrefix_def)
  with scan_number_Format [OF assms, of n] show ?thesis by (simp add: parse_literal_def)
qed

lemma number_end_simps [simp]:
  "number_end []" "number_end (CHR '','' # s)" "number_end (CHR '']'' # s)" "number_end (CHR ''}'' # s)"
  by (simp_all add: number_end_def is_digit_def)

lemma commas_Cons: "json_commas (x # xs) = (if xs = [] then x else x @ CHR '','' # json_commas xs)"
  by (cases xs) auto

lemma parse_elems_commas:
  assumes "\<And>x n rest. x \<in> set xs \<Longrightarrow> length (json_print x) \<le> n \<Longrightarrow> number_end rest \<Longrightarrow>
      parse_value n (json_print x @ rest) = Some (x, rest)"
    and "xs \<noteq> []" and "length (json_commas (map json_print xs)) < n"
  shows "parse_elems n (json_commas (map json_print xs) @ CHR '']'' # rest) = Some (xs, rest)"
  using assms
proof (induction xs arbitrary: n)
  case (Cons x xs)
  obtain m where n: "n = Suc m" using Cons.prems(3) by (cases n) auto
  show ?case
  proof (cases "xs = []")
    case True
    with Cons.prems n show ?thesis by (simp add: commas_Cons skip_ws_solid)
  next
    case False
    have "parse_elems m (json_commas (map json_print xs) @ CHR '']'' # rest) = Some (xs, rest)"
      using Cons.prems False n by (intro Cons.IH) (auto simp: commas_Cons)
    moreover have "parse_value m (json_print x @ CHR '','' # json_commas (map json_print xs) @
        CHR '']'' # rest) = Some (x, CHR '','' # json_commas (map json_print xs) @ CHR '']'' # rest)"
      using Cons.prems False n by (intro Cons.prems(1)) (auto simp: commas_Cons)
    ultimately show ?thesis using False n by (simp add: commas_Cons skip_ws_solid)
  qed
qed simp

abbreviation print_member :: "bytes \<times> json \<Rightarrow> bytes" where
  "print_member m \<equiv> json_quote (fst m) @ CHR '':'' # json_print (snd m)"

lemma parse_members_commas:
  assumes "\<And>m n rest. m \<in> set ms \<Longrightarrow> length (json_print (snd m)) \<le> n \<Longrightarrow> number_end rest \<Longrightarrow>
      parse_value n (json_print (snd m) @ rest) = Some (snd m, rest)"
    and "\<And>m. m \<in> set ms \<Longrightarrow> utf8_Valid (fst m)"
    and "ms \<noteq> []" and "length (json_commas (map print_member ms)) < n"
  shows "parse_members n (json_commas (map print_member ms) @ CHR ''}'' # rest) = Some (ms, rest)"
  using assms
proof (induction ms arbitrary: n)
  case (Cons m ms)
  obtain k where n: "n = Suc k" using Cons.prems(4) by (cases n) auto
  have key: "scan_string (json_escape (fst m) @ CHR 0x22 # t) = Some (json_escape (fst m), t)"
    "json_unquote (json_escape (fst m)) = fst m" for t
    using Cons.prems(2) [of m] by (simp_all add: scan_escape unquote_escape)
  show ?case
  proof (cases "ms = []")
    case True
    have "parse_value k (json_print (snd m) @ CHR ''}'' # rest) = Some (snd m, CHR ''}'' # rest)"
      using Cons.prems(4) n True by (intro Cons.prems(1)) (auto simp: commas_Cons)
    with True n key show ?thesis by (simp add: commas_Cons skip_ws_solid json_quote_def)
  next
    case False
    let ?t = "json_commas (map print_member ms) @ CHR ''}'' # rest"
    have "parse_members k ?t = Some (ms, rest)"
      using Cons.prems False n by (intro Cons.IH) (auto simp: commas_Cons)
    moreover have "parse_value k (json_print (snd m) @ CHR '','' # ?t) = Some (snd m, CHR '','' # ?t)"
      using Cons.prems(4) n False by (intro Cons.prems(1)) (auto simp: commas_Cons)
    ultimately show ?thesis using False n key by (simp add: commas_Cons skip_ws_solid json_quote_def)
  qed
qed simp

lemma print_commas_hd:
  assumes "xs \<noteq> []" and "\<And>x. x \<in> set xs \<Longrightarrow> json_wf x"
  obtains c t where "json_commas (map json_print xs) = c # t" and "\<not> json_space c" and "c \<noteq> CHR '']''"
proof -
  obtain y ys where xs: "xs = y # ys" using assms(1) by (cases xs) auto
  obtain c t where c: "json_print y = c # t" "\<not> json_space c" "c \<noteq> CHR '']''"
    by (rule print_hd [of y]) (use assms(2) xs in auto)
  from c(1) have "\<exists>t. json_commas (map json_print xs) = c # t" by (simp add: xs commas_Cons)
  with c(2,3) that show thesis by blast
qed

text \<open>Parsing gives back what was printed, and leaves what follows.\<close>

lemma parse_print:
  "json_wf v \<Longrightarrow> length (json_print v) \<le> n \<Longrightarrow> number_end rest \<Longrightarrow>
     parse_value n (json_print v @ rest) = Some (v, rest)"
proof (induction arbitrary: n rest rule: json_wf.induct)
  case 1
  then obtain m where "n = Suc m" by (cases n) auto
  then show ?case by (simp add: skip_ws_solid parse_literal_def HasPrefix_def)
next
  case (2 b)
  then obtain m where "n = Suc m" by (cases n) (auto split: if_splits)
  then show ?case by (cases b) (simp_all add: skip_ws_solid parse_literal_def HasPrefix_def)
next
  case (3 k)
  then obtain m where n: "n = Suc m" by (cases n) auto
  obtain c t where ct: "FormatUint k = c # t" and "is_digit c" by (rule Format_Cons)
  with digit_chars [of c] have "\<not> json_space c" "c \<notin> {CHR 0x22, CHR ''{'', CHR ''[''}" by auto
  then show ?case
    using parse_literal_number [OF "3.prems"(2), of k] n ct by (auto simp: skip_ws_solid)
next
  case (4 t)
  then obtain m where "n = Suc m" by (cases n) (auto simp: json_quote_def)
  with 4 show ?case by (simp add: json_quote_def skip_ws_solid scan_escape unquote_escape)
next
  case (5 xs)
  then obtain m where n: "n = Suc m" by (cases n) auto
  show ?case
  proof (cases "xs = []")
    case False
    obtain c t where ct: "json_commas (map json_print xs) = c # t" "\<not> json_space c" "c \<noteq> CHR '']''"
      by (rule print_commas_hd [OF False]) (use "5.hyps" in auto)
    have "parse_elems m (json_commas (map json_print xs) @ CHR '']'' # rest) = Some (xs, rest)"
      using "5.IH" "5.prems" n False by (intro parse_elems_commas) auto
    with n ct show ?thesis by (simp add: skip_ws_solid)
  qed (use n in \<open>simp add: skip_ws_solid\<close>)
next
  case (6 ms)
  then obtain m where n: "n = Suc m" by (cases n) auto
  show ?case
  proof (cases "ms = []")
    case False
    then have "\<exists>t. json_commas (map print_member ms) = CHR 0x22 # t"
      by (cases ms) (simp_all add: commas_Cons json_quote_def)
    then obtain t where ct: "json_commas (map print_member ms) = CHR 0x22 # t" ..
    have "parse_members m (json_commas (map print_member ms) @ CHR ''}'' # rest) = Some (ms, rest)"
      using "6.IH" "6.prems" n False by (intro parse_members_commas) auto
    with n ct show ?thesis by (simp add: skip_ws_solid)
  qed (use n in \<open>simp add: skip_ws_solid\<close>)
qed

lemma json_decode_print: "json_wf v \<Longrightarrow> json_decode (json_print v) = Some v"
  using parse_print [of v "length (json_print v)" "[]"] by (simp add: json_decode_def skip_ws_def)

section \<open>The fuel is enough\<close>

lemma length_skip_ws: "length (skip_ws s) \<le> length s"
  by (simp add: skip_ws_def length_dropWhile_le)

lemma skip_ws_Cons: "skip_ws s = c # t \<Longrightarrow> length t < length s"
  using length_skip_ws [of s] by simp

lemma cons_raw_Some: "cons_raw p r = Some (a, b) \<longleftrightarrow> (\<exists>q. a = p @ q \<and> r = Some (q, b))"
  by (cases r) (auto simp: cons_raw_def)

lemma scan_string_length: "scan_string s = Some (raw, rest) \<Longrightarrow> length rest < length s"
proof (induction s arbitrary: raw rest rule: length_induct)
  case (1 s)
  show ?case
  proof (cases s)
    case (Cons c t)
    have IH: "\<And>u raw. length u \<le> length t \<Longrightarrow> scan_string u = Some (raw, rest) \<Longrightarrow> length rest < length u"
      using "1.IH" Cons by auto
    from "1.prems" show ?thesis
      by (auto simp: Cons scan_string.simps(2) [of c t] split: if_splits list.splits option.splits
          dest!: IH [rotated])
  qed (use "1.prems" in simp)
qed

lemma scan_number_length: "scan_number s = Some (t, rest) \<Longrightarrow> length rest < length s"
proof -
  have d: "length r < length u" if "scan_digits u = Some (t, r)" for u t r
  proof -
    from that have "u = t @ r" "t \<noteq> []" by (auto simp: scan_digits_def split: if_splits)
    then show ?thesis by simp
  qed
  have i: "length r < length u" if "scan_int u = Some (t, r)" for u t r
    using that d [of u t r] by (auto simp: scan_int_def split: list.splits if_splits)
  have f: "length r \<le> length u" if "scan_frac u = Some (t, r)" for u t r
    using that d by (fastforce simp: scan_frac_def cons_raw_Some split: list.splits if_splits)
  have e: "length r \<le> length u" if "scan_exp u = Some (t, r)" for u t r
    using that d by (fastforce simp: scan_exp_def cons_raw_Some split: list.splits if_splits)
  assume "scan_number s = Some (t, rest)"
  moreover obtain sg s1 where s1: "(case s of c # t \<Rightarrow> if c = CHR ''-'' then ([c], t) else ([], s)
      | [] \<Rightarrow> ([], [])) = (sg, s1)" and le: "length s1 \<le> length s"
    by (cases s; cases "hd s = CHR ''-''") auto
  ultimately obtain a s2 b s3 c where "scan_int s1 = Some (a, s2)" "scan_frac s2 = Some (b, s3)"
    "scan_exp s3 = Some (c, rest)"
    by (auto simp: scan_number_def split: option.splits)
  with i f e le show ?thesis by (meson le_less_trans less_le_trans)
qed

lemma parse_literal_length: "parse_literal s = Some (v, rest) \<Longrightarrow> length rest < length s"
  by (auto simp: parse_literal_def HasPrefix_iff split: if_splits dest: scan_number_length)

abbreviation fuel_ok :: "(nat \<Rightarrow> bytes \<Rightarrow> ('a \<times> bytes) option) \<Rightarrow> nat \<Rightarrow> bool" where
  "fuel_ok p n \<equiv> \<forall>s v rest. p n s = Some (v, rest) \<longrightarrow>
     length rest < length s \<and> (\<forall>m. length s \<le> m + length rest \<longrightarrow> p m s = Some (v, rest))"

lemma fuel_value_step:
  assumes e: "fuel_ok parse_elems n" and m: "fuel_ok parse_members n"
  shows "fuel_ok parse_value (Suc n)"
proof (intro allI impI)
  fix s v rest assume p: "parse_value (Suc n) s = Some (v, rest)"
  then obtain c t where ct: "skip_ws s = c # t" by (auto split: list.splits)
  note lt = skip_ws_Cons [OF ct]
  have lt2: "length u < length s" if "skip_ws t = d # u" for d u
    using skip_ws_Cons [OF that] lt by linarith
  consider (str) raw where "c = CHR 0x22" "scan_string t = Some (raw, rest)" "v = JStr (json_unquote raw)"
    | (o0) "c = CHR ''{''" "skip_ws t = CHR ''}'' # rest" "v = JObj []"
    | (obj) d u ms where "c = CHR ''{''" "skip_ws t = d # u" "d \<noteq> CHR ''}''"
        "parse_members n t = Some (ms, rest)" "v = JObj ms"
    | (a0) "c = CHR ''[''" "skip_ws t = CHR '']'' # rest" "v = JArr []"
    | (arr) d u xs where "c = CHR ''[''" "skip_ws t = d # u" "d \<noteq> CHR '']''"
        "parse_elems n t = Some (xs, rest)" "v = JArr xs"
    | (lit) "c \<notin> {CHR 0x22, CHR ''{'', CHR ''[''}" "parse_literal (c # t) = Some (v, rest)"
    using p ct by (auto split: if_splits list.splits)
  then have "length rest < length s \<and> (\<forall>j. length t \<le> j + length rest \<longrightarrow>
      parse_value (Suc j) s = Some (v, rest))"
  proof cases
    case str
    then show ?thesis using ct lt scan_string_length [OF str(2)] by simp
  next
    case o0
    then show ?thesis using ct lt2 by simp
  next
    case obj
    with m have "length rest < length t"
      "\<forall>j. length t \<le> j + length rest \<longrightarrow> parse_members j t = Some (ms, rest)" by blast+
    then show ?thesis using obj ct lt by simp
  next
    case a0
    then show ?thesis using ct lt2 by simp
  next
    case arr
    with e have "length rest < length t"
      "\<forall>j. length t \<le> j + length rest \<longrightarrow> parse_elems j t = Some (xs, rest)" by blast+
    then show ?thesis using arr ct lt by simp
  next
    case lit
    then show ?thesis using ct length_skip_ws [of s] parse_literal_length [OF lit(2)] by simp
  qed
  moreover have "\<exists>j. k = Suc j \<and> length t \<le> j + length rest" if "length s \<le> k + length rest"
    "length rest < length s" for k
    using that lt by (cases k) auto
  ultimately show "length rest < length s \<and>
      (\<forall>m. length s \<le> m + length rest \<longrightarrow> parse_value m s = Some (v, rest))" by blast
qed

lemma fuel_elems_step:
  assumes v: "fuel_ok parse_value n" and e: "fuel_ok parse_elems n"
  shows "fuel_ok parse_elems (Suc n)"
proof (intro allI impI)
  fix s xs rest assume p: "parse_elems (Suc n) s = Some (xs, rest)"
  then obtain x w d u where x: "parse_value n s = Some (x, w)" and d: "skip_ws w = d # u"
    by (auto split: option.splits list.splits)
  from v x have lw: "length w < length s"
    and pv: "\<And>m. length s \<le> m + length w \<Longrightarrow> parse_value m s = Some (x, w)" by blast+
  note lu = skip_ws_Cons [OF d]
  have "(d = CHR '']'' \<and> rest = u \<and> xs = [x]) \<or>
      (\<exists>ys. d = CHR '','' \<and> parse_elems n u = Some (ys, rest) \<and> xs = x # ys)"
    using p x d by (auto split: if_splits)
  then have "length rest < length s \<and> (\<forall>j. length s \<le> Suc j + length rest \<longrightarrow>
      parse_elems (Suc j) s = Some (xs, rest))"
  proof
    assume "d = CHR '']'' \<and> rest = u \<and> xs = [x]"
    then show ?thesis using lw lu d pv by simp
  next
    assume "\<exists>ys. d = CHR '','' \<and> parse_elems n u = Some (ys, rest) \<and> xs = x # ys"
    then obtain ys where ys: "d = CHR '',''" "parse_elems n u = Some (ys, rest)" "xs = x # ys" by blast
    with e have "length rest < length u"
      "\<And>m. length u \<le> m + length rest \<Longrightarrow> parse_elems m u = Some (ys, rest)" by blast+
    then show ?thesis using ys d pv lw lu by simp
  qed
  moreover have "\<exists>j. k = Suc j" if "length s \<le> k + length rest" "length rest < length s" for k
    using that by (cases k) auto
  ultimately show "length rest < length s \<and>
      (\<forall>m. length s \<le> m + length rest \<longrightarrow> parse_elems m s = Some (xs, rest))" by blast
qed

lemma fuel_members_step:
  assumes v: "fuel_ok parse_value n" and e: "fuel_ok parse_members n"
  shows "fuel_ok parse_members (Suc n)"
proof (intro allI impI)
  fix s xs rest assume p: "parse_members (Suc n) s = Some (xs, rest)"
  then obtain t raw a b x w d u where t: "skip_ws s = CHR 0x22 # t"
    and raw: "scan_string t = Some (raw, a)" and b: "skip_ws a = CHR '':'' # b"
    and x: "parse_value n b = Some (x, w)" and d: "skip_ws w = d # u"
    by (auto split: option.splits list.splits if_splits)
  from v x have lw: "length w < length b"
    and pv: "\<And>m. length b \<le> m + length w \<Longrightarrow> parse_value m b = Some (x, w)" by blast+
  have lb: "length b < length s"
    using skip_ws_Cons [OF t] scan_string_length [OF raw] skip_ws_Cons [OF b] by linarith
  note lu = skip_ws_Cons [OF d]
  have "(d = CHR ''}'' \<and> rest = u \<and> xs = [(json_unquote raw, x)]) \<or>
      (\<exists>ys. d = CHR '','' \<and> parse_members n u = Some (ys, rest) \<and> xs = (json_unquote raw, x) # ys)"
    using p t raw b x d by (auto split: if_splits)
  then have "length rest < length s \<and> (\<forall>j. length s \<le> Suc j + length rest \<longrightarrow>
      parse_members (Suc j) s = Some (xs, rest))"
  proof
    assume "d = CHR ''}'' \<and> rest = u \<and> xs = [(json_unquote raw, x)]"
    then show ?thesis using lw lu d pv t raw b lb by simp
  next
    assume "\<exists>ys. d = CHR '','' \<and> parse_members n u = Some (ys, rest) \<and> xs = (json_unquote raw, x) # ys"
    then obtain ys where ys: "d = CHR '',''" "parse_members n u = Some (ys, rest)"
      "xs = (json_unquote raw, x) # ys" by blast
    with e have "length rest < length u"
      "\<And>m. length u \<le> m + length rest \<Longrightarrow> parse_members m u = Some (ys, rest)" by blast+
    then show ?thesis using ys d pv lw lu t raw b lb by simp
  qed
  moreover have "\<exists>j. k = Suc j" if "length s \<le> k + length rest" "length rest < length s" for k
    using that by (cases k) auto
  ultimately show "length rest < length s \<and>
      (\<forall>m. length s \<le> m + length rest \<longrightarrow> parse_members m s = Some (xs, rest))" by blast
qed

lemma parse_fuel: "fuel_ok parse_value n" "fuel_ok parse_elems n" "fuel_ok parse_members n"
proof -
  have "fuel_ok parse_value n \<and> fuel_ok parse_elems n \<and> fuel_ok parse_members n"
  proof (induction n)
    case (Suc n)
    then show ?case
      using fuel_value_step [of n] fuel_elems_step [of n] fuel_members_step [of n] by blast
  qed simp
  then show "fuel_ok parse_value n" "fuel_ok parse_elems n" "fuel_ok parse_members n" by blast+
qed

text \<open>No document is rejected for lack of fuel: what any amount parses, \<open>length s\<close> parses.\<close>

lemma parse_value_fuel: "parse_value n s = Some (v, rest) \<Longrightarrow> parse_value (length s) s = Some (v, rest)"
  using parse_fuel(1) [rule_format, of n s v rest] by simp

section \<open>Base 64\<close>

text \<open>\<^verbatim>\<open>base64.StdEncoding\<close>, the JSON form of a \<^verbatim>\<open>[]byte\<close>. The decoder skips line breaks.\<close>

definition b64_char :: "nat \<Rightarrow> char" where
  "b64_char k =
     char_of (if k < 26 then 65 + k else if k < 52 then 71 + k else if k < 62 then k - 4
              else if k = 62 then 43 else 47)"

definition b64_value :: "char \<Rightarrow> nat option" where
  "b64_value c =
     (let x = ord c in
      if 65 \<le> x \<and> x \<le> 90 then Some (x - 65)
      else if 97 \<le> x \<and> x \<le> 122 then Some (x - 71)
      else if 48 \<le> x \<and> x \<le> 57 then Some (x + 4)
      else if x = 43 then Some 62
      else if x = 47 then Some 63
      else None)"

fun b64_encode :: "bytes \<Rightarrow> bytes" where
  "b64_encode [] = []"
| "b64_encode [a] = [b64_char (ord a div 4), b64_char (ord a mod 4 * 16), CHR ''='', CHR ''='']"
| "b64_encode [a, b] =
     [b64_char (ord a div 4), b64_char (ord a mod 4 * 16 + ord b div 16),
      b64_char (ord b mod 16 * 4), CHR ''='']"
| "b64_encode (a # b # c # s) =
     b64_char (ord a div 4) # b64_char (ord a mod 4 * 16 + ord b div 16) #
     b64_char (ord b mod 16 * 4 + ord c div 64) # b64_char (ord c mod 64) # b64_encode s"

fun b64_quads :: "bytes \<Rightarrow> bytes option" where
  "b64_quads [] = Some []"
| "b64_quads (a # b # c # d # s) =
     (case (b64_value a, b64_value b) of
        (Some x, Some y) \<Rightarrow>
          if c = CHR ''='' then
            (if d = CHR ''='' \<and> s = [] then Some [char_of (x * 4 + y div 16)] else None)
          else (case b64_value c of None \<Rightarrow> None
            | Some z \<Rightarrow>
                if d = CHR ''='' then
                  (if s = [] then Some [char_of (x * 4 + y div 16), char_of (y mod 16 * 16 + z div 4)]
                   else None)
                else (case b64_value d of None \<Rightarrow> None
                  | Some w \<Rightarrow>
                      map_option (\<lambda>r. char_of (x * 4 + y div 16) # char_of (y mod 16 * 16 + z div 4) #
                                      char_of (z mod 4 * 64 + w) # r) (b64_quads s)))
      | _ \<Rightarrow> None)"
| "b64_quads _ = None"

definition b64_decode :: "bytes \<Rightarrow> bytes option" where
  "b64_decode s = b64_quads (filter (\<lambda>c. c \<noteq> CHR 0x0D \<and> c \<noteq> CHR 0x0A) s)"

lemma b64_value_char [simp]: "k < 64 \<Longrightarrow> b64_value (b64_char k) = Some k"
  by (auto simp: b64_value_def b64_char_def Let_def)

lemma ord_b64_char: "k < 64 \<Longrightarrow>
  ord (b64_char k) = (if k < 26 then 65 + k else if k < 52 then 71 + k else if k < 62 then k - 4
    else if k = 62 then 43 else 47)"
  by (auto simp: b64_char_def)

lemma b64_char_plain:
  assumes "k < 64"
  shows "b64_char k \<noteq> CHR ''=''" "b64_char k \<noteq> CHR 0x0D" "b64_char k \<noteq> CHR 0x0A"
    and "ord (b64_char k) < 0x80"
  using ord_b64_char [OF assms] assms by (auto split: if_splits)

lemma byte_digits: "ord a div 4 < 64" "ord a div 16 < 16" "ord a div 64 < 4"
  using of_char_lt_256 [of a] by (simp_all add: less_mult_imp_div_less)

lemma b64_digits:
  "ord a mod 4 * 16 < 64" "ord a mod 4 * 16 + ord b div 16 < 64"
  "ord b mod 16 * 4 < 64" "ord b mod 16 * 4 + ord c div 64 < 64"
proof -
  have "ord a mod 4 < 4" "ord b mod 16 < 16" by simp_all
  with byte_digits [of b] byte_digits [of c] show "ord a mod 4 * 16 < 64"
    "ord a mod 4 * 16 + ord b div 16 < 64" "ord b mod 16 * 4 < 64"
    "ord b mod 16 * 4 + ord c div 64 < 64" by linarith+
qed

lemma b64_join:
  "ord a div 4 * 4 + (ord a mod 4 * 16 + ord b div 16) div 16 = ord a"
  "ord a div 4 * 4 + ord a mod 4 = ord a"
  "(ord a mod 4 * 16 + ord b div 16) mod 16 * 16 + (ord b mod 16 * 4 + ord c div 64) div 4 = ord b"
  "(ord a mod 4 * 16 + ord b div 16) mod 16 * 16 + ord b mod 16 = ord b"
  "(ord b mod 16 * 4 + ord c div 64) mod 4 * 64 + ord c mod 64 = ord c"
  using byte_digits [of b] byte_digits [of c] by simp_all

lemma b64_quads_encode: "b64_quads (b64_encode s) = Some s"
proof (induction s rule: b64_encode.induct)
  case (4 a b c s)
  then show ?case
    by (simp add: byte_digits b64_digits b64_char_plain b64_join)
qed (simp_all add: byte_digits b64_digits b64_char_plain b64_join)

lemma b64_encode_chars:
  "c \<in> set (b64_encode s) \<Longrightarrow> c \<noteq> CHR 0x0D \<and> c \<noteq> CHR 0x0A \<and> ord c < 0x80"
  by (induction s rule: b64_encode.induct)
    (auto simp: byte_digits b64_digits b64_char_plain)

lemma b64_decode_encode [simp]: "b64_decode (b64_encode s) = Some s"
proof -
  have "filter (\<lambda>c. c \<noteq> CHR 0x0D \<and> c \<noteq> CHR 0x0A) (b64_encode s) = b64_encode s"
    using b64_encode_chars [of _ s] by (auto intro: filter_True)
  then show ?thesis by (simp add: b64_decode_def b64_quads_encode)
qed

lemma b64_encode_utf8: "utf8_Valid (b64_encode s)"
  using b64_encode_chars [of _ s] by (intro utf8_Valid_ascii) (auto simp: list_all_iff)

section \<open>Structs\<close>

text \<open>
  Names match exactly, or else after folding: ASCII letters without case, and the two other
  runes that fold to ASCII letters, U+017F and U+212A.
\<close>

fun fold_key :: "bytes \<Rightarrow> bytes" where
  "fold_key [] = []"
| "fold_key (a # s) =
     (if 97 \<le> ord a \<and> ord a \<le> 122 then char_of (ord a - 32) # fold_key s
      else case s of
        b # t \<Rightarrow>
          if a = CHR 0xC5 \<and> b = CHR 0xBF then CHR ''S'' # fold_key t
          else (case t of
              c # u \<Rightarrow>
                if a = CHR 0xE2 \<and> b = CHR 0x84 \<and> c = CHR 0xAA then CHR ''K'' # fold_key u
                else a # fold_key s
            | [] \<Rightarrow> a # fold_key s)
      | [] \<Rightarrow> [a])"

type_synonym 'a field = "string \<times> (json \<Rightarrow> 'a \<Rightarrow> 'a option)"

definition find_field :: "'a field list \<Rightarrow> bytes \<Rightarrow> (json \<Rightarrow> 'a \<Rightarrow> 'a option) option" where
  "find_field fields key =
     (case map_of fields key of Some f \<Rightarrow> Some f
      | None \<Rightarrow> map_option snd (find (\<lambda>f. fold_key (fst f) = fold_key key) fields))"

fun obj_assign :: "'a field list \<Rightarrow> (bytes \<times> json) list \<Rightarrow> 'a \<Rightarrow> 'a option" where
  "obj_assign fields [] a = Some a"
| "obj_assign fields ((k, v) # ms) a =
     (case find_field fields k of None \<Rightarrow> None
      | Some f \<Rightarrow> (case f v a of None \<Rightarrow> None | Some a' \<Rightarrow> obj_assign fields ms a'))"

definition set_string :: "(string \<Rightarrow> 'a \<Rightarrow> 'a) \<Rightarrow> json \<Rightarrow> 'a \<Rightarrow> 'a option" where
  "set_string upd v a = (case v of JNull \<Rightarrow> Some a | JStr s \<Rightarrow> Some (upd s a) | _ \<Rightarrow> None)"

definition set_bool :: "(bool \<Rightarrow> 'a \<Rightarrow> 'a) \<Rightarrow> json \<Rightarrow> 'a \<Rightarrow> 'a option" where
  "set_bool upd v a = (case v of JNull \<Rightarrow> Some a | JBool b \<Rightarrow> Some (upd b a) | _ \<Rightarrow> None)"

definition set_uint64 :: "(uint64 \<Rightarrow> 'a \<Rightarrow> 'a) \<Rightarrow> json \<Rightarrow> 'a \<Rightarrow> 'a option" where
  "set_uint64 upd v a =
     (case v of JNull \<Rightarrow> Some a
      | JNum t \<Rightarrow> (case ParseUint 64 t of Inr n \<Rightarrow> Some (upd (of_nat n) a) | Inl _ \<Rightarrow> None)
      | _ \<Rightarrow> None)"

text \<open>A \<^verbatim>\<open>[]byte\<close> is a base 64 string; Go also takes an array of numbers, and \<^verbatim>\<open>null\<close> as nil.\<close>

fun byte_elems :: "json list \<Rightarrow> bytes option" where
  "byte_elems [] = Some []"
| "byte_elems (x # xs) =
     (case (case x of JNull \<Rightarrow> Some 0
              | JNum t \<Rightarrow> (case ParseUint 8 t of Inr n \<Rightarrow> Some n | Inl _ \<Rightarrow> None)
              | _ \<Rightarrow> None) of
        None \<Rightarrow> None
      | Some n \<Rightarrow> map_option (\<lambda>r. char_of n # r) (byte_elems xs))"

definition set_bytes :: "(bytes \<Rightarrow> 'a \<Rightarrow> 'a) \<Rightarrow> json \<Rightarrow> 'a \<Rightarrow> 'a option" where
  "set_bytes upd v a =
     (case v of JNull \<Rightarrow> Some (upd [] a)
      | JStr s \<Rightarrow> map_option (\<lambda>b. upd b a) (b64_decode s)
      | JArr xs \<Rightarrow> map_option (\<lambda>b. upd b a) (byte_elems xs)
      | _ \<Rightarrow> None)"

definition set_struct ::
  "'b field list \<Rightarrow> ('a \<Rightarrow> 'b) \<Rightarrow> ('b \<Rightarrow> 'a \<Rightarrow> 'a) \<Rightarrow> json \<Rightarrow> 'a \<Rightarrow> 'a option" where
  "set_struct fields get upd v a =
     (case v of JNull \<Rightarrow> Some a
      | JObj ms \<Rightarrow> map_option (\<lambda>b. upd b a) (obj_assign fields ms (get a))
      | _ \<Rightarrow> None)"

definition decode_struct :: "'a field list \<Rightarrow> 'a \<Rightarrow> bytes \<Rightarrow> 'a option" where
  "decode_struct fields zero s =
     (case json_decode s of None \<Rightarrow> None | Some v \<Rightarrow> set_struct fields (\<lambda>a. a) (\<lambda>b _. b) v zero)"

abbreviation JUint :: "uint64 \<Rightarrow> json" where
  "JUint w \<equiv> JNum (FormatUint (unat w))"

lemma set_simps [simp]:
  "set_string f (JStr s) a = Some (f s a)" "set_bool g (JBool b) a = Some (g b a)"
  "set_uint64 h (JUint w) a = Some (h w a)" "set_bytes k (JStr (b64_encode bs)) a = Some (k bs a)"
  "set_struct fields get upd (JObj ms) a = map_option (\<lambda>b. upd b a) (obj_assign fields ms (get a))"
  using unat_lt_2p [of w]
  by (simp_all add: set_string_def set_bool_def set_uint64_def set_bytes_def set_struct_def
      ParseUint_Format)

lemma find_field_exact: "map_of fields k = Some f \<Longrightarrow> find_field fields k = Some f"
  by (simp add: find_field_def)

lemma decode_struct_print:
  assumes "json_wf (JObj ms)" and "obj_assign fields ms zero = Some a"
  shows "decode_struct fields zero (json_print (JObj ms)) = Some a"
  using assms json_decode_print [OF assms(1)] by (simp add: decode_struct_def del: json_print.simps)

end
