(* ===== verification/Gen_Protocol.thy ===== *)
theory Gen_Protocol
  imports Gen_Descriptor FI_Json FI_Codec
begin

text \<open>
  Package \<^verbatim>\<open>transportgeneration\<close>, files \<^verbatim>\<open>signed_json.go\<close> and \<^verbatim>\<open>protocol.go\<close>: the JSON form of
  a signed generation, and the three JSON messages that source and receiver exchange around
  a transfer (offer, decision, acknowledgement), each behind a magic and a length.

  The decoder is \<^verbatim>\<open>encoding/json\<close> with \<^verbatim>\<open>DisallowUnknownFields\<close> and no trailing value, as in
  \<^verbatim>\<open>FI_Json\<close>; an undecodable value and a trailing one give the same error here. The nil checks
  of the code on its writer, reader and destination have no counterpart.
\<close>

section \<open>JSON messages\<close>

text \<open>
  The contract of a message type: what \<^verbatim>\<open>json.Marshal\<close> makes of a valid value is decoded,
  through the struct's fields, to the same value.
\<close>

locale json_message =
  fixes valid :: "'a \<Rightarrow> bool"
    and members :: "'a \<Rightarrow> (bytes \<times> json) list"
    and fields :: "'a field list"
    and zero_value :: 'a
  assumes wf: "valid x \<Longrightarrow> json_wf (JObj (members x))"
    and assign: "valid x \<Longrightarrow> obj_assign fields (members x) zero_value = Some x"
begin

lemma decode_members:
  "valid x \<Longrightarrow> decode_struct fields zero_value (json_print (JObj (members x))) = Some x"
  by (rule decode_struct_print [OF wf assign])

end

section \<open>Sizes of JSON texts\<close>

lemma length_escape_ascii: "length (escape_ascii a) \<le> 6"
  by (simp add: escape_ascii_def Let_def)

lemma length_escape3: "length (escape3 a b c) \<le> 6"
  by (simp add: escape3_def)

lemma length_json_escape: "length (json_escape s) \<le> 6 * length s"
proof (induction s rule: length_induct)
  case (1 s)
  show ?case
  proof (cases s)
    case (Cons a t)
    have IH: "length (json_escape (drop k t)) \<le> 6 * length (drop k t)" for k
      using 1 Cons by (metis length_Cons length_drop diff_le_self le_imp_less_Suc)
    have "length (json_escape (a # t)) \<le> 6 * length (a # t)"
      unfolding json_escape.simps(2) [of a t]
      using IH [of 0] IH [of 1] IH [of 2] IH [of 3] length_escape_ascii [of a]
        length_escape3 [of a "t ! 0" "t ! 1"]
      by (auto simp: escape_invalid_def numeral_2_eq_2 numeral_3_eq_3 split: list.split)
    with Cons show ?thesis by simp
  qed simp
qed

lemma length_json_quote: "length (json_quote s) \<le> 6 * length s + 2"
  using length_json_escape [of s] by (simp add: json_quote_def)

lemma length_FormatUint: "n < 10 ^ Suc k \<Longrightarrow> length (FormatUint n) \<le> Suc k"
proof (induction k arbitrary: n)
  case 0
  then show ?case by (simp add: FormatUint.simps [of n])
next
  case (Suc k)
  then have "n div 10 < 10 ^ Suc k" by (simp add: less_mult_imp_div_less mult.commute)
  from Suc.IH [OF this] show ?case by (simp add: FormatUint.simps [of n])
qed

lemma length_Format_uint64: "length (FormatUint (unat (w :: uint64))) \<le> 20"
proof -
  have "unat w < 10 ^ Suc 19" using unat_lt_2p [of w] by simp
  from length_FormatUint [OF this] show ?thesis by simp
qed

definition plain_json :: "char \<Rightarrow> bool" where
  "plain_json c \<longleftrightarrow> escape_ascii c = [c] \<and> ord c < 0x80"

lemma length_json_plain: "list_all plain_json s \<Longrightarrow> length (json_quote s) = length s + 2"
proof -
  assume "list_all plain_json s"
  then have "json_escape s = s" by (induction s) (simp_all add: plain_json_def json_escape.simps(2))
  then show ?thesis by (simp add: json_quote_def)
qed

lemma plain_jsonI:
  "32 \<le> ord c \<Longrightarrow> ord c < 128 \<Longrightarrow> ord c \<notin> {34, 38, 60, 62, 92} \<Longrightarrow> plain_json c"
proof -
  assume r: "32 \<le> ord c" "ord c < 128" "ord c \<notin> {34, 38, 60, 62, 92}"
  have "c \<noteq> d" if "ord d < 32 \<or> ord d \<in> {34, 38, 60, 62, 92}" for d
    using r that by fastforce
  then have "c \<noteq> CHR 0x22" "c \<noteq> CHR 0x5C" "c \<noteq> CHR 0x08" "c \<noteq> CHR 0x0C" "c \<noteq> CHR 0x0A"
    "c \<noteq> CHR 0x0D" "c \<noteq> CHR 0x09" "c \<noteq> CHR ''<''" "c \<noteq> CHR ''>''" "c \<noteq> CHR ''&''"
    by simp_all
  with r show ?thesis by (simp add: plain_json_def escape_ascii_def)
qed

lemma hex_plain_json: "is_lower_hex c \<Longrightarrow> plain_json c"
  by (rule plain_jsonI) (auto simp: is_lower_hex_def Let_def)

lemma b64_plain_json: "k < 64 \<Longrightarrow> plain_json (b64_char k)"
  using ord_b64_char [of k] by (intro plain_jsonI) (auto split: if_splits)

lemma b64_encode_plain: "list_all plain_json (b64_encode s)"
  by (induction s rule: b64_encode.induct)
    (simp_all add: byte_digits b64_digits b64_plain_json plain_json_def [of "CHR ''=''"]
      escape_ascii_def)

lemma length_b64_encode: "3 * length (b64_encode s) \<le> 4 * (length s + 2)"
  by (induction s rule: b64_encode.induct) simp_all


section \<open>Signed generation metadata\<close>

definition descriptor_members :: "generation_descriptor \<Rightarrow> (bytes \<times> json) list" where
  "descriptor_members d =
     [(''version'', JStr (gd_Version d)), (''source_id'', JStr (gd_SourceID d)),
      (''generation_id'', JStr (gd_GenerationID d)),
      (''canonical_version'', JStr (gd_CanonicalVersion d)),
      (''data_encoding'', JStr (gd_DataEncoding d)),
      (''artifact_count'', JUint (gd_ArtifactCount d)), (''source_bytes'', JUint (gd_SourceBytes d)),
      (''canonical_bytes'', JUint (gd_CanonicalBytes d)),
      (''canonical_sha256'', JStr (gd_CanonicalSHA256 d)),
      (''encoded_data_bytes'', JUint (gd_EncodedDataBytes d)),
      (''encoded_data_sha256'', JStr (gd_EncodedDataSHA256 d))]"

definition descriptor_field_list :: "generation_descriptor field list" where
  "descriptor_field_list =
     [(''version'', set_string (\<lambda>x d. d\<lparr>gd_Version := x\<rparr>)),
      (''source_id'', set_string (\<lambda>x d. d\<lparr>gd_SourceID := x\<rparr>)),
      (''generation_id'', set_string (\<lambda>x d. d\<lparr>gd_GenerationID := x\<rparr>)),
      (''canonical_version'', set_string (\<lambda>x d. d\<lparr>gd_CanonicalVersion := x\<rparr>)),
      (''data_encoding'', set_string (\<lambda>x d. d\<lparr>gd_DataEncoding := x\<rparr>)),
      (''artifact_count'', set_uint64 (\<lambda>x d. d\<lparr>gd_ArtifactCount := x\<rparr>)),
      (''source_bytes'', set_uint64 (\<lambda>x d. d\<lparr>gd_SourceBytes := x\<rparr>)),
      (''canonical_bytes'', set_uint64 (\<lambda>x d. d\<lparr>gd_CanonicalBytes := x\<rparr>)),
      (''canonical_sha256'', set_string (\<lambda>x d. d\<lparr>gd_CanonicalSHA256 := x\<rparr>)),
      (''encoded_data_bytes'', set_uint64 (\<lambda>x d. d\<lparr>gd_EncodedDataBytes := x\<rparr>)),
      (''encoded_data_sha256'', set_string (\<lambda>x d. d\<lparr>gd_EncodedDataSHA256 := x\<rparr>))]"

definition zero_descriptor :: generation_descriptor where
  "zero_descriptor =
     \<lparr>gd_Version = [], gd_SourceID = [], gd_GenerationID = [], gd_CanonicalVersion = [],
      gd_DataEncoding = [], gd_ArtifactCount = 0, gd_SourceBytes = 0, gd_CanonicalBytes = 0,
      gd_CanonicalSHA256 = [], gd_EncodedDataBytes = 0, gd_EncodedDataSHA256 = []\<rparr>"

definition signedgen_members :: "signed_generation \<Rightarrow> (bytes \<times> json) list" where
  "signedgen_members v =
     [(''version'', JStr (gs_Version v)), (''descriptor'', JObj (descriptor_members (gs_Descriptor v))),
      (''signature'', JStr (b64_encode (gs_Signature v))),
      (''batch_signing_certificate_der'', JStr (b64_encode (gs_BatchSigningCertificateDER v)))]"

definition signedgen_field_list :: "signed_generation field list" where
  "signedgen_field_list =
     [(''version'', set_string (\<lambda>x v. v\<lparr>gs_Version := x\<rparr>)),
      (''descriptor'', set_struct descriptor_field_list gs_Descriptor (\<lambda>x v. v\<lparr>gs_Descriptor := x\<rparr>)),
      (''signature'', set_bytes (\<lambda>x v. v\<lparr>gs_Signature := x\<rparr>)),
      (''batch_signing_certificate_der'',
         set_bytes (\<lambda>x v. v\<lparr>gs_BatchSigningCertificateDER := x\<rparr>))]"

definition zero_signedgen :: signed_generation where
  "zero_signedgen =
     \<lparr>gs_Version = [], gs_Descriptor = zero_descriptor, gs_Signature = [],
      gs_BatchSigningCertificateDER = []\<rparr>"

definition SignedGenerationMetadataName :: string where
  "SignedGenerationMetadataName = ''signed-generation.json''"

definition maxSignedGenerationMetadataBytes :: nat where
  "maxSignedGenerationMetadataBytes = 512 * 1024"

datatype metadata_error =
    MetaGeneration generation_error
  | MetaKeyRequired
  | MetaSize
  | MetaDecode

definition validateSignedGenerationCryptographically ::
  "x509_lib \<Rightarrow> signed_generation \<Rightarrow> metadata_error option" where
  "validateSignedGenerationCryptographically L v =
     (case signedgen_Validate L v of Some e \<Rightarrow> Some (MetaGeneration e) | None \<Rightarrow>
     (case gen_BatchSigningCertificate L v of Inl e \<Rightarrow> Some (MetaGeneration e) | Inr certificate \<Rightarrow>
     (case cert_PublicKey certificate of None \<Rightarrow> Some MetaKeyRequired | Some publicKey \<Rightarrow>
      map_option MetaGeneration (VerifySignedGenerationSignature L v (Some publicKey)))))"

definition MarshalSignedGeneration :: "x509_lib \<Rightarrow> signed_generation \<Rightarrow> metadata_error + bytes" where
  "MarshalSignedGeneration L v =
     bindE (check (validateSignedGenerationCryptographically L v)) (\<lambda>_.
     let raw = json_print (JObj (signedgen_members v)) in
     if raw = [] \<or> length raw > maxSignedGenerationMetadataBytes then Inl MetaSize else Inr raw)"

definition UnmarshalSignedGeneration :: "x509_lib \<Rightarrow> bytes \<Rightarrow> metadata_error + signed_generation" where
  "UnmarshalSignedGeneration L raw =
     (if raw = [] \<or> length raw > maxSignedGenerationMetadataBytes then Inl MetaSize
      else case decode_struct signedgen_field_list zero_signedgen raw of
        None \<Rightarrow> Inl MetaDecode
      | Some v \<Rightarrow> bindE (check (validateSignedGenerationCryptographically L v)) (\<lambda>_. Inr v))"

section \<open>Transfers and messages\<close>

definition OfferMagic :: string where "OfferMagic = ''FIGO0001''"
definition DecisionMagic :: string where "DecisionMagic = ''FIGD0001''"
definition AcknowledgementMagic :: string where "AcknowledgementMagic = ''FIGA0001''"
definition OfferVersion :: string where "OfferVersion = ''fi-generation-offer/0.1''"
definition DecisionVersion :: string where "DecisionVersion = ''fi-generation-decision/0.1''"

definition gen_AcknowledgementVersion :: string where
  "gen_AcknowledgementVersion = ''fi-generation-acknowledgement/0.1''"

definition AcknowledgementOutcomeRecorded :: string where
  "AcknowledgementOutcomeRecorded = ''recorded''"

definition AcknowledgementOutcomeAlreadyRecorded :: string where
  "AcknowledgementOutcomeAlreadyRecorded = ''already_recorded''"

definition protocolHeaderBytes :: nat where "protocolHeaderBytes = 12"
definition maxProtocolJSONBytes :: nat where "maxProtocolJSONBytes = 64 * 1024"
definition TransferMagic :: string where "TransferMagic = ''FIGT0001''"
definition transferHeaderBytes :: nat where "transferHeaderBytes = 20"

record generation_offer =
  go_Version :: string
  go_Descriptor :: generation_descriptor
  go_MetadataBytes :: uint64
  go_MetadataSHA256 :: string

record generation_decision =
  de_Version :: string
  de_SourceID :: string
  de_GenerationID :: string
  de_Accepted :: bool
  de_Reason :: string

record generation_acknowledgement =
  ga_Version :: string
  ga_Outcome :: string
  ga_Descriptor :: generation_descriptor
  ga_MetadataBytes :: uint64
  ga_MetadataSHA256 :: string
  ga_TransferBytes :: uint64
  ga_TransferSHA256 :: string

record transfer_result =
  tr_Descriptor :: generation_descriptor
  tr_MetadataBytes :: uint64
  tr_MetadataSHA256 :: string
  tr_PayloadBytes :: uint64
  tr_PayloadSHA256 :: string
  tr_TransferBytes :: uint64
  tr_TransferSHA256 :: string

datatype protocol_error =
    ProtoGeneration generation_error
  | ProtoBadVersion
  | ProtoMetadataBounds
  | ProtoPathSeparator
  | ProtoAcceptedReason
  | ProtoReasonRequired
  | ProtoIdentityMismatch
  | ProtoBadOutcome
  | ProtoOverflow
  | ProtoTransferBytes
  | ProtoDescriptorMismatch
  | ProtoMetadataMismatch
  | ProtoTransferMismatch
  | ProtoMagicLength
  | ProtoJSONSize
  | ProtoWrite io_error
  | ProtoRead string io_error
  | ProtoBadMagic
  | ProtoBadLength
  | ProtoDecode

abbreviation as_proto :: "generation_error option \<Rightarrow> protocol_error option" where
  "as_proto \<equiv> map_option ProtoGeneration"

definition bad_metadata_bytes :: "uint64 \<Rightarrow> bool" where
  "bad_metadata_bytes n \<longleftrightarrow> n = 0 \<or> n > of_nat maxSignedGenerationMetadataBytes"

definition offer_Validate :: "generation_offer \<Rightarrow> protocol_error option" where
  "offer_Validate v =
     first_err
       [fail_if (go_Version v \<noteq> OfferVersion) ProtoBadVersion,
        as_proto (gen_Validate (go_Descriptor v)),
        fail_if (bad_metadata_bytes (go_MetadataBytes v)) ProtoMetadataBounds,
        as_proto (gen_validateSHA256 ''metadata SHA-256'' (go_MetadataSHA256 v))]"

definition decision_Validate :: "generation_decision \<Rightarrow> protocol_error option" where
  "decision_Validate v =
     first_err
       [fail_if (de_Version v \<noteq> DecisionVersion) ProtoBadVersion,
        as_proto (validateTextIdentity ''source ID'' (de_SourceID v)),
        as_proto (validateTextIdentity ''generation ID'' (de_GenerationID v)),
        fail_if (ContainsAny (de_GenerationID v) [CHR ''/'', CHR 0x5C]) ProtoPathSeparator,
        (if de_Accepted v then fail_if (de_Reason v \<noteq> []) ProtoAcceptedReason
         else fail_if (validateTextIdentity ''decision reason'' (de_Reason v) \<noteq> None)
           ProtoReasonRequired)]"

definition NewDecision :: "generation_offer \<Rightarrow> bool \<Rightarrow> string \<Rightarrow> protocol_error + generation_decision" where
  "NewDecision offer accepted reason =
     bindE (check (offer_Validate offer)) (\<lambda>_.
     let v = \<lparr>de_Version = DecisionVersion, de_SourceID = gd_SourceID (go_Descriptor offer),
              de_GenerationID = gd_GenerationID (go_Descriptor offer), de_Accepted = accepted,
              de_Reason = reason\<rparr>
     in bindE (check (decision_Validate v)) (\<lambda>_. Inr v))"

definition DecisionMatchesOffer :: "generation_decision \<Rightarrow> generation_offer \<Rightarrow> protocol_error option" where
  "DecisionMatchesOffer v offer =
     first_err
       [decision_Validate v, offer_Validate offer,
        fail_if (de_SourceID v \<noteq> gd_SourceID (go_Descriptor offer) \<or>
                 de_GenerationID v \<noteq> gd_GenerationID (go_Descriptor offer)) ProtoIdentityMismatch]"

text \<open>The byte count of a transfer with both overflow guards, as three functions repeat it.\<close>

definition expected_transfer_bytes :: "uint64 \<Rightarrow> uint64 \<Rightarrow> uint64 option" where
  "expected_transfer_bytes metadataBytes payloadBytes =
     (let expected = of_nat transferHeaderBytes in
      if metadataBytes > -1 - expected then None
      else let expected = expected + metadataBytes in
      if payloadBytes > -1 - expected then None
      else Some (expected + payloadBytes))"

definition genack_Validate :: "generation_acknowledgement \<Rightarrow> protocol_error option" where
  "genack_Validate v =
     first_err
       [fail_if (ga_Version v \<noteq> gen_AcknowledgementVersion) ProtoBadVersion,
        fail_if (ga_Outcome v \<noteq> AcknowledgementOutcomeRecorded \<and>
                 ga_Outcome v \<noteq> AcknowledgementOutcomeAlreadyRecorded) ProtoBadOutcome,
        as_proto (gen_Validate (ga_Descriptor v)),
        fail_if (bad_metadata_bytes (ga_MetadataBytes v)) ProtoMetadataBounds,
        as_proto (gen_validateSHA256 ''metadata SHA-256'' (ga_MetadataSHA256 v)),
        as_proto (gen_validateSHA256 ''transfer SHA-256'' (ga_TransferSHA256 v)),
        (case expected_transfer_bytes (ga_MetadataBytes v) (gd_EncodedDataBytes (ga_Descriptor v)) of
           None \<Rightarrow> Some ProtoOverflow
         | Some expected \<Rightarrow> fail_if (ga_TransferBytes v \<noteq> expected) ProtoTransferBytes)]"

definition NewAcknowledgement ::
  "string \<Rightarrow> transfer_result \<Rightarrow> protocol_error + generation_acknowledgement" where
  "NewAcknowledgement outcome r =
     (let v = \<lparr>ga_Version = gen_AcknowledgementVersion, ga_Outcome = outcome,
               ga_Descriptor = tr_Descriptor r, ga_MetadataBytes = tr_MetadataBytes r,
               ga_MetadataSHA256 = tr_MetadataSHA256 r, ga_TransferBytes = tr_TransferBytes r,
               ga_TransferSHA256 = tr_TransferSHA256 r\<rparr>
      in bindE (check (genack_Validate v)) (\<lambda>_. Inr v))"

definition AcknowledgementMatches ::
  "generation_acknowledgement \<Rightarrow> transfer_result \<Rightarrow> protocol_error option" where
  "AcknowledgementMatches v r =
     first_err
       [genack_Validate v,
        as_proto (gen_Validate (tr_Descriptor r)),
        fail_if (ga_Descriptor v \<noteq> tr_Descriptor r) ProtoDescriptorMismatch,
        fail_if (ga_MetadataBytes v \<noteq> tr_MetadataBytes r \<or>
                 ga_MetadataSHA256 v \<noteq> tr_MetadataSHA256 r) ProtoMetadataMismatch,
        fail_if (ga_TransferBytes v \<noteq> tr_TransferBytes r \<or>
                 ga_TransferSHA256 v \<noteq> tr_TransferSHA256 r) ProtoTransferMismatch]"

section \<open>The wire form of a message\<close>

definition writeProtocolJSON ::
  "'s write_fn \<Rightarrow> 's \<Rightarrow> string \<Rightarrow> json \<Rightarrow> protocol_error option \<times> 's" where
  "writeProtocolJSON wr s magic v =
     (if length magic \<noteq> 8 then (Some ProtoMagicLength, s)
      else let raw = json_print v in
      if raw = [] \<or> length raw > maxProtocolJSONBytes then (Some ProtoJSONSize, s)
      else let header = fixed_header protocolHeaderBytes
             [(0, 8, magic), (8, 12, be_PutUint32 (of_nat (length raw)))]
      in case writeParts wr s [header, raw] of (r, s') \<Rightarrow> (map_option ProtoWrite r, s'))"

definition readProtocolJSON ::
  "'a field list \<Rightarrow> 'a \<Rightarrow> string \<Rightarrow> bytes \<Rightarrow> protocol_error + 'a \<times> bytes" where
  "readProtocolJSON flds zero_value expectedMagic s =
     bindE (map_err (ProtoRead ''header'') (ReadFull protocolHeaderBytes s)) (\<lambda>(header, s).
     if slice 0 8 header \<noteq> expectedMagic then Inl ProtoBadMagic
     else let n = be_Uint32 (slice 8 12 header) in
     if n = 0 \<or> n > of_nat maxProtocolJSONBytes then Inl ProtoBadLength
     else bindE (map_err (ProtoRead ''JSON'') (ReadFull (unat n) s)) (\<lambda>(raw, s).
     case decode_struct flds zero_value raw of None \<Rightarrow> Inl ProtoDecode | Some v \<Rightarrow> Inr (v, s)))"

definition offer_members :: "generation_offer \<Rightarrow> (bytes \<times> json) list" where
  "offer_members v =
     [(''version'', JStr (go_Version v)), (''descriptor'', JObj (descriptor_members (go_Descriptor v))),
      (''metadata_bytes'', JUint (go_MetadataBytes v)),
      (''metadata_sha256'', JStr (go_MetadataSHA256 v))]"

definition offer_field_list :: "generation_offer field list" where
  "offer_field_list =
     [(''version'', set_string (\<lambda>x v. v\<lparr>go_Version := x\<rparr>)),
      (''descriptor'', set_struct descriptor_field_list go_Descriptor (\<lambda>x v. v\<lparr>go_Descriptor := x\<rparr>)),
      (''metadata_bytes'', set_uint64 (\<lambda>x v. v\<lparr>go_MetadataBytes := x\<rparr>)),
      (''metadata_sha256'', set_string (\<lambda>x v. v\<lparr>go_MetadataSHA256 := x\<rparr>))]"

definition zero_offer :: generation_offer where
  "zero_offer = \<lparr>go_Version = [], go_Descriptor = zero_descriptor, go_MetadataBytes = 0,
     go_MetadataSHA256 = []\<rparr>"

definition decision_members :: "generation_decision \<Rightarrow> (bytes \<times> json) list" where
  "decision_members v =
     [(''version'', JStr (de_Version v)), (''source_id'', JStr (de_SourceID v)),
      (''generation_id'', JStr (de_GenerationID v)), (''accepted'', JBool (de_Accepted v))] @
     (if de_Reason v = [] then [] else [(''reason'', JStr (de_Reason v))])"

definition decision_field_list :: "generation_decision field list" where
  "decision_field_list =
     [(''version'', set_string (\<lambda>x v. v\<lparr>de_Version := x\<rparr>)),
      (''source_id'', set_string (\<lambda>x v. v\<lparr>de_SourceID := x\<rparr>)),
      (''generation_id'', set_string (\<lambda>x v. v\<lparr>de_GenerationID := x\<rparr>)),
      (''accepted'', set_bool (\<lambda>x v. v\<lparr>de_Accepted := x\<rparr>)),
      (''reason'', set_string (\<lambda>x v. v\<lparr>de_Reason := x\<rparr>))]"

definition zero_decision :: generation_decision where
  "zero_decision = \<lparr>de_Version = [], de_SourceID = [], de_GenerationID = [], de_Accepted = False,
     de_Reason = []\<rparr>"

definition genack_members :: "generation_acknowledgement \<Rightarrow> (bytes \<times> json) list" where
  "genack_members v =
     [(''version'', JStr (ga_Version v)), (''outcome'', JStr (ga_Outcome v)),
      (''descriptor'', JObj (descriptor_members (ga_Descriptor v))),
      (''metadata_bytes'', JUint (ga_MetadataBytes v)),
      (''metadata_sha256'', JStr (ga_MetadataSHA256 v)),
      (''transfer_bytes'', JUint (ga_TransferBytes v)),
      (''transfer_sha256'', JStr (ga_TransferSHA256 v))]"

definition genack_field_list :: "generation_acknowledgement field list" where
  "genack_field_list =
     [(''version'', set_string (\<lambda>x v. v\<lparr>ga_Version := x\<rparr>)),
      (''outcome'', set_string (\<lambda>x v. v\<lparr>ga_Outcome := x\<rparr>)),
      (''descriptor'', set_struct descriptor_field_list ga_Descriptor (\<lambda>x v. v\<lparr>ga_Descriptor := x\<rparr>)),
      (''metadata_bytes'', set_uint64 (\<lambda>x v. v\<lparr>ga_MetadataBytes := x\<rparr>)),
      (''metadata_sha256'', set_string (\<lambda>x v. v\<lparr>ga_MetadataSHA256 := x\<rparr>)),
      (''transfer_bytes'', set_uint64 (\<lambda>x v. v\<lparr>ga_TransferBytes := x\<rparr>)),
      (''transfer_sha256'', set_string (\<lambda>x v. v\<lparr>ga_TransferSHA256 := x\<rparr>))]"

definition zero_genack :: generation_acknowledgement where
  "zero_genack = \<lparr>ga_Version = [], ga_Outcome = [], ga_Descriptor = zero_descriptor,
     ga_MetadataBytes = 0, ga_MetadataSHA256 = [], ga_TransferBytes = 0, ga_TransferSHA256 = []\<rparr>"

definition WriteOffer :: "'s write_fn \<Rightarrow> 's \<Rightarrow> generation_offer \<Rightarrow> protocol_error option \<times> 's" where
  "WriteOffer wr s v =
     (case offer_Validate v of Some e \<Rightarrow> (Some e, s)
      | None \<Rightarrow> writeProtocolJSON wr s OfferMagic (JObj (offer_members v)))"

definition ReadOffer :: "bytes \<Rightarrow> protocol_error + generation_offer \<times> bytes" where
  "ReadOffer s =
     bindE (readProtocolJSON offer_field_list zero_offer OfferMagic s) (\<lambda>(v, s).
     bindE (check (offer_Validate v)) (\<lambda>_. Inr (v, s)))"

definition WriteDecision :: "'s write_fn \<Rightarrow> 's \<Rightarrow> generation_decision \<Rightarrow> protocol_error option \<times> 's" where
  "WriteDecision wr s v =
     (case decision_Validate v of Some e \<Rightarrow> (Some e, s)
      | None \<Rightarrow> writeProtocolJSON wr s DecisionMagic (JObj (decision_members v)))"

definition ReadDecision :: "bytes \<Rightarrow> protocol_error + generation_decision \<times> bytes" where
  "ReadDecision s =
     bindE (readProtocolJSON decision_field_list zero_decision DecisionMagic s) (\<lambda>(v, s).
     bindE (check (decision_Validate v)) (\<lambda>_. Inr (v, s)))"

definition gen_WriteAcknowledgement ::
  "'s write_fn \<Rightarrow> 's \<Rightarrow> generation_acknowledgement \<Rightarrow> protocol_error option \<times> 's" where
  "gen_WriteAcknowledgement wr s v =
     (case genack_Validate v of Some e \<Rightarrow> (Some e, s)
      | None \<Rightarrow> writeProtocolJSON wr s AcknowledgementMagic (JObj (genack_members v)))"

definition gen_ReadAcknowledgement ::
  "bytes \<Rightarrow> protocol_error + generation_acknowledgement \<times> bytes" where
  "gen_ReadAcknowledgement s =
     bindE (readProtocolJSON genack_field_list zero_genack AcknowledgementMagic s) (\<lambda>(v, s).
     bindE (check (genack_Validate v)) (\<lambda>_. Inr (v, s)))"


section \<open>One message on the wire\<close>

text \<open>What the peer of a written message receives, whatever the message.\<close>

context json_message
begin

definition frame :: "string \<Rightarrow> 'a \<Rightarrow> bytes" where
  "frame magic x = (let raw = json_print (JObj (members x)) in magic @ len32 raw @ raw)"

lemma written_frame:
  assumes "io_writer wr contents" and "writeProtocolJSON wr s magic (JObj (members x)) = (None, s')"
  shows "contents s' = contents s @ frame magic x" and "length magic = 8"
    and "length (json_print (JObj (members x))) \<le> maxProtocolJSONBytes"
proof -
  let ?raw = "json_print (JObj (members x))"
  let ?fs = "[(0, 8, magic), (8, 12, be_PutUint32 (of_nat (length ?raw)))]"
  from assms(2) show m: "length magic = 8" and "length ?raw \<le> maxProtocolJSONBytes"
    by (auto simp: writeProtocolJSON_def Let_def split: if_splits)
  from assms(2) have w: "writeParts wr s [fixed_header 12 ?fs, ?raw] = (None, s')"
    by (auto simp: writeProtocolJSON_def Let_def protocolHeaderBytes_def
        split: if_splits prod.splits)
  have "fixed_header 12 ?fs = fields_bytes ?fs"
    using m by (intro fixed_header_contiguous) simp_all
  with io_writer.writeParts_ok [OF assms(1) w]
  show "contents s' = contents s @ frame magic x"
    by (simp add: frame_def len32_def Let_def)
qed

lemma frame_written:
  assumes "length magic = 8" and "length (json_print (JObj (members x))) \<le> maxProtocolJSONBytes"
  shows "writeProtocolJSON buffer_Write s magic (JObj (members x)) = (None, s @ frame magic x)"
proof -
  let ?raw = "json_print (JObj (members x))"
  let ?fs = "[(0, 8, magic), (8, 12, be_PutUint32 (of_nat (length ?raw)))]"
  have "fixed_header 12 ?fs = fields_bytes ?fs"
    using assms by (intro fixed_header_contiguous) simp_all
  with assms show ?thesis
    by (simp add: writeProtocolJSON_def frame_def len32_def Let_def protocolHeaderBytes_def)
qed

lemma read_frame:
  assumes "valid x" and "length magic = 8"
    and "length (json_print (JObj (members x))) \<le> maxProtocolJSONBytes"
  shows "readProtocolJSON fields zero_value magic (frame magic x @ rest) = Inr (x, rest)"
proof -
  let ?raw = "json_print (JObj (members x))"
  have h: "ReadFull 12 ((magic @ len32 ?raw) @ ?raw @ rest) = Inr (magic @ len32 ?raw, ?raw @ rest)"
    using assms by (intro ReadFull_append) simp
  have n: "unat (be_Uint32 (len32 ?raw)) = length ?raw"
    using assms(3) by (intro unat_len32) (simp add: maxProtocolJSONBytes_def)
  have "be_Uint32 (len32 ?raw) \<noteq> 0"
    using n by (auto simp: unat_eq_zero [symmetric])
  moreover have "\<not> be_Uint32 (len32 ?raw) > of_nat maxProtocolJSONBytes"
    using n assms(3) by (simp add: word_less_nat_alt maxProtocolJSONBytes_def unat_of_nat_small)
  ultimately show ?thesis
    using h n assms(1,2) decode_members [OF assms(1)]
    by (simp add: readProtocolJSON_def frame_def Let_def protocolHeaderBytes_def slice_simps
        del: json_print.simps)
qed

lemma truncated_frame:
  assumes "length magic = 8" and "k < length (frame magic x)"
    and "length (json_print (JObj (members x))) \<le> maxProtocolJSONBytes"
  shows "\<exists>e. readProtocolJSON fields zero_value magic (take k (frame magic x)) = Inl e"
proof (cases "k < 12")
  case True
  then have "\<exists>e. ReadFull 12 (take k (frame magic x)) = Inl e"
    by (intro ReadFull_short) simp
  then show ?thesis by (auto simp: readProtocolJSON_def protocolHeaderBytes_def)
next
  case False
  let ?raw = "json_print (JObj (members x))"
  have split: "take k (frame magic x) = (magic @ len32 ?raw) @ take (k - 12) ?raw"
    using False assms(1) by (simp add: frame_def Let_def)
  have h: "ReadFull 12 ((magic @ len32 ?raw) @ take (k - 12) ?raw) =
      Inr (magic @ len32 ?raw, take (k - 12) ?raw)"
    using assms(1) by (intro ReadFull_append) simp
  have n: "unat (be_Uint32 (len32 ?raw)) = length ?raw"
    using assms(3) by (intro unat_len32) (simp add: maxProtocolJSONBytes_def)
  have "k - 12 < length ?raw" using assms(1,2) False by (simp add: frame_def Let_def)
  then have "\<exists>e. ReadFull (length ?raw) (take (k - 12) ?raw) = Inl e"
    by (intro ReadFull_short) simp
  then obtain e where e: "ReadFull (length ?raw) (take (k - 12) ?raw) = Inl e" by blast
  show ?thesis
    using assms(1) e h n
    by (simp add: readProtocolJSON_def split protocolHeaderBytes_def slice_simps Let_def
        del: json_print.simps)
qed

end

section \<open>The messages keep the contract\<close>

lemma sha256_plain_json: "sha256_text s \<Longrightarrow> list_all plain_json s"
  using hex_plain_json by (auto simp: sha256_text_def list_all_iff)

lemma sha256_text_utf8: "sha256_text s \<Longrightarrow> utf8_Valid s"
  by (rule utf8_Valid_ascii, drule sha256_plain_json) (simp add: list_all_iff plain_json_def)

lemmas json_wfs = json_wf.intros(2,3,4)

lemma json_wf_JObj: "list_all (\<lambda>m. utf8_Valid (fst m) \<and> json_wf (snd m)) ms \<Longrightarrow> json_wf (JObj ms)"
  by (rule json_wf.intros) (auto simp: list_all_iff)

lemma versions_utf8:
  "utf8_Valid gen_DescriptorVersion" "utf8_Valid CanonicalVersion" "utf8_Valid DataEncodingZstd"
  "utf8_Valid SignedGenerationVersion" "utf8_Valid OfferVersion" "utf8_Valid DecisionVersion"
  "utf8_Valid gen_AcknowledgementVersion" "utf8_Valid AcknowledgementOutcomeRecorded"
  "utf8_Valid AcknowledgementOutcomeAlreadyRecorded"
  by (simp_all add: utf8_Valid_ascii gen_DescriptorVersion_def CanonicalVersion_def
      DataEncodingZstd_def SignedGenerationVersion_def OfferVersion_def DecisionVersion_def
      gen_AcknowledgementVersion_def AcknowledgementOutcomeRecorded_def
      AcknowledgementOutcomeAlreadyRecorded_def)

lemma descriptor_json_wf: "gen_Validate d = None \<Longrightarrow> json_wf (JObj (descriptor_members d))"
  by (rule json_wf_JObj)
    (simp add: descriptor_members_def gen_Validate_None validateTextIdentity_None json_wfs
      versions_utf8 sha256_text_utf8 utf8_Valid_ascii)

lemma descriptor_assign:
  "obj_assign descriptor_field_list (descriptor_members d) d0 = Some d"
  by (simp add: descriptor_members_def descriptor_field_list_def find_field_def)

interpretation signedgen_json:
  json_message "\<lambda>v. signedgen_Validate L v = None" signedgen_members signedgen_field_list
    zero_signedgen
proof
  fix v assume v: "signedgen_Validate L v = None"
  then show "json_wf (JObj (signedgen_members v))"
    by (intro json_wf_JObj) (simp add: signedgen_members_def signedgen_Validate_None json_wfs
        versions_utf8 utf8_Valid_ascii descriptor_json_wf b64_encode_utf8)
  show "obj_assign signedgen_field_list (signedgen_members v) zero_signedgen = Some v"
    by (simp add: signedgen_members_def signedgen_field_list_def find_field_def descriptor_assign)
qed

lemma offer_Validate_None:
  "offer_Validate v = None \<longleftrightarrow>
     go_Version v = OfferVersion \<and> gen_Validate (go_Descriptor v) = None \<and>
     \<not> bad_metadata_bytes (go_MetadataBytes v) \<and> sha256_text (go_MetadataSHA256 v)"
  by (auto simp: offer_Validate_def)

lemma decision_Validate_None:
  "decision_Validate v = None \<longleftrightarrow>
     de_Version v = DecisionVersion \<and> validateTextIdentity ''source ID'' (de_SourceID v) = None \<and>
     validateTextIdentity ''generation ID'' (de_GenerationID v) = None \<and>
     \<not> ContainsAny (de_GenerationID v) [CHR ''/'', CHR 0x5C] \<and>
     (if de_Accepted v then de_Reason v = []
      else validateTextIdentity ''decision reason'' (de_Reason v) = None)"
  by (auto simp: decision_Validate_def)

lemma genack_Validate_None:
  "genack_Validate v = None \<longleftrightarrow>
     ga_Version v = gen_AcknowledgementVersion \<and>
     (ga_Outcome v = AcknowledgementOutcomeRecorded \<or>
      ga_Outcome v = AcknowledgementOutcomeAlreadyRecorded) \<and>
     gen_Validate (ga_Descriptor v) = None \<and> \<not> bad_metadata_bytes (ga_MetadataBytes v) \<and>
     sha256_text (ga_MetadataSHA256 v) \<and> sha256_text (ga_TransferSHA256 v) \<and>
     expected_transfer_bytes (ga_MetadataBytes v) (gd_EncodedDataBytes (ga_Descriptor v)) =
       Some (ga_TransferBytes v)"
  by (auto simp: genack_Validate_def split: option.splits)

interpretation offer_json:
  json_message "\<lambda>v. offer_Validate v = None" offer_members offer_field_list zero_offer
proof
  fix v assume v: "offer_Validate v = None"
  then show "json_wf (JObj (offer_members v))"
    by (intro json_wf_JObj) (simp add: offer_members_def offer_Validate_None json_wfs
        versions_utf8 utf8_Valid_ascii descriptor_json_wf sha256_text_utf8)
  show "obj_assign offer_field_list (offer_members v) zero_offer = Some v"
    by (simp add: offer_members_def offer_field_list_def find_field_def descriptor_assign)
qed

interpretation decision_json:
  json_message "\<lambda>v. decision_Validate v = None" decision_members decision_field_list zero_decision
proof
  fix v assume v: "decision_Validate v = None"
  then show "json_wf (JObj (decision_members v))"
    by (intro json_wf_JObj) (auto simp: decision_members_def decision_Validate_None json_wfs
        versions_utf8 utf8_Valid_ascii validateTextIdentity_None split: if_splits)
  show "obj_assign decision_field_list (decision_members v) zero_decision = Some v"
    by (simp add: decision_members_def decision_field_list_def find_field_def zero_decision_def)
qed

interpretation genack_json:
  json_message "\<lambda>v. genack_Validate v = None" genack_members genack_field_list zero_genack
proof
  fix v assume v: "genack_Validate v = None"
  then show "json_wf (JObj (genack_members v))"
    by (intro json_wf_JObj) (auto simp: genack_members_def genack_Validate_None json_wfs
        versions_utf8 utf8_Valid_ascii descriptor_json_wf sha256_text_utf8)
  show "obj_assign genack_field_list (genack_members v) zero_genack = Some v"
    by (simp add: genack_members_def genack_field_list_def find_field_def descriptor_assign)
qed


section \<open>Every valid value fits its bound\<close>

lemma length_json_commas: "length (json_commas xs) \<le> sum_list (map (\<lambda>x. length x + 1) xs)"
  by (induction xs rule: json_commas.induct) auto

lemma length_json_object:
  "length (json_print (JObj ms)) \<le>
     2 + sum_list (map (\<lambda>m. 6 * length (fst m) + 4 + length (json_print (snd m))) ms)"
proof -
  let ?f = "\<lambda>m. json_quote (fst m) @ CHR '':'' # json_print (snd m)"
  have "length (json_commas (map ?f ms)) \<le> sum_list (map (\<lambda>m. length (?f m) + 1) ms)"
    using length_json_commas [of "map ?f ms"] by (simp add: comp_def)
  also have "\<dots> \<le> sum_list (map (\<lambda>m. 6 * length (fst m) + 4 + length (json_print (snd m))) ms)"
    by (intro sum_list_mono) (use length_json_quote in \<open>auto intro: order.trans\<close>)
  finally show ?thesis by simp
qed

lemma length_json_string: "length s \<le> n \<Longrightarrow> length (json_print (JStr s)) \<le> 6 * n + 2"
  using length_json_quote [of s] by simp

lemma length_json_uint: "length (json_print (JUint w)) \<le> 20"
  using length_Format_uint64 [of w] by simp

lemma length_json_digest: "sha256_text s \<Longrightarrow> length (json_print (JStr s)) = 66"
  by (simp add: length_json_plain sha256_plain_json) (simp add: sha256_text_def)

lemma length_json_base64: "3 * length (json_print (JStr (b64_encode s))) \<le> 4 * length s + 14"
  using length_b64_encode [of s] by (simp add: length_json_plain b64_encode_plain)

lemma descriptor_json_size:
  assumes "gen_Validate d = None"
  shows "length (json_print (JObj (descriptor_members d))) \<le> 51000"
proof -
  from assms have t: "length (gd_SourceID d) \<le> 4096" "length (gd_GenerationID d) \<le> 4096"
    "length (gd_Version d) \<le> 28" "length (gd_CanonicalVersion d) \<le> 27" "length (gd_DataEncoding d) \<le> 4"
    and h: "sha256_text (gd_CanonicalSHA256 d)" "sha256_text (gd_EncodedDataSHA256 d)"
    by (auto simp: gen_Validate_None validateTextIdentity_None gen_DescriptorVersion_def
        CanonicalVersion_def DataEncodingZstd_def)
  note b = t [THEN length_json_string]
    length_json_uint [of "gd_ArtifactCount d"] length_json_uint [of "gd_SourceBytes d"]
    length_json_uint [of "gd_CanonicalBytes d"] length_json_uint [of "gd_EncodedDataBytes d"]
    h [THEN length_json_digest]
  show ?thesis
    using length_json_object [of "descriptor_members d"] b
    by (simp add: descriptor_members_def del: json_print.simps)
qed

lemma offer_json_size:
  assumes "offer_Validate v = None"
  shows "length (json_print (JObj (offer_members v))) \<le> maxProtocolJSONBytes"
proof -
  from assms have d: "gen_Validate (go_Descriptor v) = None" and "length (go_Version v) \<le> 23"
    and h: "sha256_text (go_MetadataSHA256 v)"
    by (auto simp: offer_Validate_None OfferVersion_def)
  then show ?thesis
    using length_json_object [of "offer_members v"] length_json_string [of "go_Version v" 23]
      length_json_uint [of "go_MetadataBytes v"] length_json_digest [OF h] descriptor_json_size [OF d]
    by (simp add: offer_members_def maxProtocolJSONBytes_def del: json_print.simps)
qed

lemma genack_json_size:
  assumes "genack_Validate v = None"
  shows "length (json_print (JObj (genack_members v))) \<le> maxProtocolJSONBytes"
proof -
  from assms have d: "gen_Validate (ga_Descriptor v) = None"
    and t: "length (ga_Version v) \<le> 33" "length (ga_Outcome v) \<le> 16"
    and h: "sha256_text (ga_MetadataSHA256 v)" "sha256_text (ga_TransferSHA256 v)"
    by (auto simp: genack_Validate_None gen_AcknowledgementVersion_def
        AcknowledgementOutcomeRecorded_def AcknowledgementOutcomeAlreadyRecorded_def)
  show ?thesis
    using length_json_object [of "genack_members v"] t [THEN length_json_string]
      length_json_uint [of "ga_MetadataBytes v"] length_json_uint [of "ga_TransferBytes v"]
      h [THEN length_json_digest] descriptor_json_size [OF d]
    by (simp add: genack_members_def maxProtocolJSONBytes_def del: json_print.simps)
qed

lemma signedgen_json_size:
  assumes "signedgen_Validate L v = None"
  shows "length (json_print (JObj (signedgen_members v))) \<le> maxSignedGenerationMetadataBytes"
proof -
  from assms have d: "gen_Validate (gs_Descriptor v) = None" and t: "length (gs_Version v) \<le> 24"
    and l: "length (gs_Signature v) \<le> 16384" "length (gs_BatchSigningCertificateDER v) \<le> 131072"
    by (auto simp: signedgen_Validate_None SignedGenerationVersion_def maxGenerationSignatureBytes_def
        maxGenerationCertificateDERBytes_def)
  show ?thesis
    using length_json_object [of "signedgen_members v"] t [THEN length_json_string] l
      length_json_base64 [of "gs_Signature v"] length_json_base64 [of "gs_BatchSigningCertificateDER v"]
      descriptor_json_size [OF d]
    by (simp add: signedgen_members_def maxSignedGenerationMetadataBytes_def del: json_print.simps)
qed


section \<open>Metadata\<close>

lemma validateCryptographically_None:
  "validateSignedGenerationCryptographically L v = None \<longleftrightarrow>
     signedgen_Validate L v = None \<and>
     (\<exists>c key. gen_BatchSigningCertificate L v = Inr c \<and> cert_PublicKey c = Some key \<and>
        VerifySignedGenerationSignature L v (Some key) = None)"
  by (auto simp: validateSignedGenerationCryptographically_def gen_BatchSigningCertificate_def
      split: option.splits sum.splits)

lemma Marshal_Unmarshal:
  assumes "validateSignedGenerationCryptographically L v = None"
  shows "\<exists>raw. MarshalSignedGeneration L v = Inr raw \<and> UnmarshalSignedGeneration L raw = Inr v \<and>
    raw \<noteq> [] \<and> length raw \<le> maxSignedGenerationMetadataBytes"
proof -
  from assms have v: "signedgen_Validate L v = None" by (simp add: validateCryptographically_None)
  have "json_print (JObj (signedgen_members v)) \<noteq> []" by simp
  with assms signedgen_json_size [OF v] signedgen_json.decode_members [OF v] show ?thesis
    by (auto simp: MarshalSignedGeneration_def UnmarshalSignedGeneration_def Let_def
        simp del: json_print.simps)
qed

text \<open>
  C37: The metadata file of a generation loses nothing: what \<^verbatim>\<open>NewSignedGeneration\<close> returns can
  always be marshalled (its JSON stays within the 512 KiB bound for every identity, signature
  and certificate the validation admits), and unmarshalling those bytes gives back the same
  signed generation, signature and certificate included.
\<close>

theorem signed_generation_metadata_roundtrip:
  assumes "NewSignedGeneration L d cert sg = Inr v"
    and "\<And>der c. ParseCertificate L der = Some c \<Longrightarrow> cert_Raw c = der"
  shows "\<exists>raw. MarshalSignedGeneration L v = Inr raw \<and>
    length raw \<le> maxSignedGenerationMetadataBytes \<and> UnmarshalSignedGeneration L raw = Inr v"
proof -
  from NewSignedGeneration_verified [OF assms]
  have "validateSignedGenerationCryptographically L v = None"
    by (auto simp: validateCryptographically_None)
  from Marshal_Unmarshal [OF this] show ?thesis by blast
qed

lemma Unmarshal_Inr:
  "UnmarshalSignedGeneration L raw = Inr v \<Longrightarrow> validateSignedGenerationCryptographically L v = None"
  by (auto simp: UnmarshalSignedGeneration_def split: if_splits option.splits)

text \<open>
  C38: No metadata is accepted without a signature over the descriptor it carries: if
  \<^verbatim>\<open>UnmarshalSignedGeneration\<close> returns a generation, whatever the bytes, its descriptor is
  valid, the embedded certificate parses, is not a CA, names the descriptor's source, may
  sign, and the PSS signature verifies under its key over the descriptor's signature input.
\<close>

theorem unmarshalled_generation_signed:
  assumes "UnmarshalSignedGeneration L raw = Inr v"
  shows "\<exists>c key input. ParseCertificate L (gs_BatchSigningCertificateDER v) = Some c \<and>
    \<not> cert_IsCA c \<and> EqualFold L (cert_CommonName c) (gd_SourceID (gs_Descriptor v)) \<and>
    cert_KeyUsage c AND KeyUsageDigitalSignature \<noteq> 0 \<and> cert_PublicKey c = Some key \<and>
    gen_SignatureInput (gs_Descriptor v) = Inr input \<and>
    VerifyPSS L key (Sum256 input) (gs_Signature v)"
proof -
  from Unmarshal_Inr [OF assms] obtain c key where v: "signedgen_Validate L v = None"
    and c: "gen_BatchSigningCertificate L v = Inr c" "cert_PublicKey c = Some key"
    and sig: "VerifySignedGenerationSignature L v (Some key) = None"
    by (auto simp: validateCryptographically_None)
  from v c(1) have p: "ParseCertificate L (gs_BatchSigningCertificateDER v) = Some c"
    and r: "validateGenerationCertificateRole L (gs_Descriptor v) c = None"
    and d: "gen_Validate (gs_Descriptor v) = None"
    by (auto simp: gen_BatchSigningCertificate_def signedgen_Validate_None split: option.splits)
  from d sig have "gen_SignatureInput (gs_Descriptor v) = Inr (generation_signed_bytes (gs_Descriptor v))"
    and "VerifyPSS L key (Sum256 (generation_signed_bytes (gs_Descriptor v))) (gs_Signature v)"
    by (simp_all add: gen_SignatureInput_Inr VerifySignedGenerationSignature_None)
  with p r c show ?thesis by (auto simp: validateGenerationCertificateRole_def)
qed

section \<open>Delivery\<close>

lemma WriteOffer_delivered:
  assumes w: "io_writer wr contents" and o: "WriteOffer wr s v = (None, s')"
  shows "delivered ReadOffer (contents s) (contents s') v"
proof -
  from o have v: "offer_Validate v = None"
    and p: "writeProtocolJSON wr s OfferMagic (JObj (offer_members v)) = (None, s')"
    by (auto simp: WriteOffer_def split: option.splits)
  note f = offer_json.written_frame [OF w p]
  from v offer_json.read_frame [OF v f(2,3)] offer_json.truncated_frame [OF f(2) _ f(3)] f(1)
  show ?thesis by (fastforce simp: delivered_def ReadOffer_def)
qed

lemma WriteDecision_delivered:
  assumes w: "io_writer wr contents" and o: "WriteDecision wr s v = (None, s')"
  shows "delivered ReadDecision (contents s) (contents s') v"
proof -
  from o have v: "decision_Validate v = None"
    and p: "writeProtocolJSON wr s DecisionMagic (JObj (decision_members v)) = (None, s')"
    by (auto simp: WriteDecision_def split: option.splits)
  note f = decision_json.written_frame [OF w p]
  from v decision_json.read_frame [OF v f(2,3)] decision_json.truncated_frame [OF f(2) _ f(3)] f(1)
  show ?thesis by (fastforce simp: delivered_def ReadDecision_def)
qed

lemma WriteAcknowledgement_delivered:
  assumes w: "io_writer wr contents" and o: "gen_WriteAcknowledgement wr s v = (None, s')"
  shows "delivered gen_ReadAcknowledgement (contents s) (contents s') v"
proof -
  from o have v: "genack_Validate v = None"
    and p: "writeProtocolJSON wr s AcknowledgementMagic (JObj (genack_members v)) = (None, s')"
    by (auto simp: gen_WriteAcknowledgement_def split: option.splits)
  note f = genack_json.written_frame [OF w p]
  from v genack_json.read_frame [OF v f(2,3)] genack_json.truncated_frame [OF f(2) _ f(3)] f(1)
  show ?thesis by (fastforce simp: delivered_def gen_ReadAcknowledgement_def)
qed

text \<open>
  C39: The three protocol messages arrive as they were sent: over any writer that keeps the
  contract of \<^verbatim>\<open>io.Writer\<close>, an offer, a decision or an acknowledgement written without error is
  read back by the peer as the same value, and leaves what follows it on the stream; a
  message cut short anywhere is an error for the reader.
\<close>

theorem protocol_messages_delivered:
  assumes "io_writer wr contents"
  shows "(WriteOffer wr s offer = (None, s1) \<longrightarrow>
            delivered ReadOffer (contents s) (contents s1) offer) \<and>
    (WriteDecision wr s decision = (None, s2) \<longrightarrow>
       delivered ReadDecision (contents s) (contents s2) decision) \<and>
    (gen_WriteAcknowledgement wr s ack = (None, s3) \<longrightarrow>
       delivered gen_ReadAcknowledgement (contents s) (contents s3) ack)"
  using WriteOffer_delivered [OF assms] WriteDecision_delivered [OF assms]
    WriteAcknowledgement_delivered [OF assms] by blast

text \<open>
  Every valid offer and every valid acknowledgement can be sent: their JSON never exceeds
  the 64 KiB message bound, even when every byte of both identities is escaped, so on a
  buffer the writers succeed.
\<close>

theorem valid_messages_fit:
  "(offer_Validate offer = None \<longrightarrow> (\<exists>s'. WriteOffer buffer_Write s offer = (None, s'))) \<and>
   (genack_Validate ack = None \<longrightarrow> (\<exists>s'. gen_WriteAcknowledgement buffer_Write s ack = (None, s')))"
  using offer_json.frame_written [OF _ offer_json_size] genack_json.frame_written [OF _ genack_json_size]
  by (auto simp: WriteOffer_def gen_WriteAcknowledgement_def OfferMagic_def AcknowledgementMagic_def)

section \<open>What an acknowledgement says\<close>

lemma expected_transfer_bytes_Some:
  "expected_transfer_bytes m p = Some e \<longleftrightarrow>
     20 + unat m + unat p < 2 ^ 64 \<and> unat e = 20 + unat m + unat p"
proof -
  have u: "unat (of_nat transferHeaderBytes :: uint64) = 20"
    by (simp add: transferHeaderBytes_def)
  let ?h = "of_nat transferHeaderBytes :: uint64"
  show ?thesis
  proof (cases "m > -1 - ?h")
    case True
    then show ?thesis using add_guard [of ?h m] u by (simp add: expected_transfer_bytes_def)
  next
    case False
    then have hm: "unat (?h + m) = 20 + unat m" using unat_add_guarded [where a = ?h and b = m] u by simp
    show ?thesis
    proof (cases "p > -1 - (?h + m)")
      case True
      then show ?thesis using False add_guard [of "?h + m" p] hm
        by (simp add: expected_transfer_bytes_def)
    next
      case p: False
      then have "unat (?h + m + p) = 20 + unat m + unat p"
        using unat_add_guarded [where a = "?h + m" and b = p] hm by simp
      moreover have "unat (?h + m + p) < 2 ^ 64" using unat_lt_2p [of "?h + m + p"] by simp
      moreover have "expected_transfer_bytes m p = Some (?h + m + p)"
        using False p by (simp add: expected_transfer_bytes_def Let_def)
      moreover have "e = ?h + m + p \<longleftrightarrow> unat e = unat (?h + m + p)" by (rule word_unat_eq_iff)
      ultimately show ?thesis by (metis option.inject)
    qed
  qed
qed

lemma AcknowledgementMatches_None:
  "AcknowledgementMatches v r = None \<longleftrightarrow>
     genack_Validate v = None \<and> ga_Descriptor v = tr_Descriptor r \<and>
     ga_MetadataBytes v = tr_MetadataBytes r \<and> ga_MetadataSHA256 v = tr_MetadataSHA256 r \<and>
     ga_TransferBytes v = tr_TransferBytes r \<and> ga_TransferSHA256 v = tr_TransferSHA256 r"
  by (auto simp: AcknowledgementMatches_def genack_Validate_None)

text \<open>
  C40: An acknowledgement is bound to one transfer. The acknowledgement that a receiver makes
  of its transfer result is accepted by a sender for the sender's own result exactly when the
  two ends agree on descriptor, metadata size and digest, and transfer size and digest; and
  it then certifies, with no wrap-around, that the transfer was the 20 byte header, the
  metadata and the encoded payload of the signed size.
\<close>

theorem acknowledgement_binds_transfer:
  assumes "NewAcknowledgement outcome r = Inr a"
  shows "(AcknowledgementMatches a r' = None \<longleftrightarrow>
      tr_Descriptor r' = tr_Descriptor r \<and> tr_MetadataBytes r' = tr_MetadataBytes r \<and>
      tr_MetadataSHA256 r' = tr_MetadataSHA256 r \<and> tr_TransferBytes r' = tr_TransferBytes r \<and>
      tr_TransferSHA256 r' = tr_TransferSHA256 r) \<and>
    unat (tr_TransferBytes r) =
      20 + unat (tr_MetadataBytes r) + unat (gd_EncodedDataBytes (tr_Descriptor r))"
proof -
  from assms have v: "genack_Validate a = None" and
    a: "ga_Descriptor a = tr_Descriptor r" "ga_MetadataBytes a = tr_MetadataBytes r"
      "ga_MetadataSHA256 a = tr_MetadataSHA256 r" "ga_TransferBytes a = tr_TransferBytes r"
      "ga_TransferSHA256 a = tr_TransferSHA256 r"
    by (auto simp: NewAcknowledgement_def Let_def)
  then show ?thesis
    by (auto simp: AcknowledgementMatches_None genack_Validate_None expected_transfer_bytes_Some)
qed

text \<open>
  A decision made for an offer always answers that offer and no other generation: it
  matches the offer it was made from, and it matches another valid offer only if that offer
  is for the same source and generation. A rejection always carries a reason, an acceptance
  never does.
\<close>

theorem decision_answers_offer:
  assumes "NewDecision offer accepted reason = Inr v"
  shows "DecisionMatchesOffer v offer = None \<and>
    (DecisionMatchesOffer v other = None \<longleftrightarrow>
       offer_Validate other = None \<and>
       gd_SourceID (go_Descriptor other) = gd_SourceID (go_Descriptor offer) \<and>
       gd_GenerationID (go_Descriptor other) = gd_GenerationID (go_Descriptor offer)) \<and>
    (accepted \<longleftrightarrow> de_Reason v = [])"
  using assms
  by (auto simp: NewDecision_def Let_def DecisionMatchesOffer_def decision_Validate_None
      validateTextIdentity_None split: if_splits)


section \<open>Sample messages\<close>

lemma sample_lib_parse: "ParseCertificate sample_lib der = Some c \<Longrightarrow> cert_Raw c = der"
  by (auto simp: sample_lib_def sample_certificate_def split: if_splits)

theorem signed_generation_metadata_roundtrip_witness:
  "\<exists>raw. MarshalSignedGeneration sample_lib sample_signed_generation = Inr raw \<and>
     UnmarshalSignedGeneration sample_lib raw = Inr sample_signed_generation"
  using signed_generation_metadata_roundtrip [OF NewSignedGeneration_sample sample_lib_parse] by blast

lemma sample_metadata:
  "\<exists>raw. MarshalSignedGeneration sample_lib sample_signed_generation = Inr raw \<and>
     UnmarshalSignedGeneration sample_lib raw = Inr sample_signed_generation \<and> raw \<noteq> [] \<and>
     length raw \<le> maxSignedGenerationMetadataBytes"
proof -
  have "signedgen_Validate sample_lib sample_signed_generation = None"
    by (rule sample_signed_generation_valid)
  with NewSignedGeneration_verified [OF NewSignedGeneration_sample sample_lib_parse]
  have "validateSignedGenerationCryptographically sample_lib sample_signed_generation = None"
    by (auto simp: validateCryptographically_None)
  from Marshal_Unmarshal [OF this] show ?thesis .
qed

theorem unmarshalled_generation_signed_witness:
  "\<exists>raw. UnmarshalSignedGeneration sample_lib raw = Inr sample_signed_generation \<and>
     (\<exists>c key input. ParseCertificate sample_lib ''DER'' = Some c \<and> \<not> cert_IsCA c \<and>
        cert_PublicKey c = Some key \<and> gen_SignatureInput sample_generation = Inr input \<and>
        VerifyPSS sample_lib key (Sum256 input) (gs_Signature sample_signed_generation))"
proof -
  from sample_metadata obtain raw
    where raw: "UnmarshalSignedGeneration sample_lib raw = Inr sample_signed_generation" by blast
  have s: "gs_BatchSigningCertificateDER sample_signed_generation = ''DER''"
    "gs_Descriptor sample_signed_generation = sample_generation"
    by (simp_all add: sample_signed_generation_def)
  from unmarshalled_generation_signed [OF raw, unfolded s] raw show ?thesis by blast
qed

definition sample_offer :: generation_offer where
  "sample_offer = \<lparr>go_Version = OfferVersion, go_Descriptor = sample_generation,
     go_MetadataBytes = 700, go_MetadataSHA256 = hex_EncodeToString sample_digest\<rparr>"

definition sample_result :: transfer_result where
  "sample_result = \<lparr>tr_Descriptor = sample_generation, tr_MetadataBytes = 700,
     tr_MetadataSHA256 = hex_EncodeToString sample_digest, tr_PayloadBytes = 40,
     tr_PayloadSHA256 = hex_EncodeToString sample_digest, tr_TransferBytes = 760,
     tr_TransferSHA256 = hex_EncodeToString sample_digest\<rparr>"

lemma sample_offer_valid: "offer_Validate sample_offer = None"
  using sample_generation_valid
  by (simp add: offer_Validate_None sample_offer_def bad_metadata_bytes_def
      maxSignedGenerationMetadataBytes_def)

lemma sample_acknowledgement:
  "\<exists>a. NewAcknowledgement AcknowledgementOutcomeRecorded sample_result = Inr a \<and>
       genack_Validate a = None"
proof -
  have "gd_EncodedDataBytes sample_generation = 40" by (simp add: sample_generation_def)
  then show ?thesis
    using sample_generation_valid
    by (simp add: NewAcknowledgement_def Let_def genack_Validate_None sample_result_def
        expected_transfer_bytes_Some bad_metadata_bytes_def maxSignedGenerationMetadataBytes_def)
qed

lemma sample_decision:
  "\<exists>v. NewDecision sample_offer False ''disk full'' = Inr v \<and> decision_Validate v = None"
  using sample_offer_valid sample_generation_valid
  by (simp add: NewDecision_def Let_def decision_Validate_None gen_Validate_None sample_offer_def
      validateTextIdentity_None utf8_Valid_ascii ContainsAny_def ascii_space_def space2_def space3_def)

theorem valid_messages_fit_witness:
  "offer_Validate sample_offer = None \<and> (\<exists>s. WriteOffer buffer_Write [] sample_offer = (None, s)) \<and>
   (\<exists>a s. NewAcknowledgement AcknowledgementOutcomeRecorded sample_result = Inr a \<and>
      gen_WriteAcknowledgement buffer_Write [] a = (None, s))"
  using valid_messages_fit [of sample_offer "[]"] sample_offer_valid sample_acknowledgement by blast

theorem protocol_messages_delivered_witness:
  "\<exists>s. WriteOffer buffer_Write ''x'' sample_offer = (None, s) \<and>
     delivered ReadOffer ''x'' s sample_offer"
proof -
  obtain s where "WriteOffer buffer_Write ''x'' sample_offer = (None, s)"
    using offer_json.frame_written [OF _ offer_json_size [OF sample_offer_valid], of OfferMagic]
    by (auto simp: WriteOffer_def OfferMagic_def sample_offer_valid)
  with protocol_messages_delivered [OF buffer.io_writer_axioms] show ?thesis by blast
qed

theorem acknowledgement_binds_transfer_witness:
  "\<exists>a. NewAcknowledgement AcknowledgementOutcomeRecorded sample_result = Inr a \<and>
     AcknowledgementMatches a sample_result = None \<and>
     AcknowledgementMatches a (sample_result\<lparr>tr_TransferBytes := 761\<rparr>) \<noteq> None"
proof -
  from sample_acknowledgement obtain a
    where a: "NewAcknowledgement AcknowledgementOutcomeRecorded sample_result = Inr a" by blast
  from acknowledgement_binds_transfer [OF a, of sample_result]
    acknowledgement_binds_transfer [OF a, of "sample_result\<lparr>tr_TransferBytes := 761\<rparr>"] a
  show ?thesis by (simp add: sample_result_def)
qed

theorem decision_answers_offer_witness:
  "\<exists>v. NewDecision sample_offer False ''disk full'' = Inr v \<and>
     DecisionMatchesOffer v sample_offer = None \<and> de_Reason v \<noteq> []"
proof -
  from sample_decision obtain v where v: "NewDecision sample_offer False ''disk full'' = Inr v" by blast
  from decision_answers_offer [OF v] v show ?thesis by simp
qed

end
