(* ===== verification/Gen_Published.thy ===== *)
theory Gen_Published
  imports FI_OS Gen_Protocol
begin

text \<open>
  Package \<^verbatim>\<open>transportgeneration\<close>, files \<^verbatim>\<open>published.go\<close>, \<^verbatim>\<open>wire.go\<close> and the offer of \<^verbatim>\<open>protocol.go\<close>:
  the published generation on disk (a directory with the signed metadata and the payload), its
  stable reads, its verification, the offer made of it and its transfer to a receiver. The
  system calls are those of \<^verbatim>\<open>FI_OS\<close>.
\<close>

section \<open>Published generations\<close>

definition SealedGenerationPayloadName :: string where
  "SealedGenerationPayloadName = ''payload.figz''"

definition sealedGenerationDirectoryPrefix :: string where
  "sealedGenerationDirectoryPrefix = ''generation-''"

record published_generation =
  pg_DirectoryPath :: string
  pg_MetadataPath :: string
  pg_PayloadPath :: string
  pg_Signed :: signed_generation

datatype published_error =
    PubOS os_error
  | PubNotAbsolute
  | PubNotDirectory
  | PubEntryCount
  | PubSymlink string
  | PubUnexpected string
  | PubIncomplete
  | PubMetadataFile
  | PubMetadataOpening
  | PubMetadataSize
  | PubMetadataReading
  | PubMetadata metadata_error
  | PubDirectoryName
  | PubPayloadNotRegular
  | PubPayloadBytes
  | PubDescriptorChanged
  | PubPayloadOpening
  | PubPayloadChanged
  | PubPayloadByteCount
  | PubPayloadSHA256
  | PubPathsIncomplete
  | PubGenerationChanged
  | PubMetadataChanged
  | PubProtocol protocol_error
  | PubFraming
  | PubWriteHeader io_error
  | PubWriteMetadata io_error
  | PubStream io_error
  | PubCounterOverflow
  | PubTrailing

definition signedGenerationsEqual :: "signed_generation \<Rightarrow> signed_generation \<Rightarrow> bool" where
  "signedGenerationsEqual a b \<longleftrightarrow>
     gs_Version a = gs_Version b \<and> gs_Descriptor a = gs_Descriptor b \<and>
     gs_Signature a = gs_Signature b \<and>
     gs_BatchSigningCertificateDER a = gs_BatchSigningCertificateDER b"

text \<open>The close after the reads; an error of the reads comes first.\<close>

definition close_after ::
  "'w os \<Rightarrow> nat \<Rightarrow> published_error + 'a \<Rightarrow> 'w \<Rightarrow> (published_error + 'a) \<times> 'w" where
  "close_after S fh r w =
     (case os_Close S fh w of (closeErr, w') \<Rightarrow>
        (bindE r (\<lambda>x. bindE (map_err PubOS closeErr) (\<lambda>_. Inr x)), w'))"

lemma close_after_Inr [simp]:
  "close_after S fh r w = (Inr x, w') \<longleftrightarrow> r = Inr x \<and> os_Close S fh w = (Inr (), w')"
  by (auto simp: close_after_def split: prod.splits)

definition readStableBoundedGenerationFile ::
  "'w os \<Rightarrow> string \<Rightarrow> nat \<Rightarrow> 'w \<Rightarrow> (published_error + bytes) \<times> 'w" where
  "readStableBoundedGenerationFile S path maxBytes =
     bindP (callP PubOS (os_Lstat S path)) (\<lambda>initial.
     bindP (stop_if (fi_Kind initial = SymlinkEntry \<or> \<not> is_regular initial \<or>
              fi_Size initial \<le> 0 \<or> fi_Size initial > int maxBytes) PubMetadataFile) (\<lambda>_.
     bindP (callP PubOS (os_Open S path)) (\<lambda>fh.
     bindP (statP S PubOS fh) (\<lambda>opened.
     if \<not> SameFile initial opened then fail_closing S fh PubMetadataOpening
     else bindP (readsP S fh) (\<lambda>r.
     bindP (close_after S fh (map_err PubOS (read_limited (maxBytes + 1) r))) (\<lambda>raw.
     bindP (stop_if (raw = [] \<or> length raw > maxBytes) PubMetadataSize) (\<lambda>_.
     bindP (callP PubOS (os_Lstat S path)) (\<lambda>after.
     bindP (stop_if (\<not> SameFile opened after \<or> fi_Size after \<noteq> fi_Size initial)
              PubMetadataReading) (\<lambda>_.
     retP raw)))))))))"

fun scan_entries ::
  "(string \<times> entry_kind) list \<Rightarrow> bool \<Rightarrow> bool \<Rightarrow> published_error + bool \<times> bool" where
  "scan_entries [] foundPayload foundMetadata = Inr (foundPayload, foundMetadata)"
| "scan_entries ((name, kind) # es) foundPayload foundMetadata =
     (if kind = SymlinkEntry then Inl (PubSymlink name)
      else if name = SealedGenerationPayloadName then scan_entries es True foundMetadata
      else if name = SignedGenerationMetadataName then scan_entries es foundPayload True
      else Inl (PubUnexpected name))"

definition LoadSealedGeneration ::
  "'w os \<Rightarrow> x509_lib \<Rightarrow> string \<Rightarrow> 'w \<Rightarrow> (published_error + published_generation) \<times> 'w" where
  "LoadSealedGeneration S L directoryPath =
     bindP (stop_if (directoryPath = [] \<or> \<not> os_IsAbs S directoryPath) PubNotAbsolute) (\<lambda>_.
     bindP (callP PubOS (os_Lstat S directoryPath)) (\<lambda>info.
     bindP (stop_if (fi_Kind info = SymlinkEntry \<or> \<not> is_dir info) PubNotDirectory) (\<lambda>_.
     bindP (callP PubOS (os_ReadDir S directoryPath)) (\<lambda>entries.
     bindP (stop_if (length entries \<noteq> 2) PubEntryCount) (\<lambda>_.
     bindP (liftP (scan_entries entries False False)) (\<lambda>(foundPayload, foundMetadata).
     bindP (stop_if (\<not> foundPayload \<or> \<not> foundMetadata) PubIncomplete) (\<lambda>_.
     let metadataPath = os_Join S directoryPath SignedGenerationMetadataName in
     bindP (readStableBoundedGenerationFile S metadataPath maxSignedGenerationMetadataBytes)
       (\<lambda>metadataBytes.
     bindP (liftP (map_err PubMetadata (UnmarshalSignedGeneration L metadataBytes))) (\<lambda>signed.
     bindP (stop_if (os_CleanBase S directoryPath \<noteq>
              sealedGenerationDirectoryPrefix @ gd_GenerationID (gs_Descriptor signed))
              PubDirectoryName) (\<lambda>_.
     let payloadPath = os_Join S directoryPath SealedGenerationPayloadName in
     bindP (callP PubOS (os_Lstat S payloadPath)) (\<lambda>payloadInfo.
     bindP (stop_if (fi_Kind payloadInfo = SymlinkEntry \<or> \<not> is_regular payloadInfo)
              PubPayloadNotRegular) (\<lambda>_.
     bindP (stop_if (fi_Size payloadInfo \<le> 0 \<or>
              of_int (fi_Size payloadInfo) \<noteq> gd_EncodedDataBytes (gs_Descriptor signed))
              PubPayloadBytes) (\<lambda>_.
     retP \<lparr>pg_DirectoryPath = directoryPath, pg_MetadataPath = metadataPath,
           pg_PayloadPath = payloadPath, pg_Signed = signed\<rparr>)))))))))))))"

text \<open>
  \<^verbatim>\<open>io.Copy\<close> into the hasher and the counter: the counter refuses to wrap, and a read error
  stops the copy. The value is what was hashed.
\<close>

definition copy_hashed :: "bytes list \<times> os_error option \<Rightarrow> published_error + bytes" where
  "copy_hashed r =
     (if length (concat (fst r)) \<ge> 2 ^ 64 then Inl PubCounterOverflow
      else case snd r of Some e \<Rightarrow> Inl (PubOS e) | None \<Rightarrow> Inr (concat (fst r)))"

definition VerifyPublishedGenerationPayload ::
  "'w os \<Rightarrow> x509_lib \<Rightarrow> published_generation \<Rightarrow> 'w \<Rightarrow> (published_error + unit) \<times> 'w" where
  "VerifyPublishedGenerationPayload S L g =
     bindP (LoadSealedGeneration S L (pg_DirectoryPath g)) (\<lambda>current.
     bindP (stop_if (gs_Descriptor (pg_Signed current) \<noteq> gs_Descriptor (pg_Signed g))
              PubDescriptorChanged) (\<lambda>_.
     bindP (callP PubOS (os_Lstat S (pg_PayloadPath current))) (\<lambda>initial.
     bindP (stop_if (\<not> is_regular initial \<or> fi_Size initial \<le> 0) PubPayloadNotRegular) (\<lambda>_.
     bindP (callP PubOS (os_Open S (pg_PayloadPath current))) (\<lambda>fh.
     bindP (statP S PubOS fh) (\<lambda>opened.
     if \<not> SameFile initial opened then fail_closing S fh PubPayloadOpening
     else bindP (readsP S fh) (\<lambda>r.
     bindP (close_after S fh (copy_hashed r)) (\<lambda>hashed.
     bindP (callP PubOS (os_Lstat S (pg_PayloadPath current))) (\<lambda>after.
     bindP (stop_if (\<not> SameFile opened after \<or> fi_Size after \<noteq> fi_Size initial)
              PubPayloadChanged) (\<lambda>_.
     let descriptor = gs_Descriptor (pg_Signed current) in
     bindP (stop_if (of_nat (length hashed) \<noteq> gd_EncodedDataBytes descriptor)
              PubPayloadByteCount) (\<lambda>_.
     stop_if (hex_EncodeToString (Sum256 hashed) \<noteq> gd_EncodedDataSHA256 descriptor)
       PubPayloadSHA256)))))))))))"

section \<open>The offer\<close>

definition reload_unchanged ::
  "'w os \<Rightarrow> x509_lib \<Rightarrow> published_generation \<Rightarrow> 'w
     \<Rightarrow> (published_error + published_generation \<times> bytes) \<times> 'w" where
  "reload_unchanged S L g =
     bindP (stop_if (pg_DirectoryPath g = [] \<or> pg_MetadataPath g = [] \<or> pg_PayloadPath g = [])
              PubPathsIncomplete) (\<lambda>_.
     bindP (LoadSealedGeneration S L (pg_DirectoryPath g)) (\<lambda>current.
     bindP (stop_if (pg_MetadataPath current \<noteq> pg_MetadataPath g \<or>
              pg_PayloadPath current \<noteq> pg_PayloadPath g \<or>
              \<not> signedGenerationsEqual (pg_Signed current) (pg_Signed g)) PubGenerationChanged) (\<lambda>_.
     bindP (readStableBoundedGenerationFile S (pg_MetadataPath current)
              maxSignedGenerationMetadataBytes) (\<lambda>metadata.
     bindP (liftP (map_err PubMetadata (UnmarshalSignedGeneration L metadata))) (\<lambda>decoded.
     bindP (stop_if (\<not> signedGenerationsEqual decoded (pg_Signed current)) PubMetadataChanged) (\<lambda>_.
     retP (current, metadata)))))))"

definition OfferFromPublished ::
  "'w os \<Rightarrow> x509_lib \<Rightarrow> published_generation \<Rightarrow> 'w \<Rightarrow> (published_error + generation_offer) \<times> 'w" where
  "OfferFromPublished S L g =
     bindP (reload_unchanged S L g) (\<lambda>(current, metadata).
     let offer = \<lparr>go_Version = OfferVersion, go_Descriptor = gs_Descriptor (pg_Signed current),
                  go_MetadataBytes = of_nat (length metadata),
                  go_MetadataSHA256 = hex_EncodeToString (Sum256 metadata)\<rparr>
     in bindP (liftP (check (map_option PubProtocol (offer_Validate offer)))) (\<lambda>_. retP offer))"

section \<open>The transfer\<close>

text \<open>
  \<^verbatim>\<open>io.MultiWriter(writer, transferHasher, transferCounter)\<close>: the state of the writer, the
  bytes hashed, the count.
\<close>

record 's transfer_sink =
  ts_Writer :: 's
  ts_Hashed :: bytes
  ts_Bytes :: uint64

definition transport_Write ::
  "'s write_fn \<Rightarrow> (io_error \<Rightarrow> published_error) \<Rightarrow> bytes \<Rightarrow> 's transfer_sink
     \<Rightarrow> (published_error + unit) \<times> 's transfer_sink" where
  "transport_Write wr h p t =
     (case wr (ts_Writer t) p of (n, err, s') \<Rightarrow>
        let t = t\<lparr>ts_Writer := s'\<rparr> in
        (case err of Some e \<Rightarrow> (Inl (h e), t)
         | None \<Rightarrow>
             if n \<noteq> int (length p) then (Inl (h ErrShortWrite), t)
             else let t = t\<lparr>ts_Hashed := ts_Hashed t @ p\<rparr> in
             if of_nat (length p) > (- 1) - ts_Bytes t then (Inl PubCounterOverflow, t)
             else (Inr (), t\<lparr>ts_Bytes := ts_Bytes t + of_nat (length p)\<rparr>)))"

text \<open>
  \<^verbatim>\<open>io.CopyN(io.MultiWriter(transportWriter, payloadHasher), payload, n)\<close>. The value is what
  went through the payload hasher and the reads that were not made. \<^verbatim>\<open>CopyN\<close> reads no more
  than \<open>n\<close> bytes: a longer buffer of the file is split, and its tail is still to be read. With
  no error it has written exactly \<open>n\<close>, which is the check on \<^verbatim>\<open>written\<close> that follows the call.
\<close>

fun copyN ::
  "'s write_fn \<Rightarrow> nat \<Rightarrow> bytes list \<Rightarrow> os_error option \<Rightarrow> bytes \<Rightarrow> 's transfer_sink
     \<Rightarrow> (published_error + bytes \<times> bytes list) \<times> 's transfer_sink" where
  "copyN wr n cs fin hashed t =
     (if n = 0 then (Inr (hashed, cs), t)
      else case cs of
        [] \<Rightarrow> (Inl (case fin of Some e \<Rightarrow> PubOS e | None \<Rightarrow> PubStream EOF), t)
      | c # cs' \<Rightarrow>
          if c = [] then copyN wr n cs' fin hashed t
          else let p = take n c in
          (case transport_Write wr PubStream p t of
             (Inl e, t') \<Rightarrow> (Inl e, t')
           | (Inr _, t') \<Rightarrow>
               if length c \<le> n then copyN wr (n - length c) cs' fin (hashed @ p) t'
               else (Inr (hashed @ p, drop n c # cs'), t')))"

declare copyN.simps [simp del]

lemma copyN_steps [simp]:
  "copyN wr 0 cs fin hashed t = (Inr (hashed, cs), t)"
  "n > 0 \<Longrightarrow> copyN wr n ([] # cs) fin hashed t = copyN wr n cs fin hashed t"
  by (simp_all add: copyN.simps [of wr 0] copyN.simps [of wr n "[] # cs"])

definition transfer_header :: "bytes \<Rightarrow> generation_descriptor \<Rightarrow> bytes" where
  "transfer_header metadata d =
     fixed_header transferHeaderBytes
       [(0, 8, TransferMagic), (8, 12, be_PutUint32 (of_nat (length metadata))),
        (12, 20, be_PutUint64 (gd_EncodedDataBytes d))]"

definition open_payload ::
  "'w os \<Rightarrow> string \<Rightarrow> generation_descriptor \<Rightarrow> 'w
     \<Rightarrow> (published_error + file_info \<times> nat \<times> file_info) \<times> 'w" where
  "open_payload S path descriptor =
     bindP (callP PubOS (os_Lstat S path)) (\<lambda>initial.
     bindP (stop_if (fi_Kind initial = SymlinkEntry \<or> \<not> is_regular initial \<or> fi_Size initial \<le> 0 \<or>
              of_int (fi_Size initial) \<noteq> gd_EncodedDataBytes descriptor) PubPayloadBytes) (\<lambda>_.
     bindP (callP PubOS (os_Open S path)) (\<lambda>fh.
     bindP (statP S PubOS fh) (\<lambda>opened.
     if \<not> SameFile initial opened then fail_closing S fh PubPayloadOpening
     else retP (initial, fh, opened)))))"

text \<open>A write to the transport whose error path closes the payload.\<close>

definition write_or_close ::
  "'w os \<Rightarrow> nat \<Rightarrow> ('t \<Rightarrow> (published_error + 'a) \<times> 't) \<Rightarrow> 'w \<times> 't
     \<Rightarrow> (published_error + 'a) \<times> ('w \<times> 't)" where
  "write_or_close S fh m p =
     (case onS m p of
        (Inl e, q) \<Rightarrow> onW (fail_closing S fh e) q
      | (Inr x, q) \<Rightarrow> (Inr x, q))"

definition WritePublishedGeneration ::
  "'w os \<Rightarrow> x509_lib \<Rightarrow> 's write_fn \<Rightarrow> published_generation \<Rightarrow> 'w \<times> 's
     \<Rightarrow> (published_error + transfer_result) \<times> ('w \<times> 's transfer_sink)" where
  "WritePublishedGeneration S L wr g p =
     (bindP (onW (reload_unchanged S L g)) (\<lambda>(current, metadata).
      bindP (stop_if (length metadata > 2 ^ 32 - 1) PubFraming) (\<lambda>_.
      let descriptor = gs_Descriptor (pg_Signed current) in
      bindP (onW (open_payload S (pg_PayloadPath current) descriptor)) (\<lambda>(initial, fh, opened).
      bindP (write_or_close S fh (transport_Write wr PubWriteHeader (transfer_header metadata descriptor)))
        (\<lambda>_.
      bindP (write_or_close S fh (transport_Write wr PubWriteMetadata metadata)) (\<lambda>_.
      bindP (onW (readsP S fh)) (\<lambda>(chunks, fin).
      bindP (write_or_close S fh
               (copyN wr (unat (gd_EncodedDataBytes descriptor)) chunks fin [])) (\<lambda>(hashed, unread).
      bindP (onW (close_after S fh (check (fail_if (unread \<noteq> [] \<or> fin \<noteq> None) PubTrailing)))) (\<lambda>_.
      bindP (callP PubOS (onW (os_Lstat S (pg_PayloadPath current)))) (\<lambda>after.
      bindP (stop_if (\<not> SameFile opened after \<or> fi_Size after \<noteq> fi_Size initial)
               PubPayloadChanged) (\<lambda>_.
      bindP (stop_if (hex_EncodeToString (Sum256 hashed) \<noteq> gd_EncodedDataSHA256 descriptor)
               PubPayloadSHA256) (\<lambda>_. \<lambda>q.
      retP \<lparr>tr_Descriptor = descriptor, tr_MetadataBytes = of_nat (length metadata),
            tr_MetadataSHA256 = hex_EncodeToString (Sum256 metadata),
            tr_PayloadBytes = gd_EncodedDataBytes descriptor,
            tr_PayloadSHA256 = hex_EncodeToString (Sum256 hashed),
            tr_TransferBytes = ts_Bytes (snd q),
            tr_TransferSHA256 = hex_EncodeToString (Sum256 (ts_Hashed (snd q)))\<rparr> q)))))))))))
      ) (fst p, \<lparr>ts_Writer = snd p, ts_Hashed = [], ts_Bytes = 0\<rparr>)"


section \<open>What is on the wire\<close>

lemma signedGenerationsEqual_eq [simp]: "signedGenerationsEqual a b \<longleftrightarrow> a = b"
  by (auto simp: signedGenerationsEqual_def)

lemma readStable_Inr:
  assumes "readStableBoundedGenerationFile S path m w = (Inr raw, w')"
  shows "raw \<noteq> [] \<and> length raw \<le> m"
  using assms by (auto simp: readStableBoundedGenerationFile_def split: if_splits)

lemma reload_unchanged_Inr:
  assumes "reload_unchanged S L g w = (Inr (current, metadata), w')"
  shows "pg_Signed current = pg_Signed g \<and> UnmarshalSignedGeneration L metadata = Inr (pg_Signed g) \<and>
    metadata \<noteq> [] \<and> length metadata \<le> maxSignedGenerationMetadataBytes"
  using assms by (auto simp: reload_unchanged_def dest!: readStable_Inr)

text \<open>The frame of a transfer, and the result that describes it.\<close>

definition transfer_frame :: "bytes \<Rightarrow> bytes \<Rightarrow> bytes" where
  "transfer_frame metadata payload =
     TransferMagic @ len32 metadata @ be_PutUint64 (of_nat (length payload)) @ metadata @ payload"

definition result_of :: "generation_descriptor \<Rightarrow> bytes \<Rightarrow> bytes \<Rightarrow> transfer_result" where
  "result_of d metadata payload =
     \<lparr>tr_Descriptor = d, tr_MetadataBytes = of_nat (length metadata),
      tr_MetadataSHA256 = hex_EncodeToString (Sum256 metadata),
      tr_PayloadBytes = of_nat (length payload),
      tr_PayloadSHA256 = hex_EncodeToString (Sum256 payload),
      tr_TransferBytes = of_nat (length (transfer_frame metadata payload)),
      tr_TransferSHA256 = hex_EncodeToString (Sum256 (transfer_frame metadata payload))\<rparr>"

text \<open>The writer has what was hashed, and the count is its size.\<close>

definition sink_ok :: "('s \<Rightarrow> bytes) \<Rightarrow> bytes \<Rightarrow> 's transfer_sink \<Rightarrow> bool" where
  "sink_ok contents base t \<longleftrightarrow>
     contents (ts_Writer t) = base @ ts_Hashed t \<and> unat (ts_Bytes t) = length (ts_Hashed t)"

context io_writer
begin

lemma transport_Write_ok:
  assumes "transport_Write wr h p t = (Inr (), t')" and "sink_ok contents base t"
    and "length p < 2 ^ 64"
  shows "sink_ok contents base t' \<and> ts_Hashed t' = ts_Hashed t @ p"
proof -
  obtain n err s' where w: "wr (ts_Writer t) p = (n, err, s')" by (cases "wr (ts_Writer t) p")
  with assms(1) have n: "n = int (length p)"
    and g: "\<not> of_nat (length p) > (- 1) - ts_Bytes t"
    and t': "t' = t\<lparr>ts_Writer := s', ts_Hashed := ts_Hashed t @ p,
      ts_Bytes := ts_Bytes t + of_nat (length p)\<rparr>"
    by (auto simp: transport_Write_def Let_def split: option.splits if_splits)
  from taken [OF w] n have "contents s' = contents (ts_Writer t) @ p" by simp
  moreover have "unat (ts_Bytes t + of_nat (length p)) = unat (ts_Bytes t) + length p"
    using unat_add_guarded [OF g] assms(3) by (simp add: unat_of_nat_small)
  ultimately show ?thesis using assms(2) by (simp add: sink_ok_def t')
qed

lemma copyN_ok:
  assumes "copyN wr n cs fin hashed t = (Inr (hashed', unread), t')"
    and "sink_ok contents base t" and "n < 2 ^ 64"
  shows "\<exists>q. hashed' = hashed @ q \<and> length q = n \<and> concat cs = q @ concat unread \<and>
    ts_Hashed t' = ts_Hashed t @ q \<and> sink_ok contents base t'"
  using assms
proof (induction cs arbitrary: n hashed t)
  case Nil
  then show ?case by (auto simp: copyN.simps [of wr n "[]"] split: if_splits)
next
  case (Cons c cs)
  consider "n = 0" | "n > 0" "c = []" | "n > 0" "c \<noteq> []" by blast
  then show ?case
  proof cases
    case 3
    let ?p = "take n c"
    have lp: "length ?p < 2 ^ 64" using Cons.prems(3) by simp
    from Cons.prems(1) 3 obtain u where u: "transport_Write wr PubStream ?p t = (Inr (), u)"
      by (auto simp: copyN.simps [of wr n "c # cs"] Let_def split: prod.splits sum.splits)
    note W = transport_Write_ok [OF u Cons.prems(2) lp]
    show ?thesis
    proof (cases "length c \<le> n")
      case True
      with Cons.prems(1) u 3 have "copyN wr (n - length c) cs fin (hashed @ c) u =
          (Inr (hashed', unread), t')"
        by (simp add: copyN.simps [of wr n "c # cs"])
      from Cons.IH [OF this] W Cons.prems(3) True show ?thesis by force
    next
      case False
      with Cons.prems(1) u 3 W show ?thesis
        by (auto simp: copyN.simps [of wr n "c # cs"])
    qed
  qed (use Cons in auto)
qed

end

lemma transfer_header_eq:
  assumes "unat (gd_EncodedDataBytes d) = length payload"
  shows "transfer_header metadata d @ metadata @ payload = transfer_frame metadata payload"
    and "length (transfer_header metadata d) = 20"
proof -
  let ?fs = "[(0, 8, TransferMagic), (8, 12, be_PutUint32 (of_nat (length metadata))),
      (12, 20, be_PutUint64 (gd_EncodedDataBytes d))]"
  have "fixed_header 20 ?fs = fields_bytes ?fs"
    by (intro fixed_header_contiguous) (simp_all add: TransferMagic_def)
  moreover have "gd_EncodedDataBytes d = of_nat (length payload)" by (simp flip: assms)
  ultimately show "transfer_header metadata d @ metadata @ payload = transfer_frame metadata payload"
    and "length (transfer_header metadata d) = 20"
    by (simp_all add: transfer_header_def transfer_frame_def transferHeaderBytes_def len32_def
        TransferMagic_def)
qed

lemma write_or_close_Inr [simp]:
  "write_or_close S fh m p = (Inr x, q) \<longleftrightarrow> (\<exists>t. m (snd p) = (Inr x, t) \<and> q = (fst p, t))"
  by (auto simp: write_or_close_def onS_def split: prod.splits sum.splits)

lemma WritePublishedGeneration_Inr:
  assumes "WritePublishedGeneration S L wr g (w, s) = (Inr r, (w', t'))"
  defines "d \<equiv> gs_Descriptor (pg_Signed g)"
  obtains metadata chunks hashed t1 t2 where
    "UnmarshalSignedGeneration L metadata = Inr (pg_Signed g)"
    "length metadata \<le> maxSignedGenerationMetadataBytes"
    "transport_Write wr PubWriteHeader (transfer_header metadata d)
       \<lparr>ts_Writer = s, ts_Hashed = [], ts_Bytes = 0\<rparr> = (Inr (), t1)"
    "transport_Write wr PubWriteMetadata metadata t1 = (Inr (), t2)"
    "copyN wr (unat (gd_EncodedDataBytes d)) chunks None [] t2 = (Inr (hashed, []), t')"
    "hex_EncodeToString (Sum256 hashed) = gd_EncodedDataSHA256 d"
    "r = \<lparr>tr_Descriptor = d, tr_MetadataBytes = of_nat (length metadata),
            tr_MetadataSHA256 = hex_EncodeToString (Sum256 metadata),
            tr_PayloadBytes = gd_EncodedDataBytes d,
            tr_PayloadSHA256 = gd_EncodedDataSHA256 d,
            tr_TransferBytes = ts_Bytes t',
            tr_TransferSHA256 = hex_EncodeToString (Sum256 (ts_Hashed t'))\<rparr>"
proof -
  from assms(1) show thesis
    by (clarsimp simp: WritePublishedGeneration_def Let_def split: prod.splits)
      (drule reload_unchanged_Inr, rule that, simp_all add: d_def)
qed

lemma written_transfer_signed:
  assumes w: "io_writer wr contents"
    and r: "WritePublishedGeneration S L wr g (w, s) = (Inr r, (w', t'))"
  shows "\<exists>metadata payload. contents (ts_Writer t') = contents s @ transfer_frame metadata payload \<and>
    UnmarshalSignedGeneration L metadata = Inr (pg_Signed g) \<and>
    length payload = unat (gd_EncodedDataBytes (gs_Descriptor (pg_Signed g))) \<and>
    hex_EncodeToString (Sum256 payload) = gd_EncodedDataSHA256 (gs_Descriptor (pg_Signed g)) \<and>
    r = result_of (gs_Descriptor (pg_Signed g)) metadata payload"
proof -
  let ?d = "gs_Descriptor (pg_Signed g)" and ?t = "\<lparr>ts_Writer = s, ts_Hashed = [], ts_Bytes = 0\<rparr>"
  obtain metadata chunks hashed t1 t2 where
    m: "UnmarshalSignedGeneration L metadata = Inr (pg_Signed g)"
    and lm: "length metadata \<le> maxSignedGenerationMetadataBytes"
    and a: "transport_Write wr PubWriteHeader (transfer_header metadata ?d) ?t = (Inr (), t1)"
    and b: "transport_Write wr PubWriteMetadata metadata t1 = (Inr (), t2)"
    and c: "copyN wr (unat (gd_EncodedDataBytes ?d)) chunks None [] t2 = (Inr (hashed, []), t')"
    and h: "hex_EncodeToString (Sum256 hashed) = gd_EncodedDataSHA256 ?d"
    and R: "r = \<lparr>tr_Descriptor = ?d, tr_MetadataBytes = of_nat (length metadata),
            tr_MetadataSHA256 = hex_EncodeToString (Sum256 metadata),
            tr_PayloadBytes = gd_EncodedDataBytes ?d,
            tr_PayloadSHA256 = gd_EncodedDataSHA256 ?d,
            tr_TransferBytes = ts_Bytes t',
            tr_TransferSHA256 = hex_EncodeToString (Sum256 (ts_Hashed t'))\<rparr>"
    by (rule WritePublishedGeneration_Inr [OF r])
  have n: "unat (gd_EncodedDataBytes ?d) < 2 ^ 64" using unat_lt_2p [of "gd_EncodedDataBytes ?d"] by simp
  have s0: "sink_ok contents (contents s) ?t" by (simp add: sink_ok_def)
  have hl: "length (transfer_header metadata ?d) < 2 ^ 64"
    using transfer_header_eq(2) [of ?d "replicate (unat (gd_EncodedDataBytes ?d)) undefined" metadata]
    by simp
  note A = io_writer.transport_Write_ok [OF w a s0 hl]
  have "length metadata < 2 ^ 64" using lm by (simp add: maxSignedGenerationMetadataBytes_def)
  note B = io_writer.transport_Write_ok [OF w b conjunct1 [OF A] this]
  from io_writer.copyN_ok [OF w c conjunct1 [OF B] n] have
    C: "length hashed = unat (gd_EncodedDataBytes ?d)" "ts_Hashed t' = ts_Hashed t2 @ hashed"
    "sink_ok contents (contents s) t'" by auto
  from A B C transfer_header_eq(1) [of ?d hashed metadata]
  have f: "ts_Hashed t' = transfer_frame metadata hashed" by simp
  with C(3) have "contents (ts_Writer t') = contents s @ transfer_frame metadata hashed"
    and "unat (ts_Bytes t') = length (transfer_frame metadata hashed)" by (simp_all add: sink_ok_def)
  moreover from this(2) have "ts_Bytes t' = of_nat (length (transfer_frame metadata hashed))"
    by (simp flip: \<open>unat (ts_Bytes t') = _\<close>)
  moreover have "gd_EncodedDataBytes ?d = of_nat (length hashed)" by (simp add: C(1))
  ultimately show ?thesis
    using m C(1) h f R by (intro exI [of _ metadata] exI [of _ hashed]) (simp add: result_of_def)
qed


text \<open>
  C20: Whatever the file system does meanwhile, if \<^verbatim>\<open>WritePublishedGeneration\<close> returns a result
  then what it appended to the stream is one well-formed transfer (header, metadata, payload):
  the metadata is the generation's own signed metadata, the payload has the size and the
  SHA-256 that the signed descriptor states, and the returned result gives the exact sizes and
  digests of these bytes. A payload that was replaced, truncated, extended or changed during
  the transfer never gives a result.
\<close>

theorem written_transfer_is_signed:
  assumes w: "io_writer wr contents"
    and r: "WritePublishedGeneration S L wr g (w, s) = (Inr r, (w', t'))"
  shows "\<exists>metadata payload. contents (ts_Writer t') = contents s @ transfer_frame metadata payload \<and>
    UnmarshalSignedGeneration L metadata = Inr (pg_Signed g) \<and>
    length payload = unat (gd_EncodedDataBytes (gs_Descriptor (pg_Signed g))) \<and>
    hex_EncodeToString (Sum256 payload) = gd_EncodedDataSHA256 (gs_Descriptor (pg_Signed g)) \<and>
    r = result_of (gs_Descriptor (pg_Signed g)) metadata payload"
  by (rule written_transfer_signed [OF assms])

section \<open>A sample published generation\<close>

definition sample_payload :: bytes where
  "sample_payload = ''z'' @ sample_stream"

definition sealed_descriptor :: generation_descriptor where
  "sealed_descriptor =
     \<lparr>gd_Version = gen_DescriptorVersion, gd_SourceID = ''fs-01'', gd_GenerationID = ''gen-1'',
      gd_CanonicalVersion = CanonicalVersion, gd_DataEncoding = DataEncodingZstd,
      gd_ArtifactCount = 2, gd_SourceBytes = 5, gd_CanonicalBytes = 78,
      gd_CanonicalSHA256 = hex_EncodeToString (Sum256 sample_stream), gd_EncodedDataBytes = 79,
      gd_EncodedDataSHA256 = hex_EncodeToString (Sum256 sample_payload)\<rparr>"

lemma sealed_descriptor_valid: "gen_Validate sealed_descriptor = None"
  by (simp add: gen_Validate_None sealed_descriptor_def validateTextIdentity_None
      utf8_Valid_ascii ContainsAny_def ascii_space_def space2_def space3_def
      maxGenerationStreamingBytes_def)

lemma sealed_descriptor_sealed: "DescriptorFromSeal ''fs-01'' sample_seal = Inr sealed_descriptor"
proof -
  have "DescriptorFromSeal ''fs-01'' sample_seal =
      bindE (check (map_option FromSealDescriptor (gen_Validate sealed_descriptor)))
        (\<lambda>_. Inr sealed_descriptor)"
    by (simp add: DescriptorFromSeal_def sealer_CanonicalVersion_def CanonicalVersion_def
        sample_seal_def sealed_descriptor_def sample_payload_def Let_def)
  then show ?thesis by (simp add: sealed_descriptor_valid)
qed

definition sealed_signed :: signed_generation where
  "sealed_signed =
     \<lparr>gs_Version = SignedGenerationVersion, gs_Descriptor = sealed_descriptor,
      gs_Signature = Sum256 (generation_signed_bytes sealed_descriptor),
      gs_BatchSigningCertificateDER = ''DER''\<rparr>"

lemma sealed_signed_valid: "validateSignedGenerationCryptographically sample_lib sealed_signed = None"
proof -
  have p: "ParseCertificate sample_lib ''DER'' = Some sample_certificate"
    "\<And>k dg sig. VerifyPSS sample_lib k dg sig \<longleftrightarrow> sig = dg"
    by (simp_all add: sample_lib_def)
  have "validateGenerationCertificateRole sample_lib sealed_descriptor sample_certificate = None"
    by (simp add: validateGenerationCertificateRole_def sample_lib_def sample_certificate_def
        sealed_descriptor_def KeyUsageDigitalSignature_def)
  with p sealed_descriptor_valid have v: "signedgen_Validate sample_lib sealed_signed = None"
    by (simp add: signedgen_Validate_None sealed_signed_def maxGenerationSignatureBytes_def
        maxGenerationCertificateDERBytes_def)
  have "cert_PublicKey sample_certificate \<noteq> None" by (simp add: sample_certificate_def)
  with v p show ?thesis
    by (auto simp: validateCryptographically_None gen_BatchSigningCertificate_def
        VerifySignedGenerationSignature_None sealed_signed_def)
qed

definition sealed_metadata :: bytes where
  "sealed_metadata = json_print (JObj (signedgen_members sealed_signed))"

lemma sealed_metadata_ok:
  "MarshalSignedGeneration sample_lib sealed_signed = Inr sealed_metadata"
  "UnmarshalSignedGeneration sample_lib sealed_metadata = Inr sealed_signed"
  "sealed_metadata \<noteq> []" "length sealed_metadata \<le> maxSignedGenerationMetadataBytes"
  using Marshal_Unmarshal [OF sealed_signed_valid]
  by (auto simp: MarshalSignedGeneration_def sealed_metadata_def Let_def sealed_signed_valid
      split: if_splits)

definition sample_info :: "nat \<Rightarrow> file_info" where
  "sample_info k =
     (if k = 0 then \<lparr>fi_Kind = DirectoryEntry, fi_Size = 0, fi_ID = 0\<rparr>
      else if k = 1 then \<lparr>fi_Kind = RegularEntry, fi_Size = int (length sealed_metadata), fi_ID = 1\<rparr>
      else \<lparr>fi_Kind = RegularEntry, fi_Size = 79, fi_ID = 2\<rparr>)"

definition sample_number :: "string \<Rightarrow> nat" where
  "sample_number path =
     (if path = ''/q/generation-gen-1'' then 0
      else if path = ''/q/generation-gen-1/signed-generation.json'' then 1 else 2)"

definition sample_os :: "unit os" where
  "sample_os =
     \<lparr>os_IsAbs = (\<lambda>p. take 1 p = ''/''), os_Join = (\<lambda>d n. d @ ''/'' @ n), os_CleanBase = drop 3,
      os_Lstat = (\<lambda>p w. (Inr (sample_info (sample_number p)), w)),
      os_ReadDir = (\<lambda>_ w. (Inr [(''payload.figz'', RegularEntry),
                               (''signed-generation.json'', RegularEntry)], w)),
      os_Open = (\<lambda>p w. (Inr (sample_number p), w)),
      os_Stat = (\<lambda>fh w. (Inr (sample_info fh), w)),
      os_Reads = (\<lambda>fh w. (if fh = 1 then ([sealed_metadata], None)
                          else ([take 40 sample_payload, [], drop 40 sample_payload], None), w)),
      os_Close = (\<lambda>_ w. (Inr (), w))\<rparr>"

definition sample_published :: published_generation where
  "sample_published =
     \<lparr>pg_DirectoryPath = ''/q/generation-gen-1'',
      pg_MetadataPath = ''/q/generation-gen-1/signed-generation.json'',
      pg_PayloadPath = ''/q/generation-gen-1/payload.figz'', pg_Signed = sealed_signed\<rparr>"

lemma sample_metadata_read:
  "readStableBoundedGenerationFile sample_os ''/q/generation-gen-1/signed-generation.json''
     maxSignedGenerationMetadataBytes () = (Inr sealed_metadata, ())"
  using sealed_metadata_ok(3,4)
  by (simp add: readStableBoundedGenerationFile_def sample_os_def sample_number_def sample_info_def
      bindP_def callP_def stop_if_def retP_def statP_def readsP_def close_after_def is_regular_def
      SameFile_def read_limited_def Let_def)

lemma sample_load:
  "LoadSealedGeneration sample_os sample_lib ''/q/generation-gen-1'' () = (Inr sample_published, ())"
proof -
  let ?m = "''/q/generation-gen-1/signed-generation.json''"
  have d: "gs_Descriptor sealed_signed = sealed_descriptor" by (simp add: sealed_signed_def)
  have os: "os_IsAbs sample_os ''/q/generation-gen-1''" "os_CleanBase sample_os ''/q/generation-gen-1'' = ''generation-gen-1''"
    "os_Join sample_os p q = p @ ''/'' @ q"
    "os_ReadDir sample_os p w = (Inr [(''payload.figz'', RegularEntry), (''signed-generation.json'', RegularEntry)], w)"
    "os_Lstat sample_os p w = (Inr (sample_info (sample_number p)), w)" for p q w
    by (simp_all add: sample_os_def)
  have sc: "scan_entries [(''payload.figz'', RegularEntry), (''signed-generation.json'', RegularEntry)] False False
      = Inr (True, True)"
    by (simp add: SealedGenerationPayloadName_def SignedGenerationMetadataName_def)
  show ?thesis
    by (simp add: LoadSealedGeneration_def os sc bindP_def callP_def stop_if_def retP_def liftP_def
        Let_def SignedGenerationMetadataName_def sample_metadata_read sealed_metadata_ok d
        SealedGenerationPayloadName_def sample_number_def sample_info_def is_dir_def is_regular_def
        sealedGenerationDirectoryPrefix_def sample_published_def)
      (simp add: sealed_descriptor_def)
qed


lemma sample_reload:
  "reload_unchanged sample_os sample_lib sample_published () =
     (Inr (sample_published, sealed_metadata), ())"
proof -
  have p: "pg_DirectoryPath sample_published = ''/q/generation-gen-1''"
    "pg_MetadataPath sample_published = ''/q/generation-gen-1/signed-generation.json''"
    "pg_PayloadPath sample_published \<noteq> []" "pg_Signed sample_published = sealed_signed"
    by (simp_all add: sample_published_def)
  show ?thesis
    by (simp add: reload_unchanged_def p bindP_def stop_if_def retP_def liftP_def sample_load
        sample_metadata_read sealed_metadata_ok)
qed

lemma length_sample_payload: "length sample_payload = 79"
  by (simp add: sample_payload_def sample_stream_length)

lemma buffer_transport_Write:
  "length (ts_Hashed t) + length p < 2 ^ 64 \<Longrightarrow> ts_Bytes t = of_nat (length (ts_Hashed t)) \<Longrightarrow>
   transport_Write buffer_Write h p t =
     (Inr (), \<lparr>ts_Writer = ts_Writer t @ p, ts_Hashed = ts_Hashed t @ p,
              ts_Bytes = of_nat (length (ts_Hashed t @ p))\<rparr>)"
  by (simp add: transport_Write_def buffer_Write_def Let_def add_guard unat_of_nat_small)

definition sample_sent :: "bytes transfer_sink" where
  "sample_sent =
     (let f = transfer_frame sealed_metadata sample_payload
      in \<lparr>ts_Writer = f, ts_Hashed = f, ts_Bytes = of_nat (length f)\<rparr>)"

lemma sample_written:
  "WritePublishedGeneration sample_os sample_lib buffer_Write sample_published ((), []) =
     (Inr (result_of sealed_descriptor sealed_metadata sample_payload), ((), sample_sent))"
proof -
  let ?h = "transfer_header sealed_metadata sealed_descriptor"
  let ?m = "sealed_metadata" and ?a = "take 40 sample_payload" and ?b = "drop 40 sample_payload"
  have d: "unat (gd_EncodedDataBytes sealed_descriptor) = length sample_payload"
    "gd_EncodedDataBytes sealed_descriptor = 79"
    by (simp_all add: sealed_descriptor_def length_sample_payload)
  note H = transfer_header_eq [OF d(1), of ?m]
  have lm: "length ?m \<le> 524288" using sealed_metadata_ok(4)
    by (simp add: maxSignedGenerationMetadataBytes_def)
  have ne: "sample_payload \<noteq> []" using length_sample_payload by auto
  have c: "copyN buffer_Write 79 [?a, [], ?b] None []
      \<lparr>ts_Writer = ?h @ ?m, ts_Hashed = ?h @ ?m, ts_Bytes = 20 + of_nat (length ?m)\<rparr> =
      (Inr (sample_payload, []), sample_sent)"
    using lm H ne by (simp add: copyN.simps [of _ 79] copyN.simps [of _ 39] length_sample_payload
        buffer_transport_Write sample_sent_def Let_def)
  have o: "open_payload sample_os (pg_PayloadPath sample_published) sealed_descriptor () =
      (Inr (sample_info 2, 2, sample_info 2), ())"
    using d(2) by (simp add: open_payload_def sample_published_def sample_os_def sample_number_def
        sample_info_def bindP_def callP_def stop_if_def retP_def statP_def is_regular_def
        SameFile_def)
  have os: "os_Reads sample_os 2 w = (([?a, [], ?b], None), w)" "os_Close sample_os 2 w = (Inr (), w)"
    "os_Lstat sample_os (pg_PayloadPath sample_published) w = (Inr (sample_info 2), w)" for w
    by (simp_all add: sample_os_def sample_published_def sample_number_def)
  have g: "gs_Descriptor (pg_Signed sample_published) = sealed_descriptor"
    by (simp add: sample_published_def sealed_signed_def)
  have sha: "gd_EncodedDataSHA256 sealed_descriptor = hex_EncodeToString (Sum256 sample_payload)"
    by (simp add: sealed_descriptor_def)
  show ?thesis
    using lm H by (simp add: WritePublishedGeneration_def onW_def sample_reload bindP_def stop_if_def
        retP_def Let_def g o write_or_close_def onS_def buffer_transport_Write readsP_def os c d
        close_after_def callP_def SameFile_def sha)
      (simp add: sample_sent_def result_of_def Let_def length_sample_payload)
qed

theorem written_transfer_is_signed_witness:
  "\<exists>r t metadata payload. WritePublishedGeneration sample_os sample_lib buffer_Write sample_published
      ((), []) = (Inr r, ((), t)) \<and> ts_Writer t = transfer_frame metadata payload \<and>
     UnmarshalSignedGeneration sample_lib metadata = Inr sealed_signed \<and>
     hex_EncodeToString (Sum256 payload) = gd_EncodedDataSHA256 sealed_descriptor"
proof -
  have s: "pg_Signed sample_published = sealed_signed" "gs_Descriptor sealed_signed = sealed_descriptor"
    by (simp_all add: sample_published_def sealed_signed_def)
  from written_transfer_is_signed [OF buffer.io_writer_axioms sample_written, unfolded s]
    sample_written show ?thesis by auto
qed

end
