(* ===== verification/Gen_Receive.thy ===== *)
theory Gen_Receive
  imports Gen_Published
begin

text \<open>
  Package \<^verbatim>\<open>transportgeneration\<close>, file \<^verbatim>\<open>receive.go\<close>: the receiver's single pass over one transfer,
  which hashes, decompresses and validates the payload as it reads it, and authorizes its
  signing certificate. The zstd decoder is a parameter.
\<close>

section \<open>The decoder\<close>

text \<open>
  What the decoder makes of the encoded bytes it can read: the decoded bytes, whether they end
  with \<^verbatim>\<open>io.EOF\<close> (and not with a decoding error), and how many encoded bytes it has taken from
  its reader by then, which are never more than there are. \<^const>\<open>None\<close>: it was not created.
\<close>

record zstd_read =
  zr_Decoded :: bytes
  zr_EOF :: bool
  zr_Taken :: nat

type_synonym zstd_decoder = "bytes \<Rightarrow> zstd_read option"

section \<open>The validated read\<close>

record receive_config =
  rc_BatchCRL :: "revocation_list option"
  rc_BatchIssuer :: "certificate option"
  rc_CurrentTime :: gotime
  rc_MaxCanonicalBytes :: uint64
  rc_MaxEncodedBytes :: uint64
  rc_Root :: "certificate option"
  rc_Source :: source_authorization

datatype 'e receive_error =
    RecvOffer protocol_error
  | RecvCRLRequired
  | RecvIssuerRequired
  | RecvTimeRequired
  | RecvMaxCanonicalBounds
  | RecvMaxEncodedBounds
  | RecvRootRequired
  | RecvSourceID generation_error
  | RecvSourceMismatch
  | RecvArtifactCount
  | RecvCanonicalLimit
  | RecvEncodedLimit
  | RecvRead string io_error
  | RecvBadMagic
  | RecvMetadataBytesOffer
  | RecvPayloadBytesDescriptor
  | RecvMetadataBounds
  | RecvMetadataSHA256
  | RecvMetadata metadata_error
  | RecvDescriptorMismatch
  | RecvCertificate generation_error
  | RecvTrust trust_error
  | RecvNotAuthorized authorization_outcome
  | RecvDecoder
  | RecvCanonical "'e canonical_error"
  | RecvTrailingDecoded
  | RecvUnreadEncoded
  | RecvSourceBytes
  | RecvCanonicalBytes
  | RecvCanonicalSHA256
  | RecvEncodedSHA256
  | RecvOverflow
  | RecvTransferBytes

definition validateReceiveConfig :: "receive_config \<Rightarrow> 'e receive_error option" where
  "validateReceiveConfig c =
     first_err
       [fail_if (rc_BatchCRL c = None) RecvCRLRequired,
        fail_if (rc_BatchIssuer c = None) RecvIssuerRequired,
        fail_if (rc_CurrentTime c = 0) RecvTimeRequired,
        fail_if (rc_MaxCanonicalBytes c = 0 \<or> rc_MaxCanonicalBytes c > 2 ^ 63 - 1)
          RecvMaxCanonicalBounds,
        fail_if (rc_MaxEncodedBytes c = 0 \<or> rc_MaxEncodedBytes c > 2 ^ 63 - 1)
          RecvMaxEncodedBounds,
        fail_if (rc_Root c = None) RecvRootRequired,
        map_option RecvSourceID (validateTextIdentity ''source ID'' (sa_SourceID (rc_Source c)))]"

definition receive_admission :: "generation_offer \<Rightarrow> receive_config \<Rightarrow> 'e receive_error option" where
  "receive_admission offer c =
     (let d = go_Descriptor offer in
      first_err
       [map_option RecvOffer (offer_Validate offer),
        validateReceiveConfig c,
        fail_if (gd_SourceID d \<noteq> sa_SourceID (rc_Source c)) RecvSourceMismatch,
        fail_if (gd_ArtifactCount d > maxReceiveArtifactCount) RecvArtifactCount,
        fail_if (gd_CanonicalBytes d > rc_MaxCanonicalBytes c) RecvCanonicalLimit,
        fail_if (gd_EncodedDataBytes d > rc_MaxEncodedBytes c) RecvEncodedLimit])"

text \<open>The header and the metadata: the metadata bytes and what follows them.\<close>

definition receive_metadata ::
  "generation_offer \<Rightarrow> bytes \<Rightarrow> 'e receive_error + bytes \<times> bytes" where
  "receive_metadata offer s =
     bindE (map_err (RecvRead ''header'') (ReadFull transferHeaderBytes s)) (\<lambda>(header, s).
     if slice 0 8 header \<noteq> TransferMagic then Inl RecvBadMagic
     else let metadataBytes = ucast (be_Uint32 (slice 8 12 header)) :: uint64;
              payloadBytes = be_Uint64 (slice 12 20 header) in
     if metadataBytes \<noteq> go_MetadataBytes offer then Inl RecvMetadataBytesOffer
     else if payloadBytes \<noteq> gd_EncodedDataBytes (go_Descriptor offer)
     then Inl RecvPayloadBytesDescriptor
     else if bad_metadata_bytes metadataBytes then Inl RecvMetadataBounds
     else bindE (map_err (RecvRead ''metadata'') (ReadFull (unat metadataBytes) s)) (\<lambda>(metadata, s).
     if hex_EncodeToString (Sum256 metadata) \<noteq> go_MetadataSHA256 offer then Inl RecvMetadataSHA256
     else Inr (metadata, s)))"

definition receive_authorize ::
  "x509_lib \<Rightarrow> generation_offer \<Rightarrow> receive_config \<Rightarrow> bytes \<Rightarrow> 'e receive_error option" where
  "receive_authorize L offer c metadata =
     (case UnmarshalSignedGeneration L metadata of Inl e \<Rightarrow> Some (RecvMetadata e) | Inr v \<Rightarrow>
      if gs_Descriptor v \<noteq> go_Descriptor offer then Some RecvDescriptorMismatch
      else case gen_BatchSigningCertificate L v of Inl e \<Rightarrow> Some (RecvCertificate e)
      | Inr certificate \<Rightarrow>
         (case VerifyBatchSigningCertificate L (Some certificate) (rc_Root c) (rc_BatchIssuer c)
                 (rc_BatchCRL c) (rc_Source c) (rc_CurrentTime c) of
            Inl e \<Rightarrow> Some (RecvTrust e)
          | Inr outcome \<Rightarrow>
              fail_if (outcome \<noteq> AuthorizationAuthorized) (RecvNotAuthorized outcome)))"

text \<open>
  The payload: \<open>s\<close> is the stream behind the metadata, of which the limited reader gives the
  decoder at most \<^verbatim>\<open>payloadBytes\<close>. The counters of the code refuse to wrap; the canonical one
  fails the read that would, before the comparison that it can no longer pass. The value is
  the encoded bytes read, what follows them, and the handler's state.
\<close>

definition receive_payload ::
  "zstd_decoder \<Rightarrow> ('h, 'e) artifact_handler option \<Rightarrow> 'h \<Rightarrow> generation_descriptor \<Rightarrow> bytes
     \<Rightarrow> 'e receive_error + bytes \<times> bytes \<times> 'h" where
  "receive_payload Z handler h d s =
     (let limit = unat (gd_EncodedDataBytes d) in
      case Z (take limit s) of None \<Rightarrow> Inl RecvDecoder | Some z \<Rightarrow>
      bindE (map_err RecvCanonical (ReadCanonicalArtifacts handler h (zr_Decoded z) d))
        (\<lambda>(sourceBytes, extra, h').
      if extra \<noteq> [] \<or> \<not> zr_EOF z then Inl RecvTrailingDecoded
      else let encoded = take (zr_Taken z) (take limit s) in
      if length encoded \<noteq> limit then Inl RecvUnreadEncoded
      else if sourceBytes \<noteq> gd_SourceBytes d then Inl RecvSourceBytes
      else if length (zr_Decoded z) \<noteq> unat (gd_CanonicalBytes d) then Inl RecvCanonicalBytes
      else if hex_EncodeToString (Sum256 (zr_Decoded z)) \<noteq> gd_CanonicalSHA256 d
      then Inl RecvCanonicalSHA256
      else if hex_EncodeToString (Sum256 encoded) \<noteq> gd_EncodedDataSHA256 d
      then Inl RecvEncodedSHA256
      else Inr (encoded, drop (length encoded) s, h')))"

definition transfer_count_error :: "uint64 \<Rightarrow> uint64 \<Rightarrow> uint64 \<Rightarrow> 'e receive_error option" where
  "transfer_count_error metadataBytes payloadBytes counted =
     (case expected_transfer_bytes metadataBytes payloadBytes of
        None \<Rightarrow> Some RecvOverflow
      | Some expected \<Rightarrow> fail_if (counted \<noteq> expected) RecvTransferBytes)"

definition received_result :: "generation_offer \<Rightarrow> bytes \<Rightarrow> bytes \<Rightarrow> bytes \<Rightarrow> transfer_result" where
  "received_result offer metadata encoded consumed =
     \<lparr>tr_Descriptor = go_Descriptor offer, tr_MetadataBytes = go_MetadataBytes offer,
      tr_MetadataSHA256 = hex_EncodeToString (Sum256 metadata),
      tr_PayloadBytes = gd_EncodedDataBytes (go_Descriptor offer),
      tr_PayloadSHA256 = hex_EncodeToString (Sum256 encoded),
      tr_TransferBytes = of_nat (length consumed),
      tr_TransferSHA256 = hex_EncodeToString (Sum256 consumed)\<rparr>"

definition readValidatedTransfer ::
  "x509_lib \<Rightarrow> zstd_decoder \<Rightarrow> ('h, 'e) artifact_handler option \<Rightarrow> 'h \<Rightarrow> bytes
     \<Rightarrow> generation_offer \<Rightarrow> receive_config \<Rightarrow> 'e receive_error + transfer_result \<times> bytes \<times> 'h" where
  "readValidatedTransfer L Z handler h s offer c =
     bindE (check (receive_admission offer c)) (\<lambda>_.
     bindE (receive_metadata offer s) (\<lambda>(metadata, t).
     bindE (check (receive_authorize L offer c metadata)) (\<lambda>_.
     let d = go_Descriptor offer in
     bindE (receive_payload Z handler h d t) (\<lambda>(encoded, rest, h').
     let consumed = take (length s - length rest) s in
     bindE (check (transfer_count_error (go_MetadataBytes offer) (gd_EncodedDataBytes d)
                     (of_nat (length consumed)))) (\<lambda>_.
     Inr (received_result offer metadata encoded consumed, rest, h'))))))"

definition ReadValidatedTransfer ::
  "x509_lib \<Rightarrow> zstd_decoder \<Rightarrow> bytes \<Rightarrow> generation_offer \<Rightarrow> receive_config
     \<Rightarrow> artifact_error receive_error + transfer_result \<times> bytes \<times> unit" where
  "ReadValidatedTransfer L Z s offer c = readValidatedTransfer L Z no_handler () s offer c"

section \<open>What a validated transfer is\<close>

lemma bad_metadata_bytes_unat:
  "bad_metadata_bytes n \<longleftrightarrow> unat n = 0 \<or> unat n > maxSignedGenerationMetadataBytes"
proof -
  have "unat (of_nat maxSignedGenerationMetadataBytes :: uint64) = maxSignedGenerationMetadataBytes"
    by (simp add: maxSignedGenerationMetadataBytes_def)
  then show ?thesis by (auto simp: bad_metadata_bytes_def word_less_nat_alt unat_eq_zero)
qed

lemma receive_metadata_Inr:
  assumes "receive_metadata offer s = Inr (metadata, t)"
  shows "s = TransferMagic @ len32 metadata @ be_PutUint64 (gd_EncodedDataBytes (go_Descriptor offer)) @
      metadata @ t"
    and "unat (go_MetadataBytes offer) = length metadata"
    and "go_MetadataSHA256 offer = hex_EncodeToString (Sum256 metadata)"
    and "metadata \<noteq> []" and "length metadata \<le> maxSignedGenerationMetadataBytes"
proof -
  from assms obtain f u where f: "length f = 20" "s = f @ u" and magic: "slice 0 8 f = TransferMagic"
    and mb: "ucast (be_Uint32 (slice 8 12 f)) = go_MetadataBytes offer"
    and pb: "be_Uint64 (slice 12 20 f) = gd_EncodedDataBytes (go_Descriptor offer)"
    and b: "\<not> bad_metadata_bytes (go_MetadataBytes offer)"
    and u: "u = metadata @ t" "length metadata = unat (go_MetadataBytes offer)"
    and sha: "go_MetadataSHA256 offer = hex_EncodeToString (Sum256 metadata)"
    by (auto simp: receive_metadata_def ReadFull_Inr transferHeaderBytes_def Let_def split: if_splits)
  have cut: "f = TransferMagic @ slice 8 12 f @ slice 12 20 f"
    using cut_header [of "[8, 12, 20]" f] f(1) magic by simp
  have "unat (be_Uint32 (slice 8 12 f)) = length metadata"
    using u(2) mb by (metis unat_ucast_32_64)
  then have "len32 metadata = slice 8 12 f"
    using f(1) by (intro len32_read) (simp_all add: length_slice)
  moreover have "slice 12 20 f = be_PutUint64 (gd_EncodedDataBytes (go_Descriptor offer))"
    using f(1) by (simp flip: pb add: length_slice)
  ultimately show "s = TransferMagic @ len32 metadata @
      be_PutUint64 (gd_EncodedDataBytes (go_Descriptor offer)) @ metadata @ t"
    using cut f(2) u(1) by (metis append.assoc)
  from u(2) b show "unat (go_MetadataBytes offer) = length metadata" "metadata \<noteq> []"
    "length metadata \<le> maxSignedGenerationMetadataBytes"
    by (auto simp: bad_metadata_bytes_unat)
  show "go_MetadataSHA256 offer = hex_EncodeToString (Sum256 metadata)" by (rule sha)
qed

lemma receive_metadata_frame:
  assumes "go_MetadataBytes offer = of_nat (length metadata)"
    and "go_MetadataSHA256 offer = hex_EncodeToString (Sum256 metadata)"
    and "gd_EncodedDataBytes (go_Descriptor offer) = of_nat (length payload)"
    and "metadata \<noteq> []" "length metadata \<le> maxSignedGenerationMetadataBytes"
  shows "receive_metadata offer (transfer_frame metadata payload @ rest) = Inr (metadata, payload @ rest)"
proof -
  let ?p = "be_PutUint64 (of_nat (length payload))"
  let ?f = "TransferMagic @ len32 metadata @ ?p"
  have l: "length TransferMagic = 8" by (simp add: TransferMagic_def)
  have h: "ReadFull 20 (?f @ metadata @ payload @ rest) = Inr (?f, metadata @ payload @ rest)"
    using l by (intro ReadFull_append) simp
  have n: "unat (be_Uint32 (len32 metadata)) = length metadata"
    using assms(5) by (intro unat_len32) (simp add: maxSignedGenerationMetadataBytes_def)
  then have u: "ucast (be_Uint32 (len32 metadata)) = (of_nat (length metadata) :: uint64)"
    by (metis unat_ucast_32_64 word_unat_eq_iff unat_of_nat_small unat_lt_2p)
  have m: "unat (of_nat (length metadata) :: uint64) = length metadata"
    using assms(5) by (simp add: maxSignedGenerationMetadataBytes_def unat_of_nat_small)
  with assms have "\<not> bad_metadata_bytes (of_nat (length metadata))"
    by (simp add: bad_metadata_bytes_unat)
  with assms h u m l show ?thesis
    by (simp add: receive_metadata_def transfer_frame_def transferHeaderBytes_def slice_simps Let_def)
qed

lemma receive_payload_Inr:
  assumes "receive_payload Z handler h d s = Inr (encoded, rest, h')"
  shows "s = encoded @ rest" and "length encoded = unat (gd_EncodedDataBytes d)"
    and "hex_EncodeToString (Sum256 encoded) = gd_EncodedDataSHA256 d"
    and "\<exists>z. Z encoded = Some z \<and> zr_EOF z \<and>
      ReadCanonicalArtifacts handler h (zr_Decoded z) d = Inr (gd_SourceBytes d, [], h') \<and>
      length (zr_Decoded z) = unat (gd_CanonicalBytes d) \<and>
      hex_EncodeToString (Sum256 (zr_Decoded z)) = gd_CanonicalSHA256 d"
proof -
  let ?n = "unat (gd_EncodedDataBytes d)"
  from assms obtain z where z: "Z (take ?n s) = Some z" "zr_EOF z"
    "ReadCanonicalArtifacts handler h (zr_Decoded z) d = Inr (gd_SourceBytes d, [], h')"
    "length (zr_Decoded z) = unat (gd_CanonicalBytes d)"
    "hex_EncodeToString (Sum256 (zr_Decoded z)) = gd_CanonicalSHA256 d"
    and e: "encoded = take (zr_Taken z) (take ?n s)" "length encoded = ?n"
    "rest = drop (length encoded) s"
    and h: "hex_EncodeToString (Sum256 encoded) = gd_EncodedDataSHA256 d"
    by (auto simp: receive_payload_def Let_def split: option.splits if_splits)
  from e(1,2) have "?n \<le> length s" "?n \<le> zr_Taken z" by auto
  with e(1) have enc: "encoded = take ?n s" by (simp add: min_def)
  with e(2,3) show "s = encoded @ rest" by (metis append_take_drop_id)
  show "length encoded = ?n" and "hex_EncodeToString (Sum256 encoded) = gd_EncodedDataSHA256 d"
    by (fact e(2), fact h)
  from z enc [symmetric] show "\<exists>z. Z encoded = Some z \<and> zr_EOF z \<and>
      ReadCanonicalArtifacts handler h (zr_Decoded z) d = Inr (gd_SourceBytes d, [], h') \<and>
      length (zr_Decoded z) = unat (gd_CanonicalBytes d) \<and>
      hex_EncodeToString (Sum256 (zr_Decoded z)) = gd_CanonicalSHA256 d" by blast
qed


lemma receive_authorize_None:
  "receive_authorize L offer c metadata = None \<longleftrightarrow>
     (\<exists>v cert. UnmarshalSignedGeneration L metadata = Inr v \<and> gs_Descriptor v = go_Descriptor offer \<and>
        gen_BatchSigningCertificate L v = Inr cert \<and>
        VerifyBatchSigningCertificate L (Some cert) (rc_Root c) (rc_BatchIssuer c) (rc_BatchCRL c)
          (rc_Source c) (rc_CurrentTime c) = Inr AuthorizationAuthorized)"
  by (auto simp: receive_authorize_def split: sum.splits)

lemma transfer_frame_length:
  "length (transfer_frame metadata payload) = 20 + length metadata + length payload"
  by (simp add: transfer_frame_def TransferMagic_def)

lemma validated_transfer:
  fixes handler :: "('h, 'e) artifact_handler option"
  assumes "readValidatedTransfer L Z handler h s offer c = Inr (r, rest, h')"
  shows "\<exists>metadata payload v cert z. s = transfer_frame metadata payload @ rest \<and>
    r = result_of (go_Descriptor offer) metadata payload \<and>
    UnmarshalSignedGeneration L metadata = Inr v \<and> gs_Descriptor v = go_Descriptor offer \<and>
    gd_SourceID (go_Descriptor offer) = sa_SourceID (rc_Source c) \<and>
    gen_BatchSigningCertificate L v = Inr cert \<and>
    VerifyBatchSigningCertificate L (Some cert) (rc_Root c) (rc_BatchIssuer c) (rc_BatchCRL c)
      (rc_Source c) (rc_CurrentTime c) = Inr AuthorizationAuthorized \<and>
    length payload = unat (gd_EncodedDataBytes (go_Descriptor offer)) \<and>
    hex_EncodeToString (Sum256 payload) = gd_EncodedDataSHA256 (go_Descriptor offer) \<and>
    Z payload = Some z \<and>
    ReadCanonicalArtifacts handler h (zr_Decoded z) (go_Descriptor offer) =
      Inr (gd_SourceBytes (go_Descriptor offer), [], h') \<and>
    hex_EncodeToString (Sum256 (zr_Decoded z)) = gd_CanonicalSHA256 (go_Descriptor offer)"
proof -
  let ?d = "go_Descriptor offer"
  from assms obtain metadata t payload where adm: "receive_admission offer c = (None :: 'e receive_error option)"
    and m: "receive_metadata offer s = (Inr (metadata, t) :: 'e receive_error + _)"
    and au: "receive_authorize L offer c metadata = (None :: 'e receive_error option)"
    and p: "receive_payload Z handler h ?d t = Inr (payload, rest, h')"
    and r: "r = received_result offer metadata payload (take (length s - length rest) s)"
    by (auto simp: readValidatedTransfer_def Let_def)
  note M = receive_metadata_Inr [OF m] and P = receive_payload_Inr [OF p]
  have ed: "gd_EncodedDataBytes ?d = of_nat (length payload)" by (simp add: P(2))
  have mb: "go_MetadataBytes offer = of_nat (length metadata)" by (simp flip: M(2))
  from M(1) P(1) ed have s: "s = transfer_frame metadata payload @ rest"
    by (simp add: transfer_frame_def)
  then have "r = result_of ?d metadata payload" by (simp add: r received_result_def result_of_def ed mb)
  moreover have "gd_SourceID ?d = sa_SourceID (rc_Source c)"
    using adm by (simp add: receive_admission_def Let_def)
  ultimately show ?thesis
    using s au [unfolded receive_authorize_None] P(2-4) by blast
qed

text \<open>
  C11: The receiver accepts nothing but what a trusted source signed. If \<^verbatim>\<open>readValidatedTransfer\<close>
  returns, whatever the bytes on the wire and whatever the decoder, then the bytes it consumed
  are exactly one transfer frame for the offered descriptor; the metadata unmarshals to a
  signed generation with that descriptor whose certificate is authorized for the enrolled
  source; the payload has the signed size and SHA-256, decodes to a canonical stream with the
  signed size, SHA-256 and source byte count; and the result states the sizes and digests of
  these bytes.
\<close>

theorem validated_transfer_is_authorized:
  fixes handler :: "('h, 'e) artifact_handler option"
  assumes "readValidatedTransfer L Z handler h s offer c = Inr (r, rest, h')"
  shows "\<exists>metadata payload v cert z. s = transfer_frame metadata payload @ rest \<and>
    r = result_of (go_Descriptor offer) metadata payload \<and>
    UnmarshalSignedGeneration L metadata = Inr v \<and> gs_Descriptor v = go_Descriptor offer \<and>
    gd_SourceID (go_Descriptor offer) = sa_SourceID (rc_Source c) \<and>
    gen_BatchSigningCertificate L v = Inr cert \<and>
    VerifyBatchSigningCertificate L (Some cert) (rc_Root c) (rc_BatchIssuer c) (rc_BatchCRL c)
      (rc_Source c) (rc_CurrentTime c) = Inr AuthorizationAuthorized \<and>
    length payload = unat (gd_EncodedDataBytes (go_Descriptor offer)) \<and>
    hex_EncodeToString (Sum256 payload) = gd_EncodedDataSHA256 (go_Descriptor offer) \<and>
    Z payload = Some z \<and>
    ReadCanonicalArtifacts handler h (zr_Decoded z) (go_Descriptor offer) =
      Inr (gd_SourceBytes (go_Descriptor offer), [], h') \<and>
    hex_EncodeToString (Sum256 (zr_Decoded z)) = gd_CanonicalSHA256 (go_Descriptor offer)"
  by (rule validated_transfer [OF assms])

text \<open>A well-formed frame of an authorized source is received, with any handler that takes it.\<close>

lemma frame_received:
  fixes handler :: "('h, 'e) artifact_handler option"
  assumes um: "UnmarshalSignedGeneration L metadata = Inr v"
    and lp: "length payload = unat (gd_EncodedDataBytes (gs_Descriptor v))"
    and sha: "hex_EncodeToString (Sum256 payload) = gd_EncodedDataSHA256 (gs_Descriptor v)"
    and o: "go_Descriptor offer = gs_Descriptor v" "go_MetadataBytes offer = of_nat (length metadata)"
      "go_MetadataSHA256 offer = hex_EncodeToString (Sum256 metadata)"
    and admitted: "receive_admission offer c = (None :: 'e receive_error option)"
    and cert: "gen_BatchSigningCertificate L v = Inr cert"
      "VerifyBatchSigningCertificate L (Some cert) (rc_Root c) (rc_BatchIssuer c) (rc_BatchCRL c)
         (rc_Source c) (rc_CurrentTime c) = Inr AuthorizationAuthorized"
    and canonical: "ReadCanonicalArtifacts handler h cs (gs_Descriptor v) =
        Inr (gd_SourceBytes (gs_Descriptor v), [], h')"
      "length cs = unat (gd_CanonicalBytes (gs_Descriptor v))"
      "hex_EncodeToString (Sum256 cs) = gd_CanonicalSHA256 (gs_Descriptor v)"
    and zstd: "Z payload = Some \<lparr>zr_Decoded = cs, zr_EOF = True, zr_Taken = length payload\<rparr>"
  shows "readValidatedTransfer L Z handler h (transfer_frame metadata payload @ rest) offer c =
    Inr (result_of (gs_Descriptor v) metadata payload, rest, h')"
proof -
  let ?d = "gs_Descriptor v"
  have ed: "gd_EncodedDataBytes ?d = of_nat (length payload)" by (simp add: lp)
  have lm: "metadata \<noteq> []" "length metadata \<le> maxSignedGenerationMetadataBytes"
    using um by (auto simp: UnmarshalSignedGeneration_def split: if_splits)
  then have mb: "unat (of_nat (length metadata) :: uint64) = length metadata"
    by (simp add: maxSignedGenerationMetadataBytes_def unat_of_nat_small)
  have au: "receive_authorize L offer c metadata = (None :: 'e receive_error option)"
    using um o(1) cert by (auto simp: receive_authorize_None)
  have pl: "receive_payload Z handler h ?d (payload @ rest) = Inr (payload, rest, h')"
    using canonical zstd sha lp by (simp add: receive_payload_def)
  have md: "receive_metadata offer (transfer_frame metadata payload @ rest) =
      (Inr (metadata, payload @ rest) :: 'e receive_error + _)"
    using receive_metadata_frame [of offer metadata payload rest] o lm ed by simp
  from Unmarshal_Inr [OF um] have "gen_Validate ?d = None"
    by (simp add: validateCryptographically_None signedgen_Validate_None)
  then have "unat (gd_EncodedDataBytes ?d) < 2 ^ 63"
    by (simp add: gen_Validate_None word_le_nat_alt)
  with lp lm(2) have len: "20 + length metadata + length payload < 2 ^ 64"
    by (simp add: maxSignedGenerationMetadataBytes_def)
  have ex: "expected_transfer_bytes (of_nat (length metadata)) (of_nat (length payload)) =
      Some (of_nat (length (transfer_frame metadata payload)))"
    using len by (simp add: expected_transfer_bytes_Some transfer_frame_length unat_of_nat_small
        del: of_nat_add of_nat_numeral)
  show ?thesis
    by (simp add: readValidatedTransfer_def transfer_count_error_def admitted md au o ed [symmetric]
        pl Let_def) (simp add: ed ex result_of_def received_result_def o)
qed

text \<open>
  The bytes of a published transfer, for a receiver that has the matching offer, whose limits
  and trust admit it, and whose decoder gives the sealed stream: it reads them, and no byte
  more, and gets the very result the source got.
\<close>

lemma transfer_received:
  assumes w: "io_writer wr contents"
    and sent: "WritePublishedGeneration S L wr g (w, s) = (Inr r, (w', t'))"
    and offer: "go_Descriptor offer = tr_Descriptor r" "go_MetadataBytes offer = tr_MetadataBytes r"
      "go_MetadataSHA256 offer = tr_MetadataSHA256 r"
    and admitted: "receive_admission offer c = (None :: artifact_error receive_error option)"
    and cert: "gen_BatchSigningCertificate L (pg_Signed g) = Inr cert"
      "VerifyBatchSigningCertificate L (Some cert) (rc_Root c) (rc_BatchIssuer c) (rc_BatchCRL c)
         (rc_Source c) (rc_CurrentTime c) = Inr AuthorizationAuthorized"
    and canonical: "ReadCanonicalArtifacts no_handler () cs (tr_Descriptor r) =
        Inr (gd_SourceBytes (tr_Descriptor r), [], ())"
      "length cs = unat (gd_CanonicalBytes (tr_Descriptor r))"
      "hex_EncodeToString (Sum256 cs) = gd_CanonicalSHA256 (tr_Descriptor r)"
    and zstd: "\<And>metadata payload.
      contents (ts_Writer t') = contents s @ transfer_frame metadata payload \<Longrightarrow>
      Z payload = Some \<lparr>zr_Decoded = cs, zr_EOF = True, zr_Taken = length payload\<rparr>"
  shows "\<exists>bs. contents (ts_Writer t') = contents s @ bs \<and>
    (\<forall>rest. ReadValidatedTransfer L Z (bs @ rest) offer c = Inr (r, rest, ()))"
proof -
  let ?d = "gs_Descriptor (pg_Signed g)"
  obtain metadata payload where
    bs: "contents (ts_Writer t') = contents s @ transfer_frame metadata payload"
    and um: "UnmarshalSignedGeneration L metadata = Inr (pg_Signed g)"
    and lp: "length payload = unat (gd_EncodedDataBytes ?d)"
    and sha: "hex_EncodeToString (Sum256 payload) = gd_EncodedDataSHA256 ?d"
    and r: "r = result_of ?d metadata payload"
    using written_transfer_signed [OF w sent] by blast
  have o: "go_Descriptor offer = ?d" "go_MetadataBytes offer = of_nat (length metadata)"
    "go_MetadataSHA256 offer = hex_EncodeToString (Sum256 metadata)"
    using offer by (simp_all add: r result_of_def)
  have "ReadValidatedTransfer L Z (transfer_frame metadata payload @ rest) offer c = Inr (r, rest, ())"
    for rest
    unfolding ReadValidatedTransfer_def r
    by (rule frame_received [OF um lp sha o admitted cert])
      (use canonical zstd [OF bs] in \<open>simp_all add: r result_of_def\<close>)
  with bs show ?thesis by blast
qed


section \<open>A sample transfer\<close>

definition sample_receiver :: receive_config where
  "sample_receiver =
     \<lparr>rc_BatchCRL = Some sample_crl, rc_BatchIssuer = Some sample_issuer, rc_CurrentTime = 5,
      rc_MaxCanonicalBytes = 1000, rc_MaxEncodedBytes = 1000, rc_Root = Some sample_issuer,
      rc_Source = sample_source\<rparr>"

definition sealed_offer :: generation_offer where
  "sealed_offer =
     \<lparr>go_Version = OfferVersion, go_Descriptor = sealed_descriptor,
      go_MetadataBytes = of_nat (length sealed_metadata),
      go_MetadataSHA256 = hex_EncodeToString (Sum256 sealed_metadata)\<rparr>"

lemma sealed_offer_admitted:
  "receive_admission sealed_offer sample_receiver = (None :: 'e receive_error option)"
proof -
  have "unat (of_nat (length sealed_metadata) :: uint64) = length sealed_metadata"
    using sealed_metadata_ok(4) by (simp add: maxSignedGenerationMetadataBytes_def unat_of_nat_small)
  with sealed_metadata_ok(3,4) have "offer_Validate sealed_offer = None"
    by (simp add: offer_Validate_None sealed_offer_def sealed_descriptor_valid bad_metadata_bytes_unat)
  moreover have "validateReceiveConfig sample_receiver = (None :: 'e receive_error option)"
    by (simp add: validateReceiveConfig_def sample_receiver_def sample_source_def Let_def
        validateTextIdentity_None utf8_Valid_ascii ContainsAny_def ascii_space_def space2_def
        space3_def)
  ultimately show ?thesis
    by (simp add: receive_admission_def Let_def sealed_offer_def sealed_descriptor_def
        sample_receiver_def sample_source_def maxReceiveArtifactCount_def)
qed

definition sample_decoder :: zstd_decoder where
  "sample_decoder x = Some \<lparr>zr_Decoded = sample_stream, zr_EOF = True, zr_Taken = length x\<rparr>"

lemma sample_stream_read:
  "ReadCanonicalArtifacts no_handler () sample_stream sealed_descriptor = Inr (5, [], ())"
proof -
  let ?fs = "[(''a'', []), (''b'', [''hello''])] :: artifact list"
  have "wf_artifacts ?fs" by (simp add: wf_artifacts_def wf_name_def wf_chunks_def chunk_ok_def
        canonical_name_ok_def ContainsAny_def artifacts_total_def)
  moreover have "unat (gd_ArtifactCount sealed_descriptor) = 2" by (simp add: sealed_descriptor_def)
  ultimately have "gen_Validate sealed_descriptor = None \<and>
      unat (gd_ArtifactCount sealed_descriptor) \<le> 1000000 \<and>
      (\<exists>fs. wf_artifacts fs \<and> length fs = unat (gd_ArtifactCount sealed_descriptor) \<and>
         sample_stream = canonical_bytes fs @ [] \<and> unat (5 :: uint64) = artifacts_total fs)"
    using sealed_descriptor_valid
    by (auto intro!: exI [of _ ?fs] simp: sample_stream_def artifacts_total_def)
  then show ?thesis by (simp only: canonical_reader_iff)
qed

lemma sealed_certificate:
  "gen_BatchSigningCertificate sample_lib sealed_signed = Inr sample_certificate"
  using sealed_signed_valid
  by (auto simp: validateCryptographically_None gen_BatchSigningCertificate_def sample_lib_def
      sealed_signed_def split: option.splits)

lemma sample_received:
  "ReadValidatedTransfer sample_lib sample_decoder
     (transfer_frame sealed_metadata sample_payload @ rest) sealed_offer sample_receiver =
   Inr (result_of sealed_descriptor sealed_metadata sample_payload, rest, ())"
proof -
  let ?r = "result_of sealed_descriptor sealed_metadata sample_payload"
  have r: "tr_Descriptor ?r = sealed_descriptor" by (simp add: result_of_def)
  have d: "gd_SourceBytes sealed_descriptor = 5"
    "length sample_stream = unat (gd_CanonicalBytes sealed_descriptor)"
    "hex_EncodeToString (Sum256 sample_stream) = gd_CanonicalSHA256 sealed_descriptor"
    by (simp_all add: sealed_descriptor_def sample_stream_length)
  have g: "pg_Signed sample_published = sealed_signed" by (simp add: sample_published_def)
  have c: "rc_Root sample_receiver = Some sample_issuer" "rc_BatchIssuer sample_receiver = Some sample_issuer"
    "rc_BatchCRL sample_receiver = Some sample_crl" "rc_Source sample_receiver = sample_source"
    "rc_CurrentTime sample_receiver = 5" by (simp_all add: sample_receiver_def)
  have "\<exists>bs. ts_Writer sample_sent = [] @ bs \<and>
      (\<forall>rest. ReadValidatedTransfer sample_lib sample_decoder (bs @ rest) sealed_offer
         sample_receiver = Inr (?r, rest, ()))"
  proof (rule transfer_received [OF buffer.io_writer_axioms sample_written, where cs = sample_stream])
    show "receive_admission sealed_offer sample_receiver = (None :: artifact_error receive_error option)"
      by (rule sealed_offer_admitted)
  qed (use sample_certificate_authorized in \<open>simp_all add: r d g c sealed_certificate
      sample_stream_read sample_decoder_def sealed_offer_def result_of_def\<close>)
  then show ?thesis by (simp add: sample_sent_def Let_def)
qed

theorem validated_transfer_is_authorized_witness:
  "\<exists>s r h. readValidatedTransfer sample_lib sample_decoder no_handler () s sealed_offer sample_receiver =
       Inr (r, [], h) \<and> (\<exists>metadata payload. s = transfer_frame metadata payload \<and>
       hex_EncodeToString (Sum256 payload) = gd_EncodedDataSHA256 sealed_descriptor)"
proof -
  have g: "pg_Signed sample_published = sealed_signed" by (simp add: sample_published_def)
  have "readValidatedTransfer sample_lib sample_decoder no_handler ()
      (transfer_frame sealed_metadata sample_payload) sealed_offer sample_receiver =
      Inr (result_of sealed_descriptor sealed_metadata sample_payload, [], ())"
    using sample_received [of "[]"] by (simp add: ReadValidatedTransfer_def)
  with validated_transfer_is_authorized [OF this] show ?thesis
    by (auto simp: sealed_offer_def)
qed

end
