(* ===== verification/FI_Path.thy ===== *)
theory FI_Path
  imports FI_Text
begin

text \<open>
  The functions of Go's \<^verbatim>\<open>path/filepath\<close> for slash-separated paths that the receiver's
  packages use: \<^verbatim>\<open>IsAbs\<close>, \<^verbatim>\<open>Clean\<close>, \<^verbatim>\<open>Join\<close>, \<^verbatim>\<open>Base\<close> and \<^verbatim>\<open>Dir\<close>.
\<close>

definition slash :: char where "slash = CHR 0x2F"

fun path_split :: "string \<Rightarrow> string list" where
  "path_split [] = [[]]"
| "path_split (c # s) =
     (if c = slash then [] # path_split s
      else (case path_split s of x # xs \<Rightarrow> (c # x) # xs | [] \<Rightarrow> [[c]]))"

fun path_join :: "string list \<Rightarrow> string" where
  "path_join [] = []"
| "path_join [x] = x"
| "path_join (x # y # xs) = x @ slash # path_join (y # xs)"

text \<open>The components of a cleaned path: \<open>out\<close> holds those kept so far, the last one first.\<close>

fun clean_step :: "bool \<Rightarrow> string list \<Rightarrow> string \<Rightarrow> string list" where
  "clean_step rooted out c =
     (if c = [] \<or> c = ''.'' then out
      else if c = ''..'' then
        (case out of
           prev # rest \<Rightarrow> if prev = ''..'' then c # out else rest
         | [] \<Rightarrow> if rooted then [] else [c])
      else c # out)"

definition path_rooted :: "string \<Rightarrow> bool" where
  "path_rooted p \<longleftrightarrow> p \<noteq> [] \<and> List.hd p = slash"

abbreviation filepath_IsAbs :: "string \<Rightarrow> bool" where
  "filepath_IsAbs p \<equiv> path_rooted p"

definition clean_parts :: "string \<Rightarrow> string list" where
  "clean_parts p = rev (foldl (clean_step (path_rooted p)) [] (path_split p))"

definition path_build :: "bool \<Rightarrow> string list \<Rightarrow> string" where
  "path_build rooted cs =
     (if rooted then slash # path_join cs else if cs = [] then ''.'' else path_join cs)"

definition filepath_Clean :: "string \<Rightarrow> string" where
  "filepath_Clean p = path_build (path_rooted p) (clean_parts p)"

definition filepath_Join :: "string \<Rightarrow> string \<Rightarrow> string" where
  "filepath_Join a b =
     (if a = [] then (if b = [] then [] else filepath_Clean b)
      else filepath_Clean (a @ slash # b))"

text \<open>\<^verbatim>\<open>Base\<close> and \<^verbatim>\<open>Dir\<close> cut at the last slash, \<^verbatim>\<open>Base\<close> after trailing slashes are gone.\<close>

definition after_slash :: "string \<Rightarrow> string" where
  "after_slash p = rev (takeWhile (\<lambda>c. c \<noteq> slash) (rev p))"

definition upto_slash :: "string \<Rightarrow> string" where
  "upto_slash p = rev (dropWhile (\<lambda>c. c \<noteq> slash) (rev p))"

definition filepath_Base :: "string \<Rightarrow> string" where
  "filepath_Base p =
     (if p = [] then ''.''
      else let q = rev (dropWhile (\<lambda>c. c = slash) (rev p)) in
      if q = [] then [slash] else after_slash q)"

definition filepath_Dir :: "string \<Rightarrow> string" where
  "filepath_Dir p = filepath_Clean (upto_slash p)"

section \<open>Splitting and joining\<close>

definition plain_part :: "string \<Rightarrow> bool" where
  "plain_part c \<longleftrightarrow> c \<noteq> [] \<and> c \<noteq> ''.'' \<and> c \<noteq> ''..'' \<and> slash \<notin> set c"

lemma path_split_not_Nil [simp]: "path_split s \<noteq> []"
  by (induction s) (auto split: list.splits)

lemma path_split_no_slash: "slash \<notin> set s \<Longrightarrow> path_split s = [s]"
  by (induction s) auto

lemma path_split_append: "path_split (a @ slash # b) = path_split a @ path_split b"
  by (induction a) (auto split: list.splits)

lemma path_split_slash [simp]: "path_split (slash # b) = [] # path_split b" by simp

lemma path_split_join:
  "(\<And>c. c \<in> set cs \<Longrightarrow> slash \<notin> set c) \<Longrightarrow> cs \<noteq> [] \<Longrightarrow> path_split (path_join cs) = cs"
  by (induction cs rule: path_join.induct) (simp_all add: path_split_no_slash path_split_append)

lemma path_split_parts: "c \<in> set (path_split s) \<Longrightarrow> slash \<notin> set c"
proof (induction s arbitrary: c)
  case (Cons a s)
  then show ?case by (cases "path_split s") (auto split: if_splits)
qed simp

section \<open>Clean paths\<close>

text \<open>
  The parts of a clean rooted path are plain: what lies under a custody root is one plain name
  more.
\<close>

lemma clean_step_plain:
  assumes "slash \<notin> set c" and "list_all plain_part out"
  shows "list_all plain_part (clean_step True out c)"
proof (cases "plain_part c")
  case True
  with assms show ?thesis by (simp add: plain_part_def)
next
  case False
  with assms(1) have "clean_step True out c = out \<or> clean_step True out c = tl out \<or>
      out \<noteq> [] \<and> List.hd out = ''..''"
    by (cases out; simp add: plain_part_def; blast)
  moreover have "list_all plain_part (tl out)" "out \<noteq> [] \<Longrightarrow> List.hd out \<noteq> ''..''"
    using assms(2) by (cases out; simp add: plain_part_def)+
  ultimately show ?thesis using assms(2) by metis
qed

lemma clean_fold_plain:
  "(\<And>c. c \<in> set cs \<Longrightarrow> slash \<notin> set c) \<Longrightarrow> list_all plain_part out \<Longrightarrow>
    list_all plain_part (foldl (clean_step True) out cs)"
  by (induction cs arbitrary: out) (simp_all add: clean_step_plain del: clean_step.simps)

lemma clean_parts_plain: "path_rooted p \<Longrightarrow> list_all plain_part (clean_parts p)"
  unfolding clean_parts_def
  using clean_fold_plain [of "path_split p" "[]"] path_split_parts by simp

lemma clean_fold_of_plain:
  "list_all plain_part cs \<Longrightarrow> foldl (clean_step r) out cs = rev cs @ out"
  by (induction cs arbitrary: out) (auto simp: plain_part_def)

lemma path_rooted_build [simp]: "path_rooted (path_build True cs)"
  by (simp add: path_build_def path_rooted_def)

lemma clean_parts_build:
  assumes "list_all plain_part cs"
  shows "clean_parts (path_build True cs) = cs"
proof (cases "cs = []")
  case True
  then show ?thesis by (simp add: clean_parts_def path_build_def)
next
  case False
  with assms have "path_split (path_join cs) = cs"
    by (intro path_split_join) (auto simp: list_all_iff plain_part_def)
  then have "path_split (path_build True cs) = [] # cs" by (simp add: path_build_def)
  with clean_fold_of_plain [OF assms, of True "[]"] show ?thesis
    by (simp add: clean_parts_def del: path_split.simps)
qed

lemma Clean_build: "list_all plain_part cs \<Longrightarrow> filepath_Clean (path_build True cs) = path_build True cs"
  by (simp add: filepath_Clean_def clean_parts_build)

lemma Clean_rooted: "path_rooted p \<Longrightarrow> filepath_Clean p = path_build True (clean_parts p)"
  by (simp add: filepath_Clean_def)

lemma Clean_idem: "path_rooted p \<Longrightarrow> filepath_Clean (filepath_Clean p) = filepath_Clean p"
  by (simp only: Clean_rooted Clean_build [OF clean_parts_plain])

lemma Join_rooted:
  assumes "path_rooted p" and "plain_part n"
  shows "filepath_Join p n = path_build True (clean_parts p @ [n])"
proof -
  have r: "path_rooted (p @ slash # n)" using assms(1) by (auto simp: path_rooted_def)
  have "path_split (p @ slash # n) = path_split p @ [n]"
    using assms(2) by (simp add: path_split_append path_split_no_slash plain_part_def)
  then have "clean_parts (p @ slash # n) = clean_parts p @ [n]"
    using assms r by (simp add: clean_parts_def plain_part_def)
  with r assms(1) show ?thesis by (auto simp: filepath_Join_def Clean_rooted path_rooted_def)
qed

lemma path_join_snoc: "cs \<noteq> [] \<Longrightarrow> path_join (cs @ [n]) = path_join cs @ slash # n"
  by (induction cs rule: path_join.induct) simp_all

lemma build_snoc:
  "path_build True (cs @ [n]) = (if cs = [] then [] else path_build True cs) @ slash # n"
  by (simp add: path_build_def path_join_snoc)

lemma cut_at_slash:
  assumes "slash \<notin> set n"
  shows "after_slash (a @ slash # n) = n" and "upto_slash (a @ slash # n) = a @ [slash]"
  using assms by (simp_all add: after_slash_def upto_slash_def takeWhile_append dropWhile_append)

lemma Base_Join:
  assumes "path_rooted p" and "plain_part n"
  shows "filepath_Base (filepath_Join p n) = n"
proof -
  obtain a where a: "filepath_Join p n = a @ slash # n" by (simp add: Join_rooted [OF assms] build_snoc)
  from assms(2) obtain m c where n: "n = m @ [c]" "c \<noteq> slash"
    by (cases n rule: rev_cases) (auto simp: plain_part_def)
  with assms(2) a show ?thesis
    by (simp add: filepath_Base_def Let_def cut_at_slash plain_part_def)
qed

lemma path_rooted_Join: "path_rooted p \<Longrightarrow> plain_part n \<Longrightarrow> path_rooted (filepath_Join p n)"
  by (simp add: Join_rooted)

lemma Dir_Join:
  assumes "path_rooted p" and "plain_part n"
  shows "filepath_Dir (filepath_Join p n) = filepath_Clean p"
proof -
  let ?a = "if clean_parts p = [] then [] else path_build True (clean_parts p)"
  have up: "upto_slash (filepath_Join p n) = ?a @ [slash]"
    using assms by (simp add: Join_rooted build_snoc cut_at_slash plain_part_def)
  have "clean_parts (path_build True (clean_parts p)) = clean_parts p"
    by (rule clean_parts_build [OF clean_parts_plain [OF assms(1)]])
  then have "clean_parts (path_build True (clean_parts p) @ [slash]) = clean_parts p"
    by (simp add: clean_parts_def path_split_append path_rooted_def path_build_def)
  moreover have "clean_parts [slash] = []" by (simp add: clean_parts_def)
  moreover have "path_rooted (?a @ [slash])" by (simp add: path_rooted_def path_build_def)
  ultimately show ?thesis
    unfolding filepath_Dir_def up by (simp add: Clean_rooted assms(1))
qed

lemma Join_inject:
  assumes "path_rooted p" and "plain_part n" "plain_part m" and "filepath_Join p n = filepath_Join p m"
  shows "n = m"
  using assms Base_Join by metis

end
