(* ===== verification/Gen_Custody.thy ===== *)
theory Gen_Custody
  imports Gen_Receive FI_Path
begin

text \<open>
  Package \<^verbatim>\<open>transportgeneration\<close>, files \<^verbatim>\<open>custody_linux.go\<close>, \<^verbatim>\<open>custody_read_linux.go\<close> and
  \<^verbatim>\<open>custody_restart_linux.go\<close>: the receiver's durable custody of transfers.

  The custody root is a directory of names and inodes (hard links are two names for one
  inode) with what is on disk kept apart from what running processes see: a file is safe from
  a crash once it is synced, a name once the directory is. \<^verbatim>\<open>ReceiveToDurableCustody\<close> is one
  system call per step, so that several receivers, crashes and restarts can interleave in
  every way. Two parts with many calls are one step each: the receive, which copies the network
  stream into a provisional file that only its receiver has open, and the comparison with an
  existing object, whose bytes no one changes. So the steps say in which order effects reach
  the directory, not how long a receiver takes.
\<close>

section \<open>Names\<close>

definition generationCustodyIdentityDomain :: string where
  "generationCustodyIdentityDomain = ''FI-GENERATION-CUSTODY-IDENTITY-V1''"

definition generationCustodyFinalPrefix :: string where
  "generationCustodyFinalPrefix = ''generation-''"

definition generationCustodyFinalSuffix :: string where
  "generationCustodyFinalSuffix = ''.figt''"

definition generationCustodyProvisionalPrefix :: string where
  "generationCustodyProvisionalPrefix = ''.fi-generation-custody-''"

definition generationCustodyProvisionalSuffix :: string where
  "generationCustodyProvisionalSuffix = ''.open''"

definition custody_identity :: "string \<Rightarrow> string \<Rightarrow> bytes" where
  "custody_identity sourceID generationID =
     generationCustodyIdentityDomain @ be_PutUint64 (of_nat (length sourceID)) @ sourceID @
     be_PutUint64 (of_nat (length generationID)) @ generationID"

definition generationCustodyObjectName :: "string \<Rightarrow> string \<Rightarrow> string" where
  "generationCustodyObjectName sourceID generationID =
     ''generation-'' @ hex_EncodeToString (Sum256 (custody_identity sourceID generationID)) @ ''.figt''"

definition isGenerationCustodyFinalName :: "string \<Rightarrow> bool" where
  "isGenerationCustodyFinalName name \<longleftrightarrow>
     HasPrefix name generationCustodyFinalPrefix \<and> HasSuffix name generationCustodyFinalSuffix \<and>
     (let hexValue = TrimSuffix (TrimPrefix name generationCustodyFinalPrefix)
                       generationCustodyFinalSuffix
      in sha256_text_decoded hexValue)"

definition isGenerationCustodyProvisionalName :: "string \<Rightarrow> bool" where
  "isGenerationCustodyProvisionalName name \<longleftrightarrow>
     HasPrefix name generationCustodyProvisionalPrefix \<and>
     HasSuffix name generationCustodyProvisionalSuffix"

lemma object_name_final: "isGenerationCustodyFinalName (generationCustodyObjectName src gen)"
proof -
  let ?h = "hex_EncodeToString (Sum256 (custody_identity src gen))"
  have "HasSuffix (''generation-'' @ ?h @ ''.figt'') ''.figt''"
    by (auto simp: HasSuffix_iff intro!: exI [of _ "''generation-'' @ ?h"])
  moreover have "HasPrefix (''generation-'' @ ?h @ ''.figt'') ''generation-''"
    by (auto simp: HasPrefix_iff)
  moreover have "TrimSuffix (TrimPrefix (''generation-'' @ ?h @ ''.figt'') ''generation-'') ''.figt'' = ?h"
    by (simp only: TrimPrefix_append TrimSuffix_append)
  ultimately show ?thesis
    by (simp add: isGenerationCustodyFinalName_def generationCustodyFinalPrefix_def
        generationCustodyFinalSuffix_def generationCustodyObjectName_def sha256_text_lower Let_def
        del: append.simps)
qed

lemma final_not_provisional:
  "isGenerationCustodyFinalName n \<Longrightarrow> \<not> isGenerationCustodyProvisionalName n"
  by (auto simp: isGenerationCustodyFinalName_def isGenerationCustodyProvisionalName_def
      HasPrefix_iff generationCustodyFinalPrefix_def generationCustodyProvisionalPrefix_def)

section \<open>The custody root\<close>

record custody_file =
  cf_Content :: bytes
  cf_Perm :: nat
  cf_Kind :: entry_kind
  cf_Synced :: bool

record custody_fs =
  cd_Dir :: "string \<rightharpoonup> nat"
  cd_Disk :: "string \<rightharpoonup> nat"
  cd_Files :: "nat \<rightharpoonup> custody_file"

definition lookup_file :: "custody_fs \<Rightarrow> string \<Rightarrow> custody_file option" where
  "lookup_file fs name = Option.bind (cd_Dir fs name) (cd_Files fs)"

definition fs_Link :: "string \<Rightarrow> nat \<Rightarrow> custody_fs \<Rightarrow> custody_fs" where
  "fs_Link name i fs = fs\<lparr>cd_Dir := (cd_Dir fs)(name \<mapsto> i)\<rparr>"

definition fs_Remove :: "string \<Rightarrow> custody_fs \<Rightarrow> custody_fs" where
  "fs_Remove name fs = fs\<lparr>cd_Dir := (cd_Dir fs)(name := None)\<rparr>"

definition fs_Write :: "nat \<Rightarrow> custody_file \<Rightarrow> custody_fs \<Rightarrow> custody_fs" where
  "fs_Write i f fs = fs\<lparr>cd_Files := (cd_Files fs)(i \<mapsto> f)\<rparr>"

definition syncGenerationCustodyDirectory :: "custody_fs \<Rightarrow> custody_fs" where
  "syncGenerationCustodyDirectory fs = fs\<lparr>cd_Disk := cd_Dir fs\<rparr>"

section \<open>Receiving into custody\<close>

definition CustodyDispositionDuplicate :: string where "CustodyDispositionDuplicate = ''DUPLICATE''"
definition CustodyDispositionExisting :: string where "CustodyDispositionExisting = ''EXISTING''"
definition CustodyDispositionNew :: string where "CustodyDispositionNew = ''NEW''"

record custody_result =
  cr_Disposition :: string
  cr_Transfer :: transfer_result
  cr_CustodyBytes :: uint64
  cr_CustodyPath :: string
  cr_CustodySHA256 :: string

definition newGenerationCustodyResult ::
  "transfer_result \<Rightarrow> string \<Rightarrow> string \<Rightarrow> custody_result" where
  "newGenerationCustodyResult transfer finalPath disposition =
     \<lparr>cr_Disposition = disposition, cr_Transfer = transfer,
      cr_CustodyBytes = tr_TransferBytes transfer, cr_CustodyPath = finalPath,
      cr_CustodySHA256 = tr_TransferSHA256 transfer\<rparr>"

datatype custody_error =
    CusRootRequired
  | CusRootNotAbsolute
  | CusReceiveConfig "artifact_error receive_error"
  | CusResolveRoot
  | CusRootSymlinks
  | CusInspectRoot
  | CusRootIsSymlink
  | CusRootNotDirectory
  | CusRootWritable
  | CusCreateTemp
  | CusValidate "artifact_error receive_error"
  | CusTeeWrite
  | CusByteCount
  | CusSHA256
  | CusChmod
  | CusSync
  | CusClose
  | CusStat
  | CusNotReadOnly
  | CusSize
  | CusLink
  | CusCompare
  | CusRemove
  | CusSyncDirectory
  | CusConflict
  | CusInspectEntry string
  | CusUnexpectedEntry string
  | CusEntryKind string
  | CusTooSmall string
  | CusCrashed

text \<open>
  The configured root with what the system says of it: what \<^verbatim>\<open>EvalSymlinks\<close> resolves it to, and
  the kind and mode that \<^verbatim>\<open>Lstat\<close> finds.
\<close>

record custody_root =
  rt_RootDir :: string
  rt_Resolved :: "string option"
  rt_Kind :: "entry_kind option"
  rt_Perm :: nat

definition validateGenerationCustodyConfig ::
  "custody_root \<Rightarrow> receive_config \<Rightarrow> custody_error option" where
  "validateGenerationCustodyConfig root c =
     first_err
       [fail_if (rt_RootDir root = []) CusRootRequired,
        fail_if (\<not> filepath_IsAbs (rt_RootDir root)) CusRootNotAbsolute,
        map_option CusReceiveConfig (validateReceiveConfig c),
        fail_if (rt_Resolved root = None) CusResolveRoot,
        fail_if (map_option filepath_Clean (rt_Resolved root) \<noteq>
          Some (filepath_Clean (rt_RootDir root))) CusRootSymlinks,
        fail_if (rt_Kind root = None) CusInspectRoot,
        fail_if (rt_Kind root = Some SymlinkEntry) CusRootIsSymlink,
        fail_if (rt_Kind root \<noteq> Some DirectoryEntry) CusRootNotDirectory,
        fail_if (and (rt_Perm root) 18 \<noteq> 0) CusRootWritable]"

text \<open>
  \<^verbatim>\<open>generationCustodyFilesExactlyEqual\<close>: the comparison loop reads both files by 64 KiB and
  gives \<^const>\<open>None\<close> when a file ends early.
\<close>

definition generationCustodyCompareBufferBytes :: nat where
  "generationCustodyCompareBufferBytes = 64 * 1024"

function compare_loop :: "nat \<Rightarrow> bytes \<Rightarrow> bytes \<Rightarrow> bool option" where
  "compare_loop remaining a b =
     (if remaining = 0 then Some True
      else let chunk = min remaining generationCustodyCompareBufferBytes in
      case (ReadFull chunk a, ReadFull chunk b) of
        (Inr (x, a'), Inr (y, b')) \<Rightarrow>
          if x \<noteq> y then Some False else compare_loop (remaining - chunk) a' b'
      | _ \<Rightarrow> None)"
  by pat_completeness auto
termination
  by (relation "measure (\<lambda>(n, _, _). n)") (auto simp: generationCustodyCompareBufferBytes_def)

declare compare_loop.simps [simp del]

definition generationCustodyFilesExactlyEqual ::
  "custody_file option \<Rightarrow> custody_file option \<Rightarrow> int \<Rightarrow> bool option" where
  "generationCustodyFilesExactlyEqual first second expectedSize =
     (case first of None \<Rightarrow> None | Some f \<Rightarrow>
      if cf_Kind f \<noteq> RegularEntry \<or> cf_Perm f \<noteq> 256 \<or> int (length (cf_Content f)) \<noteq> expectedSize
      then Some False
      else case second of None \<Rightarrow> None | Some g \<Rightarrow>
      if cf_Kind g \<noteq> RegularEntry \<or> int (length (cf_Content g)) \<noteq> expectedSize then Some False
      else compare_loop (nat expectedSize) (cf_Content f) (cf_Content g))"

lemma compare_loop_eq:
  "length a = n \<Longrightarrow> length b = n \<Longrightarrow> compare_loop n a b = Some (a = b)"
proof (induction n arbitrary: a b rule: less_induct)
  case (less n)
  show ?case
  proof (cases "n = 0")
    case True
    with less.prems show ?thesis by (simp add: compare_loop.simps)
  next
    case False
    let ?c = "min n generationCustodyCompareBufferBytes"
    have c: "0 < ?c" "?c \<le> n" using False by (auto simp: generationCustodyCompareBufferBytes_def)
    have r: "ReadFull ?c a = Inr (take ?c a, drop ?c a)" "ReadFull ?c b = Inr (take ?c b, drop ?c b)"
      using c less.prems by (simp_all add: ReadFull_def)
    have "compare_loop (n - ?c) (drop ?c a) (drop ?c b) = Some (drop ?c a = drop ?c b)"
      using c less.prems by (intro less.IH) auto
    with r False show ?thesis
      by (auto simp: compare_loop.simps [of n] Let_def) (metis append_take_drop_id)+
  qed
qed

lemma FilesExactlyEqual_Some:
  "generationCustodyFilesExactlyEqual (Some f) (Some g) (int (length (cf_Content g))) = Some e \<Longrightarrow>
   e \<Longrightarrow> cf_Content f = cf_Content g \<and> cf_Perm f = 256 \<and> cf_Kind f = RegularEntry"
  by (auto simp: generationCustodyFilesExactlyEqual_def compare_loop_eq split: if_splits)


text \<open>
  Where one call of \<^verbatim>\<open>ReceiveToDurableCustody\<close> is. \<open>PcCleanup\<close> is the deferred removal of the
  provisional name on an error path; \<open>PcUndo\<close> the removal of the final name when the
  provisional one could not be removed after publication.
\<close>

datatype custody_pc =
    PcStart
  | PcReceive string nat
  | PcChmod string nat transfer_result
  | PcSync string nat transfer_result
  | PcClose string nat transfer_result
  | PcStat string nat transfer_result
  | PcLink string nat transfer_result
  | PcCompare string nat transfer_result
  | PcRemoveCollided string transfer_result bool
  | PcSyncCollided transfer_result bool
  | PcRemoveProvisional string transfer_result
  | PcUndo string transfer_result
  | PcSyncPublished transfer_result
  | PcCleanup string custody_error
  | PcDone custody_result
  | PcFailed custody_error

record custody_request =
  rq_Stream :: bytes
  rq_Offer :: generation_offer
  rq_Receive :: receive_config
  rq_Root :: custody_root

definition finalName :: "transfer_result \<Rightarrow> string" where
  "finalName r = generationCustodyObjectName (gd_SourceID (tr_Descriptor r))
     (gd_GenerationID (tr_Descriptor r))"

definition custodyPath :: "custody_root \<Rightarrow> transfer_result \<Rightarrow> string" where
  "custodyPath root r = filepath_Join (rt_RootDir root) (finalName r)"

text \<open>
  \<^verbatim>\<open>ReadValidatedTransfer\<close> on the tee: the provisional file gets the bytes that were read. The
  two comparisons that follow are of the tee's own count and hash with the result's. A failed
  write to the provisional file is an error of the read (\<open>CusTeeWrite\<close> in the step below).
\<close>

definition receive_tee ::
  "x509_lib \<Rightarrow> zstd_decoder \<Rightarrow> custody_request \<Rightarrow> custody_error + transfer_result \<times> bytes" where
  "receive_tee L Z q =
     bindE (map_err CusValidate (ReadValidatedTransfer L Z (rq_Stream q) (rq_Offer q) (rq_Receive q)))
       (\<lambda>(transfer, rest, _).
     let teed = take (length (rq_Stream q) - length rest) (rq_Stream q) in
     if of_nat (length teed) \<noteq> tr_TransferBytes transfer then Inl CusByteCount
     else if hex_EncodeToString (Sum256 teed) \<noteq> tr_TransferSHA256 transfer then Inl CusSHA256
     else Inr (transfer, teed))"

definition stat_error :: "custody_file option \<Rightarrow> transfer_result \<Rightarrow> custody_error option" where
  "stat_error f r =
     (case f of None \<Rightarrow> Some CusStat | Some f \<Rightarrow>
      first_err
        [fail_if (cf_Kind f \<noteq> RegularEntry \<or> cf_Perm f \<noteq> 256) CusNotReadOnly,
         fail_if (cf_Content f = [] \<or> of_nat (length (cf_Content f)) \<noteq> tr_TransferBytes r) CusSize])"

text \<open>
  One step: \<open>ok\<close> says whether the system call of the step succeeds, \<open>tmp\<close> and \<open>i\<close> are the
  name and inode that \<^verbatim>\<open>os.CreateTemp\<close> takes, which must be new.
\<close>

fun custody_step ::
  "x509_lib \<Rightarrow> zstd_decoder \<Rightarrow> custody_request \<Rightarrow> bool \<Rightarrow> string \<Rightarrow> nat \<Rightarrow> custody_fs \<Rightarrow> custody_pc
     \<Rightarrow> custody_fs \<times> custody_pc" where
  "custody_step L Z q ok tmp i fs PcStart =
     (case validateGenerationCustodyConfig (rq_Root q) (rq_Receive q) of
        Some e \<Rightarrow> (fs, PcFailed e)
      | None \<Rightarrow>
          if ok \<and> isGenerationCustodyProvisionalName tmp \<and> cd_Dir fs tmp = None \<and>
             cd_Files fs i = None
          then (fs_Link tmp i (fs_Write i
                  \<lparr>cf_Content = [], cf_Perm = 384, cf_Kind = RegularEntry, cf_Synced = False\<rparr> fs),
                PcReceive tmp i)
          else (fs, PcFailed CusCreateTemp))"
| "custody_step L Z q ok tmp i fs (PcReceive name k) =
     (case receive_tee L Z q of
        Inl e \<Rightarrow> (fs, PcCleanup name e)
      | Inr (r, teed) \<Rightarrow>
          if ok then (fs_Write k \<lparr>cf_Content = teed, cf_Perm = 384, cf_Kind = RegularEntry,
                                  cf_Synced = False\<rparr> fs, PcChmod name k r)
          else (fs, PcCleanup name CusTeeWrite))"
| "custody_step L Z q ok tmp i fs (PcChmod name k r) =
     (case cd_Files fs k of
        Some f \<Rightarrow> if ok then (fs_Write k (f\<lparr>cf_Perm := 256\<rparr>) fs, PcSync name k r)
                  else (fs, PcCleanup name CusChmod)
      | None \<Rightarrow> (fs, PcCleanup name CusChmod))"
| "custody_step L Z q ok tmp i fs (PcSync name k r) =
     (case cd_Files fs k of
        Some f \<Rightarrow> if ok then (fs_Write k (f\<lparr>cf_Synced := True\<rparr>) fs, PcClose name k r)
                  else (fs, PcCleanup name CusSync)
      | None \<Rightarrow> (fs, PcCleanup name CusSync))"
| "custody_step L Z q ok tmp i fs (PcClose name k r) =
     (if ok then (fs, PcStat name k r) else (fs, PcCleanup name CusClose))"
| "custody_step L Z q ok tmp i fs (PcStat name k r) =
     (case stat_error (if ok then lookup_file fs name else None) r of
        Some e \<Rightarrow> (fs, PcCleanup name e)
      | None \<Rightarrow> (fs, PcLink name k r))"
| "custody_step L Z q ok tmp i fs (PcLink name k r) =
     (if \<not> ok then (fs, PcCleanup name CusLink)
      else if cd_Dir fs (finalName r) = None
      then (fs_Link (finalName r) k fs, PcRemoveProvisional name r)
      else (fs, PcCompare name k r))"
| "custody_step L Z q ok tmp i fs (PcCompare name k r) =
     (case (if ok then generationCustodyFilesExactlyEqual (lookup_file fs (finalName r))
                         (lookup_file fs name) (int (unat (tr_TransferBytes r)))
            else None) of
        None \<Rightarrow> (fs, PcCleanup name CusCompare)
      | Some exact \<Rightarrow> (fs, PcRemoveCollided name r exact))"
| "custody_step L Z q ok tmp i fs (PcRemoveCollided name r exact) =
     (if ok then (fs_Remove name fs, PcSyncCollided r exact) else (fs, PcCleanup name CusRemove))"
| "custody_step L Z q ok tmp i fs (PcSyncCollided r exact) =
     (if \<not> ok then (fs, PcFailed CusSyncDirectory)
      else (syncGenerationCustodyDirectory fs,
            if exact then PcDone (newGenerationCustodyResult r (custodyPath (rq_Root q) r) CustodyDispositionDuplicate)
            else PcFailed CusConflict))"
| "custody_step L Z q ok tmp i fs (PcRemoveProvisional name r) =
     (if ok then (fs_Remove name fs, PcSyncPublished r) else (fs, PcUndo name r))"
| "custody_step L Z q ok tmp i fs (PcUndo name r) =
     (if ok then fs_Remove (finalName r) fs else fs, PcCleanup name CusRemove)"
| "custody_step L Z q ok tmp i fs (PcSyncPublished r) =
     (if \<not> ok then (fs, PcFailed CusSyncDirectory)
      else (syncGenerationCustodyDirectory fs,
            PcDone (newGenerationCustodyResult r (custodyPath (rq_Root q) r) CustodyDispositionNew)))"
| "custody_step L Z q ok tmp i fs (PcCleanup name e) =
     (if ok then fs_Remove name fs else fs, PcFailed e)"
| "custody_step L Z q ok tmp i fs (PcDone r) = (fs, PcDone r)"
| "custody_step L Z q ok tmp i fs (PcFailed e) = (fs, PcFailed e)"

section \<open>Restart\<close>

record discovered_custody =
  dc_Bytes :: uint64
  dc_Path :: string

text \<open>
  The first pass over the entries: the provisional names and the objects, or the error of the
  first entry that is neither.
\<close>

definition recover_entry ::
  "custody_root \<Rightarrow> custody_fs \<Rightarrow> string \<Rightarrow> custody_error + (string list \<times> discovered_custody list)" where
  "recover_entry root fs name =
     (case lookup_file fs name of None \<Rightarrow> Inl (CusInspectEntry name) | Some f \<Rightarrow>
      if isGenerationCustodyProvisionalName name then
        (if cf_Kind f = SymlinkEntry \<or> cf_Kind f \<noteq> RegularEntry then Inl (CusEntryKind name)
         else Inr ([name], []))
      else if \<not> isGenerationCustodyFinalName name then Inl (CusUnexpectedEntry name)
      else if cf_Kind f = SymlinkEntry \<or> cf_Kind f \<noteq> RegularEntry \<or> cf_Perm f \<noteq> 256
      then Inl (CusEntryKind name)
      else if length (cf_Content f) \<le> transferHeaderBytes then Inl (CusTooSmall name)
      else Inr ([], [\<lparr>dc_Bytes = of_nat (length (cf_Content f)), dc_Path = filepath_Join (rt_RootDir root) name\<rparr>]))"

fun recover_entries ::
  "custody_root \<Rightarrow> custody_fs \<Rightarrow> string list \<Rightarrow> custody_error + (string list \<times> discovered_custody list)" where
  "recover_entries root fs [] = Inr ([], [])"
| "recover_entries root fs (name # names) =
     bindE (recover_entry root fs name) (\<lambda>(p, d).
     bindE (recover_entries root fs names) (\<lambda>(ps, ds). Inr (p @ ps, d @ ds)))"

text \<open>The second pass removes the provisional names; \<open>okR\<close> says which removals succeed.\<close>

fun remove_provisional ::
  "(string \<Rightarrow> bool) \<Rightarrow> string list \<Rightarrow> custody_fs \<Rightarrow> custody_error option \<times> custody_fs" where
  "remove_provisional okR [] fs = (None, fs)"
| "remove_provisional okR (name # names) fs =
     (if okR name then remove_provisional okR names (fs_Remove name fs) else (Some CusRemove, fs))"

definition RecoverDurableCustodyRoot ::
  "custody_root \<Rightarrow> receive_config \<Rightarrow> (string \<Rightarrow> bool) \<Rightarrow> bool \<Rightarrow> string list \<Rightarrow> custody_fs
     \<Rightarrow> (custody_error + discovered_custody list \<times> nat) \<times> custody_fs" where
  "RecoverDurableCustodyRoot root c okR okSync names fs =
     (case validateGenerationCustodyConfig root c of Some e \<Rightarrow> (Inl e, fs) | None \<Rightarrow>
      (case recover_entries root fs names of Inl e \<Rightarrow> (Inl e, fs) | Inr (provisional, objects) \<Rightarrow>
      (case remove_provisional okR provisional fs of
         (Some e, fs') \<Rightarrow> (Inl e, fs')
       | (None, fs') \<Rightarrow>
           if provisional = [] then (Inr (objects, 0), fs')
           else if \<not> okSync then (Inl CusSyncDirectory, fs')
           else (Inr (objects, length provisional), syncGenerationCustodyDirectory fs'))))"

section \<open>Custody objects\<close>

text \<open>The bytes \<open>c\<close> are one transfer that was validated with the result \<open>r\<close>.\<close>

definition transfer_ok :: "x509_lib \<Rightarrow> bytes \<Rightarrow> transfer_result \<Rightarrow> bool" where
  "transfer_ok L c r \<longleftrightarrow>
     (\<exists>m p v. c = transfer_frame m p \<and> r = result_of (tr_Descriptor r) m p \<and>
        UnmarshalSignedGeneration L m = Inr v \<and> gs_Descriptor v = tr_Descriptor r \<and>
        length p = unat (gd_EncodedDataBytes (tr_Descriptor r)) \<and>
        hex_EncodeToString (Sum256 p) = gd_EncodedDataSHA256 (tr_Descriptor r))"

lemma receive_tee_Inr: "receive_tee L Z q = Inr (r, teed) \<Longrightarrow> transfer_ok L teed r"
proof -
  assume "receive_tee L Z q = Inr (r, teed)"
  then obtain rest u where v: "readValidatedTransfer L Z no_handler () (rq_Stream q) (rq_Offer q)
      (rq_Receive q) = Inr (r, rest, u)"
    and t: "teed = take (length (rq_Stream q) - length rest) (rq_Stream q)"
    by (auto simp: receive_tee_def ReadValidatedTransfer_def Let_def split: if_splits)
  from validated_transfer [OF v] obtain m p v where s: "rq_Stream q = transfer_frame m p @ rest"
    and r: "r = result_of (go_Descriptor (rq_Offer q)) m p"
    and "UnmarshalSignedGeneration L m = Inr v" "gs_Descriptor v = go_Descriptor (rq_Offer q)"
    "length p = unat (gd_EncodedDataBytes (go_Descriptor (rq_Offer q)))"
    "hex_EncodeToString (Sum256 p) = gd_EncodedDataSHA256 (go_Descriptor (rq_Offer q))" by blast
  moreover have "teed = transfer_frame m p" using t s by simp
  moreover have "tr_Descriptor r = go_Descriptor (rq_Offer q)" by (simp add: r result_of_def)
  ultimately show ?thesis unfolding transfer_ok_def by metis
qed

lemma transfer_ok_length:
  assumes "transfer_ok L c r"
  shows "unat (tr_TransferBytes r) = length c" and "c \<noteq> []"
    and "tr_TransferSHA256 r = hex_EncodeToString (Sum256 c)"
proof -
  from assms obtain m p v where c: "c = transfer_frame m p" and r: "r = result_of (tr_Descriptor r) m p"
    and um: "UnmarshalSignedGeneration L m = Inr v" and d: "gs_Descriptor v = tr_Descriptor r"
    and lp: "length p = unat (gd_EncodedDataBytes (tr_Descriptor r))"
    unfolding transfer_ok_def by blast
  from Unmarshal_Inr [OF um] d have "gen_Validate (tr_Descriptor r) = None"
    by (simp add: validateCryptographically_None signedgen_Validate_None)
  then have "unat (gd_EncodedDataBytes (tr_Descriptor r)) < 2 ^ 63"
    by (simp add: gen_Validate_None word_le_nat_alt)
  moreover have "length m \<le> 524288"
    using um by (auto simp: UnmarshalSignedGeneration_def maxSignedGenerationMetadataBytes_def
        split: if_splits)
  ultimately have "length c < 2 ^ 64" using lp by (simp add: c transfer_frame_length)
  then show "unat (tr_TransferBytes r) = length c"
    by (subst r) (simp add: result_of_def c unat_of_nat_small)
  show "c \<noteq> []" by (simp add: c transfer_frame_def TransferMagic_def)
  show "tr_TransferSHA256 r = hex_EncodeToString (Sum256 c)"
    by (subst r) (simp add: result_of_def c)
qed

section \<open>Many receivers, crashes and restarts\<close>

record custody_sys =
  sy_Fs :: custody_fs
  sy_Procs :: "nat \<Rightarrow> custody_pc"

definition idle :: "custody_pc \<Rightarrow> bool" where
  "idle pc \<longleftrightarrow> (case pc of PcStart \<Rightarrow> True | PcDone _ \<Rightarrow> True | PcFailed _ \<Rightarrow> True | _ \<Rightarrow> False)"

definition crashed :: "custody_pc \<Rightarrow> custody_pc" where
  "crashed pc = (if idle pc then pc else PcFailed CusCrashed)"

text \<open>
  After a crash every name is as processes saw it or as it was on disk; a file that was not
  synced may hold anything.
\<close>

definition after_crash :: "custody_fs \<Rightarrow> custody_fs \<Rightarrow> bool" where
  "after_crash fs fs' \<longleftrightarrow>
     (\<forall>n. cd_Dir fs' n = cd_Dir fs n \<or> cd_Dir fs' n = cd_Disk fs n) \<and> cd_Disk fs' = cd_Dir fs' \<and>
     dom (cd_Files fs') = dom (cd_Files fs) \<and>
     (\<forall>k f f'. cd_Files fs k = Some f \<and> cd_Files fs' k = Some f' \<longrightarrow> cf_Kind f' = cf_Kind f) \<and>
     (\<forall>k f. cd_Files fs k = Some f \<and> cf_Synced f \<longrightarrow> cd_Files fs' k = Some f)"

text \<open>
  One move of the whole system: a system call of one receiver, a crash, or the recovery of
  the root while no receiver runs. A receiver whose removal of the provisional name fails
  after publication goes on to remove the final name again; \<open>undone\<close> are the final names for
  which that may happen. With \<^const>\<open>UNIV\<close> every call can fail.
\<close>

inductive custody_move ::
  "x509_lib \<Rightarrow> zstd_decoder \<Rightarrow> (nat \<Rightarrow> custody_request) \<Rightarrow> string set \<Rightarrow> custody_sys \<Rightarrow> custody_sys \<Rightarrow> bool"
  for L :: x509_lib and Z :: zstd_decoder and Q :: "nat \<Rightarrow> custody_request" and undone :: "string set" where
  move_proc: "\<lbrakk>\<And>name r. sy_Procs s j = PcRemoveProvisional name r \<Longrightarrow> ok \<or> finalName r \<in> undone;
     custody_step L Z (Q j) ok tmp i (sy_Fs s) (sy_Procs s j) = (fs', pc')\<rbrakk>
   \<Longrightarrow> custody_move L Z Q undone s \<lparr>sy_Fs = fs', sy_Procs = (sy_Procs s)(j := pc')\<rparr>"
| move_crash: "after_crash (sy_Fs s) fs'
   \<Longrightarrow> custody_move L Z Q undone s \<lparr>sy_Fs = fs', sy_Procs = crashed \<circ> sy_Procs s\<rparr>"
| move_restart: "\<lbrakk>\<And>j. idle (sy_Procs s j); set names = dom (cd_Dir (sy_Fs s));
     RecoverDurableCustodyRoot root c okR okSync names (sy_Fs s) = (res, fs')\<rbrakk>
   \<Longrightarrow> custody_move L Z Q undone s (s\<lparr>sy_Fs := fs'\<rparr>)"

text \<open>The reachable states: from an empty root and no receiver started, by any moves.\<close>

inductive custody_run ::
  "x509_lib \<Rightarrow> zstd_decoder \<Rightarrow> (nat \<Rightarrow> custody_request) \<Rightarrow> string set \<Rightarrow> custody_sys \<Rightarrow> bool"
  for L :: x509_lib and Z :: zstd_decoder and Q :: "nat \<Rightarrow> custody_request" and undone :: "string set" where
  run_init: "custody_run L Z Q undone
    \<lparr>sy_Fs = \<lparr>cd_Dir = Map.empty, cd_Disk = Map.empty, cd_Files = Map.empty\<rparr>,
     sy_Procs = (\<lambda>_. PcStart)\<rparr>"
| run_move: "\<lbrakk>custody_run L Z Q undone s; custody_move L Z Q undone s s'\<rbrakk> \<Longrightarrow> custody_run L Z Q undone s'"

text \<open>The states that the system can still come to.\<close>

abbreviation custody_later ::
  "x509_lib \<Rightarrow> zstd_decoder \<Rightarrow> (nat \<Rightarrow> custody_request) \<Rightarrow> string set \<Rightarrow> custody_sys \<Rightarrow> custody_sys \<Rightarrow> bool" where
  "custody_later L Z Q undone \<equiv> (custody_move L Z Q undone)\<^sup>*\<^sup>*"

lemma custody_run_later:
  "custody_run L Z Q undone s \<Longrightarrow> custody_later L Z Q undone s s' \<Longrightarrow> custody_run L Z Q undone s'"
  by (rotate_tac, induction rule: rtranclp_induct) (auto intro: run_move)

lemma custody_move_mono:
  "custody_move L Z Q undone s s' \<Longrightarrow> undone \<subseteq> undone' \<Longrightarrow> custody_move L Z Q undone' s s'"
proof (induction rule: custody_move.induct)
  case (move_proc s j ok tmp i fs' pc')
  from move_proc.hyps(1) move_proc.prems show ?case
    by (intro custody_move.move_proc [where Q = Q, OF _ move_proc.hyps(2)]) blast
qed (auto intro: custody_move.intros)

lemma custody_run_mono:
  "custody_run L Z Q undone s \<Longrightarrow> undone \<subseteq> undone' \<Longrightarrow> custody_run L Z Q undone' s"
  by (induction rule: custody_run.induct) (auto intro: run_init run_move custody_move_mono)

end
