(* ===== verification/Gen_Sender.thy ===== *)
theory Gen_Sender
  imports Gen_Custody
begin

text \<open>
  Package \<^verbatim>\<open>transportsender\<close>, files \<^verbatim>\<open>generation_transaction.go\<close>, \<^verbatim>\<open>generation_transport.go\<close> (queue
  discovery and sending), \<^verbatim>\<open>generation_publish_other.go\<close> and \<^verbatim>\<open>retry.go\<close>: the source side of one
  generation transaction, from the offer to the retirement of the acknowledged generation.
\<close>

section \<open>Data\<close>

record transport_generation =
  tg_GenerationDir :: string
  tg_GenerationID :: string
  tg_Published :: published_generation

record retirement_authorization =
  ra_acknowledgement :: generation_acknowledgement
  ra_transfer :: transfer_result

datatype retirement_disposition =
  GenerationRetirementDispositionAlreadyRetired | GenerationRetirementDispositionRetired

record retirement_result =
  ret_Disposition :: retirement_disposition
  ret_GenerationID :: string
  ret_RetiredPath :: string
  ret_SourceID :: string
  ret_TransferSHA256 :: string

record transaction_result =
  tx_Acknowledgement :: "generation_acknowledgement option"
  tx_Decision :: "generation_decision option"
  tx_Offer :: "generation_offer option"
  tx_Retirement :: "retirement_result option"
  tx_Transfer :: "transfer_result option"

definition zero_transaction :: transaction_result where
  "zero_transaction = \<lparr>tx_Acknowledgement = None, tx_Decision = None, tx_Offer = None,
     tx_Retirement = None, tx_Transfer = None\<rparr>"

datatype sender_error =
    SndOS os_error
  | SndPublished published_error
  | SndProtocol protocol_error
  | SndRetryable sender_error
  | SndIdentityRequired
  | SndInMemoryIdentity
  | SndOfferIdentity
  | SndRejected string
  | SndDescriptor generation_error
  | SndByteCounts
  | SndPayloadBytes
  | SndPayloadSHA256
  | SndDigest
  | SndOverflow
  | SndTransferBytes
  | SndAuthorizationTransfer
  | SndAuthorizationAcknowledgement
  | SndNotAbsolute
  | SndDirectoryIdentity
  | SndPublishedIdentity
  | SndTransferDescriptor
  | SndBothNamespaces
  | SndNeitherNamespace
  | SndNotDirectory
  | SndSignedIdentity
  | SndMetadataFile
  | SndMetadataBytes
  | SndMetadataSHA256
  | SndMetadata metadata_error
  | SndTombstoneEntries
  | SndTombstonePayload
  | SndTombstoneSHA256
  | SndStageNotAbsolute
  | SndStageSymlinks
  | SndSourceRequired
  | SndQueueSymlink string
  | SndQueueNotDirectory string
  | SndSourceID
  | SndEncodedLimit

text \<open>The calls of the queue beyond those that read a published generation.\<close>

record 'w queue_os = "'w os" +
  os_Clean :: "string \<Rightarrow> string"
  os_Dir :: "string \<Rightarrow> string"
  os_EvalSymlinks :: "string \<Rightarrow> 'w \<Rightarrow> (os_error + string) \<times> 'w"
  os_ReadFile :: "string \<Rightarrow> 'w \<Rightarrow> (os_error + bytes) \<times> 'w"
  os_Rename :: "string \<Rightarrow> string \<Rightarrow> 'w \<Rightarrow> (os_error + unit) \<times> 'w"
  os_Sync :: "nat \<Rightarrow> 'w \<Rightarrow> (os_error + unit) \<times> 'w"

section \<open>Retry classification\<close>

text \<open>What \<^verbatim>\<open>errors.Is\<close> and \<^verbatim>\<open>errors.As\<close> find in the chain of an error.\<close>

record error_chain =
  ch_DeadlineExceeded :: bool
  ch_ErrClosedPipe :: bool
  ch_EOF :: bool
  ch_ErrUnexpectedEOF :: bool
  ch_NetError :: bool

definition retryableTransportIOError :: "error_chain \<Rightarrow> bool \<Rightarrow> bool" where
  "retryableTransportIOError err allowEOF \<longleftrightarrow>
     ch_DeadlineExceeded err \<or> ch_ErrClosedPipe err \<or> (allowEOF \<and> ch_EOF err) \<or>
     (allowEOF \<and> ch_ErrUnexpectedEOF err) \<or> ch_NetError err"

definition retryableAcknowledgementReadError :: "error_chain \<Rightarrow> bool" where
  "retryableAcknowledgementReadError err = retryableTransportIOError err True"

definition retryableTransportWriteError :: "error_chain \<Rightarrow> bool" where
  "retryableTransportWriteError err = retryableTransportIOError err False"

definition wrap_error :: "bool \<Rightarrow> sender_error \<Rightarrow> sender_error" where
  "wrap_error retryable e = (if retryable then SndRetryable e else e)"

section \<open>Sending\<close>

definition SendTransportGeneration ::
  "('w, 'x) os_scheme \<Rightarrow> x509_lib \<Rightarrow> 's write_fn \<Rightarrow> transport_generation \<Rightarrow> 'w \<times> 's
     \<Rightarrow> (sender_error + transfer_result) \<times> ('w \<times> 's)" where
  "SendTransportGeneration S L wr g p =
     (if tg_GenerationDir g = [] \<or> tg_GenerationID g = [] then (Inl SndIdentityRequired, p)
      else if pg_DirectoryPath (tg_Published g) \<noteq> tg_GenerationDir g \<or>
              gd_GenerationID (gs_Descriptor (pg_Signed (tg_Published g))) \<noteq> tg_GenerationID g
      then (Inl SndInMemoryIdentity, p)
      else case WritePublishedGeneration (os.truncate S) L wr (tg_Published g) p of
        (Inl e, (w, t)) \<Rightarrow> (Inl (SndPublished e), (w, ts_Writer t))
      | (Inr r, (w, t)) \<Rightarrow> (Inr r, (w, ts_Writer t)))"

definition validateGenerationTransferResult :: "transfer_result \<Rightarrow> sender_error option" where
  "validateGenerationTransferResult v =
     (let d = tr_Descriptor v; h = 20 :: uint64 in
      first_err
       [map_option SndDescriptor (gen_Validate d),
        fail_if (tr_MetadataBytes v = 0 \<or> tr_PayloadBytes v = 0 \<or> tr_TransferBytes v = 0) SndByteCounts,
        fail_if (tr_PayloadBytes v \<noteq> gd_EncodedDataBytes d) SndPayloadBytes,
        fail_if (tr_PayloadSHA256 v \<noteq> gd_EncodedDataSHA256 d) SndPayloadSHA256,
        fail_if (\<not> (sha256_text (tr_MetadataSHA256 v) \<and> sha256_text (tr_PayloadSHA256 v) \<and>
                     sha256_text (tr_TransferSHA256 v))) SndDigest,
        fail_if (tr_MetadataBytes v > (- 1) - h) SndOverflow,
        fail_if (tr_PayloadBytes v > (- 1) - (h + tr_MetadataBytes v)) SndOverflow,
        fail_if (tr_TransferBytes v \<noteq> h + tr_MetadataBytes v + tr_PayloadBytes v) SndTransferBytes])"

definition validateGenerationRetirementAuthorization :: "retirement_authorization \<Rightarrow> sender_error option" where
  "validateGenerationRetirementAuthorization v =
     first_err
       [fail_if (validateGenerationTransferResult (ra_transfer v) \<noteq> None) SndAuthorizationTransfer,
        fail_if (AcknowledgementMatches (ra_acknowledgement v) (ra_transfer v) \<noteq> None)
          SndAuthorizationAcknowledgement]"

definition authorization_Acknowledgement ::
  "retirement_authorization \<Rightarrow> sender_error + generation_acknowledgement" where
  "authorization_Acknowledgement v =
     bindE (check (validateGenerationRetirementAuthorization v)) (\<lambda>_. Inr (ra_acknowledgement v))"

definition VerifyGenerationAcknowledgement ::
  "bytes \<Rightarrow> transfer_result \<Rightarrow> sender_error + retirement_authorization \<times> bytes" where
  "VerifyGenerationAcknowledgement s transfer =
     bindE (check (validateGenerationTransferResult transfer)) (\<lambda>_.
     bindE (map_err SndProtocol (gen_ReadAcknowledgement s)) (\<lambda>(acknowledgement, s).
     bindE (check (map_option SndProtocol (AcknowledgementMatches acknowledgement transfer))) (\<lambda>_.
     Inr (\<lparr>ra_acknowledgement = acknowledgement, ra_transfer = transfer\<rparr>, s))))"

section \<open>Retirement\<close>

definition generationRetiredDirectoryPrefix :: string where
  "generationRetiredDirectoryPrefix = ''.fi-generation-retired-''"

definition generationRetirementObjectName :: "transfer_result \<Rightarrow> string" where
  "generationRetirementObjectName transfer =
     generationRetiredDirectoryPrefix @ hex_EncodeToString (Sum256
       (''FI-GENERATION-RETIREMENT-V1'' @ [CHR 0x00] @ gd_SourceID (tr_Descriptor transfer) @ [CHR 0x00] @
        gd_GenerationID (tr_Descriptor transfer) @ [CHR 0x00] @ tr_TransferSHA256 transfer))"

definition sameTransportGenerationSignedIdentity :: "signed_generation \<Rightarrow> signed_generation \<Rightarrow> bool" where
  "sameTransportGenerationSignedIdentity a b \<longleftrightarrow>
     gs_Version a = gs_Version b \<and> gs_Descriptor a = gs_Descriptor b \<and> gs_Signature a = gs_Signature b \<and>
     gs_BatchSigningCertificateDER a = gs_BatchSigningCertificateDER b"

definition validateGenerationForRetirement ::
  "('w, 'x) os_scheme \<Rightarrow> transport_generation \<Rightarrow> transfer_result \<Rightarrow> generation_acknowledgement
     \<Rightarrow> sender_error option" where
  "validateGenerationForRetirement S g transfer acknowledgement =
     first_err
       [fail_if (tg_GenerationDir g = [] \<or> tg_GenerationID g = []) SndIdentityRequired,
        fail_if (\<not> os_IsAbs S (tg_GenerationDir g)) SndNotAbsolute,
        fail_if (os_CleanBase S (tg_GenerationDir g) \<noteq> sealedGenerationDirectoryPrefix @ tg_GenerationID g)
          SndDirectoryIdentity,
        fail_if (pg_DirectoryPath (tg_Published g) \<noteq> tg_GenerationDir g \<or>
          gd_GenerationID (gs_Descriptor (pg_Signed (tg_Published g))) \<noteq> tg_GenerationID g)
          SndPublishedIdentity,
        validateGenerationTransferResult transfer,
        fail_if (tr_Descriptor transfer \<noteq> gs_Descriptor (pg_Signed (tg_Published g))) SndTransferDescriptor,
        map_option SndProtocol (AcknowledgementMatches acknowledgement transfer)]"

definition verifyGenerationMetadataIdentity ::
  "('w, 'x) queue_os_scheme \<Rightarrow> string \<Rightarrow> transfer_result \<Rightarrow> 'w \<Rightarrow> (sender_error + unit) \<times> 'w" where
  "verifyGenerationMetadataIdentity S path transfer =
     bindP (callP SndOS (os_Lstat S path)) (\<lambda>info.
     bindP (stop_if (fi_Kind info = SymlinkEntry \<or> \<not> is_regular info \<or> fi_Size info \<le> 0) SndMetadataFile) (\<lambda>_.
     bindP (stop_if (of_int (fi_Size info) \<noteq> tr_MetadataBytes transfer) SndMetadataBytes) (\<lambda>_.
     bindP (callP SndOS (os_ReadFile S path)) (\<lambda>content.
     stop_if (hex_EncodeToString (Sum256 content) \<noteq> tr_MetadataSHA256 transfer) SndMetadataSHA256))))"

text \<open>The payload is closed by a \<^verbatim>\<open>defer\<close>, whose error is dropped.\<close>

definition verifyRetiredGenerationTombstone ::
  "('w, 'x) queue_os_scheme \<Rightarrow> x509_lib \<Rightarrow> string \<Rightarrow> transport_generation \<Rightarrow> transfer_result \<Rightarrow> 'w
     \<Rightarrow> (sender_error + unit) \<times> 'w" where
  "verifyRetiredGenerationTombstone S L path g transfer =
     bindP (callP SndOS (os_ReadDir S path)) (\<lambda>entries.
     bindP (stop_if (length entries \<noteq> 2) SndTombstoneEntries) (\<lambda>_.
     let metadataPath = os_Join S path SignedGenerationMetadataName;
         payloadPath = os_Join S path SealedGenerationPayloadName in
     bindP (callP SndOS (os_ReadFile S metadataPath)) (\<lambda>metadata.
     bindP (stop_if (of_nat (length metadata) \<noteq> tr_MetadataBytes transfer) SndMetadataBytes) (\<lambda>_.
     bindP (stop_if (hex_EncodeToString (Sum256 metadata) \<noteq> tr_MetadataSHA256 transfer) SndMetadataSHA256) (\<lambda>_.
     bindP (liftP (map_err SndMetadata (UnmarshalSignedGeneration L metadata))) (\<lambda>signed.
     bindP (stop_if (\<not> sameTransportGenerationSignedIdentity signed (pg_Signed (tg_Published g)))
              SndSignedIdentity) (\<lambda>_.
     bindP (callP SndOS (os_Lstat S payloadPath)) (\<lambda>payloadInfo.
     bindP (stop_if (fi_Kind payloadInfo = SymlinkEntry \<or> \<not> is_regular payloadInfo \<or> fi_Size payloadInfo \<le> 0 \<or>
              of_int (fi_Size payloadInfo) \<noteq> tr_PayloadBytes transfer) SndTombstonePayload) (\<lambda>_.
     bindP (callP SndOS (os_Open S payloadPath)) (\<lambda>fh.
     bindP (readsP (os.truncate S) fh) (\<lambda>(chunks, fin).
     bindP (ignoreP (os_Close S fh)) (\<lambda>_.
     case fin of Some e \<Rightarrow> failP (SndOS e)
     | None \<Rightarrow> stop_if (hex_EncodeToString (Sum256 (concat chunks)) \<noteq> tr_PayloadSHA256 transfer)
         SndTombstoneSHA256))))))))))))"

definition publishGenerationDirectory ::
  "('w, 'x) queue_os_scheme \<Rightarrow> string \<Rightarrow> string \<Rightarrow> 'w \<Rightarrow> (sender_error + unit) \<times> 'w" where
  "publishGenerationDirectory S source destination =
     bindP (callP SndOS (os_Rename S source destination)) (\<lambda>_.
     bindP (callP SndOS (os_Open S (os_Dir S destination))) (\<lambda>parent.
     bindP (attemptP (os_Sync S parent)) (\<lambda>r.
     bindP (ignoreP (os_Close S parent)) (\<lambda>_.
     liftP (map_err SndOS r)))))"

definition retire_active ::
  "('w, 'x) queue_os_scheme \<Rightarrow> x509_lib \<Rightarrow> transport_generation \<Rightarrow> transfer_result \<Rightarrow> string \<Rightarrow> file_info \<Rightarrow> 'w
     \<Rightarrow> (sender_error + unit) \<times> 'w" where
  "retire_active S L g transfer retiredPath finalInfo =
     bindP (stop_if (fi_Kind finalInfo = SymlinkEntry \<or> \<not> is_dir finalInfo) SndNotDirectory) (\<lambda>_.
     bindP (callP SndPublished (LoadSealedGeneration (os.truncate S) L (tg_GenerationDir g))) (\<lambda>current.
     bindP (stop_if (\<not> sameTransportGenerationSignedIdentity (pg_Signed current) (pg_Signed (tg_Published g)))
              SndSignedIdentity) (\<lambda>_.
     bindP (verifyGenerationMetadataIdentity S (pg_MetadataPath current) transfer) (\<lambda>_.
     publishGenerationDirectory S (tg_GenerationDir g) retiredPath))))"

definition RetireTransportGeneration ::
  "('w, 'x) queue_os_scheme \<Rightarrow> x509_lib \<Rightarrow> transport_generation \<Rightarrow> retirement_authorization \<Rightarrow> 'w
     \<Rightarrow> (sender_error + retirement_result) \<times> 'w" where
  "RetireTransportGeneration S L g authorization =
     bindP (liftP (authorization_Acknowledgement authorization)) (\<lambda>acknowledgement.
     let transfer = ra_transfer authorization in
     bindP (liftP (check (validateGenerationForRetirement S g transfer acknowledgement))) (\<lambda>_.
     let retiredPath = os_Join S (os_Dir S (tg_GenerationDir g)) (generationRetirementObjectName transfer);
         result = \<lparr>ret_Disposition = GenerationRetirementDispositionRetired, ret_GenerationID = tg_GenerationID g,
                   ret_RetiredPath = retiredPath, ret_SourceID = gd_SourceID (tr_Descriptor transfer),
                   ret_TransferSHA256 = tr_TransferSHA256 transfer\<rparr> in
     bindP (attemptP (os_Lstat S (tg_GenerationDir g))) (\<lambda>final.
     bindP (attemptP (os_Lstat S retiredPath)) (\<lambda>retired.
     case (final, retired) of
        (Inr _, Inr _) \<Rightarrow> failP SndBothNamespaces
      | (Inr finalInfo, Inl _) \<Rightarrow>
          bindP (retire_active S L g transfer retiredPath finalInfo) (\<lambda>_. retP result)
      | (Inl ErrNotExist, Inr retiredInfo) \<Rightarrow>
          bindP (stop_if (fi_Kind retiredInfo = SymlinkEntry \<or> \<not> is_dir retiredInfo) SndNotDirectory) (\<lambda>_.
          bindP (verifyRetiredGenerationTombstone S L retiredPath g transfer) (\<lambda>_.
          retP (result\<lparr>ret_Disposition := GenerationRetirementDispositionAlreadyRetired\<rparr>)))
      | (Inl ErrNotExist, Inl ErrNotExist) \<Rightarrow> failP SndNeitherNamespace
      | (Inl ErrOther, _) \<Rightarrow> failP (SndOS ErrOther)
      | (Inl ErrNotExist, Inl ErrOther) \<Rightarrow> failP (SndOS ErrOther)))))"

section \<open>The transaction\<close>

text \<open>
  The stream is a pair: the bytes that the receiver sends during the transaction, read in order,
  and the writer towards the receiver. \<open>X\<close> gives the chain of an error.
\<close>

definition acknowledge_and_retire ::
  "('w, 'x) queue_os_scheme \<Rightarrow> x509_lib \<Rightarrow> (sender_error \<Rightarrow> error_chain) \<Rightarrow> transport_generation \<Rightarrow> bytes
     \<Rightarrow> transfer_result \<Rightarrow> transaction_result \<Rightarrow> 'w \<Rightarrow> sender_error option \<times> transaction_result \<times> 'w" where
  "acknowledge_and_retire S L X g input transfer result w =
     (case VerifyGenerationAcknowledgement input transfer of
        Inl e \<Rightarrow> (Some (wrap_error (retryableAcknowledgementReadError (X e)) e), result, w)
      | Inr (authorization, _) \<Rightarrow>
          (case authorization_Acknowledgement authorization of
             Inl e \<Rightarrow> (Some e, result, w)
           | Inr acknowledgement \<Rightarrow>
               let result = result\<lparr>tx_Acknowledgement := Some acknowledgement\<rparr> in
               (case RetireTransportGeneration S L g authorization w of
                  (Inl e, w') \<Rightarrow> (Some e, result, w')
                | (Inr retirement, w') \<Rightarrow> (None, result\<lparr>tx_Retirement := Some retirement\<rparr>, w'))))"

definition SendAndRetireTransportGeneration ::
  "('w, 'x) queue_os_scheme \<Rightarrow> x509_lib \<Rightarrow> (sender_error \<Rightarrow> error_chain) \<Rightarrow> 's write_fn \<Rightarrow> transport_generation
     \<Rightarrow> bytes \<Rightarrow> 'w \<times> 's \<Rightarrow> sender_error option \<times> transaction_result \<times> ('w \<times> 's)" where
  "SendAndRetireTransportGeneration S L X wr g input p =
     (case p of (w, s) \<Rightarrow>
      (case OfferFromPublished (os.truncate S) L (tg_Published g) w of
         (Inl e, w') \<Rightarrow> (Some (SndPublished e), zero_transaction, (w', s))
       | (Inr offer, w') \<Rightarrow>
           if gd_SourceID (go_Descriptor offer) \<noteq> gd_SourceID (gs_Descriptor (pg_Signed (tg_Published g))) \<or>
              gd_GenerationID (go_Descriptor offer) \<noteq> tg_GenerationID g
           then (Some SndOfferIdentity, zero_transaction, (w', s))
           else let result = zero_transaction\<lparr>tx_Offer := Some offer\<rparr> in
           (case WriteOffer wr s offer of
              (Some e, s') \<Rightarrow>
                (Some (wrap_error (retryableTransportWriteError (X (SndProtocol e))) (SndProtocol e)), result, (w', s'))
            | (None, s') \<Rightarrow>
                (case ReadDecision input of
                   Inl e \<Rightarrow>
                     (Some (wrap_error (retryableAcknowledgementReadError (X (SndProtocol e))) (SndProtocol e)),
                      result, (w', s'))
                 | Inr (decision, input') \<Rightarrow>
                     let result = result\<lparr>tx_Decision := Some decision\<rparr> in
                     (case DecisionMatchesOffer decision offer of
                        Some e \<Rightarrow> (Some (SndProtocol e), result, (w', s'))
                      | None \<Rightarrow>
                          if \<not> de_Accepted decision then (Some (SndRejected (de_Reason decision)), result, (w', s'))
                          else (case SendTransportGeneration S L wr g (w', s') of
                            (Inl e, q) \<Rightarrow>
                              (Some (wrap_error (retryableTransportWriteError (X e)) e), result, q)
                          | (Inr transfer, (w'', s'')) \<Rightarrow>
                              (case acknowledge_and_retire S L X g input' transfer
                                      (result\<lparr>tx_Transfer := Some transfer\<rparr>) w'' of
                                 (err, result, w''') \<Rightarrow> (err, result, (w''', s'')))))))))"

section \<open>The queue\<close>

definition validateTransportGenerationIdentity ::
  "published_generation \<Rightarrow> string \<Rightarrow> string \<Rightarrow> uint64 \<Rightarrow> sender_error option" where
  "validateTransportGenerationIdentity published sourceID generationID maxEncodedBytes =
     (let d = gs_Descriptor (pg_Signed published) in
      first_err
        [fail_if (gd_SourceID d \<noteq> sourceID) SndSourceID,
         fail_if (gd_GenerationID d \<noteq> generationID) SndDirectoryIdentity,
         fail_if (maxEncodedBytes > 0 \<and> gd_EncodedDataBytes d > maxEncodedBytes) SndEncodedLimit])"

definition loadTransportGenerationAt ::
  "('w, 'x) os_scheme \<Rightarrow> x509_lib \<Rightarrow> string \<Rightarrow> string \<Rightarrow> string \<Rightarrow> uint64 \<Rightarrow> 'w
     \<Rightarrow> (sender_error + transport_generation) \<times> 'w" where
  "loadTransportGenerationAt S L generationDir sourceID generationID maxEncodedBytes =
     bindP (callP SndPublished (LoadSealedGeneration (os.truncate S) L generationDir)) (\<lambda>published.
     bindP (liftP (check (validateTransportGenerationIdentity published sourceID generationID maxEncodedBytes))) (\<lambda>_.
     bindP (if maxEncodedBytes > 0
            then callP SndPublished (VerifyPublishedGenerationPayload (os.truncate S) L published)
            else retP ()) (\<lambda>_.
     retP \<lparr>tg_GenerationDir = generationDir, tg_GenerationID = generationID, tg_Published = published\<rparr>)))"

fun queue_names :: "(string \<times> entry_kind) list \<Rightarrow> sender_error + string list" where
  "queue_names [] = Inr []"
| "queue_names ((name, kind) # entries) =
     (if \<not> HasPrefix name sealedGenerationDirectoryPrefix then queue_names entries
      else if kind = SymlinkEntry then Inl (SndQueueSymlink name)
      else if kind \<noteq> DirectoryEntry then Inl (SndQueueNotDirectory name)
      else bindE (queue_names entries) (\<lambda>names. Inr (name # names)))"

definition validateOutboundStageDirectoryPath ::
  "('w, 'x) queue_os_scheme \<Rightarrow> string \<Rightarrow> 'w \<Rightarrow> (sender_error + unit) \<times> 'w" where
  "validateOutboundStageDirectoryPath S path =
     bindP (callP SndOS (os_EvalSymlinks S path)) (\<lambda>resolved.
     stop_if (os_Clean S resolved \<noteq> os_Clean S path) SndStageSymlinks)"

definition validateGenerationStageRoot ::
  "('w, 'x) queue_os_scheme \<Rightarrow> string \<Rightarrow> 'w \<Rightarrow> (sender_error + unit) \<times> 'w" where
  "validateGenerationStageRoot S path =
     bindP (stop_if (path = [] \<or> \<not> os_IsAbs S path) SndStageNotAbsolute) (\<lambda>_.
     bindP (validateOutboundStageDirectoryPath S (os_Clean S path)) (\<lambda>_.
     bindP (callP SndOS (os_Lstat S (os_Clean S path))) (\<lambda>info.
     stop_if (fi_Kind info = SymlinkEntry \<or> \<not> is_dir info) SndNotDirectory)))"

text \<open>\<^verbatim>\<open>sort.Strings\<close> compares bytes.\<close>

definition NextTransportGeneration ::
  "('w, 'x) queue_os_scheme \<Rightarrow> x509_lib \<Rightarrow> string \<Rightarrow> string \<Rightarrow> 'w
     \<Rightarrow> (sender_error + transport_generation option) \<times> 'w" where
  "NextTransportGeneration S L stageRoot sourceID =
     bindP (validateGenerationStageRoot S stageRoot) (\<lambda>_.
     bindP (stop_if (TrimSpace sourceID = []) SndSourceRequired) (\<lambda>_.
     bindP (callP SndOS (os_ReadDir S stageRoot)) (\<lambda>entries.
     bindP (liftP (queue_names entries)) (\<lambda>names.
     case sort names of
       [] \<Rightarrow> retP None
     | name # _ \<Rightarrow>
         bindP (loadTransportGenerationAt S L (os_Join S stageRoot name) sourceID
                  (drop (length sealedGenerationDirectoryPrefix) name) 0) (\<lambda>g.
         retP (Some g))))))"

section \<open>When a generation is retired\<close>

lemma sameSigned [simp]: "sameTransportGenerationSignedIdentity a b \<longleftrightarrow> a = b"
  by (auto simp: sameTransportGenerationSignedIdentity_def)

lemma transaction_completed:
  assumes "SendAndRetireTransportGeneration S L X wr g input (w, s) = (None, result, (w', s'))"
  obtains offer s1 decision input' w1 w2 transfer ack rest where
    "WriteOffer wr s offer = (None, s1)" "ReadDecision input = Inr (decision, input')"
    "SendTransportGeneration S L wr g (w1, s1) = (Inr transfer, (w2, s'))"
    "gen_ReadAcknowledgement input' = Inr (ack, rest)" "AcknowledgementMatches ack transfer = None"
    "tx_Transfer result = Some transfer"
  using assms that
  by (auto simp: SendAndRetireTransportGeneration_def acknowledge_and_retire_def Let_def VerifyGenerationAcknowledgement_def
      authorization_Acknowledgement_def split: prod.splits sum.splits option.splits if_splits)

lemma sent_transfer:
  assumes "io_writer wr contents" and "SendTransportGeneration S L wr g (w, s) = (Inr r, (w', s'))"
  obtains bs where "contents s' = contents s @ bs" "transfer_ok L bs r"
    "tr_Descriptor r = gs_Descriptor (pg_Signed (tg_Published g))"
proof -
  from assms(2) obtain t where "WritePublishedGeneration (os.truncate S) L wr (tg_Published g) (w, s) = (Inr r, (w', t))"
    "s' = ts_Writer t"
    by (auto simp: SendTransportGeneration_def split: if_splits prod.splits sum.splits)
  with written_transfer_signed [OF assms(1) this(1)] obtain m p where
    b: "contents s' = contents s @ transfer_frame m p" and r: "r = result_of (gs_Descriptor (pg_Signed (tg_Published g))) m p"
    and k: "UnmarshalSignedGeneration L m = Inr (pg_Signed (tg_Published g))"
      "length p = unat (gd_EncodedDataBytes (gs_Descriptor (pg_Signed (tg_Published g))))"
      "hex_EncodeToString (Sum256 p) = gd_EncodedDataSHA256 (gs_Descriptor (pg_Signed (tg_Published g)))"
    by blast
  have d: "tr_Descriptor r = gs_Descriptor (pg_Signed (tg_Published g))" by (simp add: r result_of_def)
  with r k have "transfer_ok L (transfer_frame m p) r" unfolding transfer_ok_def by metis
  from that [OF b this d] show thesis .
qed

text \<open>The sender's own check never rejects a transfer it has written.\<close>

lemma transfer_result_valid:
  assumes "transfer_ok L c r"
  shows "validateGenerationTransferResult r = None"
proof -
  from assms obtain m p v where c: "c = transfer_frame m p" and r: "r = result_of (tr_Descriptor r) m p"
    and um: "UnmarshalSignedGeneration L m = Inr v" and v: "gs_Descriptor v = tr_Descriptor r"
    and lp: "length p = unat (gd_EncodedDataBytes (tr_Descriptor r))"
      "hex_EncodeToString (Sum256 p) = gd_EncodedDataSHA256 (tr_Descriptor r)"
    unfolding transfer_ok_def by blast
  from Unmarshal_Inr [OF um] v have d: "gen_Validate (tr_Descriptor r) = None"
    by (simp add: validateCryptographically_None signedgen_Validate_None)
  then have e: "gd_EncodedDataBytes (tr_Descriptor r) \<noteq> 0" "unat (gd_EncodedDataBytes (tr_Descriptor r)) < 2 ^ 63"
    by (simp_all add: gen_Validate_None word_le_nat_alt)
  have m: "m \<noteq> []" "length m \<le> 524288"
    using um by (auto simp: UnmarshalSignedGeneration_def maxSignedGenerationMetadataBytes_def split: if_splits)
  have f: "tr_MetadataBytes r = of_nat (length m)" "tr_PayloadBytes r = gd_EncodedDataBytes (tr_Descriptor r)"
    "tr_TransferBytes r = of_nat (length (transfer_frame m p))" "tr_PayloadSHA256 r = gd_EncodedDataSHA256 (tr_Descriptor r)"
    "sha256_text (tr_MetadataSHA256 r)" "sha256_text (tr_TransferSHA256 r)"
    using lp by (simp_all add: arg_cong [OF r, of tr_MetadataBytes] arg_cong [OF r, of tr_PayloadBytes]
        arg_cong [OF r, of tr_TransferBytes] arg_cong [OF r, of tr_PayloadSHA256] arg_cong [OF r, of tr_MetadataSHA256]
        arg_cong [OF r, of tr_TransferSHA256]) (simp_all add: result_of_def)
  have "sha256_text (hex_EncodeToString (Sum256 p))" by simp
  then have ps: "sha256_text (tr_PayloadSHA256 r)" by (simp add: f lp)
  have um: "unat (tr_MetadataBytes r) = length m" using m by (simp add: f unat_of_nat_small)
  then have "tr_MetadataBytes r \<noteq> 0" using m(1) by (metis length_0_conv unat_0)
  moreover have "tr_TransferBytes r \<noteq> 0" using transfer_ok_length(1,2) [OF assms] by (metis length_0_conv unat_0)
  moreover have g: "\<not> tr_MetadataBytes r > - 1 - 20" using um m by (subst add_guard) simp
  moreover have "\<not> tr_PayloadBytes r > - 1 - (20 + tr_MetadataBytes r)"
    using unat_add_guarded [OF g] um m e(2) f(2) by (subst add_guard) simp
  moreover have "tr_TransferBytes r = 20 + tr_MetadataBytes r + tr_PayloadBytes r"
    using lp(1) by (simp add: f transfer_frame_length)
  ultimately show ?thesis
    using d e f ps by (simp add: validateGenerationTransferResult_def Let_def)
qed

text \<open>What happens up to the acknowledgement does not rename anything.\<close>

lemma truncate_rename [simp]: "os.truncate (S\<lparr>os_Rename := R\<rparr>) = os.truncate S"
  by (cases S) (simp add: os.truncate_def)

lemma sends_without_rename:
  "SendTransportGeneration (S\<lparr>os_Rename := R\<rparr>) L wr g p = SendTransportGeneration S L wr g p"
  by (simp add: SendTransportGeneration_def)

lemma transaction_before_acknowledgement:
  assumes S': "S' = S\<lparr>os_Rename := R\<rparr>"
    and ne: "SendAndRetireTransportGeneration S L X wr g input p \<noteq> SendAndRetireTransportGeneration S' L X wr g input p"
  obtains decision input' transfer w1 result s' where "ReadDecision input = Inr (decision, input')" "de_Accepted decision"
    "tx_Transfer result = Some transfer"
    "SendAndRetireTransportGeneration S L X wr g input p =
       (case acknowledge_and_retire S L X g input' transfer result w1 of (err, result, w') \<Rightarrow> (err, result, (w', s')))"
    "acknowledge_and_retire S L X g input' transfer result w1 \<noteq> acknowledge_and_retire S' L X g input' transfer result w1"
proof -
  obtain w s where p: "p = (w, s)" by (cases p)
  note D = SendAndRetireTransportGeneration_def sends_without_rename S' p Let_def
  obtain ro w1 where o: "OfferFromPublished (os.truncate S) L (tg_Published g) w = (ro, w1)" by force
  with ne obtain offer where Inr: "ro = Inr offer" by (cases ro) (auto simp: D)
  have i: "gd_SourceID (go_Descriptor offer) = gd_SourceID (gs_Descriptor (pg_Signed (tg_Published g))) \<and>
      gd_GenerationID (go_Descriptor offer) = tg_GenerationID g"
    by (rule ccontr) (use ne o Inr in \<open>simp add: D\<close>)
  obtain eo s1 where wo: "WriteOffer wr s offer = (eo, s1)" by force
  with o Inr i ne have eo: "eo = None" by (cases eo) (auto simp: D)
  obtain rt q where st: "SendTransportGeneration S L wr g (w1, s1) = (rt, q)"
    by (cases "SendTransportGeneration S L wr g (w1, s1)")
  from o Inr i wo eo ne obtain decision input' where rd: "ReadDecision input = Inr (decision, input')"
    by (cases "ReadDecision input") (auto simp: D)
  note F = o [unfolded Inr] wo [unfolded eo] rd st
  have m: "DecisionMatchesOffer decision offer = None" "de_Accepted decision"
    using ne F i by (auto simp: D split: if_splits option.splits)
  from ne F m i obtain transfer where rt: "rt = Inr transfer" by (cases rt) (auto simp: D split: prod.splits)
  obtain w2 s2 where q: "q = (w2, s2)" by (cases q)
  let ?r = "zero_transaction\<lparr>tx_Offer := Some offer, tx_Decision := Some decision, tx_Transfer := Some transfer\<rparr>"
  show thesis
    by (rule that [OF rd m(2), of ?r transfer s2 w2]) (use ne F m i rt q in \<open>auto simp: D split: prod.splits\<close>)
qed

lemma acknowledgement_before_rename:
  assumes "acknowledge_and_retire S L X g input' transfer result w \<noteq>
    acknowledge_and_retire (S\<lparr>os_Rename := R\<rparr>) L X g input' transfer result w"
  shows "\<exists>ack rest. gen_ReadAcknowledgement input' = Inr (ack, rest) \<and> AcknowledgementMatches ack transfer = None \<and>
    tx_Transfer (fst (snd (acknowledge_and_retire S L X g input' transfer result w))) = tx_Transfer result"
proof (cases "VerifyGenerationAcknowledgement input' transfer")
  case (Inr x)
  then obtain ack rest where "gen_ReadAcknowledgement input' = Inr (ack, rest)" "AcknowledgementMatches ack transfer = None"
    by (auto simp: VerifyGenerationAcknowledgement_def)
  with Inr show ?thesis
    by (auto simp: acknowledge_and_retire_def Let_def split: prod.splits sum.splits)
qed (use assms in \<open>simp add: acknowledge_and_retire_def\<close>)

text \<open>
  C3: No retirement without an acknowledgement. Compare any two systems that differ only in
  what \<^verbatim>\<open>os.Rename\<close> does, the one call that takes a generation out of the active queue. If
  the transaction behaves differently on them in any way, then the receiver had sent an
  accepting decision followed by an acknowledgement that matches the exact transfer this
  transaction wrote, in its descriptor, sizes and digests.
\<close>

theorem retirement_needs_acknowledgement:
  assumes "SendAndRetireTransportGeneration S L X wr g input p \<noteq>
    SendAndRetireTransportGeneration (S\<lparr>os_Rename := R\<rparr>) L X wr g input p"
  shows "\<exists>decision input' ack rest transfer. ReadDecision input = Inr (decision, input') \<and> de_Accepted decision \<and>
    gen_ReadAcknowledgement input' = Inr (ack, rest) \<and> AcknowledgementMatches ack transfer = None \<and>
    tx_Transfer (fst (snd (SendAndRetireTransportGeneration S L X wr g input p))) = Some transfer"
proof -
  obtain decision input' transfer w1 result s' where d: "ReadDecision input = Inr (decision, input')" "de_Accepted decision"
    and t: "tx_Transfer result = Some transfer"
    and e: "SendAndRetireTransportGeneration S L X wr g input p =
       (case acknowledge_and_retire S L X g input' transfer result w1 of (err, result, w') \<Rightarrow> (err, result, (w', s')))"
    and ne: "acknowledge_and_retire S L X g input' transfer result w1 \<noteq>
      acknowledge_and_retire (S\<lparr>os_Rename := R\<rparr>) L X g input' transfer result w1"
    by (rule transaction_before_acknowledgement [OF refl assms])
  from acknowledgement_before_rename [OF ne] t have "\<exists>ack rest. gen_ReadAcknowledgement input' = Inr (ack, rest) \<and>
      AcknowledgementMatches ack transfer = None \<and>
      tx_Transfer (fst (snd (SendAndRetireTransportGeneration S L X wr g input p))) = Some transfer"
    unfolding e by (cases "acknowledge_and_retire S L X g input' transfer result w1") auto
  with d show ?thesis by blast
qed

end
