(* ===== verification/Custody_Inv.thy ===== *)
theory Custody_Inv
  imports Gen_Custody
begin

text \<open>
  The invariant of the custody root under any number of receivers, crashes and restarts, and
  what later states keep of an object that was reported as taken into custody. The invariant
  speaks of all objects; that a reported object stays holds for those whose final name is not in
  \<open>undone\<close>, the names that a receiver may take back because it could not remove its provisional
  name.
\<close>

section \<open>The invariant\<close>

abbreviation names_file :: "custody_fs \<Rightarrow> string \<Rightarrow> nat \<Rightarrow> bool" where
  "names_file fs n i \<equiv> cd_Dir fs n = Some i \<or> cd_Disk fs n = Some i"

definition object_ok :: "x509_lib \<Rightarrow> custody_fs \<Rightarrow> string \<Rightarrow> nat \<Rightarrow> bool" where
  "object_ok L fs n i \<longleftrightarrow>
     (\<exists>f r. cd_Files fs i = Some f \<and> cf_Synced f \<and> cf_Perm f = 256 \<and> cf_Kind f = RegularEntry \<and>
        transfer_ok L (cf_Content f) r \<and> finalName r = n)"

definition fs_ok :: "x509_lib \<Rightarrow> custody_fs \<Rightarrow> bool" where
  "fs_ok L fs \<longleftrightarrow>
     (\<forall>i f. cd_Files fs i = Some f \<longrightarrow> cf_Kind f = RegularEntry) \<and>
     (\<forall>n i. names_file fs n i \<longrightarrow> i \<in> dom (cd_Files fs)) \<and>
     (\<forall>n i. \<not> isGenerationCustodyProvisionalName n \<longrightarrow> names_file fs n i \<longrightarrow> object_ok L fs n i)"

text \<open>The custody object of \<open>r\<close> is there, and is there after a crash too.\<close>

definition stored :: "x509_lib \<Rightarrow> custody_fs \<Rightarrow> transfer_result \<Rightarrow> bool" where
  "stored L fs r \<longleftrightarrow>
     (\<exists>i f. cd_Dir fs (finalName r) = Some i \<and> cd_Files fs i = Some f \<and> cf_Synced f \<and>
        transfer_ok L (cf_Content f) r)"

definition durable :: "x509_lib \<Rightarrow> custody_fs \<Rightarrow> transfer_result \<Rightarrow> bool" where
  "durable L fs r \<longleftrightarrow>
     (\<exists>i f. cd_Dir fs (finalName r) = Some i \<and> cd_Disk fs (finalName r) = Some i \<and>
        cd_Files fs i = Some f \<and> cf_Synced f \<and> transfer_ok L (cf_Content f) r)"

text \<open>A provisional file that no other name leads to.\<close>

definition owns :: "custody_fs \<Rightarrow> string \<Rightarrow> nat \<Rightarrow> bool" where
  "owns fs name i \<longleftrightarrow>
     cd_Dir fs name = Some i \<and> i \<in> dom (cd_Files fs) \<and> (\<forall>m. m \<noteq> name \<longrightarrow> \<not> names_file fs m i)"

definition owns_transfer ::
  "x509_lib \<Rightarrow> custody_fs \<Rightarrow> string \<Rightarrow> nat \<Rightarrow> transfer_result \<Rightarrow> (custody_file \<Rightarrow> bool) \<Rightarrow> bool" where
  "owns_transfer L fs name i r P \<longleftrightarrow>
     owns fs name i \<and>
     (\<exists>f. cd_Files fs i = Some f \<and> cf_Kind f = RegularEntry \<and> transfer_ok L (cf_Content f) r \<and> P f)"

abbreviation sealed_file :: "custody_file \<Rightarrow> bool" where
  "sealed_file f \<equiv> cf_Perm f = 256 \<and> cf_Synced f"

fun pc_name :: "custody_pc \<Rightarrow> string option" where
  "pc_name (PcReceive n _) = Some n" | "pc_name (PcChmod n _ _) = Some n"
| "pc_name (PcSync n _ _) = Some n" | "pc_name (PcClose n _ _) = Some n"
| "pc_name (PcStat n _ _) = Some n" | "pc_name (PcLink n _ _) = Some n"
| "pc_name (PcCompare n _ _) = Some n" | "pc_name (PcRemoveCollided n _ _) = Some n"
| "pc_name (PcRemoveProvisional n _) = Some n" | "pc_name (PcUndo n _) = Some n"
| "pc_name (PcCleanup n _) = Some n" | "pc_name _ = None"

fun proc_ok :: "x509_lib \<Rightarrow> string set \<Rightarrow> custody_fs \<Rightarrow> custody_pc \<Rightarrow> bool" where
  "proc_ok L undone fs (PcReceive n i) = owns fs n i"
| "proc_ok L undone fs (PcChmod n i r) = owns_transfer L fs n i r (\<lambda>_. True)"
| "proc_ok L undone fs (PcSync n i r) = owns_transfer L fs n i r (\<lambda>f. cf_Perm f = 256)"
| "proc_ok L undone fs (PcClose n i r) = owns_transfer L fs n i r sealed_file"
| "proc_ok L undone fs (PcStat n i r) = owns_transfer L fs n i r sealed_file"
| "proc_ok L undone fs (PcLink n i r) = owns_transfer L fs n i r sealed_file"
| "proc_ok L undone fs (PcCompare n i r) = owns_transfer L fs n i r sealed_file"
| "proc_ok L undone fs (PcRemoveCollided n r exact) = (exact \<longrightarrow> finalName r \<in> undone \<or> stored L fs r)"
| "proc_ok L undone fs (PcSyncCollided r exact) = (exact \<longrightarrow> finalName r \<in> undone \<or> stored L fs r)"
| "proc_ok L undone fs (PcRemoveProvisional n r) = (finalName r \<in> undone \<or> stored L fs r)"
| "proc_ok L undone fs (PcSyncPublished r) = (finalName r \<in> undone \<or> stored L fs r)"
| "proc_ok L undone fs (PcUndo n r) = (finalName r \<in> undone)"
| "proc_ok L undone fs (PcDone cr) =
     (finalName (cr_Transfer cr) \<in> undone \<or> durable L fs (cr_Transfer cr) \<and>
        cr_CustodySHA256 cr = tr_TransferSHA256 (cr_Transfer cr) \<and>
        cr_CustodyBytes cr = tr_TransferBytes (cr_Transfer cr))"
| "proc_ok L undone fs _ = True"

definition named_ok :: "custody_fs \<Rightarrow> (nat \<Rightarrow> custody_pc) \<Rightarrow> bool" where
  "named_ok fs P \<longleftrightarrow>
     (\<forall>j n. pc_name (P j) = Some n \<longrightarrow>
        isGenerationCustodyProvisionalName n \<and> cd_Dir fs n \<noteq> None \<and>
        (\<forall>k. pc_name (P k) = Some n \<longrightarrow> k = j))"

definition sys_ok :: "x509_lib \<Rightarrow> string set \<Rightarrow> custody_sys \<Rightarrow> bool" where
  "sys_ok L undone s \<longleftrightarrow>
     fs_ok L (sy_Fs s) \<and> named_ok (sy_Fs s) (sy_Procs s) \<and>
     (\<forall>j. proc_ok L undone (sy_Fs s) (sy_Procs s j))"

section \<open>What the operations keep\<close>

lemmas fs_ops = fs_Link_def fs_Write_def fs_Remove_def syncGenerationCustodyDirectory_def
lemmas fs_preds = object_ok_def stored_def durable_def owns_def owns_transfer_def

lemma final_name_not_provisional [simp]: "\<not> isGenerationCustodyProvisionalName (finalName r)"
  unfolding finalName_def by (rule final_not_provisional [OF object_name_final])

text \<open>A new file under a new provisional name.\<close>

lemma create_keeps:
  fixes f :: custody_file
  assumes "isGenerationCustodyProvisionalName tmp" "cd_Dir fs tmp = None" "cd_Files fs i = None"
    and "fs_ok L fs" and "cf_Kind f = RegularEntry"
  defines "fs' \<equiv> fs_Link tmp i (fs_Write i f fs)"
  shows "fs_ok L fs'" and "owns fs' tmp i" and "stored L fs r \<Longrightarrow> stored L fs' r"
    and "durable L fs r \<Longrightarrow> durable L fs' r" and "owns fs n k \<Longrightarrow> owns fs' n k"
    and "owns_transfer L fs n k r P \<Longrightarrow> owns_transfer L fs' n k r P"
proof -
  have fresh: "\<not> names_file fs n i" for n
    using assms(3,4) by (auto simp: fs_ok_def)
  have tmp: "finalName r \<noteq> tmp" for r using assms(1) by (metis final_name_not_provisional)
  show "stored L fs r \<Longrightarrow> stored L fs' r" "durable L fs r \<Longrightarrow> durable L fs' r"
    using assms(3) tmp by (auto simp: fs'_def fs_ops fs_preds)
  show "owns fs' tmp i" using fresh by (auto simp: fs'_def fs_ops owns_def)
  show o: "owns fs n k \<Longrightarrow> owns fs' n k" for n k
    using fresh assms(2,3) by (auto simp: fs'_def fs_ops owns_def)
  then show "owns_transfer L fs n k r P \<Longrightarrow> owns_transfer L fs' n k r P"
    using assms(3) by (auto simp: owns_transfer_def fs'_def fs_ops)
  show "fs_ok L fs'"
    using assms(1,3,4,5) fresh
    by (auto simp: fs_ok_def fs'_def fs_ops object_ok_def)
qed


text \<open>A write to a file that one process owns.\<close>

lemma write_keeps:
  fixes f :: custody_file
  assumes o: "owns fs name i" and p: "isGenerationCustodyProvisionalName name" and ok: "fs_ok L fs"
    and k: "cf_Kind f = RegularEntry"
  defines "fs' \<equiv> fs_Write i f fs"
  shows "fs_ok L fs'" and "owns fs' name i" and "stored L fs r \<Longrightarrow> stored L fs' r"
    and "durable L fs r \<Longrightarrow> durable L fs' r"
    and "n \<noteq> name \<Longrightarrow> owns fs n k \<Longrightarrow> owns fs' n k"
    and "n \<noteq> name \<Longrightarrow> owns_transfer L fs n k r P \<Longrightarrow> owns_transfer L fs' n k r P"
proof -
  have final: "\<not> names_file fs n i" if "\<not> isGenerationCustodyProvisionalName n" for n
    using o p that by (auto simp: owns_def)
  show "owns fs' name i" using o by (auto simp: fs'_def fs_ops owns_def)
  show "stored L fs r \<Longrightarrow> stored L fs' r" "durable L fs r \<Longrightarrow> durable L fs' r"
    using final [OF final_name_not_provisional [of r]] by (auto simp: fs'_def fs_ops fs_preds)
  show "n \<noteq> name \<Longrightarrow> owns fs n k \<Longrightarrow> owns fs' n k"
    by (auto simp: fs'_def fs_ops owns_def)
  show "n \<noteq> name \<Longrightarrow> owns_transfer L fs n k r P \<Longrightarrow> owns_transfer L fs' n k r P"
    using o by (auto simp: owns_transfer_def fs'_def fs_ops owns_def)
  show "fs_ok L fs'"
    using ok final k by (auto simp: fs_ok_def fs'_def fs_ops object_ok_def)
qed

text \<open>Publication: a second name, the final one, for a sealed provisional file.\<close>

lemma link_keeps:
  assumes o: "owns_transfer L fs name i r sealed_file" and p: "isGenerationCustodyProvisionalName name"
    and none: "cd_Dir fs (finalName r) = None" and ok: "fs_ok L fs"
  defines "fs' \<equiv> fs_Link (finalName r) i fs"
  shows "fs_ok L fs'" and "stored L fs' r" and "stored L fs r' \<Longrightarrow> stored L fs' r'"
    and "durable L fs r' \<Longrightarrow> durable L fs' r'"
    and "n \<noteq> name \<Longrightarrow> isGenerationCustodyProvisionalName n \<Longrightarrow> owns fs n k \<Longrightarrow> owns fs' n k"
    and "n \<noteq> name \<Longrightarrow> isGenerationCustodyProvisionalName n \<Longrightarrow> owns_transfer L fs n k r' P \<Longrightarrow>
      owns_transfer L fs' n k r' P"
proof -
  from o obtain f where f: "cd_Files fs i = Some f" "cf_Kind f = RegularEntry" "sealed_file f"
    "transfer_ok L (cf_Content f) r" by (auto simp: owns_transfer_def)
  show "stored L fs' r" using f by (auto simp: stored_def fs'_def fs_ops)
  show "stored L fs r' \<Longrightarrow> stored L fs' r'" "durable L fs r' \<Longrightarrow> durable L fs' r'"
    using none by (auto simp: fs'_def fs_ops fs_preds)
  show on: "n \<noteq> name \<Longrightarrow> isGenerationCustodyProvisionalName n \<Longrightarrow> owns fs n k \<Longrightarrow> owns fs' n k" for n k
    using o by (auto simp: fs'_def fs_ops owns_def owns_transfer_def)
  show "n \<noteq> name \<Longrightarrow> isGenerationCustodyProvisionalName n \<Longrightarrow> owns_transfer L fs n k r' P \<Longrightarrow>
      owns_transfer L fs' n k r' P"
    using on [of n k] by (auto simp: owns_transfer_def fs'_def fs_ops)
  show "fs_ok L fs'"
    using ok f by (auto simp: fs_ok_def fs'_def fs_ops object_ok_def split: if_splits)
qed

text \<open>The removal of a name.\<close>

lemma remove_keeps:
  fixes name :: string
  assumes ok: "fs_ok L fs"
  defines "fs' \<equiv> fs_Remove name fs"
  shows "fs_ok L fs'"
    and "isGenerationCustodyProvisionalName name \<Longrightarrow> stored L fs r \<Longrightarrow> stored L fs' r"
    and "isGenerationCustodyProvisionalName name \<Longrightarrow> durable L fs r \<Longrightarrow> durable L fs' r"
    and "n \<noteq> name \<Longrightarrow> owns fs n k \<Longrightarrow> owns fs' n k"
    and "n \<noteq> name \<Longrightarrow> owns_transfer L fs n k r P \<Longrightarrow> owns_transfer L fs' n k r P"
proof -
  show "fs_ok L fs'" using ok by (auto simp: fs_ok_def fs'_def fs_ops object_ok_def split: if_splits)
  show "isGenerationCustodyProvisionalName name \<Longrightarrow> stored L fs r \<Longrightarrow> stored L fs' r"
    "isGenerationCustodyProvisionalName name \<Longrightarrow> durable L fs r \<Longrightarrow> durable L fs' r"
    by (auto simp: fs'_def fs_ops fs_preds)
  show "n \<noteq> name \<Longrightarrow> owns fs n k \<Longrightarrow> owns fs' n k"
    "n \<noteq> name \<Longrightarrow> owns_transfer L fs n k r P \<Longrightarrow> owns_transfer L fs' n k r P"
    by (auto simp: fs'_def fs_ops owns_def owns_transfer_def)
qed

lemma sync_keeps:
  assumes ok: "fs_ok L fs"
  defines "fs' \<equiv> syncGenerationCustodyDirectory fs"
  shows "fs_ok L fs'" and "stored L fs r \<Longrightarrow> stored L fs' r" and "stored L fs r \<Longrightarrow> durable L fs' r"
    and "durable L fs r \<Longrightarrow> durable L fs' r" and "owns fs n k \<Longrightarrow> owns fs' n k"
    and "owns_transfer L fs n k r P \<Longrightarrow> owns_transfer L fs' n k r P"
  using ok by (auto simp: fs_ok_def fs'_def fs_ops fs_preds)

section \<open>The invariant holds\<close>

text \<open>
  What a step of one process must keep for the invariant of all: the file system's own, the
  assertions of the other processes, and its own.
\<close>

lemma other_keeps:
  assumes "proc_ok L undone fs pc" and "pc_name pc = None \<or> (\<exists>n. pc_name pc = Some n \<and> G n)"
    and "\<And>r. finalName r \<notin> undone \<Longrightarrow> stored L fs r \<Longrightarrow> stored L fs' r"
    and "\<And>r. finalName r \<notin> undone \<Longrightarrow> durable L fs r \<Longrightarrow> durable L fs' r"
    and "\<And>n k. G n \<Longrightarrow> owns fs n k \<Longrightarrow> owns fs' n k"
    and "\<And>n k r P. G n \<Longrightarrow> owns_transfer L fs n k r P \<Longrightarrow> owns_transfer L fs' n k r P"
  shows "proc_ok L undone fs' pc"
  using assms by (cases pc) auto


lemma sys_ok_step:
  assumes sys: "sys_ok L undone s"
    and fs: "fs_ok L fs'" and own: "proc_ok L undone fs' pc'"
    and st: "\<And>r. finalName r \<notin> undone \<Longrightarrow> stored L (sy_Fs s) r \<Longrightarrow> stored L fs' r"
    and du: "\<And>r. finalName r \<notin> undone \<Longrightarrow> durable L (sy_Fs s) r \<Longrightarrow> durable L fs' r"
    and ow: "\<And>n k. pc_name (sy_Procs s j) \<noteq> Some n \<Longrightarrow> isGenerationCustodyProvisionalName n \<Longrightarrow>
        owns (sy_Fs s) n k \<Longrightarrow> owns fs' n k"
    and ot: "\<And>n k r P. pc_name (sy_Procs s j) \<noteq> Some n \<Longrightarrow> isGenerationCustodyProvisionalName n \<Longrightarrow>
        owns_transfer L (sy_Fs s) n k r P \<Longrightarrow> owns_transfer L fs' n k r P"
    and dir: "\<And>n. pc_name (sy_Procs s j) \<noteq> Some n \<Longrightarrow> isGenerationCustodyProvisionalName n \<Longrightarrow>
        cd_Dir (sy_Fs s) n \<noteq> None \<Longrightarrow> cd_Dir fs' n \<noteq> None"
    and name: "\<And>n. pc_name pc' = Some n \<Longrightarrow> isGenerationCustodyProvisionalName n \<and> cd_Dir fs' n \<noteq> None \<and>
        (pc_name (sy_Procs s j) = Some n \<or> cd_Dir (sy_Fs s) n = None)"
  shows "sys_ok L undone \<lparr>sy_Fs = fs', sy_Procs = (sy_Procs s)(j := pc')\<rparr>"
proof -
  from sys have nm: "named_ok (sy_Fs s) (sy_Procs s)"
    and pr: "\<And>k. proc_ok L undone (sy_Fs s) (sy_Procs s k)" by (auto simp: sys_ok_def)
  let ?G = "\<lambda>n. pc_name (sy_Procs s j) \<noteq> Some n \<and> isGenerationCustodyProvisionalName n"
  have other: "\<And>n. pc_name (sy_Procs s k) = Some n \<Longrightarrow> ?G n \<and> cd_Dir (sy_Fs s) n \<noteq> None"
    if "k \<noteq> j" for k
    using nm that by (auto simp: named_ok_def)
  have "proc_ok L undone fs' (sy_Procs s k)" if "k \<noteq> j" for k
  proof (rule other_keeps [OF pr, where G = ?G])
    show "pc_name (sy_Procs s k) = None \<or> (\<exists>n. pc_name (sy_Procs s k) = Some n \<and> ?G n)"
      using other [OF that] by (cases "pc_name (sy_Procs s k)") auto
  qed (use st du ow ot in auto)
  moreover have "named_ok fs' ((sy_Procs s)(j := pc'))"
    unfolding named_ok_def
  proof (intro allI impI conjI)
    fix k n assume n: "pc_name (((sy_Procs s)(j := pc')) k) = Some n"
    show "isGenerationCustodyProvisionalName n" and "cd_Dir fs' n \<noteq> None"
      using n name other dir by (auto split: if_splits)
    fix l assume l: "pc_name (((sy_Procs s)(j := pc')) l) = Some n"
    show "l = k"
    proof (cases "k = j \<or> l = j")
      case True
      with n l name other [of k n] other [of l n] show ?thesis by (auto split: if_splits)
    next
      case False
      with n l nm show ?thesis by (simp add: named_ok_def)
    qed
  qed
  ultimately show ?thesis using fs own by (simp add: sys_ok_def)
qed


text \<open>The steps by what they do to the file system.\<close>

lemma sys_ok_name:
  assumes "sys_ok L undone s" and "pc_name (sy_Procs s j) = Some n"
  shows "fs_ok L (sy_Fs s)" and "isGenerationCustodyProvisionalName n" and "cd_Dir (sy_Fs s) n \<noteq> None"
  using assms by (auto simp: sys_ok_def named_ok_def)

lemma step_same:
  assumes "sys_ok L undone s" and "proc_ok L undone (sy_Fs s) pc'"
    and "pc_name pc' = None \<or> pc_name pc' = pc_name (sy_Procs s j)"
  shows "sys_ok L undone \<lparr>sy_Fs = sy_Fs s, sy_Procs = (sy_Procs s)(j := pc')\<rparr>"
  using assms by (intro sys_ok_step) (auto simp: sys_ok_def named_ok_def)

lemma step_create:
  assumes sys: "sys_ok L undone s" and pc: "sy_Procs s j = PcStart"
    and tmp: "isGenerationCustodyProvisionalName tmp" "cd_Dir (sy_Fs s) tmp = None"
      "cd_Files (sy_Fs s) i = None" and k: "cf_Kind f = RegularEntry"
  shows "sys_ok L undone \<lparr>sy_Fs = fs_Link tmp i (fs_Write i f (sy_Fs s)),
    sy_Procs = (sy_Procs s)(j := PcReceive tmp i)\<rparr>"
proof -
  from sys have ok: "fs_ok L (sy_Fs s)" by (simp add: sys_ok_def)
  note K = create_keeps [OF tmp ok k]
  show ?thesis
    by (rule sys_ok_step [OF sys]) (use K tmp in \<open>auto simp: fs_ops\<close>)
qed

lemma step_write:
  assumes sys: "sys_ok L undone s" and o: "owns (sy_Fs s) name i"
    and n: "pc_name (sy_Procs s j) = Some name" "pc_name pc' = Some name"
    and own: "proc_ok L undone (fs_Write i f (sy_Fs s)) pc'" and k: "cf_Kind f = RegularEntry"
  shows "sys_ok L undone \<lparr>sy_Fs = fs_Write i f (sy_Fs s), sy_Procs = (sy_Procs s)(j := pc')\<rparr>"
proof -
  note ok = sys_ok_name(1) [OF sys n(1)] and p = sys_ok_name(2) [OF sys n(1)]
    and d = sys_ok_name(3) [OF sys n(1)]
  note K = write_keeps [OF o p ok k]
  show ?thesis
    by (rule sys_ok_step [OF sys _ own]) (use K n p d in \<open>auto simp: fs_Write_def\<close>)
qed

lemma step_link:
  assumes sys: "sys_ok L undone s" and o: "owns_transfer L (sy_Fs s) name i r sealed_file"
    and n: "pc_name (sy_Procs s j) = Some name" and none: "cd_Dir (sy_Fs s) (finalName r) = None"
  shows "sys_ok L undone \<lparr>sy_Fs = fs_Link (finalName r) i (sy_Fs s),
    sy_Procs = (sy_Procs s)(j := PcRemoveProvisional name r)\<rparr>"
proof -
  note ok = sys_ok_name(1) [OF sys n(1)] and p = sys_ok_name(2) [OF sys n(1)]
    and d = sys_ok_name(3) [OF sys n(1)]
  note K = link_keeps [OF o p none ok]
  show ?thesis
    by (rule sys_ok_step [OF sys]) (use K n p d in \<open>auto simp: fs_Link_def\<close>)
qed

lemma step_remove:
  assumes sys: "sys_ok L undone s" and n: "pc_name (sy_Procs s j) = Some name" and p': "pc_name pc' = None"
    and own: "proc_ok L undone (fs_Remove name (sy_Fs s)) pc'"
  shows "sys_ok L undone \<lparr>sy_Fs = fs_Remove name (sy_Fs s), sy_Procs = (sy_Procs s)(j := pc')\<rparr>"
proof -
  note ok = sys_ok_name(1) [OF sys n] and p = sys_ok_name(2) [OF sys n]
  note K = remove_keeps [OF ok, where name = name]
  show ?thesis
    by (rule sys_ok_step [OF sys _ own]) (use K n p p' in \<open>auto simp: fs_Remove_def\<close>)
qed

lemma step_sync:
  assumes sys: "sys_ok L undone s" and p': "pc_name pc' = None"
    and own: "proc_ok L undone (syncGenerationCustodyDirectory (sy_Fs s)) pc'"
  shows "sys_ok L undone \<lparr>sy_Fs = syncGenerationCustodyDirectory (sy_Fs s),
    sy_Procs = (sy_Procs s)(j := pc')\<rparr>"
proof -
  from sys have ok: "fs_ok L (sy_Fs s)" by (simp add: sys_ok_def)
  note K = sync_keeps [OF ok]
  show ?thesis
    by (rule sys_ok_step [OF sys _ own]) (use K p' in \<open>auto simp: syncGenerationCustodyDirectory_def\<close>)
qed

lemma step_undo:
  assumes sys: "sys_ok L undone s" and n: "pc_name (sy_Procs s j) = Some name"
    and u: "finalName r \<in> undone"
  shows "sys_ok L undone \<lparr>sy_Fs = fs_Remove (finalName r) (sy_Fs s),
    sy_Procs = (sy_Procs s)(j := PcCleanup name e)\<rparr>"
proof -
  note ok = sys_ok_name(1) [OF sys n(1)] and p = sys_ok_name(2) [OF sys n(1)]
    and d = sys_ok_name(3) [OF sys n(1)]
  note K = remove_keeps [OF ok, where name = "finalName r"]
  have f: "n \<noteq> finalName r" if "isGenerationCustodyProvisionalName n" for n
    using that by auto
  have "stored L (sy_Fs s) q \<Longrightarrow> stored L (fs_Remove (finalName r) (sy_Fs s)) q"
    "durable L (sy_Fs s) q \<Longrightarrow> durable L (fs_Remove (finalName r) (sy_Fs s)) q"
    if "finalName q \<notin> undone" for q
    using u that by (auto simp: fs_ops fs_preds)
  with K f p d n show ?thesis
    by (intro sys_ok_step [OF sys]) (auto simp: fs_Remove_def)
qed

lemma write_own:
  assumes "owns fs name i"
  shows "owns (fs_Write i f fs) name i" and "cd_Files (fs_Write i f fs) i = Some f"
  using assms by (auto simp: owns_def fs_Write_def)

lemma compare_stored:
  assumes ok: "fs_ok L fs" and o: "owns_transfer L fs name i r sealed_file"
    and c: "generationCustodyFilesExactlyEqual (lookup_file fs (finalName r)) (lookup_file fs name)
      (int (unat (tr_TransferBytes r))) = Some True"
  shows "stored L fs r"
proof -
  from o obtain g where g: "lookup_file fs name = Some g" "transfer_ok L (cf_Content g) r"
    by (auto simp: owns_transfer_def owns_def lookup_file_def)
  from c obtain f where f: "lookup_file fs (finalName r) = Some f"
    by (auto simp: generationCustodyFilesExactlyEqual_def split: option.splits)
  have "cf_Content f = cf_Content g"
    using c f g transfer_ok_length(1) [OF g(2)] FilesExactlyEqual_Some [of f g True] by simp
  moreover from f obtain k where k: "cd_Dir fs (finalName r) = Some k" "cd_Files fs k = Some f"
    by (auto simp: lookup_file_def bind_eq_Some_conv)
  moreover from ok k(1) have "object_ok L fs (finalName r) k" by (simp add: fs_ok_def)
  with k(2) have "cf_Synced f" by (simp add: object_ok_def)
  ultimately show ?thesis using g(2) by (auto simp: stored_def)
qed

lemma custody_step_ok:
  assumes sys: "sys_ok L undone s"
    and cond: "\<And>name r. sy_Procs s j = PcRemoveProvisional name r \<Longrightarrow> ok \<or> finalName r \<in> undone"
    and st: "custody_step L Z q ok tmp i (sy_Fs s) (sy_Procs s j) = (fs', pc')"
  shows "sys_ok L undone \<lparr>sy_Fs = fs', sy_Procs = (sy_Procs s)(j := pc')\<rparr>"
proof -
  from sys have pr: "proc_ok L undone (sy_Fs s) (sy_Procs s j)" and ok: "fs_ok L (sy_Fs s)"
    by (auto simp: sys_ok_def)
  show ?thesis
  proof (cases "sy_Procs s j")
    case PcStart
    with st show ?thesis
      by (auto split: option.splits if_splits intro!: step_same step_create sys)
  next
    case (PcReceive name k)
    with pr have o: "owns (sy_Fs s) name k" by simp
    from st PcReceive show ?thesis
      by (auto split: sum.splits if_splits intro!: step_same [OF sys] step_write [OF sys o]
          dest!: receive_tee_Inr simp: owns_transfer_def write_own [OF o])
  next
    case (PcChmod name k r)
    with pr have o: "owns (sy_Fs s) name k" by (simp add: owns_transfer_def)
    from st PcChmod pr show ?thesis
      by (auto split: option.splits if_splits intro!: step_same [OF sys] step_write [OF sys o]
          simp: owns_transfer_def write_own [OF o])
  next
    case (PcSync name k r)
    with pr have o: "owns (sy_Fs s) name k" by (simp add: owns_transfer_def)
    from st PcSync pr show ?thesis
      by (auto split: option.splits if_splits intro!: step_same [OF sys] step_write [OF sys o]
          simp: owns_transfer_def write_own [OF o])
  next
    case (PcClose name k r)
    with st pr show ?thesis by (auto split: if_splits intro!: step_same [OF sys])
  next
    case (PcStat name k r)
    with st pr show ?thesis by (auto split: option.splits if_splits intro!: step_same [OF sys])
  next
    case (PcLink name k r)
    with st pr show ?thesis
      by (auto split: if_splits intro!: step_same [OF sys] step_link [OF sys])
  next
    case (PcCompare name k r)
    with st pr compare_stored [OF ok, of name k r] show ?thesis
      by (auto split: option.splits if_splits intro!: step_same [OF sys])
  next
    case (PcRemoveCollided name r exact)
    then have p: "isGenerationCustodyProvisionalName name" by (intro sys_ok_name [OF sys, of j]) simp
    from st pr PcRemoveCollided remove_keeps(2) [OF ok p] show ?thesis
      by (auto split: if_splits intro!: step_same [OF sys] step_remove [OF sys])
  next
    case (PcSyncCollided r exact)
    with st pr sync_keeps(3) [OF ok] show ?thesis
      by (auto split: if_splits intro!: step_same [OF sys] step_sync [OF sys]
          simp: newGenerationCustodyResult_def)
  next
    case (PcRemoveProvisional name r)
    then have p: "isGenerationCustodyProvisionalName name" by (intro sys_ok_name [OF sys, of j]) simp
    show ?thesis
    proof (cases ok)
      case True
      with st pr PcRemoveProvisional remove_keeps(2) [OF ok p] show ?thesis
        by (auto intro!: step_remove [OF sys])
    next
      case False
      with cond PcRemoveProvisional have "finalName r \<in> undone" by blast
      then have u: "proc_ok L undone (sy_Fs s) (PcUndo name r)" by simp
      from False st PcRemoveProvisional have "fs' = sy_Fs s" "pc' = PcUndo name r" by simp_all
      with step_same [OF sys u, where j = j] PcRemoveProvisional show ?thesis by simp
    qed
  next
    case (PcUndo name r)
    with pr have u: "finalName r \<in> undone" by simp
    with st sys PcUndo show ?thesis
      by (auto split: if_splits intro!: step_same step_undo)
  next
    case (PcSyncPublished r)
    with st pr sync_keeps(3) [OF ok] show ?thesis
      by (auto split: if_splits intro!: step_same [OF sys] step_sync [OF sys]
          simp: newGenerationCustodyResult_def)
  next
    case (PcCleanup name e)
    with st show ?thesis by (auto split: if_splits intro!: step_same [OF sys] step_remove [OF sys])
  next
    case (PcDone r)
    with st pr show ?thesis by (auto intro!: step_same [OF sys])
  next
    case (PcFailed e)
    with st pr show ?thesis by (auto intro!: step_same [OF sys])
  qed
qed


lemma crash_ok:
  assumes sys: "sys_ok L undone s" and c: "after_crash (sy_Fs s) fs'"
  shows "sys_ok L undone \<lparr>sy_Fs = fs', sy_Procs = crashed \<circ> sy_Procs s\<rparr>"
proof -
  let ?fs = "sy_Fs s"
  from c have d: "\<And>n. cd_Dir fs' n = cd_Dir ?fs n \<or> cd_Dir fs' n = cd_Disk ?fs n"
    "cd_Disk fs' = cd_Dir fs'" and f: "\<And>k. k \<in> dom (cd_Files fs') \<longleftrightarrow> k \<in> dom (cd_Files ?fs)"
    "\<And>k f. cd_Files ?fs k = Some f \<Longrightarrow> cf_Synced f \<Longrightarrow> cd_Files fs' k = Some f"
    by (auto simp: after_crash_def)
  have reg: "cf_Kind f' = RegularEntry" if "cd_Files fs' k = Some f'" for k f'
    using c sys that unfolding after_crash_def sys_ok_def fs_ok_def by (metis domD domI)
  from sys have ok: "fs_ok L ?fs" and pr: "\<And>j. proc_ok L undone ?fs (sy_Procs s j)"
    by (auto simp: sys_ok_def)
  have names: "names_file ?fs n i" if "names_file fs' n i" for n i
    using that d(1) [of n] by (auto simp: d(2))
  have obj: "object_ok L fs' n i" if "object_ok L ?fs n i" for n i
    using that f(2) by (fastforce simp: object_ok_def)
  have "fs_ok L fs'"
    using ok names f(1) obj reg unfolding fs_ok_def by blast
  moreover have "durable L fs' r" if "durable L ?fs r" for r
    using that d(1) [of "finalName r"] d(2) f(2) by (fastforce simp: durable_def)
  then have "proc_ok L undone fs' (crashed (sy_Procs s j))" for j
    using pr [of j] by (cases "sy_Procs s j") (auto simp: crashed_def idle_def)
  moreover have "pc_name (crashed pc) = None" for pc
    by (cases pc) (simp_all add: crashed_def idle_def)
  ultimately show ?thesis by (simp add: sys_ok_def named_ok_def)
qed

lemma remove_provisional_ok:
  assumes "remove_provisional okR names fs = (e, fs')" and "fs_ok L fs"
    and "\<And>n. n \<in> set names \<Longrightarrow> isGenerationCustodyProvisionalName n"
  shows "fs_ok L fs' \<and> (\<forall>r. durable L fs r \<longrightarrow> durable L fs' r)"
  using assms
proof (induction names arbitrary: fs)
  case (Cons n names)
  show ?case
  proof (cases "okR n")
    case True
    with Cons.prems have r: "remove_provisional okR names (fs_Remove n fs) = (e, fs')"
      and p: "isGenerationCustodyProvisionalName n" by auto
    from Cons.IH [OF r remove_keeps(1) [OF Cons.prems(2)]] Cons.prems(3)
      remove_keeps(3) [OF Cons.prems(2) p] show ?thesis by simp
  qed (use Cons.prems in auto)
qed simp

lemma recover_entries_Inr:
  "recover_entries root fs names = Inr (ps, ds) \<Longrightarrow>
     set ps = {n \<in> set names. isGenerationCustodyProvisionalName n} \<and>
     dc_Path ` set ds = filepath_Join (rt_RootDir root) ` {n \<in> set names. \<not> isGenerationCustodyProvisionalName n}"
proof (induction names arbitrary: ps ds)
  case (Cons n names)
  then show ?case
    by (fastforce simp: recover_entry_def split: option.splits if_splits)
qed simp

lemma restart_ok:
  assumes sys: "sys_ok L undone s" and idle: "\<And>j. idle (sy_Procs s j)"
    and r: "RecoverDurableCustodyRoot root c okR okSync names (sy_Fs s) = (res, fs')"
  shows "sys_ok L undone (s\<lparr>sy_Fs := fs'\<rparr>)"
proof -
  from sys have ok: "fs_ok L (sy_Fs s)" by (simp add: sys_ok_def)
  have "fs_ok L fs' \<and> (\<forall>r. durable L (sy_Fs s) r \<longrightarrow> durable L fs' r)"
  proof -
    obtain e fs1 ps where rm: "remove_provisional okR ps (sy_Fs s) = (e, fs1)"
      and ps: "ps = [] \<or> (\<exists>ds. recover_entries root (sy_Fs s) names = Inr (ps, ds))"
      and f: "fs' = fs1 \<or> fs' = syncGenerationCustodyDirectory fs1"
    proof (cases "validateGenerationCustodyConfig root c = None \<and>
        (\<exists>a. recover_entries root (sy_Fs s) names = Inr a)")
      case True
      then obtain ps ds where p: "recover_entries root (sy_Fs s) names = Inr (ps, ds)" by force
      obtain e fs1 where rm: "remove_provisional okR ps (sy_Fs s) = (e, fs1)" by force
      from r True p rm have "fs' = fs1 \<or> fs' = syncGenerationCustodyDirectory fs1"
        by (cases e) (auto simp: RecoverDurableCustodyRoot_def split: if_splits)
      with p rm that show ?thesis by blast
    next
      case False
      with r have "fs' = sy_Fs s"
        by (auto simp: RecoverDurableCustodyRoot_def split: option.splits sum.splits)
      with that [of "[]" None "sy_Fs s"] show ?thesis by simp
    qed
    have "isGenerationCustodyProvisionalName n" if "n \<in> set ps" for n
      using ps that recover_entries_Inr by fastforce
    from remove_provisional_ok [OF rm ok this] f sync_keeps(1,4) [of L fs1] show ?thesis by blast
  qed
  moreover have "pc_name (sy_Procs s j) = None" for j
    using idle [of j] by (cases "sy_Procs s j") (simp_all add: idle_def)
  moreover have "proc_ok L undone fs' (sy_Procs s j)" for j
    using idle [of j] sys calculation(1)
    by (cases "sy_Procs s j") (auto simp: idle_def sys_ok_def dest!: spec [of _ j])
  ultimately show ?thesis by (simp add: sys_ok_def named_ok_def)
qed

lemma custody_move_ok: "custody_move L Z Q undone s s' \<Longrightarrow> sys_ok L undone s \<Longrightarrow> sys_ok L undone s'"
proof (induction rule: custody_move.induct)
  case (move_proc s j ok tmp i fs' pc')
  show ?case by (rule custody_step_ok [OF move_proc.prems _ move_proc.hyps(2)]) (fact move_proc.hyps(1))
next
  case (move_crash s fs')
  from crash_ok [OF move_crash.prems move_crash.hyps] show ?case .
next
  case (move_restart s names root c okR okSync res fs')
  from restart_ok [OF move_restart.prems move_restart.hyps(1,3)] show ?case .
qed

lemma custody_run_ok: "custody_run L Z Q undone s \<Longrightarrow> sys_ok L undone s"
proof (induction rule: custody_run.induct)
  case run_init
  then show ?case by (simp add: sys_ok_def fs_ok_def named_ok_def)
qed (rule custody_move_ok)

section \<open>What stays\<close>

text \<open>A synced file under a name that is on disk.\<close>

definition kept :: "custody_fs \<Rightarrow> string \<Rightarrow> nat \<Rightarrow> custody_file \<Rightarrow> bool" where
  "kept fs n k f \<longleftrightarrow>
     cd_Dir fs n = Some k \<and> cd_Disk fs n = Some k \<and> cd_Files fs k = Some f \<and> cf_Synced f"

lemma owned_not_kept:
  "owns fs name i \<Longrightarrow> kept fs n k f \<Longrightarrow> name \<noteq> n \<Longrightarrow> k \<noteq> i"
  by (auto simp: owns_def kept_def)

lemma custody_step_kept:
  assumes sys: "sys_ok L undone s"
    and cond: "\<And>name r. sy_Procs s j = PcRemoveProvisional name r \<Longrightarrow> ok \<or> finalName r \<in> undone"
    and st: "custody_step L Z q ok tmp i (sy_Fs s) (sy_Procs s j) = (fs', pc')"
    and n: "\<not> isGenerationCustodyProvisionalName n" "n \<notin> undone" and k: "kept (sy_Fs s) n k f"
  shows "kept fs' n k f"
proof -
  from sys have pr: "proc_ok L undone (sy_Fs s) (sy_Procs s j)" by (simp add: sys_ok_def)
  have name: "name \<noteq> n" if "pc_name (sy_Procs s j) = Some name" for name
    using sys_ok_name(2) [OF sys that] n(1) by blast
  have own: "k \<noteq> l" if "pc_name (sy_Procs s j) = Some name" "owns (sy_Fs s) name l" for name l
    using owned_not_kept [OF that(2) k name [OF that(1)]] .
  show ?thesis
  proof (cases "sy_Procs s j")
    case PcStart
    with st k n(1) show ?thesis by (auto simp: kept_def fs_ops split: option.splits if_splits)
  next
    case (PcReceive name l)
    with st k pr own [of name l] show ?thesis
      by (auto simp: kept_def fs_ops split: sum.splits if_splits)
  next
    case (PcChmod name l r)
    with st k pr own [of name l] show ?thesis
      by (auto simp: kept_def fs_ops owns_transfer_def split: option.splits if_splits)
  next
    case (PcSync name l r)
    with st k pr own [of name l] show ?thesis
      by (auto simp: kept_def fs_ops owns_transfer_def split: option.splits if_splits)
  next
    case (PcUndo name r)
    with pr n(2) have "finalName r \<noteq> n" by auto
    with PcUndo st k show ?thesis by (auto simp: kept_def fs_ops split: if_splits)
  qed (use st k name in \<open>auto simp: kept_def fs_ops split: option.splits if_splits\<close>)
qed

lemma remove_provisional_kept:
  assumes "remove_provisional okR names fs = (e, fs')" and "n \<notin> set names" and "kept fs n k f"
  shows "kept fs' n k f"
  using assms
proof (induction names arbitrary: fs)
  case (Cons m names)
  then show ?case by (auto simp: kept_def fs_ops split: if_splits)
qed simp

lemma recover_kept:
  assumes r: "RecoverDurableCustodyRoot root c okR okSync names fs = (res, fs')"
    and n: "\<not> isGenerationCustodyProvisionalName n" and k: "kept fs n k f"
  shows "kept fs' n k f"
proof (cases "validateGenerationCustodyConfig root c = None \<and> (\<exists>a. recover_entries root fs names = Inr a)")
  case True
  then obtain ps ds where p: "recover_entries root fs names = Inr (ps, ds)" by force
  then have "n \<notin> set ps" using recover_entries_Inr [OF p] n by auto
  moreover obtain e fs1 where rm: "remove_provisional okR ps fs = (e, fs1)" by force
  ultimately have "kept fs1 n k f" using remove_provisional_kept k by blast
  with r True p rm show ?thesis
    by (cases e) (auto simp: RecoverDurableCustodyRoot_def kept_def fs_ops split: if_splits)
next
  case False
  with r k show ?thesis by (auto simp: RecoverDurableCustodyRoot_def split: option.splits sum.splits)
qed

lemma custody_move_kept:
  assumes "custody_move L Z Q undone s s'" and "sys_ok L undone s"
    and "\<not> isGenerationCustodyProvisionalName n" "n \<notin> undone" and "kept (sy_Fs s) n k f"
  shows "kept (sy_Fs s') n k f"
  using assms
proof (induction rule: custody_move.induct)
  case (move_proc s j ok tmp i fs' pc')
  have "kept fs' n k f"
    by (rule custody_step_kept [OF move_proc.prems(1) _ move_proc.hyps(2) move_proc.prems(2-4)])
      (fact move_proc.hyps(1))
  then show ?case by simp
next
  case (move_crash s fs')
  then have "cd_Dir fs' n = Some k" "cd_Disk fs' = cd_Dir fs'" "cd_Files fs' k = Some f" "cf_Synced f"
    unfolding after_crash_def kept_def by metis+
  then show ?case by (simp add: kept_def)
next
  case (move_restart s names root c okR okSync res fs')
  then show ?case using recover_kept [OF move_restart.hyps(3)] by simp
qed

text \<open>
  A synced file under a final name that is on disk stays there for ever, unless a receiver of
  that object takes its publication back.
\<close>

lemma custody_later_kept:
  assumes "custody_later L Z Q undone s s'" and run: "custody_run L Z Q undone s"
    and n: "\<not> isGenerationCustodyProvisionalName n" "n \<notin> undone" and "kept (sy_Fs s) n k f"
  shows "kept (sy_Fs s') n k f"
  using assms(1)
proof (induction rule: rtranclp_induct)
  case (step t u)
  have "custody_run L Z Q undone t" by (rule custody_run_later [OF run step.hyps(1)])
  from custody_move_kept [OF step.hyps(2) custody_run_ok [OF this] n step.IH] show ?case .
qed (rule assms(5))

end
