(* ===== verification/Custody_Props.thy ===== *)
theory Custody_Props
  imports Custody_Inv
begin

text \<open>
  What the invariant of \<^verbatim>\<open>Custody_Inv\<close> gives for the callers of
  \<^verbatim>\<open>ReceiveToDurableCustody\<close> and \<^verbatim>\<open>RecoverDurableCustodyRoot\<close>.
\<close>

section \<open>Identity and bytes\<close>

lemma transfer_frame_inject:
  assumes "transfer_frame m p @ r = transfer_frame m' p' @ r'"
    and "length m < 2 ^ 32" "length m' < 2 ^ 32" "length p < 2 ^ 64" "length p' < 2 ^ 64"
  shows "m = m'" and "p = p'" and "r = r'"
proof -
  from assms(1) have h: "len32 m = len32 m'"
    "be_PutUint64 (of_nat (length p)) = be_PutUint64 (of_nat (length p'))"
    and b: "m @ p @ r = m' @ p' @ r'"
    by (simp_all add: transfer_frame_def)
  have m: "length m = length m'" using h(1) assms(2,3) by (metis unat_len32)
  have "(of_nat (length p) :: uint64) = of_nat (length p')"
    using h(2) by (metis uint_put_get(2))
  then have "unat (of_nat (length p) :: uint64) = unat (of_nat (length p') :: uint64)" by simp
  then have p: "length p = length p'"
    using assms(4,5) by (simp add: unat_of_nat_small)
  from b m p show "m = m'" "p = p'" "r = r'" by simp_all
qed

lemma transfer_ok_parts:
  assumes "transfer_ok L c r"
  obtains m p v where "c = transfer_frame m p" and "r = result_of (tr_Descriptor r) m p"
    and "UnmarshalSignedGeneration L m = Inr v" and "gs_Descriptor v = tr_Descriptor r"
    and "length p = unat (gd_EncodedDataBytes (tr_Descriptor r))"
    and "hex_EncodeToString (Sum256 p) = gd_EncodedDataSHA256 (tr_Descriptor r)"
    and "gen_Validate (tr_Descriptor r) = None"
    and "m \<noteq> []" and "length m \<le> maxSignedGenerationMetadataBytes" and "length p < 2 ^ 63"
proof -
  from assms obtain m p v where a: "c = transfer_frame m p" "r = result_of (tr_Descriptor r) m p"
    "UnmarshalSignedGeneration L m = Inr v" "gs_Descriptor v = tr_Descriptor r"
    "length p = unat (gd_EncodedDataBytes (tr_Descriptor r))"
    "hex_EncodeToString (Sum256 p) = gd_EncodedDataSHA256 (tr_Descriptor r)"
    unfolding transfer_ok_def by blast
  have v: "gen_Validate (tr_Descriptor r) = None"
    using Unmarshal_Inr [OF a(3)] a(4) by (simp add: validateCryptographically_None signedgen_Validate_None)
  moreover have "m \<noteq> []" "length m \<le> maxSignedGenerationMetadataBytes"
    using a(3) by (auto simp: UnmarshalSignedGeneration_def split: if_splits)
  moreover have "length p < 2 ^ 63" using v a(5) by (simp add: gen_Validate_None word_le_nat_alt)
  ultimately show thesis using a that by blast
qed

lemma transfer_ok_unique:
  assumes "transfer_ok L c r" and "transfer_ok L c r'"
  shows "r = r'"
proof -
  from assms(1) obtain m p v where a: "c = transfer_frame m p" "r = result_of (tr_Descriptor r) m p"
    "UnmarshalSignedGeneration L m = Inr v" "gs_Descriptor v = tr_Descriptor r"
    and la: "length m \<le> maxSignedGenerationMetadataBytes" "length p < 2 ^ 63"
    by (rule transfer_ok_parts)
  from assms(2) obtain m' p' v' where b: "c = transfer_frame m' p'" "r' = result_of (tr_Descriptor r') m' p'"
    "UnmarshalSignedGeneration L m' = Inr v'" "gs_Descriptor v' = tr_Descriptor r'"
    and lb: "length m' \<le> maxSignedGenerationMetadataBytes" "length p' < 2 ^ 63"
    by (rule transfer_ok_parts)
  have "m = m'" "p = p'"
    using transfer_frame_inject [of m p "[]" m' p' "[]"] a(1) b(1) la lb
    by (simp_all add: maxSignedGenerationMetadataBytes_def)
  with a b show ?thesis by (metis Inr_inject)
qed

lemma fs_ok_object:
  "fs_ok L fs \<Longrightarrow> names_file fs n i \<Longrightarrow> \<not> isGenerationCustodyProvisionalName n \<Longrightarrow> object_ok L fs n i"
  unfolding fs_ok_def by blast

text \<open>What a receiver carries is what it validated for its own offer.\<close>

fun pc_result :: "custody_pc \<Rightarrow> transfer_result option" where
  "pc_result (PcChmod _ _ r) = Some r" | "pc_result (PcSync _ _ r) = Some r"
| "pc_result (PcClose _ _ r) = Some r" | "pc_result (PcStat _ _ r) = Some r"
| "pc_result (PcLink _ _ r) = Some r" | "pc_result (PcCompare _ _ r) = Some r"
| "pc_result (PcRemoveCollided _ r _) = Some r" | "pc_result (PcSyncCollided r _) = Some r"
| "pc_result (PcRemoveProvisional _ r) = Some r" | "pc_result (PcUndo _ r) = Some r"
| "pc_result (PcSyncPublished r) = Some r" | "pc_result (PcDone cr) = Some (cr_Transfer cr)"
| "pc_result _ = None"

definition result_ok :: "x509_lib \<Rightarrow> zstd_decoder \<Rightarrow> custody_request \<Rightarrow> custody_pc \<Rightarrow> bool" where
  "result_ok L Z q pc \<longleftrightarrow>
     (\<forall>r. pc_result pc = Some r \<longrightarrow> (\<exists>teed. receive_tee L Z q = Inr (r, teed))) \<and>
     (\<forall>cr. pc = PcDone cr \<longrightarrow>
        (\<exists>d \<in> {CustodyDispositionDuplicate, CustodyDispositionNew}.
           cr = newGenerationCustodyResult (cr_Transfer cr) (custodyPath (rq_Root q) (cr_Transfer cr)) d))"

lemma result_ok_step: "result_ok L Z q pc \<Longrightarrow> result_ok L Z q (snd (custody_step L Z q ok tmp i fs pc))"
  by (cases pc) (auto simp: result_ok_def newGenerationCustodyResult_def split: option.splits sum.splits)

lemma custody_run_results: "custody_run L Z Q undone s \<Longrightarrow> result_ok L Z (Q j) (sy_Procs s j)"
proof (induction rule: custody_run.induct)
  case (run_move s s')
  from run_move.hyps(2) run_move.IH show ?case
  proof (induction rule: custody_move.induct)
    case (move_proc s k ok tmp i fs' pc')
    then show ?case using result_ok_step [of L Z "Q j" "sy_Procs s j" ok tmp i "sy_Fs s"] by auto
  next
    case (move_crash s fs')
    then show ?case by (auto simp: result_ok_def crashed_def)
  qed (simp add: result_ok_def)
qed (simp add: result_ok_def)

lemma receive_tee_offer:
  assumes "receive_tee L Z q = Inr (r, teed)"
  shows "tr_Descriptor r = go_Descriptor (rq_Offer q) \<and>
    gd_SourceID (tr_Descriptor r) = sa_SourceID (rc_Source (rq_Receive q))"
proof -
  from assms obtain rest u where "readValidatedTransfer L Z no_handler () (rq_Stream q) (rq_Offer q)
      (rq_Receive q) = Inr (r, rest, u)"
    by (auto simp: receive_tee_def ReadValidatedTransfer_def Let_def split: if_splits)
  from validated_transfer [OF this] show ?thesis by (auto simp: result_of_def)
qed

text \<open>
  C12: Custody is durable. Take any state that concurrent receivers, crashes and restarts can
  reach, with every system call free to fail except one: no receiver of this object fails to
  remove its provisional name after it has published (\<open>finalName \<notin> undone\<close>; such a receiver
  takes the publication back, also from others). There, once a receiver has returned a custody
  result, the result's object is present under its deterministic name, both for running
  processes and on disk: a synced file whose bytes are the validated signed transfer for the
  receiver's own offer and enrolled source, with the size and SHA-256 that the result states.
\<close>

theorem custody_result_is_durable:
  assumes "custody_run L Z Q undone s" and "sy_Procs s j = PcDone cr"
    and "finalName (cr_Transfer cr) \<notin> undone"
  shows "\<exists>i f. cd_Dir (sy_Fs s) (finalName (cr_Transfer cr)) = Some i \<and>
    cd_Disk (sy_Fs s) (finalName (cr_Transfer cr)) = Some i \<and> cd_Files (sy_Fs s) i = Some f \<and>
    cf_Synced f \<and> transfer_ok L (cf_Content f) (cr_Transfer cr) \<and>
    tr_Descriptor (cr_Transfer cr) = go_Descriptor (rq_Offer (Q j)) \<and>
    gd_SourceID (tr_Descriptor (cr_Transfer cr)) = sa_SourceID (rc_Source (rq_Receive (Q j))) \<and>
    length (cf_Content f) = unat (cr_CustodyBytes cr) \<and>
    hex_EncodeToString (Sum256 (cf_Content f)) = cr_CustodySHA256 cr"
proof -
  from custody_run_ok [OF assms(1)] have p: "proc_ok L undone (sy_Fs s) (sy_Procs s j)"
    by (simp add: sys_ok_def)
  from custody_run_results [OF assms(1), of j] assms(2) obtain teed where
    "receive_tee L Z (Q j) = Inr (cr_Transfer cr, teed)" by (auto simp: result_ok_def)
  from receive_tee_offer [OF this] p assms(2,3) show ?thesis by (auto simp: durable_def transfer_ok_length)
qed

text \<open>
  C13: No rebinding. Two receivers that returned, before or after crashes, for the same source
  and generation identity returned the same transfer: the identity is never bound to other
  bytes. This is for an identity of which no receiver fails to remove its provisional name
  after publication; all other system calls, and those for other identities, may fail.
\<close>

theorem custody_identity_never_rebound:
  assumes "custody_run L Z Q undone s" and "sy_Procs s j = PcDone a" and "sy_Procs s k = PcDone b"
    and "gd_SourceID (tr_Descriptor (cr_Transfer a)) = gd_SourceID (tr_Descriptor (cr_Transfer b))"
    and "gd_GenerationID (tr_Descriptor (cr_Transfer a)) = gd_GenerationID (tr_Descriptor (cr_Transfer b))"
    and "finalName (cr_Transfer a) \<notin> undone"
  shows "cr_Transfer a = cr_Transfer b"
proof -
  have n: "finalName (cr_Transfer b) = finalName (cr_Transfer a)"
    using assms(4,5) by (simp add: finalName_def)
  from custody_run_ok [OF assms(1)] have "proc_ok L undone (sy_Fs s) (sy_Procs s i)" for i
    by (simp add: sys_ok_def)
  from this [of j] this [of k] assms(2,3,6) n have "durable L (sy_Fs s) (cr_Transfer a)"
    "durable L (sy_Fs s) (cr_Transfer b)" by simp_all
  with n show ?thesis by (auto simp: durable_def intro: transfer_ok_unique)
qed

text \<open>
  C16: Only validated transfers are published. In every reachable state, also when a removal
  fails, every name in the custody root, running or on disk, that is not provisional names a
  synced read-only regular file that holds exactly one validated transfer, under the name of
  that transfer's source and generation.
\<close>

theorem published_custody_is_validated:
  assumes "custody_run L Z Q undone s"
    and "cd_Dir (sy_Fs s) n = Some i \<or> cd_Disk (sy_Fs s) n = Some i"
    and "\<not> isGenerationCustodyProvisionalName n"
  shows "\<exists>f r. cd_Files (sy_Fs s) i = Some f \<and> cf_Synced f \<and> cf_Perm f = 256 \<and>
    cf_Kind f = RegularEntry \<and> transfer_ok L (cf_Content f) r \<and>
    n = generationCustodyObjectName (gd_SourceID (tr_Descriptor r)) (gd_GenerationID (tr_Descriptor r))"
proof -
  from custody_run_ok [OF assms(1)] have "fs_ok L (sy_Fs s)" by (simp add: sys_ok_def)
  from fs_ok_object [OF this assms(2,3)] have "object_ok L (sy_Fs s) n i" .
  then show ?thesis by (auto simp: object_ok_def finalName_def)
qed

section \<open>Recovery\<close>

lemma recover_entry_ok:
  assumes ok: "fs_ok L fs" and n: "n \<in> dom (cd_Dir fs)"
  shows "\<exists>b. recover_entry root fs n =
    Inr (if isGenerationCustodyProvisionalName n then ([n], [])
         else ([], [\<lparr>dc_Bytes = b, dc_Path = filepath_Join (rt_RootDir root) n\<rparr>]))"
proof -
  from n obtain i where i: "cd_Dir fs n = Some i" by blast
  with ok obtain f where f: "cd_Files fs i = Some f" "cf_Kind f = RegularEntry"
    by (fastforce simp: fs_ok_def)
  show ?thesis
  proof (cases "isGenerationCustodyProvisionalName n")
    case True
    with i f show ?thesis by (simp add: recover_entry_def lookup_file_def)
  next
    case False
    with fs_ok_object [OF ok, of n i] i f obtain r
      where r: "cf_Perm f = 256" "transfer_ok L (cf_Content f) r" "finalName r = n"
      by (auto simp: object_ok_def)
    from r(2) obtain m p v where "cf_Content f = transfer_frame m p" "m \<noteq> []"
      by (rule transfer_ok_parts)
    then have "\<not> length (cf_Content f) \<le> transferHeaderBytes"
      by (simp add: transfer_frame_length transferHeaderBytes_def)
    moreover have "isGenerationCustodyFinalName n"
      using r(3) object_name_final by (auto simp: finalName_def)
    ultimately show ?thesis using False i f r by (simp add: recover_entry_def lookup_file_def)
  qed
qed

lemma recover_entries_ok:
  assumes "fs_ok L fs" and "set names \<subseteq> dom (cd_Dir fs)"
  shows "\<exists>ds. recover_entries root fs names = Inr (filter isGenerationCustodyProvisionalName names, ds) \<and>
    map dc_Path ds = map (filepath_Join (rt_RootDir root))
      (filter (\<lambda>n. \<not> isGenerationCustodyProvisionalName n) names)"
  using assms(2)
proof (induction names)
  case (Cons n names)
  then obtain ds where "recover_entries root fs names =
      Inr (filter isGenerationCustodyProvisionalName names, ds)"
    "map dc_Path ds = map (filepath_Join (rt_RootDir root))
      (filter (\<lambda>n. \<not> isGenerationCustodyProvisionalName n) names)" by auto
  moreover obtain b where "recover_entry root fs n =
    Inr (if isGenerationCustodyProvisionalName n then ([n], [])
         else ([], [\<lparr>dc_Bytes = b, dc_Path = filepath_Join (rt_RootDir root) n\<rparr>]))"
    using recover_entry_ok [OF assms(1), of n root] Cons.prems by auto
  ultimately show ?case by auto
qed simp

lemma remove_provisional_all:
  "(\<And>n. n \<in> set names \<Longrightarrow> okR n) \<Longrightarrow>
   \<exists>fs'. remove_provisional okR names fs = (None, fs') \<and> dom (cd_Dir fs') = dom (cd_Dir fs) - set names"
proof (induction names arbitrary: fs)
  case (Cons n names)
  then obtain fs' where "remove_provisional okR names (fs_Remove n fs) = (None, fs')"
    "dom (cd_Dir fs') = dom (cd_Dir (fs_Remove n fs)) - set names" by (metis list.set_intros(2))
  with Cons.prems [of n] show ?case by (auto simp: fs_Remove_def)
qed simp

text \<open>
  C17: Restart recovery always succeeds. From every state that receivers, crashes and earlier
  restarts can reach, with no receiver running and no system call failing,
  \<^verbatim>\<open>RecoverDurableCustodyRoot\<close> returns, whatever was abandoned half-way: it reports one object
  for each published name, in the order of the directory, removes every provisional name and
  counts them, and leaves exactly the published names.
\<close>

theorem restart_recovery_succeeds:
  assumes run: "custody_run L Z Q undone s"
    and config: "validateGenerationCustodyConfig root c = None"
    and names: "set names = dom (cd_Dir (sy_Fs s))"
  shows "\<exists>objects fs'. RecoverDurableCustodyRoot root c (\<lambda>_. True) True names (sy_Fs s) =
      (Inr (objects, length (filter isGenerationCustodyProvisionalName names)), fs') \<and>
    map dc_Path objects = map (filepath_Join (rt_RootDir root))
      (filter (\<lambda>n. \<not> isGenerationCustodyProvisionalName n) names) \<and>
    dom (cd_Dir fs') = {n \<in> dom (cd_Dir (sy_Fs s)). \<not> isGenerationCustodyProvisionalName n}"
proof -
  let ?ps = "filter isGenerationCustodyProvisionalName names"
  from custody_run_ok [OF run] have ok: "fs_ok L (sy_Fs s)" by (simp add: sys_ok_def)
  obtain ds where ds: "recover_entries root (sy_Fs s) names = Inr (?ps, ds)"
    and p: "map dc_Path ds = map (filepath_Join (rt_RootDir root))
      (filter (\<lambda>n. \<not> isGenerationCustodyProvisionalName n) names)"
    using recover_entries_ok [OF ok, of names root] names by auto
  obtain fs1 where fs1: "remove_provisional (\<lambda>_. True) ?ps (sy_Fs s) = (None, fs1)"
    and d: "dom (cd_Dir fs1) = dom (cd_Dir (sy_Fs s)) - set ?ps"
    using remove_provisional_all [of ?ps "\<lambda>_. True" "sy_Fs s"] by auto
  have "dom (cd_Dir fs1) = {n \<in> dom (cd_Dir (sy_Fs s)). \<not> isGenerationCustodyProvisionalName n}"
    using d names by auto
  then show ?thesis
    using config ds p fs1 by (auto simp: RecoverDurableCustodyRoot_def syncGenerationCustodyDirectory_def)
qed

section \<open>One receiver\<close>

fun custody_alone ::
  "x509_lib \<Rightarrow> zstd_decoder \<Rightarrow> custody_request \<Rightarrow> string \<Rightarrow> nat \<Rightarrow> nat \<Rightarrow> custody_fs \<times> custody_pc
     \<Rightarrow> custody_fs \<times> custody_pc" where
  "custody_alone L Z q tmp i 0 x = x"
| "custody_alone L Z q tmp i (Suc n) x =
     custody_alone L Z q tmp i n (custody_step L Z q True tmp i (fst x) (snd x))"

lemma receive_tee_bytes:
  "receive_tee L Z q = Inr (r, teed) \<Longrightarrow> tr_TransferBytes r = of_nat (length teed)"
  by (auto simp: receive_tee_def Let_def split: if_splits)

lemma alone_upto_link:
  fixes fs :: custody_fs
  assumes config: "validateGenerationCustodyConfig (rq_Root q) (rq_Receive q) = None"
    and tee: "receive_tee L Z q = Inr (r, teed)"
    and tmp: "isGenerationCustodyProvisionalName tmp" "cd_Dir fs tmp = None" "cd_Files fs i = None"
  defines "g \<equiv> \<lparr>cf_Content = teed, cf_Perm = 256, cf_Kind = RegularEntry, cf_Synced = True\<rparr>"
  shows "custody_alone L Z q tmp i 6 (fs, PcStart) =
    (fs\<lparr>cd_Dir := (cd_Dir fs)(tmp \<mapsto> i), cd_Files := (cd_Files fs)(i \<mapsto> g)\<rparr>, PcLink tmp i r)"
proof -
  note t = transfer_ok_length(2) [OF receive_tee_Inr [OF tee]] receive_tee_bytes [OF tee]
  from config tee tmp t show ?thesis
    by (simp add: numeral_eq_Suc fs_ops stat_error_def lookup_file_def g_def)
qed

lemma custody_alone_add:
  "custody_alone L Z q tmp i (m + n) x = custody_alone L Z q tmp i n (custody_alone L Z q tmp i m x)"
  by (induction m arbitrary: x) simp_all

lemma alone_undisturbed:
  assumes run: "custody_run L Z Q undone s"
    and config: "validateGenerationCustodyConfig (rq_Root q) (rq_Receive q) = None"
    and tee: "receive_tee L Z q = Inr (r, teed)"
    and tmp: "isGenerationCustodyProvisionalName tmp" "cd_Dir (sy_Fs s) tmp = None"
      "cd_Files (sy_Fs s) i = None"
  shows "\<exists>fs'. custody_alone L Z q tmp i 10 (sy_Fs s, PcStart) =
      (fs', case lookup_file (sy_Fs s) (finalName r) of
              None \<Rightarrow> PcDone (newGenerationCustodyResult r (custodyPath (rq_Root q) r) CustodyDispositionNew)
            | Some f \<Rightarrow> if cf_Content f = teed
                then PcDone (newGenerationCustodyResult r (custodyPath (rq_Root q) r) CustodyDispositionDuplicate)
                else PcFailed CusConflict) \<and>
    map_option cf_Content (lookup_file fs' (finalName r)) =
      (case lookup_file (sy_Fs s) (finalName r) of None \<Rightarrow> Some teed | Some f \<Rightarrow> Some (cf_Content f)) \<and>
    cd_Dir fs' tmp = None \<and> cd_Disk fs' = cd_Dir fs' \<and>
    dom (cd_Files fs') = insert i (dom (cd_Files (sy_Fs s)))"
proof -
  let ?fs = "sy_Fs s"
  have ok: "fs_ok L ?fs" using custody_run_ok [OF run] by (simp add: sys_ok_def)
  have ne: "finalName r \<noteq> tmp" using tmp(1) by (metis final_name_not_provisional)
  note t = transfer_ok_length [OF receive_tee_Inr [OF tee]]
  let ?g = "\<lparr>cf_Content = teed, cf_Perm = 256, cf_Kind = RegularEntry, cf_Synced = True\<rparr>"
  have ten: "custody_alone L Z q tmp i 10 (?fs, PcStart) =
      custody_alone L Z q tmp i (Suc (Suc (Suc (Suc 0)))) (?fs\<lparr>cd_Dir := (cd_Dir ?fs)(tmp \<mapsto> i),
        cd_Files := (cd_Files ?fs)(i \<mapsto> ?g)\<rparr>, PcLink tmp i r)"
    using custody_alone_add [of L Z q tmp i 6 "Suc (Suc (Suc (Suc 0)))" "(?fs, PcStart)"]
    by (simp only: alone_upto_link [OF config tee tmp]) simp
  show ?thesis
  proof (cases "cd_Dir ?fs (finalName r)")
    case None
    with ne show ?thesis
      by (simp add: ten fs_ops lookup_file_def)
  next
    case (Some k)
    with fs_ok_object [OF ok, of "finalName r" k] obtain f where f: "cd_Files ?fs k = Some f"
      "cf_Perm f = 256" "cf_Kind f = RegularEntry" by (auto simp: object_ok_def)
    with tmp(3) have "k \<noteq> i" by auto
    moreover have "compare_loop (length teed) (cf_Content f) teed = Some (cf_Content f = teed)"
      if "length (cf_Content f) = length teed" using that by (simp add: compare_loop_eq)
    ultimately show ?thesis
      using Some f ne t(1)
      by (auto simp: ten fs_ops lookup_file_def
          generationCustodyFilesExactlyEqual_def)
  qed
qed

text \<open>
  What a receiver does that no other disturbs and whose system calls succeed, in every
  reachable state, for an offer whose transfer it validates: when the identity is new, it
  publishes the exact bytes and returns \<^verbatim>\<open>NEW\<close>; when the identity holds these bytes already, it
  returns \<^verbatim>\<open>DUPLICATE\<close>; when it holds others, it fails with the conflict and the stored object
  stays as it was. In each case its provisional name is gone and the directory is on disk.
\<close>

theorem custody_undisturbed:
  assumes run: "custody_run L Z Q undone s"
    and config: "validateGenerationCustodyConfig (rq_Root q) (rq_Receive q) = None"
    and tee: "receive_tee L Z q = Inr (r, teed)"
    and tmp: "isGenerationCustodyProvisionalName tmp" "cd_Dir (sy_Fs s) tmp = None"
      "cd_Files (sy_Fs s) i = None"
  shows "\<exists>fs'. custody_alone L Z q tmp i 10 (sy_Fs s, PcStart) =
      (fs', case lookup_file (sy_Fs s) (finalName r) of
              None \<Rightarrow> PcDone (newGenerationCustodyResult r (custodyPath (rq_Root q) r) CustodyDispositionNew)
            | Some f \<Rightarrow> if cf_Content f = teed
                then PcDone (newGenerationCustodyResult r (custodyPath (rq_Root q) r) CustodyDispositionDuplicate)
                else PcFailed CusConflict) \<and>
    map_option cf_Content (lookup_file fs' (finalName r)) =
      (case lookup_file (sy_Fs s) (finalName r) of None \<Rightarrow> Some teed | Some f \<Rightarrow> Some (cf_Content f)) \<and>
    cd_Dir fs' tmp = None \<and> cd_Disk fs' = cd_Dir fs'"
  using alone_undisturbed [OF assms] by blast

section \<open>The undo of a publication\<close>

lemma run_step:
  assumes "custody_run L Z Q undone s" and "custody_step L Z (Q j) ok tmp i (sy_Fs s) (sy_Procs s j) = (fs', pc')"
    and "\<And>name r. sy_Procs s j = PcRemoveProvisional name r \<Longrightarrow> ok \<or> finalName r \<in> undone"
  shows "custody_run L Z Q undone \<lparr>sy_Fs = fs', sy_Procs = (sy_Procs s)(j := pc')\<rparr>"
  by (rule run_move [OF assms(1)], rule move_proc [where Q = Q, OF _ assms(2)]) (rule assms(3))

lemma run_alone:
  "custody_run L Z Q undone \<lparr>sy_Fs = fs, sy_Procs = P\<rparr> \<Longrightarrow>
   custody_alone L Z (Q j) tmp i n (fs, P j) = (fs', pc') \<Longrightarrow>
   custody_run L Z Q undone \<lparr>sy_Fs = fs', sy_Procs = P(j := pc')\<rparr>"
proof (induction n arbitrary: fs P)
  case (Suc n)
  obtain fs1 pc1 where 1: "custody_step L Z (Q j) True tmp i fs (P j) = (fs1, pc1)" by force
  have "custody_run L Z Q undone \<lparr>sy_Fs = fs1, sy_Procs = P(j := pc1)\<rparr>"
    using run_step [OF Suc.prems(1), of j True tmp i fs1 pc1] 1 by simp
  from Suc.IH [OF this] Suc.prems(2) 1 show ?case by (simp only: fun_upd_same fun_upd_upd custody_alone.simps fst_conv snd_conv)
qed auto

text \<open>
  C28: The undo of a publication can lose a transfer that was reported. For every transfer the
  receiver validates there is a run, with a failing removal of a provisional name of this
  object only, in which a second receiver of the same transfer returns
  \<^verbatim>\<open>DUPLICATE\<close>, that is, that the transfer is in durable custody, and then the first, whose
  removal of the provisional name fails, removes the final name: the object is gone from the
  custody root.
\<close>

theorem undo_loses_reported_custody:
  assumes config: "validateGenerationCustodyConfig (rq_Root q) (rq_Receive q) = None"
    and tee: "receive_tee L Z q = Inr (r, teed)"
    and tmp: "isGenerationCustodyProvisionalName tmp" "isGenerationCustodyProvisionalName tmp'" "tmp \<noteq> tmp'"
  shows "\<exists>s. custody_run L Z (\<lambda>_. q) {finalName r} s \<and>
    sy_Procs s 1 = PcDone (newGenerationCustodyResult r (custodyPath (rq_Root q) r)
      CustodyDispositionDuplicate) \<and> cd_Dir (sy_Fs s) (finalName r) = None"
proof -
  let ?Q = "\<lambda>_ :: nat. q"
  let ?g = "\<lparr>cf_Content = teed, cf_Perm = 256, cf_Kind = RegularEntry, cf_Synced = True\<rparr>"
  let ?e = "\<lparr>cd_Dir = Map.empty, cd_Disk = Map.empty, cd_Files = Map.empty\<rparr>"
  let ?f1 = "\<lparr>cd_Dir = [tmp \<mapsto> 0, finalName r \<mapsto> 0], cd_Disk = Map.empty, cd_Files = [0 \<mapsto> ?g]\<rparr>"
  let ?dup = "PcDone (newGenerationCustodyResult r (custodyPath (rq_Root q) r) CustodyDispositionDuplicate)"
  have ne: "finalName r \<noteq> tmp" "finalName r \<noteq> tmp'" using tmp by (metis final_name_not_provisional)+
  have "custody_alone L Z q tmp 0 (6 + 1) (?e, PcStart) = (?f1, PcRemoveProvisional tmp r)"
    unfolding custody_alone_add using alone_upto_link [OF config tee tmp(1), of ?e 0]
    using ne by (simp add: fs_ops)
  with run_alone [OF run_init, where Q = ?Q and j = 0]
  have 1: "custody_run L Z ?Q {finalName r} \<lparr>sy_Fs = ?f1, sy_Procs = (\<lambda>_. PcStart)(0 := PcRemoveProvisional tmp r)\<rparr>"
    by blast
  have "\<exists>fs'. custody_alone L Z q tmp' 1 10 (?f1, PcStart) = (fs', ?dup)"
    using alone_undisturbed [OF 1 config tee tmp(2), of 1] tmp(3) ne by (auto simp: lookup_file_def)
  then obtain f2 where "custody_alone L Z q tmp' 1 10 (?f1, PcStart) = (f2, ?dup)" ..
  with run_alone [OF 1, where j = 1 and tmp = tmp' and i = 1 and n = 10]
  have 2: "custody_run L Z ?Q {finalName r} \<lparr>sy_Fs = f2,
      sy_Procs = (\<lambda>_. PcStart)(0 := PcRemoveProvisional tmp r, 1 := ?dup)\<rparr>" by simp
  note 3 = run_step [OF 2, where j = 0 and ok = False and fs' = f2 and pc' = "PcUndo tmp r", simplified]
  note 4 = run_step [OF 3, where j = 0 and ok = True and fs' = "fs_Remove (finalName r) f2" and
      pc' = "PcCleanup tmp CusRemove", simplified]
  show ?thesis by (rule exI, rule conjI, rule 4) (simp add: fs_Remove_def)
qed

section \<open>A sample custody root\<close>

definition sample_root :: custody_root where
  "sample_root = \<lparr>rt_RootDir = ''/c'', rt_Resolved = Some ''/c'', rt_Kind = Some DirectoryEntry, rt_Perm = 448\<rparr>"

definition sample_request :: custody_request where
  "sample_request = \<lparr>rq_Stream = transfer_frame sealed_metadata sample_payload, rq_Offer = sealed_offer,
     rq_Receive = sample_receiver, rq_Root = sample_root\<rparr>"

lemma sample_root_valid:
  "validateGenerationCustodyConfig sample_root sample_receiver = None"
proof -
  have "receive_admission sealed_offer sample_receiver = (None :: artifact_error receive_error option)"
    by (rule sealed_offer_admitted)
  then have "validateReceiveConfig sample_receiver = (None :: artifact_error receive_error option)"
    by (simp add: receive_admission_def Let_def)
  then show ?thesis
    by (simp add: validateGenerationCustodyConfig_def sample_root_def path_rooted_def slash_def)
qed

lemma sample_tee:
  "receive_tee sample_lib sample_decoder sample_request =
     Inr (result_of sealed_descriptor sealed_metadata sample_payload,
          transfer_frame sealed_metadata sample_payload)"
  using sample_received [of "[]"]
  by (simp add: receive_tee_def sample_request_def Let_def result_of_def)

abbreviation sample_transfer :: transfer_result where
  "sample_transfer \<equiv> result_of sealed_descriptor sealed_metadata sample_payload"

abbreviation sample_bytes :: bytes where
  "sample_bytes \<equiv> transfer_frame sealed_metadata sample_payload"

abbreviation sample_custody :: "string \<Rightarrow> custody_result" where
  "sample_custody \<equiv> newGenerationCustodyResult sample_transfer (custodyPath sample_root sample_transfer)"

lemma sample_names:
  "isGenerationCustodyProvisionalName ''.fi-generation-custody-1.open''"
  "isGenerationCustodyProvisionalName ''.fi-generation-custody-2.open''"
  by (simp_all add: isGenerationCustodyProvisionalName_def generationCustodyProvisionalPrefix_def
      generationCustodyProvisionalSuffix_def HasPrefix_def HasSuffix_def)

lemma sample_final_names [simp]: "finalName r \<noteq> ''.fi-generation-custody-1.open''"
  "finalName r \<noteq> ''.fi-generation-custody-2.open''"
  using sample_names by (metis final_name_not_provisional)+

abbreviation sample_runs :: "custody_sys \<Rightarrow> bool" where
  "sample_runs \<equiv> custody_run sample_lib sample_decoder (\<lambda>_. sample_request) {}"

text \<open>Two receivers one after the other: the first returns \<^verbatim>\<open>NEW\<close>, the second \<^verbatim>\<open>DUPLICATE\<close>.\<close>

lemma sample_run:
  "\<exists>s. sample_runs s \<and> sy_Procs s 0 = PcDone (sample_custody CustodyDispositionNew) \<and>
     sy_Procs s 1 = PcDone (sample_custody CustodyDispositionDuplicate) \<and> (\<forall>j. idle (sy_Procs s j))"
proof -
  let ?e = "\<lparr>cd_Dir = Map.empty, cd_Disk = Map.empty, cd_Files = Map.empty\<rparr>"
  let ?t1 = "''.fi-generation-custody-1.open''" and ?t2 = "''.fi-generation-custody-2.open''"
  have config: "validateGenerationCustodyConfig (rq_Root sample_request) (rq_Receive sample_request) = None"
    and q: "rq_Root sample_request = sample_root"
    using sample_root_valid by (simp_all add: sample_request_def)
  note U = alone_undisturbed [OF _ config sample_tee, unfolded q]
  obtain f1 where a1: "custody_alone sample_lib sample_decoder sample_request ?t1 0 10 (?e, PcStart) =
      (f1, PcDone (sample_custody CustodyDispositionNew))"
    and l: "map_option cf_Content (lookup_file f1 (finalName sample_transfer)) = Some sample_bytes"
    and d: "cd_Dir f1 ?t1 = None" "dom (cd_Files f1) = {0}"
    using U [OF run_init sample_names(1), of 0] by (auto simp: lookup_file_def)
  have r1: "sample_runs \<lparr>sy_Fs = f1, sy_Procs = (\<lambda>_. PcStart)(0 := PcDone (sample_custody CustodyDispositionNew))\<rparr>"
    by (rule run_alone [OF run_init a1])
  have "cd_Files f1 1 = None" using d(2) by (metis domIff singletonD zero_neq_one)
  then have "\<exists>f2. custody_alone sample_lib sample_decoder sample_request ?t1 1 10 (f1, PcStart) =
      (f2, PcDone (sample_custody CustodyDispositionDuplicate))"
    using U [OF r1 sample_names(1), of 1] l d(1) by auto
  then obtain f2 where a2: "custody_alone sample_lib sample_decoder sample_request ?t1 1 10
      (f1, ((\<lambda>_. PcStart)(0 := PcDone (sample_custody CustodyDispositionNew))) (1 :: nat)) =
      (f2, PcDone (sample_custody CustodyDispositionDuplicate))" by auto
  from run_alone [OF r1 a2] show ?thesis
    by (intro exI, intro conjI, assumption) (simp_all add: idle_def)
qed

theorem custody_result_is_durable_witness:
  "\<exists>s cr i f. sample_runs s \<and> sy_Procs s 1 = PcDone cr \<and>
     cd_Disk (sy_Fs s) (finalName (cr_Transfer cr)) = Some i \<and> cd_Files (sy_Fs s) i = Some f \<and>
     hex_EncodeToString (Sum256 (cf_Content f)) = cr_CustodySHA256 cr"
proof -
  from sample_run obtain s where s: "sample_runs s"
    "sy_Procs s 1 = PcDone (sample_custody CustodyDispositionDuplicate)" by blast
  from custody_result_is_durable [OF s] s show ?thesis by blast
qed

theorem custody_identity_never_rebound_witness:
  "\<exists>s a b. sample_runs s \<and> sy_Procs s 0 = PcDone a \<and> sy_Procs s 1 = PcDone b \<and> a \<noteq> b \<and>
     cr_Transfer a = cr_Transfer b"
proof -
  from sample_run obtain s where s: "sample_runs s"
    "sy_Procs s 0 = PcDone (sample_custody CustodyDispositionNew)"
    "sy_Procs s 1 = PcDone (sample_custody CustodyDispositionDuplicate)" by blast
  from custody_identity_never_rebound [OF s] s show ?thesis
    by (fastforce simp: newGenerationCustodyResult_def CustodyDispositionNew_def
        CustodyDispositionDuplicate_def)
qed

theorem published_custody_is_validated_witness:
  "\<exists>s n i f r. sample_runs s \<and> cd_Dir (sy_Fs s) n = Some i \<and> cd_Files (sy_Fs s) i = Some f \<and>
     transfer_ok sample_lib (cf_Content f) r \<and>
     n = generationCustodyObjectName (gd_SourceID (tr_Descriptor r)) (gd_GenerationID (tr_Descriptor r))"
proof -
  from sample_run obtain s where s: "sample_runs s"
    "sy_Procs s 1 = PcDone (sample_custody CustodyDispositionDuplicate)" by blast
  from custody_run_ok [OF s(1)] s(2) obtain i where
    i: "cd_Dir (sy_Fs s) (finalName sample_transfer) = Some i"
    by (auto simp: sys_ok_def durable_def newGenerationCustodyResult_def dest!: spec [of _ "1 :: nat"])
  from published_custody_is_validated [OF s(1) disjI1 [OF i] final_name_not_provisional] s(1) i
  show ?thesis by blast
qed

theorem restart_recovery_succeeds_witness:
  "\<exists>s names objects n fs'. sample_runs s \<and> set names = dom (cd_Dir (sy_Fs s)) \<and>
     RecoverDurableCustodyRoot sample_root sample_receiver (\<lambda>_. True) True names (sy_Fs s) =
       (Inr (objects, n), fs') \<and>
     dom (cd_Dir fs') = {n \<in> dom (cd_Dir (sy_Fs s)). \<not> isGenerationCustodyProvisionalName n}"
proof -
  let ?s = "\<lparr>sy_Fs = \<lparr>cd_Dir = [''.fi-generation-custody-1.open'' \<mapsto> 0], cd_Disk = Map.empty,
      cd_Files = [0 \<mapsto> \<lparr>cf_Content = [], cf_Perm = 384, cf_Kind = RegularEntry, cf_Synced = False\<rparr>]\<rparr>,
    sy_Procs = (\<lambda>_. PcStart)(0 := PcReceive ''.fi-generation-custody-1.open'' 0)\<rparr>"
  have "rq_Root sample_request = sample_root" "rq_Receive sample_request = sample_receiver"
    by (simp_all add: sample_request_def)
  then have run: "sample_runs ?s"
    using run_step [OF run_init, where Q = "\<lambda>_. sample_request" and undone = "{}" and ok = True and j = 0 and
        tmp = "''.fi-generation-custody-1.open''" and i = 0]
      sample_root_valid sample_names(1) by (simp add: fs_ops)
  have names: "set [''.fi-generation-custody-1.open''] = dom (cd_Dir (sy_Fs ?s))" by simp
  from restart_recovery_succeeds [OF run sample_root_valid names] run names show ?thesis by blast
qed

theorem custody_undisturbed_witness:
  "\<exists>fs'. custody_alone sample_lib sample_decoder sample_request ''.fi-generation-custody-1.open'' 0 10
      (\<lparr>cd_Dir = Map.empty, cd_Disk = Map.empty, cd_Files = Map.empty\<rparr>, PcStart) =
      (fs', PcDone (sample_custody CustodyDispositionNew)) \<and>
    map_option cf_Content (lookup_file fs' (finalName sample_transfer)) = Some sample_bytes"
proof -
  have config: "validateGenerationCustodyConfig (rq_Root sample_request) (rq_Receive sample_request) = None"
    and q: "rq_Root sample_request = sample_root"
    using sample_root_valid by (simp_all add: sample_request_def)
  from custody_undisturbed [OF run_init config sample_tee sample_names(1), of 0] q show ?thesis
    by (auto simp: lookup_file_def)
qed

theorem undo_loses_reported_custody_witness:
  "\<exists>s. custody_run sample_lib sample_decoder (\<lambda>_. sample_request) {finalName sample_transfer} s \<and>
    sy_Procs s 1 = PcDone (sample_custody CustodyDispositionDuplicate) \<and>
    cd_Dir (sy_Fs s) (finalName sample_transfer) = None"
proof -
  have config: "validateGenerationCustodyConfig (rq_Root sample_request) (rq_Receive sample_request) = None"
    and q: "rq_Root sample_request = sample_root"
    using sample_root_valid by (simp_all add: sample_request_def)
  from undo_loses_reported_custody [OF config sample_tee sample_names] q show ?thesis by simp
qed

end
