(* ===== verification/Custody_Read.thy ===== *)
theory Custody_Read
  imports Custody_Props
begin

text \<open>
  Files \<^verbatim>\<open>custody_read_linux.go\<close> and, of \<^verbatim>\<open>custody_restart_linux.go\<close>, the reading of discovered
  objects: the recorder's way back from a custody object to the validated transfer and its
  artifacts. The custody root is looked at three times, before the object is opened, as it is
  opened and after it was read; the model takes the three states as arguments, so that other
  processes may have changed the root in between.
\<close>

section \<open>Checks\<close>

datatype 'e custody_read_error =
    CrHandlerRequired
  | CrConfig custody_error
  | CrDisposition
  | CrDescriptor generation_error
  | CrOffer protocol_error
  | CrPayloadIdentity
  | CrSHA256 generation_error
  | CrOverflow
  | CrByteCount
  | CrSHA256Mismatch
  | CrPath
  | CrPathRequired
  | CrBytesBounds
  | CrPathNotAbsolute
  | CrPathOutsideRoot
  | CrFilename
  | CrInspect
  | CrNotReadOnly
  | CrSize
  | CrOpen
  | CrChangedAtOpen
  | CrHeader io_error
  | CrBadMagic
  | CrMetadataBounds
  | CrFraming
  | CrMetadataRead io_error
  | CrMetadata metadata_error
  | CrPayloadBytes
  | CrNameMismatch
  | CrSeek
  | CrFactory 'e
  | CrTransfer "'e receive_error"
  | CrTrailing
  | CrClose
  | CrIdentityChanged
  | CrReinspect
  | CrChanged

definition lstat_custody :: "custody_fs \<Rightarrow> string \<Rightarrow> (nat \<times> custody_file) option" where
  "lstat_custody fs path =
     (case cd_Dir fs (filepath_Base path) of None \<Rightarrow> None
      | Some i \<Rightarrow> map_option (Pair i) (cd_Files fs i))"

definition os_SameFile :: "nat \<times> custody_file \<Rightarrow> nat \<times> custody_file \<Rightarrow> bool" where
  "os_SameFile a b \<longleftrightarrow> fst a = fst b"

definition validateGenerationCustodyFileInfo ::
  "custody_file \<Rightarrow> uint64 \<Rightarrow> 'e custody_read_error option" where
  "validateGenerationCustodyFileInfo info expectedBytes =
     first_err
       [fail_if (cf_Kind info = SymlinkEntry \<or> cf_Kind info \<noteq> RegularEntry \<or> cf_Perm info \<noteq> 256)
          CrNotReadOnly,
        fail_if (cf_Content info = [] \<or> of_nat (length (cf_Content info)) \<noteq> expectedBytes) CrSize]"

definition custody_offer :: "transfer_result \<Rightarrow> generation_offer" where
  "custody_offer r =
     \<lparr>go_Version = OfferVersion, go_Descriptor = tr_Descriptor r,
      go_MetadataBytes = tr_MetadataBytes r, go_MetadataSHA256 = tr_MetadataSHA256 r\<rparr>"

definition validateGenerationCustodyResult ::
  "custody_result \<Rightarrow> string \<Rightarrow> 'e custody_read_error option" where
  "validateGenerationCustodyResult custody root =
     (let r = cr_Transfer custody; d = tr_Descriptor r in
      first_err
       [fail_if (cr_Disposition custody \<notin>
          {CustodyDispositionDuplicate, CustodyDispositionExisting, CustodyDispositionNew}) CrDisposition,
        map_option CrDescriptor (gen_Validate d),
        map_option CrOffer (offer_Validate (custody_offer r)),
        fail_if (tr_PayloadBytes r \<noteq> gd_EncodedDataBytes d \<or> tr_PayloadSHA256 r \<noteq> gd_EncodedDataSHA256 d)
          CrPayloadIdentity,
        map_option CrSHA256 (gen_validateSHA256 ''transfer SHA-256'' (tr_TransferSHA256 r)),
        (case expected_transfer_bytes (tr_MetadataBytes r) (tr_PayloadBytes r) of
           None \<Rightarrow> Some CrOverflow
         | Some expected \<Rightarrow> fail_if (tr_TransferBytes r \<noteq> expected \<or>
             cr_CustodyBytes custody \<noteq> tr_TransferBytes r) CrByteCount),
        map_option CrSHA256 (gen_validateSHA256 ''custody SHA-256'' (cr_CustodySHA256 custody)),
        fail_if (cr_CustodySHA256 custody \<noteq> tr_TransferSHA256 r) CrSHA256Mismatch,
        fail_if (filepath_Clean (cr_CustodyPath custody) \<noteq>
          filepath_Clean (filepath_Join root
            (generationCustodyObjectName (gd_SourceID d) (gd_GenerationID d)))) CrPath])"

definition validateDiscoveredCustody ::
  "discovered_custody \<Rightarrow> string \<Rightarrow> 'e custody_read_error option" where
  "validateDiscoveredCustody discovered root =
     first_err
       [fail_if (dc_Path discovered = []) CrPathRequired,
        fail_if (dc_Bytes discovered \<le> of_nat transferHeaderBytes) CrBytesBounds,
        fail_if (\<not> filepath_IsAbs (dc_Path discovered)) CrPathNotAbsolute,
        fail_if (filepath_Clean (filepath_Dir (dc_Path discovered)) \<noteq> filepath_Clean root)
          CrPathOutsideRoot,
        fail_if (\<not> isGenerationCustodyFinalName (filepath_Base (dc_Path discovered))) CrFilename]"

text \<open>The offer of a discovered object, from its header and its signed metadata alone.\<close>

definition readDiscoveredCustodyOffer ::
  "x509_lib \<Rightarrow> bytes \<Rightarrow> discovered_custody \<Rightarrow> 'e custody_read_error + generation_offer" where
  "readDiscoveredCustodyOffer L file discovered =
     bindE (map_err CrHeader (ReadFull transferHeaderBytes file)) (\<lambda>(header, s).
     if slice 0 8 header \<noteq> TransferMagic then Inl CrBadMagic
     else let metadataBytes = ucast (be_Uint32 (slice 8 12 header)) :: uint64;
              payloadBytes = be_Uint64 (slice 12 20 header) in
     if bad_metadata_bytes metadataBytes then Inl CrMetadataBounds
     else (case expected_transfer_bytes metadataBytes payloadBytes of None \<Rightarrow> Inl CrOverflow
     | Some expectedBytes \<Rightarrow>
     if expectedBytes \<noteq> dc_Bytes discovered then Inl CrFraming
     else bindE (map_err CrMetadataRead (ReadFull (unat metadataBytes) s)) (\<lambda>(metadata, _).
     bindE (map_err CrMetadata (UnmarshalSignedGeneration L metadata)) (\<lambda>v.
     if payloadBytes \<noteq> gd_EncodedDataBytes (gs_Descriptor v) then Inl CrPayloadBytes
     else let offer = \<lparr>go_Version = OfferVersion, go_Descriptor = gs_Descriptor v,
                       go_MetadataBytes = metadataBytes,
                       go_MetadataSHA256 = hex_EncodeToString (Sum256 metadata)\<rparr> in
     bindE (check (map_option CrOffer (offer_Validate offer))) (\<lambda>_. Inr offer)))))"

section \<open>Reading\<close>

text \<open>
  \<^verbatim>\<open>ReadDurableCustodyArtifacts\<close>: the value is the transfer and the handler's state. \<open>okClose\<close>
  says whether closing the file succeeds; a failed \<^verbatim>\<open>Lstat\<close>, \<^verbatim>\<open>Open\<close> or \<^verbatim>\<open>Stat\<close> is a missing
  entry.
\<close>

definition custody_unchanged ::
  "nat \<times> custody_file \<Rightarrow> (nat \<times> custody_file) option \<Rightarrow> uint64 \<Rightarrow> 'e custody_read_error option" where
  "custody_unchanged before after expectedBytes =
     (case after of None \<Rightarrow> Some CrReinspect
      | Some a \<Rightarrow> first_err [fail_if (\<not> os_SameFile before a) CrChanged,
                            validateGenerationCustodyFileInfo (snd a) expectedBytes])"

definition custody_opened ::
  "custody_fs \<Rightarrow> custody_fs \<Rightarrow> string \<Rightarrow> uint64
     \<Rightarrow> 'e custody_read_error + (nat \<times> custody_file) \<times> bytes" where
  "custody_opened fs0 fs1 path expectedBytes =
     (case lstat_custody fs0 path of None \<Rightarrow> Inl CrInspect | Some before \<Rightarrow>
      bindE (check (validateGenerationCustodyFileInfo (snd before) expectedBytes)) (\<lambda>_.
      case lstat_custody fs1 path of None \<Rightarrow> Inl CrOpen | Some opened \<Rightarrow>
      if \<not> os_SameFile before opened then Inl CrChangedAtOpen
      else Inr (before, cf_Content (snd opened))))"

definition ReadDurableCustodyArtifacts ::
  "x509_lib \<Rightarrow> zstd_decoder \<Rightarrow> ('h, 'e) artifact_handler option \<Rightarrow> 'h \<Rightarrow> custody_result
     \<Rightarrow> custody_root \<Rightarrow> receive_config \<Rightarrow> custody_fs \<Rightarrow> custody_fs \<Rightarrow> custody_fs \<Rightarrow> bool
     \<Rightarrow> 'e custody_read_error + transfer_result \<times> 'h" where
  "ReadDurableCustodyArtifacts L Z handler h custody root c fs0 fs1 fs2 okClose =
     (if handler = None then Inl CrHandlerRequired
      else bindE (check (map_option CrConfig (validateGenerationCustodyConfig root c))) (\<lambda>_.
      bindE (check (validateGenerationCustodyResult custody (rt_RootDir root))) (\<lambda>_.
      let path = cr_CustodyPath custody; bytes = tr_TransferBytes (cr_Transfer custody) in
      bindE (custody_opened fs0 fs1 path bytes) (\<lambda>(before, file).
      bindE (map_err CrTransfer
        (readValidatedTransfer L Z handler h file (custody_offer (cr_Transfer custody)) c))
        (\<lambda>(transfer, extra, h').
      if extra \<noteq> [] then Inl CrTrailing
      else if \<not> okClose then Inl CrClose
      else if transfer \<noteq> cr_Transfer custody then Inl CrIdentityChanged
      else bindE (check (custody_unchanged before (lstat_custody fs2 path) bytes)) (\<lambda>_.
      Inr (transfer, h')))))))"

text \<open>
  \<^verbatim>\<open>ReadDiscoveredDurableCustodyArtifacts\<close>: the handler comes from a factory that is given the
  signed descriptor.
\<close>

definition ReadDiscoveredDurableCustodyArtifacts ::
  "x509_lib \<Rightarrow> zstd_decoder \<Rightarrow> (generation_descriptor \<Rightarrow> 'e + ('h, 'e) artifact_handler option \<times> 'h) option
     \<Rightarrow> discovered_custody \<Rightarrow> custody_root \<Rightarrow> receive_config
     \<Rightarrow> custody_fs \<Rightarrow> custody_fs \<Rightarrow> custody_fs \<Rightarrow> bool \<Rightarrow> bool
     \<Rightarrow> 'e custody_read_error + custody_result \<times> 'h" where
  "ReadDiscoveredDurableCustodyArtifacts L Z factory discovered root c fs0 fs1 fs2 okSeek okClose =
     (case factory of None \<Rightarrow> Inl CrHandlerRequired | Some create \<Rightarrow>
      bindE (check (map_option CrConfig (validateGenerationCustodyConfig root c))) (\<lambda>_.
      bindE (check (validateDiscoveredCustody discovered (rt_RootDir root))) (\<lambda>_.
      let path = dc_Path discovered in
      bindE (custody_opened fs0 fs1 path (dc_Bytes discovered)) (\<lambda>(before, file).
      bindE (readDiscoveredCustodyOffer L file discovered) (\<lambda>offer.
      if filepath_Base path \<noteq> generationCustodyObjectName (gd_SourceID (go_Descriptor offer))
           (gd_GenerationID (go_Descriptor offer)) then Inl CrNameMismatch
      else if \<not> okSeek then Inl CrSeek
      else bindE (map_err CrFactory (create (go_Descriptor offer))) (\<lambda>(handler, h).
      if handler = None then Inl CrHandlerRequired
      else bindE (map_err CrTransfer (readValidatedTransfer L Z handler h file offer c))
        (\<lambda>(transfer, extra, h').
      if extra \<noteq> [] then Inl CrTrailing
      else if \<not> okClose then Inl CrClose
      else if tr_TransferBytes transfer \<noteq> dc_Bytes discovered then Inl CrByteCount
      else bindE (check (custody_unchanged before (lstat_custody fs2 path) (dc_Bytes discovered))) (\<lambda>_.
      Inr (newGenerationCustodyResult transfer path CustodyDispositionExisting, h')))))))))"

section \<open>The offer in a custody object\<close>

lemma transfer_ok_offer:
  assumes "transfer_ok L c r"
  shows "offer_Validate (custody_offer r) = None" and "tr_PayloadBytes r = gd_EncodedDataBytes (tr_Descriptor r)"
    and "tr_PayloadSHA256 r = gd_EncodedDataSHA256 (tr_Descriptor r)"
    and "expected_transfer_bytes (tr_MetadataBytes r) (tr_PayloadBytes r) = Some (tr_TransferBytes r)"
proof -
  from assms obtain m p v where c: "c = transfer_frame m p" and r: "r = result_of (tr_Descriptor r) m p"
    and lp: "length p = unat (gd_EncodedDataBytes (tr_Descriptor r))"
    and sha: "hex_EncodeToString (Sum256 p) = gd_EncodedDataSHA256 (tr_Descriptor r)"
    and v: "gen_Validate (tr_Descriptor r) = None"
    and m: "m \<noteq> []" "length m \<le> maxSignedGenerationMetadataBytes" and p: "length p < 2 ^ 63"
    by (rule transfer_ok_parts)
  have f: "tr_MetadataBytes r = of_nat (length m)" "tr_MetadataSHA256 r = hex_EncodeToString (Sum256 m)"
    "tr_PayloadBytes r = of_nat (length p)" "tr_PayloadSHA256 r = hex_EncodeToString (Sum256 p)"
    by (subst r, simp add: result_of_def)+
  have um: "unat (of_nat (length m) :: uint64) = length m"
    using m(2) by (simp add: maxSignedGenerationMetadataBytes_def unat_of_nat_small)
  have up: "unat (of_nat (length p) :: uint64) = length p" using p by (simp add: unat_of_nat_small)
  show "offer_Validate (custody_offer r) = None"
    using m v f um by (simp add: offer_Validate_None custody_offer_def bad_metadata_bytes_unat)
  show "tr_PayloadBytes r = gd_EncodedDataBytes (tr_Descriptor r)" by (simp add: f lp)
  show "tr_PayloadSHA256 r = gd_EncodedDataSHA256 (tr_Descriptor r)" by (simp add: f sha)
  show "expected_transfer_bytes (tr_MetadataBytes r) (tr_PayloadBytes r) = Some (tr_TransferBytes r)"
    using m(2) p transfer_ok_length(1) [OF assms]
    by (simp add: expected_transfer_bytes_Some f um up c transfer_frame_length
        maxSignedGenerationMetadataBytes_def)
qed

lemma discovered_offer:
  fixes discovered :: discovered_custody
  assumes "transfer_ok L c r" and "dc_Bytes discovered = of_nat (length c)"
  shows "readDiscoveredCustodyOffer L c discovered = (Inr (custody_offer r) :: 'e custody_read_error + _)"
proof -
  from assms(1) obtain m p v where c: "c = transfer_frame m p" and r: "r = result_of (tr_Descriptor r) m p"
    and u: "UnmarshalSignedGeneration L m = Inr v" "gs_Descriptor v = tr_Descriptor r"
    and lp: "length p = unat (gd_EncodedDataBytes (tr_Descriptor r))"
    and m: "m \<noteq> []" "length m \<le> maxSignedGenerationMetadataBytes" and p: "length p < 2 ^ 63"
    by (rule transfer_ok_parts)
  let ?p = "be_PutUint64 (of_nat (length p))"
  let ?f = "TransferMagic @ len32 m @ ?p"
  have l: "length TransferMagic = 8" by (simp add: TransferMagic_def)
  have h: "ReadFull 20 (?f @ m @ p) = Inr (?f, m @ p)" using l by (intro ReadFull_append) simp
  have "unat (be_Uint32 (len32 m)) = length m"
    using m(2) by (intro unat_len32) (simp add: maxSignedGenerationMetadataBytes_def)
  then have ub: "ucast (be_Uint32 (len32 m)) = (of_nat (length m) :: uint64)"
    by (metis unat_ucast_32_64 word_unat_eq_iff unat_of_nat_small unat_lt_2p)
  have um: "unat (of_nat (length m) :: uint64) = length m"
    using m(2) by (simp add: maxSignedGenerationMetadataBytes_def unat_of_nat_small)
  have f: "tr_MetadataBytes r = of_nat (length m)" "tr_MetadataSHA256 r = hex_EncodeToString (Sum256 m)"
    "tr_PayloadBytes r = of_nat (length p)" "tr_TransferBytes r = of_nat (length c)"
    by (subst r, simp add: result_of_def c)+
  have ob: "\<not> bad_metadata_bytes (of_nat (length m))" using m um by (simp add: bad_metadata_bytes_unat)
  have pb: "gd_EncodedDataBytes (tr_Descriptor r) = of_nat (length p)" by (simp add: lp)
  have off: "\<lparr>go_Version = OfferVersion, go_Descriptor = tr_Descriptor r, go_MetadataBytes = of_nat (length m),
      go_MetadataSHA256 = hex_EncodeToString (Sum256 m)\<rparr> = custody_offer r"
    by (simp add: custody_offer_def f)
  from transfer_ok_offer [OF assms(1)] f
  have T: "offer_Validate (custody_offer r) = None"
    "expected_transfer_bytes (of_nat (length m)) (of_nat (length p)) = Some (of_nat (length c))"
    by simp_all
  have c': "c = ?f @ m @ p" by (simp add: c transfer_frame_def)
  show ?thesis
    using T assms(2) ob um u pb h l
    by (simp add: readDiscoveredCustodyOffer_def c' transferHeaderBytes_def slice_simps Let_def ub off)
qed

text \<open>
  A custody object tells its own offer. From the header and the signed metadata of any
  file that holds a validated transfer, and without touching the payload, the restart code
  reconstructs exactly the offer under which the transfer was received.
\<close>

theorem discovered_offer_roundtrip:
  fixes discovered :: discovered_custody
  assumes "transfer_ok L c r" and "dc_Bytes discovered = of_nat (length c)"
  shows "readDiscoveredCustodyOffer L c discovered = (Inr (custody_offer r) :: 'e custody_read_error + _)"
  by (rule discovered_offer [OF assms])

section \<open>Reading back what was taken into custody\<close>

lemma revalidated:
  fixes handler :: "('h, 'e) artifact_handler option"
  assumes "transfer_ok L c r" and "readValidatedTransfer L Z handler h c (custody_offer r) cfg = Inr (r', rest, h')"
  shows "r' = r" and "rest = []"
proof -
  from assms(1) obtain m p where c: "c = transfer_frame m p" and r: "r = result_of (tr_Descriptor r) m p"
    and lp: "length p = unat (gd_EncodedDataBytes (tr_Descriptor r))"
    and m: "length m \<le> maxSignedGenerationMetadataBytes" and p: "length p < 2 ^ 63"
    by (rule transfer_ok_parts)
  have d: "go_Descriptor (custody_offer r) = tr_Descriptor r" by (simp add: custody_offer_def)
  from validated_transfer [OF assms(2)] obtain m' p' v where
    c': "c = transfer_frame m' p' @ rest" and r': "r' = result_of (tr_Descriptor r) m' p'"
    and um: "UnmarshalSignedGeneration L m' = Inr v"
    and lp': "length p' = unat (gd_EncodedDataBytes (tr_Descriptor r))"
    unfolding d by blast
  have "length m' \<le> maxSignedGenerationMetadataBytes"
    using um by (auto simp: UnmarshalSignedGeneration_def split: if_splits)
  with transfer_frame_inject [of m p "[]" m' p' rest] c c' m p lp lp' have "m = m'" "p = p'" "rest = []"
    by (simp_all add: maxSignedGenerationMetadataBytes_def)
  with r r' show "r' = r" "rest = []" by metis+
qed

lemma final_name_plain: "plain_part (finalName r)"
proof -
  let ?h = "hex_EncodeToString (Sum256 (custody_identity (gd_SourceID (tr_Descriptor r))
    (gd_GenerationID (tr_Descriptor r))))"
  have "list_all is_lower_hex ?h" using sha256_text_lower by (simp add: sha256_text_def)
  then have "slash \<notin> set ?h" by (auto simp: list_all_iff slash_def is_lower_hex_def)
  then show ?thesis
    by (simp add: plain_part_def finalName_def generationCustodyObjectName_def slash_def)
qed

lemma valid_root_rooted:
  "validateGenerationCustodyConfig root c = None \<Longrightarrow> path_rooted (rt_RootDir root)"
  by (simp add: validateGenerationCustodyConfig_def)

lemma custody_path:
  assumes "path_rooted (rt_RootDir root)"
  shows "filepath_Base (custodyPath root r) = finalName r" and "path_rooted (custodyPath root r)"
    and "filepath_Clean (filepath_Dir (custodyPath root r)) = filepath_Clean (rt_RootDir root)"
  using assms
  by (simp_all add: custodyPath_def Base_Join Dir_Join path_rooted_Join Clean_idem final_name_plain)

text \<open>A file system in which the object of \<open>r\<close> is held.\<close>

definition holds :: "x509_lib \<Rightarrow> custody_fs \<Rightarrow> transfer_result \<Rightarrow> nat \<Rightarrow> custody_file \<Rightarrow> bool" where
  "holds L fs r i f \<longleftrightarrow>
     cd_Dir fs (finalName r) = Some i \<and> cd_Files fs i = Some f \<and> cf_Perm f = 256 \<and>
     cf_Kind f = RegularEntry \<and> transfer_ok L (cf_Content f) r"

lemma done_holds:
  assumes "custody_run L Z Q undone s" and "sy_Procs s j = PcDone cr" and "finalName (cr_Transfer cr) \<notin> undone"
  obtains i f where "holds L (sy_Fs s) (cr_Transfer cr) i f"
proof -
  from custody_run_ok [OF assms(1)] have ok: "fs_ok L (sy_Fs s)" and "proc_ok L undone (sy_Fs s) (sy_Procs s j)"
    by (simp_all add: sys_ok_def)
  with assms(2,3) obtain i f where f: "cd_Dir (sy_Fs s) (finalName (cr_Transfer cr)) = Some i"
    "cd_Files (sy_Fs s) i = Some f" "transfer_ok L (cf_Content f) (cr_Transfer cr)"
    by (auto simp: durable_def)
  with fs_ok_object [OF ok, of "finalName (cr_Transfer cr)" i] have "holds L (sy_Fs s) (cr_Transfer cr) i f"
    by (auto simp: holds_def object_ok_def)
  then show thesis by (rule that)
qed

lemma holds_info:
  assumes "holds L fs r i f"
  shows "validateGenerationCustodyFileInfo f (tr_TransferBytes r) = None"
    and "of_nat (length (cf_Content f)) = tr_TransferBytes r"
proof -
  from assms have t: "transfer_ok L (cf_Content f) r" by (simp add: holds_def)
  then show n: "of_nat (length (cf_Content f)) = tr_TransferBytes r"
    by (simp flip: transfer_ok_length(1) [OF t])
  show "validateGenerationCustodyFileInfo f (tr_TransferBytes r) = None"
    using assms n transfer_ok_length(2) [OF t]
    by (simp add: validateGenerationCustodyFileInfo_def holds_def)
qed

lemma holds_opened:
  assumes "holds L fs r i f" and "filepath_Base path = finalName r"
  shows "custody_opened fs fs path (tr_TransferBytes r) =
      (Inr ((i, f), cf_Content f) :: 'e custody_read_error + _)"
    and "custody_unchanged (i, f) (lstat_custody fs path) (tr_TransferBytes r) =
      (None :: 'e custody_read_error option)"
  using assms holds_info(1) [OF assms(1)]
  by (simp_all add: custody_opened_def custody_unchanged_def lstat_custody_def holds_def os_SameFile_def)

lemma holds_result_valid:
  assumes "holds L fs r i f" and "path_rooted (rt_RootDir root)"
    and "d \<in> {CustodyDispositionDuplicate, CustodyDispositionExisting, CustodyDispositionNew}"
  shows "validateGenerationCustodyResult (newGenerationCustodyResult r (custodyPath root r) d)
    (rt_RootDir root) = None"
proof -
  from assms(1) have t: "transfer_ok L (cf_Content f) r" by (simp add: holds_def)
  note T = transfer_ok_offer [OF t]
  from T(1) have "gen_Validate (tr_Descriptor r) = None"
    by (simp add: offer_Validate_None custody_offer_def)
  moreover have "sha256_text (tr_TransferSHA256 r)" by (simp add: transfer_ok_length(3) [OF t])
  ultimately show ?thesis
    using assms(3) T
    by (simp add: validateGenerationCustodyResult_def newGenerationCustodyResult_def Let_def
        custodyPath_def finalName_def)
qed

text \<open>
  What is in custody can be read back. In every state reachable by any interleaving of
  receivers, crashes and restarts in which no receiver of the object takes its publication
  back, the recorder's read of a result that a receiver returned
  passes every structural check and comes down to the revalidation of the stored bytes under
  current trust: it fails only if that does, and otherwise gives the very transfer the
  receiver returned and what the artifact handler made of it.
\<close>

theorem custody_read_back:
  fixes handler :: "('h, 'e) artifact_handler option"
  assumes run: "custody_run L Z Q undone s" and res: "sy_Procs s j = PcDone cr"
    and keep: "finalName (cr_Transfer cr) \<notin> undone"
    and config: "validateGenerationCustodyConfig (rq_Root (Q j)) c = None" and handler: "handler \<noteq> None"
  shows "\<exists>f. lookup_file (sy_Fs s) (finalName (cr_Transfer cr)) = Some f \<and>
    ReadDurableCustodyArtifacts L Z handler h cr (rq_Root (Q j)) c (sy_Fs s) (sy_Fs s) (sy_Fs s) True =
      (case readValidatedTransfer L Z handler h (cf_Content f) (custody_offer (cr_Transfer cr)) c of
         Inl e \<Rightarrow> Inl (CrTransfer e)
       | Inr (_, _, h') \<Rightarrow> Inr (cr_Transfer cr, h'))"
proof -
  obtain i f where f: "holds L (sy_Fs s) (cr_Transfer cr) i f" using done_holds [OF run res keep] .
  then have t: "transfer_ok L (cf_Content f) (cr_Transfer cr)" by (simp add: holds_def)
  have root: "path_rooted (rt_RootDir (rq_Root (Q j)))" by (rule valid_root_rooted [OF config])
  from custody_run_results [OF run, of j] res obtain d where
    cr: "cr = newGenerationCustodyResult (cr_Transfer cr) (custodyPath (rq_Root (Q j)) (cr_Transfer cr)) d"
    and d: "d \<in> {CustodyDispositionDuplicate, CustodyDispositionExisting, CustodyDispositionNew}"
    by (auto simp: result_ok_def)
  have path: "cr_CustodyPath cr = custodyPath (rq_Root (Q j)) (cr_Transfer cr)"
    by (subst cr) (simp add: newGenerationCustodyResult_def)
  have "validateGenerationCustodyResult cr (rt_RootDir (rq_Root (Q j))) = (None :: 'e custody_read_error option)"
    using holds_result_valid [OF f root d] cr by simp
  with f holds_opened [OF f custody_path(1) [OF root], where ?'e = 'e] config handler path
    revalidated [OF t, where handler = handler and h = h and cfg = c and Z = Z]
  show ?thesis
    by (auto simp: ReadDurableCustodyArtifacts_def lookup_file_def holds_def Let_def
        split: sum.splits)
qed

lemma held_rediscovered:
  fixes handler :: "('h, 'e) artifact_handler option"
  assumes f: "holds L fs r i f"
    and config: "validateGenerationCustodyConfig root c = None"
    and factory: "factory (tr_Descriptor r) = Inr (handler, h)" "handler \<noteq> None"
  shows "ReadDiscoveredDurableCustodyArtifacts L Z (Some factory)
      \<lparr>dc_Bytes = tr_TransferBytes r, dc_Path = custodyPath root r\<rparr> root c fs fs fs True True =
      (case readValidatedTransfer L Z handler h (cf_Content f) (custody_offer r) c of
         Inl e \<Rightarrow> Inl (CrTransfer e)
       | Inr (_, _, h') \<Rightarrow>
           Inr (newGenerationCustodyResult r (custodyPath root r) CustodyDispositionExisting, h'))"
proof -
  let ?dc = "\<lparr>dc_Bytes = tr_TransferBytes r, dc_Path = custodyPath root r\<rparr>"
  from f have t: "transfer_ok L (cf_Content f) r" by (simp add: holds_def)
  have root: "path_rooted (rt_RootDir root)" by (rule valid_root_rooted [OF config])
  have bytes: "dc_Bytes ?dc = of_nat (length (cf_Content f))" by (simp add: holds_info(2) [OF f])
  have "\<not> tr_TransferBytes r \<le> of_nat transferHeaderBytes"
  proof -
    from t obtain m p where "cf_Content f = transfer_frame m p" "m \<noteq> []" by (rule transfer_ok_parts)
    then have "unat (tr_TransferBytes r) > 20"
      by (simp add: transfer_ok_length(1) [OF t] transfer_frame_length)
    then show ?thesis by (simp add: word_le_nat_alt transferHeaderBytes_def)
  qed
  moreover have "isGenerationCustodyFinalName (finalName r)" by (simp add: finalName_def object_name_final)
  ultimately have "validateDiscoveredCustody ?dc (rt_RootDir root) = (None :: 'e custody_read_error option)"
    using custody_path [OF root, of r]
    by (auto simp: validateDiscoveredCustody_def path_rooted_def)
  moreover have "go_Descriptor (custody_offer r) = tr_Descriptor r" by (simp add: custody_offer_def)
  ultimately show ?thesis
    using f holds_opened [OF f custody_path(1) [OF root], where ?'e = 'e] config factory
      custody_path(1) [OF root, of r] discovered_offer [OF t bytes, where ?'e = 'e]
      revalidated [OF t, where handler = handler and h = h and cfg = c and Z = Z]
    by (auto simp: ReadDiscoveredDurableCustodyArtifacts_def Let_def finalName_def split: sum.splits)
qed

text \<open>
  C21: The restart path, which has nothing but the directory entry, comes down to the
  revalidation of the stored bytes. In a reachable state in which no receiver of the object
  takes its publication back, with a factory that makes a handler, a file system that no one
  changes during the read and no failing call, every check of names, sizes and identities
  passes: the read of the discovered object fails exactly when \<^verbatim>\<open>readValidatedTransfer\<close> fails on
  the stored bytes under current trust, with that error, and otherwise returns the result that
  the receiver returned before the restart, now as \<^verbatim>\<open>EXISTING\<close>, and the handler's state.
\<close>

theorem custody_rediscovered:
  fixes handler :: "('h, 'e) artifact_handler option"
  assumes run: "custody_run L Z Q undone s" and res: "sy_Procs s j = PcDone cr"
    and keep: "finalName (cr_Transfer cr) \<notin> undone"
    and config: "validateGenerationCustodyConfig (rq_Root (Q j)) c = None"
    and factory: "factory (tr_Descriptor (cr_Transfer cr)) = Inr (handler, h)" "handler \<noteq> None"
  shows "\<exists>f. lookup_file (sy_Fs s) (finalName (cr_Transfer cr)) = Some f \<and>
    ReadDiscoveredDurableCustodyArtifacts L Z (Some factory)
      \<lparr>dc_Bytes = cr_CustodyBytes cr, dc_Path = cr_CustodyPath cr\<rparr> (rq_Root (Q j)) c
      (sy_Fs s) (sy_Fs s) (sy_Fs s) True True =
      (case readValidatedTransfer L Z handler h (cf_Content f) (custody_offer (cr_Transfer cr)) c of
         Inl e \<Rightarrow> Inl (CrTransfer e)
       | Inr (_, _, h') \<Rightarrow> Inr (cr\<lparr>cr_Disposition := CustodyDispositionExisting\<rparr>, h'))"
proof -
  let ?r = "cr_Transfer cr"
  obtain i f where f: "holds L (sy_Fs s) ?r i f" using done_holds [OF run res keep] .
  from custody_run_results [OF run, of j] res obtain d where
    cr: "cr = newGenerationCustodyResult ?r (custodyPath (rq_Root (Q j)) ?r) d"
    by (auto simp: result_ok_def)
  have "cr_CustodyPath cr = custodyPath (rq_Root (Q j)) ?r" "cr_CustodyBytes cr = tr_TransferBytes ?r"
    by (subst cr, simp add: newGenerationCustodyResult_def)+
  moreover have "newGenerationCustodyResult ?r (custodyPath (rq_Root (Q j)) ?r) CustodyDispositionExisting =
      cr\<lparr>cr_Disposition := CustodyDispositionExisting\<rparr>"
    by (subst (3) cr) (simp add: newGenerationCustodyResult_def)
  moreover have "lookup_file (sy_Fs s) (finalName ?r) = Some f"
    using f by (simp add: holds_def lookup_file_def)
  ultimately show ?thesis
    using held_rediscovered [where factory = factory and Z = Z, OF f config factory]
    by (auto split: sum.split)
qed

text \<open>
  C22: Recovery trusts no file name and no earlier check. Whatever has been put into the
  custody root, by whomever and at any moment of the read, if the restart path returns a
  result then the opened file held exactly one transfer, signed and authorized for the
  enrolled source, the file has that transfer's deterministic name, lies in the custody root,
  and the result states the size and SHA-256 of its bytes.
\<close>

theorem rediscovered_is_validated:
  fixes factory :: "generation_descriptor \<Rightarrow> 'e + ('h, 'e) artifact_handler option \<times> 'h"
  assumes "ReadDiscoveredDurableCustodyArtifacts L Z (Some factory) discovered root c fs0 fs1 fs2 okSeek okClose =
      Inr (cr, h')"
  shows "\<exists>i f. cd_Dir fs1 (filepath_Base (dc_Path discovered)) = Some i \<and> cd_Files fs1 i = Some f \<and>
    transfer_ok L (cf_Content f) (cr_Transfer cr) \<and>
    gd_SourceID (tr_Descriptor (cr_Transfer cr)) = sa_SourceID (rc_Source c) \<and>
    filepath_Base (dc_Path discovered) = finalName (cr_Transfer cr) \<and>
    filepath_Clean (filepath_Dir (dc_Path discovered)) = filepath_Clean (rt_RootDir root) \<and>
    length (cf_Content f) = unat (cr_CustodyBytes cr) \<and>
    hex_EncodeToString (Sum256 (cf_Content f)) = cr_CustodySHA256 cr"
proof -
  let ?path = "dc_Path discovered"
  from assms obtain before data offer and handler :: "('h, 'e) artifact_handler option" and h r where
    o: "custody_opened fs0 fs1 ?path (dc_Bytes discovered) = (Inr (before, data) :: 'e custody_read_error + _)"
    and dc: "validateDiscoveredCustody discovered (rt_RootDir root) = (None :: 'e custody_read_error option)"
    and n: "filepath_Base ?path = generationCustodyObjectName (gd_SourceID (go_Descriptor offer))
           (gd_GenerationID (go_Descriptor offer))"
    and v: "readValidatedTransfer L Z handler h data offer c = Inr (r, [], h')"
    and cr: "cr = newGenerationCustodyResult r ?path CustodyDispositionExisting"
    by (auto simp: ReadDiscoveredDurableCustodyArtifacts_def Let_def split: if_splits)
  from o obtain i f where f: "cd_Dir fs1 (filepath_Base ?path) = Some i" "cd_Files fs1 i = Some f"
    "data = cf_Content f"
    by (auto simp: custody_opened_def lstat_custody_def split: option.splits if_splits)
  from validated_transfer [OF v] obtain m p w where s: "data = transfer_frame m p"
    and r: "r = result_of (go_Descriptor offer) m p"
    and "UnmarshalSignedGeneration L m = Inr w" "gs_Descriptor w = go_Descriptor offer"
    and src: "gd_SourceID (go_Descriptor offer) = sa_SourceID (rc_Source c)"
    and "length p = unat (gd_EncodedDataBytes (go_Descriptor offer))"
    "hex_EncodeToString (Sum256 p) = gd_EncodedDataSHA256 (go_Descriptor offer)" by auto
  moreover have d: "tr_Descriptor r = go_Descriptor offer" by (simp add: r result_of_def)
  ultimately have "transfer_ok L data r" unfolding transfer_ok_def by metis
  moreover have "filepath_Clean (filepath_Dir ?path) = filepath_Clean (rt_RootDir root)"
    using dc by (simp add: validateDiscoveredCustody_def)
  ultimately show ?thesis
    using f n d src cr transfer_ok_length [of L data r]
    by (auto simp: newGenerationCustodyResult_def finalName_def)
qed

section \<open>Samples\<close>

lemma drain_received:
  "(readValidatedTransfer L Z no_handler () s offer c = Inr x) =
   (readValidatedTransfer L Z (Some discard_handler) () s offer c = Inr x)"
proof -
  have "(ReadCanonicalArtifacts no_handler () s d = Inr y) =
      (ReadCanonicalArtifacts (Some discard_handler) () s d = Inr y)" for s d y
    by (auto simp: ReadCanonicalArtifacts_def read_artifacts_drain Let_def)
  then have "(receive_payload Z no_handler () d s = Inr y) =
      (receive_payload Z (Some discard_handler) () d s = Inr y)" for d s y
    by (auto simp: receive_payload_def Let_def split: option.splits)
  then show ?thesis by (auto simp: readValidatedTransfer_def Let_def)
qed

lemma sample_transfer_offer: "custody_offer sample_transfer = sealed_offer"
  by (simp add: custody_offer_def sealed_offer_def result_of_def)

lemma sample_reread:
  "readValidatedTransfer sample_lib sample_decoder (Some discard_handler) () sample_bytes
     (custody_offer sample_transfer) sample_receiver = Inr (sample_transfer, [], ())"
  using sample_received [of "[]"]
  by (simp add: ReadValidatedTransfer_def sample_transfer_offer flip: drain_received)

theorem discovered_offer_roundtrip_witness:
  "readDiscoveredCustodyOffer sample_lib sample_bytes
     \<lparr>dc_Bytes = of_nat (length sample_bytes), dc_Path = ''/c/x''\<rparr> = (Inr sealed_offer :: unit custody_read_error + _)"
proof -
  have t: "transfer_ok sample_lib sample_bytes sample_transfer"
    by (rule receive_tee_Inr [OF sample_tee])
  show ?thesis
    using discovered_offer_roundtrip [OF t, of "\<lparr>dc_Bytes = of_nat (length sample_bytes), dc_Path = ''/c/x''\<rparr>"]
    by (simp add: sample_transfer_offer)
qed

text \<open>The stored bytes of the sample run.\<close>

lemma sample_held:
  "\<exists>s cr. sample_runs s \<and> sy_Procs s 1 = PcDone cr \<and> cr_Transfer cr = sample_transfer"
  using sample_run by (force simp: newGenerationCustodyResult_def)

theorem custody_read_back_witness:
  "\<exists>s cr f. sample_runs s \<and> sy_Procs s 1 = PcDone cr \<and>
     lookup_file (sy_Fs s) (finalName (cr_Transfer cr)) = Some f \<and>
     ReadDurableCustodyArtifacts sample_lib sample_decoder (Some discard_handler) () cr sample_root
       sample_receiver (sy_Fs s) (sy_Fs s) (sy_Fs s) True =
     (case readValidatedTransfer sample_lib sample_decoder (Some discard_handler) () (cf_Content f)
        (custody_offer (cr_Transfer cr)) sample_receiver of
        Inl e \<Rightarrow> Inl (CrTransfer e) | Inr (_, _, h') \<Rightarrow> Inr (cr_Transfer cr, h'))"
proof -
  from sample_held obtain s cr where s: "sample_runs s" "sy_Procs s 1 = PcDone cr" by blast
  have q: "rq_Root sample_request = sample_root" by (simp add: sample_request_def)
  from sample_root_valid q have "validateGenerationCustodyConfig (rq_Root sample_request) sample_receiver = None"
    by simp
  from custody_read_back [OF s _ this, where handler = "Some discard_handler" and h = "()", unfolded q] s
  show ?thesis by auto
qed

theorem custody_rediscovered_witness:
  "\<exists>s cr f. sample_runs s \<and> sy_Procs s 1 = PcDone cr \<and>
     lookup_file (sy_Fs s) (finalName (cr_Transfer cr)) = Some f \<and>
     ReadDiscoveredDurableCustodyArtifacts sample_lib sample_decoder (Some (\<lambda>_. Inr (Some discard_handler, ())))
       \<lparr>dc_Bytes = cr_CustodyBytes cr, dc_Path = cr_CustodyPath cr\<rparr> sample_root
       sample_receiver (sy_Fs s) (sy_Fs s) (sy_Fs s) True True =
     (case readValidatedTransfer sample_lib sample_decoder (Some discard_handler) () (cf_Content f)
        (custody_offer (cr_Transfer cr)) sample_receiver of
        Inl e \<Rightarrow> Inl (CrTransfer e)
      | Inr (_, _, h') \<Rightarrow> Inr (cr\<lparr>cr_Disposition := CustodyDispositionExisting\<rparr>, h'))"
proof -
  from sample_held obtain s cr where s: "sample_runs s" "sy_Procs s 1 = PcDone cr" by blast
  have q: "rq_Root sample_request = sample_root" by (simp add: sample_request_def)
  from sample_root_valid q have "validateGenerationCustodyConfig (rq_Root sample_request) sample_receiver = None"
    by simp
  from custody_rediscovered [OF s _ this, where factory = "\<lambda>_. Inr (Some discard_handler, ())" and
      handler = "Some discard_handler" and h = "()", unfolded q] s
  show ?thesis by auto
qed

theorem rediscovered_is_validated_witness:
  "\<exists>fs cr i f. ReadDiscoveredDurableCustodyArtifacts sample_lib sample_decoder
      (Some (\<lambda>_. Inr (Some discard_handler, ())))
      \<lparr>dc_Bytes = tr_TransferBytes sample_transfer, dc_Path = custodyPath sample_root sample_transfer\<rparr>
      sample_root sample_receiver fs fs fs True True = Inr (cr, ()) \<and>
    cd_Files fs i = Some f \<and> hex_EncodeToString (Sum256 (cf_Content f)) = cr_CustodySHA256 cr"
proof -
  let ?f = "\<lparr>cf_Content = sample_bytes, cf_Perm = 256, cf_Kind = RegularEntry, cf_Synced = True\<rparr>"
  let ?fs = "\<lparr>cd_Dir = [finalName sample_transfer \<mapsto> 0], cd_Disk = Map.empty, cd_Files = [0 \<mapsto> ?f]\<rparr>"
  have h: "holds sample_lib ?fs sample_transfer 0 ?f"
    using receive_tee_Inr [OF sample_tee] by (simp add: holds_def)
  have "ReadDiscoveredDurableCustodyArtifacts sample_lib sample_decoder
      (Some (\<lambda>_. Inr (Some discard_handler, ())))
      \<lparr>dc_Bytes = tr_TransferBytes sample_transfer, dc_Path = custodyPath sample_root sample_transfer\<rparr>
      sample_root sample_receiver ?fs ?fs ?fs True True = Inr (sample_custody CustodyDispositionExisting, ())"
    using held_rediscovered [OF h sample_root_valid, where Z = sample_decoder and
        factory = "\<lambda>_. Inr (Some discard_handler, ())" and handler = "Some discard_handler" and h = "()"]
    by (simp add: sample_reread)
  with rediscovered_is_validated [OF this] show ?thesis by blast
qed

end
