(* ===== verification/Spool_Batch.thy ===== *)
theory Spool_Batch
  imports FI_Path Gen_Protocol Gen_Canonical
begin

text \<open>
  Package \<^verbatim>\<open>spool\<close>, file \<^verbatim>\<open>semantic.go\<close> and the manifest checks of \<^verbatim>\<open>spool.go\<close>: the manifest of
  one collector batch, the streaming inspection of its data file, and the comparison of the
  two. Go's \<^verbatim>\<open>int\<close> and \<^verbatim>\<open>int64\<close> are both 64 bit wide and are integers here, with the
  overflow guards of the code written out.
\<close>

section \<open>Signed integers in JSON\<close>

text \<open>\<^verbatim>\<open>strconv.ParseInt(s, 10, 64)\<close> on a JSON number, which has no plus sign.\<close>

definition ParseInt64 :: "string \<Rightarrow> int option" where
  "ParseInt64 s =
     (case s of
        c # t \<Rightarrow>
          if c = CHR ''-'' then
            (case ParseUint 64 t of Inr n \<Rightarrow> if n \<le> 2 ^ 63 then Some (- int n) else None | Inl _ \<Rightarrow> None)
          else (case ParseUint 64 s of Inr n \<Rightarrow> if n < 2 ^ 63 then Some (int n) else None | Inl _ \<Rightarrow> None)
      | [] \<Rightarrow> None)"

definition set_int64 :: "(int \<Rightarrow> 'a \<Rightarrow> 'a) \<Rightarrow> json \<Rightarrow> 'a \<Rightarrow> 'a option" where
  "set_int64 upd v a =
     (case v of JNull \<Rightarrow> Some a
      | JNum t \<Rightarrow> map_option (\<lambda>n. upd n a) (ParseInt64 t)
      | _ \<Rightarrow> None)"

lemma ParseInt64_Format: "n < 2 ^ 63 \<Longrightarrow> ParseInt64 (FormatUint n) = Some (int n)"
proof -
  assume n: "n < 2 ^ 63"
  obtain c t where f: "FormatUint n = c # t" "is_digit c" by (rule Format_Cons)
  then have "c \<noteq> CHR ''-''" by (auto simp: is_digit_def)
  with f n show ?thesis
    using ParseUint_Format [of n 64] by (simp add: ParseInt64_def)
qed

lemma set_int64_Format [simp]:
  "0 \<le> n \<Longrightarrow> n < 2 ^ 63 \<Longrightarrow> set_int64 upd (JNum (FormatUint (nat n))) a = Some (upd n a)"
  by (simp add: set_int64_def ParseInt64_Format)

section \<open>Manifests\<close>

definition ManifestVersion :: string where
  "ManifestVersion = ''fi-batch-manifest/0.1''"

record collector_identity =
  ci_ExecutablePath :: string
  ci_ExecutableSHA256 :: string

record manifest =
  mf_Version :: string
  mf_BatchID :: string
  mf_TargetBatchSize :: int
  mf_RecordCount :: int
  mf_DataBytes :: int
  mf_DataSHA256 :: string
  mf_DataFile :: string
  mf_Collector :: collector_identity
  mf_CreatedAt :: string
  mf_CompletedAt :: string

definition collector_field_list :: "collector_identity field list" where
  "collector_field_list =
     [(''executable_path'', set_string (\<lambda>x v. v\<lparr>ci_ExecutablePath := x\<rparr>)),
      (''executable_sha256'', set_string (\<lambda>x v. v\<lparr>ci_ExecutableSHA256 := x\<rparr>))]"

definition manifest_field_list :: "manifest field list" where
  "manifest_field_list =
     [(''version'', set_string (\<lambda>x v. v\<lparr>mf_Version := x\<rparr>)),
      (''batch_id'', set_string (\<lambda>x v. v\<lparr>mf_BatchID := x\<rparr>)),
      (''target_batch_size'', set_int64 (\<lambda>x v. v\<lparr>mf_TargetBatchSize := x\<rparr>)),
      (''record_count'', set_int64 (\<lambda>x v. v\<lparr>mf_RecordCount := x\<rparr>)),
      (''data_bytes'', set_int64 (\<lambda>x v. v\<lparr>mf_DataBytes := x\<rparr>)),
      (''data_sha256'', set_string (\<lambda>x v. v\<lparr>mf_DataSHA256 := x\<rparr>)),
      (''data_file'', set_string (\<lambda>x v. v\<lparr>mf_DataFile := x\<rparr>)),
      (''collector'', set_struct collector_field_list mf_Collector (\<lambda>x v. v\<lparr>mf_Collector := x\<rparr>)),
      (''created_at'', set_string (\<lambda>x v. v\<lparr>mf_CreatedAt := x\<rparr>)),
      (''completed_at'', set_string (\<lambda>x v. v\<lparr>mf_CompletedAt := x\<rparr>))]"

definition manifest_members :: "manifest \<Rightarrow> (bytes \<times> json) list" where
  "manifest_members v =
     [(''version'', JStr (mf_Version v)), (''batch_id'', JStr (mf_BatchID v)),
      (''target_batch_size'', JNum (FormatUint (nat (mf_TargetBatchSize v)))),
      (''record_count'', JNum (FormatUint (nat (mf_RecordCount v)))),
      (''data_bytes'', JNum (FormatUint (nat (mf_DataBytes v)))),
      (''data_sha256'', JStr (mf_DataSHA256 v)), (''data_file'', JStr (mf_DataFile v)),
      (''collector'',
         JObj [(''executable_path'', JStr (ci_ExecutablePath (mf_Collector v))),
               (''executable_sha256'', JStr (ci_ExecutableSHA256 (mf_Collector v)))]),
      (''created_at'', JStr (mf_CreatedAt v)), (''completed_at'', JStr (mf_CompletedAt v))]"

definition zero_manifest :: manifest where
  "zero_manifest =
     \<lparr>mf_Version = [], mf_BatchID = [], mf_TargetBatchSize = 0, mf_RecordCount = 0, mf_DataBytes = 0,
      mf_DataSHA256 = [], mf_DataFile = [],
      mf_Collector = \<lparr>ci_ExecutablePath = [], ci_ExecutableSHA256 = []\<rparr>,
      mf_CreatedAt = [], mf_CompletedAt = []\<rparr>"

datatype batch_error =
    BatInvalidManifest
  | BatNotBaseName
  | BatDataFileMismatch
  | BatInvalidCollector
  | BatJSON
  | BatRead artifact_error
  | BatByteOverflow
  | BatRecordOverflow
  | BatEmptyOrNoNewline
  | BatHashMismatch
  | BatSizeMismatch
  | BatCountMismatch

definition spool_validSHA256 :: "string \<Rightarrow> bool" where
  "spool_validSHA256 s \<longleftrightarrow>
     \<not> (length s \<noteq> 64 \<or> s \<noteq> map ascii_lower s) \<and> hex_DecodeString s \<noteq> None"

definition validateManifest :: "manifest \<Rightarrow> batch_error option" where
  "validateManifest v =
     first_err
       [fail_if (mf_Version v \<noteq> ManifestVersion \<or> mf_BatchID v = [] \<or> mf_TargetBatchSize v \<le> 0 \<or>
          mf_RecordCount v \<le> 0 \<or> mf_RecordCount v > mf_TargetBatchSize v \<or> mf_DataBytes v \<le> 0 \<or>
          \<not> spool_validSHA256 (mf_DataSHA256 v) \<or> mf_DataFile v = [] \<or> mf_CreatedAt v = [] \<or>
          mf_CompletedAt v = []) BatInvalidManifest,
        fail_if (filepath_Base (mf_DataFile v) \<noteq> mf_DataFile v \<or>
          ContainsAny (mf_DataFile v) [CHR ''/'', CHR 0x5C]) BatNotBaseName,
        fail_if (mf_DataFile v \<noteq> ''batch-'' @ mf_BatchID v @ ''.jsonl'') BatDataFileMismatch,
        fail_if (ci_ExecutablePath (mf_Collector v) = [] \<or>
          \<not> spool_validSHA256 (ci_ExecutableSHA256 (mf_Collector v))) BatInvalidCollector]"

definition DecodeManifest :: "bytes \<Rightarrow> batch_error + manifest" where
  "DecodeManifest s =
     (case decode_struct manifest_field_list zero_manifest s of None \<Rightarrow> Inl BatJSON
      | Some m \<Rightarrow> bindE (check (validateManifest m)) (\<lambda>_. Inr m))"

section \<open>Data files\<close>

record data_inspection =
  di_DataBytes :: int
  di_DataSHA256 :: string
  di_RecordCount :: int

definition count_newlines :: "bytes \<Rightarrow> nat" where
  "count_newlines s = length (filter (\<lambda>c. c = CHR 0x0A) s)"

text \<open>
  The read loop of \<^verbatim>\<open>InspectData\<close> with its buffer of 128 KiB: what was hashed, the byte count,
  the record count and the last byte so far.
\<close>

definition inspect_chunk ::
  "bytes \<Rightarrow> bytes \<times> int \<times> int \<times> char \<Rightarrow> batch_error + bytes \<times> int \<times> int \<times> char" where
  "inspect_chunk chunk st =
     (case st of (hashed, total_bytes, records, prev) \<Rightarrow>
      if chunk = [] then Inr st
      else if int (length chunk) > (2 ^ 63 - 1) - total_bytes then Inl BatByteOverflow
      else if int (count_newlines chunk) > (2 ^ 63 - 1) - records then Inl BatRecordOverflow
      else Inr (hashed @ chunk, total_bytes + int (length chunk), records + int (count_newlines chunk),
                last chunk))"

function inspect_loop ::
  "artifact_reader \<Rightarrow> bytes \<times> int \<times> int \<times> char
     \<Rightarrow> (batch_error + bytes \<times> int \<times> int \<times> char) \<times> artifact_reader" where
  "inspect_loop a st =
     (case artifact_Read 131072 a of
        (chunk, err, a') \<Rightarrow>
          (case inspect_chunk chunk st of
             Inl e \<Rightarrow> (Inl e, a')
           | Inr st' \<Rightarrow>
               (case err of
                  Some ArtEOF \<Rightarrow> (Inr st', a')
                | Some e \<Rightarrow> (Inl (BatRead e), a')
                | None \<Rightarrow> inspect_loop a' st')))"
  by pat_completeness auto
termination
  by (relation "measure (\<lambda>(a, st). length (car_reader a))")
    (auto dest!: sym [of "(_, None, _)"] sym [of "(_, _, _)" "artifact_Read _ _"] intro: Read_shrinks)

declare inspect_loop.simps [simp del]

definition InspectData ::
  "artifact_reader \<Rightarrow> (batch_error + data_inspection) \<times> artifact_reader" where
  "InspectData a =
     (case inspect_loop a ([], 0, 0, CHR 0x00) of
        (Inl e, a') \<Rightarrow> (Inl e, a')
      | (Inr (hashed, total_bytes, records, prev), a') \<Rightarrow>
          (if total_bytes = 0 \<or> prev \<noteq> CHR 0x0A then Inl BatEmptyOrNoNewline
           else Inr \<lparr>di_DataBytes = total_bytes, di_DataSHA256 = hex_EncodeToString (Sum256 hashed),
                     di_RecordCount = records\<rparr>, a'))"

definition VerifyManifestData :: "manifest \<Rightarrow> data_inspection \<Rightarrow> batch_error option" where
  "VerifyManifestData m d =
     first_err
       [validateManifest m,
        fail_if (di_DataSHA256 d \<noteq> mf_DataSHA256 m) BatHashMismatch,
        fail_if (di_DataBytes d \<noteq> mf_DataBytes m) BatSizeMismatch,
        fail_if (di_RecordCount d \<noteq> mf_RecordCount m) BatCountMismatch]"

section \<open>What the inspection finds\<close>

lemma spool_validSHA256_iff: "spool_validSHA256 s \<longleftrightarrow> sha256_text s"
proof -
  have "length s = 64 \<Longrightarrow> s = map ascii_lower s \<Longrightarrow> hex_DecodeString s = Some raw \<Longrightarrow> length raw = 32" for raw
    using sha256_text_lower [of s] hex_Decode_length
    by (auto simp: sha256_text_decoded_def)
  then show ?thesis
    unfolding sha256_text_lower [symmetric]
    by (auto simp: spool_validSHA256_def sha256_text_decoded_def split: option.splits)
qed

text \<open>The facts of a data file: complete lines, their number, size and digest.\<close>

definition data_facts :: "bytes \<Rightarrow> data_inspection" where
  "data_facts s =
     \<lparr>di_DataBytes = int (length s), di_DataSHA256 = hex_EncodeToString (Sum256 s),
      di_RecordCount = int (count_newlines s)\<rparr>"

definition complete_lines :: "bytes \<Rightarrow> bool" where
  "complete_lines s \<longleftrightarrow> s \<noteq> [] \<and> last s = CHR 0x0A"

lemma count_newlines_le: "count_newlines s \<le> length s"
  by (simp add: count_newlines_def)

lemma count_newlines_append [simp]:
  "count_newlines [] = 0" "count_newlines (a @ b) = count_newlines a + count_newlines b"
  by (simp_all add: count_newlines_def)

definition inspected :: "bytes \<Rightarrow> bytes \<times> int \<times> int \<times> char \<Rightarrow> bool" where
  "inspected s st \<longleftrightarrow>
     (case st of (hashed, total_bytes, records, prev) \<Rightarrow>
        hashed = s \<and> total_bytes = int (length s) \<and> records = int (count_newlines s) \<and>
        length s < 2 ^ 63 \<and> (s \<noteq> [] \<longrightarrow> prev = last s))"

lemma inspect_chunk_Inr: "inspect_chunk chunk st = Inr st' \<Longrightarrow> inspected s st \<Longrightarrow> inspected (s @ chunk) st'"
  by (auto simp: inspect_chunk_def inspected_def split: prod.splits if_splits)

lemma inspect_loop_reads:
  "inspect_loop a st = (Inr st', a') \<Longrightarrow> inspected s st \<Longrightarrow>
     car_finished a' \<and> (\<exists>cs. reads a cs a' \<and> inspected (s @ cs) st')"
proof (induction a st arbitrary: s rule: inspect_loop.induct)
  case (1 a st)
  obtain chunk err b where rd: "artifact_Read 131072 a = (chunk, err, b)"
    by (cases "artifact_Read 131072 a") auto
  with "1.prems" obtain st1 where st1: "inspect_chunk chunk st = Inr st1"
    by (cases "inspect_chunk chunk st") (auto simp: inspect_loop.simps [of a st])
  note i1 = inspect_chunk_Inr [OF st1 "1.prems"(2)]
  show ?case
  proof (cases err)
    case None
    with rd st1 "1.prems"(1) have "inspect_loop b st1 = (Inr st', a')"
      by (simp add: inspect_loop.simps [of a st])
    from "1.IH" [OF rd [symmetric] refl st1 None this i1] obtain cs
      where "car_finished a'" "reads b cs a'" "inspected ((s @ chunk) @ cs) st'" by blast
    moreover from this(2) have "reads a (chunk @ cs) a'"
      using reads.reads_step [OF rd] None by simp
    ultimately show ?thesis by auto
  next
    case (Some e)
    with rd st1 "1.prems"(1) have e: "e = ArtEOF" "st' = st1" "a' = b"
      by (auto simp: inspect_loop.simps [of a st] split: artifact_error.splits)
    with Read_EOF rd Some have "chunk = []" "car_finished b" by auto
    moreover have "reads a (chunk @ []) b"
      using reads.reads_step [OF rd _ _ reads.reads_done] Some e by simp
    ultimately show ?thesis using i1 e by auto
  qed
qed

lemma InspectData_Inr:
  assumes "InspectData a = (Inr d, a')"
  shows "car_finished a' \<and> (\<exists>s. reads a s a' \<and> complete_lines s \<and> length s < 2 ^ 63 \<and> d = data_facts s)"
proof -
  from assms obtain st where l: "inspect_loop a ([], 0, 0, CHR 0x00) = (Inr st, a')"
    by (auto simp: InspectData_def split: prod.splits sum.splits)
  have "inspected [] ([], 0, 0, CHR 0x00)" by (simp add: inspected_def count_newlines_def)
  from inspect_loop_reads [OF l this] obtain cs where cs: "car_finished a'" "reads a cs a'" "inspected cs st"
    by auto
  with assms l show ?thesis
    by (auto simp: InspectData_def inspected_def data_facts_def complete_lines_def
        split: prod.splits if_splits)
qed

section \<open>The JSON form of a manifest\<close>

lemma validateManifest_None:
  "validateManifest v = None \<longleftrightarrow>
     mf_Version v = ManifestVersion \<and> mf_BatchID v \<noteq> [] \<and> 0 < mf_RecordCount v \<and>
     mf_RecordCount v \<le> mf_TargetBatchSize v \<and> 0 < mf_DataBytes v \<and> sha256_text (mf_DataSHA256 v) \<and>
     mf_CreatedAt v \<noteq> [] \<and> mf_CompletedAt v \<noteq> [] \<and> filepath_Base (mf_DataFile v) = mf_DataFile v \<and>
     \<not> ContainsAny (mf_DataFile v) [CHR ''/'', CHR 0x5C] \<and>
     mf_DataFile v = ''batch-'' @ mf_BatchID v @ ''.jsonl'' \<and>
     ci_ExecutablePath (mf_Collector v) \<noteq> [] \<and> sha256_text (ci_ExecutableSHA256 (mf_Collector v))"
  by (auto simp: validateManifest_def spool_validSHA256_iff)

text \<open>A manifest whose strings and numbers survive the JSON form.\<close>

definition manifest_printable :: "manifest \<Rightarrow> bool" where
  "manifest_printable v \<longleftrightarrow>
     validateManifest v = None \<and> mf_TargetBatchSize v < 2 ^ 63 \<and> mf_DataBytes v < 2 ^ 63 \<and>
     utf8_Valid (mf_BatchID v) \<and> utf8_Valid (mf_DataFile v) \<and>
     utf8_Valid (ci_ExecutablePath (mf_Collector v)) \<and>
     utf8_Valid (mf_CreatedAt v) \<and> utf8_Valid (mf_CompletedAt v)"

interpretation manifest_json:
  json_message manifest_printable manifest_members manifest_field_list zero_manifest
proof
  fix v assume v: "manifest_printable v"
  have "utf8_Valid (mf_Version v)" "utf8_Valid (mf_DataSHA256 v)"
    "utf8_Valid (ci_ExecutableSHA256 (mf_Collector v))"
    using v by (simp_all add: manifest_printable_def validateManifest_None ManifestVersion_def
        utf8_Valid_ascii sha256_text_utf8)
  with v have u: "\<forall>s \<in> {mf_Version v, mf_DataSHA256 v, ci_ExecutableSHA256 (mf_Collector v), mf_BatchID v,
      mf_DataFile v, ci_ExecutablePath (mf_Collector v), mf_CreatedAt v, mf_CompletedAt v}. utf8_Valid s"
    by (simp add: manifest_printable_def)
  show "json_wf (JObj (manifest_members v))"
    by (intro json_wf_JObj)
      (use u in \<open>simp add: manifest_members_def json_wfs utf8_Valid_ascii json_wf_JObj\<close>)
  from v have "0 \<le> mf_TargetBatchSize v" "0 \<le> mf_RecordCount v" "mf_RecordCount v < 2 ^ 63"
    "0 \<le> mf_DataBytes v" "mf_DataBytes v < 2 ^ 63" "mf_TargetBatchSize v < 2 ^ 63"
    by (auto simp: manifest_printable_def validateManifest_None)
  then show "obj_assign manifest_field_list (manifest_members v) zero_manifest = Some v"
    by (simp add: manifest_members_def manifest_field_list_def collector_field_list_def find_field_def
        zero_manifest_def)
qed

lemma DecodeManifest_print:
  "manifest_printable v \<Longrightarrow> DecodeManifest (json_print (JObj (manifest_members v))) = Inr v"
  using manifest_json.decode_members [of v]
  by (simp add: DecodeManifest_def manifest_printable_def del: json_print.simps)

lemma DecodeManifest_Inr: "DecodeManifest s = Inr m \<Longrightarrow> validateManifest m = None"
  by (auto simp: DecodeManifest_def split: option.splits)

lemma VerifyManifestData_None:
  "VerifyManifestData m d = None \<longleftrightarrow>
     validateManifest m = None \<and> di_DataSHA256 d = mf_DataSHA256 m \<and> di_DataBytes d = mf_DataBytes m \<and>
     di_RecordCount d = mf_RecordCount m"
  by (auto simp: VerifyManifestData_def)

end
