(* ===== verification/Canonical_Total.thy ===== *)
theory Canonical_Total
  imports Gen_Canonical
begin

text \<open>
  The other direction of the canonical reader, for any handler: a handler that takes every
  whole artifact it has a use for is given all of them, so that the read of a canonical
  stream succeeds. Together with the soundness of \<open>artifact_consumer\<close> this says exactly which
  streams a handler accepts.
\<close>

section \<open>What a reader still has to deliver\<close>

definition avail :: "nat \<Rightarrow> artifact_reader \<Rightarrow> bytes \<Rightarrow> bytes \<Rightarrow> bool" where
  "avail tot a c t \<longleftrightarrow>
     (\<exists>q cs m. c = q @ concat cs \<and> length q \<le> 1048576 \<and> list_all chunk_ok cs \<and>
        tot = m + length c \<and> tot < 2 ^ 64 \<and>
        a = at_chunk (of_nat (length q)) (of_nat m)
          (q @ chunk_bytes cs @ be_PutUint32 0 @ be_PutUint64 (of_nat tot) @ t))"

lemma avail_fresh:
  "wf_chunks cs \<Longrightarrow> avail (length (concat cs)) (fresh_artifact (body_bytes cs @ t)) (concat cs) t"
  unfolding avail_def
  by (intro exI [of _ "[]"] exI [of _ cs] exI [of _ 0])
    (simp add: wf_chunks_def fresh_artifact_def body_bytes_def)

lemma Read_in_chunk:
  assumes "length q \<le> 1048576" and "q \<noteq> []" and "0 < n" and "n < 2 ^ 32"
  shows "artifact_Read n (at_chunk (of_nat (length q)) f (q @ t)) =
    (take (min n (length q)) q, None,
     at_chunk (of_nat (length (drop (min n (length q)) q))) (f + of_nat (min n (length q)))
       (drop (min n (length q)) q @ t))"
proof -
  let ?a = "at_chunk (of_nat (length q)) f (q @ t)" and ?k = "min n (length q)"
  have ul: "unat (of_nat (length q) :: uint32) = length q"
    using assms(1) by (simp add: unat_of_nat_small)
  then have nz: "(of_nat (length q) :: uint32) \<noteq> 0" using assms(2) by (metis length_0_conv unat_0)
  then have nx: "artifact_next_chunk ?a = (None, ?a)" by (simp add: artifact_next_chunk_def)
  have us: "unat (of_nat n :: uint32) = n" using assms(4) by (intro unat_of_nat_small) simp
  have rl: "(if of_nat n > (of_nat (length q) :: uint32) then length q else n) = ?k"
    using us ul by (auto simp: word_less_nat_alt)
  show ?thesis
    using nx rl ul assms(3) by (simp add: artifact_Read_def Let_def of_nat_diff min_def split: if_splits)
qed

lemma Read_next_chunk:
  assumes "chunk_ok c" and "m + length c < 2 ^ 64" and "0 < n"
  shows "artifact_Read n (at_chunk 0 (of_nat m) (len32 c @ c @ t)) =
    artifact_Read n (at_chunk (of_nat (length c)) (of_nat m) (c @ t))"
proof -
  let ?w = "of_nat (length c) :: uint32" and ?n = "of_nat m :: uint64"
  have ul: "unat ?w = length c" using assms(1) by (intro unat_of_nat_small) (simp add: chunk_ok_def)
  then have nz: "?w \<noteq> 0" using assms(1) by (metis chunk_ok_def length_0_conv unat_0)
  have lim: "\<not> ?w > generationCanonicalChunkBytes"
    using assms(1) ul by (simp add: word_less_nat_alt chunk_ok_def)
  have "unat ?n = m" using assms(2) by (simp add: unat_of_nat_small)
  then have guard: "\<not> (ucast ?w :: uint64) > (- 1) - ?n"
    using assms(2) ul by (simp add: add_guard)
  have "artifact_next_chunk (at_chunk 0 ?n (len32 c @ c @ t)) = (None, at_chunk ?w ?n (c @ t))"
    using nz lim guard by (simp add: artifact_next_chunk_def len32_def Let_def)
  moreover have "artifact_next_chunk (at_chunk ?w ?n (c @ t)) = (None, at_chunk ?w ?n (c @ t))"
    using nz by (simp add: artifact_next_chunk_def)
  ultimately show ?thesis using assms(3) by (simp add: artifact_Read_def)
qed

lemma avail_Read_end:
  assumes "avail tot a [] t" and "0 < n"
  shows "artifact_Read n a = ([], Some ArtEOF, done_artifact (of_nat tot) t)"
proof -
  from assms(1) obtain cs where cs: "list_all chunk_ok cs" "concat cs = []"
    and a: "a = at_chunk 0 (of_nat tot) (chunk_bytes cs @ be_PutUint32 0 @ be_PutUint64 (of_nat tot) @ t)"
    by (auto simp: avail_def)
  from cs have "cs = []" by (cases cs) (auto simp: chunk_ok_def)
  with a assms(2) show ?thesis
    by (simp add: artifact_Read_def artifact_next_chunk_def Let_def done_artifact_def)
qed

lemma avail_Read:
  assumes "avail tot a c t" and "c \<noteq> []" and "0 < n" and "n < 2 ^ 32"
  obtains k a' where "0 < k" and "k \<le> n" and "k \<le> length c"
    and "artifact_Read n a = (take k c, None, a')" and "avail tot a' (drop k c) t"
proof -
  from assms(1) obtain q cs m where c: "c = q @ concat cs" and q: "length q \<le> 1048576"
    and cs: "list_all chunk_ok cs" and tot: "tot = m + length c" "tot < 2 ^ 64"
    and a: "a = at_chunk (of_nat (length q)) (of_nat m)
        (q @ chunk_bytes cs @ be_PutUint32 0 @ be_PutUint64 (of_nat tot) @ t)"
    by (auto simp: avail_def)
  have "\<exists>q' cs' m'. q' \<noteq> [] \<and> c = q' @ concat cs' \<and> length q' \<le> 1048576 \<and> list_all chunk_ok cs' \<and>
     tot = m' + length c \<and> artifact_Read n a = artifact_Read n (at_chunk (of_nat (length q')) (of_nat m')
        (q' @ chunk_bytes cs' @ be_PutUint32 0 @ be_PutUint64 (of_nat tot) @ t))"
  proof (cases "q = []")
    case False
    with c q cs tot a show ?thesis by blast
  next
    case True
    with c assms(2) obtain d ds where d: "cs = d # ds" by (cases cs) auto
    with cs have ok: "chunk_ok d" "list_all chunk_ok ds" by simp_all
    from tot c True d have "m + length d < 2 ^ 64" by simp
    from Read_next_chunk [OF ok(1) this assms(3)] have
      "artifact_Read n a = artifact_Read n (at_chunk (of_nat (length d)) (of_nat m)
        (d @ chunk_bytes ds @ be_PutUint32 0 @ be_PutUint64 (of_nat tot) @ t))"
      by (simp add: a True d)
    with ok True d c tot show ?thesis
      by (intro exI [of _ d] exI [of _ ds] exI [of _ m]) (auto simp: chunk_ok_def)
  qed
  then obtain q' cs' m' where q': "q' \<noteq> []" "c = q' @ concat cs'" "length q' \<le> 1048576"
    "list_all chunk_ok cs'" "tot = m' + length c"
    and r: "artifact_Read n a = artifact_Read n (at_chunk (of_nat (length q')) (of_nat m')
        (q' @ chunk_bytes cs' @ be_PutUint32 0 @ be_PutUint64 (of_nat tot) @ t))" by blast
  let ?k = "min n (length q')"
  note rd = Read_in_chunk [OF q'(3,1) assms(3,4)]
  show thesis
  proof (rule that)
    show "0 < ?k" "?k \<le> n" "?k \<le> length c" using assms(3) q' by auto
    show "artifact_Read n a = (take ?k c, None, at_chunk (of_nat (length (drop ?k q')))
        (of_nat m' + of_nat ?k)
        (drop ?k q' @ chunk_bytes cs' @ be_PutUint32 0 @ be_PutUint64 (of_nat tot) @ t))"
      unfolding r rd q'(2) by simp
    show "avail tot (at_chunk (of_nat (length (drop ?k q'))) (of_nat m' + of_nat ?k)
        (drop ?k q' @ chunk_bytes cs' @ be_PutUint32 0 @ be_PutUint64 (of_nat tot) @ t)) (drop ?k c) t"
      unfolding avail_def
      by (intro exI [of _ "drop ?k q'"] exI [of _ cs'] exI [of _ "m' + ?k"]) (use q' tot(2) in auto)
  qed
qed

section \<open>Handlers that take all they can use\<close>

locale artifact_total = artifact_consumer handler sees
  for handler :: "('h, 'e) artifact_handler" and sees +
  assumes complete: "sees h name c h' \<Longrightarrow> length c < 2 ^ 64 \<Longrightarrow> avail (length c) a c t \<Longrightarrow>
    handler h name a = (None, done_artifact (of_nat (length c)) t, h')"
begin

lemma artifacts_complete:
  assumes "list_all (\<lambda>f. wf_name (fst f) \<and> wf_chunks (snd f)) fs"
    and "sorted_wrt (<) (map fst fs)" and "prev \<noteq> [] \<longrightarrow> list_all (\<lambda>f. prev < fst f) fs"
    and "unat src + artifacts_total fs < 2 ^ 64" and "sees_all sees h fs h'"
  shows "read_artifacts (Some handler) (length fs) prev src h (concat (map artifact_bytes fs) @ rest) =
    Inr (src + of_nat (artifacts_total fs), rest, h')"
  using assms
proof (induction fs arbitrary: prev src h)
  case Nil
  then show ?case by (simp add: artifacts_total_def)
next
  case (Cons f fs)
  obtain name cs where f: "f = (name, cs)" by (cases f)
  let ?n = "length (concat cs)" and ?t = "concat (map artifact_bytes fs) @ rest"
  have wf: "wf_name name" "wf_chunks cs" using Cons.prems f by simp_all
  from Cons.prems(5) f obtain k where k: "sees h name (concat cs) k" "sees_all sees k fs h'" by auto
  have tot: "artifacts_total (f # fs) = ?n + artifacts_total fs" by (simp add: artifacts_total_def f)
  have n: "unat (of_nat ?n :: uint64) = ?n" using wf(2) by (simp add: wf_chunks_def unat_of_nat_small)
  have name: "readCanonicalArtifactName (concat (map artifact_bytes (f # fs)) @ rest) =
      Inr (name, body_bytes cs @ ?t)"
    using wf(1) by (simp add: readCanonicalArtifactName_Inr artifact_bytes_def f)
  have ord: "\<not> (prev \<noteq> [] \<and> name \<le> prev)" using Cons.prems(3) f by auto
  have guard: "\<not> (of_nat ?n :: uint64) > (- 1) - src"
    using Cons.prems(4) tot n by (simp add: add_guard)
  have "unat (src + of_nat ?n) = unat src + ?n" using unat_add_guarded [OF guard] n by simp
  then have rest: "read_artifacts (Some handler) (length fs) name (src + of_nat ?n) k ?t =
      Inr (src + of_nat ?n + of_nat (artifacts_total fs), rest, h')"
    using Cons.prems f tot k by (intro Cons.IH) (auto simp: list_all_iff)
  have "consume_artifact (Some handler) h name (fresh_artifact (body_bytes cs @ ?t)) =
      Inr (done_artifact (of_nat ?n) ?t, k)"
    using complete [OF k(1) _ avail_fresh [OF wf(2)]] wf(2)
    by (simp add: consume_artifact_def wf_chunks_def done_artifact_def)
  with rest show ?case
    using ord guard by (simp add: name [simplified] done_artifact_def tot add.assoc del: map_append)
qed

lemma ReadCanonicalArtifacts_iff:
  "(ReadCanonicalArtifacts (Some handler) h s d = Inr (n, rest, h')) \<longleftrightarrow>
     gen_Validate d = None \<and> unat (gd_ArtifactCount d) \<le> 1000000 \<and>
     (\<exists>fs. wf_artifacts fs \<and> length fs = unat (gd_ArtifactCount d) \<and>
        s = canonical_bytes fs @ rest \<and> unat n = artifacts_total fs \<and> sees_all sees h fs h')"
    (is "?l \<longleftrightarrow> ?r")
proof
  assume l: ?l
  note snd = ReadCanonicalArtifacts_sound [OF l]
  show ?r by (rule canonical_header [OF l]) (use snd in blast)
next
  assume r: ?r
  then obtain fs where fs: "wf_artifacts fs" "length fs = unat (gd_ArtifactCount d)"
    "s = canonical_bytes fs @ rest" "unat n = artifacts_total fs" "sees_all sees h fs h'" by blast
  have "n = of_nat (artifacts_total fs)" by (simp flip: fs(4))
  moreover have "(of_nat (length fs) :: uint64) = gd_ArtifactCount d" using fs(2) by simp
  ultimately show ?l
    using r fs artifacts_complete [of fs "[]" 0 h h' rest]
    by (simp add: canonical_bytes_def canonical_start wf_artifacts_def)
qed

end

text \<open>The drain is such a handler.\<close>

lemma artifact_copy_avail:
  "avail tot a c t \<Longrightarrow> Suc k < 2 ^ 32 \<Longrightarrow>
     artifact_copy k a acc = (None, acc @ c, done_artifact (of_nat tot) t)"
proof (induction c arbitrary: a acc rule: length_induct)
  case (1 c)
  show ?case
  proof (cases "c = []")
    case True
    with avail_Read_end [of tot a t "Suc k"] "1.prems" show ?thesis
      by (simp add: artifact_copy.simps [of k a acc])
  next
    case False
    obtain j b where j: "0 < j" "j \<le> length c" "artifact_Read (Suc k) a = (take j c, None, b)"
      "avail tot b (drop j c) t"
      by (rule avail_Read [OF "1.prems"(1) False _ "1.prems"(2)]) auto
    then have "length (drop j c) < length c" by simp
    with "1.IH" j(4) "1.prems"(2)
    have "artifact_copy k b (acc @ take j c) = (None, (acc @ take j c) @ drop j c, done_artifact (of_nat tot) t)"
      by blast
    with j(3) show ?thesis by (simp add: artifact_copy.simps [of k a acc])
  qed
qed

interpretation drain: artifact_total discard_handler "\<lambda>h name content h'. h' = h"
  by unfold_locales (simp add: discard_handler_def artifact_copy_avail)

end
