(* ===== verification/Gen_Recorder.thy ===== *)
theory Gen_Recorder
  imports Custody_Read Spool_Batch Canonical_Total
begin

text \<open>
  Package \<^verbatim>\<open>generationrecorder\<close>, file \<^verbatim>\<open>validator.go\<close>: the semantic gate of the recorder. Every
  artifact of a generation must be a batch data file directly followed by its manifest, and
  the manifest must state the facts of the data. The validator is the handler that the
  canonical reader calls for each artifact; it keeps its running counts and the data file
  that still waits for its manifest.
\<close>

section \<open>The validator\<close>

definition maxSupportedManifestBytes :: uint64 where
  "maxSupportedManifestBytes = 64 * 2 ^ 20"

datatype artifact_kind = artifactKindData | artifactKindManifest

record pending_batch =
  pb_batchID :: string
  pb_dataName :: string
  pb_inspection :: data_inspection

record validator =
  va_batchCount :: uint64
  va_MaxManifestBytes :: uint64
  va_dataBytes :: uint64
  va_pending :: "pending_batch option"
  va_recordCount :: uint64

record recorder_result =
  rr_ArtifactCount :: uint64
  rr_BatchCount :: uint64
  rr_DataBytes :: uint64
  rr_GenerationID :: string
  rr_RecordCount :: uint64
  rr_SourceBytes :: uint64
  rr_SourceID :: string

datatype recorder_error =
    RecManifestLimit
  | RecDescriptor generation_error
  | RecOddArtifactCount
  | RecStream "recorder_error canonical_error"
  | RecMissingManifest string
  | RecSourceBytes
  | RecBatchCount
  | RecUnexpectedArtifact string
  | RecEmptyBatchID
  | RecDataBeforeManifest string
  | RecInspect batch_error
  | RecNoData string
  | RecBatchMismatch
  | RecReadManifest artifact_error
  | RecManifestTooLong
  | RecDecodeManifest batch_error
  | RecManifestIdentity
  | RecManifestDataFile
  | RecVerifyManifest batch_error
  | RecNegativeDataBytes
  | RecDataBytesOverflow
  | RecNegativeRecordCount
  | RecRecordCountOverflow
  | RecBatchCountOverflow

definition recorder_validateConfig :: "uint64 \<Rightarrow> recorder_error option" where
  "recorder_validateConfig maximum =
     fail_if (maximum = 0 \<or> maximum > maxSupportedManifestBytes) RecManifestLimit"

definition newValidator :: "generation_descriptor \<Rightarrow> uint64 \<Rightarrow> recorder_error + validator" where
  "newValidator d maximum =
     bindE (check (recorder_validateConfig maximum)) (\<lambda>_.
     bindE (check (map_option RecDescriptor (gen_Validate d))) (\<lambda>_.
     if gd_ArtifactCount d mod 2 \<noteq> 0 then Inl RecOddArtifactCount
     else Inr \<lparr>va_batchCount = 0, va_MaxManifestBytes = maximum, va_dataBytes = 0, va_pending = None,
               va_recordCount = 0\<rparr>))"

definition validator_result ::
  "validator \<Rightarrow> generation_descriptor \<Rightarrow> uint64 \<Rightarrow> recorder_error + recorder_result" where
  "validator_result st d sourceBytes =
     (case va_pending st of Some p \<Rightarrow> Inl (RecMissingManifest (pb_batchID p)) | None \<Rightarrow>
      if sourceBytes \<noteq> gd_SourceBytes d then Inl RecSourceBytes
      else if va_batchCount st * 2 \<noteq> gd_ArtifactCount d then Inl RecBatchCount
      else Inr \<lparr>rr_ArtifactCount = gd_ArtifactCount d, rr_BatchCount = va_batchCount st,
                rr_DataBytes = va_dataBytes st, rr_GenerationID = gd_GenerationID d,
                rr_RecordCount = va_recordCount st, rr_SourceBytes = sourceBytes,
                rr_SourceID = gd_SourceID d\<rparr>)"

definition parseArtifactName :: "string \<Rightarrow> recorder_error + string \<times> artifact_kind" where
  "parseArtifactName name =
     (if \<not> HasPrefix name ''batch-'' then Inl (RecUnexpectedArtifact name)
      else if HasSuffix name ''.jsonl'' then
        (let batchID = TrimSuffix (TrimPrefix name ''batch-'') ''.jsonl'' in
         if batchID = [] then Inl RecEmptyBatchID else Inr (batchID, artifactKindData))
      else if HasSuffix name ''.manifest.json'' then
        (let batchID = TrimSuffix (TrimPrefix name ''batch-'') ''.manifest.json'' in
         if batchID = [] then Inl RecEmptyBatchID else Inr (batchID, artifactKindManifest))
      else Inl (RecUnexpectedArtifact name))"

text \<open>
  \<^verbatim>\<open>io.ReadAll\<close> on the \<^verbatim>\<open>io.LimitedReader\<close>, in reads of at most 512 bytes, the first buffer
  of \<^verbatim>\<open>ReadAll\<close>; a later larger buffer reads no other bytes.
\<close>

function read_limited_artifact ::
  "nat \<Rightarrow> artifact_reader \<Rightarrow> bytes \<Rightarrow> artifact_error option \<times> bytes \<times> artifact_reader" where
  "read_limited_artifact n a acc =
     (if n = 0 then (None, acc, a)
      else case artifact_Read (min 512 n) a of
        (bs, Some e, a') \<Rightarrow> (if e = ArtEOF then None else Some e, acc @ bs, a')
      | (bs, None, a') \<Rightarrow> read_limited_artifact (n - length bs) a' (acc @ bs))"
  by pat_completeness auto
termination
  by (relation "measure (\<lambda>(n, a, acc). length (car_reader a))")
    (auto dest!: sym [of "(_, None, _)"] intro: Read_shrinks)

declare read_limited_artifact.simps [simp del]

lemma read_limited_simps:
  "read_limited_artifact 0 a acc = (None, acc, a)"
  "n \<noteq> 0 \<Longrightarrow> artifact_Read (min 512 n) a = (bs, Some e, b) \<Longrightarrow>
     read_limited_artifact n a acc = (if e = ArtEOF then None else Some e, acc @ bs, b)"
  "n \<noteq> 0 \<Longrightarrow> artifact_Read (min 512 n) a = (bs, None, b) \<Longrightarrow>
     read_limited_artifact n a acc = read_limited_artifact (n - length bs) b (acc @ bs)"
  by (subst read_limited_artifact.simps, simp)+

definition readManifestBytes ::
  "artifact_reader \<Rightarrow> uint64 \<Rightarrow> (recorder_error + bytes) \<times> artifact_reader" where
  "readManifestBytes a maximum =
     (if maximum = 0 \<or> maximum > maxSupportedManifestBytes then (Inl RecManifestLimit, a)
      else case read_limited_artifact (unat (maximum + 1)) a [] of
        (Some e, _, a') \<Rightarrow> (Inl (RecReadManifest e), a')
      | (None, v, a') \<Rightarrow>
          (if of_nat (length v) > maximum then Inl RecManifestTooLong else Inr v, a'))"

definition consumeData ::
  "validator \<Rightarrow> string \<Rightarrow> string \<Rightarrow> artifact_reader
     \<Rightarrow> recorder_error option \<times> artifact_reader \<times> validator" where
  "consumeData st batchID name a =
     (case va_pending st of Some _ \<Rightarrow> (Some (RecDataBeforeManifest batchID), a, st) | None \<Rightarrow>
      (case InspectData a of
         (Inl e, a') \<Rightarrow> (Some (RecInspect e), a', st)
       | (Inr inspection, a') \<Rightarrow>
           (None, a', st\<lparr>va_pending := Some \<lparr>pb_batchID = batchID, pb_dataName = name,
                                            pb_inspection = inspection\<rparr>\<rparr>)))"

text \<open>The checks on a manifest that was read, and the new counts.\<close>

definition count_manifest ::
  "validator \<Rightarrow> pending_batch \<Rightarrow> string \<Rightarrow> string \<Rightarrow> bytes \<Rightarrow> recorder_error + validator" where
  "count_manifest st p batchID name manifestBytes =
     bindE (map_err RecDecodeManifest (DecodeManifest manifestBytes)) (\<lambda>m.
     if mf_BatchID m \<noteq> batchID \<or> name \<noteq> ''batch-'' @ mf_BatchID m @ ''.manifest.json''
     then Inl RecManifestIdentity
     else if mf_DataFile m \<noteq> pb_dataName p then Inl RecManifestDataFile
     else bindE (check (map_option RecVerifyManifest (VerifyManifestData m (pb_inspection p)))) (\<lambda>_.
     if di_DataBytes (pb_inspection p) < 0 then Inl RecNegativeDataBytes
     else let dataBytes = of_int (di_DataBytes (pb_inspection p)) in
     if dataBytes > (- 1) - va_dataBytes st then Inl RecDataBytesOverflow
     else if mf_RecordCount m < 0 then Inl RecNegativeRecordCount
     else let recordCount = of_int (mf_RecordCount m) in
     if recordCount > (- 1) - va_recordCount st then Inl RecRecordCountOverflow
     else if va_batchCount st = - 1 then Inl RecBatchCountOverflow
     else Inr (st\<lparr>va_batchCount := va_batchCount st + 1, va_dataBytes := va_dataBytes st + dataBytes,
                 va_recordCount := va_recordCount st + recordCount, va_pending := None\<rparr>)))"

definition consumeManifest ::
  "validator \<Rightarrow> string \<Rightarrow> string \<Rightarrow> artifact_reader
     \<Rightarrow> recorder_error option \<times> artifact_reader \<times> validator" where
  "consumeManifest st batchID name a =
     (case va_pending st of None \<Rightarrow> (Some (RecNoData batchID), a, st) | Some p \<Rightarrow>
      if pb_batchID p \<noteq> batchID then (Some RecBatchMismatch, a, st)
      else case readManifestBytes a (va_MaxManifestBytes st) of
        (Inl e, a') \<Rightarrow> (Some e, a', st)
      | (Inr manifestBytes, a') \<Rightarrow>
          (case count_manifest st p batchID name manifestBytes of
             Inl e \<Rightarrow> (Some e, a', st)
           | Inr st' \<Rightarrow> (None, a', st')))"

definition consumeArtifact ::
  "validator \<Rightarrow> string \<Rightarrow> artifact_reader \<Rightarrow> recorder_error option \<times> artifact_reader \<times> validator" where
  "consumeArtifact st name a =
     (case parseArtifactName name of
        Inl e \<Rightarrow> (Some e, a, st)
      | Inr (batchID, artifactKindData) \<Rightarrow> consumeData st batchID name a
      | Inr (batchID, artifactKindManifest) \<Rightarrow> consumeManifest st batchID name a)"

definition ValidateCanonical ::
  "bytes \<Rightarrow> generation_descriptor \<Rightarrow> uint64 \<Rightarrow> recorder_error + recorder_result \<times> bytes" where
  "ValidateCanonical s d maximum =
     bindE (newValidator d maximum) (\<lambda>st.
     bindE (map_err RecStream (ReadCanonicalArtifacts (Some consumeArtifact) st s d))
       (\<lambda>(sourceBytes, rest, st').
     bindE (validator_result st' d sourceBytes) (\<lambda>r. Inr (r, rest))))"

section \<open>Artifact names\<close>

lemma suffix_in_tail:
  assumes "p @ t = s @ x" and "\<And>i. i < length p \<Longrightarrow> p ! i \<noteq> x ! 0" and "x \<noteq> []"
  shows "\<exists>u. t = u @ x"
proof -
  have "length p \<le> length s"
  proof (rule ccontr)
    assume "\<not> length p \<le> length s"
    then have l: "length s < length p" by simp
    then have "(p @ t) ! length s = p ! length s" by (simp add: nth_append)
    moreover have "(s @ x) ! length s = x ! 0" using assms(3) by (simp add: nth_append)
    ultimately show False using assms(1) assms(2) [OF l] by simp
  qed
  with assms(1) show ?thesis by (auto simp: append_eq_append_conv2)
qed

lemma parseArtifactName_Inr:
  "parseArtifactName name = Inr (b, k) \<Longrightarrow>
     b \<noteq> [] \<and> name = ''batch-'' @ b @ (case k of artifactKindData \<Rightarrow> ''.jsonl''
       | artifactKindManifest \<Rightarrow> ''.manifest.json'')"
proof -
  assume a: "parseArtifactName name = Inr (b, k)"
  then obtain t where t: "name = ''batch-'' @ t"
    by (auto simp: parseArtifactName_def HasPrefix_iff split: if_splits)
  have tail: "\<exists>u. t = u @ x" if "HasSuffix name x" "x \<noteq> []" "x ! 0 = CHR ''.''" for x
  proof -
    from that(1) obtain s where s: "''batch-'' @ t = s @ x" using t by (auto simp: HasSuffix_iff)
    show ?thesis
    proof (rule suffix_in_tail [OF s _ that(2)])
      fix i assume "i < length ''batch-''"
      then have "i \<in> {0, 1, 2, 3, 4, 5}" by auto
      then show "''batch-'' ! i \<noteq> x ! 0" using that(3) by auto
    qed
  qed
  show ?thesis
  proof (cases "HasSuffix name ''.jsonl''")
    case True
    with tail [of "''.jsonl''"] obtain u where u: "t = u @ ''.jsonl''" by auto
    have "TrimSuffix (TrimPrefix name ''batch-'') ''.jsonl'' = u"
      unfolding t u by (simp only: TrimPrefix_append TrimSuffix_append)
    with a True t u show ?thesis
      by (auto simp: parseArtifactName_def Let_def simp del: append.simps split: if_splits)
  next
    case False
    with a have s: "HasSuffix name ''.manifest.json''"
      by (auto simp: parseArtifactName_def split: if_splits)
    with tail [of "''.manifest.json''"] obtain u where u: "t = u @ ''.manifest.json''" by auto
    have "TrimSuffix (TrimPrefix name ''batch-'') ''.manifest.json'' = u"
      unfolding t u by (simp only: TrimPrefix_append TrimSuffix_append)
    with a False s t u show ?thesis
      by (auto simp: parseArtifactName_def Let_def simp del: append.simps split: if_splits)
  qed
qed

section \<open>The validator as an artifact handler\<close>

lemma read_limited_reads:
  "read_limited_artifact n a acc = (None, acc', a') \<Longrightarrow>
     \<exists>cs. acc' = acc @ cs \<and> reads a cs a' \<and> (length cs < n \<longrightarrow> car_finished a')"
proof (induction n a acc rule: read_limited_artifact.induct)
  case (1 n a acc)
  show ?case
  proof (cases "n = 0")
    case True
    with "1.prems" show ?thesis by (auto simp: read_limited_simps intro: reads.reads_done)
  next
    case False
    obtain bs e b where rd: "artifact_Read (min 512 n) a = (bs, e, b)"
      by (cases "artifact_Read (min 512 n) a") auto
    have m: "min 512 n < 2 ^ 32" by simp
    show ?thesis
    proof (cases e)
      case (Some x)
      with rd "1.prems" False have x: "x = ArtEOF" and eq: "acc' = acc @ bs" "a' = b"
        by (auto simp: read_limited_simps split: if_splits)
      from Read_EOF rd Some x have "bs = []" "car_finished b" by auto
      moreover have "reads a (bs @ []) b"
        using reads.reads_step [OF rd m _ reads.reads_done] Some x by simp
      ultimately show ?thesis using eq by auto
    next
      case None
      with rd "1.prems" False have r: "read_limited_artifact (n - length bs) b (acc @ bs) = (None, acc', a')"
        by (simp add: read_limited_simps)
      from "1.IH" [OF False rd [symmetric] refl None r] obtain cs
        where cs: "acc' = (acc @ bs) @ cs" "reads b cs a'" "length cs < n - length bs \<longrightarrow> car_finished a'"
        by blast
      moreover have "reads a (bs @ cs) a'"
        using reads.reads_step [OF rd m _ cs(2)] None by simp
      ultimately show ?thesis by (intro exI [of _ "bs @ cs"]) auto
    qed
  qed
qed

lemma Read_length:
  assumes "artifact_Read n a = (bs, e, b)" and "n < 2 ^ 32"
  shows "length bs \<le> n"
proof -
  have "unat (of_nat n :: uint32) = n" using assms(2) by (simp add: unat_of_nat_small)
  with assms(1) show ?thesis
    by (auto simp: artifact_Read_def Let_def word_less_nat_alt split: if_splits prod.splits option.splits)
qed

lemma read_limited_artifact_length:
  "read_limited_artifact n a acc = (e, acc', a') \<Longrightarrow> length acc' \<le> length acc + n"
proof (induction n a acc rule: read_limited_artifact.induct)
  case (1 n a acc)
  obtain bs e1 b where rd: "artifact_Read (min 512 n) a = (bs, e1, b)"
    by (cases "artifact_Read (min 512 n) a") auto
  have "length bs \<le> min 512 n"
    using Read_length [OF rd] by simp
  with "1.IH" [OF _ rd [symmetric] refl] "1.prems" rd show ?case
    by (cases "n = 0"; cases e1) (auto simp: read_limited_simps)
qed

lemma readManifestBytes_Inr:
  assumes "readManifestBytes a maximum = (Inr v, a')"
  shows "reads a v a'" and "length v \<le> unat maximum" and "car_finished a'"
    and "recorder_validateConfig maximum = None"
proof -
  from assms have mx: "maximum \<noteq> 0" "\<not> maximum > maxSupportedManifestBytes"
    and r: "read_limited_artifact (unat (maximum + 1)) a [] = (None, v, a')"
    and lv: "\<not> of_nat (length v) > maximum"
    by (auto simp: readManifestBytes_def split: if_splits prod.splits option.splits)
  have m: "unat maximum \<le> 67108864"
    using mx(2) by (simp add: maxSupportedManifestBytes_def word_less_nat_alt)
  then have u: "unat (maximum + 1) = unat maximum + 1"
    by (simp add: unat_word_ariths)
  from read_limited_reads [OF r] have cs: "reads a v a'" "length v < unat maximum + 1 \<longrightarrow> car_finished a'"
    by (auto simp: u)
  have "length v \<le> unat maximum + 1"
    using read_limited_artifact_length [OF r] by (simp add: u)
  then have "unat (of_nat (length v) :: uint64) = length v" using m by (simp add: unat_of_nat_small)
  with lv show "length v \<le> unat maximum" by (simp add: word_less_nat_alt)
  with cs show "reads a v a'" "car_finished a'" by simp_all
  from mx show "recorder_validateConfig maximum = None" by (simp add: recorder_validateConfig_def)
qed

text \<open>What the validator makes of a whole artifact.\<close>

definition recorder_sees :: "validator \<Rightarrow> string \<Rightarrow> bytes \<Rightarrow> validator \<Rightarrow> bool" where
  "recorder_sees st name content st' \<longleftrightarrow>
     (\<exists>b. parseArtifactName name = Inr (b, artifactKindData) \<and> va_pending st = None \<and>
        complete_lines content \<and> length content < 2 ^ 63 \<and>
        st' = st\<lparr>va_pending := Some \<lparr>pb_batchID = b, pb_dataName = name,
                                      pb_inspection = data_facts content\<rparr>\<rparr>) \<or>
     (\<exists>b p. parseArtifactName name = Inr (b, artifactKindManifest) \<and> va_pending st = Some p \<and>
        pb_batchID p = b \<and> length content \<le> unat (va_MaxManifestBytes st) \<and>
        recorder_validateConfig (va_MaxManifestBytes st) = None \<and>
        count_manifest st p b name content = Inr st')"

lemma consumeArtifact_sound:
  assumes h: "consumeArtifact st name a = (None, a', st')" and fin: "car_finished a'"
  shows "\<exists>content. reads a content a' \<and> recorder_sees st name content st'"
proof -
  from assms obtain b k where n: "parseArtifactName name = Inr (b, k)"
    by (auto simp: consumeArtifact_def split: sum.splits)
  show ?thesis
  proof (cases k)
    case artifactKindData
    with h n have p: "va_pending st = None" and "\<exists>d. InspectData a = (Inr d, a') \<and>
        st' = st\<lparr>va_pending := Some \<lparr>pb_batchID = b, pb_dataName = name, pb_inspection = d\<rparr>\<rparr>"
      by (auto simp: consumeArtifact_def consumeData_def split: option.splits prod.splits sum.splits)
    then obtain d where d: "InspectData a = (Inr d, a')"
      and st': "st' = st\<lparr>va_pending := Some \<lparr>pb_batchID = b, pb_dataName = name, pb_inspection = d\<rparr>\<rparr>"
      by blast
    from InspectData_Inr [OF d] st' p n artifactKindData show ?thesis
      by (auto simp: recorder_sees_def)
  next
    case artifactKindManifest
    with h n obtain p v where p: "va_pending st = Some p" "pb_batchID p = b"
      and r: "readManifestBytes a (va_MaxManifestBytes st) = (Inr v, a')"
      and c: "count_manifest st p b name v = Inr st'"
      by (auto simp: consumeArtifact_def consumeManifest_def
          split: option.splits prod.splits sum.splits if_splits)
    from readManifestBytes_Inr [OF r] p c n artifactKindManifest show ?thesis
      by (auto simp: recorder_sees_def intro!: exI [of _ v])
  qed
qed

text \<open>Nothing stops the validator on an artifact it has a use for.\<close>

lemma inspect_loop_avail:
  "avail tot a c t \<Longrightarrow> inspected s st \<Longrightarrow> length (s @ c) < 2 ^ 63 \<Longrightarrow>
     \<exists>st'. inspect_loop a st = (Inr st', done_artifact (of_nat tot) t) \<and> inspected (s @ c) st'"
proof (induction c arbitrary: a s st rule: length_induct)
  case (1 c)
  show ?case
  proof (cases "c = []")
    case True
    with avail_Read_end [of tot a t 131072] "1.prems" show ?thesis
      by (simp add: inspect_loop.simps [of a st] inspect_chunk_def split: prod.splits)
  next
    case False
    obtain j b where j: "0 < j" "j \<le> length c" "artifact_Read 131072 a = (take j c, None, b)"
      "avail tot b (drop j c) t"
      by (rule avail_Read [OF "1.prems"(1) False, of 131072]) auto
    have "count_newlines s + count_newlines (take j c) < 2 ^ 63"
      using "1.prems"(3) j(2) count_newlines_le [of s] count_newlines_le [of "take j c"] by simp
    then obtain st1 where st1: "inspect_chunk (take j c) st = Inr st1"
      using "1.prems"(2,3) j(1,2) False
      by (auto simp: inspect_chunk_def inspected_def split: prod.splits)
    from inspect_chunk_Inr [OF st1 "1.prems"(2)] have i1: "inspected (s @ take j c) st1" .
    have "length (drop j c) < length c" "length ((s @ take j c) @ drop j c) < 2 ^ 63"
      using j(1,2) False "1.prems"(3) by simp_all
    with "1.IH" j(4) i1 obtain st' where "inspect_loop b st1 = (Inr st', done_artifact (of_nat tot) t)"
      "inspected ((s @ take j c) @ drop j c) st'" by blast
    with j(3) st1 show ?thesis by (simp add: inspect_loop.simps [of a st])
  qed
qed

lemma InspectData_avail:
  assumes "avail tot a c t" and "complete_lines c" and "length c < 2 ^ 63"
  shows "InspectData a = (Inr (data_facts c), done_artifact (of_nat tot) t)"
proof -
  have "inspected [] ([], 0, 0, CHR 0x00)" by (simp add: inspected_def count_newlines_def)
  from inspect_loop_avail [OF assms(1) this] assms(3) obtain st' where
    "inspect_loop a ([], 0, 0, CHR 0x00) = (Inr st', done_artifact (of_nat tot) t)" "inspected c st'"
    by auto
  with assms(2) show ?thesis
    by (cases st') (auto simp: InspectData_def inspected_def data_facts_def complete_lines_def)
qed

lemma read_limited_avail:
  "avail tot a c t \<Longrightarrow> length c < n \<Longrightarrow>
     read_limited_artifact n a acc = (None, acc @ c, done_artifact (of_nat tot) t)"
proof (induction c arbitrary: a acc n rule: length_induct)
  case (1 c)
  show ?case
  proof (cases "c = []")
    case True
    with avail_Read_end [of tot a t "min 512 n"] "1.prems" show ?thesis
      by (simp add: read_limited_simps)
  next
    case False
    have "0 < min 512 n" "min 512 n < 2 ^ 32" using "1.prems"(2) by auto
    then obtain j b where j: "0 < j" "j \<le> length c" "artifact_Read (min 512 n) a = (take j c, None, b)"
      "avail tot b (drop j c) t"
      by (rule avail_Read [OF "1.prems"(1) False]) auto
    have "length (drop j c) < length c" "length (drop j c) < n - length (take j c)"
      using j(1,2) False "1.prems"(2) by simp_all
    with "1.IH" j(4) have "read_limited_artifact (n - length (take j c)) b (acc @ take j c) =
        (None, (acc @ take j c) @ drop j c, done_artifact (of_nat tot) t)" by blast
    with j(3) "1.prems"(2) show ?thesis by (simp add: read_limited_simps)
  qed
qed

lemma readManifestBytes_avail:
  assumes "avail tot a c t" and "length c \<le> unat maximum" and "recorder_validateConfig maximum = None"
  shows "readManifestBytes a maximum = (Inr c, done_artifact (of_nat tot) t)"
proof -
  from assms(3) have m: "maximum \<noteq> 0" "\<not> maximum > maxSupportedManifestBytes"
    by (auto simp: recorder_validateConfig_def)
  then have mx: "unat maximum \<le> 67108864"
    by (simp add: maxSupportedManifestBytes_def word_less_nat_alt)
  then have u: "unat (maximum + 1) = unat maximum + 1" by (simp add: unat_word_ariths)
  have "unat (of_nat (length c) :: uint64) = length c" using mx assms(2) by (simp add: unat_of_nat_small)
  with m u read_limited_avail [OF assms(1), of "unat maximum + 1" "[]"] assms(2) show ?thesis
    by (simp add: readManifestBytes_def word_less_nat_alt)
qed

interpretation recorder: artifact_total consumeArtifact recorder_sees
proof
  fix st name a a' st'
  assume "consumeArtifact st name a = (None, a', st')" and "car_finished a'"
  then show "\<exists>content. reads a content a' \<and> recorder_sees st name content st'"
    by (rule consumeArtifact_sound)
next
  fix st name c st' a t
  assume s: "recorder_sees st name c st'" and a: "avail (length c) a c t"
  then show "consumeArtifact st name a = (None, done_artifact (of_nat (length c)) t, st')"
    using InspectData_avail [OF a] readManifestBytes_avail [OF a]
    by (auto simp: recorder_sees_def consumeArtifact_def consumeData_def consumeManifest_def)
qed

section \<open>A recorded generation\<close>

text \<open>One batch: its identifier, its data, and the bytes and the value of its manifest.\<close>

type_synonym batch = "string \<times> bytes \<times> bytes \<times> manifest"

fun batch_artifacts :: "batch \<Rightarrow> (string \<times> bytes) list" where
  "batch_artifacts (b, content, manifestBytes, m) =
     [(''batch-'' @ b @ ''.jsonl'', content), (''batch-'' @ b @ ''.manifest.json'', manifestBytes)]"

fun batch_ok :: "nat \<Rightarrow> batch \<Rightarrow> bool" where
  "batch_ok maximum (b, content, manifestBytes, m) \<longleftrightarrow>
     complete_lines content \<and> length content < 2 ^ 63 \<and> length manifestBytes \<le> maximum \<and> DecodeManifest manifestBytes = Inr m \<and>
     mf_BatchID m = b \<and> mf_DataFile m = ''batch-'' @ b @ ''.jsonl'' \<and>
     mf_DataSHA256 m = hex_EncodeToString (Sum256 content) \<and> mf_DataBytes m = int (length content) \<and>
     mf_RecordCount m = int (count_newlines content)"

definition batches_bytes :: "batch list \<Rightarrow> nat" where
  "batches_bytes bs = sum_list (map (\<lambda>(_, content, _). length content) bs)"

definition batches_records :: "batch list \<Rightarrow> nat" where
  "batches_records bs = sum_list (map (\<lambda>(_, content, _). count_newlines content) bs)"

lemma length_batch_artifacts: "length (concat (map batch_artifacts bs)) = 2 * length bs"
  by (induction bs) auto

text \<open>The artifacts determine the sums.\<close>

lemma batch_artifacts_sums:
  assumes "concat (map batch_artifacts bs) = concat (map batch_artifacts bs')"
  shows "batches_bytes bs = batches_bytes bs'" and "batches_records bs = batches_records bs'"
    and "length bs = length bs'"
proof -
  have "batches_bytes bs = batches_bytes bs' \<and> batches_records bs = batches_records bs' \<and> length bs = length bs'"
    using assms
  proof (induction bs arbitrary: bs')
    case Nil
    then show ?case by (cases bs') auto
  next
    case (Cons e bs)
    obtain b c v m where e: "e = (b, c, v, m)" by (cases e)
    with Cons.prems obtain b' v' m' es where bs': "bs' = (b', c, v', m') # es"
      by (cases bs') auto
    with Cons.prems e have "concat (map batch_artifacts bs) = concat (map batch_artifacts es)" by simp
    from Cons.IH [OF this] show ?case by (simp add: e bs' batches_bytes_def batches_records_def)
  qed
  then show "batches_bytes bs = batches_bytes bs'" "batches_records bs = batches_records bs'"
    "length bs = length bs'" by simp_all
qed

lemma count_manifest_Inr:
  assumes "count_manifest st p b name v = Inr st'" and "pb_inspection p = data_facts content"
    and "pb_dataName p = ''batch-'' @ b @ ''.jsonl''" and "complete_lines content"
    and lc: "length content < 2 ^ 63" and "length v \<le> unat (va_MaxManifestBytes st)"
  shows "\<exists>m. batch_ok (unat (va_MaxManifestBytes st)) (b, content, v, m)" and "va_pending st' = None"
    and "va_MaxManifestBytes st' = va_MaxManifestBytes st"
    and "unat (va_batchCount st') = unat (va_batchCount st) + 1"
    and "unat (va_dataBytes st') = unat (va_dataBytes st) + length content"
    and "unat (va_recordCount st') = unat (va_recordCount st) + count_newlines content"
    and "name = ''batch-'' @ b @ ''.manifest.json''"
proof -
  from assms(1,2) obtain m where m: "DecodeManifest v = Inr m" "mf_BatchID m = b"
    "name = ''batch-'' @ mf_BatchID m @ ''.manifest.json''" "mf_DataFile m = pb_dataName p"
    "VerifyManifestData m (data_facts content) = None"
    and g: "\<not> of_int (int (length content)) > (- 1) - va_dataBytes st"
      "\<not> of_int (mf_RecordCount m) > (- 1) - va_recordCount st" "va_batchCount st \<noteq> - 1"
    and st': "st' = st\<lparr>va_batchCount := va_batchCount st + 1,
        va_dataBytes := va_dataBytes st + of_int (int (length content)),
        va_recordCount := va_recordCount st + of_int (mf_RecordCount m), va_pending := None\<rparr>"
    by (auto simp: count_manifest_def Let_def data_facts_def split: if_splits)
  from m(5) have f: "mf_DataSHA256 m = hex_EncodeToString (Sum256 content)"
    "mf_DataBytes m = int (length content)" "mf_RecordCount m = int (count_newlines content)"
    by (auto simp: VerifyManifestData_None data_facts_def)
  with m assms show "\<exists>m. batch_ok (unat (va_MaxManifestBytes st)) (b, content, v, m)"
    by (intro exI [of _ m]) simp
  show "va_pending st' = None" "va_MaxManifestBytes st' = va_MaxManifestBytes st"
    "name = ''batch-'' @ b @ ''.manifest.json''" using m by (simp_all add: st')
  from lc have lc': "unat (of_nat (length content) :: uint64) = length content"
    by (simp add: unat_of_nat_small)
  have "count_newlines content < 2 ^ 63" using lc count_newlines_le [of content] by linarith
  then have ln: "unat (of_nat (count_newlines content) :: uint64) = count_newlines content"
    by (simp add: unat_of_nat_small)
  show "unat (va_dataBytes st') = unat (va_dataBytes st) + length content"
    using unat_add_guarded [OF g(1)] lc' by (simp add: st')
  show "unat (va_recordCount st') = unat (va_recordCount st) + count_newlines content"
    using unat_add_guarded [OF g(2)] ln by (simp add: st' f)
  show "unat (va_batchCount st') = unat (va_batchCount st) + 1"
    using unat_add_guarded [where a = "va_batchCount st" and b = 1] g(3)
    by (simp add: st' word_less_nat_alt unat_eq_zero)
qed

lemma sees_batches:
  "sees_all recorder_sees st fs st' \<Longrightarrow> va_pending st = None \<Longrightarrow> va_pending st' = None \<Longrightarrow>
   \<exists>bs. map (\<lambda>f. (fst f, concat (snd f))) fs = concat (map batch_artifacts bs) \<and>
     list_all (batch_ok (unat (va_MaxManifestBytes st))) bs \<and>
     unat (va_batchCount st') = unat (va_batchCount st) + length bs \<and>
     unat (va_dataBytes st') = unat (va_dataBytes st) + batches_bytes bs \<and>
     unat (va_recordCount st') = unat (va_recordCount st) + batches_records bs"
proof (induction fs arbitrary: st rule: induct_list012)
  case 1
  then show ?case by (intro exI [of _ "[]"]) (simp add: batches_bytes_def batches_records_def)
next
  case (2 f)
  then show ?case by (auto simp: recorder_sees_def)
next
  case (3 f g fs)
  from "3.prems" obtain st1 st2 where s1: "recorder_sees st (fst f) (concat (snd f)) st1"
    and s2: "recorder_sees st1 (fst g) (concat (snd g)) st2" and rest: "sees_all recorder_sees st2 fs st'"
    by auto
  from s1 "3.prems"(2) obtain b where b: "parseArtifactName (fst f) = Inr (b, artifactKindData)"
    "complete_lines (concat (snd f))" "length (concat (snd f)) < 2 ^ 63"
    and st1: "st1 = st\<lparr>va_pending := Some \<lparr>pb_batchID = b, pb_dataName = fst f,
      pb_inspection = data_facts (concat (snd f))\<rparr>\<rparr>"
    by (auto simp: recorder_sees_def)
  from parseArtifactName_Inr [OF b(1)] have f: "fst f = ''batch-'' @ b @ ''.jsonl''" by simp
  from s2 st1 have c: "count_manifest st1 (the (va_pending st1)) b (fst g) (concat (snd g)) = Inr st2"
    and lm: "length (concat (snd g)) \<le> unat (va_MaxManifestBytes st1)"
    by (auto simp: recorder_sees_def)
  have p: "pb_inspection (the (va_pending st1)) = data_facts (concat (snd f))"
    "pb_dataName (the (va_pending st1)) = ''batch-'' @ b @ ''.jsonl''" by (simp_all add: st1 f)
  note C = count_manifest_Inr [OF c p b(2,3) lm]
  from C(1) obtain m where m: "batch_ok (unat (va_MaxManifestBytes st)) (b, concat (snd f), concat (snd g), m)"
    by (auto simp: st1)
  from "3.IH"(1) [OF rest C(2) "3.prems"(3)] obtain bs where bs:
    "map (\<lambda>f. (fst f, concat (snd f))) fs = concat (map batch_artifacts bs)"
    "list_all (batch_ok (unat (va_MaxManifestBytes st2))) bs"
    "unat (va_batchCount st') = unat (va_batchCount st2) + length bs"
    "unat (va_dataBytes st') = unat (va_dataBytes st2) + batches_bytes bs"
    "unat (va_recordCount st') = unat (va_recordCount st2) + batches_records bs" by blast
  have mx: "va_MaxManifestBytes st2 = va_MaxManifestBytes st" by (simp add: C(3) st1)
  let ?bs = "(b, concat (snd f), concat (snd g), m) # bs"
  have "map (\<lambda>f. (fst f, concat (snd f))) (f # g # fs) = concat (map batch_artifacts ?bs)"
    using bs(1) f C(7) by simp
  moreover have "list_all (batch_ok (unat (va_MaxManifestBytes st))) ?bs"
    using m bs(2) mx by (simp del: batch_ok.simps)
  moreover have "unat (va_batchCount st') = unat (va_batchCount st) + length ?bs"
    "unat (va_dataBytes st') = unat (va_dataBytes st) + batches_bytes ?bs"
    "unat (va_recordCount st') = unat (va_recordCount st) + batches_records ?bs"
    using bs(3-5) C(4-6) by (simp_all add: st1 batches_bytes_def batches_records_def)
  ultimately show ?case by blast
qed

lemma parseArtifactName_batch:
  assumes "b \<noteq> []"
  shows "parseArtifactName (''batch-'' @ b @ ''.jsonl'') = Inr (b, artifactKindData)"
    and "parseArtifactName (''batch-'' @ b @ ''.manifest.json'') = Inr (b, artifactKindManifest)"
proof -
  have p: "HasPrefix (''batch-'' @ t) ''batch-''" for t unfolding HasPrefix_iff by blast
  have s: "HasSuffix (''batch-'' @ b @ x) x" for x
    unfolding HasSuffix_iff by (rule exI [of _ "''batch-'' @ b"]) simp
  have n: "\<not> HasSuffix (''batch-'' @ b @ ''.manifest.json'') ''.jsonl''"
  proof
    assume "HasSuffix (''batch-'' @ b @ ''.manifest.json'') ''.jsonl''"
    then obtain u where "''batch-'' @ b @ ''.manifest.json'' = u @ ''.jsonl''" by (auto simp: HasSuffix_iff)
    then have "last (''batch-'' @ b @ ''.manifest.json'') = last (u @ ''.jsonl'')" by (rule arg_cong)
    then show False by simp
  qed
  note [simp del] = append.simps
  show "parseArtifactName (''batch-'' @ b @ ''.jsonl'') = Inr (b, artifactKindData)"
    using assms by (simp add: parseArtifactName_def p s TrimPrefix_append TrimSuffix_append Let_def)
  show "parseArtifactName (''batch-'' @ b @ ''.manifest.json'') = Inr (b, artifactKindManifest)"
    using assms n by (simp add: parseArtifactName_def p s TrimPrefix_append TrimSuffix_append Let_def)
qed

lemma count_manifest_ok:
  assumes ok: "batch_ok (unat (va_MaxManifestBytes st)) (b, content, v, m)"
    and p: "pb_inspection p = data_facts content" "pb_dataName p = ''batch-'' @ b @ ''.jsonl''"
    and room: "unat (va_batchCount st) + 1 < 2 ^ 64" "unat (va_dataBytes st) + length content < 2 ^ 64"
      "unat (va_recordCount st) + count_newlines content < 2 ^ 64"
  shows "\<exists>st'. count_manifest st p b (''batch-'' @ b @ ''.manifest.json'') v = Inr st'"
proof -
  from ok have m: "DecodeManifest v = Inr m" "mf_BatchID m = b" "mf_DataFile m = ''batch-'' @ b @ ''.jsonl''"
    "mf_RecordCount m = int (count_newlines content)" by simp_all
  have v: "VerifyManifestData m (data_facts content) = None"
    using ok DecodeManifest_Inr [OF m(1)] by (simp add: VerifyManifestData_None data_facts_def)
  have "unat (of_nat (length content) :: uint64) = length content"
    "unat (of_nat (count_newlines content) :: uint64) = count_newlines content"
    using room by (simp_all add: unat_of_nat_small)
  then have g: "\<not> (of_nat (length content) :: uint64) > (- 1) - va_dataBytes st"
    "\<not> (of_nat (count_newlines content) :: uint64) > (- 1) - va_recordCount st"
    using room by (simp_all add: add_guard)
  have "va_batchCount st \<noteq> - 1"
    using room(1) by (auto simp: unsigned_minus_1_eq_mask mask_eq_exp_minus_1)
  with m v g p show ?thesis by (simp add: count_manifest_def Let_def data_facts_def)
qed

lemma batches_see:
  "list_all (batch_ok (unat (va_MaxManifestBytes st))) bs \<Longrightarrow>
   map (\<lambda>f. (fst f, concat (snd f))) fs = concat (map batch_artifacts bs) \<Longrightarrow>
   va_pending st = None \<Longrightarrow> recorder_validateConfig (va_MaxManifestBytes st) = None \<Longrightarrow>
   unat (va_batchCount st) + length bs < 2 ^ 64 \<Longrightarrow>
   unat (va_dataBytes st) + batches_bytes bs < 2 ^ 64 \<Longrightarrow>
   unat (va_recordCount st) + batches_records bs < 2 ^ 64 \<Longrightarrow>
   \<exists>st'. sees_all recorder_sees st fs st' \<and> va_pending st' = None"
proof (induction bs arbitrary: st fs)
  case Nil
  then show ?case by auto
next
  case (Cons e bs)
  obtain b content v m where e: "e = (b, content, v, m)" by (cases e)
  from Cons.prems(2) e obtain f g gs where fs: "fs = f # g # gs"
    and f: "fst f = ''batch-'' @ b @ ''.jsonl''" "concat (snd f) = content"
    and g: "fst g = ''batch-'' @ b @ ''.manifest.json''" "concat (snd g) = v"
    and gs: "map (\<lambda>f. (fst f, concat (snd f))) gs = concat (map batch_artifacts bs)"
    by (simp add: map_eq_Cons_conv append_Cons split_paired_Ex) auto
  from Cons.prems(1) e have ok: "batch_ok (unat (va_MaxManifestBytes st)) (b, content, v, m)" by simp
  then have "validateManifest m = None" "mf_BatchID m = b" using DecodeManifest_Inr by auto
  then have b: "b \<noteq> []" by (auto simp: validateManifest_None)
  define p where "p = \<lparr>pb_batchID = b, pb_dataName = fst f, pb_inspection = data_facts content\<rparr>"
  define st1 where "st1 = st\<lparr>va_pending := Some p\<rparr>"
  have p: "pb_inspection p = data_facts content" "pb_dataName p = ''batch-'' @ b @ ''.jsonl''"
    by (simp_all add: p_def f)
  have bb: "batches_bytes (e # bs) = length content + batches_bytes bs"
    "batches_records (e # bs) = count_newlines content + batches_records bs"
    by (simp_all add: batches_bytes_def batches_records_def e)
  have s1: "recorder_sees st (fst f) (concat (snd f)) st1"
    using parseArtifactName_batch(1) [OF b] ok Cons.prems(3)
    by (simp add: recorder_sees_def f st1_def p_def)
  have ok1: "batch_ok (unat (va_MaxManifestBytes st1)) (b, content, v, m)" using ok by (simp add: st1_def)
  obtain st2 where c: "count_manifest st1 p b (fst g) v = Inr st2"
    using count_manifest_ok [OF ok1 p] Cons.prems(5-7) bb by (auto simp: st1_def g)
  have s2: "recorder_sees st1 (fst g) (concat (snd g)) st2"
    using parseArtifactName_batch(2) [OF b] c Cons.prems(4) ok
    by (simp add: recorder_sees_def g st1_def p_def)
  have l: "complete_lines content" "length content < 2 ^ 63" "length v \<le> unat (va_MaxManifestBytes st1)"
    using ok1 by simp_all
  note C = count_manifest_Inr [OF c p l]
  have mx: "va_MaxManifestBytes st2 = va_MaxManifestBytes st" using C(3) by (simp add: st1_def)
  have "\<exists>st'. sees_all recorder_sees st2 gs st' \<and> va_pending st' = None"
    by (rule Cons.IH)
      (use Cons.prems C gs mx bb in \<open>simp_all add: st1_def del: batch_ok.simps\<close>)
  with s1 s2 show ?case by (auto simp: fs)
qed

text \<open>
  What the validator's acceptance of a whole canonical stream means, for whoever reads the
  stream: the recorder's own read, or the one of durable custody.
\<close>

definition recorded_as :: "generation_descriptor \<Rightarrow> uint64 \<Rightarrow> bytes \<Rightarrow> recorder_result \<Rightarrow> batch list \<Rightarrow> bool" where
  "recorded_as d maximum canonical r bs \<longleftrightarrow>
     (\<exists>fs. wf_artifacts fs \<and> canonical = canonical_bytes fs \<and>
        artifacts_total fs = unat (gd_SourceBytes d) \<and> map (\<lambda>f. (fst f, concat (snd f))) fs = concat (map batch_artifacts bs)) \<and>
     list_all (batch_ok (unat maximum)) bs \<and> unat (gd_ArtifactCount d) = 2 * length bs \<and>
     unat (rr_BatchCount r) = length bs \<and> unat (rr_DataBytes r) = batches_bytes bs \<and>
     unat (rr_RecordCount r) = batches_records bs \<and> rr_SourceID r = gd_SourceID d \<and>
     rr_GenerationID r = gd_GenerationID d \<and> rr_ArtifactCount r = gd_ArtifactCount d \<and>
     rr_SourceBytes r = gd_SourceBytes d"

lemma validated_recorded:
  assumes new: "newValidator d maximum = Inr st"
    and read: "ReadCanonicalArtifacts (Some consumeArtifact) st (canonical @ rest) d = Inr (n, rest, st')"
    and res: "validator_result st' d n = Inr r"
  shows "\<exists>bs. recorded_as d maximum canonical r bs"
proof -
  from new have st: "va_pending st = None" "va_MaxManifestBytes st = maximum" "va_batchCount st = 0"
    "va_dataBytes st = 0" "va_recordCount st = 0" and even: "gd_ArtifactCount d mod 2 = 0"
    by (auto simp: newValidator_def split: if_splits)
  from res have p: "va_pending st' = None" and r: "rr_BatchCount r = va_batchCount st'"
    "rr_DataBytes r = va_dataBytes st'" "rr_RecordCount r = va_recordCount st'" "rr_SourceID r = gd_SourceID d"
    "rr_GenerationID r = gd_GenerationID d" "rr_ArtifactCount r = gd_ArtifactCount d"
    "rr_SourceBytes r = gd_SourceBytes d" "n = gd_SourceBytes d"
    by (auto simp: validator_result_def split: option.splits if_splits)
  from recorder.ReadCanonicalArtifacts_sound [OF read] obtain fs where fs: "wf_artifacts fs"
    "length fs = unat (gd_ArtifactCount d)" "canonical = canonical_bytes fs" "unat n = artifacts_total fs"
    and s: "sees_all recorder_sees st fs st'" by auto
  from sees_batches [OF s st(1) p] st obtain bs where
    bs: "map (\<lambda>f. (fst f, concat (snd f))) fs = concat (map batch_artifacts bs)"
    "list_all (batch_ok (unat maximum)) bs" "unat (va_batchCount st') = length bs"
    "unat (va_dataBytes st') = batches_bytes bs" "unat (va_recordCount st') = batches_records bs" by auto
  have "unat (gd_ArtifactCount d) = 2 * length bs"
    using bs(1) fs(2) length_batch_artifacts by (metis length_map)
  with fs bs r show ?thesis by (auto simp: recorded_as_def)
qed

lemma batches_sizes:
  assumes "map (\<lambda>f. (fst f, concat (snd f))) fs = concat (map batch_artifacts bs)"
  shows "batches_bytes bs \<le> artifacts_total fs" and "batches_records bs \<le> batches_bytes bs"
proof -
  have "artifacts_total fs = (\<Sum>x\<leftarrow>map (\<lambda>f. (fst f, concat (snd f))) fs. length (snd x))"
    by (simp add: artifacts_total_def comp_def)
  moreover have "batches_bytes bs \<le> (\<Sum>x\<leftarrow>concat (map batch_artifacts bs). length (snd x))"
    by (induction bs) (auto simp: batches_bytes_def)
  ultimately show "batches_bytes bs \<le> artifacts_total fs" using assms by simp
  show "batches_records bs \<le> batches_bytes bs"
    unfolding batches_records_def batches_bytes_def
    by (intro sum_list_mono) (auto simp: count_newlines_le)
qed

lemma recorded_validates:
  assumes rec: "recorded_as d maximum canonical r bs" and d: "gen_Validate d = None"
    and cnt: "unat (gd_ArtifactCount d) \<le> 1000000" and cfg: "recorder_validateConfig maximum = None"
  shows "\<exists>st st'. newValidator d maximum = Inr st \<and>
    ReadCanonicalArtifacts (Some consumeArtifact) st (canonical @ rest) d = Inr (gd_SourceBytes d, rest, st') \<and>
    validator_result st' d (gd_SourceBytes d) = Inr r"
proof -
  define st where "st = \<lparr>va_batchCount = 0, va_MaxManifestBytes = maximum, va_dataBytes = 0,
    va_pending = None, va_recordCount = 0\<rparr>"
  from rec obtain fs where fs: "wf_artifacts fs" "canonical = canonical_bytes fs"
    "artifacts_total fs = unat (gd_SourceBytes d)"
    and bs: "map (\<lambda>f. (fst f, concat (snd f))) fs = concat (map batch_artifacts bs)"
      "list_all (batch_ok (unat maximum)) bs" "unat (gd_ArtifactCount d) = 2 * length bs"
      "unat (rr_BatchCount r) = length bs" "unat (rr_DataBytes r) = batches_bytes bs"
      "unat (rr_RecordCount r) = batches_records bs"
    and r: "rr_SourceID r = gd_SourceID d" "rr_GenerationID r = gd_GenerationID d"
      "rr_ArtifactCount r = gd_ArtifactCount d" "rr_SourceBytes r = gd_SourceBytes d"
    by (auto simp: recorded_as_def)
  have "gd_ArtifactCount d mod 2 = 0"
    using bs(3) by (simp add: unat_eq_zero [symmetric] unat_mod)
  then have new: "newValidator d maximum = Inr st" using cfg d by (simp add: newValidator_def st_def)
  have lim: "artifacts_total fs < 2 ^ 64" using fs(1) by (simp add: wf_artifacts_def)
  have room: "unat (va_batchCount st) + length bs < 2 ^ 64" "unat (va_dataBytes st) + batches_bytes bs < 2 ^ 64"
    "unat (va_recordCount st) + batches_records bs < 2 ^ 64"
    using bs(3) cnt batches_sizes [OF bs(1)] lim by (simp_all add: st_def)
  have v: "va_MaxManifestBytes st = maximum" "va_pending st = None" by (simp_all add: st_def)
  obtain st' where st': "sees_all recorder_sees st fs st'" "va_pending st' = None"
    using batches_see [OF _ bs(1) v(2) _ room] bs(2) cfg v(1) by auto
  have len: "length fs = unat (gd_ArtifactCount d)"
    using bs(1,3) length_batch_artifacts by (metis length_map)
  have read: "ReadCanonicalArtifacts (Some consumeArtifact) st (canonical @ rest) d =
      Inr (gd_SourceBytes d, rest, st')"
    unfolding recorder.ReadCanonicalArtifacts_iff using d cnt fs len st'(1) by auto
  from sees_batches [OF st'(1) v(2) st'(2)] obtain bs' where
    bs': "map (\<lambda>f. (fst f, concat (snd f))) fs = concat (map batch_artifacts bs')"
    "list_all (batch_ok (unat maximum)) bs'"
    "unat (va_batchCount st') = length bs'" "unat (va_dataBytes st') = batches_bytes bs'"
    "unat (va_recordCount st') = batches_records bs'" by (auto simp: st_def)
  have same: "batches_bytes bs' = batches_bytes bs" "batches_records bs' = batches_records bs"
    "length bs' = length bs"
    using batch_artifacts_sums [of bs' bs] bs(1) bs'(1) by simp_all
  have cnt': "va_batchCount st' = rr_BatchCount r" "va_dataBytes st' = rr_DataBytes r"
    "va_recordCount st' = rr_RecordCount r"
    using bs' bs same by (simp_all add: word_unat_eq_iff)
  have "rr_BatchCount r * 2 = gd_ArtifactCount d"
    using bs(3,4) cnt by (simp add: word_unat_eq_iff unat_word_ariths)
  then have "validator_result st' d (gd_SourceBytes d) = Inr r"
    using st'(2) cnt' r by (simp add: validator_result_def)
  with new read show ?thesis by blast
qed

lemma ValidateCanonical_Inr:
  "ValidateCanonical s d maximum = Inr (r, rest) \<longleftrightarrow>
     (\<exists>st n st'. newValidator d maximum = Inr st \<and>
       ReadCanonicalArtifacts (Some consumeArtifact) st s d = Inr (n, rest, st') \<and>
       validator_result st' d n = Inr r)"
  by (auto simp: ValidateCanonical_def)

lemma ValidateCanonical_iff:
  "ValidateCanonical s d maximum = Inr (r, rest) \<longleftrightarrow>
     gen_Validate d = None \<and> unat (gd_ArtifactCount d) \<le> 1000000 \<and> recorder_validateConfig maximum = None \<and>
     (\<exists>canonical bs. s = canonical @ rest \<and> recorded_as d maximum canonical r bs)" (is "?l \<longleftrightarrow> ?r")
proof
  assume ?l
  then obtain st n st' where v: "newValidator d maximum = Inr st" "validator_result st' d n = Inr r"
    and read: "ReadCanonicalArtifacts (Some consumeArtifact) st s d = Inr (n, rest, st')"
    by (auto simp: ValidateCanonical_Inr)
  from recorder.ReadCanonicalArtifacts_sound [OF read] obtain fs where s: "s = canonical_bytes fs @ rest"
    by blast
  with validated_recorded [OF v(1) _ v(2)] read
  have "\<exists>canonical bs. s = canonical @ rest \<and> recorded_as d maximum canonical r bs" by blast
  moreover have "gen_Validate d = None" "recorder_validateConfig maximum = None"
    using v(1) by (auto simp: newValidator_def)
  moreover have "unat (gd_ArtifactCount d) \<le> 1000000" by (rule canonical_header [OF read])
  ultimately show ?r by blast
next
  assume ?r
  then obtain canonical bs where "s = canonical @ rest" "recorded_as d maximum canonical r bs"
    "gen_Validate d = None" "unat (gd_ArtifactCount d) \<le> 1000000" "recorder_validateConfig maximum = None"
    by blast
  with recorded_validates [of d maximum canonical r bs rest] show ?l
    by (auto simp: ValidateCanonical_Inr)
qed

text \<open>
  C4: The semantic gate. \<^verbatim>\<open>ValidateCanonical\<close> accepts a canonical stream exactly if it is nothing
  but batches, each a data file of complete lines directly followed by its manifest, which
  fits the limit, decodes, is valid, belongs to the same batch and states the exact size,
  SHA-256 and number of lines of the data, and the sizes add up to the signed descriptor's. The
  result then holds the true sums over the batches, with no wrap-around, and the bytes behind
  the last artifact are left unread.
\<close>

theorem recorder_accepts_batches:
  "ValidateCanonical s d maximum = Inr (r, rest) \<longleftrightarrow>
     gen_Validate d = None \<and> unat (gd_ArtifactCount d) \<le> 1000000 \<and> recorder_validateConfig maximum = None \<and>
     (\<exists>canonical bs. s = canonical @ rest \<and> recorded_as d maximum canonical r bs)"
  by (rule ValidateCanonical_iff)

end
