(* ===== verification/Gen_Receipt.thy ===== *)
theory Gen_Receipt
  imports Gen_Recorder
begin

text \<open>
  Package \<^verbatim>\<open>generationrecorder\<close>, files \<^verbatim>\<open>record.go\<close> and \<^verbatim>\<open>record_linux.go\<close>: the receipt that
  states what the recorder found in a generation, its JSON form, and its publication as a
  read-only file. Every system call of the publication may fail, and other processes may
  change the directory before each of them.
\<close>

section \<open>Receipts\<close>

definition RecordedReceiptVersion :: string where
  "RecordedReceiptVersion = ''fi-generation-recorded/0.1''"

definition maxRecordedReceiptBytes :: nat where
  "maxRecordedReceiptBytes = 256 * 1024"

definition maxRecordedTransportMetadataBytes :: uint64 where
  "maxRecordedTransportMetadataBytes = 512 * 1024"

record recorded_receipt =
  re_Version :: string
  re_Descriptor :: generation_descriptor
  re_MetadataBytes :: uint64
  re_MetadataSHA256 :: string
  re_TransferBytes :: uint64
  re_TransferSHA256 :: string
  re_BatchCount :: uint64
  re_DataBytes :: uint64
  re_RecordCount :: uint64

datatype receipt_error =
    ReSHA256 string
  | ReBadVersion
  | ReDescriptor generation_error
  | ReMetadataBounds
  | ReOverflow
  | ReTransferBytes
  | ReBatchCountZero
  | ReBatchCount
  | ReDataBytes
  | ReRecordCount
  | ReSize
  | ReDecode
  | RePayloadIdentity
  | ReSemanticMismatch
  | ReConfig recorder_error
  | ReRootRequired
  | ReRootNotAbsolute
  | ReResolveRoot
  | ReRootSymlinks
  | ReInspectRoot
  | ReRootIsSymlink
  | ReRootNotDirectory
  | ReRootWritable
  | ReSystemCall string
  | ReNotReadOnly
  | ReChangedAtOpen
  | ReShortRead io_error
  | ReTrailing
  | ReChanged
  | ReInvariants
  | ReConflict
  | RePublishedChanged
  | ReSemantic recorder_error
  | ReCanonicalTrailing
  | ReCanonicalOverflow
  | ReCanonicalBytes
  | ReCanonicalSHA256
  | ReReadCustody "recorder_error custody_read_error"

definition validateRecorderSHA256 :: "string \<Rightarrow> string \<Rightarrow> receipt_error option" where
  "validateRecorderSHA256 name s = fail_if (\<not> sha256_text_decoded s) (ReSHA256 name)"

text \<open>
  The check that 20 header bytes, the metadata and the payload make the transfer, with the
  two overflow guards.
\<close>

definition transfer_bytes_error :: "uint64 \<Rightarrow> uint64 \<Rightarrow> uint64 \<Rightarrow> receipt_error option" where
  "transfer_bytes_error metadataBytes payloadBytes transferBytes =
     (let expected = 20 :: uint64 in
      if metadataBytes > (- 1) - expected then Some ReOverflow
      else let expected = expected + metadataBytes in
      if payloadBytes > (- 1) - expected then Some ReOverflow
      else fail_if (transferBytes \<noteq> expected + payloadBytes) ReTransferBytes)"

definition receipt_Validate :: "recorded_receipt \<Rightarrow> receipt_error option" where
  "receipt_Validate v =
     first_err
       [fail_if (re_Version v \<noteq> RecordedReceiptVersion) ReBadVersion,
        map_option ReDescriptor (gen_Validate (re_Descriptor v)),
        fail_if (re_MetadataBytes v = 0 \<or> re_MetadataBytes v > maxRecordedTransportMetadataBytes)
          ReMetadataBounds,
        validateRecorderSHA256 ''metadata SHA-256'' (re_MetadataSHA256 v),
        validateRecorderSHA256 ''transfer SHA-256'' (re_TransferSHA256 v),
        transfer_bytes_error (re_MetadataBytes v) (gd_EncodedDataBytes (re_Descriptor v))
          (re_TransferBytes v),
        fail_if (re_BatchCount v = 0) ReBatchCountZero,
        fail_if (re_BatchCount v > (- 1) div 2 \<or>
          re_BatchCount v * 2 \<noteq> gd_ArtifactCount (re_Descriptor v)) ReBatchCount,
        fail_if (re_DataBytes v = 0 \<or> re_DataBytes v > gd_SourceBytes (re_Descriptor v)) ReDataBytes,
        fail_if (re_RecordCount v = 0) ReRecordCount]"

definition validateTransferResult :: "transfer_result \<Rightarrow> receipt_error option" where
  "validateTransferResult r =
     first_err
       [map_option ReDescriptor (gen_Validate (tr_Descriptor r)),
        fail_if (tr_MetadataBytes r = 0 \<or> tr_MetadataBytes r > maxRecordedTransportMetadataBytes)
          ReMetadataBounds,
        validateRecorderSHA256 ''metadata SHA-256'' (tr_MetadataSHA256 r),
        fail_if (tr_PayloadBytes r \<noteq> gd_EncodedDataBytes (tr_Descriptor r) \<or>
          tr_PayloadSHA256 r \<noteq> gd_EncodedDataSHA256 (tr_Descriptor r)) RePayloadIdentity,
        validateRecorderSHA256 ''transfer SHA-256'' (tr_TransferSHA256 r),
        transfer_bytes_error (tr_MetadataBytes r) (tr_PayloadBytes r) (tr_TransferBytes r)]"

definition recordedReceiptFromResult ::
  "transfer_result \<Rightarrow> recorder_result \<Rightarrow> receipt_error + recorded_receipt" where
  "recordedReceiptFromResult transfer semantic =
     (let d = tr_Descriptor transfer in
      bindE (check (validateTransferResult transfer)) (\<lambda>_.
      if rr_SourceID semantic \<noteq> gd_SourceID d \<or> rr_GenerationID semantic \<noteq> gd_GenerationID d \<or>
         rr_ArtifactCount semantic \<noteq> gd_ArtifactCount d \<or> rr_SourceBytes semantic \<noteq> gd_SourceBytes d
      then Inl ReSemanticMismatch
      else let receipt = \<lparr>re_Version = RecordedReceiptVersion, re_Descriptor = d,
                          re_MetadataBytes = tr_MetadataBytes transfer,
                          re_MetadataSHA256 = tr_MetadataSHA256 transfer,
                          re_TransferBytes = tr_TransferBytes transfer,
                          re_TransferSHA256 = tr_TransferSHA256 transfer,
                          re_BatchCount = rr_BatchCount semantic, re_DataBytes = rr_DataBytes semantic,
                          re_RecordCount = rr_RecordCount semantic\<rparr>
      in bindE (check (receipt_Validate receipt)) (\<lambda>_. Inr receipt)))"

definition receipt_members :: "recorded_receipt \<Rightarrow> (bytes \<times> json) list" where
  "receipt_members v =
     [(''version'', JStr (re_Version v)), (''descriptor'', JObj (descriptor_members (re_Descriptor v))),
      (''metadata_bytes'', JUint (re_MetadataBytes v)), (''metadata_sha256'', JStr (re_MetadataSHA256 v)),
      (''transfer_bytes'', JUint (re_TransferBytes v)), (''transfer_sha256'', JStr (re_TransferSHA256 v)),
      (''batch_count'', JUint (re_BatchCount v)), (''data_bytes'', JUint (re_DataBytes v)),
      (''record_count'', JUint (re_RecordCount v))]"

definition receipt_field_list :: "recorded_receipt field list" where
  "receipt_field_list =
     [(''version'', set_string (\<lambda>x v. v\<lparr>re_Version := x\<rparr>)),
      (''descriptor'', set_struct descriptor_field_list re_Descriptor (\<lambda>x v. v\<lparr>re_Descriptor := x\<rparr>)),
      (''metadata_bytes'', set_uint64 (\<lambda>x v. v\<lparr>re_MetadataBytes := x\<rparr>)),
      (''metadata_sha256'', set_string (\<lambda>x v. v\<lparr>re_MetadataSHA256 := x\<rparr>)),
      (''transfer_bytes'', set_uint64 (\<lambda>x v. v\<lparr>re_TransferBytes := x\<rparr>)),
      (''transfer_sha256'', set_string (\<lambda>x v. v\<lparr>re_TransferSHA256 := x\<rparr>)),
      (''batch_count'', set_uint64 (\<lambda>x v. v\<lparr>re_BatchCount := x\<rparr>)),
      (''data_bytes'', set_uint64 (\<lambda>x v. v\<lparr>re_DataBytes := x\<rparr>)),
      (''record_count'', set_uint64 (\<lambda>x v. v\<lparr>re_RecordCount := x\<rparr>))]"

definition zero_receipt :: recorded_receipt where
  "zero_receipt =
     \<lparr>re_Version = [], re_Descriptor = zero_descriptor, re_MetadataBytes = 0, re_MetadataSHA256 = [],
      re_TransferBytes = 0, re_TransferSHA256 = [], re_BatchCount = 0, re_DataBytes = 0,
      re_RecordCount = 0\<rparr>"

definition MarshalRecordedReceipt :: "recorded_receipt \<Rightarrow> receipt_error + bytes" where
  "MarshalRecordedReceipt v =
     bindE (check (receipt_Validate v)) (\<lambda>_.
     let raw = json_print (JObj (receipt_members v)) in
     if length raw + 1 > maxRecordedReceiptBytes then Inl ReSize else Inr (raw @ [CHR 0x0A]))"

definition UnmarshalRecordedReceipt :: "bytes \<Rightarrow> receipt_error + recorded_receipt" where
  "UnmarshalRecordedReceipt raw =
     (if raw = [] \<or> length raw > maxRecordedReceiptBytes then Inl ReSize
      else case decode_struct receipt_field_list zero_receipt raw of
        None \<Rightarrow> Inl ReDecode
      | Some v \<Rightarrow> bindE (check (receipt_Validate v)) (\<lambda>_. Inr v))"

section \<open>The JSON form of a receipt\<close>

lemma transfer_bytes_None:
  "transfer_bytes_error m p t = None \<longleftrightarrow> unat t = 20 + unat m + unat p"
proof -
  have l: "unat m < 2 ^ 64" "unat p < 2 ^ 64" "unat t < 2 ^ 64"
    using unat_lt_2p [of m] unat_lt_2p [of p] unat_lt_2p [of t] by simp_all
  show ?thesis
  proof (cases "m > (- 1) - 20")
    case True
    then have "unat (20 :: uint64) + unat m \<ge> 2 ^ 64" unfolding add_guard by simp
    with True l show ?thesis by (simp add: transfer_bytes_error_def)
  next
    case m: False
    from unat_add_guarded [OF m] have u: "unat (20 + m) = 20 + unat m" by simp
    show ?thesis
    proof (cases "p > (- 1) - (20 + m)")
      case True
      then have "unat (20 + m) + unat p \<ge> 2 ^ 64" unfolding add_guard by simp
      with True m l u show ?thesis by (simp add: transfer_bytes_error_def Let_def)
    next
      case False
      with m unat_add_guarded [OF False] u show ?thesis
        by (simp add: transfer_bytes_error_def Let_def word_unat_eq_iff)
    qed
  qed
qed

lemma double_guard: "(n > (- 1) div 2 \<or> n * 2 \<noteq> a) \<longleftrightarrow> 2 * unat n \<noteq> unat a" for n a :: uint64
proof -
  have "unat ((- 1 :: uint64) div 2) = 9223372036854775807"
    by (simp add: unat_div unsigned_minus_1_eq_mask mask_eq_exp_minus_1)
  then show ?thesis
    using unat_lt_2p [of a] by (auto simp: word_less_nat_alt word_unat_eq_iff unat_word_ariths)
qed

lemma receipt_Validate_None:
  "receipt_Validate v = None \<longleftrightarrow>
     re_Version v = RecordedReceiptVersion \<and> gen_Validate (re_Descriptor v) = None \<and>
     0 < unat (re_MetadataBytes v) \<and> unat (re_MetadataBytes v) \<le> 524288 \<and>
     sha256_text (re_MetadataSHA256 v) \<and> sha256_text (re_TransferSHA256 v) \<and>
     unat (re_TransferBytes v) = 20 + unat (re_MetadataBytes v) +
       unat (gd_EncodedDataBytes (re_Descriptor v)) \<and>
     0 < unat (re_BatchCount v) \<and> 2 * unat (re_BatchCount v) = unat (gd_ArtifactCount (re_Descriptor v)) \<and>
     0 < unat (re_DataBytes v) \<and> unat (re_DataBytes v) \<le> unat (gd_SourceBytes (re_Descriptor v)) \<and>
     0 < unat (re_RecordCount v)"
proof -
  have "unat maxRecordedTransportMetadataBytes = 524288"
    by (simp add: maxRecordedTransportMetadataBytes_def)
  then show ?thesis
    unfolding receipt_Validate_def double_guard
    by (auto simp: transfer_bytes_None validateRecorderSHA256_def sha256_text_lower
        unat_gt_0 word_less_nat_alt not_less)
qed

interpretation receipt_json:
  json_message "\<lambda>v. receipt_Validate v = None" receipt_members receipt_field_list zero_receipt
proof
  fix v assume v: "receipt_Validate v = None"
  have "utf8_Valid RecordedReceiptVersion" by (simp add: RecordedReceiptVersion_def utf8_Valid_ascii)
  with v show "json_wf (JObj (receipt_members v))"
    by (intro json_wf_JObj) (simp add: receipt_members_def receipt_Validate_None json_wfs
        utf8_Valid_ascii descriptor_json_wf sha256_text_utf8)
  show "obj_assign receipt_field_list (receipt_members v) zero_receipt = Some v"
    by (simp add: receipt_members_def receipt_field_list_def find_field_def descriptor_assign
        zero_receipt_def)
qed

lemma receipt_json_size:
  assumes "receipt_Validate v = None"
  shows "length (json_print (JObj (receipt_members v))) + 1 \<le> maxRecordedReceiptBytes"
proof -
  from assms have d: "gen_Validate (re_Descriptor v) = None" and t: "length (re_Version v) \<le> 26"
    and h: "sha256_text (re_MetadataSHA256 v)" "sha256_text (re_TransferSHA256 v)"
    by (auto simp: receipt_Validate_None RecordedReceiptVersion_def)
  show ?thesis
    using length_json_object [of "receipt_members v"] t [THEN length_json_string]
      length_json_uint [of "re_MetadataBytes v"] length_json_uint [of "re_TransferBytes v"]
      length_json_uint [of "re_BatchCount v"] length_json_uint [of "re_DataBytes v"]
      length_json_uint [of "re_RecordCount v"] h [THEN length_json_digest] descriptor_json_size [OF d]
    by (simp add: receipt_members_def maxRecordedReceiptBytes_def del: json_print.simps)
qed

lemma decode_struct_newline:
  assumes "json_wf (JObj ms)"
  shows "decode_struct flds z (json_print (JObj ms) @ [CHR 0x0A]) = decode_struct flds z (json_print (JObj ms))"
proof -
  have "parse_value (Suc (length (json_print (JObj ms)))) (json_print (JObj ms) @ [CHR 0x0A]) =
      Some (JObj ms, [CHR 0x0A])"
    by (rule parse_print [OF assms]) (simp_all add: number_end_def is_digit_def)
  then show ?thesis
    using json_decode_print [OF assms]
    by (simp add: decode_struct_def json_decode_def skip_ws_def json_space_def del: json_print.simps)
qed

lemma Marshal_Unmarshal_receipt:
  assumes "receipt_Validate v = None"
  shows "\<exists>raw. MarshalRecordedReceipt v = Inr raw \<and> UnmarshalRecordedReceipt raw = Inr v"
proof -
  let ?raw = "json_print (JObj (receipt_members v)) @ [CHR 0x0A]"
  have "decode_struct receipt_field_list zero_receipt ?raw = Some v"
    by (simp only: decode_struct_newline [OF receipt_json.wf [OF assms]]
        receipt_json.decode_members [OF assms])
  then show ?thesis
    using assms receipt_json_size [OF assms]
    by (simp add: MarshalRecordedReceipt_def UnmarshalRecordedReceipt_def Let_def del: json_print.simps)
qed

end
