(* ===== verification/FI_Dir.thy ===== *)
theory FI_Dir
  imports Gen_Custody
begin

text \<open>
  Programs of system calls on one directory, for the packages that publish files in it. The
  directory is the one of the custody model: names, inodes, and what is on disk. \<open>cl_env C k\<close>
  is what other processes do before the \<open>k\<close>-th system call, \<open>cl_ok C k\<close> says whether that call
  succeeds, and \<open>cl_write C\<close> is the file's \<^verbatim>\<open>Write\<close> on its contents. Such programs are reasoned
  about with triples that have a postcondition for each way out.
\<close>

section \<open>System calls\<close>

record calls =
  cl_ok :: "nat \<Rightarrow> bool"
  cl_env :: "nat \<Rightarrow> custody_fs \<Rightarrow> custody_fs"
  cl_write :: "bytes write_fn"

type_synonym ('e, 'a) prog = "custody_fs \<Rightarrow> ('e + 'a) \<times> custody_fs"

definition call :: "calls \<Rightarrow> nat \<Rightarrow> 'e \<Rightarrow> ('e, 'a) prog \<Rightarrow> ('e, 'a) prog" where
  "call C k e act fs =
     (let w = cl_env C k fs in if cl_ok C k then act w else (Inl e, w))"

definition do_Lstat :: "'e \<Rightarrow> string \<Rightarrow> ('e, nat \<times> custody_file) prog" where
  "do_Lstat e name fs =
     (case cd_Dir fs name of None \<Rightarrow> (Inl e, fs)
      | Some i \<Rightarrow> (case cd_Files fs i of None \<Rightarrow> (Inl e, fs)
                    | Some f \<Rightarrow> (Inr (i, f), fs)))"

definition do_Stat :: "'e \<Rightarrow> nat \<Rightarrow> ('e, nat \<times> custody_file) prog" where
  "do_Stat e i fs =
     (case cd_Files fs i of None \<Rightarrow> (Inl e, fs) | Some f \<Rightarrow> (Inr (i, f), fs))"

definition do_Remove :: "string \<Rightarrow> ('e, unit) prog" where
  "do_Remove name fs = (Inr (), fs_Remove name fs)"

definition do_Change :: "'e \<Rightarrow> nat \<Rightarrow> (custody_file \<Rightarrow> custody_file) \<Rightarrow> ('e, unit) prog" where
  "do_Change e i h fs =
     (case cd_Files fs i of None \<Rightarrow> (Inl e, fs)
      | Some f \<Rightarrow> (Inr (), fs_Write i (h f) fs))"

text \<open>A call whose error is kept as a value until later.\<close>

definition attempt :: "('e, 'a) prog \<Rightarrow> ('f, 'e + 'a) prog" where
  "attempt m fs = (case m fs of (r, fs') \<Rightarrow> (Inr r, fs'))"

section \<open>Triples\<close>

definition triple ::
  "(custody_fs \<Rightarrow> bool) \<Rightarrow> ('e, 'a) prog \<Rightarrow> ('a \<Rightarrow> custody_fs \<Rightarrow> bool) \<Rightarrow> (custody_fs \<Rightarrow> bool) \<Rightarrow> bool" where
  "triple P m Q E \<longleftrightarrow>
     (\<forall>fs r fs'. P fs \<longrightarrow> m fs = (r, fs') \<longrightarrow> (case r of Inr x \<Rightarrow> Q x fs' | Inl e \<Rightarrow> E fs'))"

lemma triple_bind:
  assumes "triple P m R E" and "\<And>x. triple (R x) (f x) Q E"
  shows "triple P (bindP m f) Q E"
  unfolding triple_def
proof (intro allI impI)
  fix fs r fs'
  assume P: "P fs" and b: "bindP m f fs = (r, fs')"
  obtain q w where m: "m fs = (q, w)" by (cases "m fs")
  with assms(1) P have q: "case q of Inr x \<Rightarrow> R x w | Inl e \<Rightarrow> E w" unfolding triple_def by blast
  show "case r of Inr x \<Rightarrow> Q x fs' | Inl e \<Rightarrow> E fs'"
  proof (cases q)
    case (Inl e)
    with b m q show ?thesis by (auto simp: bindP_def)
  next
    case (Inr x)
    with b m have "f x w = (r, fs')" by (simp add: bindP_def)
    with assms(2) [of x] q Inr show ?thesis unfolding triple_def by auto
  qed
qed

lemma triple_call:
  assumes "triple P act Q E" and "\<And>fs. P fs \<Longrightarrow> P (cl_env C k fs)" and "\<And>fs. P fs \<Longrightarrow> E fs"
  shows "triple P (call C k e act) Q E"
  using assms unfolding triple_def call_def by (auto simp: Let_def split: if_splits)

lemma triple_ret: "(\<And>fs. P fs \<Longrightarrow> Q x fs) \<Longrightarrow> triple P (retP x) Q E"
  by (simp add: triple_def retP_def)

lemma triple_bind_val:
  assumes "triple P m (\<lambda>x fs. P fs \<and> x = v) E" and "triple P (f v) Q E"
  shows "triple P (bindP m f) Q E"
  by (rule triple_bind [OF assms(1)]) (use assms(2) in \<open>auto simp: triple_def\<close>)

lemma triple_bind_stop:
  assumes "\<And>fs. P fs \<Longrightarrow> E fs" and "\<not> b \<Longrightarrow> triple P (f ()) Q E"
  shows "triple P (bindP (stop_if b e) f) Q E"
  using assms by (auto simp: triple_def stop_if_def bindP_def retP_def failP_def)

lemma triple_bind_lift:
  assumes "\<And>fs. P fs \<Longrightarrow> E fs" and "\<And>x. r = Inr x \<Longrightarrow> triple P (f x) Q E"
  shows "triple P (bindP (liftP r) f) Q E"
  using assms by (cases r) (auto simp: triple_def liftP_def bindP_def)

lemma triple_pure: "(b \<Longrightarrow> triple P m Q E) \<Longrightarrow> triple (\<lambda>fs. P fs \<and> b) m Q E"
  by (auto simp: triple_def)

lemma triple_pre: "triple P' m Q E \<Longrightarrow> (\<And>fs. P fs \<Longrightarrow> P' fs) \<Longrightarrow> triple P m Q E"
  by (auto simp: triple_def)

lemma triple_post: "triple P m Q' E \<Longrightarrow> (\<And>x fs. Q' x fs \<Longrightarrow> Q x fs) \<Longrightarrow> triple P m Q E"
  by (fastforce simp: triple_def split: sum.splits)

lemma triple_attempt: "triple P m Q E \<Longrightarrow> triple P (attempt m) (\<lambda>r fs. case r of Inr x \<Rightarrow> Q x fs | Inl e \<Rightarrow> E fs) E'"
  by (auto simp: triple_def attempt_def split: prod.splits)

text \<open>Reads, which change nothing themselves.\<close>

lemma triple_Lstat:
  assumes "\<And>fs. P fs \<Longrightarrow> cd_Dir fs name = Some j \<and> cd_Files fs j = Some f"
  shows "triple P (do_Lstat e name) (\<lambda>x fs. P fs \<and> x = (j, f)) E"
  using assms by (auto simp: triple_def do_Lstat_def split: option.splits)

lemma triple_Stat:
  assumes "\<And>fs. P fs \<Longrightarrow> cd_Files fs j = Some f"
  shows "triple P (do_Stat e j) (\<lambda>x fs. P fs \<and> x = (j, f)) E"
  using assms by (auto simp: triple_def do_Stat_def split: option.splits)

text \<open>One call that keeps a stable assertion.\<close>

lemma triple_skip:
  assumes "\<And>fs. P fs \<Longrightarrow> P (cl_env C k fs)" and "\<And>fs. P fs \<Longrightarrow> E fs"
  shows "triple P (call C k e (retP ())) (\<lambda>_. P) E"
  by (intro triple_call triple_ret assms)

lemma triple_ex: "(\<And>j g. triple (P j g) m Q E) \<Longrightarrow> triple (\<lambda>fs. \<exists>j g. P j g fs) m Q E"
  by (auto simp: triple_def)

section \<open>An undisturbed run\<close>

definition quiet_calls :: calls where
  "quiet_calls = \<lparr>cl_ok = (\<lambda>_. True), cl_env = (\<lambda>_ fs. fs), cl_write = buffer_Write\<rparr>"

definition empty_fs :: custody_fs where
  "empty_fs = \<lparr>cd_Dir = Map.empty, cd_Disk = Map.empty, cd_Files = Map.empty\<rparr>"

end
