(* ===== verification/Receipt_Publish.thy ===== *)
theory Receipt_Publish
  imports Gen_Receipt FI_Dir
begin

text \<open>
  File \<^verbatim>\<open>record_linux.go\<close> of package \<^verbatim>\<open>generationrecorder\<close>: publishing a receipt under its
  deterministic name, as a program of system calls on the directory of receipts.
\<close>

section \<open>Publication\<close>

definition recordedIdentityDomain :: string where
  "recordedIdentityDomain = ''FI-GENERATION-RECORDED-IDENTITY-V1''"

definition recordedObjectName :: "string \<Rightarrow> string \<Rightarrow> string" where
  "recordedObjectName sourceID generationID =
     ''generation-'' @ hex_EncodeToString (Sum256 (recordedIdentityDomain @
       be_PutUint64 (of_nat (length sourceID)) @ sourceID @
       be_PutUint64 (of_nat (length generationID)) @ generationID)) @ ''.record.json''"

definition RecordedReceiptObjectName :: "string \<Rightarrow> string \<Rightarrow> string" where
  "RecordedReceiptObjectName sourceID generationID = recordedObjectName sourceID generationID"

datatype recorded_disposition = RecordedDispositionAlreadyRecorded | RecordedDispositionNew

text \<open>
  The two reads are the \<^verbatim>\<open>io.ReadFull\<close> of the expected length and the one byte behind it; all
  paths close the file.
\<close>

definition compareRecordedReceipt :: "calls \<Rightarrow> nat \<Rightarrow> string \<Rightarrow> bytes \<Rightarrow> (receipt_error, bool) prog" where
  "compareRecordedReceipt C k name expected =
     bindP (call C k (ReSystemCall ''lstat'') (do_Lstat (ReSystemCall ''lstat'') name)) (\<lambda>initial.
     bindP (stop_if (cf_Kind (snd initial) = SymlinkEntry \<or> cf_Kind (snd initial) \<noteq> RegularEntry \<or>
       cf_Perm (snd initial) \<noteq> 256) ReNotReadOnly) (\<lambda>_.
     if length (cf_Content (snd initial)) \<noteq> length expected then retP False
     else bindP (call C (k + 1) (ReSystemCall ''open'') (do_Lstat (ReSystemCall ''lstat'') name)) (\<lambda>fh.
     bindP (call C (k + 2) (ReSystemCall ''stat'') (do_Stat (ReSystemCall ''stat'') (fst fh))) (\<lambda>opened.
     bindP (stop_if (\<not> os_SameFile initial opened) ReChangedAtOpen) (\<lambda>_.
     bindP (call C (k + 3) (ReSystemCall ''read'') (do_Stat (ReSystemCall ''stat'') (fst fh))) (\<lambda>now.
     bindP (liftP (map_err ReShortRead (ReadFull (length expected) (cf_Content (snd now))))) (\<lambda>(actual, _).
     bindP (call C (k + 4) (ReSystemCall ''read'') (do_Stat (ReSystemCall ''stat'') (fst fh))) (\<lambda>now.
     bindP (stop_if (drop (length expected) (cf_Content (snd now)) \<noteq> []) ReTrailing) (\<lambda>_.
     bindP (call C (k + 5) (ReSystemCall ''close'') (retP ())) (\<lambda>_.
     bindP (call C (k + 6) (ReSystemCall ''lstat'') (do_Lstat (ReSystemCall ''lstat'') name)) (\<lambda>final.
     bindP (stop_if (\<not> os_SameFile initial final) ReChanged) (\<lambda>_.
     retP (actual = expected)))))))))))))"

definition syncRecordedDirectory :: "calls \<Rightarrow> nat \<Rightarrow> (receipt_error, unit) prog" where
  "syncRecordedDirectory C k =
     bindP (call C k (ReSystemCall ''open directory'') (retP ())) (\<lambda>_.
     bindP (call C (k + 1) (ReSystemCall ''sync directory'') (\<lambda>fs. (Inr (), syncGenerationCustodyDirectory fs))) (\<lambda>_.
     call C (k + 2) (ReSystemCall ''close directory'') (retP ())))"

definition recorded_provisional_name :: "string \<Rightarrow> bool" where
  "recorded_provisional_name name \<longleftrightarrow>
     HasPrefix name ''.fi-generation-recorded-'' \<and> HasSuffix name ''.open''"

text \<open>\<^verbatim>\<open>os.CreateTemp\<close> takes a new name and a new inode.\<close>

definition do_CreateTemp :: "string \<Rightarrow> nat \<Rightarrow> (receipt_error, unit) prog" where
  "do_CreateTemp tmp i fs =
     (if recorded_provisional_name tmp \<and> cd_Dir fs tmp = None \<and> cd_Files fs i = None
      then (Inr (), fs_Link tmp i (fs_Write i
              \<lparr>cf_Content = [], cf_Perm = 384, cf_Kind = RegularEntry, cf_Synced = False\<rparr> fs))
      else (Inl (ReSystemCall ''create''), fs))"

definition do_WriteAll :: "calls \<Rightarrow> nat \<Rightarrow> bytes \<Rightarrow> (receipt_error, unit) prog" where
  "do_WriteAll C i raw fs =
     (case cd_Files fs i of None \<Rightarrow> (Inl (ReSystemCall ''file''), fs)
      | Some f \<Rightarrow>
          (case writeAll (cl_write C) (cf_Content f) raw of
             (err, content) \<Rightarrow>
               (case err of Some _ \<Rightarrow> Inl (ReSystemCall ''write'') | None \<Rightarrow> Inr (),
                fs_Write i (f\<lparr>cf_Content := content\<rparr>) fs)))"

text \<open>\<^verbatim>\<open>os.Link\<close>: whether the final name was free.\<close>

definition do_Link :: "string \<Rightarrow> string \<Rightarrow> (receipt_error, bool) prog" where
  "do_Link tmp name fs =
     (if cd_Dir fs name \<noteq> None then (Inr False, fs)
      else case cd_Dir fs tmp of None \<Rightarrow> (Inl (ReSystemCall ''link''), fs)
      | Some i \<Rightarrow> (Inr True, fs_Link name i fs))"

text \<open>From the write to the link, with the final name free or not.\<close>

definition publish_provisional :: "calls \<Rightarrow> string \<Rightarrow> nat \<Rightarrow> string \<Rightarrow> bytes \<Rightarrow> (receipt_error, bool) prog" where
  "publish_provisional C tmp i name raw =
     bindP (call C 1 (ReSystemCall ''write'') (do_WriteAll C i raw)) (\<lambda>_.
     bindP (call C 2 (ReSystemCall ''chmod'') (do_Change (ReSystemCall ''file'') i (cf_Perm_update (\<lambda>_. 256)))) (\<lambda>_.
     bindP (call C 3 (ReSystemCall ''sync'') (do_Change (ReSystemCall ''file'') i (cf_Synced_update (\<lambda>_. True)))) (\<lambda>_.
     bindP (call C 4 (ReSystemCall ''close'') (retP ())) (\<lambda>_.
     bindP (call C 5 (ReSystemCall ''lstat'') (do_Lstat (ReSystemCall ''lstat'') tmp)) (\<lambda>info.
     bindP (stop_if (cf_Kind (snd info) = SymlinkEntry \<or> cf_Kind (snd info) \<noteq> RegularEntry \<or>
       cf_Perm (snd info) \<noteq> 256 \<or> length (cf_Content (snd info)) \<noteq> length raw) ReInvariants) (\<lambda>_.
     call C 6 (ReSystemCall ''link'') (do_Link tmp name)))))))"

text \<open>The deferred removal, whose error is ignored.\<close>

definition publish_cleanup :: "calls \<Rightarrow> string \<Rightarrow> (receipt_error + 'a) \<times> custody_fs \<Rightarrow> (receipt_error + 'a) \<times> custody_fs" where
  "publish_cleanup C tmp r =
     (case r of
        (Inl e, fs) \<Rightarrow> (Inl e, snd (call C 30 (ReSystemCall ''remove'') (do_Remove tmp) fs))
      | (Inr x, fs) \<Rightarrow> (Inr x, fs))"

definition publishRecordedReceipt ::
  "calls \<Rightarrow> string \<Rightarrow> nat \<Rightarrow> string \<Rightarrow> bytes \<Rightarrow> (receipt_error, recorded_disposition) prog" where
  "publishRecordedReceipt C tmp i name raw =
     bindP (call C 0 (ReSystemCall ''create'') (do_CreateTemp tmp i)) (\<lambda>_.
     bindP (\<lambda>fs. publish_cleanup C tmp (bindP (publish_provisional C tmp i name raw) (\<lambda>linked.
         if linked then bindP (call C 7 (ReSystemCall ''remove'') (do_Remove tmp)) (\<lambda>_. retP None)
         else bindP (attempt (compareRecordedReceipt C 7 name raw)) (\<lambda>equal.
              bindP (call C 14 (ReSystemCall ''remove'') (do_Remove tmp)) (\<lambda>_. retP (Some equal)))) fs)) (\<lambda>collided.
     bindP (syncRecordedDirectory C 15) (\<lambda>_.
     case collided of
       None \<Rightarrow>
         bindP (compareRecordedReceipt C 18 name raw) (\<lambda>equal.
         bindP (stop_if (\<not> equal) RePublishedChanged) (\<lambda>_. retP RecordedDispositionNew))
     | Some r \<Rightarrow>
         bindP (liftP r) (\<lambda>equal.
         bindP (stop_if (\<not> equal) ReConflict) (\<lambda>_. retP RecordedDispositionAlreadyRecorded)))))"

section \<open>What other processes may do\<close>

text \<open>
  A receipt name is the final name of some generation. Published receipts are read-only,
  synced files; nobody changes or removes them.
\<close>

definition receipt_name :: "string \<Rightarrow> bool" where
  "receipt_name name \<longleftrightarrow> (\<exists>src gen. name = recordedObjectName src gen)"

definition sealed_receipt :: "custody_file \<Rightarrow> bool" where
  "sealed_receipt f \<longleftrightarrow> cf_Kind f = RegularEntry \<and> cf_Perm f = 256 \<and> cf_Synced f"

definition receipts_ok :: "custody_fs \<Rightarrow> bool" where
  "receipts_ok fs \<longleftrightarrow>
     (\<forall>n k. receipt_name n \<and> cd_Dir fs n = Some k \<longrightarrow> (\<exists>f. cd_Files fs k = Some f \<and> sealed_receipt f))"

definition receipts_kept :: "custody_fs \<Rightarrow> custody_fs \<Rightarrow> bool" where
  "receipts_kept fs fs' \<longleftrightarrow>
     (\<forall>n k f. receipt_name n \<and> cd_Dir fs n = Some k \<and> cd_Files fs k = Some f \<longrightarrow>
        cd_Dir fs' n = Some k \<and> cd_Files fs' k = Some f \<and>
        (cd_Disk fs n = Some k \<longrightarrow> cd_Disk fs' n = Some k))"

text \<open>
  What this process relies on: the others keep the published receipts and the state they are
  in, and leave its provisional name and its inode alone.
\<close>

definition others_keep :: "calls \<Rightarrow> string \<Rightarrow> nat \<Rightarrow> bool" where
  "others_keep C tmp i \<longleftrightarrow>
     (\<forall>k fs. let fs' = cl_env C k fs in
        (receipts_ok fs \<longrightarrow> receipts_ok fs') \<and> receipts_kept fs fs' \<and> cd_Dir fs' tmp = cd_Dir fs tmp \<and>
        cd_Files fs' i = cd_Files fs i \<and>
        (\<forall>n. receipt_name n \<longrightarrow> cd_Dir fs' n = Some i \<longrightarrow> cd_Dir fs n = Some i))"

text \<open>The comparison tells whether the file that stays under the name is the expected one.\<close>

lemma triple_compare:
  assumes stable: "\<And>k fs. H fs \<Longrightarrow> H (cl_env C k fs)"
    and held: "\<And>fs. H fs \<Longrightarrow> cd_Dir fs name = Some j \<and> cd_Files fs j = Some f" and E: "\<And>fs. H fs \<Longrightarrow> E fs"
  shows "triple H (compareRecordedReceipt C k name expected)
    (\<lambda>b fs. H fs \<and> (b \<longrightarrow> cf_Content f = expected)) E"
proof -
  have L: "triple H (call C m what (do_Lstat (ReSystemCall ''lstat'') name)) (\<lambda>x fs. H fs \<and> x = (j, f)) E" for m what
    by (intro triple_call triple_Lstat held stable E)
  have S: "triple H (call C m what (do_Stat (ReSystemCall ''stat'') j)) (\<lambda>x fs. H fs \<and> x = (j, f)) E" for m what
    by (intro triple_call triple_Stat) (use held stable E in auto)
  have R: "triple H (call C m what (retP ())) (\<lambda>x fs. H fs \<and> x = ()) E" for m what
    by (intro triple_call triple_ret) (use stable E in auto)
  note B = triple_bind_stop [where P = H and E = E, OF E] and F = triple_bind_lift [where P = H and E = E, OF E]
  let ?Q = "\<lambda>b fs. H fs \<and> (b \<longrightarrow> cf_Content f = expected)"
  have cmp: "actual = cf_Content f" if "ReadFull (length expected) (cf_Content f) = Inr (actual, u)"
    "drop (length expected) (cf_Content f) = []" for actual u
    using that by (auto simp: ReadFull_Inr)
  show ?thesis
    unfolding compareRecordedReceipt_def
    apply (rule triple_bind_val [OF L], rule B, simp)
    apply (simp only: fst_conv snd_conv)
    apply (cases "length (cf_Content f) = length expected", simp_all only: if_True if_False not_True_eq_False not_False_eq_True simp_thms)
     apply (rule triple_bind_val [OF L], simp only: fst_conv snd_conv, rule triple_bind_val [OF S], rule B, simp)
     apply (rule triple_bind_val [OF S], simp only: fst_conv snd_conv, rule F, simp)
     apply (simp only: split_paired_all split_conv)
     apply (rule triple_bind_val [OF S], simp only: fst_conv snd_conv, rule B, simp)
     apply (rule triple_bind_val [OF R], rule triple_bind_val [OF L], rule B, simp)
     apply (rule triple_ret, use cmp in auto)
    apply (rule triple_ret, auto)
    done
qed

section \<open>Publishing\<close>

text \<open>
  The stages of a publication that started on \<open>fs0\<close>: with the provisional file \<open>f\<close>, and with a
  receipt \<open>f\<close> under the final name.
\<close>

definition kept_since :: "custody_fs \<Rightarrow> custody_fs \<Rightarrow> bool" where
  "kept_since fs0 fs \<longleftrightarrow> receipts_ok fs \<and> receipts_kept fs0 fs"

definition provisional :: "custody_fs \<Rightarrow> string \<Rightarrow> nat \<Rightarrow> custody_file \<Rightarrow> custody_fs \<Rightarrow> bool" where
  "provisional fs0 tmp i f fs \<longleftrightarrow>
     kept_since fs0 fs \<and> cd_Dir fs tmp = Some i \<and> cd_Files fs i = Some f \<and>
     (\<forall>n. receipt_name n \<longrightarrow> cd_Dir fs n \<noteq> Some i)"

definition published :: "custody_fs \<Rightarrow> string \<Rightarrow> nat \<Rightarrow> custody_file \<Rightarrow> custody_fs \<Rightarrow> bool" where
  "published fs0 name j f fs \<longleftrightarrow>
     kept_since fs0 fs \<and> cd_Dir fs name = Some j \<and> cd_Files fs j = Some f \<and> sealed_receipt f"

lemma receipts_kept_trans: "receipts_kept a b \<Longrightarrow> receipts_kept b c \<Longrightarrow> receipts_kept a c"
  unfolding receipts_kept_def by meson

lemma receipts_kept_refl: "receipts_kept a a"
  by (simp add: receipts_kept_def)

lemma env_kept:
  "others_keep C tmp i \<Longrightarrow> kept_since fs0 fs \<Longrightarrow> kept_since fs0 (cl_env C k fs)"
  unfolding others_keep_def Let_def kept_since_def using receipts_kept_trans by blast

lemma env_provisional:
  "others_keep C tmp i \<Longrightarrow> provisional fs0 tmp i f fs \<Longrightarrow> provisional fs0 tmp i f (cl_env C k fs)"
  using env_kept [of C tmp i fs0 fs k] unfolding provisional_def others_keep_def Let_def by auto

lemma env_published:
  assumes "others_keep C tmp i" and "receipt_name name" and "published fs0 name j f fs"
  shows "published fs0 name j f (cl_env C k fs)"
proof -
  from assms(1) have "receipts_kept fs (cl_env C k fs)" unfolding others_keep_def Let_def by blast
  with assms env_kept [of C tmp i fs0 fs k] show ?thesis
    unfolding published_def receipts_kept_def by blast
qed

lemma receipt_name_not_tmp: "receipt_name n \<Longrightarrow> recorded_provisional_name tmp \<Longrightarrow> n \<noteq> tmp"
  by (auto simp: receipt_name_def recordedObjectName_def recorded_provisional_name_def HasPrefix_def)

lemma create_prog:
  "triple (kept_since fs0) (do_CreateTemp tmp i)
     (\<lambda>_. provisional fs0 tmp i \<lparr>cf_Content = [], cf_Perm = 384, cf_Kind = RegularEntry, cf_Synced = False\<rparr>)
     (kept_since fs0)"
proof -
  have "provisional fs0 tmp i f (fs_Link tmp i (fs_Write i f fs))"
    if k: "kept_since fs0 fs" and t: "recorded_provisional_name tmp" and n: "cd_Files fs i = None" for fs f
  proof -
    have ok: "\<exists>f. cd_Files fs k = Some f \<and> sealed_receipt f" "k \<noteq> i"
      if "receipt_name m" "cd_Dir fs m = Some k" for m k
      using that k n unfolding kept_since_def receipts_ok_def by force+
    have d: "\<not> receipt_name tmp" using receipt_name_not_tmp [OF _ t] by blast
    let ?fs = "fs_Link tmp i (fs_Write i f fs)"
    have "receipts_ok ?fs" using ok d by (auto simp: receipts_ok_def fs_Link_def fs_Write_def)
    moreover have "receipts_kept fs ?fs"
      using n d by (auto simp: receipts_kept_def fs_Link_def fs_Write_def)
    ultimately have "kept_since fs0 ?fs"
      using k receipts_kept_trans unfolding kept_since_def by blast
    with ok d show ?thesis by (auto simp: provisional_def fs_Link_def fs_Write_def)
  qed
  then show ?thesis by (auto simp: triple_def do_CreateTemp_def)
qed

lemma write_provisional:
  assumes "provisional fs0 tmp i f fs"
  shows "provisional fs0 tmp i g (fs_Write i g fs)"
proof -
  have ok: "\<exists>f. cd_Files fs k = Some f \<and> sealed_receipt f" "k \<noteq> i"
    if "receipt_name m" "cd_Dir fs m = Some k" for m k
    using that assms unfolding provisional_def kept_since_def receipts_ok_def by auto
  have "receipts_ok (fs_Write i g fs)" using ok by (auto simp: receipts_ok_def fs_Write_def)
  moreover have "receipts_kept fs (fs_Write i g fs)"
    using ok(2) by (auto simp: receipts_kept_def fs_Write_def)
  ultimately have "kept_since fs0 (fs_Write i g fs)"
    using assms receipts_kept_trans unfolding kept_since_def provisional_def by blast
  with assms show ?thesis by (auto simp: provisional_def fs_Write_def)
qed

lemma provisional_kept: "provisional fs0 tmp i f fs \<Longrightarrow> kept_since fs0 fs"
  by (simp add: provisional_def)

lemma published_kept: "published fs0 name j f fs \<Longrightarrow> kept_since fs0 fs"
  by (simp add: published_def)

lemma write_prog:
  assumes "io_writer (cl_write C) (\<lambda>s. s)" and "cf_Content f = []"
  shows "triple (provisional fs0 tmp i f) (do_WriteAll C i raw)
    (\<lambda>_. provisional fs0 tmp i (f\<lparr>cf_Content := raw\<rparr>)) (kept_since fs0)"
proof -
  have "cd_Files fs i = Some f" if "provisional fs0 tmp i f fs" for fs
    using that by (simp add: provisional_def)
  then show ?thesis
    using assms(2) io_writer.writeAll_ok [OF assms(1), of "[]" raw]
    by (auto simp: triple_def do_WriteAll_def split: option.splits prod.splits
        intro: provisional_kept write_provisional)
qed

lemma change_prog:
  "triple (provisional fs0 tmp i f) (do_Change (ReSystemCall ''file'') i h) (\<lambda>_. provisional fs0 tmp i (h f)) (kept_since fs0)"
proof -
  have "cd_Files fs i = Some f" if "provisional fs0 tmp i f fs" for fs
    using that by (simp add: provisional_def)
  then show ?thesis
    by (auto simp: triple_def do_Change_def intro: write_provisional)
qed

lemma link_prog:
  assumes "receipt_name name" and "sealed_receipt f"
  shows "triple (provisional fs0 tmp i f) (do_Link tmp name)
    (\<lambda>linked fs. \<exists>j g. published fs0 name j g fs \<and> (linked \<longrightarrow> j = i \<and> g = f)) (kept_since fs0)"
proof -
  have new: "published fs0 name i f (fs_Link name i fs)"
    if p: "provisional fs0 tmp i f fs" and n: "cd_Dir fs name = None" for fs
  proof -
    from p have f: "cd_Files fs i = Some f" and k: "receipts_ok fs" "receipts_kept fs0 fs"
      by (simp_all add: provisional_def kept_since_def)
    have "receipts_ok (fs_Link name i fs)"
      using k(1) f assms(2) by (auto simp: receipts_ok_def fs_Link_def)
    moreover have "receipts_kept fs (fs_Link name i fs)"
      using n by (auto simp: receipts_kept_def fs_Link_def)
    ultimately show ?thesis
      using k(2) receipts_kept_trans f assms(2) by (auto simp: published_def kept_since_def fs_Link_def)
  qed
  have old: "\<exists>j g. published fs0 name j g fs" if "provisional fs0 tmp i f fs" "cd_Dir fs name = Some j" for fs j
    using that assms(1) unfolding provisional_def published_def kept_since_def receipts_ok_def by blast
  show ?thesis
    unfolding triple_def
  proof (intro allI impI)
    fix fs r fs'
    assume p: "provisional fs0 tmp i f fs" and l: "do_Link tmp name fs = (r, fs')"
    from p have "cd_Dir fs tmp = Some i" by (simp add: provisional_def)
    show "case r of Inr linked \<Rightarrow> \<exists>j g. published fs0 name j g fs' \<and> (linked \<longrightarrow> j = i \<and> g = f)
      | Inl e \<Rightarrow> kept_since fs0 fs'"
    proof (cases "cd_Dir fs name")
      case None
      with \<open>cd_Dir fs tmp = Some i\<close> l new [OF p] show ?thesis by (auto simp: do_Link_def)
    next
      case (Some k)
      with l have "r = Inr False" "fs' = fs" by (auto simp: do_Link_def)
      with old [OF p Some] show ?thesis by simp
    qed
  qed
qed

lemma remove_published:
  assumes "recorded_provisional_name tmp" and "receipt_name name" and "published fs0 name j f fs"
  shows "published fs0 name j f (fs_Remove tmp fs)"
  using assms receipt_name_not_tmp [OF _ assms(1)]
  by (auto simp: published_def kept_since_def receipts_ok_def receipts_kept_def fs_Remove_def)

lemma remove_kept:
  assumes "recorded_provisional_name tmp" and "kept_since fs0 fs"
  shows "kept_since fs0 (fs_Remove tmp fs)"
  using assms(2) receipt_name_not_tmp [OF _ assms(1)]
  by (auto simp: kept_since_def receipts_ok_def receipts_kept_def fs_Remove_def)

text \<open>A receipt whose name is on disk.\<close>

definition durable_receipt :: "custody_fs \<Rightarrow> string \<Rightarrow> nat \<Rightarrow> custody_file \<Rightarrow> custody_fs \<Rightarrow> bool" where
  "durable_receipt fs0 name j f fs \<longleftrightarrow> published fs0 name j f fs \<and> cd_Disk fs name = Some j"

lemma sync_durable:
  assumes "published fs0 name j f fs"
  shows "durable_receipt fs0 name j f (syncGenerationCustodyDirectory fs)"
  using assms
  by (auto simp: durable_receipt_def published_def kept_since_def receipts_ok_def receipts_kept_def
      syncGenerationCustodyDirectory_def)

lemma env_durable:
  assumes "others_keep C tmp i" and "receipt_name name" and "durable_receipt fs0 name j f fs"
  shows "durable_receipt fs0 name j f (cl_env C k fs)"
proof -
  from assms(1) have "receipts_kept fs (cl_env C k fs)" unfolding others_keep_def Let_def by blast
  with assms env_published [OF assms(1,2), of fs0 j f fs k] show ?thesis
    unfolding durable_receipt_def published_def receipts_kept_def by blast
qed

lemma provisional_prog:
  fixes raw :: bytes
  assumes env: "others_keep C tmp i" and wr: "io_writer (cl_write C) (\<lambda>s. s)" and name: "receipt_name name"
  defines "f0 \<equiv> \<lparr>cf_Content = [], cf_Perm = 384, cf_Kind = RegularEntry, cf_Synced = False\<rparr>"
    and "f1 \<equiv> \<lparr>cf_Content = raw, cf_Perm = 256, cf_Kind = RegularEntry, cf_Synced = True\<rparr>"
  shows "triple (provisional fs0 tmp i f0) (publish_provisional C tmp i name raw)
    (\<lambda>linked fs. \<exists>j g. published fs0 name j g fs \<and> (linked \<longrightarrow> j = i \<and> g = f1)) (kept_since fs0)"
proof -
  let ?p = "provisional fs0 tmp i"
  note st = env_provisional [OF env] and k = provisional_kept
  have f: "cf_Synced_update (\<lambda>_. True) (cf_Perm_update (\<lambda>_. 256) (f0\<lparr>cf_Content := raw\<rparr>)) = f1"
    by (simp add: f0_def f1_def)
  have w: "triple (?p f0) (call C 1 (ReSystemCall ''write'') (do_WriteAll C i raw)) (\<lambda>_. ?p (f0\<lparr>cf_Content := raw\<rparr>))
      (kept_since fs0)"
    by (intro triple_call write_prog [OF wr] st k) (simp_all add: f0_def)
  have c: "triple (?p g) (call C m what (do_Change (ReSystemCall ''file'') i h)) (\<lambda>_. ?p (h g)) (kept_since fs0)" for g m what h
    by (intro triple_call change_prog st k)
  have l: "triple (?p f1) (call C 5 (ReSystemCall ''lstat'') (do_Lstat (ReSystemCall ''lstat'') tmp)) (\<lambda>x fs. ?p f1 fs \<and> x = (i, f1)) (kept_since fs0)"
    by (intro triple_call triple_Lstat st k) (auto simp: provisional_def)
  have n: "triple (?p f1) (call C 6 (ReSystemCall ''link'') (do_Link tmp name))
      (\<lambda>linked fs. \<exists>j g. published fs0 name j g fs \<and> (linked \<longrightarrow> j = i \<and> g = f1)) (kept_since fs0)"
    by (intro triple_call link_prog name st k) (simp_all add: f1_def sealed_receipt_def)
  show ?thesis
    unfolding publish_provisional_def
    by (rule triple_bind [OF w], rule triple_bind [OF c], rule triple_bind [OF c], unfold f,
        rule triple_bind, rule triple_skip, erule st, erule k, rule triple_bind_val [OF l],
        rule triple_bind_stop, erule k, rule n)
qed

lemma sync_prog:
  assumes env: "others_keep C tmp i" and name: "receipt_name name"
  shows "triple (published fs0 name j f) (syncRecordedDirectory C k) (\<lambda>_. durable_receipt fs0 name j f)
    (kept_since fs0)"
proof -
  note st = env_published [OF env name] and k = published_kept
  note sd = env_durable [OF env name]
  have kd: "durable_receipt fs0 name j f fs \<Longrightarrow> kept_since fs0 fs" for fs
    by (simp add: durable_receipt_def published_def)
  have s: "triple (published fs0 name j f)
      (call C m what (\<lambda>fs. (Inr (), syncGenerationCustodyDirectory fs))) (\<lambda>_. durable_receipt fs0 name j f)
      (kept_since fs0)" for m what
    by (intro triple_call st k) (auto simp: triple_def intro: sync_durable)
  show ?thesis
    unfolding syncRecordedDirectory_def
    by (rule triple_bind, rule triple_skip, erule st, erule k, rule triple_bind [OF s],
        rule triple_skip, erule sd, erule kd)
qed

lemma remove_prog:
  assumes env: "others_keep C tmp i" and name: "receipt_name name" and tmp: "recorded_provisional_name tmp"
  shows "triple (published fs0 name j f) (call C k what (do_Remove tmp)) (\<lambda>_. published fs0 name j f)
    (kept_since fs0)"
  by (intro triple_call env_published [OF env name] published_kept)
    (auto simp: triple_def do_Remove_def intro: remove_published [OF tmp name])

lemma cleanup_prog:
  assumes env: "others_keep C tmp i" and tmp: "recorded_provisional_name tmp"
    and m: "triple P m Q (kept_since fs0)"
  shows "triple P (\<lambda>fs. publish_cleanup C tmp (m fs)) Q (kept_since fs0)"
proof -
  have "kept_since fs0 (snd (call C 30 (ReSystemCall ''remove'') (do_Remove tmp) fs))" if "kept_since fs0 fs" for fs
    using env_kept [OF env that] remove_kept [OF tmp]
    by (auto simp: call_def Let_def do_Remove_def)
  then show ?thesis
    using m unfolding triple_def publish_cleanup_def by (fastforce split: prod.splits sum.splits)
qed

lemma compare_prog:
  assumes env: "others_keep C tmp i" and name: "receipt_name name"
  shows "triple (published fs0 name j f) (compareRecordedReceipt C k name raw)
      (\<lambda>b fs. published fs0 name j f fs \<and> (b \<longrightarrow> cf_Content f = raw)) (published fs0 name j f)"
    and "triple (durable_receipt fs0 name j f) (compareRecordedReceipt C k name raw)
      (\<lambda>b fs. durable_receipt fs0 name j f fs \<and> (b \<longrightarrow> cf_Content f = raw)) (kept_since fs0)"
proof -
  show "triple (published fs0 name j f) (compareRecordedReceipt C k name raw)
      (\<lambda>b fs. published fs0 name j f fs \<and> (b \<longrightarrow> cf_Content f = raw)) (published fs0 name j f)"
    by (rule triple_compare [where j = j], erule env_published [OF env name]) (simp_all add: published_def)
  show "triple (durable_receipt fs0 name j f) (compareRecordedReceipt C k name raw)
      (\<lambda>b fs. durable_receipt fs0 name j f fs \<and> (b \<longrightarrow> cf_Content f = raw)) (kept_since fs0)"
    by (rule triple_compare [where j = j], erule env_durable [OF env name])
      (simp_all add: durable_receipt_def published_def)
qed

text \<open>The whole publication, on every path.\<close>

lemma publish_prog:
  assumes env: "others_keep C tmp i" and wr: "io_writer (cl_write C) (\<lambda>s. s)" and name: "receipt_name name"
  shows "triple (kept_since fs0) (publishRecordedReceipt C tmp i name raw)
    (\<lambda>_ fs. \<exists>j f. durable_receipt fs0 name j f fs \<and> cf_Content f = raw) (kept_since fs0)"
proof (cases "recorded_provisional_name tmp")
  case False
  then have "call C 0 (ReSystemCall ''create'') (do_CreateTemp tmp i) fs = (Inl e, cl_env C 0 fs)"
    if "e = ReSystemCall ''create''" for fs e
    using that by (simp add: call_def do_CreateTemp_def Let_def)
  with env_kept [OF env] show ?thesis
    by (auto simp: triple_def publishRecordedReceipt_def bindP_def)
next
  case tmp: True
  let ?E = "kept_since fs0" and ?pub = "published fs0 name" and ?dur = "durable_receipt fs0 name"
  let ?f = "\<lparr>cf_Content = raw, cf_Perm = 256, cf_Kind = RegularEntry, cf_Synced = True\<rparr>"
  have rm: "triple (?pub j g) (call C m what (do_Remove tmp)) (\<lambda>_. ?pub j g) ?E" for j g m what
    by (rule remove_prog [OF env name tmp])
  have cmp: "triple (?pub j g) (attempt (compareRecordedReceipt C m name raw))
      (\<lambda>r fs. ?pub j g fs \<and> (r = Inr True \<longrightarrow> cf_Content g = raw)) ?E" for j g m
    by (rule triple_post [OF triple_attempt [OF compare_prog(1) [OF env name]]]) (auto split: sum.splits)
  define R where "R = (\<lambda>(collided :: (receipt_error + bool) option) fs. \<exists>j g. ?pub j g fs \<and>
    (case collided of None \<Rightarrow> True | Some r \<Rightarrow> r = Inr True \<longrightarrow> cf_Content g = raw))"
  have linked: "triple (?pub i ?f) (bindP (call C 7 (ReSystemCall ''remove'') (do_Remove tmp)) (\<lambda>_. retP None)) R ?E"
    by (rule triple_bind [OF rm], rule triple_ret) (auto simp: R_def)
  have collided: "triple (?pub j g) (bindP (attempt (compareRecordedReceipt C 7 name raw)) (\<lambda>equal.
      bindP (call C 14 (ReSystemCall ''remove'') (do_Remove tmp)) (\<lambda>_. retP (Some equal)))) R ?E" for j g
    by (rule triple_bind [OF cmp], rule triple_pure, rule triple_bind [OF rm], rule triple_ret)
      (auto simp: R_def)
  have inner: "triple (provisional fs0 tmp i \<lparr>cf_Content = [], cf_Perm = 384, cf_Kind = RegularEntry, cf_Synced = False\<rparr>)
    (bindP (publish_provisional C tmp i name raw) (\<lambda>linked.
         if linked then bindP (call C 7 (ReSystemCall ''remove'') (do_Remove tmp)) (\<lambda>_. retP None)
         else bindP (attempt (compareRecordedReceipt C 7 name raw)) (\<lambda>equal.
              bindP (call C 14 (ReSystemCall ''remove'') (do_Remove tmp)) (\<lambda>_. retP (Some equal))))) R ?E"
    by (rule triple_bind [OF provisional_prog [OF env wr name]], rule triple_ex, rule triple_pure)
      (auto intro: linked collided)
  have new: "triple (?dur j g) (bindP (compareRecordedReceipt C 18 name raw) (\<lambda>equal.
      bindP (stop_if (\<not> equal) RePublishedChanged) (\<lambda>_. retP RecordedDispositionNew)))
      (\<lambda>_ fs. \<exists>j f. ?dur j f fs \<and> cf_Content f = raw) ?E" for j g
    by (rule triple_bind [OF compare_prog(2) [OF env name]], rule triple_pure, rule triple_bind_stop,
        simp add: durable_receipt_def published_def, rule triple_ret) auto
  have old: "triple (?dur j g) (bindP (liftP r) (\<lambda>equal. bindP (stop_if (\<not> equal) ReConflict)
        (\<lambda>_. retP RecordedDispositionAlreadyRecorded)))
      (\<lambda>_ fs. \<exists>j f. ?dur j f fs \<and> cf_Content f = raw) ?E"
    if "r = Inr True \<longrightarrow> cf_Content g = raw" for j g r
    by (rule triple_bind_lift, simp add: durable_receipt_def published_def, rule triple_bind_stop,
        simp add: durable_receipt_def published_def, rule triple_ret) (use that in auto)
  have last: "triple (?dur j g) (case collided of
       None \<Rightarrow> bindP (compareRecordedReceipt C 18 name raw) (\<lambda>equal.
         bindP (stop_if (\<not> equal) RePublishedChanged) (\<lambda>_. retP RecordedDispositionNew))
     | Some r \<Rightarrow> bindP (liftP r) (\<lambda>equal.
         bindP (stop_if (\<not> equal) ReConflict) (\<lambda>_. retP RecordedDispositionAlreadyRecorded)))
      (\<lambda>_ fs. \<exists>j f. ?dur j f fs \<and> cf_Content f = raw) ?E"
    if "case collided of None \<Rightarrow> True | Some r \<Rightarrow> r = Inr True \<longrightarrow> cf_Content g = raw" for collided j g
    using new [of j g] old [of _ g j] that by (cases collided) simp_all
  show ?thesis
    unfolding publishRecordedReceipt_def
    by (rule triple_bind [OF triple_call [OF create_prog]], erule env_kept [OF env], assumption,
        rule triple_bind [OF cleanup_prog [OF env tmp inner]], unfold R_def, rule triple_ex, rule triple_pure,
        rule triple_bind [OF sync_prog [OF env name]], rule last)
qed

text \<open>
  C5: Publishing a receipt. Whichever of the system calls fail and whatever other processes do,
  as long as they keep published receipts and leave this process's provisional file alone: a
  receipt that was published before is still there unchanged, on success and on every error
  path; and on success, new or already recorded, the read-only synced file under the final name
  holds exactly these bytes and its name is on disk.
\<close>

theorem recorded_receipt_is_durable:
  assumes "others_keep C tmp i" and "io_writer (cl_write C) (\<lambda>s. s)" and "receipts_ok fs"
    and "publishRecordedReceipt C tmp i (recordedObjectName src gen) raw fs = (r, fs')"
  shows "receipts_ok fs' \<and> receipts_kept fs fs' \<and>
    (\<forall>disposition. r = Inr disposition \<longrightarrow>
      (\<exists>j f. cd_Dir fs' (recordedObjectName src gen) = Some j \<and> cd_Disk fs' (recordedObjectName src gen) = Some j \<and>
         cd_Files fs' j = Some f \<and> cf_Content f = raw \<and> sealed_receipt f))"
proof -
  have n: "receipt_name (recordedObjectName src gen)" by (auto simp: receipt_name_def)
  have k: "kept_since fs fs" using assms(3) by (simp add: kept_since_def receipts_kept_refl)
  from publish_prog [OF assms(1,2) n, of fs raw] k assms(4) show ?thesis
    unfolding triple_def
    by (cases r) (fastforce simp: durable_receipt_def published_def kept_since_def)+
qed

lemma quiet_keeps: "others_keep quiet_calls tmp i"
  by (simp add: others_keep_def quiet_calls_def receipts_kept_refl)

lemma quiet_writer: "io_writer (cl_write quiet_calls) (\<lambda>s. s)"
  using buffer.io_writer_axioms by (simp add: quiet_calls_def)

text \<open>Alone and without a failing call, the receipt is published as new.\<close>

lemma quiet_publish:
  assumes "receipt_name n"
  shows "\<exists>fs'. publishRecordedReceipt quiet_calls ''.fi-generation-recorded-1.open'' 0 n raw empty_fs =
    (Inr RecordedDispositionNew, fs')"
proof -
  let ?tmp = "''.fi-generation-recorded-1.open''"
  have t: "recorded_provisional_name ?tmp" by (simp add: recorded_provisional_name_def HasPrefix_def HasSuffix_def)
  have "n \<noteq> ?tmp" by (rule receipt_name_not_tmp [OF assms t])
  with t show ?thesis
    by (auto simp: publishRecordedReceipt_def publish_provisional_def compareRecordedReceipt_def
        syncRecordedDirectory_def publish_cleanup_def call_def quiet_calls_def empty_fs_def do_CreateTemp_def
        do_WriteAll_def do_Change_def do_Lstat_def do_Link_def do_Remove_def do_Stat_def fs_Link_def fs_Write_def
        fs_Remove_def syncGenerationCustodyDirectory_def bindP_def retP_def stop_if_def liftP_def os_SameFile_def
        ReadFull_def)
qed

lemma empty_receipts: "receipts_ok empty_fs"
  by (simp add: receipts_ok_def empty_fs_def)

theorem recorded_receipt_is_durable_witness:
  "\<exists>fs' j. publishRecordedReceipt quiet_calls ''.fi-generation-recorded-1.open'' 0
       (recordedObjectName ''s'' ''g'') ''receipt'' empty_fs = (Inr RecordedDispositionNew, fs') \<and>
     cd_Disk fs' (recordedObjectName ''s'' ''g'') = Some j"
proof -
  have "receipt_name (recordedObjectName ''s'' ''g'')" by (auto simp: receipt_name_def)
  from quiet_publish [OF this] obtain fs' where p: "publishRecordedReceipt quiet_calls
      ''.fi-generation-recorded-1.open'' 0 (recordedObjectName ''s'' ''g'') ''receipt'' empty_fs =
      (Inr RecordedDispositionNew, fs')" by blast
  with recorded_receipt_is_durable [OF quiet_keeps quiet_writer empty_receipts p] show ?thesis by blast
qed

end
