(* ===== verification/Gen_Record.thy ===== *)
theory Gen_Record
  imports Receipt_Publish
begin

text \<open>
  Package \<^verbatim>\<open>generationrecorder\<close>: the three ways to a receipt. \<^verbatim>\<open>RecordCanonicalDurably\<close> reads a
  canonical stream, \<^verbatim>\<open>RecordCustodyDurably\<close> a custody object whose result the receiver still
  has, \<^verbatim>\<open>RecordDiscoveredCustodyDurably\<close> one that a restart found in the custody root.
\<close>

section \<open>Configuration and results\<close>

record durable_config =
  du_Root :: custody_root
  du_MaxManifestBytes :: uint64

record durable_result =
  dr_Disposition :: recorded_disposition
  dr_Receipt :: recorded_receipt
  dr_ReceiptBytes :: uint64
  dr_ReceiptPath :: string
  dr_ReceiptSHA256 :: string
  dr_Semantic :: recorder_result

definition validateDurableConfig :: "durable_config \<Rightarrow> receipt_error option" where
  "validateDurableConfig c =
     (let root = du_Root c; clean = filepath_Clean (rt_RootDir root) in
      first_err
       [map_option ReConfig (recorder_validateConfig (du_MaxManifestBytes c)),
        fail_if (rt_RootDir root = []) ReRootRequired,
        fail_if (\<not> filepath_IsAbs (rt_RootDir root)) ReRootNotAbsolute,
        fail_if (rt_Resolved root = None) ReResolveRoot,
        fail_if (rt_Resolved root \<noteq> Some clean) ReRootSymlinks,
        fail_if (rt_Kind root = None) ReInspectRoot,
        fail_if (rt_Kind root = Some SymlinkEntry) ReRootIsSymlink,
        fail_if (rt_Kind root \<noteq> Some DirectoryEntry) ReRootNotDirectory,
        fail_if (and (rt_Perm root) 18 \<noteq> 0) ReRootWritable])"

section \<open>Recording\<close>

definition publishRecordedSemanticResult ::
  "calls \<Rightarrow> string \<Rightarrow> nat \<Rightarrow> transfer_result \<Rightarrow> recorder_result \<Rightarrow> durable_config \<Rightarrow> (receipt_error, durable_result) prog" where
  "publishRecordedSemanticResult C tmp i transfer semantic config =
     bindP (liftP (recordedReceiptFromResult transfer semantic)) (\<lambda>receipt.
     bindP (liftP (MarshalRecordedReceipt receipt)) (\<lambda>raw.
     let name = recordedObjectName (gd_SourceID (re_Descriptor receipt))
                  (gd_GenerationID (re_Descriptor receipt)) in
     bindP (publishRecordedReceipt C tmp i name raw) (\<lambda>disposition.
     retP \<lparr>dr_Disposition = disposition, dr_Receipt = receipt, dr_ReceiptBytes = of_nat (length raw),
           dr_ReceiptPath = filepath_Join (rt_RootDir (du_Root config)) name,
           dr_ReceiptSHA256 = hex_EncodeToString (Sum256 raw), dr_Semantic = semantic\<rparr>)))"

text \<open>
  The tee counts and hashes all that was read; its counter refuses to wrap. The one read behind
  the last artifact must find the end.
\<close>

definition canonical_checked ::
  "bytes \<Rightarrow> transfer_result \<Rightarrow> durable_config \<Rightarrow> receipt_error + recorder_result" where
  "canonical_checked s transfer config =
     (let d = tr_Descriptor transfer in
      bindE (check (validateDurableConfig config)) (\<lambda>_.
      bindE (check (validateTransferResult transfer)) (\<lambda>_.
      bindE (map_err ReSemantic (ValidateCanonical s d (du_MaxManifestBytes config))) (\<lambda>(semantic, extra).
      if extra \<noteq> [] then Inl ReCanonicalTrailing
      else if length s \<ge> 2 ^ 64 then Inl ReCanonicalOverflow
      else if of_nat (length s) \<noteq> gd_CanonicalBytes d then Inl ReCanonicalBytes
      else if hex_EncodeToString (Sum256 s) \<noteq> gd_CanonicalSHA256 d then Inl ReCanonicalSHA256
      else Inr semantic))))"

definition RecordCanonicalDurably ::
  "calls \<Rightarrow> string \<Rightarrow> nat \<Rightarrow> bytes \<Rightarrow> transfer_result \<Rightarrow> durable_config \<Rightarrow> (receipt_error, durable_result) prog" where
  "RecordCanonicalDurably C tmp i s transfer config =
     bindP (liftP (canonical_checked s transfer config)) (\<lambda>semantic.
     publishRecordedSemanticResult C tmp i transfer semantic config)"

text \<open>
  \<open>fs0\<close>, \<open>fs1\<close> and \<open>fs2\<close> are the custody root as the read of the object sees it; the receipts are
  in a directory of their own.
\<close>

definition RecordCustodyDurably ::
  "x509_lib \<Rightarrow> zstd_decoder \<Rightarrow> calls \<Rightarrow> string \<Rightarrow> nat \<Rightarrow> custody_result \<Rightarrow> custody_root \<Rightarrow> receive_config
     \<Rightarrow> custody_fs \<Rightarrow> custody_fs \<Rightarrow> custody_fs \<Rightarrow> bool \<Rightarrow> durable_config \<Rightarrow> (receipt_error, durable_result) prog" where
  "RecordCustodyDurably L Z C tmp i custody root c fs0 fs1 fs2 okClose config =
     bindP (liftP (
       bindE (check (validateDurableConfig config)) (\<lambda>_.
       bindE (map_err ReSemantic (newValidator (tr_Descriptor (cr_Transfer custody)) (du_MaxManifestBytes config)))
         (\<lambda>state.
       bindE (map_err ReReadCustody (ReadDurableCustodyArtifacts L Z (Some consumeArtifact) state custody root c
         fs0 fs1 fs2 okClose)) (\<lambda>(transfer, state').
       bindE (map_err ReSemantic (validator_result state' (tr_Descriptor transfer)
         (gd_SourceBytes (tr_Descriptor transfer)))) (\<lambda>semantic.
       Inr (transfer, semantic))))))) (\<lambda>(transfer, semantic).
     publishRecordedSemanticResult C tmp i transfer semantic config)"

text \<open>The factory makes one validator for the descriptor that the object was found to hold.\<close>

definition recorder_factory ::
  "uint64 \<Rightarrow> generation_descriptor \<Rightarrow> recorder_error + (validator, recorder_error) artifact_handler option \<times> validator" where
  "recorder_factory maximum d = bindE (newValidator d maximum) (\<lambda>st. Inr (Some consumeArtifact, st))"

definition RecordDiscoveredCustodyDurably ::
  "x509_lib \<Rightarrow> zstd_decoder \<Rightarrow> calls \<Rightarrow> string \<Rightarrow> nat \<Rightarrow> discovered_custody \<Rightarrow> custody_root \<Rightarrow> receive_config
     \<Rightarrow> custody_fs \<Rightarrow> custody_fs \<Rightarrow> custody_fs \<Rightarrow> bool \<Rightarrow> bool \<Rightarrow> durable_config \<Rightarrow> (receipt_error, durable_result) prog" where
  "RecordDiscoveredCustodyDurably L Z C tmp i discovered root c fs0 fs1 fs2 okSeek okClose config =
     bindP (liftP (
       bindE (check (validateDurableConfig config)) (\<lambda>_.
       bindE (map_err ReReadCustody (ReadDiscoveredDurableCustodyArtifacts L Z
         (Some (recorder_factory (du_MaxManifestBytes config))) discovered root c fs0 fs1 fs2 okSeek okClose))
         (\<lambda>(custody, state).
       let d = tr_Descriptor (cr_Transfer custody) in
       bindE (map_err ReSemantic (validator_result state d (gd_SourceBytes d))) (\<lambda>semantic.
       Inr (cr_Transfer custody, semantic)))))) (\<lambda>(transfer, semantic).
     publishRecordedSemanticResult C tmp i transfer semantic config)"

section \<open>What a receipt says\<close>

text \<open>
  The receipt \<open>v\<close> is true of the custody bytes \<open>s\<close>: they are one validated transfer, which the
  receipt identifies, and its decoded payload is nothing but batches, whose number, bytes and
  records the receipt states.
\<close>

definition receipt_true :: "x509_lib \<Rightarrow> zstd_decoder \<Rightarrow> uint64 \<Rightarrow> bytes \<Rightarrow> recorded_receipt \<Rightarrow> bool" where
  "receipt_true L Z maximum s v \<longleftrightarrow>
     (\<exists>m p w z bs r. s = transfer_frame m p \<and> UnmarshalSignedGeneration L m = Inr w \<and>
        gs_Descriptor w = re_Descriptor v \<and> unat (re_MetadataBytes v) = length m \<and>
        re_MetadataSHA256 v = hex_EncodeToString (Sum256 m) \<and> unat (re_TransferBytes v) = length s \<and>
        re_TransferSHA256 v = hex_EncodeToString (Sum256 s) \<and> Z p = Some z \<and>
        recorded_as (re_Descriptor v) maximum (zr_Decoded z) r bs \<and>
        unat (re_BatchCount v) = length bs \<and> unat (re_DataBytes v) = batches_bytes bs \<and>
        unat (re_RecordCount v) = batches_records bs)"

lemma receipt_from_result:
  assumes "recordedReceiptFromResult r sem = Inr v"
  shows "receipt_Validate v = None" and "re_Descriptor v = tr_Descriptor r"
    and "re_MetadataBytes v = tr_MetadataBytes r" and "re_MetadataSHA256 v = tr_MetadataSHA256 r"
    and "re_TransferBytes v = tr_TransferBytes r" and "re_TransferSHA256 v = tr_TransferSHA256 r"
    and "re_BatchCount v = rr_BatchCount sem" and "re_DataBytes v = rr_DataBytes sem"
    and "re_RecordCount v = rr_RecordCount sem"
  using assms by (auto simp: recordedReceiptFromResult_def Let_def split: if_splits)

lemma receipt_true_of:
  assumes v: "readValidatedTransfer L Z (Some consumeArtifact) st s offer c = Inr (r, [], st')"
    and new: "newValidator (go_Descriptor offer) maximum = Inr st"
    and res: "validator_result st' (tr_Descriptor r) (gd_SourceBytes (tr_Descriptor r)) = Inr sem"
    and rec: "recordedReceiptFromResult r sem = Inr receipt"
  shows "receipt_true L Z maximum s receipt"
proof -
  let ?d = "go_Descriptor offer"
  from validated_transfer [OF v] obtain m p w z where s: "s = transfer_frame m p"
    and r: "r = result_of ?d m p" and um: "UnmarshalSignedGeneration L m = Inr w" "gs_Descriptor w = ?d"
    and lp: "length p = unat (gd_EncodedDataBytes ?d)"
      "hex_EncodeToString (Sum256 p) = gd_EncodedDataSHA256 ?d" and z: "Z p = Some z"
    and read: "ReadCanonicalArtifacts (Some consumeArtifact) st (zr_Decoded z) ?d =
      Inr (gd_SourceBytes ?d, [], st')" by auto
  have d: "tr_Descriptor r = ?d" by (simp add: r result_of_def)
  from s r um lp d have t: "transfer_ok L s r" unfolding transfer_ok_def by metis
  have m: "length m \<le> 524288"
    using um(1) by (auto simp: UnmarshalSignedGeneration_def maxSignedGenerationMetadataBytes_def
        split: if_splits)
  obtain bs where bs: "recorded_as ?d maximum (zr_Decoded z) sem bs"
    using validated_recorded [OF new, of "zr_Decoded z" "[]"] read res d by auto
  note R = receipt_from_result [OF rec]
  have "tr_MetadataBytes r = of_nat (length m)" "tr_MetadataSHA256 r = hex_EncodeToString (Sum256 m)"
    by (simp_all add: r result_of_def)
  then have "unat (re_MetadataBytes receipt) = length m" "re_MetadataSHA256 receipt = hex_EncodeToString (Sum256 m)"
    using m R by (simp_all add: unat_of_nat_small)
  moreover have "unat (re_TransferBytes receipt) = length s" "re_TransferSHA256 receipt = hex_EncodeToString (Sum256 s)"
    using transfer_ok_length [OF t] R by simp_all
  moreover have "unat (re_BatchCount receipt) = length bs" "unat (re_DataBytes receipt) = batches_bytes bs"
    "unat (re_RecordCount receipt) = batches_records bs"
    using bs R by (simp_all add: recorded_as_def)
  ultimately show ?thesis
    using s um z bs R(2) d unfolding receipt_true_def by metis
qed

text \<open>Nothing stops a validated generation from getting its receipt.\<close>

lemma transfer_ok_recordable:
  assumes "transfer_ok L s r"
  shows "validateTransferResult r = None"
proof -
  from assms obtain m p where s: "s = transfer_frame m p" and r: "r = result_of (tr_Descriptor r) m p"
    and d: "gen_Validate (tr_Descriptor r) = None"
    and m: "m \<noteq> []" "length m \<le> maxSignedGenerationMetadataBytes" and p: "length p < 2 ^ 63"
    by (rule transfer_ok_parts)
  note P = transfer_ok_offer(2,3) [OF assms]
  have f: "tr_MetadataBytes r = of_nat (length m)" "tr_MetadataSHA256 r = hex_EncodeToString (Sum256 m)"
    "tr_PayloadBytes r = of_nat (length p)"
    by (subst r, simp add: result_of_def)+
  have um: "unat (tr_MetadataBytes r) = length m" "unat (tr_PayloadBytes r) = length p"
    using m(2) p by (simp_all add: f maxSignedGenerationMetadataBytes_def unat_of_nat_small)
  have "tr_MetadataBytes r \<noteq> 0" "\<not> tr_MetadataBytes r > maxRecordedTransportMetadataBytes"
    using m um by (auto simp: maxSignedGenerationMetadataBytes_def maxRecordedTransportMetadataBytes_def
        word_less_nat_alt)
  moreover have "sha256_text (tr_MetadataSHA256 r)" "sha256_text (tr_TransferSHA256 r)"
    using f transfer_ok_length(3) [OF assms] by simp_all
  moreover have "unat (tr_TransferBytes r) = 20 + unat (tr_MetadataBytes r) + unat (tr_PayloadBytes r)"
    using um transfer_ok_length(1) [OF assms] by (simp add: s transfer_frame_length)
  ultimately show ?thesis
    using d P by (simp add: validateTransferResult_def transfer_bytes_None validateRecorderSHA256_def
        sha256_text_lower)
qed

lemma batches_counts:
  assumes "list_all (batch_ok maximum) bs" and "bs \<noteq> []"
  shows "0 < batches_bytes bs" and "0 < batches_records bs"
proof -
  obtain b c v m es where bs: "bs = (b, c, v, m) # es" using assms(2) by (cases bs) auto
  with assms(1) have "complete_lines c" by simp
  then have c: "c \<noteq> []" "last c = CHR 0x0A" by (simp_all add: complete_lines_def)
  then have "CHR 0x0A \<in> set c" using last_in_set by metis
  then have "0 < count_newlines c" by (force simp: count_newlines_def filter_empty_conv)
  with c(1) show "0 < batches_bytes bs" "0 < batches_records bs"
    by (simp_all add: bs batches_bytes_def batches_records_def)
qed

lemma receipt_made:
  assumes t: "transfer_ok L s r" and rec: "recorded_as (tr_Descriptor r) maximum cs sem bs"
  shows "\<exists>v. recordedReceiptFromResult r sem = Inr v"
proof -
  have vr: "validateTransferResult r = None" by (rule transfer_ok_recordable [OF t])
  then have d: "gen_Validate (tr_Descriptor r) = None"
    and tb: "unat (tr_TransferBytes r) = 20 + unat (tr_MetadataBytes r) + unat (gd_EncodedDataBytes (tr_Descriptor r))"
    and h: "sha256_text (tr_MetadataSHA256 r)" "sha256_text (tr_TransferSHA256 r)"
    and mb: "tr_MetadataBytes r \<noteq> 0" "\<not> tr_MetadataBytes r > maxRecordedTransportMetadataBytes"
    by (auto simp: validateTransferResult_def transfer_bytes_None validateRecorderSHA256_def sha256_text_lower)
  from rec obtain fs where fs: "artifacts_total fs = unat (gd_SourceBytes (tr_Descriptor r))"
    "map (\<lambda>f. (fst f, concat (snd f))) fs = concat (map batch_artifacts bs)"
    by (auto simp: recorded_as_def)
  from rec have bs: "list_all (batch_ok (unat maximum)) bs" "unat (gd_ArtifactCount (tr_Descriptor r)) = 2 * length bs"
    "unat (rr_BatchCount sem) = length bs" "unat (rr_DataBytes sem) = batches_bytes bs"
    "unat (rr_RecordCount sem) = batches_records bs"
    by (simp_all add: recorded_as_def)
  have "bs \<noteq> []" using d bs(2) by (auto simp: gen_Validate_None unat_eq_zero)
  with batches_counts [OF bs(1)] have pos: "0 < batches_bytes bs" "0 < batches_records bs" "0 < length bs"
    by simp_all
  have mu: "0 < unat (tr_MetadataBytes r)" "unat (tr_MetadataBytes r) \<le> 524288"
    using mb by (simp_all add: unat_gt_0 maxRecordedTransportMetadataBytes_def word_less_nat_alt)
  show ?thesis
    using vr d tb h mu bs pos rec batches_sizes(1) [OF fs(2)] fs(1)
    by (simp add: recordedReceiptFromResult_def recorded_as_def Let_def receipt_Validate_None
        del: unat_gt_0)
qed

text \<open>The receipt's file after a successful publication.\<close>

definition receipt_on_disk :: "custody_fs \<Rightarrow> recorded_receipt \<Rightarrow> bytes \<Rightarrow> bool" where
  "receipt_on_disk fs v raw \<longleftrightarrow>
     (\<exists>j f. cd_Dir fs (recordedObjectName (gd_SourceID (re_Descriptor v)) (gd_GenerationID (re_Descriptor v))) = Some j \<and>
        cd_Disk fs (recordedObjectName (gd_SourceID (re_Descriptor v)) (gd_GenerationID (re_Descriptor v))) = Some j \<and>
        cd_Files fs j = Some f \<and> cf_Content f = raw \<and> sealed_receipt f)"

lemma publish_semantic:
  assumes env: "others_keep C tmp i" and wr: "io_writer (cl_write C) (\<lambda>s. s)" and ok: "receipts_ok fs"
    and p: "publishRecordedSemanticResult C tmp i r sem config fs = (Inr dr, fs')"
  shows "recordedReceiptFromResult r sem = Inr (dr_Receipt dr)" and "dr_Semantic dr = sem"
    and "\<exists>raw. receipt_on_disk fs' (dr_Receipt dr) raw \<and> UnmarshalRecordedReceipt raw = Inr (dr_Receipt dr) \<and>
      dr_ReceiptSHA256 dr = hex_EncodeToString (Sum256 raw)"
proof -
  from p obtain receipt raw d where rec: "recordedReceiptFromResult r sem = Inr receipt"
    and raw: "MarshalRecordedReceipt receipt = Inr raw"
    and pub: "publishRecordedReceipt C tmp i (recordedObjectName (gd_SourceID (re_Descriptor receipt))
      (gd_GenerationID (re_Descriptor receipt))) raw fs = (Inr d, fs')"
    and dr: "dr_Receipt dr = receipt" "dr_Semantic dr = sem"
      "dr_ReceiptSHA256 dr = hex_EncodeToString (Sum256 raw)"
    by (auto simp: publishRecordedSemanticResult_def Let_def)
  have n: "receipt_name (recordedObjectName (gd_SourceID (re_Descriptor receipt))
      (gd_GenerationID (re_Descriptor receipt)))" by (auto simp: receipt_name_def)
  have "kept_since fs fs" using ok by (simp add: kept_since_def receipts_kept_refl)
  with publish_prog [OF env wr n, of fs raw] pub have "receipt_on_disk fs' receipt raw"
    unfolding triple_def receipt_on_disk_def by (fastforce simp: durable_receipt_def published_def)
  moreover have "UnmarshalRecordedReceipt raw = Inr receipt"
    using Marshal_Unmarshal_receipt [OF receipt_from_result(1) [OF rec]] raw by auto
  ultimately show "\<exists>raw. receipt_on_disk fs' (dr_Receipt dr) raw \<and>
      UnmarshalRecordedReceipt raw = Inr (dr_Receipt dr) \<and> dr_ReceiptSHA256 dr = hex_EncodeToString (Sum256 raw)"
    using dr by auto
  show "recordedReceiptFromResult r sem = Inr (dr_Receipt dr)" "dr_Semantic dr = sem"
    using rec dr by simp_all
qed

lemma recorded_custody:
  assumes "others_keep C tmp i" and "io_writer (cl_write C) (\<lambda>s. s)" and "receipts_ok fs"
    and "RecordCustodyDurably L Z C tmp i custody root c fs0 fs1 fs2 okClose config fs = (Inr dr, fs')"
  shows "\<exists>k f raw. cd_Dir fs1 (filepath_Base (cr_CustodyPath custody)) = Some k \<and> cd_Files fs1 k = Some f \<and>
    receipt_true L Z (du_MaxManifestBytes config) (cf_Content f) (dr_Receipt dr) \<and>
    receipt_on_disk fs' (dr_Receipt dr) raw \<and> UnmarshalRecordedReceipt raw = Inr (dr_Receipt dr)"
proof -
  let ?offer = "custody_offer (cr_Transfer custody)"
  from assms(4) obtain st r st' sem where
    new: "newValidator (tr_Descriptor (cr_Transfer custody)) (du_MaxManifestBytes config) = Inr st"
    and rd: "ReadDurableCustodyArtifacts L Z (Some consumeArtifact) st custody root c fs0 fs1 fs2 okClose =
      Inr (r, st')"
    and res: "validator_result st' (tr_Descriptor r) (gd_SourceBytes (tr_Descriptor r)) = Inr sem"
    and p: "publishRecordedSemanticResult C tmp i r sem config fs = (Inr dr, fs')"
    by (auto simp: RecordCustodyDurably_def)
  from rd obtain before data where
    o: "custody_opened fs0 fs1 (cr_CustodyPath custody) (tr_TransferBytes (cr_Transfer custody)) =
      (Inr (before, data) :: recorder_error custody_read_error + _)"
    and v: "readValidatedTransfer L Z (Some consumeArtifact) st data ?offer c = Inr (r, [], st')"
    by (auto simp: ReadDurableCustodyArtifacts_def Let_def split: if_splits)
  from o obtain k f where f: "cd_Dir fs1 (filepath_Base (cr_CustodyPath custody)) = Some k"
    "cd_Files fs1 k = Some f" "data = cf_Content f"
    by (auto simp: custody_opened_def lstat_custody_def split: option.splits if_splits)
  have "go_Descriptor ?offer = tr_Descriptor (cr_Transfer custody)" by (simp add: custody_offer_def)
  with receipt_true_of [OF v _ res publish_semantic(1) [OF assms(1-3) p]] new
  have "receipt_true L Z (du_MaxManifestBytes config) data (dr_Receipt dr)" by simp
  with f publish_semantic(3) [OF assms(1-3) p] show ?thesis by blast
qed

text \<open>
  C6: A receipt of the recorder is true and durable. If \<^verbatim>\<open>RecordCustodyDurably\<close> returns a result,
  then the custody file it opened holds exactly one transfer of the result's descriptor, signed
  and authorized, whose decoded payload is nothing but batches that agree with their manifests;
  the receipt identifies these bytes and states the true numbers of batches, data bytes and
  records; and the receipt is on disk under the generation's name, in a form that decodes to it.
\<close>

theorem recorded_custody_receipt:
  assumes "others_keep C tmp i" and "io_writer (cl_write C) (\<lambda>s. s)" and "receipts_ok fs"
    and "RecordCustodyDurably L Z C tmp i custody root c fs0 fs1 fs2 okClose config fs = (Inr dr, fs')"
  shows "\<exists>k f raw. cd_Dir fs1 (filepath_Base (cr_CustodyPath custody)) = Some k \<and> cd_Files fs1 k = Some f \<and>
    receipt_true L Z (du_MaxManifestBytes config) (cf_Content f) (dr_Receipt dr) \<and>
    receipt_on_disk fs' (dr_Receipt dr) raw \<and> UnmarshalRecordedReceipt raw = Inr (dr_Receipt dr)"
  by (rule recorded_custody [OF assms])

text \<open>
  C7: The same after a restart, when only the directory entry is left: if
  \<^verbatim>\<open>RecordDiscoveredCustodyDurably\<close> returns a result, whatever was put into the custody root,
  the file it opened holds a transfer of which the receipt is true, and the receipt is on disk.
\<close>

theorem recorded_discovered_receipt:
  assumes "others_keep C tmp i" and "io_writer (cl_write C) (\<lambda>s. s)" and "receipts_ok fs"
    and "RecordDiscoveredCustodyDurably L Z C tmp i discovered root c fs0 fs1 fs2 okSeek okClose config fs =
      (Inr dr, fs')"
  shows "\<exists>k f raw. cd_Dir fs1 (filepath_Base (dc_Path discovered)) = Some k \<and> cd_Files fs1 k = Some f \<and>
    receipt_true L Z (du_MaxManifestBytes config) (cf_Content f) (dr_Receipt dr) \<and>
    receipt_on_disk fs' (dr_Receipt dr) raw \<and> UnmarshalRecordedReceipt raw = Inr (dr_Receipt dr)"
proof -
  let ?path = "dc_Path discovered" and ?max = "du_MaxManifestBytes config"
  from assms(4) obtain cr st' sem where
    rd: "ReadDiscoveredDurableCustodyArtifacts L Z (Some (recorder_factory ?max)) discovered root c fs0 fs1 fs2
      okSeek okClose = Inr (cr, st')"
    and res: "validator_result st' (tr_Descriptor (cr_Transfer cr)) (gd_SourceBytes (tr_Descriptor (cr_Transfer cr)))
      = Inr sem"
    and p: "publishRecordedSemanticResult C tmp i (cr_Transfer cr) sem config fs = (Inr dr, fs')"
    by (auto simp: RecordDiscoveredCustodyDurably_def Let_def)
  from rd obtain before data offer st r where
    o: "custody_opened fs0 fs1 ?path (dc_Bytes discovered) =
      (Inr (before, data) :: recorder_error custody_read_error + _)"
    and new: "newValidator (go_Descriptor offer) ?max = Inr st"
    and v: "readValidatedTransfer L Z (Some consumeArtifact) st data offer c = Inr (r, [], st')"
    and cr: "cr = newGenerationCustodyResult r ?path CustodyDispositionExisting"
    by (auto simp: ReadDiscoveredDurableCustodyArtifacts_def recorder_factory_def Let_def split: if_splits)
  from o obtain k f where f: "cd_Dir fs1 (filepath_Base ?path) = Some k" "cd_Files fs1 k = Some f"
    "data = cf_Content f"
    by (auto simp: custody_opened_def lstat_custody_def split: option.splits if_splits)
  have r: "cr_Transfer cr = r" by (simp add: cr newGenerationCustodyResult_def)
  have "receipt_true L Z ?max data (dr_Receipt dr)"
    by (rule receipt_true_of [OF v new]) (use res publish_semantic(1) [OF assms(1-3) p] r in simp_all)
  with f publish_semantic(3) [OF assms(1-3) p] show ?thesis by blast
qed

end
