(* ===== verification/Gen_Ready.thy ===== *)
theory Gen_Ready
  imports FI_Dir
begin

text \<open>
  Package \<^verbatim>\<open>generationready\<close>: the queue of empty marker files that tells the ingest worker which
  receipts are new. Markers are hints; the receipts stay authoritative.
\<close>

section \<open>Names and markers\<close>

datatype ready_error =
    RdRootRequired
  | RdRootNotAbsolute
  | RdResolveRoot
  | RdRootSymlinks
  | RdInspectRoot
  | RdRootNotDirectory
  | RdRootWritable
  | RdReceiptName string
  | RdSystemCall string
  | RdMarkerKind
  | RdMarkerNotEmpty
  | RdLimitZero
  | RdLimitBounds
  | RdRepeated string

definition markerMode :: nat where
  "markerMode = 384"

datatype publish_disposition = PublishDispositionAlreadyPresent | PublishDispositionNew

record publish_result =
  pr_Disposition :: publish_disposition
  pr_Path :: string

definition ready_validateRoot :: "custody_root \<Rightarrow> ready_error option" where
  "ready_validateRoot root =
     first_err
       [fail_if (TrimSpace (rt_RootDir root) = []) RdRootRequired,
        fail_if (\<not> filepath_IsAbs (rt_RootDir root)) RdRootNotAbsolute,
        fail_if (rt_Resolved root = None) RdResolveRoot,
        fail_if (map_option filepath_Clean (rt_Resolved root) \<noteq> Some (filepath_Clean (rt_RootDir root)))
          RdRootSymlinks,
        fail_if (rt_Kind root = None) RdInspectRoot,
        fail_if (rt_Kind root = Some SymlinkEntry \<or> rt_Kind root \<noteq> Some DirectoryEntry) RdRootNotDirectory,
        fail_if (and (rt_Perm root) 18 \<noteq> 0) RdRootWritable]"

definition validateReceiptName :: "string \<Rightarrow> ready_error option" where
  "validateReceiptName name =
     fail_if (TrimSpace name = [] \<or> filepath_Base name \<noteq> name \<or> \<not> HasPrefix name ''generation-'' \<or>
       \<not> HasSuffix name ''.record.json'') (RdReceiptName name)"

definition marker_error :: "custody_file \<Rightarrow> ready_error option" where
  "marker_error f =
     first_err
       [fail_if (cf_Kind f = SymlinkEntry \<or> cf_Kind f \<noteq> RegularEntry \<or> cf_Perm f \<noteq> markerMode) RdMarkerKind,
        fail_if (cf_Content f \<noteq> []) RdMarkerNotEmpty]"

definition validateMarker :: "calls \<Rightarrow> nat \<Rightarrow> string \<Rightarrow> (ready_error, unit) prog" where
  "validateMarker C k name =
     bindP (call C k (RdSystemCall ''lstat'') (do_Lstat (RdSystemCall ''lstat'') name)) (\<lambda>info.
     liftP (check (marker_error (snd info))))"

definition ready_syncDirectory :: "calls \<Rightarrow> nat \<Rightarrow> (ready_error, unit) prog" where
  "ready_syncDirectory C k =
     bindP (call C k (RdSystemCall ''open'') (retP ())) (\<lambda>_.
     call C (k + 1) (RdSystemCall ''sync'') (\<lambda>fs. (Inr (), syncGenerationCustodyDirectory fs)))"

section \<open>Publishing\<close>

text \<open>\<^verbatim>\<open>os.OpenFile\<close> with \<^verbatim>\<open>O_CREATE|O_EXCL\<close>: the new inode, or none if the name is taken.\<close>

definition do_OpenExcl :: "string \<Rightarrow> nat \<Rightarrow> (ready_error, nat option) prog" where
  "do_OpenExcl name i fs =
     (if cd_Dir fs name \<noteq> None then (Inr None, fs)
      else if cd_Files fs i \<noteq> None then (Inl (RdSystemCall ''open''), fs)
      else (Inr (Some i), fs_Link name i (fs_Write i
              \<lparr>cf_Content = [], cf_Perm = markerMode, cf_Kind = RegularEntry, cf_Synced = False\<rparr> fs)))"

text \<open>An error after the marker was created removes it again; that error is ignored.\<close>

definition removing_on_error ::
  "calls \<Rightarrow> nat \<Rightarrow> string \<Rightarrow> (ready_error, 'a) prog \<Rightarrow> (ready_error, 'a) prog" where
  "removing_on_error C k name m fs =
     (case m fs of
        (Inl e, w) \<Rightarrow> (Inl e, snd (call C k (RdSystemCall ''remove'') (do_Remove name) w))
      | (Inr x, w) \<Rightarrow> (Inr x, w))"

definition ready_Publish :: "calls \<Rightarrow> nat \<Rightarrow> custody_root \<Rightarrow> string \<Rightarrow> (ready_error, publish_result) prog" where
  "ready_Publish C i root name =
     (let path = filepath_Join (rt_RootDir root) name in
      bindP (liftP (check (ready_validateRoot root))) (\<lambda>_.
      bindP (liftP (check (validateReceiptName name))) (\<lambda>_.
      bindP (call C 0 (RdSystemCall ''open'') (do_OpenExcl name i)) (\<lambda>created.
      case created of
        None \<Rightarrow>
          bindP (validateMarker C 1 name) (\<lambda>_.
          bindP (ready_syncDirectory C 2) (\<lambda>_.
          retP \<lparr>pr_Disposition = PublishDispositionAlreadyPresent, pr_Path = path\<rparr>))
      | Some fh \<Rightarrow>
          bindP (removing_on_error C 7 name
            (bindP (call C 4 (RdSystemCall ''sync'') (do_Change (RdSystemCall ''sync'') fh (cf_Synced_update (\<lambda>_. True)))) (\<lambda>_.
             bindP (call C 5 (RdSystemCall ''close'') (retP ())) (\<lambda>_.
             validateMarker C 6 name)))) (\<lambda>_.
          bindP (ready_syncDirectory C 8) (\<lambda>_.
          retP \<lparr>pr_Disposition = PublishDispositionNew, pr_Path = path\<rparr>))))))"

section \<open>Consuming\<close>

text \<open>
  \<open>listing\<close> is the directory in the order of \<^verbatim>\<open>directory.ReadDir\<close>, of which the first \<^verbatim>\<open>limit\<close>
  entries are read.
\<close>

fun check_markers :: "calls \<Rightarrow> nat \<Rightarrow> string list \<Rightarrow> (ready_error, unit) prog" where
  "check_markers C k [] = retP ()"
| "check_markers C k (name # names) =
     bindP (liftP (check (validateReceiptName name))) (\<lambda>_.
     bindP (validateMarker C k name) (\<lambda>_. check_markers C (k + 1) names))"

definition ReadReceiptNames ::
  "calls \<Rightarrow> custody_root \<Rightarrow> uint64 \<Rightarrow> string list \<Rightarrow> (ready_error, string list) prog" where
  "ReadReceiptNames C root limit listing =
     bindP (liftP (check (ready_validateRoot root))) (\<lambda>_.
     bindP (stop_if (limit = 0) RdLimitZero) (\<lambda>_.
     bindP (stop_if (limit > (- 1) div 2) RdLimitBounds) (\<lambda>_.
     bindP (call C 0 (RdSystemCall ''open'') (retP ())) (\<lambda>_.
     bindP (call C 1 (RdSystemCall ''readdir'') (retP ())) (\<lambda>_.
     let entries = take (unat limit) listing in
     bindP (check_markers C 2 entries) (\<lambda>_. retP (sort entries)))))))"

definition ReceiptNamePresent :: "calls \<Rightarrow> custody_root \<Rightarrow> string \<Rightarrow> (ready_error, bool) prog" where
  "ReceiptNamePresent C root name =
     bindP (liftP (check (ready_validateRoot root))) (\<lambda>_.
     bindP (liftP (check (validateReceiptName name))) (\<lambda>_.
     bindP (call C 0 (RdSystemCall ''lstat'') (\<lambda>fs. (Inr (cd_Dir fs name \<noteq> None), fs))) (\<lambda>found.
     if \<not> found then retP False
     else bindP (validateMarker C 1 name) (\<lambda>_. retP True))))"

fun remove_markers :: "calls \<Rightarrow> nat \<Rightarrow> string list \<Rightarrow> string list \<Rightarrow> (ready_error, unit) prog" where
  "remove_markers C k seen [] = retP ()"
| "remove_markers C k seen (name # names) =
     bindP (liftP (check (validateReceiptName name))) (\<lambda>_.
     bindP (stop_if (name \<in> set seen) (RdRepeated name)) (\<lambda>_.
     bindP (validateMarker C k name) (\<lambda>_.
     bindP (call C (k + 1) (RdSystemCall ''remove'') (do_Remove name)) (\<lambda>_.
     remove_markers C (k + 2) (name # seen) names))))"

definition RemoveReceiptNames :: "calls \<Rightarrow> custody_root \<Rightarrow> string list \<Rightarrow> (ready_error, unit) prog" where
  "RemoveReceiptNames C root names =
     bindP (liftP (check (ready_validateRoot root))) (\<lambda>_.
     bindP (remove_markers C 0 [] names) (\<lambda>_.
     if names = [] then retP () else ready_syncDirectory C (2 * length names)))"

section \<open>What the operations do\<close>

text \<open>No other process touches the directory; calls may still fail.\<close>

definition alone :: "calls \<Rightarrow> bool" where
  "alone C \<longleftrightarrow> (\<forall>k fs. cl_env C k fs = fs)"

definition marker :: "custody_fs \<Rightarrow> string \<Rightarrow> bool" where
  "marker fs name \<longleftrightarrow> (\<exists>f. lookup_file fs name = Some f \<and> marker_error f = None)"

lemma call_alone: "alone C \<Longrightarrow> call C k e act fs = (Inr x, fs') \<longleftrightarrow> cl_ok C k \<and> act fs = (Inr x, fs')"
  by (auto simp: call_def alone_def Let_def)

lemma validateMarker_alone:
  "alone C \<Longrightarrow> validateMarker C k name fs = (Inr x, fs') \<longleftrightarrow> cl_ok C k \<and> marker fs name \<and> fs' = fs"
  by (auto simp: validateMarker_def call_alone do_Lstat_def marker_def lookup_file_def split: option.splits)

lemma sync_alone:
  "alone C \<Longrightarrow> ready_syncDirectory C k fs = (Inr x, fs') \<longleftrightarrow>
     cl_ok C k \<and> cl_ok C (k + 1) \<and> fs' = syncGenerationCustodyDirectory fs"
  by (auto simp: ready_syncDirectory_def call_alone)

lemma remove_markers_Inr:
  assumes "alone C"
  shows "remove_markers C k seen names fs = (Inr x, fs') \<Longrightarrow>
    distinct names \<and> set names \<inter> set seen = {} \<and> (\<forall>n \<in> set names. validateReceiptName n = None \<and> marker fs n) \<and>
    fs' = fs\<lparr>cd_Dir := cd_Dir fs |` (- set names)\<rparr>"
proof (induction names arbitrary: k seen fs)
  case Nil
  then show ?case by simp
next
  case (Cons n names)
  let ?fs = "fs_Remove n fs"
  from Cons.prems have n: "validateReceiptName n = None" "n \<notin> set seen" "marker fs n"
    and r: "remove_markers C (k + 2) (n # seen) names ?fs = (Inr x, fs')"
    by (auto simp: validateMarker_alone [OF assms] call_alone [OF assms] do_Remove_def)
  note IH = Cons.IH [OF r]
  have "m \<noteq> n" "marker fs m" if "m \<in> set names" for m
    using IH that by (auto simp: marker_def lookup_file_def fs_Remove_def split: if_splits)
  moreover have "cd_Dir ?fs |` (- set names) = cd_Dir fs |` (- set (n # names))"
    by (auto simp: fs_Remove_def restrict_map_def fun_eq_iff)
  moreover have "?fs\<lparr>cd_Dir := d\<rparr> = fs\<lparr>cd_Dir := d\<rparr>" for d by (simp add: fs_Remove_def)
  ultimately show ?case using n IH by simp
qed

text \<open>
  Retiring ready markers. Without interference, \<^verbatim>\<open>RemoveReceiptNames\<close> succeeds only on
  distinct receipt names that are empty marker files; afterwards exactly these names are gone,
  in the directory and on disk, and every other entry and every file is as it was.
\<close>

lemma ready_markers_retired:
  assumes "alone C" and "RemoveReceiptNames C root names fs = (Inr x, fs')" and "names \<noteq> []"
  shows "distinct names \<and> (\<forall>n \<in> set names. marker fs n) \<and> cd_Files fs' = cd_Files fs \<and>
    cd_Dir fs' = cd_Dir fs |` (- set names) \<and> cd_Disk fs' = cd_Dir fs'"
proof -
  from assms obtain fs1 where r: "remove_markers C 0 [] names fs = (Inr (), fs1)"
    and fs': "fs' = syncGenerationCustodyDirectory fs1"
    by (auto simp: RemoveReceiptNames_def sync_alone)
  from remove_markers_Inr [OF assms(1) r] fs' show ?thesis
    by (auto simp: syncGenerationCustodyDirectory_def)
qed

text \<open>What was published is found, and what was found can be retired.\<close>

lemma removing_on_error_Inr [simp]:
  "removing_on_error C k name m fs = (Inr x, w) \<longleftrightarrow> m fs = (Inr x, w)"
  by (auto simp: removing_on_error_def split: prod.splits sum.splits)

lemma Publish_Inr:
  assumes C: "alone C" and p: "ready_Publish C i root name fs = (Inr r, fs')"
  shows "marker fs' name" and "cd_Disk fs' = cd_Dir fs'" and "validateReceiptName name = None"
    and "ready_validateRoot root = None" and "\<And>n. n \<noteq> name \<Longrightarrow> cd_Dir fs' n = cd_Dir fs n"
proof -
  note A = call_alone [OF C] validateMarker_alone [OF C] sync_alone [OF C]
  from p obtain created w where ok: "validateReceiptName name = None" "ready_validateRoot root = None"
    and o: "do_OpenExcl name i fs = (Inr created, w)"
    and rest: "case created of
        None \<Rightarrow> marker w name \<and> fs' = syncGenerationCustodyDirectory w
      | Some fh \<Rightarrow> \<exists>v. do_Change (RdSystemCall ''sync'') fh (cf_Synced_update (\<lambda>_. True)) w = (Inr (), v) \<and>
          marker v name \<and> fs' = syncGenerationCustodyDirectory v"
    by (auto simp: ready_Publish_def Let_def A split: option.splits)
  show "validateReceiptName name = None" "ready_validateRoot root = None" by (rule ok)+
  from rest obtain v where v: "marker v name" "fs' = syncGenerationCustodyDirectory v" "cd_Dir v = cd_Dir w"
    by (auto simp: do_Change_def fs_Write_def split: option.splits)
  then show "marker fs' name" "cd_Disk fs' = cd_Dir fs'"
    by (auto simp: marker_def lookup_file_def syncGenerationCustodyDirectory_def)
  fix n assume "n \<noteq> name"
  then show "cd_Dir fs' n = cd_Dir fs n"
    using o v by (auto simp: do_OpenExcl_def fs_Link_def fs_Write_def syncGenerationCustodyDirectory_def
        split: if_splits)
qed

lemma Present_alone:
  assumes "alone C" and "\<And>k. cl_ok C k" and "ready_validateRoot root = None" and "validateReceiptName name = None"
  shows "ReceiptNamePresent C root name fs = (Inr True, fs) \<longleftrightarrow> marker fs name"
    and "cd_Dir fs name = None \<Longrightarrow> ReceiptNamePresent C root name fs = (Inr False, fs)"
  using assms
  by (auto simp: ReceiptNamePresent_def bindP_def liftP_def call_def alone_def retP_def validateMarker_def
      do_Lstat_def marker_def lookup_file_def bind_eq_Some_conv Let_def check_def split: option.splits)

text \<open>
  The life of a marker. Once \<^verbatim>\<open>Publish\<close> has returned, \<^verbatim>\<open>ReceiptNamePresent\<close> finds the marker,
  and once \<^verbatim>\<open>RemoveReceiptNames\<close> has retired it, no longer.
\<close>

theorem ready_marker_roundtrip:
  assumes "alone C" and "\<And>k. cl_ok C k"
    and "ready_Publish C i root name fs = (Inr r, fs1)" and "RemoveReceiptNames C root [name] fs1 = (Inr x, fs2)"
  shows "ReceiptNamePresent C root name fs1 = (Inr True, fs1) \<and>
    ReceiptNamePresent C root name fs2 = (Inr False, fs2)"
proof -
  note P = Publish_Inr [OF assms(1,3)]
  from assms(4) obtain fs where "remove_markers C 0 [] [name] fs1 = (Inr (), fs)"
    and "fs2 = syncGenerationCustodyDirectory fs"
    by (auto simp: RemoveReceiptNames_def sync_alone [OF assms(1)] simp del: remove_markers.simps)
  with remove_markers_Inr [OF assms(1), of 0 "[]" "[name]" fs1 "()" fs] have "cd_Dir fs2 name = None"
    by (simp add: syncGenerationCustodyDirectory_def del: remove_markers.simps)
  with P Present_alone [OF assms(1,2) P(4,3)] show ?thesis by simp
qed

lemma quiet_alone: "alone quiet_calls" "cl_ok quiet_calls k"
  by (simp_all add: alone_def quiet_calls_def)

definition ready_root :: custody_root where
  "ready_root = \<lparr>rt_RootDir = ''/r'', rt_Resolved = Some ''/r'', rt_Kind = Some DirectoryEntry, rt_Perm = 448\<rparr>"

theorem ready_marker_roundtrip_witness:
  "\<exists>r fs1 fs2. ready_Publish quiet_calls 0 ready_root ''generation-0.record.json'' empty_fs = (Inr r, fs1) \<and>
     RemoveReceiptNames quiet_calls ready_root [''generation-0.record.json''] fs1 = (Inr (), fs2) \<and>
     ReceiptNamePresent quiet_calls ready_root ''generation-0.record.json'' fs1 = (Inr True, fs1) \<and>
     ReceiptNamePresent quiet_calls ready_root ''generation-0.record.json'' fs2 = (Inr False, fs2)"
proof -
  let ?n = "''generation-0.record.json''"
  have root: "ready_validateRoot ready_root = None"
    by (simp add: ready_validateRoot_def ready_root_def path_rooted_def slash_def TrimSpace_def
        ascii_space_def space2_def space3_def)
  have name: "validateReceiptName ?n = None"
    by (simp add: validateReceiptName_def filepath_Base_def after_slash_def slash_def HasPrefix_def HasSuffix_def
        TrimSpace_def ascii_space_def space2_def space3_def)
  have "\<exists>r fs1. ready_Publish quiet_calls 0 ready_root ?n empty_fs = (Inr r, fs1)"
    using root name
    by (simp add: ready_Publish_def Let_def bindP_def liftP_def call_def quiet_calls_def do_OpenExcl_def empty_fs_def
        removing_on_error_def do_Change_def fs_Link_def fs_Write_def retP_def validateMarker_def do_Lstat_def
        marker_error_def ready_syncDirectory_def check_def)
  then obtain r fs1 where p: "ready_Publish quiet_calls 0 ready_root ?n empty_fs = (Inr r, fs1)" by blast
  from Publish_Inr(1) [OF quiet_alone(1) p] have "marker fs1 ?n" .
  then have "\<exists>fs2. RemoveReceiptNames quiet_calls ready_root [?n] fs1 = (Inr (), fs2)"
    using root name
    by (auto simp: RemoveReceiptNames_def bindP_def liftP_def call_def quiet_calls_def retP_def validateMarker_def
        do_Lstat_def marker_def lookup_file_def ready_syncDirectory_def check_def stop_if_def do_Remove_def
        Let_def bind_eq_Some_conv split: option.splits)
  then obtain fs2 where q: "RemoveReceiptNames quiet_calls ready_root [?n] fs1 = (Inr (), fs2)" by blast
  from ready_marker_roundtrip [OF quiet_alone p q] p q show ?thesis by blast
qed

end
