(* ===== verification/Gen_Session.thy ===== *)
theory Gen_Session
  imports Gen_Record Gen_Ready
begin

text \<open>
  Package \<^verbatim>\<open>transportreceiver\<close>, files \<^verbatim>\<open>generation_linux.go\<close> and
  \<^verbatim>\<open>generation_startup_linux.go\<close>: one generation transaction of the receiver (offer, decision,
  custody, recording, acknowledgement), and the recovery pass before the listener opens.
\<close>

section \<open>Configuration\<close>

record generation_receive_config =
  rx_Root :: custody_root
  rx_Receive :: receive_config
  rx_Ready :: custody_root
  rx_Recorder :: durable_config

datatype session_error =
    SesCustodyRootRequired
  | SesSourceRequired
  | SesMaxCanonical
  | SesMaxEncoded
  | SesRecorderRootRequired
  | SesReadyRootRequired
  | SesReadyRootNotAbsolute
  | SesReadyRootShared
  | SesMaxManifest
  | SesReadOffer protocol_error
  | SesDecision protocol_error
  | SesWriteDecision protocol_error
  | SesRejected string
  | SesCustody custody_error
  | SesRecord receipt_error
  | SesReceiptMismatch
  | SesAcknowledgement protocol_error
  | SesWriteAcknowledgement protocol_error
  | SesNotEnabled
  | SesSettings
  | SesIncomplete
  | SesRootsNotAbsolute
  | SesRootsShared
  | SesBatchRootShared
  | SesTransportLimits
  | SesManifestLimit
  | SesTimeRequired
  | SesRecover custody_error

definition validateGenerationReceiveConfig :: "generation_receive_config \<Rightarrow> session_error option" where
  "validateGenerationReceiveConfig c =
     (let custodyRoot = rt_RootDir (rx_Root c); readyRoot = rt_RootDir (rx_Ready c);
          recorderRoot = rt_RootDir (du_Root (rx_Recorder c)) in
      first_err
       [fail_if (custodyRoot = []) SesCustodyRootRequired,
        fail_if (sa_SourceID (rc_Source (rx_Receive c)) = []) SesSourceRequired,
        fail_if (rc_MaxCanonicalBytes (rx_Receive c) = 0) SesMaxCanonical,
        fail_if (rc_MaxEncodedBytes (rx_Receive c) = 0) SesMaxEncoded,
        fail_if (recorderRoot = []) SesRecorderRootRequired,
        fail_if (readyRoot = []) SesReadyRootRequired,
        fail_if (\<not> filepath_IsAbs readyRoot) SesReadyRootNotAbsolute,
        fail_if (filepath_Clean readyRoot = filepath_Clean custodyRoot \<or>
          filepath_Clean readyRoot = filepath_Clean recorderRoot) SesReadyRootShared,
        fail_if (du_MaxManifestBytes (rx_Recorder c) = 0) SesMaxManifest])"

section \<open>The transaction\<close>

text \<open>The decision, and the reason of a rejection.\<close>

definition generationAdmissionDecision ::
  "generation_offer \<Rightarrow> generation_receive_config \<Rightarrow> (protocol_error + generation_decision) \<times> string" where
  "generationAdmissionDecision offer c =
     (let d = go_Descriptor offer; r = rx_Receive c in
      if gd_SourceID d \<noteq> sa_SourceID (rc_Source r)
      then (NewDecision offer False ''SOURCE_ID_MISMATCH'', ''SOURCE_ID_MISMATCH'')
      else if gd_CanonicalBytes d > rc_MaxCanonicalBytes r
      then (NewDecision offer False ''CANONICAL_BYTES_EXCEED_LIMIT'', ''CANONICAL_BYTES_EXCEED_LIMIT'')
      else if gd_EncodedDataBytes d > rc_MaxEncodedBytes r
      then (NewDecision offer False ''ENCODED_BYTES_EXCEED_LIMIT'', ''ENCODED_BYTES_EXCEED_LIMIT'')
      else (NewDecision offer True [], []))"

definition generationAcknowledgementFromRecorded ::
  "custody_result \<Rightarrow> durable_result \<Rightarrow> session_error + generation_acknowledgement" where
  "generationAcknowledgementFromRecorded custody recorded =
     (let v = dr_Receipt recorded; r = cr_Transfer custody in
      if re_Descriptor v \<noteq> tr_Descriptor r \<or> re_MetadataBytes v \<noteq> tr_MetadataBytes r \<or>
         re_MetadataSHA256 v \<noteq> tr_MetadataSHA256 r \<or> re_TransferBytes v \<noteq> tr_TransferBytes r \<or>
         re_TransferSHA256 v \<noteq> tr_TransferSHA256 r
      then Inl SesReceiptMismatch
      else let outcome = (case dr_Disposition recorded of
             RecordedDispositionNew \<Rightarrow> AcknowledgementOutcomeRecorded
           | RecordedDispositionAlreadyRecorded \<Rightarrow> AcknowledgementOutcomeAlreadyRecorded) in
      bindE (map_err SesAcknowledgement (NewAcknowledgement outcome r)) (\<lambda>ack.
      bindE (check (map_option SesAcknowledgement (AcknowledgementMatches ack r))) (\<lambda>_. Inr ack)))"

text \<open>
  What happens around the transaction: what the call of \<^verbatim>\<open>ReceiveToDurableCustody\<close> returned (the
  steps of which are the custody model's), the custody root as the recorder reads it, and the
  system calls of recorder and ready queue.
\<close>

record receiver_env =
  ev_Custody :: "custody_request \<Rightarrow> custody_error + custody_result"
  ev_Fs0 :: custody_fs
  ev_Fs1 :: custody_fs
  ev_Fs2 :: custody_fs
  ev_Close :: bool
  ev_Calls :: calls
  ev_Tmp :: string
  ev_Inode :: nat
  ev_ReadyCalls :: calls
  ev_ReadyInode :: nat

record generation_receive_result =
  gr_Offer :: "generation_offer option"
  gr_Decision :: "generation_decision option"
  gr_Custody :: "custody_result option"
  gr_Recorder :: "durable_result option"
  gr_ReadyPath :: string
  gr_ReadyWarning :: "ready_error option"
  gr_Acknowledgement :: "generation_acknowledgement option"

definition zero_receive_result :: generation_receive_result where
  "zero_receive_result =
     \<lparr>gr_Offer = None, gr_Decision = None, gr_Custody = None, gr_Recorder = None, gr_ReadyPath = [],
      gr_ReadyWarning = None, gr_Acknowledgement = None\<rparr>"

definition publishGenerationReady ::
  "calls \<Rightarrow> nat \<Rightarrow> custody_root \<Rightarrow> durable_result \<Rightarrow> custody_fs \<Rightarrow> (string \<times> ready_error option) \<times> custody_fs" where
  "publishGenerationReady C i root recorded fs =
     (case ready_Publish C i root (filepath_Base (dr_ReceiptPath recorded)) fs of
        (Inl e, fs') \<Rightarrow> (([], Some e), fs')
      | (Inr ready, fs') \<Rightarrow> ((pr_Path ready, None), fs'))"

text \<open>
  The receiver's own state: its end of the connection, the directory of receipts and the ready
  queue.
\<close>

type_synonym 's receiver_state = "'s \<times> custody_fs \<times> custody_fs"

text \<open>From durable custody on: record, hint, acknowledge.\<close>

definition record_and_acknowledge ::
  "x509_lib \<Rightarrow> zstd_decoder \<Rightarrow> 's write_fn \<Rightarrow> generation_receive_config \<Rightarrow> receiver_env
     \<Rightarrow> custody_result \<Rightarrow> generation_receive_result \<Rightarrow> 's receiver_state
     \<Rightarrow> session_error option \<times> generation_receive_result \<times> 's receiver_state" where
  "record_and_acknowledge L Z wr c E custody result st =
     (case st of (s, receipts, queue) \<Rightarrow>
      case RecordCustodyDurably L Z (ev_Calls E) (ev_Tmp E) (ev_Inode E) custody (rx_Root c) (rx_Receive c)
             (ev_Fs0 E) (ev_Fs1 E) (ev_Fs2 E) (ev_Close E) (rx_Recorder c) receipts of
        (Inl e, receipts') \<Rightarrow> (Some (SesRecord e), result, (s, receipts', queue))
      | (Inr recorded, receipts') \<Rightarrow>
          (case publishGenerationReady (ev_ReadyCalls E) (ev_ReadyInode E) (rx_Ready c) recorded queue of
             ((path, warning), queue') \<Rightarrow>
               let result = result\<lparr>gr_Recorder := Some recorded, gr_ReadyPath := path,
                                   gr_ReadyWarning := warning\<rparr> in
               (case generationAcknowledgementFromRecorded custody recorded of
                  Inl e \<Rightarrow> (Some e, result, (s, receipts', queue'))
                | Inr ack \<Rightarrow>
                    let result = result\<lparr>gr_Acknowledgement := Some ack\<rparr> in
                    (case gen_WriteAcknowledgement wr s ack of
                       (Some e, s') \<Rightarrow> (Some (SesWriteAcknowledgement e), result, (s', receipts', queue'))
                     | (None, s') \<Rightarrow> (None, result, (s', receipts', queue'))))))"

definition ReceiveGenerationAndAcknowledge ::
  "x509_lib \<Rightarrow> zstd_decoder \<Rightarrow> 's write_fn \<Rightarrow> generation_receive_config \<Rightarrow> receiver_env \<Rightarrow> bytes
     \<Rightarrow> 's receiver_state \<Rightarrow> session_error option \<times> generation_receive_result \<times> 's receiver_state" where
  "ReceiveGenerationAndAcknowledge L Z wr c E stream st =
     (case st of (s, receipts, queue) \<Rightarrow>
      case validateGenerationReceiveConfig c of Some e \<Rightarrow> (Some e, zero_receive_result, st) | None \<Rightarrow>
      (case ReadOffer stream of
         Inl e \<Rightarrow> (Some (SesReadOffer e), zero_receive_result, st)
       | Inr (offer, rest) \<Rightarrow>
           let result = zero_receive_result\<lparr>gr_Offer := Some offer\<rparr> in
           (case generationAdmissionDecision offer c of
              (Inl e, _) \<Rightarrow> (Some (SesDecision e), result, st)
            | (Inr decision, rejectReason) \<Rightarrow>
                let result = result\<lparr>gr_Decision := Some decision\<rparr> in
                (case WriteDecision wr s decision of
                   (Some e, s') \<Rightarrow> (Some (SesWriteDecision e), result, (s', receipts, queue))
                 | (None, s') \<Rightarrow>
                     if rejectReason \<noteq> [] then (Some (SesRejected rejectReason), result, (s', receipts, queue))
                     else (case ev_Custody E \<lparr>rq_Stream = rest, rq_Offer = offer, rq_Receive = rx_Receive c,
                                             rq_Root = rx_Root c\<rparr> of
                       Inl e \<Rightarrow> (Some (SesCustody e), result, (s', receipts, queue))
                     | Inr custody \<Rightarrow>
                         record_and_acknowledge L Z wr c E custody (result\<lparr>gr_Custody := Some custody\<rparr>)
                           (s', receipts, queue))))))"

section \<open>The listener's generation settings\<close>

text \<open>The fields of \<^verbatim>\<open>Config\<close> that the generation code reads; its roots with what the system says.\<close>

record listener_config =
  lc_BatchCRL :: "revocation_list option"
  lc_BatchIssuer :: "certificate option"
  lc_CustodyRoot :: string
  lc_GenerationEnabled :: bool
  lc_GenerationCustodyRoot :: custody_root
  lc_GenerationMaxCanonicalBytes :: uint64
  lc_GenerationMaxEncodedBytes :: uint64
  lc_GenerationMaxManifestBytes :: uint64
  lc_GenerationReadyRoot :: custody_root
  lc_GenerationRecordedRoot :: custody_root
  lc_Root :: "certificate option"
  lc_Source :: source_authorization

definition generationListenerEnabled :: "listener_config \<Rightarrow> bool" where
  "generationListenerEnabled c = lc_GenerationEnabled c"

definition generationReceiveConfigFromListener :: "listener_config \<Rightarrow> int \<Rightarrow> generation_receive_config" where
  "generationReceiveConfigFromListener c currentTime =
     \<lparr>rx_Root = lc_GenerationCustodyRoot c,
      rx_Receive = \<lparr>rc_BatchCRL = lc_BatchCRL c, rc_BatchIssuer = lc_BatchIssuer c, rc_CurrentTime = currentTime,
                    rc_MaxCanonicalBytes = lc_GenerationMaxCanonicalBytes c,
                    rc_MaxEncodedBytes = lc_GenerationMaxEncodedBytes c, rc_Root = lc_Root c,
                    rc_Source = lc_Source c\<rparr>,
      rx_Ready = lc_GenerationReadyRoot c,
      rx_Recorder = \<lparr>du_Root = lc_GenerationRecordedRoot c,
                     du_MaxManifestBytes = lc_GenerationMaxManifestBytes c\<rparr>\<rparr>"

definition validateGenerationListenerConfig :: "listener_config \<Rightarrow> session_error option" where
  "validateGenerationListenerConfig c =
     (let custodyDir = rt_RootDir (lc_GenerationCustodyRoot c); readyDir = rt_RootDir (lc_GenerationReadyRoot c);
          recordedDir = rt_RootDir (lc_GenerationRecordedRoot c);
          configured = (custodyDir \<noteq> [] \<or> readyDir \<noteq> [] \<or> recordedDir \<noteq> [] \<or>
            lc_GenerationMaxCanonicalBytes c \<noteq> 0 \<or> lc_GenerationMaxEncodedBytes c \<noteq> 0 \<or>
            lc_GenerationMaxManifestBytes c \<noteq> 0);
          custodyRoot = filepath_Clean custodyDir; readyRoot = filepath_Clean readyDir;
          recordedRoot = filepath_Clean recordedDir; batchRoot = filepath_Clean (lc_CustodyRoot c) in
      if \<not> generationListenerEnabled c then fail_if configured SesSettings
      else first_err
       [fail_if (custodyDir = [] \<or> readyDir = [] \<or> recordedDir = [] \<or>
          lc_GenerationMaxCanonicalBytes c = 0 \<or> lc_GenerationMaxEncodedBytes c = 0 \<or>
          lc_GenerationMaxManifestBytes c = 0) SesIncomplete,
        fail_if (\<not> filepath_IsAbs custodyDir \<or> \<not> filepath_IsAbs readyDir \<or> \<not> filepath_IsAbs recordedDir)
          SesRootsNotAbsolute,
        fail_if (custodyRoot = recordedRoot \<or> custodyRoot = readyRoot \<or> recordedRoot = readyRoot) SesRootsShared,
        fail_if (lc_CustodyRoot c \<noteq> [] \<and>
          (custodyRoot = batchRoot \<or> recordedRoot = batchRoot \<or> readyRoot = batchRoot)) SesBatchRootShared,
        fail_if (lc_GenerationMaxCanonicalBytes c > 2 ^ 63 - 1 \<or> lc_GenerationMaxEncodedBytes c > 2 ^ 63 - 1)
          SesTransportLimits,
        fail_if (lc_GenerationMaxManifestBytes c > 64 * 2 ^ 20) SesManifestLimit])"

definition receiveAuthenticatedGeneration ::
  "x509_lib \<Rightarrow> zstd_decoder \<Rightarrow> 's write_fn \<Rightarrow> listener_config \<Rightarrow> int \<Rightarrow> receiver_env \<Rightarrow> bytes
     \<Rightarrow> 's receiver_state \<Rightarrow> session_error option \<times> generation_receive_result \<times> 's receiver_state" where
  "receiveAuthenticatedGeneration L Z wr c currentTime E stream st =
     (if \<not> generationListenerEnabled c then
        (case ReadOffer stream of
           Inl e \<Rightarrow> (Some (SesReadOffer e), zero_receive_result, st)
         | Inr (offer, _) \<Rightarrow>
             let result = zero_receive_result\<lparr>gr_Offer := Some offer\<rparr> in
             (case NewDecision offer False ''GENERATION_DISABLED'' of
                Inl e \<Rightarrow> (Some (SesDecision e), result, st)
              | Inr decision \<Rightarrow>
                  let result = result\<lparr>gr_Decision := Some decision\<rparr> in
                  (case WriteDecision wr (fst st) decision of
                     (Some e, s') \<Rightarrow> (Some (SesWriteDecision e), result, (s', snd st))
                   | (None, s') \<Rightarrow> (Some SesNotEnabled, result, (s', snd st)))))
      else ReceiveGenerationAndAcknowledge L Z wr (generationReceiveConfigFromListener c currentTime) E stream st)"

section \<open>Startup\<close>

record startup_result =
  sr_AlreadyRecorded :: uint64
  sr_Discovered :: uint64
  sr_ReadyPublished :: uint64
  sr_ReadyWarning :: "ready_error option"
  sr_ReadyWarnings :: uint64
  sr_RecordedNew :: uint64
  sr_RemovedProvisional :: uint64

definition zero_startup :: startup_result where
  "zero_startup =
     \<lparr>sr_AlreadyRecorded = 0, sr_Discovered = 0, sr_ReadyPublished = 0, sr_ReadyWarning = None,
      sr_ReadyWarnings = 0, sr_RecordedNew = 0, sr_RemovedProvisional = 0\<rparr>"

text \<open>The counts after one object was recorded.\<close>

definition startup_count ::
  "calls \<Rightarrow> nat \<Rightarrow> custody_root \<Rightarrow> durable_result \<Rightarrow> startup_result \<Rightarrow> custody_fs
     \<Rightarrow> startup_result \<times> custody_fs" where
  "startup_count C i root recorded r queue =
     (case dr_Disposition recorded of
        RecordedDispositionNew \<Rightarrow>
          (case publishGenerationReady C i root recorded queue of
             ((_, Some warning), queue') \<Rightarrow>
               (r\<lparr>sr_RecordedNew := sr_RecordedNew r + 1, sr_ReadyWarnings := sr_ReadyWarnings r + 1,
                  sr_ReadyWarning := (case sr_ReadyWarning r of None \<Rightarrow> Some warning | Some w \<Rightarrow> Some w)\<rparr>, queue')
           | ((_, None), queue') \<Rightarrow>
               (r\<lparr>sr_RecordedNew := sr_RecordedNew r + 1, sr_ReadyPublished := sr_ReadyPublished r + 1\<rparr>, queue'))
      | RecordedDispositionAlreadyRecorded \<Rightarrow>
          (r\<lparr>sr_AlreadyRecorded := sr_AlreadyRecorded r + 1\<rparr>, queue))"

text \<open>The loop over the discovered objects; \<open>E\<close> gives what happens around each recording.\<close>

fun startup_record ::
  "x509_lib \<Rightarrow> zstd_decoder \<Rightarrow> generation_receive_config \<Rightarrow> (nat \<Rightarrow> receiver_env) \<Rightarrow> nat
     \<Rightarrow> discovered_custody list \<Rightarrow> startup_result \<Rightarrow> custody_fs \<times> custody_fs
     \<Rightarrow> session_error option \<times> startup_result \<times> custody_fs \<times> custody_fs" where
  "startup_record L Z c E k [] r st = (None, r, st)"
| "startup_record L Z c E k (discovered # objects) r st =
     (case RecordDiscoveredCustodyDurably L Z (ev_Calls (E k)) (ev_Tmp (E k)) (ev_Inode (E k)) discovered
             (rx_Root c) (rx_Receive c) (ev_Fs0 (E k)) (ev_Fs1 (E k)) (ev_Fs2 (E k)) True (ev_Close (E k))
             (rx_Recorder c) (fst st) of
        (Inl e, receipts) \<Rightarrow> (Some (SesRecord e), r, (receipts, snd st))
      | (Inr recorded, receipts) \<Rightarrow>
          (case startup_count (ev_ReadyCalls (E k)) (ev_ReadyInode (E k)) (rx_Ready c) recorded r (snd st) of
             (r', queue) \<Rightarrow> startup_record L Z c E (Suc k) objects r' (receipts, queue)))"

definition RecoverGenerationStartup ::
  "x509_lib \<Rightarrow> zstd_decoder \<Rightarrow> listener_config \<Rightarrow> int \<Rightarrow> (string \<Rightarrow> bool) \<Rightarrow> bool \<Rightarrow> string list
     \<Rightarrow> (nat \<Rightarrow> receiver_env) \<Rightarrow> custody_fs \<Rightarrow> custody_fs \<times> custody_fs
     \<Rightarrow> session_error option \<times> startup_result \<times> custody_fs \<times> custody_fs \<times> custody_fs" where
  "RecoverGenerationStartup L Z c currentTime okR okSync names E custody st =
     (if currentTime = 0 then (Some SesTimeRequired, zero_startup, custody, st)
      else case validateGenerationListenerConfig c of
        Some e \<Rightarrow> (Some e, zero_startup, custody, st)
      | None \<Rightarrow>
          if \<not> generationListenerEnabled c then (None, zero_startup, custody, st)
          else let t = generationReceiveConfigFromListener c currentTime in
          (case validateGenerationReceiveConfig t of
             Some e \<Rightarrow> (Some e, zero_startup, custody, st)
           | None \<Rightarrow>
               (case RecoverDurableCustodyRoot (rx_Root t) (rx_Receive t) okR okSync names custody of
                  (Inl e, custody') \<Rightarrow> (Some (SesRecover e), zero_startup, custody', st)
                | (Inr (objects, removed), custody') \<Rightarrow>
                    (case startup_record L Z t E 0 objects
                            (zero_startup\<lparr>sr_Discovered := of_nat (length objects),
                                          sr_RemovedProvisional := of_nat removed\<rparr>) st of
                       (err, r, st') \<Rightarrow> (err, r, custody', st')))))"

section \<open>What an acknowledgement means\<close>

lemma acknowledged_recorded:
  assumes "record_and_acknowledge L Z wr c E custody r0 (s, receipts, queue) = (err, result, (s', receipts', queue'))"
    and "gr_Acknowledgement r0 = None" and "gr_Acknowledgement result = Some a"
  shows "\<exists>recorded. RecordCustodyDurably L Z (ev_Calls E) (ev_Tmp E) (ev_Inode E) custody (rx_Root c) (rx_Receive c)
      (ev_Fs0 E) (ev_Fs1 E) (ev_Fs2 E) (ev_Close E) (rx_Recorder c) receipts = (Inr recorded, receipts') \<and>
    generationAcknowledgementFromRecorded custody recorded = Inr a"
  using assms
  by (auto simp: record_and_acknowledge_def Let_def split: prod.splits sum.splits option.splits)

lemma session_acknowledged:
  assumes "ReceiveGenerationAndAcknowledge L Z wr c E stream (s, receipts, queue) = (err, result, (s', receipts', queue'))"
    and "gr_Acknowledgement result = Some a"
  obtains offer rest custody recorded where "ReadOffer stream = Inr (offer, rest)"
    and "ev_Custody E \<lparr>rq_Stream = rest, rq_Offer = offer, rq_Receive = rx_Receive c, rq_Root = rx_Root c\<rparr> = Inr custody"
    and "RecordCustodyDurably L Z (ev_Calls E) (ev_Tmp E) (ev_Inode E) custody (rx_Root c) (rx_Receive c)
      (ev_Fs0 E) (ev_Fs1 E) (ev_Fs2 E) (ev_Close E) (rx_Recorder c) receipts = (Inr recorded, receipts')"
    and "generationAcknowledgementFromRecorded custody recorded = Inr a"
proof -
  from assms obtain offer rest custody r0 s1 where
    o: "ReadOffer stream = Inr (offer, rest)"
    and cu: "ev_Custody E \<lparr>rq_Stream = rest, rq_Offer = offer, rq_Receive = rx_Receive c, rq_Root = rx_Root c\<rparr> = Inr custody"
    and r: "record_and_acknowledge L Z wr c E custody r0 (s1, receipts, queue) = (err, result, (s', receipts', queue'))"
      "gr_Acknowledgement r0 = None"
    by (auto simp: ReceiveGenerationAndAcknowledge_def zero_receive_result_def Let_def
        split: option.splits sum.splits prod.splits if_splits)
  from acknowledged_recorded [OF r assms(2)] o cu that show thesis by blast
qed

lemma acknowledgement_of_receipt:
  assumes "generationAcknowledgementFromRecorded custody recorded = Inr a"
  shows "AcknowledgementMatches a (cr_Transfer custody) = None"
    and "re_Descriptor (dr_Receipt recorded) = tr_Descriptor (cr_Transfer custody)"
    and "re_TransferBytes (dr_Receipt recorded) = tr_TransferBytes (cr_Transfer custody)"
    and "re_TransferSHA256 (dr_Receipt recorded) = tr_TransferSHA256 (cr_Transfer custody)"
  using assms by (auto simp: generationAcknowledgementFromRecorded_def Let_def split: if_splits)

text \<open>
  The custody root \<open>fs\<close> holds, for running processes and on disk, the synced file \<open>f\<close> of the
  acknowledged size and SHA-256 under the generation's name; and the directory \<open>receipts\<close> holds
  on disk a receipt that is true of exactly this file.
\<close>

definition generation_held ::
  "x509_lib \<Rightarrow> zstd_decoder \<Rightarrow> uint64 \<Rightarrow> custody_fs \<Rightarrow> custody_fs \<Rightarrow> generation_acknowledgement \<Rightarrow> custody_file
     \<Rightarrow> bool" where
  "generation_held L Z maximum fs receipts a f \<longleftrightarrow>
     (\<exists>k v raw. let name = generationCustodyObjectName (gd_SourceID (ga_Descriptor a)) (gd_GenerationID (ga_Descriptor a)) in
      cd_Dir fs name = Some k \<and> cd_Disk fs name = Some k \<and> cd_Files fs k = Some f \<and>
      cf_Synced f \<and> length (cf_Content f) = unat (ga_TransferBytes a) \<and>
      hex_EncodeToString (Sum256 (cf_Content f)) = ga_TransferSHA256 a \<and>
      re_Descriptor v = ga_Descriptor a \<and> receipt_true L Z maximum (cf_Content f) v \<and>
      receipt_on_disk receipts v raw \<and> UnmarshalRecordedReceipt raw = Inr v)"

lemma acknowledged_held:
  assumes run: "custody_run L Z Q undone sys"
    and custody: "\<And>q cr. ev_Custody E q = Inr cr \<Longrightarrow> \<exists>j. Q j = q \<and> sy_Procs sys j = PcDone cr"
    and fs: "ev_Fs1 E = sy_Fs sys"
    and env: "others_keep (ev_Calls E) (ev_Tmp E) (ev_Inode E)" "io_writer (cl_write (ev_Calls E)) (\<lambda>s. s)"
      "receipts_ok receipts"
    and ack: "ReceiveGenerationAndAcknowledge L Z wr c E stream (s, receipts, queue) = (err, result, (s', receipts', queue'))"
      "gr_Acknowledgement result = Some a"
    and later: "custody_later L Z Q undone sys sys'"
    and keep: "generationCustodyObjectName (gd_SourceID (ga_Descriptor a)) (gd_GenerationID (ga_Descriptor a)) \<notin> undone"
  shows "\<exists>f. generation_held L Z (du_MaxManifestBytes (rx_Recorder c)) (sy_Fs sys') receipts' a f"
proof -
  from session_acknowledged [OF ack] obtain offer rest cu rec where
    q: "ev_Custody E \<lparr>rq_Stream = rest, rq_Offer = offer, rq_Receive = rx_Receive c, rq_Root = rx_Root c\<rparr> = Inr cu"
    and rc: "RecordCustodyDurably L Z (ev_Calls E) (ev_Tmp E) (ev_Inode E) cu (rx_Root c) (rx_Receive c)
      (ev_Fs0 E) (ev_Fs1 E) (ev_Fs2 E) (ev_Close E) (rx_Recorder c) receipts = (Inr rec, receipts')"
    and a: "generationAcknowledgementFromRecorded cu rec = Inr a" .
  from custody [OF q] obtain j where j: "Q j = \<lparr>rq_Stream = rest, rq_Offer = offer, rq_Receive = rx_Receive c,
      rq_Root = rx_Root c\<rparr>" "sy_Procs sys j = PcDone cu" by blast
  note A = acknowledgement_of_receipt [OF a]
  from A(1) have m: "ga_Descriptor a = tr_Descriptor (cr_Transfer cu)" "ga_TransferBytes a = tr_TransferBytes (cr_Transfer cu)"
    "ga_TransferSHA256 a = tr_TransferSHA256 (cr_Transfer cu)"
    by (simp_all add: AcknowledgementMatches_None)
  then have n: "generationCustodyObjectName (gd_SourceID (ga_Descriptor a)) (gd_GenerationID (ga_Descriptor a)) =
      finalName (cr_Transfer cu)" by (simp add: finalName_def)
  from custody_run_ok [OF run] have "proc_ok L undone (sy_Fs sys) (sy_Procs sys j)" by (simp add: sys_ok_def)
  with j(2) keep n obtain k f where f: "cd_Dir (sy_Fs sys) (finalName (cr_Transfer cu)) = Some k"
    "cd_Disk (sy_Fs sys) (finalName (cr_Transfer cu)) = Some k" "cd_Files (sy_Fs sys) k = Some f" "cf_Synced f"
    and t: "transfer_ok L (cf_Content f) (cr_Transfer cu)" by (auto simp: durable_def)
  from custody_run_results [OF run, of j] j have path: "cr_CustodyPath cu = custodyPath (rx_Root c) (cr_Transfer cu)"
    by (auto simp: result_ok_def newGenerationCustodyResult_def dest: arg_cong [where f = cr_CustodyPath])
  from rc have "validateGenerationCustodyConfig (rx_Root c) (rx_Receive c) = None"
    by (auto simp: RecordCustodyDurably_def ReadDurableCustodyArtifacts_def)
  then have root: "path_rooted (rt_RootDir (rx_Root c))" by (rule valid_root_rooted)
  from recorded_custody [OF env rc] obtain k' f' raw where
    "cd_Dir (ev_Fs1 E) (filepath_Base (cr_CustodyPath cu)) = Some k'" "cd_Files (ev_Fs1 E) k' = Some f'"
    and v: "receipt_true L Z (du_MaxManifestBytes (rx_Recorder c)) (cf_Content f') (dr_Receipt rec)"
    "receipt_on_disk receipts' (dr_Receipt rec) raw" "UnmarshalRecordedReceipt raw = Inr (dr_Receipt rec)" by blast
  with f path custody_path(1) [OF root] fs have "f' = f" by simp
  with v have v: "receipt_true L Z (du_MaxManifestBytes (rx_Recorder c)) (cf_Content f) (dr_Receipt rec)"
    "receipt_on_disk receipts' (dr_Receipt rec) raw" "UnmarshalRecordedReceipt raw = Inr (dr_Receipt rec)" by simp_all
  have "kept (sy_Fs sys') (finalName (cr_Transfer cu)) k f"
    using custody_later_kept [OF later run final_name_not_provisional] keep f unfolding n by (simp add: kept_def)
  then show ?thesis
    unfolding generation_held_def Let_def n kept_def using v A(2) m transfer_ok_length [OF t] by metis
qed

text \<open>
  C2: An acknowledgement means the data is safe. Let the receiver's transaction have made an
  acknowledgement (whether or not writing it succeeded), where the custody results it works
  with are results of receivers in a reachable state \<open>sys\<close> of the custody model, the state in
  which the recorder opens the custody object. Then in every state \<open>sys'\<close> that further receivers,
  crashes and restarts can make of \<open>sys\<close> the custody root holds, for running processes and on
  disk, a synced file of the acknowledged size and SHA-256 under the generation's name; and the
  receipt directory holds on disk, at the end of the transaction, a receipt that is true of
  exactly this file. The one system call that must not fail is the removal of a provisional name
  of this generation after its publication (\<open>keep\<close>): a receiver for which it fails removes the
  published name again.
\<close>

theorem acknowledged_generation_is_held:
  assumes run: "custody_run L Z Q undone sys"
    and custody: "\<And>q cr. ev_Custody E q = Inr cr \<Longrightarrow> \<exists>j. Q j = q \<and> sy_Procs sys j = PcDone cr"
    and fs: "ev_Fs1 E = sy_Fs sys"
    and env: "others_keep (ev_Calls E) (ev_Tmp E) (ev_Inode E)" "io_writer (cl_write (ev_Calls E)) (\<lambda>s. s)"
      "receipts_ok receipts"
    and ack: "ReceiveGenerationAndAcknowledge L Z wr c E stream (s, receipts, queue) = (err, result, (s', receipts', queue'))"
      "gr_Acknowledgement result = Some a"
    and later: "custody_later L Z Q undone sys sys'"
    and keep: "generationCustodyObjectName (gd_SourceID (ga_Descriptor a)) (gd_GenerationID (ga_Descriptor a)) \<notin> undone"
  shows "\<exists>f. generation_held L Z (du_MaxManifestBytes (rx_Recorder c)) (sy_Fs sys') receipts' a f"
  by (rule acknowledged_held [OF run custody fs env ack later keep])

end
