(* ===== verification/Gen_EndToEnd.thy ===== *)
theory Gen_EndToEnd
  imports Gen_Sender Gen_Session
begin

text \<open>
  Sender and receiver together: what the receiver writes during its transaction is what the
  sender reads during its own, and the sender retires the generation only when the receiver
  holds it.
\<close>

section \<open>Writes that stop anywhere\<close>

context io_writer
begin

lemma writeParts_prefix:
  "writeParts wr s ps = (r, s') \<Longrightarrow> \<exists>k. contents s' = contents s @ take k (concat ps)"
proof (induction ps arbitrary: s)
  case (Cons p ps)
  obtain r1 t where p: "writeAll wr s p = (r1, t)" by (cases "writeAll wr s p")
  from writeAll_prefix [OF p] obtain k where k: "k \<le> length p" "contents t = contents s @ take k p"
    "r1 = None \<longrightarrow> k = length p" by blast
  show ?case
  proof (cases r1)
    case None
    with Cons.prems p have "writeParts wr t ps = (r, s')" by simp
    from Cons.IH [OF this] obtain j where "contents s' = contents t @ take j (concat ps)" ..
    with k None show ?thesis by (intro exI [of _ "length p + j"]) simp
  next
    case (Some e)
    with Cons.prems p k show ?thesis by (intro exI [of _ k]) simp
  qed
qed auto

end

text \<open>
  What the peer can read of a message whose writing may have failed: the message, if all of it
  was taken, and nothing follows; otherwise no message.
\<close>

definition at_most_delivered :: "(bytes \<Rightarrow> protocol_error + 'a \<times> bytes) \<Rightarrow> bytes \<Rightarrow> bytes \<Rightarrow> 'a \<Rightarrow> bool" where
  "at_most_delivered rd before after v \<longleftrightarrow>
     (\<exists>bs. after = before @ bs \<and>
        (\<forall>k x rest. rd (take k bs) = Inr (x, rest) \<longrightarrow> x = v \<and> rest = []))"

context json_message
begin

lemma partial_frame:
  assumes w: "io_writer wr contents" and valid: "valid x" and magic: "length magic = 8"
    and p: "writeProtocolJSON wr s magic (JObj (members x)) = (r, s')"
  shows "\<exists>bs. contents s' = contents s @ bs \<and>
    (\<forall>k y rest. readProtocolJSON fields zero_value magic (take k bs) = Inr (y, rest) \<longrightarrow> y = x \<and> rest = [])"
proof (cases "length (json_print (JObj (members x))) \<le> maxProtocolJSONBytes")
  case True
  let ?raw = "json_print (JObj (members x))"
  let ?fs = "[(0, 8, magic), (8, 12, be_PutUint32 (of_nat (length ?raw)))]"
  have h: "fixed_header 12 ?fs = fields_bytes ?fs"
    using magic by (intro fixed_header_contiguous) simp_all
  have e: "concat [fixed_header 12 ?fs, ?raw] = frame magic x"
    by (simp add: h frame_def len32_def Let_def del: json_print.simps)
  from p True magic consider r' where "writeParts wr s [fixed_header 12 ?fs, ?raw] = (r', s')" | "s' = s"
    by (auto simp: writeProtocolJSON_def Let_def protocolHeaderBytes_def split: if_splits prod.splits)
  then have "\<exists>k. contents s' = contents s @ take k (frame magic x)"
  proof cases
    case (1 r')
    from io_writer.writeParts_prefix [OF w 1] show ?thesis by (simp only: e)
  qed (auto intro: exI [of _ 0])
  then obtain k where k: "contents s' = contents s @ take k (frame magic x)" ..
  have "y = x \<and> rest = []" if "readProtocolJSON fields zero_value magic (take j (frame magic x)) = Inr (y, rest)" for j y rest
    using that truncated_frame [OF magic, of j x] True read_frame [OF valid magic True, of "[]"]
    by (cases "j < length (frame magic x)") auto
  with k show ?thesis by (intro exI [of _ "take k (frame magic x)"]) simp
next
  case False
  with p magic have "s' = s" by (auto simp: writeProtocolJSON_def Let_def)
  then show ?thesis by (auto simp: readProtocolJSON_def ReadFull_def protocolHeaderBytes_def)
qed

end

lemma WriteAcknowledgement_partial:
  assumes w: "io_writer wr contents" and p: "gen_WriteAcknowledgement wr s v = (r, s')"
  shows "at_most_delivered gen_ReadAcknowledgement (contents s) (contents s') v"
proof (cases "genack_Validate v")
  case None
  with p have "writeProtocolJSON wr s AcknowledgementMagic (JObj (genack_members v)) = (r, s')"
    by (simp add: gen_WriteAcknowledgement_def)
  from genack_json.partial_frame [OF w None _ this] show ?thesis
    by (fastforce simp: at_most_delivered_def gen_ReadAcknowledgement_def AcknowledgementMagic_def)
next
  case (Some e)
  with p have "s' = s" by (simp add: gen_WriteAcknowledgement_def)
  then show ?thesis
    by (simp add: at_most_delivered_def gen_ReadAcknowledgement_def readProtocolJSON_def ReadFull_def protocolHeaderBytes_def)
qed

lemma WriteDecision_partial:
  assumes w: "io_writer wr contents" and p: "WriteDecision wr s v = (r, s')"
  shows "at_most_delivered ReadDecision (contents s) (contents s') v"
proof (cases "decision_Validate v")
  case None
  with p have "writeProtocolJSON wr s DecisionMagic (JObj (decision_members v)) = (r, s')"
    by (simp add: WriteDecision_def)
  from decision_json.partial_frame [OF w None _ this] show ?thesis
    by (fastforce simp: at_most_delivered_def ReadDecision_def DecisionMagic_def)
next
  case (Some e)
  with p have "s' = s" by (simp add: WriteDecision_def)
  then show ?thesis
    by (simp add: at_most_delivered_def ReadDecision_def readProtocolJSON_def ReadFull_def protocolHeaderBytes_def)
qed

section \<open>What the sender reads is what the receiver wrote\<close>

lemma session_writes:
  assumes "ReceiveGenerationAndAcknowledge L Z wr c E stream (s, receipts, queue) = (err, result, (s', receipts', queue'))"
  obtains a d s1 r where "gr_Acknowledgement result = Some a" "WriteDecision wr s d = (None, s1)"
      "gen_WriteAcknowledgement wr s1 a = (r, s')"
    | d r where "WriteDecision wr s d = (r, s')"
    | "s' = s"
  using assms
  by (auto simp: ReceiveGenerationAndAcknowledge_def record_and_acknowledge_def Let_def zero_receive_result_def
      split: option.splits sum.splits prod.splits if_splits)

lemma acknowledgement_read:
  assumes w: "io_writer wr contents" and start: "contents s = []"
    and rx: "ReceiveGenerationAndAcknowledge L Z wr c E stream (s, receipts, queue) = (err, result, (s', receipts', queue'))"
    and rd: "ReadDecision (take n (contents s')) = Inr (decision, input')" "gen_ReadAcknowledgement input' = Inr (ack, rest)"
  shows "gr_Acknowledgement result = Some ack"
  using rx
proof (cases rule: session_writes)
  case (1 a d s1 r)
  from WriteDecision_delivered [OF w 1(2)] start obtain ds where d: "contents s1 = ds"
    "\<forall>rest. ReadDecision (ds @ rest) = Inr (d, rest)" "\<forall>k < length ds. \<exists>e. ReadDecision (take k ds) = Inl e"
    by (auto simp: delivered_def)
  from WriteAcknowledgement_partial [OF w 1(3)] d(1) obtain as where as: "contents s' = ds @ as"
    "\<forall>k x rest. gen_ReadAcknowledgement (take k as) = Inr (x, rest) \<longrightarrow> x = a \<and> rest = []"
    by (auto simp: at_most_delivered_def)
  from rd(1) as(1) d(2,3) have "input' = take (n - length ds) as"
    by (cases "n < length ds") auto
  with as(2) rd(2) 1(1) show ?thesis by blast
next
  case (2 d r)
  from WriteDecision_partial [OF w 2] start rd(1) have "input' = []" by (auto simp: at_most_delivered_def)
  with rd(2) show ?thesis
    by (simp add: gen_ReadAcknowledgement_def readProtocolJSON_def ReadFull_def protocolHeaderBytes_def)
next
  case 3
  with start rd(1) show ?thesis
    by (simp add: ReadDecision_def readProtocolJSON_def ReadFull_def protocolHeaderBytes_def)
qed

text \<open>
  C1: The sender gives up a generation only when the receiver holds it, and will hold it. Let a
  receiver run its transaction, with custody taken in a reachable state \<open>sys\<close> of the custody
  model, the state in which the recorder opens the custody object, and let a sender read what
  the receiver wrote, all of it or cut short anywhere. If the sender's transaction ends without
  error, that is, with the generation retired, then in every state \<open>sys'\<close> that further receivers,
  crashes and restarts can make of \<open>sys\<close> the custody root holds on disk a synced file with the
  length and the SHA-256 of the very transfer that the sender put on the wire, and the receipt
  directory holds on disk, at the end of the receiver's transaction, a receipt that is true of
  this file. The one system call that must not fail is the removal of a provisional name of this
  generation after its publication (\<open>keep\<close>).
\<close>

theorem retired_generation_is_held:
  assumes run: "custody_run L Z Q undone sys"
    and custody: "\<And>q cr. ev_Custody E q = Inr cr \<Longrightarrow> \<exists>j. Q j = q \<and> sy_Procs sys j = PcDone cr"
    and fs: "ev_Fs1 E = sy_Fs sys"
    and env: "others_keep (ev_Calls E) (ev_Tmp E) (ev_Inode E)" "io_writer (cl_write (ev_Calls E)) (\<lambda>s. s)"
      "receipts_ok receipts"
    and w: "io_writer wr contents" "contents s = []" "io_writer wrS contentsS"
    and rx: "ReceiveGenerationAndAcknowledge L Z wr c E stream (s, receipts, queue) = (err, result, (s', receipts', queue'))"
    and tx: "SendAndRetireTransportGeneration S L X wrS g (take n (contents s')) (v, t) = (None, txr, (v', t'))"
    and later: "custody_later L Z Q undone sys sys'"
    and keep: "generationCustodyObjectName (gd_SourceID (gs_Descriptor (pg_Signed (tg_Published g))))
      (gd_GenerationID (gs_Descriptor (pg_Signed (tg_Published g)))) \<notin> undone"
  shows "\<exists>before sent a f. contentsS t' = before @ sent \<and>
    ga_Descriptor a = gs_Descriptor (pg_Signed (tg_Published g)) \<and>
    length (cf_Content f) = length sent \<and>
    hex_EncodeToString (Sum256 (cf_Content f)) = hex_EncodeToString (Sum256 sent) \<and>
    generation_held L Z (du_MaxManifestBytes (rx_Recorder c)) (sy_Fs sys') receipts' a f"
proof -
  obtain offer s1 decision input' w1 w2 transfer ack rest where
    rd: "ReadDecision (take n (contents s')) = Inr (decision, input')" "gen_ReadAcknowledgement input' = Inr (ack, rest)"
    and st: "SendTransportGeneration S L wrS g (w1, s1) = (Inr transfer, (w2, t'))"
    and m: "AcknowledgementMatches ack transfer = None"
    by (rule transaction_completed [OF tx])
  obtain sent where sent: "contentsS t' = contentsS s1 @ sent" "transfer_ok L sent transfer"
    "tr_Descriptor transfer = gs_Descriptor (pg_Signed (tg_Published g))"
    by (rule sent_transfer [OF w(3) st])
  from m sent(3) have "ga_Descriptor ack = gs_Descriptor (pg_Signed (tg_Published g))"
    by (simp add: AcknowledgementMatches_None)
  with keep have keep: "generationCustodyObjectName (gd_SourceID (ga_Descriptor ack))
      (gd_GenerationID (ga_Descriptor ack)) \<notin> undone" by simp
  have "gr_Acknowledgement result = Some ack" by (rule acknowledgement_read [OF w(1,2) rx rd])
  from acknowledged_held [OF run custody fs env rx this later keep] obtain f where
    f: "generation_held L Z (du_MaxManifestBytes (rx_Recorder c)) (sy_Fs sys') receipts' ack f" by blast
  then have "length (cf_Content f) = unat (ga_TransferBytes ack)"
    "hex_EncodeToString (Sum256 (cf_Content f)) = ga_TransferSHA256 ack"
    unfolding generation_held_def Let_def by blast+
  with f sent transfer_ok_length [OF sent(2)] m show ?thesis
    by (intro exI conjI) (auto simp: AcknowledgementMatches_None)
qed

end
