(* ===== verification/Record_Sample.thy ===== *)
theory Record_Sample
  imports Gen_Record
begin

text \<open>A generation of one batch, sealed, taken into custody and recorded.\<close>

definition batch_data :: bytes where
  "batch_data = [CHR ''x'', CHR 0x0A]"

definition batch_manifest :: manifest where
  "batch_manifest =
     \<lparr>mf_Version = ManifestVersion, mf_BatchID = ''b'', mf_TargetBatchSize = 1, mf_RecordCount = 1,
      mf_DataBytes = 2, mf_DataSHA256 = hex_EncodeToString (Sum256 batch_data),
      mf_DataFile = ''batch-b.jsonl'',
      mf_Collector = \<lparr>ci_ExecutablePath = ''/x'', ci_ExecutableSHA256 = hex_EncodeToString (Sum256 ''x'')\<rparr>,
      mf_CreatedAt = ''t'', mf_CompletedAt = ''t''\<rparr>"

definition batch_manifest_bytes :: bytes where
  "batch_manifest_bytes = json_print (JObj (manifest_members batch_manifest))"

definition batch_files :: "artifact list" where
  "batch_files = [(''batch-b.jsonl'', [batch_data]), (''batch-b.manifest.json'', [batch_manifest_bytes])]"

definition batch_stream :: bytes where
  "batch_stream = canonical_bytes batch_files"

lemma batch_manifest_printable: "manifest_printable batch_manifest"
  by (simp add: manifest_printable_def validateManifest_None batch_manifest_def utf8_Valid_ascii
      filepath_Base_def ContainsAny_def after_slash_def slash_def)

lemma batch_manifest_size: "length batch_manifest_bytes \<le> 5000" "batch_manifest_bytes \<noteq> []"
proof -
  have h: "sha256_text (hex_EncodeToString (Sum256 batch_data))" "sha256_text (hex_EncodeToString (Sum256 ''x''))"
    by simp_all
  have f: "length (FormatUint 1) \<le> 1" "length (FormatUint 2) \<le> 1"
    using length_FormatUint [of 1 0] length_FormatUint [of 2 0] by simp_all
  show "length batch_manifest_bytes \<le> 5000"
    using length_json_object [of "manifest_members batch_manifest"]
      length_json_object [of "[(''executable_path'', JStr ''/x''),
        (''executable_sha256'', JStr (hex_EncodeToString (Sum256 ''x'')))]"]
      h [THEN length_json_digest] f
      length_json_string [of ManifestVersion 21] length_json_string [of "''b''" 1] length_json_string [of "''t''" 1]
      length_json_string [of "''/x''" 2] length_json_string [of "''batch-b.jsonl''" 13]
    by (simp add: batch_manifest_bytes_def manifest_members_def batch_manifest_def ManifestVersion_def
        del: json_print.simps(4,5,6))
  show "batch_manifest_bytes \<noteq> []" by (simp add: batch_manifest_bytes_def)
qed

lemma batch_files_wf: "wf_artifacts batch_files" "length batch_stream \<le> 6000"
    "artifacts_total batch_files = 2 + length batch_manifest_bytes"
proof -
  show "wf_artifacts batch_files"
    using batch_manifest_size
    by (simp add: wf_artifacts_def batch_files_def wf_name_def wf_chunks_def chunk_ok_def batch_data_def
        canonical_name_ok_def ContainsAny_def artifacts_total_def utf8_Valid_ascii)
  show "length batch_stream \<le> 6000"
    using batch_manifest_size(1)
    by (simp add: batch_stream_def canonical_bytes_def batch_files_def artifact_bytes_def body_bytes_def
        batch_data_def)
  show "artifacts_total batch_files = 2 + length batch_manifest_bytes"
    by (simp add: artifacts_total_def batch_files_def batch_data_def)
qed

definition batch_generation :: generation_descriptor where
  "batch_generation =
     \<lparr>gd_Version = gen_DescriptorVersion, gd_SourceID = ''fs-01'', gd_GenerationID = ''gen-2'',
      gd_CanonicalVersion = CanonicalVersion, gd_DataEncoding = DataEncodingZstd, gd_ArtifactCount = 2,
      gd_SourceBytes = of_nat (2 + length batch_manifest_bytes), gd_CanonicalBytes = of_nat (length batch_stream),
      gd_CanonicalSHA256 = hex_EncodeToString (Sum256 batch_stream),
      gd_EncodedDataBytes = of_nat (length batch_stream),
      gd_EncodedDataSHA256 = hex_EncodeToString (Sum256 batch_stream)\<rparr>"

lemma batch_sizes:
  "unat (of_nat (2 + length batch_manifest_bytes) :: uint64) = 2 + length batch_manifest_bytes"
  "unat (of_nat (length batch_stream) :: uint64) = length batch_stream" "batch_stream \<noteq> []"
proof -
  show "unat (of_nat (2 + length batch_manifest_bytes) :: uint64) = 2 + length batch_manifest_bytes"
    by (rule unat_of_nat_small) (use batch_manifest_size in simp)
  show "unat (of_nat (length batch_stream) :: uint64) = length batch_stream"
    by (rule unat_of_nat_small) (use batch_files_wf(2) in simp)
  show "batch_stream \<noteq> []" by (simp add: batch_stream_def canonical_bytes_def generationCanonicalMagic_def)
qed

lemma batch_generation_valid: "gen_Validate batch_generation = None"
proof -
  have "(of_nat (length batch_stream) :: uint64) \<noteq> 0" using batch_sizes(2,3) by (metis length_0_conv unat_0)
  then show ?thesis
    using batch_sizes(1,2) batch_files_wf(2) batch_manifest_size(1)
    by (simp add: gen_Validate_None batch_generation_def validateTextIdentity_None
        utf8_Valid_ascii ContainsAny_def ascii_space_def space2_def space3_def
        maxGenerationStreamingBytes_def word_le_nat_alt del: of_nat_add)
qed

definition batch_signed :: signed_generation where
  "batch_signed =
     \<lparr>gs_Version = SignedGenerationVersion, gs_Descriptor = batch_generation,
      gs_Signature = Sum256 (generation_signed_bytes batch_generation),
      gs_BatchSigningCertificateDER = ''DER''\<rparr>"

lemma batch_certificate: "gen_BatchSigningCertificate sample_lib batch_signed = Inr sample_certificate"
  and batch_signed_valid: "validateSignedGenerationCryptographically sample_lib batch_signed = None"
proof -
  have p: "ParseCertificate sample_lib ''DER'' = Some sample_certificate"
    "\<And>k dg sig. VerifyPSS sample_lib k dg sig \<longleftrightarrow> sig = dg"
    by (simp_all add: sample_lib_def)
  have "validateGenerationCertificateRole sample_lib batch_generation sample_certificate = None"
    by (simp add: validateGenerationCertificateRole_def sample_lib_def sample_certificate_def
        batch_generation_def KeyUsageDigitalSignature_def)
  with p batch_generation_valid have v: "signedgen_Validate sample_lib batch_signed = None"
    by (simp add: signedgen_Validate_None batch_signed_def maxGenerationSignatureBytes_def
        maxGenerationCertificateDERBytes_def)
  have "cert_PublicKey sample_certificate \<noteq> None" by (simp add: sample_certificate_def)
  with v p show "validateSignedGenerationCryptographically sample_lib batch_signed = None"
    by (auto simp: validateCryptographically_None gen_BatchSigningCertificate_def
        VerifySignedGenerationSignature_None batch_signed_def)
  with v p show "gen_BatchSigningCertificate sample_lib batch_signed = Inr sample_certificate"
    by (auto simp: gen_BatchSigningCertificate_def batch_signed_def)
qed

definition batch_metadata :: bytes where
  "batch_metadata = json_print (JObj (signedgen_members batch_signed))"

lemma batch_metadata_ok: "UnmarshalSignedGeneration sample_lib batch_metadata = Inr batch_signed"
    "batch_metadata \<noteq> []" "length batch_metadata \<le> maxSignedGenerationMetadataBytes"
  using Marshal_Unmarshal [OF batch_signed_valid]
  by (auto simp: MarshalSignedGeneration_def batch_metadata_def Let_def batch_signed_valid
      split: if_splits)

abbreviation batch_transfer :: transfer_result where
  "batch_transfer \<equiv> result_of batch_generation batch_metadata batch_stream"

abbreviation batch_bytes :: bytes where
  "batch_bytes \<equiv> transfer_frame batch_metadata batch_stream"

definition batch_receiver :: receive_config where
  "batch_receiver = sample_receiver\<lparr>rc_MaxCanonicalBytes := 100000, rc_MaxEncodedBytes := 100000\<rparr>"

definition batch_decoder :: zstd_decoder where
  "batch_decoder x = Some \<lparr>zr_Decoded = x, zr_EOF = True, zr_Taken = length x\<rparr>"

lemma batch_admitted:
  "receive_admission (custody_offer batch_transfer) batch_receiver = (None :: 'e receive_error option)"
  "validateReceiveConfig batch_receiver = (None :: 'f receive_error option)"
proof -
  let ?o = "custody_offer batch_transfer"
  have "unat (of_nat (length batch_metadata) :: uint64) = length batch_metadata"
    using batch_metadata_ok(3) by (simp add: maxSignedGenerationMetadataBytes_def unat_of_nat_small)
  with batch_metadata_ok(2,3) have o: "offer_Validate ?o = None"
    by (simp add: offer_Validate_None custody_offer_def result_of_def batch_generation_valid bad_metadata_bytes_unat)
  have v: "validateReceiveConfig batch_receiver = (None :: 'x receive_error option)"
    by (simp add: validateReceiveConfig_def batch_receiver_def sample_receiver_def sample_source_def Let_def
        validateTextIdentity_None utf8_Valid_ascii ContainsAny_def ascii_space_def space2_def space3_def)
  then show "validateReceiveConfig batch_receiver = (None :: 'f receive_error option)" .
  have "unat (gd_CanonicalBytes batch_generation) \<le> 100000" "unat (gd_EncodedDataBytes batch_generation) \<le> 100000"
    using batch_sizes(2) batch_files_wf(2) by (simp_all add: batch_generation_def)
  with o v show "receive_admission ?o batch_receiver = (None :: 'e receive_error option)"
    by (simp add: receive_admission_def Let_def custody_offer_def result_of_def batch_receiver_def
        sample_receiver_def sample_source_def maxReceiveArtifactCount_def word_less_nat_alt not_less)
      (simp add: batch_generation_def)
qed

section \<open>Its recording\<close>

definition batch_result :: recorder_result where
  "batch_result =
     \<lparr>rr_ArtifactCount = 2, rr_BatchCount = 1, rr_DataBytes = 2, rr_GenerationID = ''gen-2'',
      rr_RecordCount = 1, rr_SourceBytes = gd_SourceBytes batch_generation, rr_SourceID = ''fs-01''\<rparr>"

lemma batch_recorded:
  "recorded_as batch_generation 100000 batch_stream batch_result
     [(''b'', batch_data, batch_manifest_bytes, batch_manifest)]"
proof -
  have d: "DecodeManifest batch_manifest_bytes = Inr batch_manifest"
    using DecodeManifest_print [OF batch_manifest_printable] by (simp add: batch_manifest_bytes_def)
  have "batch_ok 100000 (''b'', batch_data, batch_manifest_bytes, batch_manifest)"
    using d batch_manifest_size(1)
    by (simp add: batch_manifest_def batch_data_def complete_lines_def count_newlines_def)
  moreover have "unat (gd_SourceBytes batch_generation) = artifacts_total batch_files"
    using batch_sizes(1) batch_files_wf(3) by (simp add: batch_generation_def del: of_nat_add)
  ultimately show ?thesis
    using batch_files_wf(1) unfolding recorded_as_def
    by (simp add: batch_result_def batches_bytes_def batches_records_def batch_data_def count_newlines_def
        batch_stream_def del: batch_ok.simps)
      (auto intro!: exI [of _ batch_files] simp: batch_files_def batch_data_def batch_generation_def)
qed

lemma batch_validated:
  obtains st st' where "newValidator batch_generation 100000 = Inr st"
    and "readValidatedTransfer sample_lib batch_decoder (Some consumeArtifact) st batch_bytes
      (custody_offer batch_transfer) batch_receiver = Inr (batch_transfer, [], st')"
    and "validator_result st' batch_generation (gd_SourceBytes batch_generation) = Inr batch_result"
proof -
  have "unat (gd_ArtifactCount batch_generation) \<le> 1000000" "recorder_validateConfig 100000 = None"
    by (simp_all add: batch_generation_def recorder_validateConfig_def maxSupportedManifestBytes_def)
  from recorded_validates [OF batch_recorded batch_generation_valid this, of "[]"] obtain st st' where
    st: "newValidator batch_generation 100000 = Inr st"
    "validator_result st' batch_generation (gd_SourceBytes batch_generation) = Inr batch_result"
    and r: "ReadCanonicalArtifacts (Some consumeArtifact) st batch_stream batch_generation =
      Inr (gd_SourceBytes batch_generation, [], st')" by auto
  have g: "gs_Descriptor batch_signed = batch_generation" by (simp add: batch_signed_def)
  have c: "rc_Root batch_receiver = Some sample_issuer" "rc_BatchIssuer batch_receiver = Some sample_issuer"
    "rc_BatchCRL batch_receiver = Some sample_crl" "rc_Source batch_receiver = sample_source"
    "rc_CurrentTime batch_receiver = 5" by (simp_all add: batch_receiver_def sample_receiver_def)
  have "readValidatedTransfer sample_lib batch_decoder (Some consumeArtifact) st (batch_bytes @ [])
      (custody_offer batch_transfer) batch_receiver = Inr (result_of (gs_Descriptor batch_signed)
        batch_metadata batch_stream, [], st')"
    by (rule frame_received [OF batch_metadata_ok(1) _ _ _ _ _ batch_admitted(1) batch_certificate, where cs = batch_stream])
      (use batch_sizes(2) sample_certificate_authorized r in
        \<open>simp_all add: g c batch_generation_def custody_offer_def result_of_def batch_decoder_def\<close>)
  then show thesis using that st by (simp add: g)
qed

definition batch_config :: durable_config where
  "batch_config = \<lparr>du_Root = sample_root, du_MaxManifestBytes = 100000\<rparr>"

lemma batch_transfer_ok: "transfer_ok sample_lib batch_bytes batch_transfer"
proof -
  obtain st st' where "readValidatedTransfer sample_lib batch_decoder (Some consumeArtifact) st batch_bytes
      (custody_offer batch_transfer) batch_receiver = Inr (batch_transfer, [], st')"
    by (rule batch_validated)
  from validated_transfer [OF this] show ?thesis
    unfolding transfer_ok_def by (auto simp: custody_offer_def result_of_def)
qed

lemma batch_published:
  "\<exists>dr fs'. publishRecordedSemanticResult quiet_calls ''.fi-generation-recorded-1.open'' 0 batch_transfer
     batch_result batch_config empty_fs = (Inr dr, fs')"
proof -
  have d: "tr_Descriptor batch_transfer = batch_generation" by (simp add: result_of_def)
  have "recorded_as (tr_Descriptor batch_transfer) 100000 batch_stream batch_result
      [(''b'', batch_data, batch_manifest_bytes, batch_manifest)]"
    unfolding d by (rule batch_recorded)
  from receipt_made [OF batch_transfer_ok this] obtain v where
    v: "recordedReceiptFromResult batch_transfer batch_result = Inr v" by blast
  obtain raw where raw: "MarshalRecordedReceipt v = Inr raw"
    using Marshal_Unmarshal_receipt [OF receipt_from_result(1) [OF v]] by blast
  have "receipt_name (recordedObjectName (gd_SourceID (re_Descriptor v)) (gd_GenerationID (re_Descriptor v)))"
    by (auto simp: receipt_name_def)
  from quiet_publish [OF this, of raw] v raw show ?thesis
    by (auto simp: publishRecordedSemanticResult_def bindP_def liftP_def retP_def Let_def)
qed

definition batch_root :: "string \<Rightarrow> custody_fs" where
  "batch_root name =
     \<lparr>cd_Dir = [name \<mapsto> 0], cd_Disk = [name \<mapsto> 0],
      cd_Files = [0 \<mapsto> \<lparr>cf_Content = batch_bytes, cf_Perm = 256, cf_Kind = RegularEntry, cf_Synced = True\<rparr>]\<rparr>"

abbreviation batch_custody :: custody_result where
  "batch_custody \<equiv> newGenerationCustodyResult batch_transfer (custodyPath sample_root batch_transfer)
     CustodyDispositionNew"

abbreviation batch_fs :: custody_fs where
  "batch_fs \<equiv> batch_root (finalName batch_transfer)"

lemma batch_held:
  "holds sample_lib batch_fs batch_transfer 0
     \<lparr>cf_Content = batch_bytes, cf_Perm = 256, cf_Kind = RegularEntry, cf_Synced = True\<rparr>"
  using batch_transfer_ok by (simp add: holds_def batch_root_def)

lemma batch_root_valid: "validateGenerationCustodyConfig sample_root batch_receiver = None"
  by (simp add: validateGenerationCustodyConfig_def sample_root_def path_rooted_def slash_def batch_admitted(2))

lemma batch_config_valid: "validateDurableConfig batch_config = None"
  by (simp add: validateDurableConfig_def batch_config_def sample_root_def recorder_validateConfig_def
      maxSupportedManifestBytes_def Let_def filepath_Clean_def path_build_def clean_parts_def path_rooted_def
      slash_def)

theorem recorded_discovered_receipt_witness:
  "\<exists>dr fs' raw. RecordDiscoveredCustodyDurably sample_lib batch_decoder quiet_calls
      ''.fi-generation-recorded-1.open'' 0
      \<lparr>dc_Bytes = tr_TransferBytes batch_transfer, dc_Path = custodyPath sample_root batch_transfer\<rparr>
      sample_root batch_receiver batch_fs batch_fs batch_fs True True batch_config empty_fs = (Inr dr, fs') \<and>
    receipt_on_disk fs' (dr_Receipt dr) raw"
proof -
  obtain st st' where st: "newValidator batch_generation 100000 = Inr st"
    and v: "readValidatedTransfer sample_lib batch_decoder (Some consumeArtifact) st batch_bytes
      (custody_offer batch_transfer) batch_receiver = Inr (batch_transfer, [], st')"
    and r: "validator_result st' batch_generation (gd_SourceBytes batch_generation) = Inr batch_result"
    by (rule batch_validated)
  have d: "tr_Descriptor batch_transfer = batch_generation" by (simp add: result_of_def)
  let ?factory = "recorder_factory 100000"
  have f: "?factory (tr_Descriptor batch_transfer) = Inr (Some consumeArtifact, st)"
    using st d by (simp add: recorder_factory_def)
  have read: "ReadDiscoveredDurableCustodyArtifacts sample_lib batch_decoder (Some ?factory)
      \<lparr>dc_Bytes = tr_TransferBytes batch_transfer, dc_Path = custodyPath sample_root batch_transfer\<rparr>
      sample_root batch_receiver batch_fs batch_fs batch_fs True True =
      Inr (newGenerationCustodyResult batch_transfer (custodyPath sample_root batch_transfer)
        CustodyDispositionExisting, st')"
    using held_rediscovered [where Z = batch_decoder and factory = ?factory, OF batch_held batch_root_valid f] v
    by simp
  obtain dr fs' where p: "publishRecordedSemanticResult quiet_calls ''.fi-generation-recorded-1.open'' 0
      batch_transfer batch_result batch_config empty_fs = (Inr dr, fs')"
    using batch_published by blast
  have "RecordDiscoveredCustodyDurably sample_lib batch_decoder quiet_calls
      ''.fi-generation-recorded-1.open'' 0
      \<lparr>dc_Bytes = tr_TransferBytes batch_transfer, dc_Path = custodyPath sample_root batch_transfer\<rparr>
      sample_root batch_receiver batch_fs batch_fs batch_fs True True batch_config empty_fs = (Inr dr, fs')"
    using read r p batch_config_valid d
    by (simp add: RecordDiscoveredCustodyDurably_def batch_config_def newGenerationCustodyResult_def)
  with recorded_discovered_receipt [OF quiet_keeps quiet_writer empty_receipts this] show ?thesis by blast
qed

lemma batch_custody_recorded:
  assumes held: "holds sample_lib fs batch_transfer i f" and content: "cf_Content f = batch_bytes"
  shows "\<exists>dr fs'. RecordCustodyDurably sample_lib batch_decoder quiet_calls
      ''.fi-generation-recorded-1.open'' 0 batch_custody sample_root batch_receiver fs fs fs
      True batch_config empty_fs = (Inr dr, fs') \<and>
    recordedReceiptFromResult batch_transfer batch_result = Inr (dr_Receipt dr)"
proof -
  obtain st st' where st: "newValidator batch_generation 100000 = Inr st"
    and v: "readValidatedTransfer sample_lib batch_decoder (Some consumeArtifact) st batch_bytes
      (custody_offer batch_transfer) batch_receiver = Inr (batch_transfer, [], st')"
    and r: "validator_result st' batch_generation (gd_SourceBytes batch_generation) = Inr batch_result"
    by (rule batch_validated)
  have d: "tr_Descriptor batch_transfer = batch_generation" by (simp add: result_of_def)
  have root: "path_rooted (rt_RootDir sample_root)" by (rule valid_root_rooted [OF batch_root_valid])
  have c: "cr_Transfer batch_custody = batch_transfer" "cr_CustodyPath batch_custody = custodyPath sample_root batch_transfer"
    by (simp_all add: newGenerationCustodyResult_def)
  have "validateGenerationCustodyResult batch_custody (rt_RootDir sample_root) =
      (None :: recorder_error custody_read_error option)"
    using holds_result_valid [OF held root, of CustodyDispositionNew] by simp
  then have read: "ReadDurableCustodyArtifacts sample_lib batch_decoder (Some consumeArtifact) st batch_custody
      sample_root batch_receiver fs fs fs True = Inr (batch_transfer, st')"
    using holds_opened [OF held custody_path(1) [OF root], where ?'e = recorder_error] batch_root_valid v content
    by (simp add: ReadDurableCustodyArtifacts_def c Let_def)
  obtain dr fs' where p: "publishRecordedSemanticResult quiet_calls ''.fi-generation-recorded-1.open'' 0
      batch_transfer batch_result batch_config empty_fs = (Inr dr, fs')"
    using batch_published by blast
  show ?thesis
    using read r p batch_config_valid d st publish_semantic(1) [OF quiet_keeps quiet_writer empty_receipts p]
    by (simp add: RecordCustodyDurably_def batch_config_def c)
qed

theorem recorded_custody_receipt_witness:
  "\<exists>dr fs' raw. RecordCustodyDurably sample_lib batch_decoder quiet_calls
      ''.fi-generation-recorded-1.open'' 0 batch_custody sample_root batch_receiver batch_fs batch_fs batch_fs
      True batch_config empty_fs = (Inr dr, fs') \<and>
    receipt_on_disk fs' (dr_Receipt dr) raw"
proof -
  obtain dr fs' where "RecordCustodyDurably sample_lib batch_decoder quiet_calls
      ''.fi-generation-recorded-1.open'' 0 batch_custody sample_root batch_receiver batch_fs batch_fs batch_fs
      True batch_config empty_fs = (Inr dr, fs')"
    using batch_custody_recorded [OF batch_held] by auto
  with recorded_custody_receipt [OF quiet_keeps quiet_writer empty_receipts this] show ?thesis by blast
qed

end
