(* ===== verification/Session_Sample.thy ===== *)
theory Session_Sample
  imports Gen_Session Record_Sample
begin

text \<open>The sample batch offered, taken into custody, recorded and acknowledged in one transaction.\<close>

lemma batch_canonical: "ReadCanonicalArtifacts no_handler () batch_stream batch_generation =
    Inr (gd_SourceBytes batch_generation, [], ())"
  unfolding canonical_reader_iff
  using batch_generation_valid batch_files_wf batch_sizes(1)
  by (auto simp: batch_stream_def batch_generation_def batch_files_def simp del: of_nat_add intro!: exI [of _ batch_files])

definition batch_offer :: generation_offer where
  "batch_offer = custody_offer batch_transfer"

definition batch_request :: custody_request where
  "batch_request = \<lparr>rq_Stream = batch_bytes, rq_Offer = batch_offer, rq_Receive = batch_receiver, rq_Root = sample_root\<rparr>"

lemma batch_tee: "receive_tee sample_lib batch_decoder batch_request = Inr (batch_transfer, batch_bytes)"
proof -
  have g: "gs_Descriptor batch_signed = batch_generation" by (simp add: batch_signed_def)
  have c: "rc_Root batch_receiver = Some sample_issuer" "rc_BatchIssuer batch_receiver = Some sample_issuer"
    "rc_BatchCRL batch_receiver = Some sample_crl" "rc_Source batch_receiver = sample_source"
    "rc_CurrentTime batch_receiver = 5" by (simp_all add: batch_receiver_def sample_receiver_def)
  have "readValidatedTransfer sample_lib batch_decoder no_handler () (batch_bytes @ [])
      batch_offer batch_receiver = Inr (result_of (gs_Descriptor batch_signed)
        batch_metadata batch_stream, [], ())"
    unfolding batch_offer_def
    by (rule frame_received [OF batch_metadata_ok(1) _ _ _ _ _ batch_admitted(1) batch_certificate, where cs = batch_stream])
      (use batch_sizes(2) sample_certificate_authorized batch_canonical in
        \<open>simp_all add: g c batch_generation_def custody_offer_def result_of_def batch_decoder_def\<close>)
  then show ?thesis by (simp add: receive_tee_def batch_request_def ReadValidatedTransfer_def g result_of_def Let_def)
qed

abbreviation batch_sys :: "custody_fs \<Rightarrow> custody_sys" where
  "batch_sys fs \<equiv> \<lparr>sy_Fs = fs, sy_Procs = (\<lambda>_. PcStart)(0 := PcDone batch_custody)\<rparr>"

abbreviation batch_runs :: "custody_sys \<Rightarrow> bool" where
  "batch_runs \<equiv> custody_run sample_lib batch_decoder (\<lambda>_. batch_request) {}"

lemma batch_run: "\<exists>fs i f. batch_runs (batch_sys fs) \<and> holds sample_lib fs batch_transfer i f \<and> cf_Content f = batch_bytes"
proof -
  have config: "validateGenerationCustodyConfig (rq_Root batch_request) (rq_Receive batch_request) = None"
    and q: "rq_Root batch_request = sample_root"
    using batch_root_valid by (simp_all add: batch_request_def)
  obtain fs where a: "custody_alone sample_lib batch_decoder batch_request ''.fi-generation-custody-1.open'' 0 10
      (\<lparr>cd_Dir = Map.empty, cd_Disk = Map.empty, cd_Files = Map.empty\<rparr>, PcStart) = (fs, PcDone batch_custody)"
    and l: "map_option cf_Content (lookup_file fs (finalName batch_transfer)) = Some batch_bytes"
    using alone_undisturbed [OF run_init config batch_tee sample_names(1), of 0, unfolded q] by (auto simp: lookup_file_def)
  have run: "batch_runs (batch_sys fs)" by (rule run_alone [OF run_init a])
  have "sy_Procs (batch_sys fs) 0 = PcDone batch_custody" by simp
  from done_holds [OF run this] obtain i f where "holds sample_lib fs batch_transfer i f"
    by (auto simp: newGenerationCustodyResult_def)
  with run l show ?thesis by (fastforce simp: holds_def lookup_file_def)
qed

definition session_config :: generation_receive_config where
  "session_config = \<lparr>rx_Root = sample_root, rx_Receive = batch_receiver, rx_Ready = ready_root, rx_Recorder = batch_config\<rparr>"

definition session_env :: "custody_fs \<Rightarrow> receiver_env" where
  "session_env fs =
     \<lparr>ev_Custody = (\<lambda>q. if q = batch_request then Inr batch_custody else Inl CusCreateTemp), ev_Fs0 = fs, ev_Fs1 = fs, ev_Fs2 = fs,
      ev_Close = True, ev_Calls = quiet_calls, ev_Tmp = ''.fi-generation-recorded-1.open'', ev_Inode = 0,
      ev_ReadyCalls = quiet_calls, ev_ReadyInode = 0\<rparr>"

lemma session_config_valid: "validateGenerationReceiveConfig session_config = None"
  by (simp add: validateGenerationReceiveConfig_def session_config_def sample_root_def ready_root_def batch_config_def
      batch_receiver_def sample_receiver_def sample_source_def Let_def filepath_Clean_def path_build_def
      clean_parts_def path_rooted_def slash_def)

lemma accepted_decision_size:
  assumes "decision_Validate d = None" and "de_Accepted d"
  shows "length (json_print (JObj (decision_members d))) \<le> maxProtocolJSONBytes"
proof -
  from assms have t: "length (de_SourceID d) \<le> 4096" "length (de_GenerationID d) \<le> 4096" "length (de_Version d) \<le> 30"
    and r: "de_Reason d = []"
    by (simp_all add: decision_Validate_None validateTextIdentity_None DecisionVersion_def)
  show ?thesis
    using length_json_object [of "decision_members d"] t [THEN length_json_string] r assms(2)
    by (simp add: decision_members_def maxProtocolJSONBytes_def del: json_print.simps(4,5,6))
qed

lemma batch_offer_valid: "offer_Validate batch_offer = None"
  using batch_admitted(1) [where ?'e = artifact_error]
  unfolding batch_offer_def receive_admission_def Let_def by (auto split: if_splits)

lemma batch_decided:
  "\<exists>d s. generationAdmissionDecision batch_offer session_config = (Inr d, []) \<and>
     WriteDecision buffer_Write [] d = (None, s)"
proof -
  let ?d = "\<lparr>de_Version = DecisionVersion, de_SourceID = ''fs-01'', de_GenerationID = ''gen-2'', de_Accepted = True,
      de_Reason = []\<rparr>"
  have g: "go_Descriptor batch_offer = batch_generation" by (simp add: batch_offer_def custody_offer_def result_of_def)
  have v: "decision_Validate ?d = None"
    by (simp add: decision_Validate_None validateTextIdentity_None utf8_Valid_ascii ContainsAny_def ascii_space_def
        space2_def space3_def)
  have "unat (gd_CanonicalBytes batch_generation) \<le> 100000" "unat (gd_EncodedDataBytes batch_generation) \<le> 100000"
    using batch_sizes(2) batch_files_wf(2) by (simp_all add: batch_generation_def)
  then have "generationAdmissionDecision batch_offer session_config = (NewDecision batch_offer True [], [])"
    by (simp add: generationAdmissionDecision_def Let_def g session_config_def batch_receiver_def sample_receiver_def
        sample_source_def word_less_nat_alt not_less) (simp add: batch_generation_def)
  moreover have "NewDecision batch_offer True [] = Inr ?d"
    using v by (simp add: NewDecision_def batch_offer_valid g) (simp add: batch_generation_def)
  moreover have "\<exists>s. WriteDecision buffer_Write [] ?d = (None, s)"
    using decision_json.frame_written [OF _ accepted_decision_size [OF v], of DecisionMagic] v
    by (simp add: WriteDecision_def DecisionMagic_def)
  ultimately show ?thesis by auto
qed

lemma acknowledgement_made:
  assumes v: "receipt_Validate (dr_Receipt recorded) = None"
    and r: "re_Descriptor (dr_Receipt recorded) = tr_Descriptor (cr_Transfer custody)"
      "re_MetadataBytes (dr_Receipt recorded) = tr_MetadataBytes (cr_Transfer custody)"
      "re_MetadataSHA256 (dr_Receipt recorded) = tr_MetadataSHA256 (cr_Transfer custody)"
      "re_TransferBytes (dr_Receipt recorded) = tr_TransferBytes (cr_Transfer custody)"
      "re_TransferSHA256 (dr_Receipt recorded) = tr_TransferSHA256 (cr_Transfer custody)"
  shows "\<exists>a. generationAcknowledgementFromRecorded custody recorded = Inr a"
proof -
  let ?t = "cr_Transfer custody"
  have "expected_transfer_bytes (tr_MetadataBytes ?t) (gd_EncodedDataBytes (tr_Descriptor ?t)) = Some (tr_TransferBytes ?t)"
    using v r unat_lt_2p [of "tr_TransferBytes ?t"]
    by (simp add: expected_transfer_bytes_Some receipt_Validate_None)
  with v r show ?thesis
    by (cases "dr_Disposition recorded")
      (simp_all add: generationAcknowledgementFromRecorded_def Let_def NewAcknowledgement_def AcknowledgementMatches_None
        genack_Validate_None receipt_Validate_None bad_metadata_bytes_unat maxSignedGenerationMetadataBytes_def)
qed

lemma batch_session:
  assumes f: "holds sample_lib fs batch_transfer i f" "cf_Content f = batch_bytes"
    and rd: "ReadOffer stream = Inr (batch_offer, batch_bytes)"
  shows "\<exists>d s1 a s' result receipts' queue'. ReceiveGenerationAndAcknowledge sample_lib batch_decoder buffer_Write
      session_config (session_env fs) stream ([], empty_fs, empty_fs) = (None, result, (s', receipts', queue')) \<and>
    generationAdmissionDecision batch_offer session_config = (Inr d, []) \<and> WriteDecision buffer_Write [] d = (None, s1) \<and>
    gen_WriteAcknowledgement buffer_Write s1 a = (None, s') \<and> AcknowledgementMatches a batch_transfer = None \<and>
    gr_Acknowledgement result = Some a"
proof -
  from batch_custody_recorded [OF f] obtain dr receipts' where
    rec: "RecordCustodyDurably sample_lib batch_decoder quiet_calls ''.fi-generation-recorded-1.open'' 0 batch_custody
      sample_root batch_receiver fs fs fs True batch_config empty_fs = (Inr dr, receipts')"
    and receipt: "recordedReceiptFromResult batch_transfer batch_result = Inr (dr_Receipt dr)" by blast
  note R = receipt_from_result [OF receipt]
  have t: "cr_Transfer batch_custody = batch_transfer" by (simp add: newGenerationCustodyResult_def)
  with acknowledgement_made [of dr batch_custody] R obtain a where
    a: "generationAcknowledgementFromRecorded batch_custody dr = Inr a" by auto
  with acknowledgement_of_receipt(1) [OF a] t have m: "AcknowledgementMatches a batch_transfer = None" by simp
  then have v: "genack_Validate a = None" by (simp add: AcknowledgementMatches_None)
  obtain d s1 where d: "generationAdmissionDecision batch_offer session_config = (Inr d, [])"
    "WriteDecision buffer_Write [] d = (None, s1)" using batch_decided by blast
  obtain s' where w: "gen_WriteAcknowledgement buffer_Write s1 a = (None, s')"
    using genack_json.frame_written [OF _ genack_json_size [OF v], of AcknowledgementMagic]
    by (auto simp: gen_WriteAcknowledgement_def AcknowledgementMagic_def v)
  have "\<exists>result receipts' queue'. ReceiveGenerationAndAcknowledge sample_lib batch_decoder buffer_Write
      session_config (session_env fs) stream ([], empty_fs, empty_fs) = (None, result, (s', receipts', queue')) \<and>
      gr_Acknowledgement result = Some a"
    using rec rd d a w session_config_valid
    by (auto simp: ReceiveGenerationAndAcknowledge_def Let_def record_and_acknowledge_def session_env_def
        session_config_def batch_request_def split: prod.splits option.splits)
  with d w m show ?thesis by blast
qed

lemma batch_offered: "\<exists>sent. WriteOffer buffer_Write [] batch_offer = (None, sent) \<and>
    (\<forall>rest. ReadOffer (sent @ rest) = Inr (batch_offer, rest))"
proof -
  obtain sent where o: "WriteOffer buffer_Write [] batch_offer = (None, sent)"
    using offer_json.frame_written [OF _ offer_json_size [OF batch_offer_valid], of OfferMagic]
    by (auto simp: WriteOffer_def OfferMagic_def batch_offer_valid)
  with WriteOffer_delivered [OF buffer.io_writer_axioms o] show ?thesis by (auto simp: delivered_def)
qed

lemma session_custody:
  "ev_Custody (session_env fs) q = Inr cr \<Longrightarrow> \<exists>j. batch_request = q \<and> sy_Procs (batch_sys fs) j = PcDone cr"
  by (auto simp: session_env_def split: if_splits)

theorem acknowledged_generation_is_held_witness:
  "\<exists>fs stream err result s' receipts' queue' a f. batch_runs (batch_sys fs) \<and>
     ReceiveGenerationAndAcknowledge sample_lib batch_decoder buffer_Write session_config (session_env fs) stream
       ([], empty_fs, empty_fs) = (err, result, (s', receipts', queue')) \<and>
     gr_Acknowledgement result = Some a \<and>
     generation_held sample_lib batch_decoder (du_MaxManifestBytes batch_config) fs receipts' a f"
proof -
  from batch_run obtain fs i f where run: "batch_runs (batch_sys fs)"
    and f: "holds sample_lib fs batch_transfer i f" "cf_Content f = batch_bytes" by blast
  obtain sent where "ReadOffer (sent @ batch_bytes) = Inr (batch_offer, batch_bytes)"
    using batch_offered by blast
  from batch_session [OF f this] obtain a s' result receipts' queue' where
    ack: "ReceiveGenerationAndAcknowledge sample_lib batch_decoder buffer_Write
      session_config (session_env fs) (sent @ batch_bytes) ([], empty_fs, empty_fs) =
      (None, result, (s', receipts', queue'))" "gr_Acknowledgement result = Some a" by blast
  from acknowledged_generation_is_held [OF run session_custody _ _ _ empty_receipts ack rtranclp.rtrancl_refl]
    quiet_keeps quiet_writer ack run
  show ?thesis
    by (simp add: session_env_def session_config_def) blast
qed

end
