(* ===== verification/Transaction_Sample.thy ===== *)
theory Transaction_Sample
  imports Gen_EndToEnd Session_Sample
begin

text \<open>
  A stage root with one generation: the state of the system is the path of its directory, which
  \<^verbatim>\<open>Rename\<close> changes. The sample batch is sent from it, and retired.
\<close>

definition disk_info :: "string \<Rightarrow> string \<Rightarrow> os_error + nat" where
  "disk_info dir p =
     (if p = dir then Inr 0 else if p = dir @ ''/signed-generation.json'' then Inr 1
      else if p = dir @ ''/payload.figz'' then Inr 2 else if p = ''/q'' then Inr 3 else Inl ErrNotExist)"

definition disk_stat :: "nat \<Rightarrow> file_info" where
  "disk_stat n =
     (if n = 1 then \<lparr>fi_Kind = RegularEntry, fi_Size = int (length batch_metadata), fi_ID = 1\<rparr>
      else if n = 2 then \<lparr>fi_Kind = RegularEntry, fi_Size = int (length batch_stream), fi_ID = 2\<rparr>
      else \<lparr>fi_Kind = DirectoryEntry, fi_Size = 0, fi_ID = n\<rparr>)"

definition disk_os :: "string queue_os" where
  "disk_os =
     \<lparr>os_IsAbs = (\<lambda>p. take 1 p = ''/''), os_Join = (\<lambda>d n. d @ ''/'' @ n), os_CleanBase = drop 3,
      os_Lstat = (\<lambda>p w. (map_sum id disk_stat (disk_info w p), w)),
      os_ReadDir = (\<lambda>p w. (if p = w then Inr [(''payload.figz'', RegularEntry),
                               (''signed-generation.json'', RegularEntry)] else Inl ErrNotExist, w)),
      os_Open = (\<lambda>p w. (disk_info w p, w)),
      os_Stat = (\<lambda>fh w. (Inr (disk_stat fh), w)),
      os_Reads = (\<lambda>fh w. (if fh = 1 then ([batch_metadata], None) else ([batch_stream], None), w)),
      os_Close = (\<lambda>_ w. (Inr (), w)),
      os_Clean = (\<lambda>p. p), os_Dir = take 2, os_EvalSymlinks = (\<lambda>p w. (Inr p, w)),
      os_ReadFile = (\<lambda>p w. (if p = w @ ''/signed-generation.json'' then Inr batch_metadata
                            else if p = w @ ''/payload.figz'' then Inr batch_stream else Inl ErrNotExist, w)),
      os_Rename = (\<lambda>a b w. if w = a then (Inr (), b) else (Inl ErrNotExist, w)),
      os_Sync = (\<lambda>_ w. (Inr (), w))\<rparr>"

abbreviation disk_dir :: string where
  "disk_dir \<equiv> ''/q/generation-gen-2''"

definition disk_published :: published_generation where
  "disk_published =
     \<lparr>pg_DirectoryPath = disk_dir, pg_MetadataPath = disk_dir @ ''/signed-generation.json'',
      pg_PayloadPath = disk_dir @ ''/payload.figz'', pg_Signed = batch_signed\<rparr>"

definition disk_generation :: transport_generation where
  "disk_generation = \<lparr>tg_GenerationDir = disk_dir, tg_GenerationID = ''gen-2'', tg_Published = disk_published\<rparr>"

lemma disk_ops:
  "os_IsAbs (os.truncate disk_os) p = (take 1 p = ''/'')" "os_Join (os.truncate disk_os) d n = d @ ''/'' @ n"
  "os_CleanBase (os.truncate disk_os) p = drop 3 p"
  "os_Lstat (os.truncate disk_os) p w = (map_sum id disk_stat (disk_info w p), w)"
  "os_ReadDir (os.truncate disk_os) w w = (Inr [(''payload.figz'', RegularEntry), (''signed-generation.json'', RegularEntry)], w)"
  "os_Open (os.truncate disk_os) p w = (disk_info w p, w)"
  "os_Stat (os.truncate disk_os) fh w = (Inr (disk_stat fh), w)"
  "os_Reads (os.truncate disk_os) fh w = (if fh = 1 then ([batch_metadata], None) else ([batch_stream], None), w)"
  "os_Close (os.truncate disk_os) fh w = (Inr (), w)"
  by (simp_all add: os.truncate_def disk_os_def)

lemma disk_paths:
  "disk_info disk_dir disk_dir = Inr 0" "disk_info disk_dir (disk_dir @ ''/signed-generation.json'') = Inr 1"
  "disk_info disk_dir (disk_dir @ ''/payload.figz'') = Inr 2"
  "disk_info disk_dir ''/q'' = Inr 3"
  by (simp_all add: disk_info_def)

lemma disk_stats:
  "disk_stat 0 = \<lparr>fi_Kind = DirectoryEntry, fi_Size = 0, fi_ID = 0\<rparr>"
  "disk_stat 1 = \<lparr>fi_Kind = RegularEntry, fi_Size = int (length batch_metadata), fi_ID = 1\<rparr>"
  "disk_stat 2 = \<lparr>fi_Kind = RegularEntry, fi_Size = int (length batch_stream), fi_ID = 2\<rparr>"
  by (simp_all add: disk_stat_def)

lemma disk_metadata_read:
  "readStableBoundedGenerationFile (os.truncate disk_os) (disk_dir @ ''/signed-generation.json'')
     maxSignedGenerationMetadataBytes disk_dir = (Inr batch_metadata, disk_dir)"
  using batch_metadata_ok(2,3)
  by (simp add: readStableBoundedGenerationFile_def disk_ops disk_paths [simplified] disk_stats [simplified]
      bindP_def callP_def stop_if_def retP_def statP_def readsP_def close_after_def is_regular_def
      SameFile_def read_limited_def Let_def)

lemma disk_load:
  "LoadSealedGeneration (os.truncate disk_os) sample_lib disk_dir disk_dir = (Inr disk_published, disk_dir)"
proof -
  have d: "gs_Descriptor batch_signed = batch_generation" "gd_GenerationID batch_generation = ''gen-2''"
    "gd_EncodedDataBytes batch_generation = of_nat (length batch_stream)"
    by (simp_all add: batch_signed_def batch_generation_def)
  have sc: "scan_entries [(''payload.figz'', RegularEntry), (''signed-generation.json'', RegularEntry)] False False
      = Inr (True, True)"
    by (simp add: SealedGenerationPayloadName_def SignedGenerationMetadataName_def)
  show ?thesis
    using batch_sizes(3)
    by (simp add: LoadSealedGeneration_def disk_ops sc bindP_def callP_def stop_if_def retP_def liftP_def
        Let_def SignedGenerationMetadataName_def disk_metadata_read [simplified] batch_metadata_ok d
        disk_paths [simplified] disk_stats [simplified]
        SealedGenerationPayloadName_def is_dir_def is_regular_def
        sealedGenerationDirectoryPrefix_def disk_published_def)
qed

lemma disk_reload:
  "reload_unchanged (os.truncate disk_os) sample_lib disk_published disk_dir =
     (Inr (disk_published, batch_metadata), disk_dir)"
proof -
  have p: "pg_DirectoryPath disk_published = disk_dir"
    "pg_MetadataPath disk_published = disk_dir @ ''/signed-generation.json''"
    "pg_PayloadPath disk_published \<noteq> []" "pg_Signed disk_published = batch_signed"
    by (simp_all add: disk_published_def)
  show ?thesis
    by (simp add: reload_unchanged_def p [simplified] bindP_def stop_if_def retP_def liftP_def disk_load
        disk_metadata_read [simplified] batch_metadata_ok)
qed

lemma disk_offered:
  "OfferFromPublished (os.truncate disk_os) sample_lib disk_published disk_dir = (Inr batch_offer, disk_dir)"
proof -
  have "batch_offer = \<lparr>go_Version = OfferVersion, go_Descriptor = gs_Descriptor (pg_Signed disk_published),
      go_MetadataBytes = of_nat (length batch_metadata), go_MetadataSHA256 = hex_EncodeToString (Sum256 batch_metadata)\<rparr>"
    by (simp add: batch_offer_def custody_offer_def result_of_def disk_published_def batch_signed_def)
  with batch_offer_valid show ?thesis
    by (simp add: OfferFromPublished_def disk_reload bindP_def liftP_def retP_def Let_def)
qed

lemma disk_opened:
  "open_payload (os.truncate disk_os) (pg_PayloadPath disk_published) batch_generation disk_dir =
      (Inr (disk_stat 2, 2, disk_stat 2), disk_dir)"
proof -
  have d: "gd_EncodedDataBytes batch_generation = of_nat (length batch_stream)" by (simp add: batch_generation_def)
  show ?thesis
    using batch_sizes(3)
    by (simp add: open_payload_def disk_published_def disk_ops disk_paths [simplified] disk_stats [simplified]
        d bindP_def callP_def stop_if_def retP_def statP_def is_regular_def SameFile_def)
qed

lemma disk_written:
  "\<exists>t. WritePublishedGeneration (os.truncate disk_os) sample_lib buffer_Write disk_published (disk_dir, s) =
     (Inr batch_transfer, (disk_dir, t)) \<and> ts_Writer t = s @ batch_bytes"
proof -
  let ?h = "transfer_header batch_metadata batch_generation"
  let ?m = "batch_metadata" and ?n = "length batch_stream"
  have d: "unat (gd_EncodedDataBytes batch_generation) = ?n"
    "gd_EncodedDataBytes batch_generation = of_nat ?n"
    by (simp_all add: batch_generation_def batch_sizes)
  note H = transfer_header_eq [OF d(1), of ?m]
  have lm: "length ?m \<le> 524288" using batch_metadata_ok(3)
    by (simp add: maxSignedGenerationMetadataBytes_def)
  have ls: "?n \<le> 6000" by (rule batch_files_wf(2))
  let ?t = "\<lparr>ts_Writer = s @ batch_bytes, ts_Hashed = batch_bytes, ts_Bytes = of_nat (length batch_bytes)\<rparr>"
  have c: "copyN buffer_Write ?n [batch_stream] None []
      \<lparr>ts_Writer = s @ ?h @ ?m, ts_Hashed = ?h @ ?m, ts_Bytes = 20 + of_nat (length ?m)\<rparr> =
      (Inr (batch_stream, []), ?t)"
    using lm ls H batch_sizes(3) by (simp add: copyN.simps [of _ ?n] buffer_transport_Write Let_def)
  have os: "os_Reads (os.truncate disk_os) 2 w = (([batch_stream], None), w)" "os_Close (os.truncate disk_os) 2 w = (Inr (), w)"
    "os_Lstat (os.truncate disk_os) (pg_PayloadPath disk_published) disk_dir = (Inr (disk_stat 2), disk_dir)" for w
    by (simp_all add: disk_ops disk_published_def disk_paths [simplified])
  have g: "gs_Descriptor (pg_Signed disk_published) = batch_generation"
    by (simp add: disk_published_def batch_signed_def)
  have sha: "gd_EncodedDataSHA256 batch_generation = hex_EncodeToString (Sum256 batch_stream)"
    by (simp add: batch_generation_def)
  show ?thesis
    using lm H by (simp add: WritePublishedGeneration_def onW_def disk_reload bindP_def stop_if_def
        retP_def Let_def g disk_opened write_or_close_def onS_def buffer_transport_Write readsP_def os c d
        batch_sizes(2) close_after_def callP_def SameFile_def sha) (simp add: result_of_def)
qed

lemma disk_sent:
  "SendTransportGeneration disk_os sample_lib buffer_Write disk_generation (disk_dir, s) =
     (Inr batch_transfer, (disk_dir, s @ batch_bytes))"
proof -
  obtain t where t: "WritePublishedGeneration (os.truncate disk_os) sample_lib buffer_Write disk_published (disk_dir, s) =
     (Inr batch_transfer, (disk_dir, t))" "ts_Writer t = s @ batch_bytes" using disk_written by blast
  have "pg_DirectoryPath disk_published = disk_dir" "gd_GenerationID (gs_Descriptor (pg_Signed disk_published)) = ''gen-2''"
    by (simp_all add: disk_published_def batch_signed_def batch_generation_def)
  with t show ?thesis by (simp add: SendTransportGeneration_def disk_generation_def)
qed

section \<open>Retirement on the disk\<close>

definition disk_retired :: string where
  "disk_retired = ''/q/'' @ generationRetirementObjectName batch_transfer"

lemmas batch_result_valid = transfer_result_valid [OF batch_transfer_ok]

lemma disk_retires:
  assumes "AcknowledgementMatches a batch_transfer = None"
    and R: "R disk_dir disk_retired disk_dir = (Inr (), w1)" "disk_info w1 ''/q'' = Inr 3"
  shows "\<exists>r. RetireTransportGeneration (disk_os\<lparr>os_Rename := R\<rparr>) sample_lib disk_generation
    \<lparr>ra_acknowledgement = a, ra_transfer = batch_transfer\<rparr> disk_dir = (Inr r, w1)"
proof -
  let ?S = "disk_os\<lparr>os_Rename := R\<rparr>"
  have n: "generationRetirementObjectName batch_transfer = ''.fi-generation-retired-'' @ x" if
    "x = hex_EncodeToString (Sum256 (''FI-GENERATION-RETIREMENT-V1'' @ [CHR 0x00] @ ''fs-01'' @ [CHR 0x00] @ ''gen-2'' @
      [CHR 0x00] @ tr_TransferSHA256 batch_transfer))" for x
    using that by (simp add: generationRetirementObjectName_def generationRetiredDirectoryPrefix_def result_of_def
        batch_generation_def)
  then obtain x where n: "generationRetirementObjectName batch_transfer = ''.fi-generation-retired-'' @ x" by blast
  have r: "disk_info disk_dir disk_retired = Inl ErrNotExist" by (simp add: disk_info_def disk_retired_def n)
  have d: "tr_Descriptor batch_transfer = batch_generation" "gs_Descriptor batch_signed = batch_generation"
    "gd_GenerationID batch_generation = ''gen-2''" "tr_MetadataBytes batch_transfer = of_nat (length batch_metadata)"
    "tr_MetadataSHA256 batch_transfer = hex_EncodeToString (Sum256 batch_metadata)"
    by (simp_all add: result_of_def batch_signed_def batch_generation_def)
  have o: "os_IsAbs disk_os p = (take 1 p = ''/'')" "os_Join disk_os dd nn = dd @ ''/'' @ nn" "os_CleanBase disk_os p = drop 3 p"
    "os_Lstat disk_os p w = (map_sum id disk_stat (disk_info w p), w)" "os_Dir disk_os p = take 2 p"
    "os_Open disk_os p w = (disk_info w p, w)" "os_Close disk_os fh w = (Inr (), w)" "os_Sync disk_os fh w = (Inr (), w)"
    "os_ReadFile disk_os (w @ ''/signed-generation.json'') w = (Inr batch_metadata, w)"
    for p dd nn w fh by (simp_all add: disk_os_def)
  have q: "take 2 disk_retired = ''/q''" by (simp add: disk_retired_def)
  have m: "verifyGenerationMetadataIdentity ?S (disk_dir @ ''/signed-generation.json'') batch_transfer disk_dir =
      (Inr (), disk_dir)"
    using batch_metadata_ok(2) o(9) [of disk_dir]
    by (simp add: verifyGenerationMetadataIdentity_def o(4) disk_paths [simplified] disk_stats [simplified] d bindP_def callP_def
        stop_if_def retP_def is_regular_def)
  have p: "publishGenerationDirectory ?S disk_dir disk_retired disk_dir = (Inr (), w1)"
    by (simp add: publishGenerationDirectory_def o q R bindP_def callP_def attemptP_def ignoreP_def liftP_def)
  have v: "validateGenerationForRetirement ?S disk_generation batch_transfer a = None"
    using assms batch_result_valid
    by (simp add: validateGenerationForRetirement_def disk_generation_def o d disk_published_def sealedGenerationDirectoryPrefix_def)
  have j: "os_Join disk_os (os_Dir disk_os disk_dir) (generationRetirementObjectName batch_transfer) = disk_retired"
    by (simp add: o disk_retired_def)
  have ra: "retire_active ?S sample_lib disk_generation batch_transfer disk_retired (disk_stat 0) disk_dir =
      (Inr (), w1)"
    using disk_load m p
    by (simp add: retire_active_def disk_stats bindP_def callP_def stop_if_def retP_def is_dir_def disk_generation_def
        disk_published_def)
  have g: "tg_GenerationDir disk_generation = disk_dir" by (simp add: disk_generation_def)
  show ?thesis
    using assms batch_result_valid v ra r
    by (simp add: RetireTransportGeneration_def authorization_Acknowledgement_def
        validateGenerationRetirementAuthorization_def Let_def bindP_def liftP_def j g attemptP_def o(4) disk_paths retP_def)
qed

section \<open>The two transactions together\<close>

definition no_chain :: "sender_error \<Rightarrow> error_chain" where
  "no_chain e = \<lparr>ch_DeadlineExceeded = False, ch_ErrClosedPipe = False, ch_EOF = False, ch_ErrUnexpectedEOF = False,
     ch_NetError = False\<rparr>"

text \<open>The sender on what the receiver wrote: its result does not depend on \<^verbatim>\<open>Rename\<close> before the end.\<close>

lemma disk_transaction:
  assumes d: "generationAdmissionDecision batch_offer session_config = (Inr d, [])" "WriteDecision buffer_Write [] d = (None, s1)"
    and a: "gen_WriteAcknowledgement buffer_Write s1 a = (None, input)" "AcknowledgementMatches a batch_transfer = None"
    and R: "R disk_dir disk_retired disk_dir = (Inr (), w1)" "disk_info w1 ''/q'' = Inr 3"
  shows "\<exists>r t result. SendAndRetireTransportGeneration (disk_os\<lparr>os_Rename := R\<rparr>) sample_lib no_chain buffer_Write
      disk_generation input (disk_dir, []) = (None, result\<lparr>tx_Retirement := Some r\<rparr>, (w1, t))"
proof -
  let ?S = "disk_os\<lparr>os_Rename := R\<rparr>"
  from WriteDecision_delivered [OF buffer.io_writer_axioms d(2)] have r1: "ReadDecision (s1 @ rest) = Inr (d, rest)" for rest
    by (auto simp: delivered_def)
  from WriteAcknowledgement_delivered [OF buffer.io_writer_axioms a(1)] obtain as where
    i: "input = s1 @ as" and r2: "gen_ReadAcknowledgement as = Inr (a, [])"
    by (auto simp: delivered_def)
  from d(1) have nd: "NewDecision batch_offer True [] = Inr d"
    by (auto simp: generationAdmissionDecision_def Let_def split: if_splits)
  then have dd: "de_Accepted d" "DecisionMatchesOffer d batch_offer = None"
    by (auto simp: NewDecision_def Let_def DecisionMatchesOffer_def)
  obtain sent where o: "WriteOffer buffer_Write [] batch_offer = (None, sent)" using batch_offered by blast
  obtain r where r: "RetireTransportGeneration ?S sample_lib disk_generation
      \<lparr>ra_acknowledgement = a, ra_transfer = batch_transfer\<rparr> disk_dir = (Inr r, w1)"
    using disk_retires [where R = R, OF a(2) R] by blast
  have g: "tg_Published disk_generation = disk_published" "tg_GenerationID disk_generation = ''gen-2''"
    "gd_SourceID (go_Descriptor batch_offer) = gd_SourceID (gs_Descriptor (pg_Signed disk_published))"
    "gd_GenerationID (go_Descriptor batch_offer) = ''gen-2''"
    by (simp_all add: disk_generation_def disk_published_def batch_signed_def batch_offer_def custody_offer_def result_of_def
        batch_generation_def)
  have "acknowledge_and_retire ?S sample_lib no_chain disk_generation as batch_transfer result disk_dir =
      (None, result\<lparr>tx_Acknowledgement := Some a, tx_Retirement := Some r\<rparr>, w1)" for result
    using r r2 a(2) batch_result_valid
    by (simp add: acknowledge_and_retire_def VerifyGenerationAcknowledgement_def authorization_Acknowledgement_def
        validateGenerationRetirementAuthorization_def Let_def)
  then show ?thesis
    using disk_offered g o r1 dd disk_sent
    by (simp add: sends_without_rename SendAndRetireTransportGeneration_def i Let_def) blast
qed

lemma disk_renamed: "disk_os\<lparr>os_Rename := os_Rename disk_os\<rparr> = disk_os"
    "os_Rename disk_os disk_dir disk_retired disk_dir = (Inr (), disk_retired)" "disk_info disk_retired ''/q'' = Inr 3"
    "disk_info ''/x'' ''/q'' = Inr 3" "disk_retired \<noteq> ''/x''"
  by (simp_all add: disk_os_def disk_info_def disk_retired_def)

theorem retired_generation_is_held_witness:
  "\<exists>fs stream input result receipts' queue' tx t before sent a f. batch_runs (batch_sys fs) \<and>
     ReceiveGenerationAndAcknowledge sample_lib batch_decoder buffer_Write session_config (session_env fs) stream
       ([], empty_fs, empty_fs) = (None, result, (input, receipts', queue')) \<and>
     SendAndRetireTransportGeneration disk_os sample_lib no_chain buffer_Write disk_generation input
       (disk_dir, []) = (None, tx, (disk_retired, t)) \<and> t = before @ sent \<and> length (cf_Content f) = length sent \<and>
     generation_held sample_lib batch_decoder (du_MaxManifestBytes batch_config) fs receipts' a f"
proof -
  from batch_run obtain fs i f where run: "batch_runs (batch_sys fs)"
    and f: "holds sample_lib fs batch_transfer i f" "cf_Content f = batch_bytes" by blast
  obtain o' where "ReadOffer (o' @ batch_bytes) = Inr (batch_offer, batch_bytes)" using batch_offered by blast
  from batch_session [OF f this] obtain d s1 a input result receipts' queue' where
    rx: "ReceiveGenerationAndAcknowledge sample_lib batch_decoder buffer_Write session_config (session_env fs)
      (o' @ batch_bytes) ([], empty_fs, empty_fs) = (None, result, (input, receipts', queue'))"
    and d: "generationAdmissionDecision batch_offer session_config = (Inr d, [])" "WriteDecision buffer_Write [] d = (None, s1)"
    and a: "gen_WriteAcknowledgement buffer_Write s1 a = (None, input)" "AcknowledgementMatches a batch_transfer = None" by blast
  from disk_transaction [where R = "os_Rename disk_os", OF d a disk_renamed(2,3)] obtain t tx where
    tx: "SendAndRetireTransportGeneration disk_os sample_lib no_chain buffer_Write disk_generation input (disk_dir, []) =
      (None, tx, (disk_retired, t))" unfolding disk_renamed(1) by blast
  then have tx': "SendAndRetireTransportGeneration disk_os sample_lib no_chain buffer_Write disk_generation
      (take (length input) input) (disk_dir, []) = (None, tx, (disk_retired, t))" by simp
  have e: "ev_Fs1 (session_env fs) = sy_Fs (batch_sys fs)" "ev_Calls (session_env fs) = quiet_calls"
    "rx_Recorder session_config = batch_config"
    by (simp_all add: session_env_def session_config_def)
  have k: "others_keep (ev_Calls (session_env fs)) (ev_Tmp (session_env fs)) (ev_Inode (session_env fs))"
    "io_writer (cl_write (ev_Calls (session_env fs))) (\<lambda>s. s)" using quiet_keeps quiet_writer by (simp_all add: e)
  from retired_generation_is_held [OF run session_custody e(1) k empty_receipts buffer.io_writer_axioms refl
      buffer.io_writer_axioms rx tx' rtranclp.rtrancl_refl] run rx tx
  show ?thesis unfolding e(3) by (metis custody_sys.select_convs(1) empty_iff)
qed

theorem retirement_needs_acknowledgement_witness:
  "\<exists>input decision input' ack rest transfer.
     SendAndRetireTransportGeneration disk_os sample_lib no_chain buffer_Write disk_generation input (disk_dir, []) \<noteq>
     SendAndRetireTransportGeneration (disk_os\<lparr>os_Rename := \<lambda>_ _ _. (Inr (), ''/x'')\<rparr>) sample_lib no_chain buffer_Write
       disk_generation input (disk_dir, []) \<and>
     ReadDecision input = Inr (decision, input') \<and> gen_ReadAcknowledgement input' = Inr (ack, rest) \<and>
     AcknowledgementMatches ack transfer = None"
proof -
  let ?R = "\<lambda>_ _ _. (Inr (), ''/x'') :: (os_error + unit) \<times> string"
  from batch_run obtain fs i f where f: "holds sample_lib fs batch_transfer i f" "cf_Content f = batch_bytes" by blast
  obtain o' where "ReadOffer (o' @ batch_bytes) = Inr (batch_offer, batch_bytes)" using batch_offered by blast
  from batch_session [OF f this] obtain d s1 a input where
    d: "generationAdmissionDecision batch_offer session_config = (Inr d, [])" "WriteDecision buffer_Write [] d = (None, s1)"
    and a: "gen_WriteAcknowledgement buffer_Write s1 a = (None, input)" "AcknowledgementMatches a batch_transfer = None" by blast
  from disk_transaction [where R = "os_Rename disk_os", OF d a disk_renamed(2,3)] obtain t tx where
    tx: "SendAndRetireTransportGeneration disk_os sample_lib no_chain buffer_Write disk_generation input (disk_dir, []) =
      (None, tx, (disk_retired, t))" unfolding disk_renamed(1) by blast
  have "SendAndRetireTransportGeneration (disk_os\<lparr>os_Rename := ?R\<rparr>) sample_lib no_chain buffer_Write disk_generation
      input (disk_dir, []) \<noteq> (None, tx, (disk_retired, t))"
    using disk_transaction [where R = ?R, OF d a refl disk_renamed(4)] disk_renamed(5) by auto
  with tx have ne: "SendAndRetireTransportGeneration disk_os sample_lib no_chain buffer_Write disk_generation input (disk_dir, []) \<noteq>
     SendAndRetireTransportGeneration (disk_os\<lparr>os_Rename := ?R\<rparr>) sample_lib no_chain buffer_Write
       disk_generation input (disk_dir, [])" by simp
  from retirement_needs_acknowledgement [OF ne] ne show ?thesis by blast
qed

end
