(* ===== verification/Broker_Pipe.thy ===== *)
theory Broker_Pipe
  imports FI_Codec
begin

text \<open>
  What the two privileged helpers (\<^verbatim>\<open>windows/usnbroker\<close> and \<^verbatim>\<open>windows/objbroker\<close>) share: Go
  error values, the connection of a client to its named pipe, the check of the client's
  token by the server, the text and code of a failure report, and governed roots.
\<close>

unbundle bit_operations_syntax

section \<open>Errors\<close>

text \<open>
  An error value with what it wraps: \<^verbatim>\<open>errors.New\<close>, an error of the stream, a Windows error
  number with its system text, the error the peer reported, the error of a cancelled
  context, a sentinel of its own, and \<^verbatim>\<open>fmt.Errorf("...: %w", err)\<close>.
\<close>

datatype go_err =
    ErrorsNew string
  | IOErr io_error
  | Errno uint32 string
  | Remote uint32 string
  | ContextErr string
  | Sentinel string go_err
  | Wrapped string go_err

text \<open>
  \<^verbatim>\<open>err.Error()\<close>, except for a reported error, whose text names the helper. The text of a
  failed write is the system's: it never reaches a peer, because the pipe is gone then.
\<close>

fun io_text :: "io_error \<Rightarrow> string" where
  "io_text EOF = ''EOF''"
| "io_text ErrUnexpectedEOF = ''unexpected EOF''"
| "io_text ErrShortWrite = ''short write''"
| "io_text ErrWrite = ''write''"

fun err_text :: "string \<Rightarrow> go_err \<Rightarrow> string" where
  "err_text helper (ErrorsNew m) = m"
| "err_text helper (IOErr e) = io_text e"
| "err_text helper (Errno n m) = m"
| "err_text helper (Remote code m) =
     (if code \<noteq> 0 then helper @ '' error '' @ FormatUint (unat code) @ '': '' @ m
      else helper @ '' error: '' @ m)"
| "err_text helper (ContextErr m) = m"
| "err_text helper (Sentinel name e) = name @ '': '' @ err_text helper e"
| "err_text helper (Wrapped what e) = what @ '': '' @ err_text helper e"

text \<open>
  \<^verbatim>\<open>errors.As\<close> for a Windows error number and for a reported error. \<^verbatim>\<open>Sentinel\<close> is
  \<^verbatim>\<open>fmt.Errorf("%w: %v", sentinel, err)\<close>: it wraps the sentinel and not the error.
\<close>

fun err_errno :: "go_err \<Rightarrow> uint32 option" where
  "err_errno (Errno n m) = Some n"
| "err_errno (Wrapped what e) = err_errno e"
| "err_errno _ = None"

fun err_remote :: "go_err \<Rightarrow> uint32 option" where
  "err_remote (Remote code m) = Some code"
| "err_remote (Wrapped what e) = err_remote e"
| "err_remote _ = None"

definition maxErrorBytes :: nat where "maxErrorBytes = 4 * 1024"

definition unspecified_failure :: string where
  "unspecified_failure = ''unspecified helper failure''"

text \<open>The loop of \<^verbatim>\<open>boundedError\<close>: bytes are dropped from the end until the text is valid.\<close>

function drop_invalid :: "string \<Rightarrow> string" where
  "drop_invalid m = (if m \<noteq> [] \<and> \<not> utf8_Valid m then drop_invalid (butlast m) else m)"
  by pat_completeness auto
termination
  by (relation "measure length") auto

declare drop_invalid.simps [simp del]

definition boundedError :: "string \<Rightarrow> go_err option \<Rightarrow> string" where
  "boundedError helper err =
     (case err of None \<Rightarrow> unspecified_failure
      | Some e \<Rightarrow>
          if length (err_text helper e) \<le> maxErrorBytes then err_text helper e
          else drop_invalid (take maxErrorBytes (err_text helper e)))"

definition windowsErrorCode :: "go_err \<Rightarrow> uint32" where
  "windowsErrorCode err = (case err_errno err of Some n \<Rightarrow> n | None \<Rightarrow> 0)"

lemma drop_invalid_prefix: "\<exists>t. m = drop_invalid m @ t"
proof (induction m rule: drop_invalid.induct)
  case (1 m)
  show ?case
  proof (cases "m \<noteq> [] \<and> \<not> utf8_Valid m")
    case True
    with 1 obtain t where "butlast m = drop_invalid (butlast m) @ t" by blast
    with True have "m = drop_invalid m @ t @ [last m]"
      by (metis append.assoc append_butlast_last_id drop_invalid.simps)
    then show ?thesis by blast
  next
    case False
    then have "drop_invalid m = m" by (subst drop_invalid.simps) auto
    then show ?thesis by simp
  qed
qed

lemma drop_invalid_valid: "utf8_Valid (drop_invalid m)"
proof (induction m rule: drop_invalid.induct)
  case (1 m)
  then show ?case by (subst drop_invalid.simps) auto
qed

text \<open>A report is short; a text that had to be cut is valid again.\<close>

lemma boundedError_bounds:
  "length (boundedError helper err) \<le> maxErrorBytes"
  "\<lbrakk>err = Some e; utf8_Valid (err_text helper e) \<or> maxErrorBytes < length (err_text helper e)\<rbrakk>
     \<Longrightarrow> utf8_Valid (boundedError helper err)"
proof -
  have "length (drop_invalid m) \<le> length m" for m
    using drop_invalid_prefix [of m] by (metis le_add1 length_append)
  then have "length (drop_invalid (take maxErrorBytes m)) \<le> maxErrorBytes" for m
    by (metis length_take min.bounded_iff min.cobounded2 order_trans)
  then show "length (boundedError helper err) \<le> maxErrorBytes"
    by (auto simp: boundedError_def unspecified_failure_def maxErrorBytes_def split: option.splits)
next
  assume "err = Some e" "utf8_Valid (err_text helper e) \<or> maxErrorBytes < length (err_text helper e)"
  then show "utf8_Valid (boundedError helper err)"
    by (auto simp: boundedError_def drop_invalid_valid)
qed

text \<open>A cut text keeps every valid prefix, in particular its first rune.\<close>

lemma drop_invalid_keeps: "m = p @ t \<Longrightarrow> utf8_Valid p \<Longrightarrow> length p \<le> length (drop_invalid m)"
proof (induction m arbitrary: t rule: drop_invalid.induct)
  case (1 m)
  show ?case
  proof (cases "m \<noteq> [] \<and> \<not> utf8_Valid m")
    case True
    with "1.prems" have "t \<noteq> []" by auto
    with "1.prems" have "butlast m = p @ butlast t" by (simp add: butlast_append)
    from "1.IH" [OF True this "1.prems"(2)] True show ?thesis by (subst drop_invalid.simps) simp
  next
    case False
    with "1.prems" show ?thesis by (subst drop_invalid.simps) auto
  qed
qed

lemma utf8_first_rune:
  assumes "utf8_Valid m" and "m \<noteq> []"
  shows "\<exists>p t. m = p @ t \<and> utf8_Valid p \<and> p \<noteq> [] \<and> length p \<le> 4"
proof -
  from assms(2) obtain a s where m: "m = a # s" by (cases m) auto
  consider "ord a < 0x80" | b t where "\<not> ord a < 0x80" "s = b # t" "rune2 a b"
    | b c u where "\<not> ord a < 0x80" "s = b # c # u" "\<not> rune2 a b" "rune3 a b c"
    | b c d v where "\<not> ord a < 0x80" "s = b # c # d # v" "\<not> rune2 a b" "\<not> rune3 a b c" "rune4 a b c d"
    using assms(1) [unfolded m utf8_Valid.simps(2)]
    by (auto simp del: utf8_Valid.simps split: if_split_asm list.split_asm)
  then show ?thesis
  proof cases
    case 1
    with m show ?thesis by - (rule exI [of _ "[a]"], simp)
  next
    case 2
    with m show ?thesis by - (rule exI [of _ "[a, b]"], simp)
  next
    case 3
    with m show ?thesis by - (rule exI [of _ "[a, b, c]"], simp)
  next
    case 4
    with m show ?thesis by - (rule exI [of _ "[a, b, c, d]"], simp)
  qed
qed

lemma boundedError_text:
  assumes "utf8_Valid (err_text helper e)" and "err_text helper e \<noteq> []"
  shows "boundedError helper (Some e) \<noteq> []"
proof -
  from utf8_first_rune [OF assms] obtain p t where p: "err_text helper e = p @ t" "utf8_Valid p"
    "p \<noteq> []" "length p \<le> 4" by blast
  then have "take maxErrorBytes (err_text helper e) = p @ take (maxErrorBytes - length p) t"
    by (simp add: maxErrorBytes_def)
  from drop_invalid_keeps [OF this p(2)] p(3) assms(2) show ?thesis
    by (auto simp: boundedError_def)
qed

section \<open>The connection of a client\<close>

text \<open>
  What the client meets at each attempt: the context before it, the result of
  \<^verbatim>\<open>CreateFile\<close> (a Windows error number with its text, or success), and the context during
  the delay after it.
\<close>

record pipe_env =
  pe_ctx :: "nat \<Rightarrow> go_err option"
  pe_open :: "nat \<Rightarrow> (uint32 \<times> string) option"
  pe_wait :: "nat \<Rightarrow> go_err option"

definition connectAttempts :: nat where "connectAttempts = 20"

definition ERROR_FILE_NOT_FOUND :: uint32 where "ERROR_FILE_NOT_FOUND = 2"
definition ERROR_ACCESS_DENIED :: uint32 where "ERROR_ACCESS_DENIED = 5"
definition ERROR_PIPE_BUSY :: uint32 where "ERROR_PIPE_BUSY = 231"

text \<open>\<open>n\<close> attempts are left of \<^verbatim>\<open>connectAttempts\<close>; the result is the error, if any.\<close>

fun connect_loop :: "string \<Rightarrow> pipe_env \<Rightarrow> nat \<Rightarrow> go_err \<Rightarrow> go_err option" where
  "connect_loop helper env 0 lastErr = Some (Wrapped (helper @ '' pipe unavailable'') lastErr)"
| "connect_loop helper env (Suc n) lastErr =
     (let attempt = connectAttempts - Suc n in
      case pe_ctx env attempt of Some e \<Rightarrow> Some e
      | None \<Rightarrow>
          (case pe_open env attempt of None \<Rightarrow> None
           | Some (code, text) \<Rightarrow>
               if code \<noteq> ERROR_PIPE_BUSY \<and> code \<noteq> ERROR_FILE_NOT_FOUND
               then Some (Wrapped (''connect '' @ helper @ '' pipe'') (Errno code text))
               else case pe_wait env attempt of Some e \<Rightarrow> Some e
                 | None \<Rightarrow> connect_loop helper env n (Errno code text)))"

text \<open>The first turn always sets \<^verbatim>\<open>lastErr\<close>, so its initial \<^verbatim>\<open>nil\<close> is never wrapped.\<close>

definition pipe_connect :: "string \<Rightarrow> pipe_env \<Rightarrow> go_err option" where
  "pipe_connect helper env = connect_loop helper env connectAttempts (ErrorsNew [])"

section \<open>The token of a client\<close>

record token_group =
  tg_Sid :: "string option"
  tg_Attributes :: uint32

text \<open>
  The results of the Windows calls of \<^verbatim>\<open>authorizeClient\<close>: the error number of the
  impersonation (\<^verbatim>\<open>None\<close> when it succeeds), the token, its groups, and the return to the
  server's own identity.
\<close>

record token_calls =
  tc_Impersonate :: "(uint32 \<times> string) option"
  tc_OpenThreadToken :: "go_err option"
  tc_GetTokenGroups :: "go_err + token_group list"
  tc_RevertToSelf :: "go_err option"

definition SE_GROUP_ENABLED :: uint32 where "SE_GROUP_ENABLED = 4"
definition SE_GROUP_USE_FOR_DENY_ONLY :: uint32 where "SE_GROUP_USE_FOR_DENY_ONLY = 16"

definition group_grants :: "string \<Rightarrow> token_group \<Rightarrow> bool" where
  "group_grants expectedSID g \<longleftrightarrow>
     tg_Sid g = Some expectedSID \<and>
     tg_Attributes g AND SE_GROUP_ENABLED \<noteq> 0 \<and>
     tg_Attributes g AND SE_GROUP_USE_FOR_DENY_ONLY = 0"

definition token_authorized :: "token_calls \<Rightarrow> string \<Rightarrow> go_err + bool" where
  "token_authorized tc expectedSID =
     (case tc_OpenThreadToken tc of Some e \<Rightarrow> Inl e
      | None \<Rightarrow> bindE (tc_GetTokenGroups tc) (\<lambda>groups. Inr (list_ex (group_grants expectedSID) groups)))"

definition authorizeClient :: "token_calls \<Rightarrow> string \<Rightarrow> go_err + bool" where
  "authorizeClient tc expectedSID =
     (case tc_Impersonate tc of
        Some (code, text) \<Rightarrow>
          Inl (if code = 0 then Errno ERROR_ACCESS_DENIED ''Access is denied.'' else Errno code text)
      | None \<Rightarrow>
          bindE (token_authorized tc expectedSID) (\<lambda>authorized.
          case tc_RevertToSelf tc of Some e \<Rightarrow> Inl e | None \<Rightarrow> Inr authorized))"

lemma authorizeClient_iff:
  "authorizeClient tc sid = Inr True \<longleftrightarrow>
     tc_Impersonate tc = None \<and> tc_OpenThreadToken tc = None \<and> tc_RevertToSelf tc = None \<and>
     (\<exists>groups g. tc_GetTokenGroups tc = Inr groups \<and> g \<in> set groups \<and> group_grants sid g)"
  by (auto simp: authorizeClient_def token_authorized_def list_ex_iff split: option.splits)

section \<open>Governed roots\<close>

text \<open>\<^verbatim>\<open>strings.TrimRight(value, `\`)\<close> and the drive root that keeps its backslash.\<close>

definition backslash :: char where "backslash = CHR 0x5C"

definition trim_backslashes :: "string \<Rightarrow> string" where
  "trim_backslashes s = rev (dropWhile (\<lambda>c. c = backslash) (rev s))"

definition normalizedGovernedRoot :: "string \<Rightarrow> string" where
  "normalizedGovernedRoot v =
     (let v = trim_backslashes v in
      if length v = 2 \<and> v ! 1 = CHR '':'' then v @ [backslash] else v)"

lemma trim_backslashes_idem: "trim_backslashes (trim_backslashes s) = trim_backslashes s"
  by (simp add: trim_backslashes_def dropWhile_idem)

lemma trim_backslashes_drive: "v \<noteq> [] \<Longrightarrow> last v \<noteq> backslash \<Longrightarrow> trim_backslashes (v @ [backslash]) = v"
  by (cases v rule: rev_cases) (simp_all add: trim_backslashes_def)

lemma normalizedGovernedRoot_idem:
  "normalizedGovernedRoot (normalizedGovernedRoot v) = normalizedGovernedRoot v"
proof (cases "length (trim_backslashes v) = 2 \<and> trim_backslashes v ! 1 = CHR '':''")
  case True
  then obtain a where a: "trim_backslashes v = [a, CHR '':'']"
    by (cases "trim_backslashes v") (auto simp: length_Suc_conv)
  have "trim_backslashes ([a, CHR '':''] @ [backslash]) = [a, CHR '':'']"
    by (intro trim_backslashes_drive) (simp_all add: backslash_def)
  with a show ?thesis by (simp add: normalizedGovernedRoot_def Let_def)
next
  case False
  then show ?thesis
    by (simp only: normalizedGovernedRoot_def Let_def trim_backslashes_idem if_False)
qed

end
