(* ===== verification/Rec_Values.thy ===== *)
theory Rec_Values
  imports FI_Json Broker_Pipe
begin

text \<open>
  Package \<^verbatim>\<open>records\<close>: the shared values of FI records and their checks
  (\<^verbatim>\<open>validation.go\<close>, \<^verbatim>\<open>identity.go\<close>): canonical decimals, raw URL base 64, UTF-16LE text,
  canonical timestamps, volume and object identities, governed roots.
\<close>

section \<open>Validation errors\<close>

text \<open>\<^verbatim>\<open>ValidationError{Code, Field}\<close>.\<close>

datatype validation_error = Invalid string string

definition require :: "string \<Rightarrow> string \<Rightarrow> validation_error option" where
  "require v field = fail_if (v = []) (Invalid ''Required'' field)"

section \<open>Canonical decimals\<close>

definition canonicalUnsigned :: "string \<Rightarrow> parse_error + nat" where
  "canonicalUnsigned v =
     (if v = ''0'' then Inr 0
      else if v = [] \<or> ord (v ! 0) < ord (CHR ''1'') \<or> ord (v ! 0) > ord (CHR ''9'') then Inl ErrSyntax
      else if list_ex (\<lambda>c. ord c < ord (CHR ''0'') \<or> ord c > ord (CHR ''9'')) (drop 1 v)
      then Inl ErrSyntax
      else ParseUint 64 v)"

definition validateDecimal :: "string \<Rightarrow> string \<Rightarrow> validation_error option" where
  "validateDecimal v field =
     (case canonicalUnsigned v of Inl _ \<Rightarrow> Some (Invalid ''InvalidDecimal'' field) | Inr _ \<Rightarrow> None)"

definition validateDecimalMax :: "string \<Rightarrow> nat \<Rightarrow> string \<Rightarrow> validation_error option" where
  "validateDecimalMax v maximum field =
     (case canonicalUnsigned v of Inl _ \<Rightarrow> Some (Invalid ''InvalidDecimal'' field)
      | Inr parsed \<Rightarrow> fail_if (parsed > maximum) (Invalid ''OutOfRange'' field))"

lemma FormatUint_first:
  "n \<noteq> 0 \<Longrightarrow> \<exists>c s. FormatUint n = c # s \<and> 49 \<le> ord c \<and> ord c \<le> 57"
proof -
  assume n: "n \<noteq> 0"
  obtain c s where cs: "FormatUint n = c # s" by (cases "FormatUint n") auto
  with FormatUint_digits [of n] have d: "48 \<le> ord c" "ord c \<le> 57" by (simp_all add: is_digit_def)
  have "c \<noteq> CHR ''0''" using FormatUint_hd [of n] n cs by auto
  then have "ord c \<noteq> 48" by (metis char_of_48 char_of_char)
  with d cs show ?thesis by auto
qed

text \<open>Exactly the numerals of the 64-bit numbers are accepted, each with its value.\<close>

lemma canonicalUnsigned_iff:
  "canonicalUnsigned v = Inr n \<longleftrightarrow> v = FormatUint n \<and> n < 2 ^ 64"
proof
  assume c: "canonicalUnsigned v = Inr n"
  show "v = FormatUint n \<and> n < 2 ^ 64"
  proof (cases "v = ''0''")
    case True
    with c show ?thesis by (simp add: canonicalUnsigned_def FormatUint.simps char_of_48)
  next
    case False
    with c obtain a s where v: "v = a # s" "49 \<le> ord a" "ord a \<le> 57"
      and n: "list_all is_digit v" "n = digits_value v" "n < 2 ^ 64"
      by (cases v) (auto simp: canonicalUnsigned_def ParseUint_def split: if_splits)
    have "a \<noteq> CHR ''0''" using v(2) by auto
    with v n FormatUint_value [of v] show ?thesis by simp
  qed
next
  assume v: "v = FormatUint n \<and> n < 2 ^ 64"
  show "canonicalUnsigned v = Inr n"
  proof (cases "n = 0")
    case True
    with v show ?thesis by (simp add: canonicalUnsigned_def FormatUint.simps char_of_48)
  next
    case False
    from FormatUint_first [OF this] obtain c s where cs: "FormatUint n = c # s" "49 \<le> ord c" "ord c \<le> 57"
      by blast
    have digs: "\<forall>x \<in> set s. 48 \<le> ord x \<and> ord x \<le> 57"
      using FormatUint_digits [of n] cs(1) by (auto simp: list_all_iff is_digit_def)
    have "c # s \<noteq> ''0''" using cs(2) by auto
    moreover have "ParseUint 64 (c # s) = Inr n"
      using ParseUint_Format [of n 64] v cs(1) by simp
    ultimately show ?thesis using v cs digs
      by (auto simp: canonicalUnsigned_def list_ex_iff)
  qed
qed

lemma canonicalUnsigned_Format [simp]: "n < 2 ^ 64 \<Longrightarrow> canonicalUnsigned (FormatUint n) = Inr n"
  by (simp add: canonicalUnsigned_iff)

lemma canonicalUnsigned_bound: "canonicalUnsigned v = Inr n \<Longrightarrow> n < 2 ^ 64"
  by (simp add: canonicalUnsigned_iff)

lemma validateDecimal_None: "validateDecimal v f = None \<longleftrightarrow> (\<exists>n < 2 ^ 64. v = FormatUint n)"
  by (auto simp: validateDecimal_def canonicalUnsigned_iff split: sum.splits)

lemma validateDecimal_Format [simp]: "n < 2 ^ 64 \<Longrightarrow> validateDecimal (FormatUint n) f = None"
  by (simp add: validateDecimal_def)

lemma validateDecimalMax_None:
  "m < 2 ^ 64 \<Longrightarrow> validateDecimalMax v m f = None \<longleftrightarrow> (\<exists>n \<le> m. v = FormatUint n)"
proof
  assume "validateDecimalMax v m f = None"
  then show "\<exists>n \<le> m. v = FormatUint n"
    by (auto simp: validateDecimalMax_def canonicalUnsigned_iff not_less split: sum.splits)
next
  assume "m < 2 ^ 64" "\<exists>n \<le> m. v = FormatUint n"
  then show "validateDecimalMax v m f = None"
    by (auto simp: validateDecimalMax_def)
qed

section \<open>Raw URL base 64\<close>

text \<open>\<^verbatim>\<open>base64.RawURLEncoding\<close>: no padding; \<^verbatim>\<open>Strict\<close>: the unused bits of the last digit are zero.\<close>

definition url_char :: "nat \<Rightarrow> char" where
  "url_char k =
     char_of (if k < 26 then 65 + k else if k < 52 then 71 + k else if k < 62 then k - 4
              else if k = 62 then 45 else 95)"

definition url_value :: "char \<Rightarrow> nat option" where
  "url_value c =
     (let x = ord c in
      if 65 \<le> x \<and> x \<le> 90 then Some (x - 65)
      else if 97 \<le> x \<and> x \<le> 122 then Some (x - 71)
      else if 48 \<le> x \<and> x \<le> 57 then Some (x + 4)
      else if x = 45 then Some 62
      else if x = 95 then Some 63
      else None)"

fun url_encode :: "bytes \<Rightarrow> string" where
  "url_encode [] = []"
| "url_encode [a] = [url_char (ord a div 4), url_char (ord a mod 4 * 16)]"
| "url_encode [a, b] =
     [url_char (ord a div 4), url_char (ord a mod 4 * 16 + ord b div 16),
      url_char (ord b mod 16 * 4)]"
| "url_encode (a # b # c # s) =
     url_char (ord a div 4) # url_char (ord a mod 4 * 16 + ord b div 16) #
     url_char (ord b mod 16 * 4 + ord c div 64) # url_char (ord c mod 64) # url_encode s"

fun url_quads :: "nat option list \<Rightarrow> bytes option" where
  "url_quads [] = Some []"
| "url_quads [Some x, Some y] = (if y mod 16 \<noteq> 0 then None else Some [char_of (x * 4 + y div 16)])"
| "url_quads [Some x, Some y, Some z] =
     (if z mod 4 \<noteq> 0 then None
      else Some [char_of (x * 4 + y div 16), char_of (y mod 16 * 16 + z div 4)])"
| "url_quads (Some x # Some y # Some z # Some w # s) =
     map_option (\<lambda>r. char_of (x * 4 + y div 16) # char_of (y mod 16 * 16 + z div 4) #
       char_of (z mod 4 * 64 + w) # r) (url_quads s)"
| "url_quads _ = None"

definition url_decode :: "string \<Rightarrow> bytes option" where
  "url_decode s = url_quads (map url_value (filter (\<lambda>c. c \<noteq> CHR 0x0D \<and> c \<noteq> CHR 0x0A) s))"

definition decodeBase64URL :: "string \<Rightarrow> string \<Rightarrow> validation_error + bytes" where
  "decodeBase64URL v field =
     (if ContainsAny v (''=+/ '' @ [CHR 0x09, CHR 0x0D, CHR 0x0A])
      then Inl (Invalid ''InvalidBase64URL'' field)
      else case url_decode v of None \<Rightarrow> Inl (Invalid ''InvalidBase64URL'' field)
        | Some decoded \<Rightarrow>
            if url_encode decoded \<noteq> v then Inl (Invalid ''InvalidBase64URL'' field)
            else Inr decoded)"

lemma url_value_char [simp]: "k < 64 \<Longrightarrow> url_value (url_char k) = Some k"
  by (auto simp: url_value_def url_char_def Let_def)

lemma ord_url_char: "k < 64 \<Longrightarrow>
  ord (url_char k) = (if k < 26 then 65 + k else if k < 52 then 71 + k else if k < 62 then k - 4
    else if k = 62 then 45 else 95)"
  by (auto simp: url_char_def)

lemma url_char_in: "k < 64 \<Longrightarrow> \<exists>j < 64. url_char k = url_char j"
  by blast

lemma url_encode_chars: "c \<in> set (url_encode s) \<Longrightarrow> \<exists>k < 64. c = url_char k"
  by (induction s rule: url_encode.induct) (auto simp: byte_digits b64_digits intro!: url_char_in)

lemma url_char_plain:
  "k < 64 \<Longrightarrow> url_char k \<notin> set (''=+/ '' @ [CHR 0x09, CHR 0x0D, CHR 0x0A])"
  using ord_url_char [of k] by (auto split: if_splits)

lemma url_quads_encode: "url_quads (map url_value (url_encode s)) = Some s"
proof (induction s rule: url_encode.induct)
  case (4 a b c s)
  then show ?case by (simp add: byte_digits b64_digits b64_join)
next
  case (3 a b)
  then show ?case by (simp add: byte_digits b64_digits b64_join)
next
  case (2 a)
  then show ?case by (simp add: byte_digits b64_digits b64_join)
qed simp

text \<open>The strict check accepts the encodings, and nothing else.\<close>

lemma decodeBase64URL_iff: "decodeBase64URL v field = Inr d \<longleftrightarrow> v = url_encode d"
proof
  assume v: "v = url_encode d"
  then have plain: "\<And>c. c \<in> set v \<Longrightarrow> c \<notin> set (''=+/ '' @ [CHR 0x09, CHR 0x0D, CHR 0x0A])"
    using url_encode_chars [of _ d] url_char_plain by metis
  then have "filter (\<lambda>c. c \<noteq> CHR 0x0D \<and> c \<noteq> CHR 0x0A) v = v" by (auto intro!: filter_True)
  then have "url_decode v = Some d" using v by (simp add: url_decode_def url_quads_encode)
  moreover have "\<not> ContainsAny v (''=+/ '' @ [CHR 0x09, CHR 0x0D, CHR 0x0A])"
    using plain by (auto simp: ContainsAny_def list_ex_iff)
  ultimately show "decodeBase64URL v field = Inr d" using v by (simp add: decodeBase64URL_def)
qed (auto simp: decodeBase64URL_def split: if_splits option.splits)

end
