(* ===== verification/Rec_Time.thy ===== *)
theory Rec_Time
  imports Rec_Values
begin

text \<open>
  Canonical timestamps: the layout \<^verbatim>\<open>2006-01-02T15:04:05.000000000Z\<close> of package \<^verbatim>\<open>time\<close>, the
  calendar behind \<^verbatim>\<open>time.Unix(s, ns).UTC()\<close>, \<^verbatim>\<open>validateTimestamp\<close> of \<^verbatim>\<open>records/validation.go\<close>
  and \<^verbatim>\<open>filetimeToCanonical\<close> of \<^verbatim>\<open>windows/usn/usn.go\<close>.
\<close>

section \<open>The calendar\<close>

definition is_leap :: "nat \<Rightarrow> bool" where
  "is_leap y \<longleftrightarrow> y mod 4 = 0 \<and> (y mod 100 \<noteq> 0 \<or> y mod 400 = 0)"

definition month_lengths :: "nat \<Rightarrow> nat list" where
  "month_lengths y = [31, if is_leap y then 29 else 28, 31, 30, 31, 30, 31, 31, 30, 31, 30, 31]"

text \<open>The days before a year, counted from 1 January of the year 1.\<close>

definition days_before_year :: "nat \<Rightarrow> nat" where
  "days_before_year y = 365 * (y - 1) + (y - 1) div 4 + (y - 1) div 400 - (y - 1) div 100"

text \<open>The year of a day and the day within it, by cycles of 400, 100, 4 and 1 years.\<close>

definition year_and_day :: "nat \<Rightarrow> nat \<times> nat" where
  "year_and_day d =
     (let n400 = d div 146097; d = d mod 146097;
          n100 = min 3 (d div 36524); d = d - 36524 * n100;
          n4 = d div 1461; d = d mod 1461;
          n1 = min 3 (d div 365); d = d - 365 * n1
      in (400 * n400 + 100 * n100 + 4 * n4 + n1 + 1, d))"

text \<open>The month and the day of the month of a day of the year.\<close>

fun month_and_day :: "nat list \<Rightarrow> nat \<Rightarrow> nat \<Rightarrow> nat \<times> nat" where
  "month_and_day [] m d = (m, d + 1)"
| "month_and_day (l # ls) m d = (if d < l then (m, d + 1) else month_and_day ls (m + 1) (d - l))"

record civil =
  ct_Year :: nat
  ct_Month :: nat
  ct_Day :: nat
  ct_Hour :: nat
  ct_Minute :: nat
  ct_Second :: nat
  ct_Nanosecond :: nat

definition valid_civil :: "civil \<Rightarrow> bool" where
  "valid_civil t \<longleftrightarrow>
     1 \<le> ct_Month t \<and> ct_Month t \<le> 12 \<and> 1 \<le> ct_Day t \<and>
     ct_Day t \<le> month_lengths (ct_Year t) ! (ct_Month t - 1) \<and>
     ct_Hour t < 24 \<and> ct_Minute t < 60 \<and> ct_Second t < 60 \<and> ct_Nanosecond t < 1000000000"

text \<open>
  \<^verbatim>\<open>time.Unix(seconds, nanoseconds).UTC()\<close> from the year 1 on; 62135596800 seconds lie between
  the start of the year 1 and the Unix epoch.
\<close>

definition time_Unix :: "int \<Rightarrow> nat \<Rightarrow> civil" where
  "time_Unix seconds nanoseconds =
     (let s = nat (seconds + 62135596800);
          (y, yd) = year_and_day (s div 86400);
          (m, d) = month_and_day (month_lengths y) 1 yd
      in \<lparr>ct_Year = y, ct_Month = m, ct_Day = d, ct_Hour = s mod 86400 div 3600,
          ct_Minute = s mod 3600 div 60, ct_Second = s mod 60, ct_Nanosecond = nanoseconds\<rparr>)"

definition civil_seconds :: "civil \<Rightarrow> nat" where
  "civil_seconds t =
     86400 * (days_before_year (ct_Year t) +
       sum_list (take (ct_Month t - 1) (month_lengths (ct_Year t))) + (ct_Day t - 1)) +
     3600 * ct_Hour t + 60 * ct_Minute t + ct_Second t"

lemma year_and_day_bounds:
  assumes "year_and_day d = (y, yd)"
  shows "1 \<le> y" "yd < 365 + (if is_leap y then 1 else 0)" "d = days_before_year y + yd"
proof -
  define a where "a = d div 146097"
  define r where "r = d mod 146097"
  define b where "b = min 3 (r div 36524)"
  define r2 where "r2 = r - 36524 * b"
  define c where "c = r2 div 1461"
  define r3 where "r3 = r2 mod 1461"
  define e where "e = min 3 (r3 div 365)"
  have d: "d = 146097 * a + r" "r < 146097" by (simp_all add: a_def r_def)
  have r: "r = 36524 * b + r2" "b \<le> 3" unfolding r2_def b_def by (simp_all add: min_def)
  have r2: "r2 = 1461 * c + r3" "r3 < 1461" by (simp_all add: c_def r3_def)
  have b: "b < 3 \<longrightarrow> r2 < 36524" "r2 \<le> 36524"
    using d(2) unfolding r2_def b_def by (auto simp: min_def split: if_splits)
  have e: "e \<le> 3" "365 * e \<le> r3" "e < 3 \<longrightarrow> r3 - 365 * e < 365" "r3 - 365 * e \<le> 365"
    using r2(2) unfolding e_def by (auto simp: min_def split: if_splits)
  have c: "c \<le> 24" "c = 24 \<longrightarrow> b < 3 \<longrightarrow> r3 < 1460" using b r2 by linarith+
  have y: "y = 400 * a + 100 * b + 4 * c + e + 1" "yd = r3 - 365 * e"
    using assms by (simp_all add: year_and_day_def Let_def a_def r_def b_def r2_def c_def r3_def e_def)
  show "1 \<le> y" by (simp add: y)
  have div4: "(y - 1) div 4 = 100 * a + 25 * b + c" using e(1) y by simp
  have div100: "(y - 1) div 100 = 4 * a + b" using e(1) c(1) y by simp
  have div400: "(y - 1) div 400 = a" using e(1) c(1) r(2) y by simp
  have "days_before_year y = 365 * (400 * a + 100 * b + 4 * c + e) + (100 * a + 25 * b + c) + a -
      (4 * a + b)"
    unfolding days_before_year_def div4 div100 div400 by (simp add: y)
  then have "days_before_year y = 146097 * a + 36524 * b + 1461 * c + 365 * e" by simp
  with d(1) r(1) r2(1) y(2) e(2) show "d = days_before_year y + yd" by linarith
  have leap: "is_leap y" if "e = 3" "\<not> (c = 24 \<and> b < 3)"
  proof -
    have "y = 4 * (100 * a + 25 * b + c + 1)" using that(1) y(1) by simp
    then have "y mod 4 = 0" by simp
    moreover have "y mod 100 \<noteq> 0 \<or> y mod 400 = 0"
    proof (cases "c = 24")
      case True
      with that(2) r(2) have "b = 3" by simp
      with True that(1) y(1) have "y = 400 * (a + 1)" by simp
      then show ?thesis by simp
    next
      case False
      with c(1) have "4 * c + 4 < 100" by simp
      moreover have "y = 4 * c + 4 + 100 * (4 * a + b)" using that(1) y(1) by simp
      ultimately have "y mod 100 = 4 * c + 4" by (metis mod_less mod_mult_self2)
      then show ?thesis by simp
    qed
    ultimately show ?thesis by (simp add: is_leap_def)
  qed
  show "yd < 365 + (if is_leap y then 1 else 0)"
  proof (cases "e = 3 \<and> \<not> (c = 24 \<and> b < 3)")
    case True
    with leap e(4) y show ?thesis by simp
  next
    case False
    then have "yd < 365" using e c y r2(2) by (cases "e = 3") linarith+
    then show ?thesis by simp
  qed
qed

lemma month_and_day_bounds:
  assumes "month_and_day ls m d = (m', d')" and "d < sum_list ls"
  shows "m \<le> m'" "m' < m + length ls" "1 \<le> d'" "d' \<le> ls ! (m' - m)"
    "d = sum_list (take (m' - m) ls) + (d' - 1)"
proof -
  have "m \<le> m' \<and> m' < m + length ls \<and> 1 \<le> d' \<and> d' \<le> ls ! (m' - m) \<and>
      d = sum_list (take (m' - m) ls) + (d' - 1)"
    using assms
  proof (induction ls arbitrary: m d)
    case (Cons l ls)
    show ?case
    proof (cases "d < l")
      case True
      with Cons.prems show ?thesis by auto
    next
      case False
      with Cons.prems have "month_and_day ls (m + 1) (d - l) = (m', d')" "d - l < sum_list ls"
        by simp_all
      from Cons.IH [OF this] False show ?thesis
        by (cases "m' - m") (auto simp: nth_Cons' diff_Suc split: nat.splits)
    qed
  qed simp
  then show "m \<le> m'" "m' < m + length ls" "1 \<le> d'" "d' \<le> ls ! (m' - m)"
    "d = sum_list (take (m' - m) ls) + (d' - 1)" by simp_all
qed

lemma month_lengths_sum: "sum_list (month_lengths y) = 365 + (if is_leap y then 1 else 0)"
  by (simp add: month_lengths_def)

text \<open>The calendar date of a time is a date, and it gives back the time.\<close>

lemma time_Unix_valid:
  assumes "0 \<le> seconds + 62135596800" and "ns < 1000000000"
  shows "valid_civil (time_Unix seconds ns)"
    and "int (civil_seconds (time_Unix seconds ns)) = seconds + 62135596800"
    and "ct_Nanosecond (time_Unix seconds ns) = ns"
proof -
  define s where "s = nat (seconds + 62135596800)"
  obtain y yd where y: "year_and_day (s div 86400) = (y, yd)" by fastforce
  obtain m d where m: "month_and_day (month_lengths y) 1 yd = (m, d)" by fastforce
  note yb = year_and_day_bounds [OF y]
  have "yd < sum_list (month_lengths y)" using yb(2) by (simp add: month_lengths_sum)
  note mb = month_and_day_bounds [OF m this]
  have t: "time_Unix seconds ns = \<lparr>ct_Year = y, ct_Month = m, ct_Day = d,
      ct_Hour = s mod 86400 div 3600, ct_Minute = s mod 3600 div 60, ct_Second = s mod 60,
      ct_Nanosecond = ns\<rparr>"
    by (simp add: time_Unix_def Let_def s_def [symmetric] y m [simplified])
  have "s mod 86400 div 3600 < 24" "s mod 3600 div 60 < 60"
    by (simp_all add: less_mult_imp_div_less)
  with mb assms(2) show "valid_civil (time_Unix seconds ns)"
    by (simp add: valid_civil_def t month_lengths_def)
  have "s = 86400 * (s div 86400) + s mod 86400" by simp
  also have "s mod 86400 = 3600 * (s mod 86400 div 3600) + s mod 86400 mod 3600" by simp
  also have "s mod 86400 mod 3600 = s mod 3600" by (simp add: mod_mod_cancel)
  also have "s mod 3600 = 60 * (s mod 3600 div 60) + s mod 3600 mod 60" by simp
  also have "s mod 3600 mod 60 = s mod 60" by (simp add: mod_mod_cancel)
  finally have "civil_seconds (time_Unix seconds ns) = s"
    using mb(5) yb(3) by (simp add: civil_seconds_def t)
  then show "int (civil_seconds (time_Unix seconds ns)) = seconds + 62135596800"
    using assms(1) by (simp add: s_def)
  show "ct_Nanosecond (time_Unix seconds ns) = ns" by (simp add: t)
qed

section \<open>The layout\<close>

definition pad :: "nat \<Rightarrow> nat \<Rightarrow> string" where
  "pad w n = replicate (w - length (FormatUint n)) (CHR ''0'') @ FormatUint n"

definition format_layout :: "civil \<Rightarrow> string" where
  "format_layout t =
     pad 4 (ct_Year t) @ ''-'' @ pad 2 (ct_Month t) @ ''-'' @ pad 2 (ct_Day t) @ ''T'' @
     pad 2 (ct_Hour t) @ '':'' @ pad 2 (ct_Minute t) @ '':'' @ pad 2 (ct_Second t) @ ''.'' @
     pad 9 (ct_Nanosecond t) @ ''Z''"

text \<open>
  \<^verbatim>\<open>time.Parse(layout, v)\<close> on a string of the length of the layout: digits and separators in
  their places, and a date that exists. (Where \<^verbatim>\<open>time.Parse\<close> takes fewer digits or a comma, the
  comparison of \<^verbatim>\<open>validateTimestamp\<close> with the formatted time refuses the string.)
\<close>

definition parse_layout :: "string \<Rightarrow> civil option" where
  "parse_layout v =
     (let num = (\<lambda>i j. digits_value (slice i j v));
          t = \<lparr>ct_Year = num 0 4, ct_Month = num 5 7, ct_Day = num 8 10, ct_Hour = num 11 13,
               ct_Minute = num 14 16, ct_Second = num 17 19, ct_Nanosecond = num 20 29\<rparr>
      in if length v = 30 \<and>
            list_all is_digit (slice 0 4 v @ slice 5 7 v @ slice 8 10 v @ slice 11 13 v @
              slice 14 16 v @ slice 17 19 v @ slice 20 29 v) \<and>
            slice 4 5 v = ''-'' \<and> slice 7 8 v = ''-'' \<and> slice 10 11 v = ''T'' \<and>
            slice 13 14 v = '':'' \<and> slice 16 17 v = '':'' \<and> slice 19 20 v = ''.'' \<and>
            slice 29 30 v = ''Z'' \<and> valid_civil t
         then Some t else None)"

definition validateTimestamp :: "string \<Rightarrow> string \<Rightarrow> validation_error option" where
  "validateTimestamp v field =
     (if length v \<noteq> length ''2006-01-02T15:04:05.000000000Z''
      then Some (Invalid ''InvalidTimestamp'' field)
      else case parse_layout v of None \<Rightarrow> Some (Invalid ''InvalidTimestamp'' field)
        | Some t \<Rightarrow> fail_if (format_layout t \<noteq> v) (Invalid ''InvalidTimestamp'' field))"

definition ValidateObservedAt :: "string \<Rightarrow> validation_error option" where
  "ValidateObservedAt v = validateTimestamp v ''observed_at''"

lemma digits_value_zeros: "digits_value (replicate k (CHR ''0'') @ s) = digits_value s"
proof (induction k)
  case (Suc k)
  have "digits_value (CHR ''0'' # x) = digits_value x" for x by (simp add: digits_value_def)
  with Suc show ?case by simp
qed simp

lemma digits_value_pad [simp]: "digits_value (pad w n) = n"
  by (simp add: pad_def digits_value_zeros)

lemma pad_digits [simp]: "list_all is_digit (pad w n)"
  by (simp add: pad_def is_digit_def [of "CHR ''0''"] list_all_iff [of _ "replicate _ _"])

lemma length_FormatUint_le: "n < 10 ^ w \<Longrightarrow> 0 < w \<Longrightarrow> length (FormatUint n) \<le> w"
proof (induction n arbitrary: w rule: FormatUint.induct)
  case (1 n)
  show ?case
  proof (cases "n < 10")
    case True
    with "1.prems" show ?thesis by (subst FormatUint.simps) simp
  next
    case False
    with "1.prems" obtain k where k: "w = Suc k" "0 < k" by (cases w; cases "w - 1") auto
    then have "n div 10 < 10 ^ k" using "1.prems" by (simp add: less_mult_imp_div_less mult.commute)
    from "1.IH" [OF False this k(2)] False k show ?thesis by (subst FormatUint.simps) simp
  qed
qed

lemma length_pad: "n < 10 ^ w \<Longrightarrow> 0 < w \<Longrightarrow> length (pad w n) = w"
  using length_FormatUint_le [of n w] by (simp add: pad_def)

lemma valid_civil_pads:
  assumes "valid_civil t"
  shows "length (pad 2 (ct_Month t)) = 2" "length (pad 2 (ct_Day t)) = 2"
    "length (pad 2 (ct_Hour t)) = 2" "length (pad 2 (ct_Minute t)) = 2"
    "length (pad 2 (ct_Second t)) = 2" "length (pad 9 (ct_Nanosecond t)) = 9"
proof -
  have "ct_Month t - 1 < 12" using assms by (auto simp: valid_civil_def)
  then have "month_lengths (ct_Year t) ! (ct_Month t - 1) \<in> set (month_lengths (ct_Year t))"
    by (intro nth_mem) (simp add: month_lengths_def)
  then have "month_lengths (ct_Year t) ! (ct_Month t - 1) \<le> 31"
    by (auto simp: month_lengths_def split: if_splits)
  with assms show "length (pad 2 (ct_Month t)) = 2" "length (pad 2 (ct_Day t)) = 2"
    "length (pad 2 (ct_Hour t)) = 2" "length (pad 2 (ct_Minute t)) = 2"
    "length (pad 2 (ct_Second t)) = 2" "length (pad 9 (ct_Nanosecond t)) = 9"
    by (auto simp: valid_civil_def intro!: length_pad)
qed

lemma civil_eta [simp]:
  "\<lparr>ct_Year = ct_Year t, ct_Month = ct_Month t, ct_Day = ct_Day t, ct_Hour = ct_Hour t,
    ct_Minute = ct_Minute t, ct_Second = ct_Second t, ct_Nanosecond = ct_Nanosecond t\<rparr> = t"
  by simp

lemma parse_layout_format:
  assumes "valid_civil t" and "ct_Year t < 10000"
  shows "parse_layout (format_layout t) = Some t"
proof -
  have y: "length (pad 4 (ct_Year t)) = 4" using assms(2) by (intro length_pad) simp_all
  have "slice i j (format_layout t) = x" if "(i, j, x) \<in> set [(0, 4, pad 4 (ct_Year t)),
      (4, 5, ''-''), (5, 7, pad 2 (ct_Month t)), (7, 8, ''-''), (8, 10, pad 2 (ct_Day t)),
      (10, 11, ''T''), (11, 13, pad 2 (ct_Hour t)), (13, 14, '':''),
      (14, 16, pad 2 (ct_Minute t)), (16, 17, '':''), (17, 19, pad 2 (ct_Second t)),
      (19, 20, ''.''), (20, 29, pad 9 (ct_Nanosecond t)), (29, 30, ''Z'')]" for i j x
    using that y valid_civil_pads [OF assms(1)]
    by (auto simp: format_layout_def slice_def)
  note sl = this
  have "length (format_layout t) = 30"
    using y valid_civil_pads [OF assms(1)] by (simp add: format_layout_def)
  with assms(1) sl [of 0 4] sl [of 4 5] sl [of 5 7] sl [of 7 8] sl [of 8 10] sl [of 10 11]
    sl [of 11 13] sl [of 13 14] sl [of 14 16] sl [of 16 17] sl [of 17 19] sl [of 19 20]
    sl [of 20 29] sl [of 29 30]
  show ?thesis by (simp add: parse_layout_def Let_def)
qed

lemma length_FormatUint_iff: "0 < w \<Longrightarrow> length (FormatUint n) \<le> w \<longleftrightarrow> n < 10 ^ w"
proof
  show "length (FormatUint n) \<le> w \<Longrightarrow> n < 10 ^ w"
  proof (induction n arbitrary: w rule: FormatUint.induct)
    case (1 n)
    show ?case
    proof (cases "n < 10")
      case True
      with "1.prems" obtain k where "w = Suc k" by (cases w) auto
      with True show ?thesis by (simp add: less_le_trans [of n 10])
    next
      case False
      with "1.prems" obtain k where k: "w = Suc k" "length (FormatUint (n div 10)) \<le> k"
        by (cases w) (auto simp: FormatUint.simps [of n])
      from "1.IH" [OF False k(2)] k(1) show ?thesis by simp
    qed
  qed
qed (rule length_FormatUint_le)

text \<open>A time has the length of the layout up to the year 9999.\<close>

lemma length_format_layout:
  assumes "valid_civil t"
  shows "length (format_layout t) = 30 \<longleftrightarrow> ct_Year t < 10000"
proof -
  have "length (format_layout t) = length (pad 4 (ct_Year t)) + 26"
    using valid_civil_pads [OF assms] by (simp add: format_layout_def)
  moreover have "length (pad 4 (ct_Year t)) = 4 \<longleftrightarrow> length (FormatUint (ct_Year t)) \<le> 4"
    by (auto simp: pad_def)
  ultimately show ?thesis using length_FormatUint_iff [of 4 "ct_Year t"] by simp
qed

text \<open>The accepted timestamps are the formatted times of the years 0 to 9999.\<close>

lemma validateTimestamp_iff:
  "validateTimestamp v f = None \<longleftrightarrow>
     (\<exists>t. valid_civil t \<and> ct_Year t < 10000 \<and> v = format_layout t)"
proof
  assume "validateTimestamp v f = None"
  then obtain t where t: "length v = 30" "parse_layout v = Some t" "format_layout t = v"
    by (auto simp: validateTimestamp_def split: if_splits option.splits)
  then have "valid_civil t" by (auto simp: parse_layout_def Let_def split: if_splits)
  with t length_format_layout [of t]
  show "\<exists>t. valid_civil t \<and> ct_Year t < 10000 \<and> v = format_layout t" by auto
next
  assume "\<exists>t. valid_civil t \<and> ct_Year t < 10000 \<and> v = format_layout t"
  then obtain t where t: "valid_civil t" "ct_Year t < 10000" "v = format_layout t" by blast
  then show "validateTimestamp v f = None"
    using length_format_layout [OF t(1)] parse_layout_format [OF t(1,2)]
    by (simp add: validateTimestamp_def)
qed

text \<open>The layout loses nothing, in no year.\<close>

lemma format_layout_inj:
  assumes "valid_civil t" "valid_civil u" "format_layout t = format_layout u"
  shows "t = u"
proof -
  have eq: "pad 4 (ct_Year t) = pad 4 (ct_Year u) \<and> pad 2 (ct_Month t) = pad 2 (ct_Month u) \<and>
      pad 2 (ct_Day t) = pad 2 (ct_Day u) \<and> pad 2 (ct_Hour t) = pad 2 (ct_Hour u) \<and>
      pad 2 (ct_Minute t) = pad 2 (ct_Minute u) \<and> pad 2 (ct_Second t) = pad 2 (ct_Second u) \<and>
      pad 9 (ct_Nanosecond t) = pad 9 (ct_Nanosecond u)"
  proof -
    have "length (pad 4 (ct_Year t)) = length (pad 4 (ct_Year u))"
      using arg_cong [OF assms(3), of length] valid_civil_pads [OF assms(1)]
        valid_civil_pads [OF assms(2)] by (simp add: format_layout_def)
    then show ?thesis
      using assms(3) valid_civil_pads [OF assms(1)] valid_civil_pads [OF assms(2)]
      by (simp add: format_layout_def)
  qed
  have "n = k" if "pad w n = pad w k" for w n k
    using arg_cong [OF that, of digits_value] by simp
  with eq show ?thesis by (intro civil.equality) auto
qed

section \<open>Windows file times\<close>

text \<open>
  \<^verbatim>\<open>filetimeToCanonical\<close>: a count of 100-nanosecond ticks since 1601. An \<^verbatim>\<open>int64\<close> is given as
  its value; the division truncates, which for the accepted values is \<open>div\<close>.
\<close>

definition filetimeToCanonical :: "int \<Rightarrow> string + string" where
  "filetimeToCanonical v =
     (if v < 0 then Inl ''negative Windows file time''
      else Inr (format_layout
        (time_Unix (v div 10000000 - 11644473600) (nat ((v mod 10000000) * 100)))))"

lemma filetime_valid:
  assumes "0 \<le> v"
  shows "valid_civil (time_Unix (v div 10000000 - 11644473600) (nat ((v mod 10000000) * 100)))"
    and "int (civil_seconds (time_Unix (v div 10000000 - 11644473600) (nat ((v mod 10000000) * 100)))) =
      v div 10000000 + 50491123200"
    and "ct_Nanosecond (time_Unix (v div 10000000 - 11644473600) (nat ((v mod 10000000) * 100))) =
      nat ((v mod 10000000) * 100)"
proof -
  have s: "0 \<le> (v div 10000000 - 11644473600) + 62135596800" using assms by simp
  have n: "nat ((v mod 10000000) * 100) < 1000000000"
    using pos_mod_bound [of 10000000 v] by linarith
  note t = time_Unix_valid [OF s n]
  show "valid_civil (time_Unix (v div 10000000 - 11644473600) (nat ((v mod 10000000) * 100)))"
    by (rule t(1))
  show "int (civil_seconds (time_Unix (v div 10000000 - 11644473600) (nat ((v mod 10000000) * 100)))) =
      v div 10000000 + 50491123200" using t(2) by simp
  show "ct_Nanosecond (time_Unix (v div 10000000 - 11644473600) (nat ((v mod 10000000) * 100))) =
      nat ((v mod 10000000) * 100)" by (rule t(3))
qed

text \<open>The years from 10000 on, which the layout has no room for, start with day 3652059 of the calendar.\<close>

lemma days_before_year_Suc: "days_before_year n \<le> days_before_year (Suc n)"
proof (cases n)
  case (Suc m)
  let ?x = "365 * m + m div 4 + m div 400" and ?y = "365 * (m + 1) + (m + 1) div 4 + (m + 1) div 400"
  have d: "x - c \<le> y - c'" if "x + 1 \<le> y" "c' \<le> c + 1" for x y c c' :: nat using that by linarith
  have "m div 4 \<le> (m + 1) div 4" "m div 400 \<le> (m + 1) div 400" by (simp_all only: div_le_mono le_add1)
  then have "?x + 1 \<le> ?y" by (simp only: distrib_left)
  from d [OF this, of "(m + 1) div 100" "m div 100"] show ?thesis by (simp add: days_before_year_def Suc)
qed (simp add: days_before_year_def)

lemma days_before_year_mono: "m \<le> n \<Longrightarrow> days_before_year m \<le> days_before_year n"
  by (rule lift_Suc_mono_le [of days_before_year, OF days_before_year_Suc])

lemma year_10000:
  assumes "year_and_day d = (y, yd)"
  shows "y < 10000 \<longleftrightarrow> d < 3652059"
proof -
  note b = year_and_day_bounds [OF assms]
  consider "y \<le> 9998" | "y = 9999" | "10000 \<le> y" by linarith
  then show ?thesis
  proof cases
    case 1
    then have "days_before_year y \<le> days_before_year 9998" by (rule days_before_year_mono)
    moreover have "days_before_year 9998 = 3651329" by (simp add: days_before_year_def)
    ultimately show ?thesis using b 1 by (auto split: if_splits)
  next
    case 2
    with b show ?thesis by (simp add: days_before_year_def is_leap_def)
  next
    case 3
    then have "days_before_year 10000 \<le> days_before_year y" by (rule days_before_year_mono)
    moreover have "days_before_year 10000 = 3652059" by (simp add: days_before_year_def)
    ultimately show ?thesis using b 3 by auto
  qed
qed

lemma filetime_year:
  assumes "0 \<le> v"
  shows "ct_Year (time_Unix (v div 10000000 - 11644473600) n) < 10000 \<longleftrightarrow> v < 2650467744000000000"
proof -
  let ?s = "nat (v div 10000000 - 11644473600 + 62135596800)"
  obtain y yd where y: "year_and_day (?s div 86400) = (y, yd)" by force
  have "?s div 86400 < 3652059 \<longleftrightarrow> v < 2650467744000000000" using assms by linarith
  with year_10000 [OF y] y show ?thesis
    by (simp add: time_Unix_def Let_def split: prod.splits)
qed

lemma filetime_text_length:
  assumes "filetimeToCanonical v = Inr s"
  shows "length s = 30 \<longleftrightarrow> v < 2650467744000000000"
proof -
  from assms have v: "0 \<le> v" by (auto simp: filetimeToCanonical_def split: if_splits)
  with assms have "s = format_layout (time_Unix (v div 10000000 - 11644473600) (nat ((v mod 10000000) * 100)))"
    by (simp add: filetimeToCanonical_def)
  with length_format_layout [OF filetime_valid(1) [OF v]] filetime_year [OF v] show ?thesis by simp
qed

text \<open>
  C27: The canonical timestamp of a Windows file time is the date and time of exactly that
  instant: read as a calendar date it counts the same 100-nanosecond ticks (from the year 1,
  which is 504911232000000000 ticks before the epoch of file times), and no other file time
  has the same text.
\<close>

theorem filetime_timestamp_exact:
  assumes "filetimeToCanonical v = Inr s"
  shows "(\<exists>t. valid_civil t \<and> s = format_layout t \<and>
       10000000 * int (civil_seconds t) + int (ct_Nanosecond t) div 100 = v + 504911232000000000) \<and>
    (filetimeToCanonical u = Inr s \<longrightarrow> u = v)"
proof -
  let ?t = "\<lambda>v. time_Unix (v div 10000000 - 11644473600) (nat ((v mod 10000000) * 100))"
  have instant: "10000000 * int (civil_seconds (?t v)) + int (ct_Nanosecond (?t v)) div 100 =
      v + 504911232000000000" if "0 \<le> v" for v
  proof -
    have "int (nat ((v mod 10000000) * 100)) div 100 = v mod 10000000" by simp
    with filetime_valid(2,3) [OF that] div_mult_mod_eq [of v 10000000] show ?thesis
      by (simp only: distrib_left)
  qed
  from assms have v: "0 \<le> v" "s = format_layout (?t v)"
    by (auto simp: filetimeToCanonical_def split: if_splits)
  moreover have "u = v" if "filetimeToCanonical u = Inr s"
  proof -
    from that have u: "0 \<le> u" "s = format_layout (?t u)"
      by (auto simp: filetimeToCanonical_def split: if_splits)
    have "?t u = ?t v"
      by (rule format_layout_inj [OF filetime_valid(1) [OF u(1)] filetime_valid(1) [OF v(1)]])
         (simp only: u(2) [symmetric] v(2) [symmetric])
    then have "u + 504911232000000000 = v + 504911232000000000"
      by (simp only: instant [OF u(1), symmetric] instant [OF v(1), symmetric])
    then show ?thesis by (rule add_right_imp_eq)
  qed
  moreover have "\<exists>t. valid_civil t \<and> s = format_layout t \<and>
       10000000 * int (civil_seconds t) + int (ct_Nanosecond t) div 100 = v + 504911232000000000"
    by (rule exI [of _ "?t v"]) (simp only: filetime_valid(1) instant v simp_thms)
  ultimately show ?thesis by (intro conjI impI)
qed

definition sample_time :: civil where
  "sample_time = \<lparr>ct_Year = 2024, ct_Month = 1, ct_Day = 17, ct_Hour = 21, ct_Minute = 20,
     ct_Second = 0, ct_Nanosecond = 100\<rparr>"

theorem filetime_timestamp_exact_witness:
  "filetimeToCanonical 133500000000000001 = Inr (format_layout sample_time) \<and>
   filetimeToCanonical 133500000000000002 \<noteq> Inr (format_layout sample_time)"
proof -
  have a: "filetimeToCanonical 133500000000000001 = Inr (format_layout sample_time)"
    by (simp add: filetimeToCanonical_def time_Unix_def year_and_day_def month_lengths_def
        is_leap_def Let_def sample_time_def)
  from filetime_timestamp_exact [OF a, of 133500000000000002] a show ?thesis by auto
qed

end
