(* ===== verification/Rec_Identity.thy ===== *)
theory Rec_Identity
  imports Rec_Time
begin

text \<open>
  Package \<^verbatim>\<open>records\<close>: volume and object identities and governed roots (\<^verbatim>\<open>identity.go\<close>,
  \<^verbatim>\<open>validation.go\<close>), and the records of the change journal (\<^verbatim>\<open>usn.go\<close>,
  \<^verbatim>\<open>usn_continuity_gap.go\<close>) with their validation.
\<close>

section \<open>UTF-16 text\<close>

text \<open>The little-endian code units of an even number of bytes.\<close>

fun utf16_units :: "bytes \<Rightarrow> uint16 list" where
  "utf16_units (a # b # s) = le_Uint16 [a, b] # utf16_units s"
| "utf16_units _ = []"

definition decodeUTF16LEBase64URLUnits :: "string \<Rightarrow> string \<Rightarrow> validation_error + uint16 list" where
  "decodeUTF16LEBase64URLUnits v field =
     bindE (decodeBase64URL v field) (\<lambda>decoded.
     if length decoded mod 2 \<noteq> 0 then Inl (Invalid ''InvalidUTF16LE'' field)
     else Inr (utf16_units decoded))"

definition validateUTF16LEBase64URL :: "string \<Rightarrow> string \<Rightarrow> validation_error option" where
  "validateUTF16LEBase64URL v field =
     (case decodeUTF16LEBase64URLUnits v field of Inl e \<Rightarrow> Some e | Inr _ \<Rightarrow> None)"

lemma validateUTF16LEBase64URL_None:
  "validateUTF16LEBase64URL v f = None \<longleftrightarrow> (\<exists>d. even (length d) \<and> v = url_encode d)"
proof (cases "decodeBase64URL v f")
  case (Inl e)
  then have "v \<noteq> url_encode d" for d using decodeBase64URL_iff [of v f d] by auto
  with Inl show ?thesis
    by (simp add: validateUTF16LEBase64URL_def decodeUTF16LEBase64URLUnits_def)
next
  case (Inr d)
  then have "v = url_encode x \<longleftrightarrow> x = d" for x
    using decodeBase64URL_iff [of v f x] by auto
  with Inr show ?thesis
    by (simp add: validateUTF16LEBase64URL_def decodeUTF16LEBase64URLUnits_def
        even_iff_mod_2_eq_zero)
qed

section \<open>Identities\<close>

definition volume_prefix :: string where
  "volume_prefix = [backslash, backslash, CHR ''?'', backslash] @ ''Volume{''"

definition volume_suffix :: string where
  "volume_suffix = [CHR ''}'', backslash]"

definition is_hex_any :: "char \<Rightarrow> bool" where
  "is_hex_any c \<longleftrightarrow>
     48 \<le> ord c \<and> ord c \<le> 57 \<or> 97 \<le> ord c \<and> ord c \<le> 102 \<or> 65 \<le> ord c \<and> ord c \<le> 70"

definition guid_text :: "string \<Rightarrow> bool" where
  "guid_text guid \<longleftrightarrow>
     length guid = 36 \<and>
     list_all (\<lambda>(i, c). if i \<in> {8, 13, 18, 23} then c = CHR ''-'' else is_hex_any c)
       (enumerate 0 guid)"

definition validateVolumeGUIDPath :: "string \<Rightarrow> string \<Rightarrow> validation_error option" where
  "validateVolumeGUIDPath v field =
     (if \<not> HasPrefix v volume_prefix \<or> \<not> HasSuffix v volume_suffix
      then Some (Invalid ''InvalidVolumeGUID'' field)
      else fail_if (\<not> guid_text (slice (length volume_prefix) (length v - 2) v))
        (Invalid ''InvalidVolumeGUID'' field))"

record volume_identity =
  vi_MethodVersion :: string
  vi_VolumeGUID :: string
  vi_VolumeSerial :: string

record ntfs_identity =
  ni_MethodVersion :: string
  ni_FileReferenceNumber :: string
  ni_SequenceNumber :: string

record governed_root =
  gr_ScopeID :: string
  gr_RequestedPath :: string
  gr_ResolvedPath :: string
  gr_MethodVersion :: string
  gr_VolumeIdentity :: volume_identity
  gr_ObjectIdentity :: ntfs_identity

definition maxNTFSFileReferenceNumber :: nat where "maxNTFSFileReferenceNumber = 0x0000FFFFFFFFFFFF"
definition maxNTFSSequenceNumber :: nat where "maxNTFSSequenceNumber = 0xFFFF"

definition ValidateVolumeIdentity :: "volume_identity \<Rightarrow> validation_error option" where
  "ValidateVolumeIdentity v =
     first_err
       [require (vi_MethodVersion v) ''volume_identity.method_version'',
        require (vi_VolumeGUID v) ''volume_identity.volume_guid'',
        validateVolumeGUIDPath (vi_VolumeGUID v) ''volume_identity.volume_guid'',
        validateDecimal (vi_VolumeSerial v) ''volume_identity.volume_serial'']"

definition ValidateNTFSObjectIdentity :: "ntfs_identity \<Rightarrow> validation_error option" where
  "ValidateNTFSObjectIdentity v =
     first_err
       [require (ni_MethodVersion v) ''object_identity.method_version'',
        validateDecimalMax (ni_FileReferenceNumber v) maxNTFSFileReferenceNumber
          ''object_identity.file_reference_number'',
        validateDecimalMax (ni_SequenceNumber v) maxNTFSSequenceNumber
          ''object_identity.sequence_number'']"

definition ValidateGovernedRootIdentity :: "governed_root \<Rightarrow> validation_error option" where
  "ValidateGovernedRootIdentity root =
     first_err
       [require (gr_ScopeID root) ''governed_root.scope_id'',
        require (gr_RequestedPath root) ''governed_root.requested_path_utf16le_base64url'',
        validateUTF16LEBase64URL (gr_RequestedPath root)
          ''governed_root.requested_path_utf16le_base64url'',
        require (gr_ResolvedPath root) ''governed_root.resolved_path_utf16le_base64url'',
        validateUTF16LEBase64URL (gr_ResolvedPath root)
          ''governed_root.resolved_path_utf16le_base64url'',
        require (gr_MethodVersion root) ''governed_root.method_version'',
        ValidateVolumeIdentity (gr_VolumeIdentity root),
        ValidateNTFSObjectIdentity (gr_ObjectIdentity root)]"

section \<open>Change-journal records\<close>

record usn_journal_state =
  us_ObservedAt :: string
  us_CollectionMethod :: string
  us_ScopeID :: string
  us_VolumeIdentity :: volume_identity
  us_JournalID :: string
  us_FirstUSN :: string
  us_NextUSN :: string
  us_LowestValidUSN :: string
  us_MaxUSN :: string
  us_MaximumSize :: string
  us_AllocationDelta :: string

record usn_change =
  ch_MajorVersion :: string
  ch_MinorVersion :: string
  ch_FileIdentity :: ntfs_identity
  ch_ParentIdentity :: ntfs_identity
  ch_USN :: string
  ch_Timestamp :: string
  ch_ReasonRaw :: string
  ch_ReasonNames :: "string list"
  ch_SourceInfoRaw :: string
  ch_SecurityID :: string
  ch_FileAttributesRaw :: string
  ch_FileName :: string

record usn_read_batch =
  ub_ObservedAt :: string
  ub_CollectionMethod :: string
  ub_ScopeID :: string
  ub_VolumeIdentity :: volume_identity
  ub_JournalID :: string
  ub_StartUSN :: string
  ub_NextUSN :: string
  ub_Records :: "usn_change list"

definition ValidateUSNJournalState :: "usn_journal_state \<Rightarrow> validation_error option" where
  "ValidateUSNJournalState s =
     first_err
       [require (us_ObservedAt s) ''usn_journal_state.observed_at'',
        ValidateObservedAt (us_ObservedAt s),
        require (us_CollectionMethod s) ''usn_journal_state.collection_method'',
        require (us_ScopeID s) ''usn_journal_state.scope_id'',
        ValidateVolumeIdentity (us_VolumeIdentity s),
        validateDecimal (us_JournalID s) ''usn_journal_state.journal_id'',
        validateDecimal (us_FirstUSN s) ''usn_journal_state.first_usn'',
        validateDecimal (us_NextUSN s) ''usn_journal_state.next_usn'',
        validateDecimal (us_LowestValidUSN s) ''usn_journal_state.lowest_valid_usn'',
        validateDecimal (us_MaxUSN s) ''usn_journal_state.max_usn'',
        validateDecimal (us_MaximumSize s) ''usn_journal_state.maximum_size'',
        validateDecimal (us_AllocationDelta s) ''usn_journal_state.allocation_delta'']"

fun adjacent_equal :: "string list \<Rightarrow> bool" where
  "adjacent_equal (a # b # s) \<longleftrightarrow> a = b \<or> adjacent_equal (b # s)"
| "adjacent_equal _ \<longleftrightarrow> False"

definition ValidateUSNChangeObservation :: "usn_change \<Rightarrow> validation_error option" where
  "ValidateUSNChangeObservation r =
     first_err
       [fail_if (ch_MajorVersion r \<noteq> ''2'') (Invalid ''UnsupportedValue'' ''usn_change.major_version''),
        validateDecimal (ch_MinorVersion r) ''usn_change.minor_version'',
        ValidateNTFSObjectIdentity (ch_FileIdentity r),
        ValidateNTFSObjectIdentity (ch_ParentIdentity r),
        validateDecimal (ch_USN r) ''usn_change.usn'',
        validateDecimal (ch_ReasonRaw r) ''usn_change.reason_raw'',
        validateDecimal (ch_SourceInfoRaw r) ''usn_change.source_info_raw'',
        validateDecimal (ch_SecurityID r) ''usn_change.security_id'',
        validateDecimal (ch_FileAttributesRaw r) ''usn_change.file_attributes_raw'',
        ValidateObservedAt (ch_Timestamp r),
        validateUTF16LEBase64URL (ch_FileName r) ''usn_change.file_name_utf16le_base64url'',
        fail_if (\<not> sorted (ch_ReasonNames r)) (Invalid ''UnsortedCollection'' ''usn_change.reason_names''),
        fail_if (adjacent_equal (ch_ReasonNames r)) (Invalid ''DuplicateValue'' ''usn_change.reason_names'')]"

text \<open>The loop over the records of a batch, with the last USN seen; \<open>first\<close> is \<open>i = 0\<close>.\<close>

fun validate_records :: "nat \<Rightarrow> nat \<Rightarrow> usn_change list \<Rightarrow> validation_error option" where
  "validate_records i previousUSN [] = None"
| "validate_records i previousUSN (r # rs) =
     (case ValidateUSNChangeObservation r of Some e \<Rightarrow> Some e
      | None \<Rightarrow>
          (case canonicalUnsigned (ch_USN r) of
             Inl _ \<Rightarrow> Some (Invalid ''InvalidDecimal'' (''usn_read_batch.records['' @ FormatUint i @ ''].usn''))
           | Inr currentUSN \<Rightarrow>
               if i > 0 \<and> currentUSN < previousUSN
               then Some (Invalid ''UnsortedCollection'' ''usn_read_batch.records'')
               else validate_records (i + 1) currentUSN rs))"

definition ValidateUSNReadBatch :: "usn_read_batch \<Rightarrow> validation_error option" where
  "ValidateUSNReadBatch b =
     first_err
       [require (ub_ObservedAt b) ''usn_read_batch.observed_at'',
        ValidateObservedAt (ub_ObservedAt b),
        require (ub_CollectionMethod b) ''usn_read_batch.collection_method'',
        require (ub_ScopeID b) ''usn_read_batch.scope_id'',
        ValidateVolumeIdentity (ub_VolumeIdentity b),
        validateDecimal (ub_JournalID b) ''usn_read_batch.journal_id'',
        validateDecimal (ub_StartUSN b) ''usn_read_batch.start_usn'',
        validateDecimal (ub_NextUSN b) ''usn_read_batch.next_usn'',
        validate_records 0 0 (ub_Records b)]"

section \<open>Continuity gaps\<close>

record usn_gap =
  ug_ObservedAt :: string
  ug_CollectionMethod :: string
  ug_ScopeID :: string
  ug_GovernedRoot :: string
  ug_ReasonCode :: string
  ug_CheckpointJournalID :: string
  ug_CheckpointNextUSN :: string
  ug_CurrentJournalID :: string
  ug_CurrentFirstUSN :: string
  ug_CurrentLowestValidUSN :: string
  ug_CurrentNextUSN :: string
  ug_CoverageState :: string
  ug_ReconciliationAction :: string

text \<open>
  The fields are checked in the order of a Go map, which is not fixed; the order here is that
  of the source text. Which of several bad fields is named may differ, not whether one is.
\<close>

definition ValidateUSNContinuityGapObservation :: "usn_gap \<Rightarrow> validation_error option" where
  "ValidateUSNContinuityGapObservation v =
     first_err
       [ValidateObservedAt (ug_ObservedAt v),
        fail_if (ug_CollectionMethod v \<noteq> ''WindowsNTFSUSNJournalV0'' \<or> ug_ScopeID v = [] \<or>
            ug_GovernedRoot v = [] \<or> ug_ReasonCode v = [] \<or> ug_CoverageState v \<noteq> ''Incomplete'' \<or>
            ug_ReconciliationAction v \<noteq> ''CurrentStateBaselineAndUSNCatchUp'')
          (Invalid ''invalid USN continuity gap observation'' []),
        validateDecimal (ug_CheckpointJournalID v) ''usn_continuity_gap.checkpoint_journal_id'',
        validateDecimal (ug_CheckpointNextUSN v) ''usn_continuity_gap.checkpoint_next_usn'',
        validateDecimal (ug_CurrentJournalID v) ''usn_continuity_gap.current_journal_id'',
        validateDecimal (ug_CurrentFirstUSN v) ''usn_continuity_gap.current_first_usn'',
        validateDecimal (ug_CurrentLowestValidUSN v) ''usn_continuity_gap.current_lowest_valid_usn'',
        validateDecimal (ug_CurrentNextUSN v) ''usn_continuity_gap.current_next_usn'']"

text \<open>An accepted batch holds valid records with USNs that never decrease.\<close>

definition usn_number :: "usn_change \<Rightarrow> nat" where
  "usn_number r = digits_value (ch_USN r)"

lemma validate_records_iff:
  "validate_records i p rs = None \<longleftrightarrow>
     (\<forall>r \<in> set rs. ValidateUSNChangeObservation r = None) \<and>
     sorted (map usn_number rs) \<and> (i > 0 \<longrightarrow> (\<forall>r \<in> set rs. p \<le> usn_number r))"
proof (induction rs arbitrary: i p)
  case (Cons r rs)
  show ?case
  proof (cases "ValidateUSNChangeObservation r")
    case None
    then obtain n where n: "ch_USN r = FormatUint n" "n < 2 ^ 64"
      by (auto simp: ValidateUSNChangeObservation_def validateDecimal_None)
    then have "usn_number r = n" by (simp add: usn_number_def)
    with None n Cons.IH [of "i + 1" n] show ?thesis by (auto simp: not_less) (meson order_trans)
  next
    case (Some e)
    then show ?thesis by auto
  qed
qed simp

end
