(* ===== verification/Usn_Broker.thy ===== *)
theory Usn_Broker
  imports Broker_Pipe
begin

text \<open>
  Package \<^verbatim>\<open>windows/usnbroker\<close>: the protocol of the FIUSNReader helper (\<^verbatim>\<open>protocol.go\<close>).
  Requests and responses have fixed little-endian headers followed by bounded bodies. A
  request has one encoding; a response has one except that a failure without a text is read
  as a failure with a standard text. An \<^verbatim>\<open>int64\<close> is a 64-bit word read with \<open>sint\<close>, so that
  the conversions to and from \<^verbatim>\<open>uint64\<close> are the identity.
\<close>

section \<open>Limits, operations and values\<close>

type_synonym int64 = "64 word"

definition usn_ProtocolVersion :: uint16 where "usn_ProtocolVersion = 1"
definition MaxUSNDataBytes :: nat where "MaxUSNDataBytes = 1024 * 1024"
definition MaxSACLDescriptorBytes :: nat where "MaxSACLDescriptorBytes = 128 * 1024"
definition operationQuery :: uint16 where "operationQuery = 1"
definition operationRead :: uint16 where "operationRead = 2"
definition operationContainment :: uint16 where "operationContainment = 3"
definition operationSACL :: uint16 where "operationSACL = 4"
definition operationAuditPolicy :: uint16 where "operationAuditPolicy = 5"
definition usn_requestHeaderSize :: nat where "usn_requestHeaderSize = 24"
definition usn_responseHeaderSize :: nat where "usn_responseHeaderSize = 76"
definition maxRootBytes :: nat where "maxRootBytes = 32 * 1024"
definition usn_requestMagic :: string where "usn_requestMagic = ''FIUQ''"
definition usn_responseMagic :: string where "usn_responseMagic = ''FIUR''"

lemmas usn_limits = MaxUSNDataBytes_def MaxSACLDescriptorBytes_def maxRootBytes_def
  maxErrorBytes_def usn_requestHeaderSize_def usn_responseHeaderSize_def

lemmas usn_operations = operationQuery_def operationRead_def operationContainment_def
  operationSACL_def operationAuditPolicy_def

datatype containment_result = ContainmentContained | ContainmentOutside | ContainmentUnavailable

fun containment_byte :: "containment_result \<Rightarrow> uint8" where
  "containment_byte ContainmentContained = 1"
| "containment_byte ContainmentOutside = 2"
| "containment_byte ContainmentUnavailable = 3"

record usn_journal =
  uj_JournalID :: uint64
  uj_FirstUSN :: int64
  uj_NextUSN :: int64
  uj_LowestValidUSN :: int64
  uj_MaxUSN :: int64
  uj_MaximumSize :: uint64
  uj_AllocationDelta :: uint64

definition zero_journal :: usn_journal where
  "zero_journal = \<lparr>uj_JournalID = 0, uj_FirstUSN = 0, uj_NextUSN = 0, uj_LowestValidUSN = 0,
     uj_MaxUSN = 0, uj_MaximumSize = 0, uj_AllocationDelta = 0\<rparr>"

record usn_request =
  uq_Operation :: uint16
  uq_GovernedRoot :: string
  uq_StartUSN :: int64
  uq_FileReferenceNumber :: uint64
  uq_SequenceNumber :: uint16

record usn_response =
  ur_Journal :: usn_journal
  ur_Data :: bytes
  ur_ErrorCode :: uint32
  ur_Error :: string

section \<open>Requests\<close>

text \<open>The checks of \<^verbatim>\<open>readRequest\<close> on the numbers of the header, and the request they make.\<close>

definition usn_request_numbers ::
  "uint16 \<Rightarrow> uint32 \<Rightarrow> uint64 \<Rightarrow> uint32 \<Rightarrow> go_err + usn_request" where
  "usn_request_numbers operation rootLength payload auxiliary =
     (let v = \<lparr>uq_Operation = operation, uq_GovernedRoot = [], uq_StartUSN = 0,
               uq_FileReferenceNumber = 0, uq_SequenceNumber = 0\<rparr> in
      if unat rootLength > maxRootBytes \<or> rootLength = 0 \<and> operation \<noteq> operationAuditPolicy
      then Inl (ErrorsNew ''invalid FI USN governed-root length'')
      else if operation = operationQuery then
        if payload \<noteq> 0 \<or> auxiliary \<noteq> 0
        then Inl (ErrorsNew ''FI USN query request contains unexpected fields'')
        else Inr v
      else if operation = operationRead then
        if sint payload < 0 then Inl (ErrorsNew ''FI USN start USN must not be negative'')
        else if auxiliary \<noteq> 0
        then Inl (ErrorsNew ''FI USN read request reserved field is not zero'')
        else Inr (v\<lparr>uq_StartUSN := payload\<rparr>)
      else if operation = operationAuditPolicy then
        if rootLength \<noteq> 0 \<or> payload \<noteq> 0 \<or> auxiliary \<noteq> 0
        then Inl (ErrorsNew ''FI audit-policy request must contain no root or parameters'')
        else Inr v
      else if operation = operationContainment \<or> operation = operationSACL then
        if payload \<ge> 2 ^ 48
        then Inl (ErrorsNew ''FI privileged object request file reference exceeds 48 bits'')
        else if drop_bit 16 auxiliary \<noteq> 0
        then Inl (ErrorsNew ''FI privileged object request reserved field is not zero'')
        else Inr (v\<lparr>uq_FileReferenceNumber := payload, uq_SequenceNumber := ucast auxiliary\<rparr>)
      else Inl (ErrorsNew ''unsupported FI USN operation''))"

definition usn_readRequest :: "bytes \<Rightarrow> go_err + usn_request \<times> bytes" where
  "usn_readRequest s =
     bindE (map_err IOErr (ReadFull usn_requestHeaderSize s)) (\<lambda>(header, s).
     if slice 0 4 header \<noteq> usn_requestMagic
     then Inl (ErrorsNew ''invalid FI USN request magic'')
     else if le_Uint16 (slice 4 6 header) \<noteq> usn_ProtocolVersion
     then Inl (ErrorsNew ''unsupported FI USN protocol version'')
     else
       bindE (usn_request_numbers (le_Uint16 (slice 6 8 header)) (le_Uint32 (slice 8 12 header))
         (le_Uint64 (slice 12 20 header)) (le_Uint32 (slice 20 24 header))) (\<lambda>v.
       bindE (map_err IOErr (ReadFull (unat (le_Uint32 (slice 8 12 header))) s)) (\<lambda>(rootBytes, s).
       if \<not> utf8_Valid rootBytes
       then Inl (ErrorsNew ''FI USN governed root is not valid UTF-8'')
       else Inr (v\<lparr>uq_GovernedRoot := rootBytes\<rparr>, s))))"

text \<open>The checks of \<^verbatim>\<open>writeRequest\<close>, and the payload and auxiliary number it writes.\<close>

definition usn_request_payload :: "usn_request \<Rightarrow> go_err + uint64 \<times> uint32" where
  "usn_request_payload v =
     (if length (uq_GovernedRoot v) > maxRootBytes \<or>
         uq_GovernedRoot v = [] \<and> uq_Operation v \<noteq> operationAuditPolicy \<or>
         \<not> utf8_Valid (uq_GovernedRoot v)
      then Inl (ErrorsNew ''invalid FI USN governed root'')
      else if uq_Operation v = operationQuery then
        if uq_StartUSN v \<noteq> 0 \<or> uq_FileReferenceNumber v \<noteq> 0 \<or> uq_SequenceNumber v \<noteq> 0
        then Inl (ErrorsNew ''FI USN query request contains unexpected fields'')
        else Inr (0, 0)
      else if uq_Operation v = operationRead then
        if sint (uq_StartUSN v) < 0 then Inl (ErrorsNew ''FI USN start USN must not be negative'')
        else if uq_FileReferenceNumber v \<noteq> 0 \<or> uq_SequenceNumber v \<noteq> 0
        then Inl (ErrorsNew ''FI USN read request contains unexpected containment fields'')
        else Inr (uq_StartUSN v, 0)
      else if uq_Operation v = operationAuditPolicy then
        if uq_GovernedRoot v \<noteq> [] \<or> uq_StartUSN v \<noteq> 0 \<or> uq_FileReferenceNumber v \<noteq> 0 \<or>
           uq_SequenceNumber v \<noteq> 0
        then Inl (ErrorsNew ''FI audit-policy request must contain no root or parameters'')
        else Inr (0, 0)
      else if uq_Operation v = operationContainment \<or> uq_Operation v = operationSACL then
        if uq_StartUSN v \<noteq> 0
        then Inl (ErrorsNew ''FI privileged object request has unexpected start USN'')
        else if uq_FileReferenceNumber v \<ge> 2 ^ 48
        then Inl (ErrorsNew ''FI privileged object request file reference exceeds 48 bits'')
        else Inr (uq_FileReferenceNumber v, ucast (uq_SequenceNumber v))
      else Inl (ErrorsNew ''unsupported FI USN operation''))"

definition usn_request_fields :: "usn_request \<Rightarrow> uint64 \<Rightarrow> uint32 \<Rightarrow> (nat \<times> nat \<times> bytes) list" where
  "usn_request_fields v payload auxiliary =
     [(0, 4, usn_requestMagic),
      (4, 6, le_PutUint16 usn_ProtocolVersion),
      (6, 8, le_PutUint16 (uq_Operation v)),
      (8, 12, le_PutUint32 (of_nat (length (uq_GovernedRoot v)))),
      (12, 20, le_PutUint64 payload),
      (20, 24, le_PutUint32 auxiliary)]"

definition usn_writeRequest :: "'s write_fn \<Rightarrow> 's \<Rightarrow> usn_request \<Rightarrow> go_err option \<times> 's" where
  "usn_writeRequest wr s v =
     (case usn_request_payload v of Inl e \<Rightarrow> (Some e, s)
      | Inr (payload, auxiliary) \<Rightarrow>
          (case writeParts wr s
             [fixed_header usn_requestHeaderSize (usn_request_fields v payload auxiliary),
              uq_GovernedRoot v] of (r, s') \<Rightarrow> (map_option IOErr r, s')))"

section \<open>Responses\<close>

definition usn_response_lengths :: "uint16 \<Rightarrow> uint32 \<Rightarrow> uint32 \<Rightarrow> go_err option" where
  "usn_response_lengths status dataLength errorLength =
     first_err
       [fail_if (unat dataLength > MaxUSNDataBytes)
          (ErrorsNew ''FI USN response exceeds data limit''),
        fail_if (unat errorLength > maxErrorBytes)
          (ErrorsNew ''FI USN response exceeds error limit''),
        fail_if (status = 0 \<and> errorLength \<noteq> 0)
          (ErrorsNew ''successful FI USN response contains an error''),
        fail_if (status = 1 \<and> dataLength \<noteq> 0)
          (ErrorsNew ''failed FI USN response contains data'')]"

definition usn_response_body ::
  "usn_journal \<Rightarrow> uint16 \<Rightarrow> uint32 \<Rightarrow> uint32 \<Rightarrow> uint32 \<Rightarrow> bytes \<Rightarrow> go_err + usn_response \<times> bytes" where
  "usn_response_body journal status errorCode dataLength errorLength s =
     bindE (map_err IOErr (ReadFull (unat dataLength) s)) (\<lambda>(data, s).
     bindE (map_err IOErr (ReadFull (unat errorLength) s)) (\<lambda>(errorBytes, s).
     if \<not> utf8_Valid errorBytes
     then Inl (ErrorsNew ''FI USN response error is not valid UTF-8'')
     else Inr (\<lparr>ur_Journal = journal, ur_Data = data, ur_ErrorCode = errorCode,
                ur_Error = (if status = 1 \<and> errorBytes = [] then unspecified_failure
                            else errorBytes)\<rparr>, s)))"

definition usn_readResponse :: "bytes \<Rightarrow> go_err + usn_response \<times> bytes" where
  "usn_readResponse s =
     bindE (map_err IOErr (ReadFull usn_responseHeaderSize s)) (\<lambda>(header, s).
     if slice 0 4 header \<noteq> usn_responseMagic
     then Inl (ErrorsNew ''invalid FI USN response magic'')
     else if le_Uint16 (slice 4 6 header) \<noteq> usn_ProtocolVersion
     then Inl (ErrorsNew ''unsupported FI USN protocol version'')
     else if le_Uint16 (slice 6 8 header) > 1
     then Inl (ErrorsNew ''invalid FI USN response status'')
     else
       bindE (check (usn_response_lengths (le_Uint16 (slice 6 8 header))
         (le_Uint32 (slice 68 72 header)) (le_Uint32 (slice 72 76 header)))) (\<lambda>_.
       usn_response_body
         \<lparr>uj_JournalID = le_Uint64 (slice 12 20 header),
          uj_FirstUSN = le_Uint64 (slice 20 28 header),
          uj_NextUSN = le_Uint64 (slice 28 36 header),
          uj_LowestValidUSN = le_Uint64 (slice 36 44 header),
          uj_MaxUSN = le_Uint64 (slice 44 52 header),
          uj_MaximumSize = le_Uint64 (slice 52 60 header),
          uj_AllocationDelta = le_Uint64 (slice 60 68 header)\<rparr>
         (le_Uint16 (slice 6 8 header)) (le_Uint32 (slice 8 12 header))
         (le_Uint32 (slice 68 72 header)) (le_Uint32 (slice 72 76 header)) s))"

definition usn_response_refused :: "usn_response \<Rightarrow> go_err option" where
  "usn_response_refused v =
     first_err
       [fail_if (length (ur_Data v) > MaxUSNDataBytes)
          (ErrorsNew ''FI USN response exceeds data limit''),
        fail_if (length (ur_Error v) > maxErrorBytes \<or> \<not> utf8_Valid (ur_Error v))
          (ErrorsNew ''invalid FI USN response error''),
        fail_if (ur_Error v \<noteq> [] \<and> ur_Data v \<noteq> [])
          (ErrorsNew ''failed FI USN response must not contain data'')]"

definition usn_response_fields :: "usn_response \<Rightarrow> (nat \<times> nat \<times> bytes) list" where
  "usn_response_fields v =
     [(0, 4, usn_responseMagic),
      (4, 6, le_PutUint16 usn_ProtocolVersion),
      (6, 8, le_PutUint16 (if ur_Error v \<noteq> [] then 1 else 0)),
      (8, 12, le_PutUint32 (ur_ErrorCode v)),
      (12, 20, le_PutUint64 (uj_JournalID (ur_Journal v))),
      (20, 28, le_PutUint64 (uj_FirstUSN (ur_Journal v))),
      (28, 36, le_PutUint64 (uj_NextUSN (ur_Journal v))),
      (36, 44, le_PutUint64 (uj_LowestValidUSN (ur_Journal v))),
      (44, 52, le_PutUint64 (uj_MaxUSN (ur_Journal v))),
      (52, 60, le_PutUint64 (uj_MaximumSize (ur_Journal v))),
      (60, 68, le_PutUint64 (uj_AllocationDelta (ur_Journal v))),
      (68, 72, le_PutUint32 (of_nat (length (ur_Data v)))),
      (72, 76, le_PutUint32 (of_nat (length (ur_Error v))))]"

definition usn_writeResponse :: "'s write_fn \<Rightarrow> 's \<Rightarrow> usn_response \<Rightarrow> go_err option \<times> 's" where
  "usn_writeResponse wr s v =
     (case usn_response_refused v of Some e \<Rightarrow> (Some e, s)
      | None \<Rightarrow>
          (case writeParts wr s
             [fixed_header usn_responseHeaderSize (usn_response_fields v), ur_Data v, ur_Error v]
           of (r, s') \<Rightarrow> (map_option IOErr r, s')))"

section \<open>One request, one encoding\<close>

lemma length_usn_magics [simp]: "length usn_requestMagic = 4" "length usn_responseMagic = 4"
  by (simp_all add: usn_requestMagic_def usn_responseMagic_def)

text \<open>A 16-bit number and the 32-bit field that carries it.\<close>

lemma ucast_16_32_16 [simp]: "ucast (ucast (w :: uint16) :: uint32) = w"
  by (rule word_unat_eq_iff [THEN iffD2]) (simp add: unsigned_ucast_eq take_bit_word_eq_self)

lemma ucast_16_32_zero [simp]: "(ucast (w :: uint16) :: uint32) = 0 \<longleftrightarrow> w = 0"
  by (metis ucast_16_32_16 unsigned_0)

lemma drop_bit_ucast_16 [simp]: "drop_bit 16 (ucast (w :: uint16) :: uint32) = 0"
  by (rule bit_word_eqI) (auto simp: bit_simps dest: bit_imp_le_length)

lemma ucast_32_16_32:
  assumes z: "drop_bit 16 (w :: uint32) = 0"
  shows "ucast (ucast w :: uint16) = w"
proof (rule bit_word_eqI)
  fix n assume n: "n < LENGTH(32)"
  have "n < 16" if "bit w n"
    using arg_cong [OF z, of "\<lambda>x. bit x (n - 16)"] that
    by (cases "16 \<le> n") (simp_all add: bit_simps)
  with n show "bit (ucast (ucast w :: uint16) :: uint32) n = bit w n" by (auto simp: bit_simps)
qed

definition usn_request_bytes :: "usn_request \<Rightarrow> bytes" where
  "usn_request_bytes v =
     (case usn_request_payload v of Inl e \<Rightarrow> []
      | Inr (payload, auxiliary) \<Rightarrow>
          usn_requestMagic @ le_PutUint16 usn_ProtocolVersion @ le_PutUint16 (uq_Operation v) @
          le_PutUint32 (of_nat (length (uq_GovernedRoot v))) @ le_PutUint64 payload @
          le_PutUint32 auxiliary @ uq_GovernedRoot v)"

definition usn_request_valid :: "usn_request \<Rightarrow> bool" where
  "usn_request_valid v \<longleftrightarrow> (\<exists>p. usn_request_payload v = Inr p)"

lemma usn_readRequest_parts:
  assumes "length ve = 2" "length op = 2" "length rl = 4" "length pl = 8" "length au = 4"
  shows "usn_readRequest (usn_requestMagic @ ve @ op @ rl @ pl @ au @ s) =
     (if le_Uint16 ve \<noteq> usn_ProtocolVersion
      then Inl (ErrorsNew ''unsupported FI USN protocol version'')
      else bindE (usn_request_numbers (le_Uint16 op) (le_Uint32 rl) (le_Uint64 pl) (le_Uint32 au)) (\<lambda>v.
        bindE (map_err IOErr (ReadFull (unat (le_Uint32 rl)) s)) (\<lambda>(rootBytes, s).
        if \<not> utf8_Valid rootBytes
        then Inl (ErrorsNew ''FI USN governed root is not valid UTF-8'')
        else Inr (v\<lparr>uq_GovernedRoot := rootBytes\<rparr>, s))))"
proof -
  let ?f = "usn_requestMagic @ ve @ op @ rl @ pl @ au"
  have "ReadFull 24 (?f @ s) = Inr (?f, s)"
    using assms by (intro ReadFull_append) simp
  then show ?thesis
    using assms by (simp add: usn_readRequest_def usn_requestHeaderSize_def slice_simps)
qed

lemma usn_request_numbers_payload:
  assumes p: "usn_request_payload v = Inr (payload, auxiliary)"
    and rl: "unat rl = length (uq_GovernedRoot v)"
  shows "usn_request_numbers (uq_Operation v) rl payload auxiliary = Inr (v\<lparr>uq_GovernedRoot := []\<rparr>)"
proof -
  have z: "uq_GovernedRoot v = [] \<longleftrightarrow> rl = 0" using rl by (metis length_0_conv unat_eq_zero)
  show ?thesis
    using p unfolding usn_request_payload_def usn_request_numbers_def z rl [symmetric] Let_def
    by (cases v) (auto simp: usn_operations split: if_splits)
qed

lemma usn_request_root:
  assumes "usn_request_payload v = Inr p"
  shows "unat (of_nat (length (uq_GovernedRoot v)) :: uint32) = length (uq_GovernedRoot v)"
    and "utf8_Valid (uq_GovernedRoot v)"
  using assms by (auto simp: usn_request_payload_def usn_limits unat_of_nat_small split: if_splits)

lemma usn_readRequest_bytes:
  assumes "usn_request_valid v"
  shows "usn_readRequest (usn_request_bytes v @ rest) = Inr (v, rest)"
proof -
  from assms obtain payload auxiliary where p: "usn_request_payload v = Inr (payload, auxiliary)"
    by (auto simp: usn_request_valid_def)
  note n = usn_request_root [OF p] usn_request_numbers_payload [OF p usn_request_root(1) [OF p]]
  show ?thesis
    by (simp add: usn_request_bytes_def p usn_readRequest_parts n)
qed

lemma usn_request_payload_numbers:
  assumes "usn_request_numbers op rl payload auxiliary = Inr v" and "length root = unat rl"
    and "utf8_Valid root"
  shows "usn_request_payload (v\<lparr>uq_GovernedRoot := root\<rparr>) = Inr (payload, auxiliary)"
    and "uq_Operation v = op"
proof -
  have z: "root = [] \<longleftrightarrow> rl = 0" using assms(2) by (metis length_0_conv unat_eq_zero)
  show "usn_request_payload (v\<lparr>uq_GovernedRoot := root\<rparr>) = Inr (payload, auxiliary)"
    using assms
    by (auto simp: usn_request_numbers_def usn_request_payload_def z Let_def usn_limits
        usn_operations ucast_32_16_32 dest: ucast_32_16_32 split: if_splits)
  show "uq_Operation v = op"
    using assms(1) by (auto simp: usn_request_numbers_def Let_def split: if_splits)
qed

lemma usn_readRequest_sound:
  assumes r: "usn_readRequest s = Inr (v, rest)"
  shows "usn_request_valid v \<and> s = usn_request_bytes v @ rest"
proof -
  from r obtain f t where f: "length f = 24" "s = f @ t"
    and magic: "slice 0 4 f = usn_requestMagic"
    by (auto simp: usn_readRequest_def ReadFull_Inr usn_requestHeaderSize_def split: if_splits)
  have cut: "f = usn_requestMagic @ slice 4 6 f @ slice 6 8 f @ slice 8 12 f @ slice 12 20 f @
      slice 20 24 f"
    using cut_header [of "[4,6,8,12,20,24]" f] f magic by simp
  have s: "s = usn_requestMagic @ slice 4 6 f @ slice 6 8 f @ slice 8 12 f @ slice 12 20 f @
      slice 20 24 f @ t"
    using cut f(2) by (metis append.assoc)
  have len: "length (slice 4 6 f) = 2" "length (slice 6 8 f) = 2" "length (slice 8 12 f) = 4"
    "length (slice 12 20 f) = 8" "length (slice 20 24 f) = 4"
    using f(1) by (simp_all add: length_slice)
  from r [unfolded s usn_readRequest_parts [OF len]] obtain w root where
      w: "usn_request_numbers (le_Uint16 (slice 6 8 f)) (le_Uint32 (slice 8 12 f))
        (le_Uint64 (slice 12 20 f)) (le_Uint32 (slice 20 24 f)) = Inr w"
    and root: "length root = unat (le_Uint32 (slice 8 12 f))" "t = root @ rest" "utf8_Valid root"
    and v: "v = w\<lparr>uq_GovernedRoot := root\<rparr>"
    and ve: "le_Uint16 (slice 4 6 f) = usn_ProtocolVersion"
    by (auto simp: ReadFull_Inr split: if_splits)
  note p = usn_request_payload_numbers [OF w root(1,3)]
  have "usn_request_bytes v = usn_requestMagic @ slice 4 6 f @ slice 6 8 f @ slice 8 12 f @
      slice 12 20 f @ slice 20 24 f @ root"
    using len root(1) p
    by (simp add: usn_request_bytes_def v ve [symmetric])
  with s root(2) p(1) v show ?thesis by (auto simp: usn_request_valid_def)
qed

interpretation usnreq: frame_codec usn_request_valid usn_request_bytes usn_readRequest
  by unfold_locales (simp_all add: usn_readRequest_bytes usn_readRequest_sound)

lemma usn_writeRequest_parts:
  assumes "usn_request_payload v = Inr (payload, auxiliary)"
  shows "fixed_header usn_requestHeaderSize (usn_request_fields v payload auxiliary) @
      uq_GovernedRoot v = usn_request_bytes v"
proof -
  let ?fs = "usn_request_fields v payload auxiliary"
  have "fixed_header 24 ?fs = fields_bytes ?fs"
    by (intro fixed_header_contiguous) (simp_all add: usn_request_fields_def)
  with assms show ?thesis
    by (simp add: usn_request_bytes_def usn_request_fields_def usn_requestHeaderSize_def)
qed

lemma usn_writeRequest_sends:
  assumes "io_writer wr contents" and "usn_writeRequest wr s v = (None, s')"
  shows "usn_request_valid v \<and> contents s' = contents s @ usn_request_bytes v"
proof -
  from assms(2) obtain payload auxiliary where p: "usn_request_payload v = Inr (payload, auxiliary)"
    and w: "writeParts wr s [fixed_header usn_requestHeaderSize
        (usn_request_fields v payload auxiliary), uq_GovernedRoot v] = (None, s')"
    by (auto simp: usn_writeRequest_def split: sum.splits prod.splits)
  from io_writer.writeParts_ok [OF assms(1) w] usn_writeRequest_parts [OF p] p
  show ?thesis by (simp add: usn_request_valid_def)
qed

section \<open>The reading of a response\<close>

definition usn_response_valid :: "usn_response \<Rightarrow> bool" where
  "usn_response_valid v \<longleftrightarrow> usn_response_refused v = None"

definition usn_header_bytes :: "uint16 \<Rightarrow> usn_response \<Rightarrow> uint32 \<Rightarrow> bytes" where
  "usn_header_bytes status v errorLength =
     usn_responseMagic @ le_PutUint16 usn_ProtocolVersion @ le_PutUint16 status @
     le_PutUint32 (ur_ErrorCode v) @ le_PutUint64 (uj_JournalID (ur_Journal v)) @
     le_PutUint64 (uj_FirstUSN (ur_Journal v)) @ le_PutUint64 (uj_NextUSN (ur_Journal v)) @
     le_PutUint64 (uj_LowestValidUSN (ur_Journal v)) @ le_PutUint64 (uj_MaxUSN (ur_Journal v)) @
     le_PutUint64 (uj_MaximumSize (ur_Journal v)) @
     le_PutUint64 (uj_AllocationDelta (ur_Journal v)) @
     le_PutUint32 (of_nat (length (ur_Data v))) @ le_PutUint32 errorLength"

definition usn_response_bytes :: "usn_response \<Rightarrow> bytes" where
  "usn_response_bytes v =
     usn_header_bytes (if ur_Error v \<noteq> [] then 1 else 0) v (of_nat (length (ur_Error v))) @
     ur_Data v @ ur_Error v"

text \<open>The other form of a failure with the standard text: status 1 and no text.\<close>

definition usn_silent_failure_bytes :: "usn_response \<Rightarrow> bytes" where
  "usn_silent_failure_bytes v = usn_header_bytes 1 v 0"

lemma usn_response_valid_iff:
  "usn_response_valid v \<longleftrightarrow>
     length (ur_Data v) \<le> 1048576 \<and> length (ur_Error v) \<le> 4096 \<and> utf8_Valid (ur_Error v) \<and>
     (ur_Error v = [] \<or> ur_Data v = [])"
  by (auto simp: usn_response_valid_def usn_response_refused_def usn_limits)

lemma usn_readResponse_parts:
  assumes "length ve = 2" "length st = 2" "length ec = 4" "length j1 = 8" "length j2 = 8"
    "length j3 = 8" "length j4 = 8" "length j5 = 8" "length j6 = 8" "length j7 = 8"
    "length dl = 4" "length el = 4"
  shows "usn_readResponse (usn_responseMagic @ ve @ st @ ec @ j1 @ j2 @ j3 @ j4 @ j5 @ j6 @ j7 @
        dl @ el @ s) =
     (if le_Uint16 ve \<noteq> usn_ProtocolVersion
      then Inl (ErrorsNew ''unsupported FI USN protocol version'')
      else if le_Uint16 st > 1 then Inl (ErrorsNew ''invalid FI USN response status'')
      else bindE (check (usn_response_lengths (le_Uint16 st) (le_Uint32 dl) (le_Uint32 el))) (\<lambda>_.
        usn_response_body
          \<lparr>uj_JournalID = le_Uint64 j1, uj_FirstUSN = le_Uint64 j2, uj_NextUSN = le_Uint64 j3,
           uj_LowestValidUSN = le_Uint64 j4, uj_MaxUSN = le_Uint64 j5,
           uj_MaximumSize = le_Uint64 j6, uj_AllocationDelta = le_Uint64 j7\<rparr>
          (le_Uint16 st) (le_Uint32 ec) (le_Uint32 dl) (le_Uint32 el) s))"
proof -
  let ?f = "usn_responseMagic @ ve @ st @ ec @ j1 @ j2 @ j3 @ j4 @ j5 @ j6 @ j7 @ dl @ el"
  have "ReadFull 76 (?f @ s) = Inr (?f, s)"
    using assms by (intro ReadFull_append) simp
  then show ?thesis
    using assms by (simp add: usn_readResponse_def usn_responseHeaderSize_def slice_simps)
qed

lemma usn_journal_eta [simp]:
  "\<lparr>uj_JournalID = uj_JournalID j, uj_FirstUSN = uj_FirstUSN j, uj_NextUSN = uj_NextUSN j,
    uj_LowestValidUSN = uj_LowestValidUSN j, uj_MaxUSN = uj_MaxUSN j,
    uj_MaximumSize = uj_MaximumSize j, uj_AllocationDelta = uj_AllocationDelta j\<rparr> = j"
  by simp

lemma ReadFull_0 [simp]: "ReadFull 0 s = Inr ([], s)"
  using ReadFull_append [of "[]" 0 s] by simp

lemma usn_readResponse_header:
  "usn_readResponse (usn_header_bytes status v el @ s) =
     (if status > 1 then Inl (ErrorsNew ''invalid FI USN response status'')
      else bindE (check (usn_response_lengths status (of_nat (length (ur_Data v))) el)) (\<lambda>_.
        usn_response_body (ur_Journal v) status (ur_ErrorCode v) (of_nat (length (ur_Data v))) el s))"
  by (simp add: usn_header_bytes_def usn_readResponse_parts)

lemma status_cases: "\<not> (status :: uint16) > 1 \<Longrightarrow> status = 0 \<or> status = 1"
  by (simp add: word_less_nat_alt word_unat_eq_iff) linarith

lemma usn_readResponse_bytes:
  assumes "usn_response_valid v"
  shows "usn_readResponse (usn_response_bytes v @ rest) = Inr (v, rest)"
proof -
  from assms have b: "length (ur_Data v) \<le> 1048576" "length (ur_Error v) \<le> 4096"
    "utf8_Valid (ur_Error v)" "ur_Error v = [] \<or> ur_Data v = []"
    by (simp_all add: usn_response_valid_iff)
  then have u: "unat (of_nat (length (ur_Data v)) :: uint32) = length (ur_Data v)"
    "unat (of_nat (length (ur_Error v)) :: uint32) = length (ur_Error v)"
    by (simp_all add: unat_of_nat_small)
  show ?thesis
    using b by (auto simp: usn_response_bytes_def usn_readResponse_header usn_response_lengths_def
        usn_response_body_def u usn_limits)
qed

text \<open>What is read is the one encoding, or the silent form of the standard failure.\<close>

lemma usn_readResponse_sound:
  assumes r: "usn_readResponse s = Inr (v, rest)"
  shows "usn_response_valid v \<and>
    (s = usn_response_bytes v @ rest \<or>
     ur_Error v = unspecified_failure \<and> s = usn_silent_failure_bytes v @ rest)"
proof -
  from r obtain f t where f: "length f = 76" "s = f @ t"
    and magic: "slice 0 4 f = usn_responseMagic"
    by (auto simp: usn_readResponse_def ReadFull_Inr usn_responseHeaderSize_def split: if_splits)
  have cut: "f = usn_responseMagic @ slice 4 6 f @ slice 6 8 f @ slice 8 12 f @ slice 12 20 f @
      slice 20 28 f @ slice 28 36 f @ slice 36 44 f @ slice 44 52 f @ slice 52 60 f @
      slice 60 68 f @ slice 68 72 f @ slice 72 76 f"
    using cut_header [of "[4,6,8,12,20,28,36,44,52,60,68,72,76]" f] f magic by simp
  have s: "s = usn_responseMagic @ slice 4 6 f @ slice 6 8 f @ slice 8 12 f @ slice 12 20 f @
      slice 20 28 f @ slice 28 36 f @ slice 36 44 f @ slice 44 52 f @ slice 52 60 f @
      slice 60 68 f @ slice 68 72 f @ slice 72 76 f @ t"
    using cut f(2) by (metis append.assoc)
  have len: "length (slice 4 6 f) = 2" "length (slice 6 8 f) = 2" "length (slice 8 12 f) = 4"
    "length (slice 12 20 f) = 8" "length (slice 20 28 f) = 8" "length (slice 28 36 f) = 8"
    "length (slice 36 44 f) = 8" "length (slice 44 52 f) = 8" "length (slice 52 60 f) = 8"
    "length (slice 60 68 f) = 8" "length (slice 68 72 f) = 4" "length (slice 72 76 f) = 4"
    using f(1) by (simp_all add: length_slice)
  let ?st = "le_Uint16 (slice 6 8 f)" and ?dl = "le_Uint32 (slice 68 72 f)"
    and ?el = "le_Uint32 (slice 72 76 f)"
  from r [unfolded s usn_readResponse_parts [OF len]] obtain em where
      ve: "le_Uint16 (slice 4 6 f) = usn_ProtocolVersion" and st: "\<not> ?st > 1"
    and lens: "usn_response_lengths ?st ?dl ?el = None"
    and t: "t = ur_Data v @ em @ rest" "length (ur_Data v) = unat ?dl" "length em = unat ?el"
    and em: "utf8_Valid em" "ur_Error v = (if ?st = 1 \<and> em = [] then unspecified_failure else em)"
    and code: "ur_ErrorCode v = le_Uint32 (slice 8 12 f)"
    and j: "ur_Journal v = \<lparr>uj_JournalID = le_Uint64 (slice 12 20 f),
        uj_FirstUSN = le_Uint64 (slice 20 28 f), uj_NextUSN = le_Uint64 (slice 28 36 f),
        uj_LowestValidUSN = le_Uint64 (slice 36 44 f), uj_MaxUSN = le_Uint64 (slice 44 52 f),
        uj_MaximumSize = le_Uint64 (slice 52 60 f),
        uj_AllocationDelta = le_Uint64 (slice 60 68 f)\<rparr>"
    by (auto simp: usn_response_body_def ReadFull_Inr split: if_splits)
  have sh: "s = usn_header_bytes ?st v ?el @ ur_Data v @ em @ rest"
    using s len t by (simp add: usn_header_bytes_def j code ve [symmetric])
  have ez: "em = [] \<longleftrightarrow> ?el = 0" using t(3) by (metis length_0_conv unat_eq_zero)
  have dz: "ur_Data v = [] \<longleftrightarrow> ?dl = 0" using t(2) by (metis length_0_conv unat_eq_zero)
  have uf: "utf8_Valid unspecified_failure" "length unspecified_failure \<le> 4096"
    by (simp_all add: unspecified_failure_def utf8_Valid_ascii)
  from lens t(2,3) em uf ez dz status_cases [OF st] have v: "usn_response_valid v"
    by (auto simp: usn_response_valid_iff usn_response_lengths_def usn_limits)
  have el: "of_nat (length em) = ?el" using t(3) by simp
  show ?thesis
  proof (cases "?st = 1 \<and> em = []")
    case True
    with dz lens have "ur_Data v = []" by (auto simp: usn_response_lengths_def)
    with True sh ez em(2) v show ?thesis by (simp add: usn_silent_failure_bytes_def)
  next
    case False
    with em(2) have e: "ur_Error v = em" by simp
    have "?st = (if em \<noteq> [] then 1 else 0)"
      using False status_cases [OF st] lens ez by (auto simp: usn_response_lengths_def)
    with sh el e v show ?thesis by (simp add: usn_response_bytes_def)
  qed
qed

lemma usn_readResponse_silent:
  assumes "usn_response_valid v" and "ur_Error v = unspecified_failure"
  shows "usn_readResponse (usn_silent_failure_bytes v @ rest) = Inr (v, rest)"
proof -
  have "ur_Data v = []"
    using assms by (auto simp: usn_response_valid_iff unspecified_failure_def)
  then show ?thesis
    using assms(2) by (cases v) (auto simp: usn_silent_failure_bytes_def usn_readResponse_header
        usn_response_lengths_def usn_response_body_def usn_limits)
qed

lemma usn_readResponse_local:
  assumes "usn_readResponse s = Inr (v, rest)"
  shows "\<exists>p. s = p @ rest \<and> (\<forall>r. usn_readResponse (p @ r) = Inr (v, r))"
  using usn_readResponse_sound [OF assms] usn_readResponse_bytes usn_readResponse_silent by blast

interpretation usnresp: stream_frame usn_response_valid usn_response_bytes usn_readResponse
  by unfold_locales (simp_all add: usn_readResponse_bytes usn_readResponse_local)

lemma usn_writeResponse_parts:
  "fixed_header usn_responseHeaderSize (usn_response_fields v) @ ur_Data v @ ur_Error v =
     usn_response_bytes v"
proof -
  have "fixed_header 76 (usn_response_fields v) = fields_bytes (usn_response_fields v)"
    by (intro fixed_header_contiguous) (simp_all add: usn_response_fields_def)
  then show ?thesis
    by (simp add: usn_response_bytes_def usn_header_bytes_def usn_response_fields_def
        usn_responseHeaderSize_def)
qed

lemma usn_writeResponse_sends:
  assumes "io_writer wr contents" and "usn_writeResponse wr s v = (None, s')"
  shows "usn_response_valid v \<and> contents s' = contents s @ usn_response_bytes v"
proof -
  from assms(2) have v: "usn_response_refused v = None"
    and w: "writeParts wr s [fixed_header usn_responseHeaderSize (usn_response_fields v),
        ur_Data v, ur_Error v] = (None, s')"
    by (auto simp: usn_writeResponse_def split: option.splits prod.splits)
  from io_writer.writeParts_ok [OF assms(1) w] usn_writeResponse_parts v
  show ?thesis by (simp add: usn_response_valid_def)
qed

end
