(* ===== verification/Usn_Service.thy ===== *)
theory Usn_Service
  imports Usn_Broker FI_OS
begin

text \<open>
  The FIUSNReader helper and its client (\<^verbatim>\<open>windows/usnbroker/server_windows.go\<close> and
  \<^verbatim>\<open>client_windows.go\<close>), with the journal calls of \<^verbatim>\<open>windows/usnraw/raw_windows.go\<close>. The
  Windows calls are functions on a state of the outside world, so that what a connection may
  do there is visible in its result. \<^verbatim>\<open>strings.EqualFold\<close> is the parameter \<open>eqf\<close>, \<^verbatim>\<open>strconv.Quote\<close>
  (the \<^verbatim>\<open>%q\<close> of error texts) the parameter \<open>quote\<close>.
\<close>

section \<open>Drives of governed roots\<close>

definition isASCIILetter :: "char \<Rightarrow> bool" where
  "isASCIILetter c \<longleftrightarrow>
     ord (CHR ''A'') \<le> ord c \<and> ord c \<le> ord (CHR ''Z'') \<or>
     ord (CHR ''a'') \<le> ord c \<and> ord c \<le> ord (CHR ''z'')"

text \<open>\<^verbatim>\<open>strings.ToUpper\<close> and \<^verbatim>\<open>ToLower\<close> on ASCII letters, as they are used here.\<close>

definition ascii_upper :: "char \<Rightarrow> char" where
  "ascii_upper c = (if ord (CHR ''a'') \<le> ord c \<and> ord c \<le> ord (CHR ''z'') then char_of (ord c - 32) else c)"

definition extended_prefix :: string where
  "extended_prefix = [backslash, backslash, CHR ''?'', backslash]"

definition ErrInvalidGovernedRoot :: go_err where
  "ErrInvalidGovernedRoot = ErrorsNew ''governed root must use a local drive-absolute path''"

definition ErrMalformedUSNBuffer :: go_err where
  "ErrMalformedUSNBuffer = ErrorsNew ''Windows returned a malformed USN journal buffer''"

definition DriveForRoot :: "string \<Rightarrow> go_err + string" where
  "DriveForRoot governedRoot =
     (if length governedRoot \<ge> 3 \<and> isASCIILetter (governedRoot ! 0) \<and>
         governedRoot ! 1 = CHR '':'' \<and> governedRoot ! 2 = backslash
      then Inr [ascii_upper (governedRoot ! 0)]
      else if length governedRoot \<ge> 7 \<and> HasPrefix governedRoot extended_prefix \<and>
         isASCIILetter (governedRoot ! 4) \<and> governedRoot ! 5 = CHR '':'' \<and>
         governedRoot ! 6 = backslash
      then Inr [ascii_upper (governedRoot ! 4)]
      else Inl ErrInvalidGovernedRoot)"

definition isDriveRootMountPoint :: "(string \<Rightarrow> string \<Rightarrow> bool) \<Rightarrow> string \<Rightarrow> string \<Rightarrow> bool" where
  "isDriveRootMountPoint eqf drive mountPoint =
     (if length drive \<noteq> 1 \<or> \<not> isASCIILetter (drive ! 0) then False
      else let driveRoot = map ascii_upper drive @ [CHR '':'', backslash] in
        eqf mountPoint driveRoot \<or> eqf mountPoint (extended_prefix @ driveRoot))"

section \<open>The journal of a volume\<close>

text \<open>
  The Windows calls behind the helper: \<^verbatim>\<open>GetVolumePathNameW\<close>, the opening of a raw volume, the
  two \<^verbatim>\<open>DeviceIoControl\<close> requests with the count of bytes they returned, and the parts of
  \<^verbatim>\<open>usnraw\<close> and \<^verbatim>\<open>auditpolicy\<close> that are nothing but further calls.
\<close>

record 'w usn_native =
  un_Quote :: "string \<Rightarrow> string"
  un_GetVolumePathName :: "string \<Rightarrow> 'w \<Rightarrow> (go_err + string) \<times> 'w"
  un_OpenVolume :: "string \<Rightarrow> 'w \<Rightarrow> (go_err + nat) \<times> 'w"
  un_QueryJournal :: "nat \<Rightarrow> 'w \<Rightarrow> (go_err + usn_journal \<times> uint32) \<times> 'w"
  un_ReadJournal :: "nat \<Rightarrow> int64 \<Rightarrow> uint64 \<Rightarrow> 'w \<Rightarrow> (go_err + bytes \<times> uint32) \<times> 'w"
  un_CloseHandle :: "nat \<Rightarrow> 'w \<Rightarrow> (go_err + unit) \<times> 'w"
  un_CheckContainment :: "string \<Rightarrow> uint64 \<Rightarrow> uint16 \<Rightarrow> 'w \<Rightarrow> (go_err + uint8) \<times> 'w"
  un_ReadSACL :: "string \<Rightarrow> uint64 \<Rightarrow> uint16 \<Rightarrow> 'w \<Rightarrow> (go_err + bytes) \<times> 'w"
  un_QueryRequired :: "'w \<Rightarrow> (go_err + uint32 list) \<times> 'w"

definition readBufferSize :: nat where "readBufferSize = 1024 * 1024"

definition negative_usn :: "usn_journal \<Rightarrow> bool" where
  "negative_usn j \<longleftrightarrow>
     sint (uj_FirstUSN j) < 0 \<or> sint (uj_NextUSN j) < 0 \<or> sint (uj_LowestValidUSN j) < 0 \<or>
     sint (uj_MaxUSN j) < 0"

definition volumeMountPointForRoot ::
  "'w usn_native \<Rightarrow> string \<Rightarrow> 'w \<Rightarrow> (go_err + string) \<times> 'w" where
  "volumeMountPointForRoot N governedRoot =
     (if CHR 0x00 \<in> set governedRoot then failP (ErrorsNew ''invalid argument'')
      else
        bindP (callP (Wrapped (''GetVolumePathNameW('' @ un_Quote N governedRoot @ '')''))
          (un_GetVolumePathName N governedRoot)) (\<lambda>mountPoint.
        if mountPoint = []
        then failP (ErrorsNew (''GetVolumePathNameW('' @ un_Quote N governedRoot @
          '') returned an empty mount point''))
        else retP mountPoint))"

definition validateGovernedRootVolume ::
  "'w usn_native \<Rightarrow> (string \<Rightarrow> string \<Rightarrow> bool) \<Rightarrow> string \<Rightarrow> string \<Rightarrow> 'w \<Rightarrow> (go_err + unit) \<times> 'w" where
  "validateGovernedRootVolume N eqf governedRoot drive =
     bindP (volumeMountPointForRoot N governedRoot) (\<lambda>mountPoint.
     stop_if (\<not> isDriveRootMountPoint eqf drive mountPoint)
       (ErrorsNew (''governed root resolves to an unsupported volume mount point: governed root '' @
          un_Quote N governedRoot @ '' resolves to volume mount point '' @ un_Quote N mountPoint)))"

definition openVolumeForRoot ::
  "'w usn_native \<Rightarrow> (string \<Rightarrow> string \<Rightarrow> bool) \<Rightarrow> string \<Rightarrow> 'w \<Rightarrow> (go_err + nat) \<times> 'w" where
  "openVolumeForRoot N eqf governedRoot =
     bindP (liftP (DriveForRoot governedRoot)) (\<lambda>drive.
     bindP (validateGovernedRootVolume N eqf governedRoot drive) (\<lambda>_.
     un_OpenVolume N ([backslash, backslash, CHR ''.'', backslash] @ drive @ '':'')))"

definition queryJournalNative :: "'w usn_native \<Rightarrow> nat \<Rightarrow> 'w \<Rightarrow> (go_err + usn_journal) \<times> 'w" where
  "queryJournalNative N handle =
     bindP (un_QueryJournal N handle) (\<lambda>(journal, returned).
     if unat returned < 56 then failP ErrMalformedUSNBuffer
     else if negative_usn journal then failP ErrMalformedUSNBuffer
     else retP journal)"

text \<open>The call fills a zeroed buffer of \<^verbatim>\<open>readBufferSize\<close> bytes from its start.\<close>

definition readJournalNative ::
  "'w usn_native \<Rightarrow> nat \<Rightarrow> int64 \<Rightarrow> uint64 \<Rightarrow> 'w \<Rightarrow> (go_err + bytes) \<times> 'w" where
  "readJournalNative N handle startUSN journalID =
     bindP (un_ReadJournal N handle startUSN journalID) (\<lambda>(buffer, returned).
     if unat returned < 8 \<or> unat returned > readBufferSize then failP ErrMalformedUSNBuffer
     else retP (take (unat returned)
       (buffer @ replicate (readBufferSize - length buffer) (CHR 0x00))))"

text \<open>\<^verbatim>\<open>defer syscall.CloseHandle(handle)\<close>: closed on every way out.\<close>

definition closing_volume ::
  "'w usn_native \<Rightarrow> nat \<Rightarrow> ('w \<Rightarrow> (go_err + 'a) \<times> 'w) \<Rightarrow> 'w \<Rightarrow> (go_err + 'a) \<times> 'w" where
  "closing_volume N handle m w =
     (case m w of (r, w') \<Rightarrow> (r, snd (un_CloseHandle N handle w')))"

definition usnraw_Query ::
  "'w usn_native \<Rightarrow> (string \<Rightarrow> string \<Rightarrow> bool) \<Rightarrow> string \<Rightarrow> 'w \<Rightarrow> (go_err + usn_journal) \<times> 'w" where
  "usnraw_Query N eqf governedRoot =
     bindP (openVolumeForRoot N eqf governedRoot) (\<lambda>handle.
     closing_volume N handle (queryJournalNative N handle))"

definition usnraw_Read ::
  "'w usn_native \<Rightarrow> (string \<Rightarrow> string \<Rightarrow> bool) \<Rightarrow> string \<Rightarrow> int64 \<Rightarrow> 'w
     \<Rightarrow> (go_err + usn_journal \<times> bytes) \<times> 'w" where
  "usnraw_Read N eqf governedRoot startUSN =
     (if sint startUSN < 0 then failP (ErrorsNew ''start USN must not be negative'')
      else
        bindP (openVolumeForRoot N eqf governedRoot) (\<lambda>handle.
        closing_volume N handle
          (bindP (queryJournalNative N handle) (\<lambda>journal.
           bindP (readJournalNative N handle startUSN (uj_JournalID journal)) (\<lambda>buffer.
           retP (journal, buffer))))))"

section \<open>The authority of the helper\<close>

record usn_authority =
  ua_governedRoots :: "string list"
  ua_volumes :: "string list"

text \<open>One turn of the loop of \<^verbatim>\<open>newAuthoritySnapshot\<close>; \<open>ascii_lower\<close> is \<^verbatim>\<open>ToLower\<close> on a drive.\<close>

fun authority_loop ::
  "(string \<Rightarrow> string) \<Rightarrow> string list \<Rightarrow> usn_authority \<Rightarrow> string set \<Rightarrow> go_err + usn_authority" where
  "authority_loop quote [] v seenVolumes = Inr v"
| "authority_loop quote (governedRoot # roots) v seenVolumes =
     (let normalized = normalizedGovernedRoot governedRoot in
      if blank normalized then Inl (ErrorsNew ''FI governed root is empty'')
      else
        bindE (map_err (Wrapped (''resolve FI governed-root volume '' @ quote governedRoot))
          (DriveForRoot governedRoot)) (\<lambda>drive.
        let v = v\<lparr>ua_governedRoots := ua_governedRoots v @ [normalized]\<rparr>;
            key = map ascii_lower drive
        in if key \<in> seenVolumes then authority_loop quote roots v seenVolumes
           else authority_loop quote roots (v\<lparr>ua_volumes := ua_volumes v @ [drive]\<rparr>)
             (insert key seenVolumes)))"

definition usn_newAuthoritySnapshot :: "(string \<Rightarrow> string) \<Rightarrow> string list \<Rightarrow> go_err + usn_authority" where
  "usn_newAuthoritySnapshot quote governedRoots =
     (if governedRoots = [] then Inl (ErrorsNew ''at least one FI governed root is required'')
      else authority_loop quote governedRoots \<lparr>ua_governedRoots = [], ua_volumes = []\<rparr> {})"

definition allowsGovernedRoot :: "(string \<Rightarrow> string \<Rightarrow> bool) \<Rightarrow> usn_authority \<Rightarrow> string \<Rightarrow> bool" where
  "allowsGovernedRoot eqf v governedRoot =
     list_ex (\<lambda>configured. eqf configured (normalizedGovernedRoot governedRoot)) (ua_governedRoots v)"

definition allowsVolume ::
  "(string \<Rightarrow> string \<Rightarrow> bool) \<Rightarrow> usn_authority \<Rightarrow> string \<Rightarrow> go_err + bool" where
  "allowsVolume eqf v governedRoot =
     bindE (DriveForRoot governedRoot) (\<lambda>requestedDrive.
     Inr (list_ex (\<lambda>configured. eqf configured requestedDrive) (ua_volumes v)))"

section \<open>One connection of the server\<close>

definition helper_name :: string where "helper_name = ''FIUSNReader''"

definition usn_failure_code :: "uint32 \<Rightarrow> string \<Rightarrow> usn_response" where
  "usn_failure_code code message =
     \<lparr>ur_Journal = zero_journal, ur_Data = [], ur_ErrorCode = code, ur_Error = message\<rparr>"

definition usn_failure :: "go_err \<Rightarrow> usn_response" where
  "usn_failure err = usn_failure_code (windowsErrorCode err) (boundedError helper_name (Some err))"

definition usn_data_response :: "bytes \<Rightarrow> usn_response" where
  "usn_data_response data =
     \<lparr>ur_Journal = zero_journal, ur_Data = data, ur_ErrorCode = 0, ur_Error = []\<rparr>"

definition brokerContainment :: "uint8 \<Rightarrow> go_err + containment_result" where
  "brokerContainment v =
     (if v = 1 then Inr ContainmentContained else if v = 2 then Inr ContainmentOutside
      else if v = 3 then Inr ContainmentUnavailable
      else Inl (ErrorsNew ''invalid FIUSNReader containment result''))"

text \<open>
  The switch of \<^verbatim>\<open>handleConnection\<close> as a program that stops with the failure response it
  writes, or ends with the response of success.
\<close>

definition usn_volume_allowed ::
  "(string \<Rightarrow> string \<Rightarrow> bool) \<Rightarrow> usn_authority \<Rightarrow> usn_request \<Rightarrow> 'w \<Rightarrow> (usn_response + unit) \<times> 'w" where
  "usn_volume_allowed eqf authority v =
     bindP (liftP (map_err usn_failure (allowsVolume eqf authority (uq_GovernedRoot v)))) (\<lambda>allowed.
     stop_if (\<not> allowed)
       (usn_failure_code ERROR_ACCESS_DENIED ''requested volume is not configured for FI''))"

definition usn_root_allowed ::
  "(string \<Rightarrow> string \<Rightarrow> bool) \<Rightarrow> usn_authority \<Rightarrow> usn_request \<Rightarrow> 'w \<Rightarrow> (usn_response + unit) \<times> 'w" where
  "usn_root_allowed eqf authority v =
     stop_if (\<not> allowsGovernedRoot eqf authority (uq_GovernedRoot v))
       (usn_failure_code ERROR_ACCESS_DENIED ''requested governed root is not configured for FI'')"

definition usn_operation ::
  "'w usn_native \<Rightarrow> (string \<Rightarrow> string \<Rightarrow> bool) \<Rightarrow> usn_authority \<Rightarrow> usn_request \<Rightarrow> 'w
     \<Rightarrow> (usn_response + usn_response) \<times> 'w" where
  "usn_operation N eqf authority v =
     (if uq_Operation v = operationAuditPolicy then
        bindP (callP usn_failure (un_QueryRequired N)) (\<lambda>flags.
        if length flags \<noteq> 4
        then failP (usn_failure (ErrorsNew ''FI audit-policy contract must contain four subcategories''))
        else retP (usn_data_response (concat (map le_PutUint32 flags))))
      else if uq_Operation v = operationQuery then
        bindP (usn_volume_allowed eqf authority v) (\<lambda>_.
        bindP (callP usn_failure (usnraw_Query N eqf (uq_GovernedRoot v))) (\<lambda>journal.
        retP \<lparr>ur_Journal = journal, ur_Data = [], ur_ErrorCode = 0, ur_Error = []\<rparr>))
      else if uq_Operation v = operationRead then
        bindP (usn_volume_allowed eqf authority v) (\<lambda>_.
        bindP (callP usn_failure (usnraw_Read N eqf (uq_GovernedRoot v) (uq_StartUSN v)))
          (\<lambda>(journal, data).
        retP \<lparr>ur_Journal = journal, ur_Data = data, ur_ErrorCode = 0, ur_Error = []\<rparr>))
      else if uq_Operation v = operationContainment then
        bindP (usn_root_allowed eqf authority v) (\<lambda>_.
        bindP (callP usn_failure (un_CheckContainment N (uq_GovernedRoot v)
          (uq_FileReferenceNumber v) (uq_SequenceNumber v))) (\<lambda>containment.
        bindP (liftP (map_err usn_failure (brokerContainment containment))) (\<lambda>result.
        retP (usn_data_response [char_of (unat (containment_byte result))]))))
      else if uq_Operation v = operationSACL then
        bindP (usn_root_allowed eqf authority v) (\<lambda>_.
        bindP (callP usn_failure (un_ReadSACL N (uq_GovernedRoot v)
          (uq_FileReferenceNumber v) (uq_SequenceNumber v))) (\<lambda>data.
        if data = [] \<or> length data > MaxSACLDescriptorBytes
        then failP (usn_failure
          (ErrorsNew ''FIUSNReader SACL result exceeded the bounded descriptor contract''))
        else retP (usn_data_response data)))
      else failP (usn_failure (ErrorsNew ''unsupported FI USN operation'')))"

definition usn_handle ::
  "'w usn_native \<Rightarrow> (string \<Rightarrow> string \<Rightarrow> bool) \<Rightarrow> token_calls \<Rightarrow> string \<Rightarrow> usn_authority \<Rightarrow> bytes \<Rightarrow> 'w
     \<Rightarrow> (usn_response + usn_response) \<times> 'w" where
  "usn_handle N eqf tc collectorSID authority input =
     bindP (liftP (map_err usn_failure (usn_readRequest input))) (\<lambda>(v, _).
     bindP (liftP (map_err (\<lambda>e. usn_failure (Wrapped ''authenticate FICollector pipe client'' e))
       (authorizeClient tc collectorSID))) (\<lambda>authorized.
     bindP (stop_if (\<not> authorized)
       (usn_failure_code ERROR_ACCESS_DENIED ''FICollector service SID is required'')) (\<lambda>_.
     usn_operation N eqf authority v)))"

definition usn_handleConnection ::
  "'w usn_native \<Rightarrow> (string \<Rightarrow> string \<Rightarrow> bool) \<Rightarrow> token_calls \<Rightarrow> string \<Rightarrow> usn_authority
     \<Rightarrow> 's write_fn \<Rightarrow> 's \<Rightarrow> bytes \<Rightarrow> 'w \<Rightarrow> (go_err option \<times> 's) \<times> 'w" where
  "usn_handleConnection N eqf tc collectorSID authority wr s input w =
     (case usn_handle N eqf tc collectorSID authority input w of
        (Inl failure, w') \<Rightarrow> (usn_writeResponse wr s failure, w')
      | (Inr response, w') \<Rightarrow> (usn_writeResponse wr s response, w'))"

section \<open>The audit-policy contract\<close>

text \<open>\<^verbatim>\<open>windows/auditpolicy/contract.go\<close>: the four subcategories FI needs, and their bits.\<close>

record subcategory =
  sc_ID :: string
  sc_GUID :: string
  sc_Required :: uint32

definition audit_Success :: uint32 where "audit_Success = 0x1"
definition audit_Failure :: uint32 where "audit_Failure = 0x2"

definition audit_Required :: "subcategory list" where
  "audit_Required =
     [\<lparr>sc_ID = ''Audit Policy Change'', sc_GUID = ''{0CCE922F-69AE-11D9-BED3-505054503030}'',
       sc_Required = audit_Success\<rparr>,
      \<lparr>sc_ID = ''File System'', sc_GUID = ''{0CCE921D-69AE-11D9-BED3-505054503030}'',
       sc_Required = audit_Success OR audit_Failure\<rparr>,
      \<lparr>sc_ID = ''Handle Manipulation'', sc_GUID = ''{0CCE9223-69AE-11D9-BED3-505054503030}'',
       sc_Required = audit_Failure\<rparr>,
      \<lparr>sc_ID = ''Detailed File Share'', sc_GUID = ''{0CCE9244-69AE-11D9-BED3-505054503030}'',
       sc_Required = audit_Success OR audit_Failure\<rparr>]"

definition audit_Desired :: "uint32 \<Rightarrow> uint32 \<Rightarrow> uint32" where
  "audit_Desired current required = current OR required"

definition audit_Sufficient :: "uint32 \<Rightarrow> uint32 \<Rightarrow> bool" where
  "audit_Sufficient current required \<longleftrightarrow> current AND required = required"

text \<open>The desired policy is sufficient, drops no bit, and is the least such policy.\<close>

lemma audit_Desired_sufficient: "audit_Sufficient (audit_Desired current required) required"
  unfolding audit_Sufficient_def audit_Desired_def by (rule bit_word_eqI) (auto simp: bit_simps)

lemma audit_Desired_least:
  assumes "audit_Sufficient p required" and "p AND current = current"
  shows "p AND audit_Desired current required = audit_Desired current required"
  using assms unfolding audit_Sufficient_def audit_Desired_def by (metis bit.conj_disj_distrib)

section \<open>The client\<close>

text \<open>
  The client's side of one exchange: the context before and after it, the attempts to
  connect, the pipe as a writer, and the bytes that can be read from the pipe once the
  request is in it.
\<close>

record 's usn_client =
  uc_ctx0 :: "go_err option"
  uc_pipe :: pipe_env
  uc_write :: "'s \<Rightarrow> bytes \<Rightarrow> int \<times> io_error option \<times> 's"
  uc_state :: 's
  uc_reply :: "'s \<Rightarrow> bytes"
  uc_ctx1 :: "go_err option"

definition usn_roundTrip :: "'s usn_client \<Rightarrow> usn_request \<Rightarrow> go_err + usn_response" where
  "usn_roundTrip C v =
     bindE (check (uc_ctx0 C)) (\<lambda>_.
     bindE (check (pipe_connect helper_name (uc_pipe C))) (\<lambda>_.
     case usn_writeRequest (uc_write C) (uc_state C) v of
       (Some e, s) \<Rightarrow> Inl (Wrapped ''write FIUSNReader request'' e)
     | (None, s) \<Rightarrow>
         bindE (map_err (Wrapped ''read FIUSNReader response'') (usn_readResponse (uc_reply C s)))
           (\<lambda>(result, _).
         if ur_Error result \<noteq> [] then Inl (Remote (ur_ErrorCode result) (ur_Error result))
         else bindE (check (uc_ctx1 C)) (\<lambda>_. Inr result))))"

definition validateJournal :: "usn_journal \<Rightarrow> go_err option" where
  "validateJournal j = fail_if (negative_usn j) (ErrorsNew ''FIUSNReader returned invalid journal state'')"

definition usn_plain_request :: "uint16 \<Rightarrow> string \<Rightarrow> usn_request" where
  "usn_plain_request operation governedRoot =
     \<lparr>uq_Operation = operation, uq_GovernedRoot = governedRoot, uq_StartUSN = 0,
      uq_FileReferenceNumber = 0, uq_SequenceNumber = 0\<rparr>"

definition usn_object_request :: "uint16 \<Rightarrow> string \<Rightarrow> uint64 \<Rightarrow> uint16 \<Rightarrow> usn_request" where
  "usn_object_request operation governedRoot fileReferenceNumber sequenceNumber =
     \<lparr>uq_Operation = operation, uq_GovernedRoot = governedRoot, uq_StartUSN = 0,
      uq_FileReferenceNumber = fileReferenceNumber, uq_SequenceNumber = sequenceNumber\<rparr>"

definition usn_Query :: "'s usn_client \<Rightarrow> string \<Rightarrow> go_err + usn_journal" where
  "usn_Query C governedRoot =
     bindE (usn_roundTrip C (usn_plain_request operationQuery governedRoot)) (\<lambda>result.
     if ur_Data result \<noteq> []
     then Inl (ErrorsNew ''FIUSNReader query unexpectedly returned raw USN data'')
     else bindE (check (validateJournal (ur_Journal result))) (\<lambda>_. Inr (ur_Journal result)))"

definition usn_Read :: "'s usn_client \<Rightarrow> string \<Rightarrow> int64 \<Rightarrow> go_err + usn_journal \<times> bytes" where
  "usn_Read C governedRoot startUSN =
     bindE (usn_roundTrip C ((usn_plain_request operationRead governedRoot)\<lparr>uq_StartUSN := startUSN\<rparr>))
       (\<lambda>result.
     bindE (check (validateJournal (ur_Journal result))) (\<lambda>_.
     if length (ur_Data result) < 8 \<or> length (ur_Data result) > MaxUSNDataBytes
     then Inl (ErrorsNew ''FIUSNReader returned an invalid USN buffer length'')
     else Inr (ur_Journal result, ur_Data result)))"

definition CheckContainment ::
  "'s usn_client \<Rightarrow> string \<Rightarrow> uint64 \<Rightarrow> uint16 \<Rightarrow> go_err + containment_result" where
  "CheckContainment C governedRoot fileReferenceNumber sequenceNumber =
     bindE (usn_roundTrip C (usn_object_request operationContainment governedRoot
       fileReferenceNumber sequenceNumber)) (\<lambda>result.
     if ur_Journal result \<noteq> zero_journal
     then Inl (ErrorsNew ''FIUSNReader containment unexpectedly returned journal state'')
     else if length (ur_Data result) \<noteq> 1
     then Inl (ErrorsNew ''FIUSNReader containment returned an invalid result length'')
     else if ur_Data result ! 0 = CHR 0x01 then Inr ContainmentContained
     else if ur_Data result ! 0 = CHR 0x02 then Inr ContainmentOutside
     else if ur_Data result ! 0 = CHR 0x03 then Inr ContainmentUnavailable
     else Inl (ErrorsNew ''FIUSNReader containment returned an invalid result''))"

text \<open>The four flags, each of four bytes.\<close>

definition QueryAuditPolicies :: "'s usn_client \<Rightarrow> go_err + uint32 list" where
  "QueryAuditPolicies C =
     bindE (usn_roundTrip C (usn_plain_request operationAuditPolicy [])) (\<lambda>result.
     if ur_Journal result \<noteq> zero_journal
     then Inl (ErrorsNew ''FIUSNReader audit-policy response contained a USN journal'')
     else if length audit_Required \<noteq> 4 \<or> length (ur_Data result) \<noteq> 4 * 4
     then Inl (ErrorsNew (''FIUSNReader audit-policy response contract mismatch: '' @
       FormatUint (length (ur_Data result)) @ '' bytes''))
     else Inr (map (\<lambda>i. le_Uint32 (slice (i * 4) ((i + 1) * 4) (ur_Data result))) [0..<4]))"

definition ErrSACLPrivilegeUnavailable :: string where
  "ErrSACLPrivilegeUnavailable = ''FIUSNReader SeSecurityPrivilege unavailable''"

definition ReadSACL :: "'s usn_client \<Rightarrow> string \<Rightarrow> uint64 \<Rightarrow> uint16 \<Rightarrow> go_err + bytes" where
  "ReadSACL C governedRoot fileReferenceNumber sequenceNumber =
     (case usn_roundTrip C (usn_object_request operationSACL governedRoot
        fileReferenceNumber sequenceNumber) of
        Inl err \<Rightarrow>
          Inl (if err_remote err = Some 1300 \<or> err_remote err = Some 1314
               then Sentinel ErrSACLPrivilegeUnavailable err else err)
      | Inr result \<Rightarrow>
          if ur_Journal result \<noteq> zero_journal
          then Inl (ErrorsNew ''FIUSNReader SACL read unexpectedly returned journal state'')
          else if ur_Data result = [] \<or> length (ur_Data result) > MaxSACLDescriptorBytes
          then Inl (ErrorsNew ''FIUSNReader returned an invalid SACL descriptor length'')
          else Inr (ur_Data result))"

section \<open>Privileged calls are authorized\<close>

lemma authority_loop_roots:
  "authority_loop quote roots v seen = Inr a \<Longrightarrow>
     set (ua_governedRoots a) = set (ua_governedRoots v) \<union> normalizedGovernedRoot ` set roots"
  by (induction roots arbitrary: v seen) (force simp: Let_def split: if_splits)+

lemma authority_loop_volumes:
  "authority_loop quote roots v seen = Inr a \<Longrightarrow>
     set (ua_volumes a) \<subseteq> set (ua_volumes v) \<union> {d. \<exists>r \<in> set roots. DriveForRoot r = Inr d}"
  by (induction roots arbitrary: v seen) (force simp: Let_def split: if_splits)+

lemma usn_operation_access:
  assumes "snd (usn_operation N eqf authority v w) \<noteq> w"
  shows "uq_Operation v = operationAuditPolicy \<or>
     uq_Operation v \<in> {operationQuery, operationRead} \<and>
       allowsVolume eqf authority (uq_GovernedRoot v) = Inr True \<or>
     uq_Operation v \<in> {operationContainment, operationSACL} \<and>
       allowsGovernedRoot eqf authority (uq_GovernedRoot v)"
  using assms
  by (auto simp: usn_operation_def usn_volume_allowed_def usn_root_allowed_def bindP_def liftP_def
      stop_if_def failP_def retP_def split: if_splits sum.splits)

lemma usn_handle_access:
  assumes "snd (usn_handle N eqf tc sid authority input w) \<noteq> w"
  shows "\<exists>v rest. usn_readRequest input = Inr (v, rest) \<and> authorizeClient tc sid = Inr True \<and>
    snd (usn_operation N eqf authority v w) \<noteq> w"
  using assms
  by (auto simp: usn_handle_def bindP_def liftP_def stop_if_def failP_def retP_def
      split: if_splits sum.splits prod.splits)

definition authority_covers ::
  "(string \<Rightarrow> string \<Rightarrow> bool) \<Rightarrow> string list \<Rightarrow> usn_request \<Rightarrow> bool" where
  "authority_covers eqf roots v \<longleftrightarrow>
     uq_Operation v = operationAuditPolicy \<or>
     uq_Operation v \<in> {operationQuery, operationRead} \<and>
       (\<exists>r d d'. r \<in> set roots \<and> DriveForRoot r = Inr d \<and>
          DriveForRoot (uq_GovernedRoot v) = Inr d' \<and> eqf d d') \<or>
     uq_Operation v \<in> {operationContainment, operationSACL} \<and>
       (\<exists>r \<in> set roots. eqf (normalizedGovernedRoot r) (normalizedGovernedRoot (uq_GovernedRoot v)))"

lemma authority_covers_allowed:
  assumes "usn_newAuthoritySnapshot quote roots = Inr authority"
  shows "allowsVolume eqf authority root = Inr True \<Longrightarrow>
      \<exists>r d d'. r \<in> set roots \<and> DriveForRoot r = Inr d \<and> DriveForRoot root = Inr d' \<and> eqf d d'"
    and "allowsGovernedRoot eqf authority root \<Longrightarrow>
      \<exists>r \<in> set roots. eqf (normalizedGovernedRoot r) (normalizedGovernedRoot root)"
proof -
  from assms have l: "authority_loop quote roots \<lparr>ua_governedRoots = [], ua_volumes = []\<rparr> {} = Inr authority"
    by (simp add: usn_newAuthoritySnapshot_def split: if_splits)
  note r = authority_loop_roots [OF l] and d = authority_loop_volumes [OF l]
  show "allowsVolume eqf authority root = Inr True \<Longrightarrow>
      \<exists>r d d'. r \<in> set roots \<and> DriveForRoot r = Inr d \<and> DriveForRoot root = Inr d' \<and> eqf d d'"
    using d by (fastforce simp: allowsVolume_def list_ex_iff)
  show "allowsGovernedRoot eqf authority root \<Longrightarrow>
      \<exists>r \<in> set roots. eqf (normalizedGovernedRoot r) (normalizedGovernedRoot root)"
    using r by (auto simp: allowsGovernedRoot_def list_ex_iff)
qed

text \<open>
  C8: A connection leaves the outside world as it was (no privileged Windows call is made)
  unless the request is well formed, the client's token carries the FICollector service SID
  as an enabled group that is not for denials only, and the request is covered by a
  configured governed root: by its drive for the journal, by the root itself for a single
  object. Only the parameterless audit-policy query needs no root.
\<close>

theorem privileged_calls_are_authorized:
  assumes "usn_newAuthoritySnapshot quote roots = Inr authority"
    and "usn_handleConnection N eqf tc sid authority wr s input w = (result, w')" and "w' \<noteq> w"
  shows "\<exists>v rest groups g. usn_readRequest input = Inr (v, rest) \<and>
    tc_GetTokenGroups tc = Inr groups \<and> g \<in> set groups \<and> tg_Sid g = Some sid \<and>
    tg_Attributes g AND SE_GROUP_ENABLED \<noteq> 0 \<and>
    tg_Attributes g AND SE_GROUP_USE_FOR_DENY_ONLY = 0 \<and> authority_covers eqf roots v"
proof -
  from assms(2,3) have "snd (usn_handle N eqf tc sid authority input w) \<noteq> w"
    by (auto simp: usn_handleConnection_def split: prod.splits sum.splits)
  from usn_handle_access [OF this] obtain v rest where v: "usn_readRequest input = Inr (v, rest)"
    and auth: "authorizeClient tc sid = Inr True"
    and op: "snd (usn_operation N eqf authority v w) \<noteq> w" by blast
  have "authority_covers eqf roots v"
    using usn_operation_access [OF op] authority_covers_allowed [OF assms(1)]
    by (auto simp: authority_covers_def)
  with v auth show ?thesis by (auto simp: authorizeClient_iff group_grants_def)
qed

section \<open>What the client gets is what the privileged call returned\<close>

text \<open>The response that a connection writes, and the bytes the client can read of it.\<close>

definition usn_answer :: "(usn_response + usn_response) \<times> 'w \<Rightarrow> usn_response" where
  "usn_answer r = (case fst r of Inl v \<Rightarrow> v | Inr v \<Rightarrow> v)"

definition usn_served ::
  "'w usn_native \<Rightarrow> (string \<Rightarrow> string \<Rightarrow> bool) \<Rightarrow> token_calls \<Rightarrow> string \<Rightarrow> usn_authority \<Rightarrow> 'w
     \<Rightarrow> bytes \<Rightarrow> bytes" where
  "usn_served N eqf tc sid authority w input =
     snd (fst (usn_handleConnection N eqf tc sid authority buffer_Write [] input w))"

text \<open>A client whose pipe leads to the helper and does not fail.\<close>

definition usn_connected :: "'s usn_client \<Rightarrow> ('s \<Rightarrow> bytes) \<Rightarrow> (bytes \<Rightarrow> bytes) \<Rightarrow> bool" where
  "usn_connected C contents serve \<longleftrightarrow>
     uc_ctx0 C = None \<and> pipe_connect helper_name (uc_pipe C) = None \<and> uc_ctx1 C = None \<and>
     io_writer (uc_write C) contents \<and> contents (uc_state C) = [] \<and>
     (\<forall>s ps. fst (writeParts (uc_write C) s ps) = None) \<and>
     (\<forall>s. uc_reply C s = serve (contents s))"

definition reportable :: "go_err \<Rightarrow> bool" where
  "reportable e \<longleftrightarrow> err_text helper_name e \<noteq> [] \<and> utf8_Valid (err_text helper_name e)"

lemma usn_served_answer:
  "usn_served N eqf tc sid authority w input =
     (let v = usn_answer (usn_handle N eqf tc sid authority input w) in
      if usn_response_valid v then usn_response_bytes v else [])"
proof -
  have "snd (usn_writeResponse buffer_Write [] v) =
      (if usn_response_valid v then usn_response_bytes v else [])" for v
    using usn_writeResponse_parts [of v]
    by (simp add: usn_writeResponse_def usn_response_valid_def split: option.splits)
  then show ?thesis
    by (simp add: usn_served_def usn_handleConnection_def usn_answer_def Let_def
        split: prod.splits sum.splits)
qed

lemma usn_readResponse_Nil: "usn_readResponse [] \<noteq> Inr x"
  by (cases x) (auto simp: usn_readResponse_def ReadFull_Inr usn_responseHeaderSize_def)

lemma usn_roundTrip_answer:
  assumes C: "usn_connected C contents (usn_served N eqf tc sid authority w)"
  shows "usn_roundTrip C v = Inr r \<longleftrightarrow>
    usn_request_valid v \<and>
    r = usn_answer (usn_handle N eqf tc sid authority (usn_request_bytes v) w) \<and>
    usn_response_valid r \<and> ur_Error r = []"
proof (cases "usn_request_payload v")
  case (Inl e)
  with C show ?thesis
    by (simp add: usn_roundTrip_def usn_writeRequest_def usn_request_valid_def usn_connected_def)
next
  case (Inr p)
  obtain q s' where w: "usn_writeRequest (uc_write C) (uc_state C) v = (q, s')" by fastforce
  have "fst (usn_writeRequest (uc_write C) (uc_state C) v) = None"
    using C Inr
    by (cases p) (simp add: usn_writeRequest_def usn_connected_def split_beta del: writeParts.simps)
  with w have q: "q = None" by simp
  have v: "usn_request_valid v" using Inr by (simp add: usn_request_valid_def)
  have "contents s' = usn_request_bytes v"
    using usn_writeRequest_sends [of "uc_write C" contents] w q C by (auto simp: usn_connected_def)
  with C have reply: "uc_reply C s' =
      (let a = usn_answer (usn_handle N eqf tc sid authority (usn_request_bytes v) w) in
       if usn_response_valid a then usn_response_bytes a else [])"
    by (simp add: usn_connected_def usn_served_answer)
  have read: "usn_readResponse (uc_reply C s') = Inr (x, rest) \<longleftrightarrow>
      x = usn_answer (usn_handle N eqf tc sid authority (usn_request_bytes v) w) \<and>
      usn_response_valid x \<and> rest = []" for x rest
    using usnresp.dec_enc [of "usn_answer (usn_handle N eqf tc sid authority
        (usn_request_bytes v) w)" "[]"]
    by (auto simp: reply Let_def usn_readResponse_Nil)
  have "uc_ctx0 C = None" "pipe_connect helper_name (uc_pipe C) = None" "uc_ctx1 C = None"
    using C by (simp_all add: usn_connected_def)
  with w q v show ?thesis by (auto simp: usn_roundTrip_def read split: prod.splits)
qed

lemma usn_failure_text: "reportable e \<Longrightarrow> ur_Error (usn_failure e) \<noteq> []"
  using boundedError_text [of helper_name e]
  by (auto simp: usn_failure_def usn_failure_code_def reportable_def)

lemma reportable_ErrorsNew: "m \<noteq> [] \<Longrightarrow> list_all (\<lambda>c. ord c < 0x80) m \<Longrightarrow> reportable (ErrorsNew m)"
  by (simp add: reportable_def utf8_Valid_ascii)

lemma reportable_Wrapped: "reportable e \<Longrightarrow> list_all (\<lambda>c. ord c < 0x80) m \<Longrightarrow> reportable (Wrapped m e)"
proof -
  have "utf8_Valid (p @ t) = utf8_Valid t" if "list_all (\<lambda>c. ord c < 0x80) p" for p t
    using that by (induction p) simp_all
  then show "reportable e \<Longrightarrow> list_all (\<lambda>c. ord c < 0x80) m \<Longrightarrow> reportable (Wrapped m e)"
    by (simp add: reportable_def)
qed

text \<open>A successful answer means that the client was authorized and the operation succeeded.\<close>

lemma usn_handle_success:
  assumes "usn_request_valid v" and "\<And>e. authorizeClient tc sid = Inl e \<Longrightarrow> reportable e"
    and "ur_Error (usn_answer (usn_handle N eqf tc sid authority (usn_request_bytes v) w)) = []"
  shows "authorizeClient tc sid = Inr True \<and>
    usn_handle N eqf tc sid authority (usn_request_bytes v) w = usn_operation N eqf authority v w"
proof -
  have rd: "usn_readRequest (usn_request_bytes v) = Inr (v, [])"
    using usnreq.dec_enc [OF assms(1), of "[]"] by simp
  show ?thesis
  proof (cases "authorizeClient tc sid")
    case (Inl e)
    with assms(2) have "reportable (Wrapped ''authenticate FICollector pipe client'' e)"
      by (intro reportable_Wrapped) simp_all
    from usn_failure_text [OF this] assms(3) Inl rd show ?thesis
      by (simp add: usn_handle_def usn_answer_def bindP_def liftP_def)
  next
    case (Inr b)
    with assms(3) rd show ?thesis
      by (cases b) (simp_all add: usn_handle_def usn_answer_def bindP_def liftP_def stop_if_def
          failP_def retP_def usn_failure_code_def)
  qed
qed

lemma usn_handle_authorized:
  assumes "usn_request_valid v" and "authorizeClient tc sid = Inr True"
  shows "usn_handle N eqf tc sid authority (usn_request_bytes v) w = usn_operation N eqf authority v w"
  using assms usnreq.dec_enc [OF assms(1), of "[]"]
  by (simp add: usn_handle_def bindP_def liftP_def stop_if_def retP_def)

lemma usn_volume_refused:
  "allowsVolume eqf authority (uq_GovernedRoot v) \<noteq> Inr True \<Longrightarrow>
     \<exists>f. usn_volume_allowed eqf authority v w = (Inl f, w) \<and> ur_Error f \<noteq> []"
proof -
  have "reportable ErrInvalidGovernedRoot"
    unfolding ErrInvalidGovernedRoot_def by (rule reportable_ErrorsNew) simp_all
  then have "ur_Error (usn_failure ErrInvalidGovernedRoot) \<noteq> []" by (rule usn_failure_text)
  moreover assume "allowsVolume eqf authority (uq_GovernedRoot v) \<noteq> Inr True"
  ultimately show ?thesis
    by (auto simp: usn_volume_allowed_def allowsVolume_def DriveForRoot_def bindP_def liftP_def
        stop_if_def failP_def retP_def usn_failure_code_def split: if_splits)
qed

lemma usn_volume_passed:
  "allowsVolume eqf authority (uq_GovernedRoot v) = Inr True \<Longrightarrow>
     usn_volume_allowed eqf authority v w = (Inr (), w)"
  by (simp add: usn_volume_allowed_def bindP_def liftP_def stop_if_def retP_def)

lemma usn_operation_Read:
  "uq_Operation v = operationRead \<Longrightarrow> usn_operation N eqf authority v =
     bindP (usn_volume_allowed eqf authority v) (\<lambda>_.
     bindP (callP usn_failure (usnraw_Read N eqf (uq_GovernedRoot v) (uq_StartUSN v)))
       (\<lambda>(journal, data).
     retP \<lparr>ur_Journal = journal, ur_Data = data, ur_ErrorCode = 0, ur_Error = []\<rparr>))"
  by (simp add: usn_operation_def usn_operations)

lemma usn_operation_read:
  assumes "uq_Operation v = operationRead"
    and "\<And>e. fst (usnraw_Read N eqf (uq_GovernedRoot v) (uq_StartUSN v) w) = Inl e \<Longrightarrow> reportable e"
  shows "r = usn_answer (usn_operation N eqf authority v w) \<and> ur_Error r = [] \<longleftrightarrow>
    allowsVolume eqf authority (uq_GovernedRoot v) = Inr True \<and>
    (\<exists>j d. fst (usnraw_Read N eqf (uq_GovernedRoot v) (uq_StartUSN v) w) = Inr (j, d) \<and>
       r = \<lparr>ur_Journal = j, ur_Data = d, ur_ErrorCode = 0, ur_Error = []\<rparr>)"
proof (cases "allowsVolume eqf authority (uq_GovernedRoot v) = Inr True")
  case True
  obtain x w' where x: "usnraw_Read N eqf (uq_GovernedRoot v) (uq_StartUSN v) w = (x, w')"
    by fastforce
  show ?thesis
  proof (cases x)
    case (Inl e)
    then have "ur_Error (usn_failure e) \<noteq> []" using assms(2) x by (intro usn_failure_text) simp
    moreover have "usn_answer (usn_operation N eqf authority v w) = usn_failure e"
      using Inl x True
      by (simp add: usn_operation_Read [OF assms(1)] usn_answer_def bindP_def callP_def
          usn_volume_passed)
    ultimately show ?thesis using Inl x by auto
  next
    case (Inr p)
    then have "usn_answer (usn_operation N eqf authority v w) =
        \<lparr>ur_Journal = fst p, ur_Data = snd p, ur_ErrorCode = 0, ur_Error = []\<rparr>"
      using x True
      by (simp add: usn_operation_Read [OF assms(1)] usn_answer_def bindP_def callP_def
          usn_volume_passed retP_def split_beta)
    then show ?thesis using Inr x True by (cases p) auto
  qed
next
  case False
  from usn_volume_refused [OF this, of w] obtain f where
    "usn_volume_allowed eqf authority v w = (Inl f, w)" "ur_Error f \<noteq> []" by auto
  then have "usn_answer (usn_operation N eqf authority v w) = f" "ur_Error f \<noteq> []"
    by (simp_all add: usn_operation_Read [OF assms(1)] usn_answer_def bindP_def)
  with False show ?thesis by auto
qed

lemma closing_volume_Inr [simp]:
  "closing_volume N h m w = (Inr x, w') \<longleftrightarrow>
     (\<exists>v. m w = (Inr x, v) \<and> w' = snd (un_CloseHandle N h v))"
  by (auto simp: closing_volume_def split: prod.splits)

lemma usnraw_Read_bounds:
  assumes "fst (usnraw_Read N eqf root start w) = Inr (j, d)"
  shows "8 \<le> length d" "length d \<le> 1048576" "\<not> negative_usn j"
proof -
  obtain w' where "usnraw_Read N eqf root start w = (Inr (j, d), w')"
    using assms by (metis prod.collapse)
  then have "8 \<le> length d \<and> length d \<le> 1048576 \<and> \<not> negative_usn j"
    by (auto simp: usnraw_Read_def readJournalNative_def queryJournalNative_def
        readBufferSize_def split: if_splits)
  then show "8 \<le> length d" "length d \<le> 1048576" "\<not> negative_usn j" by simp_all
qed

text \<open>
  A read of the change journal through the helper is the privileged read itself: with a
  working pipe the client gets a journal state and a raw buffer exactly when its request is
  well formed, its token is authorized, the drive of the root is configured and
  \<^verbatim>\<open>usnraw.Read\<close> returns that state and that buffer. No failure of the helper reaches the
  client as data, provided every system error has a text.
\<close>

lemma usn_Read_served:
  assumes "usn_connected C contents (usn_served N eqf tc sid authority w)"
    and "\<And>e. authorizeClient tc sid = Inl e \<Longrightarrow> reportable e"
    and "\<And>e. fst (usnraw_Read N eqf root start w) = Inl e \<Longrightarrow> reportable e"
  shows "usn_Read C root start = Inr (j, d) \<longleftrightarrow>
    usn_request_valid ((usn_plain_request operationRead root)\<lparr>uq_StartUSN := start\<rparr>) \<and>
    authorizeClient tc sid = Inr True \<and> allowsVolume eqf authority root = Inr True \<and>
    fst (usnraw_Read N eqf root start w) = Inr (j, d)"
proof -
  let ?v = "(usn_plain_request operationRead root)\<lparr>uq_StartUSN := start\<rparr>"
  let ?ok = "\<lparr>ur_Journal = j, ur_Data = d, ur_ErrorCode = 0, ur_Error = []\<rparr> :: usn_response"
  note rt = usn_roundTrip_answer [OF assms(1), of ?v]
  have op: "r = usn_answer (usn_operation N eqf authority ?v w) \<and> ur_Error r = [] \<longleftrightarrow>
      allowsVolume eqf authority root = Inr True \<and>
      (\<exists>j d. fst (usnraw_Read N eqf root start w) = Inr (j, d) \<and>
         r = \<lparr>ur_Journal = j, ur_Data = d, ur_ErrorCode = 0, ur_Error = []\<rparr>)" for r
    using usn_operation_read [of ?v N eqf w r authority] assms(3)
    by (simp add: usn_plain_request_def)
  show ?thesis
  proof
    assume "usn_Read C root start = Inr (j, d)"
    then obtain r where r: "usn_roundTrip C ?v = Inr r" "ur_Journal r = j" "ur_Data r = d"
      by (auto simp: usn_Read_def split: if_splits)
    with rt have v: "usn_request_valid ?v" and e: "ur_Error r = []"
      and a: "r = usn_answer (usn_handle N eqf tc sid authority (usn_request_bytes ?v) w)" by auto
    from usn_handle_success [OF v assms(2)] a e have "authorizeClient tc sid = Inr True"
      "r = usn_answer (usn_operation N eqf authority ?v w)" by metis+
    with v e r(2,3) op [of r] show "usn_request_valid ?v \<and> authorizeClient tc sid = Inr True \<and>
        allowsVolume eqf authority root = Inr True \<and>
        fst (usnraw_Read N eqf root start w) = Inr (j, d)" by auto
  next
    assume b: "usn_request_valid ?v \<and> authorizeClient tc sid = Inr True \<and>
        allowsVolume eqf authority root = Inr True \<and>
        fst (usnraw_Read N eqf root start w) = Inr (j, d)"
    with op [of ?ok] have "usn_answer (usn_operation N eqf authority ?v w) = ?ok" by auto
    moreover have "usn_handle N eqf tc sid authority (usn_request_bytes ?v) w =
        usn_operation N eqf authority ?v w"
      using b by (intro usn_handle_authorized) simp_all
    moreover have "usn_response_valid ?ok"
      using usnraw_Read_bounds [of N eqf root start w j d] b by (simp add: usn_response_valid_iff)
    ultimately have "usn_roundTrip C ?v = Inr ?ok" using b rt [of ?ok] by simp
    then show "usn_Read C root start = Inr (j, d)"
      using usnraw_Read_bounds [of N eqf root start w j d] b
      by (simp add: usn_Read_def validateJournal_def MaxUSNDataBytes_def)
  qed
qed

end
