(* ===== verification/Usn_Journal.thy ===== *)
theory Usn_Journal
  imports Rec_Identity Usn_Service
begin

text \<open>
  Package \<^verbatim>\<open>windows/usn\<close> (\<^verbatim>\<open>usn.go\<close>): the collector's reading of the change journal. The raw
  buffer of the helper is cut into \<^verbatim>\<open>USN_RECORD_V2\<close> records, each becomes an observation, and
  the batch is validated before it leaves. The volume identity is the result of Windows calls
  and so is the clock; both are arguments.
\<close>

section \<open>Observations of raw records\<close>

definition CollectionMethod :: string where "CollectionMethod = ''WindowsNTFSUSNJournalV0''"
definition IdentityMethodVersion :: string where
  "IdentityMethodVersion = ''windows-file-id-info-ntfs/0.1''"
definition usnV2HeaderSize :: nat where "usnV2HeaderSize = 60"

datatype usn_error =
    MalformedUSNBuffer
  | UnsupportedUSNRecord uint16 uint16
  | FiletimeError string
  | JournalErr go_err
  | USNSyntax string
  | USNParse parse_error
  | RecordInvalid validation_error
  | ScopeRequired

definition identityFromReference :: "uint64 \<Rightarrow> ntfs_identity" where
  "identityFromReference reference =
     \<lparr>ni_MethodVersion = IdentityMethodVersion,
      ni_FileReferenceNumber = FormatUint (unat (reference AND 0x0000FFFFFFFFFFFF)),
      ni_SequenceNumber = FormatUint (unat (drop_bit 48 reference))\<rparr>"

definition known_reasons :: "(uint32 \<times> string) list" where
  "known_reasons =
     [(0x00000001, ''DataOverwrite''), (0x00000002, ''DataExtend''), (0x00000004, ''DataTruncation''),
      (0x00000010, ''NamedDataOverwrite''), (0x00000020, ''NamedDataExtend''),
      (0x00000040, ''NamedDataTruncation''), (0x00000100, ''FileCreate''),
      (0x00000200, ''FileDelete''), (0x00000400, ''EAChange''), (0x00000800, ''SecurityChange''),
      (0x00001000, ''RenameOldName''), (0x00002000, ''RenameNewName''),
      (0x00004000, ''IndexableChange''), (0x00008000, ''BasicInfoChange''),
      (0x00010000, ''HardLinkChange''), (0x00020000, ''CompressionChange''),
      (0x00040000, ''EncryptionChange''), (0x00080000, ''ObjectIDChange''),
      (0x00100000, ''ReparsePointChange''), (0x00200000, ''StreamChange''),
      (0x00400000, ''TransactedChange''), (0x00800000, ''IntegrityChange''),
      (0x80000000, ''Close'')]"

definition reasonNames :: "uint32 \<Rightarrow> string list" where
  "reasonNames reason = sort (map snd (filter (\<lambda>item. reason AND fst item \<noteq> 0) known_reasons))"

definition parseV2Record :: "bytes \<Rightarrow> uint16 \<Rightarrow> uint16 \<Rightarrow> usn_error + usn_change" where
  "parseV2Record raw major minor =
     (if length raw < usnV2HeaderSize then Inl MalformedUSNBuffer
      else
        let fileRef = le_Uint64 (slice 8 16 raw);
            parentRef = le_Uint64 (slice 16 24 raw);
            usnValue = le_Uint64 (slice 24 32 raw);
            timestamp = le_Uint64 (slice 32 40 raw);
            reason = le_Uint32 (slice 40 44 raw);
            sourceInfo = le_Uint32 (slice 44 48 raw);
            securityID = le_Uint32 (slice 48 52 raw);
            attributes = le_Uint32 (slice 52 56 raw);
            nameLength = unat (le_Uint16 (slice 56 58 raw));
            nameOffset = unat (le_Uint16 (slice 58 60 raw))
        in if sint usnValue < 0 \<or> nameLength mod 2 \<noteq> 0 \<or> nameOffset < usnV2HeaderSize \<or>
              nameOffset + nameLength > length raw
           then Inl MalformedUSNBuffer
           else
             bindE (map_err FiletimeError (filetimeToCanonical (sint timestamp))) (\<lambda>canonicalTimestamp.
             Inr \<lparr>ch_MajorVersion = FormatUint (unat major),
                  ch_MinorVersion = FormatUint (unat minor),
                  ch_FileIdentity = identityFromReference fileRef,
                  ch_ParentIdentity = identityFromReference parentRef,
                  ch_USN = FormatUint (unat usnValue),
                  ch_Timestamp = canonicalTimestamp,
                  ch_ReasonRaw = FormatUint (unat reason),
                  ch_ReasonNames = reasonNames reason,
                  ch_SourceInfoRaw = FormatUint (unat sourceInfo),
                  ch_SecurityID = FormatUint (unat securityID),
                  ch_FileAttributesRaw = FormatUint (unat attributes),
                  ch_FileName = url_encode (slice nameOffset (nameOffset + nameLength) raw)\<rparr>))"

section \<open>The buffer\<close>

text \<open>The loop of \<^verbatim>\<open>parseReadBuffer\<close> over the offsets; each turn moves on by at least 60 bytes.\<close>

function parse_offset :: "bytes \<Rightarrow> nat \<Rightarrow> usn_change list \<Rightarrow> usn_error + usn_change list" where
  "parse_offset buffer offset changes =
     (if \<not> offset < length buffer then Inr changes
      else if length buffer - offset < 8 then Inl MalformedUSNBuffer
      else
        let recordLength = unat (le_Uint32 (slice offset (offset + 4) buffer));
            major = le_Uint16 (slice (offset + 4) (offset + 6) buffer);
            minor = le_Uint16 (slice (offset + 6) (offset + 8) buffer)
        in if recordLength < usnV2HeaderSize \<or> offset + recordLength > length buffer
           then Inl MalformedUSNBuffer
           else if major \<noteq> 2 then Inl (UnsupportedUSNRecord major minor)
           else
             (case parseV2Record (slice offset (offset + recordLength) buffer) major minor of
                Inl e \<Rightarrow> Inl e
              | Inr record \<Rightarrow> parse_offset buffer (offset + recordLength) (changes @ [record])))"
  by pat_completeness auto
termination
  by (relation "measure (\<lambda>(buffer, offset, changes). length buffer - offset)")
    (auto simp: usnV2HeaderSize_def)

declare parse_offset.simps [simp del]

definition parseReadBuffer :: "bytes \<Rightarrow> usn_error + int64 \<times> usn_change list" where
  "parseReadBuffer buffer =
     (if length buffer < 8 then Inl MalformedUSNBuffer
      else if sint (le_Uint64 (slice 0 8 buffer)) < 0 then Inl MalformedUSNBuffer
      else bindE (parse_offset buffer 8 []) (\<lambda>changes.
        Inr (le_Uint64 (slice 0 8 buffer), changes)))"

section \<open>Positions and batches\<close>

definition parseUSN :: "string \<Rightarrow> usn_error + int64" where
  "parseUSN v =
     (if v = [] \<or> length v > 1 \<and> v ! 0 = CHR ''0''
      then Inl (USNSyntax ''USN must be canonical unsigned decimal'')
      else bindE (map_err USNParse (ParseUint 63 v)) (\<lambda>parsed. Inr (of_nat parsed)))"

definition QueryJournal ::
  "'s usn_client \<Rightarrow> go_err option \<Rightarrow> (go_err + volume_identity) \<Rightarrow> string \<Rightarrow> string \<Rightarrow> string
     \<Rightarrow> usn_error + usn_journal_state" where
  "QueryJournal C ctx volume now scopeID governedRoot =
     bindE (map_err JournalErr (check ctx)) (\<lambda>_.
     if scopeID = [] then Inl ScopeRequired
     else
       bindE (map_err JournalErr volume) (\<lambda>identity.
       bindE (map_err JournalErr (usn_Query C governedRoot)) (\<lambda>journal.
       let state = \<lparr>us_ObservedAt = now, us_CollectionMethod = CollectionMethod,
             us_ScopeID = scopeID, us_VolumeIdentity = identity,
             us_JournalID = FormatUint (unat (uj_JournalID journal)),
             us_FirstUSN = FormatUint (unat (uj_FirstUSN journal)),
             us_NextUSN = FormatUint (unat (uj_NextUSN journal)),
             us_LowestValidUSN = FormatUint (unat (uj_LowestValidUSN journal)),
             us_MaxUSN = FormatUint (unat (uj_MaxUSN journal)),
             us_MaximumSize = FormatUint (unat (uj_MaximumSize journal)),
             us_AllocationDelta = FormatUint (unat (uj_AllocationDelta journal))\<rparr>
       in bindE (map_err RecordInvalid (check (ValidateUSNJournalState state))) (\<lambda>_. Inr state))))"

definition ReadJournal ::
  "'s usn_client \<Rightarrow> go_err option \<Rightarrow> (go_err + volume_identity) \<Rightarrow> string \<Rightarrow> string \<Rightarrow> string \<Rightarrow> string
     \<Rightarrow> usn_error + usn_read_batch" where
  "ReadJournal C ctx volume now scopeID governedRoot startUSN =
     bindE (map_err JournalErr (check ctx)) (\<lambda>_.
     bindE (parseUSN startUSN) (\<lambda>start.
     bindE (map_err JournalErr volume) (\<lambda>identity.
     bindE (map_err JournalErr (usn_Read C governedRoot start)) (\<lambda>(journal, buffer).
     bindE (parseReadBuffer buffer) (\<lambda>(next, changes).
     let batch = \<lparr>ub_ObservedAt = now, ub_CollectionMethod = CollectionMethod,
           ub_ScopeID = scopeID, ub_VolumeIdentity = identity,
           ub_JournalID = FormatUint (unat (uj_JournalID journal)),
           ub_StartUSN = FormatUint (unat start), ub_NextUSN = FormatUint (unat next),
           ub_Records = changes\<rparr>
     in bindE (map_err RecordInvalid (check (ValidateUSNReadBatch batch))) (\<lambda>_. Inr batch))))))"

section \<open>The buffer is cut exactly\<close>

text \<open>A raw record with its observation: its own length field tells where it ends.\<close>

definition raw_record :: "bytes \<Rightarrow> usn_change \<Rightarrow> bool" where
  "raw_record r c \<longleftrightarrow>
     60 \<le> length r \<and> unat (le_Uint32 (slice 0 4 r)) = length r \<and> le_Uint16 (slice 4 6 r) = 2 \<and>
     parseV2Record r 2 (le_Uint16 (slice 6 8 r)) = Inr c"

lemma slice_drop: "slice (off + i) (off + j) s = slice i j (drop off s)"
  by (simp add: slice_def drop_drop take_drop add.commute)

lemma slice_prefix: "j \<le> length r \<Longrightarrow> slice i j (r @ s) = slice i j r"
  by (simp add: slice_def)

lemma slice_take: "j \<le> n \<Longrightarrow> slice i j (take n s) = slice i j s"
  by (simp add: slice_def drop_take min_def)

lemma slice_drop_0: "slice off (off + j) s = slice 0 j (drop off s)"
  using slice_drop [of off 0 j s] by simp

lemma raws_not_Nil: "list_all2 raw_record raws cs \<Longrightarrow> \<forall>r \<in> set raws. r = [] \<Longrightarrow> cs = []"
  by (cases raws) (auto simp: raw_record_def list_all2_Cons1)

lemma parse_offset_iff:
  "off \<le> length buffer \<Longrightarrow>
     parse_offset buffer off cs0 = Inr cs \<longleftrightarrow>
     (\<exists>raws cs'. cs = cs0 @ cs' \<and> drop off buffer = concat raws \<and> list_all2 raw_record raws cs')"
proof (induction "length buffer - off" arbitrary: off cs0 rule: less_induct)
  case less
  let ?s = "drop off buffer"
  let ?n = "unat (le_Uint32 (slice 0 4 ?s))"
  let ?major = "le_Uint16 (slice 4 6 ?s)" and ?minor = "le_Uint16 (slice 6 8 ?s)"
  show ?case
  proof (cases "off = length buffer")
    case True
    then show ?thesis
      by (subst parse_offset.simps) (auto dest: raws_not_Nil)
  next
    case False
    with less.prems have off: "off < length buffer" by simp
    have step: "parse_offset buffer off cs0 =
        (if length ?s < 8 \<or> ?n < 60 \<or> length ?s < ?n then Inl MalformedUSNBuffer
         else if ?major \<noteq> 2 then Inl (UnsupportedUSNRecord ?major ?minor)
         else case parseV2Record (take ?n ?s) ?major ?minor of Inl e \<Rightarrow> Inl e
           | Inr c \<Rightarrow> parse_offset buffer (off + ?n) (cs0 @ [c]))"
      using off
      by (subst parse_offset.simps)
        (auto simp: Let_def slice_drop slice_drop_0 usnV2HeaderSize_def slice_def [of 0 ?n])
    show ?thesis
    proof
      assume r: "parse_offset buffer off cs0 = Inr cs"
      with step obtain c where c: "8 \<le> length ?s" "60 \<le> ?n" "?n \<le> length ?s" "?major = 2"
        "parseV2Record (take ?n ?s) 2 ?minor = Inr c"
        and rest: "parse_offset buffer (off + ?n) (cs0 @ [c]) = Inr cs"
        by (auto split: if_splits sum.splits)
      have le: "off + ?n \<le> length buffer" using c(3) off by simp
      have "length buffer - (off + ?n) < length buffer - off" using c(2) off by simp
      from less.hyps [OF this le] rest obtain raws cs' where
        ih: "cs = (cs0 @ [c]) @ cs'" "drop (off + ?n) buffer = concat raws"
          "list_all2 raw_record raws cs'" by blast
      have len: "length (take ?n ?s) = ?n" using c(3) by simp
      have hd: "slice i j (take ?n ?s) = slice i j ?s" if "j \<le> 8" for i j
        using that c(2) by (intro slice_take) simp
      have "raw_record (take ?n ?s) c"
        using c len by (simp add: raw_record_def hd)
      moreover have "?s = concat (take ?n ?s # raws)"
        using append_take_drop_id [of ?n ?s] ih(2) by (metis add.commute concat.simps(2) drop_drop)
      ultimately show "\<exists>raws cs'. cs = cs0 @ cs' \<and> ?s = concat raws \<and> list_all2 raw_record raws cs'"
        using ih by (intro exI [of _ "take ?n ?s # raws"] exI [of _ "c # cs'"]) simp
    next
      assume "\<exists>raws cs'. cs = cs0 @ cs' \<and> ?s = concat raws \<and> list_all2 raw_record raws cs'"
      then obtain raws cs' where ex: "cs = cs0 @ cs'" "?s = concat raws" "list_all2 raw_record raws cs'"
        by blast
      have "raws \<noteq> []" using ex(2) off by auto
      then obtain r rs c ds where rc: "raws = r # rs" "cs' = c # ds" "raw_record r c"
        "list_all2 raw_record rs ds" using ex(3) by (cases raws; cases cs') auto
      have s: "?s = r @ concat rs" using ex(2) rc(1) by simp
      have r60: "60 \<le> length r" using rc(3) by (simp add: raw_record_def)
      then have hd: "slice i j ?s = slice i j r" if "j \<le> 8" for i j
        unfolding s using that by (intro slice_prefix) simp
      have n: "?n = length r" and mj: "?major = 2" and p: "parseV2Record r 2 ?minor = Inr c"
        using rc(3) by (simp_all add: hd raw_record_def)
      have "length ?s = length r + length (concat rs)" unfolding s by simp
      then have le: "off + length r \<le> length buffer" "8 \<le> length ?s" "length r \<le> length ?s"
        using off r60 by simp_all
      have "take ?n ?s = r" using n s by (metis append_eq_conv_conj)
      with step n mj p le r60 have "parse_offset buffer off cs0 =
          parse_offset buffer (off + length r) (cs0 @ [c])" by simp
      moreover have "length buffer - (off + length r) < length buffer - off" using off r60 by simp
      moreover have "drop (off + length r) buffer = concat rs"
        using s by (metis add.commute append_eq_conv_conj drop_drop)
      ultimately show "parse_offset buffer off cs0 = Inr cs"
        using less.hyps [of "off + length r" "cs0 @ [c]"] le(1) ex(1) rc by auto
    qed
  qed
qed

text \<open>
  C10: \<^verbatim>\<open>parseReadBuffer\<close> accepts exactly the buffers that consist of a non-negative next USN and
  a sequence of whole version-2 records laid end to end, each as long as its own length field
  says, and returns the observations of these records in order. No byte is skipped, read
  twice or read beyond the end.
\<close>

theorem usn_buffer_exact:
  "parseReadBuffer buffer = Inr (next, changes) \<longleftrightarrow>
     8 \<le> length buffer \<and> next = le_Uint64 (take 8 buffer) \<and> 0 \<le> sint next \<and>
     (\<exists>raws. drop 8 buffer = concat raws \<and> list_all2 raw_record raws changes)"
  using parse_offset_iff [of 8 buffer "[]" changes]
  by (auto simp: parseReadBuffer_def slice_def)

section \<open>Observations are valid and faithful\<close>

lemma reference_parts:
  "unat (reference AND 0x0000FFFFFFFFFFFF) = unat reference mod 2 ^ 48"
  "unat (drop_bit 48 reference) = unat reference div 2 ^ 48"
  for reference :: uint64
proof -
  have "reference AND 0x0000FFFFFFFFFFFF = take_bit 48 reference"
    by (simp add: take_bit_eq_mask mask_numeral)
  then have "unat (reference AND 0x0000FFFFFFFFFFFF) = take_bit 48 (unat reference)"
    by (simp only: unsigned_take_bit_eq)
  then show "unat (reference AND 0x0000FFFFFFFFFFFF) = unat reference mod 2 ^ 48"
    by (simp only: take_bit_eq_mod)
  show "unat (drop_bit 48 reference) = unat reference div 2 ^ 48"
    using unat_drop_bit_eq [of 48 reference] by (simp only: drop_bit_eq_div [where 'a = nat])
qed

lemma identityFromReference_valid: "ValidateNTFSObjectIdentity (identityFromReference reference) = None"
proof -
  have "unat reference mod 2 ^ 48 \<le> maxNTFSFileReferenceNumber"
    using mod_less_divisor [of "2 ^ 48" "unat reference"] by (simp add: maxNTFSFileReferenceNumber_def)
  moreover have "unat reference div 2 ^ 48 \<le> maxNTFSSequenceNumber"
    using unat_lt_2p [of reference] by (simp add: maxNTFSSequenceNumber_def less_mult_imp_div_less less_Suc_eq_le [symmetric])
  ultimately show ?thesis
    by (auto simp: ValidateNTFSObjectIdentity_def identityFromReference_def require_def
        IdentityMethodVersion_def reference_parts validateDecimalMax_None
        maxNTFSFileReferenceNumber_def maxNTFSSequenceNumber_def)
qed

lemma FormatUint_inj: "FormatUint a = FormatUint b \<longleftrightarrow> a = b"
  by (metis digits_value_Format)

text \<open>The two numbers of an object identity give back the 64-bit NTFS file reference.\<close>

lemma identityFromReference_inj: "identityFromReference a = identityFromReference b \<longleftrightarrow> a = b"
proof
  assume "identityFromReference a = identityFromReference b"
  then have "unat a mod 2 ^ 48 = unat b mod 2 ^ 48" "unat a div 2 ^ 48 = unat b div 2 ^ 48"
    by (simp_all add: identityFromReference_def FormatUint_inj reference_parts)
  then have "unat a = unat b" by (metis div_mult_mod_eq)
  then show "a = b" by (simp add: word_unat_eq_iff)
qed simp

lemma adjacent_distinct: "distinct xs \<Longrightarrow> \<not> adjacent_equal xs"
  by (induction xs rule: adjacent_equal.induct) auto

lemma reasonNames_valid: "sorted (reasonNames reason)" "\<not> adjacent_equal (reasonNames reason)"
proof -
  have d: "distinct (map snd known_reasons)" by (simp add: known_reasons_def)
  show "sorted (reasonNames reason)" by (simp add: reasonNames_def)
  show "\<not> adjacent_equal (reasonNames reason)"
    using d by (intro adjacent_distinct) (simp add: reasonNames_def distinct_map_filter)
qed

lemma word_decimal: "unat (w :: 'a::len word) < 2 ^ 64 \<Longrightarrow> validateDecimal (FormatUint (unat w)) f = None"
  by (auto simp: validateDecimal_None)

lemma small_decimals:
  "validateDecimal (FormatUint (unat (w16 :: uint16))) f = None"
  "validateDecimal (FormatUint (unat (w32 :: uint32))) f = None"
  "validateDecimal (FormatUint (unat (w64 :: uint64))) f = None"
  using unat_lt_2p [of w16] unat_lt_2p [of w32] unat_lt_2p [of w64]
  by (intro word_decimal; simp)+

text \<open>
  An observation is valid exactly when its timestamp has the length of the layout, that is,
  when its file time lies before the year 10000.
\<close>

lemma parsed_record_valid:
  assumes "parseV2Record raw 2 minor = Inr c"
  shows "ValidateUSNChangeObservation c = None \<longleftrightarrow> length (ch_Timestamp c) = 30"
proof -
  let ?ts = "sint (le_Uint64 (slice 32 40 raw))"
  let ?nl = "unat (le_Uint16 (slice 56 58 raw))" and ?no = "unat (le_Uint16 (slice 58 60 raw))"
  from assms obtain ts where ts: "filetimeToCanonical ?ts = Inr ts"
    and name: "?nl mod 2 = 0" "?no + ?nl \<le> length raw"
    and c: "c = \<lparr>ch_MajorVersion = FormatUint (unat (2 :: uint16)),
        ch_MinorVersion = FormatUint (unat minor),
        ch_FileIdentity = identityFromReference (le_Uint64 (slice 8 16 raw)),
        ch_ParentIdentity = identityFromReference (le_Uint64 (slice 16 24 raw)),
        ch_USN = FormatUint (unat (le_Uint64 (slice 24 32 raw))), ch_Timestamp = ts,
        ch_ReasonRaw = FormatUint (unat (le_Uint32 (slice 40 44 raw))),
        ch_ReasonNames = reasonNames (le_Uint32 (slice 40 44 raw)),
        ch_SourceInfoRaw = FormatUint (unat (le_Uint32 (slice 44 48 raw))),
        ch_SecurityID = FormatUint (unat (le_Uint32 (slice 48 52 raw))),
        ch_FileAttributesRaw = FormatUint (unat (le_Uint32 (slice 52 56 raw))),
        ch_FileName = url_encode (slice ?no (?no + ?nl) raw)\<rparr>"
    by (auto simp: parseV2Record_def Let_def split: if_splits)
  have nn: "0 \<le> ?ts" using ts by (auto simp: filetimeToCanonical_def split: if_splits)
  let ?t = "time_Unix (?ts div 10000000 - 11644473600) (nat ((?ts mod 10000000) * 100))"
  have "ts = format_layout ?t" using ts nn by (simp add: filetimeToCanonical_def)
  then have "ValidateObservedAt ts = None \<longleftrightarrow> length ts = 30"
    using length_format_layout filetime_valid(1) [OF nn] format_layout_inj
    by (auto simp: ValidateObservedAt_def validateTimestamp_iff)
  moreover have "even (length (slice ?no (?no + ?nl) raw))"
    using name by (simp add: length_slice even_iff_mod_2_eq_zero)
  moreover have "FormatUint (unat (2 :: uint16)) = ''2''"
  proof -
    have "char_of (50 :: nat) = CHR ''2''" by (rule of_char_eqI [where 'a = nat]) simp
    then show ?thesis by (simp add: FormatUint.simps)
  qed
  ultimately show ?thesis
    unfolding ValidateUSNChangeObservation_def c
    by (auto simp: small_decimals identityFromReference_valid reasonNames_valid
        validateUTF16LEBase64URL_None)
qed

text \<open>
  C25: Every observation that \<^verbatim>\<open>parseReadBuffer\<close> makes carries the canonical text of the record's
  file time \<open>v\<close>, and it passes \<^verbatim>\<open>ValidateUSNChangeObservation\<close> (identities in range, canonical
  decimals, a UTF-16 name, sorted and distinct reason names) exactly when \<open>v\<close> lies before the
  start of the year 10000, file time 2650467744000000000. The parser also accepts later file
  times, whose timestamps do not fit the layout: those observations, and only those, are
  refused by the validation.
\<close>

theorem parsed_changes_valid:
  assumes "parseReadBuffer buffer = Inr (next, changes)" and "c \<in> set changes"
  shows "\<exists>v. filetimeToCanonical v = Inr (ch_Timestamp c) \<and>
    (ValidateUSNChangeObservation c = None \<longleftrightarrow> v < 2650467744000000000)"
proof -
  from assms(1) have "8 \<le> length buffer" "parse_offset buffer 8 [] = Inr changes"
    by (auto simp: parseReadBuffer_def split: if_splits)
  then obtain raws where "list_all2 raw_record raws changes" by (auto simp: parse_offset_iff)
  with assms(2) obtain r where "raw_record r c" by (metis in_set_conv_nth list_all2_conv_all_nth)
  then obtain minor where r: "parseV2Record r 2 minor = Inr c" by (auto simp: raw_record_def)
  then have v: "filetimeToCanonical (sint (le_Uint64 (slice 32 40 r))) = Inr (ch_Timestamp c)"
    by (auto simp: parseV2Record_def Let_def split: if_splits)
  have "length (ch_Timestamp c) = 30 \<longleftrightarrow> sint (le_Uint64 (slice 32 40 r)) < 2650467744000000000"
    by (rule filetime_text_length [OF v])
  with v parsed_record_valid [OF r] show ?thesis
    by (intro exI [of _ "sint (le_Uint64 (slice 32 40 r))"]) (simp only: simp_thms)
qed

section \<open>From the journal to the batch\<close>

lemma ValidateUSNReadBatch_records:
  "ValidateUSNReadBatch b = None \<Longrightarrow>
     (\<forall>r \<in> set (ub_Records b). ValidateUSNChangeObservation r = None) \<and>
     sorted (map usn_number (ub_Records b))"
  by (auto simp: ValidateUSNReadBatch_def validate_records_iff)

lemma parseUSN_canonical: "parseUSN v = Inr w \<Longrightarrow> v = FormatUint (unat w) \<and> 0 \<le> sint w"
proof -
  assume p: "parseUSN v = Inr w"
  then have n: "v \<noteq> []" "list_all is_digit v" "length v > 1 \<longrightarrow> v ! 0 \<noteq> CHR ''0''"
    and w: "w = of_nat (digits_value v)" "digits_value v < 2 ^ 63"
    by (auto simp: parseUSN_def ParseUint_def split: if_splits)
  then have u: "unat w = digits_value v" by (simp add: unat_of_nat_small)
  moreover have "FormatUint (digits_value v) = v"
    using n by (intro FormatUint_value) (auto simp: hd_conv_nth)
  moreover have "0 \<le> sint w"
  proof -
    have "int (unat w) < 2 ^ 63" unfolding u using w(2) by simp
    then have "uint w < 2 ^ 63" by (simp only: uint_nat)
    then have "\<not> bit (uint w) 63" by (simp add: bit_iff_odd div_pos_pos_trivial)
    then show ?thesis by (simp add: sint_uint)
  qed
  ultimately show ?thesis by simp
qed

text \<open>
  C9: A batch that \<^verbatim>\<open>ReadJournal\<close> returns over a working pipe is the journal: the client was
  authorized, the drive of the root is configured, and \<^verbatim>\<open>usnraw.Read\<close> at the requested position
  returned a journal state and a buffer whose records, laid end to end, are exactly the ones
  observed in the batch, in order and each valid, with USNs that never decrease; the batch
  carries the identifier of that journal and the continuation USN of that buffer.
\<close>

theorem collected_batch_is_journal:
  assumes "usn_connected C contents (usn_served N eqf tc sid authority w)"
    and "\<And>e. authorizeClient tc sid = Inl e \<Longrightarrow> reportable e"
    and "\<And>start e. fst (usnraw_Read N eqf root start w) = Inl e \<Longrightarrow> reportable e"
    and "ReadJournal C ctx volume now scopeID root startUSN = Inr batch"
  shows "\<exists>start journal buffer raws.
    startUSN = FormatUint (unat start) \<and> 0 \<le> sint start \<and>
    authorizeClient tc sid = Inr True \<and> allowsVolume eqf authority root = Inr True \<and>
    fst (usnraw_Read N eqf root start w) = Inr (journal, buffer) \<and>
    drop 8 buffer = concat raws \<and> list_all2 raw_record raws (ub_Records batch) \<and>
    (\<forall>r \<in> set (ub_Records batch). ValidateUSNChangeObservation r = None) \<and>
    sorted (map usn_number (ub_Records batch)) \<and>
    ub_StartUSN batch = startUSN \<and>
    ub_JournalID batch = FormatUint (unat (uj_JournalID journal)) \<and>
    ub_NextUSN batch = FormatUint (unat (le_Uint64 (take 8 buffer)))"
proof -
  from assms(4) obtain start identity journal buffer nxt changes where
      s: "parseUSN startUSN = Inr start" and rd: "usn_Read C root start = Inr (journal, buffer)"
    and p: "parseReadBuffer buffer = Inr (nxt, changes)"
    and b: "batch = \<lparr>ub_ObservedAt = now, ub_CollectionMethod = CollectionMethod,
        ub_ScopeID = scopeID, ub_VolumeIdentity = identity,
        ub_JournalID = FormatUint (unat (uj_JournalID journal)),
        ub_StartUSN = FormatUint (unat start), ub_NextUSN = FormatUint (unat nxt),
        ub_Records = changes\<rparr>"
    and ok: "ValidateUSNReadBatch batch = None"
    by (auto simp: ReadJournal_def Let_def)
  have raw: "authorizeClient tc sid = Inr True" "allowsVolume eqf authority root = Inr True"
    "fst (usnraw_Read N eqf root start w) = Inr (journal, buffer)"
    using usn_Read_served [OF assms(1,2), of root start journal buffer] assms(3) rd by auto
  from p have "8 \<le> length buffer" "parse_offset buffer 8 [] = Inr changes"
    "nxt = le_Uint64 (take 8 buffer)"
    by (auto simp: parseReadBuffer_def slice_def split: if_splits)
  moreover from this obtain raws where "drop 8 buffer = concat raws" "list_all2 raw_record raws changes"
    by (auto simp: parse_offset_iff)
  ultimately show ?thesis
    using parseUSN_canonical [OF s] raw ValidateUSNReadBatch_records [OF ok] b
    by (intro exI [of _ start] exI [of _ journal] exI [of _ buffer] exI [of _ raws]) simp
qed

end
