(* ===== verification/Usn_Checkpoint.thy ===== *)
theory Usn_Checkpoint
  imports Rec_Identity
begin

text \<open>
  Package \<^verbatim>\<open>windows/checkpoint\<close>: the stored position of the collector in a change journal
  (\<^verbatim>\<open>checkpoint.go\<close>), and the decisions of \<^verbatim>\<open>Initialize\<close>, \<^verbatim>\<open>Check\<close> and \<^verbatim>\<open>Advance\<close>
  (\<^verbatim>\<open>checkpoint_windows.go\<close>) on the values they load and save. The parameter \<open>utc\<close> is the test
  \<^verbatim>\<open>time.Parse(time.RFC3339Nano, s)\<close> with the location UTC; \<open>now\<close> is the clock.
\<close>

section \<open>Checkpoints and assessments\<close>

definition SchemaVersion :: string where "SchemaVersion = ''fi-usn-checkpoint/0.1''"

datatype continuity_status = ContinuityContinuous | ContinuityGap

datatype checkpoint_error =
    InvalidCheckpoint string
  | RecordError validation_error
  | NumberError parse_error
  | ErrContinuityGap
  | ErrCheckpointConflict
  | CheckpointBackward
  | CheckpointBeyondJournal
  | VolumeMismatch

record usn_checkpoint =
  cp_Version :: string
  cp_ScopeID :: string
  cp_GovernedRoot :: governed_root
  cp_JournalID :: string
  cp_NextUSN :: string
  cp_UpdatedAt :: string

record continuity_assessment =
  ca_CheckedAt :: string
  ca_Status :: continuity_status
  ca_ReasonCode :: string
  ca_Checkpoint :: usn_checkpoint
  ca_CurrentGovernedRoot :: governed_root
  ca_JournalState :: usn_journal_state

definition sameVolume :: "volume_identity \<Rightarrow> volume_identity \<Rightarrow> bool" where
  "sameVolume l r \<longleftrightarrow> vi_VolumeGUID l = vi_VolumeGUID r \<and> vi_VolumeSerial l = vi_VolumeSerial r"

definition sameObject :: "ntfs_identity \<Rightarrow> ntfs_identity \<Rightarrow> bool" where
  "sameObject l r \<longleftrightarrow>
     ni_FileReferenceNumber l = ni_FileReferenceNumber r \<and> ni_SequenceNumber l = ni_SequenceNumber r"

definition checkpoint_Validate :: "(string \<Rightarrow> bool) \<Rightarrow> usn_checkpoint \<Rightarrow> checkpoint_error option" where
  "checkpoint_Validate utc v =
     first_err
       [fail_if (cp_Version v \<noteq> SchemaVersion) (InvalidCheckpoint ''unsupported version''),
        fail_if (cp_ScopeID v = [] \<or> cp_ScopeID v \<noteq> gr_ScopeID (cp_GovernedRoot v))
          (InvalidCheckpoint ''scope mismatch''),
        map_option (\<lambda>_. InvalidCheckpoint ''governed root'')
          (ValidateGovernedRootIdentity (cp_GovernedRoot v)),
        map_option (\<lambda>_. InvalidCheckpoint ''journal_id'') (validateDecimal (cp_JournalID v) []),
        map_option (\<lambda>_. InvalidCheckpoint ''next_usn'') (validateDecimal (cp_NextUSN v) []),
        fail_if (\<not> utc (cp_UpdatedAt v)) (InvalidCheckpoint ''updated_at'')]"

definition gap :: "continuity_assessment \<Rightarrow> string \<Rightarrow> continuity_assessment" where
  "gap a reason = a\<lparr>ca_Status := ContinuityGap, ca_ReasonCode := reason\<rparr>"

text \<open>The identities that must be unchanged, in the order of the first switch of \<^verbatim>\<open>Assess\<close>.\<close>

definition identity_gap :: "usn_checkpoint \<Rightarrow> governed_root \<Rightarrow> usn_journal_state \<Rightarrow> string option" where
  "identity_gap v currentRoot journal =
     (if cp_ScopeID v \<noteq> us_ScopeID journal \<or> cp_ScopeID v \<noteq> gr_ScopeID currentRoot
      then Some ''ScopeChanged''
      else if \<not> sameVolume (gr_VolumeIdentity (cp_GovernedRoot v)) (gr_VolumeIdentity currentRoot)
      then Some ''GovernedRootVolumeChanged''
      else if \<not> sameObject (gr_ObjectIdentity (cp_GovernedRoot v)) (gr_ObjectIdentity currentRoot)
      then Some ''GovernedRootObjectChanged''
      else if \<not> sameVolume (gr_VolumeIdentity (cp_GovernedRoot v)) (us_VolumeIdentity journal)
      then Some ''JournalVolumeChanged''
      else if cp_JournalID v \<noteq> us_JournalID journal then Some ''JournalIDChanged''
      else None)"

text \<open>The position in the journal, in the order of the second switch.\<close>

definition position_gap :: "nat \<Rightarrow> nat \<Rightarrow> nat \<Rightarrow> nat \<Rightarrow> string option" where
  "position_gap checkpointUSN firstUSN lowestValidUSN nextUSN =
     (if lowestValidUSN \<noteq> 0 \<and> checkpointUSN < lowestValidUSN
      then Some ''CheckpointBeforeLowestValidUSN''
      else if checkpointUSN < firstUSN then Some ''CheckpointAgedOut''
      else if checkpointUSN > nextUSN then Some ''CheckpointAheadOfJournal''
      else None)"

text \<open>\<^verbatim>\<open>checkpointUSN, _ := canonicalUnsigned(value.NextUSN)\<close>: 0 if it does not parse.\<close>

definition number_or_0 :: "string \<Rightarrow> nat" where
  "number_or_0 s = (case canonicalUnsigned s of Inl _ \<Rightarrow> 0 | Inr n \<Rightarrow> n)"

definition Assess ::
  "(string \<Rightarrow> bool) \<Rightarrow> string \<Rightarrow> usn_checkpoint \<Rightarrow> governed_root \<Rightarrow> usn_journal_state
     \<Rightarrow> checkpoint_error + continuity_assessment" where
  "Assess utc now v currentRoot journal =
     bindE (check (checkpoint_Validate utc v)) (\<lambda>_.
     bindE (map_err RecordError (check (ValidateGovernedRootIdentity currentRoot))) (\<lambda>_.
     bindE (map_err RecordError (check (ValidateUSNJournalState journal))) (\<lambda>_.
     let assessment = \<lparr>ca_CheckedAt = now, ca_Status = ContinuityContinuous, ca_ReasonCode = [],
           ca_Checkpoint = v, ca_CurrentGovernedRoot = currentRoot, ca_JournalState = journal\<rparr>
     in case identity_gap v currentRoot journal of Some reason \<Rightarrow> Inr (gap assessment reason)
        | None \<Rightarrow>
            bindE (map_err NumberError (canonicalUnsigned (us_FirstUSN journal))) (\<lambda>firstUSN.
            bindE (map_err NumberError (canonicalUnsigned (us_LowestValidUSN journal))) (\<lambda>lowestValidUSN.
            bindE (map_err NumberError (canonicalUnsigned (us_NextUSN journal))) (\<lambda>nextUSN.
            case position_gap (number_or_0 (cp_NextUSN v)) firstUSN lowestValidUSN nextUSN of
              Some reason \<Rightarrow> Inr (gap assessment reason)
            | None \<Rightarrow> Inr assessment))))))"

definition ValidateAdvance ::
  "continuity_assessment \<Rightarrow> string \<Rightarrow> string \<Rightarrow> checkpoint_error option" where
  "ValidateAdvance assessment expectedCurrentUSN newNextUSN =
     (if ca_Status assessment \<noteq> ContinuityContinuous then Some ErrContinuityGap
      else if cp_NextUSN (ca_Checkpoint assessment) \<noteq> expectedCurrentUSN
      then Some ErrCheckpointConflict
      else
        (case bindE (map_err NumberError (canonicalUnsigned expectedCurrentUSN)) (\<lambda>current.
              bindE (map_err NumberError (canonicalUnsigned newNextUSN)) (\<lambda>next.
              bindE (map_err NumberError
                (canonicalUnsigned (us_NextUSN (ca_JournalState assessment)))) (\<lambda>journalNext.
              check (if next < current then Some CheckpointBackward
                     else fail_if (next > journalNext) CheckpointBeyondJournal)))) of
           Inl e \<Rightarrow> Some e | Inr _ \<Rightarrow> None))"

section \<open>Initialize and Advance\<close>

text \<open>
  The checkpoint that \<^verbatim>\<open>Advance\<close> saves, from the one it has loaded; \<^verbatim>\<open>Save\<close> refuses an invalid
  value.
\<close>

definition advance_checkpoint ::
  "(string \<Rightarrow> bool) \<Rightarrow> string \<Rightarrow> continuity_assessment \<Rightarrow> string \<Rightarrow> string \<Rightarrow> usn_checkpoint
     \<Rightarrow> checkpoint_error + usn_checkpoint" where
  "advance_checkpoint utc now assessment expectedCurrentUSN newNextUSN current =
     bindE (check (ValidateAdvance assessment expectedCurrentUSN newNextUSN)) (\<lambda>_.
     let stored = ca_Checkpoint assessment in
     if cp_NextUSN current \<noteq> expectedCurrentUSN \<or> cp_JournalID current \<noteq> cp_JournalID stored \<or>
        \<not> sameVolume (gr_VolumeIdentity (cp_GovernedRoot current)) (gr_VolumeIdentity (cp_GovernedRoot stored)) \<or>
        \<not> sameObject (gr_ObjectIdentity (cp_GovernedRoot current)) (gr_ObjectIdentity (cp_GovernedRoot stored))
     then Inl ErrCheckpointConflict
     else
       let v = current\<lparr>cp_NextUSN := newNextUSN, cp_UpdatedAt := now\<rparr> in
       bindE (check (checkpoint_Validate utc v)) (\<lambda>_. Inr v))"

definition initialize_checkpoint ::
  "(string \<Rightarrow> bool) \<Rightarrow> string \<Rightarrow> string \<Rightarrow> governed_root \<Rightarrow> usn_journal_state
     \<Rightarrow> checkpoint_error + usn_checkpoint" where
  "initialize_checkpoint utc now scopeID root journal =
     (if \<not> sameVolume (gr_VolumeIdentity root) (us_VolumeIdentity journal) then Inl VolumeMismatch
      else
        let v = \<lparr>cp_Version = SchemaVersion, cp_ScopeID = scopeID, cp_GovernedRoot = root,
              cp_JournalID = us_JournalID journal, cp_NextUSN = us_NextUSN journal,
              cp_UpdatedAt = now\<rparr>
        in bindE (check (checkpoint_Validate utc v)) (\<lambda>_. Inr v))"

text \<open>\<^verbatim>\<open>safeScopeID\<close>: a rune beyond ASCII starts with a byte that no clause admits.\<close>

definition scope_char :: "char \<Rightarrow> bool" where
  "scope_char c \<longleftrightarrow>
     97 \<le> ord c \<and> ord c \<le> 122 \<or> 65 \<le> ord c \<and> ord c \<le> 90 \<or> 48 \<le> ord c \<and> ord c \<le> 57 \<or>
     c = CHR ''-'' \<or> c = CHR ''_'' \<or> c = CHR ''.''"

definition safeScopeID :: "string \<Rightarrow> bool" where
  "safeScopeID v \<longleftrightarrow> v \<noteq> [] \<and> list_all scope_char v \<and> \<not> HasPrefix v ''.''"

section \<open>A continuous checkpoint stays in the window\<close>

definition usn_value :: "string \<Rightarrow> nat" where "usn_value s = digits_value s"

lemma usn_value_canonical: "validateDecimal s f = None \<Longrightarrow> canonicalUnsigned s = Inr (usn_value s)"
  by (auto simp: validateDecimal_None usn_value_def)

definition in_window :: "usn_journal_state \<Rightarrow> nat \<Rightarrow> bool" where
  "in_window journal n \<longleftrightarrow>
     usn_value (us_LowestValidUSN journal) \<le> n \<and> usn_value (us_FirstUSN journal) \<le> n \<and>
     n \<le> usn_value (us_NextUSN journal)"

definition same_source :: "usn_checkpoint \<Rightarrow> governed_root \<Rightarrow> usn_journal_state \<Rightarrow> bool" where
  "same_source v root journal \<longleftrightarrow>
     cp_ScopeID v = us_ScopeID journal \<and> cp_ScopeID v = gr_ScopeID root \<and>
     sameVolume (gr_VolumeIdentity (cp_GovernedRoot v)) (gr_VolumeIdentity root) \<and>
     sameObject (gr_ObjectIdentity (cp_GovernedRoot v)) (gr_ObjectIdentity root) \<and>
     sameVolume (gr_VolumeIdentity (cp_GovernedRoot v)) (us_VolumeIdentity journal) \<and>
     cp_JournalID v = us_JournalID journal"

lemma identity_gap_None: "identity_gap v root journal = None \<longleftrightarrow> same_source v root journal"
  by (auto simp: identity_gap_def same_source_def)

lemma position_gap_None:
  "position_gap n f l m = None \<longleftrightarrow> l \<le> n \<and> f \<le> n \<and> n \<le> m"
  by (auto simp: position_gap_def)

lemma checkpoint_Validate_number:
  "checkpoint_Validate utc v = None \<Longrightarrow> canonicalUnsigned (cp_NextUSN v) = Inr (usn_value (cp_NextUSN v))"
  using usn_value_canonical [of "cp_NextUSN v" "[]"] by (simp add: checkpoint_Validate_def)

lemma journal_numbers:
  assumes "ValidateUSNJournalState j = None"
  shows "canonicalUnsigned (us_FirstUSN j) = Inr (usn_value (us_FirstUSN j))"
    "canonicalUnsigned (us_LowestValidUSN j) = Inr (usn_value (us_LowestValidUSN j))"
    "canonicalUnsigned (us_NextUSN j) = Inr (usn_value (us_NextUSN j))"
  using assms usn_value_canonical by (auto simp: ValidateUSNJournalState_def)

lemma gap_reasons:
  "identity_gap v root journal = Some r \<Longrightarrow> r \<noteq> [] \<and> \<not> same_source v root journal"
  "position_gap n f l m = Some r \<Longrightarrow> r \<noteq> [] \<and> \<not> (l \<le> n \<and> f \<le> n \<and> n \<le> m)"
  using identity_gap_None [of v root journal] position_gap_None [of n f l m]
  by (auto simp: identity_gap_def position_gap_def split: if_splits)

lemma Assess_valid:
  assumes "checkpoint_Validate utc v = None" and "ValidateGovernedRootIdentity root = None"
    and "ValidateUSNJournalState journal = None"
  shows "Assess utc now v root journal =
    (let a = \<lparr>ca_CheckedAt = now, ca_Status = ContinuityContinuous, ca_ReasonCode = [],
         ca_Checkpoint = v, ca_CurrentGovernedRoot = root, ca_JournalState = journal\<rparr>
     in case identity_gap v root journal of Some r \<Rightarrow> Inr (gap a r)
        | None \<Rightarrow>
            (case position_gap (usn_value (cp_NextUSN v)) (usn_value (us_FirstUSN journal))
               (usn_value (us_LowestValidUSN journal)) (usn_value (us_NextUSN journal)) of
               Some r \<Rightarrow> Inr (gap a r) | None \<Rightarrow> Inr a))"
  using assms checkpoint_Validate_number [OF assms(1)] journal_numbers [OF assms(3)]
  by (cases "identity_gap v root journal") (simp_all add: Assess_def number_or_0_def Let_def)

text \<open>
  C23: On valid inputs \<^verbatim>\<open>Assess\<close> always answers, and it calls a checkpoint continuous exactly when
  scope, volume, root object and journal are the ones of the checkpoint and its position lies
  in the window that the journal still holds. Every other answer names a reason.
\<close>

theorem assessment_is_window_test:
  assumes "checkpoint_Validate utc v = None" and "ValidateGovernedRootIdentity root = None"
    and "ValidateUSNJournalState journal = None"
  shows "\<exists>a. Assess utc now v root journal = Inr a \<and>
    (ca_Status a = ContinuityContinuous \<longleftrightarrow>
       same_source v root journal \<and> in_window journal (usn_value (cp_NextUSN v))) \<and>
    (ca_Status a = ContinuityGap \<longrightarrow> ca_ReasonCode a \<noteq> []) \<and>
    ca_Checkpoint a = v \<and> ca_JournalState a = journal"
  by (simp add: Assess_valid [OF assms] Let_def gap_def split: option.splits)
    (use identity_gap_None [of v root journal] position_gap_None gap_reasons in
      \<open>auto simp: in_window_def\<close>)

text \<open>
  C24: An advance never moves a checkpoint other than the one that was assessed. Whatever
  checkpoint \<open>current\<close> the state file holds when \<^verbatim>\<open>Advance\<close> reloads it, if \<^verbatim>\<open>Advance\<close> saves \<open>v'\<close> then
  \<open>current\<close> had the position, the journal, the volume and the root object of the assessed
  checkpoint \<open>v\<close>; \<open>v'\<close> is \<open>current\<close> moved forward only, and not beyond the journal's next record;
  and assessed again against the same root and journal, \<open>v'\<close> is continuous exactly when the
  reloaded scope id is the assessed one. (The recheck of \<^verbatim>\<open>Advance\<close> does not compare the scope
  id; with another one the next assessment reports the gap \<^verbatim>\<open>ScopeChanged\<close>.)
\<close>

theorem advance_keeps_continuity:
  assumes "Assess utc now v root journal = Inr a"
    and "advance_checkpoint utc later a expected new current = Inr v'"
  shows "cp_NextUSN current = cp_NextUSN v \<and> cp_JournalID current = us_JournalID journal \<and>
    sameVolume (gr_VolumeIdentity (cp_GovernedRoot current)) (gr_VolumeIdentity root) \<and>
    sameObject (gr_ObjectIdentity (cp_GovernedRoot current)) (gr_ObjectIdentity root) \<and>
    v' = current\<lparr>cp_NextUSN := new, cp_UpdatedAt := later\<rparr> \<and>
    usn_value (cp_NextUSN v) \<le> usn_value new \<and> usn_value new \<le> usn_value (us_NextUSN journal) \<and>
    (\<exists>b. Assess utc again v' root journal = Inr b \<and>
       (if cp_ScopeID current = cp_ScopeID v then ca_Status b = ContinuityContinuous
        else ca_Status b = ContinuityGap \<and> ca_ReasonCode b = ''ScopeChanged''))"
proof -
  from assms(1) have valid: "checkpoint_Validate utc v = None" "ValidateGovernedRootIdentity root = None"
    "ValidateUSNJournalState journal = None" by (auto simp: Assess_def)
  have a: "ca_Checkpoint a = v" "ca_JournalState a = journal"
    using assms(1) Assess_valid [OF valid, of now]
    by (auto simp: Let_def gap_def split: option.splits)
  from assms(2) a have c: "ca_Status a = ContinuityContinuous" "cp_NextUSN v = expected" "cp_NextUSN current = expected"
    "cp_JournalID current = cp_JournalID v"
    "sameVolume (gr_VolumeIdentity (cp_GovernedRoot current)) (gr_VolumeIdentity (cp_GovernedRoot v))"
    "sameObject (gr_ObjectIdentity (cp_GovernedRoot current)) (gr_ObjectIdentity (cp_GovernedRoot v))"
    and v': "v' = current\<lparr>cp_NextUSN := new, cp_UpdatedAt := later\<rparr>" "checkpoint_Validate utc v' = None"
    and n: "\<exists>c n j. canonicalUnsigned expected = Inr c \<and> canonicalUnsigned new = Inr n \<and>
      canonicalUnsigned (us_NextUSN journal) = Inr j \<and> \<not> n < c \<and> \<not> j < n"
    by (auto simp: advance_checkpoint_def ValidateAdvance_def Let_def split: if_splits sum.splits)
  have src: "same_source v root journal" and w: "in_window journal (usn_value (cp_NextUSN v))"
    using assms(1) c(1) Assess_valid [OF valid, of now] identity_gap_None [of v root journal]
      position_gap_None
    by (auto simp: Let_def gap_def in_window_def split: option.splits)
  have same: "cp_JournalID current = us_JournalID journal"
    "sameVolume (gr_VolumeIdentity (cp_GovernedRoot current)) (gr_VolumeIdentity root)"
    "sameObject (gr_ObjectIdentity (cp_GovernedRoot current)) (gr_ObjectIdentity root)"
    using src c(4-6) by (auto simp: same_source_def sameVolume_def sameObject_def)
  have src': "same_source v' root journal" if "cp_ScopeID current = cp_ScopeID v"
    using src c(4-6) that by (auto simp: same_source_def v'(1) sameVolume_def sameObject_def)
  have le: "usn_value (cp_NextUSN v) \<le> usn_value new" "usn_value new \<le> usn_value (us_NextUSN journal)"
    using n c(2) checkpoint_Validate_number [OF valid(1)] checkpoint_Validate_number [OF v'(2)]
      journal_numbers [OF valid(3)] by (auto simp: v'(1))
  then have "in_window journal (usn_value new)" using w by (simp add: in_window_def)
  then have pos: "position_gap (usn_value (cp_NextUSN v')) (usn_value (us_FirstUSN journal))
      (usn_value (us_LowestValidUSN journal)) (usn_value (us_NextUSN journal)) = None"
    by (simp add: position_gap_None in_window_def v'(1))
  have "\<exists>b. Assess utc again v' root journal = Inr b \<and>
       (if cp_ScopeID current = cp_ScopeID v then ca_Status b = ContinuityContinuous
        else ca_Status b = ContinuityGap \<and> ca_ReasonCode b = ''ScopeChanged'')"
  proof (cases "cp_ScopeID current = cp_ScopeID v")
    case True
    with src' have "identity_gap v' root journal = None" by (simp add: identity_gap_None)
    with True pos show ?thesis by (simp add: Assess_valid [OF v'(2) valid(2,3)] Let_def)
  next
    case False
    with src have "identity_gap v' root journal = Some ''ScopeChanged''"
      by (simp add: identity_gap_def same_source_def v'(1))
    with False show ?thesis by (simp add: Assess_valid [OF v'(2) valid(2,3)] Let_def gap_def)
  qed
  with same le c v'(1) show ?thesis by simp
qed

end
