(* ===== verification/Usn_Sample.thy ===== *)
theory Usn_Sample
  imports Usn_Journal Usn_Checkpoint
begin

text \<open>
  A change journal with one record, read through the helper, and a checkpoint that follows
  it: the theorems on the collector at a concrete input.
\<close>

section \<open>A raw record\<close>

definition sample_raw :: bytes where
  "sample_raw = le_PutUint32 60 @ le_PutUint16 2 @ le_PutUint16 0 @ le_PutUint64 0x5000000000027 @
     le_PutUint64 0x5000000000005 @ le_PutUint64 4000 @ le_PutUint64 133500000000000001 @
     le_PutUint32 0x100 @ le_PutUint32 0 @ le_PutUint32 0 @ le_PutUint32 32 @ le_PutUint16 0 @
     le_PutUint16 60"

definition sample_change :: usn_change where
  "sample_change =
     \<lparr>ch_MajorVersion = FormatUint (unat (2 :: uint16)), ch_MinorVersion = FormatUint (unat (0 :: uint16)),
      ch_FileIdentity = identityFromReference 0x5000000000027,
      ch_ParentIdentity = identityFromReference 0x5000000000005,
      ch_USN = FormatUint (unat (4000 :: uint64)), ch_Timestamp = format_layout sample_time,
      ch_ReasonRaw = FormatUint (unat (0x100 :: uint32)), ch_ReasonNames = reasonNames 0x100,
      ch_SourceInfoRaw = FormatUint (unat (0 :: uint32)), ch_SecurityID = FormatUint (unat (0 :: uint32)),
      ch_FileAttributesRaw = FormatUint (unat (32 :: uint32)), ch_FileName = []\<rparr>"

definition sample_buffer :: bytes where
  "sample_buffer = le_PutUint64 4096 @ sample_raw"

lemma sample_raw_slices:
  "slice 0 4 sample_raw = le_PutUint32 60" "slice 4 6 sample_raw = le_PutUint16 2"
  "slice 6 8 sample_raw = le_PutUint16 0" "slice 8 16 sample_raw = le_PutUint64 0x5000000000027"
  "slice 16 24 sample_raw = le_PutUint64 0x5000000000005" "slice 24 32 sample_raw = le_PutUint64 4000"
  "slice 32 40 sample_raw = le_PutUint64 133500000000000001" "slice 40 44 sample_raw = le_PutUint32 0x100"
  "slice 44 48 sample_raw = le_PutUint32 0" "slice 48 52 sample_raw = le_PutUint32 0"
  "slice 52 56 sample_raw = le_PutUint32 32" "slice 56 58 sample_raw = le_PutUint16 0"
  "slice 58 60 sample_raw = le_PutUint16 60" "length sample_raw = 60"
  unfolding sample_raw_def by (simp_all add: slice_simps)

lemma sample_lengths: "slice 60 60 sample_raw = []" "length sample_buffer = 68"
  by (simp_all add: slice_def sample_buffer_def sample_raw_slices)

lemma sample_parsed: "parseV2Record sample_raw 2 0 = Inr sample_change"
proof -
  have "filetimeToCanonical 133500000000000001 = Inr (format_layout sample_time)"
    by (simp add: filetimeToCanonical_def time_Unix_def year_and_day_def month_lengths_def
        is_leap_def Let_def sample_time_def)
  then show ?thesis
    by (simp add: parseV2Record_def sample_raw_slices usnV2HeaderSize_def Let_def sample_change_def
        sample_lengths)
qed

lemma sample_raw_is_record: "raw_record sample_raw sample_change"
  by (simp add: raw_record_def sample_raw_slices sample_parsed)

lemma sample_time_valid: "ValidateObservedAt (format_layout sample_time) = None"
proof -
  have "valid_civil sample_time" "ct_Year sample_time < 10000"
    by (simp_all add: valid_civil_def sample_time_def month_lengths_def)
  then show ?thesis unfolding ValidateObservedAt_def validateTimestamp_iff by blast
qed

lemma sample_time_length: "length (format_layout sample_time) = 30"
  by (rule iffD2 [OF length_format_layout]) (simp_all add: valid_civil_def sample_time_def month_lengths_def)

lemma sample_change_valid: "ValidateUSNChangeObservation sample_change = None"
  using parsed_record_valid [OF sample_parsed] sample_time_length by (simp add: sample_change_def)

lemma sample_buffer_parsed: "parseReadBuffer sample_buffer = Inr (4096, [sample_change])"
proof -
  have "list_all2 raw_record [sample_raw] [sample_change]" "drop 8 sample_buffer = concat [sample_raw]"
    by (simp_all add: sample_raw_is_record sample_buffer_def)
  then have "parse_offset sample_buffer 8 [] = Inr [sample_change]"
    using parse_offset_iff [of 8 sample_buffer "[]" "[sample_change]"] sample_lengths(2) by fastforce
  moreover have "slice 0 8 sample_buffer = le_PutUint64 4096"
    by (simp add: sample_buffer_def slice_simps)
  ultimately show ?thesis by (simp add: parseReadBuffer_def sample_lengths)
qed

theorem parsed_changes_valid_witness: "ValidateUSNChangeObservation sample_change = None"
  using parsed_changes_valid [OF sample_buffer_parsed, of sample_change] sample_time_length
    filetime_text_length [of _ "format_layout sample_time"]
  by (auto simp: sample_change_def)

section \<open>A sample exchange\<close>

definition usn_sample_root :: string where
  "usn_sample_root = [CHR ''C'', CHR '':'', backslash, CHR ''d'']"

definition sample_journal :: usn_journal where
  "sample_journal = \<lparr>uj_JournalID = 7, uj_FirstUSN = 0, uj_NextUSN = 4096, uj_LowestValidUSN = 0,
     uj_MaxUSN = 65536, uj_MaximumSize = 1048576, uj_AllocationDelta = 4096\<rparr>"

text \<open>The world counts the privileged calls.\<close>

definition sample_native :: "nat usn_native" where
  "sample_native =
     \<lparr>un_Quote = (\<lambda>s. s),
      un_GetVolumePathName = (\<lambda>_ w. (Inr [CHR ''C'', CHR '':'', backslash], w + 1)),
      un_OpenVolume = (\<lambda>_ w. (Inr 3, w + 1)),
      un_QueryJournal = (\<lambda>_ w. (Inr (sample_journal, 56), w + 1)),
      un_ReadJournal = (\<lambda>_ _ _ w. (Inr (sample_buffer, 68), w + 1)),
      un_CloseHandle = (\<lambda>_ w. (Inr (), w + 1)),
      un_CheckContainment = (\<lambda>_ _ _ w. (Inr 1, w + 1)),
      un_ReadSACL = (\<lambda>_ _ _ w. (Inr [CHR 0x01], w + 1)),
      un_QueryRequired = (\<lambda>w. (Inr [0, 0, 0, 0], w + 1))\<rparr>"

definition sample_token :: token_calls where
  "sample_token = \<lparr>tc_Impersonate = None, tc_OpenThreadToken = None,
     tc_GetTokenGroups = Inr [\<lparr>tg_Sid = Some ''S-1-5-80-1'', tg_Attributes = 4\<rparr>],
     tc_RevertToSelf = None\<rparr>"

definition sample_authority :: usn_authority where
  "sample_authority = \<lparr>ua_governedRoots = [usn_sample_root], ua_volumes = [[CHR ''C'']]\<rparr>"

definition sample_read :: usn_request where
  "sample_read = (usn_plain_request operationRead usn_sample_root)\<lparr>uq_StartUSN := 0\<rparr>"

definition sample_client :: "bytes usn_client" where
  "sample_client = \<lparr>uc_ctx0 = None,
     uc_pipe = \<lparr>pe_ctx = (\<lambda>_. None), pe_open = (\<lambda>_. None), pe_wait = (\<lambda>_. None)\<rparr>,
     uc_write = buffer_Write, uc_state = [],
     uc_reply = usn_served sample_native (=) sample_token ''S-1-5-80-1'' sample_authority 0,
     uc_ctx1 = None\<rparr>"

lemma sample_drive: "DriveForRoot usn_sample_root = Inr [CHR ''C'']"
  by (simp add: DriveForRoot_def usn_sample_root_def isASCIILetter_def ascii_upper_def)

lemma sample_snapshot: "usn_newAuthoritySnapshot (\<lambda>s. s) [usn_sample_root] = Inr sample_authority"
proof -
  have "normalizedGovernedRoot usn_sample_root = usn_sample_root" "\<not> blank usn_sample_root"
    by (simp_all add: normalizedGovernedRoot_def trim_backslashes_def usn_sample_root_def backslash_def
        ascii_space_def space2_def space3_def)
  then show ?thesis
    by (simp add: usn_newAuthoritySnapshot_def sample_drive Let_def sample_authority_def)
qed

lemma sample_authorized: "authorizeClient sample_token ''S-1-5-80-1'' = Inr True"
  by (simp add: authorizeClient_def token_authorized_def sample_token_def group_grants_def
      SE_GROUP_ENABLED_def SE_GROUP_USE_FOR_DENY_ONLY_def)

lemma sample_read_valid: "usn_request_valid sample_read"
proof -
  have "utf8_Valid usn_sample_root" "length usn_sample_root = 4"
    by (simp_all add: usn_sample_root_def backslash_def)
  then show ?thesis
    by (auto simp: usn_request_valid_def usn_request_payload_def sample_read_def
        usn_plain_request_def usn_operations usn_limits)
qed

lemma sample_allowed: "allowsVolume (=) sample_authority usn_sample_root = Inr True"
  by (simp add: allowsVolume_def sample_drive sample_authority_def)

lemma sample_mount: "isDriveRootMountPoint (=) ''C'' [CHR ''C'', CHR '':'', backslash]"
  by (simp add: isDriveRootMountPoint_def isASCIILetter_def ascii_upper_def Let_def)

lemma sample_raw_read:
  "0 \<le> sint start \<Longrightarrow> usnraw_Read sample_native (=) usn_sample_root start 0 =
     (Inr (sample_journal, sample_buffer), 5)"
proof -
  assume "0 \<le> sint start"
  have "CHR 0x00 \<notin> set usn_sample_root" by (simp add: usn_sample_root_def backslash_def)
  then have "openVolumeForRoot sample_native (=) usn_sample_root w = (Inr 3, w + 2)" for w
    by (simp add: openVolumeForRoot_def validateGovernedRootVolume_def volumeMountPointForRoot_def
        sample_drive sample_mount bindP_def liftP_def callP_def stop_if_def retP_def
        sample_native_def)
  moreover have "queryJournalNative sample_native 3 w = (Inr sample_journal, w + 1)" for w
    by (simp add: queryJournalNative_def sample_native_def bindP_def retP_def negative_usn_def
        sample_journal_def)
  moreover have "readJournalNative sample_native 3 start j w = (Inr (sample_buffer), w + 1)" for j w
    by (simp add: readJournalNative_def sample_native_def bindP_def retP_def readBufferSize_def
        sample_lengths)
  moreover have "snd (un_CloseHandle sample_native 3 w) = w + 1" for w
    by (simp add: sample_native_def)
  ultimately show ?thesis
    using \<open>0 \<le> sint start\<close> by (simp add: usnraw_Read_def closing_volume_def bindP_def retP_def)
qed

lemma sample_operation:
  "usn_operation sample_native (=) sample_authority sample_read 0 =
     (Inr \<lparr>ur_Journal = sample_journal, ur_Data = sample_buffer, ur_ErrorCode = 0,
           ur_Error = []\<rparr>, 5)"
proof -
  have "uq_Operation sample_read = operationRead" "uq_GovernedRoot sample_read = usn_sample_root"
    "uq_StartUSN sample_read = 0" by (simp_all add: sample_read_def usn_plain_request_def)
  then show ?thesis
    by (simp add: usn_operation_Read bindP_def usn_volume_passed sample_allowed callP_def
        sample_raw_read retP_def)
qed

theorem privileged_calls_are_authorized_witness:
  "\<exists>result. usn_handleConnection sample_native (=) sample_token ''S-1-5-80-1'' sample_authority
       buffer_Write [] (usn_request_bytes sample_read) 0 = (result, 5) \<and>
     (\<exists>v rest. usn_readRequest (usn_request_bytes sample_read) = Inr (v, rest) \<and>
        authority_covers (=) [usn_sample_root] v)"
proof -
  have "\<exists>result. usn_handleConnection sample_native (=) sample_token ''S-1-5-80-1'' sample_authority
       buffer_Write [] (usn_request_bytes sample_read) 0 = (result, 5)"
    by (simp add: usn_handleConnection_def sample_operation
        usn_handle_authorized [OF sample_read_valid sample_authorized])
  then obtain result where r: "usn_handleConnection sample_native (=) sample_token ''S-1-5-80-1''
      sample_authority buffer_Write [] (usn_request_bytes sample_read) 0 = (result, 5)" ..
  from privileged_calls_are_authorized [OF sample_snapshot r] r show ?thesis by auto
qed

lemma sample_connected:
  "usn_connected sample_client (\<lambda>s. s)
     (usn_served sample_native (=) sample_token ''S-1-5-80-1'' sample_authority 0)"
  using buffer.io_writer_axioms
  by (simp add: usn_connected_def sample_client_def pipe_connect_def connectAttempts_def
      eval_nat_numeral Let_def)

lemma sample_Read: "usn_Read sample_client usn_sample_root 0 = Inr (sample_journal, sample_buffer)"
  using usn_Read_served [OF sample_connected, of usn_sample_root 0 sample_journal sample_buffer]
    sample_authorized sample_read_valid sample_allowed sample_raw_read
  by (simp add: sample_read_def)

section \<open>A sample batch\<close>

definition sample_volume :: volume_identity where
  "sample_volume = \<lparr>vi_MethodVersion = IdentityMethodVersion,
     vi_VolumeGUID = volume_prefix @ ''01234567-89ab-cdef-0123-456789abcdef'' @ volume_suffix,
     vi_VolumeSerial = FormatUint 77\<rparr>"

definition usn_sample_batch :: usn_read_batch where
  "usn_sample_batch = \<lparr>ub_ObservedAt = format_layout sample_time, ub_CollectionMethod = CollectionMethod,
     ub_ScopeID = ''scope'', ub_VolumeIdentity = sample_volume, ub_JournalID = FormatUint 7,
     ub_StartUSN = FormatUint 0, ub_NextUSN = FormatUint 4096, ub_Records = [sample_change]\<rparr>"

lemma sample_volume_valid: "ValidateVolumeIdentity sample_volume = None"
proof -
  have "guid_text ''01234567-89ab-cdef-0123-456789abcdef''"
    by (simp add: guid_text_def is_hex_any_def)
  moreover have "slice (length volume_prefix) (length (vi_VolumeGUID sample_volume) - 2)
      (vi_VolumeGUID sample_volume) = ''01234567-89ab-cdef-0123-456789abcdef''"
    by (simp add: sample_volume_def volume_prefix_def volume_suffix_def slice_def)
  moreover have "HasPrefix (vi_VolumeGUID sample_volume) volume_prefix"
    "HasSuffix (vi_VolumeGUID sample_volume) volume_suffix"
    by (auto simp: HasPrefix_iff HasSuffix_iff sample_volume_def)
  moreover have "vi_VolumeGUID sample_volume \<noteq> []" "vi_MethodVersion sample_volume \<noteq> []"
    "vi_VolumeSerial sample_volume = FormatUint 77"
    by (simp_all add: sample_volume_def volume_prefix_def IdentityMethodVersion_def)
  ultimately show ?thesis
    by (auto simp: ValidateVolumeIdentity_def require_def validateVolumeGUIDPath_def
        validateDecimal_Format)
qed

lemma sample_time_text: "format_layout sample_time \<noteq> []"
  by (simp add: format_layout_def)

lemma usn_sample_batch_valid: "ValidateUSNReadBatch usn_sample_batch = None"
proof -
  have "validate_records 0 0 [sample_change] = None"
    unfolding validate_records_iff by (simp add: sample_change_valid)
  then show ?thesis
    by (simp add: ValidateUSNReadBatch_def usn_sample_batch_def require_def sample_time_text
        sample_time_valid CollectionMethod_def sample_volume_valid 
        del: validate_records.simps)
qed

lemma sample_start: "parseUSN (FormatUint 0) = Inr 0"
  using ParseUint_Format [of 0 63] by (simp add: parseUSN_def FormatUint.simps)

lemma sample_ReadJournal:
  "ReadJournal sample_client None (Inr sample_volume) (format_layout sample_time) ''scope''
     usn_sample_root (FormatUint 0) = Inr usn_sample_batch"
  using usn_sample_batch_valid
  by (simp add: ReadJournal_def sample_start sample_Read sample_buffer_parsed Let_def
      usn_sample_batch_def sample_journal_def)

lemma sample_reportable:
  "fst (usnraw_Read sample_native (=) usn_sample_root start 0) = Inl e \<Longrightarrow> reportable e"
proof (cases "sint start < 0")
  case True
  moreover assume "fst (usnraw_Read sample_native (=) usn_sample_root start 0) = Inl e"
  ultimately have "e = ErrorsNew ''start USN must not be negative''"
    by (simp add: usnraw_Read_def failP_def)
  then show ?thesis by (simp add: reportable_ErrorsNew)
next
  case False
  moreover assume "fst (usnraw_Read sample_native (=) usn_sample_root start 0) = Inl e"
  ultimately show ?thesis using sample_raw_read [of start] by simp
qed

theorem collected_batch_is_journal_witness:
  "\<exists>start journal buffer raws.
    FormatUint 0 = FormatUint (unat start) \<and> 0 \<le> sint start \<and>
    authorizeClient sample_token ''S-1-5-80-1'' = Inr True \<and>
    allowsVolume (=) sample_authority usn_sample_root = Inr True \<and>
    fst (usnraw_Read sample_native (=) usn_sample_root start 0) = Inr (journal, buffer) \<and>
    drop 8 buffer = concat raws \<and> list_all2 raw_record raws (ub_Records usn_sample_batch) \<and>
    (\<forall>r \<in> set (ub_Records usn_sample_batch). ValidateUSNChangeObservation r = None) \<and>
    sorted (map usn_number (ub_Records usn_sample_batch)) \<and>
    ub_StartUSN usn_sample_batch = FormatUint 0 \<and>
    ub_JournalID usn_sample_batch = FormatUint (unat (uj_JournalID journal)) \<and>
    ub_NextUSN usn_sample_batch = FormatUint (unat (le_Uint64 (take 8 buffer)))"
  by (rule collected_batch_is_journal [OF sample_connected _ _ sample_ReadJournal])
    (simp_all add: sample_authorized sample_reportable)

section \<open>A sample checkpoint\<close>

definition sample_governed_root :: governed_root where
  "sample_governed_root = \<lparr>gr_ScopeID = ''scope'', gr_RequestedPath = url_encode ''C0'',
     gr_ResolvedPath = url_encode ''C0'', gr_MethodVersion = IdentityMethodVersion,
     gr_VolumeIdentity = sample_volume, gr_ObjectIdentity = identityFromReference 0x5000000000005\<rparr>"

definition sample_state :: usn_journal_state where
  "sample_state = \<lparr>us_ObservedAt = format_layout sample_time, us_CollectionMethod = CollectionMethod,
     us_ScopeID = ''scope'', us_VolumeIdentity = sample_volume, us_JournalID = FormatUint 7,
     us_FirstUSN = FormatUint 0, us_NextUSN = FormatUint 4096, us_LowestValidUSN = FormatUint 0,
     us_MaxUSN = FormatUint 65536, us_MaximumSize = FormatUint 1048576,
     us_AllocationDelta = FormatUint 4096\<rparr>"

definition sample_checkpoint :: usn_checkpoint where
  "sample_checkpoint = \<lparr>cp_Version = SchemaVersion, cp_ScopeID = ''scope'',
     cp_GovernedRoot = sample_governed_root, cp_JournalID = FormatUint 7,
     cp_NextUSN = FormatUint 0, cp_UpdatedAt = ''t''\<rparr>"

lemma usn_sample_root_valid: "ValidateGovernedRootIdentity sample_governed_root = None"
proof -
  have "validateUTF16LEBase64URL (url_encode ''C0'') f = None" for f
    unfolding validateUTF16LEBase64URL_None by (rule exI [of _ "''C0''"]) simp
  moreover have "url_encode ''C0'' \<noteq> []" by simp
  ultimately show ?thesis
    by (simp add: ValidateGovernedRootIdentity_def sample_governed_root_def require_def
        sample_volume_valid identityFromReference_valid IdentityMethodVersion_def)
qed

lemma sample_state_valid: "ValidateUSNJournalState sample_state = None"
  by (simp add: ValidateUSNJournalState_def sample_state_def require_def sample_time_text
      sample_time_valid CollectionMethod_def sample_volume_valid)

lemma sample_checkpoint_valid:
  "checkpoint_Validate (\<lambda>_. True) sample_checkpoint = None"
  "n < 2 ^ 64 \<Longrightarrow> checkpoint_Validate (\<lambda>_. True)
     (sample_checkpoint\<lparr>cp_NextUSN := FormatUint n, cp_UpdatedAt := u\<rparr>) = None"
  using usn_sample_root_valid
  by (simp_all add: checkpoint_Validate_def sample_checkpoint_def) (simp_all add: sample_governed_root_def)

lemma sample_same_source: "same_source sample_checkpoint sample_governed_root sample_state"
  by (simp add: same_source_def sample_checkpoint_def sample_governed_root_def sample_state_def
      sameVolume_def sameObject_def)

theorem assessment_is_window_test_witness:
  "\<exists>a. Assess (\<lambda>_. True) ''now'' sample_checkpoint sample_governed_root sample_state = Inr a \<and>
     ca_Status a = ContinuityContinuous"
  using assessment_is_window_test [OF sample_checkpoint_valid(1) usn_sample_root_valid sample_state_valid,
      of "''now''"] sample_same_source
  by (auto simp: in_window_def usn_value_def sample_checkpoint_def sample_state_def)

theorem advance_keeps_continuity_witness:
  "\<exists>a v' b. Assess (\<lambda>_. True) ''now'' sample_checkpoint sample_governed_root sample_state = Inr a \<and>
     advance_checkpoint (\<lambda>_. True) ''later'' a (FormatUint 0) (FormatUint 4096)
       (sample_checkpoint\<lparr>cp_UpdatedAt := ''touched''\<rparr>) = Inr v' \<and>
     usn_value (cp_NextUSN v') = 4096 \<and>
     Assess (\<lambda>_. True) ''again'' v' sample_governed_root sample_state = Inr b \<and> ca_Status b = ContinuityContinuous"
proof -
  let ?a = "\<lparr>ca_CheckedAt = ''now'', ca_Status = ContinuityContinuous, ca_ReasonCode = [],
     ca_Checkpoint = sample_checkpoint, ca_CurrentGovernedRoot = sample_governed_root,
     ca_JournalState = sample_state\<rparr>"
  have "identity_gap sample_checkpoint sample_governed_root sample_state = None"
    using sample_same_source by (simp add: identity_gap_None)
  moreover have "position_gap (usn_value (cp_NextUSN sample_checkpoint))
      (usn_value (us_FirstUSN sample_state)) (usn_value (us_LowestValidUSN sample_state))
      (usn_value (us_NextUSN sample_state)) = None"
    by (simp add: position_gap_None usn_value_def sample_checkpoint_def sample_state_def)
  ultimately have a: "Assess (\<lambda>_. True) ''now'' sample_checkpoint sample_governed_root sample_state = Inr ?a"
    by (simp add: Assess_valid [OF sample_checkpoint_valid(1) usn_sample_root_valid sample_state_valid] Let_def)
  have "cp_NextUSN sample_checkpoint = FormatUint 0" "us_NextUSN sample_state = FormatUint 4096"
    by (simp_all add: sample_checkpoint_def sample_state_def)
  then have v: "advance_checkpoint (\<lambda>_. True) ''later'' ?a (FormatUint 0) (FormatUint 4096)
      (sample_checkpoint\<lparr>cp_UpdatedAt := ''touched''\<rparr>) = Inr (sample_checkpoint\<lparr>cp_NextUSN := FormatUint 4096, cp_UpdatedAt := ''later''\<rparr>)"
    using sample_checkpoint_valid(2) [of 4096 "''later''"]
    by (simp add: advance_checkpoint_def ValidateAdvance_def Let_def sameVolume_def sameObject_def)
  from advance_keeps_continuity [OF a v, of "''again''"] a v show ?thesis
    by (auto simp: usn_value_def)
qed

end
