(* ===== verification/Obj_Broker.thy ===== *)
theory Obj_Broker
  imports Usn_Service Rec_Identity FI_Hash
begin

text \<open>
  Package \<^verbatim>\<open>windows/objbroker\<close>: the protocol of the FIObjReader helper (\<^verbatim>\<open>protocol.go\<close>), the
  roots it answers for (\<^verbatim>\<open>server_windows.go\<close>), and the delivery of the messages of both
  helpers.
\<close>

section \<open>Limits and values\<close>

definition obj_ProtocolVersion :: uint16 where "obj_ProtocolVersion = 1"
definition operationObserveObject :: uint16 where "operationObserveObject = 1"
definition obj_requestHeaderSize :: nat where "obj_requestHeaderSize = 24"
definition obj_responseHeaderSize :: nat where "obj_responseHeaderSize = 20"
definition obj_requestMagic :: string where "obj_requestMagic = ''FIOQ''"
definition obj_responseMagic :: string where "obj_responseMagic = ''FIOR''"

definition MaxObservationBytes :: nat where
  "MaxObservationBytes =
     12 * (4 * 1024 * 1024) + 4 * (128 * 1024 + 128 * 1024 + 16 * 1024) +
     8 * (4 * (64 * 1024) * 2) + 1 * 1024 * 1024"

lemmas obj_limits = MaxObservationBytes_def maxRootBytes_def maxErrorBytes_def
  obj_requestHeaderSize_def obj_responseHeaderSize_def

record obj_request =
  oq_Operation :: uint16
  oq_GovernedRoot :: string
  oq_FileReferenceNumber :: uint64
  oq_SequenceNumber :: uint16

record obj_response =
  or_Data :: bytes
  or_ErrorCode :: uint32
  or_Error :: string

section \<open>Requests\<close>

definition obj_request_numbers ::
  "uint16 \<Rightarrow> uint32 \<Rightarrow> uint64 \<Rightarrow> uint16 \<Rightarrow> go_err option" where
  "obj_request_numbers operation rootLength fileReferenceNumber reserved =
     first_err
       [fail_if (operation \<noteq> operationObserveObject) (ErrorsNew ''unsupported FI object operation''),
        fail_if (rootLength = 0 \<or> unat rootLength > maxRootBytes)
          (ErrorsNew ''invalid FI object governed-root length''),
        fail_if (fileReferenceNumber \<ge> 2 ^ 48)
          (ErrorsNew ''FI object file reference exceeds 48 bits''),
        fail_if (reserved \<noteq> 0) (ErrorsNew ''FI object request reserved field is not zero'')]"

definition obj_readRequest :: "bytes \<Rightarrow> go_err + obj_request \<times> bytes" where
  "obj_readRequest s =
     bindE (map_err IOErr (ReadFull obj_requestHeaderSize s)) (\<lambda>(header, s).
     if slice 0 4 header \<noteq> obj_requestMagic
     then Inl (ErrorsNew ''invalid FI object request magic'')
     else if le_Uint16 (slice 4 6 header) \<noteq> obj_ProtocolVersion
     then Inl (ErrorsNew ''unsupported FI object protocol version'')
     else
       bindE (check (obj_request_numbers (le_Uint16 (slice 6 8 header)) (le_Uint32 (slice 8 12 header))
         (le_Uint64 (slice 12 20 header)) (le_Uint16 (slice 22 24 header)))) (\<lambda>_.
       bindE (map_err IOErr (ReadFull (unat (le_Uint32 (slice 8 12 header))) s)) (\<lambda>(rootBytes, s).
       if \<not> utf8_Valid rootBytes
       then Inl (ErrorsNew ''FI object governed root is not valid UTF-8'')
       else Inr (\<lparr>oq_Operation = le_Uint16 (slice 6 8 header), oq_GovernedRoot = rootBytes,
                  oq_FileReferenceNumber = le_Uint64 (slice 12 20 header),
                  oq_SequenceNumber = le_Uint16 (slice 20 22 header)\<rparr>, s))))"

definition obj_request_refused :: "obj_request \<Rightarrow> go_err option" where
  "obj_request_refused v =
     first_err
       [fail_if (oq_Operation v \<noteq> operationObserveObject)
          (ErrorsNew ''unsupported FI object operation''),
        fail_if (oq_GovernedRoot v = [] \<or> length (oq_GovernedRoot v) > maxRootBytes \<or>
            \<not> utf8_Valid (oq_GovernedRoot v))
          (ErrorsNew ''invalid FI object governed root''),
        fail_if (oq_FileReferenceNumber v \<ge> 2 ^ 48)
          (ErrorsNew ''FI object file reference exceeds 48 bits'')]"

text \<open>The last two bytes of the header are never written and stay zero.\<close>

definition obj_request_fields :: "obj_request \<Rightarrow> (nat \<times> nat \<times> bytes) list" where
  "obj_request_fields v =
     [(0, 4, obj_requestMagic),
      (4, 6, le_PutUint16 obj_ProtocolVersion),
      (6, 8, le_PutUint16 (oq_Operation v)),
      (8, 12, le_PutUint32 (of_nat (length (oq_GovernedRoot v)))),
      (12, 20, le_PutUint64 (oq_FileReferenceNumber v)),
      (20, 22, le_PutUint16 (oq_SequenceNumber v))]"

definition obj_writeRequest :: "'s write_fn \<Rightarrow> 's \<Rightarrow> obj_request \<Rightarrow> go_err option \<times> 's" where
  "obj_writeRequest wr s v =
     (case obj_request_refused v of Some e \<Rightarrow> (Some e, s)
      | None \<Rightarrow>
          (case writeParts wr s
             [fixed_header obj_requestHeaderSize (obj_request_fields v), oq_GovernedRoot v] of
             (r, s') \<Rightarrow> (map_option IOErr r, s')))"

section \<open>Responses\<close>

definition obj_response_lengths :: "uint16 \<Rightarrow> uint32 \<Rightarrow> uint32 \<Rightarrow> go_err option" where
  "obj_response_lengths status dataLength errorLength =
     first_err
       [fail_if (unat dataLength > MaxObservationBytes)
          (ErrorsNew ''FI object response exceeds observation limit''),
        fail_if (unat errorLength > maxErrorBytes)
          (ErrorsNew ''FI object response exceeds error limit''),
        fail_if (status = 0 \<and> errorLength \<noteq> 0)
          (ErrorsNew ''successful FI object response contains an error''),
        fail_if (status = 1 \<and> dataLength \<noteq> 0)
          (ErrorsNew ''failed FI object response contains observation data'')]"

definition obj_response_body ::
  "uint16 \<Rightarrow> uint32 \<Rightarrow> uint32 \<Rightarrow> uint32 \<Rightarrow> bytes \<Rightarrow> go_err + obj_response \<times> bytes" where
  "obj_response_body status errorCode dataLength errorLength s =
     bindE (map_err IOErr (ReadFull (unat dataLength) s)) (\<lambda>(data, s).
     bindE (map_err IOErr (ReadFull (unat errorLength) s)) (\<lambda>(errorBytes, s).
     if \<not> utf8_Valid errorBytes
     then Inl (ErrorsNew ''FI object response error is not valid UTF-8'')
     else Inr (\<lparr>or_Data = data, or_ErrorCode = errorCode,
                or_Error = (if status = 1 \<and> errorBytes = [] then unspecified_failure
                            else errorBytes)\<rparr>, s)))"

definition obj_readResponse :: "bytes \<Rightarrow> go_err + obj_response \<times> bytes" where
  "obj_readResponse s =
     bindE (map_err IOErr (ReadFull obj_responseHeaderSize s)) (\<lambda>(header, s).
     if slice 0 4 header \<noteq> obj_responseMagic
     then Inl (ErrorsNew ''invalid FI object response magic'')
     else if le_Uint16 (slice 4 6 header) \<noteq> obj_ProtocolVersion
     then Inl (ErrorsNew ''unsupported FI object protocol version'')
     else if le_Uint16 (slice 6 8 header) > 1
     then Inl (ErrorsNew ''invalid FI object response status'')
     else
       bindE (check (obj_response_lengths (le_Uint16 (slice 6 8 header))
         (le_Uint32 (slice 12 16 header)) (le_Uint32 (slice 16 20 header)))) (\<lambda>_.
       obj_response_body (le_Uint16 (slice 6 8 header)) (le_Uint32 (slice 8 12 header))
         (le_Uint32 (slice 12 16 header)) (le_Uint32 (slice 16 20 header)) s))"

definition obj_response_refused :: "obj_response \<Rightarrow> go_err option" where
  "obj_response_refused v =
     first_err
       [fail_if (length (or_Data v) > MaxObservationBytes)
          (ErrorsNew ''FI object response exceeds observation limit''),
        fail_if (length (or_Error v) > maxErrorBytes \<or> \<not> utf8_Valid (or_Error v))
          (ErrorsNew ''invalid FI object response error''),
        fail_if (or_Error v \<noteq> [] \<and> or_Data v \<noteq> [])
          (ErrorsNew ''failed FI object response must not contain observation data'')]"

definition obj_response_fields :: "obj_response \<Rightarrow> (nat \<times> nat \<times> bytes) list" where
  "obj_response_fields v =
     [(0, 4, obj_responseMagic),
      (4, 6, le_PutUint16 obj_ProtocolVersion),
      (6, 8, le_PutUint16 (if or_Error v \<noteq> [] then 1 else 0)),
      (8, 12, le_PutUint32 (or_ErrorCode v)),
      (12, 16, le_PutUint32 (of_nat (length (or_Data v)))),
      (16, 20, le_PutUint32 (of_nat (length (or_Error v))))]"

definition obj_writeResponse :: "'s write_fn \<Rightarrow> 's \<Rightarrow> obj_response \<Rightarrow> go_err option \<times> 's" where
  "obj_writeResponse wr s v =
     (case obj_response_refused v of Some e \<Rightarrow> (Some e, s)
      | None \<Rightarrow>
          (case writeParts wr s
             [fixed_header obj_responseHeaderSize (obj_response_fields v), or_Data v, or_Error v]
           of (r, s') \<Rightarrow> (map_option IOErr r, s')))"

text \<open>
  \<^verbatim>\<open>decimalUint32\<close>: the digits are put into a buffer of ten bytes from its end.
\<close>

function decimal_loop :: "uint32 \<Rightarrow> string \<Rightarrow> string" where
  "decimal_loop v acc =
     (if v = 0 then acc else decimal_loop (v div 10) (char_of (48 + unat (v mod 10)) # acc))"
  by pat_completeness auto
termination
proof (relation "measure (\<lambda>(v, acc). unat v)")
  fix v :: uint32 and acc :: string
  assume "v \<noteq> 0"
  then have "0 < unat v" by (simp add: unat_gt_0)
  then show "((v div 10, char_of (48 + unat (v mod 10)) # acc), v, acc) \<in> measure (\<lambda>(v, acc). unat v)"
    by (simp add: unat_div)
qed simp

declare decimal_loop.simps [simp del]

definition decimalUint32 :: "uint32 \<Rightarrow> string" where
  "decimalUint32 v = (if v = 0 then ''0'' else decimal_loop v [])"

section \<open>The governed roots of the helper\<close>

record root_authority =
  ra_GovernedRoot :: string
  ra_NormalizedRoot :: string
  ra_ScopeID :: string

text \<open>
  \<^verbatim>\<open>scopeidentity.GovernedRootScopeID\<close>: the name of a scope is a hash of its root in one
  spelling; \<open>lower\<close> is \<^verbatim>\<open>strings.ToLower\<close>.
\<close>

definition GovernedRootScopeID :: "(string \<Rightarrow> string) \<Rightarrow> string \<Rightarrow> string" where
  "GovernedRootScopeID lower governedRoot =
     ''root-'' @ hex_EncodeToString (take 16 (Sum256 (lower
       (normalizedGovernedRoot (TrimSpace governedRoot)))))"

fun obj_authority_loop ::
  "(string \<Rightarrow> string) \<Rightarrow> string list \<Rightarrow> root_authority list \<Rightarrow> go_err + root_authority list" where
  "obj_authority_loop lower [] v = Inr v"
| "obj_authority_loop lower (governedRoot # roots) v =
     (if blank (normalizedGovernedRoot governedRoot) then Inl (ErrorsNew ''FI governed root is empty'')
      else obj_authority_loop lower roots
        (v @ [\<lparr>ra_GovernedRoot = governedRoot, ra_NormalizedRoot = normalizedGovernedRoot governedRoot,
               ra_ScopeID = GovernedRootScopeID lower governedRoot\<rparr>]))"

definition obj_newAuthoritySnapshot ::
  "(string \<Rightarrow> string) \<Rightarrow> string list \<Rightarrow> go_err + root_authority list" where
  "obj_newAuthoritySnapshot lower governedRoots =
     (if governedRoots = [] then Inl (ErrorsNew ''at least one FI governed root is required'')
      else obj_authority_loop lower governedRoots [])"

definition resolveGovernedRoot ::
  "(string \<Rightarrow> string \<Rightarrow> bool) \<Rightarrow> root_authority list \<Rightarrow> string \<Rightarrow> root_authority option" where
  "resolveGovernedRoot eqf roots governedRoot =
     find (\<lambda>r. eqf (ra_NormalizedRoot r) (normalizedGovernedRoot governedRoot)) roots"

section \<open>Requests have one encoding\<close>

lemma length_obj_magics [simp]: "length obj_requestMagic = 4" "length obj_responseMagic = 4"
  by (simp_all add: obj_requestMagic_def obj_responseMagic_def)

definition obj_request_valid :: "obj_request \<Rightarrow> bool" where
  "obj_request_valid v \<longleftrightarrow> obj_request_refused v = None"

definition obj_request_bytes :: "obj_request \<Rightarrow> bytes" where
  "obj_request_bytes v =
     obj_requestMagic @ le_PutUint16 obj_ProtocolVersion @ le_PutUint16 (oq_Operation v) @
     le_PutUint32 (of_nat (length (oq_GovernedRoot v))) @ le_PutUint64 (oq_FileReferenceNumber v) @
     le_PutUint16 (oq_SequenceNumber v) @ le_PutUint16 0 @ oq_GovernedRoot v"

lemma obj_request_valid_iff:
  "obj_request_valid v \<longleftrightarrow>
     oq_Operation v = operationObserveObject \<and> oq_GovernedRoot v \<noteq> [] \<and>
     length (oq_GovernedRoot v) \<le> 32768 \<and> utf8_Valid (oq_GovernedRoot v) \<and>
     oq_FileReferenceNumber v < 2 ^ 48"
  by (auto simp: obj_request_valid_def obj_request_refused_def obj_limits not_le)

lemma obj_eta [simp]:
  "\<lparr>oq_Operation = oq_Operation v, oq_GovernedRoot = oq_GovernedRoot v,
    oq_FileReferenceNumber = oq_FileReferenceNumber v, oq_SequenceNumber = oq_SequenceNumber v\<rparr> = v"
  "\<lparr>or_Data = or_Data r, or_ErrorCode = or_ErrorCode r, or_Error = or_Error r\<rparr> = r"
  by simp_all

lemma obj_readRequest_parts:
  assumes "length ve = 2" "length op = 2" "length rl = 4" "length fr = 8" "length sq = 2" "length rs = 2"
  shows "obj_readRequest (obj_requestMagic @ ve @ op @ rl @ fr @ sq @ rs @ s) =
     (if le_Uint16 ve \<noteq> obj_ProtocolVersion
      then Inl (ErrorsNew ''unsupported FI object protocol version'')
      else bindE (check (obj_request_numbers (le_Uint16 op) (le_Uint32 rl) (le_Uint64 fr) (le_Uint16 rs))) (\<lambda>_.
        bindE (map_err IOErr (ReadFull (unat (le_Uint32 rl)) s)) (\<lambda>(rootBytes, s).
        if \<not> utf8_Valid rootBytes
        then Inl (ErrorsNew ''FI object governed root is not valid UTF-8'')
        else Inr (\<lparr>oq_Operation = le_Uint16 op, oq_GovernedRoot = rootBytes,
                  oq_FileReferenceNumber = le_Uint64 fr, oq_SequenceNumber = le_Uint16 sq\<rparr>, s))))"
proof -
  let ?f = "obj_requestMagic @ ve @ op @ rl @ fr @ sq @ rs"
  have "ReadFull 24 (?f @ s) = Inr (?f, s)"
    using assms by (intro ReadFull_append) simp
  then show ?thesis
    using assms by (simp add: obj_readRequest_def obj_requestHeaderSize_def slice_simps cong: if_cong)
qed

lemma obj_readRequest_bytes:
  assumes "obj_request_valid v"
  shows "obj_readRequest (obj_request_bytes v @ rest) = Inr (v, rest)"
proof -
  from assms have v: "oq_Operation v = operationObserveObject" "oq_GovernedRoot v \<noteq> []"
    "length (oq_GovernedRoot v) \<le> 32768" "utf8_Valid (oq_GovernedRoot v)"
    "oq_FileReferenceNumber v < 2 ^ 48" by (simp_all add: obj_request_valid_iff)
  then have u: "unat (of_nat (length (oq_GovernedRoot v)) :: uint32) = length (oq_GovernedRoot v)"
    by (simp add: unat_of_nat_small)
  then have z: "(of_nat (length (oq_GovernedRoot v)) :: uint32) \<noteq> 0"
    using v(2) by (metis length_0_conv unat_eq_zero)
  have "obj_request_numbers (oq_Operation v) (of_nat (length (oq_GovernedRoot v)))
      (oq_FileReferenceNumber v) 0 = None"
    using v z by (simp add: obj_request_numbers_def u obj_limits not_le)
  then show ?thesis
    using v(4) by (simp add: obj_request_bytes_def obj_readRequest_parts u)
qed

lemma obj_readRequest_sound:
  assumes r: "obj_readRequest s = Inr (v, rest)"
  shows "obj_request_valid v \<and> s = obj_request_bytes v @ rest"
proof -
  from r obtain f t where f: "length f = 24" "s = f @ t"
    and magic: "slice 0 4 f = obj_requestMagic"
    by (auto simp: obj_readRequest_def ReadFull_Inr obj_requestHeaderSize_def split: if_splits)
  have cut: "f = obj_requestMagic @ slice 4 6 f @ slice 6 8 f @ slice 8 12 f @ slice 12 20 f @
      slice 20 22 f @ slice 22 24 f"
    using cut_header [of "[4,6,8,12,20,22,24]" f] f magic by simp
  have s: "s = obj_requestMagic @ slice 4 6 f @ slice 6 8 f @ slice 8 12 f @ slice 12 20 f @
      slice 20 22 f @ slice 22 24 f @ t"
    using cut f(2) by (metis append.assoc)
  have len: "length (slice 4 6 f) = 2" "length (slice 6 8 f) = 2" "length (slice 8 12 f) = 4"
    "length (slice 12 20 f) = 8" "length (slice 20 22 f) = 2" "length (slice 22 24 f) = 2"
    using f(1) by (simp_all add: length_slice)
  from r [unfolded s obj_readRequest_parts [OF len]] obtain root where
      nums: "obj_request_numbers (le_Uint16 (slice 6 8 f)) (le_Uint32 (slice 8 12 f))
        (le_Uint64 (slice 12 20 f)) (le_Uint16 (slice 22 24 f)) = None"
    and root: "length root = unat (le_Uint32 (slice 8 12 f))" "t = root @ rest" "utf8_Valid root"
    and v: "v = \<lparr>oq_Operation = le_Uint16 (slice 6 8 f), oq_GovernedRoot = root,
        oq_FileReferenceNumber = le_Uint64 (slice 12 20 f),
        oq_SequenceNumber = le_Uint16 (slice 20 22 f)\<rparr>"
    and ve: "le_Uint16 (slice 4 6 f) = obj_ProtocolVersion"
    by (auto simp: ReadFull_Inr split: if_splits)
  from nums have rs: "le_Uint16 (slice 22 24 f) = 0" by (simp add: obj_request_numbers_def)
  have "root \<noteq> []" using nums root(1) by (auto simp: obj_request_numbers_def unat_eq_zero)
  then have "obj_request_valid v"
    using nums root by (auto simp: obj_request_valid_iff v obj_request_numbers_def obj_limits not_le)
  moreover have "slice 22 24 f = le_PutUint16 0" using rs len(6) by (metis uint_get_put(3))
  then have "obj_request_bytes v = obj_requestMagic @ slice 4 6 f @ slice 6 8 f @ slice 8 12 f @
      slice 12 20 f @ slice 20 22 f @ slice 22 24 f @ root"
    using len root(1) by (simp add: obj_request_bytes_def v ve [symmetric])
  ultimately show ?thesis using s root(2) by simp
qed

interpretation objreq: frame_codec obj_request_valid obj_request_bytes obj_readRequest
  by unfold_locales (simp_all add: obj_readRequest_bytes obj_readRequest_sound)

lemma obj_writeRequest_parts:
  "fixed_header obj_requestHeaderSize (obj_request_fields v) @ oq_GovernedRoot v = obj_request_bytes v"
proof -
  have c: "char_of (0 :: nat) = CHR 0x00"
    by (rule of_char_eqI [where 'a = nat]) simp
  have z: "le_PutUint16 0 = replicate 2 (CHR 0x00)"
    by (simp add: le_PutUint16_def numeral_2_eq_2 c)
  have "fixed_header 24 (obj_request_fields v)
          = fields_bytes (obj_request_fields v)
              @ replicate (24 - length (fields_bytes (obj_request_fields v))) (CHR 0x00)"
    unfolding fixed_header_def
    by (rule fold_copy_at [of "[]" "obj_request_fields v" 24 "CHR 0x00", simplified])
       (simp_all add: obj_request_fields_def)
  then show ?thesis
    by (simp add: obj_request_bytes_def obj_request_fields_def obj_requestHeaderSize_def z)
qed

section \<open>The reading of a response\<close>

definition obj_response_valid :: "obj_response \<Rightarrow> bool" where
  "obj_response_valid v \<longleftrightarrow> obj_response_refused v = None"

definition obj_header_bytes :: "uint16 \<Rightarrow> obj_response \<Rightarrow> uint32 \<Rightarrow> bytes" where
  "obj_header_bytes status v errorLength =
     obj_responseMagic @ le_PutUint16 obj_ProtocolVersion @ le_PutUint16 status @
     le_PutUint32 (or_ErrorCode v) @ le_PutUint32 (of_nat (length (or_Data v))) @
     le_PutUint32 errorLength"

definition obj_response_bytes :: "obj_response \<Rightarrow> bytes" where
  "obj_response_bytes v =
     obj_header_bytes (if or_Error v \<noteq> [] then 1 else 0) v (of_nat (length (or_Error v))) @
     or_Data v @ or_Error v"

definition obj_silent_failure_bytes :: "obj_response \<Rightarrow> bytes" where
  "obj_silent_failure_bytes v = obj_header_bytes 1 v 0"

lemma obj_response_valid_iff:
  "obj_response_valid v \<longleftrightarrow>
     length (or_Data v) \<le> MaxObservationBytes \<and> length (or_Error v) \<le> 4096 \<and>
     utf8_Valid (or_Error v) \<and> (or_Error v = [] \<or> or_Data v = [])"
  by (auto simp: obj_response_valid_def obj_response_refused_def maxErrorBytes_def)

lemma obj_readResponse_parts:
  assumes "length ve = 2" "length st = 2" "length ec = 4" "length dl = 4" "length el = 4"
  shows "obj_readResponse (obj_responseMagic @ ve @ st @ ec @ dl @ el @ s) =
     (if le_Uint16 ve \<noteq> obj_ProtocolVersion
      then Inl (ErrorsNew ''unsupported FI object protocol version'')
      else if le_Uint16 st > 1 then Inl (ErrorsNew ''invalid FI object response status'')
      else bindE (check (obj_response_lengths (le_Uint16 st) (le_Uint32 dl) (le_Uint32 el))) (\<lambda>_.
        obj_response_body (le_Uint16 st) (le_Uint32 ec) (le_Uint32 dl) (le_Uint32 el) s))"
proof -
  let ?f = "obj_responseMagic @ ve @ st @ ec @ dl @ el"
  have "ReadFull 20 (?f @ s) = Inr (?f, s)"
    using assms by (intro ReadFull_append) simp
  then show ?thesis
    using assms by (simp add: obj_readResponse_def obj_responseHeaderSize_def slice_simps)
qed

lemma obj_readResponse_header:
  "obj_readResponse (obj_header_bytes status v el @ s) =
     (if status > 1 then Inl (ErrorsNew ''invalid FI object response status'')
      else bindE (check (obj_response_lengths status (of_nat (length (or_Data v))) el)) (\<lambda>_.
        obj_response_body status (or_ErrorCode v) (of_nat (length (or_Data v))) el s))"
  by (simp add: obj_header_bytes_def obj_readResponse_parts)

lemma obj_readResponse_bytes:
  assumes "obj_response_valid v"
  shows "obj_readResponse (obj_response_bytes v @ rest) = Inr (v, rest)"
proof -
  from assms have b: "length (or_Data v) \<le> MaxObservationBytes" "length (or_Error v) \<le> 4096"
    "utf8_Valid (or_Error v)" "or_Error v = [] \<or> or_Data v = []"
    by (simp_all add: obj_response_valid_iff)
  have u: "unat (of_nat (length (or_Data v)) :: uint32) = length (or_Data v)"
    "unat (of_nat (length (or_Error v)) :: uint32) = length (or_Error v)"
    using b(1,2) by (simp_all add: unat_of_nat_small MaxObservationBytes_def)
  show ?thesis
    using b by (auto simp: obj_response_bytes_def obj_readResponse_header obj_response_lengths_def
        obj_response_body_def u maxErrorBytes_def)
qed

lemma obj_readResponse_sound:
  assumes r: "obj_readResponse s = Inr (v, rest)"
  shows "obj_response_valid v \<and>
    (s = obj_response_bytes v @ rest \<or>
     or_Error v = unspecified_failure \<and> s = obj_silent_failure_bytes v @ rest)"
proof -
  from r obtain f t where f: "length f = 20" "s = f @ t"
    and magic: "slice 0 4 f = obj_responseMagic"
    by (auto simp: obj_readResponse_def ReadFull_Inr obj_responseHeaderSize_def split: if_splits)
  have cut: "f = obj_responseMagic @ slice 4 6 f @ slice 6 8 f @ slice 8 12 f @ slice 12 16 f @
      slice 16 20 f"
    using cut_header [of "[4,6,8,12,16,20]" f] f magic by simp
  have s: "s = obj_responseMagic @ slice 4 6 f @ slice 6 8 f @ slice 8 12 f @ slice 12 16 f @
      slice 16 20 f @ t"
    using cut f(2) by (metis append.assoc)
  have len: "length (slice 4 6 f) = 2" "length (slice 6 8 f) = 2" "length (slice 8 12 f) = 4"
    "length (slice 12 16 f) = 4" "length (slice 16 20 f) = 4"
    using f(1) by (simp_all add: length_slice)
  let ?st = "le_Uint16 (slice 6 8 f)" and ?dl = "le_Uint32 (slice 12 16 f)"
    and ?el = "le_Uint32 (slice 16 20 f)"
  from r [unfolded s obj_readResponse_parts [OF len]] obtain em where
      ve: "le_Uint16 (slice 4 6 f) = obj_ProtocolVersion" and st: "\<not> ?st > 1"
    and lens: "obj_response_lengths ?st ?dl ?el = None"
    and t: "t = or_Data v @ em @ rest" "length (or_Data v) = unat ?dl" "length em = unat ?el"
    and em: "utf8_Valid em" "or_Error v = (if ?st = 1 \<and> em = [] then unspecified_failure else em)"
    and code: "or_ErrorCode v = le_Uint32 (slice 8 12 f)"
    by (auto simp: obj_response_body_def ReadFull_Inr split: if_splits)
  have sh: "s = obj_header_bytes ?st v ?el @ or_Data v @ em @ rest"
    using s len t by (simp add: obj_header_bytes_def code ve [symmetric])
  have ez: "em = [] \<longleftrightarrow> ?el = 0" using t(3) by (metis length_0_conv unat_eq_zero)
  have dz: "or_Data v = [] \<longleftrightarrow> ?dl = 0" using t(2) by (metis length_0_conv unat_eq_zero)
  have uf: "utf8_Valid unspecified_failure" "length unspecified_failure \<le> 4096"
    by (simp_all add: unspecified_failure_def utf8_Valid_ascii)
  from lens t(2,3) em uf ez dz status_cases [OF st] have v: "obj_response_valid v"
    by (auto simp: obj_response_valid_iff obj_response_lengths_def maxErrorBytes_def)
  have el: "of_nat (length em) = ?el" using t(3) by simp
  show ?thesis
  proof (cases "?st = 1 \<and> em = []")
    case True
    with dz lens have "or_Data v = []" by (auto simp: obj_response_lengths_def)
    with True sh ez em(2) v show ?thesis by (simp add: obj_silent_failure_bytes_def)
  next
    case False
    with em(2) have e: "or_Error v = em" by simp
    have "?st = (if em \<noteq> [] then 1 else 0)"
      using False status_cases [OF st] lens ez by (auto simp: obj_response_lengths_def)
    with sh el e v show ?thesis by (simp add: obj_response_bytes_def)
  qed
qed

lemma obj_readResponse_silent:
  assumes "obj_response_valid v" and "or_Error v = unspecified_failure"
  shows "obj_readResponse (obj_silent_failure_bytes v @ rest) = Inr (v, rest)"
proof -
  have "or_Data v = []"
    using assms by (auto simp: obj_response_valid_iff unspecified_failure_def)
  then show ?thesis
    using assms(2) by (cases v) (auto simp: obj_silent_failure_bytes_def obj_readResponse_header
        obj_response_lengths_def obj_response_body_def)
qed

lemma obj_readResponse_local:
  assumes "obj_readResponse s = Inr (v, rest)"
  shows "\<exists>p. s = p @ rest \<and> (\<forall>r. obj_readResponse (p @ r) = Inr (v, r))"
  using obj_readResponse_sound [OF assms] obj_readResponse_bytes obj_readResponse_silent by blast

interpretation objresp: stream_frame obj_response_valid obj_response_bytes obj_readResponse
  by unfold_locales (simp_all add: obj_readResponse_bytes obj_readResponse_local)

lemma obj_writeResponse_parts:
  "fixed_header obj_responseHeaderSize (obj_response_fields v) @ or_Data v @ or_Error v =
     obj_response_bytes v"
proof -
  have "fixed_header 20 (obj_response_fields v) = fields_bytes (obj_response_fields v)"
    by (intro fixed_header_contiguous) (simp_all add: obj_response_fields_def)
  then show ?thesis
    by (simp add: obj_response_bytes_def obj_header_bytes_def obj_response_fields_def
        obj_responseHeaderSize_def)
qed

lemma obj_writeRequest_sends:
  assumes "io_writer wr contents" and "obj_writeRequest wr s v = (None, s')"
  shows "obj_request_valid v \<and> contents s' = contents s @ obj_request_bytes v"
proof -
  from assms(2) have v: "obj_request_refused v = None"
    and w: "writeParts wr s [fixed_header obj_requestHeaderSize (obj_request_fields v),
        oq_GovernedRoot v] = (None, s')"
    by (auto simp: obj_writeRequest_def split: option.splits prod.splits)
  from io_writer.writeParts_ok [OF assms(1) w] obj_writeRequest_parts v
  show ?thesis by (simp add: obj_request_valid_def)
qed

lemma obj_writeResponse_sends:
  assumes "io_writer wr contents" and "obj_writeResponse wr s v = (None, s')"
  shows "obj_response_valid v \<and> contents s' = contents s @ obj_response_bytes v"
proof -
  from assms(2) have v: "obj_response_refused v = None"
    and w: "writeParts wr s [fixed_header obj_responseHeaderSize (obj_response_fields v),
        or_Data v, or_Error v] = (None, s')"
    by (auto simp: obj_writeResponse_def split: option.splits prod.splits)
  from io_writer.writeParts_ok [OF assms(1) w] obj_writeResponse_parts v
  show ?thesis by (simp add: obj_response_valid_def)
qed

section \<open>The messages of both helpers arrive as they were sent\<close>

text \<open>
  C26: The four messages between the collector and its two privileged helpers (the request and
  the response of FIUSNReader and of FIObjReader) arrive as they were sent: over any writer
  that keeps the contract of \<^verbatim>\<open>io.Writer\<close>, a message written without error is read by the peer
  as the same value and leaves what follows it on the pipe, and a message cut short anywhere
  is an error for the reader.
\<close>

theorem broker_messages_delivered:
  assumes "io_writer wr contents"
  shows "(usn_writeRequest wr s q = (None, s1) \<longrightarrow>
       delivered usn_readRequest (contents s) (contents s1) q) \<and>
    (usn_writeResponse wr s r = (None, s2) \<longrightarrow>
       delivered usn_readResponse (contents s) (contents s2) r) \<and>
    (obj_writeRequest wr s oq = (None, s3) \<longrightarrow>
       delivered obj_readRequest (contents s) (contents s3) oq) \<and>
    (obj_writeResponse wr s orr = (None, s4) \<longrightarrow>
       delivered obj_readResponse (contents s) (contents s4) orr)"
proof (intro conjI impI)
  show "delivered usn_readRequest (contents s) (contents s1) q"
    if "usn_writeRequest wr s q = (None, s1)"
    using usn_writeRequest_sends [OF assms that] usnreq.delivered_enc by simp
  show "delivered usn_readResponse (contents s) (contents s2) r"
    if "usn_writeResponse wr s r = (None, s2)"
    using usn_writeResponse_sends [OF assms that] usnresp.delivered_enc by simp
  show "delivered obj_readRequest (contents s) (contents s3) oq"
    if "obj_writeRequest wr s oq = (None, s3)"
    using obj_writeRequest_sends [OF assms that] objreq.delivered_enc by simp
  show "delivered obj_readResponse (contents s) (contents s4) orr"
    if "obj_writeResponse wr s orr = (None, s4)"
    using obj_writeResponse_sends [OF assms that] objresp.delivered_enc by simp
qed

definition sample_obj_request :: obj_request where
  "sample_obj_request = \<lparr>oq_Operation = 1, oq_GovernedRoot = ''D:'', oq_FileReferenceNumber = 5,
     oq_SequenceNumber = 5\<rparr>"

theorem broker_messages_delivered_witness:
  "\<exists>s. obj_writeRequest buffer_Write ''x'' sample_obj_request = (None, s) \<and>
     delivered obj_readRequest ''x'' s sample_obj_request"
proof -
  have "obj_request_refused sample_obj_request = None"
    by (simp add: obj_request_refused_def sample_obj_request_def operationObserveObject_def
        maxRootBytes_def utf8_Valid_ascii)
  then obtain s where "obj_writeRequest buffer_Write ''x'' sample_obj_request = (None, s)"
    by (simp add: obj_writeRequest_def)
  with broker_messages_delivered [OF buffer.io_writer_axioms] show ?thesis by blast
qed

end
