(* ===== verification/Rec_Security.thy ===== *)
theory Rec_Security
  imports Rec_Identity
begin

text \<open>
  Package \<^verbatim>\<open>records\<close>: Windows security descriptors (\<^verbatim>\<open>security.go\<close>, \<^verbatim>\<open>sacl.go\<close>). A descriptor is
  read from its raw bytes into owner, group and access lists; the raw bytes stay in the record,
  and a record is valid when its other fields are what those bytes say.
\<close>

section \<open>Values\<close>

text \<open>\<^verbatim>\<open>ObservationState\<close>, \<^verbatim>\<open>SecurityDataFormat\<close> and \<^verbatim>\<open>ACLState\<close> are strings with named values.\<close>

definition ObservationStateError :: string where "ObservationStateError = ''Error''"
definition ObservationStatePresent :: string where "ObservationStatePresent = ''Present''"
definition SecurityDataFormatInterpreted :: string where
  "SecurityDataFormatInterpreted = ''Interpreted''"
definition SecurityDataFormatNotKnown :: string where "SecurityDataFormatNotKnown = ''NotKnown''"
definition SecurityDataFormatRaw :: string where "SecurityDataFormatRaw = ''Raw''"
definition ACLStateNotPresent :: string where "ACLStateNotPresent = ''NotPresent''"
definition ACLStateNull :: string where "ACLStateNull = ''Null''"
definition ACLStatePresent :: string where "ACLStatePresent = ''Present''"

lemmas security_names = ObservationStateError_def ObservationStatePresent_def
  SecurityDataFormatInterpreted_def SecurityDataFormatNotKnown_def SecurityDataFormatRaw_def
  ACLStateNotPresent_def ACLStateNull_def ACLStatePresent_def

record ace_observation =
  ae_Index :: string
  ae_Type :: string
  ae_TypeName :: string
  ae_Flags :: string
  ae_Size :: string
  ae_RawBase64URL :: string
  ae_Mask :: string
  ae_ObjectFlags :: string
  ae_ObjectTypeGUID :: string
  ae_InheritedObjectTypeGUID :: string
  ae_SID :: string

text \<open>A nil slice of entries is \<open>None\<close>: \<^verbatim>\<open>reflect.DeepEqual\<close> tells it from an empty one.\<close>

record acl_observation =
  al_State :: string
  al_Revision :: string
  al_Size :: string
  al_ACEs :: "ace_observation list option"

record security_observation =
  so_State :: string
  so_DataFormat :: string
  so_RawDescriptorBase64URL :: string
  so_Revision :: string
  so_Control :: string
  so_OwnerSID :: string
  so_PrimaryGroupSID :: string
  so_DACL :: acl_observation
  so_ReasonCode :: string

record sacl_observation =
  sl_State :: string
  sl_DataFormat :: string
  sl_RawDescriptorBase64URL :: string
  sl_Revision :: string
  sl_Control :: string
  sl_ACL :: acl_observation
  sl_ReasonCode :: string

definition securityDescriptorRelativeHeaderSize :: nat where
  "securityDescriptorRelativeHeaderSize = 20"
definition aclHeaderSize :: nat where "aclHeaderSize = 8"
definition aceHeaderSize :: nat where "aceHeaderSize = 4"
definition seDACLPresent :: uint16 where "seDACLPresent = 0x0004"
definition seSACLPresent :: uint16 where "seSACLPresent = 0x0010"
definition seSelfRelative :: uint16 where "seSelfRelative = 0x8000"
definition maxSIDSubAuthorities :: nat where "maxSIDSubAuthorities = 15"
definition aceObjectTypePresent :: uint32 where "aceObjectTypePresent = 0x00000001"
definition aceInheritedObjectTypePresent :: uint32 where
  "aceInheritedObjectTypePresent = 0x00000002"
definition knownObjectACEFlags :: uint32 where
  "knownObjectACEFlags = aceObjectTypePresent OR aceInheritedObjectTypePresent"

lemmas security_sizes = securityDescriptorRelativeHeaderSize_def aclHeaderSize_def
  aceHeaderSize_def maxSIDSubAuthorities_def

section \<open>Security identifiers and GUIDs\<close>

definition sid_authority :: "bytes \<Rightarrow> uint64" where
  "sid_authority bs = foldl (\<lambda>authority v. push_bit 8 authority OR of_nat (ord v)) 0 bs"

definition subAuthority :: "bytes \<Rightarrow> nat \<Rightarrow> uint32" where
  "subAuthority raw index = le_Uint32 (slice (8 + index * 4) (8 + index * 4 + 4) raw)"

definition sidFromBytes :: "bytes \<Rightarrow> string + string \<times> nat" where
  "sidFromBytes raw =
     (if length raw < 8 then Inl ''SID shorter than header''
      else let count = ord (raw ! 1) in
        if count > maxSIDSubAuthorities
        then Inl ''SID sub-authority count exceeds Windows maximum''
        else if 8 + count * 4 > length raw then Inl ''SID length outside buffer''
        else Inr (foldl (\<lambda>result index. result @ ''-'' @ FormatUint (unat (subAuthority raw index)))
                    (''S-'' @ FormatUint (ord (raw ! 0)) @ ''-'' @
                     FormatUint (unat (sid_authority (slice 2 8 raw)))) [0..<count],
                  8 + count * 4))"

definition sidAtOffset :: "bytes \<Rightarrow> uint32 \<Rightarrow> string + string" where
  "sidAtOffset raw offset =
     (if offset = 0 then Inr []
      else if unat offset < securityDescriptorRelativeHeaderSize \<or> offset \<ge> of_nat (length raw)
      then Inl ''SID offset outside descriptor''
      else bindE (sidFromBytes (drop (unat offset) raw)) (\<lambda>(sid, _). Inr sid))"

text \<open>\<^verbatim>\<open>%08x\<close>, \<^verbatim>\<open>%04x\<close> and \<^verbatim>\<open>%02x\<close> print the bytes of the number, the highest first.\<close>

definition formatWindowsGUID :: "bytes \<Rightarrow> string" where
  "formatWindowsGUID raw =
     hex_EncodeToString (rev (slice 0 4 raw)) @ ''-'' @ hex_EncodeToString (rev (slice 4 6 raw)) @ ''-'' @
     hex_EncodeToString (rev (slice 6 8 raw)) @ ''-'' @ hex_EncodeToString (slice 8 10 raw) @ ''-'' @
     hex_EncodeToString (slice 10 16 raw)"

section \<open>Access-control entries\<close>

definition ace_type_names :: "string list" where
  "ace_type_names =
     [''AccessAllowed'', ''AccessDenied'', ''SystemAudit'', ''SystemAlarm'', ''AccessAllowedCompound'',
      ''AccessAllowedObject'', ''AccessDeniedObject'', ''SystemAuditObject'', ''SystemAlarmObject'',
      ''AccessAllowedCallback'', ''AccessDeniedCallback'', ''AccessAllowedCallbackObject'',
      ''AccessDeniedCallbackObject'', ''SystemAuditCallback'', ''SystemAlarmCallback'',
      ''SystemAuditCallbackObject'', ''SystemAlarmCallbackObject'', ''MandatoryLabel'',
      ''ResourceAttribute'', ''ScopedPolicyID'', ''ProcessTrustLabel'', ''AccessFilter'']"

definition aceTypeName :: "nat \<Rightarrow> string" where
  "aceTypeName t = (if t < length ace_type_names then ace_type_names ! t else ''NotKnown'')"

definition parseSimpleSIDACE :: "ace_observation \<Rightarrow> bytes \<Rightarrow> string + ace_observation" where
  "parseSimpleSIDACE observation raw =
     (if length raw < 8 then Inl ''simple SID ACE shorter than mask/SID header''
      else bindE (map_err (\<lambda>e. ''ACE SID: '' @ e) (sidFromBytes (drop 8 raw))) (\<lambda>(sid, sidLength).
        if 8 + sidLength \<noteq> length raw then Inl ''simple SID ACE contains trailing bytes''
        else Inr (observation\<lparr>ae_Mask := FormatUint (unat (le_Uint32 (slice 4 8 raw))),
                    ae_SID := sid\<rparr>)))"

text \<open>The optional GUIDs of an object entry: each is present when its bit is set.\<close>

definition optional_guid :: "bool \<Rightarrow> string \<Rightarrow> bytes \<Rightarrow> nat \<Rightarrow> string + string \<times> nat" where
  "optional_guid present message raw cursor =
     (if \<not> present then Inr ([], cursor)
      else if cursor + 16 > length raw then Inl message
      else Inr (formatWindowsGUID (slice cursor (cursor + 16) raw), cursor + 16))"

definition parseObjectACE :: "ace_observation \<Rightarrow> bytes \<Rightarrow> string + ace_observation" where
  "parseObjectACE observation raw =
     (if length raw < 12 then Inl ''object ACE shorter than mask/object-flags header''
      else
        let objectFlags = le_Uint32 (slice 8 12 raw);
            o1 = observation\<lparr>ae_Mask := FormatUint (unat (le_Uint32 (slice 4 8 raw))),
                   ae_ObjectFlags := FormatUint (unat objectFlags)\<rparr>
        in if objectFlags AND NOT knownObjectACEFlags \<noteq> 0 then Inr o1
           else
             bindE (optional_guid (objectFlags AND aceObjectTypePresent \<noteq> 0)
               ''object ACE ObjectType GUID outside ACE'' raw 12) (\<lambda>(objectType, cursor).
             bindE (optional_guid (objectFlags AND aceInheritedObjectTypePresent \<noteq> 0)
               ''object ACE InheritedObjectType GUID outside ACE'' raw cursor) (\<lambda>(inherited, cursor).
             bindE (map_err (\<lambda>e. ''object ACE SID: '' @ e) (sidFromBytes (drop cursor raw)))
               (\<lambda>(sid, sidLength).
             if cursor + sidLength \<noteq> length raw then Inl ''object ACE contains trailing bytes''
             else Inr (o1\<lparr>ae_ObjectTypeGUID := objectType, ae_InheritedObjectTypeGUID := inherited,
                         ae_SID := sid\<rparr>)))))"

definition ace_header_observation :: "nat \<Rightarrow> bytes \<Rightarrow> ace_observation" where
  "ace_header_observation index raw =
     \<lparr>ae_Index = FormatUint index, ae_Type = FormatUint (ord (raw ! 0)),
      ae_TypeName = aceTypeName (ord (raw ! 0)), ae_Flags = FormatUint (ord (raw ! 1)),
      ae_Size = FormatUint (length raw), ae_RawBase64URL = url_encode raw, ae_Mask = [],
      ae_ObjectFlags = [], ae_ObjectTypeGUID = [], ae_InheritedObjectTypeGUID = [], ae_SID = []\<rparr>"

definition parseACE :: "nat \<Rightarrow> bytes \<Rightarrow> string + ace_observation" where
  "parseACE index raw =
     (if length raw < aceHeaderSize then Inl ''ACE shorter than header''
      else if ord (raw ! 0) \<in> {0x00, 0x01, 0x02, 0x03, 0x11}
      then parseSimpleSIDACE (ace_header_observation index raw) raw
      else if ord (raw ! 0) \<in> {0x05, 0x06, 0x07, 0x08}
      then parseObjectACE (ace_header_observation index raw) raw
      else Inr (ace_header_observation index raw))"

section \<open>Access lists\<close>

text \<open>
  \<^verbatim>\<open>parseDACL\<close> and \<^verbatim>\<open>parseSACL\<close> are the same code but for the name of the list in their messages
  and the control bit; \<open>left\<close> counts the entries still to come.
\<close>

fun ace_loop :: "string \<Rightarrow> bytes \<Rightarrow> nat \<Rightarrow> nat \<Rightarrow> nat \<Rightarrow> nat \<Rightarrow> string + ace_observation list" where
  "ace_loop name raw aclEnd index 0 cursor = Inr []"
| "ace_loop name raw aclEnd index (Suc left) cursor =
     (if cursor + aceHeaderSize > aclEnd then Inl (''ACE header outside '' @ name)
      else let aceSize = unat (le_Uint16 (slice (cursor + 2) (cursor + 4) raw)) in
        if aceSize < aceHeaderSize \<or> cursor + aceSize > aclEnd
        then Inl (''ACE size outside '' @ name)
        else bindE (parseACE index (slice cursor (cursor + aceSize) raw)) (\<lambda>ace.
          bindE (ace_loop name raw aclEnd (Suc index) left (cursor + aceSize)) (\<lambda>aces.
          Inr (ace # aces))))"

definition parse_acl :: "string \<Rightarrow> uint16 \<Rightarrow> bytes \<Rightarrow> uint16 \<Rightarrow> uint32 \<Rightarrow> string + acl_observation" where
  "parse_acl name present raw control offset =
     (if control AND present = 0 then
        (if offset \<noteq> 0 then Inl (name @ '' offset present without SE_'' @ name @ ''_PRESENT'')
         else Inr \<lparr>al_State = ACLStateNotPresent, al_Revision = [], al_Size = [], al_ACEs = Some []\<rparr>)
      else if offset = 0
      then Inr \<lparr>al_State = ACLStateNull, al_Revision = [], al_Size = [], al_ACEs = Some []\<rparr>
      else if unat offset < securityDescriptorRelativeHeaderSize \<or>
          unat offset + aclHeaderSize > length raw
      then Inl (name @ '' offset outside descriptor'')
      else
        let start = unat offset;
            aclSize = unat (le_Uint16 (slice (start + 2) (start + 4) raw));
            aceCount = unat (le_Uint16 (slice (start + 4) (start + 6) raw))
        in if aclSize < aclHeaderSize \<or> start + aclSize > length raw
           then Inl (name @ '' size outside descriptor'')
           else bindE (ace_loop name raw (start + aclSize) 0 aceCount (start + aclHeaderSize)) (\<lambda>aces.
             Inr \<lparr>al_State = ACLStatePresent, al_Revision = FormatUint (ord (raw ! start)),
                  al_Size = FormatUint aclSize, al_ACEs = Some aces\<rparr>))"

definition parseDACL :: "bytes \<Rightarrow> uint16 \<Rightarrow> uint32 \<Rightarrow> string + acl_observation" where
  "parseDACL = parse_acl ''DACL'' seDACLPresent"

definition parseSACL :: "bytes \<Rightarrow> uint16 \<Rightarrow> uint32 \<Rightarrow> string + acl_observation" where
  "parseSACL = parse_acl ''SACL'' seSACLPresent"

section \<open>Descriptors\<close>

definition descriptor_control :: "bytes \<Rightarrow> string + uint16" where
  "descriptor_control raw =
     (if length raw < securityDescriptorRelativeHeaderSize
      then Inl ''security descriptor shorter than relative header''
      else if le_Uint16 (slice 2 4 raw) AND seSelfRelative = 0
      then Inl ''security descriptor is not self-relative''
      else Inr (le_Uint16 (slice 2 4 raw)))"

definition parseSecurityDescriptor :: "bytes \<Rightarrow> string + security_observation" where
  "parseSecurityDescriptor raw =
     bindE (descriptor_control raw) (\<lambda>control.
     bindE (map_err (\<lambda>e. ''owner SID: '' @ e) (sidAtOffset raw (le_Uint32 (slice 4 8 raw)))) (\<lambda>ownerSID.
     bindE (map_err (\<lambda>e. ''primary group SID: '' @ e)
       (sidAtOffset raw (le_Uint32 (slice 8 12 raw)))) (\<lambda>groupSID.
     bindE (parseDACL raw control (le_Uint32 (slice 16 20 raw))) (\<lambda>dacl.
     Inr \<lparr>so_State = [], so_DataFormat = [], so_RawDescriptorBase64URL = [],
          so_Revision = FormatUint (ord (raw ! 0)), so_Control = FormatUint (unat control),
          so_OwnerSID = ownerSID, so_PrimaryGroupSID = groupSID, so_DACL = dacl,
          so_ReasonCode = []\<rparr>))))"

definition ParseSecurityDescriptor :: "bytes \<Rightarrow> string + security_observation" where
  "ParseSecurityDescriptor raw =
     bindE (parseSecurityDescriptor raw) (\<lambda>parsed.
     Inr (parsed\<lparr>so_RawDescriptorBase64URL := url_encode raw, so_State := ObservationStatePresent,
                 so_DataFormat := SecurityDataFormatInterpreted\<rparr>))"

definition empty_acl :: acl_observation where
  "empty_acl = \<lparr>al_State = [], al_Revision = [], al_Size = [], al_ACEs = Some []\<rparr>"

definition RawSecurityObservation :: "bytes \<Rightarrow> string \<Rightarrow> security_observation" where
  "RawSecurityObservation raw reasonCode =
     \<lparr>so_State = ObservationStatePresent, so_DataFormat = SecurityDataFormatRaw,
      so_RawDescriptorBase64URL = url_encode raw, so_Revision = [], so_Control = [],
      so_OwnerSID = [], so_PrimaryGroupSID = [], so_DACL = empty_acl, so_ReasonCode = reasonCode\<rparr>"

definition SecurityObservationError :: "string \<Rightarrow> security_observation" where
  "SecurityObservationError reasonCode =
     \<lparr>so_State = ObservationStateError, so_DataFormat = SecurityDataFormatNotKnown,
      so_RawDescriptorBase64URL = [], so_Revision = [], so_Control = [],
      so_OwnerSID = [], so_PrimaryGroupSID = [], so_DACL = empty_acl, so_ReasonCode = reasonCode\<rparr>"

definition parseSACLDescriptor :: "bytes \<Rightarrow> string + sacl_observation" where
  "parseSACLDescriptor raw =
     bindE (descriptor_control raw) (\<lambda>control.
     bindE (parseSACL raw control (le_Uint32 (slice 12 16 raw))) (\<lambda>sacl.
     Inr \<lparr>sl_State = [], sl_DataFormat = [], sl_RawDescriptorBase64URL = [],
          sl_Revision = FormatUint (ord (raw ! 0)), sl_Control = FormatUint (unat control),
          sl_ACL = sacl, sl_ReasonCode = []\<rparr>))"

definition ParseSACLDescriptor :: "bytes \<Rightarrow> string + sacl_observation" where
  "ParseSACLDescriptor raw =
     bindE (parseSACLDescriptor raw) (\<lambda>parsed.
     Inr (parsed\<lparr>sl_RawDescriptorBase64URL := url_encode raw, sl_State := ObservationStatePresent,
                 sl_DataFormat := SecurityDataFormatInterpreted\<rparr>))"

definition RawSACLObservation :: "bytes \<Rightarrow> string \<Rightarrow> sacl_observation" where
  "RawSACLObservation raw reasonCode =
     \<lparr>sl_State = ObservationStatePresent, sl_DataFormat = SecurityDataFormatRaw,
      sl_RawDescriptorBase64URL = url_encode raw, sl_Revision = [], sl_Control = [],
      sl_ACL = empty_acl, sl_ReasonCode = reasonCode\<rparr>"

definition SACLObservationError :: "string \<Rightarrow> sacl_observation" where
  "SACLObservationError reasonCode =
     \<lparr>sl_State = ObservationStateError, sl_DataFormat = SecurityDataFormatNotKnown,
      sl_RawDescriptorBase64URL = [], sl_Revision = [], sl_Control = [],
      sl_ACL = empty_acl, sl_ReasonCode = reasonCode\<rparr>"

section \<open>Validation\<close>

text \<open>
  \<^verbatim>\<open>base64.RawURLEncoding.DecodeString\<close> without \<^verbatim>\<open>Strict\<close> also takes a last digit with other than
  zero in its unused bits.
\<close>

fun url_quads_lax :: "nat option list \<Rightarrow> bytes option" where
  "url_quads_lax [] = Some []"
| "url_quads_lax [Some x, Some y] = Some [char_of (x * 4 + y div 16)]"
| "url_quads_lax [Some x, Some y, Some z] =
     Some [char_of (x * 4 + y div 16), char_of (y mod 16 * 16 + z div 4)]"
| "url_quads_lax (Some x # Some y # Some z # Some w # s) =
     map_option (\<lambda>r. char_of (x * 4 + y div 16) # char_of (y mod 16 * 16 + z div 4) #
       char_of (z mod 4 * 64 + w) # r) (url_quads_lax s)"
| "url_quads_lax _ = None"

definition url_decode_lax :: "string \<Rightarrow> bytes option" where
  "url_decode_lax s = url_quads_lax (map url_value (filter (\<lambda>c. c \<noteq> CHR 0x0D \<and> c \<noteq> CHR 0x0A) s))"

definition decode_reencoded :: "string \<Rightarrow> bytes option" where
  "decode_reencoded v =
     (case url_decode_lax v of None \<Rightarrow> None
      | Some raw \<Rightarrow> if url_encode raw \<noteq> v then None else Some raw)"

definition acl_blank :: "acl_observation \<Rightarrow> bool" where
  "acl_blank acl \<longleftrightarrow>
     al_State acl = [] \<and> al_Revision acl = [] \<and> al_Size acl = [] \<and>
     (al_ACEs acl = None \<or> al_ACEs acl = Some [])"

definition security_blank :: "security_observation \<Rightarrow> bool" where
  "security_blank o' \<longleftrightarrow>
     so_Revision o' = [] \<and> so_Control o' = [] \<and> so_OwnerSID o' = [] \<and>
     so_PrimaryGroupSID o' = [] \<and> acl_blank (so_DACL o')"

definition ValidateSecurityObservation :: "security_observation \<Rightarrow> validation_error option" where
  "ValidateSecurityObservation o' =
     (if so_State o' = ObservationStateError then
        fail_if (so_DataFormat o' \<noteq> SecurityDataFormatNotKnown \<or> so_ReasonCode o' = [] \<or>
            so_RawDescriptorBase64URL o' \<noteq> [] \<or> \<not> security_blank o')
          (Invalid ''Conflict'' ''security'')
      else if so_State o' = ObservationStatePresent then
        (if so_RawDescriptorBase64URL o' = []
         then Some (Invalid ''Required'' ''security.raw_descriptor_base64url'')
         else case decode_reencoded (so_RawDescriptorBase64URL o') of
           None \<Rightarrow> Some (Invalid ''InvalidEncoding'' ''security.raw_descriptor_base64url'')
         | Some raw \<Rightarrow>
             if so_DataFormat o' = SecurityDataFormatRaw then
               fail_if (so_ReasonCode o' = [] \<or> \<not> security_blank o') (Invalid ''Conflict'' ''security'')
             else if so_DataFormat o' = SecurityDataFormatInterpreted then
               (if so_ReasonCode o' \<noteq> [] then Some (Invalid ''Conflict'' ''security.reason_code'')
                else case ParseSecurityDescriptor raw of
                  Inl _ \<Rightarrow> Some (Invalid ''MalformedRawData'' ''security.raw_descriptor_base64url'')
                | Inr expected \<Rightarrow> fail_if (o' \<noteq> expected) (Invalid ''Conflict'' ''security''))
             else Some (Invalid ''UnsupportedValue'' ''security.data_format''))
      else Some (Invalid ''UnsupportedValue'' ''security.state''))"

definition sacl_blank :: "sacl_observation \<Rightarrow> bool" where
  "sacl_blank o' \<longleftrightarrow> sl_Revision o' = [] \<and> sl_Control o' = [] \<and> acl_blank (sl_ACL o')"

definition ValidateSACLObservation :: "sacl_observation \<Rightarrow> validation_error option" where
  "ValidateSACLObservation o' =
     (if sl_State o' = ObservationStateError then
        fail_if (sl_DataFormat o' \<noteq> SecurityDataFormatNotKnown \<or> sl_ReasonCode o' = [] \<or>
            sl_RawDescriptorBase64URL o' \<noteq> [] \<or> \<not> sacl_blank o')
          (Invalid ''Conflict'' ''sacl'')
      else if sl_State o' = ObservationStatePresent then
        (if sl_RawDescriptorBase64URL o' = []
         then Some (Invalid ''Required'' ''sacl.raw_descriptor_base64url'')
         else case decode_reencoded (sl_RawDescriptorBase64URL o') of
           None \<Rightarrow> Some (Invalid ''InvalidEncoding'' ''sacl.raw_descriptor_base64url'')
         | Some raw \<Rightarrow>
             if sl_DataFormat o' = SecurityDataFormatRaw then
               fail_if (sl_ReasonCode o' = [] \<or> \<not> sacl_blank o') (Invalid ''Conflict'' ''sacl'')
             else if sl_DataFormat o' = SecurityDataFormatInterpreted then
               (if sl_ReasonCode o' \<noteq> [] then Some (Invalid ''Conflict'' ''sacl.reason_code'')
                else case ParseSACLDescriptor raw of
                  Inl _ \<Rightarrow> Some (Invalid ''MalformedRawData'' ''sacl.raw_descriptor_base64url'')
                | Inr expected \<Rightarrow> fail_if (o' \<noteq> expected) (Invalid ''Conflict'' ''sacl''))
             else Some (Invalid ''UnsupportedValue'' ''sacl.data_format''))
      else Some (Invalid ''UnsupportedValue'' ''sacl.state''))"

section \<open>The text of a security identifier\<close>

lemma unat_shift_or:
  fixes a :: uint64
  assumes "unat a < 2 ^ 56"
  shows "unat (push_bit 8 a OR of_nat (ord v)) = unat a * 256 + ord v"
proof -
  have v: "ord v < 256" by (rule of_char_lt_256)
  have u: "unat (of_nat (ord v) :: uint64) = ord v" 
    by (rule unat_of_nat_small) (rule less_trans [OF v], simp)
  have "\<not> bit (push_bit 8 a) n \<or> \<not> bit (of_nat (ord v) :: uint64) n" for n
  proof (cases "n < 8")
    case False
    have "ord v < 2 ^ n" using v False by (meson le_less_trans less_le_trans linorder_not_less
        order_less_le_trans power_increasing_iff [of 2 8 n, simplified])
    then have "\<not> bit (ord v) n" by (simp add: bit_iff_odd)
    then show ?thesis by (simp add: bit_simps)
  qed (simp add: bit_simps)
  then have "push_bit 8 a OR of_nat (ord v) = push_bit 8 a + of_nat (ord v)"
    by (rule disjunctive_add [symmetric])
  moreover have "unat (push_bit 8 a) = unat a * 256"
    using assms by (simp add: push_bit_eq_mult unat_word_ariths unat_mod_range)
  moreover have "unat a * 256 + ord v < 2 ^ 56 * 256" using assms v by linarith
  ultimately show ?thesis using u by (simp add: unat_word_ariths)
qed

lemma unat_sid_authority: "length bs \<le> 8 \<Longrightarrow> unat (sid_authority bs) = get_be bs"
proof (induction bs rule: rev_induct)
  case (snoc b bs)
  then have "get_be bs < 256 ^ 7"
    using get_be_bound [of bs] power_increasing [of "length bs" 7 "256 :: nat"] by simp
  with snoc show ?case by (simp add: sid_authority_def unat_shift_or)
qed (simp add: sid_authority_def)

text \<open>Numerals led by dashes can be taken apart in one way only.\<close>

definition dashed :: "nat list \<Rightarrow> string" where
  "dashed ns = concat (map (\<lambda>n. ''-'' @ FormatUint n) ns)"

lemma dashed_simps [simp]: "dashed [] = []" "dashed (n # ns) = ''-'' @ FormatUint n @ dashed ns"
  by (simp_all add: dashed_def)

lemma dashed_no_digit: "takeWhile is_digit (dashed ns) = []" "dropWhile is_digit (dashed ns) = dashed ns"
  by (cases ns; simp add: is_digit_def)+

lemma dashed_inj: "dashed ms = dashed ns \<Longrightarrow> ms = ns"
proof (induction ms arbitrary: ns)
  case Nil
  then show ?case by (cases ns) simp_all
next
  case (Cons m ms)
  then obtain n ns' where ns: "ns = n # ns'" by (cases ns) auto
  with Cons.prems have eq: "FormatUint m @ dashed ms = FormatUint n @ dashed ns'" by simp
  have split: "takeWhile is_digit (FormatUint k @ dashed ks) = FormatUint k \<and>
      dropWhile is_digit (FormatUint k @ dashed ks) = dashed ks" for k ks
    using FormatUint_digits [of k] by (simp add: list_all_iff takeWhile_append2 dropWhile_append2 dashed_no_digit)
  from eq split [of m ms] split [of n ns'] have "FormatUint m = FormatUint n" "dashed ms = dashed ns'"
    by metis+
  with Cons.IH ns show ?case by (metis digits_value_Format)
qed

definition sid_numbers :: "bytes \<Rightarrow> nat list" where
  "sid_numbers raw =
     [ord (raw ! 0), get_be (slice 2 8 raw)] @
     map (\<lambda>i. unat (subAuthority raw i)) [0..<ord (raw ! 1)]"

lemma foldl_dashed:
  "foldl (\<lambda>result i. result @ CHR ''-'' # FormatUint (f i)) t is = t @ dashed (map f is)"
  by (induction "is" arbitrary: t) simp_all

lemma sidFromBytes_Inr:
  "sidFromBytes raw = Inr (sid, n) \<longleftrightarrow>
     8 \<le> length raw \<and> ord (raw ! 1) \<le> 15 \<and> n = 8 + ord (raw ! 1) * 4 \<and> n \<le> length raw \<and>
     sid = ''S'' @ dashed (sid_numbers raw)"
  by (auto simp: sidFromBytes_def Let_def maxSIDSubAuthorities_def foldl_dashed sid_numbers_def
      unat_sid_authority length_slice)

lemma slice_words:
  "8 + c * 4 \<le> length raw \<Longrightarrow>
     concat (map (\<lambda>i. slice (8 + i * 4) (8 + i * 4 + 4) raw) [0..<c]) = slice 8 (8 + c * 4) raw"
proof (induction c)
  case (Suc c)
  then show ?case using slice_split [of 8 "8 + c * 4" "8 + Suc c * 4" raw] by (simp add: add.commute)
qed (simp add: slice_def)

lemma sid_bytes:
  assumes "8 + c * 4 \<le> length raw"
  shows "take (8 + c * 4) raw = [raw ! 0, raw ! 1] @ put_be 6 (get_be (slice 2 8 raw)) @
     concat (map (\<lambda>i. le_PutUint32 (subAuthority raw i)) [0..<c])"
proof -
  have "take (8 + c * 4) raw = slice 0 2 raw @ slice 2 8 raw @ slice 8 (8 + c * 4) raw"
    using slice_split [of 0 2 "8 + c * 4" raw] slice_split [of 2 8 "8 + c * 4" raw]
    by (simp add: slice_def)
  moreover have "slice 0 2 raw = [raw ! 0, raw ! 1]"
    using assms by (cases raw; cases "tl raw") (simp_all add: slice_def numeral_2_eq_2)
  moreover have "put_be 6 (get_be (slice 2 8 raw)) = slice 2 8 raw"
    using assms by (simp add: length_slice)
  moreover have "map (\<lambda>i. le_PutUint32 (subAuthority raw i)) [0..<c] =
      map (\<lambda>i. slice (8 + i * 4) (8 + i * 4 + 4) raw) [0..<c]"
    using assms by (auto simp: subAuthority_def length_slice)
  ultimately show ?thesis using slice_words [OF assms] by (simp only: append_Cons append_Nil)
qed

text \<open>
  The text of a security identifier loses nothing: two byte strings that are read as the
  same \<^verbatim>\<open>S-...\<close> text hold the same identifier, byte for byte, and it has the same length in both.
\<close>

theorem sid_text_exact:
  assumes "sidFromBytes raw = Inr (sid, n)" and "sidFromBytes raw' = Inr (sid, n')"
  shows "take n raw = take n' raw'"
proof -
  let ?c = "ord (raw ! 1)"
  from assms have eq: "sid_numbers raw = sid_numbers raw'"
    by (auto simp: sidFromBytes_Inr dest: dashed_inj)
  then have c: "?c = ord (raw' ! 1)"
    by (auto simp: sid_numbers_def dest: arg_cong [where f = length])
  from eq have parts: "ord (raw ! 0) = ord (raw' ! 0)" "get_be (slice 2 8 raw) = get_be (slice 2 8 raw')"
    "map (\<lambda>i. unat (subAuthority raw i)) [0..<?c] = map (\<lambda>i. unat (subAuthority raw' i)) [0..<?c]"
    by (simp_all add: sid_numbers_def c [simplified])
  have "map (\<lambda>i. le_PutUint32 (subAuthority raw i)) [0..<?c] =
      map (\<lambda>i. le_PutUint32 (subAuthority raw' i)) [0..<?c]"
    using parts(3) by (simp add: word_unat_eq_iff [symmetric])
  moreover have "raw ! 0 = raw' ! 0" "raw ! 1 = raw' ! 1"
    using parts(1) c by (simp_all only: of_char_eq_iff)
  moreover have "n = 8 + ?c * 4" "n' = 8 + ?c * 4" "8 + ?c * 4 \<le> length raw" "8 + ?c * 4 \<le> length raw'"
    using assms c by (auto simp: sidFromBytes_Inr)
  ultimately show ?thesis using parts(2) by (simp only: sid_bytes)
qed

section \<open>A valid record says what its raw descriptor says\<close>

lemma url_quads_lax_strict: "url_quads ts = Some s \<Longrightarrow> url_quads_lax ts = Some s"
  by (induction ts arbitrary: s rule: url_quads.induct) (auto split: if_splits)

lemma url_decode_lax_encode: "url_decode_lax (url_encode s) = Some s"
proof -
  have "filter (\<lambda>c. c \<noteq> CHR 0x0D \<and> c \<noteq> CHR 0x0A) (url_encode s) = url_encode s"
    using url_encode_chars [of _ s] url_char_plain by (fastforce intro!: filter_True)
  then show ?thesis by (simp add: url_decode_lax_def url_quads_lax_strict url_quads_encode)
qed

lemma decode_reencoded_iff: "decode_reencoded v = Some raw \<longleftrightarrow> v = url_encode raw"
  by (auto simp: decode_reencoded_def url_decode_lax_encode split: option.splits if_splits)

lemma url_encode_Nil: "url_encode raw = [] \<longleftrightarrow> raw = []"
  by (cases raw rule: url_encode.cases) simp_all

lemma ParseSecurityDescriptor_shape:
  "ParseSecurityDescriptor raw = Inr v \<Longrightarrow>
     so_State v = ObservationStatePresent \<and> so_DataFormat v = SecurityDataFormatInterpreted \<and>
     so_RawDescriptorBase64URL v = url_encode raw \<and> so_ReasonCode v = [] \<and> raw \<noteq> []"
  by (auto simp: ParseSecurityDescriptor_def parseSecurityDescriptor_def descriptor_control_def
      security_sizes split: if_splits)

lemma ParseSACLDescriptor_shape:
  "ParseSACLDescriptor raw = Inr v \<Longrightarrow>
     sl_State v = ObservationStatePresent \<and> sl_DataFormat v = SecurityDataFormatInterpreted \<and>
     sl_RawDescriptorBase64URL v = url_encode raw \<and> sl_ReasonCode v = [] \<and> raw \<noteq> []"
  by (auto simp: ParseSACLDescriptor_def parseSACLDescriptor_def descriptor_control_def
      security_sizes split: if_splits)

lemma interpreted_security_iff:
  "ValidateSecurityObservation v = None \<and> so_DataFormat v = SecurityDataFormatInterpreted \<longleftrightarrow>
     (\<exists>raw. ParseSecurityDescriptor raw = Inr v)"
proof
  assume v: "ValidateSecurityObservation v = None \<and> so_DataFormat v = SecurityDataFormatInterpreted"
  then have "so_State v = ObservationStatePresent"
    by (auto simp: ValidateSecurityObservation_def security_names split: if_splits)
  with v show "\<exists>raw. ParseSecurityDescriptor raw = Inr v"
    by (auto simp: ValidateSecurityObservation_def security_names
        split: if_splits option.splits sum.splits)
next
  assume "\<exists>raw. ParseSecurityDescriptor raw = Inr v"
  then obtain raw where p: "ParseSecurityDescriptor raw = Inr v" ..
  note s = ParseSecurityDescriptor_shape [OF p]
  then have "decode_reencoded (so_RawDescriptorBase64URL v) = Some raw" by (simp add: decode_reencoded_iff)
  with s p show "ValidateSecurityObservation v = None \<and> so_DataFormat v = SecurityDataFormatInterpreted"
    by (simp add: ValidateSecurityObservation_def security_names url_encode_Nil)
qed

lemma interpreted_sacl_iff:
  "ValidateSACLObservation v = None \<and> sl_DataFormat v = SecurityDataFormatInterpreted \<longleftrightarrow>
     (\<exists>raw. ParseSACLDescriptor raw = Inr v)"
proof
  assume v: "ValidateSACLObservation v = None \<and> sl_DataFormat v = SecurityDataFormatInterpreted"
  then have "sl_State v = ObservationStatePresent"
    by (auto simp: ValidateSACLObservation_def security_names split: if_splits)
  with v show "\<exists>raw. ParseSACLDescriptor raw = Inr v"
    by (auto simp: ValidateSACLObservation_def security_names
        split: if_splits option.splits sum.splits)
next
  assume "\<exists>raw. ParseSACLDescriptor raw = Inr v"
  then obtain raw where p: "ParseSACLDescriptor raw = Inr v" ..
  note s = ParseSACLDescriptor_shape [OF p]
  then have "decode_reencoded (sl_RawDescriptorBase64URL v) = Some raw" by (simp add: decode_reencoded_iff)
  with s p show "ValidateSACLObservation v = None \<and> sl_DataFormat v = SecurityDataFormatInterpreted"
    by (simp add: ValidateSACLObservation_def security_names url_encode_Nil)
qed

section \<open>An access list is its entries, one after the other\<close>

definition ace_entry :: "bytes \<Rightarrow> bool" where
  "ace_entry e \<longleftrightarrow> 4 \<le> length e \<and> unat (le_Uint16 (slice 2 4 e)) = length e"

fun parse_each :: "nat \<Rightarrow> bytes list \<Rightarrow> string + ace_observation list" where
  "parse_each i [] = Inr []"
| "parse_each i (e # es) =
     bindE (parseACE i e) (\<lambda>ace. bindE (parse_each (Suc i) es) (\<lambda>aces. Inr (ace # aces)))"

lemma parse_each_raw: "parse_each i es = Inr aces \<Longrightarrow> map ae_RawBase64URL aces = map url_encode es"
proof (induction es arbitrary: i aces)
  case (Cons e es)
  have "ae_RawBase64URL ace = url_encode e" if "parseACE i e = Inr ace" for ace
    using that by (auto simp: parseACE_def parseSimpleSIDACE_def parseObjectACE_def Let_def
        ace_header_observation_def split: if_splits)
  with Cons show ?case by auto
qed simp

lemma slice_slice: "c + b \<le> d \<Longrightarrow> slice a b (slice c d xs) = slice (c + a) (c + b) xs"
  by (simp add: slice_def drop_take add.commute)

lemma ace_loop_iff:
  assumes "cursor \<le> aclEnd" and "aclEnd \<le> length raw"
  shows "ace_loop name raw aclEnd i count cursor = Inr aces \<longleftrightarrow>
     (\<exists>es rest. slice cursor aclEnd raw = concat es @ rest \<and> length es = count \<and>
        list_all ace_entry es \<and> parse_each i es = Inr aces)"
  using assms(1)
proof (induction count arbitrary: i cursor aces)
  case 0
  then show ?case by auto
next
  case (Suc count)
  let ?size = "unat (le_Uint16 (slice (cursor + 2) (cursor + 4) raw))"
  let ?e = "slice cursor (cursor + ?size) raw"
  show ?case
  proof
    assume l: "ace_loop name raw aclEnd i (Suc count) cursor = Inr aces"
    then obtain ace as where size: "4 \<le> ?size" "cursor + ?size \<le> aclEnd"
      and p: "parseACE i ?e = Inr ace" "ace_loop name raw aclEnd (Suc i) count (cursor + ?size) = Inr as"
      and aces: "aces = ace # as"
      by (auto simp: Let_def aceHeaderSize_def split: if_splits)
    from Suc.IH [OF size(2)] p(2) obtain es rest where
      es: "slice (cursor + ?size) aclEnd raw = concat es @ rest" "length es = count"
        "list_all ace_entry es" "parse_each (Suc i) es = Inr as" by blast
    have len: "length ?e = ?size" using size assms(2) by (simp add: length_slice)
    have "ace_entry ?e"
      using size len by (simp add: ace_entry_def slice_slice)
    moreover have "slice cursor aclEnd raw = ?e @ slice (cursor + ?size) aclEnd raw"
      using size(2) by (intro slice_split) simp_all
    ultimately have "slice cursor aclEnd raw = concat (?e # es) @ rest \<and> length (?e # es) = Suc count \<and>
        list_all ace_entry (?e # es) \<and> parse_each i (?e # es) = Inr aces"
      using es p(1) aces by simp
    then show "\<exists>es rest. slice cursor aclEnd raw = concat es @ rest \<and> length es = Suc count \<and>
        list_all ace_entry es \<and> parse_each i es = Inr aces" by blast
  next
    assume "\<exists>es rest. slice cursor aclEnd raw = concat es @ rest \<and> length es = Suc count \<and>
        list_all ace_entry es \<and> parse_each i es = Inr aces"
    then obtain e es rest where s: "slice cursor aclEnd raw = e @ concat es @ rest" "length es = count"
      and en: "ace_entry e" "list_all ace_entry es"
      and pe: "parse_each i (e # es) = Inr aces" by (auto simp: length_Suc_conv)
    have le: "cursor + length e \<le> aclEnd"
      using arg_cong [OF s(1), of length] Suc.prems assms(2) by (simp add: length_slice)
    have cut: "slice cursor aclEnd raw =
        slice cursor (cursor + length e) raw @ slice (cursor + length e) aclEnd raw"
      using le by (intro slice_split) simp_all
    have "length (slice cursor (cursor + length e) raw) = length e"
      using le assms(2) by (simp add: length_slice)
    with cut s(1) have e: "slice cursor (cursor + length e) raw = e"
      and r: "slice (cursor + length e) aclEnd raw = concat es @ rest"
      by (metis append_eq_append_conv)+
    have size: "?size = length e" "4 \<le> length e"
      using en(1) e slice_slice [of cursor 4 "cursor + length e" 2 raw] by (auto simp: ace_entry_def)
    from pe obtain ace as where "parseACE i e = Inr ace" "parse_each (Suc i) es = Inr as" "aces = ace # as"
      by auto
    with Suc.IH [OF le] r s(2) en(2) size le e
    show "ace_loop name raw aclEnd i (Suc count) cursor = Inr aces"
      by (auto simp: Let_def aceHeaderSize_def)
  qed
qed

text \<open>
  What a present access list is: eight header bytes with the size and the number of entries,
  then the entries, each of the length that it states, then slack up to the stated size.
\<close>

definition access_list_at :: "bytes \<Rightarrow> nat \<Rightarrow> acl_observation \<Rightarrow> bool" where
  "access_list_at raw start acl \<longleftrightarrow>
     (\<exists>header es slack rest aces. drop start raw = header @ concat es @ slack @ rest \<and>
        length header = 8 \<and> unat (le_Uint16 (slice 2 4 header)) = 8 + length (concat es @ slack) \<and>
        unat (le_Uint16 (slice 4 6 header)) = length es \<and> list_all ace_entry es \<and>
        parse_each 0 es = Inr aces \<and> map ae_RawBase64URL aces = map url_encode es \<and>
        acl = \<lparr>al_State = ACLStatePresent, al_Revision = FormatUint (ord (header ! 0)),
               al_Size = FormatUint (8 + length (concat es @ slack)), al_ACEs = Some aces\<rparr>)"

lemma slice_of_drop: "slice a b (drop c xs) = slice (c + a) (c + b) xs"
  by (simp add: slice_def add.commute)

lemma drop_slices:
  assumes "a \<le> b" and "b \<le> c"
  shows "drop a xs = slice a b xs @ slice b c xs @ drop c xs"
proof -
  have "slice i j xs @ drop j xs = drop i xs" if "i \<le> j" for i j
    using append_take_drop_id [of "j - i" "drop i xs"] that by (simp add: slice_def)
  then show ?thesis using assms by simp
qed

lemma parse_acl_Present:
  "parse_acl name present raw control offset = Inr acl \<and> al_State acl = ACLStatePresent \<longleftrightarrow>
     control AND present \<noteq> 0 \<and> 20 \<le> unat offset \<and> access_list_at raw (unat offset) acl"
    (is "?parsed \<longleftrightarrow> ?listed")
proof
  let ?s = "unat offset"
  let ?size = "unat (le_Uint16 (slice (?s + 2) (?s + 4) raw))"
  let ?count = "unat (le_Uint16 (slice (?s + 4) (?s + 6) raw))"
  assume p: ?parsed
  then obtain aces where head: "control AND present \<noteq> 0" "20 \<le> ?s" "8 \<le> ?size" "?s + ?size \<le> length raw"
    and l: "ace_loop name raw (?s + ?size) 0 ?count (?s + 8) = Inr aces"
    and acl: "acl = \<lparr>al_State = ACLStatePresent, al_Revision = FormatUint (ord (raw ! ?s)),
      al_Size = FormatUint ?size, al_ACEs = Some aces\<rparr>"
    by (auto simp: parse_acl_def Let_def security_sizes security_names not_less split: if_splits)
  from l head obtain es slack where es: "slice (?s + 8) (?s + ?size) raw = concat es @ slack"
    "length es = ?count" "list_all ace_entry es" "parse_each 0 es = Inr aces"
    by (auto simp: ace_loop_iff)
  let ?h = "slice ?s (?s + 8) raw"
  have "drop ?s raw = ?h @ slice (?s + 8) (?s + ?size) raw @ drop (?s + ?size) raw"
    using drop_slices [of ?s "?s + 8" "?s + ?size" raw] head by simp
  moreover have "length ?h = 8" using head by (simp add: length_slice)
  moreover have "slice 2 4 ?h = slice (?s + 2) (?s + 4) raw" "slice 4 6 ?h = slice (?s + 4) (?s + 6) raw"
    by (simp_all add: slice_slice)
  moreover have "8 + length (concat es @ slack) = ?size"
    using arg_cong [OF es(1), of length] head by (simp add: length_slice)
  moreover have "?h ! 0 = raw ! ?s" using head by (simp add: slice_def)
  ultimately have "drop ?s raw = ?h @ concat es @ slack @ drop (?s + ?size) raw \<and>
      length ?h = 8 \<and> unat (le_Uint16 (slice 2 4 ?h)) = 8 + length (concat es @ slack) \<and>
      unat (le_Uint16 (slice 4 6 ?h)) = length es \<and> list_all ace_entry es \<and> parse_each 0 es = Inr aces \<and>
      map ae_RawBase64URL aces = map url_encode es \<and>
      acl = \<lparr>al_State = ACLStatePresent, al_Revision = FormatUint (ord (?h ! 0)),
             al_Size = FormatUint (8 + length (concat es @ slack)), al_ACEs = Some aces\<rparr>"
    using es acl parse_each_raw [OF es(4)] by simp
  then show ?listed unfolding access_list_at_def using head by blast
next
  let ?s = "unat offset"
  assume l: ?listed
  then obtain header es slack rest aces where d: "drop ?s raw = header @ concat es @ slack @ rest"
    and h: "length header = 8" "unat (le_Uint16 (slice 2 4 header)) = 8 + length (concat es @ slack)"
      "unat (le_Uint16 (slice 4 6 header)) = length es"
    and es: "list_all ace_entry es" "parse_each 0 es = Inr aces"
    and acl: "acl = \<lparr>al_State = ACLStatePresent, al_Revision = FormatUint (ord (header ! 0)),
             al_Size = FormatUint (8 + length (concat es @ slack)), al_ACEs = Some aces\<rparr>"
    unfolding access_list_at_def by blast
  let ?size = "8 + length (concat es @ slack)"
  have len: "length raw = ?s + ?size + length rest"
    using arg_cong [OF d, of length] h(1) by simp
  have words: "slice (?s + 2) (?s + 4) raw = slice 2 4 header" "slice (?s + 4) (?s + 6) raw = slice 4 6 header"
    using h(1) d slice_of_drop [of 2 4 ?s raw] slice_of_drop [of 4 6 ?s raw] by (simp_all add: slice_def)
  have first: "raw ! ?s = header ! 0"
  proof -
    have "drop ?s raw ! 0 = header ! 0" using d h(1) by (simp add: nth_append)
    with len show ?thesis by simp
  qed
  have "slice (?s + 8) (?s + ?size) raw = concat es @ slack"
  proof -
    have "slice 8 ?size (drop ?s raw) = concat es @ slack" using h(1) by (simp add: d slice_def)
    then show ?thesis by (simp only: slice_of_drop)
  qed
  then have "ace_loop name raw (?s + ?size) 0 (length es) (?s + 8) = Inr aces"
    using es len by (subst ace_loop_iff) auto
  with l words h len first show ?parsed
    by (auto simp: parse_acl_def Let_def security_sizes acl)
qed

text \<open>
  C15: The reader of access lists is exact. The discretionary (and likewise the system) list of a
  descriptor is read as present exactly when the control bit is set, the offset lies behind
  the descriptor header, and the bytes there are a list: a header that states size and count,
  that many entries back to back, each as long as it says and accepted by \<^verbatim>\<open>parseACE\<close>, and slack
  up to the stated size; the result has one record per entry, in order, that keeps every byte
  of the entry.
\<close>

theorem access_lists_exact:
  "(parseDACL raw control offset = Inr acl \<and> al_State acl = ACLStatePresent \<longleftrightarrow>
      control AND seDACLPresent \<noteq> 0 \<and> 20 \<le> unat offset \<and> access_list_at raw (unat offset) acl) \<and>
   (parseSACL raw control offset = Inr acl \<and> al_State acl = ACLStatePresent \<longleftrightarrow>
      control AND seSACLPresent \<noteq> 0 \<and> 20 \<le> unat offset \<and> access_list_at raw (unat offset) acl)"
  by (simp only: parseDACL_def parseSACL_def parse_acl_Present)

text \<open>
  An interpreted security record is exactly what its raw descriptor says. The records that
  pass validation in interpreted form are the results of reading some descriptor, for the
  owner, group and discretionary list as for the system list; so what the raw bytes say is
  all that a valid record can say.
\<close>

theorem interpreted_descriptors_exact:
  "(ValidateSecurityObservation v = None \<and> so_DataFormat v = SecurityDataFormatInterpreted \<longleftrightarrow>
      (\<exists>raw. so_RawDescriptorBase64URL v = url_encode raw \<and> ParseSecurityDescriptor raw = Inr v)) \<and>
   (ValidateSACLObservation u = None \<and> sl_DataFormat u = SecurityDataFormatInterpreted \<longleftrightarrow>
      (\<exists>raw. sl_RawDescriptorBase64URL u = url_encode raw \<and> ParseSACLDescriptor raw = Inr u))"
  unfolding interpreted_security_iff interpreted_sacl_iff
  by (auto dest: ParseSecurityDescriptor_shape ParseSACLDescriptor_shape)

text \<open>The identifier of the local system account, alone and with a byte behind it.\<close>

definition local_system :: bytes where
  "local_system = map char_of [1 :: nat, 1, 0, 0, 0, 0, 0, 5, 18, 0, 0, 0]"

theorem sid_text_exact_witness:
  "\<exists>sid. sidFromBytes local_system = Inr (sid, 12) \<and>
     sidFromBytes (local_system @ ''x'') = Inr (sid, 12) \<and>
     take 12 local_system = take 12 (local_system @ ''x'')"
proof -
  have s: "sidFromBytes local_system = Inr (''S'' @ dashed (sid_numbers local_system), 12)"
    by (simp add: sidFromBytes_Inr local_system_def)
  moreover have "sidFromBytes (local_system @ ''x'') = Inr (''S'' @ dashed (sid_numbers local_system), 12)"
    by (simp add: sidFromBytes_Inr local_system_def sid_numbers_def subAuthority_def slice_def)
  ultimately show ?thesis using sid_text_exact by blast
qed

end
