(* ===== verification/Rec_Object.thy ===== *)
theory Rec_Object
  imports Rec_Security
begin

text \<open>
  Package \<^verbatim>\<open>records\<close>: the parts of an object observation (\<^verbatim>\<open>states.go\<close>, \<^verbatim>\<open>observation.go\<close>,
  \<^verbatim>\<open>stream.go\<close>, \<^verbatim>\<open>reparse.go\<close>, \<^verbatim>\<open>reparse_consistency.go\<close>, \<^verbatim>\<open>parent_binding.go\<close>,
  \<^verbatim>\<open>content_hash.go\<close>, \<^verbatim>\<open>content_prefix.go\<close>, \<^verbatim>\<open>validation.go\<close>) and their validation. The enumerations
  are strings, as in the records.
\<close>

section \<open>Metadata, paths, warnings\<close>

record metadata_observation =
  mo_LogicalSize :: string
  mo_AllocatedSize :: string
  mo_CreationTime :: string
  mo_LastWriteTime :: string
  mo_ChangeTime :: string
  mo_LastAccessTime :: string
  mo_RawAttributes :: string
  mo_LinkCount :: string

record observation_warning =
  ow_Code :: string
  ow_Detail :: string

record path_binding =
  pb_RequestedPath :: string
  pb_ResolvedPath :: string

record path_containment =
  pc_MethodVersion :: string

definition ObservationChangedDuringCollection :: string where
  "ObservationChangedDuringCollection = ''ChangedDuringCollection''"
definition ObservationComplete :: string where "ObservationComplete = ''Complete''"
definition ObservationPartial :: string where "ObservationPartial = ''Partial''"
definition ObservationReplacedDuringCollection :: string where
  "ObservationReplacedDuringCollection = ''ReplacedDuringCollection''"
definition SubjectDirectory :: string where "SubjectDirectory = ''Directory''"
definition SubjectFile :: string where "SubjectFile = ''File''"

lemmas status_names = ObservationChangedDuringCollection_def ObservationComplete_def
  ObservationPartial_def ObservationReplacedDuringCollection_def
lemmas subject_names = SubjectDirectory_def SubjectFile_def

definition ValidateMetadataObservation :: "metadata_observation \<Rightarrow> validation_error option" where
  "ValidateMetadataObservation m =
     first_err
       [validateDecimal (mo_LogicalSize m) ''metadata.logical_size'',
        validateDecimal (mo_AllocatedSize m) ''metadata.allocated_size'',
        validateDecimal (mo_RawAttributes m) ''metadata.raw_attributes'',
        validateDecimal (mo_LinkCount m) ''metadata.link_count'',
        validateTimestamp (mo_CreationTime m) ''metadata.creation_time'',
        validateTimestamp (mo_LastWriteTime m) ''metadata.last_write_time'',
        validateTimestamp (mo_ChangeTime m) ''metadata.change_time'',
        validateTimestamp (mo_LastAccessTime m) ''metadata.last_access_time'']"

definition ValidateObservationStatus :: "string \<Rightarrow> validation_error option" where
  "ValidateObservationStatus status =
     fail_if (status \<notin> {ObservationChangedDuringCollection, ObservationComplete, ObservationPartial,
         ObservationReplacedDuringCollection})
       (Invalid ''UnsupportedValue'' ''observation_status'')"

definition indexed :: "string \<Rightarrow> nat \<Rightarrow> string \<Rightarrow> string" where
  "indexed before i after = before @ ''['' @ FormatUint i @ '']'' @ after"

fun warnings_loop :: "nat \<Rightarrow> string \<Rightarrow> observation_warning list \<Rightarrow> validation_error option" where
  "warnings_loop i previous [] = None"
| "warnings_loop i previous (w # ws) =
     (case require (ow_Code w) (indexed ''warnings'' i ''.code'') of Some e \<Rightarrow> Some e
      | None \<Rightarrow>
          if previous \<noteq> [] \<and> ow_Code w \<le> previous
          then Some (Invalid ''UnsortedCollection'' ''warnings'')
          else warnings_loop (Suc i) (ow_Code w) ws)"

definition ValidateObservationWarnings :: "observation_warning list \<Rightarrow> validation_error option" where
  "ValidateObservationWarnings warnings = warnings_loop 0 [] warnings"

definition ValidatePathBinding :: "path_binding \<Rightarrow> validation_error option" where
  "ValidatePathBinding b =
     first_err
       [require (pb_RequestedPath b) ''path_binding.requested_path_utf16le_base64url'',
        validateUTF16LEBase64URL (pb_RequestedPath b) ''path_binding.requested_path_utf16le_base64url'',
        require (pb_ResolvedPath b) ''path_binding.resolved_path_utf16le_base64url'',
        validateUTF16LEBase64URL (pb_ResolvedPath b) ''path_binding.resolved_path_utf16le_base64url'']"

definition ValidatePathContainment :: "path_containment \<Rightarrow> validation_error option" where
  "ValidatePathContainment c = require (pc_MethodVersion c) ''containment.method_version''"

definition ValidateSubjectKind :: "string \<Rightarrow> validation_error option" where
  "ValidateSubjectKind kind =
     fail_if (kind \<notin> {SubjectDirectory, SubjectFile}) (Invalid ''UnsupportedValue'' ''subject_kind'')"

definition validateObservationState :: "string \<Rightarrow> string \<Rightarrow> validation_error option" where
  "validateObservationState state field =
     fail_if (state \<notin> {ObservationStateError, ObservationStatePresent})
       (Invalid ''UnsupportedValue'' field)"

section \<open>Parents\<close>

definition ParentBindingError :: string where "ParentBindingError = ''Error''"
definition ParentBindingGovernedRoot :: string where "ParentBindingGovernedRoot = ''GovernedRoot''"
definition ParentBindingPresent :: string where "ParentBindingPresent = ''Present''"

lemmas parent_names = ParentBindingError_def ParentBindingGovernedRoot_def ParentBindingPresent_def

record parent_binding =
  pa_State :: string
  pa_ObjectIdentity :: "ntfs_identity option"
  pa_ReasonCode :: string

definition ParentObjectBindingFor :: "ntfs_identity \<Rightarrow> parent_binding" where
  "ParentObjectBindingFor identity =
     \<lparr>pa_State = ParentBindingPresent, pa_ObjectIdentity = Some identity, pa_ReasonCode = []\<rparr>"

definition ParentObjectBindingError :: "string \<Rightarrow> parent_binding" where
  "ParentObjectBindingError reasonCode =
     \<lparr>pa_State = ParentBindingError, pa_ObjectIdentity = None, pa_ReasonCode = reasonCode\<rparr>"

definition ValidateParentObjectBinding :: "parent_binding \<Rightarrow> validation_error option" where
  "ValidateParentObjectBinding b =
     (if pa_State b = ParentBindingGovernedRoot then
        fail_if (pa_ObjectIdentity b \<noteq> None \<or> pa_ReasonCode b \<noteq> []) (Invalid ''Conflict'' ''parent_binding'')
      else if pa_State b = ParentBindingPresent then
        (case pa_ObjectIdentity b of
           None \<Rightarrow> Some (Invalid ''Required'' ''parent_binding.object_identity'')
         | Some identity \<Rightarrow>
             if pa_ReasonCode b \<noteq> [] then Some (Invalid ''Conflict'' ''parent_binding.reason_code'')
             else ValidateNTFSObjectIdentity identity)
      else if pa_State b = ParentBindingError then
        (if pa_ObjectIdentity b \<noteq> None then Some (Invalid ''Conflict'' ''parent_binding.object_identity'')
         else fail_if (pa_ReasonCode b = []) (Invalid ''Required'' ''parent_binding.reason_code''))
      else Some (Invalid ''UnsupportedValue'' ''parent_binding.state''))"

section \<open>Content\<close>

definition ContentHashError :: string where "ContentHashError = ''Error''"
definition ContentHashNotApplicable :: string where "ContentHashNotApplicable = ''NotApplicable''"
definition ContentHashPresent :: string where "ContentHashPresent = ''Present''"
definition ContentPrefixError :: string where "ContentPrefixError = ''Error''"
definition ContentPrefixNotApplicable :: string where "ContentPrefixNotApplicable = ''NotApplicable''"
definition ContentPrefixPresent :: string where "ContentPrefixPresent = ''Present''"
definition ContentPrefixMaxBytes :: nat where "ContentPrefixMaxBytes = 16"

lemmas content_names = ContentHashError_def ContentHashNotApplicable_def ContentHashPresent_def
  ContentPrefixError_def ContentPrefixNotApplicable_def ContentPrefixPresent_def

record content_hashes =
  ch_State :: string
  ch_BytesHashed :: string
  ch_MD5 :: string
  ch_SHA1 :: string
  ch_SHA256 :: string
  ch_ReasonCode :: string
  ch_Detail :: string

record content_prefix =
  cx_State :: string
  cx_BytesObserved :: string
  cx_PrefixBase64URL :: string
  cx_ReasonCode :: string
  cx_Detail :: string

text \<open>
  \<^verbatim>\<open>validateLowerHexHash\<close>: the comparison with \<^verbatim>\<open>strings.ToLower\<close> refuses nothing that the check
  of the digits does not refuse with the same error, and an empty value never has the length.
\<close>

definition validateLowerHexHash :: "string \<Rightarrow> nat \<Rightarrow> string \<Rightarrow> validation_error option" where
  "validateLowerHexHash v len field =
     fail_if (length v \<noteq> len \<or> \<not> list_all is_lower_hex v) (Invalid ''InvalidHash'' field)"

definition ValidateContentHashObservation :: "content_hashes \<Rightarrow> validation_error option" where
  "ValidateContentHashObservation v =
     (if ch_State v = ContentHashNotApplicable then
        fail_if (ch_BytesHashed v \<noteq> [] \<or> ch_MD5 v \<noteq> [] \<or> ch_SHA1 v \<noteq> [] \<or> ch_SHA256 v \<noteq> [] \<or>
            ch_ReasonCode v \<noteq> [] \<or> ch_Detail v \<noteq> []) (Invalid ''Conflict'' ''content_hashes'')
      else if ch_State v = ContentHashError then
        first_err
          [require (ch_ReasonCode v) ''content_hashes.reason_code'',
           fail_if (ch_BytesHashed v \<noteq> [] \<or> ch_MD5 v \<noteq> [] \<or> ch_SHA1 v \<noteq> [] \<or> ch_SHA256 v \<noteq> [])
             (Invalid ''Conflict'' ''content_hashes'')]
      else if ch_State v = ContentHashPresent then
        first_err
          [fail_if (ch_ReasonCode v \<noteq> [] \<or> ch_Detail v \<noteq> []) (Invalid ''Conflict'' ''content_hashes''),
           validateDecimal (ch_BytesHashed v) ''content_hashes.bytes_hashed'',
           validateLowerHexHash (ch_MD5 v) 32 ''content_hashes.md5'',
           validateLowerHexHash (ch_SHA1 v) 40 ''content_hashes.sha1'',
           validateLowerHexHash (ch_SHA256 v) 64 ''content_hashes.sha256'']
      else Some (Invalid ''UnsupportedValue'' ''content_hashes.state''))"

definition ValidateContentPrefixObservation :: "content_prefix \<Rightarrow> validation_error option" where
  "ValidateContentPrefixObservation v =
     (if cx_State v = ContentPrefixNotApplicable then
        fail_if (cx_BytesObserved v \<noteq> [] \<or> cx_PrefixBase64URL v \<noteq> [] \<or> cx_ReasonCode v \<noteq> [] \<or>
            cx_Detail v \<noteq> []) (Invalid ''Conflict'' ''content_prefix'')
      else if cx_State v = ContentPrefixError then
        first_err
          [require (cx_ReasonCode v) ''content_prefix.reason_code'',
           fail_if (cx_BytesObserved v \<noteq> [] \<or> cx_PrefixBase64URL v \<noteq> [])
             (Invalid ''Conflict'' ''content_prefix'')]
      else if cx_State v = ContentPrefixPresent then
        (if cx_ReasonCode v \<noteq> [] \<or> cx_Detail v \<noteq> [] then Some (Invalid ''Conflict'' ''content_prefix'')
         else case canonicalUnsigned (cx_BytesObserved v) of
           Inl _ \<Rightarrow> Some (Invalid ''InvalidDecimal'' ''content_prefix.bytes_observed'')
         | Inr count \<Rightarrow>
             if count > ContentPrefixMaxBytes
             then Some (Invalid ''InvalidDecimal'' ''content_prefix.bytes_observed'')
             else case decodeBase64URL (cx_PrefixBase64URL v) ''content_prefix.prefix_base64url'' of
               Inl e \<Rightarrow> Some e
             | Inr decoded \<Rightarrow> fail_if (length decoded \<noteq> count) (Invalid ''Conflict'' ''content_prefix''))
      else Some (Invalid ''UnsupportedValue'' ''content_prefix.state''))"

section \<open>Streams\<close>

definition StreamDefaultData :: string where "StreamDefaultData = ''DefaultData''"
definition StreamNamedData :: string where "StreamNamedData = ''NamedData''"
definition StreamOther :: string where "StreamOther = ''Other''"

lemmas stream_names = StreamDefaultData_def StreamNamedData_def StreamOther_def

record stream_identity =
  si_Kind :: string
  si_Name :: string
  si_StreamType :: string
  si_RawName :: string

record stream_observation =
  st_Identity :: stream_identity
  st_LogicalSize :: string
  st_AllocatedSize :: string

record stream_inventory =
  iv_State :: string
  iv_Streams :: "stream_observation list"
  iv_ReasonCode :: string

definition encodeUTF16LEBase64URL :: "uint16 list \<Rightarrow> string" where
  "encodeUTF16LEBase64URL units = url_encode (concat (map le_PutUint16 units))"

text \<open>A code unit as a rune in UTF-8; surrogates become the replacement character.\<close>

definition rune_utf8 :: "uint16 \<Rightarrow> string" where
  "rune_utf8 u =
     (let n = unat u in
      if n < 0x80 then [char_of n]
      else if n < 0x800 then [char_of (0xC0 + n div 64), char_of (0x80 + n mod 64)]
      else if 0xD800 \<le> n \<and> n \<le> 0xDFFF then [CHR 0xEF, CHR 0xBF, CHR 0xBD]
      else [char_of (0xE0 + n div 4096), char_of (0x80 + n div 64 mod 64), char_of (0x80 + n mod 64)])"

definition units_string :: "uint16 list \<Rightarrow> string" where
  "units_string units = concat (map rune_utf8 units)"

text \<open>The first and the last colon, or \<open>-1\<close>.\<close>

fun colon_loop :: "nat \<Rightarrow> uint16 list \<Rightarrow> int \<times> int \<Rightarrow> int \<times> int" where
  "colon_loop i [] acc = acc"
| "colon_loop i (u # us) (first, final) =
     colon_loop (Suc i) us
       (if u = 58 then (if first < 0 then int i else first, int i) else (first, final))"

definition StreamIdentityFromRawUTF16 :: "uint16 list \<Rightarrow> stream_identity" where
  "StreamIdentityFromRawUTF16 name =
     (case colon_loop 0 name (-1, -1) of (first, final) \<Rightarrow>
        if first \<noteq> 0 \<or> final \<le> first
        then \<lparr>si_Kind = StreamOther, si_Name = encodeUTF16LEBase64URL name, si_StreamType = ''Unknown'',
              si_RawName = encodeUTF16LEBase64URL name\<rparr>
        else
          let streamName = slice (nat (first + 1)) (nat final) name;
              streamType = units_string (drop (nat (final + 1)) name)
          in if streamName = [] \<and> streamType = ''$DATA''
             then \<lparr>si_Kind = StreamDefaultData, si_Name = [], si_StreamType = streamType,
                   si_RawName = encodeUTF16LEBase64URL name\<rparr>
             else \<lparr>si_Kind = (if streamType = ''$DATA'' then StreamNamedData else StreamOther),
                   si_Name = encodeUTF16LEBase64URL streamName, si_StreamType = streamType,
                   si_RawName = encodeUTF16LEBase64URL name\<rparr>)"

definition ValidateStreamIdentity :: "stream_identity \<Rightarrow> validation_error option" where
  "ValidateStreamIdentity v =
     (case require (si_RawName v) ''stream_identity.raw_name_utf16le_base64url'' of Some e \<Rightarrow> Some e
      | None \<Rightarrow>
        (case decodeUTF16LEBase64URLUnits (si_RawName v) ''stream_identity.raw_name_utf16le_base64url'' of
           Inl e \<Rightarrow> Some e
         | Inr rawUnits \<Rightarrow>
             first_err
               [if si_Kind v = StreamDefaultData
                then fail_if (si_Name v \<noteq> [] \<or> si_StreamType v \<noteq> ''$DATA'')
                  (Invalid ''Conflict'' ''stream_identity'')
                else if si_Kind v \<in> {StreamNamedData, StreamOther}
                then first_err
                  [require (si_Name v) ''stream_identity.name_utf16le_base64url'',
                   validateUTF16LEBase64URL (si_Name v) ''stream_identity.name_utf16le_base64url'',
                   require (si_StreamType v) ''stream_identity.stream_type'']
                else Some (Invalid ''UnsupportedValue'' ''stream_identity.kind''),
                fail_if (v \<noteq> StreamIdentityFromRawUTF16 rawUnits)
                  (Invalid ''Conflict'' ''stream_identity'')]))"

fun streams_loop :: "nat \<Rightarrow> string \<Rightarrow> stream_observation list \<Rightarrow> validation_error option" where
  "streams_loop i previous [] = None"
| "streams_loop i previous (s # ss) =
     (case first_err
        [ValidateStreamIdentity (st_Identity s),
         validateDecimal (st_LogicalSize s) (indexed ''stream_inventory.streams'' i ''.logical_size''),
         validateDecimal (st_AllocatedSize s) (indexed ''stream_inventory.streams'' i ''.allocated_size'')]
      of Some e \<Rightarrow> Some e
      | None \<Rightarrow>
          if previous \<noteq> [] \<and> si_RawName (st_Identity s) \<le> previous
          then Some (Invalid ''UnsortedCollection'' ''stream_inventory.streams'')
          else streams_loop (Suc i) (si_RawName (st_Identity s)) ss)"

definition ValidateStreamInventory :: "stream_inventory \<Rightarrow> validation_error option" where
  "ValidateStreamInventory v =
     (case validateObservationState (iv_State v) ''stream_inventory.state'' of Some e \<Rightarrow> Some e
      | None \<Rightarrow>
          if iv_State v = ObservationStateError then
            first_err
              [require (iv_ReasonCode v) ''stream_inventory.reason_code'',
               fail_if (iv_Streams v \<noteq> []) (Invalid ''Conflict'' ''stream_inventory.streams'')]
          else if iv_ReasonCode v \<noteq> [] then Some (Invalid ''Conflict'' ''stream_inventory.reason_code'')
          else streams_loop 0 [] (iv_Streams v))"

section \<open>Reparse points\<close>

definition ReparseDataFormatMountPoint :: string where "ReparseDataFormatMountPoint = ''MountPoint''"
definition ReparseDataFormatNotApplicable :: string where
  "ReparseDataFormatNotApplicable = ''NotApplicable''"
definition ReparseDataFormatNotKnown :: string where "ReparseDataFormatNotKnown = ''NotKnown''"
definition ReparseDataFormatRaw :: string where "ReparseDataFormatRaw = ''Raw''"
definition ReparseDataFormatSymbolicLink :: string where
  "ReparseDataFormatSymbolicLink = ''SymbolicLink''"
definition ReparseDataStateError :: string where "ReparseDataStateError = ''Error''"
definition ReparseDataStateNotApplicable :: string where
  "ReparseDataStateNotApplicable = ''NotApplicable''"
definition ReparseDataStatePresent :: string where "ReparseDataStatePresent = ''Present''"
definition ReparseStateNotPresent :: string where "ReparseStateNotPresent = ''NotPresent''"
definition ReparseStatePresent :: string where "ReparseStatePresent = ''Present''"
definition reparseTagMountPointCanonical :: string where
  "reparseTagMountPointCanonical = ''0xA0000003''"
definition reparseTagSymlinkCanonical :: string where
  "reparseTagSymlinkCanonical = ''0xA000000C''"

lemmas reparse_names = ReparseDataFormatMountPoint_def ReparseDataFormatNotApplicable_def
  ReparseDataFormatNotKnown_def ReparseDataFormatRaw_def ReparseDataFormatSymbolicLink_def
  ReparseDataStateError_def ReparseDataStateNotApplicable_def ReparseDataStatePresent_def
  ReparseStateNotPresent_def ReparseStatePresent_def

record reparse_observation =
  rp_DataFormat :: string
  rp_DataState :: string
  rp_PrintName :: string
  rp_RawBuffer :: string
  rp_ReasonCode :: string
  rp_State :: string
  rp_SubstituteName :: string
  rp_SymbolicLinkFlags :: string
  rp_Tag :: string
  rp_TagName :: string

text \<open>\<^verbatim>\<open>fmt.Sprintf("0x%08X", tag)\<close>.\<close>

definition hex_upper :: "char \<Rightarrow> char" where
  "hex_upper c = (if 97 \<le> ord c \<and> ord c \<le> 102 then char_of (ord c - 32) else c)"

definition reparseTagString :: "uint32 \<Rightarrow> string" where
  "reparseTagString tag = ''0x'' @ map hex_upper (hex_EncodeToString (be_PutUint32 tag))"

definition validateHex32 :: "string \<Rightarrow> string \<Rightarrow> validation_error option" where
  "validateHex32 v field =
     fail_if (length v \<noteq> 10 \<or> slice 0 2 v \<noteq> ''0x'' \<or>
         \<not> list_all (\<lambda>c. 48 \<le> ord c \<and> ord c \<le> 57 \<or> 65 \<le> ord c \<and> ord c \<le> 70) (drop 2 v))
       (Invalid ''InvalidHex32'' field)"

definition validateReparseTag :: "string \<Rightarrow> string \<Rightarrow> validation_error option" where
  "validateReparseTag v field =
     (case validateHex32 v field of Some _ \<Rightarrow> Some (Invalid ''InvalidReparseTag'' field) | None \<Rightarrow> None)"

definition reparseTagNames :: "(string \<times> string) list" where
  "reparseTagNames =
     [(''0x00000000'', ''IO_REPARSE_TAG_RESERVED_ZERO''), (''0x00000001'', ''IO_REPARSE_TAG_RESERVED_ONE''),
      (''0x00000002'', ''IO_REPARSE_TAG_RESERVED_TWO''), (''0x80000005'', ''IO_REPARSE_TAG_DRIVE_EXTENDER''),
      (''0x80000006'', ''IO_REPARSE_TAG_HSM2''), (''0x80000007'', ''IO_REPARSE_TAG_SIS''),
      (''0x80000008'', ''IO_REPARSE_TAG_WIM''), (''0x80000009'', ''IO_REPARSE_TAG_CSV''),
      (''0x8000000A'', ''IO_REPARSE_TAG_DFS''), (''0x8000000B'', ''IO_REPARSE_TAG_FILTER_MANAGER''),
      (''0x80000012'', ''IO_REPARSE_TAG_DFSR''), (''0x80000013'', ''IO_REPARSE_TAG_DEDUP''),
      (''0x80000014'', ''IO_REPARSE_TAG_NFS''), (''0x80000015'', ''IO_REPARSE_TAG_FILE_PLACEHOLDER''),
      (''0x80000016'', ''IO_REPARSE_TAG_DFM''), (''0x80000017'', ''IO_REPARSE_TAG_WOF''),
      (''0x80000018'', ''IO_REPARSE_TAG_WCI''), (''0x8000001B'', ''IO_REPARSE_TAG_APPEXECLINK''),
      (''0x8000001E'', ''IO_REPARSE_TAG_STORAGE_SYNC''), (''0x80000020'', ''IO_REPARSE_TAG_UNHANDLED''),
      (''0x80000021'', ''IO_REPARSE_TAG_ONEDRIVE''), (''0x80000023'', ''IO_REPARSE_TAG_AF_UNIX''),
      (''0x80000024'', ''IO_REPARSE_TAG_LX_FIFO''), (''0x80000025'', ''IO_REPARSE_TAG_LX_CHR''),
      (''0x80000026'', ''IO_REPARSE_TAG_LX_BLK''), (''0x9000001A'', ''IO_REPARSE_TAG_CLOUD''),
      (''0x9000001C'', ''IO_REPARSE_TAG_PROJFS''), (''0x90000027'', ''IO_REPARSE_TAG_STORAGE_SYNC_FOLDER''),
      (''0x90001018'', ''IO_REPARSE_TAG_WCI_1''), (''0x9000101A'', ''IO_REPARSE_TAG_CLOUD_1''),
      (''0x9000201A'', ''IO_REPARSE_TAG_CLOUD_2''), (''0x9000301A'', ''IO_REPARSE_TAG_CLOUD_3''),
      (''0x9000401A'', ''IO_REPARSE_TAG_CLOUD_4''), (''0x9000501A'', ''IO_REPARSE_TAG_CLOUD_5''),
      (''0x9000601A'', ''IO_REPARSE_TAG_CLOUD_6''), (''0x9000701A'', ''IO_REPARSE_TAG_CLOUD_7''),
      (''0x9000801A'', ''IO_REPARSE_TAG_CLOUD_8''), (''0x9000901A'', ''IO_REPARSE_TAG_CLOUD_9''),
      (''0x9000A01A'', ''IO_REPARSE_TAG_CLOUD_A''), (''0x9000B01A'', ''IO_REPARSE_TAG_CLOUD_B''),
      (''0x9000C01A'', ''IO_REPARSE_TAG_CLOUD_C''), (''0x9000D01A'', ''IO_REPARSE_TAG_CLOUD_D''),
      (''0x9000E01A'', ''IO_REPARSE_TAG_CLOUD_E''), (''0x9000F01A'', ''IO_REPARSE_TAG_CLOUD_F''),
      (''0xA0000003'', ''IO_REPARSE_TAG_MOUNT_POINT''), (''0xA000000C'', ''IO_REPARSE_TAG_SYMLINK''),
      (''0xA0000010'', ''IO_REPARSE_TAG_IIS_CACHE''), (''0xA0000019'', ''IO_REPARSE_TAG_GLOBAL_REPARSE''),
      (''0xA000001D'', ''IO_REPARSE_TAG_LX_SYMLINK''), (''0xA000001F'', ''IO_REPARSE_TAG_WCI_TOMBSTONE''),
      (''0xA0000022'', ''IO_REPARSE_TAG_PROJFS_TOMBSTONE''), (''0xA0000027'', ''IO_REPARSE_TAG_WCI_LINK''),
      (''0xA0001027'', ''IO_REPARSE_TAG_WCI_LINK_1''), (''0xC0000004'', ''IO_REPARSE_TAG_HSM''),
      (''0xC0000014'', ''IO_REPARSE_TAG_APPXSTRM'')]"

definition ReparseTagName :: "string \<Rightarrow> string" where
  "ReparseTagName tag = (case map_of reparseTagNames tag of Some name \<Rightarrow> name | None \<Rightarrow> ''NotKnown'')"

record parsed_reparse =
  pr_DataFormat :: string
  pr_PrintName :: string
  pr_SubstituteName :: string
  pr_SymbolicLinkFlags :: string

definition reparseUTF16Field :: "bytes \<Rightarrow> nat \<Rightarrow> nat \<Rightarrow> nat \<Rightarrow> nat \<Rightarrow> string + string" where
  "reparseUTF16Field raw pathStart offset len dataEnd =
     (if offset mod 2 \<noteq> 0 \<or> len mod 2 \<noteq> 0 then Inl ''invalid UTF-16 reparse offset or length''
      else if pathStart + offset + len > dataEnd \<or> pathStart + offset + len > length raw
      then Inl ''reparse UTF-16 field exceeds payload''
      else Inr (url_encode (slice (pathStart + offset) (pathStart + offset + len) raw)))"

definition word16_at :: "bytes \<Rightarrow> nat \<Rightarrow> nat" where
  "word16_at raw i = unat (le_Uint16 (slice i (i + 2) raw))"

text \<open>Whether the tag is one FI interprets, and the parsed fields or the error.\<close>

definition parseKnownReparseBuffer :: "bytes \<Rightarrow> bool \<times> (string + parsed_reparse)" where
  "parseKnownReparseBuffer raw =
     (if length raw < 8 then (False, Inl ''reparse buffer shorter than header'')
      else
        let tag = reparseTagString (le_Uint32 (slice 0 4 raw));
            dataLength = word16_at raw 4;
            dataEnd = 8 + dataLength
        in if dataEnd > length raw
           then (tag = reparseTagMountPointCanonical \<or> tag = reparseTagSymlinkCanonical,
                 Inl ''reparse data length exceeds buffer'')
           else if tag = reparseTagMountPointCanonical then
             (True,
              if dataLength < 8 then Inl ''mount-point payload too short''
              else bindE (reparseUTF16Field raw 16 (word16_at raw 8) (word16_at raw 10) dataEnd) (\<lambda>substitute.
                bindE (reparseUTF16Field raw 16 (word16_at raw 12) (word16_at raw 14) dataEnd) (\<lambda>printName.
                Inr \<lparr>pr_DataFormat = ReparseDataFormatMountPoint, pr_PrintName = printName,
                     pr_SubstituteName = substitute, pr_SymbolicLinkFlags = []\<rparr>)))
           else if tag = reparseTagSymlinkCanonical then
             (True,
              if dataLength < 12 then Inl ''symbolic-link payload too short''
              else bindE (reparseUTF16Field raw 20 (word16_at raw 8) (word16_at raw 10) dataEnd) (\<lambda>substitute.
                bindE (reparseUTF16Field raw 20 (word16_at raw 12) (word16_at raw 14) dataEnd) (\<lambda>printName.
                Inr \<lparr>pr_DataFormat = ReparseDataFormatSymbolicLink, pr_PrintName = printName,
                     pr_SubstituteName = substitute,
                     pr_SymbolicLinkFlags = reparseTagString (le_Uint32 (slice 16 20 raw))\<rparr>)))
           else (False, Inr \<lparr>pr_DataFormat = [], pr_PrintName = [], pr_SubstituteName = [],
                            pr_SymbolicLinkFlags = []\<rparr>))"

definition optional_utf16 :: "string \<Rightarrow> string \<Rightarrow> validation_error option" where
  "optional_utf16 v field = (if v = [] then None else validateUTF16LEBase64URL v field)"

definition reparse_names_match :: "reparse_observation \<Rightarrow> parsed_reparse \<Rightarrow> validation_error option" where
  "reparse_names_match v parsed =
     first_err
       [optional_utf16 (rp_PrintName v) ''reparse.print_name_utf16le_base64url'',
        optional_utf16 (rp_SubstituteName v) ''reparse.substitute_name_utf16le_base64url'',
        fail_if (rp_PrintName v \<noteq> pr_PrintName parsed)
          (Invalid ''Conflict'' ''reparse.print_name_utf16le_base64url''),
        fail_if (rp_SubstituteName v \<noteq> pr_SubstituteName parsed)
          (Invalid ''Conflict'' ''reparse.substitute_name_utf16le_base64url'')]"

definition validateReparsePayloadConsistency ::
  "reparse_observation \<Rightarrow> bytes \<Rightarrow> validation_error option" where
  "validateReparsePayloadConsistency v raw =
     (let (known, result) = parseKnownReparseBuffer raw;
          malformed = Some (Invalid ''InvalidReparseBuffer'' ''reparse.raw_buffer_base64url'')
      in if rp_DataFormat v = ReparseDataFormatMountPoint then
           (case result of Inl _ \<Rightarrow> malformed
            | Inr parsed \<Rightarrow>
                if \<not> known \<or> pr_DataFormat parsed \<noteq> ReparseDataFormatMountPoint then malformed
                else reparse_names_match v parsed)
         else if rp_DataFormat v = ReparseDataFormatSymbolicLink then
           (case result of Inl _ \<Rightarrow> malformed
            | Inr parsed \<Rightarrow>
                if \<not> known \<or> pr_DataFormat parsed \<noteq> ReparseDataFormatSymbolicLink then malformed
                else first_err
                  [validateHex32 (rp_SymbolicLinkFlags v) ''reparse.symbolic_link_flags'',
                   reparse_names_match v parsed,
                   fail_if (rp_SymbolicLinkFlags v \<noteq> pr_SymbolicLinkFlags parsed)
                     (Invalid ''Conflict'' ''reparse.symbolic_link_flags'')])
         else if rp_DataFormat v = ReparseDataFormatRaw then
           (case result of
              Inr _ \<Rightarrow> fail_if known (Invalid ''Conflict'' ''reparse.data_format'')
            | Inl _ \<Rightarrow> fail_if (known \<and> rp_ReasonCode v = []) (Invalid ''Required'' ''reparse.reason_code''))
         else None)"

definition reparse_format_check :: "reparse_observation \<Rightarrow> validation_error option" where
  "reparse_format_check v =
     (if rp_DataFormat v = ReparseDataFormatMountPoint then
        fail_if (rp_Tag v \<noteq> reparseTagMountPointCanonical \<or> rp_SymbolicLinkFlags v \<noteq> [] \<or>
            rp_ReasonCode v \<noteq> []) (Invalid ''Conflict'' ''reparse.data_format'')
      else if rp_DataFormat v = ReparseDataFormatRaw then
        fail_if (rp_PrintName v \<noteq> [] \<or> rp_SubstituteName v \<noteq> [] \<or> rp_SymbolicLinkFlags v \<noteq> [])
          (Invalid ''Conflict'' ''reparse'')
      else if rp_DataFormat v = ReparseDataFormatSymbolicLink then
        first_err
          [fail_if (rp_Tag v \<noteq> reparseTagSymlinkCanonical \<or> rp_ReasonCode v \<noteq> [])
             (Invalid ''Conflict'' ''reparse.data_format''),
           require (rp_SymbolicLinkFlags v) ''reparse.symbolic_link_flags'']
      else if rp_DataFormat v \<in> {ReparseDataFormatNotApplicable, ReparseDataFormatNotKnown}
      then Some (Invalid ''Conflict'' ''reparse.data_format'')
      else Some (Invalid ''UnsupportedValue'' ''reparse.data_format''))"

definition reparse_data_present :: "reparse_observation \<Rightarrow> validation_error option" where
  "reparse_data_present v =
     (case require (rp_RawBuffer v) ''reparse.raw_buffer_base64url'' of Some e \<Rightarrow> Some e
      | None \<Rightarrow>
        (case decodeBase64URL (rp_RawBuffer v) ''reparse.raw_buffer_base64url'' of
           Inl e \<Rightarrow> Some e
         | Inr raw \<Rightarrow>
             if length raw < 8
             then Some (Invalid ''InvalidReparseBuffer'' ''reparse.raw_buffer_base64url'')
             else if reparseTagString (le_Uint32 (slice 0 4 raw)) \<noteq> rp_Tag v
             then Some (Invalid ''Conflict'' ''reparse.raw_buffer_base64url'')
             else first_err [reparse_format_check v, validateReparsePayloadConsistency v raw]))"

definition ValidateReparseObservation :: "reparse_observation \<Rightarrow> validation_error option" where
  "ValidateReparseObservation v =
     (if rp_State v = ReparseStateNotPresent then
        fail_if (rp_DataFormat v \<noteq> ReparseDataFormatNotApplicable \<or>
            rp_DataState v \<noteq> ReparseDataStateNotApplicable \<or> rp_PrintName v \<noteq> [] \<or>
            rp_RawBuffer v \<noteq> [] \<or> rp_ReasonCode v \<noteq> [] \<or> rp_SubstituteName v \<noteq> [] \<or>
            rp_SymbolicLinkFlags v \<noteq> [] \<or> rp_Tag v \<noteq> [] \<or> rp_TagName v \<noteq> [])
          (Invalid ''Conflict'' ''reparse'')
      else if rp_State v = ReparseStatePresent then
        (case first_err
           [validateReparseTag (rp_Tag v) ''reparse.tag'',
            fail_if (rp_TagName v \<noteq> ReparseTagName (rp_Tag v)) (Invalid ''Conflict'' ''reparse.tag_name'')]
         of Some e \<Rightarrow> Some e
         | None \<Rightarrow>
             if rp_DataState v = ReparseDataStateError then
               first_err
                 [fail_if (rp_DataFormat v \<noteq> ReparseDataFormatNotKnown)
                    (Invalid ''Conflict'' ''reparse.data_format''),
                  require (rp_ReasonCode v) ''reparse.reason_code'',
                  fail_if (rp_PrintName v \<noteq> [] \<or> rp_RawBuffer v \<noteq> [] \<or> rp_SubstituteName v \<noteq> [] \<or>
                      rp_SymbolicLinkFlags v \<noteq> []) (Invalid ''Conflict'' ''reparse'')]
             else if rp_DataState v = ReparseDataStateNotApplicable
             then Some (Invalid ''Conflict'' ''reparse.data_state'')
             else if rp_DataState v = ReparseDataStatePresent then reparse_data_present v
             else Some (Invalid ''UnsupportedValue'' ''reparse.data_state''))
      else Some (Invalid ''UnsupportedValue'' ''reparse.state''))"

section \<open>Code units and their text\<close>

lemma le_PutUint16_bytes: "\<exists>a b. le_PutUint16 u = [a, b]"
  using length_puts(3) [of u] by (cases "le_PutUint16 u" rule: utf16_units.cases) auto

lemma utf16_units_concat [simp]: "utf16_units (concat (map le_PutUint16 us)) = us"
proof (induction us)
  case (Cons u us)
  obtain a b where p: "le_PutUint16 u = [a, b]" using le_PutUint16_bytes by blast
  then have "le_Uint16 [a, b] = u" using uint_put_get(3) [of u] by simp
  with p Cons show ?case by simp
qed simp

lemma concat_utf16_units: "even (length d) \<Longrightarrow> concat (map le_PutUint16 (utf16_units d)) = d"
  by (induction d rule: utf16_units.induct) auto

lemma length_concat_units [simp]: "length (concat (map le_PutUint16 us)) = 2 * length us"
  by (induction us) simp_all

lemma decodeUTF16_iff:
  "decodeUTF16LEBase64URLUnits v f = Inr us \<longleftrightarrow> v = encodeUTF16LEBase64URL us"
proof
  assume "decodeUTF16LEBase64URLUnits v f = Inr us"
  then obtain d where "v = url_encode d" "even (length d)" "us = utf16_units d"
    by (auto simp: decodeUTF16LEBase64URLUnits_def decodeBase64URL_iff even_iff_mod_2_eq_zero
        split: if_splits)
  then show "v = encodeUTF16LEBase64URL us" by (simp add: encodeUTF16LEBase64URL_def concat_utf16_units)
next
  assume "v = encodeUTF16LEBase64URL us"
  then have "decodeBase64URL v f = Inr (concat (map le_PutUint16 us))"
    by (simp add: decodeBase64URL_iff encodeUTF16LEBase64URL_def)
  then show "decodeUTF16LEBase64URLUnits v f = Inr us"
    by (simp add: decodeUTF16LEBase64URLUnits_def)
qed

lemma encodeUTF16_inj: "encodeUTF16LEBase64URL us = encodeUTF16LEBase64URL vs \<longleftrightarrow> us = vs"
proof
  assume "encodeUTF16LEBase64URL us = encodeUTF16LEBase64URL vs"
  then have "decodeUTF16LEBase64URLUnits (encodeUTF16LEBase64URL us) [] = Inr vs"
    by (simp add: decodeUTF16_iff)
  moreover have "decodeUTF16LEBase64URLUnits (encodeUTF16LEBase64URL us) [] = Inr us"
    by (simp add: decodeUTF16_iff)
  ultimately show "us = vs" by simp
qed simp

lemma encodeUTF16_Nil [simp]: "encodeUTF16LEBase64URL us = [] \<longleftrightarrow> us = []"
proof -
  have "concat (map le_PutUint16 us) = [] \<longleftrightarrow> us = []"
    by (metis length_0_conv length_concat_units mult_is_0 zero_neq_numeral)
  then show ?thesis by (simp only: encodeUTF16LEBase64URL_def url_encode_Nil)
qed

lemma encodeUTF16_empty [simp]: "encodeUTF16LEBase64URL [] = []"
  by simp

lemma validate_encoded [simp]: "validateUTF16LEBase64URL (encodeUTF16LEBase64URL us) f = None"
  unfolding validateUTF16LEBase64URL_None encodeUTF16LEBase64URL_def
  by (rule exI [of _ "concat (map le_PutUint16 us)"]) simp

section \<open>The name of a stream decides its record\<close>

lemma colon_loop_append:
  "colon_loop i (us @ vs) acc = colon_loop (i + length us) vs (colon_loop i us acc)"
  by (induction us arbitrary: i acc) auto

lemma colon_loop_none: "58 \<notin> set us \<Longrightarrow> colon_loop i us acc = acc"
  by (induction us arbitrary: i acc) auto

lemma colon_loop_keeps: "0 \<le> a \<Longrightarrow> fst (colon_loop i us (a, b)) = a"
  by (induction us arbitrary: i b) auto

lemma colon_loop_first: "a \<noteq> 0 \<Longrightarrow> 1 \<le> i \<Longrightarrow> fst (colon_loop i us (a, b)) \<noteq> 0"
  by (induction us arbitrary: i a b) auto

definition stream_parts :: "uint16 list \<Rightarrow> uint16 list \<Rightarrow> uint16 list \<Rightarrow> bool" where
  "stream_parts name streamName streamType \<longleftrightarrow>
     name = [58] @ streamName @ [58] @ streamType \<and> 58 \<notin> set streamType"

lemma colon_loop_parts: "stream_parts name sn ty \<Longrightarrow> colon_loop 0 name (-1, -1) = (0, int (length sn) + 1)"
proof -
  assume "stream_parts name sn ty"
  then have n: "name = [58] @ sn @ [58] @ ty" "58 \<notin> set ty" by (simp_all add: stream_parts_def)
  obtain l where l: "colon_loop 1 sn (0, 0) = (0, l)"
    using colon_loop_keeps [of 0 1 sn 0] by (cases "colon_loop 1 sn (0, 0)") auto
  show ?thesis using l [unfolded One_nat_def] by (simp add: n colon_loop_append colon_loop_none)
qed

lemma colon_loop_unparted:
  assumes "\<nexists>sn ty. stream_parts name sn ty"
  shows "\<exists>a b. colon_loop 0 name (-1, -1) = (a, b) \<and> (a \<noteq> 0 \<or> b \<le> a)"
proof (cases name)
  case (Cons u us)
  show ?thesis
  proof (cases "u = 58")
    case True
    have "58 \<notin> set us"
    proof
      assume "58 \<in> set us"
      then obtain sn ty where "us = sn @ 58 # ty" "58 \<notin> set ty" by (metis split_list_last)
      with Cons True have "stream_parts name sn ty" by (simp add: stream_parts_def)
      with assms show False by blast
    qed
    with Cons True show ?thesis by (simp add: colon_loop_none)
  next
    case False
    with Cons have "fst (colon_loop 0 name (-1, -1)) \<noteq> 0" using colon_loop_first [of "-1" 1 us "-1"] by simp
    then show ?thesis by (cases "colon_loop 0 name (-1, -1)") auto
  qed
qed simp

text \<open>The two shapes of a stream record, by the shape of the name.\<close>

lemma StreamIdentity_parts:
  assumes "stream_parts name sn ty"
  shows "StreamIdentityFromRawUTF16 name =
     \<lparr>si_Kind = (if units_string ty = ''$DATA'' then if sn = [] then StreamDefaultData else StreamNamedData
                 else StreamOther),
      si_Name = encodeUTF16LEBase64URL sn, si_StreamType = units_string ty,
      si_RawName = encodeUTF16LEBase64URL name\<rparr>"
proof -
  have n: "name = [58] @ sn @ [58] @ ty" using assms by (simp add: stream_parts_def)
  have "slice (Suc 0) (Suc (length sn)) name = sn" by (simp add: n slice_def)
  moreover have "drop (Suc (Suc (length sn))) name = ty" by (simp add: n)
  ultimately show ?thesis
    by (simp add: StreamIdentityFromRawUTF16_def colon_loop_parts [OF assms] Let_def nat_add_distrib)
qed

lemma StreamIdentity_other:
  assumes "\<nexists>sn ty. stream_parts name sn ty"
  shows "StreamIdentityFromRawUTF16 name =
     \<lparr>si_Kind = StreamOther, si_Name = encodeUTF16LEBase64URL name, si_StreamType = ''Unknown'',
      si_RawName = encodeUTF16LEBase64URL name\<rparr>"
  using colon_loop_unparted [OF assms] by (auto simp: StreamIdentityFromRawUTF16_def)

lemma units_string_Nil [simp]: "units_string ty = [] \<longleftrightarrow> ty = []"
proof -
  have "rune_utf8 u \<noteq> []" for u by (simp add: rune_utf8_def Let_def)
  then show ?thesis by (cases ty) (simp_all add: units_string_def)
qed

lemma StreamIdentity_raw [simp]: "si_RawName (StreamIdentityFromRawUTF16 name) = encodeUTF16LEBase64URL name"
  by (simp add: StreamIdentityFromRawUTF16_def Let_def split: prod.splits)

text \<open>
  The names whose record is valid: an unnamed stream must be of type \<^verbatim>\<open>$DATA\<close>, and a name that
  is split at colons must have a type.
\<close>

definition stream_name_reportable :: "uint16 list \<Rightarrow> bool" where
  "stream_name_reportable name \<longleftrightarrow>
     name \<noteq> [] \<and>
     (\<forall>sn ty. stream_parts name sn ty \<longrightarrow>
        (if sn = [] then units_string ty = ''$DATA'' else ty \<noteq> []))"

lemma stream_parts_unique:
  assumes "stream_parts name sn ty" and "stream_parts name sn' ty'"
  shows "sn' = sn \<and> ty' = ty"
  using assms StreamIdentity_parts [OF assms(1)] colon_loop_parts [OF assms(1)] colon_loop_parts [OF assms(2)]
  by (auto simp: stream_parts_def append_eq_append_conv)

lemma ValidateStreamIdentity_None:
  assumes "v = StreamIdentityFromRawUTF16 name"
  shows "ValidateStreamIdentity v = None \<longleftrightarrow>
     name \<noteq> [] \<and>
     (if si_Kind v = StreamDefaultData then si_Name v = [] \<and> si_StreamType v = ''$DATA''
      else si_Kind v \<in> {StreamNamedData, StreamOther} \<and> si_Name v \<noteq> [] \<and>
        validateUTF16LEBase64URL (si_Name v) ''stream_identity.name_utf16le_base64url'' = None \<and>
        si_StreamType v \<noteq> [])"
proof -
  have raw: "si_RawName v = encodeUTF16LEBase64URL name" by (simp add: assms)
  then have "decodeUTF16LEBase64URLUnits (si_RawName v) f = Inr name" for f
    by (simp add: decodeUTF16_iff)
  then show ?thesis using raw
    by (cases "name = []"; cases "si_Kind v = StreamDefaultData")
       (auto simp: ValidateStreamIdentity_def require_def assms [symmetric])
qed

lemma ValidateStreamIdentity_made:
  "ValidateStreamIdentity (StreamIdentityFromRawUTF16 name) = None \<longleftrightarrow> stream_name_reportable name"
proof (cases "\<exists>sn ty. stream_parts name sn ty")
  case True
  then obtain sn ty where p: "stream_parts name sn ty" by blast
  have r: "stream_name_reportable name \<longleftrightarrow>
      name \<noteq> [] \<and> (if sn = [] then units_string ty = ''$DATA'' else ty \<noteq> [])"
    using p stream_parts_unique [OF p] unfolding stream_name_reportable_def by metis
  have "ty \<noteq> []" if "units_string ty = ''$DATA''" using that by (cases ty) (simp_all add: units_string_def)
  with ValidateStreamIdentity_None [OF refl, of name] r show ?thesis
    by (simp add: StreamIdentity_parts [OF p] stream_names split: if_splits)
next
  case False
  then have "stream_name_reportable name \<longleftrightarrow> name \<noteq> []" by (auto simp: stream_name_reportable_def)
  with ValidateStreamIdentity_None [OF refl, of name] show ?thesis
    by (simp add: StreamIdentity_other [OF False] stream_names)
qed

text \<open>
  A valid stream record is the record of its raw name, and of no other. A record passes
  validation exactly when it is what \<^verbatim>\<open>StreamIdentityFromRawUTF16\<close> makes of some name of code
  units that is not empty, has a type behind the last of several colons, and, when nothing
  stands between the first and the last colon, has the type \<^verbatim>\<open>$DATA\<close>.
\<close>

theorem stream_identity_exact:
  "ValidateStreamIdentity v = None \<longleftrightarrow>
     (\<exists>name. v = StreamIdentityFromRawUTF16 name \<and> stream_name_reportable name)"
proof
  assume v: "ValidateStreamIdentity v = None"
  then obtain name where "v = StreamIdentityFromRawUTF16 name"
    by (auto simp: ValidateStreamIdentity_def split: option.splits sum.splits)
  with v ValidateStreamIdentity_made show
    "\<exists>name. v = StreamIdentityFromRawUTF16 name \<and> stream_name_reportable name" by blast
qed (auto simp: ValidateStreamIdentity_made)

end
