(* ===== verification/Ntfs_Parts.thy ===== *)
theory Ntfs_Parts
  imports Usn_Journal Rec_Object
begin

text \<open>
  Package \<^verbatim>\<open>windows/ntfs\<close>: paths of code units and containment (\<^verbatim>\<open>path.go\<close>, the parent of a
  volume path in \<^verbatim>\<open>parent_binding_windows.go\<close>), object identities (\<^verbatim>\<open>convert.go\<close>,
  \<^verbatim>\<open>fileid_windows.go\<close>), reparse buffers (\<^verbatim>\<open>reparse.go\<close>), the stream list of
  \<^verbatim>\<open>syscall_windows.go\<close>, and the metadata of an open handle (\<^verbatim>\<open>collector_opened_windows.go\<close>).
\<close>

section \<open>Errors\<close>

definition ErrInvalidPath :: go_err where "ErrInvalidPath = ErrorsNew ''path is invalid''"
definition ErrMalformedReparseData :: go_err where
  "ErrMalformedReparseData = ErrorsNew ''Windows returned malformed reparse data''"
definition ErrMalformedStreamInfo :: go_err where
  "ErrMalformedStreamInfo = ErrorsNew ''Windows returned malformed FILE_STREAM_INFO data''"
definition ErrNotLocalVolume :: go_err where
  "ErrNotLocalVolume = ErrorsNew ''path is not on a local volume''"
definition ErrStreamQualifiedPath :: go_err where
  "ErrStreamQualifiedPath = ErrorsNew ''path must identify the base NTFS object, not a named stream''"
definition ErrUnsupportedIdentityMethod :: go_err where
  "ErrUnsupportedIdentityMethod =
     ErrorsNew ''NTFS object identity method is not supported for OpenFileById''"
definition ErrUnsafePathForm :: go_err where
  "ErrUnsafePathForm = ErrorsNew ''path form is not authorized for direct NTFS collection''"

text \<open>\<^verbatim>\<open>ValidationError.Error()\<close>; no field of the records is empty.\<close>

definition invalid_err :: "validation_error \<Rightarrow> go_err" where
  "invalid_err e = (case e of Invalid code field \<Rightarrow>
     ErrorsNew (if field = [] then code else code @ '': '' @ field))"

section \<open>Paths of code units\<close>

definition ascii16 :: "string \<Rightarrow> uint16 list" where
  "ascii16 s = map (\<lambda>c. of_nat (ord c)) s"

definition sep16 :: uint16 where "sep16 = 92"
definition colon16 :: uint16 where "colon16 = 58"

definition isASCIILetter16 :: "uint16 \<Rightarrow> bool" where
  "isASCIILetter16 u \<longleftrightarrow> 65 \<le> u \<and> u \<le> 90 \<or> 97 \<le> u \<and> u \<le> 122"

definition hasASCIIPrefix :: "uint16 list \<Rightarrow> string \<Rightarrow> bool" where
  "hasASCIIPrefix path prefix \<longleftrightarrow>
     length prefix \<le> length path \<and> take (length prefix) path = ascii16 prefix"

definition extended_path_prefix :: string where
  "extended_path_prefix = [backslash, backslash, CHR ''?'', backslash]"

definition isDriveAbsolutePath :: "uint16 list \<Rightarrow> bool" where
  "isDriveAbsolutePath path \<longleftrightarrow>
     3 \<le> length path \<and> isASCIILetter16 (path ! 0) \<and> path ! 1 = colon16 \<and> path ! 2 = sep16"

definition isExtendedDrivePath :: "uint16 list \<Rightarrow> bool" where
  "isExtendedDrivePath path \<longleftrightarrow>
     7 \<le> length path \<and> hasASCIIPrefix path extended_path_prefix \<and> isASCIILetter16 (path ! 4) \<and>
     path ! 5 = colon16 \<and> path ! 6 = sep16"

definition containsColonAfter :: "uint16 list \<Rightarrow> nat \<Rightarrow> bool" where
  "containsColonAfter path driveColon \<longleftrightarrow> list_ex (\<lambda>u. u = colon16) (drop (driveColon + 1) path)"

definition validateLocalAbsolutePath :: "uint16 list \<Rightarrow> go_err option" where
  "validateLocalAbsolutePath path =
     (if path = [] then Some ErrInvalidPath
      else if list_ex (\<lambda>u. u = 0) path then Some ErrInvalidPath
      else if isDriveAbsolutePath path then fail_if (containsColonAfter path 1) ErrStreamQualifiedPath
      else if isExtendedDrivePath path then fail_if (containsColonAfter path 5) ErrStreamQualifiedPath
      else Some ErrUnsafePathForm)"

text \<open>The loops that step back from the end of a path, down to a root of the given length.\<close>

fun skip_separators :: "nat \<Rightarrow> uint16 list \<Rightarrow> nat \<Rightarrow> nat" where
  "skip_separators root path 0 = 0"
| "skip_separators root path (Suc e) =
     (if root < Suc e \<and> path ! e = sep16 then skip_separators root path e else Suc e)"

fun last_separator :: "nat \<Rightarrow> uint16 list \<Rightarrow> nat \<Rightarrow> nat option" where
  "last_separator root path 0 = None"
| "last_separator root path (Suc index) =
     (if index < root then None
      else if path ! index = sep16 then Some index
      else last_separator root path index)"

definition parent_path :: "nat \<Rightarrow> uint16 list \<Rightarrow> uint16 list" where
  "parent_path rootLength path =
     (let e = skip_separators rootLength path (length path) in
      if e \<le> rootLength then take rootLength path
      else case last_separator rootLength path e of
          Some index \<Rightarrow> take index path
        | None \<Rightarrow> take rootLength path)"

definition localAbsoluteRootLength :: "uint16 list \<Rightarrow> nat option" where
  "localAbsoluteRootLength path =
     (if isDriveAbsolutePath path then Some 3 else if isExtendedDrivePath path then Some 7 else None)"

definition parentLocalAbsolutePath :: "uint16 list \<Rightarrow> go_err + uint16 list" where
  "parentLocalAbsolutePath path =
     (case validateLocalAbsolutePath path of Some e \<Rightarrow> Inl e
      | None \<Rightarrow>
        (case localAbsoluteRootLength path of None \<Rightarrow> Inl ErrUnsafePathForm
         | Some rootLength \<Rightarrow> Inr (parent_path rootLength path)))"

definition trimTrailingSeparators :: "uint16 list \<Rightarrow> uint16 list" where
  "trimTrailingSeparators v = rev (dropWhile (\<lambda>u. u = sep16) (rev v))"

definition pathContainedBy :: "uint16 list \<Rightarrow> uint16 list \<Rightarrow> bool" where
  "pathContainedBy root target =
     (let r = trimTrailingSeparators root; t = trimTrailingSeparators target in
      if r = [] \<or> t = [] then False
      else if r = t then True
      else length r < length t \<and> take (length r) t = r \<and> t ! length r = sep16)"

section \<open>Volume paths\<close>

text \<open>The terminator of the GUID: the first closing brace with a separator behind it.\<close>

fun find_terminator :: "nat \<Rightarrow> uint16 list \<Rightarrow> nat option" where
  "find_terminator i (a # b # us) =
     (if a = 125 \<and> b = sep16 then Some i else find_terminator (Suc i) (b # us))"
| "find_terminator i _ = None"

definition volume_path_prefix :: string where
  "volume_path_prefix = extended_path_prefix @ ''Volume{''"

definition volumeRootLength :: "uint16 list \<Rightarrow> go_err + nat" where
  "volumeRootLength path =
     (if \<not> hasASCIIPrefix path volume_path_prefix then Inl ErrNotLocalVolume
      else case find_terminator (length volume_path_prefix) (drop (length volume_path_prefix) path) of
          Some index \<Rightarrow> Inr (index + 2)
        | None \<Rightarrow> Inl (ErrorsNew ''volume GUID terminator missing''))"

text \<open>
  \<^verbatim>\<open>syscall.UTF16ToString\<close>: up to the first zero; surrogate pairs are joined, a lone surrogate is
  written as it is.
\<close>

definition wtf8_unit :: "nat \<Rightarrow> string" where
  "wtf8_unit n =
     (if n < 0x80 then [char_of n]
      else if n < 0x800 then [char_of (0xC0 + n div 64), char_of (0x80 + n mod 64)]
      else if n < 0x10000
      then [char_of (0xE0 + n div 4096), char_of (0x80 + n div 64 mod 64), char_of (0x80 + n mod 64)]
      else [char_of (0xF0 + n div 262144), char_of (0x80 + n div 4096 mod 64),
            char_of (0x80 + n div 64 mod 64), char_of (0x80 + n mod 64)])"

fun wtf8_decode :: "nat list \<Rightarrow> string" where
  "wtf8_decode [] = []"
| "wtf8_decode [a] = wtf8_unit a"
| "wtf8_decode (a # b # s) =
     (if 0xD800 \<le> a \<and> a < 0xDC00 \<and> 0xDC00 \<le> b \<and> b < 0xE000
      then wtf8_unit (0x10000 + (a - 0xD800) * 1024 + (b - 0xDC00)) @ wtf8_decode s
      else wtf8_unit a @ wtf8_decode (b # s))"

definition UTF16ToString :: "uint16 list \<Rightarrow> string" where
  "UTF16ToString us = wtf8_decode (map unat (takeWhile (\<lambda>u. u \<noteq> 0) us))"

definition volumeGUIDFromFinalPath :: "uint16 list \<Rightarrow> go_err + string" where
  "volumeGUIDFromFinalPath path = bindE (volumeRootLength path) (\<lambda>n. Inr (UTF16ToString (take n path)))"

definition directParentVolumePath :: "uint16 list \<Rightarrow> go_err + uint16 list" where
  "directParentVolumePath path = bindE (volumeRootLength path) (\<lambda>n. Inr (parent_path n path))"

section \<open>Object identities\<close>

record file_id_info =
  fd_VolumeSerialNumber :: uint64
  fd_FileID :: bytes

definition splitNTFSFileID :: "bytes \<Rightarrow> go_err + uint64 \<times> uint16" where
  "splitNTFSFileID fileID =
     (if list_ex (\<lambda>b. ord b \<noteq> 0) (drop 8 fileID)
      then Inl (ErrorsNew ''NTFS file ID high 64 bits are not zero'')
      else let low = le_Uint64 (take 8 fileID) in
        Inr (low AND 0x0000FFFFFFFFFFFF, ucast (drop_bit 48 low)))"

definition buildObjectIdentity :: "file_id_info \<Rightarrow> go_err + volume_identity \<times> ntfs_identity" where
  "buildObjectIdentity d =
     bindE (splitNTFSFileID (fd_FileID d)) (\<lambda>(recordNumber, sequenceNumber).
     Inr (\<lparr>vi_MethodVersion = IdentityMethodVersion, vi_VolumeGUID = [],
           vi_VolumeSerial = FormatUint (unat (fd_VolumeSerialNumber d))\<rparr>,
          \<lparr>ni_MethodVersion = IdentityMethodVersion,
           ni_FileReferenceNumber = FormatUint (unat recordNumber),
           ni_SequenceNumber = FormatUint (unat sequenceNumber)\<rparr>))"

definition parse_err :: "parse_error \<Rightarrow> go_err" where
  "parse_err e = ErrorsNew (case e of ErrSyntax \<Rightarrow> ''invalid syntax'' | ErrRange \<Rightarrow> ''value out of range'')"

definition composeNTFSFileID :: "ntfs_identity \<Rightarrow> go_err + uint64" where
  "composeNTFSFileID identity =
     (if ni_MethodVersion identity \<noteq> IdentityMethodVersion then Inl ErrUnsupportedIdentityMethod
      else case ValidateNTFSObjectIdentity identity of Some e \<Rightarrow> Inl (invalid_err e)
      | None \<Rightarrow>
        bindE (map_err (\<lambda>e. Wrapped ''file reference number'' (parse_err e))
          (ParseUint 48 (ni_FileReferenceNumber identity))) (\<lambda>recordNumber.
        bindE (map_err (\<lambda>e. Wrapped ''sequence number'' (parse_err e))
          (ParseUint 16 (ni_SequenceNumber identity))) (\<lambda>sequenceNumber.
        Inr (of_nat recordNumber OR push_bit 48 (of_nat sequenceNumber)))))"

section \<open>Reparse buffers\<close>

record native_reparse =
  nr_DataFormat :: string
  nr_PrintName :: "uint16 list"
  nr_RawBuffer :: bytes
  nr_SubstituteName :: "uint16 list"
  nr_SymbolicLinkFlags :: uint32
  nr_Tag :: uint32

definition reparseTagMountPoint :: uint32 where "reparseTagMountPoint = 0xA0000003"
definition reparseTagSymlink :: uint32 where "reparseTagSymlink = 0xA000000C"

definition utf16FromReparsePath :: "bytes \<Rightarrow> nat \<Rightarrow> nat \<Rightarrow> nat \<Rightarrow> nat \<Rightarrow> go_err + uint16 list" where
  "utf16FromReparsePath raw pathStart offset len dataEnd =
     (if offset mod 2 \<noteq> 0 \<or> len mod 2 \<noteq> 0 then Inl ErrMalformedReparseData
      else if pathStart + offset + len > dataEnd \<or> pathStart + offset + len > length raw
      then Inl ErrMalformedReparseData
      else Inr (utf16_units (slice (pathStart + offset) (pathStart + offset + len) raw)))"

definition parseReparseData :: "bytes \<Rightarrow> go_err + native_reparse" where
  "parseReparseData raw =
     (if length raw < 8 then Inl ErrMalformedReparseData
      else
        let tag = le_Uint32 (slice 0 4 raw); dataLength = word16_at raw 4; dataEnd = 8 + dataLength;
            data = \<lparr>nr_DataFormat = ReparseDataFormatRaw, nr_PrintName = [], nr_RawBuffer = raw,
              nr_SubstituteName = [], nr_SymbolicLinkFlags = 0, nr_Tag = tag\<rparr>
        in if dataEnd > length raw then Inl ErrMalformedReparseData
           else if tag = reparseTagMountPoint then
             (if dataLength < 8 then Inl ErrMalformedReparseData
              else bindE (utf16FromReparsePath raw 16 (word16_at raw 8) (word16_at raw 10) dataEnd) (\<lambda>substitute.
                bindE (utf16FromReparsePath raw 16 (word16_at raw 12) (word16_at raw 14) dataEnd) (\<lambda>printName.
                Inr (data\<lparr>nr_DataFormat := ReparseDataFormatMountPoint, nr_PrintName := printName,
                          nr_SubstituteName := substitute\<rparr>))))
           else if tag = reparseTagSymlink then
             (if dataLength < 12 then Inl ErrMalformedReparseData
              else bindE (utf16FromReparsePath raw 20 (word16_at raw 8) (word16_at raw 10) dataEnd) (\<lambda>substitute.
                bindE (utf16FromReparsePath raw 20 (word16_at raw 12) (word16_at raw 14) dataEnd) (\<lambda>printName.
                Inr (data\<lparr>nr_DataFormat := ReparseDataFormatSymbolicLink, nr_PrintName := printName,
                          nr_SubstituteName := substitute,
                          nr_SymbolicLinkFlags := le_Uint32 (slice 16 20 raw)\<rparr>))))
           else Inr data)"

definition reparseObservationError :: "uint32 \<Rightarrow> string \<Rightarrow> reparse_observation" where
  "reparseObservationError tag reasonCode =
     \<lparr>rp_DataFormat = ReparseDataFormatNotKnown, rp_DataState = ReparseDataStateError, rp_PrintName = [],
      rp_RawBuffer = [], rp_ReasonCode = reasonCode, rp_State = ReparseStatePresent,
      rp_SubstituteName = [], rp_SymbolicLinkFlags = [], rp_Tag = reparseTagString tag,
      rp_TagName = ReparseTagName (reparseTagString tag)\<rparr>"

definition reparseObservationNotPresent :: reparse_observation where
  "reparseObservationNotPresent =
     \<lparr>rp_DataFormat = ReparseDataFormatNotApplicable, rp_DataState = ReparseDataStateNotApplicable,
      rp_PrintName = [], rp_RawBuffer = [], rp_ReasonCode = [], rp_State = ReparseStateNotPresent,
      rp_SubstituteName = [], rp_SymbolicLinkFlags = [], rp_Tag = [], rp_TagName = []\<rparr>"

definition reparseObservationParsed :: "native_reparse \<Rightarrow> reparse_observation" where
  "reparseObservationParsed data =
     (let named = nr_DataFormat data \<in> {ReparseDataFormatMountPoint, ReparseDataFormatSymbolicLink} in
      \<lparr>rp_DataFormat = nr_DataFormat data, rp_DataState = ReparseDataStatePresent,
       rp_PrintName = (if named then encodeUTF16LEBase64URL (nr_PrintName data) else []),
       rp_RawBuffer = url_encode (nr_RawBuffer data), rp_ReasonCode = [],
       rp_State = ReparseStatePresent,
       rp_SubstituteName = (if named then encodeUTF16LEBase64URL (nr_SubstituteName data) else []),
       rp_SymbolicLinkFlags =
         (if nr_DataFormat data = ReparseDataFormatSymbolicLink
          then reparseTagString (nr_SymbolicLinkFlags data) else []),
       rp_Tag = reparseTagString (nr_Tag data),
       rp_TagName = ReparseTagName (reparseTagString (nr_Tag data))\<rparr>)"

definition reparseObservationRaw :: "uint32 \<Rightarrow> bytes \<Rightarrow> string \<Rightarrow> reparse_observation" where
  "reparseObservationRaw tag raw reasonCode =
     \<lparr>rp_DataFormat = ReparseDataFormatRaw, rp_DataState = ReparseDataStatePresent, rp_PrintName = [],
      rp_RawBuffer = url_encode raw, rp_ReasonCode = reasonCode, rp_State = ReparseStatePresent,
      rp_SubstituteName = [], rp_SymbolicLinkFlags = [], rp_Tag = reparseTagString tag,
      rp_TagName = ReparseTagName (reparseTagString tag)\<rparr>"

section \<open>Streams\<close>

record native_stream =
  ns_Name :: "uint16 list"
  ns_Size :: int64
  ns_AllocationSize :: int64

definition fileStreamInfoHeader :: nat where "fileStreamInfoHeader = 24"

definition align8 :: "nat \<Rightarrow> nat" where
  "align8 v = (v + 7) div 8 * 8"

definition stream_entry_name :: "bytes \<Rightarrow> nat \<Rightarrow> nat \<Rightarrow> uint16 list" where
  "stream_entry_name buffer offset nameBytes =
     utf16_units (slice (offset + fileStreamInfoHeader) (offset + fileStreamInfoHeader + nameBytes) buffer)"

function stream_entries :: "bytes \<Rightarrow> nat \<Rightarrow> go_err + native_stream list" where
  "stream_entries buffer offset =
     (if offset + fileStreamInfoHeader > length buffer then Inl ErrMalformedStreamInfo
      else
        let nextOffset = unat (le_Uint32 (slice offset (offset + 4) buffer));
            nameBytes = unat (le_Uint32 (slice (offset + 4) (offset + 8) buffer));
            entry = \<lparr>ns_Name = stream_entry_name buffer offset nameBytes,
              ns_Size = le_Uint64 (slice (offset + 8) (offset + 16) buffer),
              ns_AllocationSize = le_Uint64 (slice (offset + 16) (offset + 24) buffer)\<rparr>
        in if nameBytes mod 2 \<noteq> 0 \<or> fileStreamInfoHeader + nameBytes > length buffer - offset
           then Inl ErrMalformedStreamInfo
           else if nextOffset = 0 then Inr [entry]
           else if nextOffset < align8 (fileStreamInfoHeader + nameBytes) \<or> nextOffset mod 8 \<noteq> 0 \<or>
               offset + nextOffset > length buffer
           then Inl ErrMalformedStreamInfo
           else bindE (stream_entries buffer (offset + nextOffset)) (\<lambda>rest. Inr (entry # rest)))"
  by pat_completeness auto
termination
  by (relation "measure (\<lambda>(buffer, offset). length buffer + 1 - offset)")
     (auto simp: fileStreamInfoHeader_def)

declare stream_entries.simps [simp del]

definition parseStreamInfo :: "bytes \<Rightarrow> go_err + native_stream list" where
  "parseStreamInfo buffer =
     (if length buffer < fileStreamInfoHeader then Inl ErrMalformedStreamInfo
      else stream_entries buffer 0)"

definition negative64 :: "int64 \<Rightarrow> bool" where
  "negative64 v \<longleftrightarrow> sint v < 0"

text \<open>\<^verbatim>\<open>sort.Slice\<close> by the encoded raw name; the names of a valid inventory differ.\<close>

definition streamObservations :: "native_stream list \<Rightarrow> go_err + stream_observation list" where
  "streamObservations native =
     (if list_ex (\<lambda>s. negative64 (ns_Size s) \<or> negative64 (ns_AllocationSize s)) native
      then Inl (ErrorsNew ''negative stream size'')
      else Inr (sort_key (\<lambda>s. si_RawName (st_Identity s))
        (map (\<lambda>s. \<lparr>st_Identity = StreamIdentityFromRawUTF16 (ns_Name s),
                   st_LogicalSize = FormatUint (unat (ns_Size s)),
                   st_AllocatedSize = FormatUint (unat (ns_AllocationSize s))\<rparr>) native)))"

section \<open>The state of an open handle\<close>

record attribute_tag_info =
  at_FileAttributes :: uint32
  at_ReparseTag :: uint32

record basic_info =
  bi_CreationTime :: int64
  bi_LastAccessTime :: int64
  bi_LastWriteTime :: int64
  bi_ChangeTime :: int64
  bi_FileAttributes :: uint32

record standard_info =
  sd_AllocationSize :: int64
  sd_EndOfFile :: int64
  sd_NumberOfLinks :: uint32
  sd_DeletePending :: uint8
  sd_Directory :: uint8

record native_state =
  na_AttributeTag :: attribute_tag_info
  na_Basic :: basic_info
  na_ID :: file_id_info
  na_Standard :: standard_info

definition fileAttributeDirectory :: uint32 where "fileAttributeDirectory = 0x00000010"
definition fileAttributeReparse :: uint32 where "fileAttributeReparse = 0x00000400"

definition state_is_directory :: "native_state \<Rightarrow> bool" where
  "state_is_directory s \<longleftrightarrow>
     sd_Directory (na_Standard s) \<noteq> 0 \<or> bi_FileAttributes (na_Basic s) AND fileAttributeDirectory \<noteq> 0"

definition tag_is_reparse :: "attribute_tag_info \<Rightarrow> bool" where
  "tag_is_reparse t \<longleftrightarrow> at_FileAttributes t AND fileAttributeReparse \<noteq> 0"

definition reparseStateChanged :: "attribute_tag_info \<Rightarrow> attribute_tag_info \<Rightarrow> bool" where
  "reparseStateChanged l r \<longleftrightarrow>
     (if tag_is_reparse l \<noteq> tag_is_reparse r then True
      else tag_is_reparse l \<and> at_ReparseTag l \<noteq> at_ReparseTag r)"

definition filetime_of :: "int64 \<Rightarrow> go_err + string" where
  "filetime_of v = map_err ErrorsNew (filetimeToCanonical (sint v))"

definition metadataFromState :: "native_state \<Rightarrow> go_err + metadata_observation \<times> string" where
  "metadataFromState s =
     (if negative64 (sd_EndOfFile (na_Standard s)) \<or> negative64 (sd_AllocationSize (na_Standard s))
      then Inl (ErrorsNew ''negative file size'')
      else
        bindE (filetime_of (bi_CreationTime (na_Basic s))) (\<lambda>creationTime.
        bindE (filetime_of (bi_LastAccessTime (na_Basic s))) (\<lambda>lastAccessTime.
        bindE (filetime_of (bi_LastWriteTime (na_Basic s))) (\<lambda>lastWriteTime.
        bindE (filetime_of (bi_ChangeTime (na_Basic s))) (\<lambda>changeTime.
        Inr (\<lparr>mo_LogicalSize = FormatUint (unat (sd_EndOfFile (na_Standard s))),
              mo_AllocatedSize = FormatUint (unat (sd_AllocationSize (na_Standard s))),
              mo_CreationTime = creationTime, mo_LastWriteTime = lastWriteTime,
              mo_ChangeTime = changeTime, mo_LastAccessTime = lastAccessTime,
              mo_RawAttributes = FormatUint (unat (bi_FileAttributes (na_Basic s))),
              mo_LinkCount = FormatUint (unat (sd_NumberOfLinks (na_Standard s)))\<rparr>,
             if state_is_directory s then SubjectDirectory else SubjectFile))))))"


section \<open>Containment is by components\<close>

fun path_components :: "uint16 list \<Rightarrow> uint16 list list" where
  "path_components [] = [[]]"
| "path_components (u # us) =
     (if u = sep16 then [] # path_components us
      else (u # hd (path_components us)) # tl (path_components us))"

fun join_components :: "uint16 list list \<Rightarrow> uint16 list" where
  "join_components [] = []"
| "join_components [c] = c"
| "join_components (c # d # cs) = c @ sep16 # join_components (d # cs)"

lemma path_components_nonempty [simp]: "path_components us \<noteq> []"
  by (induction us) auto

lemma join_path_components [simp]: "join_components (path_components us) = us"
proof (induction us)
  case (Cons u us)
  then obtain c cs where p: "path_components us = c # cs" "join_components (c # cs) = us"
    by (metis list.exhaust path_components_nonempty)
  then show ?case by (cases cs) auto
qed simp

lemma path_components_append:
  "path_components (a @ sep16 # b) = path_components a @ path_components b"
  by (induction a) auto

lemma join_components_append:
  "cs \<noteq> [] \<Longrightarrow> ds \<noteq> [] \<Longrightarrow>
   join_components (cs @ ds) = join_components cs @ sep16 # join_components ds"
proof (induction cs rule: join_components.induct)
  case (2 c)
  then show ?case by (cases ds) auto
qed auto

lemma component_prefix_iff:
  "(\<exists>cs. path_components t = path_components r @ cs) \<longleftrightarrow> t = r \<or> (\<exists>s. t = r @ sep16 # s)"
proof
  assume "\<exists>cs. path_components t = path_components r @ cs"
  then obtain cs where cs: "path_components t = path_components r @ cs" by blast
  have "t = join_components (path_components r @ cs)" by (metis cs join_path_components)
  then show "t = r \<or> (\<exists>s. t = r @ sep16 # s)"
    by (cases "cs = []") (auto simp: join_components_append)
next
  assume "t = r \<or> (\<exists>s. t = r @ sep16 # s)"
  then show "\<exists>cs. path_components t = path_components r @ cs"
    by (auto simp: path_components_append)
qed

lemma pathContainedBy_iff:
  "pathContainedBy root target \<longleftrightarrow>
     trimTrailingSeparators root \<noteq> [] \<and>
     (trimTrailingSeparators target = trimTrailingSeparators root \<or>
      (\<exists>s. trimTrailingSeparators target = trimTrailingSeparators root @ sep16 # s))"
  (is "_ \<longleftrightarrow> ?r \<noteq> [] \<and> (?t = ?r \<or> _)")
proof -
  have "length ?r < length ?t \<and> take (length ?r) ?t = ?r \<and> ?t ! length ?r = sep16 \<longleftrightarrow>
    (\<exists>s. ?t = ?r @ sep16 # s)"
  proof
    assume a: "length ?r < length ?t \<and> take (length ?r) ?t = ?r \<and> ?t ! length ?r = sep16"
    then have "?t = take (length ?r) ?t @ ?t ! length ?r # drop (Suc (length ?r)) ?t"
      by (intro id_take_nth_drop) simp
    then show "\<exists>s. ?t = ?r @ sep16 # s" using a by metis
  qed auto
  then show ?thesis by (auto simp: pathContainedBy_def Let_def)
qed

text \<open>
  A target lies in a governed root exactly when the root's components are a leading part of the
  target's components: \<^verbatim>\<open>C:\data2\<close> is never taken to be in \<^verbatim>\<open>C:\data\<close>, trailing separators do not
  matter, and an empty root contains nothing.
\<close>

theorem containment_is_componentwise:
  "pathContainedBy root target \<longleftrightarrow>
     trimTrailingSeparators root \<noteq> [] \<and>
     (\<exists>cs. path_components (trimTrailingSeparators target) =
        path_components (trimTrailingSeparators root) @ cs)"
  by (simp only: pathContainedBy_iff component_prefix_iff)

section \<open>A path is contained in its parent\<close>

lemma trim_decompose:
  "\<exists>k. us = trimTrailingSeparators us @ replicate k sep16"
proof -
  have "rev us = takeWhile (\<lambda>u. u = sep16) (rev us) @ dropWhile (\<lambda>u. u = sep16) (rev us)" by simp
  moreover have "takeWhile (\<lambda>u. u = sep16) (rev us) =
      replicate (length (takeWhile (\<lambda>u. u = sep16) (rev us))) sep16"
    by (intro replicate_eqI) (auto dest: set_takeWhileD)
  ultimately have "us = rev (dropWhile (\<lambda>u. u = sep16) (rev us)) @
      replicate (length (takeWhile (\<lambda>u. u = sep16) (rev us))) sep16"
    by (metis rev_append rev_replicate rev_rev_ident)
  then show ?thesis unfolding trimTrailingSeparators_def by blast
qed

lemma trim_append:
  "trimTrailingSeparators (a @ b) =
     (if trimTrailingSeparators b = [] then trimTrailingSeparators a
      else a @ trimTrailingSeparators b)"
proof (cases "trimTrailingSeparators b = []")
  case True
  then have "\<forall>u\<in>set (rev b). u = sep16" by (simp add: trimTrailingSeparators_def dropWhile_eq_Nil_conv)
  then have "dropWhile (\<lambda>u. u = sep16) (rev b @ rev a) = dropWhile (\<lambda>u. u = sep16) (rev a)"
    by (intro dropWhile_append2) blast
  then show ?thesis using True by (simp add: trimTrailingSeparators_def)
next
  case False
  then obtain x where "x \<in> set (rev b)" "x \<noteq> sep16"
    by (auto simp: trimTrailingSeparators_def dropWhile_eq_Nil_conv)
  then show ?thesis using False
    by (auto simp: trimTrailingSeparators_def dropWhile_append1)
qed

lemma trim_Cons_sep:
  "trimTrailingSeparators (sep16 # b) = [] \<or> (\<exists>s. trimTrailingSeparators (sep16 # b) = sep16 # s)"
  using trim_append [of "[sep16]" b] by (auto simp: trimTrailingSeparators_def)

lemma trim_idem [simp]: "trimTrailingSeparators (trimTrailingSeparators a) = trimTrailingSeparators a"
  by (simp add: trimTrailingSeparators_def)

lemma trim_Nil [simp]: "trimTrailingSeparators [] = []"
  by (simp add: trimTrailingSeparators_def)

lemma contained_prefix:
  assumes "trimTrailingSeparators q \<noteq> []"
    and "rest = [] \<or> hd rest = sep16 \<or> last q = sep16"
  shows "pathContainedBy q (q @ rest)"
proof -
  let ?r = "trimTrailingSeparators q"
  obtain k where k: "q = ?r @ replicate k sep16" using trim_decompose by blast
  define w where "w = replicate k sep16 @ rest"
  have "w = [] \<or> (\<exists>v. w = sep16 # v)"
  proof (cases k)
    case 0
    then have "q = ?r" using k by simp
    moreover have "last ?r \<noteq> sep16"
      using assms(1) hd_dropWhile [of "\<lambda>u. u = sep16" "rev q"]
      by (simp add: trimTrailingSeparators_def last_rev)
    ultimately have "rest = [] \<or> hd rest = sep16" using assms(2) by metis
    then show ?thesis using 0 by (cases rest) (auto simp: w_def)
  qed (auto simp: w_def)
  moreover have "trimTrailingSeparators (q @ rest) =
      (if trimTrailingSeparators w = [] then ?r else ?r @ trimTrailingSeparators w)"
  proof -
    have "q @ rest = ?r @ w" using k by (simp add: w_def)
    then show ?thesis by (simp only: trim_append trim_idem)
  qed
  ultimately show ?thesis
    using assms(1) trim_Cons_sep by (auto simp: pathContainedBy_iff)
qed

lemma skip_separators_le: "skip_separators root path e \<le> e"
  by (induction e) auto

lemma last_separator_some:
  "last_separator root path e = Some i \<Longrightarrow> root \<le> i \<and> i < e \<and> path ! i = sep16"
  by (induction e) (auto split: if_splits)

lemma parent_path_contains:
  assumes "0 < root" "root \<le> length path" "path ! (root - 1) = sep16"
    and "u \<in> set (take root path)" "u \<noteq> sep16"
  shows "pathContainedBy (parent_path root path) path"
proof -
  have nonempty: "trimTrailingSeparators (take n path) \<noteq> []" if "root \<le> n" for n
  proof -
    have "u \<in> set (take n path)" using assms(4) that by (meson set_take_subset_set_take subsetD)
    then show ?thesis using assms(5)
      by (auto simp: trimTrailingSeparators_def dropWhile_eq_Nil_conv)
  qed
  have at_root: "pathContainedBy (take root path) path"
  proof -
    have "last (take root path) = sep16"
      using assms(1-3) by (subst last_conv_nth) auto
    then show ?thesis
      using contained_prefix [of "take root path" "drop root path"] nonempty by simp
  qed
  have at_sep: "pathContainedBy (take i path) path"
    if "last_separator root path (skip_separators root path (length path)) = Some i" for i
  proof -
    have i: "root \<le> i" "i < length path" "path ! i = sep16"
      using last_separator_some [OF that] skip_separators_le [of root path "length path"] by auto
    then have "hd (drop i path) = sep16" by (simp add: hd_drop_conv_nth)
    then show ?thesis
      using contained_prefix [of "take i path" "drop i path"] nonempty i(1) by simp
  qed
  show ?thesis
    using at_root at_sep by (auto simp: parent_path_def Let_def split: option.split)
qed

lemma isASCIILetter16_not_sep: "isASCIILetter16 u \<Longrightarrow> u \<noteq> sep16"
  by (auto simp: isASCIILetter16_def sep16_def)

text \<open>
  The parent of a local absolute path, as the collector computes it, always contains the path:
  the parent that is opened for a binding is an ancestor of the object, also with repeated
  separators, at a drive root and for extended paths.
\<close>

theorem parent_path_contains_child:
  assumes "parentLocalAbsolutePath path = Inr parent"
  shows "pathContainedBy parent path"
proof -
  obtain n where n: "localAbsoluteRootLength path = Some n" "parent = parent_path n path"
    using assms by (auto simp: parentLocalAbsolutePath_def split: option.splits)
  show ?thesis
  proof (cases "isDriveAbsolutePath path")
    case True
    then have "n = 3" using n(1) by (simp add: localAbsoluteRootLength_def)
    moreover have "path ! 0 \<in> set (take 3 path)"
      using True by (auto simp: isDriveAbsolutePath_def in_set_conv_nth intro!: exI [of _ 0])
    ultimately show ?thesis
      using True parent_path_contains [of 3 path "path ! 0"] n(2) isASCIILetter16_not_sep
      by (auto simp: isDriveAbsolutePath_def)
  next
    case False
    then have e: "isExtendedDrivePath path" "n = 7"
      using n(1) by (auto simp: localAbsoluteRootLength_def split: if_splits)
    moreover have "path ! 4 \<in> set (take 7 path)"
      using e by (auto simp: isExtendedDrivePath_def in_set_conv_nth intro!: exI [of _ 4])
    ultimately show ?thesis
      using parent_path_contains [of 7 path "path ! 4"] n(2) isASCIILetter16_not_sep
      by (auto simp: isExtendedDrivePath_def)
  qed
qed

theorem parent_path_contains_child_witness:
  "parentLocalAbsolutePath (ascii16 (''C:'' @ [backslash] @ ''a'' @ [backslash, backslash] @ ''b'')) =
     Inr (ascii16 (''C:'' @ [backslash] @ ''a'' @ [backslash])) \<and>
   pathContainedBy (ascii16 (''C:'' @ [backslash] @ ''a'' @ [backslash]))
     (ascii16 (''C:'' @ [backslash] @ ''a'' @ [backslash, backslash] @ ''b''))"
proof -
  have a: "parentLocalAbsolutePath
      (ascii16 (''C:'' @ [backslash] @ ''a'' @ [backslash, backslash] @ ''b'')) =
      Inr (ascii16 (''C:'' @ [backslash] @ ''a'' @ [backslash]))"
    by code_simp
  from a parent_path_contains_child [OF a] show ?thesis by blast
qed

end
