(* ===== verification/Ntfs_Facts.thy ===== *)
theory Ntfs_Facts
  imports Ntfs_Parts
begin

text \<open>
  What the conversions of \<^verbatim>\<open>windows/ntfs\<close> keep: a file identity survives the way to its record and
  back, and every reparse buffer Windows may return becomes a record that the record layer accepts.
\<close>

section \<open>File identities\<close>

lemma reference_join:
  "(low AND 0x0000FFFFFFFFFFFF) OR push_bit 48 (drop_bit 48 low) = low" for low :: uint64
proof -
  have m: "low AND 0x0000FFFFFFFFFFFF = take_bit 48 low"
    by (simp add: take_bit_eq_mask mask_numeral)
  have "take_bit 48 low OR push_bit 48 (drop_bit 48 low) = low"
  proof (rule bit_eqI)
    fix n
    show "bit (take_bit 48 low OR push_bit 48 (drop_bit 48 low)) n \<longleftrightarrow> bit low n"
      by (cases "n < 48") (auto simp: bit_simps dest: bit_imp_le_length)
  qed
  then show ?thesis by (simp only: m)
qed

lemma of_nat_unat64: "of_nat (unat w) = (w :: uint64)"
  by simp

lemma composeNTFSFileID_reference: "composeNTFSFileID (identityFromReference low) = Inr low"
proof -
  let ?r = "low AND 0x0000FFFFFFFFFFFF" and ?s = "drop_bit 48 low"
  have "unat ?r < 2 ^ 48" by (simp only: reference_parts) simp
  moreover have "unat ?s < 2 ^ 16"
    using unat_lt_2p [of low] by (simp add: reference_parts less_mult_imp_div_less)
  ultimately have p: "ParseUint 48 (FormatUint (unat ?r)) = Inr (unat ?r)"
    "ParseUint 16 (FormatUint (unat ?s)) = Inr (unat ?s)"
    by (simp_all only: ParseUint_Format)
  have v: "ni_MethodVersion (identityFromReference low) = IdentityMethodVersion"
    "ni_FileReferenceNumber (identityFromReference low) = FormatUint (unat ?r)"
    "ni_SequenceNumber (identityFromReference low) = FormatUint (unat ?s)"
    by (simp_all add: identityFromReference_def)
  show ?thesis
    by (simp only: composeNTFSFileID_def identityFromReference_valid v p option.case bindE.simps
        map_err_simps if_False not_True_eq_False refl of_nat_unat64 reference_join simp_thms)
qed

lemma buildObjectIdentity_reference:
  assumes "buildObjectIdentity d = Inr (v, i)"
  shows "i = identityFromReference (le_Uint64 (take 8 (fd_FileID d)))"
proof -
  let ?low = "le_Uint64 (take 8 (fd_FileID d))"
  have "unat (ucast (drop_bit 48 ?low) :: uint16) = unat (drop_bit 48 ?low)"
  proof -
    have "unat (drop_bit 48 ?low) < 2 ^ 16"
      using unat_lt_2p [of ?low] by (simp add: reference_parts less_mult_imp_div_less)
    then show ?thesis by (simp add: unsigned_ucast_eq take_bit_nat_eq_self_iff)
  qed
  with assms show ?thesis
    by (auto simp: buildObjectIdentity_def splitNTFSFileID_def identityFromReference_def Let_def
        split: if_splits)
qed


text \<open>
  A file identity survives the record. The identity the collector records for an open handle,
  turned back into a file ID for \<^verbatim>\<open>OpenFileById\<close>, is the low half of the file ID the handle
  reported, so a later look-up by identity opens the same object; and the recorded identity is one
  the record layer accepts.
\<close>

theorem file_id_roundtrip:
  assumes "buildObjectIdentity d = Inr (volume, identity)"
  shows "composeNTFSFileID identity = Inr (le_Uint64 (take 8 (fd_FileID d))) \<and>
    ValidateNTFSObjectIdentity identity = None"
  using buildObjectIdentity_reference [OF assms]
  by (simp only: composeNTFSFileID_reference identityFromReference_valid simp_thms)

definition sample_file_id :: file_id_info where
  "sample_file_id = \<lparr>fd_VolumeSerialNumber = 7,
     fd_FileID = [CHR 0x05, CHR 0x01, CHR 0x00, CHR 0x00, CHR 0x00, CHR 0x00, CHR 0x02, CHR 0x00,
       CHR 0x00, CHR 0x00, CHR 0x00, CHR 0x00, CHR 0x00, CHR 0x00, CHR 0x00, CHR 0x00]\<rparr>"

theorem file_id_roundtrip_witness:
  "\<exists>volume identity. buildObjectIdentity sample_file_id = Inr (volume, identity) \<and>
     ni_FileReferenceNumber identity = ''261'' \<and> ni_SequenceNumber identity = ''2'' \<and>
     composeNTFSFileID identity = Inr (le_Uint64 (take 8 (fd_FileID sample_file_id)))"
proof -
  have "splitNTFSFileID (fd_FileID sample_file_id) = Inr (261, 2)"
    by (simp add: splitNTFSFileID_def sample_file_id_def le_Uint64_def drop_bit_eq_div Let_def
        get_be_def)
  moreover have "FormatUint 261 = ''261''" "FormatUint 2 = ''2''" by code_simp+
  ultimately have "\<exists>volume identity. buildObjectIdentity sample_file_id = Inr (volume, identity) \<and>
     ni_FileReferenceNumber identity = ''261'' \<and> ni_SequenceNumber identity = ''2''"
    by (simp add: buildObjectIdentity_def)
  then show ?thesis using file_id_roundtrip by blast
qed

section \<open>Reparse buffers\<close>

lemma hex_upper_inj:
  assumes "is_lower_hex c" and "is_lower_hex d" and "hex_upper c = hex_upper d"
  shows "c = d"
proof -
  have o: "ord (hex_upper c) = (if 97 \<le> ord c then ord c - 32 else ord c)" if "is_lower_hex c" for c
    using that by (auto simp: hex_upper_def is_lower_hex_def Let_def)
  have "x = y" if "x \<le> 57 \<or> 97 \<le> x" "y \<le> 57 \<or> 97 \<le> y"
    "(if 97 \<le> x then x - 32 else x) = (if 97 \<le> y then y - 32 else y)" for x y :: nat
    using that by (simp split: if_splits)
  moreover have "ord c \<le> 57 \<or> 97 \<le> ord c" "ord d \<le> 57 \<or> 97 \<le> ord d"
    using assms(1,2) by (auto simp: is_lower_hex_def Let_def)
  moreover have "(if 97 \<le> ord c then ord c - 32 else ord c) = (if 97 \<le> ord d then ord d - 32 else ord d)"
    by (simp only: o [OF assms(1), symmetric] o [OF assms(2), symmetric] assms(3))
  ultimately have "ord c = ord d" by blast
  then show ?thesis by (rule of_char_eqI [where 'a = nat])
qed

lemma reparseTagString_inj: "reparseTagString a = reparseTagString b \<longleftrightarrow> a = b"
proof
  assume "reparseTagString a = reparseTagString b"
  then have e: "map hex_upper (hex_EncodeToString (be_PutUint32 a)) =
      map hex_upper (hex_EncodeToString (be_PutUint32 b))"
    by (simp add: reparseTagString_def)
  have "inj_on hex_upper (set (hex_EncodeToString (be_PutUint32 a)) \<union> set (hex_EncodeToString (be_PutUint32 b)))"
    using lower_hex_Encode hex_upper_inj unfolding list_all_iff by (intro inj_onI) blast
  with e have "hex_EncodeToString (be_PutUint32 a) = hex_EncodeToString (be_PutUint32 b)"
    by (rule map_inj_on)
  then have "be_PutUint32 a = be_PutUint32 b" by simp
  then show "a = b" by (metis uint_put_get(1))
qed simp

lemma put_be_4:
  "put_be 4 k = [char_of (k div 16777216 mod 256), char_of (k div 65536 mod 256),
     char_of (k div 256 mod 256), char_of (k mod 256)]"
proof -
  have "4 = Suc (Suc (Suc (Suc 0)))" by simp
  then show ?thesis by (simp only: put_be.simps) (simp flip: div_mult2_eq)
qed

lemma tag_digits:
  "char_of (65::nat) = CHR ''A''" "char_of (48::nat) = CHR ''0''" "char_of (51::nat) = CHR ''3''"
  "char_of (67::nat) = CHR ''C''"
  by code_simp+

lemma reparseTag_canonical:
  "reparseTagString reparseTagMountPoint = reparseTagMountPointCanonical"
  "reparseTagString reparseTagSymlink = reparseTagSymlinkCanonical"
  by (simp_all add: reparseTagString_def reparseTagMountPoint_def reparseTagSymlink_def
      reparseTagMountPointCanonical_def reparseTagSymlinkCanonical_def be_PutUint32_def
      hex_upper_def hex_digit_def put_be_4 tag_digits)

lemma reparseTag_known [simp]:
  "reparseTagString t = reparseTagMountPointCanonical \<longleftrightarrow> t = reparseTagMountPoint"
  "reparseTagString t = reparseTagSymlinkCanonical \<longleftrightarrow> t = reparseTagSymlink"
  using reparseTag_canonical reparseTagString_inj by metis+

lemma validateHex32_tag [simp]: "validateHex32 (reparseTagString t) f = None"
proof -
  have "48 \<le> ord (hex_upper c) \<and> ord (hex_upper c) \<le> 57 \<or> 65 \<le> ord (hex_upper c) \<and> ord (hex_upper c) \<le> 70"
    if "is_lower_hex c" for c
    using that by (auto simp: hex_upper_def is_lower_hex_def Let_def)
  then show ?thesis
    using lower_hex_Encode [of "be_PutUint32 t"]
    by (auto simp: validateHex32_def reparseTagString_def slice_def list_all_iff)
qed

lemma reparse_tags_differ: "reparseTagMountPoint \<noteq> reparseTagSymlink"
  by (simp add: reparseTagMountPoint_def reparseTagSymlink_def)

text \<open>The two readers of a path field agree, and so do the two readers of a buffer.\<close>

lemma reparse_field_eq:
  "reparseUTF16Field raw p off len e =
     (case utf16FromReparsePath raw p off len e of
        Inl _ \<Rightarrow> (if off mod 2 \<noteq> 0 \<or> len mod 2 \<noteq> 0 then Inl ''invalid UTF-16 reparse offset or length''
                  else Inl ''reparse UTF-16 field exceeds payload'')
      | Inr us \<Rightarrow> Inr (encodeUTF16LEBase64URL us))"
proof -
  have "concat (map le_PutUint16 (utf16_units (slice (p + off) (p + off + len) raw))) =
      slice (p + off) (p + off + len) raw"
    if "len mod 2 = 0" "p + off + len \<le> length raw"
    using that by (intro concat_utf16_units) (simp add: slice_def even_iff_mod_2_eq_zero)
  then show ?thesis
    by (auto simp: reparseUTF16Field_def utf16FromReparsePath_def encodeUTF16LEBase64URL_def)
qed

lemma parseKnown_error:
  assumes "parseReparseData raw = Inl e" and "8 \<le> length raw"
  shows "\<exists>msg. snd (parseKnownReparseBuffer raw) = Inl msg"
  using assms
  by (auto simp: parseReparseData_def parseKnownReparseBuffer_def Let_def reparse_field_eq
      reparse_tags_differ split: if_splits sum.splits)

definition parsed_known :: "native_reparse \<Rightarrow> parsed_reparse" where
  "parsed_known d =
     (if nr_DataFormat d = ReparseDataFormatRaw
      then \<lparr>pr_DataFormat = [], pr_PrintName = [], pr_SubstituteName = [], pr_SymbolicLinkFlags = []\<rparr>
      else \<lparr>pr_DataFormat = nr_DataFormat d, pr_PrintName = encodeUTF16LEBase64URL (nr_PrintName d),
            pr_SubstituteName = encodeUTF16LEBase64URL (nr_SubstituteName d),
            pr_SymbolicLinkFlags =
              (if nr_DataFormat d = ReparseDataFormatSymbolicLink
               then reparseTagString (nr_SymbolicLinkFlags d) else [])\<rparr>)"

lemma parseKnown_value:
  assumes "parseReparseData raw = Inr d"
  shows "8 \<le> length raw" "nr_Tag d = le_Uint32 (slice 0 4 raw)" "nr_RawBuffer d = raw"
    and "parseKnownReparseBuffer raw = (nr_DataFormat d \<noteq> ReparseDataFormatRaw, Inr (parsed_known d))"
    and "nr_DataFormat d =
      (if nr_Tag d = reparseTagMountPoint then ReparseDataFormatMountPoint
       else if nr_Tag d = reparseTagSymlink then ReparseDataFormatSymbolicLink else ReparseDataFormatRaw)"
  using assms
  by (auto simp: parseReparseData_def parseKnownReparseBuffer_def Let_def reparse_field_eq
      parsed_known_def reparse_names split: if_splits)

lemma reparse_raw_nonempty: "8 \<le> length raw \<Longrightarrow> url_encode raw \<noteq> []"
  by (cases raw) (auto simp: url_encode_Nil)

lemma decode_encoded: "decodeBase64URL (url_encode raw) f = Inr raw"
  by (simp add: decodeBase64URL_iff)

lemma reparseObservationParsed_valid:
  assumes "parseReparseData raw = Inr d"
  shows "ValidateReparseObservation (reparseObservationParsed d) = None"
proof -
  note v = parseKnown_value [OF assms]
  have tag: "reparseTagString (nr_Tag d) \<noteq> []" by (simp add: reparseTagString_def)
  have flags: "reparseTagString (nr_SymbolicLinkFlags d) \<noteq> []" by (simp add: reparseTagString_def)
  consider "nr_Tag d = reparseTagMountPoint" | "nr_Tag d = reparseTagSymlink"
    | "nr_Tag d \<noteq> reparseTagMountPoint" "nr_Tag d \<noteq> reparseTagSymlink" by blast
  then show ?thesis
    using v reparse_raw_nonempty [OF v(1)] tag flags reparse_tags_differ
    by cases
      (simp_all add: ValidateReparseObservation_def reparse_data_present_def decode_encoded
        reparse_format_check_def validateReparsePayloadConsistency_def reparse_names_match_def
        validateReparseTag_def optional_utf16_def require_def reparseObservationParsed_def Let_def
        reparse_names parsed_known_def)
qed

lemma reparseObservationRaw_valid:
  assumes "parseReparseData raw = Inl e" and "8 \<le> length raw" and "reason \<noteq> []"
  shows "ValidateReparseObservation (reparseObservationRaw (le_Uint32 (slice 0 4 raw)) raw reason) = None"
  using parseKnown_error [OF assms(1,2)] assms(2,3) reparse_raw_nonempty [OF assms(2)]
  by (auto simp: ValidateReparseObservation_def reparse_data_present_def decode_encoded
      reparse_format_check_def validateReparsePayloadConsistency_def validateReparseTag_def require_def
      reparseObservationRaw_def reparse_names split: prod.split)

lemma reparseObservation_others_valid:
  "ValidateReparseObservation reparseObservationNotPresent = None"
  "reason \<noteq> [] \<Longrightarrow> ValidateReparseObservation (reparseObservationError tag reason) = None"
  by (simp_all add: ValidateReparseObservation_def reparseObservationNotPresent_def
      reparseObservationError_def validateReparseTag_def require_def reparse_names)

text \<open>
  Every reparse buffer with a whole header becomes a valid record. When the buffer parses, the
  record of the parsed fields passes \<^verbatim>\<open>ValidateReparseObservation\<close>, which reads the raw buffer again
  with a parser of its own; when it does not, the raw record with a reason passes.
\<close>

theorem reparse_record_valid:
  assumes "8 \<le> length raw" and "reason \<noteq> []"
  shows "ValidateReparseObservation
    (case parseReparseData raw of
       Inl _ \<Rightarrow> reparseObservationRaw (le_Uint32 (slice 0 4 raw)) raw reason
     | Inr d \<Rightarrow> reparseObservationParsed d) = None"
  using reparseObservationRaw_valid [OF _ assms] reparseObservationParsed_valid
  by (auto split: sum.split)

text \<open>A symbolic link whose payload is cut short.\<close>

definition short_link :: bytes where
  "short_link = [CHR 0x0C, CHR 0x00, CHR 0x00, CHR 0xA0, CHR 0x04, CHR 0x00, CHR 0x00, CHR 0x00,
     CHR 0x00, CHR 0x00, CHR 0x00, CHR 0x00]"

theorem reparse_record_valid_witness:
  "parseReparseData short_link = Inl ErrMalformedReparseData \<and>
   ValidateReparseObservation
     (reparseObservationRaw (le_Uint32 (slice 0 4 short_link)) short_link ''ReparseDataParseFailed'') = None"
proof -
  have "parseReparseData short_link = Inl ErrMalformedReparseData"
    by (simp add: parseReparseData_def short_link_def word16_at_def slice_def le_Uint16_def le_Uint32_def
        get_be_def reparseTagMountPoint_def reparseTagSymlink_def)
  moreover have "8 \<le> length short_link" by (simp add: short_link_def)
  ultimately show ?thesis
    using reparse_record_valid [of short_link "''ReparseDataParseFailed''"] by simp
qed

end
