(* ===== verification/Ntfs_Observation.thy ===== *)
theory Ntfs_Observation
  imports Ntfs_Facts
begin

text \<open>
  The object observation of \<^verbatim>\<open>windows/ntfs/types.go\<close>, the rules that tie its status to its warnings
  and its parts (\<^verbatim>\<open>observation_consistency.go\<close>), and its validation (\<^verbatim>\<open>validate.go\<close>).
\<close>

section \<open>The observation\<close>

definition ContainmentMethodVersion :: string where
  "ContainmentMethodVersion = ''windows-final-volume-path-containment/0.1''"

definition CollectionEntryPath :: string where "CollectionEntryPath = ''Path''"
definition CollectionEntryNTFSFileID :: string where "CollectionEntryNTFSFileID = ''NTFSFileID''"
definition CollectionBackupAuthorityWindowsNTFS :: string where
  "CollectionBackupAuthorityWindowsNTFS = ''BackupAuthorityWindowsNTFS''"
definition CollectionDirectWindowsNTFS :: string where
  "CollectionDirectWindowsNTFS = ''DirectWindowsNTFS''"

lemmas entry_names = CollectionEntryPath_def CollectionEntryNTFSFileID_def
  CollectionBackupAuthorityWindowsNTFS_def CollectionDirectWindowsNTFS_def

record observation =
  ob_GovernedRoot :: governed_root
  ob_Containment :: path_containment
  ob_VolumeIdentity :: volume_identity
  ob_ObjectIdentity :: ntfs_identity
  ob_ParentBinding :: parent_binding
  ob_SubjectKind :: string
  ob_PathBinding :: path_binding
  ob_ObservedAt :: string
  ob_Metadata :: metadata_observation
  ob_Security :: security_observation
  ob_SACL :: sacl_observation
  ob_Reparse :: reparse_observation
  ob_StreamInventory :: stream_inventory
  ob_ContentHashes :: "content_hashes option"
  ob_ContentPrefix :: "content_prefix option"
  ob_CollectionEntryMethod :: string
  ob_CollectionMethod :: string
  ob_ObservationStatus :: string
  ob_Warnings :: "observation_warning list"

section \<open>Consistency\<close>

definition parentBindingUnavailableReason :: string where
  "parentBindingUnavailableReason = ''ParentBindingUnavailable''"

definition has_warning :: "observation \<Rightarrow> string \<Rightarrow> bool" where
  "has_warning v code \<longleftrightarrow> code \<in> ow_Code ` set (ob_Warnings v)"

definition conflict_if :: "bool \<Rightarrow> string \<Rightarrow> validation_error option" where
  "conflict_if c field = fail_if c (Invalid ''Conflict'' field)"

definition validateContentObservationConsistency ::
  "observation \<Rightarrow> content_hashes \<Rightarrow> content_prefix \<Rightarrow> validation_error option" where
  "validateContentObservationConsistency v hashes prefix =
     (if ob_SubjectKind v = SubjectDirectory \<or> rp_State (ob_Reparse v) = ReparseStatePresent then
        conflict_if (ch_State hashes \<noteq> ContentHashNotApplicable \<or> cx_State prefix \<noteq> ContentPrefixNotApplicable)
          ''content_observation''
      else if ob_SubjectKind v \<noteq> SubjectFile \<or> rp_State (ob_Reparse v) \<noteq> ReparseStateNotPresent then
        Some (Invalid ''Conflict'' ''content_observation'')
      else if ch_State hashes = ContentHashNotApplicable then Some (Invalid ''Conflict'' ''content_hashes'')
      else if ch_State hashes = ContentHashError then
        conflict_if (cx_State prefix \<noteq> ContentPrefixError \<or> cx_ReasonCode prefix \<noteq> ch_ReasonCode hashes \<or>
            cx_Detail prefix \<noteq> ch_Detail hashes) ''content_observation''
      else if ch_State hashes = ContentHashPresent then
        (if cx_State prefix \<noteq> ContentPrefixPresent then Some (Invalid ''Conflict'' ''content_prefix'')
         else case ParseUint 64 (ch_BytesHashed hashes) of
           Inl _ \<Rightarrow> Some (Invalid ''Conflict'' ''content_hashes.bytes_hashed'')
         | Inr bytesHashed \<Rightarrow>
             (case ParseUint 64 (cx_BytesObserved prefix) of
                Inl _ \<Rightarrow> Some (Invalid ''Conflict'' ''content_prefix.bytes_observed'')
              | Inr bytesObserved \<Rightarrow>
                  conflict_if (bytesObserved \<noteq>
                      (if bytesHashed > ContentPrefixMaxBytes then ContentPrefixMaxBytes else bytesHashed))
                    ''content_observation''))
      else Some (Invalid ''Conflict'' ''content_hashes.state''))"

text \<open>The conditions that \<^verbatim>\<open>validateObservationConsistency\<close> names.\<close>

definition parentError :: "observation \<Rightarrow> bool" where
  "parentError v \<longleftrightarrow> pa_State (ob_ParentBinding v) = ParentBindingError"
definition streamError :: "observation \<Rightarrow> bool" where
  "streamError v \<longleftrightarrow> iv_State (ob_StreamInventory v) = ObservationStateError"
definition securityReadError :: "observation \<Rightarrow> bool" where
  "securityReadError v \<longleftrightarrow> so_State (ob_Security v) = ObservationStateError"
definition securityParseFailure :: "observation \<Rightarrow> bool" where
  "securityParseFailure v \<longleftrightarrow>
     so_State (ob_Security v) = ObservationStatePresent \<and> so_DataFormat (ob_Security v) = SecurityDataFormatRaw"
definition saclReadError :: "observation \<Rightarrow> bool" where
  "saclReadError v \<longleftrightarrow> sl_State (ob_SACL v) = ObservationStateError"
definition saclParseFailure :: "observation \<Rightarrow> bool" where
  "saclParseFailure v \<longleftrightarrow>
     sl_State (ob_SACL v) = ObservationStatePresent \<and> sl_DataFormat (ob_SACL v) = SecurityDataFormatRaw"
definition reparseReadError :: "observation \<Rightarrow> bool" where
  "reparseReadError v \<longleftrightarrow> rp_DataState (ob_Reparse v) = ReparseDataStateError"
definition reparseParseFailure :: "observation \<Rightarrow> bool" where
  "reparseParseFailure v \<longleftrightarrow>
     rp_DataState (ob_Reparse v) = ReparseDataStatePresent \<and>
     rp_DataFormat (ob_Reparse v) = ReparseDataFormatRaw \<and>
     rp_ReasonCode (ob_Reparse v) = ''ReparseDataParseFailed''"
definition contentHashFailure :: "observation \<Rightarrow> bool" where
  "contentHashFailure v \<longleftrightarrow>
     (case ob_ContentHashes v of None \<Rightarrow> False | Some hashes \<Rightarrow> ch_State hashes = ContentHashError)"

definition partialCondition :: "observation \<Rightarrow> bool" where
  "partialCondition v \<longleftrightarrow>
     parentError v \<or> streamError v \<or> securityReadError v \<or> securityParseFailure v \<or> saclReadError v \<or>
     saclParseFailure v \<or> reparseReadError v \<or> reparseParseFailure v \<or> contentHashFailure v \<or>
     has_warning v ''PathConsistencyNotVerified''"

text \<open>A failure whose record must carry the reason \<open>code\<close>, and whose warning is \<open>code\<close>.\<close>

definition reason_check :: "bool \<Rightarrow> string \<Rightarrow> string \<Rightarrow> bool \<Rightarrow> string \<Rightarrow> validation_error option" where
  "reason_check failed reason code warned field =
     conflict_if (if failed then reason \<noteq> code \<or> \<not> warned else warned) field"

definition sacl_read_check :: "observation \<Rightarrow> validation_error option" where
  "sacl_read_check v =
     (let privilege = has_warning v ''SACLPrivilegeUnavailable'';
          readFailed = has_warning v ''SACLDescriptorReadFailed'';
          reason = sl_ReasonCode (ob_SACL v)
      in if privilege \<and> readFailed then Some (Invalid ''Conflict'' ''sacl'')
         else if saclReadError v then
           (if reason = ''SACLPrivilegeUnavailable'' then conflict_if (\<not> privilege) ''sacl''
            else if reason = ''SACLDescriptorReadFailed'' then conflict_if (\<not> readFailed) ''sacl''
            else Some (Invalid ''Conflict'' ''sacl''))
         else conflict_if (privilege \<or> readFailed) ''sacl'')"

definition status_check :: "observation \<Rightarrow> validation_error option" where
  "status_check v =
     (if ob_ObservationStatus v = ObservationComplete then
        conflict_if (ob_Warnings v \<noteq> [] \<or> partialCondition v) ''observation_status''
      else if ob_ObservationStatus v = ObservationChangedDuringCollection then
        conflict_if (\<not> has_warning v ''MetadataChangedDuringCollection'' \<or> partialCondition v \<or>
            has_warning v ''PathNowReferencesDifferentObject'') ''observation_status''
      else if ob_ObservationStatus v = ObservationPartial then
        conflict_if (\<not> partialCondition v) ''observation_status''
      else if ob_ObservationStatus v = ObservationReplacedDuringCollection then
        conflict_if (\<not> has_warning v ''PathNowReferencesDifferentObject'') ''observation_status''
      else Some (Invalid ''UnsupportedValue'' ''observation_status''))"

definition validateObservationConsistency :: "observation \<Rightarrow> validation_error option" where
  "validateObservationConsistency v =
     first_err
       [reason_check (parentError v) (pa_ReasonCode (ob_ParentBinding v)) parentBindingUnavailableReason
          (has_warning v parentBindingUnavailableReason) ''parent_binding'',
        conflict_if (streamError v \<noteq> has_warning v ''StreamEnumerationFailed'') ''stream_inventory'',
        reason_check (securityReadError v) (so_ReasonCode (ob_Security v)) ''SecurityDescriptorReadFailed''
          (has_warning v ''SecurityDescriptorReadFailed'') ''security'',
        reason_check (securityParseFailure v) (so_ReasonCode (ob_Security v)) ''SecurityDescriptorParseFailed''
          (has_warning v ''SecurityDescriptorParseFailed'') ''security'',
        sacl_read_check v,
        reason_check (saclParseFailure v) (sl_ReasonCode (ob_SACL v)) ''SACLDescriptorParseFailed''
          (has_warning v ''SACLDescriptorParseFailed'') ''sacl'',
        conflict_if (reparseReadError v \<noteq> has_warning v ''ReparseDataReadFailed'') ''reparse'',
        conflict_if (reparseParseFailure v \<noteq> has_warning v ''ReparseDataParseFailed'') ''reparse'',
        (case (ob_ContentHashes v, ob_ContentPrefix v) of
           (Some hashes, Some prefix) \<Rightarrow> validateContentObservationConsistency v hashes prefix
         | _ \<Rightarrow> None),
        conflict_if (contentHashFailure v \<noteq> has_warning v ''ContentHashFailed'') ''content_hashes'',
        status_check v]"

section \<open>Validation\<close>

definition ValidateObservation :: "observation \<Rightarrow> validation_error option" where
  "ValidateObservation v =
     first_err
       [ValidateGovernedRootIdentity (ob_GovernedRoot v), ValidatePathContainment (ob_Containment v),
        ValidateVolumeIdentity (ob_VolumeIdentity v), ValidateNTFSObjectIdentity (ob_ObjectIdentity v),
        ValidateParentObjectBinding (ob_ParentBinding v), ValidateSubjectKind (ob_SubjectKind v),
        ValidatePathBinding (ob_PathBinding v), ValidateObservedAt (ob_ObservedAt v),
        ValidateMetadataObservation (ob_Metadata v), ValidateSecurityObservation (ob_Security v),
        ValidateSACLObservation (ob_SACL v), ValidateReparseObservation (ob_Reparse v),
        ValidateStreamInventory (ob_StreamInventory v),
        conflict_if ((ob_ContentHashes v = None) \<noteq> (ob_ContentPrefix v = None)) ''content_observation'',
        (case ob_ContentHashes v of None \<Rightarrow> None | Some h \<Rightarrow> ValidateContentHashObservation h),
        (case ob_ContentPrefix v of None \<Rightarrow> None | Some p \<Rightarrow> ValidateContentPrefixObservation p),
        fail_if (ob_CollectionEntryMethod v \<notin> {CollectionEntryPath, CollectionEntryNTFSFileID})
          (Invalid ''UnsupportedValue'' ''collection_entry_method''),
        fail_if (ob_CollectionMethod v \<notin>
            {CollectionBackupAuthorityWindowsNTFS, CollectionDirectWindowsNTFS})
          (Invalid ''UnsupportedValue'' ''collection_method''),
        ValidateObservationStatus (ob_ObservationStatus v),
        ValidateObservationWarnings (ob_Warnings v),
        validateObservationConsistency v]"


section \<open>What the status says\<close>

text \<open>Each failure of a part, with the warnings that report it.\<close>

definition failure_reports :: "observation \<Rightarrow> (bool \<times> string set) set" where
  "failure_reports v =
     {(parentError v, {parentBindingUnavailableReason}), (streamError v, {''StreamEnumerationFailed''}),
      (securityReadError v, {''SecurityDescriptorReadFailed''}),
      (securityParseFailure v, {''SecurityDescriptorParseFailed''}),
      (saclReadError v, {''SACLPrivilegeUnavailable'', ''SACLDescriptorReadFailed''}),
      (saclParseFailure v, {''SACLDescriptorParseFailed''}),
      (reparseReadError v, {''ReparseDataReadFailed''}), (reparseParseFailure v, {''ReparseDataParseFailed''}),
      (contentHashFailure v, {''ContentHashFailed''})}"

lemma conflict_if_None [simp]: "conflict_if c field = None \<longleftrightarrow> \<not> c"
  by (simp add: conflict_if_def)

lemma reason_check_None [simp]:
  "reason_check failed reason code warned field = None \<longleftrightarrow> warned = failed \<and> (failed \<longrightarrow> reason = code)"
  by (auto simp: reason_check_def)

lemma sacl_read_check_warned:
  "sacl_read_check v = None \<Longrightarrow>
   saclReadError v \<longleftrightarrow> has_warning v ''SACLPrivilegeUnavailable'' \<or> has_warning v ''SACLDescriptorReadFailed''"
  by (auto simp: sacl_read_check_def Let_def split: if_splits)

lemma failures_reported:
  assumes "validateObservationConsistency v = None" and "(failed, codes) \<in> failure_reports v"
  shows "failed \<longleftrightarrow> (\<exists>code\<in>codes. has_warning v code)"
  using assms sacl_read_check_warned [of v]
  unfolding validateObservationConsistency_def failure_reports_def first_err_Cons_None
    reason_check_None conflict_if_None
  by (elim conjE insertE emptyE) auto

lemma warnings_loop_sorted:
  "warnings_loop i previous ws = None \<Longrightarrow>
   sorted_wrt (<) (map ow_Code ws) \<and> (previous \<noteq> [] \<longrightarrow> (\<forall>w\<in>set ws. previous < ow_Code w)) \<and>
   (\<forall>w\<in>set ws. ow_Code w \<noteq> [])"
proof (induction ws arbitrary: i previous)
  case (Cons w ws)
  then have w: "ow_Code w \<noteq> []" "previous = [] \<or> previous < ow_Code w"
    "warnings_loop (Suc i) (ow_Code w) ws = None"
    by (auto simp: require_def split: option.splits if_splits)
  from Cons.IH [OF w(3)] w show ?case by (auto intro: less_trans)
qed simp

text \<open>
  The status of a valid observation is the truth about its parts. Every failure of a part is
  reported by its warning and no warning reports a failure that is not there; a complete
  observation has no failure and no warning, a partial one has a failure or an unverified path, a
  changed one has neither but reports the change, a replaced one reports the replacement; and the
  warnings are sorted and distinct.
\<close>

theorem observation_status_truthful:
  assumes "ValidateObservation v = None"
  shows "(\<forall>(failed, codes)\<in>failure_reports v. failed \<longleftrightarrow> (\<exists>code\<in>codes. has_warning v code)) \<and>
    sorted_wrt (<) (map ow_Code (ob_Warnings v)) \<and>
    (if ob_ObservationStatus v = ObservationComplete then
       ob_Warnings v = [] \<and> (\<forall>(failed, codes)\<in>failure_reports v. \<not> failed)
     else if ob_ObservationStatus v = ObservationChangedDuringCollection then
       has_warning v ''MetadataChangedDuringCollection'' \<and> (\<forall>(failed, codes)\<in>failure_reports v. \<not> failed)
     else if ob_ObservationStatus v = ObservationPartial then
       has_warning v ''PathConsistencyNotVerified'' \<or> (\<exists>(failed, codes)\<in>failure_reports v. failed)
     else ob_ObservationStatus v = ObservationReplacedDuringCollection \<and>
       has_warning v ''PathNowReferencesDifferentObject'')"
proof -
  have c: "validateObservationConsistency v = None" and w: "ValidateObservationWarnings (ob_Warnings v) = None"
    using assms unfolding ValidateObservation_def first_err_Cons_None by blast+
  have partial: "partialCondition v \<longleftrightarrow>
      has_warning v ''PathConsistencyNotVerified'' \<or> (\<exists>(failed, codes)\<in>failure_reports v. failed)"
    by (auto simp: partialCondition_def failure_reports_def)
  have "status_check v = None"
    using c unfolding validateObservationConsistency_def first_err_Cons_None by blast
  then have "if ob_ObservationStatus v = ObservationComplete then
       ob_Warnings v = [] \<and> \<not> partialCondition v
     else if ob_ObservationStatus v = ObservationChangedDuringCollection then
       has_warning v ''MetadataChangedDuringCollection'' \<and> \<not> partialCondition v
     else if ob_ObservationStatus v = ObservationPartial then partialCondition v
     else ob_ObservationStatus v = ObservationReplacedDuringCollection \<and>
       has_warning v ''PathNowReferencesDifferentObject''"
    by (auto simp: status_check_def split: if_splits)
  then have "if ob_ObservationStatus v = ObservationComplete then
       ob_Warnings v = [] \<and> (\<forall>(failed, codes)\<in>failure_reports v. \<not> failed)
     else if ob_ObservationStatus v = ObservationChangedDuringCollection then
       has_warning v ''MetadataChangedDuringCollection'' \<and> (\<forall>(failed, codes)\<in>failure_reports v. \<not> failed)
     else if ob_ObservationStatus v = ObservationPartial then
       has_warning v ''PathConsistencyNotVerified'' \<or> (\<exists>(failed, codes)\<in>failure_reports v. failed)
     else ob_ObservationStatus v = ObservationReplacedDuringCollection \<and>
       has_warning v ''PathNowReferencesDifferentObject''"
    unfolding partial by (auto split: if_splits)
  moreover have "sorted_wrt (<) (map ow_Code (ob_Warnings v))"
    using w warnings_loop_sorted unfolding ValidateObservationWarnings_def by blast
  ultimately show ?thesis using failures_reported [OF c] by blast
qed

end
