(* ===== verification/FI_Digest.thy ===== *)
theory FI_Digest
  imports FI_Hash
begin

text \<open>
  \<^verbatim>\<open>crypto/md5\<close> (RFC 1321) and \<^verbatim>\<open>crypto/sha1\<close> (FIPS 180-4), on 32-bit words: the two older digests
  that the content hashes of \<^verbatim>\<open>windows/ntfs/content_hash_windows.go\<close> carry beside SHA-256.
\<close>

unbundle bit_operations_syntax

definition rotl32 :: "nat \<Rightarrow> uint32 \<Rightarrow> uint32" where
  "rotl32 n x = push_bit n x OR drop_bit (32 - n) x"

section \<open>SHA-1\<close>

record sha1_state =
  s1a :: uint32
  s1b :: uint32
  s1c :: uint32
  s1d :: uint32
  s1e :: uint32

definition sha1_init :: sha1_state where
  "sha1_init = \<lparr>s1a = 0x67452301, s1b = 0xEFCDAB89, s1c = 0x98BADCFE, s1d = 0x10325476, s1e = 0xC3D2E1F0\<rparr>"

text \<open>The message schedule, newest word first.\<close>

fun sha1_schedule :: "nat \<Rightarrow> uint32 list \<Rightarrow> uint32 list" where
  "sha1_schedule 0 ws = ws"
| "sha1_schedule (Suc n) ws =
     sha1_schedule n (rotl32 1 (ws ! 2 XOR ws ! 7 XOR ws ! 13 XOR ws ! 15) # ws)"

definition sha1_f :: "nat \<Rightarrow> uint32 \<Rightarrow> uint32 \<Rightarrow> uint32 \<Rightarrow> uint32" where
  "sha1_f t b c d =
     (if t < 20 then (b AND c) OR (NOT b AND d)
      else if t < 40 then b XOR c XOR d
      else if t < 60 then (b AND c) OR (b AND d) OR (c AND d)
      else b XOR c XOR d)"

definition sha1_k :: "nat \<Rightarrow> uint32" where
  "sha1_k t =
     (if t < 20 then 0x5A827999 else if t < 40 then 0x6ED9EBA1 else if t < 60 then 0x8F1BBCDC
      else 0xCA62C1D6)"

definition sha1_round :: "nat \<times> uint32 \<Rightarrow> sha1_state \<Rightarrow> sha1_state" where
  "sha1_round tw s =
     \<lparr>s1a = rotl32 5 (s1a s) + sha1_f (fst tw) (s1b s) (s1c s) (s1d s) + s1e s + sha1_k (fst tw) + snd tw,
      s1b = s1a s, s1c = rotl32 30 (s1b s), s1d = s1c s, s1e = s1d s\<rparr>"

definition sha1_block :: "sha1_state \<Rightarrow> bytes \<Rightarrow> sha1_state" where
  "sha1_block s blk =
     (let w = rev (sha1_schedule 64 (rev (words_of blk)));
          r = fold sha1_round (zip [0..<80] w) s
      in \<lparr>s1a = s1a s + s1a r, s1b = s1b s + s1b r, s1c = s1c s + s1c r, s1d = s1d s + s1d r,
          s1e = s1e s + s1e r\<rparr>)"

function digest_blocks :: "('s \<Rightarrow> bytes \<Rightarrow> 's) \<Rightarrow> 's \<Rightarrow> bytes \<Rightarrow> 's" where
  "digest_blocks f s bs = (if bs = [] then s else digest_blocks f (f s (take 64 bs)) (drop 64 bs))"
  by pat_completeness auto
termination
  by (relation "measure (\<lambda>(f, s, bs). length bs)") auto

declare digest_blocks.simps [simp del]

definition sha1_Sum :: "bytes \<Rightarrow> bytes" where
  "sha1_Sum m =
     (let s = digest_blocks sha1_block sha1_init (sha256_pad m)
      in be_PutUint32 (s1a s) @ be_PutUint32 (s1b s) @ be_PutUint32 (s1c s) @ be_PutUint32 (s1d s)
       @ be_PutUint32 (s1e s))"

section \<open>MD5\<close>

text \<open>The constants of RFC 1321: the integer part of 2 to the 32 times the sine of the round.\<close>

definition md5_K :: "uint32 list" where
  "md5_K =
    [3614090360, 3905402710, 606105819, 3250441966, 4118548399, 1200080426,
     2821735955, 4249261313, 1770035416, 2336552879, 4294925233, 2304563134,
     1804603682, 4254626195, 2792965006, 1236535329, 4129170786, 3225465664,
     643717713, 3921069994, 3593408605, 38016083, 3634488961, 3889429448,
     568446438, 3275163606, 4107603335, 1163531501, 2850285829, 4243563512,
     1735328473, 2368359562, 4294588738, 2272392833, 1839030562, 4259657740,
     2763975236, 1272893353, 4139469664, 3200236656, 681279174, 3936430074,
     3572445317, 76029189, 3654602809, 3873151461, 530742520, 3299628645,
     4096336452, 1126891415, 2878612391, 4237533241, 1700485571, 2399980690,
     4293915773, 2240044497, 1873313359, 4264355552, 2734768916, 1309151649,
     4149444226, 3174756917, 718787259, 3951481745]"

definition md5_shifts :: "nat list" where
  "md5_shifts =
     concat (replicate 4 [7, 12, 17, 22]) @ concat (replicate 4 [5, 9, 14, 20]) @
     concat (replicate 4 [4, 11, 16, 23]) @ concat (replicate 4 [6, 10, 15, 21])"

record md5_state =
  m5a :: uint32
  m5b :: uint32
  m5c :: uint32
  m5d :: uint32

definition md5_init :: md5_state where
  "md5_init = \<lparr>m5a = 0x67452301, m5b = 0xEFCDAB89, m5c = 0x98BADCFE, m5d = 0x10325476\<rparr>"

definition md5_f :: "nat \<Rightarrow> uint32 \<Rightarrow> uint32 \<Rightarrow> uint32 \<Rightarrow> uint32" where
  "md5_f i b c d =
     (if i < 16 then (b AND c) OR (NOT b AND d)
      else if i < 32 then (d AND b) OR (NOT d AND c)
      else if i < 48 then b XOR c XOR d
      else c XOR (b OR NOT d))"

definition md5_index :: "nat \<Rightarrow> nat" where
  "md5_index i =
     (if i < 16 then i else if i < 32 then (5 * i + 1) mod 16 else if i < 48 then (3 * i + 5) mod 16
      else 7 * i mod 16)"

definition md5_round :: "uint32 list \<Rightarrow> nat \<times> uint32 \<times> nat \<Rightarrow> md5_state \<Rightarrow> md5_state" where
  "md5_round ws step s =
     (case step of (i, k, r) \<Rightarrow>
       \<lparr>m5a = m5d s,
        m5b = m5b s + rotl32 r (m5a s + md5_f i (m5b s) (m5c s) (m5d s) + k + ws ! md5_index i),
        m5c = m5b s, m5d = m5c s\<rparr>)"

fun le_words_of :: "bytes \<Rightarrow> uint32 list" where
  "le_words_of (a # b # c # d # bs) = le_Uint32 [a, b, c, d] # le_words_of bs"
| "le_words_of _ = []"

definition md5_block :: "md5_state \<Rightarrow> bytes \<Rightarrow> md5_state" where
  "md5_block s blk =
     (let r = fold (md5_round (le_words_of blk)) (zip [0..<64] (zip md5_K md5_shifts)) s
      in \<lparr>m5a = m5a s + m5a r, m5b = m5b s + m5b r, m5c = m5c s + m5c r, m5d = m5d s + m5d r\<rparr>)"

definition md5_pad :: "bytes \<Rightarrow> bytes" where
  "md5_pad m =
     m @ [CHR 0x80] @ replicate ((119 - length m mod 64) mod 64) (CHR 0x00)
       @ rev (put_be 8 (8 * length m))"

definition md5_Sum :: "bytes \<Rightarrow> bytes" where
  "md5_Sum m =
     (let s = digest_blocks md5_block md5_init (md5_pad m)
      in le_PutUint32 (m5a s) @ le_PutUint32 (m5b s) @ le_PutUint32 (m5c s) @ le_PutUint32 (m5d s))"

lemma length_digests [simp, fi_len]: "length (sha1_Sum m) = 20" "length (md5_Sum m) = 16"
  by (simp_all add: sha1_Sum_def md5_Sum_def Let_def)

end
