(* ===== verification/Ntfs_Native.thy ===== *)
theory Ntfs_Native
  imports Ntfs_Observation FI_Digest FI_OS Usn_Service
begin

text \<open>
  The Windows boundary of \<^verbatim>\<open>windows/ntfs\<close> (\<^verbatim>\<open>syscall_windows.go\<close>, \<^verbatim>\<open>fileid_windows.go\<close>,
  \<^verbatim>\<open>security_windows.go\<close>, \<^verbatim>\<open>security_sacl_windows.go\<close>). The system calls themselves are the fields
  of \<open>ntfs_os\<close>: each may fail, and may change the world it runs in, in any way. What FI does
  around a call (buffer growth, bounds, parsing, look-ups by identity) is defined here.
\<close>

section \<open>The system\<close>

type_synonym handle = nat

text \<open>
  \<^verbatim>\<open>ntx_Reads\<close> are the results of \<^verbatim>\<open>file.Read\<close> on a handle, up to the first error: the pieces, and
  the error that ended them, where \<open>None\<close> is the end of the file.
\<close>

record 'w ntfs_os =
  ntx_EqualFold :: "string \<Rightarrow> string \<Rightarrow> bool"
  ntx_Context :: "'w \<Rightarrow> (go_err + unit) \<times> 'w"
  ntx_Now :: "'w \<Rightarrow> civil \<times> 'w"
  ntx_CreateFile :: "uint16 list \<Rightarrow> 'w \<Rightarrow> (go_err + handle) \<times> 'w"
  ntx_OpenFileById :: "handle \<Rightarrow> uint64 \<Rightarrow> uint32 \<Rightarrow> 'w \<Rightarrow> (go_err + handle) \<times> 'w"
  ntx_CloseHandle :: "handle \<Rightarrow> 'w \<Rightarrow> (go_err + unit) \<times> 'w"
  ntx_VolumeInformation :: "handle \<Rightarrow> 'w \<Rightarrow> (go_err + uint16 list) \<times> 'w"
  ntx_FinalPathName :: "handle \<Rightarrow> nat \<Rightarrow> 'w \<Rightarrow> (go_err + nat \<times> uint16 list) \<times> 'w"
  ntx_BasicInfo :: "handle \<Rightarrow> 'w \<Rightarrow> (go_err + basic_info) \<times> 'w"
  ntx_StandardInfo :: "handle \<Rightarrow> 'w \<Rightarrow> (go_err + standard_info) \<times> 'w"
  ntx_AttributeTagInfo :: "handle \<Rightarrow> 'w \<Rightarrow> (go_err + attribute_tag_info) \<times> 'w"
  ntx_IdInfo :: "handle \<Rightarrow> 'w \<Rightarrow> (go_err + file_id_info) \<times> 'w"
  ntx_StreamInfo :: "handle \<Rightarrow> nat \<Rightarrow> 'w \<Rightarrow> (go_err + bytes) \<times> 'w"
  ntx_ReparsePoint :: "handle \<Rightarrow> nat \<Rightarrow> 'w \<Rightarrow> (go_err + nat \<times> bytes) \<times> 'w"
  ntx_ObjectSecurity :: "handle \<Rightarrow> nat \<Rightarrow> 'w \<Rightarrow> (bool \<times> nat \<times> bytes \<times> go_err) \<times> 'w"
  ntx_Reads :: "handle \<Rightarrow> 'w \<Rightarrow> (bytes list \<times> go_err option) \<times> 'w"

definition ErrGovernedRootChangedDuringCollection :: go_err where
  "ErrGovernedRootChangedDuringCollection = ErrorsNew ''governed root changed during collection''"
definition ErrGovernedRootNotDirectory :: go_err where
  "ErrGovernedRootNotDirectory = ErrorsNew ''governed root must be a directory''"
definition ErrGovernedRootReparse :: go_err where
  "ErrGovernedRootReparse = ErrorsNew ''governed root cannot be a reparse object''"
definition ErrIdentityChanged :: go_err where
  "ErrIdentityChanged = ErrorsNew ''object identity changed during collection''"
definition ErrNotNTFS :: go_err where
  "ErrNotNTFS = ErrorsNew ''path is not on an NTFS volume''"
definition ErrObjectIdentityMismatch :: go_err where
  "ErrObjectIdentityMismatch = ErrorsNew ''opened object does not match requested NTFS object identity''"
definition ErrOutsideGovernedRoot :: go_err where
  "ErrOutsideGovernedRoot = ErrorsNew ''path is outside the governed root''"
definition ErrReparseChangedDuringCollection :: go_err where
  "ErrReparseChangedDuringCollection = ErrorsNew ''reparse state changed during collection''"
definition ErrScopeRequired :: go_err where
  "ErrScopeRequired = ErrorsNew ''scope ID is required''"
definition ErrStreamBufferLimit :: go_err where
  "ErrStreamBufferLimit = ErrorsNew ''NTFS stream inventory exceeded bounded buffer limit''"

text \<open>\<^verbatim>\<open>&Error{Stage, Op, Err}\<close>, whose text is \<^verbatim>\<open>ntfs Stage/Op: Err\<close>.\<close>

definition ntfs_err :: "string \<Rightarrow> string \<Rightarrow> go_err \<Rightarrow> go_err" where
  "ntfs_err stage op e = Wrapped (''ntfs '' @ stage @ ''/'' @ op) e"

text \<open>A deferred \<^verbatim>\<open>CloseHandle\<close>.\<close>

definition closing :: "'w ntfs_os \<Rightarrow> handle \<Rightarrow> ('w \<Rightarrow> ('e + 'a) \<times> 'w) \<Rightarrow> 'w \<Rightarrow> ('e + 'a) \<times> 'w" where
  "closing T h m w = (case m w of (r, w') \<Rightarrow> (r, snd (ntx_CloseHandle T h w')))"

lemma closing_Inr [simp]:
  "closing T h m w = (Inr y, w') \<longleftrightarrow> (\<exists>v. m w = (Inr y, v) \<and> w' = snd (ntx_CloseHandle T h v))"
  by (auto simp: closing_def split: prod.splits)

section \<open>Paths and handles\<close>

definition nulTerminate :: "uint16 list \<Rightarrow> uint16 list" where
  "nulTerminate path = path @ [0]"

definition openPath :: "'w ntfs_os \<Rightarrow> uint16 list \<Rightarrow> 'w \<Rightarrow> (go_err + handle) \<times> 'w" where
  "openPath T path =
     bindP (stop_if (path = [] \<or> last path \<noteq> 0) ErrInvalidPath) (\<lambda>_. ntx_CreateFile T path)"

definition fileReadAttributes :: uint32 where "fileReadAttributes = 0x0080"
definition genericRead :: uint32 where "genericRead = 0x80000000"
definition readControl :: uint32 where "readControl = 0x00020000"

definition openFileByObjectIdentityAccess ::
  "'w ntfs_os \<Rightarrow> handle \<Rightarrow> ntfs_identity \<Rightarrow> uint32 \<Rightarrow> 'w \<Rightarrow> (go_err + handle) \<times> 'w" where
  "openFileByObjectIdentityAccess T volumeHint identity desiredAccess =
     bindP (liftP (composeNTFSFileID identity)) (\<lambda>fileID. ntx_OpenFileById T volumeHint fileID desiredAccess)"

definition openFileByObjectIdentity ::
  "'w ntfs_os \<Rightarrow> handle \<Rightarrow> ntfs_identity \<Rightarrow> 'w \<Rightarrow> (go_err + handle) \<times> 'w" where
  "openFileByObjectIdentity T volumeHint identity =
     openFileByObjectIdentityAccess T volumeHint identity fileReadAttributes"

text \<open>What a call left in a buffer of the given length that was made of zeros.\<close>

definition written :: "nat \<Rightarrow> 'a \<Rightarrow> 'a list \<Rightarrow> 'a list" where
  "written n z xs = take n (xs @ replicate n z)"

definition maximumFinalPathUTF16Units :: nat where "maximumFinalPathUTF16Units = 64 * 1024"

definition finalPathBufferLength :: "nat \<Rightarrow> go_err + nat" where
  "finalPathBufferLength required =
     (if required \<ge> maximumFinalPathUTF16Units
      then Inl (ErrorsNew (''final path exceeds bounded UTF-16 limit: '' @ FormatUint required @ '' >= '' @
        FormatUint maximumFinalPathUTF16Units))
      else Inr (required + 1))"

fun final_path_loop :: "'w ntfs_os \<Rightarrow> handle \<Rightarrow> nat \<Rightarrow> nat \<Rightarrow> 'w \<Rightarrow> (go_err + uint16 list) \<times> 'w" where
  "final_path_loop T h bufsize 0 = failP (ErrorsNew ''final path exceeded retry bound'')"
| "final_path_loop T h bufsize (Suc attempts) =
     bindP (ntx_FinalPathName T h bufsize) (\<lambda>(len, units).
     if len < bufsize then
       (let result = take len (written bufsize 0 units) in
        bindP (stop_if (\<not> hasASCIIPrefix result volume_path_prefix) ErrNotLocalVolume) (\<lambda>_.
        bindP (liftP (volumeGUIDFromFinalPath result)) (\<lambda>_. retP result)))
     else
       bindP (liftP (finalPathBufferLength len)) (\<lambda>nextSize.
       final_path_loop T h nextSize attempts))"

definition finalVolumePath :: "'w ntfs_os \<Rightarrow> handle \<Rightarrow> 'w \<Rightarrow> (go_err + uint16 list) \<times> 'w" where
  "finalVolumePath T h = final_path_loop T h 512 3"

definition queryVolume :: "'w ntfs_os \<Rightarrow> handle \<Rightarrow> 'w \<Rightarrow> (go_err + string) \<times> 'w" where
  "queryVolume T h =
     bindP (ntx_VolumeInformation T h) (\<lambda>units. retP (UTF16ToString (written 32 0 units)))"

section \<open>State, streams, reparse data\<close>

definition queryNativeState :: "'w ntfs_os \<Rightarrow> handle \<Rightarrow> 'w \<Rightarrow> (go_err + native_state) \<times> 'w" where
  "queryNativeState T h =
     bindP (callP (ntfs_err ''Metadata'' ''GetFileInformationByHandleEx(FileBasicInfo)'')
       (ntx_BasicInfo T h)) (\<lambda>basic.
     bindP (callP (ntfs_err ''Metadata'' ''GetFileInformationByHandleEx(FileStandardInfo)'')
       (ntx_StandardInfo T h)) (\<lambda>standard.
     bindP (callP (ntfs_err ''Metadata'' ''GetFileInformationByHandleEx(FileAttributeTagInfo)'')
       (ntx_AttributeTagInfo T h)) (\<lambda>tag.
     bindP (callP (ntfs_err ''Identity'' ''GetFileInformationByHandleEx(FileIdInfo)'')
       (ntx_IdInfo T h)) (\<lambda>fid.
     retP \<lparr>na_AttributeTag = tag, na_Basic = basic, na_ID = fid, na_Standard = standard\<rparr>))))"

definition maximumReparseDataBufferSize :: nat where "maximumReparseDataBufferSize = 16 * 1024"

definition queryReparseData :: "'w ntfs_os \<Rightarrow> handle \<Rightarrow> 'w \<Rightarrow> (go_err + bytes) \<times> 'w" where
  "queryReparseData T h =
     bindP (callP (ntfs_err ''Reparse'' ''DeviceIoControl(FSCTL_GET_REPARSE_POINT)'')
       (ntx_ReparsePoint T h maximumReparseDataBufferSize)) (\<lambda>(bytesReturned, data).
     bindP (stop_if (bytesReturned < 8 \<or> bytesReturned > maximumReparseDataBufferSize)
       (ntfs_err ''Reparse'' ''DeviceIoControl(FSCTL_GET_REPARSE_POINT)'' ErrMalformedReparseData)) (\<lambda>_.
     retP (take bytesReturned (written maximumReparseDataBufferSize (CHR 0x00) data))))"

definition initialStreamInfoBuffer :: nat where "initialStreamInfoBuffer = 64 * 1024"
definition maximumStreamInfoBuffer :: nat where "maximumStreamInfoBuffer = 4 * 1024 * 1024"

text \<open>The loop doubles the buffer; a buffer of no bytes cannot occur and stops the recursion.\<close>

function stream_info_loop :: "'w ntfs_os \<Rightarrow> handle \<Rightarrow> nat \<Rightarrow> 'w \<Rightarrow> (go_err + native_stream list) \<times> 'w" where
  "stream_info_loop T h bufsize w =
     (if bufsize = 0 \<or> bufsize > maximumStreamInfoBuffer
      then (Inl (ntfs_err ''Streams'' ''GetFileInformationByHandleEx(FileStreamInfo)'' ErrStreamBufferLimit), w)
      else case ntx_StreamInfo T h bufsize w of
        (Inr data, w') \<Rightarrow> (parseStreamInfo (written bufsize (CHR 0x00) data), w')
      | (Inl e, w') \<Rightarrow>
          (case e of
             Errno n m \<Rightarrow>
               if n = 38 then (Inr [], w')
               else if n = 122 \<or> n = 234 then stream_info_loop T h (bufsize * 2) w'
               else (Inl (ntfs_err ''Streams'' ''GetFileInformationByHandleEx(FileStreamInfo)'' e), w')
           | _ \<Rightarrow> (Inl (ntfs_err ''Streams'' ''GetFileInformationByHandleEx(FileStreamInfo)'' e), w')))"
  by pat_completeness auto
termination
  by (relation "measure (\<lambda>(T, h, bufsize, w). maximumStreamInfoBuffer + 1 - bufsize)") auto

declare stream_info_loop.simps [simp del]

definition queryStreams :: "'w ntfs_os \<Rightarrow> handle \<Rightarrow> 'w \<Rightarrow> (go_err + native_stream list) \<times> 'w" where
  "queryStreams T h = stream_info_loop T h initialStreamInfoBuffer"

section \<open>Security descriptors\<close>

definition securityObjectIdentity :: "'w ntfs_os \<Rightarrow> handle \<Rightarrow> 'w \<Rightarrow> (go_err + ntfs_identity) \<times> 'w" where
  "securityObjectIdentity T h =
     bindP (queryNativeState T h) (\<lambda>state.
     bindP (liftP (map_err (Wrapped ''decode NTFS object identity for security query'')
       (buildObjectIdentity (na_ID state)))) (\<lambda>(_, identity). retP identity))"

definition windowsCallError :: "string \<Rightarrow> go_err \<Rightarrow> go_err" where
  "windowsCallError operation callErr =
     (case callErr of
        Errno n m \<Rightarrow> if n = 0 then ErrorsNew (operation @ '' failed'') else Wrapped operation callErr
      | _ \<Rightarrow> Wrapped operation callErr)"

definition maximumSecurityDescriptorBuffer :: nat where
  "maximumSecurityDescriptorBuffer = 128 * 1024"

definition read_security :: "'w ntfs_os \<Rightarrow> handle \<Rightarrow> 'w \<Rightarrow> (go_err + bytes) \<times> 'w" where
  "read_security T h w =
     (case ntx_ObjectSecurity T h 0 w of ((ok, needed, _, callErr), w') \<Rightarrow>
        if ok \<and> needed = 0
        then (Inl (ErrorsNew ''GetKernelObjectSecurity returned an empty descriptor''), w')
        else if needed = 0 then (Inl (windowsCallError ''GetKernelObjectSecurity(size)'' callErr), w')
        else if needed > maximumSecurityDescriptorBuffer
        then (Inl (ErrorsNew (''security descriptor exceeds bounded buffer limit: '' @ FormatUint needed)), w')
        else (case ntx_ObjectSecurity T h needed w' of ((ok', needed', data, callErr'), w'') \<Rightarrow>
          if \<not> ok' then (Inl (windowsCallError ''GetKernelObjectSecurity'' callErr'), w'')
          else if needed' = 0 \<or> needed' > needed
          then (Inl (ErrorsNew (''GetKernelObjectSecurity returned invalid length '' @ FormatUint needed')), w'')
          else (Inr (take needed' (written needed (CHR 0x00) data)), w'')))"

definition querySecurityDescriptor :: "'w ntfs_os \<Rightarrow> handle \<Rightarrow> 'w \<Rightarrow> (go_err + bytes) \<times> 'w" where
  "querySecurityDescriptor T h =
     bindP (securityObjectIdentity T h) (\<lambda>identity.
     bindP (callP (Wrapped ''OpenFileById(READ_CONTROL)'')
       (openFileByObjectIdentityAccess T h identity readControl)) (\<lambda>securityHandle.
     closing T securityHandle (read_security T securityHandle)))"

text \<open>A \<^verbatim>\<open>SACLDescriptorReader\<close>; \<open>None\<close> is a nil function.\<close>

type_synonym 'w sacl_reader =
  "(string \<Rightarrow> uint64 \<Rightarrow> uint16 \<Rightarrow> 'w \<Rightarrow> (go_err + bytes) \<times> 'w) option"

definition saclPrivilegeUnavailable :: string where
  "saclPrivilegeUnavailable = ''SACLPrivilegeUnavailable''"
definition saclDescriptorReadFailed :: string where
  "saclDescriptorReadFailed = ''SACLDescriptorReadFailed''"

text \<open>\<^verbatim>\<open>errors.Is\<close> for the sentinel of the broker client.\<close>

fun is_sentinel :: "string \<Rightarrow> go_err \<Rightarrow> bool" where
  "is_sentinel name (Sentinel n e) \<longleftrightarrow> n = name"
| "is_sentinel name (Wrapped what e) \<longleftrightarrow> is_sentinel name e"
| "is_sentinel name _ \<longleftrightarrow> False"

definition saclReaderReasonCode :: "go_err \<Rightarrow> string" where
  "saclReaderReasonCode e =
     (if is_sentinel ErrSACLPrivilegeUnavailable e then saclPrivilegeUnavailable
      else if err_errno e = Some 1300 \<or> err_errno e = Some 1314 then saclPrivilegeUnavailable
      else saclDescriptorReadFailed)"

text \<open>A \<^verbatim>\<open>saclQueryError\<close> is its reason code and its error; every failure is one.\<close>

definition querySACLDescriptorWithReader ::
  "'w ntfs_os \<Rightarrow> uint16 list \<Rightarrow> handle \<Rightarrow> 'w sacl_reader \<Rightarrow> 'w \<Rightarrow>
     ((string \<times> go_err) + bytes) \<times> 'w" where
  "querySACLDescriptorWithReader T requestedPath h readSACL =
     (case readSACL of
        None \<Rightarrow> failP (saclDescriptorReadFailed, ErrorsNew ''SACL reader is required'')
      | Some reader \<Rightarrow>
          bindP (callP (\<lambda>e. (saclDescriptorReadFailed, e)) (securityObjectIdentity T h)) (\<lambda>identity.
          bindP (liftP (map_err (\<lambda>e. (saclDescriptorReadFailed,
              Wrapped ''parse NTFS file reference number'' (parse_err e)))
            (ParseUint 64 (ni_FileReferenceNumber identity)))) (\<lambda>fileReferenceNumber.
          bindP (liftP (map_err (\<lambda>e. (saclDescriptorReadFailed,
              Wrapped ''parse NTFS sequence number'' (parse_err e)))
            (ParseUint 16 (ni_SequenceNumber identity)))) (\<lambda>sequenceNumber.
          callP (\<lambda>e. (saclReaderReasonCode e, e))
            (reader (UTF16ToString requestedPath) (of_nat fileReferenceNumber) (of_nat sequenceNumber))))))"

definition saclQueryReasonCode :: "string \<times> go_err \<Rightarrow> string" where
  "saclQueryReasonCode e = (if fst e \<noteq> [] then fst e else saclDescriptorReadFailed)"

end
