(* ===== verification/Ntfs_Collector.thy ===== *)
theory Ntfs_Collector
  imports Ntfs_Native
begin

text \<open>
  The collection of one object (\<^verbatim>\<open>collector_windows.go\<close>, \<^verbatim>\<open>collector_opened_windows.go\<close>,
  \<^verbatim>\<open>scope_revalidate_windows.go\<close>, \<^verbatim>\<open>parent_binding_windows.go\<close>): the governed root is opened and
  proven, the target is opened by path or by identity, its parts are read with failures turned into
  warnings, and the scope is proven again before the observation leaves.
\<close>

section \<open>The governed root\<close>

record governed_context =
  gx_scopeID :: string
  gx_requestedPath :: "uint16 list"
  gx_handle :: handle
  gx_state :: native_state
  gx_finalPath :: "uint16 list"
  gx_volumeGUID :: string
  gx_volumeIdentity :: volume_identity
  gx_objectIdentity :: ntfs_identity

definition basic_is_reparse :: "native_state \<Rightarrow> bool" where
  "basic_is_reparse s \<longleftrightarrow> bi_FileAttributes (na_Basic s) AND fileAttributeReparse \<noteq> 0"

definition prove_root ::
  "'w ntfs_os \<Rightarrow> string \<Rightarrow> uint16 list \<Rightarrow> handle \<Rightarrow> 'w \<Rightarrow> (go_err + governed_context) \<times> 'w" where
  "prove_root T scopeID governedRoot h =
     bindP (callP (ntfs_err ''GovernedRoot'' ''GetVolumeInformationByHandleW'') (queryVolume T h)) (\<lambda>fileSystem.
     bindP (stop_if (\<not> ntx_EqualFold T fileSystem ''NTFS'')
       (ntfs_err ''GovernedRoot'' ''VerifyNTFS'' ErrNotNTFS)) (\<lambda>_.
     bindP (queryNativeState T h) (\<lambda>state.
     bindP (stop_if (\<not> state_is_directory state)
       (ntfs_err ''GovernedRoot'' ''VerifyDirectory'' ErrGovernedRootNotDirectory)) (\<lambda>_.
     bindP (stop_if (basic_is_reparse state)
       (ntfs_err ''GovernedRoot'' ''RejectReparseRoot'' ErrGovernedRootReparse)) (\<lambda>_.
     bindP (callP (ntfs_err ''GovernedRoot'' ''GetFinalPathNameByHandleW'') (finalVolumePath T h)) (\<lambda>finalPath.
     bindP (liftP (map_err (ntfs_err ''GovernedRoot'' ''ParseVolumeGUID'')
       (volumeGUIDFromFinalPath finalPath))) (\<lambda>volumeGUID.
     bindP (liftP (map_err (ntfs_err ''GovernedRoot'' ''DecodeNTFSFileID'')
       (buildObjectIdentity (na_ID state)))) (\<lambda>(volumeIdentity, objectIdentity).
     retP \<lparr>gx_scopeID = scopeID, gx_requestedPath = governedRoot, gx_handle = h, gx_state = state,
           gx_finalPath = finalPath, gx_volumeGUID = volumeGUID,
           gx_volumeIdentity = volumeIdentity\<lparr>vi_VolumeGUID := volumeGUID\<rparr>,
           gx_objectIdentity = objectIdentity\<rparr>))))))))"

text \<open>The deferred close runs only when the proof of the root fails.\<close>

definition openGovernedRoot ::
  "'w ntfs_os \<Rightarrow> string \<Rightarrow> uint16 list \<Rightarrow> 'w \<Rightarrow> (go_err + governed_context) \<times> 'w" where
  "openGovernedRoot T scopeID governedRoot =
     bindP (callP (ntfs_err ''GovernedRoot'' ''CreateFileW'') (openPath T (nulTerminate governedRoot))) (\<lambda>h w.
     case prove_root T scopeID governedRoot h w of
       (Inl e, w') \<Rightarrow> (Inl e, snd (ntx_CloseHandle T h w'))
     | (Inr root, w') \<Rightarrow> (Inr root, w'))"

section \<open>Proving the scope again\<close>

definition root_changed :: "native_state \<Rightarrow> file_id_info \<Rightarrow> bool" where
  "root_changed s expected \<longleftrightarrow> na_ID s \<noteq> expected \<or> \<not> state_is_directory s \<or> basic_is_reparse s"

definition check_reopened_root ::
  "'w ntfs_os \<Rightarrow> handle \<Rightarrow> uint16 list \<Rightarrow> file_id_info \<Rightarrow> 'w \<Rightarrow> (go_err + unit) \<times> 'w" where
  "check_reopened_root T reopened expectedRootFinalPath expectedRootID =
     bindP (attemptP (queryNativeState T reopened)) (\<lambda>state.
     bindP (attemptP (finalVolumePath T reopened)) (\<lambda>path.
     case (state, path) of
       (Inr s, Inr p) \<Rightarrow>
         stop_if (root_changed s expectedRootID \<or> p \<noteq> expectedRootFinalPath)
           ErrGovernedRootChangedDuringCollection
     | _ \<Rightarrow> failP ErrGovernedRootChangedDuringCollection))"

definition reopen_root_err :: "go_err \<Rightarrow> go_err" where
  "reopen_root_err e = Sentinel ''governed root changed during collection: reopen governed root'' e"

definition revalidateScopeHandles ::
  "'w ntfs_os \<Rightarrow> handle \<Rightarrow> handle \<Rightarrow> uint16 list \<Rightarrow> uint16 list \<Rightarrow> file_id_info \<Rightarrow> file_id_info \<Rightarrow> 'w \<Rightarrow>
     (go_err + uint16 list) \<times> 'w" where
  "revalidateScopeHandles T rootHandle targetHandle governedRoot expectedRootFinalPath expectedRootID
     expectedTargetID =
     bindP (queryNativeState T rootHandle) (\<lambda>rootState.
     bindP (stop_if (root_changed rootState expectedRootID) ErrGovernedRootChangedDuringCollection) (\<lambda>_.
     bindP (finalVolumePath T rootHandle) (\<lambda>rootFinalPath.
     bindP (stop_if (rootFinalPath \<noteq> expectedRootFinalPath) ErrGovernedRootChangedDuringCollection) (\<lambda>_.
     bindP (liftP (volumeGUIDFromFinalPath rootFinalPath)) (\<lambda>rootVolumeGUID.
     bindP (queryNativeState T targetHandle) (\<lambda>targetState.
     bindP (stop_if (na_ID targetState \<noteq> expectedTargetID) ErrIdentityChanged) (\<lambda>_.
     bindP (finalVolumePath T targetHandle) (\<lambda>targetFinalPath.
     bindP (liftP (volumeGUIDFromFinalPath targetFinalPath)) (\<lambda>targetVolumeGUID.
     bindP (stop_if (targetVolumeGUID \<noteq> rootVolumeGUID \<or> \<not> pathContainedBy rootFinalPath targetFinalPath)
       ErrOutsideGovernedRoot) (\<lambda>_.
     bindP (callP reopen_root_err (openPath T (nulTerminate governedRoot))) (\<lambda>reopened.
     bindP (closing T reopened (check_reopened_root T reopened expectedRootFinalPath expectedRootID)) (\<lambda>_.
     retP targetFinalPath))))))))))))"

section \<open>The parent\<close>

definition parent_binding_of ::
  "'w ntfs_os \<Rightarrow> governed_context \<Rightarrow> uint16 list \<Rightarrow> handle \<Rightarrow> 'w \<Rightarrow> (go_err + parent_binding) \<times> 'w" where
  "parent_binding_of T root expectedParent h =
     bindP (callP (Wrapped ''query parent volume'') (queryVolume T h)) (\<lambda>fileSystem.
     bindP (stop_if (\<not> ntx_EqualFold T fileSystem ''NTFS'') ErrNotNTFS) (\<lambda>_.
     bindP (queryNativeState T h) (\<lambda>parentState.
     bindP (stop_if (\<not> state_is_directory parentState) (ErrorsNew ''parent path is not a directory'')) (\<lambda>_.
     bindP (callP (Wrapped ''resolve parent path'') (finalVolumePath T h)) (\<lambda>parentFinalPath.
     bindP (liftP (volumeGUIDFromFinalPath parentFinalPath)) (\<lambda>parentVolumeGUID.
     bindP (stop_if (parentVolumeGUID \<noteq> gx_volumeGUID root \<or>
         \<not> pathContainedBy (gx_finalPath root) parentFinalPath) ErrOutsideGovernedRoot) (\<lambda>_.
     bindP (stop_if (parentFinalPath \<noteq> expectedParent)
       (ErrorsNew ''parent handle does not match target handle parent'')) (\<lambda>_.
     bindP (liftP (buildObjectIdentity (na_ID parentState))) (\<lambda>(_, parentIdentity).
     retP (ParentObjectBindingFor parentIdentity))))))))))"

definition collectParentBinding ::
  "'w ntfs_os \<Rightarrow> governed_context \<Rightarrow> uint16 list \<Rightarrow> native_state \<Rightarrow> 'w \<Rightarrow> (go_err + parent_binding) \<times> 'w" where
  "collectParentBinding T root targetFinalPath targetState =
     (if na_ID (gx_state root) = na_ID targetState
      then retP \<lparr>pa_State = ParentBindingGovernedRoot, pa_ObjectIdentity = None, pa_ReasonCode = []\<rparr>
      else
        bindP (liftP (directParentVolumePath targetFinalPath)) (\<lambda>expectedParent.
        bindP (callP (Wrapped ''open parent'') (openPath T (nulTerminate expectedParent))) (\<lambda>h.
        closing T h (parent_binding_of T root expectedParent h))))"

section \<open>The parts of the object\<close>

text \<open>The status so far and the warnings so far.\<close>

type_synonym note_state = "string \<times> observation_warning list"

definition warn :: "string \<Rightarrow> string \<Rightarrow> observation_warning" where
  "warn code detail = \<lparr>ow_Code = code, ow_Detail = detail\<rparr>"

definition partial_note :: "string \<Rightarrow> string \<Rightarrow> note_state \<Rightarrow> note_state" where
  "partial_note code detail n = (ObservationPartial, snd n @ [warn code detail])"

definition detail_of :: "go_err \<Rightarrow> string" where
  "detail_of e = err_text helper_name e"

definition stream_part ::
  "'w ntfs_os \<Rightarrow> handle \<Rightarrow> note_state \<Rightarrow> 'w \<Rightarrow> (go_err + stream_inventory \<times> note_state) \<times> 'w" where
  "stream_part T h n =
     bindP (attemptP (queryStreams T h)) (\<lambda>result.
     case result of
       Inl e \<Rightarrow>
         retP (\<lparr>iv_State = ObservationStateError, iv_Streams = [], iv_ReasonCode = ''StreamEnumerationFailed''\<rparr>,
           partial_note ''StreamEnumerationFailed'' (detail_of e) n)
     | Inr native \<Rightarrow>
         bindP (liftP (map_err (ntfs_err ''Streams'' ''Convert'') (streamObservations native))) (\<lambda>streams.
         retP (\<lparr>iv_State = ObservationStatePresent, iv_Streams = streams, iv_ReasonCode = []\<rparr>, n)))"

definition security_part ::
  "'w ntfs_os \<Rightarrow> handle \<Rightarrow> note_state \<Rightarrow> 'w \<Rightarrow> (go_err + security_observation \<times> note_state) \<times> 'w" where
  "security_part T h n =
     bindP (attemptP (querySecurityDescriptor T h)) (\<lambda>result.
     retP (case result of
       Inl e \<Rightarrow> (SecurityObservationError ''SecurityDescriptorReadFailed'',
                 partial_note ''SecurityDescriptorReadFailed'' (detail_of e) n)
     | Inr raw \<Rightarrow>
         (case ParseSecurityDescriptor raw of
            Inl e \<Rightarrow> (RawSecurityObservation raw ''SecurityDescriptorParseFailed'',
                      partial_note ''SecurityDescriptorParseFailed'' e n)
          | Inr parsed \<Rightarrow> (parsed, n))))"

definition sacl_part ::
  "'w ntfs_os \<Rightarrow> governed_context \<Rightarrow> handle \<Rightarrow> 'w sacl_reader \<Rightarrow> note_state \<Rightarrow> 'w \<Rightarrow>
     (go_err + sacl_observation \<times> note_state) \<times> 'w" where
  "sacl_part T root h readSACL n =
     bindP (attemptP (querySACLDescriptorWithReader T (gx_requestedPath root) h readSACL)) (\<lambda>result.
     retP (case result of
       Inl e \<Rightarrow> (SACLObservationError (saclQueryReasonCode e),
                 partial_note (saclQueryReasonCode e) (detail_of (snd e)) n)
     | Inr raw \<Rightarrow>
         (case ParseSACLDescriptor raw of
            Inl e \<Rightarrow> (RawSACLObservation raw ''SACLDescriptorParseFailed'',
                      partial_note ''SACLDescriptorParseFailed'' e n)
          | Inr parsed \<Rightarrow> (parsed, n))))"

definition reparse_part ::
  "'w ntfs_os \<Rightarrow> handle \<Rightarrow> attribute_tag_info \<Rightarrow> note_state \<Rightarrow> 'w \<Rightarrow> (go_err + reparse_observation \<times> note_state) \<times> 'w" where
  "reparse_part T h tag n =
     (if \<not> tag_is_reparse tag then retP (reparseObservationNotPresent, n)
      else
        bindP (attemptP (queryReparseData T h)) (\<lambda>result.
        case result of
          Inl e \<Rightarrow> retP (reparseObservationError (at_ReparseTag tag) ''ReparseDataReadFailed'',
                         partial_note ''ReparseDataReadFailed'' (detail_of e) n)
        | Inr raw \<Rightarrow>
            (case parseReparseData raw of
               Inl e \<Rightarrow> retP (reparseObservationRaw (at_ReparseTag tag) raw ''ReparseDataParseFailed'',
                              partial_note ''ReparseDataParseFailed'' (detail_of e) n)
             | Inr parsed \<Rightarrow>
                 bindP (stop_if (nr_Tag parsed \<noteq> at_ReparseTag tag)
                   (ntfs_err ''Consistency'' ''ReparseTagConsistency'' ErrReparseChangedDuringCollection)) (\<lambda>_.
                 retP (reparseObservationParsed parsed, n)))))"

section \<open>Changes while collecting\<close>

definition metadata_note :: "native_state \<Rightarrow> native_state \<Rightarrow> note_state \<Rightarrow> note_state" where
  "metadata_note pre post n =
     (if na_AttributeTag pre \<noteq> na_AttributeTag post \<or> na_Basic pre \<noteq> na_Basic post \<or>
         na_Standard pre \<noteq> na_Standard post
      then (if fst n = ObservationComplete then ObservationChangedDuringCollection else ObservationPartial,
            snd n @ [warn ''MetadataChangedDuringCollection'' []])
      else n)"

definition path_part ::
  "'w ntfs_os \<Rightarrow> governed_context \<Rightarrow> uint16 list \<Rightarrow> native_state \<Rightarrow> note_state \<Rightarrow> 'w \<Rightarrow> (go_err + note_state) \<times> 'w" where
  "path_part T root targetPath post n =
     bindP (attemptP (openPath T (nulTerminate targetPath))) (\<lambda>result.
     case result of
       Inl _ \<Rightarrow> retP (partial_note ''PathConsistencyNotVerified'' [] n)
     | Inr reopened \<Rightarrow>
         bindP (attemptP (finalVolumePath T reopened)) (\<lambda>finalPath.
         bindP (attemptP (queryNativeState T reopened)) (\<lambda>state.
         bindP (ignoreP (ntx_CloseHandle T reopened)) (\<lambda>_.
         case (finalPath, state) of
           (Inr p, Inr s) \<Rightarrow>
             if \<not> pathContainedBy (gx_finalPath root) p
             then failP (ntfs_err ''Containment'' ''ReopenContainment'' ErrOutsideGovernedRoot)
             else retP (if na_ID s \<noteq> na_ID post
               then (ObservationReplacedDuringCollection,
                     snd n @ [warn ''PathNowReferencesDifferentObject'' []])
               else n)
         | _ \<Rightarrow> retP (partial_note ''PathConsistencyNotVerified'' [] n)))))"

definition parent_part ::
  "'w ntfs_os \<Rightarrow> governed_context \<Rightarrow> uint16 list \<Rightarrow> native_state \<Rightarrow> note_state \<Rightarrow> 'w \<Rightarrow>
     (go_err + parent_binding \<times> note_state) \<times> 'w" where
  "parent_part T root targetFinalPath post n =
     bindP (attemptP (collectParentBinding T root targetFinalPath post)) (\<lambda>result.
     retP (case result of
       Inl e \<Rightarrow>
         (ParentObjectBindingError parentBindingUnavailableReason,
          (if fst n \<noteq> ObservationReplacedDuringCollection then ObservationPartial else fst n,
           snd n @ [warn parentBindingUnavailableReason (detail_of e)]))
     | Inr binding \<Rightarrow> (binding, n)))"

section \<open>Collecting an open target\<close>

definition prove_target ::
  "'w ntfs_os \<Rightarrow> governed_context \<Rightarrow> handle \<Rightarrow> ntfs_identity option \<Rightarrow> 'w \<Rightarrow>
     (go_err + uint16 list \<times> string \<times> native_state) \<times> 'w" where
  "prove_target T root h expected =
     bindP (ntx_Context T) (\<lambda>_.
     bindP (callP (ntfs_err ''Volume'' ''GetVolumeInformationByHandleW'') (queryVolume T h)) (\<lambda>fileSystem.
     bindP (stop_if (\<not> ntx_EqualFold T fileSystem ''NTFS'')
       (ntfs_err ''Volume'' ''VerifyNTFS'' ErrNotNTFS)) (\<lambda>_.
     bindP (callP (ntfs_err ''Containment'' ''GetFinalPathNameByHandleW'') (finalVolumePath T h)) (\<lambda>finalPath.
     bindP (liftP (map_err (ntfs_err ''Containment'' ''ParseVolumeGUID'')
       (volumeGUIDFromFinalPath finalPath))) (\<lambda>volumeGUID.
     bindP (stop_if (volumeGUID \<noteq> gx_volumeGUID root \<or> \<not> pathContainedBy (gx_finalPath root) finalPath)
       (ntfs_err ''Containment'' ''HandleDerivedContainment'' ErrOutsideGovernedRoot)) (\<lambda>_.
     bindP (queryNativeState T h) (\<lambda>pre.
     bindP (case expected of
         None \<Rightarrow> retP ()
       | Some wanted \<Rightarrow>
           bindP (liftP (map_err (ntfs_err ''Identity'' ''DecodeOpenedNTFSFileID'')
             (buildObjectIdentity (na_ID pre)))) (\<lambda>(_, opened).
           stop_if (opened \<noteq> wanted)
             (ntfs_err ''Identity'' ''VerifyOpenFileByIdIdentity'' ErrObjectIdentityMismatch))) (\<lambda>_.
     retP (finalPath, volumeGUID, pre)))))))))"

definition entry_path :: "string \<Rightarrow> uint16 list \<Rightarrow> uint16 list \<Rightarrow> go_err + uint16 list" where
  "entry_path entryMethod targetPath targetFinalPath =
     (if entryMethod = CollectionEntryPath then
        (if targetPath = [] then Inl (ntfs_err ''ValidatePath'' ''ValidateEntryPath'' ErrInvalidPath)
         else Inr targetPath)
      else if entryMethod = CollectionEntryNTFSFileID then Inr targetFinalPath
      else Inl (ntfs_err ''Open'' ''ValidateCollectionEntryMethod''
        (ErrorsNew (''unsupported collection entry method '' @ [CHR 0x22] @ entryMethod @ [CHR 0x22]))))"

definition governed_root_record :: "governed_context \<Rightarrow> governed_root" where
  "governed_root_record root =
     \<lparr>gr_ScopeID = gx_scopeID root, gr_RequestedPath = encodeUTF16LEBase64URL (gx_requestedPath root),
      gr_ResolvedPath = encodeUTF16LEBase64URL (gx_finalPath root), gr_MethodVersion = ContainmentMethodVersion,
      gr_VolumeIdentity = gx_volumeIdentity root, gr_ObjectIdentity = gx_objectIdentity root\<rparr>"

definition same_identity :: "native_state \<Rightarrow> native_state \<Rightarrow> 'w \<Rightarrow> (go_err + unit) \<times> 'w" where
  "same_identity a b =
     stop_if (na_ID a \<noteq> na_ID b) (ntfs_err ''Consistency'' ''SameHandleIdentity'' ErrIdentityChanged)"

definition sort_warnings :: "observation_warning list \<Rightarrow> observation_warning list" where
  "sort_warnings ws = sort_key ow_Code ws"

definition nowP :: "'w ntfs_os \<Rightarrow> 'w \<Rightarrow> (go_err + string) \<times> 'w" where
  "nowP T w = (case ntx_Now T w of (t, w') \<Rightarrow> (Inr (format_layout t), w'))"

text \<open>The parts that are read from the handle, between the first and the last look at its state.\<close>

definition read_parts ::
  "'w ntfs_os \<Rightarrow> governed_context \<Rightarrow> handle \<Rightarrow> 'w sacl_reader \<Rightarrow> native_state \<Rightarrow> 'w \<Rightarrow>
     (go_err + (stream_inventory \<times> security_observation \<times> sacl_observation \<times> reparse_observation) \<times>
       native_state \<times> note_state) \<times> 'w" where
  "read_parts T root h readSACL pre =
     bindP (stream_part T h (ObservationComplete, [])) (\<lambda>(streams, n1).
     bindP (security_part T h n1) (\<lambda>(security, n2).
     bindP (sacl_part T root h readSACL n2) (\<lambda>(sacl, n3).
     bindP (queryNativeState T h) (\<lambda>mid.
     bindP (same_identity pre mid) (\<lambda>_.
     bindP (reparse_part T h (na_AttributeTag mid) n3) (\<lambda>(reparse, n4).
     bindP (queryNativeState T h) (\<lambda>post.
     bindP (same_identity mid post) (\<lambda>_.
     bindP (stop_if (reparseStateChanged (na_AttributeTag mid) (na_AttributeTag post))
       (ntfs_err ''Consistency'' ''ReparseStateConsistency'' ErrReparseChangedDuringCollection)) (\<lambda>_.
     retP ((streams, security, sacl, reparse), post, n4))))))))))"

text \<open>Everything up to the observation, and the validation before it leaves.\<close>

definition assembleObservation ::
  "'w ntfs_os \<Rightarrow> governed_context \<Rightarrow> string \<Rightarrow> uint16 list \<Rightarrow> handle \<Rightarrow> ntfs_identity option \<Rightarrow>
     'w sacl_reader \<Rightarrow> 'w \<Rightarrow> (go_err + observation) \<times> 'w" where
  "assembleObservation T root entryMethod callerPath h expected readSACL =
     bindP (prove_target T root h expected) (\<lambda>(firstPath, _, pre).
     bindP (liftP (entry_path entryMethod callerPath firstPath)) (\<lambda>targetPath.
     bindP (read_parts T root h readSACL pre) (\<lambda>((streams, security, sacl, reparse), post, n4).
     bindP (liftP (map_err (ntfs_err ''Identity'' ''DecodeNTFSFileID'')
       (buildObjectIdentity (na_ID post)))) (\<lambda>(volumeIdentity, objectIdentity).
     bindP (liftP (map_err (ntfs_err ''Metadata'' ''Convert'') (metadataFromState post))) (\<lambda>(metadata, subjectKind).
     bindP (path_part T root targetPath post (metadata_note pre post n4)) (\<lambda>n6.
     bindP (callP (ntfs_err ''Consistency'' ''RevalidateGovernedScope'')
       (revalidateScopeHandles T (gx_handle root) h (gx_requestedPath root) (gx_finalPath root)
         (na_ID (gx_state root)) (na_ID post))) (\<lambda>targetFinalPath.
     bindP (liftP (map_err (ntfs_err ''Consistency'' ''ParseFinalTargetVolumeGUID'')
       (volumeGUIDFromFinalPath targetFinalPath))) (\<lambda>volumeGUID.
     bindP (parent_part T root targetFinalPath post n6) (\<lambda>(parentBinding, n7).
     bindP (ntx_Context T) (\<lambda>_.
     bindP (nowP T) (\<lambda>observedAt.
     retP \<lparr>ob_GovernedRoot = governed_root_record root,
           ob_Containment = \<lparr>pc_MethodVersion = ContainmentMethodVersion\<rparr>,
           ob_VolumeIdentity = volumeIdentity\<lparr>vi_VolumeGUID := volumeGUID\<rparr>,
           ob_ObjectIdentity = objectIdentity, ob_ParentBinding = parentBinding,
           ob_SubjectKind = subjectKind,
           ob_PathBinding = \<lparr>pb_RequestedPath = encodeUTF16LEBase64URL targetPath,
             pb_ResolvedPath = encodeUTF16LEBase64URL targetFinalPath\<rparr>,
           ob_ObservedAt = observedAt, ob_Metadata = metadata, ob_Security = security, ob_SACL = sacl,
           ob_Reparse = reparse, ob_StreamInventory = streams, ob_ContentHashes = None,
           ob_ContentPrefix = None, ob_CollectionEntryMethod = entryMethod,
           ob_CollectionMethod = CollectionDirectWindowsNTFS, ob_ObservationStatus = fst n7,
           ob_Warnings = sort_warnings (snd n7)\<rparr>)))))))))))"

definition validate_observed :: "string \<Rightarrow> observation \<Rightarrow> 'w \<Rightarrow> (go_err + observation) \<times> 'w" where
  "validate_observed op v =
     bindP (liftP (check (map_option (\<lambda>e. ntfs_err ''Metadata'' op (invalid_err e)) (ValidateObservation v))))
       (\<lambda>_. retP v)"

definition collectOpenedTargetWithSACLReader ::
  "'w ntfs_os \<Rightarrow> governed_context \<Rightarrow> string \<Rightarrow> uint16 list \<Rightarrow> handle \<Rightarrow> ntfs_identity option \<Rightarrow>
     'w sacl_reader \<Rightarrow> 'w \<Rightarrow> (go_err + observation) \<times> 'w" where
  "collectOpenedTargetWithSACLReader T root entryMethod callerPath h expected readSACL =
     bindP (assembleObservation T root entryMethod callerPath h expected readSACL)
       (validate_observed ''ValidateObservation'')"

end
