(* ===== verification/Ntfs_Content.thy ===== *)
theory Ntfs_Content
  imports Ntfs_Collector
begin

text \<open>
  Content of a collected file (\<^verbatim>\<open>content_hash_windows.go\<close>), its place in the observation
  (\<^verbatim>\<open>collector_content_windows.go\<close>), and the entry points \<^verbatim>\<open>CollectPath\<close>, \<^verbatim>\<open>CollectUTF16\<close> and
  \<^verbatim>\<open>CollectFileReference\<close> (\<^verbatim>\<open>collector_windows.go\<close>).
\<close>

section \<open>One read of the content\<close>

text \<open>\<^verbatim>\<open>contentPrefixWriter.Write\<close>: at most sixteen bytes are kept.\<close>

definition prefix_write :: "bytes \<Rightarrow> bytes \<Rightarrow> bytes" where
  "prefix_write v buffer =
     (if length v < ContentPrefixMaxBytes
      then v @ take (min (ContentPrefixMaxBytes - length v) (length buffer)) buffer
      else v)"

text \<open>
  \<^verbatim>\<open>io.CopyBuffer\<close> from a \<^verbatim>\<open>contextReader\<close> into the three digests and the prefix: the bytes that all
  four writers received, the prefix, and the error that ended the copy, if it was not the end.
  The context is not nil here: \<^verbatim>\<open>contextReader.Read\<close> asks it.
\<close>

fun copy_loop ::
  "'w ntfs_os \<Rightarrow> go_err option \<Rightarrow> bytes list \<Rightarrow> bytes \<Rightarrow> bytes \<Rightarrow> 'w \<Rightarrow> (bytes \<times> bytes \<times> go_err option) \<times> 'w" where
  "copy_loop T ending [] hashed prefix w =
     (case ntx_Context T w of
        (Inl e, w') \<Rightarrow> ((hashed, prefix, Some e), w')
      | (Inr _, w') \<Rightarrow> ((hashed, prefix, ending), w'))"
| "copy_loop T ending (c # cs) hashed prefix w =
     (case ntx_Context T w of
        (Inl e, w') \<Rightarrow> ((hashed, prefix, Some e), w')
      | (Inr _, w') \<Rightarrow> copy_loop T ending cs (hashed @ c) (prefix_write prefix c) w')"

definition copy_content ::
  "'w ntfs_os \<Rightarrow> handle \<Rightarrow> 'w \<Rightarrow> (go_err + bytes \<times> bytes \<times> go_err option) \<times> 'w" where
  "copy_content T h w =
     (case ntx_Reads T h w of ((chunks, ending), w') \<Rightarrow>
        (case copy_loop T ending chunks [] [] w' of (r, w'') \<Rightarrow> (Inr r, w'')))"

section \<open>Content records\<close>

definition not_applicable_content :: "content_hashes \<times> content_prefix" where
  "not_applicable_content =
     (\<lparr>ch_State = ContentHashNotApplicable, ch_BytesHashed = [], ch_MD5 = [], ch_SHA1 = [], ch_SHA256 = [],
       ch_ReasonCode = [], ch_Detail = []\<rparr>,
      \<lparr>cx_State = ContentPrefixNotApplicable, cx_BytesObserved = [], cx_PrefixBase64URL = [],
       cx_ReasonCode = [], cx_Detail = []\<rparr>)"

definition contentReadError :: "string \<Rightarrow> go_err \<Rightarrow> content_hashes \<times> content_prefix" where
  "contentReadError reason e =
     (\<lparr>ch_State = ContentHashError, ch_BytesHashed = [], ch_MD5 = [], ch_SHA1 = [], ch_SHA256 = [],
       ch_ReasonCode = reason, ch_Detail = detail_of e\<rparr>,
      \<lparr>cx_State = ContentPrefixError, cx_BytesObserved = [], cx_PrefixBase64URL = [],
       cx_ReasonCode = reason, cx_Detail = detail_of e\<rparr>)"

text \<open>The count of copied bytes is a signed 64-bit integer; \<^verbatim>\<open>strconv.FormatInt\<close> writes it.\<close>

definition FormatInt64 :: "int64 \<Rightarrow> string" where
  "FormatInt64 v = (if sint v < 0 then ''-'' @ FormatUint (nat (- sint v)) else FormatUint (nat (sint v)))"

definition present_content :: "bytes \<Rightarrow> bytes \<Rightarrow> content_hashes \<times> content_prefix" where
  "present_content hashed prefix =
     (\<lparr>ch_State = ContentHashPresent, ch_BytesHashed = FormatInt64 (of_nat (length hashed)),
       ch_MD5 = hex_EncodeToString (md5_Sum hashed), ch_SHA1 = hex_EncodeToString (sha1_Sum hashed),
       ch_SHA256 = hex_EncodeToString (Sum256 hashed), ch_ReasonCode = [], ch_Detail = []\<rparr>,
      \<lparr>cx_State = ContentPrefixPresent, cx_BytesObserved = FormatUint (length prefix),
       cx_PrefixBase64URL = url_encode prefix, cx_ReasonCode = [], cx_Detail = []\<rparr>)"

definition validate_content ::
  "content_hashes \<times> content_prefix \<Rightarrow> 'w \<Rightarrow> (go_err + unit) \<times> 'w" where
  "validate_content c =
     liftP (check (map_option invalid_err
       (first_err [ValidateContentHashObservation (fst c), ValidateContentPrefixObservation (snd c)])))"

definition hashRelevantStateChanged :: "native_state \<Rightarrow> native_state \<Rightarrow> bool" where
  "hashRelevantStateChanged l r \<longleftrightarrow>
     na_Standard l \<noteq> na_Standard r \<or>
     bi_CreationTime (na_Basic l) \<noteq> bi_CreationTime (na_Basic r) \<or>
     bi_LastWriteTime (na_Basic l) \<noteq> bi_LastWriteTime (na_Basic r) \<or>
     bi_ChangeTime (na_Basic l) \<noteq> bi_ChangeTime (na_Basic r) \<or>
     bi_FileAttributes (na_Basic l) \<noteq> bi_FileAttributes (na_Basic r) \<or>
     na_AttributeTag l \<noteq> na_AttributeTag r"

definition proveHashContainment ::
  "'w ntfs_os \<Rightarrow> governed_context \<Rightarrow> handle \<Rightarrow> 'w \<Rightarrow> (go_err + unit) \<times> 'w" where
  "proveHashContainment T root h =
     bindP (finalVolumePath T h) (\<lambda>finalPath.
     bindP (liftP (volumeGUIDFromFinalPath finalPath)) (\<lambda>volumeGUID.
     stop_if (volumeGUID \<noteq> gx_volumeGUID root \<or> \<not> pathContainedBy (gx_finalPath root) finalPath)
       ErrOutsideGovernedRoot))"

text \<open>
  A failure of the source is a value of the content; the left side of the outer sum is kept for
  the errors that \<^verbatim>\<open>collectContentOpened\<close> returns.
\<close>

definition or_content ::
  "string \<Rightarrow> ('w \<Rightarrow> (go_err + 'a) \<times> 'w) \<Rightarrow>
   ('a \<Rightarrow> 'w \<Rightarrow> (go_err + content_hashes \<times> content_prefix) \<times> 'w) \<Rightarrow>
   'w \<Rightarrow> (go_err + content_hashes \<times> content_prefix) \<times> 'w" where
  "or_content reason m f =
     bindP (attemptP m) (\<lambda>r. case r of Inl e \<Rightarrow> retP (contentReadError reason e) | Inr x \<Rightarrow> f x)"

definition opened_identity_is :: "ntfs_identity \<Rightarrow> native_state \<Rightarrow> go_err + unit" where
  "opened_identity_is identity state =
     bindE (buildObjectIdentity (na_ID state)) (\<lambda>(_, opened).
     if opened = identity then Inr () else Inl ErrObjectIdentityMismatch)"

definition read_content ::
  "'w ntfs_os \<Rightarrow> governed_context \<Rightarrow> ntfs_identity \<Rightarrow> handle \<Rightarrow> 'w \<Rightarrow>
     (go_err + content_hashes \<times> content_prefix) \<times> 'w" where
  "read_content T root identity h =
     or_content ''ContentStateReadFailed'' (queryNativeState T h) (\<lambda>pre.
     or_content ''ObjectIdentityMismatch'' (liftP (opened_identity_is identity pre)) (\<lambda>_.
     if state_is_directory pre
     then retP (contentReadError ''SubjectKindChanged'' (ErrorsNew ''object is now a directory''))
     else
     or_content ''OutsideGovernedRoot'' (proveHashContainment T root h) (\<lambda>_.
     bindP (copy_content T h) (\<lambda>(hashed, prefix, readErr).
     case readErr of
       Some e \<Rightarrow> bindP (ntx_Context T) (\<lambda>_. retP (contentReadError ''ContentReadFailed'' e))
     | None \<Rightarrow>
         bindP (ntx_Context T) (\<lambda>_.
         or_content ''ContentStateReadFailed'' (queryNativeState T h) (\<lambda>post.
         if na_ID pre \<noteq> na_ID post
         then retP (contentReadError ''ObjectIdentityChangedDuringHash'' ErrIdentityChanged)
         else if hashRelevantStateChanged pre post
         then retP (contentReadError ''ChangedDuringHash''
           (ErrorsNew ''file metadata changed while content was being hashed''))
         else or_content ''OutsideGovernedRoot'' (proveHashContainment T root h) (\<lambda>_.
         bindP (validate_content (present_content hashed prefix)) (\<lambda>_.
         retP (present_content hashed prefix)))))))))"

text \<open>\<^verbatim>\<open>os.NewFile\<close> gives nil for the invalid handle only, which an opened handle is not.\<close>

definition collectContentOpened ::
  "'w ntfs_os \<Rightarrow> governed_context \<Rightarrow> handle \<Rightarrow> ntfs_identity \<Rightarrow> string \<Rightarrow> 'w \<Rightarrow>
     (go_err + content_hashes \<times> content_prefix) \<times> 'w" where
  "collectContentOpened T root volumeHint identity subjectKind =
     (if subjectKind = SubjectDirectory
      then bindP (validate_content not_applicable_content) (\<lambda>_. retP not_applicable_content)
      else
        bindP (stop_if (subjectKind \<noteq> SubjectFile)
          (ErrorsNew ''unsupported subject kind for content hashing'')) (\<lambda>_.
        bindP (ntx_Context T) (\<lambda>_.
        bindP (liftP (check (map_option invalid_err (ValidateNTFSObjectIdentity identity)))) (\<lambda>_.
        or_content ''ContentOpenFailed''
          (openFileByObjectIdentityAccess T volumeHint identity genericRead) (\<lambda>h.
        closing T h (read_content T root identity h))))))"

section \<open>The observation with its content\<close>

definition applyContentHashOutcome :: "content_hashes \<Rightarrow> observation \<Rightarrow> observation" where
  "applyContentHashOutcome hashes v =
     (if ch_State hashes \<noteq> ContentHashError then v
      else
        let detail = ch_ReasonCode hashes @
              (if ch_Detail hashes \<noteq> [] then (if ch_ReasonCode hashes \<noteq> [] then '': '' else []) @ ch_Detail hashes
               else [])
        in v\<lparr>ob_Warnings := sort_warnings (ob_Warnings v @ [warn ''ContentHashFailed'' detail]),
             ob_ObservationStatus :=
               (if ob_ObservationStatus v \<noteq> ObservationReplacedDuringCollection then ObservationPartial
                else ob_ObservationStatus v)\<rparr>)"

definition appendObservationWarningOnce :: "observation_warning \<Rightarrow> observation \<Rightarrow> observation" where
  "appendObservationWarningOnce warning v =
     (if ow_Code warning = [] \<or> list_ex (\<lambda>w. ow_Code w = ow_Code warning) (ob_Warnings v) then v
      else v\<lparr>ob_Warnings := ob_Warnings v @ [warning]\<rparr>)"

definition observationRelevantNativeStateChanged :: "observation \<Rightarrow> native_state \<Rightarrow> go_err + bool" where
  "observationRelevantNativeStateChanged v state =
     bindE (metadataFromState state) (\<lambda>(metadata, subjectKind).
     if subjectKind \<noteq> ob_SubjectKind v then Inr True
     else
       let m = ob_Metadata v in
       Inr (mo_LogicalSize m \<noteq> mo_LogicalSize metadata \<or> mo_AllocatedSize m \<noteq> mo_AllocatedSize metadata \<or>
            mo_CreationTime m \<noteq> mo_CreationTime metadata \<or> mo_LastWriteTime m \<noteq> mo_LastWriteTime metadata \<or>
            mo_ChangeTime m \<noteq> mo_ChangeTime metadata \<or> mo_RawAttributes m \<noteq> mo_RawAttributes metadata \<or>
            mo_LinkCount m \<noteq> mo_LinkCount metadata))"

definition reparseObservationChanged :: "reparse_observation \<Rightarrow> attribute_tag_info \<Rightarrow> bool" where
  "reparseObservationChanged v state =
     (if rp_State v = ReparseStateNotPresent then tag_is_reparse state
      else if rp_State v = ReparseStatePresent
      then \<not> tag_is_reparse state \<or> rp_Tag v \<noteq> reparseTagString (at_ReparseTag state)
      else True)"

definition note_metadata_changed :: "observation \<Rightarrow> observation" where
  "note_metadata_changed v =
     (let v' = appendObservationWarningOnce (warn ''MetadataChangedDuringCollection'' []) v in
      if ob_ObservationStatus v' = ObservationComplete
      then v'\<lparr>ob_ObservationStatus := ObservationChangedDuringCollection\<rparr> else v')"

definition note_path_changed :: "observation \<Rightarrow> observation" where
  "note_path_changed v =
     (let v' = appendObservationWarningOnce (warn ''PathConsistencyNotVerified''
            ''target handle resolved path changed after structural collection'') v in
      if ob_ObservationStatus v' \<noteq> ObservationReplacedDuringCollection
      then v'\<lparr>ob_ObservationStatus := ObservationPartial\<rparr> else v')"

definition revalidateObservationAfterContent ::
  "'w ntfs_os \<Rightarrow> governed_context \<Rightarrow> handle \<Rightarrow> observation \<Rightarrow> 'w \<Rightarrow> (go_err + observation) \<times> 'w" where
  "revalidateObservationAfterContent T root h v =
     bindP (ntx_Context T) (\<lambda>_.
     bindP (queryNativeState T h) (\<lambda>finalState.
     bindP (liftP (map_err (ntfs_err ''Identity'' ''DecodePostContentNTFSFileID'')
       (buildObjectIdentity (na_ID finalState)))) (\<lambda>(_, finalIdentity).
     bindP (stop_if (finalIdentity \<noteq> ob_ObjectIdentity v)
       (ntfs_err ''Consistency'' ''PostContentIdentity'' ErrIdentityChanged)) (\<lambda>_.
     bindP (stop_if (reparseObservationChanged (ob_Reparse v) (na_AttributeTag finalState))
       (ntfs_err ''Consistency'' ''PostContentReparseState'' ErrReparseChangedDuringCollection)) (\<lambda>_.
     bindP (liftP (map_err (ntfs_err ''Metadata'' ''PostContentMetadata'')
       (observationRelevantNativeStateChanged v finalState))) (\<lambda>metadataChanged.
     let v1 = (if metadataChanged then note_metadata_changed v else v) in
     bindP (callP (ntfs_err ''Consistency'' ''RevalidateGovernedScopeAfterContent'')
       (revalidateScopeHandles T (gx_handle root) h (gx_requestedPath root) (gx_finalPath root)
         (na_ID (gx_state root)) (na_ID finalState))) (\<lambda>finalPath.
     let v2 = (if encodeUTF16LEBase64URL finalPath \<noteq> pb_ResolvedPath (ob_PathBinding v1)
               then note_path_changed v1 else v1) in
     bindP (ntx_Context T) (\<lambda>_. retP v2))))))))"

definition collectOpenedTargetWithContentHashesAndSACLReader ::
  "'w ntfs_os \<Rightarrow> governed_context \<Rightarrow> string \<Rightarrow> uint16 list \<Rightarrow> handle \<Rightarrow> ntfs_identity option \<Rightarrow>
     'w sacl_reader \<Rightarrow> 'w \<Rightarrow> (go_err + observation) \<times> 'w" where
  "collectOpenedTargetWithContentHashesAndSACLReader T root entryMethod targetPath h expected readSACL =
     bindP (collectOpenedTargetWithSACLReader T root entryMethod targetPath h expected readSACL) (\<lambda>v.
     bindP (if rp_State (ob_Reparse v) = ReparseStatePresent then retP not_applicable_content
            else collectContentOpened T root h (ob_ObjectIdentity v) (ob_SubjectKind v)) (\<lambda>content.
     bindP (validate_content content) (\<lambda>_.
     bindP (revalidateObservationAfterContent T root h
       (applyContentHashOutcome (fst content)
         (v\<lparr>ob_ContentHashes := Some (fst content), ob_ContentPrefix := Some (snd content)\<rparr>))) (\<lambda>v2.
     bindP (nowP T) (\<lambda>observedAt.
     let v3 = v2\<lparr>ob_Warnings := sort_warnings (ob_Warnings v2), ob_ObservedAt := observedAt\<rparr> in
     validate_observed ''ValidateObservationWithContentHashes'' v3)))))"

section \<open>Entry points\<close>

definition CollectUTF16 ::
  "'w ntfs_os \<Rightarrow> 'w sacl_reader \<Rightarrow> string \<Rightarrow> uint16 list \<Rightarrow> uint16 list \<Rightarrow> 'w \<Rightarrow> (go_err + observation) \<times> 'w" where
  "CollectUTF16 T readSACL scopeID governedRoot targetPath =
     bindP (stop_if (scopeID = []) (ntfs_err ''GovernedRoot'' ''ValidateScope'' ErrScopeRequired)) (\<lambda>_.
     bindP (ntx_Context T) (\<lambda>_.
     bindP (liftP (check (map_option (ntfs_err ''GovernedRoot'' ''ValidatePath'')
       (validateLocalAbsolutePath governedRoot)))) (\<lambda>_.
     bindP (liftP (check (map_option (ntfs_err ''ValidatePath'' ''ValidatePath'')
       (validateLocalAbsolutePath targetPath)))) (\<lambda>_.
     bindP (openGovernedRoot T scopeID governedRoot) (\<lambda>root.
     closing T (gx_handle root)
       (bindP (callP (ntfs_err ''Open'' ''CreateFileW'') (openPath T (nulTerminate targetPath))) (\<lambda>h.
        closing T h (collectOpenedTargetWithContentHashesAndSACLReader T root CollectionEntryPath targetPath h
          None readSACL))))))))"

text \<open>
  \<^verbatim>\<open>syscall.UTF16FromString\<close> without the terminating zero, which every caller cuts off: runes become
  one or two code units, an encoded surrogate its code unit, and any other byte the replacement
  character.
\<close>

definition is_surrogate3 :: "char \<Rightarrow> char \<Rightarrow> char \<Rightarrow> bool" where
  "is_surrogate3 a b c \<longleftrightarrow>
     ord a = 0xED \<and> 0xA0 \<le> ord b \<and> ord b \<le> 0xBF \<and> 0x80 \<le> ord c \<and> ord c \<le> 0xBF"

definition rune3_unit :: "char \<Rightarrow> char \<Rightarrow> char \<Rightarrow> uint16" where
  "rune3_unit a b c = of_nat ((ord a mod 16) * 4096 + (ord b mod 64) * 64 + ord c mod 64)"

definition rune4_units :: "char \<Rightarrow> char \<Rightarrow> char \<Rightarrow> char \<Rightarrow> uint16 list" where
  "rune4_units a b c d =
     (let r = (ord a mod 8) * 262144 + (ord b mod 64) * 4096 + (ord c mod 64) * 64 + ord d mod 64 - 0x10000
      in [of_nat (0xD800 + r div 1024), of_nat (0xDC00 + r mod 1024)])"

fun wtf16_encode :: "bytes \<Rightarrow> uint16 list" where
  "wtf16_encode [] = []"
| "wtf16_encode (a # s) =
     (if ord a < 0x80 then of_nat (ord a) # wtf16_encode s
      else case s of [] \<Rightarrow> [0xFFFD]
      | b # t \<Rightarrow>
          if rune2 a b then of_nat ((ord a mod 32) * 64 + ord b mod 64) # wtf16_encode t
          else (case t of [] \<Rightarrow> 0xFFFD # wtf16_encode s
          | c # u \<Rightarrow>
              if rune3 a b c \<or> is_surrogate3 a b c then rune3_unit a b c # wtf16_encode u
              else (case u of [] \<Rightarrow> 0xFFFD # wtf16_encode s
              | d # v \<Rightarrow>
                  if rune4 a b c d then rune4_units a b c d @ wtf16_encode v
                  else 0xFFFD # wtf16_encode s)))"

definition UTF16FromString :: "string \<Rightarrow> go_err + uint16 list" where
  "UTF16FromString s =
     (if CHR 0x00 \<in> set s then Inl (ErrorsNew ''invalid argument'') else Inr (wtf16_encode s))"

definition CollectPath ::
  "'w ntfs_os \<Rightarrow> 'w sacl_reader \<Rightarrow> string \<Rightarrow> string \<Rightarrow> string \<Rightarrow> 'w \<Rightarrow> (go_err + observation) \<times> 'w" where
  "CollectPath T readSACL scopeID governedRoot targetPath =
     bindP (liftP (map_err (ntfs_err ''ValidatePath'' ''UTF16FromString(GovernedRoot)'')
       (UTF16FromString governedRoot))) (\<lambda>rootUnits.
     bindP (liftP (map_err (ntfs_err ''ValidatePath'' ''UTF16FromString(Target)'')
       (UTF16FromString targetPath))) (\<lambda>targetUnits.
     CollectUTF16 T readSACL scopeID rootUnits targetUnits))"

definition CollectFileReferenceWithSACLReader ::
  "'w ntfs_os \<Rightarrow> 'w sacl_reader \<Rightarrow> string \<Rightarrow> string \<Rightarrow> ntfs_identity \<Rightarrow> 'w \<Rightarrow> (go_err + observation) \<times> 'w" where
  "CollectFileReferenceWithSACLReader T readSACL scopeID governedRoot identity =
     bindP (stop_if (scopeID = []) (ntfs_err ''GovernedRoot'' ''ValidateScope'' ErrScopeRequired)) (\<lambda>_.
     bindP (ntx_Context T) (\<lambda>_.
     bindP (stop_if (ni_MethodVersion identity \<noteq> IdentityMethodVersion)
       (ntfs_err ''Identity'' ''ValidateIdentityMethod'' ErrUnsupportedIdentityMethod)) (\<lambda>_.
     bindP (liftP (check (map_option (\<lambda>e. ntfs_err ''Identity'' ''ValidateObjectIdentity'' (invalid_err e))
       (ValidateNTFSObjectIdentity identity)))) (\<lambda>_.
     bindP (liftP (map_err (ntfs_err ''ValidatePath'' ''UTF16FromString(GovernedRoot)'')
       (UTF16FromString governedRoot))) (\<lambda>rootPath.
     bindP (liftP (check (map_option (ntfs_err ''GovernedRoot'' ''ValidatePath'')
       (validateLocalAbsolutePath rootPath)))) (\<lambda>_.
     bindP (openGovernedRoot T scopeID rootPath) (\<lambda>root.
     closing T (gx_handle root)
       (bindP (callP (ntfs_err ''Open'' ''OpenFileById'')
         (openFileByObjectIdentity T (gx_handle root) identity)) (\<lambda>h.
        closing T h (collectOpenedTargetWithContentHashesAndSACLReader T root CollectionEntryNTFSFileID [] h
          (Some identity) readSACL))))))))))"

end
