(* ===== verification/Ntfs_Safety.thy ===== *)
theory Ntfs_Safety
  imports Ntfs_Content
begin

text \<open>
  What leaves the collector: an observation of the requested object, inside the governed root, whose
  status agrees with its parts.
\<close>

section \<open>The scope\<close>

lemma prod_case_Inr:
  "(case p of (a, b) \<Rightarrow> f a b) w = (Inr y, w') \<longleftrightarrow> (\<exists>a b. p = (a, b) \<and> f a b w = (Inr y, w'))"
  by (cases p) simp

lemma revalidate_contained:
  assumes "revalidateScopeHandles T rh th g rootPath rid tid w = (Inr p, w')"
  shows "pathContainedBy rootPath p"
    and "\<exists>guid. volumeGUIDFromFinalPath rootPath = Inr guid \<and> volumeGUIDFromFinalPath p = Inr guid"
  using assms by (auto simp: revalidateScopeHandles_def)

definition root_wf :: "string \<Rightarrow> uint16 list \<Rightarrow> governed_context \<Rightarrow> bool" where
  "root_wf scopeID path root \<longleftrightarrow>
     gx_scopeID root = scopeID \<and> gx_requestedPath root = path \<and>
     volumeGUIDFromFinalPath (gx_finalPath root) = Inr (gx_volumeGUID root) \<and>
     vi_VolumeGUID (gx_volumeIdentity root) = gx_volumeGUID root \<and>
     state_is_directory (gx_state root) \<and> \<not> basic_is_reparse (gx_state root) \<and>
     (\<exists>volume. buildObjectIdentity (na_ID (gx_state root)) = Inr (volume, gx_objectIdentity root))"

lemma openGovernedRoot_wf:
  assumes "openGovernedRoot T scopeID path w = (Inr root, w')"
  shows "root_wf scopeID path root"
proof -
  obtain h v where "(case prove_root T scopeID path h v of
      (Inl e, x) \<Rightarrow> (Inl e, snd (ntx_CloseHandle T h x)) | (Inr r, x) \<Rightarrow> (Inr r, x)) = (Inr root, w')"
    using assms unfolding openGovernedRoot_def bindP_Inr by blast
  then have "prove_root T scopeID path h v = (Inr root, w')"
    by (cases "prove_root T scopeID path h v"; cases "fst (prove_root T scopeID path h v)") auto
  then show ?thesis
    by (auto simp: prove_root_def root_wf_def prod_case_Inr)
qed

text \<open>What every assembled observation says about its place.\<close>

definition in_scope :: "governed_context \<Rightarrow> observation \<Rightarrow> bool" where
  "in_scope root v \<longleftrightarrow>
     ob_GovernedRoot v = governed_root_record root \<and>
     (\<exists>path. pb_ResolvedPath (ob_PathBinding v) = encodeUTF16LEBase64URL path \<and>
        pathContainedBy (gx_finalPath root) path) \<and>
     volumeGUIDFromFinalPath (gx_finalPath root) = Inr (vi_VolumeGUID (ob_VolumeIdentity v))"

lemma same_identity_Inr [simp]: "same_identity a b w = (Inr y, w') \<longleftrightarrow> na_ID a = na_ID b \<and> w' = w"
  by (simp add: same_identity_def)

lemma read_parts_identity:
  assumes "read_parts T root h readSACL pre w = (Inr (parts, post, n), w')"
  shows "na_ID post = na_ID pre"
  using assms by (auto simp: read_parts_def prod_case_Inr)

lemma prove_target_identity:
  assumes "prove_target T root h (Some identity) w = (Inr (path, guid, pre), w')"
  shows "\<exists>volume. buildObjectIdentity (na_ID pre) = Inr (volume, identity)"
  using assms by (auto simp: prove_target_def prod_case_Inr)

lemma assemble_in_scope:
  assumes "assembleObservation T root entry path h expected readSACL w = (Inr v, w')"
  shows "in_scope root v \<and> (\<forall>identity. expected = Some identity \<longrightarrow> ob_ObjectIdentity v = identity)"
proof -
  obtain firstPath guid0 pre w1 parts post n4 w2 w3 volume identity targetFinalPath guid w4 w5 where
    s: "prove_target T root h expected w = (Inr (firstPath, guid0, pre), w1)"
      "read_parts T root h readSACL pre w2 = (Inr (parts, post, n4), w3)"
      "buildObjectIdentity (na_ID post) = Inr (volume, identity)"
      "revalidateScopeHandles T (gx_handle root) h (gx_requestedPath root) (gx_finalPath root)
         (na_ID (gx_state root)) (na_ID post) w4 = (Inr targetFinalPath, w5)"
      "volumeGUIDFromFinalPath targetFinalPath = Inr guid"
    and v: "ob_GovernedRoot v = governed_root_record root" "ob_ObjectIdentity v = identity"
      "vi_VolumeGUID (ob_VolumeIdentity v) = guid"
      "pb_ResolvedPath (ob_PathBinding v) = encodeUTF16LEBase64URL targetFinalPath"
    using assms unfolding assembleObservation_def bindP_Inr prod_case_Inr liftP_Inr callP_Inr map_err_Inr
      retP_Inr by fastforce
  have "identity = i" if "expected = Some i" for i
    using prove_target_identity [OF s(1) [unfolded that]] s(3) read_parts_identity [OF s(2)] by auto
  moreover have "in_scope root v"
    using v revalidate_contained [OF s(4)] s(5) unfolding in_scope_def by auto
  ultimately show ?thesis using v(2) by blast
qed


section \<open>The content does not move the observation\<close>

definition place :: "observation \<Rightarrow> governed_root \<times> path_binding \<times> volume_identity \<times> ntfs_identity" where
  "place v = (ob_GovernedRoot v, ob_PathBinding v, ob_VolumeIdentity v, ob_ObjectIdentity v)"

lemma place_in_scope: "place v = place u \<Longrightarrow> in_scope root v = in_scope root u"
  by (simp add: place_def in_scope_def)

lemma place_steps [simp]:
  "place (applyContentHashOutcome h v) = place v"
  "place (appendObservationWarningOnce wa v) = place v"
  "place (note_metadata_changed v) = place v" "place (note_path_changed v) = place v"
  "place (v\<lparr>ob_ContentHashes := a\<rparr>) = place v" "place (v\<lparr>ob_ContentPrefix := b\<rparr>) = place v"
  "place (v\<lparr>ob_Warnings := ws\<rparr>) = place v" "place (v\<lparr>ob_ObservedAt := t\<rparr>) = place v"
proof -
  show a: "place (appendObservationWarningOnce wa v) = place v" for wa v
    by (simp add: appendObservationWarningOnce_def place_def)
  show "place (note_metadata_changed v) = place v" "place (note_path_changed v) = place v"
    using a [of "warn ''MetadataChangedDuringCollection'' []" v] a [of "warn ''PathConsistencyNotVerified''
            ''target handle resolved path changed after structural collection''" v]
    by (simp_all add: note_metadata_changed_def note_path_changed_def Let_def place_def)
qed (simp_all add: applyContentHashOutcome_def place_def Let_def)

lemma content_steps [simp]:
  "ob_ContentHashes (applyContentHashOutcome h v) = ob_ContentHashes v"
  "ob_ContentHashes (note_metadata_changed v) = ob_ContentHashes v"
  "ob_ContentHashes (note_path_changed v) = ob_ContentHashes v"
  by (simp_all add: applyContentHashOutcome_def note_metadata_changed_def note_path_changed_def
      appendObservationWarningOnce_def Let_def)

lemma revalidate_place:
  assumes "revalidateObservationAfterContent T root h v w = (Inr u, w')"
  shows "place u = place v" "ob_ContentHashes u = ob_ContentHashes v"
  using assms by (auto simp: revalidateObservationAfterContent_def prod_case_Inr Let_def)

lemma validate_observed_Inr [simp]:
  "validate_observed op v w = (Inr u, w') \<longleftrightarrow> ValidateObservation v = None \<and> u = v \<and> w' = w"
  by (auto simp: validate_observed_def check_Inr)

lemma collect_with_content:
  assumes "collectOpenedTargetWithContentHashesAndSACLReader T root entry path h expected readSACL w = (Inr v, w')"
  shows "ValidateObservation v = None" "in_scope root v" "ob_ContentHashes v \<noteq> None"
    and "expected = Some identity \<Longrightarrow> ob_ObjectIdentity v = identity"
proof -
  obtain v0 content w1 w2 w3 v2 t where
    s: "assembleObservation T root entry path h expected readSACL w = (Inr v0, w1)"
      "revalidateObservationAfterContent T root h (applyContentHashOutcome (fst content)
         (v0\<lparr>ob_ContentHashes := Some (fst content), ob_ContentPrefix := Some (snd content)\<rparr>)) w2 = (Inr v2, w3)"
      "v = v2\<lparr>ob_Warnings := sort_warnings (ob_Warnings v2), ob_ObservedAt := t\<rparr>"
    and ok: "ValidateObservation v = None"
    using assms unfolding collectOpenedTargetWithContentHashesAndSACLReader_def
      collectOpenedTargetWithSACLReader_def bindP_Inr Let_def validate_observed_Inr by blast
  have pl: "place v = place v0" using s(3) revalidate_place(1) [OF s(2)] by simp
  show "ValidateObservation v = None" by (rule ok)
  show "in_scope root v" using assemble_in_scope [OF s(1)] place_in_scope [OF pl] by blast
  show "ob_ContentHashes v \<noteq> None" using s(3) revalidate_place(2) [OF s(2)] by simp
  show "ob_ObjectIdentity v = identity" if "expected = Some identity"
    using assemble_in_scope [OF s(1)] that pl by (simp add: place_def)
qed

text \<open>
  C14: What the collector returns is a valid observation, with content, of an object inside the
  governed root: it names the root that was opened and proven under the caller's scope, the
  resolved path of the target lies in the resolved path of that root on the same volume, and an
  object asked for by identity has exactly that identity. Whatever the system does between the
  calls (renames, replacements, changed roots), an observation outside the scope or of another
  object is never returned.
\<close>

theorem collected_object_in_scope:
  assumes "CollectFileReferenceWithSACLReader T readSACL scopeID governedRoot identity w = (Inr v, w') \<or>
    CollectPath T readSACL scopeID governedRoot target w = (Inr v, w')"
  shows "ValidateObservation v = None \<and> ob_ContentHashes v \<noteq> None \<and>
    gr_ScopeID (ob_GovernedRoot v) = scopeID \<and>
    (\<exists>rootPath path. gr_ResolvedPath (ob_GovernedRoot v) = encodeUTF16LEBase64URL rootPath \<and>
       pb_ResolvedPath (ob_PathBinding v) = encodeUTF16LEBase64URL path \<and> pathContainedBy rootPath path) \<and>
    vi_VolumeGUID (ob_VolumeIdentity v) = vi_VolumeGUID (gr_VolumeIdentity (ob_GovernedRoot v)) \<and>
    (CollectFileReferenceWithSACLReader T readSACL scopeID governedRoot identity w = (Inr v, w') \<longrightarrow>
       ob_ObjectIdentity v = identity)"
proof -
  obtain root rootUnits entry path h expected w1 w2 w3 w4 where
    r: "openGovernedRoot T scopeID rootUnits w1 = (Inr root, w2)" and
    c: "collectOpenedTargetWithContentHashesAndSACLReader T root entry path h expected readSACL w3 = (Inr v, w4)"
    and e: "CollectFileReferenceWithSACLReader T readSACL scopeID governedRoot identity w = (Inr v, w') \<longrightarrow>
      expected = Some identity"
  proof (cases "CollectFileReferenceWithSACLReader T readSACL scopeID governedRoot identity w = (Inr v, w')")
    case True
    then show ?thesis
      using that unfolding CollectFileReferenceWithSACLReader_def bindP_Inr closing_Inr by blast
  next
    case False
    then show ?thesis
      using assms that unfolding CollectPath_def CollectUTF16_def bindP_Inr closing_Inr by blast
  qed
  have wf: "root_wf scopeID rootUnits root" by (rule openGovernedRoot_wf [OF r])
  have g: "ob_GovernedRoot v = governed_root_record root"
    using collect_with_content(2) [OF c] by (simp add: in_scope_def)
  show ?thesis
    using collect_with_content [OF c] e wf unfolding g
    by (auto simp: in_scope_def root_wf_def governed_root_record_def)
qed

end
