(* ===== verification/Ntfs_Sample.thy ===== *)
theory Ntfs_Sample
  imports Ntfs_Safety Usn_Sample
begin

text \<open>
  A governed root that is itself the object asked for, on a volume whose security descriptors
  cannot be read: the collector at a concrete input.
\<close>

section \<open>The system\<close>

definition dir_guid :: string where
  "dir_guid = vi_VolumeGUID sample_volume"

definition dir_path :: "uint16 list" where
  "dir_path = ascii16 (dir_guid @ ''d'')"

definition dir_state :: native_state where
  "dir_state =
     \<lparr>na_AttributeTag = \<lparr>at_FileAttributes = 16, at_ReparseTag = 0\<rparr>,
      na_Basic = \<lparr>bi_CreationTime = 133500000000000001, bi_LastAccessTime = 133500000000000001,
        bi_LastWriteTime = 133500000000000001, bi_ChangeTime = 133500000000000001, bi_FileAttributes = 16\<rparr>,
      na_ID = sample_file_id,
      na_Standard = \<lparr>sd_AllocationSize = 0, sd_EndOfFile = 0, sd_NumberOfLinks = 1, sd_DeletePending = 0,
        sd_Directory = 1\<rparr>\<rparr>"

definition dir_os :: "unit ntfs_os" where
  "dir_os =
     \<lparr>ntx_EqualFold = (=), ntx_Context = (\<lambda>w. (Inr (), w)), ntx_Now = (\<lambda>w. (sample_time, w)),
      ntx_CreateFile = (\<lambda>_ w. (Inr 1, w)), ntx_OpenFileById = (\<lambda>_ _ _ w. (Inr 2, w)),
      ntx_CloseHandle = (\<lambda>_ w. (Inr (), w)), ntx_VolumeInformation = (\<lambda>_ w. (Inr (ascii16 ''NTFS''), w)),
      ntx_FinalPathName = (\<lambda>_ _ w. (Inr (length dir_path, dir_path), w)),
      ntx_BasicInfo = (\<lambda>_ w. (Inr (na_Basic dir_state), w)),
      ntx_StandardInfo = (\<lambda>_ w. (Inr (na_Standard dir_state), w)),
      ntx_AttributeTagInfo = (\<lambda>_ w. (Inr (na_AttributeTag dir_state), w)),
      ntx_IdInfo = (\<lambda>_ w. (Inr (na_ID dir_state), w)),
      ntx_StreamInfo = (\<lambda>_ _ w. (Inl (Errno 38 ''Reached the end of the file.''), w)),
      ntx_ReparsePoint = (\<lambda>_ _ w. (Inl (Errno 5 ''Access is denied.''), w)),
      ntx_ObjectSecurity = (\<lambda>_ _ w. ((False, 0, [], Errno 5 ''Access is denied.''), w)),
      ntx_Reads = (\<lambda>_ w. (([], None), w))\<rparr>"

definition dir_identity :: ntfs_identity where
  "dir_identity = \<lparr>ni_MethodVersion = IdentityMethodVersion, ni_FileReferenceNumber = FormatUint 261,
     ni_SequenceNumber = FormatUint 2\<rparr>"

definition dir_volume :: volume_identity where
  "dir_volume = \<lparr>vi_MethodVersion = IdentityMethodVersion, vi_VolumeGUID = [], vi_VolumeSerial = FormatUint 7\<rparr>"

section \<open>What the calls give\<close>

lemma wtf8_decode_ascii: "(\<And>c. c \<in> set s \<Longrightarrow> ord c < 128) \<Longrightarrow> wtf8_decode (map ord s) = s"
proof (induction s rule: induct_list012)
  case (3 a b s)
  have "ord a < 128" "wtf8_decode (map ord (b # s)) = b # s" using 3 by auto
  then show ?case by (simp add: wtf8_unit_def)
qed (simp_all add: wtf8_unit_def)

lemma unat_ord16: "unat (of_nat (ord c) :: uint16) = ord c"
  by (rule unat_of_nat_small) (rule less_trans [OF of_char_lt_256], simp)

lemma UTF16ToString_ascii:
  assumes "\<And>c. c \<in> set s \<Longrightarrow> 0 < ord c \<and> ord c < 128"
  shows "UTF16ToString (ascii16 s @ replicate n 0) = s"
proof -
  have "(of_nat (ord c) :: uint16) \<noteq> 0" if "c \<in> set s" for c
    using assms [OF that] unat_ord16 [of c] by (metis less_numeral_extra(3) unat_0)
  then have "takeWhile (\<lambda>u. u \<noteq> 0) (ascii16 s @ replicate n 0) = ascii16 s"
    by (auto simp: ascii16_def takeWhile_append takeWhile_replicate)
  moreover have "map unat (ascii16 s) = map ord s" by (simp add: ascii16_def unat_ord16)
  ultimately show ?thesis using assms wtf8_decode_ascii [of s] by (simp add: UTF16ToString_def)
qed

lemma dir_volume_query: "queryVolume dir_os h w = (Inr ''NTFS'', w)"
proof -
  have "written 32 0 (ascii16 ''NTFS'') = ascii16 ''NTFS'' @ replicate 28 0"
    by (simp add: written_def ascii16_def)
  moreover have "UTF16ToString (ascii16 ''NTFS'' @ replicate 28 0) = ''NTFS''"
    by (rule UTF16ToString_ascii) auto
  ultimately show ?thesis by (simp add: queryVolume_def bindP_def dir_os_def retP_def)
qed

lemma dir_native: "queryNativeState dir_os h w = (Inr dir_state, w)"
  by (simp add: queryNativeState_def bindP_def callP_def retP_def dir_os_def dir_state_def)

lemma dir_guid_text:
  "dir_guid = volume_path_prefix @ ''01234567-89ab-cdef-0123-456789abcdef}'' @ [backslash]"
  by (simp add: dir_guid_def sample_volume_def volume_prefix_def volume_suffix_def volume_path_prefix_def
      extended_path_prefix_def)

lemma dir_path_guid: "volumeGUIDFromFinalPath dir_path = Inr dir_guid"
proof -
  have p: "hasASCIIPrefix dir_path volume_path_prefix"
    by (simp add: hasASCIIPrefix_def dir_path_def dir_guid_text ascii16_def)
  have "drop (length volume_path_prefix) dir_path =
      ascii16 (''01234567-89ab-cdef-0123-456789abcdef}'' @ [backslash] @ ''d'')"
    by (simp add: dir_path_def dir_guid_text ascii16_def)
  moreover have "find_terminator (length volume_path_prefix)
      (ascii16 (''01234567-89ab-cdef-0123-456789abcdef}'' @ [backslash] @ ''d'')) = Some 47"
    by (simp add: ascii16_def volume_path_prefix_def extended_path_prefix_def sep16_def backslash_def)
  moreover have "take 49 dir_path = ascii16 dir_guid @ replicate 0 0"
    by (simp add: dir_path_def dir_guid_text ascii16_def volume_path_prefix_def extended_path_prefix_def)
  moreover have "UTF16ToString (ascii16 dir_guid @ replicate 0 0) = dir_guid"
    by (rule UTF16ToString_ascii)
       (auto simp: dir_guid_text volume_path_prefix_def extended_path_prefix_def backslash_def)
  ultimately show ?thesis using p by (simp add: volumeGUIDFromFinalPath_def volumeRootLength_def)
qed

lemma dir_final: "finalVolumePath dir_os h w = (Inr dir_path, w)"
proof -
  have n: "length dir_path = 50"
    by (simp add: dir_path_def dir_guid_text ascii16_def volume_path_prefix_def extended_path_prefix_def)
  have "take (length dir_path) (written 512 0 dir_path) = dir_path"
    by (simp add: written_def n)
  moreover have "hasASCIIPrefix dir_path volume_path_prefix"
    by (simp add: hasASCIIPrefix_def dir_path_def dir_guid_text ascii16_def)
  moreover have "length dir_path < 512" using n by simp
  moreover have "ntx_FinalPathName dir_os h 512 w = (Inr (length dir_path, dir_path), w)"
    by (simp add: dir_os_def)
  ultimately show ?thesis
    by (simp add: finalVolumePath_def numeral_3_eq_3 bindP_def liftP_def stop_if_def retP_def dir_path_guid)
qed

lemma dir_contained: "pathContainedBy dir_path dir_path"
proof -
  have "trimTrailingSeparators dir_path = dir_path"
    by (simp add: trimTrailingSeparators_def dir_path_def ascii16_def sep16_def)
  then show ?thesis by (simp add: pathContainedBy_def dir_path_def ascii16_def)
qed

lemma dir_object: "buildObjectIdentity sample_file_id = Inr (dir_volume, dir_identity)"
proof -
  have "splitNTFSFileID (fd_FileID sample_file_id) = Inr (261, 2)"
    by (simp add: splitNTFSFileID_def sample_file_id_def le_Uint64_def drop_bit_eq_div Let_def
        get_be_def)
  then show ?thesis
    by (simp add: buildObjectIdentity_def dir_volume_def dir_identity_def sample_file_id_def)
qed

definition dir_metadata :: metadata_observation where
  "dir_metadata =
     \<lparr>mo_LogicalSize = FormatUint 0, mo_AllocatedSize = FormatUint 0, mo_CreationTime = format_layout sample_time,
      mo_LastWriteTime = format_layout sample_time, mo_ChangeTime = format_layout sample_time,
      mo_LastAccessTime = format_layout sample_time, mo_RawAttributes = FormatUint 16, mo_LinkCount = FormatUint 1\<rparr>"

lemma dir_metadata_read: "metadataFromState dir_state = Inr (dir_metadata, SubjectDirectory)"
proof -
  have "filetime_of 133500000000000001 = Inr (format_layout sample_time)"
    by (simp add: filetime_of_def filetimeToCanonical_def time_Unix_def year_and_day_def month_lengths_def
        is_leap_def Let_def sample_time_def)
  then show ?thesis
    by (simp add: metadataFromState_def dir_state_def dir_metadata_def negative64_def state_is_directory_def)
qed

lemma dir_open: "p \<noteq> [] \<Longrightarrow> last p = 0 \<Longrightarrow> openPath dir_os p w = (Inr 1, w)"
  by (simp add: openPath_def bindP_def stop_if_def retP_def dir_os_def)

lemma dir_open_id: "openFileByObjectIdentityAccess dir_os h dir_identity a w = (Inr 2, w)"
proof -
  have "composeNTFSFileID dir_identity = Inr (le_Uint64 (take 8 (fd_FileID sample_file_id)))"
    by (simp only: buildObjectIdentity_reference [OF dir_object] composeNTFSFileID_reference)
  then show ?thesis
    by (simp add: openFileByObjectIdentityAccess_def bindP_def liftP_def dir_os_def)
qed


lemmas dir_calls = dir_volume_query dir_native dir_final dir_path_guid dir_contained dir_object dir_open dir_open_id
lemmas run_steps = bindP_def callP_def retP_def liftP_def stop_if_def attemptP_def ignoreP_def failP_def closing_def

lemma dir_os_fields [simp]:
  "ntx_EqualFold dir_os = (=)" "ntx_Context dir_os w = (Inr (), w)" "ntx_Now dir_os w = (sample_time, w)"
  "ntx_CloseHandle dir_os h w = (Inr (), w)"
  "ntx_StreamInfo dir_os h n w = (Inl (Errno 38 ''Reached the end of the file.''), w)"
  "ntx_ObjectSecurity dir_os h n w = ((False, 0, [], Errno 5 ''Access is denied.''), w)"
  by (simp_all add: dir_os_def)

lemma dir_state_kind [simp]:
  "state_is_directory dir_state" "\<not> basic_is_reparse dir_state" "na_ID dir_state = sample_file_id"
  "\<not> tag_is_reparse (na_AttributeTag dir_state)"
  by (simp_all add: state_is_directory_def basic_is_reparse_def dir_state_def tag_is_reparse_def
      fileAttributeReparse_def)

section \<open>The root\<close>

definition dir_request :: string where
  "dir_request = ''C:'' @ [backslash] @ ''d''"

definition dir_root :: governed_context where
  "dir_root = \<lparr>gx_scopeID = ''scope'', gx_requestedPath = ascii16 dir_request, gx_handle = 1,
     gx_state = dir_state, gx_finalPath = dir_path, gx_volumeGUID = dir_guid,
     gx_volumeIdentity = dir_volume\<lparr>vi_VolumeGUID := dir_guid\<rparr>, gx_objectIdentity = dir_identity\<rparr>"

lemma dir_request_units: "UTF16FromString dir_request = Inr (ascii16 dir_request)"
  by (simp add: UTF16FromString_def dir_request_def ascii16_def backslash_def)

lemma dir_request_valid: "validateLocalAbsolutePath (ascii16 dir_request) = None"
  by (simp add: validateLocalAbsolutePath_def dir_request_def ascii16_def backslash_def isDriveAbsolutePath_def
      isASCIILetter16_def colon16_def sep16_def containsColonAfter_def)

lemma dir_opened: "openPath dir_os (nulTerminate p) w = (Inr 1, w)"
  by (simp add: dir_open nulTerminate_def)

lemma dir_root_proven: "openGovernedRoot dir_os ''scope'' (ascii16 dir_request) w = (Inr dir_root, w)"
  by (simp add: openGovernedRoot_def prove_root_def run_steps dir_calls dir_opened dir_root_def)

lemma dir_revalidated:
  "revalidateScopeHandles dir_os a b g dir_path sample_file_id sample_file_id w = (Inr dir_path, w)"
  by (simp add: revalidateScopeHandles_def check_reopened_root_def run_steps dir_calls dir_opened
      root_changed_def)

section \<open>The parts\<close>

lemma dir_streams: "queryStreams dir_os h w = (Inr [], w)"
  by (simp add: queryStreams_def stream_info_loop.simps initialStreamInfoBuffer_def
      maximumStreamInfoBuffer_def)

definition dir_denied :: go_err where
  "dir_denied = windowsCallError ''GetKernelObjectSecurity(size)'' (Errno 5 ''Access is denied.'')"

lemma dir_security: "querySecurityDescriptor dir_os h w = (Inl dir_denied, w)"
  by (simp add: querySecurityDescriptor_def securityObjectIdentity_def run_steps dir_calls
      read_security_def dir_denied_def)

definition dir_warnings :: "observation_warning list" where
  "dir_warnings = [warn ''SACLDescriptorReadFailed'' ''SACL reader is required'',
     warn ''SecurityDescriptorReadFailed'' (detail_of dir_denied)]"

lemma dir_parts:
  "read_parts dir_os dir_root h None dir_state w =
     (Inr ((\<lparr>iv_State = ObservationStatePresent, iv_Streams = [], iv_ReasonCode = []\<rparr>,
        SecurityObservationError ''SecurityDescriptorReadFailed'',
        SACLObservationError ''SACLDescriptorReadFailed'', reparseObservationNotPresent), dir_state,
        (ObservationPartial, rev dir_warnings)), w)"
  by (simp add: read_parts_def stream_part_def security_part_def sacl_part_def reparse_part_def run_steps
      dir_streams dir_security dir_native querySACLDescriptorWithReader_def saclDescriptorReadFailed_def
      saclQueryReasonCode_def streamObservations_def same_identity_def reparseStateChanged_def partial_note_def
      dir_warnings_def detail_of_def)

section \<open>The observation\<close>

definition dir_seen :: observation where
  "dir_seen =
     \<lparr>ob_GovernedRoot = governed_root_record dir_root,
      ob_Containment = \<lparr>pc_MethodVersion = ContainmentMethodVersion\<rparr>,
      ob_VolumeIdentity = dir_volume\<lparr>vi_VolumeGUID := dir_guid\<rparr>, ob_ObjectIdentity = dir_identity,
      ob_ParentBinding = \<lparr>pa_State = ParentBindingGovernedRoot, pa_ObjectIdentity = None, pa_ReasonCode = []\<rparr>,
      ob_SubjectKind = SubjectDirectory,
      ob_PathBinding = \<lparr>pb_RequestedPath = encodeUTF16LEBase64URL dir_path,
        pb_ResolvedPath = encodeUTF16LEBase64URL dir_path\<rparr>,
      ob_ObservedAt = format_layout sample_time, ob_Metadata = dir_metadata,
      ob_Security = SecurityObservationError ''SecurityDescriptorReadFailed'',
      ob_SACL = SACLObservationError ''SACLDescriptorReadFailed'', ob_Reparse = reparseObservationNotPresent,
      ob_StreamInventory = \<lparr>iv_State = ObservationStatePresent, iv_Streams = [], iv_ReasonCode = []\<rparr>,
      ob_ContentHashes = None, ob_ContentPrefix = None, ob_CollectionEntryMethod = CollectionEntryNTFSFileID,
      ob_CollectionMethod = CollectionDirectWindowsNTFS, ob_ObservationStatus = ObservationPartial,
      ob_Warnings = dir_warnings\<rparr>"

lemma dir_warnings_sorted: "sort_warnings (rev dir_warnings) = dir_warnings" "sort_warnings dir_warnings = dir_warnings"
  by (simp_all add: sort_warnings_def dir_warnings_def warn_def less_list_code less_char_def)

lemma dir_root_fields [simp]:
  "gx_handle dir_root = 1" "gx_requestedPath dir_root = ascii16 dir_request" "gx_state dir_root = dir_state"
  "gx_finalPath dir_root = dir_path" "gx_volumeGUID dir_root = dir_guid"
  by (simp_all add: dir_root_def)

lemma dir_target:
  "prove_target dir_os dir_root h (Some dir_identity) w = (Inr (dir_path, dir_guid, dir_state), w)"
  by (simp add: prove_target_def run_steps dir_calls)

lemma dir_path_part: "path_part dir_os dir_root dir_path dir_state n w = (Inr n, w)"
  by (simp add: path_part_def run_steps dir_calls dir_opened)

lemma dir_assembled:
  "assembleObservation dir_os dir_root CollectionEntryNTFSFileID [] h (Some dir_identity) None w =
     (Inr dir_seen, w)"
  by (simp add: assembleObservation_def run_steps dir_target dir_parts dir_object dir_metadata_read
      metadata_note_def dir_path_part dir_revalidated dir_path_guid parent_part_def collectParentBinding_def nowP_def
      entry_path_def entry_names dir_warnings_sorted dir_seen_def)

lemma dir_identity_valid: "ValidateNTFSObjectIdentity dir_identity = None"
  by (simp only: buildObjectIdentity_reference [OF dir_object] identityFromReference_valid)

lemma dir_volume_valid: "ValidateVolumeIdentity (dir_volume\<lparr>vi_VolumeGUID := dir_guid\<rparr>) = None"
  using sample_volume_valid
  by (simp add: ValidateVolumeIdentity_def dir_volume_def dir_guid_def validateDecimal_Format
      sample_volume_def)

lemma encode_nonempty: "us \<noteq> [] \<Longrightarrow> encodeUTF16LEBase64URL us \<noteq> []"
  by (cases us) (auto simp: encodeUTF16LEBase64URL_def url_encode_Nil le_PutUint16_def numeral_2_eq_2)

lemma dir_texts: "dir_path \<noteq> []" "ascii16 dir_request \<noteq> []"
  by (simp_all add: dir_path_def dir_request_def ascii16_def)

lemma dir_time_valid: "validateTimestamp (format_layout sample_time) f = None"
  using sample_time_valid unfolding ValidateObservedAt_def validateTimestamp_iff .

definition dir_result :: observation where
  "dir_result = dir_seen\<lparr>ob_ContentHashes := Some (fst not_applicable_content),
     ob_ContentPrefix := Some (snd not_applicable_content)\<rparr>"

lemma dir_parts_valid:
  "ValidateGovernedRootIdentity (governed_root_record dir_root) = None"
  "ValidateMetadataObservation dir_metadata = None"
  "ValidateSecurityObservation (SecurityObservationError ''SecurityDescriptorReadFailed'') = None"
  "ValidateSACLObservation (SACLObservationError ''SACLDescriptorReadFailed'') = None"
  "ValidateStreamInventory \<lparr>iv_State = ObservationStatePresent, iv_Streams = [], iv_ReasonCode = []\<rparr> = None"
  "ValidateObservationWarnings dir_warnings = None"
  "ValidateContentHashObservation (fst not_applicable_content) = None"
  "ValidateContentPrefixObservation (snd not_applicable_content) = None"
  subgoal
    by (simp add: ValidateGovernedRootIdentity_def governed_root_record_def dir_root_def require_def
        encode_nonempty dir_texts ContainmentMethodVersion_def dir_volume_valid dir_identity_valid)
  subgoal
    by (simp add: ValidateMetadataObservation_def dir_metadata_def dir_time_valid)
  subgoal
    by (simp add: ValidateSecurityObservation_def SecurityObservationError_def security_blank_def acl_blank_def
        empty_acl_def)
  subgoal
    by (simp add: ValidateSACLObservation_def SACLObservationError_def sacl_blank_def acl_blank_def empty_acl_def)
  subgoal
    by (simp add: ValidateStreamInventory_def validateObservationState_def ObservationStatePresent_def
        ObservationStateError_def)
  subgoal
    by (simp add: ValidateObservationWarnings_def dir_warnings_def warn_def require_def less_eq_list_code less_char_def)
  subgoal
    by (simp add: ValidateContentHashObservation_def not_applicable_content_def)
  subgoal
    by (simp add: ValidateContentPrefixObservation_def not_applicable_content_def)
  done


text \<open>The observation before and after its content.\<close>

definition dir_either :: "observation \<Rightarrow> bool" where
  "dir_either v \<longleftrightarrow> v = dir_seen \<or> v = dir_result"

lemma dir_warned:
  assumes "dir_either v"
  shows "has_warning v code \<longleftrightarrow> code \<in> {''SACLDescriptorReadFailed'', ''SecurityDescriptorReadFailed''}"
  using assms by (auto simp: dir_either_def dir_result_def has_warning_def dir_seen_def dir_warnings_def warn_def)

lemma dir_conditions:
  assumes "dir_either v"
  shows "\<not> parentError v" "\<not> streamError v" "securityReadError v" "\<not> securityParseFailure v"
    "saclReadError v" "\<not> saclParseFailure v" "\<not> reparseReadError v" "\<not> reparseParseFailure v"
    "\<not> contentHashFailure v"
  using assms
  by (auto simp: dir_either_def dir_result_def parentError_def streamError_def securityReadError_def
      securityParseFailure_def saclReadError_def saclParseFailure_def reparseReadError_def
      reparseParseFailure_def contentHashFailure_def dir_seen_def parent_names ObservationStatePresent_def
      ObservationStateError_def SecurityObservationError_def SACLObservationError_def
      reparseObservationNotPresent_def reparse_names not_applicable_content_def content_names)

lemma dir_consistent: "dir_either v \<Longrightarrow> validateObservationConsistency v = None"
  by (simp add: validateObservationConsistency_def dir_conditions dir_warned sacl_read_check_def
      status_check_def partialCondition_def parentBindingUnavailableReason_def status_names)
     (auto simp: dir_either_def dir_result_def dir_seen_def SecurityObservationError_def
      SACLObservationError_def status_names validateContentObservationConsistency_def not_applicable_content_def)

lemma dir_valid:
  assumes "dir_either v"
  shows "ValidateObservation v = None"
proof -
  note shape = dir_seen_def dir_parts_valid ValidatePathContainment_def require_def
    ContainmentMethodVersion_def dir_volume_valid dir_identity_valid ValidateParentObjectBinding_def
    ValidateSubjectKind_def ValidatePathBinding_def encode_nonempty dir_texts sample_time_valid
    reparseObservation_others_valid ValidateObservationStatus_def entry_names
  have c: "validateObservationConsistency v = None" by (rule dir_consistent [OF assms])
  consider "v = dir_seen" | "v = dir_result" using assms by (auto simp: dir_either_def)
  then show ?thesis
  proof cases
    case 1
    then show ?thesis using c by (simp add: ValidateObservation_def) (simp add: shape)
  next
    case 2
    then show ?thesis using c by (simp add: ValidateObservation_def) (simp add: dir_result_def shape)
  qed
qed

section \<open>The collection\<close>

lemma dir_content_valid: "validate_content not_applicable_content w = (Inr (), w)"
  by (simp add: validate_content_def liftP_def dir_parts_valid)

lemma dir_revalidated_content: "revalidateObservationAfterContent dir_os dir_root h dir_result w = (Inr dir_result, w)"
  by (simp add: revalidateObservationAfterContent_def run_steps dir_native dir_object dir_result_def dir_seen_def
      reparseObservationChanged_def reparseObservationNotPresent_def observationRelevantNativeStateChanged_def
      dir_metadata_read dir_revalidated Let_def)

lemma dir_collected:
  "collectOpenedTargetWithContentHashesAndSACLReader dir_os dir_root CollectionEntryNTFSFileID [] h
     (Some dir_identity) None w = (Inr dir_result, w)"
proof -
  have "collectOpenedTargetWithSACLReader dir_os dir_root CollectionEntryNTFSFileID [] h
      (Some dir_identity) None w = (Inr dir_seen, w)" for w
    by (simp add: collectOpenedTargetWithSACLReader_def validate_observed_def run_steps dir_assembled
        dir_valid dir_either_def)
  moreover have "collectContentOpened dir_os dir_root h i SubjectDirectory w = (Inr not_applicable_content, w)" for i w
    by (simp add: collectContentOpened_def run_steps dir_content_valid)
  moreover have "applyContentHashOutcome (fst not_applicable_content)
      (dir_seen\<lparr>ob_ContentHashes := Some (fst not_applicable_content),
         ob_ContentPrefix := Some (snd not_applicable_content)\<rparr>) = dir_result"
    by (simp add: applyContentHashOutcome_def not_applicable_content_def content_names dir_result_def)
  moreover have "dir_result\<lparr>ob_Warnings := sort_warnings (ob_Warnings dir_result),
      ob_ObservedAt := format_layout sample_time\<rparr> = dir_result"
    by (simp add: dir_result_def dir_seen_def dir_warnings_sorted)
  moreover have "rp_State (ob_Reparse dir_seen) \<noteq> ReparseStatePresent" "ob_SubjectKind dir_seen = SubjectDirectory"
    by (simp_all add: dir_seen_def reparseObservationNotPresent_def reparse_names)
  ultimately show ?thesis
    by (simp add: collectOpenedTargetWithContentHashesAndSACLReader_def validate_observed_def run_steps
        dir_content_valid dir_revalidated_content nowP_def dir_valid dir_either_def)
qed

theorem collected_object_in_scope_witness:
  "CollectFileReferenceWithSACLReader dir_os None ''scope'' dir_request dir_identity () = (Inr dir_result, ()) \<and>
   ValidateObservation dir_result = None \<and> ob_ObjectIdentity dir_result = dir_identity \<and>
   gr_ScopeID (ob_GovernedRoot dir_result) = ''scope''"
proof -
  have r: "CollectFileReferenceWithSACLReader dir_os None ''scope'' dir_request dir_identity () =
      (Inr dir_result, ())"
    by (simp add: CollectFileReferenceWithSACLReader_def openFileByObjectIdentity_def run_steps
        dir_identity_valid dir_request_units dir_request_valid dir_root_proven dir_open_id dir_collected
        dir_identity_def [THEN arg_cong [where f = ni_MethodVersion]])
  from collected_object_in_scope [OF disjI1 [OF r]] r show ?thesis by blast
qed

end
