(* ===== verification/Spec2Isabelle.thy ===== *)
theory Spec2Isabelle
  imports Batch_Wire Batch_Ack Transaction_Sample Usn_Sample Obj_Broker Ntfs_Sample
begin

text \<open>
  File Intelligence (FI): a verification library for the Go sources under \<^verbatim>\<open>src/go/internal\<close>.

  \<^bold>\<open>The program.\<close> A collector on a monitored Windows host reads the NTFS change journal and the objects
  behind it, through privileged helpers that answer on named pipes, and spools records in batches.
  A sender freezes spooled batches into a generation, seals it into one canonical compressed
  stream, signs its descriptor and transfers it. A receiver on Linux authorizes the source,
  validates the transfer in one pass, takes it into durable custody, records it with a durable
  receipt, and acknowledges. Only then does the sender retire the generation. An older transport
  moves single signed batches in bounded frames.

  \<^bold>\<open>The parts and their theories.\<close>

  \<^item> Foundations. \<^verbatim>\<open>FI_Prelude\<close> (bytes, words, big-endian numbers, errors), \<^verbatim>\<open>FI_Text\<close> (hex, UTF-8,
    decimals), \<^verbatim>\<open>FI_IO\<close> (\<^verbatim>\<open>io.ReadFull\<close> and the \<^verbatim>\<open>io.Writer\<close> contract, locale \<open>io_writer\<close>), \<^verbatim>\<open>FI_Codec\<close> (locales
    \<open>stream_frame\<close> and \<open>frame_codec\<close>: a reader that undoes an encoder and accepts nothing else),
    \<^verbatim>\<open>FI_Hash\<close> and \<^verbatim>\<open>FI_Digest\<close> (SHA-256, SHA-1, MD5), \<^verbatim>\<open>FI_Json\<close> (\<^verbatim>\<open>encoding/json\<close> as used), \<^verbatim>\<open>FI_Path\<close>
    (\<^verbatim>\<open>path/filepath\<close>), \<^verbatim>\<open>FI_OS\<close> (system calls as functions on a world that others may change),
    \<^verbatim>\<open>FI_Dir\<close> (triples for programs of system calls on one directory).
  \<^item> Single batches. \<^verbatim>\<open>Batch_Descriptor\<close> (\<^verbatim>\<open>transportbatch/descriptor.go\<close>), \<^verbatim>\<open>FI_Trust\<close>
    (\<^verbatim>\<open>transporttrust\<close>), \<^verbatim>\<open>Batch_Package\<close> (\<^verbatim>\<open>transportpackage/signed.go\<close>), \<^verbatim>\<open>Batch_Wire\<close>
    (\<^verbatim>\<open>transportwire/frame.go\<close>, \<^verbatim>\<open>frame_v2.go\<close>), \<^verbatim>\<open>Batch_Ack\<close> (\<^verbatim>\<open>transportack/ack.go\<close>).
  \<^item> Generations. \<^verbatim>\<open>Gen_Descriptor\<close>, \<^verbatim>\<open>Gen_Canonical\<close> with \<^verbatim>\<open>Canonical_Total\<close> (\<^verbatim>\<open>canonical.go\<close>),
    \<^verbatim>\<open>Gen_Protocol\<close> (\<^verbatim>\<open>protocol.go\<close>, \<^verbatim>\<open>signed_json.go\<close>), \<^verbatim>\<open>Gen_Sealer\<close> (\<^verbatim>\<open>generationsealer\<close>), \<^verbatim>\<open>Gen_Published\<close>
    (\<^verbatim>\<open>published.go\<close>, \<^verbatim>\<open>wire.go\<close>), \<^verbatim>\<open>Gen_Receive\<close> (\<^verbatim>\<open>receive.go\<close>).
  \<^item> Durable custody. \<^verbatim>\<open>Gen_Custody\<close> (\<^verbatim>\<open>custody_linux.go\<close> and the recovery of
    \<^verbatim>\<open>custody_restart_linux.go\<close>), \<^verbatim>\<open>Custody_Inv\<close>, \<^verbatim>\<open>Custody_Props\<close>, \<^verbatim>\<open>Custody_Read\<close>
    (\<^verbatim>\<open>custody_read_linux.go\<close> and the reads after a restart).
  \<^item> Recording. \<^verbatim>\<open>Spool_Batch\<close> (\<^verbatim>\<open>spool/semantic.go\<close>), \<^verbatim>\<open>Gen_Recorder\<close> (\<^verbatim>\<open>generationrecorder/validator.go\<close>),
    \<^verbatim>\<open>Gen_Receipt\<close>, \<^verbatim>\<open>Receipt_Publish\<close> (\<^verbatim>\<open>record.go\<close>, \<^verbatim>\<open>record_linux.go\<close>), \<^verbatim>\<open>Gen_Record\<close>, \<^verbatim>\<open>Gen_Ready\<close>
    (\<^verbatim>\<open>generationready\<close>).
  \<^item> Transactions. \<^verbatim>\<open>Gen_Session\<close> (\<^verbatim>\<open>transportreceiver/generation_linux.go\<close>), \<^verbatim>\<open>Gen_Sender\<close>
    (\<^verbatim>\<open>transportsender\<close>), \<^verbatim>\<open>Gen_EndToEnd\<close> (both together).
  \<^item> Records. \<^verbatim>\<open>Rec_Values\<close>, \<^verbatim>\<open>Rec_Time\<close>, \<^verbatim>\<open>Rec_Identity\<close>, \<^verbatim>\<open>Rec_Security\<close>, \<^verbatim>\<open>Rec_Object\<close> (package
    \<^verbatim>\<open>records\<close>).
  \<^item> The helpers and the journal. \<^verbatim>\<open>Broker_Pipe\<close>, \<^verbatim>\<open>Usn_Broker\<close>, \<^verbatim>\<open>Usn_Service\<close> (\<^verbatim>\<open>windows/usnbroker\<close>,
    \<^verbatim>\<open>windows/usnraw\<close>), \<^verbatim>\<open>Obj_Broker\<close> (\<^verbatim>\<open>windows/objbroker\<close>), \<^verbatim>\<open>Usn_Journal\<close> (\<^verbatim>\<open>windows/usn\<close>), \<^verbatim>\<open>Usn_Checkpoint\<close>
    (\<^verbatim>\<open>windows/checkpoint\<close>).
  \<^item> The object collector. \<^verbatim>\<open>Ntfs_Parts\<close>, \<^verbatim>\<open>Ntfs_Facts\<close>, \<^verbatim>\<open>Ntfs_Observation\<close>, \<^verbatim>\<open>Ntfs_Native\<close>,
    \<^verbatim>\<open>Ntfs_Collector\<close>, \<^verbatim>\<open>Ntfs_Content\<close>, \<^verbatim>\<open>Ntfs_Safety\<close> (package \<^verbatim>\<open>windows/ntfs\<close>).
  \<^item> Concrete inputs. \<^verbatim>\<open>Record_Sample\<close>, \<^verbatim>\<open>Session_Sample\<close>, \<^verbatim>\<open>Transaction_Sample\<close>, \<^verbatim>\<open>Usn_Sample\<close>,
    \<^verbatim>\<open>Ntfs_Sample\<close>: one generation, one journal and one directory for which the theorems are
    applied with all their hypotheses discharged.

  \<^bold>\<open>How code becomes definitions.\<close> A Go struct is a record, a Go byte a \<^typ>\<open>char\<close>, a sized integer a
  word, an error return the left side of a sum, a loop a recursion with a termination proof. Only
  the JSON parser takes fuel, as much as the input has bytes, and \<^verbatim>\<open>FI_Json\<close> shows that more does
  not change its result. Code that makes system calls is a function on the state of the outside
  world, where every call may fail and may answer anything. The custody root is a step relation:
  \<open>custody_step\<close> is a receiver's next effect on the directory, \<open>custody_move\<close> adds crashes (which
  lose what is not synced) and restarts, \<open>custody_run\<close> are the reachable states and \<open>custody_later\<close>
  the states that can follow one.

  \<^bold>\<open>What is shown.\<close>

  \<^item> End to end: when the sender's transaction ends without error, the receiver holds the transfer
    and a true receipt on disk, then and later (\<^verbatim>\<open>Gen_EndToEnd\<close>, \<^verbatim>\<open>Gen_Session\<close>); nothing is retired
    without a matching acknowledgement (\<^verbatim>\<open>Gen_Sender\<close>).
  \<^item> Custody: an invariant over all interleavings, crashes and restarts; durability of reported
    objects, no rebinding of an identity, recovery from every reachable state (\<^verbatim>\<open>Custody_Props\<close>),
    and the reads after a restart (\<^verbatim>\<open>Custody_Read\<close>).
  \<^item> Receipts: publication under interference by other processes (\<^verbatim>\<open>Receipt_Publish\<close>), and receipts
    that are true of the bytes (\<^verbatim>\<open>Gen_Record\<close>); the recorder accepts exactly complete batches.
  \<^item> Formats: exact accepted languages, round trips, refused truncations and injective signature
    inputs for frames, acknowledgements, protocol messages, canonical streams, metadata, broker
    messages, journal buffers, access lists and timestamps.
  \<^item> Authorization: exact acceptance of signing certificates, signed metadata, and the client of
    the privileged helper.
  \<^item> The collector: a batch of changes is the journal's, a checkpoint is judged by its window and
    advanced without moving back, and an observed object lies in its governed root.

  \<^bold>\<open>Side conditions.\<close> A receiver whose removal of its provisional name fails after publication
  removes the published name again (\<^verbatim>\<open>custody_linux.go\<close>, end of \<^verbatim>\<open>ReceiveToDurableCustody\<close>), even when
  another receiver has reported the object meanwhile; \<^verbatim>\<open>Custody_Props.undo_loses_reported_custody\<close>
  exhibits such a run. The parameter \<open>undone\<close> of the custody relations is the set of final names
  for which this failure may happen; the theorems on durability assume it only of other objects. The
  canonical reader's limit of 1000000 artifacts is not enforced by the sealer, the recheck of \<^verbatim>\<open>Advance\<close>
  does not compare scope ids, file times of the year 10000 and later do not fit the timestamp
  layout, and the 32-bit length prefix of the batch signature input wraps at 4 GiB: the theorems
  state these cases.

  \<^bold>\<open>Parameters.\<close> Code outside the repository is an argument: X.509 parsing, chain building and
  RSA-PSS (\<open>x509_lib\<close>), the zstd encoder and decoder, Unicode case folding, \<^verbatim>\<open>strconv.Quote\<close>, the UTC test
  of \<^verbatim>\<open>time.Parse\<close>, the clock, and the Linux and Windows calls (\<^verbatim>\<open>FI_OS\<close>, \<open>seal_env\<close>, the records of
  native calls in \<^verbatim>\<open>Usn_Service\<close> and \<^verbatim>\<open>Ntfs_Native\<close>). No theorem claims that SHA-256 has no collisions:
  custody names are compared as names, and transfers as bytes.

  \<^bold>\<open>Not modelled.\<close> The storage of single batches and the build of a generation from the raw spool,
  recovery bundles, revocation-list refresh, database ingest, configuration files, installers,
  command-line programs and service loops; Windows collectors of security events, directory and
  SMB state; the directory walker of the object collector. They are input and output around system
  calls, databases and third-party protocols. Delays and read limiters do not affect results.
  Receiving and comparing are one step each in the custody relation, so nothing is claimed about
  how long a receiver takes.
\<close>

end
